(* ===== verification/Prelude.thy ===== *)
theory Prelude
  imports "HOL-Library.Word"
begin

text \<open>
  The shared vocabulary of the development: the machine integers and byte strings of the
  Rust program, its \<open>Result\<close> type with the \<open>?\<close> operator, little-endian conversion, hash
  maps collected from iterators, and the word lemmas that the codec proofs share.

  Conventions used by every theory: Rust's \<open>u8\<close>, \<open>u32\<close>, \<open>u64\<close>, \<open>i64\<close> are fixed-width
  words (a signed value is read by \<open>sint\<close>); \<open>usize\<close> is \<open>nat\<close>; \<open>Result\<close> is a sum with
  the error on the left; \<open>Vec\<close> is a list; a fixed-width operator wraps, as the release
  build of the crate does.
\<close>

unbundle bit_operations_syntax

section \<open>Types\<close>

type_synonym u8 = "8 word"
type_synonym u32 = "32 word"
type_synonym u64 = "64 word"
type_synonym i64 = "64 word"
type_synonym usize = nat
type_synonym bytes = "8 word list"

named_theorems bits_simps "bit-level expansion of words into their bits"
named_theorems codec_defs "definitions of the operand decoders and encoders"

section \<open>Results\<close>

abbreviation Ok :: "'a \<Rightarrow> 'e + 'a" where "Ok \<equiv> Inr"
abbreviation Err :: "'e \<Rightarrow> 'e + 'a" where "Err \<equiv> Inl"

text \<open>Rust's \<open>?\<close>: continue with the value, return early with the error.\<close>

fun and_then :: "'e + 'a \<Rightarrow> ('a \<Rightarrow> 'e + 'b) \<Rightarrow> 'e + 'b" where
  "and_then (Inl e) f = Inl e"
| "and_then (Inr x) f = f x"

lemma and_then_Ok_iff: "and_then r f = Ok y \<longleftrightarrow> (\<exists>x. r = Ok x \<and> f x = Ok y)"
  by (cases r) auto

lemma and_then_Err_iff:
  "and_then r f = Err e \<longleftrightarrow> r = Err e \<or> (\<exists>x. r = Ok x \<and> f x = Err e)"
  by (cases r) auto

lemma and_then_cong [fundef_cong]:
  "r = s \<Longrightarrow> (\<And>x. s = Ok x \<Longrightarrow> f x = g x) \<Longrightarrow> and_then r f = and_then s g"
  by (cases s) auto

text \<open>\<open>Option::ok_or\<close>, and collecting an iterator of results (first error wins).\<close>

definition ok_or :: "'a option \<Rightarrow> 'e \<Rightarrow> 'e + 'a" where
  "ok_or x e = (case x of None \<Rightarrow> Err e | Some v \<Rightarrow> Ok v)"

lemma ok_or_simps [simp]: "ok_or None e = Err e" "ok_or (Some v) e = Ok v"
  by (simp_all add: ok_or_def)

fun collect_results :: "('e + 'a) list \<Rightarrow> 'e + 'a list" where
  "collect_results [] = Ok []"
| "collect_results (r # rs) = and_then r (\<lambda>x. and_then (collect_results rs) (\<lambda>xs. Ok (x # xs)))"

lemma collect_results_Ok_iff:
  "collect_results rs = Ok xs \<longleftrightarrow> rs = map Ok xs"
  by (induction rs arbitrary: xs) (auto simp: and_then_Ok_iff Cons_eq_map_conv map_eq_Cons_conv)

lemma collect_results_length:
  "collect_results rs = Ok xs \<Longrightarrow> length xs = length rs"
  by (simp add: collect_results_Ok_iff)

text \<open>Collecting into an option, as \<open>Iterator::collect::<Option<Vec<_>>>\<close> does.\<close>

fun collect_options :: "'a option list \<Rightarrow> 'a list option" where
  "collect_options [] = Some []"
| "collect_options (None # rs) = None"
| "collect_options (Some x # rs) = map_option ((#) x) (collect_options rs)"

lemma collect_options_Some_iff: "collect_options rs = Some xs \<longleftrightarrow> rs = map Some xs"
  by (induction rs arbitrary: xs rule: collect_options.induct)
    (auto simp: Cons_eq_map_conv map_eq_Cons_conv)

section \<open>Hash maps and searches\<close>

text \<open>
  \<open>iter.collect::<HashMap<_, _>>()\<close>: a later entry replaces an earlier one with the same
  key, so the association list is searched from its end.
\<close>

definition hash_map_of :: "('k \<times> 'v) list \<Rightarrow> ('k \<rightharpoonup> 'v)" where
  "hash_map_of kvs = map_of (rev kvs)"

lemma hash_map_of_SomeD: "hash_map_of kvs k = Some v \<Longrightarrow> (k, v) \<in> set kvs"
  by (auto simp: hash_map_of_def dest: map_of_SomeD)

lemma hash_map_of_None_iff: "hash_map_of kvs k = None \<longleftrightarrow> k \<notin> fst ` set kvs"
  by (simp add: hash_map_of_def map_of_eq_None_iff)

lemma hash_map_of_distinct:
  "distinct (map fst kvs) \<Longrightarrow> (k, v) \<in> set kvs \<Longrightarrow> hash_map_of kvs k = Some v"
  by (auto simp: hash_map_of_def rev_map [symmetric] intro!: map_of_is_SomeI)

text \<open>\<open>Iterator::find_map\<close>.\<close>

fun find_map :: "('a \<Rightarrow> 'b option) \<Rightarrow> 'a list \<Rightarrow> 'b option" where
  "find_map f [] = None"
| "find_map f (x # xs) = (case f x of Some y \<Rightarrow> Some y | None \<Rightarrow> find_map f xs)"

lemma find_map_SomeD: "find_map f xs = Some y \<Longrightarrow> \<exists>x\<in>set xs. f x = Some y"
  by (induction xs) (auto split: option.splits)

lemma find_map_None_iff: "find_map f xs = None \<longleftrightarrow> (\<forall>x\<in>set xs. f x = None)"
  by (induction xs) (auto split: option.splits)

text \<open>\<open>Vec::get\<close>.\<close>

definition vec_get :: "'a list \<Rightarrow> nat \<Rightarrow> 'a option" where
  "vec_get xs i = (if i < length xs then Some (xs ! i) else None)"

lemma vec_get_Some_iff: "vec_get xs i = Some x \<longleftrightarrow> i < length xs \<and> xs ! i = x"
  by (auto simp: vec_get_def)

lemma vec_get_None_iff: "vec_get xs i = None \<longleftrightarrow> length xs \<le> i"
  by (simp add: vec_get_def)

section \<open>Words\<close>

text \<open>
  Equality of words of the program's widths as a conjunction over their bits: with
  \<open>bit_simps\<close> it turns an equation between shifted, masked and combined words into
  propositional logic over the bits of their parts.
\<close>

lemma word8_eq_bits:
  "(a::8 word) = b \<longleftrightarrow>
     (bit a 0 \<longleftrightarrow> bit b 0) \<and> (bit a 1 \<longleftrightarrow> bit b 1) \<and> (bit a 2 \<longleftrightarrow> bit b 2) \<and> (bit a 3 \<longleftrightarrow> bit b 3) \<and>
     (bit a 4 \<longleftrightarrow> bit b 4) \<and> (bit a 5 \<longleftrightarrow> bit b 5) \<and> (bit a 6 \<longleftrightarrow> bit b 6) \<and> (bit a 7 \<longleftrightarrow> bit b 7)"
proof -
  have e: "{..<8::nat} = {0,1,2,3,4,5,6,7}"
    by (auto simp: lessThan_nat_numeral)
  have "a = b \<longleftrightarrow> (\<forall>n\<in>{..<8::nat}. bit a n \<longleftrightarrow> bit b n)"
    by (auto intro: bit_word_eqI)
  then show ?thesis unfolding e by simp
qed

lemma word32_eq_bits:
  "(a::32 word) = b \<longleftrightarrow>
     (bit a 0 \<longleftrightarrow> bit b 0) \<and> (bit a 1 \<longleftrightarrow> bit b 1) \<and> (bit a 2 \<longleftrightarrow> bit b 2) \<and> (bit a 3 \<longleftrightarrow> bit b 3) \<and>
     (bit a 4 \<longleftrightarrow> bit b 4) \<and> (bit a 5 \<longleftrightarrow> bit b 5) \<and> (bit a 6 \<longleftrightarrow> bit b 6) \<and> (bit a 7 \<longleftrightarrow> bit b 7) \<and>
     (bit a 8 \<longleftrightarrow> bit b 8) \<and> (bit a 9 \<longleftrightarrow> bit b 9) \<and> (bit a 10 \<longleftrightarrow> bit b 10) \<and> (bit a 11 \<longleftrightarrow> bit b 11) \<and>
     (bit a 12 \<longleftrightarrow> bit b 12) \<and> (bit a 13 \<longleftrightarrow> bit b 13) \<and> (bit a 14 \<longleftrightarrow> bit b 14) \<and> (bit a 15 \<longleftrightarrow> bit b 15) \<and>
     (bit a 16 \<longleftrightarrow> bit b 16) \<and> (bit a 17 \<longleftrightarrow> bit b 17) \<and> (bit a 18 \<longleftrightarrow> bit b 18) \<and> (bit a 19 \<longleftrightarrow> bit b 19) \<and>
     (bit a 20 \<longleftrightarrow> bit b 20) \<and> (bit a 21 \<longleftrightarrow> bit b 21) \<and> (bit a 22 \<longleftrightarrow> bit b 22) \<and> (bit a 23 \<longleftrightarrow> bit b 23) \<and>
     (bit a 24 \<longleftrightarrow> bit b 24) \<and> (bit a 25 \<longleftrightarrow> bit b 25) \<and> (bit a 26 \<longleftrightarrow> bit b 26) \<and> (bit a 27 \<longleftrightarrow> bit b 27) \<and>
     (bit a 28 \<longleftrightarrow> bit b 28) \<and> (bit a 29 \<longleftrightarrow> bit b 29) \<and> (bit a 30 \<longleftrightarrow> bit b 30) \<and> (bit a 31 \<longleftrightarrow> bit b 31)"
proof -
  have e: "{..<32::nat} = {0,1,2,3,4,5,6,7,8,9,10,11,12,13,14,15,16,17,18,19,20,21,22,23,24,25,26,27,28,29,30,31}"
    by (auto simp: lessThan_nat_numeral)
  have "a = b \<longleftrightarrow> (\<forall>n\<in>{..<32::nat}. bit a n \<longleftrightarrow> bit b n)"
    by (auto intro: bit_word_eqI)
  then show ?thesis unfolding e by simp
qed

lemma word64_eq_bits:
  "(a::64 word) = b \<longleftrightarrow>
     (bit a 0 \<longleftrightarrow> bit b 0) \<and> (bit a 1 \<longleftrightarrow> bit b 1) \<and> (bit a 2 \<longleftrightarrow> bit b 2) \<and> (bit a 3 \<longleftrightarrow> bit b 3) \<and>
     (bit a 4 \<longleftrightarrow> bit b 4) \<and> (bit a 5 \<longleftrightarrow> bit b 5) \<and> (bit a 6 \<longleftrightarrow> bit b 6) \<and> (bit a 7 \<longleftrightarrow> bit b 7) \<and>
     (bit a 8 \<longleftrightarrow> bit b 8) \<and> (bit a 9 \<longleftrightarrow> bit b 9) \<and> (bit a 10 \<longleftrightarrow> bit b 10) \<and> (bit a 11 \<longleftrightarrow> bit b 11) \<and>
     (bit a 12 \<longleftrightarrow> bit b 12) \<and> (bit a 13 \<longleftrightarrow> bit b 13) \<and> (bit a 14 \<longleftrightarrow> bit b 14) \<and> (bit a 15 \<longleftrightarrow> bit b 15) \<and>
     (bit a 16 \<longleftrightarrow> bit b 16) \<and> (bit a 17 \<longleftrightarrow> bit b 17) \<and> (bit a 18 \<longleftrightarrow> bit b 18) \<and> (bit a 19 \<longleftrightarrow> bit b 19) \<and>
     (bit a 20 \<longleftrightarrow> bit b 20) \<and> (bit a 21 \<longleftrightarrow> bit b 21) \<and> (bit a 22 \<longleftrightarrow> bit b 22) \<and> (bit a 23 \<longleftrightarrow> bit b 23) \<and>
     (bit a 24 \<longleftrightarrow> bit b 24) \<and> (bit a 25 \<longleftrightarrow> bit b 25) \<and> (bit a 26 \<longleftrightarrow> bit b 26) \<and> (bit a 27 \<longleftrightarrow> bit b 27) \<and>
     (bit a 28 \<longleftrightarrow> bit b 28) \<and> (bit a 29 \<longleftrightarrow> bit b 29) \<and> (bit a 30 \<longleftrightarrow> bit b 30) \<and> (bit a 31 \<longleftrightarrow> bit b 31) \<and>
     (bit a 32 \<longleftrightarrow> bit b 32) \<and> (bit a 33 \<longleftrightarrow> bit b 33) \<and> (bit a 34 \<longleftrightarrow> bit b 34) \<and> (bit a 35 \<longleftrightarrow> bit b 35) \<and>
     (bit a 36 \<longleftrightarrow> bit b 36) \<and> (bit a 37 \<longleftrightarrow> bit b 37) \<and> (bit a 38 \<longleftrightarrow> bit b 38) \<and> (bit a 39 \<longleftrightarrow> bit b 39) \<and>
     (bit a 40 \<longleftrightarrow> bit b 40) \<and> (bit a 41 \<longleftrightarrow> bit b 41) \<and> (bit a 42 \<longleftrightarrow> bit b 42) \<and> (bit a 43 \<longleftrightarrow> bit b 43) \<and>
     (bit a 44 \<longleftrightarrow> bit b 44) \<and> (bit a 45 \<longleftrightarrow> bit b 45) \<and> (bit a 46 \<longleftrightarrow> bit b 46) \<and> (bit a 47 \<longleftrightarrow> bit b 47) \<and>
     (bit a 48 \<longleftrightarrow> bit b 48) \<and> (bit a 49 \<longleftrightarrow> bit b 49) \<and> (bit a 50 \<longleftrightarrow> bit b 50) \<and> (bit a 51 \<longleftrightarrow> bit b 51) \<and>
     (bit a 52 \<longleftrightarrow> bit b 52) \<and> (bit a 53 \<longleftrightarrow> bit b 53) \<and> (bit a 54 \<longleftrightarrow> bit b 54) \<and> (bit a 55 \<longleftrightarrow> bit b 55) \<and>
     (bit a 56 \<longleftrightarrow> bit b 56) \<and> (bit a 57 \<longleftrightarrow> bit b 57) \<and> (bit a 58 \<longleftrightarrow> bit b 58) \<and> (bit a 59 \<longleftrightarrow> bit b 59) \<and>
     (bit a 60 \<longleftrightarrow> bit b 60) \<and> (bit a 61 \<longleftrightarrow> bit b 61) \<and> (bit a 62 \<longleftrightarrow> bit b 62) \<and> (bit a 63 \<longleftrightarrow> bit b 63)"
proof -
  have e: "{..<64::nat} = {0,1,2,3,4,5,6,7,8,9,10,11,12,13,14,15,16,17,18,19,20,21,22,23,24,25,26,27,28,29,30,31,32,33,34,35,36,37,38,39,40,41,42,43,44,45,46,47,48,49,50,51,52,53,54,55,56,57,58,59,60,61,62,63}"
    by (auto simp: lessThan_nat_numeral)
  have "a = b \<longleftrightarrow> (\<forall>n\<in>{..<64::nat}. bit a n \<longleftrightarrow> bit b n)"
    by (auto intro: bit_word_eqI)
  then show ?thesis unfolding e by simp
qed

lemmas word_bits_eq = word8_eq_bits word32_eq_bits word64_eq_bits

declare bit_simps [bits_simps] word_bits_eq [bits_simps]

text \<open>Field extraction in the form the simplifier likes.\<close>

lemma and_mask_take_bit:
  "(w::'a::len word) AND 0x1 = take_bit 1 w"
  "w AND 0x3 = take_bit 2 w"
  "w AND 0x7 = take_bit 3 w"
  "w AND 0xf = take_bit 4 w"
  "w AND 0x1f = take_bit 5 w"
  "w AND 0x3f = take_bit 6 w"
  "w AND 0x7f = take_bit 7 w"
  "w AND 0xff = take_bit 8 w"
  "w AND 0x1ff = take_bit 9 w"
  "w AND 0xfff = take_bit 12 w"
  "w AND 0x3fff = take_bit 14 w"
  "w AND 0xffff = take_bit 16 w"
  "w AND 0x7ffff = take_bit 19 w"
  "w AND 0x1fffff = take_bit 21 w"
  "w AND 0x3ffffff = take_bit 26 w"
  by (simp_all add: take_bit_eq_mask mask_eq_exp_minus_1)

lemma unat_take_bit_less: "unat (take_bit n (w::'a::len word)) < 2 ^ n"
  by (simp add: unsigned_take_bit_eq)

text \<open>Bounds of register numbers as statements about their upper bits.\<close>

lemma word_less_power_bits:
  fixes r :: "'a::len word"
  assumes "m < LENGTH('a)"
  shows "r < 2 ^ m \<longleftrightarrow> take_bit m r = r"
proof -
  have p: "unat ((2::'a word) ^ m) = 2 ^ m"
  proof -
    have "(2::'a word) ^ m = of_nat (2 ^ m)" by simp
    then show ?thesis
      using assms by (simp only: unsigned_of_nat) (simp add: take_bit_nat_eq_self_iff)
  qed
  then have "r < 2 ^ m \<longleftrightarrow> unat r < 2 ^ m"
    by (simp add: word_less_nat_alt)
  also have "\<dots> \<longleftrightarrow> take_bit m (unat r) = unat r"
    by (simp add: take_bit_nat_eq_self_iff)
  also have "\<dots> \<longleftrightarrow> take_bit m r = r"
    by (metis unsigned_take_bit_eq word_eq_iff_unsigned)
  finally show ?thesis .
qed

lemma u8_less_32_bits: "(r::u8) < 32 \<longleftrightarrow> \<not> bit r 5 \<and> \<not> bit r 6 \<and> \<not> bit r 7"
  using word_less_power_bits [of 5 r] by (simp add: bits_simps)


section \<open>Checked and saturating arithmetic\<close>

definition checked_add :: "'a::len word \<Rightarrow> 'a word \<Rightarrow> 'a word option" where
  "checked_add a b = (if unat a + unat b < 2 ^ LENGTH('a) then Some (a + b) else None)"

lemma checked_add_Some_iff:
  "checked_add a b = Some c \<longleftrightarrow> unat a + unat b < 2 ^ LENGTH('a::len) \<and> unat (c :: 'a word) = unat a + unat b"
proof (cases "unat a + unat b < 2 ^ LENGTH('a)")
  case True
  then have "unat (a + b) = unat a + unat b" by (simp add: unat_word_ariths)
  then show ?thesis using True by (auto simp: checked_add_def word_unat_eq_iff)
next
  case False
  then show ?thesis by (simp add: checked_add_def)
qed

lemma checked_add_None_iff: "checked_add (a::'a::len word) b = None \<longleftrightarrow> 2 ^ LENGTH('a) \<le> unat a + unat b"
  by (simp add: checked_add_def)

definition saturating_add :: "'a::len word \<Rightarrow> 'a word \<Rightarrow> 'a word" where
  "saturating_add a b = (case checked_add a b of Some c \<Rightarrow> c | None \<Rightarrow> - 1)"

lemma unat_sub_le: "(b::'a::len word) \<le> a \<Longrightarrow> unat (a - b) = unat a - unat b"
  by (simp add: unat_sub)

lemma sint_word_of_int_i64:
  assumes "- 9223372036854775808 \<le> k" "k < 9223372036854775808"
  shows "sint (word_of_int k :: i64) = k"
proof -
  have "signed_take_bit 63 k = k" by (rule signed_take_bit_int_eq_self) (use assms in simp_all)
  then show ?thesis by (simp add: signed_of_int)
qed

end
