(* ===== verification/Control_Flow.thy ===== *)
theory Control_Flow
  imports Prelude
begin

text \<open>
  The architecture-neutral classification of what an instruction does to the program counter
  (\<open>src/src/mc/control_flow.rs\<close>): the enum \<open>ControlFlow\<close>, its three queries, and the trait
  \<open>InstructionInfo\<close> as a record of its three methods' answers, which is all the analyses read.
\<close>

section \<open>The classification\<close>

datatype control_flow =
    CF_Fall
  | CF_Jump (cf_target: u64)
  | CF_ConditionalJump (cf_target: u64) (cf_fallthrough: u64)
  | CF_Call (cf_target: u64) (cf_fallthrough: u64)
  | CF_Return
  | CF_IndirectJump
  | CF_IndirectCall (cf_fallthrough: u64)
  | CF_Trap

definition is_terminator :: "control_flow \<Rightarrow> bool" where
  "is_terminator cf = (case cf of CF_Fall \<Rightarrow> False | _ \<Rightarrow> True)"

fun has_fallthrough :: "control_flow \<Rightarrow> bool" where
  "has_fallthrough CF_Fall = True"
| "has_fallthrough (CF_ConditionalJump _ _) = True"
| "has_fallthrough (CF_Call _ _) = True"
| "has_fallthrough (CF_IndirectCall _) = True"
| "has_fallthrough CF_Trap = True"
| "has_fallthrough (CF_Jump _) = False"
| "has_fallthrough CF_Return = False"
| "has_fallthrough CF_IndirectJump = False"

fun direct_target :: "control_flow \<Rightarrow> u64 option" where
  "direct_target (CF_Jump t) = Some t"
| "direct_target (CF_ConditionalJump t _) = Some t"
| "direct_target (CF_Call t _) = Some t"
| "direct_target _ = None"

record instruction_info =
  ii_address :: u64
  ii_size :: u64
  ii_control_flow :: control_flow

section \<open>The program counter's successors\<close>

text \<open>
  What the classification means: the statically known addresses at which execution may go on
  after an instruction at \<open>address\<close> of \<open>size\<close> bytes. A return and an indirect jump go
  nowhere known; a trap is taken to return to the next instruction.
\<close>

definition pc_successors :: "instruction_info \<Rightarrow> u64 set" where
  "pc_successors ins =
     (let next = ii_address ins + ii_size ins in
      case ii_control_flow ins of
        CF_Fall \<Rightarrow> {next}
      | CF_Jump t \<Rightarrow> {t}
      | CF_ConditionalJump t f \<Rightarrow> {t, f}
      | CF_Call t f \<Rightarrow> {t, f}
      | CF_Return \<Rightarrow> {}
      | CF_IndirectJump \<Rightarrow> {}
      | CF_IndirectCall f \<Rightarrow> {f}
      | CF_Trap \<Rightarrow> {next})"

lemma is_terminator_simps [simp]:
  "\<not> is_terminator CF_Fall"
  "is_terminator (CF_Jump t)"
  "is_terminator (CF_ConditionalJump t f)"
  "is_terminator (CF_Call t f)"
  "is_terminator CF_Return"
  "is_terminator CF_IndirectJump"
  "is_terminator (CF_IndirectCall f)"
  "is_terminator CF_Trap"
  by (simp_all add: is_terminator_def)

lemma not_is_terminator_iff: "\<not> is_terminator cf \<longleftrightarrow> cf = CF_Fall"
  by (cases cf) simp_all

lemma direct_target_terminator: "direct_target cf = Some t \<Longrightarrow> is_terminator cf"
  by (cases cf) simp_all

lemma direct_target_pc_successor:
  "direct_target (ii_control_flow ins) = Some t \<Longrightarrow> t \<in> pc_successors ins"
  by (cases "ii_control_flow ins") (simp_all add: pc_successors_def Let_def)

end
