(* ===== verification/Cfg.thy ===== *)
theory Cfg
  imports Control_Flow
begin

text \<open>
  Basic-block discovery and the control-flow graph (\<open>src/src/mc/cfg.rs\<close>). The instruction
  slice is a list of \<open>instruction_info\<close>; a \<open>BTreeSet\<close> of leaders is the ascending list of
  its elements; a block's index range is its two ends. The \<open>unreachable!\<close> of
  \<open>attach_successors\<close> is the value \<open>None\<close>, and \<open>build_total\<close> shows it is never taken.
\<close>

section \<open>Data\<close>

datatype edge_kind = EK_Fallthrough | EK_Jump | EK_BranchTaken | EK_Call

type_synonym basic_block_id = usize

datatype edge_target = ET_Block basic_block_id | ET_External u64 | ET_Indirect

record edge =
  ed_kind :: edge_kind
  ed_target :: edge_target

record basic_block =
  bb_id :: basic_block_id
  bb_start :: u64
  bb_end :: u64
  bb_first :: usize  \<comment> \<open>\<open>instructions.start\<close>\<close>
  bb_last :: usize   \<comment> \<open>\<open>instructions.end\<close>, exclusive\<close>
  bb_terminator :: "control_flow option"
  bb_successors :: "edge list"

record control_flow_graph =
  cfg_blocks :: "basic_block list"

section \<open>Queries on a graph\<close>

definition cfg_block :: "control_flow_graph \<Rightarrow> basic_block_id \<Rightarrow> basic_block option" where
  "cfg_block g i = vec_get (cfg_blocks g) i"

definition cfg_entry :: "control_flow_graph \<Rightarrow> basic_block_id option" where
  "cfg_entry g = (if cfg_blocks g = [] then None else Some 0)"

definition block_at :: "control_flow_graph \<Rightarrow> u64 \<Rightarrow> basic_block_id option" where
  "block_at g address = map_option bb_id (List.find (\<lambda>b. bb_start b = address) (cfg_blocks g))"

definition predecessors_of :: "control_flow_graph \<Rightarrow> basic_block_id \<Rightarrow> basic_block_id list" where
  "predecessors_of g block =
     map bb_id (filter (\<lambda>p. \<exists>e\<in>set (bb_successors p). ed_target e = ET_Block block) (cfg_blocks g))"

section \<open>Leaders\<close>

definition address_index :: "instruction_info list \<Rightarrow> (u64 \<rightharpoonup> usize)" where
  "address_index instructions =
     hash_map_of (map (\<lambda>(index, ins). (ii_address ins, index)) (enumerate 0 instructions))"

fun collect_leaders_from ::
  "nat \<Rightarrow> nat \<Rightarrow> instruction_info list \<Rightarrow> (u64 \<rightharpoonup> usize) \<Rightarrow> usize list \<Rightarrow> usize list" where
  "collect_leaders_from n index [] address_to_index leaders = leaders"
| "collect_leaders_from n index (ins # rest) address_to_index leaders =
     (let cf = ii_control_flow ins in
      if \<not> is_terminator cf
      then collect_leaders_from n (Suc index) rest address_to_index leaders
      else
        let leaders1 = (if index + 1 < n then insort_insert (index + 1) leaders else leaders);
            leaders2 = (case direct_target cf of
                          None \<Rightarrow> leaders1
                        | Some target \<Rightarrow>
                            (case address_to_index target of
                               None \<Rightarrow> leaders1
                             | Some target_index \<Rightarrow> insort_insert target_index leaders1))
        in collect_leaders_from n (Suc index) rest address_to_index leaders2)"

definition collect_leaders :: "instruction_info list \<Rightarrow> (u64 \<rightharpoonup> usize) \<Rightarrow> usize list" where
  "collect_leaders instructions address_to_index =
     collect_leaders_from (length instructions) 0 instructions address_to_index [0]"

section \<open>Blocks\<close>

text \<open>
  The inner loop of \<open>form_blocks\<close>: the first terminator at an index of \<open>[i, next_leader)\<close>
  gives the block's end and terminator.
\<close>

function scan_block :: "instruction_info list \<Rightarrow> usize \<Rightarrow> usize \<Rightarrow> usize \<times> control_flow option" where
  "scan_block instructions i next_leader =
     (if i < next_leader
      then (let cf = ii_control_flow (instructions ! i) in
            if is_terminator cf then (i + 1, Some cf)
            else scan_block instructions (Suc i) next_leader)
      else (next_leader, None))"
  by pat_completeness auto
termination by (relation "measure (\<lambda>(_, i, next_leader). next_leader - i)") auto

declare scan_block.simps [simp del]

definition make_block ::
  "instruction_info list \<Rightarrow> basic_block_id \<Rightarrow> usize \<Rightarrow> usize \<Rightarrow> basic_block" where
  "make_block instructions i start_index next_leader =
     (let (end_index, term) = scan_block instructions start_index next_leader;
          last = instructions ! (end_index - 1)
      in \<lparr>bb_id = i,
          bb_start = ii_address (instructions ! start_index),
          bb_end = ii_address last + ii_size last,
          bb_first = start_index, bb_last = end_index,
          bb_terminator = term, bb_successors = []\<rparr>)"

fun form_blocks_from ::
  "instruction_info list \<Rightarrow> basic_block_id \<Rightarrow> usize list \<Rightarrow> basic_block list" where
  "form_blocks_from instructions i [] = []"
| "form_blocks_from instructions i (start_index # leaders) =
     (let next_leader = (case leaders of [] \<Rightarrow> length instructions | l # _ \<Rightarrow> l)
      in make_block instructions i start_index next_leader
         # form_blocks_from instructions (Suc i) leaders)"

definition form_blocks :: "instruction_info list \<Rightarrow> usize list \<Rightarrow> basic_block list" where
  "form_blocks instructions leader_indices = form_blocks_from instructions 0 leader_indices"

section \<open>Edges\<close>

definition resolve_edge :: "u64 \<Rightarrow> (u64 \<rightharpoonup> basic_block_id) \<Rightarrow> edge_target" where
  "resolve_edge address block_at_address =
     (case block_at_address address of Some i \<Rightarrow> ET_Block i | None \<Rightarrow> ET_External address)"

definition mk_edge :: "edge_kind \<Rightarrow> edge_target \<Rightarrow> edge" where
  "mk_edge k t = \<lparr>ed_kind = k, ed_target = t\<rparr>"

definition block_edges :: "(u64 \<rightharpoonup> basic_block_id) \<Rightarrow> basic_block \<Rightarrow> edge list option" where
  "block_edges m b =
     (case bb_terminator b of
        None \<Rightarrow>
          (case resolve_edge (bb_end b) m of
             ET_Block i \<Rightarrow> Some [mk_edge EK_Fallthrough (ET_Block i)]
           | _ \<Rightarrow> Some [])
      | Some CF_Fall \<Rightarrow> None
      | Some (CF_Jump t) \<Rightarrow> Some [mk_edge EK_Jump (resolve_edge t m)]
      | Some (CF_ConditionalJump t f) \<Rightarrow>
          Some [mk_edge EK_BranchTaken (resolve_edge t m), mk_edge EK_Fallthrough (resolve_edge f m)]
      | Some (CF_Call t f) \<Rightarrow>
          Some [mk_edge EK_Call (resolve_edge t m), mk_edge EK_Fallthrough (resolve_edge f m)]
      | Some CF_Return \<Rightarrow> Some []
      | Some CF_IndirectJump \<Rightarrow> Some [mk_edge EK_Jump ET_Indirect]
      | Some (CF_IndirectCall f) \<Rightarrow>
          Some [mk_edge EK_Call ET_Indirect, mk_edge EK_Fallthrough (resolve_edge f m)]
      | Some CF_Trap \<Rightarrow> Some [mk_edge EK_Fallthrough (resolve_edge (bb_end b) m)])"

definition attach_successors ::
  "basic_block list \<Rightarrow> (u64 \<rightharpoonup> basic_block_id) \<Rightarrow> basic_block list option" where
  "attach_successors blocks m =
     collect_options (map (\<lambda>b. map_option (\<lambda>es. b\<lparr>bb_successors := bb_successors b @ es\<rparr>)
                                          (block_edges m b)) blocks)"

definition block_starts :: "basic_block list \<Rightarrow> (u64 \<rightharpoonup> basic_block_id)" where
  "block_starts blocks = hash_map_of (map (\<lambda>b. (bb_start b, bb_id b)) blocks)"

definition build :: "instruction_info list \<Rightarrow> control_flow_graph option" where
  "build instructions =
     (if instructions = [] then Some \<lparr>cfg_blocks = []\<rparr>
      else
        let address_to_index = address_index instructions;
            leader_indices = collect_leaders instructions address_to_index;
            blocks = form_blocks instructions leader_indices
        in map_option (\<lambda>bs. \<lparr>cfg_blocks = bs\<rparr>) (attach_successors blocks (block_starts blocks)))"

section \<open>Leaders: what the set holds\<close>

lemma address_index_SomeD:
  assumes "address_index ins a = Some j"
  shows "j < length ins \<and> ii_address (ins ! j) = a"
proof -
  have "(a, j) \<in> set (map (\<lambda>(index, ins). (ii_address ins, index)) (enumerate 0 ins))"
    using assms unfolding address_index_def by (rule hash_map_of_SomeD)
  then obtain p where "p \<in> set (enumerate 0 ins)" "a = ii_address (snd p)" "j = fst p"
    by auto
  then show ?thesis by (simp add: in_set_enumerate_eq)
qed

lemma address_index_distinct:
  assumes "distinct (map ii_address ins)" "j < length ins"
  shows "address_index ins (ii_address (ins ! j)) = Some j"
  unfolding address_index_def
proof (rule hash_map_of_distinct)
  have "map fst (map (\<lambda>(index, ins). (ii_address ins, index)) (enumerate 0 ins)) =
        map (ii_address \<circ> snd) (enumerate 0 ins)"
    by auto
  also have "\<dots> = map ii_address (map snd (enumerate 0 ins))"
    by (simp only: map_map)
  finally have "map fst (map (\<lambda>(index, ins). (ii_address ins, index)) (enumerate 0 ins)) =
        map ii_address ins"
    by simp
  then show "distinct (map fst (map (\<lambda>(index, ins). (ii_address ins, index)) (enumerate 0 ins)))"
    using assms(1) by simp
  have "(j, ins ! j) \<in> set (enumerate 0 ins)"
    using assms(2) by (simp add: in_set_enumerate_eq)
  then show "(ii_address (ins ! j), j) \<in> set (map (\<lambda>(index, ins). (ii_address ins, index)) (enumerate 0 ins))"
    by force
qed

lemma collect_leaders_from_sorted:
  "sorted ls \<Longrightarrow> distinct ls \<Longrightarrow>
   sorted (collect_leaders_from n k xs m ls) \<and> distinct (collect_leaders_from n k xs m ls)"
  by (induction n k xs m ls rule: collect_leaders_from.induct)
    (auto simp: Let_def sorted_insort_insert distinct_insort_insert split: option.splits)

text \<open>The indices one terminator contributes, and the leaders as their union.\<close>

definition leader_effect :: "nat \<Rightarrow> (u64 \<rightharpoonup> usize) \<Rightarrow> nat \<Rightarrow> control_flow \<Rightarrow> usize set" where
  "leader_effect n m i cf =
     (if is_terminator cf then (if i + 1 < n then {i + 1} else {}) else {}) \<union>
     (case direct_target cf of None \<Rightarrow> {} | Some t \<Rightarrow> (case m t of None \<Rightarrow> {} | Some j \<Rightarrow> {j}))"

lemma leader_effect_Fall: "\<not> is_terminator cf \<Longrightarrow> leader_effect n m i cf = {}"
  by (simp add: leader_effect_def not_is_terminator_iff)

lemma set_collect_leaders_from:
  "set (collect_leaders_from n k xs m ls) =
     set ls \<union> (\<Union>i<length xs. leader_effect n m (k + i) (ii_control_flow (xs ! i)))"
proof (induction n k xs m ls rule: collect_leaders_from.induct)
  case (1 n k m ls)
  then show ?case by simp
next
  case (2 n k ins rest m ls)
  have *: "(\<Union>i<length (ins # rest). leader_effect n m (k + i) (ii_control_flow ((ins # rest) ! i))) =
           leader_effect n m k (ii_control_flow ins) \<union>
           (\<Union>i<length rest. leader_effect n m (Suc k + i) (ii_control_flow (rest ! i)))"
    by (simp add: lessThan_Suc_eq_insert_0 image_image)
  show ?case
  proof (cases "is_terminator (ii_control_flow ins)")
    case False
    then show ?thesis using 2(1) unfolding * by (simp add: leader_effect_Fall)
  next
    case True
    then show ?thesis
      using 2(2) [OF refl] unfolding *
      by (auto simp: Let_def leader_effect_def set_insort_insert split: option.splits if_splits)
  qed
qed

lemma set_collect_leaders:
  "set (collect_leaders ins m) =
     insert 0 (\<Union>i<length ins. leader_effect (length ins) m i (ii_control_flow (ins ! i)))"
  by (simp add: collect_leaders_def set_collect_leaders_from)

lemma collect_leaders_strict: "sorted_wrt (<) (collect_leaders ins m)"
  using collect_leaders_from_sorted [of "[0]" "length ins" 0 ins m]
  by (simp add: collect_leaders_def strict_sorted_iff)

text \<open>What the later passes need of the leaders: in range, starting at 0, closed under
  "the instruction after a terminator".\<close>

definition good_leaders :: "instruction_info list \<Rightarrow> usize list \<Rightarrow> bool" where
  "good_leaders ins ls \<longleftrightarrow>
     sorted_wrt (<) ls \<and> ls \<noteq> [] \<and> hd ls = 0 \<and> (\<forall>l\<in>set ls. l < length ins) \<and>
     (\<forall>i. i + 1 < length ins \<longrightarrow> is_terminator (ii_control_flow (ins ! i)) \<longrightarrow> i + 1 \<in> set ls)"

lemma collect_leaders_good:
  assumes "ins \<noteq> []"
  shows "good_leaders ins (collect_leaders ins (address_index ins))"
proof -
  let ?ls = "collect_leaders ins (address_index ins)"
  have z: "0 \<in> set ?ls" by (simp add: set_collect_leaders)
  then have ne: "?ls \<noteq> []" by auto
  have "hd ?ls = 0"
    using z ne collect_leaders_strict [of ins "address_index ins"] by (cases ?ls) auto
  moreover have "\<forall>l\<in>set ?ls. l < length ins"
    using assms
    by (auto simp: set_collect_leaders leader_effect_def dest: address_index_SomeD
        split: if_splits option.splits)
  moreover have "i + 1 \<in> set ?ls"
    if "i + 1 < length ins" "is_terminator (ii_control_flow (ins ! i))" for i
    using that by (auto simp: set_collect_leaders leader_effect_def intro!: bexI [of _ i])
  ultimately show ?thesis
    using ne collect_leaders_strict by (simp add: good_leaders_def)
qed

section \<open>Blocks: the slice is tiled\<close>

text \<open>With nothing but the last index of \<open>[i, nl)\<close> allowed to be a terminator, the scan runs
  to the next leader.\<close>

lemma scan_block_full:
  assumes "i < nl" "\<And>j. i \<le> j \<Longrightarrow> j + 1 < nl \<Longrightarrow> \<not> is_terminator (ii_control_flow (ins ! j))"
  shows "scan_block ins i nl =
    (nl, if is_terminator (ii_control_flow (ins ! (nl - 1)))
         then Some (ii_control_flow (ins ! (nl - 1))) else None)"
  using assms
proof (induction ins i nl rule: scan_block.induct)
  case (1 ins i nl)
  show ?case
  proof (cases "Suc i < nl")
    case True
    then have "\<not> is_terminator (ii_control_flow (ins ! i))" using 1(3) [of i] by simp
    moreover have "scan_block ins (Suc i) nl = (nl, if is_terminator (ii_control_flow (ins ! (nl - 1)))
         then Some (ii_control_flow (ins ! (nl - 1))) else None)"
      using 1(1) [OF 1(2) refl calculation True] 1(3) by simp
    ultimately show ?thesis using 1(2) by (simp add: scan_block.simps [of ins i nl] Let_def)
  next
    case False
    then have "nl = Suc i" using 1(2) by simp
    then show ?thesis
      by (simp add: scan_block.simps [of ins i "Suc i"] scan_block.simps [of ins "Suc i" "Suc i"] Let_def)
  qed
qed

lemma scan_block_range:
  "i < nl \<Longrightarrow> i < fst (scan_block ins i nl) \<and> fst (scan_block ins i nl) \<le> nl"
proof (induction ins i nl rule: scan_block.induct)
  case (1 ins i nl)
  show ?case
  proof (cases "is_terminator (ii_control_flow (ins ! i)) \<or> \<not> Suc i < nl")
    case True
    then show ?thesis
      using "1.prems" by (auto simp: scan_block.simps [of ins i nl] scan_block.simps [of ins "Suc i" nl] Let_def)
  next
    case False
    then show ?thesis using 1 by (simp add: scan_block.simps [of ins i nl] Let_def)
  qed
qed

definition ranges_of :: "basic_block list \<Rightarrow> (usize \<times> usize) list" where
  "ranges_of bs = map (\<lambda>b. (bb_first b, bb_last b)) bs"

text \<open>What a block built over the indices \<open>[a, e)\<close> says about the slice.\<close>

definition block_spec :: "instruction_info list \<Rightarrow> usize \<Rightarrow> usize \<Rightarrow> basic_block \<Rightarrow> bool" where
  "block_spec ins a e b \<longleftrightarrow>
     a < e \<and> bb_first b = a \<and> bb_last b = e \<and>
     bb_start b = ii_address (ins ! a) \<and>
     bb_end b = ii_address (ins ! (e - 1)) + ii_size (ins ! (e - 1)) \<and>
     (\<forall>j. a \<le> j \<longrightarrow> j + 1 < e \<longrightarrow> \<not> is_terminator (ii_control_flow (ins ! j))) \<and>
     bb_terminator b = (let cf = ii_control_flow (ins ! (e - 1))
                        in if is_terminator cf then Some cf else None) \<and>
     bb_successors b = []"

lemma make_block_spec:
  assumes "a < e" "\<And>j. a \<le> j \<Longrightarrow> j + 1 < e \<Longrightarrow> \<not> is_terminator (ii_control_flow (ins ! j))"
  shows "block_spec ins a e (make_block ins i a e) \<and> bb_id (make_block ins i a e) = i"
  using assms scan_block_full [OF assms]
  by (simp add: block_spec_def make_block_def Let_def)

lemma length_form_blocks_from: "length (form_blocks_from ins i ls) = length ls"
  by (induction ins i ls rule: form_blocks_from.induct) (simp_all add: Let_def)

definition next_leader :: "instruction_info list \<Rightarrow> usize list \<Rightarrow> nat \<Rightarrow> usize" where
  "next_leader ins ls k = (if Suc k < length ls then ls ! Suc k else length ins)"

lemma form_blocks_from_nth:
  "k < length ls \<Longrightarrow>
   form_blocks_from ins i ls ! k = make_block ins (i + k) (ls ! k) (next_leader ins ls k)"
proof (induction ins i ls arbitrary: k rule: form_blocks_from.induct)
  case (1 ins i)
  then show ?case by simp
next
  case (2 ins i l ls)
  show ?case
  proof (cases k)
    case 0
    then show ?thesis by (cases ls) (simp_all add: next_leader_def)
  next
    case (Suc k')
    then show ?thesis using 2 by (simp add: Let_def next_leader_def)
  qed
qed

lemma good_leaders_gap:
  assumes g: "good_leaders ins ls" and k: "k < length ls"
  shows "ls ! k < next_leader ins ls k" "next_leader ins ls k \<le> length ins"
    and "\<And>j. ls ! k \<le> j \<Longrightarrow> j + 1 < next_leader ins ls k \<Longrightarrow> \<not> is_terminator (ii_control_flow (ins ! j))"
proof -
  from g have s: "sorted_wrt (<) ls" and r: "\<forall>l\<in>set ls. l < length ins"
    by (auto simp: good_leaders_def)
  show "ls ! k < next_leader ins ls k"
    using s r k by (auto simp: next_leader_def sorted_wrt_iff_nth_less)
  show le: "next_leader ins ls k \<le> length ins"
    using r by (auto simp: next_leader_def less_imp_le)
  fix j assume j: "ls ! k \<le> j" "j + 1 < next_leader ins ls k"
  show "\<not> is_terminator (ii_control_flow (ins ! j))"
  proof
    assume "is_terminator (ii_control_flow (ins ! j))"
    then have "j + 1 \<in> set ls" using g j le by (simp add: good_leaders_def)
    then obtain m where m: "m < length ls" "ls ! m = j + 1" by (auto simp: in_set_conv_nth)
    have "k < m"
    proof (rule ccontr)
      assume "\<not> k < m"
      then have "ls ! m \<le> ls ! k"
        using s k by (cases "m = k") (auto simp: sorted_wrt_iff_nth_less less_imp_le)
      then show False using m j(1) by simp
    qed
    then have "ls ! Suc k \<le> ls ! m"
      using s m(1) by (cases "Suc k = m") (auto simp: sorted_wrt_iff_nth_less less_imp_le)
    then show False using j(2) m \<open>k < m\<close> by (simp add: next_leader_def)
  qed
qed

lemma form_blocks_spec:
  assumes "good_leaders ins ls" "k < length ls"
  shows "block_spec ins (ls ! k) (next_leader ins ls k) (form_blocks ins ls ! k)"
    and "bb_id (form_blocks ins ls ! k) = k"
  using make_block_spec [OF good_leaders_gap(1) [OF assms] good_leaders_gap(3) [OF assms], of k]
  by (simp_all add: form_blocks_def form_blocks_from_nth assms(2))

section \<open>Edges\<close>

lemma block_edges_Some:
  "bb_terminator b \<noteq> Some CF_Fall \<Longrightarrow> \<exists>es. block_edges m b = Some es"
  by (cases "bb_terminator b") (auto simp: block_edges_def split: control_flow.splits edge_target.splits)

lemma block_edges_successors [simp]: "block_edges m (b\<lparr>bb_successors := es\<rparr>) = block_edges m b"
  by (cases "bb_terminator b") (auto simp: block_edges_def split: control_flow.split)

definition with_edges :: "(u64 \<rightharpoonup> basic_block_id) \<Rightarrow> basic_block \<Rightarrow> basic_block" where
  "with_edges m b = b\<lparr>bb_successors := bb_successors b @ the (block_edges m b)\<rparr>"

lemma attach_successors_total:
  assumes "\<forall>b\<in>set bs. bb_terminator b \<noteq> Some CF_Fall"
  shows "attach_successors bs m = Some (map (with_edges m) bs)"
  using assms
proof (induction bs)
  case Nil
  then show ?case by (simp add: attach_successors_def)
next
  case (Cons b bs)
  obtain es where "block_edges m b = Some es" using block_edges_Some Cons.prems by force
  then show ?case using Cons by (simp add: attach_successors_def with_edges_def)
qed

lemma block_spec_not_Fall: "block_spec ins a e b \<Longrightarrow> bb_terminator b \<noteq> Some CF_Fall"
  by (auto simp: block_spec_def Let_def split: if_splits)

text \<open>The graph that \<open>build\<close> returns, block by block.\<close>

abbreviation leaders_of :: "instruction_info list \<Rightarrow> usize list" where
  "leaders_of ins \<equiv> collect_leaders ins (address_index ins)"

abbreviation raw_blocks :: "instruction_info list \<Rightarrow> basic_block list" where
  "raw_blocks ins \<equiv> form_blocks ins (leaders_of ins)"

lemma length_raw_blocks [simp]: "length (raw_blocks ins) = length (leaders_of ins)"
  by (simp add: form_blocks_def length_form_blocks_from)

lemma build_eq:
  assumes "ins \<noteq> []"
  shows "build ins = Some \<lparr>cfg_blocks = map (with_edges (block_starts (raw_blocks ins))) (raw_blocks ins)\<rparr>"
proof -
  have "\<forall>b\<in>set (raw_blocks ins). bb_terminator b \<noteq> Some CF_Fall"
    using form_blocks_spec(1) [OF collect_leaders_good [OF assms]] block_spec_not_Fall
    by (metis in_set_conv_nth length_raw_blocks)
  then show ?thesis using assms by (simp add: build_def Let_def attach_successors_total)
qed

lemma build_nth:
  assumes "build ins = Some g" "k < length (cfg_blocks g)"
  defines "b \<equiv> cfg_blocks g ! k" and "ls \<equiv> leaders_of ins"
  shows "ins \<noteq> []" "length (cfg_blocks g) = length ls" "bb_id b = k"
    and "bb_first b = ls ! k" "bb_last b = next_leader ins ls k"
    and "bb_start b = ii_address (ins ! (ls ! k))"
    and "bb_first b < bb_last b" "bb_last b \<le> length ins"
    and "bb_end b = ii_address (ins ! (bb_last b - 1)) + ii_size (ins ! (bb_last b - 1))"
    and "bb_terminator b = (let cf = ii_control_flow (ins ! (bb_last b - 1))
                            in if is_terminator cf then Some cf else None)"
    and "\<And>j. bb_first b \<le> j \<Longrightarrow> j + 1 < bb_last b \<Longrightarrow> \<not> is_terminator (ii_control_flow (ins ! j))"
    and "Some (bb_successors b) = block_edges (block_starts (raw_blocks ins)) b"
proof -
  show ne: "ins \<noteq> []" using assms(1,2) by (auto simp: build_def)
  then have g: "cfg_blocks g = map (with_edges (block_starts (raw_blocks ins))) (raw_blocks ins)"
    using assms(1) by (auto simp: build_eq)
  show len: "length (cfg_blocks g) = length ls" by (simp add: g ls_def)
  then have k: "k < length ls" using assms(2) by simp
  note gl = collect_leaders_good [OF ne, folded ls_def]
  note sp = form_blocks_spec [OF gl k] and le = good_leaders_gap(2) [OF gl k]
  let ?r = "form_blocks ins ls ! k"
  have b: "b = with_edges (block_starts (raw_blocks ins)) ?r"
    using k by (simp add: b_def g ls_def)
  show "bb_id b = k" "bb_first b = ls ! k" "bb_last b = next_leader ins ls k"
    "bb_start b = ii_address (ins ! (ls ! k))" "bb_first b < bb_last b" "bb_last b \<le> length ins"
    "bb_end b = ii_address (ins ! (bb_last b - 1)) + ii_size (ins ! (bb_last b - 1))"
    "bb_terminator b = (let cf = ii_control_flow (ins ! (bb_last b - 1))
                            in if is_terminator cf then Some cf else None)"
    using sp le by (simp_all add: b with_edges_def block_spec_def)
  show "\<not> is_terminator (ii_control_flow (ins ! j))"
    if "bb_first b \<le> j" "j + 1 < bb_last b" for j
    using sp that by (simp add: b with_edges_def block_spec_def)
  obtain es where "block_edges (block_starts (raw_blocks ins)) ?r = Some es"
    using block_edges_Some block_spec_not_Fall sp(1) by blast
  moreover have "block_edges m b = block_edges m ?r" for m
    by (simp add: b with_edges_def)
  moreover have "bb_successors ?r = []" using sp(1) by (simp add: block_spec_def)
  ultimately show "Some (bb_successors b) = block_edges (block_starts (raw_blocks ins)) b"
    by (simp add: b with_edges_def)
qed

lemma build_length_pos:
  assumes "build ins = Some g" "ins \<noteq> []"
  shows "cfg_blocks g \<noteq> []"
proof -
  have "length (cfg_blocks g) = length (leaders_of ins)"
    using assms by (auto simp: build_eq)
  then show ?thesis
    using collect_leaders_good [OF assms(2)] by (auto simp: good_leaders_def)
qed

text \<open>\<open>resolve\<close> finds the block that starts at an address, when one does.\<close>

lemma block_starts_SomeD:
  assumes "build ins = Some g" "ins \<noteq> []" "block_starts (raw_blocks ins) a = Some k"
  shows "k < length (cfg_blocks g) \<and> bb_start (cfg_blocks g ! k) = a"
proof -
  from assms(3) have "(a, k) \<in> set (map (\<lambda>b. (bb_start b, bb_id b)) (raw_blocks ins))"
    unfolding block_starts_def by (rule hash_map_of_SomeD)
  then obtain i where i: "i < length (raw_blocks ins)" "a = bb_start (raw_blocks ins ! i)"
    "k = bb_id (raw_blocks ins ! i)"
    by (auto simp: in_set_conv_nth)
  then have "k = i" using form_blocks_spec(2) [OF collect_leaders_good [OF assms(2)]] by simp
  moreover have "cfg_blocks g = map (with_edges (block_starts (raw_blocks ins))) (raw_blocks ins)"
    using assms(1) unfolding build_eq [OF assms(2)] by (metis control_flow_graph.select_convs(1) option.inject)
  ultimately show ?thesis using i by (simp add: with_edges_def)
qed

text \<open>Conversely, every leader's address resolves to its own block, when the addresses of the
  slice are distinct.\<close>

lemma block_starts_leader:
  assumes g: "build ins = Some g" and d: "distinct (map ii_address ins)"
    and k: "k < length (cfg_blocks g)"
  shows "block_starts (raw_blocks ins) (bb_start (cfg_blocks g ! k)) = Some k"
proof -
  note nth = build_nth [OF g k]
  let ?ls = "leaders_of ins"
  note gl = collect_leaders_good [OF nth(1)]
  have "inj_on (\<lambda>i. ii_address (ins ! i)) {..<length ins}"
    using nth_eq_iff_index_eq [OF d] by (auto simp: inj_on_def)
  moreover have "set ?ls \<subseteq> {..<length ins}" "distinct ?ls"
    using gl by (auto simp: good_leaders_def strict_sorted_iff)
  ultimately have dl: "distinct (map (\<lambda>i. ii_address (ins ! i)) ?ls)"
    by (simp add: distinct_map inj_on_subset)
  have st: "bb_start (raw_blocks ins ! i) = ii_address (ins ! (?ls ! i))" if "i < length ?ls" for i
    using form_blocks_spec(1) [OF gl that] by (simp add: block_spec_def)
  have "map fst (map (\<lambda>b. (bb_start b, bb_id b)) (raw_blocks ins)) = map bb_start (raw_blocks ins)"
    by simp
  also have "\<dots> = map (\<lambda>i. ii_address (ins ! i)) ?ls"
    using st by (intro nth_equalityI) simp_all
  finally have keys: "distinct (map fst (map (\<lambda>b. (bb_start b, bb_id b)) (raw_blocks ins)))"
    using dl by simp
  have kl: "k < length ?ls" using k nth(2) by simp
  then have "raw_blocks ins ! k \<in> set (raw_blocks ins)" by simp
  then have "(bb_start (raw_blocks ins ! k), bb_id (raw_blocks ins ! k))
      \<in> (\<lambda>b. (bb_start b, bb_id b)) ` set (raw_blocks ins)"
    by (rule imageI)
  then have "(bb_start (cfg_blocks g ! k), k) \<in> set (map (\<lambda>b. (bb_start b, bb_id b)) (raw_blocks ins))"
    using st [OF kl] nth(6) form_blocks_spec(2) [OF gl kl] by simp
  with keys show ?thesis unfolding block_starts_def by (rule hash_map_of_distinct)
qed

section \<open>The graph's correctness\<close>

text \<open>The block that holds instruction \<open>i\<close>.\<close>

definition in_block :: "control_flow_graph \<Rightarrow> basic_block_id \<Rightarrow> usize \<Rightarrow> bool" where
  "in_block g k i \<longleftrightarrow> k < length (cfg_blocks g) \<and>
     bb_first (cfg_blocks g ! k) \<le> i \<and> i < bb_last (cfg_blocks g ! k)"

text \<open>
  The stream \<open>build\<close> documents: sorted by address with no gaps and no overlap, each
  instruction's fallthrough the address just past it.
\<close>

definition wf_stream :: "instruction_info list \<Rightarrow> bool" where
  "wf_stream ins \<longleftrightarrow>
     distinct (map ii_address ins) \<and>
     (\<forall>i. i + 1 < length ins \<longrightarrow> ii_address (ins ! (i + 1)) = ii_address (ins ! i) + ii_size (ins ! i)) \<and>
     (\<forall>x\<in>set ins. ii_address x \<noteq> ii_address (last ins) + ii_size (last ins)) \<and>
     (\<forall>x\<in>set ins. case ii_control_flow x of
        CF_ConditionalJump _ f \<Rightarrow> f = ii_address x + ii_size x
      | CF_Call _ f \<Rightarrow> f = ii_address x + ii_size x
      | CF_IndirectCall f \<Rightarrow> f = ii_address x + ii_size x
      | _ \<Rightarrow> True)"

text \<open>The targets of a block's edges are the successors of its last instruction that are known.\<close>

definition edge_targets :: "basic_block \<Rightarrow> edge_target set" where
  "edge_targets b = ed_target ` set (bb_successors b)"

lemma edge_targets_last:
  assumes g: "build ins = Some g" and k: "k < length (cfg_blocks g)"
  defines "b \<equiv> cfg_blocks g ! k" and "m \<equiv> block_starts (raw_blocks ins)"
  shows "ET_Block j \<in> edge_targets b \<longleftrightarrow>
    (\<exists>a\<in>pc_successors (ins ! (bb_last b - 1)). m a = Some j)"
proof -
  note nth = build_nth [OF g k, folded b_def m_def]
  have e: "Some (bb_successors b) = block_edges m b" by (fact nth(12))
  show ?thesis
    using e nth(9,10)
    by (cases "ii_control_flow (ins ! (bb_last b - 1))")
      (auto simp: edge_targets_def block_edges_def pc_successors_def Let_def mk_edge_def
         resolve_edge_def split: option.splits)
qed

lemma in_block_exists:
  assumes g: "build ins = Some g" and i: "i < length ins"
  shows "\<exists>k. in_block g k i"
proof -
  let ?ls = "leaders_of ins"
  have ne: "ins \<noteq> []" using i by auto
  note gl = collect_leaders_good [OF ne]
  have len: "length (cfg_blocks g) = length ?ls"
    using build_nth(2) [OF g] build_length_pos [OF g ne] by blast
  define k where "k = Max {k. k < length ?ls \<and> ?ls ! k \<le> i}"
  have fin: "finite {k. k < length ?ls \<and> ?ls ! k \<le> i}" by simp
  have "0 \<in> {k. k < length ?ls \<and> ?ls ! k \<le> i}"
    using gl by (auto simp: good_leaders_def hd_conv_nth)
  then have k: "k < length ?ls" "?ls ! k \<le> i"
    using Max_in [OF fin] unfolding k_def by blast+
  have "i < next_leader ins ?ls k"
  proof (rule ccontr)
    assume "\<not> i < next_leader ins ?ls k"
    then have "Suc k \<in> {k. k < length ?ls \<and> ?ls ! k \<le> i}"
      using i by (auto simp: next_leader_def split: if_splits)
    then have "Suc k \<le> k" using Max_ge [OF fin] unfolding k_def by blast
    then show False by simp
  qed
  then show ?thesis
    using k build_nth(4,5) [OF g, of k] len by (auto simp: in_block_def)
qed


text \<open>Consecutive ranges of a monotone sequence of cut points join up.\<close>

lemma concat_upt_telescope:
  fixes f :: "nat \<Rightarrow> nat"
  assumes "\<And>k. k < n \<Longrightarrow> f k \<le> f (Suc k)"
  shows "concat (map (\<lambda>k. [f k..<f (Suc k)]) [0..<n]) = [f 0..<f n] \<and> f 0 \<le> f n"
  using assms
proof (induction n)
  case 0
  then show ?case by simp
next
  case (Suc n)
  then have "f 0 \<le> f n" "f n \<le> f (Suc n)" by auto
  moreover from this have "[f 0..<f (Suc n)] = [f 0..<f n] @ [f n..<f (Suc n)]"
    by (metis le_add_diff_inverse upt_add_eq_append)
  moreover have "f 0 \<le> f (Suc n)" using calculation(1,2) by (rule order_trans)
  ultimately show ?case using Suc by simp
qed

definition block_range :: "basic_block \<Rightarrow> usize list" where
  "block_range b = [bb_first b..<bb_last b]"

lemma blocks_tile:
  assumes g: "build ins = Some g"
  shows "concat (map block_range (cfg_blocks g)) = [0..<length ins]"
proof (cases "ins = []")
  case True
  then show ?thesis using g by (auto simp: build_def)
next
  case False
  let ?ls = "leaders_of ins"
  let ?f = "\<lambda>k. if k < length ?ls then ?ls ! k else length ins"
  note gl = collect_leaders_good [OF False]
  have len: "length (cfg_blocks g) = length ?ls"
    using build_nth(2) [OF g] build_length_pos [OF g False] by blast
  have pos: "0 < length ?ls" using gl by (simp add: good_leaders_def)
  have step: "?f (Suc k) = next_leader ins ?ls k" if "k < length ?ls" for k
    by (simp add: next_leader_def)
  have mono: "?f k \<le> ?f (Suc k)" if "k < length ?ls" for k
    using good_leaders_gap(1) [OF gl that] that by (simp add: next_leader_def less_imp_le)
  have "map block_range (cfg_blocks g) = map (\<lambda>k. [?f k..<?f (Suc k)]) [0..<length ?ls]"
  proof (rule nth_equalityI)
    show "length (map block_range (cfg_blocks g)) = length (map (\<lambda>k. [?f k..<?f (Suc k)]) [0..<length ?ls])"
      by (simp add: len)
    fix k assume "k < length (map block_range (cfg_blocks g))"
    then have k: "k < length (cfg_blocks g)" by simp
    then have kl: "k < length ?ls" using len by simp
    have "map block_range (cfg_blocks g) ! k = [?ls ! k..<next_leader ins ?ls k]"
      using build_nth(4,5) [OF g k] k by (simp add: block_range_def)
    also have "\<dots> = [?f k..<?f (Suc k)]" using kl step [OF kl] by simp
    finally show "map block_range (cfg_blocks g) ! k = map (\<lambda>k. [?f k..<?f (Suc k)]) [0..<length ?ls] ! k"
      using kl by simp
  qed
  then show ?thesis
    using concat_upt_telescope [of "length ?ls" ?f] mono pos gl
    by (simp add: good_leaders_def hd_conv_nth)
qed

text \<open>Within a well-formed stream an address names one instruction.\<close>

lemma stream_next:
  assumes w: "wf_stream ins" and i: "i < length ins" and j: "j < length ins"
    and eq: "ii_address (ins ! j) = ii_address (ins ! i) + ii_size (ins ! i)"
  shows "j = i + 1"
proof (cases "i + 1 < length ins")
  case True
  then have "ii_address (ins ! j) = ii_address (ins ! (i + 1))"
    using w eq by (simp add: wf_stream_def)
  moreover have "distinct (map ii_address ins)" using w by (simp add: wf_stream_def)
  ultimately show ?thesis
    using nth_eq_iff_index_eq [of "map ii_address ins" j "i + 1"] True j by simp
next
  case False
  then have "ins ! i = last ins"
    using i by (metis Suc_eq_plus1 Suc_lessI diff_Suc_1 last_conv_nth list.size(3) not_less_zero)
  then show ?thesis using w eq j by (auto simp: wf_stream_def)
qed

lemma stream_address_inj:
  "wf_stream ins \<Longrightarrow> i < length ins \<Longrightarrow> j < length ins \<Longrightarrow>
   ii_address (ins ! i) = ii_address (ins ! j) \<Longrightarrow> i = j"
  using nth_eq_iff_index_eq [of "map ii_address ins" i j] by (simp add: wf_stream_def)

lemma stream_fall:
  "wf_stream ins \<Longrightarrow> i + 1 < length ins \<Longrightarrow>
   ii_address (ins ! i) + ii_size (ins ! i) = ii_address (ins ! (i + 1))"
  by (simp add: wf_stream_def)

text \<open>A successor of an instruction is the next one or a direct target.\<close>

lemma pc_successor_cases:
  assumes w: "wf_stream ins" and i: "i < length ins" and a: "a \<in> pc_successors (ins ! i)"
  shows "a = ii_address (ins ! i) + ii_size (ins ! i) \<or> direct_target (ii_control_flow (ins ! i)) = Some a"
proof -
  have "ins ! i \<in> set ins" using i by simp
  then have "case ii_control_flow (ins ! i) of
        CF_ConditionalJump _ f \<Rightarrow> f = ii_address (ins ! i) + ii_size (ins ! i)
      | CF_Call _ f \<Rightarrow> f = ii_address (ins ! i) + ii_size (ins ! i)
      | CF_IndirectCall f \<Rightarrow> f = ii_address (ins ! i) + ii_size (ins ! i)
      | _ \<Rightarrow> True"
    using w unfolding wf_stream_def by blast
  then show ?thesis
    using a by (cases "ii_control_flow (ins ! i)") (auto simp: pc_successors_def Let_def)
qed

lemma leaders_terminator:
  assumes "i + 1 < length ins" "is_terminator (ii_control_flow (ins ! i))"
  shows "i + 1 \<in> set (leaders_of ins)"
  using assms by (auto simp: set_collect_leaders leader_effect_def intro!: bexI [of _ i])

lemma leaders_target:
  assumes w: "wf_stream ins" and i: "i < length ins" and j: "j < length ins"
    and t: "direct_target (ii_control_flow (ins ! i)) = Some (ii_address (ins ! j))"
  shows "j \<in> set (leaders_of ins)"
proof -
  have "address_index ins (ii_address (ins ! j)) = Some j"
    using w j by (intro address_index_distinct) (simp_all add: wf_stream_def)
  then have "j \<in> leader_effect (length ins) (address_index ins) i (ii_control_flow (ins ! i))"
    using t by (simp add: leader_effect_def)
  then show ?thesis using i by (auto simp: set_collect_leaders)
qed

text \<open>Where a block ends, every successor inside the slice is a leader.\<close>

lemma block_end_successor_leader:
  assumes w: "wf_stream ins" and g: "build ins = Some g" and k: "k < length (cfg_blocks g)"
    and i: "i + 1 = bb_last (cfg_blocks g ! k)" and j: "j < length ins"
    and s: "ii_address (ins ! j) \<in> pc_successors (ins ! i)"
  shows "j \<in> set (leaders_of ins)"
proof -
  note nth = build_nth [OF g k]
  have il: "i < length ins" using i nth(8) by simp
  from pc_successor_cases [OF w il s] show ?thesis
  proof
    assume "direct_target (ii_control_flow (ins ! i)) = Some (ii_address (ins ! j))"
    then show ?thesis by (rule leaders_target [OF w il j])
  next
    assume "ii_address (ins ! j) = ii_address (ins ! i) + ii_size (ins ! i)"
    then have ji: "j = i + 1" using stream_next [OF w il j] by simp
    then have "next_leader ins (leaders_of ins) k < length ins" using i j nth(5) by simp
    then have "next_leader ins (leaders_of ins) k \<in> set (leaders_of ins)"
      by (auto simp: next_leader_def split: if_splits)
    then show ?thesis using ji i nth(5) by simp
  qed
qed

text \<open>A leader starts a block, and its address resolves to that block.\<close>

lemma leader_block:
  assumes w: "wf_stream ins" and g: "build ins = Some g" and j: "j \<in> set (leaders_of ins)" "ins \<noteq> []"
  shows "\<exists>k'<length (cfg_blocks g). bb_first (cfg_blocks g ! k') = j \<and>
           block_starts (raw_blocks ins) (ii_address (ins ! j)) = Some k'"
proof -
  obtain k' where k': "k' < length (leaders_of ins)" "leaders_of ins ! k' = j"
    using j by (auto simp: in_set_conv_nth)
  have "length (cfg_blocks g) = length (leaders_of ins)"
    using build_nth(2) [OF g] build_length_pos [OF g j(2)] by blast
  then have l: "k' < length (cfg_blocks g)" using k' by simp
  have "distinct (map ii_address ins)" using w by (simp add: wf_stream_def)
  from block_starts_leader [OF g this l] show ?thesis
    using build_nth(4,6) [OF g l] k' l by auto
qed

text \<open>One step of the program counter, as the graph sees it.\<close>

definition graph_step :: "control_flow_graph \<Rightarrow> usize \<Rightarrow> usize \<Rightarrow> bool" where
  "graph_step g i j \<longleftrightarrow>
     (\<exists>k. in_block g k i \<and>
        (if i + 1 = bb_last (cfg_blocks g ! k)
         then \<exists>k'<length (cfg_blocks g). ET_Block k' \<in> edge_targets (cfg_blocks g ! k) \<and>
                bb_first (cfg_blocks g ! k') = j
         else j = i + 1))"

lemma graph_step_in_block:
  assumes w: "wf_stream ins" and g: "build ins = Some g" and j: "j < length ins" and k: "in_block g k i"
  shows "ii_address (ins ! j) \<in> pc_successors (ins ! i) \<longleftrightarrow>
        (if i + 1 = bb_last (cfg_blocks g ! k)
         then \<exists>k'<length (cfg_blocks g). ET_Block k' \<in> edge_targets (cfg_blocks g ! k) \<and>
                bb_first (cfg_blocks g ! k') = j
         else j = i + 1)"
proof -
  have kl: "k < length (cfg_blocks g)" and ib: "bb_first (cfg_blocks g ! k) \<le> i" "i < bb_last (cfg_blocks g ! k)"
    using k by (auto simp: in_block_def)
  note nth = build_nth [OF g kl]
  have il: "i < length ins" using ib nth(8) by simp
  show ?thesis
  proof (cases "i + 1 = bb_last (cfg_blocks g ! k)")
    case False
    then have i1: "i + 1 < bb_last (cfg_blocks g ! k)" using ib by simp
    then have "ii_control_flow (ins ! i) = CF_Fall" using nth(11) ib(1) by (simp add: not_is_terminator_iff)
    then have "pc_successors (ins ! i) = {ii_address (ins ! (i + 1))}"
      using stream_fall [OF w] i1 nth(8) by (simp add: pc_successors_def)
    then show ?thesis
      using False stream_address_inj [OF w j, of "i + 1"] i1 nth(8) by auto
  next
    case True
    note et = edge_targets_last [OF g kl]
    have i: "bb_last (cfg_blocks g ! k) - 1 = i" using True by simp
    show ?thesis
    proof
      assume s: "ii_address (ins ! j) \<in> pc_successors (ins ! i)"
      from leader_block [OF w g block_end_successor_leader [OF w g kl True j s] nth(1)] obtain k' where
        "k' < length (cfg_blocks g)" "bb_first (cfg_blocks g ! k') = j"
        "block_starts (raw_blocks ins) (ii_address (ins ! j)) = Some k'" by blast
      then show "if i + 1 = bb_last (cfg_blocks g ! k)
         then \<exists>k'<length (cfg_blocks g). ET_Block k' \<in> edge_targets (cfg_blocks g ! k) \<and>
                bb_first (cfg_blocks g ! k') = j
         else j = i + 1"
        using True et [of k'] s unfolding i by auto
    next
      assume "if i + 1 = bb_last (cfg_blocks g ! k)
         then \<exists>k'<length (cfg_blocks g). ET_Block k' \<in> edge_targets (cfg_blocks g ! k) \<and>
                bb_first (cfg_blocks g ! k') = j
         else j = i + 1"
      then obtain k' where k': "k' < length (cfg_blocks g)" "ET_Block k' \<in> edge_targets (cfg_blocks g ! k)"
        "bb_first (cfg_blocks g ! k') = j"
        using True by auto
      then obtain a where a: "a \<in> pc_successors (ins ! i)" "block_starts (raw_blocks ins) a = Some k'"
        using et [of k'] unfolding i by blast
      then have "bb_start (cfg_blocks g ! k') = a" using block_starts_SomeD [OF g nth(1)] by blast
      then have "a = ii_address (ins ! j)" using build_nth(4,6) [OF g k'(1)] k'(3) by simp
      then show "ii_address (ins ! j) \<in> pc_successors (ins ! i)" using a by simp
    qed
  qed
qed

section \<open>Properties\<close>

text \<open>C22: the builder never panics, and the blocks of its graph, in order and with their
  positions as ids, cut the slice into non-empty consecutive pieces: every instruction is in
  exactly one block.\<close>

theorem build_partitions:
  "\<exists>g. build ins = Some g \<and>
       concat (map block_range (cfg_blocks g)) = [0..<length ins] \<and>
       map bb_id (cfg_blocks g) = [0..<length (cfg_blocks g)] \<and>
       list_all (\<lambda>b. block_range b \<noteq> []) (cfg_blocks g)"
proof -
  obtain g where g: "build ins = Some g"
    using build_eq [of ins] by (cases "ins = []") (auto simp: build_def)
  have "map bb_id (cfg_blocks g) = [0..<length (cfg_blocks g)]"
    using build_nth(3) [OF g] by (intro nth_equalityI) simp_all
  moreover have "list_all (\<lambda>b. block_range b \<noteq> []) (cfg_blocks g)"
    using build_nth(7) [OF g] by (fastforce simp: list_all_length block_range_def)
  ultimately show ?thesis using g blocks_tile [OF g] by blast
qed

text \<open>C10: the graph is exact. In a gap-free stream, instruction \<open>j\<close> can follow instruction
  \<open>i\<close> at run time, by the classification of \<open>i\<close>, exactly when the graph says so: \<open>j\<close>
  is the next instruction of the same block, or \<open>i\<close> ends its block and \<open>j\<close> starts a
  block that an edge of it names.\<close>

theorem build_flow_exact:
  assumes "wf_stream ins" "build ins = Some g" "i < length ins" "j < length ins"
  shows "ii_address (ins ! j) \<in> pc_successors (ins ! i) \<longleftrightarrow> graph_step g i j"
proof -
  obtain k0 where k0: "in_block g k0 i" using in_block_exists assms by blast
  show ?thesis
    using graph_step_in_block [OF assms(1,2,4)] k0 unfolding graph_step_def by blast
qed

definition sample_stream :: "instruction_info list" where
  "sample_stream =
     [\<lparr>ii_address = 0x1000, ii_size = 4, ii_control_flow = CF_Fall\<rparr>,
      \<lparr>ii_address = 0x1004, ii_size = 4, ii_control_flow = CF_ConditionalJump 0x1004 0x1008\<rparr>,
      \<lparr>ii_address = 0x1008, ii_size = 4, ii_control_flow = CF_Call 0x9000 0x100c\<rparr>,
      \<lparr>ii_address = 0x100c, ii_size = 4, ii_control_flow = CF_Return\<rparr>]"

lemma wf_sample_stream: "wf_stream sample_stream"
proof -
  have "ii_address (sample_stream ! (i + 1)) = ii_address (sample_stream ! i) + ii_size (sample_stream ! i)"
    if "i + 1 < length sample_stream" for i
  proof -
    have "i = 0 \<or> i = 1 \<or> i = 2" using that by (auto simp: sample_stream_def)
    then show ?thesis by (auto simp: sample_stream_def)
  qed
  then show ?thesis by (auto simp: wf_stream_def sample_stream_def)
qed

theorem build_flow_exact_witness:
  "\<exists>g. build sample_stream = Some g \<and> graph_step g 1 1 \<and> graph_step g 1 2 \<and> \<not> graph_step g 1 3"
proof -
  obtain g where g: "build sample_stream = Some g"
    using build_eq [of sample_stream] by (auto simp: sample_stream_def)
  have l: "length sample_stream = 4" by (simp add: sample_stream_def)
  note ex = build_flow_exact [OF wf_sample_stream g]
  have "ii_address (sample_stream ! 1) \<in> pc_successors (sample_stream ! 1)"
    "ii_address (sample_stream ! 2) \<in> pc_successors (sample_stream ! 1)"
    "ii_address (sample_stream ! 3) \<notin> pc_successors (sample_stream ! 1)"
    by (simp_all add: sample_stream_def pc_successors_def)
  then show ?thesis using g ex [of 1 1] ex [of 1 2] ex [of 1 3] l by auto
qed

end
