(* ===== verification/Space.thy ===== *)
theory Space
  imports Prelude
begin

text \<open>
  The text-space allocator (\<open>src/src/rewrite/space.rs\<close>): choosing the free extent that a
  reservation is carved from, and the bump allocator over it. The tuple
  \<open>(usable, source, base_addr, base_off)\<close> of \<open>plan_reservation\<close> is a tuple here too; the
  \<open>&mut self\<close> of \<open>Region::carve\<close> is the region returned beside the slice, and a failed carve
  returns no region because the source leaves the cursor alone.
\<close>

section \<open>Data\<close>

datatype space_source = InterSectionHole | TailPad | HeaderPad | GrewText u64

fun source_rank :: "space_source \<Rightarrow> u8" where
  "source_rank InterSectionHole = 0"
| "source_rank TailPad = 1"
| "source_rank HeaderPad = 2"
| "source_rank (GrewText _) = 3"

record free_extent =
  fe_address :: u64
  fe_file_offset :: u64
  fe_len :: u64
  fe_source :: space_source

datatype exhaustion = Grow | Fail

record reserve_request =
  rr_min_bytes :: u64
  rr_headroom :: u64
  rr_align :: u64
  rr_allow_headerpad :: bool
  rr_on_exhaustion :: exhaustion

definition exact :: "u64 \<Rightarrow> reserve_request" where
  "exact n = \<lparr>rr_min_bytes = n, rr_headroom = 0, rr_align = 4, rr_allow_headerpad = False,
              rr_on_exhaustion = Fail\<rparr>"

definition with_headroom :: "reserve_request \<Rightarrow> u64 \<Rightarrow> reserve_request" where
  "with_headroom req headroom = req\<lparr>rr_headroom := headroom\<rparr>"

definition needed :: "reserve_request \<Rightarrow> u64" where
  "needed req = saturating_add (rr_min_bytes req) (rr_headroom req)"

record planned_reservation =
  pr_base_address :: u64
  pr_base_file_offset :: u64
  pr_capacity :: u64
  pr_align :: u64
  pr_source :: space_source

datatype reserve_error =
    RE_ZeroAlign
  | RE_InsufficientFreeSpace (re_needed: u64) (re_largest_available: u64)
  | RE_GrowthRequired (re_deficit: u64)

section \<open>Planning a reservation\<close>

definition round_up :: "u64 \<Rightarrow> u64 \<Rightarrow> u64 option" where
  "round_up v align =
     (let rem = v mod align in if rem = 0 then Some v else checked_add v (align - rem))"

type_synonym candidate = "u64 \<times> space_source \<times> u64 \<times> u64"

definition pick_better :: "candidate \<Rightarrow> candidate \<Rightarrow> candidate" where
  "pick_better a b =
     (case (a, b) of ((ua, sa, aa, _), (ub, sb, ab, _)) \<Rightarrow>
        if ua < ub then a
        else if ub < ua then b
        else if source_rank sa < source_rank sb then a
        else if source_rank sb < source_rank sa then b
        else if aa \<le> ab then a else b)"

text \<open>One iteration of the loop, on the pair \<open>(best, largest_available)\<close>.\<close>

definition plan_step ::
  "reserve_request \<Rightarrow> free_extent \<Rightarrow> candidate option \<times> u64 \<Rightarrow> candidate option \<times> u64" where
  "plan_step req ext state =
     (let (best, largest_available) = state in
      if fe_source ext = HeaderPad \<and> \<not> rr_allow_headerpad req then state
      else if (case fe_source ext of GrewText _ \<Rightarrow> True | _ \<Rightarrow> False) then state
      else
        (case round_up (fe_address ext) (rr_align req) of
           None \<Rightarrow> state
         | Some base_addr \<Rightarrow>
             (let pad = base_addr - fe_address ext in
              if pad > fe_len ext then state
              else
                let usable = fe_len ext - pad;
                    largest = (if usable > largest_available then usable else largest_available)
                in
                if usable < needed req then (best, largest)
                else
                  let base_off = fe_file_offset ext + pad;
                      candidate = (usable, fe_source ext, base_addr, base_off)
                  in (Some (case best of None \<Rightarrow> candidate | Some cur \<Rightarrow> pick_better cur candidate),
                      largest))))"

definition plan_reservation ::
  "free_extent list \<Rightarrow> reserve_request \<Rightarrow> reserve_error + planned_reservation" where
  "plan_reservation free_extents req =
     (if rr_align req = 0 then Err RE_ZeroAlign
      else
        let (best, largest_available) = fold (plan_step req) free_extents (None, 0) in
        case best of
          Some (usable, source, base_address, base_file_offset) \<Rightarrow>
            Ok \<lparr>pr_base_address = base_address, pr_base_file_offset = base_file_offset,
                pr_capacity = needed req, pr_align = rr_align req, pr_source = source\<rparr>
        | None \<Rightarrow>
            (case rr_on_exhaustion req of
               Fail \<Rightarrow> Err (RE_InsufficientFreeSpace (needed req) largest_available)
             | Grow \<Rightarrow> Err (RE_GrowthRequired (needed req - largest_available))))"

section \<open>The bump allocator\<close>

record region =
  rg_base_address :: u64
  rg_base_file_offset :: u64
  rg_capacity :: u64
  rg_cursor :: u64
  rg_source :: space_source

record carve =
  cv_address :: u64
  cv_file_offset :: u64
  cv_offset_in_region :: u64
  cv_len :: u64

datatype carve_error =
    CE_ZeroAlign
  | CE_RegionFull (ce_requested: u64) (ce_available: u64)
  | CE_Overflow

definition region_new :: "u64 \<Rightarrow> u64 \<Rightarrow> u64 \<Rightarrow> space_source \<Rightarrow> region" where
  "region_new base_address base_file_offset capacity source =
     \<lparr>rg_base_address = base_address, rg_base_file_offset = base_file_offset,
      rg_capacity = capacity, rg_cursor = 0, rg_source = source\<rparr>"

definition plan_region :: "planned_reservation \<Rightarrow> region" where
  "plan_region p = region_new (pr_base_address p) (pr_base_file_offset p) (pr_capacity p) (pr_source p)"

definition region_remaining :: "region \<Rightarrow> u64" where
  "region_remaining r = rg_capacity r - rg_cursor r"

definition region_carve :: "region \<Rightarrow> u64 \<times> u64 \<Rightarrow> carve_error + carve \<times> region" where
  "region_carve r req =
     (let (len, align) = req in
      if align = 0 then Err CE_ZeroAlign
      else
        and_then (ok_or (checked_add (rg_base_address r) (rg_cursor r)) CE_Overflow) (\<lambda>cur_addr.
        and_then (ok_or (round_up cur_addr align) CE_Overflow) (\<lambda>aligned_addr.
          let pad = aligned_addr - cur_addr in
          and_then (ok_or (Option.bind (checked_add (rg_cursor r) pad) (\<lambda>c. checked_add c len)) CE_Overflow)
            (\<lambda>new_cursor.
               if new_cursor > rg_capacity r
               then Err (CE_RegionFull len (rg_capacity r - rg_cursor r))
               else
                 let offset_in_region = rg_cursor r + pad in
                 Ok (\<lparr>cv_address = aligned_addr,
                      cv_file_offset = rg_base_file_offset r + offset_in_region,
                      cv_offset_in_region = offset_in_region, cv_len = len\<rparr>,
                     r\<lparr>rg_cursor := new_cursor\<rparr>)))))"

section \<open>A contract for front-to-back allocators\<close>

text \<open>
  A client makes a sequence of requests; a failed one leaves the allocator as it was. The
  results are the slices handed out, in order.
\<close>

fun run_carves :: "('s \<Rightarrow> 'q \<Rightarrow> 'e + 'c \<times> 's) \<Rightarrow> 's \<Rightarrow> 'q list \<Rightarrow> 'c list \<times> 's" where
  "run_carves carve s [] = ([], s)"
| "run_carves carve s (q # qs) =
     (case carve s q of
        Inl _ \<Rightarrow> run_carves carve s qs
      | Inr (c, s') \<Rightarrow> (case run_carves carve s' qs of (cs, s'') \<Rightarrow> (c # cs, s'')))"

locale bump_allocator =
  fixes carve :: "'s \<Rightarrow> 'q \<Rightarrow> 'e + 'c \<times> 's"
    and inv :: "'s \<Rightarrow> bool"
    and used :: "'s \<Rightarrow> nat"
    and limit :: "'s \<Rightarrow> nat"
    and slice_from :: "'c \<Rightarrow> nat"
    and slice_to :: "'c \<Rightarrow> nat"
  assumes carve_inv: "inv s \<Longrightarrow> carve s q = Inr (c, s') \<Longrightarrow> inv s'"
    and carve_limit: "inv s \<Longrightarrow> carve s q = Inr (c, s') \<Longrightarrow> limit s' = limit s"
    and carve_fresh: "inv s \<Longrightarrow> carve s q = Inr (c, s') \<Longrightarrow> used s \<le> slice_from c"
    and carve_slice: "inv s \<Longrightarrow> carve s q = Inr (c, s') \<Longrightarrow> slice_from c \<le> slice_to c"
    and carve_used: "inv s \<Longrightarrow> carve s q = Inr (c, s') \<Longrightarrow> slice_to c = used s'"
    and inv_used: "inv s \<Longrightarrow> used s \<le> limit s"
begin

lemma run_in_bounds:
  "inv s \<Longrightarrow> run_carves carve s qs = (cs, s') \<Longrightarrow>
   inv s' \<and> limit s' = limit s \<and> used s \<le> used s' \<and>
   (\<forall>c\<in>set cs. used s \<le> slice_from c \<and> slice_from c \<le> slice_to c \<and> slice_to c \<le> used s')"
proof (induction qs arbitrary: s cs s')
  case Nil
  then show ?case by simp
next
  case (Cons q qs)
  show ?case
  proof (cases "carve s q")
    case (Inl e)
    then show ?thesis using Cons by simp
  next
    case (Inr p)
    obtain c t where p: "p = (c, t)" by (cases p)
    obtain ds t' where r: "run_carves carve t qs = (ds, t')" by (cases "run_carves carve t qs")
    then have cs: "cs = c # ds" "s' = t'" using Cons.prems(2) Inr p by auto
    have step: "carve s q = Inr (c, t)" using Inr p by simp
    note laws = carve_inv [OF Cons.prems(1) step] carve_limit [OF Cons.prems(1) step]
      carve_fresh [OF Cons.prems(1) step] carve_slice [OF Cons.prems(1) step]
      carve_used [OF Cons.prems(1) step]
    from Cons.IH [OF laws(1) r] laws show ?thesis by (auto simp: cs)
  qed
qed

lemma run_disjoint:
  "inv s \<Longrightarrow> run_carves carve s qs = (cs, s') \<Longrightarrow>
   sorted_wrt (\<lambda>c d. slice_to c \<le> slice_from d) cs"
proof (induction qs arbitrary: s cs s')
  case Nil
  then show ?case by simp
next
  case (Cons q qs)
  show ?case
  proof (cases "carve s q")
    case (Inl e)
    then show ?thesis using Cons by simp
  next
    case (Inr p)
    obtain c t where p: "p = (c, t)" by (cases p)
    obtain ds t' where r: "run_carves carve t qs = (ds, t')" by (cases "run_carves carve t qs")
    then have cs: "cs = c # ds" using Cons.prems(2) Inr p by auto
    have step: "carve s q = Inr (c, t)" using Inr p by simp
    have t: "inv t" "slice_to c = used t"
      using carve_inv [OF Cons.prems(1) step] carve_used [OF Cons.prems(1) step] by auto
    then show ?thesis
      using Cons.IH [OF t(1) r] run_in_bounds [OF t(1) r] by (auto simp: cs)
  qed
qed

lemma run_within_limit:
  "inv s \<Longrightarrow> run_carves carve s qs = (cs, s') \<Longrightarrow> c \<in> set cs \<Longrightarrow> slice_to c \<le> limit s"
  using run_in_bounds [of s qs cs s'] inv_used [of s'] by fastforce

end

section \<open>Rounding\<close>

text \<open>The least multiple of \<open>a\<close> that is at least \<open>v\<close>.\<close>

definition aligned_base :: "nat \<Rightarrow> nat \<Rightarrow> nat" where
  "aligned_base a v = (if v mod a = 0 then v else v + (a - v mod a))"

lemma aligned_base_dvd: "0 < a \<Longrightarrow> a dvd aligned_base a v"
proof (cases "v mod a = 0")
  case True
  then show ?thesis by (auto simp: aligned_base_def)
next
  case False
  assume a: "0 < a"
  then have "v mod a < a" by simp
  moreover have "v = a * (v div a) + v mod a" by simp
  ultimately have "v + (a - v mod a) = a * (v div a) + a" by linarith
  then show ?thesis using False by (simp add: aligned_base_def)
qed

lemma aligned_base_ge: "v \<le> aligned_base a v"
  by (simp add: aligned_base_def)

lemma aligned_base_least:
  assumes "0 < a" "a dvd m" "v \<le> m"
  shows "aligned_base a v \<le> m"
proof (cases "v mod a = 0")
  case True
  then show ?thesis using assms by (simp add: aligned_base_def)
next
  case False
  obtain k where k: "m = a * k" using assms(2) by blast
  have "v = a * (v div a) + v mod a" by simp
  moreover have "v div a < k"
  proof (rule ccontr)
    assume "\<not> v div a < k"
    then have "a * k \<le> a * (v div a)" by simp
    then show False using False assms(3) k calculation by linarith
  qed
  then have "a * (v div a) + a \<le> a * k"
    by (metis Suc_leI mult_Suc_right add.commute mult_le_mono2)
  moreover have "v mod a < a" using assms(1) by simp
  moreover have "v + (a - v mod a) = a * (v div a) + a"
    using calculation(1,3) by linarith
  ultimately show ?thesis using False k by (simp add: aligned_base_def)
qed

lemma round_up_Some_iff:
  assumes "align \<noteq> 0"
  shows "round_up v align = Some r \<longleftrightarrow>
    aligned_base (unat align) (unat v) < 2 ^ 64 \<and> unat r = aligned_base (unat align) (unat v)"
proof -
  have m: "unat (v mod align) = unat v mod unat align" by (simp add: unat_mod_distrib)
  have lt: "unat v mod unat align < unat align" using assms by (simp add: unat_gt_0)
  then have "v mod align \<le> align" using m by (simp add: word_le_nat_alt)
  then have s: "unat (align - v mod align) = unat align - unat v mod unat align"
    using m by (simp add: unat_sub)
  show ?thesis
  proof (cases "v mod align = 0")
    case True
    then have z: "unat v mod unat align = 0" using m by (metis unat_0)
    have "unat v < 2 ^ 64" using unsigned_less [of v] by simp
    then show ?thesis using True z by (auto simp: round_up_def aligned_base_def word_unat_eq_iff)
  next
    case False
    then have z: "unat v mod unat align \<noteq> 0" using m by (metis unat_eq_zero)
    show ?thesis using False z s by (simp add: round_up_def Let_def checked_add_Some_iff aligned_base_def)
  qed
qed


section \<open>Carving\<close>

definition region_inv :: "region \<Rightarrow> bool" where
  "region_inv r \<longleftrightarrow> rg_cursor r \<le> rg_capacity r"

lemma region_inv_new: "region_inv (region_new b f c s)"
  by (simp add: region_inv_def region_new_def)

text \<open>Where the next slice of a given alignment would start, as a number.\<close>

abbreviation next_address :: "region \<Rightarrow> u64 \<Rightarrow> nat" where
  "next_address r align \<equiv> aligned_base (unat align) (unat (rg_base_address r) + unat (rg_cursor r))"

lemma region_carve_Ok:
  assumes "region_carve r (len, align) = Ok (c, r')"
  shows "align \<noteq> 0"
    and "unat (cv_address c) = next_address r align"
    and "unat (cv_address c) = unat (rg_base_address r) + unat (cv_offset_in_region c)"
    and "unat (rg_cursor r) \<le> unat (cv_offset_in_region c)"
    and "cv_file_offset c = rg_base_file_offset r + cv_offset_in_region c"
    and "cv_len c = len"
    and "unat (rg_cursor r') = unat (cv_offset_in_region c) + unat len"
    and "r' = r\<lparr>rg_cursor := rg_cursor r'\<rparr>"
    and "rg_cursor r' \<le> rg_capacity r"
proof -
  show al: "align \<noteq> 0" using assms by (auto simp: region_carve_def)
  obtain cur where cur: "checked_add (rg_base_address r) (rg_cursor r) = Some cur"
    using assms al by (cases "checked_add (rg_base_address r) (rg_cursor r)") (auto simp: region_carve_def)
  obtain adr where adr: "round_up cur align = Some adr"
    using assms al cur by (cases "round_up cur align") (auto simp: region_carve_def)
  let ?pad = "adr - cur"
  obtain d where d: "checked_add (rg_cursor r) ?pad = Some d"
    using assms al cur adr
    by (cases "checked_add (rg_cursor r) ?pad") (auto simp: region_carve_def Let_def)
  obtain e where e: "checked_add d len = Some e"
    using assms al cur adr d by (cases "checked_add d len") (auto simp: region_carve_def Let_def)
  have full: "\<not> e > rg_capacity r"
    and c: "c = \<lparr>cv_address = adr, cv_file_offset = rg_base_file_offset r + (rg_cursor r + ?pad),
      cv_offset_in_region = rg_cursor r + ?pad, cv_len = len\<rparr>"
    and r': "r' = r\<lparr>rg_cursor := e\<rparr>"
    using assms al cur adr d e by (auto simp: region_carve_def Let_def split: if_splits)
  have cur': "unat cur = unat (rg_base_address r) + unat (rg_cursor r)"
    using cur by (simp add: checked_add_Some_iff)
  have adr': "unat adr = aligned_base (unat align) (unat cur)"
    using adr by (simp add: round_up_Some_iff [OF al])
  have le: "cur \<le> adr" using adr' aligned_base_ge [of "unat cur" "unat align"] by (simp add: word_le_nat_alt)
  have pad: "unat ?pad = unat adr - unat cur" using le by (rule unat_sub_le)
  have dd: "d = rg_cursor r + ?pad" "unat d = unat (rg_cursor r) + unat ?pad"
    using d by (auto simp: checked_add_def checked_add_Some_iff split: if_splits)
      (use d checked_add_Some_iff in blast)
  have ee: "unat e = unat d + unat len" using e by (simp add: checked_add_Some_iff)
  have le': "unat cur \<le> unat adr" using le by (simp add: word_le_nat_alt)
  show "unat (cv_address c) = next_address r align" using adr' cur' by (simp add: c)
  show "unat (cv_address c) = unat (rg_base_address r) + unat (cv_offset_in_region c)"
    using dd pad cur' le' by (simp add: c)
  show "unat (rg_cursor r) \<le> unat (cv_offset_in_region c)" using dd by (simp add: c)
  show "cv_file_offset c = rg_base_file_offset r + cv_offset_in_region c" "cv_len c = len"
    by (simp_all add: c)
  show "unat (rg_cursor r') = unat (cv_offset_in_region c) + unat len" using ee dd by (simp add: c r')
  show "r' = r\<lparr>rg_cursor := rg_cursor r'\<rparr>" by (simp add: r')
  show "rg_cursor r' \<le> rg_capacity r" using full by (simp add: r')
qed

text \<open>Exactly when a carve succeeds: the aligned slice ends inside the region.\<close>

lemma region_carve_complete:
  assumes "align \<noteq> 0" "region_inv r" "unat (rg_base_address r) + unat (rg_capacity r) < 2 ^ 64"
    and "next_address r align + unat len \<le> unat (rg_base_address r) + unat (rg_capacity r)"
  shows "\<exists>c r'. region_carve r (len, align) = Ok (c, r')"
proof -
  have inv: "unat (rg_cursor r) \<le> unat (rg_capacity r)"
    using assms(2) by (simp add: region_inv_def word_le_nat_alt)
  obtain cur where cur: "checked_add (rg_base_address r) (rg_cursor r) = Some cur"
    using inv assms(3) by (simp add: checked_add_def)
  then have cur': "unat cur = unat (rg_base_address r) + unat (rg_cursor r)"
    by (simp add: checked_add_Some_iff)
  have b: "aligned_base (unat align) (unat cur) < 2 ^ 64" using assms(3,4) cur' by simp
  obtain adr where adr: "round_up cur align = Some adr" "unat adr = aligned_base (unat align) (unat cur)"
  proof -
    let ?a = "word_of_nat (aligned_base (unat align) (unat cur)) :: u64"
    have "unat ?a = aligned_base (unat align) (unat cur)"
      using b by (simp add: unsigned_of_nat take_bit_nat_eq_self_iff)
    then show ?thesis using that [of ?a] b by (simp add: round_up_Some_iff [OF assms(1)])
  qed
  have le: "unat cur \<le> unat adr" using adr aligned_base_ge by simp
  then have pad: "unat (adr - cur) = unat adr - unat cur" by (simp add: unat_sub_le word_le_nat_alt)
  have "unat (rg_cursor r) + unat (adr - cur) + unat len \<le> unat (rg_capacity r)"
    using pad le adr(2) cur' assms(4) by simp
  moreover have "unat (rg_capacity r) < 2 ^ 64" using unsigned_less [of "rg_capacity r"] by simp
  ultimately have lt: "unat (rg_cursor r) + unat (adr - cur) + unat len < 2 ^ 64" by simp
  obtain d where d: "checked_add (rg_cursor r) (adr - cur) = Some d"
    using lt by (simp add: checked_add_def)
  then have d': "unat d = unat (rg_cursor r) + unat (adr - cur)" by (simp add: checked_add_Some_iff)
  obtain e where e: "checked_add d len = Some e"
    using lt d' by (simp add: checked_add_def)
  then have "\<not> e > rg_capacity r"
    using d' \<open>unat (rg_cursor r) + unat (adr - cur) + unat len \<le> unat (rg_capacity r)\<close>
    by (simp add: checked_add_Some_iff word_less_nat_alt)
  then show ?thesis using cur adr(1) d e assms(1) by (simp add: region_carve_def Let_def)
qed

interpretation region_alloc: bump_allocator region_carve region_inv
  "\<lambda>r. unat (rg_cursor r)" "\<lambda>r. unat (rg_capacity r)"
  "\<lambda>c. unat (cv_offset_in_region c)" "\<lambda>c. unat (cv_offset_in_region c) + unat (cv_len c)"
proof
  fix s :: region and q c s'
  assume *: "region_carve s q = Ok (c, s')"
  obtain len align where q: "q = (len, align)" by (cases q)
  note ok = region_carve_Ok [OF * [unfolded q]]
  have cap: "rg_capacity s' = rg_capacity s" by (subst ok(8)) simp
  show "region_inv s'" using ok(9) cap by (simp add: region_inv_def)
  show "unat (rg_capacity s') = unat (rg_capacity s)" by (simp add: cap)
  show "unat (rg_cursor s) \<le> unat (cv_offset_in_region c)" by (fact ok(4))
  show "unat (cv_offset_in_region c) \<le> unat (cv_offset_in_region c) + unat (cv_len c)" by simp
  show "unat (cv_offset_in_region c) + unat (cv_len c) = unat (rg_cursor s')"
    using ok(6,7) by simp
next
  fix s show "region_inv s \<Longrightarrow> unat (rg_cursor s) \<le> unat (rg_capacity s)"
    by (simp add: region_inv_def word_le_nat_alt)
qed


lemma run_carves_invariant:
  assumes "P s" "\<And>s q c s'. P s \<Longrightarrow> carve s q = Inr (c, s') \<Longrightarrow> P s' \<and> Q c"
    and "run_carves carve s qs = (cs, s')"
  shows "P s' \<and> (\<forall>c\<in>set cs. Q c)"
  using assms(1,3)
proof (induction qs arbitrary: s cs s')
  case Nil
  then show ?case by simp
next
  case (Cons q qs)
  then show ?case
    using assms(2) [OF Cons.prems(1), of q]
    by (cases "carve s q") (fastforce split: prod.splits)+
qed

text \<open>Slices keep the skew between addresses and file offsets.\<close>

lemma region_run_addresses:
  assumes "run_carves region_carve r qs = (cs, r')" "c \<in> set cs"
  shows "unat (cv_address c) = unat (rg_base_address r) + unat (cv_offset_in_region c)"
    and "cv_file_offset c - cv_address c = rg_base_file_offset r - rg_base_address r"
proof -
  let ?P = "\<lambda>s. rg_base_address s = rg_base_address r \<and> rg_base_file_offset s = rg_base_file_offset r"
  let ?Q = "\<lambda>c. unat (cv_address c) = unat (rg_base_address r) + unat (cv_offset_in_region c) \<and>
                cv_file_offset c = rg_base_file_offset r + cv_offset_in_region c"
  have step: "?P s' \<and> ?Q c" if "?P s" "region_carve s q = Ok (c, s')" for s q c s'
  proof -
    obtain len align where q: "q = (len, align)" by (cases q)
    note ok = region_carve_Ok [OF that(2) [unfolded q]]
    have "?P s'" using that(1) by (subst (1 2) ok(8)) simp
    then show ?thesis using ok(3,5) that(1) by simp
  qed
  have "?P r' \<and> (\<forall>c\<in>set cs. ?Q c)"
    by (rule run_carves_invariant [where P = ?P and carve = region_carve, OF _ _ assms(1)])
      (use step in blast)+
  then have q: "?Q c" using assms(2) by blast
  then show "unat (cv_address c) = unat (rg_base_address r) + unat (cv_offset_in_region c)" by simp
  moreover have "unat (cv_address c) < 2 ^ 64" using unsigned_less [of "cv_address c"] by simp
  ultimately have "cv_address c = rg_base_address r + cv_offset_in_region c"
    by (simp add: word_unat_eq_iff unat_word_ariths)
  then show "cv_file_offset c - cv_address c = rg_base_file_offset r - rg_base_address r"
    using q by simp
qed

section \<open>Planning\<close>

text \<open>
  What a free extent offers to a request, stated over numbers: the source is allowed, the least
  aligned address \<open>b\<close> of the extent exists and \<open>u\<close> bytes remain from it to the end.
\<close>

fun source_allowed :: "reserve_request \<Rightarrow> space_source \<Rightarrow> bool" where
  "source_allowed req HeaderPad = rr_allow_headerpad req"
| "source_allowed req (GrewText _) = False"
| "source_allowed req _ = True"

definition offers :: "reserve_request \<Rightarrow> free_extent \<Rightarrow> nat \<Rightarrow> nat \<Rightarrow> bool" where
  "offers req ext b u \<longleftrightarrow>
     source_allowed req (fe_source ext) \<and>
     b = aligned_base (unat (rr_align req)) (unat (fe_address ext)) \<and> b < 2 ^ 64 \<and>
     b + u = unat (fe_address ext) + unat (fe_len ext)"

text \<open>The candidate an extent gives, as the loop computes it.\<close>

definition candidate_of :: "reserve_request \<Rightarrow> free_extent \<Rightarrow> candidate option" where
  "candidate_of req ext =
     (if \<not> source_allowed req (fe_source ext) then None
      else
        case round_up (fe_address ext) (rr_align req) of
          None \<Rightarrow> None
        | Some b \<Rightarrow>
            if b - fe_address ext > fe_len ext then None
            else Some (fe_len ext - (b - fe_address ext), fe_source ext, b,
                       fe_file_offset ext + (b - fe_address ext)))"

definition usable_of :: "candidate \<Rightarrow> u64" where "usable_of c = fst c"

definition better :: "candidate option \<Rightarrow> candidate \<Rightarrow> candidate option" where
  "better best c = Some (case best of None \<Rightarrow> c | Some cur \<Rightarrow> pick_better cur c)"

lemma plan_step_candidate:
  "plan_step req ext (best, largest) =
     (case candidate_of req ext of
        None \<Rightarrow> (best, largest)
      | Some c \<Rightarrow> (if usable_of c < needed req then best else better best c, max largest (usable_of c)))"
proof (cases "source_allowed req (fe_source ext)")
  case False
  then show ?thesis
    by (cases "fe_source ext") (simp_all add: plan_step_def candidate_of_def)
next
  case True
  have "plan_step req ext (best, largest) =
        (case round_up (fe_address ext) (rr_align req) of
           None \<Rightarrow> (best, largest)
         | Some b \<Rightarrow>
             if b - fe_address ext > fe_len ext then (best, largest)
             else let u = fe_len ext - (b - fe_address ext);
                      l = (if u > largest then u else largest);
                      c = (u, fe_source ext, b, fe_file_offset ext + (b - fe_address ext))
                  in if u < needed req then (best, l) else (better best c, l))"
    using True
    by (cases "fe_source ext") (auto simp: plan_step_def Let_def better_def split: option.split)
  then show ?thesis
    using True
    by (auto simp: candidate_of_def Let_def usable_of_def max_def split: option.split)
qed

lemma candidate_of_Some:
  assumes "rr_align req \<noteq> 0" "candidate_of req ext = Some (u, s, b, f)"
  shows "offers req ext (unat b) (unat u)" "s = fe_source ext"
    "f - b = fe_file_offset ext - fe_address ext"
proof -
  obtain r where r: "round_up (fe_address ext) (rr_align req) = Some r"
    and a: "source_allowed req (fe_source ext)"
    using assms(2) by (auto simp: candidate_of_def split: if_splits option.splits)
  then have le: "\<not> b - fe_address ext > fe_len ext" and b: "b = r"
    and u: "u = fe_len ext - (b - fe_address ext)" and s: "s = fe_source ext"
    and f: "f = fe_file_offset ext + (b - fe_address ext)"
    using assms(2) by (auto simp: candidate_of_def split: if_splits)
  have rb: "unat b = aligned_base (unat (rr_align req)) (unat (fe_address ext))"
    "aligned_base (unat (rr_align req)) (unat (fe_address ext)) < 2 ^ 64"
    using r b round_up_Some_iff [OF assms(1)] by auto
  have ge: "fe_address ext \<le> b" using rb(1) aligned_base_ge by (simp add: word_le_nat_alt)
  then have p: "unat (b - fe_address ext) = unat b - unat (fe_address ext)" by (rule unat_sub_le)
  have "unat u = unat (fe_len ext) - (unat b - unat (fe_address ext))"
    using le u p by (simp add: unat_sub_le not_less)
  moreover have "unat b - unat (fe_address ext) \<le> unat (fe_len ext)"
    using le p by (simp add: not_less word_le_nat_alt)
  moreover have "unat (fe_address ext) \<le> unat b" using ge by (simp add: word_le_nat_alt)
  ultimately show "offers req ext (unat b) (unat u)"
    using rb a by (simp add: offers_def)
  show "s = fe_source ext" by (fact s)
  show "f - b = fe_file_offset ext - fe_address ext" by (simp add: f)
qed

lemma candidate_of_offers:
  assumes al: "rr_align req \<noteq> 0" and o: "offers req ext b u"
  shows "\<exists>c. candidate_of req ext = Some c \<and> unat (usable_of c) = u \<and> unat (fst (snd (snd c))) = b"
proof -
  from o have a: "source_allowed req (fe_source ext)" and b: "b < 2 ^ 64"
    "b = aligned_base (unat (rr_align req)) (unat (fe_address ext))"
    and bu: "b + u = unat (fe_address ext) + unat (fe_len ext)" by (auto simp: offers_def)
  let ?r = "word_of_nat b :: u64"
  have r: "unat ?r = b" using b by (simp add: unsigned_of_nat take_bit_nat_eq_self_iff)
  then have ru: "round_up (fe_address ext) (rr_align req) = Some ?r"
    using b by (simp add: round_up_Some_iff [OF al])
  have ge: "unat (fe_address ext) \<le> b" using b(2) aligned_base_ge by simp
  then have p: "unat (?r - fe_address ext) = b - unat (fe_address ext)"
    using r by (simp add: unat_sub_le word_le_nat_alt)
  then have "\<not> ?r - fe_address ext > fe_len ext"
    using bu ge by (simp add: not_less word_le_nat_alt)
  moreover from this have "unat (fe_len ext - (?r - fe_address ext)) = u"
    using p bu ge by (simp add: not_less unat_sub_le)
  ultimately show ?thesis using a ru r by (simp add: candidate_of_def usable_of_def)
qed

text \<open>The order of \<open>pick_better\<close>: tighter fit, then cheaper source, then lower address.\<close>

definition candidate_key :: "candidate \<Rightarrow> u64 \<times> u8 \<times> u64" where
  "candidate_key c = (case c of (u, s, b, _) \<Rightarrow> (u, source_rank s, b))"

definition key_le :: "u64 \<times> u8 \<times> u64 \<Rightarrow> u64 \<times> u8 \<times> u64 \<Rightarrow> bool" where
  "key_le k l = (case (k, l) of ((u, s, b), (u', s', b')) \<Rightarrow>
     u < u' \<or> (u = u' \<and> (s < s' \<or> (s = s' \<and> b \<le> b'))))"

lemma key_le_refl: "key_le k k"
  by (auto simp: key_le_def split: prod.splits)

lemma key_le_trans: "key_le k l \<Longrightarrow> key_le l m \<Longrightarrow> key_le k m"
  by (auto simp: key_le_def split: prod.splits)

lemma pick_better_key:
  "pick_better a b \<in> {a, b}"
  "key_le (candidate_key (pick_better a b)) (candidate_key a)"
  "key_le (candidate_key (pick_better a b)) (candidate_key b)"
  by (auto simp: pick_better_def key_le_def candidate_key_def split: prod.splits)

definition fitting :: "reserve_request \<Rightarrow> free_extent list \<Rightarrow> candidate set" where
  "fitting req exts =
     {c. \<exists>ext\<in>set exts. candidate_of req ext = Some c \<and> \<not> usable_of c < needed req}"

lemma plan_fold:
  assumes "fold (plan_step req) exts (None, 0) = (best, largest)"
  shows "(case best of None \<Rightarrow> fitting req exts = {}
          | Some c \<Rightarrow> c \<in> fitting req exts \<and>
              (\<forall>d\<in>fitting req exts. key_le (candidate_key c) (candidate_key d)))"
    and "\<forall>ext\<in>set exts. \<forall>c. candidate_of req ext = Some c \<longrightarrow> usable_of c \<le> largest"
    and "largest = 0 \<or> (\<exists>ext\<in>set exts. \<exists>c. candidate_of req ext = Some c \<and> usable_of c = largest)"
  using assms
proof (induction exts arbitrary: best largest rule: rev_induct)
  case Nil
  { case 1 then show ?case by (auto simp: fitting_def) }
  { case 2 then show ?case by simp }
  { case 3 then show ?case by simp }
next
  case (snoc ext exts)
  obtain b l where bl: "fold (plan_step req) exts (None, 0) = (b, l)"
    by (cases "fold (plan_step req) exts (None, 0)")
  note IH = snoc(1-3) [OF bl]
  have res: "fold (plan_step req) (exts @ [ext]) (None, 0) = plan_step req ext (b, l)" by (simp add: bl)
  have fit: "fitting req (exts @ [ext]) = fitting req exts \<union>
     (case candidate_of req ext of None \<Rightarrow> {} | Some c \<Rightarrow> if usable_of c < needed req then {} else {c})"
    by (auto simp: fitting_def split: option.splits if_splits)
  { case 1
    show ?case
    proof (cases "\<exists>c. candidate_of req ext = Some c \<and> \<not> usable_of c < needed req")
      case False
      then have "best = b" "fitting req (exts @ [ext]) = fitting req exts"
        using 1 res fit by (auto simp: plan_step_candidate split: option.splits if_splits)
      then show ?thesis using IH(1) by (simp only:)
    next
      case True
      then obtain c where c: "candidate_of req ext = Some c" "\<not> usable_of c < needed req" by blast
      then have best: "best = better b c" and f: "fitting req (exts @ [ext]) = insert c (fitting req exts)"
        using 1 res fit by (auto simp: plan_step_candidate)
      show ?thesis
      proof (cases b)
        case None
        then show ?thesis using IH(1) best f by (simp add: better_def key_le_refl)
      next
        case (Some cur)
        have "pick_better cur c \<in> insert c (fitting req exts)"
          using pick_better_key(1) [of cur c] IH(1) Some by auto
        moreover have "key_le (candidate_key (pick_better cur c)) (candidate_key d)"
          if "d \<in> insert c (fitting req exts)" for d
        proof (cases "d = c")
          case False
          then have "key_le (candidate_key cur) (candidate_key d)" using that IH(1) Some by simp
          then show ?thesis by (rule key_le_trans [OF pick_better_key(2)])
        qed (simp add: pick_better_key(3))
        ultimately show ?thesis using best f Some by (simp add: better_def)
      qed
    qed }
  { case 2
    then show ?case
      using IH(2) res
      by (auto simp: plan_step_candidate max_def not_le split: option.splits if_splits
            intro: order_trans) }
  { case 3
    then show ?case
      using IH(3) res
      by (auto simp: plan_step_candidate max_def split: option.splits if_splits) }
qed

lemma plan_reservation_cases:
  assumes "rr_align req \<noteq> 0"
  obtains c largest where "fold (plan_step req) exts (None, 0) = (Some c, largest)"
    "plan_reservation exts req = Ok \<lparr>pr_base_address = fst (snd (snd c)),
       pr_base_file_offset = snd (snd (snd c)), pr_capacity = needed req,
       pr_align = rr_align req, pr_source = fst (snd c)\<rparr>"
  | largest where "fold (plan_step req) exts (None, 0) = (None, largest)"
    "plan_reservation exts req =
       (case rr_on_exhaustion req of
          Fail \<Rightarrow> Err (RE_InsufficientFreeSpace (needed req) largest)
        | Grow \<Rightarrow> Err (RE_GrowthRequired (needed req - largest)))"
proof -
  obtain best largest where f: "fold (plan_step req) exts (None, 0) = (best, largest)"
    by (cases "fold (plan_step req) exts (None, 0)")
  show ?thesis
  proof (cases best)
    case None
    then show ?thesis using that(2) f assms by (simp add: plan_reservation_def)
  next
    case (Some c)
    then show ?thesis using that(1) f assms
      by (cases c) (simp add: plan_reservation_def)
  qed
qed


section \<open>Properties\<close>

text \<open>C23: a run of carves on a region never overlaps. Whatever lengths and alignments are
  asked for, and whichever carves fail, the slices handed out lie one after the other in the
  address space, none starts below what was used or ends past the region, and each keeps the
  region's distance between address and file offset.\<close>

theorem region_carves_disjoint:
  assumes "region_inv r" "run_carves region_carve r qs = (cs, r')"
  shows "sorted_wrt (\<lambda>c d. unat (cv_address c) + unat (cv_len c) \<le> unat (cv_address d)) cs \<and>
    (\<forall>c\<in>set cs.
       unat (rg_base_address r) + unat (rg_cursor r) \<le> unat (cv_address c) \<and>
       unat (cv_address c) + unat (cv_len c) \<le> unat (rg_base_address r) + unat (rg_capacity r) \<and>
       cv_file_offset c - cv_address c = rg_base_file_offset r - rg_base_address r)"
proof
  note adr = region_run_addresses [OF assms(2)]
  have "sorted_wrt (\<lambda>c d. unat (cv_offset_in_region c) + unat (cv_len c) \<le> unat (cv_offset_in_region d)) cs"
    by (rule region_alloc.run_disjoint [OF assms])
  then show "sorted_wrt (\<lambda>c d. unat (cv_address c) + unat (cv_len c) \<le> unat (cv_address d)) cs"
    by (rule sorted_wrt_mono_rel [rotated]) (simp add: adr(1))
  show "\<forall>c\<in>set cs.
       unat (rg_base_address r) + unat (rg_cursor r) \<le> unat (cv_address c) \<and>
       unat (cv_address c) + unat (cv_len c) \<le> unat (rg_base_address r) + unat (rg_capacity r) \<and>
       cv_file_offset c - cv_address c = rg_base_file_offset r - rg_base_address r"
  proof
    fix c assume c: "c \<in> set cs"
    have "unat (rg_cursor r) \<le> unat (cv_offset_in_region c)"
      using region_alloc.run_in_bounds [OF assms] c by blast
    moreover have "unat (cv_offset_in_region c) + unat (cv_len c) \<le> unat (rg_capacity r)"
      by (rule region_alloc.run_within_limit [OF assms c])
    ultimately show "unat (rg_base_address r) + unat (rg_cursor r) \<le> unat (cv_address c) \<and>
       unat (cv_address c) + unat (cv_len c) \<le> unat (rg_base_address r) + unat (rg_capacity r) \<and>
       cv_file_offset c - cv_address c = rg_base_file_offset r - rg_base_address r"
      using adr [OF c] by simp
  qed
qed

theorem region_carves_disjoint_witness:
  "let (cs, r') = run_carves region_carve (region_new 0x4001 0x101 0x100 TailPad)
                    [(0x40, 4), (0x400, 4), (0x10, 16)]
   in length cs = 2 \<and>
      sorted_wrt (\<lambda>c d. unat (cv_address c) + unat (cv_len c) \<le> unat (cv_address d)) cs"
proof -
  let ?r = "region_new 0x4001 0x101 0x100 TailPad" and ?qs = "[(0x40, 4), (0x400, 4), (0x10, 16)] :: (u64 \<times> u64) list"
  obtain cs r' where run: "run_carves region_carve ?r ?qs = (cs, r')" by (cases "run_carves region_carve ?r ?qs")
  have "length (fst (run_carves region_carve ?r ?qs)) = 2"
    by (simp add: region_carve_def region_new_def checked_add_def round_up_def Let_def)
  then show ?thesis
    using region_carves_disjoint [OF region_inv_new run] run by simp
qed

text \<open>C32: a carve of an aligned slice succeeds exactly when the slice fits: starting at the
  least aligned address not below the cursor it must end inside the region. The slice returned
  starts at that address.\<close>

theorem region_carve_succeeds_iff_fits:
  assumes "align \<noteq> 0" "region_inv r" "unat (rg_base_address r) + unat (rg_capacity r) < 2 ^ 64"
  shows "(\<exists>c r'. region_carve r (len, align) = Ok (c, r') \<and>
             unat (cv_address c) = next_address r align \<and> unat align dvd unat (cv_address c)) \<longleftrightarrow>
         next_address r align + unat len \<le> unat (rg_base_address r) + unat (rg_capacity r)"
proof
  assume "\<exists>c r'. region_carve r (len, align) = Ok (c, r') \<and>
             unat (cv_address c) = next_address r align \<and> unat align dvd unat (cv_address c)"
  then obtain c r' where c: "region_carve r (len, align) = Ok (c, r')" by blast
  from region_carve_Ok [OF c] show
    "next_address r align + unat len \<le> unat (rg_base_address r) + unat (rg_capacity r)"
    by (simp add: word_le_nat_alt)
next
  assume "next_address r align + unat len \<le> unat (rg_base_address r) + unat (rg_capacity r)"
  from region_carve_complete [OF assms this] obtain c r' where c: "region_carve r (len, align) = Ok (c, r')"
    by blast
  have "0 < unat align" using assms(1) by (simp add: unat_gt_0)
  then show "\<exists>c r'. region_carve r (len, align) = Ok (c, r') \<and>
             unat (cv_address c) = next_address r align \<and> unat align dvd unat (cv_address c)"
    using c region_carve_Ok(2) [OF c] aligned_base_dvd by auto
qed

theorem region_carve_succeeds_iff_fits_witness:
  "\<exists>c r'. region_carve (region_new 0x4001 0 0x10 TailPad) (13, 4) = Ok (c, r')"
  using region_carve_succeeds_iff_fits [of 4 "region_new 0x4001 0 0x10 TailPad" 13]
  by (auto simp: region_new_def region_inv_def aligned_base_def)

text \<open>C33: the plan is a best fit. When \<open>plan_reservation\<close> succeeds, the span it returns is
  aligned, has the capacity asked for, starts at the least aligned address of an allowed free
  extent of its source, ends inside that extent, keeps the extent's file-offset skew, and no
  allowed extent that could hold the request leaves less room, or as much at a cheaper source
  or, source being equal, at a lower address.\<close>

theorem plan_reservation_best_fit:
  assumes "plan_reservation exts req = Ok p"
  shows "\<exists>ext\<in>set exts. \<exists>u. offers req ext (unat (pr_base_address p)) u \<and>
      pr_capacity p = needed req \<and> unat (pr_capacity p) \<le> u \<and>
      pr_source p = fe_source ext \<and>
      unat (rr_align req) dvd unat (pr_base_address p) \<and>
      pr_base_file_offset p - pr_base_address p = fe_file_offset ext - fe_address ext \<and>
      (\<forall>ext'\<in>set exts. \<forall>b' u'. offers req ext' b' u' \<and> unat (needed req) \<le> u' \<longrightarrow>
         u < u' \<or> (u = u' \<and>
           (source_rank (fe_source ext) < source_rank (fe_source ext') \<or>
            (source_rank (fe_source ext) = source_rank (fe_source ext') \<and>
             unat (pr_base_address p) \<le> b'))))"
proof -
  have al: "rr_align req \<noteq> 0" using assms by (auto simp: plan_reservation_def)
  show ?thesis
  proof (cases rule: plan_reservation_cases [OF al, of exts])
    case (2 largest)
    then show ?thesis using assms by (cases "rr_on_exhaustion req") simp_all
  next
    case (1 c largest)
    obtain u s b f where c: "c = (u, s, b, f)" by (cases c)
    have p: "pr_base_address p = b" "pr_base_file_offset p = f" "pr_capacity p = needed req"
      "pr_source p = s"
      using 1(2) assms c by auto
    note fold = plan_fold(1) [OF 1(1), simplified]
    obtain ext where e: "ext \<in> set exts" "candidate_of req ext = Some (u, s, b, f)" "\<not> u < needed req"
      using fold c by (auto simp: fitting_def usable_of_def)
    note cand = candidate_of_Some [OF al e(2)]
    have best: "unat u < u' \<or> (unat u = u' \<and>
        (source_rank (fe_source ext) < source_rank (fe_source ext') \<or>
         (source_rank (fe_source ext) = source_rank (fe_source ext') \<and> unat b \<le> b')))"
      if x: "ext' \<in> set exts" "offers req ext' b' u'" "unat (needed req) \<le> u'" for ext' b' u'
    proof -
      obtain d where d: "candidate_of req ext' = Some d" "unat (usable_of d) = u'" "unat (fst (snd (snd d))) = b'"
        using candidate_of_offers [OF al x(2)] by blast
      obtain ud sd bd fd where dd: "d = (ud, sd, bd, fd)" by (cases d)
      have "d \<in> fitting req exts"
        using x(1,3) d by (auto simp: fitting_def word_less_nat_alt)
      then have "key_le (candidate_key c) (candidate_key d)" using fold by blast
      then show ?thesis
        using candidate_of_Some(2) [OF al d(1) [unfolded dd]] cand(2) d(2,3)
        by (auto simp: key_le_def candidate_key_def c dd usable_of_def word_less_nat_alt word_le_nat_alt)
    qed
    have "0 < unat (rr_align req)" using al by (simp add: unat_gt_0)
    then have "unat (rr_align req) dvd unat b" using cand(1) aligned_base_dvd by (simp add: offers_def)
    moreover have "unat (needed req) \<le> unat u" using e(3) by (simp add: not_less word_le_nat_alt)
    ultimately show ?thesis
      unfolding p using e(1) cand best
      by (intro bexI [of _ ext] exI [of _ "unat u"]) simp_all
  qed
qed

text \<open>C34: the planner fails only when it must, and reports exact figures. With a non-zero
  alignment it returns an error exactly when no allowed extent offers the bytes needed; the
  error then carries the largest room any allowed extent offers (0 when there is none), or the
  positive number of bytes missing.\<close>

theorem plan_reservation_error_exact:
  assumes "rr_align req \<noteq> 0"
  shows "case plan_reservation exts req of
      Inr p \<Rightarrow> \<exists>ext\<in>set exts. \<exists>b u. offers req ext b u \<and> unat (needed req) \<le> u
    | Inl e \<Rightarrow>
        (\<exists>largest :: u64.
           (\<forall>ext\<in>set exts. \<forall>b u. offers req ext b u \<longrightarrow> u < unat (needed req) \<and> u \<le> unat largest) \<and>
           (largest = 0 \<or> (\<exists>ext\<in>set exts. \<exists>b. offers req ext b (unat largest))) \<and>
           e = (case rr_on_exhaustion req of
                  Fail \<Rightarrow> RE_InsufficientFreeSpace (needed req) largest
                | Grow \<Rightarrow> RE_GrowthRequired (needed req - largest)) \<and>
           unat (needed req - largest) = unat (needed req) - unat largest)"
proof (cases rule: plan_reservation_cases [OF assms, of exts])
  case (1 c largest)
  obtain u s b f where c: "c = (u, s, b, f)" by (cases c)
  obtain ext where e: "ext \<in> set exts" "candidate_of req ext = Some (u, s, b, f)" "\<not> u < needed req"
    using plan_fold(1) [OF 1(1)] c by (auto simp: fitting_def usable_of_def)
  have "unat (needed req) \<le> unat u" using e(3) by (simp add: not_less word_le_nat_alt)
  then show ?thesis using 1(2) e(1) candidate_of_Some(1) [OF assms e(2)] by auto
next
  case (2 largest)
  note f = plan_fold [OF 2(1), simplified]
  have none: "u < unat (needed req) \<and> u \<le> unat largest"
    if x: "ext \<in> set exts" "offers req ext b u" for ext b u
  proof -
    obtain d where d: "candidate_of req ext = Some d" "unat (usable_of d) = u"
      using candidate_of_offers [OF assms x(2)] by blast
    have "d \<notin> fitting req exts" using f(1) by blast
    moreover have "usable_of d \<le> largest" using plan_fold(2) [OF 2(1)] d(1) x(1) by blast
    ultimately show ?thesis
      using d x(1) by (auto simp: fitting_def word_less_nat_alt word_le_nat_alt)
  qed
  have some: "largest = 0 \<or> (\<exists>ext\<in>set exts. \<exists>b. offers req ext b (unat largest))"
  proof (cases "largest = 0")
    case False
    then obtain ext c where x: "ext \<in> set exts" "candidate_of req ext = Some c" "usable_of c = largest"
      using f(3) by blast
    obtain u s b f' where c: "c = (u, s, b, f')" by (cases c)
    show ?thesis using candidate_of_Some(1) [OF assms x(2) [unfolded c]] x(1,3) c
      by (auto simp: usable_of_def)
  qed simp
  have "largest \<le> needed req"
    using some none by (fastforce simp: word_le_nat_alt)
  then have "unat (needed req - largest) = unat (needed req) - unat largest" by (rule unat_sub_le)
  then show ?thesis
    using 2(2) none some by (cases "rr_on_exhaustion req") (auto intro!: exI [of _ largest])
qed

definition sample_extents :: "free_extent list" where
  "sample_extents =
     [\<lparr>fe_address = 0x1000, fe_file_offset = 0, fe_len = 0x100, fe_source = TailPad\<rparr>,
      \<lparr>fe_address = 0x2002, fe_file_offset = 0x802, fe_len = 0x40, fe_source = InterSectionHole\<rparr>]"

theorem plan_reservation_best_fit_witness:
  "\<exists>ext\<in>set sample_extents. fe_source ext = InterSectionHole \<and> offers (exact 0x20) ext 0x2004 0x3e"
proof -
  have p: "plan_reservation sample_extents (exact 0x20) =
      Ok \<lparr>pr_base_address = 0x2004, pr_base_file_offset = 0x804, pr_capacity = 0x20, pr_align = 4,
          pr_source = InterSectionHole\<rparr>"
    by (simp add: plan_reservation_def plan_step_def sample_extents_def exact_def needed_def
        saturating_add_def checked_add_def round_up_def pick_better_def Let_def)
  from plan_reservation_best_fit [OF p] obtain ext u where
    "ext \<in> set sample_extents" "offers (exact 0x20) ext 0x2004 u" "InterSectionHole = fe_source ext"
    by auto
  then show ?thesis by (auto simp: sample_extents_def offers_def)
qed

theorem plan_reservation_error_exact_witness:
  "plan_reservation sample_extents (exact 0x200) = Err (RE_InsufficientFreeSpace 0x200 0x100) \<and>
   \<not> (\<exists>ext\<in>set sample_extents. \<exists>b u. offers (exact 0x200) ext b u \<and> 0x200 \<le> u)"
proof -
  have p: "plan_reservation sample_extents (exact 0x200) = Err (RE_InsufficientFreeSpace 0x200 0x100)"
    by (simp add: plan_reservation_def plan_step_def sample_extents_def exact_def needed_def
        saturating_add_def checked_add_def round_up_def Let_def)
  have "rr_align (exact 0x200) \<noteq> 0" "needed (exact 0x200) = 0x200"
    by (simp_all add: exact_def needed_def saturating_add_def checked_add_def)
  then show ?thesis using plan_reservation_error_exact [of "exact 0x200" sample_extents] p by fastforce
qed

end
