(* ===== verification/A64_Opcode.thy ===== *)
theory A64_Opcode
  imports Prelude
begin

text \<open>
  The row type of the AArch64 opcode table (\<open>src/src/isa/aarch64/table.rs\<close>): the mnemonics, the
  operand kinds, the instruction classes, the flag words, and a row with its accessors. A
  Rust enum constructor \<open>X\<close> is \<open>M_X\<close>, \<open>O_X\<close> or \<open>C_X\<close> here. Matching on a string is a
  chain of comparisons, in the order of the arms.
\<close>

section \<open>Mnemonics\<close>

datatype (plugins only: size) aarch64_mnemonic =
    M_Adc | M_Add | M_Adds | M_And | M_Adr | M_Adrp | M_B | M_Beq | M_Bne | M_Bcs | M_Bcc |
    M_Bmi | M_Bpl | M_Bvs | M_Bvc | M_Bhi | M_Bls | M_Bge | M_Blt | M_Bgt | M_Ble | M_Bl |
    M_Blr | M_Br | M_Brk | M_Bfxil | M_Cbnz | M_Cbz | M_Dcps1 | M_Dcps2 | M_Dcps3 | M_Drps |
    M_Eret | M_Hlt | M_Hvc | M_Ret | M_Smc | M_Svc | M_Ccmp | M_Cinc | M_Cmn | M_Cmp | M_Csel |
    M_Ldp | M_Ldr | M_Ldur | M_Ldxr | M_Lsl | M_Lsr | M_Madd | M_Mov | M_Movk | M_Msub |
    M_Eor | M_Nop | M_Stp | M_Str | M_Stur | M_Stxr | M_Sub | M_Subs | M_Tbnz | M_Tbz |
    M_Ubfx | M_Other string

text \<open>The arms of \<open>parse\<close>: the spellings a named mnemonic has.\<close>

definition mnemonic_names :: "(string \<times> aarch64_mnemonic) list" where
  "mnemonic_names =
    [(''adc'', M_Adc), (''add'', M_Add), (''adds'', M_Adds), (''and'', M_And),
     (''adr'', M_Adr), (''adrp'', M_Adrp), (''b'', M_B), (''b.eq'', M_Beq), (''beq'', M_Beq),
     (''b.ne'', M_Bne), (''bne'', M_Bne), (''b.cs'', M_Bcs), (''b.hs'', M_Bcs),
     (''bcs'', M_Bcs), (''b.cc'', M_Bcc), (''b.lo'', M_Bcc), (''bcc'', M_Bcc),
     (''b.mi'', M_Bmi), (''bmi'', M_Bmi), (''b.pl'', M_Bpl), (''bpl'', M_Bpl),
     (''b.vs'', M_Bvs), (''bvs'', M_Bvs), (''b.vc'', M_Bvc), (''bvc'', M_Bvc),
     (''b.hi'', M_Bhi), (''bhi'', M_Bhi), (''b.ls'', M_Bls), (''bls'', M_Bls),
     (''b.ge'', M_Bge), (''bge'', M_Bge), (''b.lt'', M_Blt), (''blt'', M_Blt),
     (''b.gt'', M_Bgt), (''bgt'', M_Bgt), (''b.le'', M_Ble), (''ble'', M_Ble), (''bl'', M_Bl),
     (''blr'', M_Blr), (''br'', M_Br), (''brk'', M_Brk), (''bfxil'', M_Bfxil),
     (''cbnz'', M_Cbnz), (''cbz'', M_Cbz), (''dcps1'', M_Dcps1), (''dcps2'', M_Dcps2),
     (''dcps3'', M_Dcps3), (''drps'', M_Drps), (''eret'', M_Eret), (''hlt'', M_Hlt),
     (''hvc'', M_Hvc), (''ret'', M_Ret), (''smc'', M_Smc), (''svc'', M_Svc),
     (''ccmp'', M_Ccmp), (''cinc'', M_Cinc), (''cmn'', M_Cmn), (''cmp'', M_Cmp),
     (''csel'', M_Csel), (''ldp'', M_Ldp), (''ldr'', M_Ldr), (''ldur'', M_Ldur),
     (''ldxr'', M_Ldxr), (''lsl'', M_Lsl), (''lsr'', M_Lsr), (''madd'', M_Madd),
     (''mov'', M_Mov), (''movk'', M_Movk), (''msub'', M_Msub), (''eor'', M_Eor),
     (''nop'', M_Nop), (''stp'', M_Stp), (''str'', M_Str), (''stur'', M_Stur),
     (''stxr'', M_Stxr), (''sub'', M_Sub), (''subs'', M_Subs), (''tbnz'', M_Tbnz),
     (''tbz'', M_Tbz), (''ubfx'', M_Ubfx)]"

definition mnemonic_parse :: "string \<Rightarrow> aarch64_mnemonic" where
  "mnemonic_parse s = (case map_of mnemonic_names s of Some m \<Rightarrow> m | None \<Rightarrow> M_Other s)"

primrec table_name :: "aarch64_mnemonic \<Rightarrow> string" where
  "table_name M_Adc = ''adc''"
| "table_name M_Add = ''add''"
| "table_name M_Adds = ''adds''"
| "table_name M_And = ''and''"
| "table_name M_Adr = ''adr''"
| "table_name M_Adrp = ''adrp''"
| "table_name M_B = ''b''"
| "table_name M_Beq = ''beq''"
| "table_name M_Bne = ''bne''"
| "table_name M_Bcs = ''bcs''"
| "table_name M_Bcc = ''bcc''"
| "table_name M_Bmi = ''bmi''"
| "table_name M_Bpl = ''bpl''"
| "table_name M_Bvs = ''bvs''"
| "table_name M_Bvc = ''bvc''"
| "table_name M_Bhi = ''bhi''"
| "table_name M_Bls = ''bls''"
| "table_name M_Bge = ''bge''"
| "table_name M_Blt = ''blt''"
| "table_name M_Bgt = ''bgt''"
| "table_name M_Ble = ''ble''"
| "table_name M_Bl = ''bl''"
| "table_name M_Blr = ''blr''"
| "table_name M_Br = ''br''"
| "table_name M_Brk = ''brk''"
| "table_name M_Bfxil = ''bfxil''"
| "table_name M_Cbnz = ''cbnz''"
| "table_name M_Cbz = ''cbz''"
| "table_name M_Dcps1 = ''dcps1''"
| "table_name M_Dcps2 = ''dcps2''"
| "table_name M_Dcps3 = ''dcps3''"
| "table_name M_Drps = ''drps''"
| "table_name M_Eret = ''eret''"
| "table_name M_Hlt = ''hlt''"
| "table_name M_Hvc = ''hvc''"
| "table_name M_Ret = ''ret''"
| "table_name M_Smc = ''smc''"
| "table_name M_Svc = ''svc''"
| "table_name M_Ccmp = ''ccmp''"
| "table_name M_Cinc = ''cinc''"
| "table_name M_Cmn = ''cmn''"
| "table_name M_Cmp = ''cmp''"
| "table_name M_Csel = ''csel''"
| "table_name M_Ldp = ''ldp''"
| "table_name M_Ldr = ''ldr''"
| "table_name M_Ldur = ''ldur''"
| "table_name M_Ldxr = ''ldxr''"
| "table_name M_Lsl = ''lsl''"
| "table_name M_Lsr = ''lsr''"
| "table_name M_Madd = ''madd''"
| "table_name M_Mov = ''mov''"
| "table_name M_Movk = ''movk''"
| "table_name M_Msub = ''msub''"
| "table_name M_Eor = ''eor''"
| "table_name M_Nop = ''nop''"
| "table_name M_Stp = ''stp''"
| "table_name M_Str = ''str''"
| "table_name M_Stur = ''stur''"
| "table_name M_Stxr = ''stxr''"
| "table_name M_Sub = ''sub''"
| "table_name M_Subs = ''subs''"
| "table_name M_Tbnz = ''tbnz''"
| "table_name M_Tbz = ''tbz''"
| "table_name M_Ubfx = ''ubfx''"
| "table_name (M_Other s) = s"

definition mnemonic_as_str :: "aarch64_mnemonic \<Rightarrow> string" where
  "mnemonic_as_str m = table_name m"

definition display_alias :: "aarch64_mnemonic \<Rightarrow> string option" where
  "display_alias m = map_of
    [(''beq'', ''b.eq''), (''bne'', ''b.ne''), (''bcs'', ''b.hs''), (''bcc'', ''b.lo''),
     (''bmi'', ''b.mi''), (''bpl'', ''b.pl''), (''bvs'', ''b.vs''), (''bvc'', ''b.vc''),
     (''bhi'', ''b.hi''), (''bls'', ''b.ls''), (''bge'', ''b.ge''), (''blt'', ''b.lt''),
     (''bgt'', ''b.gt''), (''ble'', ''b.le'')]
    (mnemonic_as_str m)"

section \<open>Operand kinds, classes, flags\<close>

datatype (plugins only: size) aarch64_opnd =
    O_Nil | O_Rd | O_Rn | O_Rm | O_RmLow | O_Rt | O_Rt2 | O_Rs | O_Ra | O_RtSys | O_RdSp |
    O_RnSp | O_Pairreg | O_RmExt | O_RmSft | O_Fd | O_Fn | O_Fm | O_Fa | O_Ft | O_Ft2 | O_Sd |
    O_Sn | O_Sm | O_Vd | O_Vn | O_Vm | O_VdD1 | O_VnD1 | O_Ed | O_En | O_Em | O_Lvn | O_Lvt |
    O_LvtAl | O_Let | O_Cn | O_Cm | O_Idx | O_ImmVlsl | O_ImmVlsr | O_SimdImm | O_SimdImmSft |
    O_SimdFpimm | O_ShllImm | O_Imm0 | O_Fpimm0 | O_Fpimm | O_Immr | O_Imms | O_Width | O_Imm |
    O_Uimm3Op1 | O_Uimm3Op2 | O_Uimm4 | O_Uimm7 | O_BitNum | O_Exc | O_CcmpImm | O_Nzcv |
    O_Limm | O_Aimm | O_Half | O_Fbits | O_ImmMov | O_Cond | O_Cond1 | O_AddrAdrp |
    O_AddrPcrel14 | O_AddrPcrel19 | O_AddrPcrel21 | O_AddrPcrel26 | O_AddrSimple |
    O_AddrRegoff | O_AddrSimm7 | O_AddrSimm9 | O_AddrSimm92 | O_AddrUimm12 | O_SimdAddrSimple |
    O_SimdAddrPost | O_Sysreg | O_Pstatefield | O_SysregAt | O_SysregDc | O_SysregIc |
    O_SysregTlbi | O_Barrier | O_BarrierIsb | O_Prfop | O_BarrierPsb

datatype (plugins only: size) aarch64_insn_class =
    C_AddsubCarry | C_AddsubExt | C_AddsubImm | C_AddsubShift | C_Asimdall | C_Asimddiff |
    C_Asimdelem | C_Asimdext | C_Asimdimm | C_Asimdins | C_Asimdmisc | C_Asimdperm |
    C_Asimdsame | C_Asimdshf | C_Asimdtbl | C_Asisddiff | C_Asisdelem | C_Asisdlse |
    C_Asisdlsep | C_Asisdlso | C_Asisdlsop | C_Asisdmisc | C_Asisdone | C_Asisdpair |
    C_Asisdsame | C_Asisdshf | C_Bitfield | C_BranchImm | C_BranchReg | C_Compbranch |
    C_Condbranch | C_CondcmpImm | C_CondcmpReg | C_Condsel | C_Cryptoaes | C_Cryptosha2 |
    C_Cryptosha3 | C_Dp1src | C_Dp2src | C_Dp3src | C_Exception | C_Extract | C_Float2fix |
    C_Float2int | C_Floatccmp | C_Floatcmp | C_Floatdp1 | C_Floatdp2 | C_Floatdp3 |
    C_Floatimm | C_Floatsel | C_LdstImmpost | C_LdstImmpre | C_LdstImm9 | C_LdstPos |
    C_LdstRegoff | C_LdstUnpriv | C_LdstUnscaled | C_Ldstexcl | C_LdstnapairOffs |
    C_LdstpairOff | C_LdstpairIndexed | C_Loadlit | C_LogImm | C_LogShift | C_LseAtomic |
    C_Movewide | C_Pcreladdr | C_IcSystem | C_Testbranch

datatype operands =
    Op0
  | Op1 aarch64_opnd
  | Op2 aarch64_opnd aarch64_opnd
  | Op3 aarch64_opnd aarch64_opnd aarch64_opnd
  | Op4 aarch64_opnd aarch64_opnd aarch64_opnd aarch64_opnd
  | Op5 aarch64_opnd aarch64_opnd aarch64_opnd aarch64_opnd aarch64_opnd

definition F_ALIAS :: u32 where "F_ALIAS = 0x1"
definition F_HAS_ALIAS :: u32 where "F_HAS_ALIAS = 0x2"
definition F_P1 :: u32 where "F_P1 = 0x4"
definition F_P2 :: u32 where "F_P2 = 0x8"
definition F_P3 :: u32 where "F_P3 = 0xc"
definition F_COND :: u32 where "F_COND = 0x10"
definition F_SF :: u32 where "F_SF = 0x20"
definition F_SIZEQ :: u32 where "F_SIZEQ = 0x40"
definition F_FPTYPE :: u32 where "F_FPTYPE = 0x80"
definition F_SSIZE :: u32 where "F_SSIZE = 0x100"
definition F_T :: u32 where "F_T = 0x200"
definition F_GPRSIZE_IN_Q :: u32 where "F_GPRSIZE_IN_Q = 0x400"
definition F_LDS_SIZE :: u32 where "F_LDS_SIZE = 0x800"
definition F_OPD0_OPT :: u32 where "F_OPD0_OPT = 0x1000"
definition F_OPD1_OPT :: u32 where "F_OPD1_OPT = 0x2000"
definition F_OPD2_OPT :: u32 where "F_OPD2_OPT = 0x3000"
definition F_OPD3_OPT :: u32 where "F_OPD3_OPT = 0x4000"
definition F_OPD4_OPT :: u32 where "F_OPD4_OPT = 0x5000"
definition F_CONV :: u32 where "F_CONV = 0x100000"
definition F_PSEUDO :: u32 where "F_PSEUDO = 0x200000"
definition F_MISC :: u32 where "F_MISC = 0x400000"
definition F_N :: u32 where "F_N = 0x800000"
definition F_LSE_SZ :: u32 where "F_LSE_SZ = 0x8000000"
definition F_DEFAULT :: "u32 \<Rightarrow> u32" where "F_DEFAULT x = push_bit 15 (x AND 0x1f)"
definition F_OD :: "u32 \<Rightarrow> u32" where "F_OD x = push_bit 24 (x AND 0x7)"

section \<open>Rows\<close>

record aarch64_opcode =
  op_name :: string
  op_opcode :: u32
  op_mask :: u32
  op_iclass :: aarch64_insn_class
  op_operands :: operands
  op_flags :: u32

definition aarch64_opcode_new ::
  "string \<Rightarrow> u32 \<Rightarrow> u32 \<Rightarrow> aarch64_insn_class \<Rightarrow> operands \<Rightarrow> u32 \<Rightarrow> aarch64_opcode" where
  "aarch64_opcode_new name opcode opmask iclass operands flags =
     \<lparr>op_name = name, op_opcode = opcode, op_mask = opmask, op_iclass = iclass,
      op_operands = operands, op_flags = flags\<rparr>"

definition mnemonic_id :: "aarch64_opcode \<Rightarrow> aarch64_mnemonic" where
  "mnemonic_id row = mnemonic_parse (op_name row)"

definition is_alias :: "aarch64_opcode \<Rightarrow> bool" where
  "is_alias row = (op_flags row AND F_ALIAS \<noteq> 0)"

definition is_conversion_alias :: "aarch64_opcode \<Rightarrow> bool" where
  "is_conversion_alias row = (op_flags row AND F_CONV \<noteq> 0)"

primrec operands_list :: "operands \<Rightarrow> aarch64_opnd list" where
  "operands_list Op0 = []"
| "operands_list (Op1 a) = [a]"
| "operands_list (Op2 a b) = [a, b]"
| "operands_list (Op3 a b c) = [a, b, c]"
| "operands_list (Op4 a b c d) = [a, b, c, d]"
| "operands_list (Op5 a b c d e) = [a, b, c, d, e]"

definition opcode_operands :: "aarch64_opcode \<Rightarrow> aarch64_opnd list" where
  "opcode_operands row = operands_list (op_operands row)"

text \<open>Bit ranges \<open>lo..hi\<close> of an operand kind in the instruction word.\<close>

primrec operand_bit_ranges :: "aarch64_opnd \<Rightarrow> (nat \<times> nat) list" where
  "operand_bit_ranges O_Nil = []"
| "operand_bit_ranges O_Pairreg = []"
| "operand_bit_ranges O_Imm0 = []"
| "operand_bit_ranges O_Fpimm0 = []"
| "operand_bit_ranges O_BarrierPsb = []"
| "operand_bit_ranges O_ShllImm = []"
| "operand_bit_ranges O_Rd = [(0, 5)]"
| "operand_bit_ranges O_RdSp = [(0, 5)]"
| "operand_bit_ranges O_RmLow = [(0, 5)]"
| "operand_bit_ranges O_Rt = [(0, 5)]"
| "operand_bit_ranges O_RtSys = [(0, 5)]"
| "operand_bit_ranges O_Fd = [(0, 5)]"
| "operand_bit_ranges O_Ft = [(0, 5)]"
| "operand_bit_ranges O_Sd = [(0, 5)]"
| "operand_bit_ranges O_Vd = [(0, 5)]"
| "operand_bit_ranges O_VdD1 = [(0, 5)]"
| "operand_bit_ranges O_Lvt = [(0, 5)]"
| "operand_bit_ranges O_LvtAl = [(0, 5)]"
| "operand_bit_ranges O_Let = [(0, 5)]"
| "operand_bit_ranges O_Rn = [(5, 10)]"
| "operand_bit_ranges O_RnSp = [(5, 10)]"
| "operand_bit_ranges O_Fn = [(5, 10)]"
| "operand_bit_ranges O_Sn = [(5, 10)]"
| "operand_bit_ranges O_Vn = [(5, 10)]"
| "operand_bit_ranges O_VnD1 = [(5, 10)]"
| "operand_bit_ranges O_Lvn = [(5, 10)]"
| "operand_bit_ranges O_Rm = [(16, 21)]"
| "operand_bit_ranges O_Fm = [(16, 21)]"
| "operand_bit_ranges O_Sm = [(16, 21)]"
| "operand_bit_ranges O_Vm = [(16, 21)]"
| "operand_bit_ranges O_Rt2 = [(10, 15)]"
| "operand_bit_ranges O_Ft2 = [(10, 15)]"
| "operand_bit_ranges O_Rs = [(16, 21)]"
| "operand_bit_ranges O_Ra = [(10, 15)]"
| "operand_bit_ranges O_Fa = [(10, 15)]"
| "operand_bit_ranges O_RmSft = [(16, 21), (22, 24), (10, 16)]"
| "operand_bit_ranges O_RmExt = [(16, 21), (13, 16), (10, 13)]"
| "operand_bit_ranges O_Ed = [(0, 5), (16, 21)]"
| "operand_bit_ranges O_En = [(5, 10), (16, 21), (11, 15)]"
| "operand_bit_ranges O_Em = [(16, 21), (11, 12), (20, 22), (22, 24)]"
| "operand_bit_ranges O_Cn = [(12, 16)]"
| "operand_bit_ranges O_Cm = [(8, 12)]"
| "operand_bit_ranges O_Idx = [(11, 15)]"
| "operand_bit_ranges O_ImmVlsl = [(16, 23)]"
| "operand_bit_ranges O_ImmVlsr = [(16, 23)]"
| "operand_bit_ranges O_SimdImm = [(5, 10), (16, 19)]"
| "operand_bit_ranges O_SimdFpimm = [(5, 10), (16, 19)]"
| "operand_bit_ranges O_SimdImmSft = [(5, 10), (16, 19), (12, 16)]"
| "operand_bit_ranges O_Fpimm = [(13, 21)]"
| "operand_bit_ranges O_Immr = [(16, 22)]"
| "operand_bit_ranges O_Imms = [(10, 16)]"
| "operand_bit_ranges O_Width = [(10, 16)]"
| "operand_bit_ranges O_Imm = [(10, 22)]"
| "operand_bit_ranges O_Uimm3Op1 = [(16, 19)]"
| "operand_bit_ranges O_Uimm3Op2 = [(5, 8)]"
| "operand_bit_ranges O_Uimm4 = [(8, 12)]"
| "operand_bit_ranges O_Uimm7 = [(5, 8), (8, 12)]"
| "operand_bit_ranges O_BitNum = [(19, 24), (31, 32)]"
| "operand_bit_ranges O_Exc = [(5, 21)]"
| "operand_bit_ranges O_CcmpImm = [(16, 21)]"
| "operand_bit_ranges O_Nzcv = [(0, 4)]"
| "operand_bit_ranges O_Limm = [(10, 23)]"
| "operand_bit_ranges O_Aimm = [(10, 22), (22, 23)]"
| "operand_bit_ranges O_Half = [(5, 21), (21, 23)]"
| "operand_bit_ranges O_ImmMov = [(5, 21), (21, 23)]"
| "operand_bit_ranges O_Fbits = [(10, 16)]"
| "operand_bit_ranges O_Cond = [(12, 16)]"
| "operand_bit_ranges O_Cond1 = [(12, 16)]"
| "operand_bit_ranges O_AddrAdrp = [(5, 24), (29, 31)]"
| "operand_bit_ranges O_AddrPcrel21 = [(5, 24), (29, 31)]"
| "operand_bit_ranges O_AddrPcrel14 = [(5, 19)]"
| "operand_bit_ranges O_AddrPcrel19 = [(5, 24)]"
| "operand_bit_ranges O_AddrPcrel26 = [(0, 26)]"
| "operand_bit_ranges O_AddrSimple = [(5, 10)]"
| "operand_bit_ranges O_AddrRegoff = [(5, 10), (16, 21), (13, 14), (12, 13)]"
| "operand_bit_ranges O_AddrSimm7 = [(5, 10), (15, 22), (23, 25)]"
| "operand_bit_ranges O_AddrSimm9 = [(5, 10), (12, 21), (10, 12)]"
| "operand_bit_ranges O_AddrSimm92 = [(5, 10), (12, 21), (10, 12)]"
| "operand_bit_ranges O_AddrUimm12 = [(5, 10), (10, 22)]"
| "operand_bit_ranges O_SimdAddrSimple = [(5, 10)]"
| "operand_bit_ranges O_SimdAddrPost = [(5, 10), (16, 21)]"
| "operand_bit_ranges O_Sysreg = [(5, 21)]"
| "operand_bit_ranges O_Pstatefield = [(5, 8), (16, 19)]"
| "operand_bit_ranges O_SysregAt = [(5, 8), (8, 12), (12, 16), (16, 19)]"
| "operand_bit_ranges O_SysregDc = [(5, 8), (8, 12), (12, 16), (16, 19)]"
| "operand_bit_ranges O_SysregIc = [(5, 8), (8, 12), (12, 16), (16, 19)]"
| "operand_bit_ranges O_SysregTlbi = [(5, 8), (8, 12), (12, 16), (16, 19)]"
| "operand_bit_ranges O_Barrier = [(8, 12)]"
| "operand_bit_ranges O_BarrierIsb = [(8, 12)]"
| "operand_bit_ranges O_Prfop = [(0, 5)]"

definition opcode_bit_ranges :: "aarch64_opcode \<Rightarrow> (nat \<times> nat) list list" where
  "opcode_bit_ranges row = map operand_bit_ranges (opcode_operands row)"

end
