(* ===== verification/A64_Rows1.thy ===== *)
theory A64_Rows1
  imports A64_Opcode
begin

text \<open>
  Part 1 of the opcode table \<open>aarch64_opcode_table\<close> of \<open>src/src/isa/aarch64/table.rs\<close>, in
  source order: one list per run of consecutive rows.
\<close>

definition opcode_rows_1 :: "aarch64_opcode list" where
  "opcode_rows_1 = [
    aarch64_opcode_new ''adc'' 0x1a000000 0x7fe0fc00 C_AddsubCarry
      (Op3 O_Rd O_Rn O_Rm) F_SF,
    aarch64_opcode_new ''adcs'' 0x3a000000 0x7fe0fc00 C_AddsubCarry
      (Op3 O_Rd O_Rn O_Rm) F_SF,
    aarch64_opcode_new ''sbc'' 0x5a000000 0x7fe0fc00 C_AddsubCarry
      (Op3 O_Rd O_Rn O_Rm) (F_HAS_ALIAS OR F_SF),
    aarch64_opcode_new ''ngc'' 0x5a0003e0 0x7fe0ffe0 C_AddsubCarry
      (Op2 O_Rd O_Rm) (F_ALIAS OR F_SF),
    aarch64_opcode_new ''sbcs'' 0x7a000000 0x7fe0fc00 C_AddsubCarry
      (Op3 O_Rd O_Rn O_Rm) (F_HAS_ALIAS OR F_SF),
    aarch64_opcode_new ''ngcs'' 0x7a0003e0 0x7fe0ffe0 C_AddsubCarry
      (Op2 O_Rd O_Rm) (F_ALIAS OR F_SF),
    aarch64_opcode_new ''add'' 0x0b200000 0x7fe00000 C_AddsubExt
      (Op3 O_RdSp O_RnSp O_RmExt) F_SF,
    aarch64_opcode_new ''adds'' 0x2b200000 0x7fe00000 C_AddsubExt
      (Op3 O_Rd O_RnSp O_RmExt) (F_HAS_ALIAS OR F_SF),
    aarch64_opcode_new ''cmn'' 0x2b20001f 0x7fe0001f C_AddsubExt
      (Op2 O_RnSp O_RmExt) (F_ALIAS OR F_SF),
    aarch64_opcode_new ''sub'' 0x4b200000 0x7fe00000 C_AddsubExt
      (Op3 O_RdSp O_RnSp O_RmExt) F_SF,
    aarch64_opcode_new ''subs'' 0x6b200000 0x7fe00000 C_AddsubExt
      (Op3 O_Rd O_RnSp O_RmExt) (F_HAS_ALIAS OR F_SF),
    aarch64_opcode_new ''cmp'' 0x6b20001f 0x7fe0001f C_AddsubExt
      (Op2 O_RnSp O_RmExt) (F_ALIAS OR F_SF),
    aarch64_opcode_new ''add'' 0x11000000 0x7f000000 C_AddsubImm
      (Op3 O_RdSp O_RnSp O_Aimm) (F_HAS_ALIAS OR F_SF),
    aarch64_opcode_new ''mov'' 0x11000000 0x7ffffc00 C_AddsubImm
      (Op2 O_RdSp O_RnSp) (F_ALIAS OR F_SF),
    aarch64_opcode_new ''adds'' 0x31000000 0x7f000000 C_AddsubImm
      (Op3 O_Rd O_RnSp O_Aimm) (F_HAS_ALIAS OR F_SF),
    aarch64_opcode_new ''cmn'' 0x3100001f 0x7f00001f C_AddsubImm
      (Op2 O_RnSp O_Aimm) (F_ALIAS OR F_SF),
    aarch64_opcode_new ''sub'' 0x51000000 0x7f000000 C_AddsubImm
      (Op3 O_RdSp O_RnSp O_Aimm) F_SF,
    aarch64_opcode_new ''subs'' 0x71000000 0x7f000000 C_AddsubImm
      (Op3 O_Rd O_RnSp O_Aimm) (F_HAS_ALIAS OR F_SF)]"

definition opcode_rows_2 :: "aarch64_opcode list" where
  "opcode_rows_2 = [
    aarch64_opcode_new ''cmp'' 0x7100001f 0x7f00001f C_AddsubImm
      (Op2 O_RnSp O_Aimm) (F_ALIAS OR F_SF),
    aarch64_opcode_new ''add'' 0xb000000 0x7f200000 C_AddsubShift
      (Op3 O_Rd O_Rn O_RmSft) F_SF,
    aarch64_opcode_new ''adds'' 0x2b000000 0x7f200000 C_AddsubShift
      (Op3 O_Rd O_Rn O_RmSft) (F_HAS_ALIAS OR F_SF),
    aarch64_opcode_new ''cmn'' 0x2b00001f 0x7f20001f C_AddsubShift
      (Op2 O_Rn O_RmSft) (F_ALIAS OR F_SF),
    aarch64_opcode_new ''sub'' 0x4b000000 0x7f200000 C_AddsubShift
      (Op3 O_Rd O_Rn O_RmSft) (F_HAS_ALIAS OR F_SF),
    aarch64_opcode_new ''neg'' 0x4b0003e0 0x7f2003e0 C_AddsubShift
      (Op2 O_Rd O_RmSft) (F_ALIAS OR F_SF),
    aarch64_opcode_new ''subs'' 0x6b000000 0x7f200000 C_AddsubShift
      (Op3 O_Rd O_Rn O_RmSft) (F_HAS_ALIAS OR F_SF),
    aarch64_opcode_new ''cmp'' 0x6b00001f 0x7f20001f C_AddsubShift
      (Op2 O_Rn O_RmSft) (F_ALIAS OR F_SF),
    aarch64_opcode_new ''negs'' 0x6b0003e0 0x7f2003e0 C_AddsubShift
      (Op2 O_Rd O_RmSft) (F_ALIAS OR F_SF),
    aarch64_opcode_new ''saddlv'' 0xe303800 0xbf3ffc00 C_Asimdall
      (Op2 O_Fd O_Vn) F_SIZEQ,
    aarch64_opcode_new ''smaxv'' 0xe30a800 0xbf3ffc00 C_Asimdall
      (Op2 O_Fd O_Vn) F_SIZEQ,
    aarch64_opcode_new ''sminv'' 0xe31a800 0xbf3ffc00 C_Asimdall
      (Op2 O_Fd O_Vn) F_SIZEQ,
    aarch64_opcode_new ''addv'' 0xe31b800 0xbf3ffc00 C_Asimdall
      (Op2 O_Fd O_Vn) F_SIZEQ,
    aarch64_opcode_new ''uaddlv'' 0x2e303800 0xbf3ffc00 C_Asimdall
      (Op2 O_Fd O_Vn) F_SIZEQ,
    aarch64_opcode_new ''umaxv'' 0x2e30a800 0xbf3ffc00 C_Asimdall
      (Op2 O_Fd O_Vn) F_SIZEQ,
    aarch64_opcode_new ''uminv'' 0x2e31a800 0xbf3ffc00 C_Asimdall
      (Op2 O_Fd O_Vn) F_SIZEQ,
    aarch64_opcode_new ''fmaxnmv'' 0x2e30c800 0xbfbffc00 C_Asimdall
      (Op2 O_Fd O_Vn) F_SIZEQ,
    aarch64_opcode_new ''fmaxnmv'' 0xe30c800 0xbffffc00 C_Asimdall
      (Op2 O_Fd O_Vn) F_SIZEQ]"

definition opcode_rows_3 :: "aarch64_opcode list" where
  "opcode_rows_3 = [
    aarch64_opcode_new ''fmaxv'' 0x2e30f800 0xbfbffc00 C_Asimdall
      (Op2 O_Fd O_Vn) F_SIZEQ,
    aarch64_opcode_new ''fmaxv'' 0xe30f800 0xbffffc00 C_Asimdall
      (Op2 O_Fd O_Vn) F_SIZEQ,
    aarch64_opcode_new ''fminnmv'' 0x2eb0c800 0xbfbffc00 C_Asimdall
      (Op2 O_Fd O_Vn) F_SIZEQ,
    aarch64_opcode_new ''fminnmv'' 0xeb0c800 0xbffffc00 C_Asimdall
      (Op2 O_Fd O_Vn) F_SIZEQ,
    aarch64_opcode_new ''fminv'' 0x2eb0f800 0xbfbffc00 C_Asimdall
      (Op2 O_Fd O_Vn) F_SIZEQ,
    aarch64_opcode_new ''fminv'' 0xeb0f800 0xbffffc00 C_Asimdall
      (Op2 O_Fd O_Vn) F_SIZEQ,
    aarch64_opcode_new ''saddl'' 0x0e200000 0xff20fc00 C_Asimddiff
      (Op3 O_Vd O_Vn O_Vm) F_SIZEQ,
    aarch64_opcode_new ''saddl2'' 0x4e200000 0xff20fc00 C_Asimddiff
      (Op3 O_Vd O_Vn O_Vm) F_SIZEQ,
    aarch64_opcode_new ''saddw'' 0x0e201000 0xff20fc00 C_Asimddiff
      (Op3 O_Vd O_Vn O_Vm) F_SIZEQ,
    aarch64_opcode_new ''saddw2'' 0x4e201000 0xff20fc00 C_Asimddiff
      (Op3 O_Vd O_Vn O_Vm) F_SIZEQ,
    aarch64_opcode_new ''ssubl'' 0x0e202000 0xff20fc00 C_Asimddiff
      (Op3 O_Vd O_Vn O_Vm) F_SIZEQ,
    aarch64_opcode_new ''ssubl2'' 0x4e202000 0xff20fc00 C_Asimddiff
      (Op3 O_Vd O_Vn O_Vm) F_SIZEQ,
    aarch64_opcode_new ''ssubw'' 0x0e203000 0xff20fc00 C_Asimddiff
      (Op3 O_Vd O_Vn O_Vm) F_SIZEQ,
    aarch64_opcode_new ''ssubw2'' 0x4e203000 0xff20fc00 C_Asimddiff
      (Op3 O_Vd O_Vn O_Vm) F_SIZEQ,
    aarch64_opcode_new ''addhn'' 0x0e204000 0xff20fc00 C_Asimddiff
      (Op3 O_Vd O_Vn O_Vm) F_SIZEQ,
    aarch64_opcode_new ''addhn2'' 0x4e204000 0xff20fc00 C_Asimddiff
      (Op3 O_Vd O_Vn O_Vm) F_SIZEQ,
    aarch64_opcode_new ''sabal'' 0x0e205000 0xff20fc00 C_Asimddiff
      (Op3 O_Vd O_Vn O_Vm) F_SIZEQ,
    aarch64_opcode_new ''sabal2'' 0x4e205000 0xff20fc00 C_Asimddiff
      (Op3 O_Vd O_Vn O_Vm) F_SIZEQ]"

definition opcode_rows_4 :: "aarch64_opcode list" where
  "opcode_rows_4 = [
    aarch64_opcode_new ''subhn'' 0x0e206000 0xff20fc00 C_Asimddiff
      (Op3 O_Vd O_Vn O_Vm) F_SIZEQ,
    aarch64_opcode_new ''subhn2'' 0x4e206000 0xff20fc00 C_Asimddiff
      (Op3 O_Vd O_Vn O_Vm) F_SIZEQ,
    aarch64_opcode_new ''sabdl'' 0x0e207000 0xff20fc00 C_Asimddiff
      (Op3 O_Vd O_Vn O_Vm) F_SIZEQ,
    aarch64_opcode_new ''sabdl2'' 0x4e207000 0xff20fc00 C_Asimddiff
      (Op3 O_Vd O_Vn O_Vm) F_SIZEQ,
    aarch64_opcode_new ''smlal'' 0x0e208000 0xff20fc00 C_Asimddiff
      (Op3 O_Vd O_Vn O_Vm) F_SIZEQ,
    aarch64_opcode_new ''smlal2'' 0x4e208000 0xff20fc00 C_Asimddiff
      (Op3 O_Vd O_Vn O_Vm) F_SIZEQ,
    aarch64_opcode_new ''sqdmlal'' 0x0e209000 0xff20fc00 C_Asimddiff
      (Op3 O_Vd O_Vn O_Vm) F_SIZEQ,
    aarch64_opcode_new ''sqdmlal2'' 0x4e209000 0xff20fc00 C_Asimddiff
      (Op3 O_Vd O_Vn O_Vm) F_SIZEQ,
    aarch64_opcode_new ''smlsl'' 0x0e20a000 0xff20fc00 C_Asimddiff
      (Op3 O_Vd O_Vn O_Vm) F_SIZEQ,
    aarch64_opcode_new ''smlsl2'' 0x4e20a000 0xff20fc00 C_Asimddiff
      (Op3 O_Vd O_Vn O_Vm) F_SIZEQ,
    aarch64_opcode_new ''sqdmlsl'' 0x0e20b000 0xff20fc00 C_Asimddiff
      (Op3 O_Vd O_Vn O_Vm) F_SIZEQ,
    aarch64_opcode_new ''sqdmlsl2'' 0x4e20b000 0xff20fc00 C_Asimddiff
      (Op3 O_Vd O_Vn O_Vm) F_SIZEQ,
    aarch64_opcode_new ''smull'' 0x0e20c000 0xff20fc00 C_Asimddiff
      (Op3 O_Vd O_Vn O_Vm) F_SIZEQ,
    aarch64_opcode_new ''smull2'' 0x4e20c000 0xff20fc00 C_Asimddiff
      (Op3 O_Vd O_Vn O_Vm) F_SIZEQ,
    aarch64_opcode_new ''sqdmull'' 0x0e20d000 0xff20fc00 C_Asimddiff
      (Op3 O_Vd O_Vn O_Vm) F_SIZEQ,
    aarch64_opcode_new ''sqdmull2'' 0x4e20d000 0xff20fc00 C_Asimddiff
      (Op3 O_Vd O_Vn O_Vm) F_SIZEQ,
    aarch64_opcode_new ''pmull'' 0x0e20e000 0xffe0fc00 C_Asimddiff
      (Op3 O_Vd O_Vn O_Vm) 0,
    aarch64_opcode_new ''pmull'' 0x0ee0e000 0xffe0fc00 C_Asimddiff
      (Op3 O_Vd O_Vn O_Vm) 0]"

definition opcode_rows_5 :: "aarch64_opcode list" where
  "opcode_rows_5 = [
    aarch64_opcode_new ''pmull2'' 0x4e20e000 0xffe0fc00 C_Asimddiff
      (Op3 O_Vd O_Vn O_Vm) 0,
    aarch64_opcode_new ''pmull2'' 0x4ee0e000 0xffe0fc00 C_Asimddiff
      (Op3 O_Vd O_Vn O_Vm) 0,
    aarch64_opcode_new ''uaddl'' 0x2e200000 0xff20fc00 C_Asimddiff
      (Op3 O_Vd O_Vn O_Vm) F_SIZEQ,
    aarch64_opcode_new ''uaddl2'' 0x6e200000 0xff20fc00 C_Asimddiff
      (Op3 O_Vd O_Vn O_Vm) F_SIZEQ,
    aarch64_opcode_new ''uaddw'' 0x2e201000 0xff20fc00 C_Asimddiff
      (Op3 O_Vd O_Vn O_Vm) F_SIZEQ,
    aarch64_opcode_new ''uaddw2'' 0x6e201000 0xff20fc00 C_Asimddiff
      (Op3 O_Vd O_Vn O_Vm) F_SIZEQ,
    aarch64_opcode_new ''usubl'' 0x2e202000 0xff20fc00 C_Asimddiff
      (Op3 O_Vd O_Vn O_Vm) F_SIZEQ,
    aarch64_opcode_new ''usubl2'' 0x6e202000 0xff20fc00 C_Asimddiff
      (Op3 O_Vd O_Vn O_Vm) F_SIZEQ,
    aarch64_opcode_new ''usubw'' 0x2e203000 0xff20fc00 C_Asimddiff
      (Op3 O_Vd O_Vn O_Vm) F_SIZEQ,
    aarch64_opcode_new ''usubw2'' 0x6e203000 0xff20fc00 C_Asimddiff
      (Op3 O_Vd O_Vn O_Vm) F_SIZEQ,
    aarch64_opcode_new ''raddhn'' 0x2e204000 0xff20fc00 C_Asimddiff
      (Op3 O_Vd O_Vn O_Vm) F_SIZEQ,
    aarch64_opcode_new ''raddhn2'' 0x6e204000 0xff20fc00 C_Asimddiff
      (Op3 O_Vd O_Vn O_Vm) F_SIZEQ,
    aarch64_opcode_new ''uabal'' 0x2e205000 0xff20fc00 C_Asimddiff
      (Op3 O_Vd O_Vn O_Vm) F_SIZEQ,
    aarch64_opcode_new ''uabal2'' 0x6e205000 0xff20fc00 C_Asimddiff
      (Op3 O_Vd O_Vn O_Vm) F_SIZEQ,
    aarch64_opcode_new ''rsubhn'' 0x2e206000 0xff20fc00 C_Asimddiff
      (Op3 O_Vd O_Vn O_Vm) F_SIZEQ,
    aarch64_opcode_new ''rsubhn2'' 0x6e206000 0xff20fc00 C_Asimddiff
      (Op3 O_Vd O_Vn O_Vm) F_SIZEQ,
    aarch64_opcode_new ''uabdl'' 0x2e207000 0xff20fc00 C_Asimddiff
      (Op3 O_Vd O_Vn O_Vm) F_SIZEQ,
    aarch64_opcode_new ''uabdl2'' 0x6e207000 0xff20fc00 C_Asimddiff
      (Op3 O_Vd O_Vn O_Vm) F_SIZEQ]"

definition opcode_rows_6 :: "aarch64_opcode list" where
  "opcode_rows_6 = [
    aarch64_opcode_new ''umlal'' 0x2e208000 0xff20fc00 C_Asimddiff
      (Op3 O_Vd O_Vn O_Vm) F_SIZEQ,
    aarch64_opcode_new ''umlal2'' 0x6e208000 0xff20fc00 C_Asimddiff
      (Op3 O_Vd O_Vn O_Vm) F_SIZEQ,
    aarch64_opcode_new ''umlsl'' 0x2e20a000 0xff20fc00 C_Asimddiff
      (Op3 O_Vd O_Vn O_Vm) F_SIZEQ,
    aarch64_opcode_new ''umlsl2'' 0x6e20a000 0xff20fc00 C_Asimddiff
      (Op3 O_Vd O_Vn O_Vm) F_SIZEQ,
    aarch64_opcode_new ''umull'' 0x2e20c000 0xff20fc00 C_Asimddiff
      (Op3 O_Vd O_Vn O_Vm) F_SIZEQ,
    aarch64_opcode_new ''umull2'' 0x6e20c000 0xff20fc00 C_Asimddiff
      (Op3 O_Vd O_Vn O_Vm) F_SIZEQ,
    aarch64_opcode_new ''smlal'' 0x0f002000 0xff00f400 C_Asimdelem
      (Op3 O_Vd O_Vn O_Em) F_SIZEQ,
    aarch64_opcode_new ''smlal2'' 0x4f002000 0xff00f400 C_Asimdelem
      (Op3 O_Vd O_Vn O_Em) F_SIZEQ,
    aarch64_opcode_new ''sqdmlal'' 0x0f003000 0xff00f400 C_Asimdelem
      (Op3 O_Vd O_Vn O_Em) F_SIZEQ,
    aarch64_opcode_new ''sqdmlal2'' 0x4f003000 0xff00f400 C_Asimdelem
      (Op3 O_Vd O_Vn O_Em) F_SIZEQ,
    aarch64_opcode_new ''smlsl'' 0x0f006000 0xff00f400 C_Asimdelem
      (Op3 O_Vd O_Vn O_Em) F_SIZEQ,
    aarch64_opcode_new ''smlsl2'' 0x4f006000 0xff00f400 C_Asimdelem
      (Op3 O_Vd O_Vn O_Em) F_SIZEQ,
    aarch64_opcode_new ''sqdmlsl'' 0x0f007000 0xff00f400 C_Asimdelem
      (Op3 O_Vd O_Vn O_Em) F_SIZEQ,
    aarch64_opcode_new ''sqdmlsl2'' 0x4f007000 0xff00f400 C_Asimdelem
      (Op3 O_Vd O_Vn O_Em) F_SIZEQ,
    aarch64_opcode_new ''mul'' 0xf008000 0xbf00f400 C_Asimdelem
      (Op3 O_Vd O_Vn O_Em) F_SIZEQ,
    aarch64_opcode_new ''smull'' 0x0f00a000 0xff00f400 C_Asimdelem
      (Op3 O_Vd O_Vn O_Em) F_SIZEQ,
    aarch64_opcode_new ''smull2'' 0x4f00a000 0xff00f400 C_Asimdelem
      (Op3 O_Vd O_Vn O_Em) F_SIZEQ,
    aarch64_opcode_new ''sqdmull'' 0x0f00b000 0xff00f400 C_Asimdelem
      (Op3 O_Vd O_Vn O_Em) F_SIZEQ]"

definition opcode_rows_7 :: "aarch64_opcode list" where
  "opcode_rows_7 = [
    aarch64_opcode_new ''sqdmull2'' 0x4f00b000 0xff00f400 C_Asimdelem
      (Op3 O_Vd O_Vn O_Em) F_SIZEQ,
    aarch64_opcode_new ''sqdmulh'' 0xf00c000 0xbf00f400 C_Asimdelem
      (Op3 O_Vd O_Vn O_Em) F_SIZEQ,
    aarch64_opcode_new ''sqrdmulh'' 0xf00d000 0xbf00f400 C_Asimdelem
      (Op3 O_Vd O_Vn O_Em) F_SIZEQ,
    aarch64_opcode_new ''fmla'' 0xf801000 0xbf80f400 C_Asimdelem
      (Op3 O_Vd O_Vn O_Em) F_SIZEQ,
    aarch64_opcode_new ''fmla'' 0xf001000 0xbfe0fc00 C_Asimdelem
      (Op3 O_Vd O_Vn O_Em) F_SIZEQ,
    aarch64_opcode_new ''fmls'' 0xf805000 0xbf80f400 C_Asimdelem
      (Op3 O_Vd O_Vn O_Em) F_SIZEQ,
    aarch64_opcode_new ''fmls'' 0xf005000 0xbfe0fc00 C_Asimdelem
      (Op3 O_Vd O_Vn O_Em) F_SIZEQ,
    aarch64_opcode_new ''fmul'' 0xf809000 0xbf80f400 C_Asimdelem
      (Op3 O_Vd O_Vn O_Em) F_SIZEQ,
    aarch64_opcode_new ''fmul'' 0xf009000 0xbfe0fc00 C_Asimdelem
      (Op3 O_Vd O_Vn O_Em) F_SIZEQ,
    aarch64_opcode_new ''mla'' 0x2f000000 0xbf00f400 C_Asimdelem
      (Op3 O_Vd O_Vn O_Em) F_SIZEQ,
    aarch64_opcode_new ''umlal'' 0x2f002000 0xff00f400 C_Asimdelem
      (Op3 O_Vd O_Vn O_Em) F_SIZEQ,
    aarch64_opcode_new ''umlal2'' 0x6f002000 0xff00f400 C_Asimdelem
      (Op3 O_Vd O_Vn O_Em) F_SIZEQ,
    aarch64_opcode_new ''mls'' 0x2f004000 0xbf00f400 C_Asimdelem
      (Op3 O_Vd O_Vn O_Em) F_SIZEQ,
    aarch64_opcode_new ''umlsl'' 0x2f006000 0xff00f400 C_Asimdelem
      (Op3 O_Vd O_Vn O_Em) F_SIZEQ,
    aarch64_opcode_new ''umlsl2'' 0x6f006000 0xff00f400 C_Asimdelem
      (Op3 O_Vd O_Vn O_Em) F_SIZEQ,
    aarch64_opcode_new ''umull'' 0x2f00a000 0xff00f400 C_Asimdelem
      (Op3 O_Vd O_Vn O_Em) F_SIZEQ,
    aarch64_opcode_new ''umull2'' 0x6f00a000 0xff00f400 C_Asimdelem
      (Op3 O_Vd O_Vn O_Em) F_SIZEQ,
    aarch64_opcode_new ''fmulx'' 0x2f809000 0xbf80f400 C_Asimdelem
      (Op3 O_Vd O_Vn O_Em) F_SIZEQ]"

definition opcode_rows_8 :: "aarch64_opcode list" where
  "opcode_rows_8 = [
    aarch64_opcode_new ''fmulx'' 0x2f009000 0xbfe0fc00 C_Asimdelem
      (Op3 O_Vd O_Vn O_Em) F_SIZEQ,
    aarch64_opcode_new ''sqrdmlah'' 0x2f00d000 0xbf00f400 C_Asimdelem
      (Op3 O_Vd O_Vn O_Em) F_SIZEQ,
    aarch64_opcode_new ''sqrdmlsh'' 0x2f00f000 0xbf00f400 C_Asimdelem
      (Op3 O_Vd O_Vn O_Em) F_SIZEQ,
    aarch64_opcode_new ''ext'' 0x2e000000 0xbfe08400 C_Asimdext
      (Op4 O_Vd O_Vn O_Vm O_Idx) F_SIZEQ,
    aarch64_opcode_new ''movi'' 0xf000400 0xbff89c00 C_Asimdimm
      (Op2 O_Vd O_SimdImmSft) F_SIZEQ,
    aarch64_opcode_new ''orr'' 0xf001400 0xbff89c00 C_Asimdimm
      (Op2 O_Vd O_SimdImmSft) F_SIZEQ,
    aarch64_opcode_new ''movi'' 0xf008400 0xbff8dc00 C_Asimdimm
      (Op2 O_Vd O_SimdImmSft) F_SIZEQ,
    aarch64_opcode_new ''orr'' 0xf009400 0xbff8dc00 C_Asimdimm
      (Op2 O_Vd O_SimdImmSft) F_SIZEQ,
    aarch64_opcode_new ''movi'' 0xf00c400 0xbff8ec00 C_Asimdimm
      (Op2 O_Vd O_SimdImmSft) F_SIZEQ,
    aarch64_opcode_new ''movi'' 0xf00e400 0xbff8fc00 C_Asimdimm
      (Op2 O_Vd O_SimdImmSft) F_SIZEQ,
    aarch64_opcode_new ''fmov'' 0xf00f400 0xbff8fc00 C_Asimdimm
      (Op2 O_Vd O_SimdFpimm) F_SIZEQ,
    aarch64_opcode_new ''fmov'' 0xf00fc00 0xbff8fc00 C_Asimdimm
      (Op2 O_Vd O_SimdFpimm) F_SIZEQ,
    aarch64_opcode_new ''mvni'' 0x2f000400 0xbff89c00 C_Asimdimm
      (Op2 O_Vd O_SimdImmSft) F_SIZEQ,
    aarch64_opcode_new ''bic'' 0x2f001400 0xbff89c00 C_Asimdimm
      (Op2 O_Vd O_SimdImmSft) F_SIZEQ,
    aarch64_opcode_new ''mvni'' 0x2f008400 0xbff8dc00 C_Asimdimm
      (Op2 O_Vd O_SimdImmSft) F_SIZEQ,
    aarch64_opcode_new ''bic'' 0x2f009400 0xbff8dc00 C_Asimdimm
      (Op2 O_Vd O_SimdImmSft) F_SIZEQ,
    aarch64_opcode_new ''mvni'' 0x2f00c400 0xbff8ec00 C_Asimdimm
      (Op2 O_Vd O_SimdImmSft) F_SIZEQ,
    aarch64_opcode_new ''movi'' 0x2f00e400 0xfff8fc00 C_Asimdimm
      (Op2 O_Sd O_SimdImm) F_SIZEQ]"

definition opcode_rows_9 :: "aarch64_opcode list" where
  "opcode_rows_9 = [
    aarch64_opcode_new ''movi'' 0x6f00e400 0xfff8fc00 C_Asimdimm
      (Op2 O_Vd O_SimdImm) F_SIZEQ,
    aarch64_opcode_new ''fmov'' 0x6f00f400 0xfff8fc00 C_Asimdimm
      (Op2 O_Vd O_SimdFpimm) F_SIZEQ,
    aarch64_opcode_new ''dup'' 0xe000400 0xbfe0fc00 C_Asimdins
      (Op2 O_Vd O_En) F_T,
    aarch64_opcode_new ''dup'' 0xe000c00 0xbfe0fc00 C_Asimdins
      (Op2 O_Vd O_Rn) F_T,
    aarch64_opcode_new ''smov'' 0xe002c00 0xbfe0fc00 C_Asimdins
      (Op2 O_Rd O_En) F_GPRSIZE_IN_Q,
    aarch64_opcode_new ''umov'' 0xe003c00 0xbfe0fc00 C_Asimdins
      (Op2 O_Rd O_En) (F_HAS_ALIAS OR F_GPRSIZE_IN_Q),
    aarch64_opcode_new ''mov'' 0xe003c00 0xbfe0fc00 C_Asimdins
      (Op2 O_Rd O_En) (F_ALIAS OR F_GPRSIZE_IN_Q),
    aarch64_opcode_new ''ins'' 0x4e001c00 0xffe0fc00 C_Asimdins
      (Op2 O_Ed O_Rn) F_HAS_ALIAS,
    aarch64_opcode_new ''mov'' 0x4e001c00 0xffe0fc00 C_Asimdins
      (Op2 O_Ed O_Rn) F_ALIAS,
    aarch64_opcode_new ''ins'' 0x6e000400 0xffe08400 C_Asimdins
      (Op2 O_Ed O_En) F_HAS_ALIAS,
    aarch64_opcode_new ''mov'' 0x6e000400 0xffe08400 C_Asimdins
      (Op2 O_Ed O_En) F_ALIAS,
    aarch64_opcode_new ''rev64'' 0xe200800 0xbf3ffc00 C_Asimdmisc
      (Op2 O_Vd O_Vn) F_SIZEQ,
    aarch64_opcode_new ''rev16'' 0xe201800 0xbf3ffc00 C_Asimdmisc
      (Op2 O_Vd O_Vn) F_SIZEQ,
    aarch64_opcode_new ''saddlp'' 0xe202800 0xbf3ffc00 C_Asimdmisc
      (Op2 O_Vd O_Vn) F_SIZEQ,
    aarch64_opcode_new ''suqadd'' 0xe203800 0xbf3ffc00 C_Asimdmisc
      (Op2 O_Vd O_Vn) F_SIZEQ,
    aarch64_opcode_new ''cls'' 0xe204800 0xbf3ffc00 C_Asimdmisc
      (Op2 O_Vd O_Vn) F_SIZEQ,
    aarch64_opcode_new ''cnt'' 0xe205800 0xbf3ffc00 C_Asimdmisc
      (Op2 O_Vd O_Vn) F_SIZEQ,
    aarch64_opcode_new ''sadalp'' 0xe206800 0xbf3ffc00 C_Asimdmisc
      (Op2 O_Vd O_Vn) F_SIZEQ,
    aarch64_opcode_new ''sqabs'' 0xe207800 0xbf3ffc00 C_Asimdmisc
      (Op2 O_Vd O_Vn) F_SIZEQ,
    aarch64_opcode_new ''cmgt'' 0xe208800 0xbf3ffc00 C_Asimdmisc
      (Op3 O_Vd O_Vn O_Imm0) F_SIZEQ]"

definition opcode_rows_10 :: "aarch64_opcode list" where
  "opcode_rows_10 = [
    aarch64_opcode_new ''cmeq'' 0xe209800 0xbf3ffc00 C_Asimdmisc
      (Op3 O_Vd O_Vn O_Imm0) F_SIZEQ,
    aarch64_opcode_new ''cmlt'' 0xe20a800 0xbf3ffc00 C_Asimdmisc
      (Op3 O_Vd O_Vn O_Imm0) F_SIZEQ,
    aarch64_opcode_new ''abs'' 0xe20b800 0xbf3ffc00 C_Asimdmisc
      (Op2 O_Vd O_Vn) F_SIZEQ,
    aarch64_opcode_new ''xtn'' 0xe212800 0xff3ffc00 C_Asimdmisc
      (Op2 O_Vd O_Vn) F_SIZEQ,
    aarch64_opcode_new ''xtn2'' 0x4e212800 0xff3ffc00 C_Asimdmisc
      (Op2 O_Vd O_Vn) F_SIZEQ,
    aarch64_opcode_new ''sqxtn'' 0xe214800 0xff3ffc00 C_Asimdmisc
      (Op2 O_Vd O_Vn) F_SIZEQ,
    aarch64_opcode_new ''sqxtn2'' 0x4e214800 0xff3ffc00 C_Asimdmisc
      (Op2 O_Vd O_Vn) F_SIZEQ,
    aarch64_opcode_new ''fcvtn'' 0xe216800 0xffbffc00 C_Asimdmisc
      (Op2 O_Vd O_Vn) F_MISC,
    aarch64_opcode_new ''fcvtn2'' 0x4e216800 0xffbffc00 C_Asimdmisc
      (Op2 O_Vd O_Vn) F_MISC,
    aarch64_opcode_new ''fcvtl'' 0xe217800 0xffbffc00 C_Asimdmisc
      (Op2 O_Vd O_Vn) F_MISC,
    aarch64_opcode_new ''fcvtl2'' 0x4e217800 0xffbffc00 C_Asimdmisc
      (Op2 O_Vd O_Vn) F_MISC,
    aarch64_opcode_new ''frintn'' 0xe218800 0xbfbffc00 C_Asimdmisc
      (Op2 O_Vd O_Vn) F_SIZEQ,
    aarch64_opcode_new ''frintn'' 0xe798800 0xbffffc00 C_Asimdmisc
      (Op2 O_Vd O_Vn) F_SIZEQ,
    aarch64_opcode_new ''frintm'' 0xe219800 0xbfbffc00 C_Asimdmisc
      (Op2 O_Vd O_Vn) F_SIZEQ,
    aarch64_opcode_new ''frintm'' 0xe799800 0xbffffc00 C_Asimdmisc
      (Op2 O_Vd O_Vn) F_SIZEQ,
    aarch64_opcode_new ''fcvtns'' 0xe21a800 0xbfbffc00 C_Asimdmisc
      (Op2 O_Vd O_Vn) F_SIZEQ,
    aarch64_opcode_new ''fcvtns'' 0xe79a800 0xbffffc00 C_Asimdmisc
      (Op2 O_Vd O_Vn) F_SIZEQ,
    aarch64_opcode_new ''fcvtms'' 0xe21b800 0xbfbffc00 C_Asimdmisc
      (Op2 O_Vd O_Vn) F_SIZEQ]"

definition opcode_rows_11 :: "aarch64_opcode list" where
  "opcode_rows_11 = [
    aarch64_opcode_new ''fcvtms'' 0xe79b800 0xbffffc00 C_Asimdmisc
      (Op2 O_Vd O_Vn) F_SIZEQ,
    aarch64_opcode_new ''fcvtas'' 0xe21c800 0xbfbffc00 C_Asimdmisc
      (Op2 O_Vd O_Vn) F_SIZEQ,
    aarch64_opcode_new ''fcvtas'' 0xe79c800 0xbffffc00 C_Asimdmisc
      (Op2 O_Vd O_Vn) F_SIZEQ,
    aarch64_opcode_new ''scvtf'' 0xe21d800 0xbfbffc00 C_Asimdmisc
      (Op2 O_Vd O_Vn) F_SIZEQ,
    aarch64_opcode_new ''scvtf'' 0xe79d800 0xbfbffc00 C_Asimdmisc
      (Op2 O_Vd O_Vn) F_SIZEQ,
    aarch64_opcode_new ''fcmgt'' 0xea0c800 0xbfbffc00 C_Asimdmisc
      (Op3 O_Vd O_Vn O_Fpimm0) F_SIZEQ,
    aarch64_opcode_new ''fcmgt'' 0xef8c800 0xbffffc00 C_Asimdmisc
      (Op3 O_Vd O_Vn O_Fpimm0) F_SIZEQ,
    aarch64_opcode_new ''fcmeq'' 0xea0d800 0xbfbffc00 C_Asimdmisc
      (Op3 O_Vd O_Vn O_Fpimm0) F_SIZEQ,
    aarch64_opcode_new ''fcmeq'' 0xef8d800 0xbffffc00 C_Asimdmisc
      (Op3 O_Vd O_Vn O_Fpimm0) F_SIZEQ,
    aarch64_opcode_new ''fcmlt'' 0xea0e800 0xbfbffc00 C_Asimdmisc
      (Op3 O_Vd O_Vn O_Fpimm0) F_SIZEQ,
    aarch64_opcode_new ''fcmlt'' 0xef8e800 0xbffffc00 C_Asimdmisc
      (Op3 O_Vd O_Vn O_Fpimm0) F_SIZEQ,
    aarch64_opcode_new ''fabs'' 0xea0f800 0xbfbffc00 C_Asimdmisc
      (Op2 O_Vd O_Vn) F_SIZEQ,
    aarch64_opcode_new ''fabs'' 0xef8f800 0xbffffc00 C_Asimdmisc
      (Op2 O_Vd O_Vn) F_SIZEQ,
    aarch64_opcode_new ''frintp'' 0xea18800 0xbfbffc00 C_Asimdmisc
      (Op2 O_Vd O_Vn) F_SIZEQ,
    aarch64_opcode_new ''frintp'' 0xef98800 0xbffffc00 C_Asimdmisc
      (Op2 O_Vd O_Vn) F_SIZEQ,
    aarch64_opcode_new ''frintz'' 0xea19800 0xbfbffc00 C_Asimdmisc
      (Op2 O_Vd O_Vn) F_SIZEQ,
    aarch64_opcode_new ''frintz'' 0xef99800 0xbffffc00 C_Asimdmisc
      (Op2 O_Vd O_Vn) F_SIZEQ,
    aarch64_opcode_new ''fcvtps'' 0xea1a800 0xbfbffc00 C_Asimdmisc
      (Op2 O_Vd O_Vn) F_SIZEQ]"

definition opcode_rows_12 :: "aarch64_opcode list" where
  "opcode_rows_12 = [
    aarch64_opcode_new ''fcvtps'' 0xef9a800 0xbffffc00 C_Asimdmisc
      (Op2 O_Vd O_Vn) F_SIZEQ,
    aarch64_opcode_new ''fcvtzs'' 0xea1b800 0xbfbffc00 C_Asimdmisc
      (Op2 O_Vd O_Vn) F_SIZEQ,
    aarch64_opcode_new ''fcvtzs'' 0xef9b800 0xbffffc00 C_Asimdmisc
      (Op2 O_Vd O_Vn) F_SIZEQ,
    aarch64_opcode_new ''urecpe'' 0xea1c800 0xbfbffc00 C_Asimdmisc
      (Op2 O_Vd O_Vn) F_SIZEQ,
    aarch64_opcode_new ''frecpe'' 0xea1d800 0xbfbffc00 C_Asimdmisc
      (Op2 O_Vd O_Vn) F_SIZEQ,
    aarch64_opcode_new ''frecpe'' 0xef9d800 0xbfbffc00 C_Asimdmisc
      (Op2 O_Vd O_Vn) F_SIZEQ,
    aarch64_opcode_new ''rev32'' 0x2e200800 0xbf3ffc00 C_Asimdmisc
      (Op2 O_Vd O_Vn) F_SIZEQ,
    aarch64_opcode_new ''uaddlp'' 0x2e202800 0xbf3ffc00 C_Asimdmisc
      (Op2 O_Vd O_Vn) F_SIZEQ,
    aarch64_opcode_new ''usqadd'' 0x2e203800 0xbf3ffc00 C_Asimdmisc
      (Op2 O_Vd O_Vn) F_SIZEQ,
    aarch64_opcode_new ''clz'' 0x2e204800 0xbf3ffc00 C_Asimdmisc
      (Op2 O_Vd O_Vn) F_SIZEQ,
    aarch64_opcode_new ''uadalp'' 0x2e206800 0xbf3ffc00 C_Asimdmisc
      (Op2 O_Vd O_Vn) F_SIZEQ,
    aarch64_opcode_new ''sqneg'' 0x2e207800 0xbf3ffc00 C_Asimdmisc
      (Op2 O_Vd O_Vn) F_SIZEQ,
    aarch64_opcode_new ''cmge'' 0x2e208800 0xbf3ffc00 C_Asimdmisc
      (Op3 O_Vd O_Vn O_Imm0) F_SIZEQ,
    aarch64_opcode_new ''cmle'' 0x2e209800 0xbf3ffc00 C_Asimdmisc
      (Op3 O_Vd O_Vn O_Imm0) F_SIZEQ,
    aarch64_opcode_new ''neg'' 0x2e20b800 0xbf3ffc00 C_Asimdmisc
      (Op2 O_Vd O_Vn) F_SIZEQ,
    aarch64_opcode_new ''sqxtun'' 0x2e212800 0xff3ffc00 C_Asimdmisc
      (Op2 O_Vd O_Vn) F_SIZEQ,
    aarch64_opcode_new ''sqxtun2'' 0x6e212800 0xff3ffc00 C_Asimdmisc
      (Op2 O_Vd O_Vn) F_SIZEQ,
    aarch64_opcode_new ''shll'' 0x2e213800 0xff3ffc00 C_Asimdmisc
      (Op3 O_Vd O_Vn O_ShllImm) F_SIZEQ]"

definition opcode_rows_13 :: "aarch64_opcode list" where
  "opcode_rows_13 = [
    aarch64_opcode_new ''shll2'' 0x6e213800 0xff3ffc00 C_Asimdmisc
      (Op3 O_Vd O_Vn O_ShllImm) F_SIZEQ,
    aarch64_opcode_new ''uqxtn'' 0x2e214800 0xff3ffc00 C_Asimdmisc
      (Op2 O_Vd O_Vn) F_SIZEQ,
    aarch64_opcode_new ''uqxtn2'' 0x6e214800 0xff3ffc00 C_Asimdmisc
      (Op2 O_Vd O_Vn) F_SIZEQ,
    aarch64_opcode_new ''fcvtxn'' 0x2e616800 0xfffffc00 C_Asimdmisc
      (Op2 O_Vd O_Vn) 0,
    aarch64_opcode_new ''fcvtxn2'' 0x6e616800 0xfffffc00 C_Asimdmisc
      (Op2 O_Vd O_Vn) 0,
    aarch64_opcode_new ''frinta'' 0x2e218800 0xbfbffc00 C_Asimdmisc
      (Op2 O_Vd O_Vn) F_SIZEQ,
    aarch64_opcode_new ''frinta'' 0x2e798800 0xbffffc00 C_Asimdmisc
      (Op2 O_Vd O_Vn) F_SIZEQ,
    aarch64_opcode_new ''frintx'' 0x2e219800 0xbfbffc00 C_Asimdmisc
      (Op2 O_Vd O_Vn) F_SIZEQ,
    aarch64_opcode_new ''frintx'' 0x2e799800 0xbffffc00 C_Asimdmisc
      (Op2 O_Vd O_Vn) F_SIZEQ,
    aarch64_opcode_new ''fcvtnu'' 0x2e21a800 0xbfbffc00 C_Asimdmisc
      (Op2 O_Vd O_Vn) F_SIZEQ,
    aarch64_opcode_new ''fcvtnu'' 0x2e79a800 0xbffffc00 C_Asimdmisc
      (Op2 O_Vd O_Vn) F_SIZEQ,
    aarch64_opcode_new ''fcvtmu'' 0x2e21b800 0xbfbffc00 C_Asimdmisc
      (Op2 O_Vd O_Vn) F_SIZEQ,
    aarch64_opcode_new ''fcvtmu'' 0x2e79b800 0xbffffc00 C_Asimdmisc
      (Op2 O_Vd O_Vn) F_SIZEQ,
    aarch64_opcode_new ''fcvtau'' 0x2e21c800 0xbfbffc00 C_Asimdmisc
      (Op2 O_Vd O_Vn) F_SIZEQ,
    aarch64_opcode_new ''fcvtau'' 0x2e79c800 0xbffffc00 C_Asimdmisc
      (Op2 O_Vd O_Vn) F_SIZEQ,
    aarch64_opcode_new ''ucvtf'' 0x2e21d800 0xbfbffc00 C_Asimdmisc
      (Op2 O_Vd O_Vn) F_SIZEQ,
    aarch64_opcode_new ''ucvtf'' 0x2e79d800 0xbfbffc00 C_Asimdmisc
      (Op2 O_Vd O_Vn) F_SIZEQ,
    aarch64_opcode_new ''not'' 0x2e205800 0xbffffc00 C_Asimdmisc
      (Op2 O_Vd O_Vn) (F_SIZEQ OR F_HAS_ALIAS),
    aarch64_opcode_new ''mvn'' 0x2e205800 0xbffffc00 C_Asimdmisc
      (Op2 O_Vd O_Vn) (F_SIZEQ OR F_ALIAS),
    aarch64_opcode_new ''rbit'' 0x2e605800 0xbffffc00 C_Asimdmisc
      (Op2 O_Vd O_Vn) F_SIZEQ]"

end
