(* ===== verification/A64_Rows2.thy ===== *)
theory A64_Rows2
  imports A64_Opcode
begin

text \<open>
  Part 2 of the opcode table \<open>aarch64_opcode_table\<close> of \<open>src/src/isa/aarch64/table.rs\<close>, in
  source order: one list per run of consecutive rows.
\<close>

definition opcode_rows_14 :: "aarch64_opcode list" where
  "opcode_rows_14 = [
    aarch64_opcode_new ''fcmge'' 0x2ea0c800 0xbfbffc00 C_Asimdmisc
      (Op3 O_Vd O_Vn O_Fpimm0) F_SIZEQ,
    aarch64_opcode_new ''fcmge'' 0x2ef8c800 0xbffffc00 C_Asimdmisc
      (Op3 O_Vd O_Vn O_Fpimm0) F_SIZEQ,
    aarch64_opcode_new ''fcmle'' 0x2ea0d800 0xbfbffc00 C_Asimdmisc
      (Op3 O_Vd O_Vn O_Fpimm0) F_SIZEQ,
    aarch64_opcode_new ''fcmle'' 0x2ef8d800 0xbffffc00 C_Asimdmisc
      (Op3 O_Vd O_Vn O_Fpimm0) F_SIZEQ,
    aarch64_opcode_new ''fneg'' 0x2ea0f800 0xbfbffc00 C_Asimdmisc
      (Op2 O_Vd O_Vn) F_SIZEQ,
    aarch64_opcode_new ''fneg'' 0x2ef8f800 0xbffffc00 C_Asimdmisc
      (Op2 O_Vd O_Vn) F_SIZEQ,
    aarch64_opcode_new ''frinti'' 0x2ea19800 0xbfbffc00 C_Asimdmisc
      (Op2 O_Vd O_Vn) F_SIZEQ,
    aarch64_opcode_new ''frinti'' 0x2ef99800 0xbffffc00 C_Asimdmisc
      (Op2 O_Vd O_Vn) F_SIZEQ,
    aarch64_opcode_new ''fcvtpu'' 0x2ea1a800 0xbfbffc00 C_Asimdmisc
      (Op2 O_Vd O_Vn) F_SIZEQ,
    aarch64_opcode_new ''fcvtpu'' 0x2ef9a800 0xbffffc00 C_Asimdmisc
      (Op2 O_Vd O_Vn) F_SIZEQ,
    aarch64_opcode_new ''fcvtzu'' 0x2ea1b800 0xbfbffc00 C_Asimdmisc
      (Op2 O_Vd O_Vn) F_SIZEQ,
    aarch64_opcode_new ''fcvtzu'' 0x2ef9b800 0xbffffc00 C_Asimdmisc
      (Op2 O_Vd O_Vn) F_SIZEQ,
    aarch64_opcode_new ''ursqrte'' 0x2ea1c800 0xbfbffc00 C_Asimdmisc
      (Op2 O_Vd O_Vn) F_SIZEQ,
    aarch64_opcode_new ''frsqrte'' 0x2ea1d800 0xbfbffc00 C_Asimdmisc
      (Op2 O_Vd O_Vn) F_SIZEQ,
    aarch64_opcode_new ''frsqrte'' 0x2ef9d800 0xbfbffc00 C_Asimdmisc
      (Op2 O_Vd O_Vn) F_SIZEQ,
    aarch64_opcode_new ''fsqrt'' 0x2ea1f800 0xbfbffc00 C_Asimdmisc
      (Op2 O_Vd O_Vn) F_SIZEQ,
    aarch64_opcode_new ''fsqrt'' 0x2ef9f800 0xbfbffc00 C_Asimdmisc
      (Op2 O_Vd O_Vn) F_SIZEQ,
    aarch64_opcode_new ''uzp1'' 0xe001800 0xbf20fc00 C_Asimdperm
      (Op3 O_Vd O_Vn O_Vm) F_SIZEQ]"

definition opcode_rows_15 :: "aarch64_opcode list" where
  "opcode_rows_15 = [
    aarch64_opcode_new ''trn1'' 0xe002800 0xbf20fc00 C_Asimdperm
      (Op3 O_Vd O_Vn O_Vm) F_SIZEQ,
    aarch64_opcode_new ''zip1'' 0xe003800 0xbf20fc00 C_Asimdperm
      (Op3 O_Vd O_Vn O_Vm) F_SIZEQ,
    aarch64_opcode_new ''uzp2'' 0xe005800 0xbf20fc00 C_Asimdperm
      (Op3 O_Vd O_Vn O_Vm) F_SIZEQ,
    aarch64_opcode_new ''trn2'' 0xe006800 0xbf20fc00 C_Asimdperm
      (Op3 O_Vd O_Vn O_Vm) F_SIZEQ,
    aarch64_opcode_new ''zip2'' 0xe007800 0xbf20fc00 C_Asimdperm
      (Op3 O_Vd O_Vn O_Vm) F_SIZEQ,
    aarch64_opcode_new ''shadd'' 0xe200400 0xbf20fc00 C_Asimdsame
      (Op3 O_Vd O_Vn O_Vm) F_SIZEQ,
    aarch64_opcode_new ''sqadd'' 0xe200c00 0xbf20fc00 C_Asimdsame
      (Op3 O_Vd O_Vn O_Vm) F_SIZEQ,
    aarch64_opcode_new ''srhadd'' 0xe201400 0xbf20fc00 C_Asimdsame
      (Op3 O_Vd O_Vn O_Vm) F_SIZEQ,
    aarch64_opcode_new ''shsub'' 0xe202400 0xbf20fc00 C_Asimdsame
      (Op3 O_Vd O_Vn O_Vm) F_SIZEQ,
    aarch64_opcode_new ''sqsub'' 0xe202c00 0xbf20fc00 C_Asimdsame
      (Op3 O_Vd O_Vn O_Vm) F_SIZEQ,
    aarch64_opcode_new ''cmgt'' 0xe203400 0xbf20fc00 C_Asimdsame
      (Op3 O_Vd O_Vn O_Vm) F_SIZEQ,
    aarch64_opcode_new ''cmge'' 0xe203c00 0xbf20fc00 C_Asimdsame
      (Op3 O_Vd O_Vn O_Vm) F_SIZEQ,
    aarch64_opcode_new ''sshl'' 0xe204400 0xbf20fc00 C_Asimdsame
      (Op3 O_Vd O_Vn O_Vm) F_SIZEQ,
    aarch64_opcode_new ''sqshl'' 0xe204c00 0xbf20fc00 C_Asimdsame
      (Op3 O_Vd O_Vn O_Vm) F_SIZEQ,
    aarch64_opcode_new ''srshl'' 0xe205400 0xbf20fc00 C_Asimdsame
      (Op3 O_Vd O_Vn O_Vm) F_SIZEQ,
    aarch64_opcode_new ''sqrshl'' 0xe205c00 0xbf20fc00 C_Asimdsame
      (Op3 O_Vd O_Vn O_Vm) F_SIZEQ,
    aarch64_opcode_new ''smax'' 0xe206400 0xbf20fc00 C_Asimdsame
      (Op3 O_Vd O_Vn O_Vm) F_SIZEQ,
    aarch64_opcode_new ''smin'' 0xe206c00 0xbf20fc00 C_Asimdsame
      (Op3 O_Vd O_Vn O_Vm) F_SIZEQ]"

definition opcode_rows_16 :: "aarch64_opcode list" where
  "opcode_rows_16 = [
    aarch64_opcode_new ''sabd'' 0xe207400 0xbf20fc00 C_Asimdsame
      (Op3 O_Vd O_Vn O_Vm) F_SIZEQ,
    aarch64_opcode_new ''saba'' 0xe207c00 0xbf20fc00 C_Asimdsame
      (Op3 O_Vd O_Vn O_Vm) F_SIZEQ,
    aarch64_opcode_new ''add'' 0xe208400 0xbf20fc00 C_Asimdsame
      (Op3 O_Vd O_Vn O_Vm) F_SIZEQ,
    aarch64_opcode_new ''cmtst'' 0xe208c00 0xbf20fc00 C_Asimdsame
      (Op3 O_Vd O_Vn O_Vm) F_SIZEQ,
    aarch64_opcode_new ''mla'' 0xe209400 0xbf20fc00 C_Asimdsame
      (Op3 O_Vd O_Vn O_Vm) F_SIZEQ,
    aarch64_opcode_new ''mul'' 0xe209c00 0xbf20fc00 C_Asimdsame
      (Op3 O_Vd O_Vn O_Vm) F_SIZEQ,
    aarch64_opcode_new ''smaxp'' 0xe20a400 0xbf20fc00 C_Asimdsame
      (Op3 O_Vd O_Vn O_Vm) F_SIZEQ,
    aarch64_opcode_new ''sminp'' 0xe20ac00 0xbf20fc00 C_Asimdsame
      (Op3 O_Vd O_Vn O_Vm) F_SIZEQ,
    aarch64_opcode_new ''sqdmulh'' 0xe20b400 0xbf20fc00 C_Asimdsame
      (Op3 O_Vd O_Vn O_Vm) F_SIZEQ,
    aarch64_opcode_new ''addp'' 0xe20bc00 0xbf20fc00 C_Asimdsame
      (Op3 O_Vd O_Vn O_Vm) F_SIZEQ,
    aarch64_opcode_new ''fmaxnm'' 0xe20c400 0xbfa0fc00 C_Asimdsame
      (Op3 O_Vd O_Vn O_Vm) F_SIZEQ,
    aarch64_opcode_new ''fmaxnm'' 0xe400400 0xbfe0fc00 C_Asimdsame
      (Op3 O_Vd O_Vn O_Vm) F_SIZEQ,
    aarch64_opcode_new ''fmla'' 0xe20cc00 0xbfa0fc00 C_Asimdsame
      (Op3 O_Vd O_Vn O_Vm) F_SIZEQ,
    aarch64_opcode_new ''fmla'' 0xe400c00 0xbfe0fc00 C_Asimdsame
      (Op3 O_Vd O_Vn O_Vm) F_SIZEQ,
    aarch64_opcode_new ''fadd'' 0xe20d400 0xbfa0fc00 C_Asimdsame
      (Op3 O_Vd O_Vn O_Vm) F_SIZEQ,
    aarch64_opcode_new ''fadd'' 0xe401400 0xbfe0fc00 C_Asimdsame
      (Op3 O_Vd O_Vn O_Vm) F_SIZEQ,
    aarch64_opcode_new ''fmulx'' 0xe20dc00 0xbfa0fc00 C_Asimdsame
      (Op3 O_Vd O_Vn O_Vm) F_SIZEQ,
    aarch64_opcode_new ''fmulx'' 0xe401c00 0xbfe0fc00 C_Asimdsame
      (Op3 O_Vd O_Vn O_Vm) F_SIZEQ]"

definition opcode_rows_17 :: "aarch64_opcode list" where
  "opcode_rows_17 = [
    aarch64_opcode_new ''fcmeq'' 0xe20e400 0xbfa0fc00 C_Asimdsame
      (Op3 O_Vd O_Vn O_Vm) F_SIZEQ,
    aarch64_opcode_new ''fcmeq'' 0xe402400 0xbfe0fc00 C_Asimdsame
      (Op3 O_Vd O_Vn O_Vm) F_SIZEQ,
    aarch64_opcode_new ''fmax'' 0xe20f400 0xbfa0fc00 C_Asimdsame
      (Op3 O_Vd O_Vn O_Vm) F_SIZEQ,
    aarch64_opcode_new ''fmax'' 0xe403400 0xbfe0fc00 C_Asimdsame
      (Op3 O_Vd O_Vn O_Vm) F_SIZEQ,
    aarch64_opcode_new ''frecps'' 0xe20fc00 0xbfa0fc00 C_Asimdsame
      (Op3 O_Vd O_Vn O_Vm) F_SIZEQ,
    aarch64_opcode_new ''frecps'' 0xe403c00 0xbfe0fc00 C_Asimdsame
      (Op3 O_Vd O_Vn O_Vm) F_SIZEQ,
    aarch64_opcode_new ''and'' 0xe201c00 0xbfe0fc00 C_Asimdsame
      (Op3 O_Vd O_Vn O_Vm) F_SIZEQ,
    aarch64_opcode_new ''bic'' 0xe601c00 0xbfe0fc00 C_Asimdsame
      (Op3 O_Vd O_Vn O_Vm) F_SIZEQ,
    aarch64_opcode_new ''fminnm'' 0xea0c400 0xbfa0fc00 C_Asimdsame
      (Op3 O_Vd O_Vn O_Vm) F_SIZEQ,
    aarch64_opcode_new ''fminnm'' 0xec00400 0xbfe0fc00 C_Asimdsame
      (Op3 O_Vd O_Vn O_Vm) F_SIZEQ,
    aarch64_opcode_new ''fmls'' 0xea0cc00 0xbfa0fc00 C_Asimdsame
      (Op3 O_Vd O_Vn O_Vm) F_SIZEQ,
    aarch64_opcode_new ''fmls'' 0xec00c00 0xbfe0fc00 C_Asimdsame
      (Op3 O_Vd O_Vn O_Vm) F_SIZEQ,
    aarch64_opcode_new ''fsub'' 0xea0d400 0xbfa0fc00 C_Asimdsame
      (Op3 O_Vd O_Vn O_Vm) F_SIZEQ,
    aarch64_opcode_new ''fsub'' 0xec01400 0xbfe0fc00 C_Asimdsame
      (Op3 O_Vd O_Vn O_Vm) F_SIZEQ,
    aarch64_opcode_new ''fmin'' 0xea0f400 0xbfa0fc00 C_Asimdsame
      (Op3 O_Vd O_Vn O_Vm) F_SIZEQ,
    aarch64_opcode_new ''fmin'' 0xec03400 0xbfe0fc00 C_Asimdsame
      (Op3 O_Vd O_Vn O_Vm) F_SIZEQ,
    aarch64_opcode_new ''frsqrts'' 0xea0fc00 0xbfa0fc00 C_Asimdsame
      (Op3 O_Vd O_Vn O_Vm) F_SIZEQ,
    aarch64_opcode_new ''frsqrts'' 0xec03c00 0xbfe0fc00 C_Asimdsame
      (Op3 O_Vd O_Vn O_Vm) F_SIZEQ]"

definition opcode_rows_18 :: "aarch64_opcode list" where
  "opcode_rows_18 = [
    aarch64_opcode_new ''orr'' 0xea01c00 0xbfe0fc00 C_Asimdsame
      (Op3 O_Vd O_Vn O_Vm) (F_HAS_ALIAS OR F_SIZEQ),
    aarch64_opcode_new ''mov'' 0xea01c00 0xbfe0fc00 C_Asimdsame
      (Op2 O_Vd O_Vn) (F_ALIAS OR F_CONV),
    aarch64_opcode_new ''orn'' 0xee01c00 0xbfe0fc00 C_Asimdsame
      (Op3 O_Vd O_Vn O_Vm) F_SIZEQ,
    aarch64_opcode_new ''uhadd'' 0x2e200400 0xbf20fc00 C_Asimdsame
      (Op3 O_Vd O_Vn O_Vm) F_SIZEQ,
    aarch64_opcode_new ''uqadd'' 0x2e200c00 0xbf20fc00 C_Asimdsame
      (Op3 O_Vd O_Vn O_Vm) F_SIZEQ,
    aarch64_opcode_new ''urhadd'' 0x2e201400 0xbf20fc00 C_Asimdsame
      (Op3 O_Vd O_Vn O_Vm) F_SIZEQ,
    aarch64_opcode_new ''uhsub'' 0x2e202400 0xbf20fc00 C_Asimdsame
      (Op3 O_Vd O_Vn O_Vm) F_SIZEQ,
    aarch64_opcode_new ''uqsub'' 0x2e202c00 0xbf20fc00 C_Asimdsame
      (Op3 O_Vd O_Vn O_Vm) F_SIZEQ,
    aarch64_opcode_new ''cmhi'' 0x2e203400 0xbf20fc00 C_Asimdsame
      (Op3 O_Vd O_Vn O_Vm) F_SIZEQ,
    aarch64_opcode_new ''cmhs'' 0x2e203c00 0xbf20fc00 C_Asimdsame
      (Op3 O_Vd O_Vn O_Vm) F_SIZEQ,
    aarch64_opcode_new ''ushl'' 0x2e204400 0xbf20fc00 C_Asimdsame
      (Op3 O_Vd O_Vn O_Vm) F_SIZEQ,
    aarch64_opcode_new ''uqshl'' 0x2e204c00 0xbf20fc00 C_Asimdsame
      (Op3 O_Vd O_Vn O_Vm) F_SIZEQ,
    aarch64_opcode_new ''urshl'' 0x2e205400 0xbf20fc00 C_Asimdsame
      (Op3 O_Vd O_Vn O_Vm) F_SIZEQ,
    aarch64_opcode_new ''uqrshl'' 0x2e205c00 0xbf20fc00 C_Asimdsame
      (Op3 O_Vd O_Vn O_Vm) F_SIZEQ,
    aarch64_opcode_new ''umax'' 0x2e206400 0xbf20fc00 C_Asimdsame
      (Op3 O_Vd O_Vn O_Vm) F_SIZEQ,
    aarch64_opcode_new ''umin'' 0x2e206c00 0xbf20fc00 C_Asimdsame
      (Op3 O_Vd O_Vn O_Vm) F_SIZEQ,
    aarch64_opcode_new ''uabd'' 0x2e207400 0xbf20fc00 C_Asimdsame
      (Op3 O_Vd O_Vn O_Vm) F_SIZEQ,
    aarch64_opcode_new ''uaba'' 0x2e207c00 0xbf20fc00 C_Asimdsame
      (Op3 O_Vd O_Vn O_Vm) F_SIZEQ]"

definition opcode_rows_19 :: "aarch64_opcode list" where
  "opcode_rows_19 = [
    aarch64_opcode_new ''sub'' 0x2e208400 0xbf20fc00 C_Asimdsame
      (Op3 O_Vd O_Vn O_Vm) F_SIZEQ,
    aarch64_opcode_new ''cmeq'' 0x2e208c00 0xbf20fc00 C_Asimdsame
      (Op3 O_Vd O_Vn O_Vm) F_SIZEQ,
    aarch64_opcode_new ''mls'' 0x2e209400 0xbf20fc00 C_Asimdsame
      (Op3 O_Vd O_Vn O_Vm) F_SIZEQ,
    aarch64_opcode_new ''pmul'' 0x2e209c00 0xbf20fc00 C_Asimdsame
      (Op3 O_Vd O_Vn O_Vm) F_SIZEQ,
    aarch64_opcode_new ''umaxp'' 0x2e20a400 0xbf20fc00 C_Asimdsame
      (Op3 O_Vd O_Vn O_Vm) F_SIZEQ,
    aarch64_opcode_new ''uminp'' 0x2e20ac00 0xbf20fc00 C_Asimdsame
      (Op3 O_Vd O_Vn O_Vm) F_SIZEQ,
    aarch64_opcode_new ''sqrdmulh'' 0x2e20b400 0xbf20fc00 C_Asimdsame
      (Op3 O_Vd O_Vn O_Vm) F_SIZEQ,
    aarch64_opcode_new ''fmaxnmp'' 0x2e20c400 0xbfa0fc00 C_Asimdsame
      (Op3 O_Vd O_Vn O_Vm) F_SIZEQ,
    aarch64_opcode_new ''fmaxnmp'' 0x2e400400 0xbfe0fc00 C_Asimdsame
      (Op3 O_Vd O_Vn O_Vm) F_SIZEQ,
    aarch64_opcode_new ''faddp'' 0x2e20d400 0xbfa0fc00 C_Asimdsame
      (Op3 O_Vd O_Vn O_Vm) F_SIZEQ,
    aarch64_opcode_new ''faddp'' 0x2e401400 0xbfe0fc00 C_Asimdsame
      (Op3 O_Vd O_Vn O_Vm) F_SIZEQ,
    aarch64_opcode_new ''fmul'' 0x2e20dc00 0xbfa0fc00 C_Asimdsame
      (Op3 O_Vd O_Vn O_Vm) F_SIZEQ,
    aarch64_opcode_new ''fmul'' 0x2e401c00 0xbfe0fc00 C_Asimdsame
      (Op3 O_Vd O_Vn O_Vm) F_SIZEQ,
    aarch64_opcode_new ''fcmge'' 0x2e20e400 0xbfa0fc00 C_Asimdsame
      (Op3 O_Vd O_Vn O_Vm) F_SIZEQ,
    aarch64_opcode_new ''fcmge'' 0x2e402400 0xbfe0fc00 C_Asimdsame
      (Op3 O_Vd O_Vn O_Vm) F_SIZEQ,
    aarch64_opcode_new ''facge'' 0x2e20ec00 0xbfa0fc00 C_Asimdsame
      (Op3 O_Vd O_Vn O_Vm) F_SIZEQ,
    aarch64_opcode_new ''facge'' 0x2e402c00 0xbfe0fc00 C_Asimdsame
      (Op3 O_Vd O_Vn O_Vm) F_SIZEQ,
    aarch64_opcode_new ''fmaxp'' 0x2e20f400 0xbfa0fc00 C_Asimdsame
      (Op3 O_Vd O_Vn O_Vm) F_SIZEQ]"

definition opcode_rows_20 :: "aarch64_opcode list" where
  "opcode_rows_20 = [
    aarch64_opcode_new ''fmaxp'' 0x2e403400 0xbfe0fc00 C_Asimdsame
      (Op3 O_Vd O_Vn O_Vm) F_SIZEQ,
    aarch64_opcode_new ''fdiv'' 0x2e20fc00 0xbfa0fc00 C_Asimdsame
      (Op3 O_Vd O_Vn O_Vm) F_SIZEQ,
    aarch64_opcode_new ''fdiv'' 0x2e403c00 0xbfe0fc00 C_Asimdsame
      (Op3 O_Vd O_Vn O_Vm) F_SIZEQ,
    aarch64_opcode_new ''eor'' 0x2e201c00 0xbfe0fc00 C_Asimdsame
      (Op3 O_Vd O_Vn O_Vm) F_SIZEQ,
    aarch64_opcode_new ''bsl'' 0x2e601c00 0xbfe0fc00 C_Asimdsame
      (Op3 O_Vd O_Vn O_Vm) F_SIZEQ,
    aarch64_opcode_new ''fminnmp'' 0x2ea0c400 0xbfa0fc00 C_Asimdsame
      (Op3 O_Vd O_Vn O_Vm) F_SIZEQ,
    aarch64_opcode_new ''fminnmp'' 0x2ec00400 0xbfe0fc00 C_Asimdsame
      (Op3 O_Vd O_Vn O_Vm) F_SIZEQ,
    aarch64_opcode_new ''fabd'' 0x2ea0d400 0xbfa0fc00 C_Asimdsame
      (Op3 O_Vd O_Vn O_Vm) F_SIZEQ,
    aarch64_opcode_new ''fabd'' 0x2ec01400 0xbfe0fc00 C_Asimdsame
      (Op3 O_Vd O_Vn O_Vm) F_SIZEQ,
    aarch64_opcode_new ''fcmgt'' 0x2ea0e400 0xbfa0fc00 C_Asimdsame
      (Op3 O_Vd O_Vn O_Vm) F_SIZEQ,
    aarch64_opcode_new ''fcmgt'' 0x2ec02400 0xbfe0fc00 C_Asimdsame
      (Op3 O_Vd O_Vn O_Vm) F_SIZEQ,
    aarch64_opcode_new ''facgt'' 0x2ea0ec00 0xbfa0fc00 C_Asimdsame
      (Op3 O_Vd O_Vn O_Vm) F_SIZEQ,
    aarch64_opcode_new ''facgt'' 0x2ec02c00 0xbfe0fc00 C_Asimdsame
      (Op3 O_Vd O_Vn O_Vm) F_SIZEQ,
    aarch64_opcode_new ''fminp'' 0x2ea0f400 0xbfa0fc00 C_Asimdsame
      (Op3 O_Vd O_Vn O_Vm) F_SIZEQ,
    aarch64_opcode_new ''fminp'' 0x2ec03400 0xbfe0fc00 C_Asimdsame
      (Op3 O_Vd O_Vn O_Vm) F_SIZEQ,
    aarch64_opcode_new ''bit'' 0x2ea01c00 0xbfe0fc00 C_Asimdsame
      (Op3 O_Vd O_Vn O_Vm) F_SIZEQ,
    aarch64_opcode_new ''bif'' 0x2ee01c00 0xbfe0fc00 C_Asimdsame
      (Op3 O_Vd O_Vn O_Vm) F_SIZEQ,
    aarch64_opcode_new ''sqrdmlah'' 0x2e008400 0xbf20fe00 C_Asimdsame
      (Op3 O_Vd O_Vn O_Vm) F_SIZEQ]"

definition opcode_rows_21 :: "aarch64_opcode list" where
  "opcode_rows_21 = [
    aarch64_opcode_new ''sqrdmlsh'' 0x2e008c00 0xbf20fe00 C_Asimdsame
      (Op3 O_Vd O_Vn O_Vm) F_SIZEQ,
    aarch64_opcode_new ''sshr'' 0xf000400 0xbf80fc00 C_Asimdshf
      (Op3 O_Vd O_Vn O_ImmVlsr) 0,
    aarch64_opcode_new ''ssra'' 0xf001400 0xbf80fc00 C_Asimdshf
      (Op3 O_Vd O_Vn O_ImmVlsr) 0,
    aarch64_opcode_new ''srshr'' 0xf002400 0xbf80fc00 C_Asimdshf
      (Op3 O_Vd O_Vn O_ImmVlsr) 0,
    aarch64_opcode_new ''srsra'' 0xf003400 0xbf80fc00 C_Asimdshf
      (Op3 O_Vd O_Vn O_ImmVlsr) 0,
    aarch64_opcode_new ''shl'' 0xf005400 0xbf80fc00 C_Asimdshf
      (Op3 O_Vd O_Vn O_ImmVlsl) 0,
    aarch64_opcode_new ''sqshl'' 0xf007400 0xbf80fc00 C_Asimdshf
      (Op3 O_Vd O_Vn O_ImmVlsl) 0,
    aarch64_opcode_new ''shrn'' 0xf008400 0xff80fc00 C_Asimdshf
      (Op3 O_Vd O_Vn O_ImmVlsr) 0,
    aarch64_opcode_new ''shrn2'' 0x4f008400 0xff80fc00 C_Asimdshf
      (Op3 O_Vd O_Vn O_ImmVlsr) 0,
    aarch64_opcode_new ''rshrn'' 0xf008c00 0xff80fc00 C_Asimdshf
      (Op3 O_Vd O_Vn O_ImmVlsr) 0,
    aarch64_opcode_new ''rshrn2'' 0x4f008c00 0xff80fc00 C_Asimdshf
      (Op3 O_Vd O_Vn O_ImmVlsr) 0,
    aarch64_opcode_new ''sqshrn'' 0xf009400 0xff80fc00 C_Asimdshf
      (Op3 O_Vd O_Vn O_ImmVlsr) 0,
    aarch64_opcode_new ''sqshrn2'' 0x4f009400 0xff80fc00 C_Asimdshf
      (Op3 O_Vd O_Vn O_ImmVlsr) 0,
    aarch64_opcode_new ''sqrshrn'' 0xf009c00 0xff80fc00 C_Asimdshf
      (Op3 O_Vd O_Vn O_ImmVlsr) 0,
    aarch64_opcode_new ''sqrshrn2'' 0x4f009c00 0xff80fc00 C_Asimdshf
      (Op3 O_Vd O_Vn O_ImmVlsr) 0,
    aarch64_opcode_new ''sshll'' 0xf00a400 0xff80fc00 C_Asimdshf
      (Op3 O_Vd O_Vn O_ImmVlsl) F_HAS_ALIAS,
    aarch64_opcode_new ''sxtl'' 0xf00a400 0xff87fc00 C_Asimdshf
      (Op2 O_Vd O_Vn) (F_ALIAS OR F_CONV),
    aarch64_opcode_new ''sshll2'' 0x4f00a400 0xff80fc00 C_Asimdshf
      (Op3 O_Vd O_Vn O_ImmVlsl) F_HAS_ALIAS]"

definition opcode_rows_22 :: "aarch64_opcode list" where
  "opcode_rows_22 = [
    aarch64_opcode_new ''sxtl2'' 0x4f00a400 0xff87fc00 C_Asimdshf
      (Op2 O_Vd O_Vn) (F_ALIAS OR F_CONV),
    aarch64_opcode_new ''scvtf'' 0xf00e400 0xbf80fc00 C_Asimdshf
      (Op3 O_Vd O_Vn O_ImmVlsr) 0,
    aarch64_opcode_new ''scvtf'' 0xf10e400 0xbf80fc00 C_Asimdshf
      (Op3 O_Vd O_Vn O_ImmVlsr) 0,
    aarch64_opcode_new ''fcvtzs'' 0xf00fc00 0xbf80fc00 C_Asimdshf
      (Op3 O_Vd O_Vn O_ImmVlsr) 0,
    aarch64_opcode_new ''fcvtzs'' 0xf10fc00 0xbf80fc00 C_Asimdshf
      (Op3 O_Vd O_Vn O_ImmVlsr) 0,
    aarch64_opcode_new ''ushr'' 0x2f000400 0xbf80fc00 C_Asimdshf
      (Op3 O_Vd O_Vn O_ImmVlsr) 0,
    aarch64_opcode_new ''usra'' 0x2f001400 0xbf80fc00 C_Asimdshf
      (Op3 O_Vd O_Vn O_ImmVlsr) 0,
    aarch64_opcode_new ''urshr'' 0x2f002400 0xbf80fc00 C_Asimdshf
      (Op3 O_Vd O_Vn O_ImmVlsr) 0,
    aarch64_opcode_new ''ursra'' 0x2f003400 0xbf80fc00 C_Asimdshf
      (Op3 O_Vd O_Vn O_ImmVlsr) 0,
    aarch64_opcode_new ''sri'' 0x2f004400 0xbf80fc00 C_Asimdshf
      (Op3 O_Vd O_Vn O_ImmVlsr) 0,
    aarch64_opcode_new ''sli'' 0x2f005400 0xbf80fc00 C_Asimdshf
      (Op3 O_Vd O_Vn O_ImmVlsl) 0,
    aarch64_opcode_new ''sqshlu'' 0x2f006400 0xbf80fc00 C_Asimdshf
      (Op3 O_Vd O_Vn O_ImmVlsl) 0,
    aarch64_opcode_new ''uqshl'' 0x2f007400 0xbf80fc00 C_Asimdshf
      (Op3 O_Vd O_Vn O_ImmVlsl) 0,
    aarch64_opcode_new ''sqshrun'' 0x2f008400 0xff80fc00 C_Asimdshf
      (Op3 O_Vd O_Vn O_ImmVlsr) 0,
    aarch64_opcode_new ''sqshrun2'' 0x6f008400 0xff80fc00 C_Asimdshf
      (Op3 O_Vd O_Vn O_ImmVlsr) 0,
    aarch64_opcode_new ''sqrshrun'' 0x2f008c00 0xff80fc00 C_Asimdshf
      (Op3 O_Vd O_Vn O_ImmVlsr) 0,
    aarch64_opcode_new ''sqrshrun2'' 0x6f008c00 0xff80fc00 C_Asimdshf
      (Op3 O_Vd O_Vn O_ImmVlsr) 0,
    aarch64_opcode_new ''uqshrn'' 0x2f009400 0xff80fc00 C_Asimdshf
      (Op3 O_Vd O_Vn O_ImmVlsr) 0]"

definition opcode_rows_23 :: "aarch64_opcode list" where
  "opcode_rows_23 = [
    aarch64_opcode_new ''uqshrn2'' 0x6f009400 0xff80fc00 C_Asimdshf
      (Op3 O_Vd O_Vn O_ImmVlsr) 0,
    aarch64_opcode_new ''uqrshrn'' 0x2f009c00 0xff80fc00 C_Asimdshf
      (Op3 O_Vd O_Vn O_ImmVlsr) 0,
    aarch64_opcode_new ''uqrshrn2'' 0x6f009c00 0xff80fc00 C_Asimdshf
      (Op3 O_Vd O_Vn O_ImmVlsr) 0,
    aarch64_opcode_new ''ushll'' 0x2f00a400 0xff80fc00 C_Asimdshf
      (Op3 O_Vd O_Vn O_ImmVlsl) F_HAS_ALIAS,
    aarch64_opcode_new ''uxtl'' 0x2f00a400 0xff87fc00 C_Asimdshf
      (Op2 O_Vd O_Vn) (F_ALIAS OR F_CONV),
    aarch64_opcode_new ''ushll2'' 0x6f00a400 0xff80fc00 C_Asimdshf
      (Op3 O_Vd O_Vn O_ImmVlsl) F_HAS_ALIAS,
    aarch64_opcode_new ''uxtl2'' 0x6f00a400 0xff87fc00 C_Asimdshf
      (Op2 O_Vd O_Vn) (F_ALIAS OR F_CONV),
    aarch64_opcode_new ''ucvtf'' 0x2f00e400 0xbf80fc00 C_Asimdshf
      (Op3 O_Vd O_Vn O_ImmVlsr) 0,
    aarch64_opcode_new ''ucvtf'' 0x2f10e400 0xbf80fc00 C_Asimdshf
      (Op3 O_Vd O_Vn O_ImmVlsr) 0,
    aarch64_opcode_new ''fcvtzu'' 0x2f00fc00 0xbf80fc00 C_Asimdshf
      (Op3 O_Vd O_Vn O_ImmVlsr) 0,
    aarch64_opcode_new ''fcvtzu'' 0x2f10fc00 0xbf80fc00 C_Asimdshf
      (Op3 O_Vd O_Vn O_ImmVlsr) 0,
    aarch64_opcode_new ''tbl'' 0xe000000 0xbfe09c00 C_Asimdtbl
      (Op3 O_Vd O_Lvn O_Vm) F_SIZEQ,
    aarch64_opcode_new ''tbx'' 0xe001000 0xbfe09c00 C_Asimdtbl
      (Op3 O_Vd O_Lvn O_Vm) F_SIZEQ,
    aarch64_opcode_new ''sqdmlal'' 0x5e209000 0xff20fc00 C_Asisddiff
      (Op3 O_Sd O_Sn O_Sm) F_SSIZE,
    aarch64_opcode_new ''sqdmlsl'' 0x5e20b000 0xff20fc00 C_Asisddiff
      (Op3 O_Sd O_Sn O_Sm) F_SSIZE,
    aarch64_opcode_new ''sqdmull'' 0x5e20d000 0xff20fc00 C_Asisddiff
      (Op3 O_Sd O_Sn O_Sm) F_SSIZE,
    aarch64_opcode_new ''sqdmlal'' 0x5f003000 0xff00f400 C_Asisdelem
      (Op3 O_Sd O_Sn O_Em) F_SSIZE,
    aarch64_opcode_new ''sqdmlsl'' 0x5f007000 0xff00f400 C_Asisdelem
      (Op3 O_Sd O_Sn O_Em) F_SSIZE]"

definition opcode_rows_24 :: "aarch64_opcode list" where
  "opcode_rows_24 = [
    aarch64_opcode_new ''sqdmull'' 0x5f00b000 0xff00f400 C_Asisdelem
      (Op3 O_Sd O_Sn O_Em) F_SSIZE,
    aarch64_opcode_new ''sqdmulh'' 0x5f00c000 0xff00f400 C_Asisdelem
      (Op3 O_Sd O_Sn O_Em) F_SSIZE,
    aarch64_opcode_new ''sqrdmulh'' 0x5f00d000 0xff00f400 C_Asisdelem
      (Op3 O_Sd O_Sn O_Em) F_SSIZE,
    aarch64_opcode_new ''fmla'' 0x5f801000 0xff80f400 C_Asisdelem
      (Op3 O_Sd O_Sn O_Em) F_SSIZE,
    aarch64_opcode_new ''fmla'' 0x5f001000 0xffc0f400 C_Asisdelem
      (Op3 O_Sd O_Sn O_Em) F_SSIZE,
    aarch64_opcode_new ''fmls'' 0x5f805000 0xff80f400 C_Asisdelem
      (Op3 O_Sd O_Sn O_Em) F_SSIZE,
    aarch64_opcode_new ''fmls'' 0x5f005000 0xffc0f400 C_Asisdelem
      (Op3 O_Sd O_Sn O_Em) F_SSIZE,
    aarch64_opcode_new ''fmul'' 0x5f809000 0xff80f400 C_Asisdelem
      (Op3 O_Sd O_Sn O_Em) F_SSIZE,
    aarch64_opcode_new ''fmul'' 0x5f009000 0xffc0f400 C_Asisdelem
      (Op3 O_Sd O_Sn O_Em) F_SSIZE,
    aarch64_opcode_new ''fmulx'' 0x7f809000 0xff80f400 C_Asisdelem
      (Op3 O_Sd O_Sn O_Em) F_SSIZE,
    aarch64_opcode_new ''fmulx'' 0x7f009000 0xffc0f400 C_Asisdelem
      (Op3 O_Sd O_Sn O_Em) F_SSIZE,
    aarch64_opcode_new ''sqrdmlah'' 0x7f00d000 0xff00f400 C_Asisdelem
      (Op3 O_Sd O_Sn O_Em) F_SSIZE,
    aarch64_opcode_new ''sqrdmlsh'' 0x7f00f000 0xff00f400 C_Asisdelem
      (Op3 O_Sd O_Sn O_Em) F_SSIZE,
    aarch64_opcode_new ''st4'' 0xc000000 0xbfff0000 C_Asisdlse
      (Op2 O_Lvt O_SimdAddrSimple) (F_SIZEQ OR F_OD 4),
    aarch64_opcode_new ''st1'' 0xc000000 0xbfff0000 C_Asisdlse
      (Op2 O_Lvt O_SimdAddrSimple) (F_SIZEQ OR F_OD 1),
    aarch64_opcode_new ''st2'' 0xc000000 0xbfff0000 C_Asisdlse
      (Op2 O_Lvt O_SimdAddrSimple) (F_SIZEQ OR F_OD 2),
    aarch64_opcode_new ''st3'' 0xc000000 0xbfff0000 C_Asisdlse
      (Op2 O_Lvt O_SimdAddrSimple) (F_SIZEQ OR F_OD 3),
    aarch64_opcode_new ''ld4'' 0xc400000 0xbfff0000 C_Asisdlse
      (Op2 O_Lvt O_SimdAddrSimple) (F_SIZEQ OR F_OD 4)]"

definition opcode_rows_25 :: "aarch64_opcode list" where
  "opcode_rows_25 = [
    aarch64_opcode_new ''ld1'' 0xc400000 0xbfff0000 C_Asisdlse
      (Op2 O_Lvt O_SimdAddrSimple) (F_SIZEQ OR F_OD 1),
    aarch64_opcode_new ''ld2'' 0xc400000 0xbfff0000 C_Asisdlse
      (Op2 O_Lvt O_SimdAddrSimple) (F_SIZEQ OR F_OD 2),
    aarch64_opcode_new ''ld3'' 0xc400000 0xbfff0000 C_Asisdlse
      (Op2 O_Lvt O_SimdAddrSimple) (F_SIZEQ OR F_OD 3),
    aarch64_opcode_new ''st4'' 0xc800000 0xbfe00000 C_Asisdlsep
      (Op2 O_Lvt O_SimdAddrPost) (F_SIZEQ OR F_OD 4),
    aarch64_opcode_new ''st1'' 0xc800000 0xbfe00000 C_Asisdlsep
      (Op2 O_Lvt O_SimdAddrPost) (F_SIZEQ OR F_OD 1),
    aarch64_opcode_new ''st2'' 0xc800000 0xbfe00000 C_Asisdlsep
      (Op2 O_Lvt O_SimdAddrPost) (F_SIZEQ OR F_OD 2),
    aarch64_opcode_new ''st3'' 0xc800000 0xbfe00000 C_Asisdlsep
      (Op2 O_Lvt O_SimdAddrPost) (F_SIZEQ OR F_OD 3),
    aarch64_opcode_new ''ld4'' 0xcc00000 0xbfe00000 C_Asisdlsep
      (Op2 O_Lvt O_SimdAddrPost) (F_SIZEQ OR F_OD 4),
    aarch64_opcode_new ''ld1'' 0xcc00000 0xbfe00000 C_Asisdlsep
      (Op2 O_Lvt O_SimdAddrPost) (F_SIZEQ OR F_OD 1),
    aarch64_opcode_new ''ld2'' 0xcc00000 0xbfe00000 C_Asisdlsep
      (Op2 O_Lvt O_SimdAddrPost) (F_SIZEQ OR F_OD 2),
    aarch64_opcode_new ''ld3'' 0xcc00000 0xbfe00000 C_Asisdlsep
      (Op2 O_Lvt O_SimdAddrPost) (F_SIZEQ OR F_OD 3),
    aarch64_opcode_new ''st1'' 0xd000000 0xbfff2000 C_Asisdlso
      (Op2 O_Let O_SimdAddrSimple) (F_OD 1),
    aarch64_opcode_new ''st3'' 0xd002000 0xbfff2000 C_Asisdlso
      (Op2 O_Let O_SimdAddrSimple) (F_OD 3),
    aarch64_opcode_new ''st2'' 0xd200000 0xbfff2000 C_Asisdlso
      (Op2 O_Let O_SimdAddrSimple) (F_OD 2),
    aarch64_opcode_new ''st4'' 0xd202000 0xbfff2000 C_Asisdlso
      (Op2 O_Let O_SimdAddrSimple) (F_OD 4),
    aarch64_opcode_new ''ld1'' 0xd400000 0xbfff2000 C_Asisdlso
      (Op2 O_Let O_SimdAddrSimple) (F_OD 1),
    aarch64_opcode_new ''ld3'' 0xd402000 0xbfff2000 C_Asisdlso
      (Op2 O_Let O_SimdAddrSimple) (F_OD 3),
    aarch64_opcode_new ''ld1r'' 0xd40c000 0xbfffe000 C_Asisdlso
      (Op2 O_LvtAl O_SimdAddrSimple) (F_SIZEQ OR F_OD 1)]"

definition opcode_rows_26 :: "aarch64_opcode list" where
  "opcode_rows_26 = [
    aarch64_opcode_new ''ld3r'' 0xd40e000 0xbfffe000 C_Asisdlso
      (Op2 O_LvtAl O_SimdAddrSimple) (F_SIZEQ OR F_OD 3),
    aarch64_opcode_new ''ld2'' 0xd600000 0xbfff2000 C_Asisdlso
      (Op2 O_Let O_SimdAddrSimple) (F_OD 2),
    aarch64_opcode_new ''ld4'' 0xd602000 0xbfff2000 C_Asisdlso
      (Op2 O_Let O_SimdAddrSimple) (F_OD 4),
    aarch64_opcode_new ''ld2r'' 0xd60c000 0xbfffe000 C_Asisdlso
      (Op2 O_LvtAl O_SimdAddrSimple) (F_SIZEQ OR F_OD 2),
    aarch64_opcode_new ''ld4r'' 0xd60e000 0xbfffe000 C_Asisdlso
      (Op2 O_LvtAl O_SimdAddrSimple) (F_SIZEQ OR F_OD 4),
    aarch64_opcode_new ''st1'' 0xd800000 0xbfe02000 C_Asisdlsop
      (Op2 O_Let O_SimdAddrPost) (F_OD 1),
    aarch64_opcode_new ''st3'' 0xd802000 0xbfe02000 C_Asisdlsop
      (Op2 O_Let O_SimdAddrPost) (F_OD 3),
    aarch64_opcode_new ''st2'' 0xda00000 0xbfe02000 C_Asisdlsop
      (Op2 O_Let O_SimdAddrPost) (F_OD 2),
    aarch64_opcode_new ''st4'' 0xda02000 0xbfe02000 C_Asisdlsop
      (Op2 O_Let O_SimdAddrPost) (F_OD 4),
    aarch64_opcode_new ''ld1'' 0xdc00000 0xbfe02000 C_Asisdlsop
      (Op2 O_Let O_SimdAddrPost) (F_OD 1),
    aarch64_opcode_new ''ld3'' 0xdc02000 0xbfe02000 C_Asisdlsop
      (Op2 O_Let O_SimdAddrPost) (F_OD 3),
    aarch64_opcode_new ''ld1r'' 0xdc0c000 0xbfe0e000 C_Asisdlsop
      (Op2 O_LvtAl O_SimdAddrPost) (F_SIZEQ OR F_OD 1),
    aarch64_opcode_new ''ld3r'' 0xdc0e000 0xbfe0e000 C_Asisdlsop
      (Op2 O_LvtAl O_SimdAddrPost) (F_SIZEQ OR F_OD 3),
    aarch64_opcode_new ''ld2'' 0xde00000 0xbfe02000 C_Asisdlsop
      (Op2 O_Let O_SimdAddrPost) (F_OD 2),
    aarch64_opcode_new ''ld4'' 0xde02000 0xbfe02000 C_Asisdlsop
      (Op2 O_Let O_SimdAddrPost) (F_OD 4),
    aarch64_opcode_new ''ld2r'' 0xde0c000 0xbfe0e000 C_Asisdlsop
      (Op2 O_LvtAl O_SimdAddrPost) (F_SIZEQ OR F_OD 2),
    aarch64_opcode_new ''ld4r'' 0xde0e000 0xbfe0e000 C_Asisdlsop
      (Op2 O_LvtAl O_SimdAddrPost) (F_SIZEQ OR F_OD 4),
    aarch64_opcode_new ''suqadd'' 0x5e203800 0xff3ffc00 C_Asisdmisc
      (Op2 O_Sd O_Sn) F_SSIZE]"

end
