(* ===== verification/A64_Rows3.thy ===== *)
theory A64_Rows3
  imports A64_Opcode
begin

text \<open>
  Part 3 of the opcode table \<open>aarch64_opcode_table\<close> of \<open>src/src/isa/aarch64/table.rs\<close>, in
  source order: one list per run of consecutive rows.
\<close>

definition opcode_rows_27 :: "aarch64_opcode list" where
  "opcode_rows_27 = [
    aarch64_opcode_new ''sqabs'' 0x5e207800 0xff3ffc00 C_Asisdmisc
      (Op2 O_Sd O_Sn) F_SSIZE,
    aarch64_opcode_new ''cmgt'' 0x5e208800 0xff3ffc00 C_Asisdmisc
      (Op3 O_Sd O_Sn O_Imm0) F_SSIZE,
    aarch64_opcode_new ''cmeq'' 0x5e209800 0xff3ffc00 C_Asisdmisc
      (Op3 O_Sd O_Sn O_Imm0) F_SSIZE,
    aarch64_opcode_new ''cmlt'' 0x5e20a800 0xff3ffc00 C_Asisdmisc
      (Op3 O_Sd O_Sn O_Imm0) F_SSIZE,
    aarch64_opcode_new ''abs'' 0x5e20b800 0xff3ffc00 C_Asisdmisc
      (Op2 O_Sd O_Sn) F_SSIZE,
    aarch64_opcode_new ''sqxtn'' 0x5e214800 0xff3ffc00 C_Asisdmisc
      (Op2 O_Sd O_Sn) F_SSIZE,
    aarch64_opcode_new ''fcvtns'' 0x5e21a800 0xffbffc00 C_Asisdmisc
      (Op2 O_Sd O_Sn) F_SSIZE,
    aarch64_opcode_new ''fcvtns'' 0x5e79a800 0xfffffc00 C_Asisdmisc
      (Op2 O_Sd O_Sn) F_SSIZE,
    aarch64_opcode_new ''fcvtms'' 0x5e21b800 0xffbffc00 C_Asisdmisc
      (Op2 O_Sd O_Sn) F_SSIZE,
    aarch64_opcode_new ''fcvtms'' 0x5e79b800 0xfffffc00 C_Asisdmisc
      (Op2 O_Sd O_Sn) F_SSIZE,
    aarch64_opcode_new ''fcvtas'' 0x5e21c800 0xffbffc00 C_Asisdmisc
      (Op2 O_Sd O_Sn) F_SSIZE,
    aarch64_opcode_new ''fcvtas'' 0x5e79c800 0xfffffc00 C_Asisdmisc
      (Op2 O_Sd O_Sn) F_SSIZE,
    aarch64_opcode_new ''scvtf'' 0x5e21d800 0xffbffc00 C_Asisdmisc
      (Op2 O_Sd O_Sn) F_SSIZE,
    aarch64_opcode_new ''scvtf'' 0x5e79d800 0xfffffc00 C_Asisdmisc
      (Op2 O_Sd O_Sn) F_SSIZE,
    aarch64_opcode_new ''fcmgt'' 0x5ea0c800 0xffbffc00 C_Asisdmisc
      (Op3 O_Sd O_Sn O_Fpimm0) F_SSIZE,
    aarch64_opcode_new ''fcmgt'' 0x5ef8c800 0xfffffc00 C_Asisdmisc
      (Op3 O_Sd O_Sn O_Fpimm0) F_SSIZE,
    aarch64_opcode_new ''fcmeq'' 0x5ea0d800 0xffbffc00 C_Asisdmisc
      (Op3 O_Sd O_Sn O_Fpimm0) F_SSIZE,
    aarch64_opcode_new ''fcmeq'' 0x5ef8d800 0xfffffc00 C_Asisdmisc
      (Op3 O_Sd O_Sn O_Fpimm0) F_SSIZE]"

definition opcode_rows_28 :: "aarch64_opcode list" where
  "opcode_rows_28 = [
    aarch64_opcode_new ''fcmlt'' 0x5ea0e800 0xffbffc00 C_Asisdmisc
      (Op3 O_Sd O_Sn O_Fpimm0) F_SSIZE,
    aarch64_opcode_new ''fcmlt'' 0x5ef8e800 0xfffffc00 C_Asisdmisc
      (Op3 O_Sd O_Sn O_Fpimm0) F_SSIZE,
    aarch64_opcode_new ''fcvtps'' 0x5ea1a800 0xffbffc00 C_Asisdmisc
      (Op2 O_Sd O_Sn) F_SSIZE,
    aarch64_opcode_new ''fcvtps'' 0x5ef9a800 0xfffffc00 C_Asisdmisc
      (Op2 O_Sd O_Sn) F_SSIZE,
    aarch64_opcode_new ''fcvtzs'' 0x5ea1b800 0xffbffc00 C_Asisdmisc
      (Op2 O_Sd O_Sn) F_SSIZE,
    aarch64_opcode_new ''fcvtzs'' 0x5ef9b800 0xfffffc00 C_Asisdmisc
      (Op2 O_Sd O_Sn) F_SSIZE,
    aarch64_opcode_new ''frecpe'' 0x5ea1d800 0xffbffc00 C_Asisdmisc
      (Op2 O_Sd O_Sn) F_SSIZE,
    aarch64_opcode_new ''frecpe'' 0x5ef9d800 0xfffffc00 C_Asisdmisc
      (Op2 O_Sd O_Sn) F_SSIZE,
    aarch64_opcode_new ''frecpx'' 0x5ea1f800 0xffbffc00 C_Asisdmisc
      (Op2 O_Sd O_Sn) F_SSIZE,
    aarch64_opcode_new ''frecpx'' 0x5ef9f800 0xfffffc00 C_Asisdmisc
      (Op2 O_Sd O_Sn) F_SSIZE,
    aarch64_opcode_new ''usqadd'' 0x7e203800 0xff3ffc00 C_Asisdmisc
      (Op2 O_Sd O_Sn) F_SSIZE,
    aarch64_opcode_new ''sqneg'' 0x7e207800 0xff3ffc00 C_Asisdmisc
      (Op2 O_Sd O_Sn) F_SSIZE,
    aarch64_opcode_new ''cmge'' 0x7e208800 0xff3ffc00 C_Asisdmisc
      (Op3 O_Sd O_Sn O_Imm0) F_SSIZE,
    aarch64_opcode_new ''cmle'' 0x7e209800 0xff3ffc00 C_Asisdmisc
      (Op3 O_Sd O_Sn O_Imm0) F_SSIZE,
    aarch64_opcode_new ''neg'' 0x7e20b800 0xff3ffc00 C_Asisdmisc
      (Op2 O_Sd O_Sn) F_SSIZE,
    aarch64_opcode_new ''sqxtun'' 0x7e212800 0xff3ffc00 C_Asisdmisc
      (Op2 O_Sd O_Sn) F_SSIZE,
    aarch64_opcode_new ''uqxtn'' 0x7e214800 0xff3ffc00 C_Asisdmisc
      (Op2 O_Sd O_Sn) F_SSIZE,
    aarch64_opcode_new ''fcvtxn'' 0x7e216800 0xffbffc00 C_Asisdmisc
      (Op2 O_Sd O_Sn) F_MISC]"

definition opcode_rows_29 :: "aarch64_opcode list" where
  "opcode_rows_29 = [
    aarch64_opcode_new ''fcvtnu'' 0x7e21a800 0xffbffc00 C_Asisdmisc
      (Op2 O_Sd O_Sn) F_SSIZE,
    aarch64_opcode_new ''fcvtnu'' 0x7e79a800 0xfffffc00 C_Asisdmisc
      (Op2 O_Sd O_Sn) F_SSIZE,
    aarch64_opcode_new ''fcvtmu'' 0x7e21b800 0xffbffc00 C_Asisdmisc
      (Op2 O_Sd O_Sn) F_SSIZE,
    aarch64_opcode_new ''fcvtmu'' 0x7e79b800 0xfffffc00 C_Asisdmisc
      (Op2 O_Sd O_Sn) F_SSIZE,
    aarch64_opcode_new ''fcvtau'' 0x7e21c800 0xffbffc00 C_Asisdmisc
      (Op2 O_Sd O_Sn) F_SSIZE,
    aarch64_opcode_new ''fcvtau'' 0x7e79c800 0xfffffc00 C_Asisdmisc
      (Op2 O_Sd O_Sn) F_SSIZE,
    aarch64_opcode_new ''ucvtf'' 0x7e21d800 0xffbffc00 C_Asisdmisc
      (Op2 O_Sd O_Sn) F_SSIZE,
    aarch64_opcode_new ''ucvtf'' 0x7e79d800 0xfffffc00 C_Asisdmisc
      (Op2 O_Sd O_Sn) F_SSIZE,
    aarch64_opcode_new ''fcmge'' 0x7ea0c800 0xffbffc00 C_Asisdmisc
      (Op3 O_Sd O_Sn O_Fpimm0) F_SSIZE,
    aarch64_opcode_new ''fcmge'' 0x7ef8c800 0xfffffc00 C_Asisdmisc
      (Op3 O_Sd O_Sn O_Fpimm0) F_SSIZE,
    aarch64_opcode_new ''fcmle'' 0x7ea0d800 0xffbffc00 C_Asisdmisc
      (Op3 O_Sd O_Sn O_Fpimm0) F_SSIZE,
    aarch64_opcode_new ''fcmle'' 0x7ef8d800 0xfffffc00 C_Asisdmisc
      (Op3 O_Sd O_Sn O_Fpimm0) F_SSIZE,
    aarch64_opcode_new ''fcvtpu'' 0x7ea1a800 0xffbffc00 C_Asisdmisc
      (Op2 O_Sd O_Sn) F_SSIZE,
    aarch64_opcode_new ''fcvtpu'' 0x7ef9a800 0xfffffc00 C_Asisdmisc
      (Op2 O_Sd O_Sn) F_SSIZE,
    aarch64_opcode_new ''fcvtzu'' 0x7ea1b800 0xffbffc00 C_Asisdmisc
      (Op2 O_Sd O_Sn) F_SSIZE,
    aarch64_opcode_new ''fcvtzu'' 0x7ef9b800 0xfffffc00 C_Asisdmisc
      (Op2 O_Sd O_Sn) F_SSIZE,
    aarch64_opcode_new ''frsqrte'' 0x7ea1d800 0xffbffc00 C_Asisdmisc
      (Op2 O_Sd O_Sn) F_SSIZE,
    aarch64_opcode_new ''frsqrte'' 0x7ef9d800 0xfffffc00 C_Asisdmisc
      (Op2 O_Sd O_Sn) F_SSIZE]"

definition opcode_rows_30 :: "aarch64_opcode list" where
  "opcode_rows_30 = [
    aarch64_opcode_new ''dup'' 0x5e000400 0xffe0fc00 C_Asisdone
      (Op2 O_Sd O_En) F_HAS_ALIAS,
    aarch64_opcode_new ''mov'' 0x5e000400 0xffe0fc00 C_Asisdone
      (Op2 O_Sd O_En) F_ALIAS,
    aarch64_opcode_new ''addp'' 0x5e31b800 0xff3ffc00 C_Asisdpair
      (Op2 O_Sd O_Vn) F_SIZEQ,
    aarch64_opcode_new ''fmaxnmp'' 0x7e30c800 0xffbffc00 C_Asisdpair
      (Op2 O_Sd O_Vn) F_SIZEQ,
    aarch64_opcode_new ''fmaxnmp'' 0x5e30c800 0xfffffc00 C_Asisdpair
      (Op2 O_Sd O_Vn) F_SIZEQ,
    aarch64_opcode_new ''faddp'' 0x7e30d800 0xffbffc00 C_Asisdpair
      (Op2 O_Sd O_Vn) F_SIZEQ,
    aarch64_opcode_new ''faddp'' 0x5e30d800 0xfffffc00 C_Asisdpair
      (Op2 O_Sd O_Vn) F_SIZEQ,
    aarch64_opcode_new ''fmaxp'' 0x7e30f800 0xffbffc00 C_Asisdpair
      (Op2 O_Sd O_Vn) F_SIZEQ,
    aarch64_opcode_new ''fmaxp'' 0x5e30f800 0xfffffc00 C_Asisdpair
      (Op2 O_Sd O_Vn) F_SIZEQ,
    aarch64_opcode_new ''fminnmp'' 0x7eb0c800 0xffbffc00 C_Asisdpair
      (Op2 O_Sd O_Vn) F_SIZEQ,
    aarch64_opcode_new ''fminnmp'' 0x5eb0c800 0xfffffc00 C_Asisdpair
      (Op2 O_Sd O_Vn) F_SIZEQ,
    aarch64_opcode_new ''fminp'' 0x7eb0f800 0xffbffc00 C_Asisdpair
      (Op2 O_Sd O_Vn) F_SIZEQ,
    aarch64_opcode_new ''fminp'' 0x5eb0f800 0xfffffc00 C_Asisdpair
      (Op2 O_Sd O_Vn) F_SIZEQ,
    aarch64_opcode_new ''sqadd'' 0x5e200c00 0xff20fc00 C_Asisdsame
      (Op3 O_Sd O_Sn O_Sm) F_SSIZE,
    aarch64_opcode_new ''sqsub'' 0x5e202c00 0xff20fc00 C_Asisdsame
      (Op3 O_Sd O_Sn O_Sm) F_SSIZE,
    aarch64_opcode_new ''sqshl'' 0x5e204c00 0xff20fc00 C_Asisdsame
      (Op3 O_Sd O_Sn O_Sm) F_SSIZE,
    aarch64_opcode_new ''sqrshl'' 0x5e205c00 0xff20fc00 C_Asisdsame
      (Op3 O_Sd O_Sn O_Sm) F_SSIZE,
    aarch64_opcode_new ''sqdmulh'' 0x5e20b400 0xff20fc00 C_Asisdsame
      (Op3 O_Sd O_Sn O_Sm) F_SSIZE]"

definition opcode_rows_31 :: "aarch64_opcode list" where
  "opcode_rows_31 = [
    aarch64_opcode_new ''fmulx'' 0x5e20dc00 0xffa0fc00 C_Asisdsame
      (Op3 O_Sd O_Sn O_Sm) F_SSIZE,
    aarch64_opcode_new ''fmulx'' 0x5e401c00 0xffe0fc00 C_Asisdsame
      (Op3 O_Sd O_Sn O_Sm) F_SSIZE,
    aarch64_opcode_new ''fcmeq'' 0x5e20e400 0xffa0fc00 C_Asisdsame
      (Op3 O_Sd O_Sn O_Sm) F_SSIZE,
    aarch64_opcode_new ''fcmeq'' 0x5e402400 0xffe0fc00 C_Asisdsame
      (Op3 O_Sd O_Sn O_Sm) F_SSIZE,
    aarch64_opcode_new ''frecps'' 0x5e20fc00 0xffa0fc00 C_Asisdsame
      (Op3 O_Sd O_Sn O_Sm) F_SSIZE,
    aarch64_opcode_new ''frecps'' 0x5e403c00 0xffe0fc00 C_Asisdsame
      (Op3 O_Sd O_Sn O_Sm) F_SSIZE,
    aarch64_opcode_new ''frsqrts'' 0x5ea0fc00 0xffa0fc00 C_Asisdsame
      (Op3 O_Sd O_Sn O_Sm) F_SSIZE,
    aarch64_opcode_new ''frsqrts'' 0x5ec03c00 0xffe0fc00 C_Asisdsame
      (Op3 O_Sd O_Sn O_Sm) F_SSIZE,
    aarch64_opcode_new ''cmgt'' 0x5ee03400 0xffe0fc00 C_Asisdsame
      (Op3 O_Sd O_Sn O_Sm) F_SSIZE,
    aarch64_opcode_new ''cmge'' 0x5ee03c00 0xffe0fc00 C_Asisdsame
      (Op3 O_Sd O_Sn O_Sm) F_SSIZE,
    aarch64_opcode_new ''sshl'' 0x5ee04400 0xffe0fc00 C_Asisdsame
      (Op3 O_Sd O_Sn O_Sm) F_SSIZE,
    aarch64_opcode_new ''srshl'' 0x5ee05400 0xffe0fc00 C_Asisdsame
      (Op3 O_Sd O_Sn O_Sm) F_SSIZE,
    aarch64_opcode_new ''add'' 0x5ee08400 0xffe0fc00 C_Asisdsame
      (Op3 O_Sd O_Sn O_Sm) F_SSIZE,
    aarch64_opcode_new ''cmtst'' 0x5ee08c00 0xffe0fc00 C_Asisdsame
      (Op3 O_Sd O_Sn O_Sm) F_SSIZE,
    aarch64_opcode_new ''uqadd'' 0x7e200c00 0xff20fc00 C_Asisdsame
      (Op3 O_Sd O_Sn O_Sm) F_SSIZE,
    aarch64_opcode_new ''uqsub'' 0x7e202c00 0xff20fc00 C_Asisdsame
      (Op3 O_Sd O_Sn O_Sm) F_SSIZE,
    aarch64_opcode_new ''uqshl'' 0x7e204c00 0xff20fc00 C_Asisdsame
      (Op3 O_Sd O_Sn O_Sm) F_SSIZE,
    aarch64_opcode_new ''uqrshl'' 0x7e205c00 0xff20fc00 C_Asisdsame
      (Op3 O_Sd O_Sn O_Sm) F_SSIZE]"

definition opcode_rows_32 :: "aarch64_opcode list" where
  "opcode_rows_32 = [
    aarch64_opcode_new ''sqrdmulh'' 0x7e20b400 0xff20fc00 C_Asisdsame
      (Op3 O_Sd O_Sn O_Sm) F_SSIZE,
    aarch64_opcode_new ''fcmge'' 0x7e20e400 0xffa0fc00 C_Asisdsame
      (Op3 O_Sd O_Sn O_Sm) F_SSIZE,
    aarch64_opcode_new ''fcmge'' 0x7e402400 0xffe0fc00 C_Asisdsame
      (Op3 O_Sd O_Sn O_Sm) F_SSIZE,
    aarch64_opcode_new ''facge'' 0x7e20ec00 0xffa0fc00 C_Asisdsame
      (Op3 O_Sd O_Sn O_Sm) F_SSIZE,
    aarch64_opcode_new ''facge'' 0x7e402c00 0xffe0fc00 C_Asisdsame
      (Op3 O_Sd O_Sn O_Sm) F_SSIZE,
    aarch64_opcode_new ''fabd'' 0x7ea0d400 0xffa0fc00 C_Asisdsame
      (Op3 O_Sd O_Sn O_Sm) F_SSIZE,
    aarch64_opcode_new ''fabd'' 0x7ec01400 0xffe0fc00 C_Asisdsame
      (Op3 O_Sd O_Sn O_Sm) F_SSIZE,
    aarch64_opcode_new ''fcmgt'' 0x7ea0e400 0xffa0fc00 C_Asisdsame
      (Op3 O_Sd O_Sn O_Sm) F_SSIZE,
    aarch64_opcode_new ''fcmgt'' 0x7ec02400 0xffe0fc00 C_Asisdsame
      (Op3 O_Sd O_Sn O_Sm) F_SSIZE,
    aarch64_opcode_new ''facgt'' 0x7ea0ec00 0xffa0fc00 C_Asisdsame
      (Op3 O_Sd O_Sn O_Sm) F_SSIZE,
    aarch64_opcode_new ''facgt'' 0x7ec02c00 0xffe0fc00 C_Asisdsame
      (Op3 O_Sd O_Sn O_Sm) F_SSIZE,
    aarch64_opcode_new ''cmhi'' 0x7ee03400 0xffe0fc00 C_Asisdsame
      (Op3 O_Sd O_Sn O_Sm) F_SSIZE,
    aarch64_opcode_new ''cmhs'' 0x7ee03c00 0xffe0fc00 C_Asisdsame
      (Op3 O_Sd O_Sn O_Sm) F_SSIZE,
    aarch64_opcode_new ''ushl'' 0x7ee04400 0xffe0fc00 C_Asisdsame
      (Op3 O_Sd O_Sn O_Sm) F_SSIZE,
    aarch64_opcode_new ''urshl'' 0x7ee05400 0xffe0fc00 C_Asisdsame
      (Op3 O_Sd O_Sn O_Sm) F_SSIZE,
    aarch64_opcode_new ''sub'' 0x7ee08400 0xffe0fc00 C_Asisdsame
      (Op3 O_Sd O_Sn O_Sm) F_SSIZE,
    aarch64_opcode_new ''cmeq'' 0x7ee08c00 0xffe0fc00 C_Asisdsame
      (Op3 O_Sd O_Sn O_Sm) F_SSIZE,
    aarch64_opcode_new ''sqrdmlah'' 0x7e008400 0xff20fc00 C_Asimdsame
      (Op3 O_Sd O_Sn O_Sm) F_SSIZE]"

definition opcode_rows_33 :: "aarch64_opcode list" where
  "opcode_rows_33 = [
    aarch64_opcode_new ''sqrdmlsh'' 0x7e008c00 0xff20fc00 C_Asimdsame
      (Op3 O_Sd O_Sn O_Sm) F_SSIZE,
    aarch64_opcode_new ''sshr'' 0x5f000400 0xff80fc00 C_Asisdshf
      (Op3 O_Sd O_Sn O_ImmVlsr) 0,
    aarch64_opcode_new ''ssra'' 0x5f001400 0xff80fc00 C_Asisdshf
      (Op3 O_Sd O_Sn O_ImmVlsr) 0,
    aarch64_opcode_new ''srshr'' 0x5f002400 0xff80fc00 C_Asisdshf
      (Op3 O_Sd O_Sn O_ImmVlsr) 0,
    aarch64_opcode_new ''srsra'' 0x5f003400 0xff80fc00 C_Asisdshf
      (Op3 O_Sd O_Sn O_ImmVlsr) 0,
    aarch64_opcode_new ''shl'' 0x5f005400 0xff80fc00 C_Asisdshf
      (Op3 O_Sd O_Sn O_ImmVlsl) 0,
    aarch64_opcode_new ''sqshl'' 0x5f007400 0xff80fc00 C_Asisdshf
      (Op3 O_Sd O_Sn O_ImmVlsl) 0,
    aarch64_opcode_new ''sqshrn'' 0x5f009400 0xff80fc00 C_Asisdshf
      (Op3 O_Sd O_Sn O_ImmVlsr) 0,
    aarch64_opcode_new ''sqrshrn'' 0x5f009c00 0xff80fc00 C_Asisdshf
      (Op3 O_Sd O_Sn O_ImmVlsr) 0,
    aarch64_opcode_new ''scvtf'' 0x5f00e400 0xff80fc00 C_Asisdshf
      (Op3 O_Sd O_Sn O_ImmVlsr) 0,
    aarch64_opcode_new ''scvtf'' 0x5f10e400 0xff80fc00 C_Asisdshf
      (Op3 O_Sd O_Sn O_ImmVlsr) 0,
    aarch64_opcode_new ''fcvtzs'' 0x5f00fc00 0xff80fc00 C_Asisdshf
      (Op3 O_Sd O_Sn O_ImmVlsr) 0,
    aarch64_opcode_new ''fcvtzs'' 0x5f10fc00 0xff80fc00 C_Asisdshf
      (Op3 O_Sd O_Sn O_ImmVlsr) 0,
    aarch64_opcode_new ''ushr'' 0x7f000400 0xff80fc00 C_Asisdshf
      (Op3 O_Sd O_Sn O_ImmVlsr) 0,
    aarch64_opcode_new ''usra'' 0x7f001400 0xff80fc00 C_Asisdshf
      (Op3 O_Sd O_Sn O_ImmVlsr) 0,
    aarch64_opcode_new ''urshr'' 0x7f002400 0xff80fc00 C_Asisdshf
      (Op3 O_Sd O_Sn O_ImmVlsr) 0,
    aarch64_opcode_new ''ursra'' 0x7f003400 0xff80fc00 C_Asisdshf
      (Op3 O_Sd O_Sn O_ImmVlsr) 0,
    aarch64_opcode_new ''sri'' 0x7f004400 0xff80fc00 C_Asisdshf
      (Op3 O_Sd O_Sn O_ImmVlsr) 0]"

definition opcode_rows_34 :: "aarch64_opcode list" where
  "opcode_rows_34 = [
    aarch64_opcode_new ''sli'' 0x7f005400 0xff80fc00 C_Asisdshf
      (Op3 O_Sd O_Sn O_ImmVlsl) 0,
    aarch64_opcode_new ''sqshlu'' 0x7f006400 0xff80fc00 C_Asisdshf
      (Op3 O_Sd O_Sn O_ImmVlsl) 0,
    aarch64_opcode_new ''uqshl'' 0x7f007400 0xff80fc00 C_Asisdshf
      (Op3 O_Sd O_Sn O_ImmVlsl) 0,
    aarch64_opcode_new ''sqshrun'' 0x7f008400 0xff80fc00 C_Asisdshf
      (Op3 O_Sd O_Sn O_ImmVlsr) 0,
    aarch64_opcode_new ''sqrshrun'' 0x7f008c00 0xff80fc00 C_Asisdshf
      (Op3 O_Sd O_Sn O_ImmVlsr) 0,
    aarch64_opcode_new ''uqshrn'' 0x7f009400 0xff80fc00 C_Asisdshf
      (Op3 O_Sd O_Sn O_ImmVlsr) 0,
    aarch64_opcode_new ''uqrshrn'' 0x7f009c00 0xff80fc00 C_Asisdshf
      (Op3 O_Sd O_Sn O_ImmVlsr) 0,
    aarch64_opcode_new ''ucvtf'' 0x7f00e400 0xff80fc00 C_Asisdshf
      (Op3 O_Sd O_Sn O_ImmVlsr) 0,
    aarch64_opcode_new ''ucvtf'' 0x7f10e400 0xff80fc00 C_Asisdshf
      (Op3 O_Sd O_Sn O_ImmVlsr) 0,
    aarch64_opcode_new ''fcvtzu'' 0x7f00fc00 0xff80fc00 C_Asisdshf
      (Op3 O_Sd O_Sn O_ImmVlsr) 0,
    aarch64_opcode_new ''fcvtzu'' 0x7f10fc00 0xff80fc00 C_Asisdshf
      (Op3 O_Sd O_Sn O_ImmVlsr) 0,
    aarch64_opcode_new ''sbfm'' 0x13000000 0x7f800000 C_Bitfield
      (Op4 O_Rd O_Rn O_Immr O_Imms) (F_HAS_ALIAS OR F_SF OR F_N),
    aarch64_opcode_new ''sbfiz'' 0x13000000 0x7f800000 C_Bitfield
      (Op4 O_Rd O_Rn O_Imm O_Width) (F_ALIAS OR F_P1 OR F_CONV),
    aarch64_opcode_new ''sbfx'' 0x13000000 0x7f800000 C_Bitfield
      (Op4 O_Rd O_Rn O_Imm O_Width) (F_ALIAS OR F_P1 OR F_CONV),
    aarch64_opcode_new ''sxtb'' 0x13001c00 0x7fbffc00 C_Bitfield
      (Op2 O_Rd O_Rn) (F_ALIAS OR F_P3 OR F_SF OR F_N),
    aarch64_opcode_new ''sxth'' 0x13003c00 0x7fbffc00 C_Bitfield
      (Op2 O_Rd O_Rn) (F_ALIAS OR F_P3 OR F_SF OR F_N),
    aarch64_opcode_new ''sxtw'' 0x93407c00 0xfffffc00 C_Bitfield
      (Op2 O_Rd O_Rn) (F_ALIAS OR F_P3),
    aarch64_opcode_new ''asr'' 0x13000000 0x7f800000 C_Bitfield
      (Op3 O_Rd O_Rn O_Imm) (F_ALIAS OR F_P2 OR F_CONV)]"

definition opcode_rows_35 :: "aarch64_opcode list" where
  "opcode_rows_35 = [
    aarch64_opcode_new ''bfm'' 0x33000000 0x7f800000 C_Bitfield
      (Op4 O_Rd O_Rn O_Immr O_Imms) (F_HAS_ALIAS OR F_SF OR F_N),
    aarch64_opcode_new ''bfi'' 0x33000000 0x7f800000 C_Bitfield
      (Op4 O_Rd O_Rn O_Imm O_Width) (F_ALIAS OR F_P1 OR F_CONV),
    aarch64_opcode_new ''bfc'' 0x330003e0 0x7f8003e0 C_Bitfield
      (Op3 O_Rd O_Imm O_Width) (F_ALIAS OR F_P2 OR F_CONV),
    aarch64_opcode_new ''bfxil'' 0x33000000 0x7f800000 C_Bitfield
      (Op4 O_Rd O_Rn O_Imm O_Width) (F_ALIAS OR F_P1 OR F_CONV),
    aarch64_opcode_new ''ubfm'' 0x53000000 0x7f800000 C_Bitfield
      (Op4 O_Rd O_Rn O_Immr O_Imms) (F_HAS_ALIAS OR F_SF OR F_N),
    aarch64_opcode_new ''ubfiz'' 0x53000000 0x7f800000 C_Bitfield
      (Op4 O_Rd O_Rn O_Imm O_Width) (F_ALIAS OR F_P1 OR F_CONV),
    aarch64_opcode_new ''ubfx'' 0x53000000 0x7f800000 C_Bitfield
      (Op4 O_Rd O_Rn O_Imm O_Width) (F_ALIAS OR F_P1 OR F_CONV),
    aarch64_opcode_new ''uxtb'' 0x53001c00 0xfffffc00 C_Bitfield
      (Op2 O_Rd O_Rn) (F_ALIAS OR F_P3),
    aarch64_opcode_new ''uxth'' 0x53003c00 0xfffffc00 C_Bitfield
      (Op2 O_Rd O_Rn) (F_ALIAS OR F_P3),
    aarch64_opcode_new ''lsl'' 0x53000000 0x7f800000 C_Bitfield
      (Op3 O_Rd O_Rn O_Imm) (F_ALIAS OR F_P2 OR F_CONV),
    aarch64_opcode_new ''lsr'' 0x53000000 0x7f800000 C_Bitfield
      (Op3 O_Rd O_Rn O_Imm) (F_ALIAS OR F_P2 OR F_CONV),
    aarch64_opcode_new ''b'' 0x14000000 0xfc000000 C_BranchImm
      (Op1 O_AddrPcrel26) 0,
    aarch64_opcode_new ''bl'' 0x94000000 0xfc000000 C_BranchImm
      (Op1 O_AddrPcrel26) 0,
    aarch64_opcode_new ''br'' 0xd61f0000 0xfffffc1f C_BranchReg
      (Op1 O_Rn) 0,
    aarch64_opcode_new ''blr'' 0xd63f0000 0xfffffc1f C_BranchReg
      (Op1 O_Rn) 0,
    aarch64_opcode_new ''ret'' 0xd65f0000 0xfffffc1f C_BranchReg
      (Op1 O_Rn) (F_OPD0_OPT OR F_DEFAULT 30),
    aarch64_opcode_new ''eret'' 0xd69f03e0 0xffffffff C_BranchReg
      Op0 0,
    aarch64_opcode_new ''drps'' 0xd6bf03e0 0xffffffff C_BranchReg
      Op0 0,
    aarch64_opcode_new ''braaz'' 0xd61f081f 0xfffffc1f C_BranchReg
      (Op1 O_Rn) 0,
    aarch64_opcode_new ''brabz'' 0xd61f0c1f 0xfffffc1f C_BranchReg
      (Op1 O_Rn) 0,
    aarch64_opcode_new ''blraaz'' 0xd63f081f 0xfffffc1f C_BranchReg
      (Op1 O_Rn) 0,
    aarch64_opcode_new ''blrabz'' 0xd63f0c1f 0xfffffc1f C_BranchReg
      (Op1 O_Rn) 0,
    aarch64_opcode_new ''braa'' 0xd71f0800 0xffe0fc00 C_BranchReg
      (Op2 O_Rn O_RmLow) 0,
    aarch64_opcode_new ''brab'' 0xd71f0c00 0xffe0fc00 C_BranchReg
      (Op2 O_Rn O_RmLow) 0,
    aarch64_opcode_new ''blraa'' 0xd73f0800 0xffe0fc00 C_BranchReg
      (Op2 O_Rn O_RmLow) 0,
    aarch64_opcode_new ''blrab'' 0xd73f0c00 0xffe0fc00 C_BranchReg
      (Op2 O_Rn O_RmLow) 0,
    aarch64_opcode_new ''retaa'' 0xd65f0bff 0xffffffff C_BranchReg
      Op0 0,
    aarch64_opcode_new ''retab'' 0xd65f0fff 0xffffffff C_BranchReg
      Op0 0,
    aarch64_opcode_new ''cbz'' 0x34000000 0x7f000000 C_Compbranch
      (Op2 O_Rt O_AddrPcrel19) F_SF,
    aarch64_opcode_new ''cbnz'' 0x35000000 0x7f000000 C_Compbranch
      (Op2 O_Rt O_AddrPcrel19) F_SF,
    aarch64_opcode_new ''b.c'' 0x54000000 0xff000010 C_Condbranch
      (Op1 O_AddrPcrel19) F_COND,
    aarch64_opcode_new ''ccmn'' 0x3a400800 0x7fe00c10 C_CondcmpImm
      (Op4 O_Rn O_CcmpImm O_Nzcv O_Cond) F_SF]"

definition opcode_rows_36 :: "aarch64_opcode list" where
  "opcode_rows_36 = [
    aarch64_opcode_new ''ccmp'' 0x7a400800 0x7fe00c10 C_CondcmpImm
      (Op4 O_Rn O_CcmpImm O_Nzcv O_Cond) F_SF,
    aarch64_opcode_new ''ccmn'' 0x3a400000 0x7fe00c10 C_CondcmpReg
      (Op4 O_Rn O_Rm O_Nzcv O_Cond) F_SF,
    aarch64_opcode_new ''ccmp'' 0x7a400000 0x7fe00c10 C_CondcmpReg
      (Op4 O_Rn O_Rm O_Nzcv O_Cond) F_SF,
    aarch64_opcode_new ''csel'' 0x1a800000 0x7fe00c00 C_Condsel
      (Op4 O_Rd O_Rn O_Rm O_Cond) F_SF,
    aarch64_opcode_new ''csinc'' 0x1a800400 0x7fe00c00 C_Condsel
      (Op4 O_Rd O_Rn O_Rm O_Cond) (F_HAS_ALIAS OR F_SF),
    aarch64_opcode_new ''cinc'' 0x1a800400 0x7fe00c00 C_Condsel
      (Op3 O_Rd O_Rn O_Cond1) (F_ALIAS OR F_SF OR F_CONV),
    aarch64_opcode_new ''cset'' 0x1a9f07e0 0x7fff0fe0 C_Condsel
      (Op2 O_Rd O_Cond1) (F_ALIAS OR F_P1 OR F_SF OR F_CONV),
    aarch64_opcode_new ''csinv'' 0x5a800000 0x7fe00c00 C_Condsel
      (Op4 O_Rd O_Rn O_Rm O_Cond) (F_HAS_ALIAS OR F_SF),
    aarch64_opcode_new ''cinv'' 0x5a800000 0x7fe00c00 C_Condsel
      (Op3 O_Rd O_Rn O_Cond1) (F_ALIAS OR F_SF OR F_CONV),
    aarch64_opcode_new ''csetm'' 0x5a9f03e0 0x7fff0fe0 C_Condsel
      (Op2 O_Rd O_Cond1) (F_ALIAS OR F_P1 OR F_SF OR F_CONV),
    aarch64_opcode_new ''csneg'' 0x5a800400 0x7fe00c00 C_Condsel
      (Op4 O_Rd O_Rn O_Rm O_Cond) (F_HAS_ALIAS OR F_SF),
    aarch64_opcode_new ''cneg'' 0x5a800400 0x7fe00c00 C_Condsel
      (Op3 O_Rd O_Rn O_Cond1) (F_ALIAS OR F_SF OR F_CONV),
    aarch64_opcode_new ''aese'' 0x4e284800 0xfffffc00 C_Cryptoaes
      (Op2 O_Vd O_Vn) 0,
    aarch64_opcode_new ''aesd'' 0x4e285800 0xfffffc00 C_Cryptoaes
      (Op2 O_Vd O_Vn) 0,
    aarch64_opcode_new ''aesmc'' 0x4e286800 0xfffffc00 C_Cryptoaes
      (Op2 O_Vd O_Vn) 0,
    aarch64_opcode_new ''aesimc'' 0x4e287800 0xfffffc00 C_Cryptoaes
      (Op2 O_Vd O_Vn) 0,
    aarch64_opcode_new ''sha1h'' 0x5e280800 0xfffffc00 C_Cryptosha2
      (Op2 O_Fd O_Fn) 0,
    aarch64_opcode_new ''sha1su1'' 0x5e281800 0xfffffc00 C_Cryptosha2
      (Op2 O_Vd O_Vn) 0,
    aarch64_opcode_new ''sha256su0'' 0x5e282800 0xfffffc00 C_Cryptosha2
      (Op2 O_Vd O_Vn) 0,
    aarch64_opcode_new ''sha1c'' 0x5e000000 0xffe0fc00 C_Cryptosha3
      (Op3 O_Fd O_Fn O_Vm) 0,
    aarch64_opcode_new ''sha1p'' 0x5e001000 0xffe0fc00 C_Cryptosha3
      (Op3 O_Fd O_Fn O_Vm) 0,
    aarch64_opcode_new ''sha1m'' 0x5e002000 0xffe0fc00 C_Cryptosha3
      (Op3 O_Fd O_Fn O_Vm) 0,
    aarch64_opcode_new ''sha1su0'' 0x5e003000 0xffe0fc00 C_Cryptosha3
      (Op3 O_Vd O_Vn O_Vm) 0]"

definition opcode_rows_37 :: "aarch64_opcode list" where
  "opcode_rows_37 = [
    aarch64_opcode_new ''sha256h'' 0x5e004000 0xffe0fc00 C_Cryptosha3
      (Op3 O_Fd O_Fn O_Vm) 0,
    aarch64_opcode_new ''sha256h2'' 0x5e005000 0xffe0fc00 C_Cryptosha3
      (Op3 O_Fd O_Fn O_Vm) 0,
    aarch64_opcode_new ''sha256su1'' 0x5e006000 0xffe0fc00 C_Cryptosha3
      (Op3 O_Vd O_Vn O_Vm) 0,
    aarch64_opcode_new ''rbit'' 0x5ac00000 0x7ffffc00 C_Dp1src
      (Op2 O_Rd O_Rn) F_SF,
    aarch64_opcode_new ''rev16'' 0x5ac00400 0x7ffffc00 C_Dp1src
      (Op2 O_Rd O_Rn) F_SF,
    aarch64_opcode_new ''rev'' 0x5ac00800 0xfffffc00 C_Dp1src
      (Op2 O_Rd O_Rn) 0,
    aarch64_opcode_new ''rev'' 0xdac00c00 0xfffffc00 C_Dp1src
      (Op2 O_Rd O_Rn) (F_SF OR F_HAS_ALIAS OR F_P1),
    aarch64_opcode_new ''rev64'' 0xdac00c00 0xfffffc00 C_Dp1src
      (Op2 O_Rd O_Rn) (F_SF OR F_ALIAS),
    aarch64_opcode_new ''clz'' 0x5ac01000 0x7ffffc00 C_Dp1src
      (Op2 O_Rd O_Rn) F_SF,
    aarch64_opcode_new ''cls'' 0x5ac01400 0x7ffffc00 C_Dp1src
      (Op2 O_Rd O_Rn) F_SF,
    aarch64_opcode_new ''rev32'' 0xdac00800 0xfffffc00 C_Dp1src
      (Op2 O_Rd O_Rn) 0,
    aarch64_opcode_new ''pacia'' 0xdac10000 0xfffffc00 C_Dp1src
      (Op2 O_Rd O_Rn) 0,
    aarch64_opcode_new ''pacib'' 0xdac10400 0xfffffc00 C_Dp1src
      (Op2 O_Rd O_Rn) 0,
    aarch64_opcode_new ''pacda'' 0xdac10800 0xfffffc00 C_Dp1src
      (Op2 O_Rd O_Rn) 0,
    aarch64_opcode_new ''pacdb'' 0xdac10c00 0xfffffc00 C_Dp1src
      (Op2 O_Rd O_Rn) 0,
    aarch64_opcode_new ''autia'' 0xdac11000 0xfffffc00 C_Dp1src
      (Op2 O_Rd O_Rn) 0,
    aarch64_opcode_new ''autib'' 0xdac11400 0xfffffc00 C_Dp1src
      (Op2 O_Rd O_Rn) 0,
    aarch64_opcode_new ''autda'' 0xdac11800 0xfffffc00 C_Dp1src
      (Op2 O_Rd O_Rn) 0,
    aarch64_opcode_new ''autdb'' 0xdac11c00 0xfffffc00 C_Dp1src
      (Op2 O_Rd O_Rn) 0,
    aarch64_opcode_new ''paciza'' 0xdac123e0 0xffffffe0 C_Dp1src
      (Op1 O_Rd) 0,
    aarch64_opcode_new ''pacizb'' 0xdac127e0 0xffffffe0 C_Dp1src
      (Op1 O_Rd) 0,
    aarch64_opcode_new ''pacdza'' 0xdac12be0 0xffffffe0 C_Dp1src
      (Op1 O_Rd) 0,
    aarch64_opcode_new ''pacdzb'' 0xdac12fe0 0xffffffe0 C_Dp1src
      (Op1 O_Rd) 0,
    aarch64_opcode_new ''autiza'' 0xdac133e0 0xffffffe0 C_Dp1src
      (Op1 O_Rd) 0,
    aarch64_opcode_new ''autizb'' 0xdac137e0 0xffffffe0 C_Dp1src
      (Op1 O_Rd) 0,
    aarch64_opcode_new ''autdza'' 0xdac13be0 0xffffffe0 C_Dp1src
      (Op1 O_Rd) 0,
    aarch64_opcode_new ''autdzb'' 0xdac13fe0 0xffffffe0 C_Dp1src
      (Op1 O_Rd) 0,
    aarch64_opcode_new ''xpaci'' 0xdac143e0 0xffffffe0 C_Dp1src
      (Op1 O_Rd) 0,
    aarch64_opcode_new ''xpacd'' 0xdac147e0 0xffffffe0 C_Dp1src
      (Op1 O_Rd) 0,
    aarch64_opcode_new ''udiv'' 0x1ac00800 0x7fe0fc00 C_Dp2src
      (Op3 O_Rd O_Rn O_Rm) F_SF,
    aarch64_opcode_new ''sdiv'' 0x1ac00c00 0x7fe0fc00 C_Dp2src
      (Op3 O_Rd O_Rn O_Rm) F_SF,
    aarch64_opcode_new ''lslv'' 0x1ac02000 0x7fe0fc00 C_Dp2src
      (Op3 O_Rd O_Rn O_Rm) (F_SF OR F_HAS_ALIAS),
    aarch64_opcode_new ''lsl'' 0x1ac02000 0x7fe0fc00 C_Dp2src
      (Op3 O_Rd O_Rn O_Rm) (F_SF OR F_ALIAS),
    aarch64_opcode_new ''lsrv'' 0x1ac02400 0x7fe0fc00 C_Dp2src
      (Op3 O_Rd O_Rn O_Rm) (F_SF OR F_HAS_ALIAS),
    aarch64_opcode_new ''lsr'' 0x1ac02400 0x7fe0fc00 C_Dp2src
      (Op3 O_Rd O_Rn O_Rm) (F_SF OR F_ALIAS),
    aarch64_opcode_new ''asrv'' 0x1ac02800 0x7fe0fc00 C_Dp2src
      (Op3 O_Rd O_Rn O_Rm) (F_SF OR F_HAS_ALIAS),
    aarch64_opcode_new ''asr'' 0x1ac02800 0x7fe0fc00 C_Dp2src
      (Op3 O_Rd O_Rn O_Rm) (F_SF OR F_ALIAS),
    aarch64_opcode_new ''rorv'' 0x1ac02c00 0x7fe0fc00 C_Dp2src
      (Op3 O_Rd O_Rn O_Rm) (F_SF OR F_HAS_ALIAS)]"

definition opcode_rows_38 :: "aarch64_opcode list" where
  "opcode_rows_38 = [
    aarch64_opcode_new ''ror'' 0x1ac02c00 0x7fe0fc00 C_Dp2src
      (Op3 O_Rd O_Rn O_Rm) (F_SF OR F_ALIAS),
    aarch64_opcode_new ''crc32b'' 0x1ac04000 0xffe0fc00 C_Dp2src
      (Op3 O_Rd O_Rn O_Rm) 0,
    aarch64_opcode_new ''crc32h'' 0x1ac04400 0xffe0fc00 C_Dp2src
      (Op3 O_Rd O_Rn O_Rm) 0,
    aarch64_opcode_new ''crc32w'' 0x1ac04800 0xffe0fc00 C_Dp2src
      (Op3 O_Rd O_Rn O_Rm) 0,
    aarch64_opcode_new ''crc32x'' 0x9ac04c00 0xffe0fc00 C_Dp2src
      (Op3 O_Rd O_Rn O_Rm) 0,
    aarch64_opcode_new ''crc32cb'' 0x1ac05000 0xffe0fc00 C_Dp2src
      (Op3 O_Rd O_Rn O_Rm) 0,
    aarch64_opcode_new ''crc32ch'' 0x1ac05400 0xffe0fc00 C_Dp2src
      (Op3 O_Rd O_Rn O_Rm) 0,
    aarch64_opcode_new ''crc32cw'' 0x1ac05800 0xffe0fc00 C_Dp2src
      (Op3 O_Rd O_Rn O_Rm) 0,
    aarch64_opcode_new ''crc32cx'' 0x9ac05c00 0xffe0fc00 C_Dp2src
      (Op3 O_Rd O_Rn O_Rm) 0,
    aarch64_opcode_new ''madd'' 0x1b000000 0x7fe08000 C_Dp3src
      (Op4 O_Rd O_Rn O_Rm O_Ra) (F_HAS_ALIAS OR F_SF),
    aarch64_opcode_new ''mul'' 0x1b007c00 0x7fe0fc00 C_Dp3src
      (Op3 O_Rd O_Rn O_Rm) (F_ALIAS OR F_SF),
    aarch64_opcode_new ''msub'' 0x1b008000 0x7fe08000 C_Dp3src
      (Op4 O_Rd O_Rn O_Rm O_Ra) (F_HAS_ALIAS OR F_SF),
    aarch64_opcode_new ''mneg'' 0x1b00fc00 0x7fe0fc00 C_Dp3src
      (Op3 O_Rd O_Rn O_Rm) (F_ALIAS OR F_SF),
    aarch64_opcode_new ''smaddl'' 0x9b200000 0xffe08000 C_Dp3src
      (Op4 O_Rd O_Rn O_Rm O_Ra) F_HAS_ALIAS,
    aarch64_opcode_new ''smull'' 0x9b207c00 0xffe0fc00 C_Dp3src
      (Op3 O_Rd O_Rn O_Rm) F_ALIAS,
    aarch64_opcode_new ''smsubl'' 0x9b208000 0xffe08000 C_Dp3src
      (Op4 O_Rd O_Rn O_Rm O_Ra) F_HAS_ALIAS,
    aarch64_opcode_new ''smnegl'' 0x9b20fc00 0xffe0fc00 C_Dp3src
      (Op3 O_Rd O_Rn O_Rm) F_ALIAS,
    aarch64_opcode_new ''smulh'' 0x9b407c00 0xffe08000 C_Dp3src
      (Op3 O_Rd O_Rn O_Rm) 0,
    aarch64_opcode_new ''umaddl'' 0x9ba00000 0xffe08000 C_Dp3src
      (Op4 O_Rd O_Rn O_Rm O_Ra) F_HAS_ALIAS,
    aarch64_opcode_new ''umull'' 0x9ba07c00 0xffe0fc00 C_Dp3src
      (Op3 O_Rd O_Rn O_Rm) F_ALIAS,
    aarch64_opcode_new ''umsubl'' 0x9ba08000 0xffe08000 C_Dp3src
      (Op4 O_Rd O_Rn O_Rm O_Ra) F_HAS_ALIAS,
    aarch64_opcode_new ''umnegl'' 0x9ba0fc00 0xffe0fc00 C_Dp3src
      (Op3 O_Rd O_Rn O_Rm) F_ALIAS,
    aarch64_opcode_new ''umulh'' 0x9bc07c00 0xffe08000 C_Dp3src
      (Op3 O_Rd O_Rn O_Rm) 0,
    aarch64_opcode_new ''svc'' 0xd4000001 0xffe0001f C_Exception
      (Op1 O_Exc) 0,
    aarch64_opcode_new ''hvc'' 0xd4000002 0xffe0001f C_Exception
      (Op1 O_Exc) 0,
    aarch64_opcode_new ''smc'' 0xd4000003 0xffe0001f C_Exception
      (Op1 O_Exc) 0,
    aarch64_opcode_new ''brk'' 0xd4200000 0xffe0001f C_Exception
      (Op1 O_Exc) 0,
    aarch64_opcode_new ''hlt'' 0xd4400000 0xffe0001f C_Exception
      (Op1 O_Exc) 0]"

definition opcode_rows_39 :: "aarch64_opcode list" where
  "opcode_rows_39 = [
    aarch64_opcode_new ''dcps1'' 0xd4a00001 0xffe0001f C_Exception
      (Op1 O_Exc) (F_OPD0_OPT OR F_DEFAULT 0),
    aarch64_opcode_new ''dcps2'' 0xd4a00002 0xffe0001f C_Exception
      (Op1 O_Exc) (F_OPD0_OPT OR F_DEFAULT 0),
    aarch64_opcode_new ''dcps3'' 0xd4a00003 0xffe0001f C_Exception
      (Op1 O_Exc) (F_OPD0_OPT OR F_DEFAULT 0),
    aarch64_opcode_new ''extr'' 0x13800000 0x7fa00000 C_Extract
      (Op4 O_Rd O_Rn O_Rm O_Imms) (F_HAS_ALIAS OR F_SF OR F_N),
    aarch64_opcode_new ''ror'' 0x13800000 0x7fa00000 C_Extract
      (Op3 O_Rd O_Rm O_Imms) (F_ALIAS OR F_CONV),
    aarch64_opcode_new ''scvtf'' 0x1e020000 0x7f3f0000 C_Float2fix
      (Op3 O_Fd O_Rn O_Fbits) (F_FPTYPE OR F_SF),
    aarch64_opcode_new ''scvtf'' 0x1ec20000 0x7f3f0000 C_Float2fix
      (Op3 O_Fd O_Rn O_Fbits) (F_FPTYPE OR F_SF),
    aarch64_opcode_new ''ucvtf'' 0x1e030000 0x7f3f0000 C_Float2fix
      (Op3 O_Fd O_Rn O_Fbits) (F_FPTYPE OR F_SF),
    aarch64_opcode_new ''ucvtf'' 0x1ec30000 0x7f3f0000 C_Float2fix
      (Op3 O_Fd O_Rn O_Fbits) (F_FPTYPE OR F_SF),
    aarch64_opcode_new ''fcvtzs'' 0x1e180000 0x7f3f0000 C_Float2fix
      (Op3 O_Rd O_Fn O_Fbits) (F_FPTYPE OR F_SF),
    aarch64_opcode_new ''fcvtzs'' 0x1ed80000 0x7f3f0000 C_Float2fix
      (Op3 O_Rd O_Fn O_Fbits) (F_FPTYPE OR F_SF),
    aarch64_opcode_new ''fcvtzu'' 0x1e190000 0x7f3f0000 C_Float2fix
      (Op3 O_Rd O_Fn O_Fbits) (F_FPTYPE OR F_SF),
    aarch64_opcode_new ''fcvtzu'' 0x1ed90000 0x7f3f0000 C_Float2fix
      (Op3 O_Rd O_Fn O_Fbits) (F_FPTYPE OR F_SF),
    aarch64_opcode_new ''fcvtns'' 0x1e200000 0x7f3ffc00 C_Float2int
      (Op2 O_Rd O_Fn) (F_FPTYPE OR F_SF),
    aarch64_opcode_new ''fcvtns'' 0x1ee00000 0x7f3ffc00 C_Float2int
      (Op2 O_Rd O_Fn) (F_FPTYPE OR F_SF),
    aarch64_opcode_new ''fcvtnu'' 0x1e210000 0x7f3ffc00 C_Float2int
      (Op2 O_Rd O_Fn) (F_FPTYPE OR F_SF),
    aarch64_opcode_new ''fcvtnu'' 0x1ee10000 0x7f3ffc00 C_Float2int
      (Op2 O_Rd O_Fn) (F_FPTYPE OR F_SF),
    aarch64_opcode_new ''scvtf'' 0x1e220000 0x7f3ffc00 C_Float2int
      (Op2 O_Fd O_Rn) (F_FPTYPE OR F_SF)]"

end
