(* ===== verification/A64_Rows4.thy ===== *)
theory A64_Rows4
  imports A64_Opcode
begin

text \<open>
  Part 4 of the opcode table \<open>aarch64_opcode_table\<close> of \<open>src/src/isa/aarch64/table.rs\<close>, in
  source order: one list per run of consecutive rows.
\<close>

definition opcode_rows_40 :: "aarch64_opcode list" where
  "opcode_rows_40 = [
    aarch64_opcode_new ''scvtf'' 0x1ee20000 0x7f3ffc00 C_Float2int
      (Op2 O_Fd O_Rn) (F_FPTYPE OR F_SF),
    aarch64_opcode_new ''ucvtf'' 0x1e230000 0x7f3ffc00 C_Float2int
      (Op2 O_Fd O_Rn) (F_FPTYPE OR F_SF),
    aarch64_opcode_new ''ucvtf'' 0x1ee30000 0x7f3ffc00 C_Float2int
      (Op2 O_Fd O_Rn) (F_FPTYPE OR F_SF),
    aarch64_opcode_new ''fcvtas'' 0x1e240000 0x7f3ffc00 C_Float2int
      (Op2 O_Rd O_Fn) (F_FPTYPE OR F_SF),
    aarch64_opcode_new ''fcvtas'' 0x1ee40000 0x7f3ffc00 C_Float2int
      (Op2 O_Rd O_Fn) (F_FPTYPE OR F_SF),
    aarch64_opcode_new ''fcvtau'' 0x1e250000 0x7f3ffc00 C_Float2int
      (Op2 O_Rd O_Fn) (F_FPTYPE OR F_SF),
    aarch64_opcode_new ''fcvtau'' 0x1ee50000 0x7f3ffc00 C_Float2int
      (Op2 O_Rd O_Fn) (F_FPTYPE OR F_SF),
    aarch64_opcode_new ''fmov'' 0x1e260000 0x7f3ffc00 C_Float2int
      (Op2 O_Rd O_Fn) (F_FPTYPE OR F_SF),
    aarch64_opcode_new ''fmov'' 0x1ee60000 0x7f3ffc00 C_Float2int
      (Op2 O_Rd O_Fn) (F_FPTYPE OR F_SF),
    aarch64_opcode_new ''fmov'' 0x1e270000 0x7f3ffc00 C_Float2int
      (Op2 O_Fd O_Rn) (F_FPTYPE OR F_SF),
    aarch64_opcode_new ''fmov'' 0x1ee70000 0x7f3ffc00 C_Float2int
      (Op2 O_Fd O_Rn) (F_FPTYPE OR F_SF),
    aarch64_opcode_new ''fcvtps'' 0x1e280000 0x7f3ffc00 C_Float2int
      (Op2 O_Rd O_Fn) (F_FPTYPE OR F_SF),
    aarch64_opcode_new ''fcvtps'' 0x1ee80000 0x7f3ffc00 C_Float2int
      (Op2 O_Rd O_Fn) (F_FPTYPE OR F_SF),
    aarch64_opcode_new ''fcvtpu'' 0x1e290000 0x7f3ffc00 C_Float2int
      (Op2 O_Rd O_Fn) (F_FPTYPE OR F_SF),
    aarch64_opcode_new ''fcvtpu'' 0x1ee90000 0x7f3ffc00 C_Float2int
      (Op2 O_Rd O_Fn) (F_FPTYPE OR F_SF),
    aarch64_opcode_new ''fcvtms'' 0x1e300000 0x7f3ffc00 C_Float2int
      (Op2 O_Rd O_Fn) (F_FPTYPE OR F_SF),
    aarch64_opcode_new ''fcvtms'' 0x1ef00000 0x7f3ffc00 C_Float2int
      (Op2 O_Rd O_Fn) (F_FPTYPE OR F_SF),
    aarch64_opcode_new ''fcvtmu'' 0x1e310000 0x7f3ffc00 C_Float2int
      (Op2 O_Rd O_Fn) (F_FPTYPE OR F_SF)]"

definition opcode_rows_41 :: "aarch64_opcode list" where
  "opcode_rows_41 = [
    aarch64_opcode_new ''fcvtmu'' 0x1ef10000 0x7f3ffc00 C_Float2int
      (Op2 O_Rd O_Fn) (F_FPTYPE OR F_SF),
    aarch64_opcode_new ''fcvtzs'' 0x1e380000 0x7f3ffc00 C_Float2int
      (Op2 O_Rd O_Fn) (F_FPTYPE OR F_SF),
    aarch64_opcode_new ''fcvtzs'' 0x1ef80000 0x7f3ffc00 C_Float2int
      (Op2 O_Rd O_Fn) (F_FPTYPE OR F_SF),
    aarch64_opcode_new ''fcvtzu'' 0x1e390000 0x7f3ffc00 C_Float2int
      (Op2 O_Rd O_Fn) (F_FPTYPE OR F_SF),
    aarch64_opcode_new ''fcvtzu'' 0x1ef90000 0x7f3ffc00 C_Float2int
      (Op2 O_Rd O_Fn) (F_FPTYPE OR F_SF),
    aarch64_opcode_new ''fmov'' 0x9eae0000 0xfffffc00 C_Float2int
      (Op2 O_Rd O_VnD1) 0,
    aarch64_opcode_new ''fmov'' 0x9eaf0000 0xfffffc00 C_Float2int
      (Op2 O_VdD1 O_Rn) 0,
    aarch64_opcode_new ''fccmp'' 0x1e200400 0xff200c10 C_Floatccmp
      (Op4 O_Fn O_Fm O_Nzcv O_Cond) F_FPTYPE,
    aarch64_opcode_new ''fccmp'' 0x1ee00400 0xff200c10 C_Floatccmp
      (Op4 O_Fn O_Fm O_Nzcv O_Cond) F_FPTYPE,
    aarch64_opcode_new ''fccmpe'' 0x1e200410 0xff200c10 C_Floatccmp
      (Op4 O_Fn O_Fm O_Nzcv O_Cond) F_FPTYPE,
    aarch64_opcode_new ''fccmpe'' 0x1ee00410 0xff200c10 C_Floatccmp
      (Op4 O_Fn O_Fm O_Nzcv O_Cond) F_FPTYPE,
    aarch64_opcode_new ''fcmp'' 0x1e202000 0xff20fc1f C_Floatcmp
      (Op2 O_Fn O_Fm) F_FPTYPE,
    aarch64_opcode_new ''fcmp'' 0x1ee02000 0xff20fc1f C_Floatcmp
      (Op2 O_Fn O_Fm) F_FPTYPE,
    aarch64_opcode_new ''fcmpe'' 0x1e202010 0xff20fc1f C_Floatcmp
      (Op2 O_Fn O_Fm) F_FPTYPE,
    aarch64_opcode_new ''fcmpe'' 0x1ee02010 0xff20fc1f C_Floatcmp
      (Op2 O_Fn O_Fm) F_FPTYPE,
    aarch64_opcode_new ''fcmp'' 0x1e202008 0xff20fc1f C_Floatcmp
      (Op2 O_Fn O_Fpimm0) F_FPTYPE,
    aarch64_opcode_new ''fcmp'' 0x1ee02008 0xff20fc1f C_Floatcmp
      (Op2 O_Fn O_Fpimm0) F_FPTYPE,
    aarch64_opcode_new ''fcmpe'' 0x1e202018 0xff20fc1f C_Floatcmp
      (Op2 O_Fn O_Fpimm0) F_FPTYPE,
    aarch64_opcode_new ''fcmpe'' 0x1ee02018 0xff20fc1f C_Floatcmp
      (Op2 O_Fn O_Fpimm0) F_FPTYPE,
    aarch64_opcode_new ''fmov'' 0x1e204000 0xff3ffc00 C_Floatdp1
      (Op2 O_Fd O_Fn) F_FPTYPE]"

definition opcode_rows_42 :: "aarch64_opcode list" where
  "opcode_rows_42 = [
    aarch64_opcode_new ''fmov'' 0x1ee04000 0xff3ffc00 C_Floatdp1
      (Op2 O_Fd O_Fn) F_FPTYPE,
    aarch64_opcode_new ''fabs'' 0x1e20c000 0xff3ffc00 C_Floatdp1
      (Op2 O_Fd O_Fn) F_FPTYPE,
    aarch64_opcode_new ''fabs'' 0x1ee0c000 0xff3ffc00 C_Floatdp1
      (Op2 O_Fd O_Fn) F_FPTYPE,
    aarch64_opcode_new ''fneg'' 0x1e214000 0xff3ffc00 C_Floatdp1
      (Op2 O_Fd O_Fn) F_FPTYPE,
    aarch64_opcode_new ''fneg'' 0x1ee14000 0xff3ffc00 C_Floatdp1
      (Op2 O_Fd O_Fn) F_FPTYPE,
    aarch64_opcode_new ''fsqrt'' 0x1e21c000 0xff3ffc00 C_Floatdp1
      (Op2 O_Fd O_Fn) F_FPTYPE,
    aarch64_opcode_new ''fsqrt'' 0x1ee1c000 0xff3ffc00 C_Floatdp1
      (Op2 O_Fd O_Fn) F_FPTYPE,
    aarch64_opcode_new ''fcvt'' 0x1e224000 0xff3e7c00 C_Floatdp1
      (Op2 O_Fd O_Fn) (F_FPTYPE OR F_MISC),
    aarch64_opcode_new ''frintn'' 0x1e244000 0xff3ffc00 C_Floatdp1
      (Op2 O_Fd O_Fn) F_FPTYPE,
    aarch64_opcode_new ''frintn'' 0x1ee44000 0xff3ffc00 C_Floatdp1
      (Op2 O_Fd O_Fn) F_FPTYPE,
    aarch64_opcode_new ''frintp'' 0x1e24c000 0xff3ffc00 C_Floatdp1
      (Op2 O_Fd O_Fn) F_FPTYPE,
    aarch64_opcode_new ''frintp'' 0x1ee4c000 0xff3ffc00 C_Floatdp1
      (Op2 O_Fd O_Fn) F_FPTYPE,
    aarch64_opcode_new ''frintm'' 0x1e254000 0xff3ffc00 C_Floatdp1
      (Op2 O_Fd O_Fn) F_FPTYPE,
    aarch64_opcode_new ''frintm'' 0x1ee54000 0xff3ffc00 C_Floatdp1
      (Op2 O_Fd O_Fn) F_FPTYPE,
    aarch64_opcode_new ''frintz'' 0x1e25c000 0xff3ffc00 C_Floatdp1
      (Op2 O_Fd O_Fn) F_FPTYPE,
    aarch64_opcode_new ''frintz'' 0x1ee5c000 0xff3ffc00 C_Floatdp1
      (Op2 O_Fd O_Fn) F_FPTYPE,
    aarch64_opcode_new ''frinta'' 0x1e264000 0xff3ffc00 C_Floatdp1
      (Op2 O_Fd O_Fn) F_FPTYPE,
    aarch64_opcode_new ''frinta'' 0x1ee64000 0xff3ffc00 C_Floatdp1
      (Op2 O_Fd O_Fn) F_FPTYPE]"

definition opcode_rows_43 :: "aarch64_opcode list" where
  "opcode_rows_43 = [
    aarch64_opcode_new ''frintx'' 0x1e274000 0xff3ffc00 C_Floatdp1
      (Op2 O_Fd O_Fn) F_FPTYPE,
    aarch64_opcode_new ''frintx'' 0x1ee74000 0xff3ffc00 C_Floatdp1
      (Op2 O_Fd O_Fn) F_FPTYPE,
    aarch64_opcode_new ''frinti'' 0x1e27c000 0xff3ffc00 C_Floatdp1
      (Op2 O_Fd O_Fn) F_FPTYPE,
    aarch64_opcode_new ''frinti'' 0x1ee7c000 0xff3ffc00 C_Floatdp1
      (Op2 O_Fd O_Fn) F_FPTYPE,
    aarch64_opcode_new ''fmul'' 0x1e200800 0xff20fc00 C_Floatdp2
      (Op3 O_Fd O_Fn O_Fm) F_FPTYPE,
    aarch64_opcode_new ''fmul'' 0x1ee00800 0xff20fc00 C_Floatdp2
      (Op3 O_Fd O_Fn O_Fm) F_FPTYPE,
    aarch64_opcode_new ''fdiv'' 0x1e201800 0xff20fc00 C_Floatdp2
      (Op3 O_Fd O_Fn O_Fm) F_FPTYPE,
    aarch64_opcode_new ''fdiv'' 0x1ee01800 0xff20fc00 C_Floatdp2
      (Op3 O_Fd O_Fn O_Fm) F_FPTYPE,
    aarch64_opcode_new ''fadd'' 0x1e202800 0xff20fc00 C_Floatdp2
      (Op3 O_Fd O_Fn O_Fm) F_FPTYPE,
    aarch64_opcode_new ''fadd'' 0x1ee02800 0xff20fc00 C_Floatdp2
      (Op3 O_Fd O_Fn O_Fm) F_FPTYPE,
    aarch64_opcode_new ''fsub'' 0x1e203800 0xff20fc00 C_Floatdp2
      (Op3 O_Fd O_Fn O_Fm) F_FPTYPE,
    aarch64_opcode_new ''fsub'' 0x1ee03800 0xff20fc00 C_Floatdp2
      (Op3 O_Fd O_Fn O_Fm) F_FPTYPE,
    aarch64_opcode_new ''fmax'' 0x1e204800 0xff20fc00 C_Floatdp2
      (Op3 O_Fd O_Fn O_Fm) F_FPTYPE,
    aarch64_opcode_new ''fmax'' 0x1ee04800 0xff20fc00 C_Floatdp2
      (Op3 O_Fd O_Fn O_Fm) F_FPTYPE,
    aarch64_opcode_new ''fmin'' 0x1e205800 0xff20fc00 C_Floatdp2
      (Op3 O_Fd O_Fn O_Fm) F_FPTYPE,
    aarch64_opcode_new ''fmin'' 0x1ee05800 0xff20fc00 C_Floatdp2
      (Op3 O_Fd O_Fn O_Fm) F_FPTYPE,
    aarch64_opcode_new ''fmaxnm'' 0x1e206800 0xff20fc00 C_Floatdp2
      (Op3 O_Fd O_Fn O_Fm) F_FPTYPE,
    aarch64_opcode_new ''fmaxnm'' 0x1ee06800 0xff20fc00 C_Floatdp2
      (Op3 O_Fd O_Fn O_Fm) F_FPTYPE]"

definition opcode_rows_44 :: "aarch64_opcode list" where
  "opcode_rows_44 = [
    aarch64_opcode_new ''fminnm'' 0x1e207800 0xff20fc00 C_Floatdp2
      (Op3 O_Fd O_Fn O_Fm) F_FPTYPE,
    aarch64_opcode_new ''fminnm'' 0x1ee07800 0xff20fc00 C_Floatdp2
      (Op3 O_Fd O_Fn O_Fm) F_FPTYPE,
    aarch64_opcode_new ''fnmul'' 0x1e208800 0xff20fc00 C_Floatdp2
      (Op3 O_Fd O_Fn O_Fm) F_FPTYPE,
    aarch64_opcode_new ''fnmul'' 0x1ee08800 0xff20fc00 C_Floatdp2
      (Op3 O_Fd O_Fn O_Fm) F_FPTYPE,
    aarch64_opcode_new ''fmadd'' 0x1f000000 0xff208000 C_Floatdp3
      (Op4 O_Fd O_Fn O_Fm O_Fa) F_FPTYPE,
    aarch64_opcode_new ''fmadd'' 0x1fc00000 0xff208000 C_Floatdp3
      (Op4 O_Fd O_Fn O_Fm O_Fa) F_FPTYPE,
    aarch64_opcode_new ''fmsub'' 0x1f008000 0xff208000 C_Floatdp3
      (Op4 O_Fd O_Fn O_Fm O_Fa) F_FPTYPE,
    aarch64_opcode_new ''fmsub'' 0x1fc08000 0xff208000 C_Floatdp3
      (Op4 O_Fd O_Fn O_Fm O_Fa) F_FPTYPE,
    aarch64_opcode_new ''fnmadd'' 0x1f200000 0xff208000 C_Floatdp3
      (Op4 O_Fd O_Fn O_Fm O_Fa) F_FPTYPE,
    aarch64_opcode_new ''fnmadd'' 0x1fe00000 0xff208000 C_Floatdp3
      (Op4 O_Fd O_Fn O_Fm O_Fa) F_FPTYPE,
    aarch64_opcode_new ''fnmsub'' 0x1f208000 0xff208000 C_Floatdp3
      (Op4 O_Fd O_Fn O_Fm O_Fa) F_FPTYPE,
    aarch64_opcode_new ''fnmsub'' 0x1fe08000 0xff208000 C_Floatdp3
      (Op4 O_Fd O_Fn O_Fm O_Fa) F_FPTYPE,
    aarch64_opcode_new ''fmov'' 0x1e201000 0xff201fe0 C_Floatimm
      (Op2 O_Fd O_Fpimm) F_FPTYPE,
    aarch64_opcode_new ''fmov'' 0x1ee01000 0xff201fe0 C_Floatimm
      (Op2 O_Fd O_Fpimm) F_FPTYPE,
    aarch64_opcode_new ''fcsel'' 0x1e200c00 0xff200c00 C_Floatsel
      (Op4 O_Fd O_Fn O_Fm O_Cond) F_FPTYPE,
    aarch64_opcode_new ''fcsel'' 0x1ee00c00 0xff200c00 C_Floatsel
      (Op4 O_Fd O_Fn O_Fm O_Cond) F_FPTYPE,
    aarch64_opcode_new ''strb'' 0x38000400 0xffe00400 C_LdstImm9
      (Op2 O_Rt O_AddrSimm9) 0,
    aarch64_opcode_new ''ldrb'' 0x38400400 0xffe00400 C_LdstImm9
      (Op2 O_Rt O_AddrSimm9) 0]"

definition opcode_rows_45 :: "aarch64_opcode list" where
  "opcode_rows_45 = [
    aarch64_opcode_new ''ldrsb'' 0x38800400 0xffa00400 C_LdstImm9
      (Op2 O_Rt O_AddrSimm9) F_LDS_SIZE,
    aarch64_opcode_new ''str'' 0x3c000400 0x3f600400 C_LdstImm9
      (Op2 O_Ft O_AddrSimm9) 0,
    aarch64_opcode_new ''ldr'' 0x3c400400 0x3f600400 C_LdstImm9
      (Op2 O_Ft O_AddrSimm9) 0,
    aarch64_opcode_new ''strh'' 0x78000400 0xffe00400 C_LdstImm9
      (Op2 O_Rt O_AddrSimm9) 0,
    aarch64_opcode_new ''ldrh'' 0x78400400 0xffe00400 C_LdstImm9
      (Op2 O_Rt O_AddrSimm9) 0,
    aarch64_opcode_new ''ldrsh'' 0x78800400 0xffa00400 C_LdstImm9
      (Op2 O_Rt O_AddrSimm9) F_LDS_SIZE,
    aarch64_opcode_new ''str'' 0xb8000400 0xbfe00400 C_LdstImm9
      (Op2 O_Rt O_AddrSimm9) F_GPRSIZE_IN_Q,
    aarch64_opcode_new ''ldr'' 0xb8400400 0xbfe00400 C_LdstImm9
      (Op2 O_Rt O_AddrSimm9) F_GPRSIZE_IN_Q,
    aarch64_opcode_new ''ldrsw'' 0xb8800400 0xffe00400 C_LdstImm9
      (Op2 O_Rt O_AddrSimm9) 0,
    aarch64_opcode_new ''strb'' 0x39000000 0xffc00000 C_LdstPos
      (Op2 O_Rt O_AddrUimm12) 0,
    aarch64_opcode_new ''ldrb'' 0x39400000 0xffc00000 C_LdstPos
      (Op2 O_Rt O_AddrUimm12) 0,
    aarch64_opcode_new ''ldrsb'' 0x39800000 0xff800000 C_LdstPos
      (Op2 O_Rt O_AddrUimm12) F_LDS_SIZE,
    aarch64_opcode_new ''str'' 0x3d000000 0x3f400000 C_LdstPos
      (Op2 O_Ft O_AddrUimm12) 0,
    aarch64_opcode_new ''ldr'' 0x3d400000 0x3f400000 C_LdstPos
      (Op2 O_Ft O_AddrUimm12) 0,
    aarch64_opcode_new ''strh'' 0x79000000 0xffc00000 C_LdstPos
      (Op2 O_Rt O_AddrUimm12) 0,
    aarch64_opcode_new ''ldrh'' 0x79400000 0xffc00000 C_LdstPos
      (Op2 O_Rt O_AddrUimm12) 0,
    aarch64_opcode_new ''ldrsh'' 0x79800000 0xff800000 C_LdstPos
      (Op2 O_Rt O_AddrUimm12) F_LDS_SIZE,
    aarch64_opcode_new ''str'' 0xb9000000 0xbfc00000 C_LdstPos
      (Op2 O_Rt O_AddrUimm12) F_GPRSIZE_IN_Q]"

definition opcode_rows_46 :: "aarch64_opcode list" where
  "opcode_rows_46 = [
    aarch64_opcode_new ''ldr'' 0xb9400000 0xbfc00000 C_LdstPos
      (Op2 O_Rt O_AddrUimm12) F_GPRSIZE_IN_Q,
    aarch64_opcode_new ''ldrsw'' 0xb9800000 0xffc00000 C_LdstPos
      (Op2 O_Rt O_AddrUimm12) 0,
    aarch64_opcode_new ''prfm'' 0xf9800000 0xffc00000 C_LdstPos
      (Op2 O_Prfop O_AddrUimm12) 0,
    aarch64_opcode_new ''strb'' 0x38200800 0xffe00c00 C_LdstRegoff
      (Op2 O_Rt O_AddrRegoff) 0,
    aarch64_opcode_new ''ldrb'' 0x38600800 0xffe00c00 C_LdstRegoff
      (Op2 O_Rt O_AddrRegoff) 0,
    aarch64_opcode_new ''ldrsb'' 0x38a00800 0xffa00c00 C_LdstRegoff
      (Op2 O_Rt O_AddrRegoff) F_LDS_SIZE,
    aarch64_opcode_new ''str'' 0x3c200800 0x3f600c00 C_LdstRegoff
      (Op2 O_Ft O_AddrRegoff) 0,
    aarch64_opcode_new ''ldr'' 0x3c600800 0x3f600c00 C_LdstRegoff
      (Op2 O_Ft O_AddrRegoff) 0,
    aarch64_opcode_new ''strh'' 0x78200800 0xffe00c00 C_LdstRegoff
      (Op2 O_Rt O_AddrRegoff) 0,
    aarch64_opcode_new ''ldrh'' 0x78600800 0xffe00c00 C_LdstRegoff
      (Op2 O_Rt O_AddrRegoff) 0,
    aarch64_opcode_new ''ldrsh'' 0x78a00800 0xffa00c00 C_LdstRegoff
      (Op2 O_Rt O_AddrRegoff) F_LDS_SIZE,
    aarch64_opcode_new ''str'' 0xb8200800 0xbfe00c00 C_LdstRegoff
      (Op2 O_Rt O_AddrRegoff) F_GPRSIZE_IN_Q,
    aarch64_opcode_new ''ldr'' 0xb8600800 0xbfe00c00 C_LdstRegoff
      (Op2 O_Rt O_AddrRegoff) F_GPRSIZE_IN_Q,
    aarch64_opcode_new ''ldrsw'' 0xb8a00800 0xffe00c00 C_LdstRegoff
      (Op2 O_Rt O_AddrRegoff) 0,
    aarch64_opcode_new ''prfm'' 0xf8a00800 0xffe00c00 C_LdstRegoff
      (Op2 O_Prfop O_AddrRegoff) 0,
    aarch64_opcode_new ''sttrb'' 0x38000800 0xffe00c00 C_LdstUnpriv
      (Op2 O_Rt O_AddrSimm9) 0,
    aarch64_opcode_new ''ldtrb'' 0x38400800 0xffe00c00 C_LdstUnpriv
      (Op2 O_Rt O_AddrSimm9) 0,
    aarch64_opcode_new ''ldtrsb'' 0x38800800 0xffa00c00 C_LdstUnpriv
      (Op2 O_Rt O_AddrSimm9) F_LDS_SIZE]"

definition opcode_rows_47 :: "aarch64_opcode list" where
  "opcode_rows_47 = [
    aarch64_opcode_new ''sttrh'' 0x78000800 0xffe00c00 C_LdstUnpriv
      (Op2 O_Rt O_AddrSimm9) 0,
    aarch64_opcode_new ''ldtrh'' 0x78400800 0xffe00c00 C_LdstUnpriv
      (Op2 O_Rt O_AddrSimm9) 0,
    aarch64_opcode_new ''ldtrsh'' 0x78800800 0xffa00c00 C_LdstUnpriv
      (Op2 O_Rt O_AddrSimm9) F_LDS_SIZE,
    aarch64_opcode_new ''sttr'' 0xb8000800 0xbfe00c00 C_LdstUnpriv
      (Op2 O_Rt O_AddrSimm9) F_GPRSIZE_IN_Q,
    aarch64_opcode_new ''ldtr'' 0xb8400800 0xbfe00c00 C_LdstUnpriv
      (Op2 O_Rt O_AddrSimm9) F_GPRSIZE_IN_Q,
    aarch64_opcode_new ''ldtrsw'' 0xb8800800 0xffe00c00 C_LdstUnpriv
      (Op2 O_Rt O_AddrSimm9) 0,
    aarch64_opcode_new ''sturb'' 0x38000000 0xffe00c00 C_LdstUnscaled
      (Op2 O_Rt O_AddrSimm9) 0,
    aarch64_opcode_new ''ldurb'' 0x38400000 0xffe00c00 C_LdstUnscaled
      (Op2 O_Rt O_AddrSimm9) 0,
    aarch64_opcode_new ''ldursb'' 0x38800000 0xffa00c00 C_LdstUnscaled
      (Op2 O_Rt O_AddrSimm9) F_LDS_SIZE,
    aarch64_opcode_new ''stur'' 0x3c000000 0x3f600c00 C_LdstUnscaled
      (Op2 O_Ft O_AddrSimm9) 0,
    aarch64_opcode_new ''ldur'' 0x3c400000 0x3f600c00 C_LdstUnscaled
      (Op2 O_Ft O_AddrSimm9) 0,
    aarch64_opcode_new ''sturh'' 0x78000000 0xffe00c00 C_LdstUnscaled
      (Op2 O_Rt O_AddrSimm9) 0,
    aarch64_opcode_new ''ldurh'' 0x78400000 0xffe00c00 C_LdstUnscaled
      (Op2 O_Rt O_AddrSimm9) 0,
    aarch64_opcode_new ''ldursh'' 0x78800000 0xffa00c00 C_LdstUnscaled
      (Op2 O_Rt O_AddrSimm9) F_LDS_SIZE,
    aarch64_opcode_new ''stur'' 0xb8000000 0xbfe00c00 C_LdstUnscaled
      (Op2 O_Rt O_AddrSimm9) F_GPRSIZE_IN_Q,
    aarch64_opcode_new ''ldur'' 0xb8400000 0xbfe00c00 C_LdstUnscaled
      (Op2 O_Rt O_AddrSimm9) F_GPRSIZE_IN_Q,
    aarch64_opcode_new ''ldursw'' 0xb8800000 0xffe00c00 C_LdstUnscaled
      (Op2 O_Rt O_AddrSimm9) 0,
    aarch64_opcode_new ''prfum'' 0xf8800000 0xffe00c00 C_LdstUnscaled
      (Op2 O_Prfop O_AddrSimm9) 0]"

definition opcode_rows_48 :: "aarch64_opcode list" where
  "opcode_rows_48 = [
    aarch64_opcode_new ''stxrb'' 0x8007c00 0xffe08000 C_Ldstexcl
      (Op3 O_Rs O_Rt O_AddrSimple) 0,
    aarch64_opcode_new ''stlxrb'' 0x800fc00 0xffe08000 C_Ldstexcl
      (Op3 O_Rs O_Rt O_AddrSimple) 0,
    aarch64_opcode_new ''ldxrb'' 0x85f7c00 0xffe08000 C_Ldstexcl
      (Op2 O_Rt O_AddrSimple) 0,
    aarch64_opcode_new ''ldaxrb'' 0x85ffc00 0xffe08000 C_Ldstexcl
      (Op2 O_Rt O_AddrSimple) 0,
    aarch64_opcode_new ''stlrb'' 0x89ffc00 0xffe08000 C_Ldstexcl
      (Op2 O_Rt O_AddrSimple) 0,
    aarch64_opcode_new ''ldarb'' 0x8dffc00 0xffeffc00 C_Ldstexcl
      (Op2 O_Rt O_AddrSimple) 0,
    aarch64_opcode_new ''stxrh'' 0x48007c00 0xffe08000 C_Ldstexcl
      (Op3 O_Rs O_Rt O_AddrSimple) 0,
    aarch64_opcode_new ''stlxrh'' 0x4800fc00 0xffe08000 C_Ldstexcl
      (Op3 O_Rs O_Rt O_AddrSimple) 0,
    aarch64_opcode_new ''ldxrh'' 0x485f7c00 0xffe08000 C_Ldstexcl
      (Op2 O_Rt O_AddrSimple) 0,
    aarch64_opcode_new ''ldaxrh'' 0x485ffc00 0xffe08000 C_Ldstexcl
      (Op2 O_Rt O_AddrSimple) 0,
    aarch64_opcode_new ''stlrh'' 0x489ffc00 0xffe08000 C_Ldstexcl
      (Op2 O_Rt O_AddrSimple) 0,
    aarch64_opcode_new ''ldarh'' 0x48dffc00 0xffeffc00 C_Ldstexcl
      (Op2 O_Rt O_AddrSimple) 0,
    aarch64_opcode_new ''stxr'' 0x88007c00 0xbfe08000 C_Ldstexcl
      (Op3 O_Rs O_Rt O_AddrSimple) F_GPRSIZE_IN_Q,
    aarch64_opcode_new ''stlxr'' 0x8800fc00 0xbfe08000 C_Ldstexcl
      (Op3 O_Rs O_Rt O_AddrSimple) F_GPRSIZE_IN_Q,
    aarch64_opcode_new ''stxp'' 0x88200000 0xbfe08000 C_Ldstexcl
      (Op4 O_Rs O_Rt O_Rt2 O_AddrSimple) F_GPRSIZE_IN_Q,
    aarch64_opcode_new ''stlxp'' 0x88208000 0xbfe08000 C_Ldstexcl
      (Op4 O_Rs O_Rt O_Rt2 O_AddrSimple) F_GPRSIZE_IN_Q,
    aarch64_opcode_new ''ldxr'' 0x885f7c00 0xbfe08000 C_Ldstexcl
      (Op2 O_Rt O_AddrSimple) F_GPRSIZE_IN_Q,
    aarch64_opcode_new ''ldaxr'' 0x885ffc00 0xbfe08000 C_Ldstexcl
      (Op2 O_Rt O_AddrSimple) F_GPRSIZE_IN_Q]"

definition opcode_rows_49 :: "aarch64_opcode list" where
  "opcode_rows_49 = [
    aarch64_opcode_new ''ldxp'' 0x887f0000 0xbfe08000 C_Ldstexcl
      (Op3 O_Rt O_Rt2 O_AddrSimple) F_GPRSIZE_IN_Q,
    aarch64_opcode_new ''ldaxp'' 0x887f8000 0xbfe08000 C_Ldstexcl
      (Op3 O_Rt O_Rt2 O_AddrSimple) F_GPRSIZE_IN_Q,
    aarch64_opcode_new ''stlr'' 0x889ffc00 0xbfe08000 C_Ldstexcl
      (Op2 O_Rt O_AddrSimple) F_GPRSIZE_IN_Q,
    aarch64_opcode_new ''ldar'' 0x88dffc00 0xbfeffc00 C_Ldstexcl
      (Op2 O_Rt O_AddrSimple) F_GPRSIZE_IN_Q,
    aarch64_opcode_new ''ldlar'' 0x88df7c00 0xbfe08000 C_Ldstexcl
      (Op2 O_Rt O_AddrSimple) F_GPRSIZE_IN_Q,
    aarch64_opcode_new ''ldlarb'' 0x08df7c00 0xffe08000 C_Ldstexcl
      (Op2 O_Rt O_AddrSimple) 0,
    aarch64_opcode_new ''ldlarh'' 0x48df7c00 0xffe08000 C_Ldstexcl
      (Op2 O_Rt O_AddrSimple) 0,
    aarch64_opcode_new ''stllr'' 0x889f7c00 0xbfe08000 C_Ldstexcl
      (Op2 O_Rt O_AddrSimple) F_GPRSIZE_IN_Q,
    aarch64_opcode_new ''stllrb'' 0x089f7c00 0xffe08000 C_Ldstexcl
      (Op2 O_Rt O_AddrSimple) 0,
    aarch64_opcode_new ''stllrh'' 0x489f7c00 0xbfe08000 C_Ldstexcl
      (Op2 O_Rt O_AddrSimple) 0,
    aarch64_opcode_new ''stnp'' 0x28000000 0x7fc00000 C_LdstnapairOffs
      (Op3 O_Rt O_Rt2 O_AddrSimm7) F_SF,
    aarch64_opcode_new ''ldnp'' 0x28400000 0x7fc00000 C_LdstnapairOffs
      (Op3 O_Rt O_Rt2 O_AddrSimm7) F_SF,
    aarch64_opcode_new ''stnp'' 0x2c000000 0x3fc00000 C_LdstnapairOffs
      (Op3 O_Ft O_Ft2 O_AddrSimm7) 0,
    aarch64_opcode_new ''ldnp'' 0x2c400000 0x3fc00000 C_LdstnapairOffs
      (Op3 O_Ft O_Ft2 O_AddrSimm7) 0,
    aarch64_opcode_new ''stp'' 0x29000000 0x7ec00000 C_LdstpairOff
      (Op3 O_Rt O_Rt2 O_AddrSimm7) F_SF,
    aarch64_opcode_new ''ldp'' 0x29400000 0x7ec00000 C_LdstpairOff
      (Op3 O_Rt O_Rt2 O_AddrSimm7) F_SF,
    aarch64_opcode_new ''stp'' 0x2d000000 0x3fc00000 C_LdstpairOff
      (Op3 O_Ft O_Ft2 O_AddrSimm7) 0,
    aarch64_opcode_new ''ldp'' 0x2d400000 0x3fc00000 C_LdstpairOff
      (Op3 O_Ft O_Ft2 O_AddrSimm7) 0]"

definition opcode_rows_50 :: "aarch64_opcode list" where
  "opcode_rows_50 = [
    aarch64_opcode_new ''ldpsw'' 0x69400000 0xffc00000 C_LdstpairOff
      (Op3 O_Rt O_Rt2 O_AddrSimm7) 0,
    aarch64_opcode_new ''stp'' 0x28800000 0x7ec00000 C_LdstpairIndexed
      (Op3 O_Rt O_Rt2 O_AddrSimm7) F_SF,
    aarch64_opcode_new ''ldp'' 0x28c00000 0x7ec00000 C_LdstpairIndexed
      (Op3 O_Rt O_Rt2 O_AddrSimm7) F_SF,
    aarch64_opcode_new ''stp'' 0x2c800000 0x3ec00000 C_LdstpairIndexed
      (Op3 O_Ft O_Ft2 O_AddrSimm7) 0,
    aarch64_opcode_new ''ldp'' 0x2cc00000 0x3ec00000 C_LdstpairIndexed
      (Op3 O_Ft O_Ft2 O_AddrSimm7) 0,
    aarch64_opcode_new ''ldpsw'' 0x68c00000 0xfec00000 C_LdstpairIndexed
      (Op3 O_Rt O_Rt2 O_AddrSimm7) 0,
    aarch64_opcode_new ''ldr'' 0x18000000 0xbf000000 C_Loadlit
      (Op2 O_Rt O_AddrPcrel19) F_GPRSIZE_IN_Q,
    aarch64_opcode_new ''ldr'' 0x1c000000 0x3f000000 C_Loadlit
      (Op2 O_Ft O_AddrPcrel19) 0,
    aarch64_opcode_new ''ldrsw'' 0x98000000 0xff000000 C_Loadlit
      (Op2 O_Rt O_AddrPcrel19) 0,
    aarch64_opcode_new ''prfm'' 0xd8000000 0xff000000 C_Loadlit
      (Op2 O_Prfop O_AddrPcrel19) 0,
    aarch64_opcode_new ''and'' 0x12000000 0x7f800000 C_LogImm
      (Op3 O_RdSp O_Rn O_Limm) (F_HAS_ALIAS OR F_SF),
    aarch64_opcode_new ''bic'' 0x12000000 0x7f800000 C_LogImm
      (Op3 O_RdSp O_Rn O_Limm) (F_ALIAS OR F_PSEUDO OR F_SF),
    aarch64_opcode_new ''orr'' 0x32000000 0x7f800000 C_LogImm
      (Op3 O_RdSp O_Rn O_Limm) (F_HAS_ALIAS OR F_SF),
    aarch64_opcode_new ''mov'' 0x320003e0 0x7f8003e0 C_LogImm
      (Op2 O_RdSp O_ImmMov) (F_ALIAS OR F_P1 OR F_SF OR F_CONV),
    aarch64_opcode_new ''eor'' 0x52000000 0x7f800000 C_LogImm
      (Op3 O_RdSp O_Rn O_Limm) F_SF,
    aarch64_opcode_new ''ands'' 0x72000000 0x7f800000 C_LogImm
      (Op3 O_Rd O_Rn O_Limm) (F_HAS_ALIAS OR F_SF),
    aarch64_opcode_new ''tst'' 0x7200001f 0x7f80001f C_LogImm
      (Op2 O_Rn O_Limm) (F_ALIAS OR F_SF),
    aarch64_opcode_new ''and'' 0xa000000 0x7f200000 C_LogShift
      (Op3 O_Rd O_Rn O_RmSft) F_SF]"

definition opcode_rows_51 :: "aarch64_opcode list" where
  "opcode_rows_51 = [
    aarch64_opcode_new ''bic'' 0xa200000 0x7f200000 C_LogShift
      (Op3 O_Rd O_Rn O_RmSft) F_SF,
    aarch64_opcode_new ''orr'' 0x2a000000 0x7f200000 C_LogShift
      (Op3 O_Rd O_Rn O_RmSft) (F_HAS_ALIAS OR F_SF),
    aarch64_opcode_new ''mov'' 0x2a0003e0 0x7f2003e0 C_LogShift
      (Op2 O_Rd O_Rm) (F_ALIAS OR F_SF),
    aarch64_opcode_new ''uxtw'' 0x2a0003e0 0x7f2003e0 C_LogShift
      (Op2 O_Rd O_Rm) (F_ALIAS OR F_PSEUDO),
    aarch64_opcode_new ''orn'' 0x2a200000 0x7f200000 C_LogShift
      (Op3 O_Rd O_Rn O_RmSft) (F_HAS_ALIAS OR F_SF),
    aarch64_opcode_new ''mvn'' 0x2a2003e0 0x7f2003e0 C_LogShift
      (Op2 O_Rd O_RmSft) (F_ALIAS OR F_SF),
    aarch64_opcode_new ''eor'' 0x4a000000 0x7f200000 C_LogShift
      (Op3 O_Rd O_Rn O_RmSft) F_SF,
    aarch64_opcode_new ''eon'' 0x4a200000 0x7f200000 C_LogShift
      (Op3 O_Rd O_Rn O_RmSft) F_SF,
    aarch64_opcode_new ''ands'' 0x6a000000 0x7f200000 C_LogShift
      (Op3 O_Rd O_Rn O_RmSft) (F_HAS_ALIAS OR F_SF),
    aarch64_opcode_new ''tst'' 0x6a00001f 0x7f20001f C_LogShift
      (Op2 O_Rn O_RmSft) (F_ALIAS OR F_SF),
    aarch64_opcode_new ''bics'' 0x6a200000 0x7f200000 C_LogShift
      (Op3 O_Rd O_Rn O_RmSft) F_SF,
    aarch64_opcode_new ''casb'' 0x8a07c00 0xffe0fc00 C_LseAtomic
      (Op3 O_Rs O_Rt O_AddrSimple) 0,
    aarch64_opcode_new ''cash'' 0x48a07c00 0xffe0fc00 C_LseAtomic
      (Op3 O_Rs O_Rt O_AddrSimple) 0,
    aarch64_opcode_new ''cas'' 0x88a07c00 0xbfe0fc00 C_LseAtomic
      (Op3 O_Rs O_Rt O_AddrSimple) F_LSE_SZ,
    aarch64_opcode_new ''casab'' 0x8e07c00 0xffe0fc00 C_LseAtomic
      (Op3 O_Rs O_Rt O_AddrSimple) 0,
    aarch64_opcode_new ''caslb'' 0x8a0fc00 0xffe0fc00 C_LseAtomic
      (Op3 O_Rs O_Rt O_AddrSimple) 0,
    aarch64_opcode_new ''casalb'' 0x8e0fc00 0xffe0fc00 C_LseAtomic
      (Op3 O_Rs O_Rt O_AddrSimple) 0,
    aarch64_opcode_new ''casah'' 0x48e07c00 0xffe0fc00 C_LseAtomic
      (Op3 O_Rs O_Rt O_AddrSimple) 0]"

definition opcode_rows_52 :: "aarch64_opcode list" where
  "opcode_rows_52 = [
    aarch64_opcode_new ''caslh'' 0x48a0fc00 0xffe0fc00 C_LseAtomic
      (Op3 O_Rs O_Rt O_AddrSimple) 0,
    aarch64_opcode_new ''casalh'' 0x48e0fc00 0xffe0fc00 C_LseAtomic
      (Op3 O_Rs O_Rt O_AddrSimple) 0,
    aarch64_opcode_new ''casa'' 0x88e07c00 0xbfe0fc00 C_LseAtomic
      (Op3 O_Rs O_Rt O_AddrSimple) F_LSE_SZ,
    aarch64_opcode_new ''casl'' 0x88a0fc00 0xbfe0fc00 C_LseAtomic
      (Op3 O_Rs O_Rt O_AddrSimple) F_LSE_SZ,
    aarch64_opcode_new ''casal'' 0x88e0fc00 0xbfe0fc00 C_LseAtomic
      (Op3 O_Rs O_Rt O_AddrSimple) F_LSE_SZ,
    aarch64_opcode_new ''casp'' 0x8207c00 0xbfe0fc00 C_LseAtomic
      (Op5 O_Rs O_Pairreg O_Rt O_Pairreg O_AddrSimple) F_LSE_SZ,
    aarch64_opcode_new ''caspa'' 0x8607c00 0xbfe0fc00 C_LseAtomic
      (Op5 O_Rs O_Pairreg O_Rt O_Pairreg O_AddrSimple) F_LSE_SZ,
    aarch64_opcode_new ''caspl'' 0x820fc00 0xbfe0fc00 C_LseAtomic
      (Op5 O_Rs O_Pairreg O_Rt O_Pairreg O_AddrSimple) F_LSE_SZ,
    aarch64_opcode_new ''caspal'' 0x860fc00 0xbfe0fc00 C_LseAtomic
      (Op5 O_Rs O_Pairreg O_Rt O_Pairreg O_AddrSimple) F_LSE_SZ,
    aarch64_opcode_new ''swpb'' 0x38208000 0xffe0fc00 C_LseAtomic
      (Op3 O_Rs O_Rt O_AddrSimple) 0,
    aarch64_opcode_new ''swph'' 0x78208000 0xffe0fc00 C_LseAtomic
      (Op3 O_Rs O_Rt O_AddrSimple) 0,
    aarch64_opcode_new ''swp'' 0xb8208000 0xbfe0fc00 C_LseAtomic
      (Op3 O_Rs O_Rt O_AddrSimple) F_LSE_SZ,
    aarch64_opcode_new ''swpab'' 0x38a08000 0xffe0fc00 C_LseAtomic
      (Op3 O_Rs O_Rt O_AddrSimple) 0,
    aarch64_opcode_new ''swplb'' 0x38608000 0xffe0fc00 C_LseAtomic
      (Op3 O_Rs O_Rt O_AddrSimple) 0,
    aarch64_opcode_new ''swpalb'' 0x38e08000 0xffe0fc00 C_LseAtomic
      (Op3 O_Rs O_Rt O_AddrSimple) 0,
    aarch64_opcode_new ''swpah'' 0x78a08000 0xffe0fc00 C_LseAtomic
      (Op3 O_Rs O_Rt O_AddrSimple) 0,
    aarch64_opcode_new ''swplh'' 0x78608000 0xffe0fc00 C_LseAtomic
      (Op3 O_Rs O_Rt O_AddrSimple) 0,
    aarch64_opcode_new ''swpalh'' 0x78e08000 0xffe0fc00 C_LseAtomic
      (Op3 O_Rs O_Rt O_AddrSimple) 0]"

end
