(* ===== verification/A64_Rows5.thy ===== *)
theory A64_Rows5
  imports A64_Opcode
begin

text \<open>
  Part 5 of the opcode table \<open>aarch64_opcode_table\<close> of \<open>src/src/isa/aarch64/table.rs\<close>, in
  source order: one list per run of consecutive rows.
\<close>

definition opcode_rows_53 :: "aarch64_opcode list" where
  "opcode_rows_53 = [
    aarch64_opcode_new ''swpa'' 0xb8a08000 0xbfe0fc00 C_LseAtomic
      (Op3 O_Rs O_Rt O_AddrSimple) F_LSE_SZ,
    aarch64_opcode_new ''swpl'' 0xb8608000 0xbfe0fc00 C_LseAtomic
      (Op3 O_Rs O_Rt O_AddrSimple) F_LSE_SZ,
    aarch64_opcode_new ''swpal'' 0xb8e08000 0xbfe0fc00 C_LseAtomic
      (Op3 O_Rs O_Rt O_AddrSimple) F_LSE_SZ,
    aarch64_opcode_new ''ldapr'' 0xb8bfc000 0xbffffc00 C_LseAtomic
      (Op2 O_Rt O_AddrSimple) F_LSE_SZ,
    aarch64_opcode_new ''ldaprb'' 0x38bfc000 0xfffffc00 C_LseAtomic
      (Op2 O_Rt O_AddrSimple) 0,
    aarch64_opcode_new ''ldaprh'' 0x78bfc000 0xfffffc00 C_LseAtomic
      (Op2 O_Rt O_AddrSimple) 0,
    aarch64_opcode_new ''stlurb'' 0x19000000 0xffe00c00 C_LdstUnscaled
      (Op2 O_Rt O_AddrSimm9) 0,
    aarch64_opcode_new ''ldapurb'' 0x19400000 0xffe00c00 C_LdstUnscaled
      (Op2 O_Rt O_AddrSimm9) 0,
    aarch64_opcode_new ''ldapursb'' 0x19800000 0xffe00c00 C_LdstUnscaled
      (Op2 O_Rt O_AddrSimm9) 0,
    aarch64_opcode_new ''stlurh'' 0x59000000 0xffe00c00 C_LdstUnscaled
      (Op2 O_Rt O_AddrSimm9) 0,
    aarch64_opcode_new ''ldapurh'' 0x59400000 0xffe00c00 C_LdstUnscaled
      (Op2 O_Rt O_AddrSimm9) 0,
    aarch64_opcode_new ''ldapursh'' 0x59800000 0xffe00c00 C_LdstUnscaled
      (Op2 O_Rt O_AddrSimm9) 0,
    aarch64_opcode_new ''stlur'' 0x99000000 0xffe00c00 C_LdstUnscaled
      (Op2 O_Rt O_AddrSimm9) 0,
    aarch64_opcode_new ''ldapur'' 0x99400000 0xffe00c00 C_LdstUnscaled
      (Op2 O_Rt O_AddrSimm9) 0,
    aarch64_opcode_new ''ldapursw'' 0x99800000 0xffe00c00 C_LdstUnscaled
      (Op2 O_Rt O_AddrSimm9) 0,
    aarch64_opcode_new ''stlur'' 0xd9000000 0xffe00c00 C_LdstUnscaled
      (Op2 O_Rt O_AddrSimm9) 0,
    aarch64_opcode_new ''ldapur'' 0xd9400000 0xffe00c00 C_LdstUnscaled
      (Op2 O_Rt O_AddrSimm9) 0,
    aarch64_opcode_new ''ldaddb'' 0x38200000 0xffe0fc00 C_LseAtomic
      (Op3 O_Rs O_Rt O_AddrSimple) F_HAS_ALIAS,
    aarch64_opcode_new ''ldaddh'' 0x78200000 0xffe0fc00 C_LseAtomic
      (Op3 O_Rs O_Rt O_AddrSimple) F_HAS_ALIAS,
    aarch64_opcode_new ''ldadd'' 0xb8200000 0xbfe0fc00 C_LseAtomic
      (Op3 O_Rs O_Rt O_AddrSimple) (F_LSE_SZ OR F_HAS_ALIAS),
    aarch64_opcode_new ''ldaddab'' 0x38a00000 0xffe0fc00 C_LseAtomic
      (Op3 O_Rs O_Rt O_AddrSimple) 0,
    aarch64_opcode_new ''ldaddlb'' 0x38600000 0xffe0fc00 C_LseAtomic
      (Op3 O_Rs O_Rt O_AddrSimple) F_HAS_ALIAS,
    aarch64_opcode_new ''ldaddalb'' 0x38e00000 0xffe0fc00 C_LseAtomic
      (Op3 O_Rs O_Rt O_AddrSimple) 0,
    aarch64_opcode_new ''ldaddah'' 0x78a00000 0xffe0fc00 C_LseAtomic
      (Op3 O_Rs O_Rt O_AddrSimple) 0,
    aarch64_opcode_new ''ldaddlh'' 0x78600000 0xffe0fc00 C_LseAtomic
      (Op3 O_Rs O_Rt O_AddrSimple) F_HAS_ALIAS,
    aarch64_opcode_new ''ldaddalh'' 0x78e00000 0xffe0fc00 C_LseAtomic
      (Op3 O_Rs O_Rt O_AddrSimple) 0,
    aarch64_opcode_new ''ldadda'' 0xb8a00000 0xbfe0fc00 C_LseAtomic
      (Op3 O_Rs O_Rt O_AddrSimple) F_LSE_SZ]"

definition opcode_rows_54 :: "aarch64_opcode list" where
  "opcode_rows_54 = [
    aarch64_opcode_new ''ldaddl'' 0xb8600000 0xbfe0fc00 C_LseAtomic
      (Op3 O_Rs O_Rt O_AddrSimple) (F_LSE_SZ OR F_HAS_ALIAS),
    aarch64_opcode_new ''ldaddal'' 0xb8e00000 0xbfe0fc00 C_LseAtomic
      (Op3 O_Rs O_Rt O_AddrSimple) F_LSE_SZ,
    aarch64_opcode_new ''ldclrb'' 0x38201000 0xffe0fc00 C_LseAtomic
      (Op3 O_Rs O_Rt O_AddrSimple) F_HAS_ALIAS,
    aarch64_opcode_new ''ldclrh'' 0x78201000 0xffe0fc00 C_LseAtomic
      (Op3 O_Rs O_Rt O_AddrSimple) F_HAS_ALIAS,
    aarch64_opcode_new ''ldclr'' 0xb8201000 0xbfe0fc00 C_LseAtomic
      (Op3 O_Rs O_Rt O_AddrSimple) (F_LSE_SZ OR F_HAS_ALIAS),
    aarch64_opcode_new ''ldclrab'' 0x38a01000 0xffe0fc00 C_LseAtomic
      (Op3 O_Rs O_Rt O_AddrSimple) 0,
    aarch64_opcode_new ''ldclrlb'' 0x38601000 0xffe0fc00 C_LseAtomic
      (Op3 O_Rs O_Rt O_AddrSimple) F_HAS_ALIAS,
    aarch64_opcode_new ''ldclralb'' 0x38e01000 0xffe0fc00 C_LseAtomic
      (Op3 O_Rs O_Rt O_AddrSimple) 0,
    aarch64_opcode_new ''ldclrah'' 0x78a01000 0xffe0fc00 C_LseAtomic
      (Op3 O_Rs O_Rt O_AddrSimple) 0,
    aarch64_opcode_new ''ldclrlh'' 0x78601000 0xffe0fc00 C_LseAtomic
      (Op3 O_Rs O_Rt O_AddrSimple) F_HAS_ALIAS,
    aarch64_opcode_new ''ldclralh'' 0x78e01000 0xffe0fc00 C_LseAtomic
      (Op3 O_Rs O_Rt O_AddrSimple) 0,
    aarch64_opcode_new ''ldclra'' 0xb8a01000 0xbfe0fc00 C_LseAtomic
      (Op3 O_Rs O_Rt O_AddrSimple) F_LSE_SZ,
    aarch64_opcode_new ''ldclrl'' 0xb8601000 0xbfe0fc00 C_LseAtomic
      (Op3 O_Rs O_Rt O_AddrSimple) (F_LSE_SZ OR F_HAS_ALIAS),
    aarch64_opcode_new ''ldclral'' 0xb8e01000 0xbfe0fc00 C_LseAtomic
      (Op3 O_Rs O_Rt O_AddrSimple) F_LSE_SZ,
    aarch64_opcode_new ''ldeorb'' 0x38202000 0xffe0fc00 C_LseAtomic
      (Op3 O_Rs O_Rt O_AddrSimple) F_HAS_ALIAS,
    aarch64_opcode_new ''ldeorh'' 0x78202000 0xffe0fc00 C_LseAtomic
      (Op3 O_Rs O_Rt O_AddrSimple) F_HAS_ALIAS,
    aarch64_opcode_new ''ldeor'' 0xb8202000 0xbfe0fc00 C_LseAtomic
      (Op3 O_Rs O_Rt O_AddrSimple) (F_LSE_SZ OR F_HAS_ALIAS),
    aarch64_opcode_new ''ldeorab'' 0x38a02000 0xffe0fc00 C_LseAtomic
      (Op3 O_Rs O_Rt O_AddrSimple) 0]"

definition opcode_rows_55 :: "aarch64_opcode list" where
  "opcode_rows_55 = [
    aarch64_opcode_new ''ldeorlb'' 0x38602000 0xffe0fc00 C_LseAtomic
      (Op3 O_Rs O_Rt O_AddrSimple) F_HAS_ALIAS,
    aarch64_opcode_new ''ldeoralb'' 0x38e02000 0xffe0fc00 C_LseAtomic
      (Op3 O_Rs O_Rt O_AddrSimple) 0,
    aarch64_opcode_new ''ldeorah'' 0x78a02000 0xffe0fc00 C_LseAtomic
      (Op3 O_Rs O_Rt O_AddrSimple) 0,
    aarch64_opcode_new ''ldeorlh'' 0x78602000 0xffe0fc00 C_LseAtomic
      (Op3 O_Rs O_Rt O_AddrSimple) F_HAS_ALIAS,
    aarch64_opcode_new ''ldeoralh'' 0x78e02000 0xffe0fc00 C_LseAtomic
      (Op3 O_Rs O_Rt O_AddrSimple) 0,
    aarch64_opcode_new ''ldeora'' 0xb8a02000 0xbfe0fc00 C_LseAtomic
      (Op3 O_Rs O_Rt O_AddrSimple) F_LSE_SZ,
    aarch64_opcode_new ''ldeorl'' 0xb8602000 0xbfe0fc00 C_LseAtomic
      (Op3 O_Rs O_Rt O_AddrSimple) (F_LSE_SZ OR F_HAS_ALIAS),
    aarch64_opcode_new ''ldeoral'' 0xb8e02000 0xbfe0fc00 C_LseAtomic
      (Op3 O_Rs O_Rt O_AddrSimple) F_LSE_SZ,
    aarch64_opcode_new ''ldsetb'' 0x38203000 0xffe0fc00 C_LseAtomic
      (Op3 O_Rs O_Rt O_AddrSimple) F_HAS_ALIAS,
    aarch64_opcode_new ''ldseth'' 0x78203000 0xffe0fc00 C_LseAtomic
      (Op3 O_Rs O_Rt O_AddrSimple) F_HAS_ALIAS,
    aarch64_opcode_new ''ldset'' 0xb8203000 0xbfe0fc00 C_LseAtomic
      (Op3 O_Rs O_Rt O_AddrSimple) (F_LSE_SZ OR F_HAS_ALIAS),
    aarch64_opcode_new ''ldsetab'' 0x38a03000 0xffe0fc00 C_LseAtomic
      (Op3 O_Rs O_Rt O_AddrSimple) 0,
    aarch64_opcode_new ''ldsetlb'' 0x38603000 0xffe0fc00 C_LseAtomic
      (Op3 O_Rs O_Rt O_AddrSimple) F_HAS_ALIAS,
    aarch64_opcode_new ''ldsetalb'' 0x38e03000 0xffe0fc00 C_LseAtomic
      (Op3 O_Rs O_Rt O_AddrSimple) 0,
    aarch64_opcode_new ''ldsetah'' 0x78a03000 0xffe0fc00 C_LseAtomic
      (Op3 O_Rs O_Rt O_AddrSimple) 0,
    aarch64_opcode_new ''ldsetlh'' 0x78603000 0xffe0fc00 C_LseAtomic
      (Op3 O_Rs O_Rt O_AddrSimple) F_HAS_ALIAS,
    aarch64_opcode_new ''ldsetalh'' 0x78e03000 0xffe0fc00 C_LseAtomic
      (Op3 O_Rs O_Rt O_AddrSimple) 0,
    aarch64_opcode_new ''ldseta'' 0xb8a03000 0xbfe0fc00 C_LseAtomic
      (Op3 O_Rs O_Rt O_AddrSimple) F_LSE_SZ]"

definition opcode_rows_56 :: "aarch64_opcode list" where
  "opcode_rows_56 = [
    aarch64_opcode_new ''ldsetl'' 0xb8603000 0xbfe0fc00 C_LseAtomic
      (Op3 O_Rs O_Rt O_AddrSimple) (F_LSE_SZ OR F_HAS_ALIAS),
    aarch64_opcode_new ''ldsetal'' 0xb8e03000 0xbfe0fc00 C_LseAtomic
      (Op3 O_Rs O_Rt O_AddrSimple) F_LSE_SZ,
    aarch64_opcode_new ''ldsmaxb'' 0x38204000 0xffe0fc00 C_LseAtomic
      (Op3 O_Rs O_Rt O_AddrSimple) F_HAS_ALIAS,
    aarch64_opcode_new ''ldsmaxh'' 0x78204000 0xffe0fc00 C_LseAtomic
      (Op3 O_Rs O_Rt O_AddrSimple) F_HAS_ALIAS,
    aarch64_opcode_new ''ldsmax'' 0xb8204000 0xbfe0fc00 C_LseAtomic
      (Op3 O_Rs O_Rt O_AddrSimple) (F_LSE_SZ OR F_HAS_ALIAS),
    aarch64_opcode_new ''ldsmaxab'' 0x38a04000 0xffe0fc00 C_LseAtomic
      (Op3 O_Rs O_Rt O_AddrSimple) 0,
    aarch64_opcode_new ''ldsmaxlb'' 0x38604000 0xffe0fc00 C_LseAtomic
      (Op3 O_Rs O_Rt O_AddrSimple) F_HAS_ALIAS,
    aarch64_opcode_new ''ldsmaxalb'' 0x38e04000 0xffe0fc00 C_LseAtomic
      (Op3 O_Rs O_Rt O_AddrSimple) 0,
    aarch64_opcode_new ''ldsmaxah'' 0x78a04000 0xffe0fc00 C_LseAtomic
      (Op3 O_Rs O_Rt O_AddrSimple) 0,
    aarch64_opcode_new ''ldsmaxlh'' 0x78604000 0xffe0fc00 C_LseAtomic
      (Op3 O_Rs O_Rt O_AddrSimple) F_HAS_ALIAS,
    aarch64_opcode_new ''ldsmaxalh'' 0x78e04000 0xffe0fc00 C_LseAtomic
      (Op3 O_Rs O_Rt O_AddrSimple) 0,
    aarch64_opcode_new ''ldsmaxa'' 0xb8a04000 0xbfe0fc00 C_LseAtomic
      (Op3 O_Rs O_Rt O_AddrSimple) F_LSE_SZ,
    aarch64_opcode_new ''ldsmaxl'' 0xb8604000 0xbfe0fc00 C_LseAtomic
      (Op3 O_Rs O_Rt O_AddrSimple) (F_LSE_SZ OR F_HAS_ALIAS),
    aarch64_opcode_new ''ldsmaxal'' 0xb8e04000 0xbfe0fc00 C_LseAtomic
      (Op3 O_Rs O_Rt O_AddrSimple) F_LSE_SZ,
    aarch64_opcode_new ''ldsminb'' 0x38205000 0xffe0fc00 C_LseAtomic
      (Op3 O_Rs O_Rt O_AddrSimple) F_HAS_ALIAS,
    aarch64_opcode_new ''ldsminh'' 0x78205000 0xffe0fc00 C_LseAtomic
      (Op3 O_Rs O_Rt O_AddrSimple) F_HAS_ALIAS,
    aarch64_opcode_new ''ldsmin'' 0xb8205000 0xbfe0fc00 C_LseAtomic
      (Op3 O_Rs O_Rt O_AddrSimple) (F_LSE_SZ OR F_HAS_ALIAS),
    aarch64_opcode_new ''ldsminab'' 0x38a05000 0xffe0fc00 C_LseAtomic
      (Op3 O_Rs O_Rt O_AddrSimple) 0]"

definition opcode_rows_57 :: "aarch64_opcode list" where
  "opcode_rows_57 = [
    aarch64_opcode_new ''ldsminlb'' 0x38605000 0xffe0fc00 C_LseAtomic
      (Op3 O_Rs O_Rt O_AddrSimple) F_HAS_ALIAS,
    aarch64_opcode_new ''ldsminalb'' 0x38e05000 0xffe0fc00 C_LseAtomic
      (Op3 O_Rs O_Rt O_AddrSimple) 0,
    aarch64_opcode_new ''ldsminah'' 0x78a05000 0xffe0fc00 C_LseAtomic
      (Op3 O_Rs O_Rt O_AddrSimple) 0,
    aarch64_opcode_new ''ldsminlh'' 0x78605000 0xffe0fc00 C_LseAtomic
      (Op3 O_Rs O_Rt O_AddrSimple) F_HAS_ALIAS,
    aarch64_opcode_new ''ldsminalh'' 0x78e05000 0xffe0fc00 C_LseAtomic
      (Op3 O_Rs O_Rt O_AddrSimple) 0,
    aarch64_opcode_new ''ldsmina'' 0xb8a05000 0xbfe0fc00 C_LseAtomic
      (Op3 O_Rs O_Rt O_AddrSimple) F_LSE_SZ,
    aarch64_opcode_new ''ldsminl'' 0xb8605000 0xbfe0fc00 C_LseAtomic
      (Op3 O_Rs O_Rt O_AddrSimple) (F_LSE_SZ OR F_HAS_ALIAS),
    aarch64_opcode_new ''ldsminal'' 0xb8e05000 0xbfe0fc00 C_LseAtomic
      (Op3 O_Rs O_Rt O_AddrSimple) F_LSE_SZ,
    aarch64_opcode_new ''ldumaxb'' 0x38206000 0xffe0fc00 C_LseAtomic
      (Op3 O_Rs O_Rt O_AddrSimple) F_HAS_ALIAS,
    aarch64_opcode_new ''ldumaxh'' 0x78206000 0xffe0fc00 C_LseAtomic
      (Op3 O_Rs O_Rt O_AddrSimple) F_HAS_ALIAS,
    aarch64_opcode_new ''ldumax'' 0xb8206000 0xbfe0fc00 C_LseAtomic
      (Op3 O_Rs O_Rt O_AddrSimple) (F_LSE_SZ OR F_HAS_ALIAS),
    aarch64_opcode_new ''ldumaxab'' 0x38a06000 0xffe0fc00 C_LseAtomic
      (Op3 O_Rs O_Rt O_AddrSimple) 0,
    aarch64_opcode_new ''ldumaxlb'' 0x38606000 0xffe0fc00 C_LseAtomic
      (Op3 O_Rs O_Rt O_AddrSimple) F_HAS_ALIAS,
    aarch64_opcode_new ''ldumaxalb'' 0x38e06000 0xffe0fc00 C_LseAtomic
      (Op3 O_Rs O_Rt O_AddrSimple) 0,
    aarch64_opcode_new ''ldumaxah'' 0x78a06000 0xffe0fc00 C_LseAtomic
      (Op3 O_Rs O_Rt O_AddrSimple) 0,
    aarch64_opcode_new ''ldumaxlh'' 0x78606000 0xffe0fc00 C_LseAtomic
      (Op3 O_Rs O_Rt O_AddrSimple) F_HAS_ALIAS,
    aarch64_opcode_new ''ldumaxalh'' 0x78e06000 0xffe0fc00 C_LseAtomic
      (Op3 O_Rs O_Rt O_AddrSimple) 0,
    aarch64_opcode_new ''ldumaxa'' 0xb8a06000 0xbfe0fc00 C_LseAtomic
      (Op3 O_Rs O_Rt O_AddrSimple) F_LSE_SZ]"

definition opcode_rows_58 :: "aarch64_opcode list" where
  "opcode_rows_58 = [
    aarch64_opcode_new ''ldumaxl'' 0xb8606000 0xbfe0fc00 C_LseAtomic
      (Op3 O_Rs O_Rt O_AddrSimple) (F_LSE_SZ OR F_HAS_ALIAS),
    aarch64_opcode_new ''ldumaxal'' 0xb8e06000 0xbfe0fc00 C_LseAtomic
      (Op3 O_Rs O_Rt O_AddrSimple) F_LSE_SZ,
    aarch64_opcode_new ''lduminb'' 0x38207000 0xffe0fc00 C_LseAtomic
      (Op3 O_Rs O_Rt O_AddrSimple) F_HAS_ALIAS,
    aarch64_opcode_new ''lduminh'' 0x78207000 0xffe0fc00 C_LseAtomic
      (Op3 O_Rs O_Rt O_AddrSimple) F_HAS_ALIAS,
    aarch64_opcode_new ''ldumin'' 0xb8207000 0xbfe0fc00 C_LseAtomic
      (Op3 O_Rs O_Rt O_AddrSimple) (F_LSE_SZ OR F_HAS_ALIAS),
    aarch64_opcode_new ''lduminab'' 0x38a07000 0xffe0fc00 C_LseAtomic
      (Op3 O_Rs O_Rt O_AddrSimple) 0,
    aarch64_opcode_new ''lduminlb'' 0x38607000 0xffe0fc00 C_LseAtomic
      (Op3 O_Rs O_Rt O_AddrSimple) F_HAS_ALIAS,
    aarch64_opcode_new ''lduminalb'' 0x38e07000 0xffe0fc00 C_LseAtomic
      (Op3 O_Rs O_Rt O_AddrSimple) 0,
    aarch64_opcode_new ''lduminah'' 0x78a07000 0xffe0fc00 C_LseAtomic
      (Op3 O_Rs O_Rt O_AddrSimple) 0,
    aarch64_opcode_new ''lduminlh'' 0x78607000 0xffe0fc00 C_LseAtomic
      (Op3 O_Rs O_Rt O_AddrSimple) F_HAS_ALIAS,
    aarch64_opcode_new ''lduminalh'' 0x78e07000 0xffe0fc00 C_LseAtomic
      (Op3 O_Rs O_Rt O_AddrSimple) 0,
    aarch64_opcode_new ''ldumina'' 0xb8a07000 0xbfe0fc00 C_LseAtomic
      (Op3 O_Rs O_Rt O_AddrSimple) F_LSE_SZ,
    aarch64_opcode_new ''lduminl'' 0xb8607000 0xbfe0fc00 C_LseAtomic
      (Op3 O_Rs O_Rt O_AddrSimple) (F_LSE_SZ OR F_HAS_ALIAS),
    aarch64_opcode_new ''lduminal'' 0xb8e07000 0xbfe0fc00 C_LseAtomic
      (Op3 O_Rs O_Rt O_AddrSimple) F_LSE_SZ,
    aarch64_opcode_new ''staddb'' 0x3820001f 0xffe0fc1f C_LseAtomic
      (Op2 O_Rs O_AddrSimple) F_ALIAS,
    aarch64_opcode_new ''staddh'' 0x7820001f 0xffe0fc1f C_LseAtomic
      (Op2 O_Rs O_AddrSimple) F_ALIAS,
    aarch64_opcode_new ''stadd'' 0xb820001f 0xbfe0fc1f C_LseAtomic
      (Op2 O_Rs O_AddrSimple) (F_LSE_SZ OR F_ALIAS),
    aarch64_opcode_new ''staddlb'' 0x3860001f 0xffe0fc1f C_LseAtomic
      (Op2 O_Rs O_AddrSimple) F_ALIAS]"

definition opcode_rows_59 :: "aarch64_opcode list" where
  "opcode_rows_59 = [
    aarch64_opcode_new ''staddlh'' 0x7860001f 0xffe0fc1f C_LseAtomic
      (Op2 O_Rs O_AddrSimple) F_ALIAS,
    aarch64_opcode_new ''staddl'' 0xb860001f 0xbfe0fc1f C_LseAtomic
      (Op2 O_Rs O_AddrSimple) (F_LSE_SZ OR F_ALIAS),
    aarch64_opcode_new ''stclrb'' 0x3820101f 0xffe0fc1f C_LseAtomic
      (Op2 O_Rs O_AddrSimple) F_ALIAS,
    aarch64_opcode_new ''stclrh'' 0x7820101f 0xffe0fc1f C_LseAtomic
      (Op2 O_Rs O_AddrSimple) F_ALIAS,
    aarch64_opcode_new ''stclr'' 0xb820101f 0xbfe0fc1f C_LseAtomic
      (Op2 O_Rs O_AddrSimple) (F_LSE_SZ OR F_ALIAS),
    aarch64_opcode_new ''stclrlb'' 0x3860101f 0xffe0fc1f C_LseAtomic
      (Op2 O_Rs O_AddrSimple) F_ALIAS,
    aarch64_opcode_new ''stclrlh'' 0x7860101f 0xffe0fc1f C_LseAtomic
      (Op2 O_Rs O_AddrSimple) F_ALIAS,
    aarch64_opcode_new ''stclrl'' 0xb860101f 0xbfe0fc1f C_LseAtomic
      (Op2 O_Rs O_AddrSimple) (F_LSE_SZ OR F_ALIAS),
    aarch64_opcode_new ''steorb'' 0x3820201f 0xffe0fc1f C_LseAtomic
      (Op2 O_Rs O_AddrSimple) F_ALIAS,
    aarch64_opcode_new ''steorh'' 0x7820201f 0xffe0fc1f C_LseAtomic
      (Op2 O_Rs O_AddrSimple) F_ALIAS,
    aarch64_opcode_new ''steor'' 0xb820201f 0xbfe0fc1f C_LseAtomic
      (Op2 O_Rs O_AddrSimple) (F_LSE_SZ OR F_ALIAS),
    aarch64_opcode_new ''steorlb'' 0x3860201f 0xffe0fc1f C_LseAtomic
      (Op2 O_Rs O_AddrSimple) F_ALIAS,
    aarch64_opcode_new ''steorlh'' 0x7860201f 0xffe0fc1f C_LseAtomic
      (Op2 O_Rs O_AddrSimple) F_ALIAS,
    aarch64_opcode_new ''steorl'' 0xb860201f 0xbfe0fc1f C_LseAtomic
      (Op2 O_Rs O_AddrSimple) (F_LSE_SZ OR F_ALIAS),
    aarch64_opcode_new ''stsetb'' 0x3820301f 0xffe0fc1f C_LseAtomic
      (Op2 O_Rs O_AddrSimple) F_ALIAS,
    aarch64_opcode_new ''stseth'' 0x7820301f 0xffe0fc1f C_LseAtomic
      (Op2 O_Rs O_AddrSimple) F_ALIAS,
    aarch64_opcode_new ''stset'' 0xb820301f 0xbfe0fc1f C_LseAtomic
      (Op2 O_Rs O_AddrSimple) (F_LSE_SZ OR F_ALIAS),
    aarch64_opcode_new ''stsetlb'' 0x3860301f 0xffe0fc1f C_LseAtomic
      (Op2 O_Rs O_AddrSimple) F_ALIAS]"

definition opcode_rows_60 :: "aarch64_opcode list" where
  "opcode_rows_60 = [
    aarch64_opcode_new ''stsetlh'' 0x7860301f 0xffe0fc1f C_LseAtomic
      (Op2 O_Rs O_AddrSimple) F_ALIAS,
    aarch64_opcode_new ''stsetl'' 0xb860301f 0xbfe0fc1f C_LseAtomic
      (Op2 O_Rs O_AddrSimple) (F_LSE_SZ OR F_ALIAS),
    aarch64_opcode_new ''stsmaxb'' 0x3820401f 0xffe0fc1f C_LseAtomic
      (Op2 O_Rs O_AddrSimple) F_ALIAS,
    aarch64_opcode_new ''stsmaxh'' 0x7820401f 0xffe0fc1f C_LseAtomic
      (Op2 O_Rs O_AddrSimple) F_ALIAS,
    aarch64_opcode_new ''stsmax'' 0xb820401f 0xbfe0fc1f C_LseAtomic
      (Op2 O_Rs O_AddrSimple) (F_LSE_SZ OR F_ALIAS),
    aarch64_opcode_new ''stsmaxlb'' 0x3860401f 0xffe0fc1f C_LseAtomic
      (Op2 O_Rs O_AddrSimple) F_ALIAS,
    aarch64_opcode_new ''stsmaxlh'' 0x7860401f 0xffe0fc1f C_LseAtomic
      (Op2 O_Rs O_AddrSimple) F_ALIAS,
    aarch64_opcode_new ''stsmaxl'' 0xb860401f 0xbfe0fc1f C_LseAtomic
      (Op2 O_Rs O_AddrSimple) (F_LSE_SZ OR F_ALIAS),
    aarch64_opcode_new ''stsminb'' 0x3820501f 0xffe0fc1f C_LseAtomic
      (Op2 O_Rs O_AddrSimple) F_ALIAS,
    aarch64_opcode_new ''stsminh'' 0x7820501f 0xffe0fc1f C_LseAtomic
      (Op2 O_Rs O_AddrSimple) F_ALIAS,
    aarch64_opcode_new ''stsmin'' 0xb820501f 0xbfe0fc1f C_LseAtomic
      (Op2 O_Rs O_AddrSimple) (F_LSE_SZ OR F_ALIAS),
    aarch64_opcode_new ''stsminlb'' 0x3860501f 0xffe0fc1f C_LseAtomic
      (Op2 O_Rs O_AddrSimple) F_ALIAS,
    aarch64_opcode_new ''stsminlh'' 0x7860501f 0xffe0fc1f C_LseAtomic
      (Op2 O_Rs O_AddrSimple) F_ALIAS,
    aarch64_opcode_new ''stsminl'' 0xb860501f 0xbfe0fc1f C_LseAtomic
      (Op2 O_Rs O_AddrSimple) (F_LSE_SZ OR F_ALIAS),
    aarch64_opcode_new ''stumaxb'' 0x3820601f 0xffe0fc1f C_LseAtomic
      (Op2 O_Rs O_AddrSimple) F_ALIAS,
    aarch64_opcode_new ''stumaxh'' 0x7820601f 0xffe0fc1f C_LseAtomic
      (Op2 O_Rs O_AddrSimple) F_ALIAS,
    aarch64_opcode_new ''stumax'' 0xb820601f 0xbfe0fc1f C_LseAtomic
      (Op2 O_Rs O_AddrSimple) (F_LSE_SZ OR F_ALIAS),
    aarch64_opcode_new ''stumaxlb'' 0x3860601f 0xffe0fc1f C_LseAtomic
      (Op2 O_Rs O_AddrSimple) F_ALIAS]"

definition opcode_rows_61 :: "aarch64_opcode list" where
  "opcode_rows_61 = [
    aarch64_opcode_new ''stumaxlh'' 0x7860601f 0xffe0fc1f C_LseAtomic
      (Op2 O_Rs O_AddrSimple) F_ALIAS,
    aarch64_opcode_new ''stumaxl'' 0xb860601f 0xbfe0fc1f C_LseAtomic
      (Op2 O_Rs O_AddrSimple) (F_LSE_SZ OR F_ALIAS),
    aarch64_opcode_new ''stuminb'' 0x3820701f 0xffe0fc1f C_LseAtomic
      (Op2 O_Rs O_AddrSimple) F_ALIAS,
    aarch64_opcode_new ''stuminh'' 0x7820701f 0xffe0fc1f C_LseAtomic
      (Op2 O_Rs O_AddrSimple) F_ALIAS,
    aarch64_opcode_new ''stumin'' 0xb820701f 0xbfe0fc1f C_LseAtomic
      (Op2 O_Rs O_AddrSimple) (F_LSE_SZ OR F_ALIAS),
    aarch64_opcode_new ''stuminlb'' 0x3860701f 0xffe0fc1f C_LseAtomic
      (Op2 O_Rs O_AddrSimple) F_ALIAS,
    aarch64_opcode_new ''stuminlh'' 0x7860701f 0xffe0fc1f C_LseAtomic
      (Op2 O_Rs O_AddrSimple) F_ALIAS,
    aarch64_opcode_new ''stuminl'' 0xb860701f 0xbfe0fc1f C_LseAtomic
      (Op2 O_Rs O_AddrSimple) (F_LSE_SZ OR F_ALIAS),
    aarch64_opcode_new ''movn'' 0x12800000 0x7f800000 C_Movewide
      (Op2 O_Rd O_Half) (F_SF OR F_HAS_ALIAS),
    aarch64_opcode_new ''mov'' 0x12800000 0x7f800000 C_Movewide
      (Op2 O_Rd O_ImmMov) (F_SF OR F_ALIAS OR F_CONV),
    aarch64_opcode_new ''movz'' 0x52800000 0x7f800000 C_Movewide
      (Op2 O_Rd O_Half) (F_SF OR F_HAS_ALIAS),
    aarch64_opcode_new ''mov'' 0x52800000 0x7f800000 C_Movewide
      (Op2 O_Rd O_ImmMov) (F_SF OR F_ALIAS OR F_CONV),
    aarch64_opcode_new ''movk'' 0x72800000 0x7f800000 C_Movewide
      (Op2 O_Rd O_Half) F_SF,
    aarch64_opcode_new ''adr'' 0x10000000 0x9f000000 C_Pcreladdr
      (Op2 O_Rd O_AddrPcrel21) 0,
    aarch64_opcode_new ''adrp'' 0x90000000 0x9f000000 C_Pcreladdr
      (Op2 O_Rd O_AddrAdrp) 0,
    aarch64_opcode_new ''msr'' 0xd500401f 0xfff8f01f C_IcSystem
      (Op2 O_Pstatefield O_Uimm4) 0,
    aarch64_opcode_new ''hint'' 0xd503201f 0xfffff01f C_IcSystem
      (Op1 O_Uimm7) F_HAS_ALIAS,
    aarch64_opcode_new ''nop'' 0xd503201f 0xffffffff C_IcSystem
      Op0 F_ALIAS,
    aarch64_opcode_new ''yield'' 0xd503203f 0xffffffff C_IcSystem
      Op0 F_ALIAS,
    aarch64_opcode_new ''wfe'' 0xd503205f 0xffffffff C_IcSystem
      Op0 F_ALIAS,
    aarch64_opcode_new ''wfi'' 0xd503207f 0xffffffff C_IcSystem
      Op0 F_ALIAS,
    aarch64_opcode_new ''sev'' 0xd503209f 0xffffffff C_IcSystem
      Op0 F_ALIAS,
    aarch64_opcode_new ''sevl'' 0xd50320bf 0xffffffff C_IcSystem
      Op0 F_ALIAS,
    aarch64_opcode_new ''esb'' 0xd503221f 0xffffffff C_IcSystem
      Op0 F_ALIAS,
    aarch64_opcode_new ''paciaz'' 0xd503231f 0xffffffff C_IcSystem
      Op0 F_ALIAS,
    aarch64_opcode_new ''paciasp'' 0xd503233f 0xffffffff C_IcSystem
      Op0 F_ALIAS]"

definition opcode_rows_62 :: "aarch64_opcode list" where
  "opcode_rows_62 = [
    aarch64_opcode_new ''pacibz'' 0xd503235f 0xffffffff C_IcSystem
      Op0 F_ALIAS,
    aarch64_opcode_new ''pacibsp'' 0xd503237f 0xffffffff C_IcSystem
      Op0 F_ALIAS,
    aarch64_opcode_new ''autiaz'' 0xd503239f 0xffffffff C_IcSystem
      Op0 F_ALIAS,
    aarch64_opcode_new ''autiasp'' 0xd50323bf 0xffffffff C_IcSystem
      Op0 F_ALIAS,
    aarch64_opcode_new ''autibz'' 0xd50323df 0xffffffff C_IcSystem
      Op0 F_ALIAS,
    aarch64_opcode_new ''autibsp'' 0xd50323ff 0xffffffff C_IcSystem
      Op0 F_ALIAS,
    aarch64_opcode_new ''xpaclri'' 0xd50320ff 0xffffffff C_IcSystem
      Op0 F_ALIAS,
    aarch64_opcode_new ''psb'' 0xd503223f 0xffffffff C_IcSystem
      (Op1 O_BarrierPsb) F_ALIAS,
    aarch64_opcode_new ''clrex'' 0xd503305f 0xfffff0ff C_IcSystem
      (Op1 O_Uimm4) (F_OPD0_OPT OR F_DEFAULT 0xF),
    aarch64_opcode_new ''dsb'' 0xd503309f 0xfffff0ff C_IcSystem
      (Op1 O_Barrier) 0,
    aarch64_opcode_new ''dmb'' 0xd50330bf 0xfffff0ff C_IcSystem
      (Op1 O_Barrier) 0,
    aarch64_opcode_new ''isb'' 0xd50330df 0xfffff0ff C_IcSystem
      (Op1 O_BarrierIsb) (F_OPD0_OPT OR F_DEFAULT 0xF),
    aarch64_opcode_new ''sys'' 0xd5080000 0xfff80000 C_IcSystem
      (Op5 O_Uimm3Op1 O_Cn O_Cm O_Uimm3Op2 O_Rt) (F_HAS_ALIAS OR F_OPD4_OPT OR F_DEFAULT 0x1F),
    aarch64_opcode_new ''at'' 0xd5080000 0xfff80000 C_IcSystem
      (Op2 O_SysregAt O_Rt) F_ALIAS,
    aarch64_opcode_new ''dc'' 0xd5080000 0xfff80000 C_IcSystem
      (Op2 O_SysregDc O_Rt) F_ALIAS,
    aarch64_opcode_new ''ic'' 0xd5080000 0xfff80000 C_IcSystem
      (Op2 O_SysregIc O_RtSys) (F_ALIAS OR F_OPD1_OPT OR F_DEFAULT 0x1F),
    aarch64_opcode_new ''tlbi'' 0xd5080000 0xfff80000 C_IcSystem
      (Op2 O_SysregTlbi O_RtSys) (F_ALIAS OR F_OPD1_OPT OR F_DEFAULT 0x1F),
    aarch64_opcode_new ''msr'' 0xd5000000 0xffe00000 C_IcSystem
      (Op2 O_Sysreg O_Rt) 0,
    aarch64_opcode_new ''sysl'' 0xd5280000 0xfff80000 C_IcSystem
      (Op5 O_Rt O_Uimm3Op1 O_Cn O_Cm O_Uimm3Op2) 0,
    aarch64_opcode_new ''mrs'' 0xd5200000 0xffe00000 C_IcSystem
      (Op2 O_Rt O_Sysreg) 0,
    aarch64_opcode_new ''tbz'' 0x36000000 0x7f000000 C_Testbranch
      (Op3 O_Rt O_BitNum O_AddrPcrel14) 0,
    aarch64_opcode_new ''tbnz'' 0x37000000 0x7f000000 C_Testbranch
      (Op3 O_Rt O_BitNum O_AddrPcrel14) 0,
    aarch64_opcode_new ''beq'' 0x54000000 0xff00001f C_Condbranch
      (Op1 O_AddrPcrel19) (F_ALIAS OR F_PSEUDO),
    aarch64_opcode_new ''bne'' 0x54000001 0xff00001f C_Condbranch
      (Op1 O_AddrPcrel19) (F_ALIAS OR F_PSEUDO),
    aarch64_opcode_new ''bcs'' 0x54000002 0xff00001f C_Condbranch
      (Op1 O_AddrPcrel19) (F_ALIAS OR F_PSEUDO),
    aarch64_opcode_new ''bhs'' 0x54000002 0xff00001f C_Condbranch
      (Op1 O_AddrPcrel19) (F_ALIAS OR F_PSEUDO),
    aarch64_opcode_new ''bcc'' 0x54000003 0xff00001f C_Condbranch
      (Op1 O_AddrPcrel19) (F_ALIAS OR F_PSEUDO),
    aarch64_opcode_new ''blo'' 0x54000003 0xff00001f C_Condbranch
      (Op1 O_AddrPcrel19) (F_ALIAS OR F_PSEUDO)]"

definition opcode_rows_63 :: "aarch64_opcode list" where
  "opcode_rows_63 = [
    aarch64_opcode_new ''bmi'' 0x54000004 0xff00001f C_Condbranch
      (Op1 O_AddrPcrel19) (F_ALIAS OR F_PSEUDO),
    aarch64_opcode_new ''bpl'' 0x54000005 0xff00001f C_Condbranch
      (Op1 O_AddrPcrel19) (F_ALIAS OR F_PSEUDO),
    aarch64_opcode_new ''bvs'' 0x54000006 0xff00001f C_Condbranch
      (Op1 O_AddrPcrel19) (F_ALIAS OR F_PSEUDO),
    aarch64_opcode_new ''bvc'' 0x54000007 0xff00001f C_Condbranch
      (Op1 O_AddrPcrel19) (F_ALIAS OR F_PSEUDO),
    aarch64_opcode_new ''bhi'' 0x54000008 0xff00001f C_Condbranch
      (Op1 O_AddrPcrel19) (F_ALIAS OR F_PSEUDO),
    aarch64_opcode_new ''bls'' 0x54000009 0xff00001f C_Condbranch
      (Op1 O_AddrPcrel19) (F_ALIAS OR F_PSEUDO),
    aarch64_opcode_new ''bge'' 0x5400000a 0xff00001f C_Condbranch
      (Op1 O_AddrPcrel19) (F_ALIAS OR F_PSEUDO),
    aarch64_opcode_new ''blt'' 0x5400000b 0xff00001f C_Condbranch
      (Op1 O_AddrPcrel19) (F_ALIAS OR F_PSEUDO),
    aarch64_opcode_new ''bgt'' 0x5400000c 0xff00001f C_Condbranch
      (Op1 O_AddrPcrel19) (F_ALIAS OR F_PSEUDO),
    aarch64_opcode_new ''ble'' 0x5400000d 0xff00001f C_Condbranch
      (Op1 O_AddrPcrel19) (F_ALIAS OR F_PSEUDO)]"

end
