(* ===== verification/A64_Table.thy ===== *)
theory A64_Table
  imports A64_Rows1 A64_Rows2 A64_Rows3 A64_Rows4 A64_Rows5
begin

text \<open>
  The AArch64 opcode table as one list and the searches over it
  (\<open>src/src/isa/aarch64/table.rs\<close>): which row a word matches, which of two matching rows is
  preferred, and the rows of a mnemonic. The index that \<open>OnceLock\<close> caches is the map
  \<open>build_index\<close> returns.
\<close>

section \<open>The table\<close>

definition aarch64_opcode_table :: "aarch64_opcode list" where
  "aarch64_opcode_table =
     opcode_rows_1 @ opcode_rows_2 @ opcode_rows_3 @ opcode_rows_4 @ opcode_rows_5 @
     opcode_rows_6 @ opcode_rows_7 @ opcode_rows_8 @ opcode_rows_9 @ opcode_rows_10 @
     opcode_rows_11 @ opcode_rows_12 @ opcode_rows_13 @ opcode_rows_14 @ opcode_rows_15 @
     opcode_rows_16 @ opcode_rows_17 @ opcode_rows_18 @ opcode_rows_19 @ opcode_rows_20 @
     opcode_rows_21 @ opcode_rows_22 @ opcode_rows_23 @ opcode_rows_24 @ opcode_rows_25 @
     opcode_rows_26 @ opcode_rows_27 @ opcode_rows_28 @ opcode_rows_29 @ opcode_rows_30 @
     opcode_rows_31 @ opcode_rows_32 @ opcode_rows_33 @ opcode_rows_34 @ opcode_rows_35 @
     opcode_rows_36 @ opcode_rows_37 @ opcode_rows_38 @ opcode_rows_39 @ opcode_rows_40 @
     opcode_rows_41 @ opcode_rows_42 @ opcode_rows_43 @ opcode_rows_44 @ opcode_rows_45 @
     opcode_rows_46 @ opcode_rows_47 @ opcode_rows_48 @ opcode_rows_49 @ opcode_rows_50 @
     opcode_rows_51 @ opcode_rows_52 @ opcode_rows_53 @ opcode_rows_54 @ opcode_rows_55 @
     opcode_rows_56 @ opcode_rows_57 @ opcode_rows_58 @ opcode_rows_59 @ opcode_rows_60 @
     opcode_rows_61 @ opcode_rows_62 @ opcode_rows_63"

section \<open>Matching\<close>

definition count_ones :: "u32 \<Rightarrow> nat" where
  "count_ones w = length (filter (bit w) [0..<32])"

definition ends_with :: "string \<Rightarrow> string \<Rightarrow> bool" where
  "ends_with s d = (drop (length s - length d) s = d)"

definition simd_ldst_list_digit :: "u32 \<Rightarrow> string option" where
  "simd_ldst_list_digit instruction =
     (let field = drop_bit 12 instruction AND 0xf in
      if field = 0 then Some ''4''
      else if field = 2 then Some ''1''
      else if field = 4 then Some ''3''
      else if field = 6 then Some ''1''
      else if field = 7 then Some ''1''
      else if field = 8 then Some ''2''
      else if field = 10 then Some ''1''
      else None)"

definition simd_ldst_list_count :: "u32 \<Rightarrow> u32 option" where
  "simd_ldst_list_count instruction =
     (let field = drop_bit 12 instruction AND 0xf in
      if field = 0 then Some 4
      else if field = 2 then Some 4
      else if field = 4 then Some 3
      else if field = 6 then Some 3
      else if field = 7 then Some 1
      else if field = 8 then Some 2
      else if field = 10 then Some 2
      else None)"

definition system_op_fields :: "u32 \<Rightarrow> u32 \<times> u32 \<times> u32 \<times> u32" where
  "system_op_fields instruction =
     (drop_bit 16 instruction AND 0x7, drop_bit 12 instruction AND 0xf,
      drop_bit 8 instruction AND 0xf, drop_bit 5 instruction AND 0x7)"

definition is_bitfield_alias :: "aarch64_opcode \<Rightarrow> bool" where
  "is_bitfield_alias row = (op_mask row = 0x7f800000)"

definition alias_applies :: "u32 \<Rightarrow> aarch64_opcode \<Rightarrow> bool" where
  "alias_applies instruction row =
     (let immr = drop_bit 16 instruction AND 0x3f;
          imms = drop_bit 10 instruction AND 0x3f;
          sf = drop_bit 31 instruction AND 1 \<noteq> 0;
          mx = (if sf then 63 else 31);
          name = op_name row;
          rn = drop_bit 5 instruction AND 0x1f;
          rm = drop_bit 16 instruction AND 0x1f
      in
      if name \<in> {''ubfiz'', ''sbfiz'', ''bfi''} then imms < immr
      else if name \<in> {''ubfx'', ''sbfx'', ''bfxil''} then imms \<ge> immr
      else if name = ''lsl'' \<and> is_bitfield_alias row then imms + 1 = immr
      else if name \<in> {''lsr'', ''asr''} \<and> is_bitfield_alias row then imms = mx
      else if name = ''ror'' \<and> op_iclass row = C_Extract then rn = rm
      else if name \<in> {''sxtl'', ''sxtl2'', ''uxtl'', ''uxtl2''} then False
      else if name \<in> {''cinc'', ''cinv''} \<and> op_iclass row = C_Condsel then rn = rm \<and> rn \<noteq> 31
      else if name = ''cneg'' \<and> op_iclass row = C_Condsel then rn = rm
      else if name = ''at'' then system_op_fields instruction = (0, 7, 8, 0)
      else if name = ''dc'' then system_op_fields instruction = (3, 7, 4, 1)
      else if name = ''ic'' then system_op_fields instruction \<in> {(3, 7, 5, 1), (0, 7, 5, 0)}
      else if name = ''tlbi'' then system_op_fields instruction \<in> {(0, 8, 7, 5), (0, 8, 7, 0)}
      else if name \<in> {''ld1'', ''st1'', ''ld2'', ''st2'', ''ld3'', ''st3'', ''ld4'', ''st4''} \<and>
              op_iclass row \<in> {C_Asisdlse, C_Asisdlsep}
           then (case simd_ldst_list_digit instruction of
                   None \<Rightarrow> False
                 | Some d \<Rightarrow> ends_with name d)
      else True)"

definition is_variable_shift_alias :: "string \<Rightarrow> string \<Rightarrow> bool" where
  "is_variable_shift_alias current candidate =
     ((current, candidate) \<in>
        {(''lslv'', ''lsl''), (''lsrv'', ''lsr''), (''asrv'', ''asr''), (''rorv'', ''ror'')})"

definition should_replace_match :: "aarch64_opcode \<Rightarrow> aarch64_opcode \<Rightarrow> bool" where
  "should_replace_match current candidate =
     (let current_bits = count_ones (op_mask current);
          candidate_bits = count_ones (op_mask candidate)
      in
      if candidate_bits \<noteq> current_bits then candidate_bits > current_bits
      else if is_conversion_alias candidate \<noteq> is_conversion_alias current then
        (if is_conversion_alias candidate \<and> \<not> is_alias current \<and>
            op_iclass candidate \<noteq> op_iclass current
         then False
         else is_conversion_alias candidate)
      else if is_conversion_alias candidate \<and> is_conversion_alias current then True
      else if is_variable_shift_alias (op_name current) (op_name candidate) then True
      else if op_name current = ''sys'' \<and> op_name candidate \<in> {''at'', ''dc'', ''ic'', ''tlbi''} then True
      else if op_name current = ''umov'' \<and> op_name candidate = ''mov'' \<and>
              op_iclass candidate = C_Asimdins then True
      else if op_name current = ''ins'' \<and> op_name candidate = ''mov'' \<and>
              op_iclass candidate = C_Asimdins then True
      else if is_alias candidate \<noteq> is_alias current then \<not> is_alias candidate
      else False)"

text \<open>The guards of the loop in \<open>match_opcode\<close>, its body, and the loop over any rows.\<close>

definition row_applies :: "u32 \<Rightarrow> aarch64_opcode \<Rightarrow> bool" where
  "row_applies instruction row =
     (instruction AND op_mask row = op_opcode row AND op_mask row \<and> alias_applies instruction row)"

definition match_step :: "u32 \<Rightarrow> aarch64_opcode \<Rightarrow> aarch64_opcode option \<Rightarrow> aarch64_opcode option" where
  "match_step instruction row best =
     (if \<not> row_applies instruction row then best
      else
        case best of
          None \<Rightarrow> Some row
        | Some current \<Rightarrow> if should_replace_match current row then Some row else best)"

definition match_opcode :: "u32 \<Rightarrow> aarch64_opcode option" where
  "match_opcode instruction = fold (match_step instruction) aarch64_opcode_table None"

definition disassemble :: "u32 list \<Rightarrow> aarch64_opcode list" where
  "disassemble instructions = List.map_filter match_opcode instructions"

section \<open>Rows by mnemonic, class and operand kind\<close>

definition index_push ::
  "aarch64_opcode \<Rightarrow> (aarch64_mnemonic \<rightharpoonup> aarch64_opcode list) \<Rightarrow> (aarch64_mnemonic \<rightharpoonup> aarch64_opcode list)" where
  "index_push row index =
     index(mnemonic_id row \<mapsto> (case index (mnemonic_id row) of None \<Rightarrow> [] | Some rows \<Rightarrow> rows) @ [row])"

definition build_index :: "aarch64_mnemonic \<rightharpoonup> aarch64_opcode list" where
  "build_index = fold index_push aarch64_opcode_table Map.empty"

definition opcodes_for_mnemonic :: "aarch64_mnemonic \<Rightarrow> aarch64_opcode list" where
  "opcodes_for_mnemonic m = (case build_index m of None \<Rightarrow> [] | Some rows \<Rightarrow> rows)"

definition operand_kinds :: "aarch64_opnd list" where
  "operand_kinds =
     fold (\<lambda>row kinds. fold (\<lambda>kind kinds. if kind \<in> set kinds then kinds else kinds @ [kind])
                             (opcode_operands row) kinds)
          aarch64_opcode_table []"

section \<open>What a search finds\<close>

lemma should_replace_bits:
  "should_replace_match cur cand \<Longrightarrow> count_ones (op_mask cur) \<le> count_ones (op_mask cand)"
  "\<not> should_replace_match cur cand \<Longrightarrow> count_ones (op_mask cand) \<le> count_ones (op_mask cur)"
  by (simp_all add: should_replace_match_def Let_def split: if_splits)

text \<open>The loop's invariant over the rows seen so far.\<close>

definition best_match :: "u32 \<Rightarrow> aarch64_opcode list \<Rightarrow> aarch64_opcode option \<Rightarrow> bool" where
  "best_match w rows best \<longleftrightarrow>
     (case best of
        None \<Rightarrow> \<forall>row\<in>set rows. \<not> row_applies w row
      | Some b \<Rightarrow> b \<in> set rows \<and> row_applies w b \<and>
          (\<forall>row\<in>set rows. row_applies w row \<longrightarrow> count_ones (op_mask row) \<le> count_ones (op_mask b)))"

lemma match_step_simps:
  "\<not> row_applies w row \<Longrightarrow> match_step w row best = best"
  "row_applies w row \<Longrightarrow> match_step w row None = Some row"
  "row_applies w row \<Longrightarrow>
     match_step w row (Some cur) = (if should_replace_match cur row then Some row else Some cur)"
  by (simp_all add: match_step_def)

lemma best_match_step:
  assumes "best_match w rows best"
  shows "best_match w (rows @ [row]) (match_step w row best)"
proof (cases "row_applies w row")
  case False
  then show ?thesis using assms by (cases best) (auto simp: match_step_simps best_match_def)
next
  case True
  show ?thesis
  proof (cases best)
    case None
    then show ?thesis using assms True by (simp add: match_step_simps best_match_def)
  next
    case (Some cur)
    then have cur: "cur \<in> set rows" "row_applies w cur"
      "\<And>r. r \<in> set rows \<Longrightarrow> row_applies w r \<Longrightarrow> count_ones (op_mask r) \<le> count_ones (op_mask cur)"
      using assms by (auto simp: best_match_def)
    show ?thesis
    proof (cases "should_replace_match cur row")
      case r: True
      then have "count_ones (op_mask r) \<le> count_ones (op_mask row)"
        if "r \<in> set rows" "row_applies w r" for r
        using cur(3) [OF that] should_replace_bits(1) [OF r] by simp
      then show ?thesis using True Some r by (simp add: match_step_simps best_match_def)
    next
      case r: False
      then show ?thesis
        using cur True Some should_replace_bits(2) [OF r] by (simp add: match_step_simps best_match_def)
    qed
  qed
qed

lemma match_fold_best: "best_match w rows (fold (match_step w) rows None)"
proof (induction rows rule: rev_induct)
  case Nil
  then show ?case by (simp add: best_match_def)
next
  case (snoc row rows)
  from best_match_step [OF this, of row] show ?case by simp
qed

text \<open>Rows that cannot match may be dropped before the search.\<close>

lemma match_fold_filter:
  assumes "\<And>row. row \<in> set rows \<Longrightarrow> \<not> P row \<Longrightarrow> \<not> row_applies w row"
  shows "fold (match_step w) rows best = fold (match_step w) (filter P rows) best"
  using assms by (induction rows arbitrary: best) (auto simp: match_step_def)

text \<open>
  A row is compatible with a word of which only the bits of \<open>known\<close> are fixed, to those of
  \<open>pattern\<close>, when no fixed bit of the word contradicts a fixed bit of the row.
\<close>

definition row_compatible :: "u32 \<Rightarrow> u32 \<Rightarrow> aarch64_opcode \<Rightarrow> bool" where
  "row_compatible known pattern row =
     (op_opcode row AND (op_mask row AND known) = pattern AND (op_mask row AND known))"

lemma row_applies_compatible:
  assumes "w AND known = pattern AND known" "row_applies w row"
  shows "row_compatible known pattern row"
proof -
  have "w AND op_mask row = op_opcode row AND op_mask row"
    using assms(2) by (simp add: row_applies_def)
  then have "(bit w n \<and> bit (op_mask row) n) = (bit (op_opcode row) n \<and> bit (op_mask row) n)"
    and "(bit w n \<and> bit known n) = (bit pattern n \<and> bit known n)" for n
    using assms(1) by (metis bit_and_iff)+
  then show ?thesis
    unfolding row_compatible_def by (intro bit_eqI) (auto simp: bit_and_iff)
qed

lemma match_opcode_compatible:
  assumes "w AND known = pattern AND known"
  shows "match_opcode w = fold (match_step w) (filter (row_compatible known pattern) aarch64_opcode_table) None"
  unfolding match_opcode_def
  by (rule match_fold_filter) (use row_applies_compatible [OF assms] in blast)

section \<open>The index\<close>

lemma index_fold:
  "(case fold index_push rows index m of None \<Rightarrow> [] | Some rs \<Rightarrow> rs) =
   (case index m of None \<Rightarrow> [] | Some rs \<Rightarrow> rs) @ filter (\<lambda>row. mnemonic_id row = m) rows"
  by (induction rows arbitrary: index) (auto simp: index_push_def)

lemma opcodes_for_mnemonic_filter:
  "opcodes_for_mnemonic m = filter (\<lambda>row. mnemonic_id row = m) aarch64_opcode_table"
  using index_fold [of aarch64_opcode_table Map.empty m]
  by (simp add: opcodes_for_mnemonic_def build_index_def)

section \<open>Properties\<close>

text \<open>C15: the search of the opcode table is sound, complete and picks a most specific row.
  A word has no match exactly when no row of the table applies to it (fixed bits and alias
  condition); a match is a row of the table that applies, and no applicable row fixes more
  bits.\<close>

theorem match_opcode_most_specific:
  "case match_opcode w of
     None \<Rightarrow> filter (row_applies w) aarch64_opcode_table = []
   | Some b \<Rightarrow> b \<in> set (filter (row_applies w) aarch64_opcode_table) \<and>
       list_all (\<lambda>row. count_ones (op_mask row) \<le> count_ones (op_mask b))
         (filter (row_applies w) aarch64_opcode_table)"
  using match_fold_best [of w aarch64_opcode_table]
  by (simp add: best_match_def match_opcode_def list_all_iff filter_empty_conv split: option.splits)

end
