(* ===== verification/A64_Branch_Rows.thy ===== *)
theory A64_Branch_Rows
  imports A64_Table
begin

text \<open>
  The part of the opcode table that matters for branches, found by evaluation over the whole
  table one chunk of rows at a time: the rows that can match a word of the branch and system
  class (bits 28..26 are 101), and the rows whose name looks like that of a branch.
\<close>

lemma row_compatible_new:
  "row_compatible known pattern (aarch64_opcode_new n opc opm c ops fl) \<longleftrightarrow>
     opc AND (opm AND known) = pattern AND (opm AND known)"
  by (simp add: row_compatible_def aarch64_opcode_new_def)

lemma opcode_new_sel [simp]:
  "op_name (aarch64_opcode_new n opc opm c ops fl) = n"
  "op_opcode (aarch64_opcode_new n opc opm c ops fl) = opc"
  "op_mask (aarch64_opcode_new n opc opm c ops fl) = opm"
  "op_iclass (aarch64_opcode_new n opc opm c ops fl) = c"
  "op_operands (aarch64_opcode_new n opc opm c ops fl) = ops"
  "op_flags (aarch64_opcode_new n opc opm c ops fl) = fl"
  by (simp_all add: aarch64_opcode_new_def)

definition branch_like :: "string \<Rightarrow> bool" where
  "branch_like s =
     (case s of
        c # d # cs \<Rightarrow>
          c = CHR ''b'' \<or> (c = CHR ''c'' \<or> c = CHR ''t'') \<and> d = CHR ''b'' \<or> c = CHR ''n'' \<and> d = CHR ''o'' \<or>
          c = CHR ''a'' \<and> d = CHR ''d'' \<and> cs \<in> {''r'', ''rp''} \<or> c = CHR ''r'' \<and> d = CHR ''e'' \<and> cs = ''t''
      | _ \<Rightarrow> s = ''b'')"

section \<open>Rows of the branch class\<close>

lemma branch_class_1:
  "filter (row_compatible 0x1c000000 0x14000000) opcode_rows_1 = []"
  unfolding opcode_rows_1_def by (simp add: row_compatible_new)

lemma branch_class_2:
  "filter (row_compatible 0x1c000000 0x14000000) opcode_rows_2 = []"
  unfolding opcode_rows_2_def by (simp add: row_compatible_new)

lemma branch_class_3:
  "filter (row_compatible 0x1c000000 0x14000000) opcode_rows_3 = []"
  unfolding opcode_rows_3_def by (simp add: row_compatible_new)

lemma branch_class_4:
  "filter (row_compatible 0x1c000000 0x14000000) opcode_rows_4 = []"
  unfolding opcode_rows_4_def by (simp add: row_compatible_new)

lemma branch_class_5:
  "filter (row_compatible 0x1c000000 0x14000000) opcode_rows_5 = []"
  unfolding opcode_rows_5_def by (simp add: row_compatible_new)

lemma branch_class_6:
  "filter (row_compatible 0x1c000000 0x14000000) opcode_rows_6 = []"
  unfolding opcode_rows_6_def by (simp add: row_compatible_new)

lemma branch_class_7:
  "filter (row_compatible 0x1c000000 0x14000000) opcode_rows_7 = []"
  unfolding opcode_rows_7_def by (simp add: row_compatible_new)

lemma branch_class_8:
  "filter (row_compatible 0x1c000000 0x14000000) opcode_rows_8 = []"
  unfolding opcode_rows_8_def by (simp add: row_compatible_new)

lemma branch_class_9:
  "filter (row_compatible 0x1c000000 0x14000000) opcode_rows_9 = []"
  unfolding opcode_rows_9_def by (simp add: row_compatible_new)

lemma branch_class_10:
  "filter (row_compatible 0x1c000000 0x14000000) opcode_rows_10 = []"
  unfolding opcode_rows_10_def by (simp add: row_compatible_new)

lemma branch_class_11:
  "filter (row_compatible 0x1c000000 0x14000000) opcode_rows_11 = []"
  unfolding opcode_rows_11_def by (simp add: row_compatible_new)

lemma branch_class_12:
  "filter (row_compatible 0x1c000000 0x14000000) opcode_rows_12 = []"
  unfolding opcode_rows_12_def by (simp add: row_compatible_new)

lemma branch_class_13:
  "filter (row_compatible 0x1c000000 0x14000000) opcode_rows_13 = []"
  unfolding opcode_rows_13_def by (simp add: row_compatible_new)

lemma branch_class_14:
  "filter (row_compatible 0x1c000000 0x14000000) opcode_rows_14 = []"
  unfolding opcode_rows_14_def by (simp add: row_compatible_new)

lemma branch_class_15:
  "filter (row_compatible 0x1c000000 0x14000000) opcode_rows_15 = []"
  unfolding opcode_rows_15_def by (simp add: row_compatible_new)

lemma branch_class_16:
  "filter (row_compatible 0x1c000000 0x14000000) opcode_rows_16 = []"
  unfolding opcode_rows_16_def by (simp add: row_compatible_new)

lemma branch_class_17:
  "filter (row_compatible 0x1c000000 0x14000000) opcode_rows_17 = []"
  unfolding opcode_rows_17_def by (simp add: row_compatible_new)

lemma branch_class_18:
  "filter (row_compatible 0x1c000000 0x14000000) opcode_rows_18 = []"
  unfolding opcode_rows_18_def by (simp add: row_compatible_new)

lemma branch_class_19:
  "filter (row_compatible 0x1c000000 0x14000000) opcode_rows_19 = []"
  unfolding opcode_rows_19_def by (simp add: row_compatible_new)

lemma branch_class_20:
  "filter (row_compatible 0x1c000000 0x14000000) opcode_rows_20 = []"
  unfolding opcode_rows_20_def by (simp add: row_compatible_new)

lemma branch_class_21:
  "filter (row_compatible 0x1c000000 0x14000000) opcode_rows_21 = []"
  unfolding opcode_rows_21_def by (simp add: row_compatible_new)

lemma branch_class_22:
  "filter (row_compatible 0x1c000000 0x14000000) opcode_rows_22 = []"
  unfolding opcode_rows_22_def by (simp add: row_compatible_new)

lemma branch_class_23:
  "filter (row_compatible 0x1c000000 0x14000000) opcode_rows_23 = []"
  unfolding opcode_rows_23_def by (simp add: row_compatible_new)

lemma branch_class_24:
  "filter (row_compatible 0x1c000000 0x14000000) opcode_rows_24 = []"
  unfolding opcode_rows_24_def by (simp add: row_compatible_new)

lemma branch_class_25:
  "filter (row_compatible 0x1c000000 0x14000000) opcode_rows_25 = []"
  unfolding opcode_rows_25_def by (simp add: row_compatible_new)

lemma branch_class_26:
  "filter (row_compatible 0x1c000000 0x14000000) opcode_rows_26 = []"
  unfolding opcode_rows_26_def by (simp add: row_compatible_new)

lemma branch_class_27:
  "filter (row_compatible 0x1c000000 0x14000000) opcode_rows_27 = []"
  unfolding opcode_rows_27_def by (simp add: row_compatible_new)

lemma branch_class_28:
  "filter (row_compatible 0x1c000000 0x14000000) opcode_rows_28 = []"
  unfolding opcode_rows_28_def by (simp add: row_compatible_new)

lemma branch_class_29:
  "filter (row_compatible 0x1c000000 0x14000000) opcode_rows_29 = []"
  unfolding opcode_rows_29_def by (simp add: row_compatible_new)

lemma branch_class_30:
  "filter (row_compatible 0x1c000000 0x14000000) opcode_rows_30 = []"
  unfolding opcode_rows_30_def by (simp add: row_compatible_new)

lemma branch_class_31:
  "filter (row_compatible 0x1c000000 0x14000000) opcode_rows_31 = []"
  unfolding opcode_rows_31_def by (simp add: row_compatible_new)

lemma branch_class_32:
  "filter (row_compatible 0x1c000000 0x14000000) opcode_rows_32 = []"
  unfolding opcode_rows_32_def by (simp add: row_compatible_new)

lemma branch_class_33:
  "filter (row_compatible 0x1c000000 0x14000000) opcode_rows_33 = []"
  unfolding opcode_rows_33_def by (simp add: row_compatible_new)

lemma branch_class_34:
  "filter (row_compatible 0x1c000000 0x14000000) opcode_rows_34 = []"
  unfolding opcode_rows_34_def by (simp add: row_compatible_new)

lemma branch_class_35:
  "filter (row_compatible 0x1c000000 0x14000000) opcode_rows_35 = [aarch64_opcode_new ''b'' 0x14000000 0xfc000000 C_BranchImm (Op1 O_AddrPcrel26) 0,
      aarch64_opcode_new ''bl'' 0x94000000 0xfc000000 C_BranchImm (Op1 O_AddrPcrel26) 0,
      aarch64_opcode_new ''br'' 0xd61f0000 0xfffffc1f C_BranchReg (Op1 O_Rn) 0,
      aarch64_opcode_new ''blr'' 0xd63f0000 0xfffffc1f C_BranchReg (Op1 O_Rn) 0,
      aarch64_opcode_new ''ret'' 0xd65f0000 0xfffffc1f C_BranchReg (Op1 O_Rn) (F_OPD0_OPT OR F_DEFAULT 30),
      aarch64_opcode_new ''eret'' 0xd69f03e0 0xffffffff C_BranchReg Op0 0,
      aarch64_opcode_new ''drps'' 0xd6bf03e0 0xffffffff C_BranchReg Op0 0,
      aarch64_opcode_new ''braaz'' 0xd61f081f 0xfffffc1f C_BranchReg (Op1 O_Rn) 0,
      aarch64_opcode_new ''brabz'' 0xd61f0c1f 0xfffffc1f C_BranchReg (Op1 O_Rn) 0,
      aarch64_opcode_new ''blraaz'' 0xd63f081f 0xfffffc1f C_BranchReg (Op1 O_Rn) 0,
      aarch64_opcode_new ''blrabz'' 0xd63f0c1f 0xfffffc1f C_BranchReg (Op1 O_Rn) 0,
      aarch64_opcode_new ''braa'' 0xd71f0800 0xffe0fc00 C_BranchReg (Op2 O_Rn O_RmLow) 0,
      aarch64_opcode_new ''brab'' 0xd71f0c00 0xffe0fc00 C_BranchReg (Op2 O_Rn O_RmLow) 0,
      aarch64_opcode_new ''blraa'' 0xd73f0800 0xffe0fc00 C_BranchReg (Op2 O_Rn O_RmLow) 0,
      aarch64_opcode_new ''blrab'' 0xd73f0c00 0xffe0fc00 C_BranchReg (Op2 O_Rn O_RmLow) 0,
      aarch64_opcode_new ''retaa'' 0xd65f0bff 0xffffffff C_BranchReg Op0 0,
      aarch64_opcode_new ''retab'' 0xd65f0fff 0xffffffff C_BranchReg Op0 0,
      aarch64_opcode_new ''cbz'' 0x34000000 0x7f000000 C_Compbranch (Op2 O_Rt O_AddrPcrel19) F_SF,
      aarch64_opcode_new ''cbnz'' 0x35000000 0x7f000000 C_Compbranch (Op2 O_Rt O_AddrPcrel19) F_SF,
      aarch64_opcode_new ''b.c'' 0x54000000 0xff000010 C_Condbranch (Op1 O_AddrPcrel19) F_COND]"
  unfolding opcode_rows_35_def by (simp add: row_compatible_new)

lemma branch_class_36:
  "filter (row_compatible 0x1c000000 0x14000000) opcode_rows_36 = []"
  unfolding opcode_rows_36_def by (simp add: row_compatible_new)

lemma branch_class_37:
  "filter (row_compatible 0x1c000000 0x14000000) opcode_rows_37 = []"
  unfolding opcode_rows_37_def by (simp add: row_compatible_new)

lemma branch_class_38:
  "filter (row_compatible 0x1c000000 0x14000000) opcode_rows_38 = [aarch64_opcode_new ''svc'' 0xd4000001 0xffe0001f C_Exception (Op1 O_Exc) 0,
      aarch64_opcode_new ''hvc'' 0xd4000002 0xffe0001f C_Exception (Op1 O_Exc) 0,
      aarch64_opcode_new ''smc'' 0xd4000003 0xffe0001f C_Exception (Op1 O_Exc) 0,
      aarch64_opcode_new ''brk'' 0xd4200000 0xffe0001f C_Exception (Op1 O_Exc) 0,
      aarch64_opcode_new ''hlt'' 0xd4400000 0xffe0001f C_Exception (Op1 O_Exc) 0]"
  unfolding opcode_rows_38_def by (simp add: row_compatible_new)

lemma branch_class_39:
  "filter (row_compatible 0x1c000000 0x14000000) opcode_rows_39 = [aarch64_opcode_new ''dcps1'' 0xd4a00001 0xffe0001f C_Exception (Op1 O_Exc) (F_OPD0_OPT OR F_DEFAULT 0),
      aarch64_opcode_new ''dcps2'' 0xd4a00002 0xffe0001f C_Exception (Op1 O_Exc) (F_OPD0_OPT OR F_DEFAULT 0),
      aarch64_opcode_new ''dcps3'' 0xd4a00003 0xffe0001f C_Exception (Op1 O_Exc) (F_OPD0_OPT OR F_DEFAULT 0)]"
  unfolding opcode_rows_39_def by (simp add: row_compatible_new)

lemma branch_class_40:
  "filter (row_compatible 0x1c000000 0x14000000) opcode_rows_40 = []"
  unfolding opcode_rows_40_def by (simp add: row_compatible_new)

lemma branch_class_41:
  "filter (row_compatible 0x1c000000 0x14000000) opcode_rows_41 = []"
  unfolding opcode_rows_41_def by (simp add: row_compatible_new)

lemma branch_class_42:
  "filter (row_compatible 0x1c000000 0x14000000) opcode_rows_42 = []"
  unfolding opcode_rows_42_def by (simp add: row_compatible_new)

lemma branch_class_43:
  "filter (row_compatible 0x1c000000 0x14000000) opcode_rows_43 = []"
  unfolding opcode_rows_43_def by (simp add: row_compatible_new)

lemma branch_class_44:
  "filter (row_compatible 0x1c000000 0x14000000) opcode_rows_44 = []"
  unfolding opcode_rows_44_def by (simp add: row_compatible_new)

lemma branch_class_45:
  "filter (row_compatible 0x1c000000 0x14000000) opcode_rows_45 = []"
  unfolding opcode_rows_45_def by (simp add: row_compatible_new)

lemma branch_class_46:
  "filter (row_compatible 0x1c000000 0x14000000) opcode_rows_46 = []"
  unfolding opcode_rows_46_def by (simp add: row_compatible_new)

lemma branch_class_47:
  "filter (row_compatible 0x1c000000 0x14000000) opcode_rows_47 = []"
  unfolding opcode_rows_47_def by (simp add: row_compatible_new)

lemma branch_class_48:
  "filter (row_compatible 0x1c000000 0x14000000) opcode_rows_48 = []"
  unfolding opcode_rows_48_def by (simp add: row_compatible_new)

lemma branch_class_49:
  "filter (row_compatible 0x1c000000 0x14000000) opcode_rows_49 = []"
  unfolding opcode_rows_49_def by (simp add: row_compatible_new)

lemma branch_class_50:
  "filter (row_compatible 0x1c000000 0x14000000) opcode_rows_50 = []"
  unfolding opcode_rows_50_def by (simp add: row_compatible_new)

lemma branch_class_51:
  "filter (row_compatible 0x1c000000 0x14000000) opcode_rows_51 = []"
  unfolding opcode_rows_51_def by (simp add: row_compatible_new)

lemma branch_class_52:
  "filter (row_compatible 0x1c000000 0x14000000) opcode_rows_52 = []"
  unfolding opcode_rows_52_def by (simp add: row_compatible_new)

lemma branch_class_53:
  "filter (row_compatible 0x1c000000 0x14000000) opcode_rows_53 = []"
  unfolding opcode_rows_53_def by (simp add: row_compatible_new)

lemma branch_class_54:
  "filter (row_compatible 0x1c000000 0x14000000) opcode_rows_54 = []"
  unfolding opcode_rows_54_def by (simp add: row_compatible_new)

lemma branch_class_55:
  "filter (row_compatible 0x1c000000 0x14000000) opcode_rows_55 = []"
  unfolding opcode_rows_55_def by (simp add: row_compatible_new)

lemma branch_class_56:
  "filter (row_compatible 0x1c000000 0x14000000) opcode_rows_56 = []"
  unfolding opcode_rows_56_def by (simp add: row_compatible_new)

lemma branch_class_57:
  "filter (row_compatible 0x1c000000 0x14000000) opcode_rows_57 = []"
  unfolding opcode_rows_57_def by (simp add: row_compatible_new)

lemma branch_class_58:
  "filter (row_compatible 0x1c000000 0x14000000) opcode_rows_58 = []"
  unfolding opcode_rows_58_def by (simp add: row_compatible_new)

lemma branch_class_59:
  "filter (row_compatible 0x1c000000 0x14000000) opcode_rows_59 = []"
  unfolding opcode_rows_59_def by (simp add: row_compatible_new)

lemma branch_class_60:
  "filter (row_compatible 0x1c000000 0x14000000) opcode_rows_60 = []"
  unfolding opcode_rows_60_def by (simp add: row_compatible_new)

lemma branch_class_61:
  "filter (row_compatible 0x1c000000 0x14000000) opcode_rows_61 = [aarch64_opcode_new ''msr'' 0xd500401f 0xfff8f01f C_IcSystem (Op2 O_Pstatefield O_Uimm4) 0,
      aarch64_opcode_new ''hint'' 0xd503201f 0xfffff01f C_IcSystem (Op1 O_Uimm7) F_HAS_ALIAS,
      aarch64_opcode_new ''nop'' 0xd503201f 0xffffffff C_IcSystem Op0 F_ALIAS,
      aarch64_opcode_new ''yield'' 0xd503203f 0xffffffff C_IcSystem Op0 F_ALIAS,
      aarch64_opcode_new ''wfe'' 0xd503205f 0xffffffff C_IcSystem Op0 F_ALIAS,
      aarch64_opcode_new ''wfi'' 0xd503207f 0xffffffff C_IcSystem Op0 F_ALIAS,
      aarch64_opcode_new ''sev'' 0xd503209f 0xffffffff C_IcSystem Op0 F_ALIAS,
      aarch64_opcode_new ''sevl'' 0xd50320bf 0xffffffff C_IcSystem Op0 F_ALIAS,
      aarch64_opcode_new ''esb'' 0xd503221f 0xffffffff C_IcSystem Op0 F_ALIAS,
      aarch64_opcode_new ''paciaz'' 0xd503231f 0xffffffff C_IcSystem Op0 F_ALIAS,
      aarch64_opcode_new ''paciasp'' 0xd503233f 0xffffffff C_IcSystem Op0 F_ALIAS]"
  unfolding opcode_rows_61_def by (simp add: row_compatible_new)

lemma branch_class_62:
  "filter (row_compatible 0x1c000000 0x14000000) opcode_rows_62 = [aarch64_opcode_new ''pacibz'' 0xd503235f 0xffffffff C_IcSystem Op0 F_ALIAS,
      aarch64_opcode_new ''pacibsp'' 0xd503237f 0xffffffff C_IcSystem Op0 F_ALIAS,
      aarch64_opcode_new ''autiaz'' 0xd503239f 0xffffffff C_IcSystem Op0 F_ALIAS,
      aarch64_opcode_new ''autiasp'' 0xd50323bf 0xffffffff C_IcSystem Op0 F_ALIAS,
      aarch64_opcode_new ''autibz'' 0xd50323df 0xffffffff C_IcSystem Op0 F_ALIAS,
      aarch64_opcode_new ''autibsp'' 0xd50323ff 0xffffffff C_IcSystem Op0 F_ALIAS,
      aarch64_opcode_new ''xpaclri'' 0xd50320ff 0xffffffff C_IcSystem Op0 F_ALIAS,
      aarch64_opcode_new ''psb'' 0xd503223f 0xffffffff C_IcSystem (Op1 O_BarrierPsb) F_ALIAS,
      aarch64_opcode_new ''clrex'' 0xd503305f 0xfffff0ff C_IcSystem (Op1 O_Uimm4) (F_OPD0_OPT OR F_DEFAULT 0xF),
      aarch64_opcode_new ''dsb'' 0xd503309f 0xfffff0ff C_IcSystem (Op1 O_Barrier) 0,
      aarch64_opcode_new ''dmb'' 0xd50330bf 0xfffff0ff C_IcSystem (Op1 O_Barrier) 0,
      aarch64_opcode_new ''isb'' 0xd50330df 0xfffff0ff C_IcSystem (Op1 O_BarrierIsb) (F_OPD0_OPT OR F_DEFAULT 0xF),
      aarch64_opcode_new ''sys'' 0xd5080000 0xfff80000 C_IcSystem (Op5 O_Uimm3Op1 O_Cn O_Cm O_Uimm3Op2 O_Rt) (F_HAS_ALIAS OR F_OPD4_OPT OR F_DEFAULT 0x1F),
      aarch64_opcode_new ''at'' 0xd5080000 0xfff80000 C_IcSystem (Op2 O_SysregAt O_Rt) F_ALIAS,
      aarch64_opcode_new ''dc'' 0xd5080000 0xfff80000 C_IcSystem (Op2 O_SysregDc O_Rt) F_ALIAS,
      aarch64_opcode_new ''ic'' 0xd5080000 0xfff80000 C_IcSystem (Op2 O_SysregIc O_RtSys) (F_ALIAS OR F_OPD1_OPT OR F_DEFAULT 0x1F),
      aarch64_opcode_new ''tlbi'' 0xd5080000 0xfff80000 C_IcSystem (Op2 O_SysregTlbi O_RtSys) (F_ALIAS OR F_OPD1_OPT OR F_DEFAULT 0x1F),
      aarch64_opcode_new ''msr'' 0xd5000000 0xffe00000 C_IcSystem (Op2 O_Sysreg O_Rt) 0,
      aarch64_opcode_new ''sysl'' 0xd5280000 0xfff80000 C_IcSystem (Op5 O_Rt O_Uimm3Op1 O_Cn O_Cm O_Uimm3Op2) 0,
      aarch64_opcode_new ''mrs'' 0xd5200000 0xffe00000 C_IcSystem (Op2 O_Rt O_Sysreg) 0,
      aarch64_opcode_new ''tbz'' 0x36000000 0x7f000000 C_Testbranch (Op3 O_Rt O_BitNum O_AddrPcrel14) 0,
      aarch64_opcode_new ''tbnz'' 0x37000000 0x7f000000 C_Testbranch (Op3 O_Rt O_BitNum O_AddrPcrel14) 0,
      aarch64_opcode_new ''beq'' 0x54000000 0xff00001f C_Condbranch (Op1 O_AddrPcrel19) (F_ALIAS OR F_PSEUDO),
      aarch64_opcode_new ''bne'' 0x54000001 0xff00001f C_Condbranch (Op1 O_AddrPcrel19) (F_ALIAS OR F_PSEUDO),
      aarch64_opcode_new ''bcs'' 0x54000002 0xff00001f C_Condbranch (Op1 O_AddrPcrel19) (F_ALIAS OR F_PSEUDO),
      aarch64_opcode_new ''bhs'' 0x54000002 0xff00001f C_Condbranch (Op1 O_AddrPcrel19) (F_ALIAS OR F_PSEUDO),
      aarch64_opcode_new ''bcc'' 0x54000003 0xff00001f C_Condbranch (Op1 O_AddrPcrel19) (F_ALIAS OR F_PSEUDO),
      aarch64_opcode_new ''blo'' 0x54000003 0xff00001f C_Condbranch (Op1 O_AddrPcrel19) (F_ALIAS OR F_PSEUDO)]"
  unfolding opcode_rows_62_def by (simp add: row_compatible_new)

lemma branch_class_63:
  "filter (row_compatible 0x1c000000 0x14000000) opcode_rows_63 = [aarch64_opcode_new ''bmi'' 0x54000004 0xff00001f C_Condbranch (Op1 O_AddrPcrel19) (F_ALIAS OR F_PSEUDO),
      aarch64_opcode_new ''bpl'' 0x54000005 0xff00001f C_Condbranch (Op1 O_AddrPcrel19) (F_ALIAS OR F_PSEUDO),
      aarch64_opcode_new ''bvs'' 0x54000006 0xff00001f C_Condbranch (Op1 O_AddrPcrel19) (F_ALIAS OR F_PSEUDO),
      aarch64_opcode_new ''bvc'' 0x54000007 0xff00001f C_Condbranch (Op1 O_AddrPcrel19) (F_ALIAS OR F_PSEUDO),
      aarch64_opcode_new ''bhi'' 0x54000008 0xff00001f C_Condbranch (Op1 O_AddrPcrel19) (F_ALIAS OR F_PSEUDO),
      aarch64_opcode_new ''bls'' 0x54000009 0xff00001f C_Condbranch (Op1 O_AddrPcrel19) (F_ALIAS OR F_PSEUDO),
      aarch64_opcode_new ''bge'' 0x5400000a 0xff00001f C_Condbranch (Op1 O_AddrPcrel19) (F_ALIAS OR F_PSEUDO),
      aarch64_opcode_new ''blt'' 0x5400000b 0xff00001f C_Condbranch (Op1 O_AddrPcrel19) (F_ALIAS OR F_PSEUDO),
      aarch64_opcode_new ''bgt'' 0x5400000c 0xff00001f C_Condbranch (Op1 O_AddrPcrel19) (F_ALIAS OR F_PSEUDO),
      aarch64_opcode_new ''ble'' 0x5400000d 0xff00001f C_Condbranch (Op1 O_AddrPcrel19) (F_ALIAS OR F_PSEUDO)]"
  unfolding opcode_rows_63_def by (simp add: row_compatible_new)

definition branch_class_table :: "aarch64_opcode list" where
  "branch_class_table =
     [aarch64_opcode_new ''b'' 0x14000000 0xfc000000 C_BranchImm (Op1 O_AddrPcrel26) 0,
      aarch64_opcode_new ''bl'' 0x94000000 0xfc000000 C_BranchImm (Op1 O_AddrPcrel26) 0,
      aarch64_opcode_new ''br'' 0xd61f0000 0xfffffc1f C_BranchReg (Op1 O_Rn) 0,
      aarch64_opcode_new ''blr'' 0xd63f0000 0xfffffc1f C_BranchReg (Op1 O_Rn) 0,
      aarch64_opcode_new ''ret'' 0xd65f0000 0xfffffc1f C_BranchReg (Op1 O_Rn) (F_OPD0_OPT OR F_DEFAULT 30),
      aarch64_opcode_new ''eret'' 0xd69f03e0 0xffffffff C_BranchReg Op0 0,
      aarch64_opcode_new ''drps'' 0xd6bf03e0 0xffffffff C_BranchReg Op0 0,
      aarch64_opcode_new ''braaz'' 0xd61f081f 0xfffffc1f C_BranchReg (Op1 O_Rn) 0,
      aarch64_opcode_new ''brabz'' 0xd61f0c1f 0xfffffc1f C_BranchReg (Op1 O_Rn) 0,
      aarch64_opcode_new ''blraaz'' 0xd63f081f 0xfffffc1f C_BranchReg (Op1 O_Rn) 0,
      aarch64_opcode_new ''blrabz'' 0xd63f0c1f 0xfffffc1f C_BranchReg (Op1 O_Rn) 0,
      aarch64_opcode_new ''braa'' 0xd71f0800 0xffe0fc00 C_BranchReg (Op2 O_Rn O_RmLow) 0,
      aarch64_opcode_new ''brab'' 0xd71f0c00 0xffe0fc00 C_BranchReg (Op2 O_Rn O_RmLow) 0,
      aarch64_opcode_new ''blraa'' 0xd73f0800 0xffe0fc00 C_BranchReg (Op2 O_Rn O_RmLow) 0,
      aarch64_opcode_new ''blrab'' 0xd73f0c00 0xffe0fc00 C_BranchReg (Op2 O_Rn O_RmLow) 0,
      aarch64_opcode_new ''retaa'' 0xd65f0bff 0xffffffff C_BranchReg Op0 0,
      aarch64_opcode_new ''retab'' 0xd65f0fff 0xffffffff C_BranchReg Op0 0,
      aarch64_opcode_new ''cbz'' 0x34000000 0x7f000000 C_Compbranch (Op2 O_Rt O_AddrPcrel19) F_SF,
      aarch64_opcode_new ''cbnz'' 0x35000000 0x7f000000 C_Compbranch (Op2 O_Rt O_AddrPcrel19) F_SF,
      aarch64_opcode_new ''b.c'' 0x54000000 0xff000010 C_Condbranch (Op1 O_AddrPcrel19) F_COND,
      aarch64_opcode_new ''svc'' 0xd4000001 0xffe0001f C_Exception (Op1 O_Exc) 0,
      aarch64_opcode_new ''hvc'' 0xd4000002 0xffe0001f C_Exception (Op1 O_Exc) 0,
      aarch64_opcode_new ''smc'' 0xd4000003 0xffe0001f C_Exception (Op1 O_Exc) 0,
      aarch64_opcode_new ''brk'' 0xd4200000 0xffe0001f C_Exception (Op1 O_Exc) 0,
      aarch64_opcode_new ''hlt'' 0xd4400000 0xffe0001f C_Exception (Op1 O_Exc) 0,
      aarch64_opcode_new ''dcps1'' 0xd4a00001 0xffe0001f C_Exception (Op1 O_Exc) (F_OPD0_OPT OR F_DEFAULT 0),
      aarch64_opcode_new ''dcps2'' 0xd4a00002 0xffe0001f C_Exception (Op1 O_Exc) (F_OPD0_OPT OR F_DEFAULT 0),
      aarch64_opcode_new ''dcps3'' 0xd4a00003 0xffe0001f C_Exception (Op1 O_Exc) (F_OPD0_OPT OR F_DEFAULT 0),
      aarch64_opcode_new ''msr'' 0xd500401f 0xfff8f01f C_IcSystem (Op2 O_Pstatefield O_Uimm4) 0,
      aarch64_opcode_new ''hint'' 0xd503201f 0xfffff01f C_IcSystem (Op1 O_Uimm7) F_HAS_ALIAS,
      aarch64_opcode_new ''nop'' 0xd503201f 0xffffffff C_IcSystem Op0 F_ALIAS,
      aarch64_opcode_new ''yield'' 0xd503203f 0xffffffff C_IcSystem Op0 F_ALIAS,
      aarch64_opcode_new ''wfe'' 0xd503205f 0xffffffff C_IcSystem Op0 F_ALIAS,
      aarch64_opcode_new ''wfi'' 0xd503207f 0xffffffff C_IcSystem Op0 F_ALIAS,
      aarch64_opcode_new ''sev'' 0xd503209f 0xffffffff C_IcSystem Op0 F_ALIAS,
      aarch64_opcode_new ''sevl'' 0xd50320bf 0xffffffff C_IcSystem Op0 F_ALIAS,
      aarch64_opcode_new ''esb'' 0xd503221f 0xffffffff C_IcSystem Op0 F_ALIAS,
      aarch64_opcode_new ''paciaz'' 0xd503231f 0xffffffff C_IcSystem Op0 F_ALIAS,
      aarch64_opcode_new ''paciasp'' 0xd503233f 0xffffffff C_IcSystem Op0 F_ALIAS,
      aarch64_opcode_new ''pacibz'' 0xd503235f 0xffffffff C_IcSystem Op0 F_ALIAS,
      aarch64_opcode_new ''pacibsp'' 0xd503237f 0xffffffff C_IcSystem Op0 F_ALIAS,
      aarch64_opcode_new ''autiaz'' 0xd503239f 0xffffffff C_IcSystem Op0 F_ALIAS,
      aarch64_opcode_new ''autiasp'' 0xd50323bf 0xffffffff C_IcSystem Op0 F_ALIAS,
      aarch64_opcode_new ''autibz'' 0xd50323df 0xffffffff C_IcSystem Op0 F_ALIAS,
      aarch64_opcode_new ''autibsp'' 0xd50323ff 0xffffffff C_IcSystem Op0 F_ALIAS,
      aarch64_opcode_new ''xpaclri'' 0xd50320ff 0xffffffff C_IcSystem Op0 F_ALIAS,
      aarch64_opcode_new ''psb'' 0xd503223f 0xffffffff C_IcSystem (Op1 O_BarrierPsb) F_ALIAS,
      aarch64_opcode_new ''clrex'' 0xd503305f 0xfffff0ff C_IcSystem (Op1 O_Uimm4) (F_OPD0_OPT OR F_DEFAULT 0xF),
      aarch64_opcode_new ''dsb'' 0xd503309f 0xfffff0ff C_IcSystem (Op1 O_Barrier) 0,
      aarch64_opcode_new ''dmb'' 0xd50330bf 0xfffff0ff C_IcSystem (Op1 O_Barrier) 0,
      aarch64_opcode_new ''isb'' 0xd50330df 0xfffff0ff C_IcSystem (Op1 O_BarrierIsb) (F_OPD0_OPT OR F_DEFAULT 0xF),
      aarch64_opcode_new ''sys'' 0xd5080000 0xfff80000 C_IcSystem (Op5 O_Uimm3Op1 O_Cn O_Cm O_Uimm3Op2 O_Rt) (F_HAS_ALIAS OR F_OPD4_OPT OR F_DEFAULT 0x1F),
      aarch64_opcode_new ''at'' 0xd5080000 0xfff80000 C_IcSystem (Op2 O_SysregAt O_Rt) F_ALIAS,
      aarch64_opcode_new ''dc'' 0xd5080000 0xfff80000 C_IcSystem (Op2 O_SysregDc O_Rt) F_ALIAS,
      aarch64_opcode_new ''ic'' 0xd5080000 0xfff80000 C_IcSystem (Op2 O_SysregIc O_RtSys) (F_ALIAS OR F_OPD1_OPT OR F_DEFAULT 0x1F),
      aarch64_opcode_new ''tlbi'' 0xd5080000 0xfff80000 C_IcSystem (Op2 O_SysregTlbi O_RtSys) (F_ALIAS OR F_OPD1_OPT OR F_DEFAULT 0x1F),
      aarch64_opcode_new ''msr'' 0xd5000000 0xffe00000 C_IcSystem (Op2 O_Sysreg O_Rt) 0,
      aarch64_opcode_new ''sysl'' 0xd5280000 0xfff80000 C_IcSystem (Op5 O_Rt O_Uimm3Op1 O_Cn O_Cm O_Uimm3Op2) 0,
      aarch64_opcode_new ''mrs'' 0xd5200000 0xffe00000 C_IcSystem (Op2 O_Rt O_Sysreg) 0,
      aarch64_opcode_new ''tbz'' 0x36000000 0x7f000000 C_Testbranch (Op3 O_Rt O_BitNum O_AddrPcrel14) 0,
      aarch64_opcode_new ''tbnz'' 0x37000000 0x7f000000 C_Testbranch (Op3 O_Rt O_BitNum O_AddrPcrel14) 0,
      aarch64_opcode_new ''beq'' 0x54000000 0xff00001f C_Condbranch (Op1 O_AddrPcrel19) (F_ALIAS OR F_PSEUDO),
      aarch64_opcode_new ''bne'' 0x54000001 0xff00001f C_Condbranch (Op1 O_AddrPcrel19) (F_ALIAS OR F_PSEUDO),
      aarch64_opcode_new ''bcs'' 0x54000002 0xff00001f C_Condbranch (Op1 O_AddrPcrel19) (F_ALIAS OR F_PSEUDO),
      aarch64_opcode_new ''bhs'' 0x54000002 0xff00001f C_Condbranch (Op1 O_AddrPcrel19) (F_ALIAS OR F_PSEUDO),
      aarch64_opcode_new ''bcc'' 0x54000003 0xff00001f C_Condbranch (Op1 O_AddrPcrel19) (F_ALIAS OR F_PSEUDO),
      aarch64_opcode_new ''blo'' 0x54000003 0xff00001f C_Condbranch (Op1 O_AddrPcrel19) (F_ALIAS OR F_PSEUDO),
      aarch64_opcode_new ''bmi'' 0x54000004 0xff00001f C_Condbranch (Op1 O_AddrPcrel19) (F_ALIAS OR F_PSEUDO),
      aarch64_opcode_new ''bpl'' 0x54000005 0xff00001f C_Condbranch (Op1 O_AddrPcrel19) (F_ALIAS OR F_PSEUDO),
      aarch64_opcode_new ''bvs'' 0x54000006 0xff00001f C_Condbranch (Op1 O_AddrPcrel19) (F_ALIAS OR F_PSEUDO),
      aarch64_opcode_new ''bvc'' 0x54000007 0xff00001f C_Condbranch (Op1 O_AddrPcrel19) (F_ALIAS OR F_PSEUDO),
      aarch64_opcode_new ''bhi'' 0x54000008 0xff00001f C_Condbranch (Op1 O_AddrPcrel19) (F_ALIAS OR F_PSEUDO),
      aarch64_opcode_new ''bls'' 0x54000009 0xff00001f C_Condbranch (Op1 O_AddrPcrel19) (F_ALIAS OR F_PSEUDO),
      aarch64_opcode_new ''bge'' 0x5400000a 0xff00001f C_Condbranch (Op1 O_AddrPcrel19) (F_ALIAS OR F_PSEUDO),
      aarch64_opcode_new ''blt'' 0x5400000b 0xff00001f C_Condbranch (Op1 O_AddrPcrel19) (F_ALIAS OR F_PSEUDO),
      aarch64_opcode_new ''bgt'' 0x5400000c 0xff00001f C_Condbranch (Op1 O_AddrPcrel19) (F_ALIAS OR F_PSEUDO),
      aarch64_opcode_new ''ble'' 0x5400000d 0xff00001f C_Condbranch (Op1 O_AddrPcrel19) (F_ALIAS OR F_PSEUDO)]"

lemma filter_branch_class: "filter (row_compatible 0x1c000000 0x14000000) aarch64_opcode_table = branch_class_table"
  unfolding aarch64_opcode_table_def branch_class_table_def filter_append
    branch_class_1 branch_class_2 branch_class_3 branch_class_4 branch_class_5 branch_class_6
    branch_class_7 branch_class_8 branch_class_9 branch_class_10 branch_class_11 branch_class_12
    branch_class_13 branch_class_14 branch_class_15 branch_class_16 branch_class_17 branch_class_18
    branch_class_19 branch_class_20 branch_class_21 branch_class_22 branch_class_23 branch_class_24
    branch_class_25 branch_class_26 branch_class_27 branch_class_28 branch_class_29 branch_class_30
    branch_class_31 branch_class_32 branch_class_33 branch_class_34 branch_class_35 branch_class_36
    branch_class_37 branch_class_38 branch_class_39 branch_class_40 branch_class_41 branch_class_42
    branch_class_43 branch_class_44 branch_class_45 branch_class_46 branch_class_47 branch_class_48
    branch_class_49 branch_class_50 branch_class_51 branch_class_52 branch_class_53 branch_class_54
    branch_class_55 branch_class_56 branch_class_57 branch_class_58 branch_class_59 branch_class_60
    branch_class_61 branch_class_62 branch_class_63
    append.simps ..

section \<open>Rows named like a branch\<close>

lemma branch_named_1:
  "filter (\<lambda>row. branch_like (op_name row)) opcode_rows_1 = []"
  unfolding opcode_rows_1_def by (simp add: branch_like_def)

lemma branch_named_2:
  "filter (\<lambda>row. branch_like (op_name row)) opcode_rows_2 = []"
  unfolding opcode_rows_2_def by (simp add: branch_like_def)

lemma branch_named_3:
  "filter (\<lambda>row. branch_like (op_name row)) opcode_rows_3 = []"
  unfolding opcode_rows_3_def by (simp add: branch_like_def)

lemma branch_named_4:
  "filter (\<lambda>row. branch_like (op_name row)) opcode_rows_4 = []"
  unfolding opcode_rows_4_def by (simp add: branch_like_def)

lemma branch_named_5:
  "filter (\<lambda>row. branch_like (op_name row)) opcode_rows_5 = []"
  unfolding opcode_rows_5_def by (simp add: branch_like_def)

lemma branch_named_6:
  "filter (\<lambda>row. branch_like (op_name row)) opcode_rows_6 = []"
  unfolding opcode_rows_6_def by (simp add: branch_like_def)

lemma branch_named_7:
  "filter (\<lambda>row. branch_like (op_name row)) opcode_rows_7 = []"
  unfolding opcode_rows_7_def by (simp add: branch_like_def)

lemma branch_named_8:
  "filter (\<lambda>row. branch_like (op_name row)) opcode_rows_8 = [aarch64_opcode_new ''bic'' 0x2f001400 0xbff89c00 C_Asimdimm (Op2 O_Vd O_SimdImmSft) F_SIZEQ,
      aarch64_opcode_new ''bic'' 0x2f009400 0xbff8dc00 C_Asimdimm (Op2 O_Vd O_SimdImmSft) F_SIZEQ]"
  unfolding opcode_rows_8_def by (simp add: branch_like_def)

lemma branch_named_9:
  "filter (\<lambda>row. branch_like (op_name row)) opcode_rows_9 = []"
  unfolding opcode_rows_9_def by (simp add: branch_like_def)

lemma branch_named_10:
  "filter (\<lambda>row. branch_like (op_name row)) opcode_rows_10 = []"
  unfolding opcode_rows_10_def by (simp add: branch_like_def)

lemma branch_named_11:
  "filter (\<lambda>row. branch_like (op_name row)) opcode_rows_11 = []"
  unfolding opcode_rows_11_def by (simp add: branch_like_def)

lemma branch_named_12:
  "filter (\<lambda>row. branch_like (op_name row)) opcode_rows_12 = []"
  unfolding opcode_rows_12_def by (simp add: branch_like_def)

lemma branch_named_13:
  "filter (\<lambda>row. branch_like (op_name row)) opcode_rows_13 = [aarch64_opcode_new ''not'' 0x2e205800 0xbffffc00 C_Asimdmisc (Op2 O_Vd O_Vn) (F_SIZEQ OR F_HAS_ALIAS)]"
  unfolding opcode_rows_13_def by (simp add: branch_like_def)

lemma branch_named_14:
  "filter (\<lambda>row. branch_like (op_name row)) opcode_rows_14 = []"
  unfolding opcode_rows_14_def by (simp add: branch_like_def)

lemma branch_named_15:
  "filter (\<lambda>row. branch_like (op_name row)) opcode_rows_15 = []"
  unfolding opcode_rows_15_def by (simp add: branch_like_def)

lemma branch_named_16:
  "filter (\<lambda>row. branch_like (op_name row)) opcode_rows_16 = []"
  unfolding opcode_rows_16_def by (simp add: branch_like_def)

lemma branch_named_17:
  "filter (\<lambda>row. branch_like (op_name row)) opcode_rows_17 = [aarch64_opcode_new ''bic'' 0xe601c00 0xbfe0fc00 C_Asimdsame (Op3 O_Vd O_Vn O_Vm) F_SIZEQ]"
  unfolding opcode_rows_17_def by (simp add: branch_like_def)

lemma branch_named_18:
  "filter (\<lambda>row. branch_like (op_name row)) opcode_rows_18 = []"
  unfolding opcode_rows_18_def by (simp add: branch_like_def)

lemma branch_named_19:
  "filter (\<lambda>row. branch_like (op_name row)) opcode_rows_19 = []"
  unfolding opcode_rows_19_def by (simp add: branch_like_def)

lemma branch_named_20:
  "filter (\<lambda>row. branch_like (op_name row)) opcode_rows_20 = [aarch64_opcode_new ''bsl'' 0x2e601c00 0xbfe0fc00 C_Asimdsame (Op3 O_Vd O_Vn O_Vm) F_SIZEQ,
      aarch64_opcode_new ''bit'' 0x2ea01c00 0xbfe0fc00 C_Asimdsame (Op3 O_Vd O_Vn O_Vm) F_SIZEQ,
      aarch64_opcode_new ''bif'' 0x2ee01c00 0xbfe0fc00 C_Asimdsame (Op3 O_Vd O_Vn O_Vm) F_SIZEQ]"
  unfolding opcode_rows_20_def by (simp add: branch_like_def)

lemma branch_named_21:
  "filter (\<lambda>row. branch_like (op_name row)) opcode_rows_21 = []"
  unfolding opcode_rows_21_def by (simp add: branch_like_def)

lemma branch_named_22:
  "filter (\<lambda>row. branch_like (op_name row)) opcode_rows_22 = []"
  unfolding opcode_rows_22_def by (simp add: branch_like_def)

lemma branch_named_23:
  "filter (\<lambda>row. branch_like (op_name row)) opcode_rows_23 = [aarch64_opcode_new ''tbl'' 0xe000000 0xbfe09c00 C_Asimdtbl (Op3 O_Vd O_Lvn O_Vm) F_SIZEQ,
      aarch64_opcode_new ''tbx'' 0xe001000 0xbfe09c00 C_Asimdtbl (Op3 O_Vd O_Lvn O_Vm) F_SIZEQ]"
  unfolding opcode_rows_23_def by (simp add: branch_like_def)

lemma branch_named_24:
  "filter (\<lambda>row. branch_like (op_name row)) opcode_rows_24 = []"
  unfolding opcode_rows_24_def by (simp add: branch_like_def)

lemma branch_named_25:
  "filter (\<lambda>row. branch_like (op_name row)) opcode_rows_25 = []"
  unfolding opcode_rows_25_def by (simp add: branch_like_def)

lemma branch_named_26:
  "filter (\<lambda>row. branch_like (op_name row)) opcode_rows_26 = []"
  unfolding opcode_rows_26_def by (simp add: branch_like_def)

lemma branch_named_27:
  "filter (\<lambda>row. branch_like (op_name row)) opcode_rows_27 = []"
  unfolding opcode_rows_27_def by (simp add: branch_like_def)

lemma branch_named_28:
  "filter (\<lambda>row. branch_like (op_name row)) opcode_rows_28 = []"
  unfolding opcode_rows_28_def by (simp add: branch_like_def)

lemma branch_named_29:
  "filter (\<lambda>row. branch_like (op_name row)) opcode_rows_29 = []"
  unfolding opcode_rows_29_def by (simp add: branch_like_def)

lemma branch_named_30:
  "filter (\<lambda>row. branch_like (op_name row)) opcode_rows_30 = []"
  unfolding opcode_rows_30_def by (simp add: branch_like_def)

lemma branch_named_31:
  "filter (\<lambda>row. branch_like (op_name row)) opcode_rows_31 = []"
  unfolding opcode_rows_31_def by (simp add: branch_like_def)

lemma branch_named_32:
  "filter (\<lambda>row. branch_like (op_name row)) opcode_rows_32 = []"
  unfolding opcode_rows_32_def by (simp add: branch_like_def)

lemma branch_named_33:
  "filter (\<lambda>row. branch_like (op_name row)) opcode_rows_33 = []"
  unfolding opcode_rows_33_def by (simp add: branch_like_def)

lemma branch_named_34:
  "filter (\<lambda>row. branch_like (op_name row)) opcode_rows_34 = []"
  unfolding opcode_rows_34_def by (simp add: branch_like_def)

lemma branch_named_35:
  "filter (\<lambda>row. branch_like (op_name row)) opcode_rows_35 = [aarch64_opcode_new ''bfm'' 0x33000000 0x7f800000 C_Bitfield (Op4 O_Rd O_Rn O_Immr O_Imms) (F_HAS_ALIAS OR F_SF OR F_N),
      aarch64_opcode_new ''bfi'' 0x33000000 0x7f800000 C_Bitfield (Op4 O_Rd O_Rn O_Imm O_Width) (F_ALIAS OR F_P1 OR F_CONV),
      aarch64_opcode_new ''bfc'' 0x330003e0 0x7f8003e0 C_Bitfield (Op3 O_Rd O_Imm O_Width) (F_ALIAS OR F_P2 OR F_CONV),
      aarch64_opcode_new ''bfxil'' 0x33000000 0x7f800000 C_Bitfield (Op4 O_Rd O_Rn O_Imm O_Width) (F_ALIAS OR F_P1 OR F_CONV),
      aarch64_opcode_new ''b'' 0x14000000 0xfc000000 C_BranchImm (Op1 O_AddrPcrel26) 0,
      aarch64_opcode_new ''bl'' 0x94000000 0xfc000000 C_BranchImm (Op1 O_AddrPcrel26) 0,
      aarch64_opcode_new ''br'' 0xd61f0000 0xfffffc1f C_BranchReg (Op1 O_Rn) 0,
      aarch64_opcode_new ''blr'' 0xd63f0000 0xfffffc1f C_BranchReg (Op1 O_Rn) 0,
      aarch64_opcode_new ''ret'' 0xd65f0000 0xfffffc1f C_BranchReg (Op1 O_Rn) (F_OPD0_OPT OR F_DEFAULT 30),
      aarch64_opcode_new ''braaz'' 0xd61f081f 0xfffffc1f C_BranchReg (Op1 O_Rn) 0,
      aarch64_opcode_new ''brabz'' 0xd61f0c1f 0xfffffc1f C_BranchReg (Op1 O_Rn) 0,
      aarch64_opcode_new ''blraaz'' 0xd63f081f 0xfffffc1f C_BranchReg (Op1 O_Rn) 0,
      aarch64_opcode_new ''blrabz'' 0xd63f0c1f 0xfffffc1f C_BranchReg (Op1 O_Rn) 0,
      aarch64_opcode_new ''braa'' 0xd71f0800 0xffe0fc00 C_BranchReg (Op2 O_Rn O_RmLow) 0,
      aarch64_opcode_new ''brab'' 0xd71f0c00 0xffe0fc00 C_BranchReg (Op2 O_Rn O_RmLow) 0,
      aarch64_opcode_new ''blraa'' 0xd73f0800 0xffe0fc00 C_BranchReg (Op2 O_Rn O_RmLow) 0,
      aarch64_opcode_new ''blrab'' 0xd73f0c00 0xffe0fc00 C_BranchReg (Op2 O_Rn O_RmLow) 0,
      aarch64_opcode_new ''cbz'' 0x34000000 0x7f000000 C_Compbranch (Op2 O_Rt O_AddrPcrel19) F_SF,
      aarch64_opcode_new ''cbnz'' 0x35000000 0x7f000000 C_Compbranch (Op2 O_Rt O_AddrPcrel19) F_SF,
      aarch64_opcode_new ''b.c'' 0x54000000 0xff000010 C_Condbranch (Op1 O_AddrPcrel19) F_COND]"
  unfolding opcode_rows_35_def by (simp add: branch_like_def)

lemma branch_named_36:
  "filter (\<lambda>row. branch_like (op_name row)) opcode_rows_36 = []"
  unfolding opcode_rows_36_def by (simp add: branch_like_def)

lemma branch_named_37:
  "filter (\<lambda>row. branch_like (op_name row)) opcode_rows_37 = []"
  unfolding opcode_rows_37_def by (simp add: branch_like_def)

lemma branch_named_38:
  "filter (\<lambda>row. branch_like (op_name row)) opcode_rows_38 = [aarch64_opcode_new ''brk'' 0xd4200000 0xffe0001f C_Exception (Op1 O_Exc) 0]"
  unfolding opcode_rows_38_def by (simp add: branch_like_def)

lemma branch_named_39:
  "filter (\<lambda>row. branch_like (op_name row)) opcode_rows_39 = []"
  unfolding opcode_rows_39_def by (simp add: branch_like_def)

lemma branch_named_40:
  "filter (\<lambda>row. branch_like (op_name row)) opcode_rows_40 = []"
  unfolding opcode_rows_40_def by (simp add: branch_like_def)

lemma branch_named_41:
  "filter (\<lambda>row. branch_like (op_name row)) opcode_rows_41 = []"
  unfolding opcode_rows_41_def by (simp add: branch_like_def)

lemma branch_named_42:
  "filter (\<lambda>row. branch_like (op_name row)) opcode_rows_42 = []"
  unfolding opcode_rows_42_def by (simp add: branch_like_def)

lemma branch_named_43:
  "filter (\<lambda>row. branch_like (op_name row)) opcode_rows_43 = []"
  unfolding opcode_rows_43_def by (simp add: branch_like_def)

lemma branch_named_44:
  "filter (\<lambda>row. branch_like (op_name row)) opcode_rows_44 = []"
  unfolding opcode_rows_44_def by (simp add: branch_like_def)

lemma branch_named_45:
  "filter (\<lambda>row. branch_like (op_name row)) opcode_rows_45 = []"
  unfolding opcode_rows_45_def by (simp add: branch_like_def)

lemma branch_named_46:
  "filter (\<lambda>row. branch_like (op_name row)) opcode_rows_46 = []"
  unfolding opcode_rows_46_def by (simp add: branch_like_def)

lemma branch_named_47:
  "filter (\<lambda>row. branch_like (op_name row)) opcode_rows_47 = []"
  unfolding opcode_rows_47_def by (simp add: branch_like_def)

lemma branch_named_48:
  "filter (\<lambda>row. branch_like (op_name row)) opcode_rows_48 = []"
  unfolding opcode_rows_48_def by (simp add: branch_like_def)

lemma branch_named_49:
  "filter (\<lambda>row. branch_like (op_name row)) opcode_rows_49 = []"
  unfolding opcode_rows_49_def by (simp add: branch_like_def)

lemma branch_named_50:
  "filter (\<lambda>row. branch_like (op_name row)) opcode_rows_50 = [aarch64_opcode_new ''bic'' 0x12000000 0x7f800000 C_LogImm (Op3 O_RdSp O_Rn O_Limm) (F_ALIAS OR F_PSEUDO OR F_SF)]"
  unfolding opcode_rows_50_def by (simp add: branch_like_def)

lemma branch_named_51:
  "filter (\<lambda>row. branch_like (op_name row)) opcode_rows_51 = [aarch64_opcode_new ''bic'' 0xa200000 0x7f200000 C_LogShift (Op3 O_Rd O_Rn O_RmSft) F_SF,
      aarch64_opcode_new ''bics'' 0x6a200000 0x7f200000 C_LogShift (Op3 O_Rd O_Rn O_RmSft) F_SF]"
  unfolding opcode_rows_51_def by (simp add: branch_like_def)

lemma branch_named_52:
  "filter (\<lambda>row. branch_like (op_name row)) opcode_rows_52 = []"
  unfolding opcode_rows_52_def by (simp add: branch_like_def)

lemma branch_named_53:
  "filter (\<lambda>row. branch_like (op_name row)) opcode_rows_53 = []"
  unfolding opcode_rows_53_def by (simp add: branch_like_def)

lemma branch_named_54:
  "filter (\<lambda>row. branch_like (op_name row)) opcode_rows_54 = []"
  unfolding opcode_rows_54_def by (simp add: branch_like_def)

lemma branch_named_55:
  "filter (\<lambda>row. branch_like (op_name row)) opcode_rows_55 = []"
  unfolding opcode_rows_55_def by (simp add: branch_like_def)

lemma branch_named_56:
  "filter (\<lambda>row. branch_like (op_name row)) opcode_rows_56 = []"
  unfolding opcode_rows_56_def by (simp add: branch_like_def)

lemma branch_named_57:
  "filter (\<lambda>row. branch_like (op_name row)) opcode_rows_57 = []"
  unfolding opcode_rows_57_def by (simp add: branch_like_def)

lemma branch_named_58:
  "filter (\<lambda>row. branch_like (op_name row)) opcode_rows_58 = []"
  unfolding opcode_rows_58_def by (simp add: branch_like_def)

lemma branch_named_59:
  "filter (\<lambda>row. branch_like (op_name row)) opcode_rows_59 = []"
  unfolding opcode_rows_59_def by (simp add: branch_like_def)

lemma branch_named_60:
  "filter (\<lambda>row. branch_like (op_name row)) opcode_rows_60 = []"
  unfolding opcode_rows_60_def by (simp add: branch_like_def)

lemma branch_named_61:
  "filter (\<lambda>row. branch_like (op_name row)) opcode_rows_61 = [aarch64_opcode_new ''adr'' 0x10000000 0x9f000000 C_Pcreladdr (Op2 O_Rd O_AddrPcrel21) 0,
      aarch64_opcode_new ''adrp'' 0x90000000 0x9f000000 C_Pcreladdr (Op2 O_Rd O_AddrAdrp) 0,
      aarch64_opcode_new ''nop'' 0xd503201f 0xffffffff C_IcSystem Op0 F_ALIAS]"
  unfolding opcode_rows_61_def by (simp add: branch_like_def)

lemma branch_named_62:
  "filter (\<lambda>row. branch_like (op_name row)) opcode_rows_62 = [aarch64_opcode_new ''tbz'' 0x36000000 0x7f000000 C_Testbranch (Op3 O_Rt O_BitNum O_AddrPcrel14) 0,
      aarch64_opcode_new ''tbnz'' 0x37000000 0x7f000000 C_Testbranch (Op3 O_Rt O_BitNum O_AddrPcrel14) 0,
      aarch64_opcode_new ''beq'' 0x54000000 0xff00001f C_Condbranch (Op1 O_AddrPcrel19) (F_ALIAS OR F_PSEUDO),
      aarch64_opcode_new ''bne'' 0x54000001 0xff00001f C_Condbranch (Op1 O_AddrPcrel19) (F_ALIAS OR F_PSEUDO),
      aarch64_opcode_new ''bcs'' 0x54000002 0xff00001f C_Condbranch (Op1 O_AddrPcrel19) (F_ALIAS OR F_PSEUDO),
      aarch64_opcode_new ''bhs'' 0x54000002 0xff00001f C_Condbranch (Op1 O_AddrPcrel19) (F_ALIAS OR F_PSEUDO),
      aarch64_opcode_new ''bcc'' 0x54000003 0xff00001f C_Condbranch (Op1 O_AddrPcrel19) (F_ALIAS OR F_PSEUDO),
      aarch64_opcode_new ''blo'' 0x54000003 0xff00001f C_Condbranch (Op1 O_AddrPcrel19) (F_ALIAS OR F_PSEUDO)]"
  unfolding opcode_rows_62_def by (simp add: branch_like_def)

lemma branch_named_63:
  "filter (\<lambda>row. branch_like (op_name row)) opcode_rows_63 = [aarch64_opcode_new ''bmi'' 0x54000004 0xff00001f C_Condbranch (Op1 O_AddrPcrel19) (F_ALIAS OR F_PSEUDO),
      aarch64_opcode_new ''bpl'' 0x54000005 0xff00001f C_Condbranch (Op1 O_AddrPcrel19) (F_ALIAS OR F_PSEUDO),
      aarch64_opcode_new ''bvs'' 0x54000006 0xff00001f C_Condbranch (Op1 O_AddrPcrel19) (F_ALIAS OR F_PSEUDO),
      aarch64_opcode_new ''bvc'' 0x54000007 0xff00001f C_Condbranch (Op1 O_AddrPcrel19) (F_ALIAS OR F_PSEUDO),
      aarch64_opcode_new ''bhi'' 0x54000008 0xff00001f C_Condbranch (Op1 O_AddrPcrel19) (F_ALIAS OR F_PSEUDO),
      aarch64_opcode_new ''bls'' 0x54000009 0xff00001f C_Condbranch (Op1 O_AddrPcrel19) (F_ALIAS OR F_PSEUDO),
      aarch64_opcode_new ''bge'' 0x5400000a 0xff00001f C_Condbranch (Op1 O_AddrPcrel19) (F_ALIAS OR F_PSEUDO),
      aarch64_opcode_new ''blt'' 0x5400000b 0xff00001f C_Condbranch (Op1 O_AddrPcrel19) (F_ALIAS OR F_PSEUDO),
      aarch64_opcode_new ''bgt'' 0x5400000c 0xff00001f C_Condbranch (Op1 O_AddrPcrel19) (F_ALIAS OR F_PSEUDO),
      aarch64_opcode_new ''ble'' 0x5400000d 0xff00001f C_Condbranch (Op1 O_AddrPcrel19) (F_ALIAS OR F_PSEUDO)]"
  unfolding opcode_rows_63_def by (simp add: branch_like_def)

definition branch_named_table :: "aarch64_opcode list" where
  "branch_named_table =
     [aarch64_opcode_new ''bic'' 0x2f001400 0xbff89c00 C_Asimdimm (Op2 O_Vd O_SimdImmSft) F_SIZEQ,
      aarch64_opcode_new ''bic'' 0x2f009400 0xbff8dc00 C_Asimdimm (Op2 O_Vd O_SimdImmSft) F_SIZEQ,
      aarch64_opcode_new ''not'' 0x2e205800 0xbffffc00 C_Asimdmisc (Op2 O_Vd O_Vn) (F_SIZEQ OR F_HAS_ALIAS),
      aarch64_opcode_new ''bic'' 0xe601c00 0xbfe0fc00 C_Asimdsame (Op3 O_Vd O_Vn O_Vm) F_SIZEQ,
      aarch64_opcode_new ''bsl'' 0x2e601c00 0xbfe0fc00 C_Asimdsame (Op3 O_Vd O_Vn O_Vm) F_SIZEQ,
      aarch64_opcode_new ''bit'' 0x2ea01c00 0xbfe0fc00 C_Asimdsame (Op3 O_Vd O_Vn O_Vm) F_SIZEQ,
      aarch64_opcode_new ''bif'' 0x2ee01c00 0xbfe0fc00 C_Asimdsame (Op3 O_Vd O_Vn O_Vm) F_SIZEQ,
      aarch64_opcode_new ''tbl'' 0xe000000 0xbfe09c00 C_Asimdtbl (Op3 O_Vd O_Lvn O_Vm) F_SIZEQ,
      aarch64_opcode_new ''tbx'' 0xe001000 0xbfe09c00 C_Asimdtbl (Op3 O_Vd O_Lvn O_Vm) F_SIZEQ,
      aarch64_opcode_new ''bfm'' 0x33000000 0x7f800000 C_Bitfield (Op4 O_Rd O_Rn O_Immr O_Imms) (F_HAS_ALIAS OR F_SF OR F_N),
      aarch64_opcode_new ''bfi'' 0x33000000 0x7f800000 C_Bitfield (Op4 O_Rd O_Rn O_Imm O_Width) (F_ALIAS OR F_P1 OR F_CONV),
      aarch64_opcode_new ''bfc'' 0x330003e0 0x7f8003e0 C_Bitfield (Op3 O_Rd O_Imm O_Width) (F_ALIAS OR F_P2 OR F_CONV),
      aarch64_opcode_new ''bfxil'' 0x33000000 0x7f800000 C_Bitfield (Op4 O_Rd O_Rn O_Imm O_Width) (F_ALIAS OR F_P1 OR F_CONV),
      aarch64_opcode_new ''b'' 0x14000000 0xfc000000 C_BranchImm (Op1 O_AddrPcrel26) 0,
      aarch64_opcode_new ''bl'' 0x94000000 0xfc000000 C_BranchImm (Op1 O_AddrPcrel26) 0,
      aarch64_opcode_new ''br'' 0xd61f0000 0xfffffc1f C_BranchReg (Op1 O_Rn) 0,
      aarch64_opcode_new ''blr'' 0xd63f0000 0xfffffc1f C_BranchReg (Op1 O_Rn) 0,
      aarch64_opcode_new ''ret'' 0xd65f0000 0xfffffc1f C_BranchReg (Op1 O_Rn) (F_OPD0_OPT OR F_DEFAULT 30),
      aarch64_opcode_new ''braaz'' 0xd61f081f 0xfffffc1f C_BranchReg (Op1 O_Rn) 0,
      aarch64_opcode_new ''brabz'' 0xd61f0c1f 0xfffffc1f C_BranchReg (Op1 O_Rn) 0,
      aarch64_opcode_new ''blraaz'' 0xd63f081f 0xfffffc1f C_BranchReg (Op1 O_Rn) 0,
      aarch64_opcode_new ''blrabz'' 0xd63f0c1f 0xfffffc1f C_BranchReg (Op1 O_Rn) 0,
      aarch64_opcode_new ''braa'' 0xd71f0800 0xffe0fc00 C_BranchReg (Op2 O_Rn O_RmLow) 0,
      aarch64_opcode_new ''brab'' 0xd71f0c00 0xffe0fc00 C_BranchReg (Op2 O_Rn O_RmLow) 0,
      aarch64_opcode_new ''blraa'' 0xd73f0800 0xffe0fc00 C_BranchReg (Op2 O_Rn O_RmLow) 0,
      aarch64_opcode_new ''blrab'' 0xd73f0c00 0xffe0fc00 C_BranchReg (Op2 O_Rn O_RmLow) 0,
      aarch64_opcode_new ''cbz'' 0x34000000 0x7f000000 C_Compbranch (Op2 O_Rt O_AddrPcrel19) F_SF,
      aarch64_opcode_new ''cbnz'' 0x35000000 0x7f000000 C_Compbranch (Op2 O_Rt O_AddrPcrel19) F_SF,
      aarch64_opcode_new ''b.c'' 0x54000000 0xff000010 C_Condbranch (Op1 O_AddrPcrel19) F_COND,
      aarch64_opcode_new ''brk'' 0xd4200000 0xffe0001f C_Exception (Op1 O_Exc) 0,
      aarch64_opcode_new ''bic'' 0x12000000 0x7f800000 C_LogImm (Op3 O_RdSp O_Rn O_Limm) (F_ALIAS OR F_PSEUDO OR F_SF),
      aarch64_opcode_new ''bic'' 0xa200000 0x7f200000 C_LogShift (Op3 O_Rd O_Rn O_RmSft) F_SF,
      aarch64_opcode_new ''bics'' 0x6a200000 0x7f200000 C_LogShift (Op3 O_Rd O_Rn O_RmSft) F_SF,
      aarch64_opcode_new ''adr'' 0x10000000 0x9f000000 C_Pcreladdr (Op2 O_Rd O_AddrPcrel21) 0,
      aarch64_opcode_new ''adrp'' 0x90000000 0x9f000000 C_Pcreladdr (Op2 O_Rd O_AddrAdrp) 0,
      aarch64_opcode_new ''nop'' 0xd503201f 0xffffffff C_IcSystem Op0 F_ALIAS,
      aarch64_opcode_new ''tbz'' 0x36000000 0x7f000000 C_Testbranch (Op3 O_Rt O_BitNum O_AddrPcrel14) 0,
      aarch64_opcode_new ''tbnz'' 0x37000000 0x7f000000 C_Testbranch (Op3 O_Rt O_BitNum O_AddrPcrel14) 0,
      aarch64_opcode_new ''beq'' 0x54000000 0xff00001f C_Condbranch (Op1 O_AddrPcrel19) (F_ALIAS OR F_PSEUDO),
      aarch64_opcode_new ''bne'' 0x54000001 0xff00001f C_Condbranch (Op1 O_AddrPcrel19) (F_ALIAS OR F_PSEUDO),
      aarch64_opcode_new ''bcs'' 0x54000002 0xff00001f C_Condbranch (Op1 O_AddrPcrel19) (F_ALIAS OR F_PSEUDO),
      aarch64_opcode_new ''bhs'' 0x54000002 0xff00001f C_Condbranch (Op1 O_AddrPcrel19) (F_ALIAS OR F_PSEUDO),
      aarch64_opcode_new ''bcc'' 0x54000003 0xff00001f C_Condbranch (Op1 O_AddrPcrel19) (F_ALIAS OR F_PSEUDO),
      aarch64_opcode_new ''blo'' 0x54000003 0xff00001f C_Condbranch (Op1 O_AddrPcrel19) (F_ALIAS OR F_PSEUDO),
      aarch64_opcode_new ''bmi'' 0x54000004 0xff00001f C_Condbranch (Op1 O_AddrPcrel19) (F_ALIAS OR F_PSEUDO),
      aarch64_opcode_new ''bpl'' 0x54000005 0xff00001f C_Condbranch (Op1 O_AddrPcrel19) (F_ALIAS OR F_PSEUDO),
      aarch64_opcode_new ''bvs'' 0x54000006 0xff00001f C_Condbranch (Op1 O_AddrPcrel19) (F_ALIAS OR F_PSEUDO),
      aarch64_opcode_new ''bvc'' 0x54000007 0xff00001f C_Condbranch (Op1 O_AddrPcrel19) (F_ALIAS OR F_PSEUDO),
      aarch64_opcode_new ''bhi'' 0x54000008 0xff00001f C_Condbranch (Op1 O_AddrPcrel19) (F_ALIAS OR F_PSEUDO),
      aarch64_opcode_new ''bls'' 0x54000009 0xff00001f C_Condbranch (Op1 O_AddrPcrel19) (F_ALIAS OR F_PSEUDO),
      aarch64_opcode_new ''bge'' 0x5400000a 0xff00001f C_Condbranch (Op1 O_AddrPcrel19) (F_ALIAS OR F_PSEUDO),
      aarch64_opcode_new ''blt'' 0x5400000b 0xff00001f C_Condbranch (Op1 O_AddrPcrel19) (F_ALIAS OR F_PSEUDO),
      aarch64_opcode_new ''bgt'' 0x5400000c 0xff00001f C_Condbranch (Op1 O_AddrPcrel19) (F_ALIAS OR F_PSEUDO),
      aarch64_opcode_new ''ble'' 0x5400000d 0xff00001f C_Condbranch (Op1 O_AddrPcrel19) (F_ALIAS OR F_PSEUDO)]"

lemma filter_branch_named: "filter (\<lambda>row. branch_like (op_name row)) aarch64_opcode_table = branch_named_table"
  unfolding aarch64_opcode_table_def branch_named_table_def filter_append
    branch_named_1 branch_named_2 branch_named_3 branch_named_4 branch_named_5 branch_named_6
    branch_named_7 branch_named_8 branch_named_9 branch_named_10 branch_named_11 branch_named_12
    branch_named_13 branch_named_14 branch_named_15 branch_named_16 branch_named_17 branch_named_18
    branch_named_19 branch_named_20 branch_named_21 branch_named_22 branch_named_23 branch_named_24
    branch_named_25 branch_named_26 branch_named_27 branch_named_28 branch_named_29 branch_named_30
    branch_named_31 branch_named_32 branch_named_33 branch_named_34 branch_named_35 branch_named_36
    branch_named_37 branch_named_38 branch_named_39 branch_named_40 branch_named_41 branch_named_42
    branch_named_43 branch_named_44 branch_named_45 branch_named_46 branch_named_47 branch_named_48
    branch_named_49 branch_named_50 branch_named_51 branch_named_52 branch_named_53 branch_named_54
    branch_named_55 branch_named_56 branch_named_57 branch_named_58 branch_named_59 branch_named_60
    branch_named_61 branch_named_62 branch_named_63
    append.simps ..

end
