(* ===== verification/A64_Operand.thy ===== *)
theory A64_Operand
  imports A64_Opcode "HOL-Library.Signed_Division"
begin

text \<open>
  The operand model of the AArch64 decoder (\<open>src/src/isa/aarch64/operand.rs\<close>): registers, vector
  registers and lists, shifted and extended registers, memory operands, and the enum
  \<open>DecodedOperand\<close>, with the two error enums and the contexts a codec receives. The text
  forms of numbers that some operands use are here too: Rust's \<open>{}\<close> and \<open>{:x}\<close> of an
  unsigned integer and \<open>u8::from_str_radix\<close>.
\<close>

section \<open>Registers\<close>

datatype register_class = RC_B | RC_H | RC_S | RC_D | RC_Q | RC_W | RC_X | RC_WOrSp | RC_XOrSp

record register =
  reg_class :: register_class
  reg_index :: u8

datatype vector_arrangement = VA_B8 | VA_B16 | VA_H4 | VA_H8 | VA_S2 | VA_S4 | VA_D1 | VA_D2

datatype vector_element_size = VS_B | VS_H | VS_S | VS_D

record vector_register =
  vr_index :: u8
  vr_arrangement :: vector_arrangement

record vector_element =
  ve_index :: u8
  ve_element :: u8
  ve_size :: vector_element_size

record vector_list =
  vl_first :: u8
  vl_count :: u8
  vl_arrangement :: vector_arrangement
  vl_element :: "u8 option"

datatype extend_kind = Uxtb | Uxth | Uxtw | Uxtx | Sxtb | Sxth | Sxtw | Sxtx

datatype shift_kind = Lsl | Lsr | Asr | Ror

record shift =
  sh_kind :: shift_kind
  sh_amount :: u8

record shifted_register =
  sr_register :: register
  sr_shift :: shift

record extended_register =
  er_register :: register
  er_extend :: extend_kind
  er_amount :: u8

record shifted_immediate =
  si_value :: i64
  si_shift :: u8

section \<open>Memory operands\<close>

datatype addressing_mode = AM_Offset | AM_PreIndex | AM_PostIndex

datatype memory_offset =
    Off_None
  | Off_Immediate i64
  | Off_Register register "shift option"

record memory_operand =
  mem_base :: register
  mem_offset :: memory_offset
  mem_mode :: addressing_mode

section \<open>Operands, errors, contexts\<close>

datatype decoded_operand =
    D_Register register
  | D_VectorRegister vector_register
  | D_VectorElement vector_element
  | D_VectorList vector_list
  | D_ShiftedRegister shifted_register
  | D_ExtendedRegister extended_register
  | D_Immediate i64
  | D_UnsignedImmediate u64
  | D_ShiftedImmediate shifted_immediate
  | D_Memory memory_operand
  | D_BranchTarget u64
  | D_PageTarget u64
  | D_System string
  | D_Condition string
  | D_FloatImmediate string
  | D_Unimplemented string

datatype decode_error = DE_NoMatchingOpcode u32 | DE_InvalidOperand string

datatype encode_error =
    EE_UnknownMnemonic string
  | EE_NoMatchingForm string
  | EE_InvalidOperand string
  | EE_Unimplemented string

record decode_context =
  dc_word :: u32
  dc_address :: u64
  dc_opcode :: aarch64_opcode
  dc_operand_index :: usize

record encode_context =
  ec_base_word :: u32
  ec_address :: u64
  ec_opcode :: aarch64_opcode

section \<open>Numbers as text\<close>

definition digit_char :: "nat \<Rightarrow> char" where
  "digit_char d = (if d < 10 then char_of (48 + d) else char_of (87 + d))"

function show_radix :: "nat \<Rightarrow> nat \<Rightarrow> string" where
  "show_radix r n =
     (if r < 2 \<or> n < r then [digit_char n] else show_radix r (n div r) @ [digit_char (n mod r)])"
  by pat_completeness auto
termination
proof (relation "measure snd", goal_cases)
  case (2 r n)
  then have "n div r < n" by (intro div_less_dividend) auto
  then show ?case by simp
qed simp

declare show_radix.simps [simp del]

text \<open>The value of a digit of \<open>char::to_digit\<close>: either case of a hexadecimal letter.\<close>

definition digit_value :: "nat \<Rightarrow> char \<Rightarrow> nat option" where
  "digit_value r c =
     (let n = of_char c;
          d = (if 48 \<le> n \<and> n \<le> 57 then n - 48
               else if 97 \<le> n \<and> n \<le> 122 then n - 87
               else if 65 \<le> n \<and> n \<le> 90 then n - 55
               else 36)
      in if d < r then Some d else None)"

fun parse_digits :: "nat \<Rightarrow> nat \<Rightarrow> string \<Rightarrow> nat option" where
  "parse_digits r acc [] = Some acc"
| "parse_digits r acc (c # cs) =
     (case digit_value r c of None \<Rightarrow> None | Some d \<Rightarrow> parse_digits r (acc * r + d) cs)"

text \<open>\<open>u8::from_str_radix\<close>: an optional plus sign, at least one digit, no overflow.\<close>

definition parse_u8 :: "nat \<Rightarrow> string \<Rightarrow> u8 option" where
  "parse_u8 r s =
     (let ds = (case s of c # cs \<Rightarrow> if c = CHR ''+'' then cs else s | [] \<Rightarrow> [])
      in if ds = [] then None
         else case parse_digits r 0 ds of
                None \<Rightarrow> None
              | Some n \<Rightarrow> if n < 256 then Some (word_of_nat n) else None)"

fun strip_prefix :: "string \<Rightarrow> string \<Rightarrow> string option" where
  "strip_prefix [] s = Some s"
| "strip_prefix (p # ps) [] = None"
| "strip_prefix (p # ps) (c # cs) = (if p = c then strip_prefix ps cs else None)"

text \<open>\<open>str::split\<close> on a single character.\<close>

fun split_on :: "char \<Rightarrow> string \<Rightarrow> string list" where
  "split_on sep [] = [[]]"
| "split_on sep (c # cs) =
     (if c = sep then [] # split_on sep cs
      else case split_on sep cs of [] \<Rightarrow> [[c]] | p # ps \<Rightarrow> (c # p) # ps)"

end
