(* ===== verification/A64_Decode.thy ===== *)
theory A64_Decode
  imports A64_Operand A64_Table
begin

text \<open>
  The operand decoders of \<open>src/src/isa/aarch64/operand.rs\<close>: the fields of an instruction word,
  the decoder of every operand kind built from them, and the dispatch \<open>decode_operand\<close>. The
  short field readers \<open>rd\<close>, \<open>rn\<close>, ... of the source carry the suffix \<open>_field\<close>. A Rust
  shift \<open>x >> n\<close> of an unsigned value is \<open>drop_bit\<close>, of an \<open>i64\<close> it is
  \<open>signed_drop_bit\<close>; \<open>as\<close> is \<open>ucast\<close>, and \<open>word_of_int\<close> of the signed value where the
  source widens a signed one.
\<close>

section \<open>Names of the operand kinds\<close>

primrec opnd_name :: "aarch64_opnd \<Rightarrow> string" where
  "opnd_name O_Nil = ''Nil''"
| "opnd_name O_Rd = ''Rd''"
| "opnd_name O_Rn = ''Rn''"
| "opnd_name O_Rm = ''Rm''"
| "opnd_name O_RmLow = ''RmLow''"
| "opnd_name O_Rt = ''Rt''"
| "opnd_name O_Rt2 = ''Rt2''"
| "opnd_name O_Rs = ''Rs''"
| "opnd_name O_Ra = ''Ra''"
| "opnd_name O_RtSys = ''RtSys''"
| "opnd_name O_RdSp = ''RdSp''"
| "opnd_name O_RnSp = ''RnSp''"
| "opnd_name O_Pairreg = ''Pairreg''"
| "opnd_name O_RmExt = ''RmExt''"
| "opnd_name O_RmSft = ''RmSft''"
| "opnd_name O_Fd = ''Fd''"
| "opnd_name O_Fn = ''Fn''"
| "opnd_name O_Fm = ''Fm''"
| "opnd_name O_Fa = ''Fa''"
| "opnd_name O_Ft = ''Ft''"
| "opnd_name O_Ft2 = ''Ft2''"
| "opnd_name O_Sd = ''Sd''"
| "opnd_name O_Sn = ''Sn''"
| "opnd_name O_Sm = ''Sm''"
| "opnd_name O_Vd = ''Vd''"
| "opnd_name O_Vn = ''Vn''"
| "opnd_name O_Vm = ''Vm''"
| "opnd_name O_VdD1 = ''VdD1''"
| "opnd_name O_VnD1 = ''VnD1''"
| "opnd_name O_Ed = ''Ed''"
| "opnd_name O_En = ''En''"
| "opnd_name O_Em = ''Em''"
| "opnd_name O_Lvn = ''Lvn''"
| "opnd_name O_Lvt = ''Lvt''"
| "opnd_name O_LvtAl = ''LvtAl''"
| "opnd_name O_Let = ''Let''"
| "opnd_name O_Cn = ''Cn''"
| "opnd_name O_Cm = ''Cm''"
| "opnd_name O_Idx = ''Idx''"
| "opnd_name O_ImmVlsl = ''ImmVlsl''"
| "opnd_name O_ImmVlsr = ''ImmVlsr''"
| "opnd_name O_SimdImm = ''SimdImm''"
| "opnd_name O_SimdImmSft = ''SimdImmSft''"
| "opnd_name O_SimdFpimm = ''SimdFpimm''"
| "opnd_name O_ShllImm = ''ShllImm''"
| "opnd_name O_Imm0 = ''Imm0''"
| "opnd_name O_Fpimm0 = ''Fpimm0''"
| "opnd_name O_Fpimm = ''Fpimm''"
| "opnd_name O_Immr = ''Immr''"
| "opnd_name O_Imms = ''Imms''"
| "opnd_name O_Width = ''Width''"
| "opnd_name O_Imm = ''Imm''"
| "opnd_name O_Uimm3Op1 = ''Uimm3Op1''"
| "opnd_name O_Uimm3Op2 = ''Uimm3Op2''"
| "opnd_name O_Uimm4 = ''Uimm4''"
| "opnd_name O_Uimm7 = ''Uimm7''"
| "opnd_name O_BitNum = ''BitNum''"
| "opnd_name O_Exc = ''Exc''"
| "opnd_name O_CcmpImm = ''CcmpImm''"
| "opnd_name O_Nzcv = ''Nzcv''"
| "opnd_name O_Limm = ''Limm''"
| "opnd_name O_Aimm = ''Aimm''"
| "opnd_name O_Half = ''Half''"
| "opnd_name O_Fbits = ''Fbits''"
| "opnd_name O_ImmMov = ''ImmMov''"
| "opnd_name O_Cond = ''Cond''"
| "opnd_name O_Cond1 = ''Cond1''"
| "opnd_name O_AddrAdrp = ''AddrAdrp''"
| "opnd_name O_AddrPcrel14 = ''AddrPcrel14''"
| "opnd_name O_AddrPcrel19 = ''AddrPcrel19''"
| "opnd_name O_AddrPcrel21 = ''AddrPcrel21''"
| "opnd_name O_AddrPcrel26 = ''AddrPcrel26''"
| "opnd_name O_AddrSimple = ''AddrSimple''"
| "opnd_name O_AddrRegoff = ''AddrRegoff''"
| "opnd_name O_AddrSimm7 = ''AddrSimm7''"
| "opnd_name O_AddrSimm9 = ''AddrSimm9''"
| "opnd_name O_AddrSimm92 = ''AddrSimm92''"
| "opnd_name O_AddrUimm12 = ''AddrUimm12''"
| "opnd_name O_SimdAddrSimple = ''SimdAddrSimple''"
| "opnd_name O_SimdAddrPost = ''SimdAddrPost''"
| "opnd_name O_Sysreg = ''Sysreg''"
| "opnd_name O_Pstatefield = ''Pstatefield''"
| "opnd_name O_SysregAt = ''SysregAt''"
| "opnd_name O_SysregDc = ''SysregDc''"
| "opnd_name O_SysregIc = ''SysregIc''"
| "opnd_name O_SysregTlbi = ''SysregTlbi''"
| "opnd_name O_Barrier = ''Barrier''"
| "opnd_name O_BarrierIsb = ''BarrierIsb''"
| "opnd_name O_Prfop = ''Prfop''"
| "opnd_name O_BarrierPsb = ''BarrierPsb''"

section \<open>Fields\<close>

definition rd_field :: "u32 \<Rightarrow> u8" where "rd_field word = ucast (word AND 0x1f)"
definition rn_field :: "u32 \<Rightarrow> u8" where "rn_field word = ucast (drop_bit 5 word AND 0x1f)"
definition rm_field :: "u32 \<Rightarrow> u8" where "rm_field word = ucast (drop_bit 16 word AND 0x1f)"
definition rt_field :: "u32 \<Rightarrow> u8" where "rt_field word = rd_field word"
definition rt2_field :: "u32 \<Rightarrow> u8" where "rt2_field word = ucast (drop_bit 10 word AND 0x1f)"
definition rs_field :: "u32 \<Rightarrow> u8" where "rs_field word = ucast (drop_bit 16 word AND 0x1f)"
definition ra_field :: "u32 \<Rightarrow> u8" where "ra_field word = ucast (drop_bit 10 word AND 0x1f)"
definition cn_field :: "u32 \<Rightarrow> u8" where "cn_field word = ucast (drop_bit 12 word AND 0xf)"
definition cm_field :: "u32 \<Rightarrow> u8" where "cm_field word = ucast (drop_bit 8 word AND 0xf)"

section \<open>Registers\<close>

definition x_reg :: "u8 \<Rightarrow> register" where "x_reg reg = \<lparr>reg_class = RC_X, reg_index = reg\<rparr>"
definition w_reg :: "u8 \<Rightarrow> register" where "w_reg reg = \<lparr>reg_class = RC_W, reg_index = reg\<rparr>"
definition x_or_sp :: "u8 \<Rightarrow> register" where "x_or_sp reg = \<lparr>reg_class = RC_XOrSp, reg_index = reg\<rparr>"

definition gp_reg :: "u8 \<Rightarrow> u32 \<Rightarrow> register" where
  "gp_reg reg word = (if drop_bit 31 word AND 1 = 0 then w_reg reg else x_reg reg)"

definition gp_or_sp :: "u8 \<Rightarrow> u32 \<Rightarrow> register" where
  "gp_or_sp reg word =
     (if drop_bit 31 word AND 1 = 0 then \<lparr>reg_class = RC_WOrSp, reg_index = reg\<rparr> else x_or_sp reg)"

definition has_32_bit_multiply_inputs :: "string \<Rightarrow> bool" where
  "has_32_bit_multiply_inputs m =
     (m \<in> {''smaddl'', ''smsubl'', ''smull'', ''smnegl'', ''umaddl'', ''umsubl'', ''umull'', ''umnegl''})"

definition is_crc32 :: "string \<Rightarrow> bool" where
  "is_crc32 m =
     (m \<in> {''crc32b'', ''crc32h'', ''crc32w'', ''crc32x'', ''crc32cb'', ''crc32ch'', ''crc32cw'', ''crc32cx''})"

definition is_32_bit_crc32_source :: "string \<Rightarrow> bool" where
  "is_32_bit_crc32_source m =
     (m \<in> {''crc32b'', ''crc32h'', ''crc32w'', ''crc32cb'', ''crc32ch'', ''crc32cw''})"

definition is_casp :: "string \<Rightarrow> bool" where
  "is_casp m = (m \<in> {''casp'', ''caspa'', ''caspl'', ''caspal''})"

definition lse_pair_reg :: "u8 \<Rightarrow> u32 \<Rightarrow> register" where
  "lse_pair_reg reg word = (if drop_bit 30 word AND 1 = 0 then w_reg reg else x_reg reg)"

definition pair_reg :: "u32 \<Rightarrow> aarch64_opcode \<Rightarrow> usize \<Rightarrow> register" where
  "pair_reg word opcode operand_index =
     (let even = (if operand_index = 1 then rs_field word
                  else if operand_index = 3 then rt_field word
                  else 31)
      in lse_pair_reg (even + 1) word)"

definition fp_ldst_width :: "u32 \<Rightarrow> register_class \<times> u32" where
  "fp_ldst_width word =
     (let size = drop_bit 30 word AND 0x3;
          opc1 = drop_bit 23 word AND 0x1;
          sel = push_bit 2 opc1 OR size
      in if sel = 0 then (RC_B, 0)
         else if sel = 1 then (RC_H, 1)
         else if sel = 2 then (RC_S, 2)
         else if sel = 3 then (RC_D, 3)
         else (RC_Q, 4))"

definition fp_ldst_reg :: "u8 \<Rightarrow> u32 \<Rightarrow> register" where
  "fp_ldst_reg reg word = \<lparr>reg_class = fst (fp_ldst_width word), reg_index = reg\<rparr>"

definition fp_reg :: "u8 \<Rightarrow> u32 \<Rightarrow> register" where
  "fp_reg reg word =
     \<lparr>reg_class = (if drop_bit 22 word AND 0x3 = 1 then RC_D else RC_S), reg_index = reg\<rparr>"

definition fp_load_store_reg :: "u8 \<Rightarrow> u32 \<Rightarrow> register" where
  "fp_load_store_reg reg word =
     \<lparr>reg_class = (if drop_bit 30 word AND 0x3 = 0 then RC_S
                   else if drop_bit 30 word AND 0x3 = 1 then RC_D else RC_Q),
      reg_index = reg\<rparr>"

definition ft_reg :: "u8 \<Rightarrow> u32 \<Rightarrow> aarch64_opcode \<Rightarrow> register" where
  "ft_reg reg word opcode =
     (if op_iclass opcode \<in> {C_LdstnapairOffs, C_LdstpairOff, C_LdstpairIndexed}
      then fp_load_store_reg reg word else fp_ldst_reg reg word)"

definition rt_reg :: "u32 \<Rightarrow> aarch64_opcode \<Rightarrow> register" where
  "rt_reg word opcode =
     (let m = op_name opcode; r = rt_field word in
      if is_casp m then lse_pair_reg r word
      else if m \<in> {''cbz'', ''cbnz''} then gp_reg r word
      else if m \<in> {''str'', ''ldr''} \<and> drop_bit 26 word AND 0x3f = 0x3d then fp_ldst_reg r word
      else if m = ''ldr'' \<and> drop_bit 31 word AND 1 = 0 \<and> drop_bit 30 word AND 1 = 0 then w_reg r
      else if m \<in> {''str'', ''ldr''} \<and> drop_bit 30 word AND 0x3 = 2 then w_reg r
      else if m \<in> {''strb'', ''ldrb'', ''strh'', ''ldrh'', ''sturb'', ''ldurb'', ''sturh'', ''ldurh''}
        then w_reg r
      else if m \<in> {''stur'', ''ldur''} \<and> drop_bit 30 word AND 0x3 = 2 then w_reg r
      else x_reg r)"

definition rs_reg :: "u32 \<Rightarrow> aarch64_opcode \<Rightarrow> register" where
  "rs_reg word opcode =
     (if is_casp (op_name opcode) then lse_pair_reg (rs_field word) word else w_reg (rs_field word))"

definition rt_sys_reg :: "u32 \<Rightarrow> register" where
  "rt_sys_reg word = x_reg (rt_field word)"

section \<open>Vector registers\<close>

definition element_size_from_imm5 :: "u32 \<Rightarrow> vector_element_size" where
  "element_size_from_imm5 imm5 =
     (if bit imm5 0 then VS_B else if bit imm5 1 then VS_H else if bit imm5 2 then VS_S else VS_D)"

primrec element_size_shift :: "vector_element_size \<Rightarrow> nat" where
  "element_size_shift VS_B = 0"
| "element_size_shift VS_H = 1"
| "element_size_shift VS_S = 2"
| "element_size_shift VS_D = 3"

primrec element_size_bytes :: "vector_element_size \<Rightarrow> i64" where
  "element_size_bytes VS_B = 1"
| "element_size_bytes VS_H = 2"
| "element_size_bytes VS_S = 4"
| "element_size_bytes VS_D = 8"

primrec arrangement_for_element_size :: "vector_element_size \<Rightarrow> vector_arrangement" where
  "arrangement_for_element_size VS_B = VA_B8"
| "arrangement_for_element_size VS_H = VA_H4"
| "arrangement_for_element_size VS_S = VA_S2"
| "arrangement_for_element_size VS_D = VA_D1"

definition arrangement_from_element_size_and_q :: "vector_element_size \<Rightarrow> u32 \<Rightarrow> vector_arrangement" where
  "arrangement_from_element_size_and_q sz word =
     (let q = (drop_bit 30 word AND 1 \<noteq> 0) in
      case sz of
        VS_B \<Rightarrow> if q then VA_B16 else VA_B8
      | VS_H \<Rightarrow> if q then VA_H8 else VA_H4
      | VS_S \<Rightarrow> if q then VA_S4 else VA_S2
      | VS_D \<Rightarrow> if q then VA_D2 else VA_D1)"

definition vector_arrangement_from_parts :: "u32 \<Rightarrow> u32 \<Rightarrow> vector_arrangement" where
  "vector_arrangement_from_parts q sz =
     (if q = 0 \<and> sz = 0 then VA_B8
      else if q = 1 \<and> sz = 0 then VA_B16
      else if q = 0 \<and> sz = 1 then VA_H4
      else if q = 1 \<and> sz = 1 then VA_H8
      else if q = 0 \<and> sz = 2 then VA_S2
      else if q = 1 \<and> sz = 2 then VA_S4
      else if q = 0 \<and> sz = 3 then VA_D1
      else VA_D2)"

definition vector_arrangement_of :: "u32 \<Rightarrow> vector_arrangement" where
  "vector_arrangement_of word =
     vector_arrangement_from_parts (drop_bit 30 word AND 0x1) (drop_bit 22 word AND 0x3)"

definition shll_arrangement :: "u32 \<Rightarrow> vector_arrangement" where
  "shll_arrangement word =
     (let size = drop_bit 22 word AND 0x3
      in if size = 0 then VA_H8 else if size = 1 then VA_S4 else VA_D2)"

definition simd_modified_immediate_arrangement :: "u32 \<Rightarrow> vector_arrangement" where
  "simd_modified_immediate_arrangement word =
     (let q = drop_bit 30 word AND 0x1;
          opb = drop_bit 29 word AND 0x1;
          cmode = drop_bit 12 word AND 0xf
      in if 0x8 \<le> cmode \<and> cmode \<le> 0xb then vector_arrangement_from_parts q 1
         else if cmode = 0xe \<and> opb = 0 then vector_arrangement_from_parts q 0
         else if cmode = 0xf \<and> opb = 1 then VA_D2
         else vector_arrangement_from_parts q 2)"

definition vector_shift_arrangement :: "u32 \<Rightarrow> vector_arrangement" where
  "vector_shift_arrangement word =
     (let q = drop_bit 30 word AND 1;
          immh = drop_bit 19 word AND 0xf;
          size = (if immh = 1 then 0 else if immh = 2 \<or> immh = 3 then 1
                  else if 4 \<le> immh \<and> immh \<le> 7 then 2 else 3)
      in vector_arrangement_from_parts q size)"

definition vector_reg :: "u8 \<Rightarrow> u32 \<Rightarrow> aarch64_opcode \<Rightarrow> vector_register" where
  "vector_reg reg word opcode =
     \<lparr>vr_index = reg,
      vr_arrangement =
        (if op_iclass opcode = C_Asimdimm then simd_modified_immediate_arrangement word
         else if op_iclass opcode = C_Asimdins \<and> op_name opcode = ''dup'' then
           arrangement_from_element_size_and_q (element_size_from_imm5 (drop_bit 16 word AND 0x1f)) word
         else if op_iclass opcode = C_Asimdshf then vector_shift_arrangement word
         else if op_name opcode = ''shll'' then shll_arrangement word
         else vector_arrangement_of word)\<rparr>"

definition vector_list_of :: "u32 \<Rightarrow> vector_list" where
  "vector_list_of word =
     \<lparr>vl_first = rn_field word, vl_count = ucast ((drop_bit 13 word AND 0x3) + 1),
      vl_arrangement = vector_arrangement_of word, vl_element = None\<rparr>"

definition simd_ldst_list :: "u32 \<Rightarrow> vector_list" where
  "simd_ldst_list word =
     \<lparr>vl_first = rt_field word,
      vl_count = ucast (case simd_ldst_list_count word of None \<Rightarrow> 1 | Some n \<Rightarrow> n),
      vl_arrangement = vector_arrangement_from_parts (drop_bit 30 word AND 0x1) (drop_bit 10 word AND 0x3),
      vl_element = None\<rparr>"

definition simd_ldst_element_count :: "string \<Rightarrow> u8" where
  "simd_ldst_element_count m =
     (if m \<in> {''ld2'', ''st2''} then 2 else if m \<in> {''ld3'', ''st3''} then 3
      else if m \<in> {''ld4'', ''st4''} then 4 else 1)"

definition simd_ldst_element :: "u32 \<Rightarrow> vector_element_size \<times> u8" where
  "simd_ldst_element word =
     (let q = ucast (drop_bit 30 word AND 1) :: u8;
          s = ucast (drop_bit 12 word AND 1) :: u8;
          size = ucast (drop_bit 10 word AND 0x3) :: u8
      in if size = 3 then (VS_B, push_bit 3 q OR push_bit 2 s OR ucast (drop_bit 10 word AND 0x3))
         else if size = 2 then (VS_H, push_bit 2 q OR push_bit 1 s OR ucast (drop_bit 11 word AND 1))
         else if size = 0 then (VS_S, push_bit 1 q OR s)
         else (VS_D, q))"

definition simd_ldst_element_list :: "u32 \<Rightarrow> aarch64_opcode \<Rightarrow> vector_list" where
  "simd_ldst_element_list word opcode =
     (let (size, element) = simd_ldst_element word
      in \<lparr>vl_first = rt_field word, vl_count = simd_ldst_element_count (op_name opcode),
          vl_arrangement = arrangement_for_element_size size, vl_element = Some element\<rparr>)"

definition simd_scalar_reg :: "u8 \<Rightarrow> u32 \<Rightarrow> aarch64_opcode \<Rightarrow> register" where
  "simd_scalar_reg reg word opcode =
     \<lparr>reg_class =
        (if op_iclass opcode = C_Asimdimm then RC_D
         else let size = drop_bit 22 word AND 0x3
              in if size = 0 then RC_B else if size = 1 then RC_H else if size = 2 then RC_S else RC_D),
      reg_index = reg\<rparr>"

definition element_from_imm5 :: "u8 \<Rightarrow> u32 \<Rightarrow> vector_element" where
  "element_from_imm5 index imm5 =
     (let size = element_size_from_imm5 imm5
      in \<lparr>ve_index = index, ve_element = ucast (drop_bit (element_size_shift size + 1) imm5),
          ve_size = size\<rparr>)"

definition ed_element :: "u32 \<Rightarrow> vector_element" where
  "ed_element word = element_from_imm5 (rd_field word) (drop_bit 16 word AND 0x1f)"

definition first_operand_is :: "aarch64_opcode \<Rightarrow> aarch64_opnd \<Rightarrow> bool" where
  "first_operand_is opcode kind = (case opcode_operands opcode of [] \<Rightarrow> False | k # _ \<Rightarrow> k = kind)"

definition en_element :: "u32 \<Rightarrow> aarch64_opcode \<Rightarrow> vector_element" where
  "en_element word opcode =
     (let size = element_size_from_imm5 (drop_bit 16 word AND 0x1f);
          element =
            (if first_operand_is opcode O_Ed
             then ucast (drop_bit (element_size_shift size) (drop_bit 11 word AND 0xf))
             else if size = VS_B then ucast (drop_bit 1 (drop_bit 16 word AND 0x1f))
             else ucast (drop_bit (element_size_shift size + 1) (drop_bit 16 word AND 0x1f)))
      in \<lparr>ve_index = rn_field word, ve_element = element, ve_size = size\<rparr>)"

definition em_element :: "u32 \<Rightarrow> vector_element" where
  "em_element word =
     (let size = (if drop_bit 22 word AND 0x3 = 1 then VS_H else VS_S);
          h = ucast (drop_bit 11 word AND 1) :: u8;
          l = ucast (drop_bit 21 word AND 1) :: u8;
          m = ucast (drop_bit 20 word AND 1) :: u8
      in \<lparr>ve_index = rm_field word,
          ve_element = (case size of
                          VS_H \<Rightarrow> push_bit 2 h OR push_bit 1 l OR m
                        | VS_S \<Rightarrow> push_bit 1 h OR l
                        | VS_D \<Rightarrow> h
                        | VS_B \<Rightarrow> 0),
          ve_size = size\<rparr>)"

definition rd_reg :: "u32 \<Rightarrow> aarch64_opcode \<Rightarrow> register" where
  "rd_reg word opcode =
     (let m = op_name opcode; r = rd_field word in
      if m \<in> {''adr'', ''adrp''} then x_reg r
      else if is_crc32 m then w_reg r
      else if m \<in> {''mov'', ''umov'', ''smov''} \<and> op_iclass opcode = C_Asimdins
        then (if element_size_from_imm5 (drop_bit 16 word AND 0x1f) = VS_D then x_reg r else w_reg r)
      else gp_reg r word)"

definition rn_reg :: "u32 \<Rightarrow> aarch64_opcode \<Rightarrow> register" where
  "rn_reg word opcode =
     (if has_32_bit_multiply_inputs (op_name opcode) \<or> is_crc32 (op_name opcode)
      then w_reg (rn_field word) else gp_reg (rn_field word) word)"

definition rm_reg :: "u32 \<Rightarrow> aarch64_opcode \<Rightarrow> register" where
  "rm_reg word opcode =
     (if has_32_bit_multiply_inputs (op_name opcode) \<or> is_32_bit_crc32_source (op_name opcode)
      then w_reg (rm_field word) else gp_reg (rm_field word) word)"

definition ra_reg :: "u32 \<Rightarrow> aarch64_opcode \<Rightarrow> register" where
  "ra_reg word opcode = gp_reg (ra_field word) word"

definition rm_shifted :: "u32 \<Rightarrow> shifted_register" where
  "rm_shifted word =
     (let k = drop_bit 22 word AND 0x3
      in \<lparr>sr_register = gp_reg (rm_field word) word,
          sr_shift = \<lparr>sh_kind = (if k = 0 then Lsl else if k = 1 then Lsr else if k = 2 then Asr else Ror),
                      sh_amount = ucast (drop_bit 10 word AND 0x3f)\<rparr>\<rparr>)"

definition rm_extended :: "u32 \<Rightarrow> extended_register" where
  "rm_extended word =
     (let k = drop_bit 13 word AND 0x7;
          extend = (if k = 0 then Uxtb else if k = 1 then Uxth else if k = 2 then Uxtw
                    else if k = 3 then Uxtx else if k = 4 then Sxtb else if k = 5 then Sxth
                    else if k = 6 then Sxtw else Sxtx)
      in \<lparr>er_register = (if extend \<in> {Uxtx, Sxtx} then x_reg (rm_field word) else w_reg (rm_field word)),
          er_extend = extend, er_amount = ucast (drop_bit 10 word AND 0x7)\<rparr>)"

section \<open>Immediates\<close>

definition sign_extend :: "i64 \<Rightarrow> nat \<Rightarrow> i64" where
  "sign_extend value bits = signed_drop_bit (64 - bits) (push_bit (64 - bits) value)"

definition fbits_field :: "u32 \<Rightarrow> i64" where
  "fbits_field word = 64 - ucast (drop_bit 10 word AND 0x3f)"

definition immr_field :: "u32 \<Rightarrow> i64" where
  "immr_field word = ucast (drop_bit 16 word AND 0x3f)"

definition imms_field :: "u32 \<Rightarrow> i64" where
  "imms_field word = ucast (drop_bit 10 word AND 0x3f)"

definition bit_num :: "u32 \<Rightarrow> i64" where
  "bit_num word = ucast (push_bit 5 (drop_bit 31 word AND 1) OR (drop_bit 19 word AND 0x1f))"

definition exc_field :: "u32 \<Rightarrow> i64" where "exc_field word = ucast (drop_bit 5 word AND 0xffff)"
definition ccmp_imm :: "u32 \<Rightarrow> i64" where "ccmp_imm word = ucast (drop_bit 16 word AND 0x1f)"
definition nzcv_field :: "u32 \<Rightarrow> i64" where "nzcv_field word = ucast (word AND 0xf)"
definition uimm3_op1 :: "u32 \<Rightarrow> i64" where "uimm3_op1 word = ucast (drop_bit 16 word AND 0x7)"
definition uimm3_op2 :: "u32 \<Rightarrow> i64" where "uimm3_op2 word = ucast (drop_bit 5 word AND 0x7)"
definition uimm4 :: "u32 \<Rightarrow> i64" where "uimm4 word = ucast (drop_bit 8 word AND 0xf)"

definition uimm7 :: "u32 \<Rightarrow> i64" where
  "uimm7 word = ucast (push_bit 3 (drop_bit 8 word AND 0xf) OR (drop_bit 5 word AND 0x7))"

definition shll_imm :: "u32 \<Rightarrow> i64" where
  "shll_imm word = push_bit (unat (drop_bit 22 word AND 0x3)) 8"

definition idx_field :: "u32 \<Rightarrow> i64" where
  "idx_field word = ucast (drop_bit 11 word AND (if drop_bit 30 word AND 1 = 0 then 0x7 else 0xf))"

definition vector_shift_element_width :: "u32 \<Rightarrow> u32" where
  "vector_shift_element_width immh =
     (if immh = 1 then 8 else if immh = 2 \<or> immh = 3 then 16
      else if 4 \<le> immh \<and> immh \<le> 7 then 32 else 64)"

definition imm_vlsl :: "u32 \<Rightarrow> i64" where
  "imm_vlsl word =
     (let immh = drop_bit 19 word AND 0xf; immb = drop_bit 16 word AND 0x7; imm = push_bit 3 immh OR immb
      in ucast imm - ucast (vector_shift_element_width immh))"

definition imm_vlsr :: "u32 \<Rightarrow> i64" where
  "imm_vlsr word =
     (let immh = drop_bit 19 word AND 0xf; immb = drop_bit 16 word AND 0x7; imm = push_bit 3 immh OR immb
      in ucast (vector_shift_element_width immh * 2) - ucast imm)"

definition simd_imm8 :: "u32 \<Rightarrow> u8" where
  "simd_imm8 word = ucast (push_bit 5 (drop_bit 16 word AND 0x7) OR (drop_bit 5 word AND 0x1f))"

definition simd_imm :: "u32 \<Rightarrow> decoded_operand" where
  "simd_imm word =
     (let imm8 = ucast (simd_imm8 word) :: u64;
          opb = drop_bit 29 word AND 1;
          cmode = drop_bit 12 word AND 0xf
      in if opb = 1 \<and> cmode = 0xe
         then D_UnsignedImmediate
                (fold (\<lambda>b value. if imm8 AND push_bit b 1 \<noteq> 0 then value OR push_bit (b * 8) 0xff else value)
                      [0..<8] 0)
         else D_Immediate imm8)"

definition simd_imm_sft :: "u32 \<Rightarrow> shifted_immediate" where
  "simd_imm_sft word =
     (let cmode = drop_bit 12 word AND 0xf
      in \<lparr>si_value = ucast (simd_imm8 word),
          si_shift = (if cmode \<in> {0x2, 0x3, 0xa, 0xb} then 8
                      else if cmode \<in> {0x4, 0x5} then 16
                      else if cmode \<in> {0x6, 0x7} then 24 else 0)\<rparr>)"

text \<open>
  \<open>format!("{:.8}", sign * (1.0 + fraction) * 2f64.powi(exponent))\<close>: every value is a
  multiple of \<open>1/128\<close> below 32, so the double is exact and its eight decimals are those of
  \<open>(16 + fraction) * 2 ^ (exponent + 3) * 781250\<close> over \<open>10 ^ 8\<close>.
\<close>

definition pad_zeros :: "nat \<Rightarrow> string \<Rightarrow> string" where
  "pad_zeros n s = replicate (n - length s) (CHR ''0'') @ s"

definition format_fpimm8 :: "u8 \<Rightarrow> string" where
  "format_fpimm8 imm8 =
     (let high_exponent_bit = drop_bit 6 imm8 AND 1;
          low_exponent_bits = unat (drop_bit 4 imm8 AND 0x3);
          exponent_plus_3 = (if high_exponent_bit = 0 then low_exponent_bits + 4 else low_exponent_bits);
          scaled = (16 + unat (imm8 AND 0xf)) * 2 ^ exponent_plus_3 * 781250
      in (if imm8 AND 0x80 = 0 then '''' else ''-'') @
         show_radix 10 (scaled div 10 ^ 8) @ ''.'' @ pad_zeros 8 (show_radix 10 (scaled mod 10 ^ 8)))"

definition fpimm :: "u32 \<Rightarrow> string" where
  "fpimm word = format_fpimm8 (ucast (drop_bit 13 word AND 0xff))"

definition simd_fpimm :: "u32 \<Rightarrow> string" where
  "simd_fpimm word = format_fpimm8 (simd_imm8 word)"

definition condition_name :: "u8 \<Rightarrow> string" where
  "condition_name c =
     (if c = 0x0 then ''eq'' else if c = 0x1 then ''ne'' else if c = 0x2 then ''hs''
      else if c = 0x3 then ''lo'' else if c = 0x4 then ''mi'' else if c = 0x5 then ''pl''
      else if c = 0x6 then ''vs'' else if c = 0x7 then ''vc'' else if c = 0x8 then ''hi''
      else if c = 0x9 then ''ls'' else if c = 0xa then ''ge'' else if c = 0xb then ''lt''
      else if c = 0xc then ''gt'' else if c = 0xd then ''le'' else if c = 0xe then ''al''
      else ''nv'')"

definition condition_of :: "u32 \<Rightarrow> string" where
  "condition_of word = condition_name (ucast (drop_bit 12 word AND 0xf))"

definition inverted_condition :: "u32 \<Rightarrow> string" where
  "inverted_condition word = condition_name (ucast (drop_bit 12 word AND 0xf) XOR 1)"

definition aimm :: "u32 \<Rightarrow> i64" where
  "aimm word =
     (let imm = ucast (drop_bit 10 word AND 0xfff)
      in if drop_bit 22 word AND 1 = 0 then imm else push_bit 12 imm)"

definition half_imm :: "u32 \<Rightarrow> shifted_immediate" where
  "half_imm word =
     \<lparr>si_value = ucast (drop_bit 5 word AND 0xffff), si_shift = ucast ((drop_bit 21 word AND 0x3) * 16)\<rparr>"

definition imm_mov :: "u32 \<Rightarrow> i64" where
  "imm_mov word =
     (let value = ucast (drop_bit 5 word AND 0xffff) :: i64;
          sh = ucast ((drop_bit 21 word AND 0x3) * 16) :: u8;
          shifted = push_bit (unat sh) value
      in if drop_bit 29 word AND 0x3 = 0 \<and> drop_bit 31 word AND 1 = 0
         then scast (ucast (NOT shifted AND 0xffffffff) :: 32 word)
         else if drop_bit 29 word AND 0x3 = 0 then NOT shifted
         else shifted)"

text \<open>Rust's \<open>%\<close> on \<open>i64\<close>: the remainder takes the sign of the dividend.\<close>

definition i64_rem :: "i64 \<Rightarrow> i64 \<Rightarrow> i64" where
  "i64_rem a b = word_of_int (sint a smod sint b)"

definition bitfield_imm :: "u32 \<Rightarrow> aarch64_opcode \<Rightarrow> i64" where
  "bitfield_imm word opcode =
     (let immr = ucast (drop_bit 16 word AND 0x3f) :: i64;
          imms = ucast (drop_bit 10 word AND 0x3f) :: i64;
          mx = (if drop_bit 31 word AND 1 = 0 then 31 else 63) :: i64;
          regsize = mx + 1;
          m = op_name opcode
      in if m = ''lsl'' then mx - imms
         else if m \<in> {''lsr'', ''asr''} then immr
         else if m \<in> {''ubfx'', ''sbfx'', ''bfxil''} then immr
         else if m \<in> {''bfi'', ''ubfiz'', ''sbfiz''} then i64_rem (regsize - immr) regsize
         else immr)"

definition bitfield_width :: "u32 \<Rightarrow> aarch64_opcode \<Rightarrow> i64" where
  "bitfield_width word opcode =
     (let immr = ucast (drop_bit 16 word AND 0x3f) :: i64;
          imms = ucast (drop_bit 10 word AND 0x3f) :: i64
      in if op_name opcode \<in> {''ubfx'', ''sbfx'', ''bfxil''} then imms - immr + 1 else imms + 1)"

section \<open>Logical immediates\<close>

definition highest_set_bit :: "u8 \<Rightarrow> nat option" where
  "highest_set_bit value = List.find (\<lambda>b. value AND push_bit b 1 \<noteq> 0) (rev [0..<7])"

definition ones :: "nat \<Rightarrow> u64" where
  "ones width = (if width = 64 then - 1 else push_bit width 1 - 1)"

definition rotate_right_with_width :: "u64 \<Rightarrow> nat \<Rightarrow> nat \<Rightarrow> u64" where
  "rotate_right_with_width value rot width =
     (let msk = ones width;
          rot = rot mod width
      in if rot = 0 then value AND msk
         else (drop_bit rot value OR push_bit (width - rot) value) AND msk)"

text \<open>The loop of \<open>replicate\<close>; its callers pass a width of at least 1.\<close>

function replicate_from :: "u64 \<Rightarrow> nat \<Rightarrow> nat \<Rightarrow> u64 \<Rightarrow> u64" where
  "replicate_from value width sh result =
     (if sh < 64 \<and> 0 < width
      then replicate_from value width (sh + width) (result OR push_bit sh value)
      else result)"
  by pat_completeness auto
termination by (relation "measure (\<lambda>(_, _, sh, _). 64 - sh)") auto

declare replicate_from.simps [simp del]

definition replicate_element :: "u64 \<Rightarrow> nat \<Rightarrow> u64" where
  "replicate_element value width = replicate_from value width 0 0"

definition logical_immediate :: "u32 \<Rightarrow> i64 option" where
  "logical_immediate word =
     (let n = ucast (drop_bit 22 word AND 1) :: u8;
          immr = ucast (drop_bit 16 word AND 0x3f) :: u8;
          imms = ucast (drop_bit 10 word AND 0x3f) :: u8;
          value = push_bit 6 n OR (NOT imms AND 0x3f)
      in case highest_set_bit value of
           None \<Rightarrow> None
         | Some len \<Rightarrow>
             (let size = 2 ^ len;
                  levels = size - 1 :: nat;
                  s = unat (ucast imms AND (word_of_nat levels :: u32));
                  r = unat (ucast immr AND (word_of_nat levels :: u32))
              in if s = levels then None
                 else
                   let pattern = ones (s + 1);
                       rotated = rotate_right_with_width pattern r size;
                       value = replicate_element rotated size
                   in if drop_bit 31 word AND 1 = 0 then Some (value AND 0xffffffff) else Some value))"

section \<open>Addresses\<close>

definition imm19 :: "u32 \<Rightarrow> i64" where
  "imm19 word = push_bit 2 (sign_extend (ucast (drop_bit 5 word AND 0x7ffff)) 19)"

definition imm14 :: "u32 \<Rightarrow> i64" where
  "imm14 word = push_bit 2 (sign_extend (ucast (drop_bit 5 word AND 0x3fff)) 14)"

definition imm21 :: "u32 \<Rightarrow> i64" where
  "imm21 word =
     (let immlo = ucast (drop_bit 29 word AND 0x3) :: i64;
          immhi = ucast (drop_bit 5 word AND 0x7ffff) :: i64
      in sign_extend (push_bit 2 immhi OR immlo) 21)"

definition imm26 :: "u32 \<Rightarrow> i64" where
  "imm26 word = push_bit 2 (sign_extend (ucast (word AND 0x03ffffff)) 26)"

definition adrp_target :: "u64 \<Rightarrow> u32 \<Rightarrow> u64" where
  "adrp_target address word = (address AND NOT 0xfff) + push_bit 12 (imm21 word)"

definition branch_target :: "u64 \<Rightarrow> i64 \<Rightarrow> u64" where
  "branch_target address offset = address + offset"

definition simm7_pair_offset :: "u32 \<Rightarrow> i64" where
  "simm7_pair_offset word =
     (let imm7 = sign_extend (ucast (drop_bit 15 word AND 0x7f)) 7;
          opc = drop_bit 30 word AND 0x3;
          is_fp = (drop_bit 26 word AND 1 = 1);
          scale = (if is_fp then 2 + opc else 2 + drop_bit 1 opc)
      in push_bit (unat scale) imm7)"

definition simm9_offset :: "u32 \<Rightarrow> i64" where
  "simm9_offset word = sign_extend (ucast (drop_bit 12 word AND 0x1ff)) 9"

definition simm9_addressing_mode :: "u32 \<Rightarrow> addressing_mode" where
  "simm9_addressing_mode word =
     (if drop_bit 10 word AND 0x3 = 1 then AM_PostIndex
      else if drop_bit 10 word AND 0x3 = 3 then AM_PreIndex else AM_Offset)"

definition pair_addressing_mode :: "u32 \<Rightarrow> addressing_mode" where
  "pair_addressing_mode word =
     (if drop_bit 23 word AND 0x3 = 1 then AM_PostIndex
      else if drop_bit 23 word AND 0x3 = 3 then AM_PreIndex else AM_Offset)"

definition uimm12_offset :: "u32 \<Rightarrow> i64" where
  "uimm12_offset word =
     (let imm = ucast (drop_bit 10 word AND 0xfff) :: i64;
          scale = (if drop_bit 26 word AND 1 = 1 then snd (fp_ldst_width word) else drop_bit 30 word AND 0x3)
      in push_bit (unat scale) imm)"

definition regoff_shift :: "u32 \<Rightarrow> shift option" where
  "regoff_shift word =
     (if drop_bit 12 word AND 1 = 0 then None
      else
        let amount = (if drop_bit 26 word AND 1 = 1 then ucast (snd (fp_ldst_width word))
                      else ucast (drop_bit 30 word AND 0x3))
        in if amount = 0 then None else Some \<lparr>sh_kind = Lsl, sh_amount = amount\<rparr>)"

definition simd_post_index_immediate :: "u32 \<Rightarrow> aarch64_opcode \<Rightarrow> i64" where
  "simd_post_index_immediate word opcode =
     (if first_operand_is opcode O_Let
      then ucast (simd_ldst_element_count (op_name opcode)) * element_size_bytes (fst (simd_ldst_element word))
      else if drop_bit 12 word AND 0xf = 0xc then 1
      else if drop_bit 12 word AND 0xf = 0xa then 32
      else 16)"

definition simd_addr_post :: "u32 \<Rightarrow> aarch64_opcode \<Rightarrow> memory_operand" where
  "simd_addr_post word opcode =
     (let post_register = rm_field word
      in \<lparr>mem_base = x_or_sp (rn_field word),
          mem_offset = (if post_register = 31 then Off_Immediate (simd_post_index_immediate word opcode)
                        else Off_Register (x_reg post_register) None),
          mem_mode = AM_PostIndex\<rparr>)"

section \<open>System operands\<close>

definition barrier :: "u32 \<Rightarrow> string" where
  "barrier word =
     (let v = uimm4 word in
      if v = 0x1 then ''oshld'' else if v = 0x2 then ''oshst'' else if v = 0x3 then ''osh''
      else if v = 0x5 then ''nshld'' else if v = 0x6 then ''nshst'' else if v = 0x7 then ''nsh''
      else if v = 0x9 then ''ishld'' else if v = 0xa then ''ishst'' else if v = 0xb then ''ish''
      else if v = 0xd then ''ld'' else if v = 0xe then ''st'' else if v = 0xf then ''sy''
      else ''#0x'' @ show_radix 16 (unat v))"

definition barrier_isb :: "u32 \<Rightarrow> string" where
  "barrier_isb word = (if uimm4 word = 0xf then ''sy'' else ''#'' @ show_radix 10 (unat (uimm4 word)))"

definition pstate_field :: "u32 \<Rightarrow> string" where
  "pstate_field word =
     (let op1 = drop_bit 16 word AND 0x7; op2 = drop_bit 5 word AND 0x7 in
      if (op1, op2) = (3, 6) then ''DAIFSet''
      else if (op1, op2) = (3, 7) then ''DAIFClr''
      else ''pstate:'' @ show_radix 10 (unat op1) @ '':'' @ show_radix 10 (unat op2))"

definition sysreg :: "u32 \<Rightarrow> string" where
  "sysreg word =
     (let op0 = drop_bit 19 word AND 0x3; op1 = drop_bit 16 word AND 0x7;
          crn = drop_bit 12 word AND 0xf; crm = drop_bit 8 word AND 0xf; op2 = drop_bit 5 word AND 0x7
      in if (op0, op1, crn, crm, op2) = (3, 3, 4, 2, 0) then ''NZCV''
         else if (op0, op1, crn, crm, op2) = (3, 3, 13, 0, 2) then ''TPIDR_EL0''
         else if (op0, op1, crn, crm, op2) = (3, 3, 14, 0, 2) then ''CNTVCT_EL0''
         else ''S'' @ show_radix 10 (unat op0) @ ''_'' @ show_radix 10 (unat op1) @ ''_C'' @
              show_radix 10 (unat crn) @ ''_C'' @ show_radix 10 (unat crm) @ ''_'' @
              show_radix 10 (unat op2))"

definition sys_op_fields :: "u32 \<Rightarrow> u32 \<times> u32 \<times> u32 \<times> u32" where
  "sys_op_fields word =
     (drop_bit 16 word AND 0x7, drop_bit 12 word AND 0xf, drop_bit 8 word AND 0xf, drop_bit 5 word AND 0x7)"

fun format_sys_op :: "string \<Rightarrow> u32 \<times> u32 \<times> u32 \<times> u32 \<Rightarrow> string" where
  "format_sys_op p (op1, cn, cm, op2) =
     p @ '':#'' @ show_radix 10 (unat op1) @ '':c'' @ show_radix 10 (unat cn) @ '':c'' @
     show_radix 10 (unat cm) @ '':#'' @ show_radix 10 (unat op2)"

definition sysreg_at :: "u32 \<Rightarrow> string" where
  "sysreg_at word =
     (if sys_op_fields word = (0, 7, 8, 0) then ''s1e1r'' else format_sys_op ''at'' (sys_op_fields word))"

definition sysreg_dc :: "u32 \<Rightarrow> string" where
  "sysreg_dc word =
     (if sys_op_fields word = (3, 7, 4, 1) then ''zva'' else format_sys_op ''dc'' (sys_op_fields word))"

definition sysreg_ic :: "u32 \<Rightarrow> string" where
  "sysreg_ic word =
     (if sys_op_fields word = (3, 7, 5, 1) then ''ivau''
      else if sys_op_fields word = (0, 7, 5, 0) then ''iallu''
      else format_sys_op ''ic'' (sys_op_fields word))"

definition sysreg_tlbi :: "u32 \<Rightarrow> string" where
  "sysreg_tlbi word =
     (if sys_op_fields word = (0, 8, 7, 5) then ''vale1''
      else if sys_op_fields word = (0, 8, 7, 0) then ''vmalle1''
      else format_sys_op ''tlbi'' (sys_op_fields word))"

definition prfop :: "u32 \<Rightarrow> string" where
  "prfop word =
     (let v = rt_field word in
      if v = 0x00 then ''pldl1keep'' else if v = 0x01 then ''pldl1strm''
      else if v = 0x02 then ''pldl2keep'' else if v = 0x03 then ''pldl2strm''
      else if v = 0x04 then ''pldl3keep'' else if v = 0x05 then ''pldl3strm''
      else if v = 0x08 then ''plil1keep'' else if v = 0x09 then ''plil1strm''
      else if v = 0x0a then ''plil2keep'' else if v = 0x0b then ''plil2strm''
      else if v = 0x0c then ''plil3keep'' else if v = 0x0d then ''plil3strm''
      else if v = 0x10 then ''pstl1keep'' else if v = 0x11 then ''pstl1strm''
      else if v = 0x12 then ''pstl2keep'' else if v = 0x13 then ''pstl2strm''
      else if v = 0x14 then ''pstl3keep'' else if v = 0x15 then ''pstl3strm''
      else ''#0x'' @ show_radix 16 (unat v))"

section \<open>The dispatch\<close>

definition memory :: "register \<Rightarrow> memory_offset \<Rightarrow> addressing_mode \<Rightarrow> memory_operand" where
  "memory base offset mode = \<lparr>mem_base = base, mem_offset = offset, mem_mode = mode\<rparr>"

primrec decode_word :: "aarch64_opnd \<Rightarrow> u32 \<Rightarrow> u64 \<Rightarrow> aarch64_opcode \<Rightarrow> usize \<Rightarrow> decode_error + decoded_operand" where
  "decode_word O_Nil w a opc i = Ok (D_Unimplemented (opnd_name O_Nil))"
| "decode_word O_Rd w a opc i = Ok (D_Register (rd_reg w opc))"
| "decode_word O_Rn w a opc i = Ok (D_Register (rn_reg w opc))"
| "decode_word O_Rm w a opc i = Ok (D_Register (rm_reg w opc))"
| "decode_word O_RmLow w a opc i = Ok (D_Register (x_reg (rd_field w)))"
| "decode_word O_RmSft w a opc i = Ok (D_ShiftedRegister (rm_shifted w))"
| "decode_word O_RmExt w a opc i = Ok (D_ExtendedRegister (rm_extended w))"
| "decode_word O_RdSp w a opc i = Ok (D_Register (gp_or_sp (rd_field w) w))"
| "decode_word O_RnSp w a opc i = Ok (D_Register (gp_or_sp (rn_field w) w))"
| "decode_word O_Rt w a opc i = Ok (D_Register (rt_reg w opc))"
| "decode_word O_Rt2 w a opc i = Ok (D_Register (x_reg (rt2_field w)))"
| "decode_word O_Ra w a opc i = Ok (D_Register (ra_reg w opc))"
| "decode_word O_Rs w a opc i = Ok (D_Register (rs_reg w opc))"
| "decode_word O_Fd w a opc i = Ok (D_Register (fp_reg (rd_field w) w))"
| "decode_word O_Fn w a opc i = Ok (D_Register (fp_reg (rn_field w) w))"
| "decode_word O_Fm w a opc i = Ok (D_Register (fp_reg (rm_field w) w))"
| "decode_word O_Fa w a opc i = Ok (D_Register (fp_reg (ra_field w) w))"
| "decode_word O_Ft w a opc i = Ok (D_Register (ft_reg (rt_field w) w opc))"
| "decode_word O_Ft2 w a opc i = Ok (D_Register (ft_reg (rt2_field w) w opc))"
| "decode_word O_Vd w a opc i = Ok (D_VectorRegister (vector_reg (rd_field w) w opc))"
| "decode_word O_Vn w a opc i = Ok (D_VectorRegister (vector_reg (rn_field w) w opc))"
| "decode_word O_Vm w a opc i = Ok (D_VectorRegister (vector_reg (rm_field w) w opc))"
| "decode_word O_Sd w a opc i = Ok (D_Register (simd_scalar_reg (rd_field w) w opc))"
| "decode_word O_Sn w a opc i = Ok (D_Register (simd_scalar_reg (rn_field w) w opc))"
| "decode_word O_Sm w a opc i = Ok (D_Register (simd_scalar_reg (rm_field w) w opc))"
| "decode_word O_VdD1 w a opc i =
     Ok (D_VectorElement \<lparr>ve_index = rd_field w, ve_element = 1, ve_size = VS_D\<rparr>)"
| "decode_word O_VnD1 w a opc i =
     Ok (D_VectorElement \<lparr>ve_index = rn_field w, ve_element = 1, ve_size = VS_D\<rparr>)"
| "decode_word O_Ed w a opc i = Ok (D_VectorElement (ed_element w))"
| "decode_word O_En w a opc i = Ok (D_VectorElement (en_element w opc))"
| "decode_word O_Em w a opc i = Ok (D_VectorElement (em_element w))"
| "decode_word O_Lvn w a opc i = Ok (D_VectorList (vector_list_of w))"
| "decode_word O_Lvt w a opc i = Ok (D_VectorList (simd_ldst_list w))"
| "decode_word O_LvtAl w a opc i = Ok (D_VectorList (simd_ldst_list w))"
| "decode_word O_Let w a opc i = Ok (D_VectorList (simd_ldst_element_list w opc))"
| "decode_word O_Idx w a opc i = Ok (D_Immediate (idx_field w))"
| "decode_word O_ImmVlsl w a opc i = Ok (D_Immediate (imm_vlsl w))"
| "decode_word O_ImmVlsr w a opc i = Ok (D_Immediate (imm_vlsr w))"
| "decode_word O_SimdImm w a opc i = Ok (simd_imm w)"
| "decode_word O_SimdImmSft w a opc i = Ok (D_ShiftedImmediate (simd_imm_sft w))"
| "decode_word O_SimdFpimm w a opc i = Ok (D_FloatImmediate (simd_fpimm w))"
| "decode_word O_ShllImm w a opc i = Ok (D_Immediate (shll_imm w))"
| "decode_word O_Imm0 w a opc i = Ok (D_Immediate 0)"
| "decode_word O_Immr w a opc i = Ok (D_Immediate (immr_field w))"
| "decode_word O_Imms w a opc i = Ok (D_Immediate (imms_field w))"
| "decode_word O_Aimm w a opc i = Ok (D_Immediate (aimm w))"
| "decode_word O_Limm w a opc i =
     and_then (ok_or (logical_immediate w) (DE_InvalidOperand ''Limm'')) (\<lambda>v. Ok (D_Immediate v))"
| "decode_word O_Half w a opc i = Ok (D_ShiftedImmediate (half_imm w))"
| "decode_word O_ImmMov w a opc i = Ok (D_Immediate (imm_mov w))"
| "decode_word O_Imm w a opc i = Ok (D_Immediate (bitfield_imm w opc))"
| "decode_word O_Width w a opc i = Ok (D_Immediate (bitfield_width w opc))"
| "decode_word O_BitNum w a opc i = Ok (D_Immediate (bit_num w))"
| "decode_word O_Exc w a opc i = Ok (D_Immediate (exc_field w))"
| "decode_word O_CcmpImm w a opc i = Ok (D_Immediate (ccmp_imm w))"
| "decode_word O_Nzcv w a opc i = Ok (D_Immediate (nzcv_field w))"
| "decode_word O_Uimm3Op1 w a opc i = Ok (D_Immediate (uimm3_op1 w))"
| "decode_word O_Uimm3Op2 w a opc i = Ok (D_Immediate (uimm3_op2 w))"
| "decode_word O_Uimm4 w a opc i = Ok (D_Immediate (uimm4 w))"
| "decode_word O_Uimm7 w a opc i = Ok (D_Immediate (uimm7 w))"
| "decode_word O_Cond w a opc i = Ok (D_Condition (condition_of w))"
| "decode_word O_Cond1 w a opc i = Ok (D_Condition (inverted_condition w))"
| "decode_word O_Fpimm0 w a opc i = Ok (D_FloatImmediate ''0.0'')"
| "decode_word O_Fpimm w a opc i = Ok (D_FloatImmediate (fpimm w))"
| "decode_word O_Fbits w a opc i = Ok (D_Immediate (fbits_field w))"
| "decode_word O_AddrSimm7 w a opc i =
     Ok (D_Memory (memory (x_or_sp (rn_field w)) (Off_Immediate (simm7_pair_offset w)) (pair_addressing_mode w)))"
| "decode_word O_AddrSimple w a opc i =
     Ok (D_Memory (memory (x_or_sp (rn_field w)) Off_None AM_Offset))"
| "decode_word O_AddrRegoff w a opc i =
     Ok (D_Memory (memory (x_or_sp (rn_field w)) (Off_Register (x_reg (rm_field w)) (regoff_shift w)) AM_Offset))"
| "decode_word O_AddrSimm9 w a opc i =
     Ok (D_Memory (memory (x_or_sp (rn_field w)) (Off_Immediate (simm9_offset w)) (simm9_addressing_mode w)))"
| "decode_word O_AddrSimm92 w a opc i = Ok (D_Unimplemented (opnd_name O_AddrSimm92))"
| "decode_word O_AddrUimm12 w a opc i =
     Ok (D_Memory (memory (x_or_sp (rn_field w)) (Off_Immediate (uimm12_offset w)) AM_Offset))"
| "decode_word O_AddrPcrel14 w a opc i = Ok (D_BranchTarget (branch_target a (imm14 w)))"
| "decode_word O_AddrPcrel19 w a opc i = Ok (D_BranchTarget (branch_target a (imm19 w)))"
| "decode_word O_AddrPcrel26 w a opc i = Ok (D_BranchTarget (branch_target a (imm26 w)))"
| "decode_word O_AddrPcrel21 w a opc i = Ok (D_BranchTarget (branch_target a (imm21 w)))"
| "decode_word O_AddrAdrp w a opc i = Ok (D_PageTarget (adrp_target a w))"
| "decode_word O_SimdAddrSimple w a opc i =
     Ok (D_Memory (memory (x_or_sp (rn_field w)) Off_None AM_Offset))"
| "decode_word O_SimdAddrPost w a opc i = Ok (D_Memory (simd_addr_post w opc))"
| "decode_word O_Barrier w a opc i = Ok (D_System (barrier w))"
| "decode_word O_BarrierIsb w a opc i = Ok (D_System (barrier_isb w))"
| "decode_word O_BarrierPsb w a opc i = Ok (D_System ''csync'')"
| "decode_word O_Pstatefield w a opc i = Ok (D_System (pstate_field w))"
| "decode_word O_Sysreg w a opc i = Ok (D_System (sysreg w))"
| "decode_word O_SysregAt w a opc i = Ok (D_System (sysreg_at w))"
| "decode_word O_SysregDc w a opc i = Ok (D_System (sysreg_dc w))"
| "decode_word O_SysregIc w a opc i = Ok (D_System (sysreg_ic w))"
| "decode_word O_SysregTlbi w a opc i = Ok (D_System (sysreg_tlbi w))"
| "decode_word O_RtSys w a opc i = Ok (D_Register (rt_sys_reg w))"
| "decode_word O_Cn w a opc i = Ok (D_System (''c'' @ show_radix 10 (unat (cn_field w))))"
| "decode_word O_Cm w a opc i = Ok (D_System (''c'' @ show_radix 10 (unat (cm_field w))))"
| "decode_word O_Prfop w a opc i = Ok (D_System (prfop w))"
| "decode_word O_Pairreg w a opc i = Ok (D_Register (pair_reg w opc i))"

definition decode_operand :: "aarch64_opnd \<Rightarrow> decode_context \<Rightarrow> decode_error + decoded_operand" where
  "decode_operand kind ctx =
     decode_word kind (dc_word ctx) (dc_address ctx) (dc_opcode ctx) (dc_operand_index ctx)"

end
