(* ===== verification/A64_Encode.thy ===== *)
theory A64_Encode
  imports A64_Decode
begin

text \<open>
  The operand encoders of \<open>src/src/isa/aarch64/operand.rs\<close>: each gives the bits an operand
  contributes to the instruction word, or rejects the operand. An \<open>i64\<close> operand is compared
  through \<open>sint\<close> and truncated to a word by \<open>ucast\<close>; the \<open>i128\<close> difference of a
  PC-relative operand is an integer.
\<close>

type_synonym encoded = "encode_error + u32"

definition invalid :: "aarch64_opnd \<Rightarrow> encoded" where
  "invalid kind = Err (EE_InvalidOperand (opnd_name kind))"

lemma invalid_not_Ok [simp]: "invalid kind \<noteq> Ok w" "Ok w \<noteq> invalid kind"
  by (simp_all add: invalid_def)

abbreviation word_of_u8 :: "u8 \<Rightarrow> u32" where "word_of_u8 \<equiv> ucast"

section \<open>Registers\<close>

fun encode_gp_register :: "aarch64_opnd \<Rightarrow> decoded_operand \<Rightarrow> nat \<Rightarrow> encoded" where
  "encode_gp_register kind (D_Register r) bit_offset =
     (if reg_index r > 31 then invalid kind
      else case reg_class r of
             RC_W \<Rightarrow> Ok (push_bit 31 0 OR push_bit bit_offset (word_of_u8 (reg_index r)))
           | RC_X \<Rightarrow> Ok (push_bit 31 1 OR push_bit bit_offset (word_of_u8 (reg_index r)))
           | _ \<Rightarrow> invalid kind)"
| "encode_gp_register kind _ bit_offset = invalid kind"

fun encode_rd_register :: "aarch64_opnd \<Rightarrow> decoded_operand \<Rightarrow> aarch64_opcode \<Rightarrow> encoded" where
  "encode_rd_register kind operand opcode =
     (if op_iclass opcode = C_Asimdins \<and> op_name opcode \<in> {''mov'', ''smov'', ''umov''} then
        (case operand of
           D_Register r \<Rightarrow>
             (if reg_index r > 31 then invalid kind
              else case reg_class r of
                     RC_W \<Rightarrow> Ok (0 OR word_of_u8 (reg_index r))
                   | RC_X \<Rightarrow> Ok (push_bit 30 1 OR word_of_u8 (reg_index r))
                   | _ \<Rightarrow> invalid kind)
         | _ \<Rightarrow> invalid kind)
      else if op_iclass opcode = C_Pcreladdr then
        (case operand of
           D_Register r \<Rightarrow>
             (if reg_class r \<noteq> RC_X \<or> reg_index r > 31 then invalid kind else Ok (word_of_u8 (reg_index r)))
         | _ \<Rightarrow> invalid kind)
      else encode_gp_register kind operand 0)"

fun encode_gp_or_sp_register :: "aarch64_opnd \<Rightarrow> decoded_operand \<Rightarrow> nat \<Rightarrow> encoded" where
  "encode_gp_or_sp_register kind (D_Register r) bit_offset =
     (if reg_index r > 31 then invalid kind
      else if reg_class r = RC_W \<and> reg_index r = 31 then invalid kind
      else if reg_class r = RC_X \<and> reg_index r = 31 then invalid kind
      else case reg_class r of
             RC_W \<Rightarrow> Ok (push_bit 31 0 OR push_bit bit_offset (word_of_u8 (reg_index r)))
           | RC_X \<Rightarrow> Ok (push_bit 31 1 OR push_bit bit_offset (word_of_u8 (reg_index r)))
           | RC_WOrSp \<Rightarrow> Ok (push_bit 31 0 OR push_bit bit_offset (word_of_u8 (reg_index r)))
           | RC_XOrSp \<Rightarrow> Ok (push_bit 31 1 OR push_bit bit_offset (word_of_u8 (reg_index r)))
           | _ \<Rightarrow> invalid kind)"
| "encode_gp_or_sp_register kind _ bit_offset = invalid kind"

definition extend_option :: "extend_kind \<Rightarrow> register_class \<Rightarrow> u32 option" where
  "extend_option e c =
     (if e = Uxtb \<and> c = RC_W then Some 0
      else if e = Uxth \<and> c = RC_W then Some 1
      else if e = Uxtw \<and> c = RC_W then Some 2
      else if e = Uxtx \<and> c = RC_X then Some 3
      else if e = Sxtb \<and> c = RC_W then Some 4
      else if e = Sxth \<and> c = RC_W then Some 5
      else if e = Sxtw \<and> c = RC_W then Some 6
      else if e = Sxtx \<and> c = RC_X then Some 7
      else None)"

fun encode_rm_extended :: "aarch64_opnd \<Rightarrow> decoded_operand \<Rightarrow> encoded" where
  "encode_rm_extended kind (D_ExtendedRegister x) =
     (if reg_index (er_register x) > 31 \<or> er_amount x > 4 then invalid kind
      else case extend_option (er_extend x) (reg_class (er_register x)) of
             None \<Rightarrow> invalid kind
           | Some option_bits \<Rightarrow>
               Ok (push_bit 16 (word_of_u8 (reg_index (er_register x))) OR push_bit 13 option_bits OR
                   push_bit 10 (word_of_u8 (er_amount x))))"
| "encode_rm_extended kind _ = invalid kind"

primrec shift_code :: "shift_kind \<Rightarrow> u32" where
  "shift_code Lsl = 0"
| "shift_code Lsr = 1"
| "shift_code Asr = 2"
| "shift_code Ror = 3"

fun encode_rm_shifted :: "aarch64_opnd \<Rightarrow> decoded_operand \<Rightarrow> encoded" where
  "encode_rm_shifted kind (D_ShiftedRegister x) =
     (if reg_index (sr_register x) > 31 then invalid kind
      else if reg_class (sr_register x) \<notin> {RC_W, RC_X} then invalid kind
      else
        let max_shift = (if reg_class (sr_register x) = RC_W then 31 else 63) in
        if sh_amount (sr_shift x) > max_shift then invalid kind
        else Ok (push_bit 16 (word_of_u8 (reg_index (sr_register x))) OR
                 push_bit 22 (shift_code (sh_kind (sr_shift x))) OR
                 push_bit 10 (word_of_u8 (sh_amount (sr_shift x)))))"
| "encode_rm_shifted kind _ = invalid kind"

fun encode_status_register :: "aarch64_opnd \<Rightarrow> decoded_operand \<Rightarrow> aarch64_opcode \<Rightarrow> encoded" where
  "encode_status_register kind (D_Register r) opcode =
     (if is_casp (op_name opcode) then
        (if reg_class r \<notin> {RC_W, RC_X} \<or> reg_index r > 30 then invalid kind
         else Ok ((if reg_class r = RC_X then push_bit 30 1 else 0) OR push_bit 16 (word_of_u8 (reg_index r))))
      else if reg_class r \<noteq> RC_W \<or> reg_index r > 31 then invalid kind
      else Ok (push_bit 16 (word_of_u8 (reg_index r))))"
| "encode_status_register kind _ opcode = invalid kind"

fun encode_rt_sys_register :: "aarch64_opnd \<Rightarrow> decoded_operand \<Rightarrow> encoded" where
  "encode_rt_sys_register kind (D_Register r) =
     (if reg_class r \<noteq> RC_X \<or> reg_index r > 31 then invalid kind else Ok (word_of_u8 (reg_index r)))"
| "encode_rt_sys_register kind _ = invalid kind"

definition ldst_single_class :: "aarch64_insn_class \<Rightarrow> bool" where
  "ldst_single_class c = (c \<in> {C_LdstImm9, C_LdstPos, C_LdstRegoff, C_LdstUnscaled})"

text \<open>The size bits of \<open>encode_rt_register\<close>, in the order of its match arms.\<close>

definition rt_size_bits :: "aarch64_opcode \<Rightarrow> register_class \<Rightarrow> u32 option" where
  "rt_size_bits opcode rc =
     (let c = op_iclass opcode;
          is_signed_load = (op_name opcode \<in> {''ldrsw'', ''ldrsh'', ''ldrsb''} \<and> ldst_single_class c)
      in if c = C_Testbranch \<and> rc \<in> {RC_W, RC_X} then Some 0
         else if c = C_Ldstexcl \<and> rc = RC_W then Some 0
         else if c = C_Ldstexcl \<and> rc = RC_X then Some (push_bit 30 1)
         else if c = C_LseAtomic \<and> rc = RC_W then Some 0
         else if c = C_LseAtomic \<and> rc = RC_X then Some (push_bit 30 1)
         else if ldst_single_class c \<and> is_signed_load then Some 0
         else if ldst_single_class c \<and> rc = RC_W then Some 0
         else if ldst_single_class c \<and> rc = RC_X then Some (push_bit 30 1)
         else if ldst_single_class c \<and> rc = RC_S then Some (push_bit 30 2)
         else if ldst_single_class c \<and> rc = RC_D then Some (push_bit 30 3)
         else if rc = RC_W then Some 0
         else if rc = RC_X then Some (push_bit 31 1)
         else None)"

fun encode_rt_register :: "aarch64_opnd \<Rightarrow> decoded_operand \<Rightarrow> aarch64_opcode \<Rightarrow> encoded" where
  "encode_rt_register kind (D_Register r) opcode =
     (if reg_index r > 31 then invalid kind
      else case rt_size_bits opcode (reg_class r) of
             None \<Rightarrow> invalid kind
           | Some size_bits \<Rightarrow> Ok (size_bits OR word_of_u8 (reg_index r)))"
| "encode_rt_register kind _ opcode = invalid kind"

fun encode_fp_register :: "aarch64_opnd \<Rightarrow> decoded_operand \<Rightarrow> nat \<Rightarrow> encoded" where
  "encode_fp_register kind (D_Register r) bit_offset =
     (if reg_index r > 31 then invalid kind
      else case reg_class r of
             RC_S \<Rightarrow> Ok (0 OR push_bit bit_offset (word_of_u8 (reg_index r)))
           | RC_D \<Rightarrow> Ok (push_bit 22 1 OR push_bit bit_offset (word_of_u8 (reg_index r)))
           | _ \<Rightarrow> invalid kind)"
| "encode_fp_register kind _ bit_offset = invalid kind"

fun encode_ft_register :: "aarch64_opnd \<Rightarrow> decoded_operand \<Rightarrow> aarch64_opcode \<Rightarrow> nat \<Rightarrow> encoded" where
  "encode_ft_register kind (D_Register r) opcode bit_offset =
     (if reg_index r > 31 then invalid kind
      else if op_iclass opcode \<in> {C_LdstnapairOffs, C_LdstpairOff, C_LdstpairIndexed} then
        (case reg_class r of
           RC_S \<Rightarrow> Ok (0 OR push_bit bit_offset (word_of_u8 (reg_index r)))
         | RC_D \<Rightarrow> Ok (push_bit 30 1 OR push_bit bit_offset (word_of_u8 (reg_index r)))
         | _ \<Rightarrow> invalid kind)
      else if ldst_single_class (op_iclass opcode) then
        (case reg_class r of
           RC_S \<Rightarrow> Ok (push_bit 30 2 OR push_bit bit_offset (word_of_u8 (reg_index r)))
         | RC_D \<Rightarrow> Ok (push_bit 30 3 OR push_bit bit_offset (word_of_u8 (reg_index r)))
         | _ \<Rightarrow> invalid kind)
      else encode_fp_register kind (D_Register r) bit_offset)"
| "encode_ft_register kind _ opcode bit_offset = invalid kind"

fun encode_pair_register :: "aarch64_opnd \<Rightarrow> decoded_operand \<Rightarrow> encoded" where
  "encode_pair_register kind (D_Register r) =
     (if reg_index r = 0 \<or> reg_index r > 31 then invalid kind else Ok 0)"
| "encode_pair_register kind _ = invalid kind"

section \<open>Vector registers, elements and lists\<close>

primrec vector_arrangement_bits :: "vector_arrangement \<Rightarrow> u32 \<times> u32" where
  "vector_arrangement_bits VA_B8 = (0, 0)"
| "vector_arrangement_bits VA_B16 = (1, 0)"
| "vector_arrangement_bits VA_H4 = (0, 1)"
| "vector_arrangement_bits VA_H8 = (1, 1)"
| "vector_arrangement_bits VA_S2 = (0, 2)"
| "vector_arrangement_bits VA_S4 = (1, 2)"
| "vector_arrangement_bits VA_D1 = (0, 3)"
| "vector_arrangement_bits VA_D2 = (1, 3)"

primrec element_size_from_arrangement :: "vector_arrangement \<Rightarrow> vector_element_size" where
  "element_size_from_arrangement VA_B8 = VS_B"
| "element_size_from_arrangement VA_B16 = VS_B"
| "element_size_from_arrangement VA_H4 = VS_H"
| "element_size_from_arrangement VA_H8 = VS_H"
| "element_size_from_arrangement VA_S2 = VS_S"
| "element_size_from_arrangement VA_S4 = VS_S"
| "element_size_from_arrangement VA_D1 = VS_D"
| "element_size_from_arrangement VA_D2 = VS_D"

fun encode_vector_register :: "aarch64_opnd \<Rightarrow> decoded_operand \<Rightarrow> aarch64_opcode \<Rightarrow> nat \<Rightarrow> encoded" where
  "encode_vector_register kind (D_VectorRegister r) opcode bit_offset =
     (let reg_bits = push_bit bit_offset (word_of_u8 (vr_index r));
          (q, sz) = vector_arrangement_bits (vr_arrangement r)
      in if vr_index r > 31 then invalid kind
         else if op_name opcode = ''shll'' then Ok reg_bits
         else if op_iclass opcode = C_Asimdimm then
           (let cmode = (if vr_arrangement r \<in> {VA_B8, VA_B16} then 0xe
                         else if vr_arrangement r \<in> {VA_H4, VA_H8} then 0x8 else 0)
            in Ok (push_bit 30 q OR push_bit 12 cmode OR reg_bits))
         else if op_iclass opcode = C_Asimdins \<and> op_name opcode = ''dup'' then Ok (push_bit 30 q OR reg_bits)
         else if op_iclass opcode = C_Asimdshf then
           (let immh = (case element_size_from_arrangement (vr_arrangement r) of
                          VS_B \<Rightarrow> 1 | VS_H \<Rightarrow> 2 | VS_S \<Rightarrow> 4 | VS_D \<Rightarrow> 8)
            in Ok (push_bit 30 q OR push_bit 19 immh OR reg_bits))
         else Ok (push_bit 30 q OR push_bit 22 sz OR reg_bits))"
| "encode_vector_register kind _ opcode bit_offset = invalid kind"

fun encode_simd_scalar_register :: "aarch64_opnd \<Rightarrow> decoded_operand \<Rightarrow> aarch64_opcode \<Rightarrow> nat \<Rightarrow> encoded" where
  "encode_simd_scalar_register kind (D_Register r) opcode bit_offset =
     (if reg_index r > 31 then invalid kind
      else if op_iclass opcode = C_Asimdimm then
        (if reg_class r \<noteq> RC_D then invalid kind else Ok (push_bit bit_offset (word_of_u8 (reg_index r))))
      else case reg_class r of
             RC_B \<Rightarrow> Ok (push_bit 22 0 OR push_bit bit_offset (word_of_u8 (reg_index r)))
           | RC_H \<Rightarrow> Ok (push_bit 22 1 OR push_bit bit_offset (word_of_u8 (reg_index r)))
           | RC_S \<Rightarrow> Ok (push_bit 22 2 OR push_bit bit_offset (word_of_u8 (reg_index r)))
           | RC_D \<Rightarrow> Ok (push_bit 22 3 OR push_bit bit_offset (word_of_u8 (reg_index r)))
           | _ \<Rightarrow> invalid kind)"
| "encode_simd_scalar_register kind _ opcode bit_offset = invalid kind"

fun encode_vector_d1 :: "aarch64_opnd \<Rightarrow> decoded_operand \<Rightarrow> nat \<Rightarrow> encoded" where
  "encode_vector_d1 kind (D_VectorElement e) bit_offset =
     (if ve_index e > 31 \<or> ve_element e \<noteq> 1 \<or> ve_size e \<noteq> VS_D then invalid kind
      else Ok (push_bit bit_offset (word_of_u8 (ve_index e))))"
| "encode_vector_d1 kind _ bit_offset = invalid kind"

definition encode_imm5_element :: "vector_element \<Rightarrow> encode_error + u8" where
  "encode_imm5_element e =
     (let sh = element_size_shift (ve_size e); max_element = drop_bit sh 16 :: u32 in
      if (ucast (ve_element e) :: u32) \<ge> max_element then Err (EE_InvalidOperand ''element'')
      else Ok (push_bit sh 1 OR push_bit (sh + 1) (ve_element e)))"

definition encode_em_element :: "vector_element \<Rightarrow> encode_error + u8 \<times> u8 \<times> u8 \<times> u8" where
  "encode_em_element e =
     (let x = ve_element e in
      if ve_size e = VS_H \<and> x < 8 then Ok (1, drop_bit 2 x AND 1, drop_bit 1 x AND 1, x AND 1)
      else if ve_size e = VS_S \<and> x < 4 then Ok (2, drop_bit 1 x AND 1, x AND 1, 0)
      else if ve_size e = VS_D \<and> x < 2 then Ok (3, x AND 1, 0, 0)
      else Err (EE_InvalidOperand ''element''))"

definition encode_vector_element_of ::
  "aarch64_opnd \<Rightarrow> vector_element \<Rightarrow> aarch64_opcode \<Rightarrow> nat \<Rightarrow> encoded" where
  "encode_vector_element_of kind e opcode bit_offset =
     (let reg_bits = push_bit bit_offset (word_of_u8 (ve_index e)) in
      if kind = O_Ed then
        and_then (encode_imm5_element e) (\<lambda>imm5. Ok (reg_bits OR push_bit 16 (word_of_u8 imm5)))
      else if kind = O_En then
        (let uses_source_imm4 = first_operand_is opcode O_Ed in
         and_then (if uses_source_imm4 then Ok (push_bit (element_size_shift (ve_size e)) 1)
                   else encode_imm5_element e)
           (\<lambda>imm5.
              let element_bits =
                    (if uses_source_imm4
                     then push_bit (element_size_shift (ve_size e) + 11) (word_of_u8 (ve_element e)) else 0)
              in Ok (reg_bits OR push_bit 16 (word_of_u8 imm5) OR element_bits)))
      else if kind = O_Em then
        and_then (encode_em_element e)
          (\<lambda>(sz, h, l, m).
             Ok (reg_bits OR push_bit 22 (word_of_u8 sz) OR push_bit 11 (word_of_u8 h) OR
                 push_bit 21 (word_of_u8 l) OR push_bit 20 (word_of_u8 m)))
      else invalid kind)"

fun encode_vector_element :: "aarch64_opnd \<Rightarrow> decoded_operand \<Rightarrow> aarch64_opcode \<Rightarrow> nat \<Rightarrow> encoded" where
  "encode_vector_element kind (D_VectorElement e) opcode bit_offset =
     (if ve_index e > 31 then invalid kind else encode_vector_element_of kind e opcode bit_offset)"
| "encode_vector_element kind _ opcode bit_offset = invalid kind"

definition list_opcode :: "string \<Rightarrow> u8 \<Rightarrow> u32 option" where
  "list_opcode m count =
     (if ends_with m ''2'' then Some 0x8
      else if ends_with m ''3'' then Some 0x4
      else if ends_with m ''4'' then Some 0x0
      else if count = 1 then Some 0x7
      else if count = 2 then Some 0xa
      else if count = 3 then Some 0x6
      else if count = 4 then Some 0x2
      else None)"

fun encode_vector_list :: "aarch64_opnd \<Rightarrow> decoded_operand \<Rightarrow> nat \<Rightarrow> aarch64_opcode \<Rightarrow> encoded" where
  "encode_vector_list kind (D_VectorList l) bit_offset opcode_row =
     (if vl_first l > 31 \<or> \<not> (1 \<le> vl_count l \<and> vl_count l \<le> 4) \<or> vl_element l \<noteq> None then invalid kind
      else
        let (q, sz) = vector_arrangement_bits (vl_arrangement l) in
        if bit_offset = 0 then
          (case list_opcode (op_name opcode_row) (vl_count l) of
             None \<Rightarrow> invalid kind
           | Some opcode \<Rightarrow>
               Ok (push_bit 30 q OR push_bit 10 sz OR push_bit 12 opcode OR
                   push_bit bit_offset (word_of_u8 (vl_first l))))
        else Ok (push_bit 30 q OR push_bit 22 sz OR push_bit bit_offset (word_of_u8 (vl_first l)) OR
                 push_bit 13 (word_of_u8 (vl_count l) - 1)))"
| "encode_vector_list kind _ bit_offset opcode_row = invalid kind"

fun encode_vector_list_all_lanes :: "aarch64_opnd \<Rightarrow> decoded_operand \<Rightarrow> encoded" where
  "encode_vector_list_all_lanes kind (D_VectorList l) =
     (if vl_first l > 31 \<or> \<not> (1 \<le> vl_count l \<and> vl_count l \<le> 4) \<or> vl_element l \<noteq> None then invalid kind
      else let (q, sz) = vector_arrangement_bits (vl_arrangement l)
           in Ok (push_bit 30 q OR push_bit 10 sz OR word_of_u8 (vl_first l)))"
| "encode_vector_list_all_lanes kind _ = invalid kind"

definition encode_simd_ldst_element :: "vector_element_size \<Rightarrow> u8 \<Rightarrow> encode_error + u32 \<times> u8 \<times> u8" where
  "encode_simd_ldst_element sz x =
     (if sz = VS_B \<and> x < 16 then Ok (ucast (drop_bit 3 x AND 1), drop_bit 2 x AND 1, 3)
      else if sz = VS_H \<and> x < 8 then Ok (ucast (drop_bit 2 x AND 1), drop_bit 1 x AND 1, 2)
      else if sz = VS_S \<and> x < 4 then Ok (ucast (drop_bit 1 x AND 1), x AND 1, 0)
      else if sz = VS_D \<and> x < 2 then Ok (ucast (x AND 1), 0, 1)
      else Err (EE_InvalidOperand ''Let''))"

fun encode_vector_element_list :: "aarch64_opnd \<Rightarrow> decoded_operand \<Rightarrow> encoded" where
  "encode_vector_element_list kind (D_VectorList l) =
     (if vl_first l > 31 \<or> \<not> (1 \<le> vl_count l \<and> vl_count l \<le> 4) then invalid kind
      else case vl_element l of
             None \<Rightarrow> invalid kind
           | Some element \<Rightarrow>
               and_then (encode_simd_ldst_element (element_size_from_arrangement (vl_arrangement l)) element)
                 (\<lambda>(q, s, encoded_size).
                    let count_bits = (if vl_count l = 2 then push_bit 14 1
                                      else if vl_count l = 4 then push_bit 15 1 else 0)
                    in Ok (push_bit 30 q OR count_bits OR push_bit 12 (word_of_u8 s) OR
                           push_bit 10 (word_of_u8 encoded_size) OR word_of_u8 (vl_first l))))"
| "encode_vector_element_list kind _ = invalid kind"

section \<open>Immediates\<close>

fun encode_aimm :: "aarch64_opnd \<Rightarrow> decoded_operand \<Rightarrow> encoded" where
  "encode_aimm kind (D_Immediate value) =
     (if 0 \<le> sint value \<and> sint value \<le> 0xfff then Ok (push_bit 10 (ucast value))
      else if sint value > 0 \<and> sint value smod 0x1000 = 0 \<and> sint value sdiv 0x1000 \<le> 0xfff
      then Ok (push_bit 22 1 OR push_bit 10 (word_of_int (sint value sdiv 0x1000)))
      else invalid kind)"
| "encode_aimm kind _ = invalid kind"

fun encode_half :: "aarch64_opnd \<Rightarrow> decoded_operand \<Rightarrow> encoded" where
  "encode_half kind (D_ShiftedImmediate imm) =
     (if \<not> (0 \<le> sint (si_value imm) \<and> sint (si_value imm) \<le> 0xffff) \<or> si_shift imm mod 16 \<noteq> 0 \<or>
         si_shift imm > 48
      then invalid kind
      else Ok (push_bit 5 (ucast (si_value imm)) OR push_bit 21 (word_of_u8 (si_shift imm div 16))))"
| "encode_half kind _ = invalid kind"

text \<open>The two search loops of \<open>encode_imm_mov\<close> over \<open>(0..width).step_by(16)\<close>.\<close>

definition mov_shifts :: "nat \<Rightarrow> nat list" where
  "mov_shifts width = map (\<lambda>i. i * 16) [0..<width div 16]"

definition movn_field :: "u64 \<Rightarrow> u64 \<Rightarrow> nat \<Rightarrow> u32 option" where
  "movn_field wanted msk sh =
     (let imm = ucast (drop_bit sh (NOT wanted) AND 0xffff) :: u32
      in if NOT (push_bit sh (ucast imm :: u64)) AND msk = wanted
         then Some (push_bit 21 (word_of_nat (sh div 16)) OR push_bit 5 imm) else None)"

definition movz_field :: "u64 \<Rightarrow> nat \<Rightarrow> u32 option" where
  "movz_field wanted sh =
     (let imm = ucast (drop_bit sh wanted AND 0xffff) :: u32
      in if push_bit sh (ucast imm :: u64) = wanted
         then Some (push_bit 21 (word_of_nat (sh div 16)) OR push_bit 5 imm) else None)"

fun encode_imm_mov :: "aarch64_opnd \<Rightarrow> decoded_operand \<Rightarrow> aarch64_opcode \<Rightarrow> encoded" where
  "encode_imm_mov kind (D_Immediate value) opcode =
     (let opb = drop_bit 29 (op_opcode opcode) AND 0x3;
          width = (if op_opcode opcode AND push_bit 31 1 = 0 \<and>
                      sint value \<ge> - (2 ^ 31) \<and> sint value \<le> 2 ^ 32 - 1 then 32 else 64);
          msk = (if width = 32 then 0xffffffff else - 1) :: u64;
          wanted = value AND msk
      in if opb = 0 then
           (case find_map (movn_field wanted msk) (mov_shifts width) of
              Some bits \<Rightarrow> Ok bits | None \<Rightarrow> invalid kind)
         else if opb = 2 then
           (case find_map (movz_field wanted) (mov_shifts width) of
              Some bits \<Rightarrow> Ok bits | None \<Rightarrow> invalid kind)
         else invalid kind)"
| "encode_imm_mov kind _ opcode = invalid kind"

fun encode_raw_immediate :: "aarch64_opnd \<Rightarrow> decoded_operand \<Rightarrow> nat \<Rightarrow> nat \<Rightarrow> encoded" where
  "encode_raw_immediate kind (D_Immediate value) bit_offset bits =
     (if sint value < 0 \<or> sint value \<ge> 2 ^ bits then invalid kind
      else Ok (push_bit bit_offset (ucast value)))"
| "encode_raw_immediate kind _ bit_offset bits = invalid kind"

definition bitfield_max :: "u32 \<Rightarrow> int" where
  "bitfield_max word = (if drop_bit 31 word AND 1 = 0 then 31 else 63)"

fun encode_bitfield_imm :: "aarch64_opnd \<Rightarrow> decoded_operand \<Rightarrow> aarch64_opcode \<Rightarrow> u32 \<Rightarrow> encoded" where
  "encode_bitfield_imm kind (D_Immediate value) opcode word =
     (let mx = bitfield_max word; v = sint value in
      if v < 0 \<or> v > mx then invalid kind
      else
        let regsize = mx + 1;
            m = op_name opcode;
            immr = (if m = ''lsl'' then (regsize - v) AND mx
                    else if m \<in> {''lsr'', ''asr'', ''ubfx'', ''sbfx'', ''bfxil''} then v
                    else if m \<in> {''bfi'', ''ubfiz'', ''sbfiz''} then (regsize - v) smod regsize
                    else v);
            imms = (if m = ''lsl'' then Some (mx - v)
                    else if m \<in> {''lsr'', ''asr''} then Some mx else None);
            n = (if mx = 63 then push_bit 22 1 else 0)
        in Ok (n OR push_bit 16 (word_of_int immr) OR
               (case imms of None \<Rightarrow> 0 | Some x \<Rightarrow> push_bit 10 (word_of_int x))))"
| "encode_bitfield_imm kind _ opcode word = invalid kind"

fun encode_bitfield_width :: "aarch64_opnd \<Rightarrow> decoded_operand \<Rightarrow> aarch64_opcode \<Rightarrow> u32 \<Rightarrow> encoded" where
  "encode_bitfield_width kind (D_Immediate width) opcode word =
     (let mx = bitfield_max word in
      if sint width \<le> 0 \<or> sint width > mx + 1 then invalid kind
      else
        let immr = uint (drop_bit 16 word AND 0x3f);
            imms = (if op_name opcode \<in> {''ubfx'', ''sbfx'', ''bfxil''} then immr + sint width - 1
                    else sint width - 1)
        in if imms > mx then invalid kind else Ok (push_bit 10 (word_of_int imms)))"
| "encode_bitfield_width kind _ opcode word = invalid kind"

text \<open>The candidates of the search in \<open>encode_logical_immediate\<close>, in the order of its loops.\<close>

definition logical_candidates :: "u32 list" where
  "logical_candidates =
     concat (map (\<lambda>n. concat (map (\<lambda>immr. map (\<lambda>imms.
       push_bit 22 (word_of_nat n) OR push_bit 16 (word_of_nat immr) OR push_bit 10 (word_of_nat imms))
       [0..<64]) [0..<64])) [0..<2])"

definition logical_value :: "decoded_operand \<Rightarrow> i64 option" where
  "logical_value operand =
     (case operand of
        D_Immediate value \<Rightarrow> Some value
      | D_UnsignedImmediate value \<Rightarrow> if uint value \<le> 2 ^ 63 - 1 then Some value else None
      | _ \<Rightarrow> None)"

definition encode_logical_immediate :: "aarch64_opnd \<Rightarrow> decoded_operand \<Rightarrow> u32 \<Rightarrow> encoded" where
  "encode_logical_immediate kind operand word =
     (case logical_value operand of
        None \<Rightarrow> invalid kind
      | Some value \<Rightarrow>
          (let sf = word AND push_bit 31 1 in
           case List.find (\<lambda>c. logical_immediate (sf OR c) = Some value) logical_candidates of
             None \<Rightarrow> invalid kind
           | Some c \<Rightarrow>
               Ok ((sf OR c) AND (push_bit 22 1 OR push_bit 16 0x3f OR push_bit 10 0x3f))))"

fun encode_bit_num :: "aarch64_opnd \<Rightarrow> decoded_operand \<Rightarrow> encoded" where
  "encode_bit_num kind (D_Immediate b) =
     (if \<not> (0 \<le> sint b \<and> sint b \<le> 63) then invalid kind
      else let bn = ucast b :: u32 in Ok (push_bit 26 (bn AND 0x20) OR push_bit 19 (bn AND 0x1f)))"
| "encode_bit_num kind _ = invalid kind"

fun encode_uimm7 :: "aarch64_opnd \<Rightarrow> decoded_operand \<Rightarrow> encoded" where
  "encode_uimm7 kind (D_Immediate v) =
     (if \<not> (0 \<le> sint v \<and> sint v \<le> 0x7f) then invalid kind
      else let x = ucast v :: u32 in Ok (push_bit 8 (drop_bit 3 x) OR push_bit 5 (x AND 0x7)))"
| "encode_uimm7 kind _ = invalid kind"

fun encode_zero_immediate :: "aarch64_opnd \<Rightarrow> decoded_operand \<Rightarrow> encoded" where
  "encode_zero_immediate kind (D_Immediate v) = (if v = 0 then Ok 0 else invalid kind)"
| "encode_zero_immediate kind _ = invalid kind"

fun encode_zero_float_immediate :: "aarch64_opnd \<Rightarrow> decoded_operand \<Rightarrow> encoded" where
  "encode_zero_float_immediate kind (D_FloatImmediate v) =
     (if v = ''0.0'' \<or> v = ''0.00000000'' then Ok 0 else invalid kind)"
| "encode_zero_float_immediate kind _ = invalid kind"

definition fp_immediate_bits :: "string \<Rightarrow> u8 option" where
  "fp_immediate_bits v = List.find (\<lambda>imm8. format_fpimm8 imm8 = v) (map word_of_nat [0..<256])"

fun encode_fp_immediate :: "aarch64_opnd \<Rightarrow> decoded_operand \<Rightarrow> nat \<Rightarrow> encoded" where
  "encode_fp_immediate kind (D_FloatImmediate v) bit_offset =
     (case fp_immediate_bits v of
        None \<Rightarrow> invalid kind
      | Some imm8 \<Rightarrow> Ok (push_bit bit_offset (word_of_u8 imm8)))"
| "encode_fp_immediate kind _ bit_offset = invalid kind"

fun encode_fbits :: "aarch64_opnd \<Rightarrow> decoded_operand \<Rightarrow> encoded" where
  "encode_fbits kind (D_Immediate v) =
     (if \<not> (1 \<le> sint v \<and> sint v \<le> 64) then invalid kind else Ok (push_bit 10 (ucast (64 - v))))"
| "encode_fbits kind _ = invalid kind"

definition vector_shift_candidate :: "u32 \<Rightarrow> bool \<Rightarrow> int \<Rightarrow> u32 \<Rightarrow> u32 option" where
  "vector_shift_candidate word right_shift value immh =
     (let current = drop_bit 19 word AND 0xf in
      if current \<noteq> 0 \<and> vector_shift_element_width immh \<noteq> vector_shift_element_width current then None
      else
        find_map (\<lambda>immb.
          let imm = uint (push_bit 3 immh OR immb);
              width = uint (vector_shift_element_width immh);
              decoded = (if right_shift then width * 2 - imm else imm - width)
          in if decoded = value then Some (push_bit 19 immh OR push_bit 16 immb) else None)
          (map word_of_nat [0..<8]))"

fun encode_vector_shift_immediate :: "aarch64_opnd \<Rightarrow> decoded_operand \<Rightarrow> u32 \<Rightarrow> bool \<Rightarrow> encoded" where
  "encode_vector_shift_immediate kind (D_Immediate v) word right_shift =
     (case find_map (vector_shift_candidate word right_shift (sint v)) (map word_of_nat [1..<16]) of
        None \<Rightarrow> invalid kind
      | Some bits \<Rightarrow> Ok bits)"
| "encode_vector_shift_immediate kind _ word right_shift = invalid kind"

definition encode_simd_imm8 :: "u8 \<Rightarrow> u32" where
  "encode_simd_imm8 imm8 =
     (push_bit 16 (drop_bit 5 (word_of_u8 imm8)) OR push_bit 5 (word_of_u8 imm8 AND 0x1f))"

text \<open>The loop over the bytes of a 64-bit mask: every byte is 0x00 or 0xff.\<close>

definition mask_bytes_imm8 :: "u64 \<Rightarrow> u8 option" where
  "mask_bytes_imm8 value =
     fold (\<lambda>b acc. case acc of None \<Rightarrow> None
                   | Some imm8 \<Rightarrow>
                       (let byte = ucast (drop_bit (b * 8) value AND 0xff) :: u8 in
                        if byte = 0x00 then Some imm8
                        else if byte = 0xff then Some (imm8 OR push_bit b 1)
                        else None))
       [0..<8] (Some 0)"

fun encode_simd_immediate :: "aarch64_opnd \<Rightarrow> decoded_operand \<Rightarrow> encoded" where
  "encode_simd_immediate kind (D_Immediate v) =
     (if 0 \<le> sint v \<and> sint v \<le> 0xff then Ok (encode_simd_imm8 (ucast v)) else invalid kind)"
| "encode_simd_immediate kind (D_UnsignedImmediate v) =
     (case mask_bytes_imm8 v of
        None \<Rightarrow> invalid kind
      | Some imm8 \<Rightarrow> Ok (push_bit 29 1 OR push_bit 12 0xe OR encode_simd_imm8 imm8))"
| "encode_simd_immediate kind _ = invalid kind"

fun encode_simd_fp_immediate :: "aarch64_opnd \<Rightarrow> decoded_operand \<Rightarrow> u32 \<Rightarrow> encoded" where
  "encode_simd_fp_immediate kind (D_FloatImmediate v) word =
     (case fp_immediate_bits v of
        None \<Rightarrow> invalid kind
      | Some imm8 \<Rightarrow>
          Ok ((if drop_bit 30 word AND 1 = 0 then 0 else push_bit 29 1) OR push_bit 12 0xf OR
              encode_simd_imm8 imm8))"
| "encode_simd_fp_immediate kind _ word = invalid kind"

fun encode_simd_shifted_immediate :: "aarch64_opnd \<Rightarrow> decoded_operand \<Rightarrow> encoded" where
  "encode_simd_shifted_immediate kind (D_ShiftedImmediate imm) =
     (if \<not> (0 \<le> sint (si_value imm) \<and> sint (si_value imm) \<le> 0xff) then invalid kind
      else if si_shift imm = 0 then Ok (encode_simd_imm8 (ucast (si_value imm)) OR push_bit 12 0)
      else if si_shift imm = 8 then Ok (encode_simd_imm8 (ucast (si_value imm)) OR push_bit 12 0x2)
      else if si_shift imm = 16 then Ok (encode_simd_imm8 (ucast (si_value imm)) OR push_bit 12 0x4)
      else if si_shift imm = 24 then Ok (encode_simd_imm8 (ucast (si_value imm)) OR push_bit 12 0x6)
      else invalid kind)"
| "encode_simd_shifted_immediate kind _ = invalid kind"

fun encode_shll_immediate :: "aarch64_opnd \<Rightarrow> decoded_operand \<Rightarrow> encoded" where
  "encode_shll_immediate kind (D_Immediate v) =
     (if v = 8 then Ok (push_bit 22 0) else if v = 16 then Ok (push_bit 22 1)
      else if v = 32 then Ok (push_bit 22 2) else invalid kind)"
| "encode_shll_immediate kind _ = invalid kind"

definition condition_code :: "string \<Rightarrow> u8 option" where
  "condition_code c =
     (if c = ''eq'' then Some 0x0 else if c = ''ne'' then Some 0x1
      else if c \<in> {''hs'', ''cs''} then Some 0x2 else if c \<in> {''lo'', ''cc''} then Some 0x3
      else if c = ''mi'' then Some 0x4 else if c = ''pl'' then Some 0x5
      else if c = ''vs'' then Some 0x6 else if c = ''vc'' then Some 0x7
      else if c = ''hi'' then Some 0x8 else if c = ''ls'' then Some 0x9
      else if c = ''ge'' then Some 0xa else if c = ''lt'' then Some 0xb
      else if c = ''gt'' then Some 0xc else if c = ''le'' then Some 0xd
      else if c = ''al'' then Some 0xe else if c = ''nv'' then Some 0xf else None)"

fun encode_condition :: "aarch64_opnd \<Rightarrow> decoded_operand \<Rightarrow> bool \<Rightarrow> encoded" where
  "encode_condition kind (D_Condition c) inverted_alias =
     (case condition_code c of
        None \<Rightarrow> invalid kind
      | Some code \<Rightarrow> Ok (push_bit 12 (word_of_u8 (if inverted_alias then code XOR 1 else code))))"
| "encode_condition kind _ inverted_alias = invalid kind"

section \<open>PC-relative operands\<close>

fun encode_pcrel :: "aarch64_opnd \<Rightarrow> decoded_operand \<Rightarrow> u64 \<Rightarrow> nat \<Rightarrow> nat \<Rightarrow> encoded" where
  "encode_pcrel kind (D_BranchTarget target) address bits bit_offset =
     (let offset = uint target - uint address in
      if offset smod 4 \<noteq> 0 then invalid kind
      else
        let imm = offset sdiv 4; limit = 2 ^ (bits - 1) in
        if \<not> (- limit \<le> imm \<and> imm < limit) then invalid kind
        else Ok (push_bit bit_offset (word_of_int imm AND (push_bit bits 1 - 1))))"
| "encode_pcrel kind _ address bits bit_offset = invalid kind"

fun encode_pcrel21 :: "aarch64_opnd \<Rightarrow> decoded_operand \<Rightarrow> u64 \<Rightarrow> encoded" where
  "encode_pcrel21 kind (D_BranchTarget target) address =
     (let value = uint target - uint address in
      if \<not> (- (2 ^ 20) \<le> value \<and> value < 2 ^ 20) then invalid kind
      else let encoded = word_of_int value AND 0x1fffff
           in Ok (push_bit 29 (encoded AND 0x3) OR push_bit 5 (drop_bit 2 encoded AND 0x7ffff)))"
| "encode_pcrel21 kind _ address = invalid kind"

fun encode_adrp :: "aarch64_opnd \<Rightarrow> decoded_operand \<Rightarrow> u64 \<Rightarrow> encoded" where
  "encode_adrp kind (D_PageTarget target) address =
     (if target AND 0xfff \<noteq> 0 then invalid kind
      else
        let page_delta = target - (address AND NOT 0xfff);
            imm = signed_drop_bit 12 page_delta
        in if \<not> (- (2 ^ 20) \<le> sint imm \<and> sint imm < 2 ^ 20) then invalid kind
           else let encoded = ucast imm AND 0x1fffff
                in Ok (push_bit 29 (encoded AND 0x3) OR push_bit 5 (drop_bit 2 encoded AND 0x7ffff)))"
| "encode_adrp kind _ address = invalid kind"

section \<open>Memory operands\<close>

definition base_ok :: "register \<Rightarrow> bool" where
  "base_ok r = (reg_class r \<in> {RC_X, RC_XOrSp} \<and> \<not> reg_index r > 31)"

fun encode_addr_simple :: "aarch64_opnd \<Rightarrow> decoded_operand \<Rightarrow> encoded" where
  "encode_addr_simple kind (D_Memory mem) =
     (if \<not> base_ok (mem_base mem) \<or> mem_mode mem \<noteq> AM_Offset \<or> mem_offset mem \<noteq> Off_None
      then invalid kind else Ok (push_bit 5 (word_of_u8 (reg_index (mem_base mem)))))"
| "encode_addr_simple kind _ = invalid kind"

fun encode_addr_regoff :: "aarch64_opnd \<Rightarrow> decoded_operand \<Rightarrow> u32 \<Rightarrow> encoded" where
  "encode_addr_regoff kind (D_Memory mem) word =
     (case mem_offset mem of
        Off_Register r sh \<Rightarrow>
          (if \<not> base_ok (mem_base mem) \<or> mem_mode mem \<noteq> AM_Offset \<or> reg_class r \<noteq> RC_X \<or> reg_index r > 31
           then invalid kind
           else
             let sz = ucast (drop_bit 30 word AND 0x3) :: u8;
                 regs = push_bit 5 (word_of_u8 (reg_index (mem_base mem))) OR
                        push_bit 16 (word_of_u8 (reg_index r)) OR push_bit 13 3
             in case sh of
                  None \<Rightarrow> Ok (regs OR 0)
                | Some s \<Rightarrow>
                    if sh_kind s = Lsl \<and> sh_amount s = sz then Ok (regs OR push_bit 12 1) else invalid kind)
      | _ \<Rightarrow> invalid kind)"
| "encode_addr_regoff kind _ word = invalid kind"

definition pair_mode_bits :: "aarch64_insn_class \<Rightarrow> addressing_mode \<Rightarrow> u32 option" where
  "pair_mode_bits c mode =
     (if c \<in> {C_LdstpairOff, C_LdstnapairOffs} \<and> mode = AM_Offset then Some 0
      else if c = C_LdstpairIndexed \<and> mode = AM_PostIndex then Some 0
      else if c = C_LdstpairIndexed \<and> mode = AM_PreIndex then Some (push_bit 24 1)
      else None)"

fun encode_addr_simm7 :: "aarch64_opnd \<Rightarrow> decoded_operand \<Rightarrow> aarch64_opcode \<Rightarrow> encoded" where
  "encode_addr_simm7 kind (D_Memory mem) opcode =
     (if \<not> base_ok (mem_base mem) then invalid kind
      else case mem_offset mem of
             Off_Immediate offset \<Rightarrow>
               (if sint offset smod 8 \<noteq> 0 then invalid kind
                else
                  let imm = sint offset sdiv 8 in
                  if \<not> (- 64 \<le> imm \<and> imm < 64) then invalid kind
                  else case pair_mode_bits (op_iclass opcode) (mem_mode mem) of
                         None \<Rightarrow> invalid kind
                       | Some mode_bits \<Rightarrow>
                           Ok (push_bit 5 (word_of_u8 (reg_index (mem_base mem))) OR
                               push_bit 15 (word_of_int imm AND 0x7f) OR mode_bits))
           | _ \<Rightarrow> invalid kind)"
| "encode_addr_simm7 kind _ opcode = invalid kind"

definition simm9_mode_bits :: "aarch64_insn_class \<Rightarrow> addressing_mode \<Rightarrow> u32 option" where
  "simm9_mode_bits c mode =
     (if c = C_LdstUnscaled \<and> mode = AM_Offset then Some 0
      else if c = C_LdstImm9 \<and> mode = AM_PostIndex then Some 0
      else if c = C_LdstImm9 \<and> mode = AM_PreIndex then Some (push_bit 11 1)
      else None)"

fun encode_addr_simm9 :: "aarch64_opnd \<Rightarrow> decoded_operand \<Rightarrow> aarch64_opcode \<Rightarrow> encoded" where
  "encode_addr_simm9 kind (D_Memory mem) opcode =
     (if \<not> base_ok (mem_base mem) then invalid kind
      else case mem_offset mem of
             Off_Immediate offset \<Rightarrow>
               (if \<not> (- 256 \<le> sint offset \<and> sint offset \<le> 255) then invalid kind
                else case simm9_mode_bits (op_iclass opcode) (mem_mode mem) of
                       None \<Rightarrow> invalid kind
                     | Some mode_bits \<Rightarrow>
                         Ok (push_bit 5 (word_of_u8 (reg_index (mem_base mem))) OR
                             push_bit 12 (ucast offset AND 0x1ff) OR mode_bits))
           | _ \<Rightarrow> invalid kind)"
| "encode_addr_simm9 kind _ opcode = invalid kind"

fun encode_addr_uimm12 :: "aarch64_opnd \<Rightarrow> decoded_operand \<Rightarrow> u32 \<Rightarrow> encoded" where
  "encode_addr_uimm12 kind (D_Memory mem) word =
     (if \<not> base_ok (mem_base mem) \<or> mem_mode mem \<noteq> AM_Offset then invalid kind
      else case mem_offset mem of
             Off_Immediate offset \<Rightarrow>
               (if sint offset < 0 then invalid kind
                else
                  let unit = 2 ^ unat (drop_bit 30 word AND 0x3) :: int in
                  if sint offset smod unit \<noteq> 0 then invalid kind
                  else
                    let imm = sint offset sdiv unit in
                    if \<not> (0 \<le> imm \<and> imm \<le> 0xfff) then invalid kind
                    else Ok (push_bit 5 (word_of_u8 (reg_index (mem_base mem))) OR
                             push_bit 10 (word_of_int imm)))
           | _ \<Rightarrow> invalid kind)"
| "encode_addr_uimm12 kind _ word = invalid kind"

fun encode_simd_addr_post :: "aarch64_opnd \<Rightarrow> decoded_operand \<Rightarrow> encoded" where
  "encode_simd_addr_post kind (D_Memory mem) =
     (if \<not> base_ok (mem_base mem) \<or> mem_mode mem \<noteq> AM_PostIndex then invalid kind
      else
        let regs = (\<lambda>rm. push_bit 5 (word_of_u8 (reg_index (mem_base mem))) OR push_bit 16 (word_of_u8 rm)) in
        case mem_offset mem of
          Off_Immediate _ \<Rightarrow> Ok (regs 31)
        | Off_Register r sh \<Rightarrow>
            (if sh = None \<and> reg_class r = RC_X \<and> reg_index r \<le> 31 then Ok (regs (reg_index r))
             else invalid kind)
        | Off_None \<Rightarrow> invalid kind)"
| "encode_simd_addr_post kind _ = invalid kind"

section \<open>System operands\<close>

definition parse_prefixed_hex :: "string \<Rightarrow> string \<Rightarrow> u8 option" where
  "parse_prefixed_hex v p = Option.bind (strip_prefix p v) (parse_u8 16)"

definition parse_prefixed_decimal :: "string \<Rightarrow> string \<Rightarrow> u8 option" where
  "parse_prefixed_decimal v p = Option.bind (strip_prefix p v) (parse_u8 10)"

definition filter_le :: "u8 \<Rightarrow> u8 option \<Rightarrow> u8 option" where
  "filter_le limit x = (case x of None \<Rightarrow> None | Some v \<Rightarrow> if v \<le> limit then Some v else None)"

fun encode_system_fixed :: "aarch64_opnd \<Rightarrow> decoded_operand \<Rightarrow> string \<Rightarrow> encoded" where
  "encode_system_fixed kind (D_System v) expected = (if v = expected then Ok 0 else invalid kind)"
| "encode_system_fixed kind _ expected = invalid kind"

fun encode_coproc_register :: "aarch64_opnd \<Rightarrow> decoded_operand \<Rightarrow> nat \<Rightarrow> encoded" where
  "encode_coproc_register kind (D_System v) bit_offset =
     (case parse_prefixed_decimal v ''c'' of
        None \<Rightarrow> invalid kind
      | Some number \<Rightarrow> if number > 0xf then invalid kind else Ok (push_bit bit_offset (word_of_u8 number)))"
| "encode_coproc_register kind _ bit_offset = invalid kind"

definition barrier_code :: "string \<Rightarrow> u8 option" where
  "barrier_code v =
     (if v = ''oshld'' then Some 0x1 else if v = ''oshst'' then Some 0x2 else if v = ''osh'' then Some 0x3
      else if v = ''nshld'' then Some 0x5 else if v = ''nshst'' then Some 0x6 else if v = ''nsh'' then Some 0x7
      else if v = ''ishld'' then Some 0x9 else if v = ''ishst'' then Some 0xa else if v = ''ish'' then Some 0xb
      else if v = ''ld'' then Some 0xd else if v = ''st'' then Some 0xe else if v = ''sy'' then Some 0xf
      else filter_le 0xf (parse_prefixed_hex v ''#0x''))"

fun encode_barrier :: "aarch64_opnd \<Rightarrow> decoded_operand \<Rightarrow> encoded" where
  "encode_barrier kind (D_System v) =
     (case barrier_code v of None \<Rightarrow> invalid kind | Some code \<Rightarrow> Ok (push_bit 8 (word_of_u8 code)))"
| "encode_barrier kind _ = invalid kind"

fun encode_barrier_isb :: "aarch64_opnd \<Rightarrow> decoded_operand \<Rightarrow> encoded" where
  "encode_barrier_isb kind (D_System v) =
     (case (if v = ''sy'' then Some 0xf else filter_le 0xf (parse_prefixed_decimal v ''#'')) of
        None \<Rightarrow> invalid kind
      | Some code \<Rightarrow> Ok (push_bit 8 (word_of_u8 code)))"
| "encode_barrier_isb kind _ = invalid kind"

definition parse_pstate_field :: "string \<Rightarrow> (u8 \<times> u8) option" where
  "parse_pstate_field v =
     Option.bind (strip_prefix ''pstate:'' v) (\<lambda>rest.
       case split_on (CHR '':'') rest of
         [a, b] \<Rightarrow>
           Option.bind (parse_u8 10 a) (\<lambda>op1. Option.bind (parse_u8 10 b) (\<lambda>op2.
             if op1 \<le> 7 \<and> op2 \<le> 7 then Some (op1, op2) else None))
       | _ \<Rightarrow> None)"

fun encode_pstate_field :: "aarch64_opnd \<Rightarrow> decoded_operand \<Rightarrow> encoded" where
  "encode_pstate_field kind (D_System v) =
     (case (if v = ''DAIFSet'' then Some (3, 6) else if v = ''DAIFClr'' then Some (3, 7)
            else parse_pstate_field v) of
        None \<Rightarrow> invalid kind
      | Some (op1, op2) \<Rightarrow> Ok (push_bit 16 (word_of_u8 op1) OR push_bit 5 (word_of_u8 op2)))"
| "encode_pstate_field kind _ = invalid kind"

definition prfop_code :: "string \<Rightarrow> u8 option" where
  "prfop_code v =
     (if v = ''pldl1keep'' then Some 0x00 else if v = ''pldl1strm'' then Some 0x01
      else if v = ''pldl2keep'' then Some 0x02 else if v = ''pldl2strm'' then Some 0x03
      else if v = ''pldl3keep'' then Some 0x04 else if v = ''pldl3strm'' then Some 0x05
      else if v = ''plil1keep'' then Some 0x08 else if v = ''plil1strm'' then Some 0x09
      else if v = ''plil2keep'' then Some 0x0a else if v = ''plil2strm'' then Some 0x0b
      else if v = ''plil3keep'' then Some 0x0c else if v = ''plil3strm'' then Some 0x0d
      else if v = ''pstl1keep'' then Some 0x10 else if v = ''pstl1strm'' then Some 0x11
      else if v = ''pstl2keep'' then Some 0x12 else if v = ''pstl2strm'' then Some 0x13
      else if v = ''pstl3keep'' then Some 0x14 else if v = ''pstl3strm'' then Some 0x15
      else filter_le 0x1f (parse_prefixed_hex v ''#0x''))"

fun encode_prfop :: "aarch64_opnd \<Rightarrow> decoded_operand \<Rightarrow> encoded" where
  "encode_prfop kind (D_System v) =
     (case prfop_code v of None \<Rightarrow> invalid kind | Some code \<Rightarrow> Ok (word_of_u8 code))"
| "encode_prfop kind _ = invalid kind"

text \<open>
  The parser of a generic system-register name, part by part as the source consumes the
  iterator; after the fifth part nothing may follow.
\<close>

definition parse_sysreg_name :: "string \<Rightarrow> (u8 \<times> u8 \<times> u8 \<times> u8 \<times> u8) option" where
  "parse_sysreg_name v =
     Option.bind (strip_prefix ''S'' v) (\<lambda>rest.
       case split_on (CHR ''_'') rest of
         [a, b, c, d, e] \<Rightarrow>
           Option.bind (parse_u8 10 a) (\<lambda>op0. Option.bind (parse_u8 10 b) (\<lambda>op1.
           Option.bind (parse_prefixed_decimal c ''C'') (\<lambda>crn.
           Option.bind (parse_prefixed_decimal d ''C'') (\<lambda>crm.
           Option.bind (parse_u8 10 e) (\<lambda>op2.
             if op0 \<le> 3 \<and> op1 \<le> 7 \<and> crn \<le> 0xf \<and> crm \<le> 0xf \<and> op2 \<le> 7
             then Some (op0, op1, crn, crm, op2) else None)))))
       | _ \<Rightarrow> None)"

fun encode_sysreg :: "aarch64_opnd \<Rightarrow> decoded_operand \<Rightarrow> encoded" where
  "encode_sysreg kind (D_System v) =
     (case (if v = ''NZCV'' then Some (3, 3, 4, 2, 0)
            else if v = ''TPIDR_EL0'' then Some (3, 3, 13, 0, 2)
            else if v = ''CNTVCT_EL0'' then Some (3, 3, 14, 0, 2)
            else parse_sysreg_name v) of
        None \<Rightarrow> invalid kind
      | Some (op0, op1, crn, crm, op2) \<Rightarrow>
          Ok (push_bit 19 (word_of_u8 op0) OR push_bit 16 (word_of_u8 op1) OR
              push_bit 12 (word_of_u8 crn) OR push_bit 8 (word_of_u8 crm) OR push_bit 5 (word_of_u8 op2)))"
| "encode_sysreg kind _ = invalid kind"

definition parse_sys_op_name :: "string \<Rightarrow> string \<Rightarrow> (u8 \<times> u8 \<times> u8 \<times> u8) option" where
  "parse_sys_op_name v p =
     Option.bind (strip_prefix p v) (\<lambda>r. Option.bind (strip_prefix '':'' r) (\<lambda>rest.
       case split_on (CHR '':'') rest of
         [a, b, c, d] \<Rightarrow>
           Option.bind (parse_prefixed_decimal a ''#'') (\<lambda>op1.
           Option.bind (parse_prefixed_decimal b ''c'') (\<lambda>cn.
           Option.bind (parse_prefixed_decimal c ''c'') (\<lambda>cm.
           Option.bind (parse_prefixed_decimal d ''#'') (\<lambda>op2.
             if op1 \<le> 7 \<and> cn \<le> 0xf \<and> cm \<le> 0xf \<and> op2 \<le> 7 then Some (op1, cn, cm, op2) else None))))
       | _ \<Rightarrow> None))"

definition sys_op_code :: "string \<Rightarrow> string \<Rightarrow> (u8 \<times> u8 \<times> u8 \<times> u8) option" where
  "sys_op_code p v =
     (if (p, v) = (''at'', ''s1e1r'') then Some (0, 7, 8, 0)
      else if (p, v) = (''dc'', ''zva'') then Some (3, 7, 4, 1)
      else if (p, v) = (''ic'', ''ivau'') then Some (3, 7, 5, 1)
      else if (p, v) = (''ic'', ''iallu'') then Some (0, 7, 5, 0)
      else if (p, v) = (''tlbi'', ''vale1'') then Some (0, 8, 7, 5)
      else if (p, v) = (''tlbi'', ''vmalle1'') then Some (0, 8, 7, 0)
      else parse_sys_op_name v p)"

fun encode_sys_op :: "aarch64_opnd \<Rightarrow> decoded_operand \<Rightarrow> string \<Rightarrow> encoded" where
  "encode_sys_op kind (D_System v) p =
     (case sys_op_code p v of
        None \<Rightarrow> invalid kind
      | Some (op1, cn, cm, op2) \<Rightarrow>
          Ok (push_bit 16 (word_of_u8 op1) OR push_bit 12 (word_of_u8 cn) OR
              push_bit 8 (word_of_u8 cm) OR push_bit 5 (word_of_u8 op2)))"
| "encode_sys_op kind _ p = invalid kind"


section \<open>The dispatch\<close>

primrec encode_word ::
  "aarch64_opnd \<Rightarrow> decoded_operand \<Rightarrow> u32 \<Rightarrow> u64 \<Rightarrow> aarch64_opcode \<Rightarrow> encoded" where
  "encode_word O_Nil x w a opc = Err (EE_Unimplemented (opnd_name O_Nil))"
| "encode_word O_Rd x w a opc = encode_rd_register O_Rd x opc"
| "encode_word O_Rn x w a opc = encode_gp_register O_Rn x 5"
| "encode_word O_Rm x w a opc = encode_gp_register O_Rm x 16"
| "encode_word O_RmLow x w a opc = encode_gp_register O_RmLow x 0"
| "encode_word O_Rt x w a opc = encode_rt_register O_Rt x opc"
| "encode_word O_Rt2 x w a opc = encode_gp_register O_Rt2 x 10"
| "encode_word O_Rs x w a opc = encode_status_register O_Rs x opc"
| "encode_word O_Ra x w a opc = encode_gp_register O_Ra x 10"
| "encode_word O_RtSys x w a opc = encode_rt_sys_register O_RtSys x"
| "encode_word O_RdSp x w a opc = encode_gp_or_sp_register O_RdSp x 0"
| "encode_word O_RnSp x w a opc = encode_gp_or_sp_register O_RnSp x 5"
| "encode_word O_Pairreg x w a opc = encode_pair_register O_Pairreg x"
| "encode_word O_RmExt x w a opc = encode_rm_extended O_RmExt x"
| "encode_word O_RmSft x w a opc = encode_rm_shifted O_RmSft x"
| "encode_word O_Fd x w a opc = encode_fp_register O_Fd x 0"
| "encode_word O_Fn x w a opc = encode_fp_register O_Fn x 5"
| "encode_word O_Fm x w a opc = encode_fp_register O_Fm x 16"
| "encode_word O_Fa x w a opc = encode_fp_register O_Fa x 10"
| "encode_word O_Ft x w a opc = encode_ft_register O_Ft x opc 0"
| "encode_word O_Ft2 x w a opc = encode_ft_register O_Ft2 x opc 10"
| "encode_word O_Sd x w a opc = encode_simd_scalar_register O_Sd x opc 0"
| "encode_word O_Sn x w a opc = encode_simd_scalar_register O_Sn x opc 5"
| "encode_word O_Sm x w a opc = encode_simd_scalar_register O_Sm x opc 16"
| "encode_word O_Vd x w a opc = encode_vector_register O_Vd x opc 0"
| "encode_word O_Vn x w a opc = encode_vector_register O_Vn x opc 5"
| "encode_word O_Vm x w a opc = encode_vector_register O_Vm x opc 16"
| "encode_word O_VdD1 x w a opc = encode_vector_d1 O_VdD1 x 0"
| "encode_word O_VnD1 x w a opc = encode_vector_d1 O_VnD1 x 5"
| "encode_word O_Ed x w a opc = encode_vector_element O_Ed x opc 0"
| "encode_word O_En x w a opc = encode_vector_element O_En x opc 5"
| "encode_word O_Em x w a opc = encode_vector_element O_Em x opc 16"
| "encode_word O_Lvn x w a opc = encode_vector_list O_Lvn x 5 opc"
| "encode_word O_Lvt x w a opc = encode_vector_list O_Lvt x 0 opc"
| "encode_word O_LvtAl x w a opc = encode_vector_list_all_lanes O_LvtAl x"
| "encode_word O_Let x w a opc = encode_vector_element_list O_Let x"
| "encode_word O_Cn x w a opc = encode_coproc_register O_Cn x 12"
| "encode_word O_Cm x w a opc = encode_coproc_register O_Cm x 8"
| "encode_word O_Idx x w a opc = encode_raw_immediate O_Idx x 11 4"
| "encode_word O_ImmVlsl x w a opc = encode_vector_shift_immediate O_ImmVlsl x w False"
| "encode_word O_ImmVlsr x w a opc = encode_vector_shift_immediate O_ImmVlsr x w True"
| "encode_word O_SimdImm x w a opc = encode_simd_immediate O_SimdImm x"
| "encode_word O_SimdImmSft x w a opc = encode_simd_shifted_immediate O_SimdImmSft x"
| "encode_word O_SimdFpimm x w a opc = encode_simd_fp_immediate O_SimdFpimm x w"
| "encode_word O_ShllImm x w a opc = encode_shll_immediate O_ShllImm x"
| "encode_word O_Imm0 x w a opc = encode_zero_immediate O_Imm0 x"
| "encode_word O_Fpimm0 x w a opc = encode_zero_float_immediate O_Fpimm0 x"
| "encode_word O_Fpimm x w a opc = encode_fp_immediate O_Fpimm x 13"
| "encode_word O_Immr x w a opc = encode_raw_immediate O_Immr x 16 6"
| "encode_word O_Imms x w a opc = encode_raw_immediate O_Imms x 10 6"
| "encode_word O_Width x w a opc = encode_bitfield_width O_Width x opc w"
| "encode_word O_Imm x w a opc = encode_bitfield_imm O_Imm x opc w"
| "encode_word O_Uimm3Op1 x w a opc = encode_raw_immediate O_Uimm3Op1 x 16 3"
| "encode_word O_Uimm3Op2 x w a opc = encode_raw_immediate O_Uimm3Op2 x 5 3"
| "encode_word O_Uimm4 x w a opc = encode_raw_immediate O_Uimm4 x 8 4"
| "encode_word O_Uimm7 x w a opc = encode_uimm7 O_Uimm7 x"
| "encode_word O_BitNum x w a opc = encode_bit_num O_BitNum x"
| "encode_word O_Exc x w a opc = encode_raw_immediate O_Exc x 5 16"
| "encode_word O_CcmpImm x w a opc = encode_raw_immediate O_CcmpImm x 16 5"
| "encode_word O_Nzcv x w a opc = encode_raw_immediate O_Nzcv x 0 4"
| "encode_word O_Limm x w a opc = encode_logical_immediate O_Limm x w"
| "encode_word O_Aimm x w a opc = encode_aimm O_Aimm x"
| "encode_word O_Half x w a opc = encode_half O_Half x"
| "encode_word O_Fbits x w a opc = encode_fbits O_Fbits x"
| "encode_word O_ImmMov x w a opc = encode_imm_mov O_ImmMov x opc"
| "encode_word O_Cond x w a opc = encode_condition O_Cond x False"
| "encode_word O_Cond1 x w a opc = encode_condition O_Cond1 x True"
| "encode_word O_AddrAdrp x w a opc = encode_adrp O_AddrAdrp x a"
| "encode_word O_AddrPcrel14 x w a opc = encode_pcrel O_AddrPcrel14 x a 14 5"
| "encode_word O_AddrPcrel19 x w a opc = encode_pcrel O_AddrPcrel19 x a 19 5"
| "encode_word O_AddrPcrel21 x w a opc = encode_pcrel21 O_AddrPcrel21 x a"
| "encode_word O_AddrPcrel26 x w a opc = encode_pcrel O_AddrPcrel26 x a 26 0"
| "encode_word O_AddrSimple x w a opc = encode_addr_simple O_AddrSimple x"
| "encode_word O_AddrRegoff x w a opc = encode_addr_regoff O_AddrRegoff x w"
| "encode_word O_AddrSimm7 x w a opc = encode_addr_simm7 O_AddrSimm7 x opc"
| "encode_word O_AddrSimm9 x w a opc = encode_addr_simm9 O_AddrSimm9 x opc"
| "encode_word O_AddrSimm92 x w a opc = Err (EE_Unimplemented (opnd_name O_AddrSimm92))"
| "encode_word O_AddrUimm12 x w a opc = encode_addr_uimm12 O_AddrUimm12 x w"
| "encode_word O_SimdAddrSimple x w a opc = encode_addr_simple O_SimdAddrSimple x"
| "encode_word O_SimdAddrPost x w a opc = encode_simd_addr_post O_SimdAddrPost x"
| "encode_word O_Sysreg x w a opc = encode_sysreg O_Sysreg x"
| "encode_word O_Pstatefield x w a opc = encode_pstate_field O_Pstatefield x"
| "encode_word O_SysregAt x w a opc = encode_sys_op O_SysregAt x ''at''"
| "encode_word O_SysregDc x w a opc = encode_sys_op O_SysregDc x ''dc''"
| "encode_word O_SysregIc x w a opc = encode_sys_op O_SysregIc x ''ic''"
| "encode_word O_SysregTlbi x w a opc = encode_sys_op O_SysregTlbi x ''tlbi''"
| "encode_word O_Barrier x w a opc = encode_barrier O_Barrier x"
| "encode_word O_BarrierIsb x w a opc = encode_barrier_isb O_BarrierIsb x"
| "encode_word O_Prfop x w a opc = encode_prfop O_Prfop x"
| "encode_word O_BarrierPsb x w a opc = encode_system_fixed O_BarrierPsb x ''csync''"

definition encode_operand :: "aarch64_opnd \<Rightarrow> decoded_operand \<Rightarrow> encode_context \<Rightarrow> encoded" where
  "encode_operand kind operand ctx =
     encode_word kind operand (ec_base_word ctx) (ec_address ctx) (ec_opcode ctx)"

end
