(* ===== verification/A64_Codec_Regs.thy ===== *)
theory A64_Codec_Regs
  imports A64_Encode
begin

text \<open>
  What the encoders write against what the decoders read: for each operand kind the bits of the
  word it owns, the side condition under which its encoder reproduces them, and the round trips
  of the general-purpose register kinds.
\<close>

section \<open>The field an operand kind owns\<close>

definition gp_sized :: "aarch64_opcode \<Rightarrow> bool" where
  "gp_sized opc \<longleftrightarrow> \<not> has_32_bit_multiply_inputs (op_name opc) \<and> \<not> is_crc32 (op_name opc)"

definition gp_sized_rm :: "aarch64_opcode \<Rightarrow> bool" where
  "gp_sized_rm opc \<longleftrightarrow> \<not> has_32_bit_multiply_inputs (op_name opc) \<and> \<not> is_32_bit_crc32_source (op_name opc)"

definition plain_vector :: "aarch64_opcode \<Rightarrow> bool" where "plain_vector opc \<longleftrightarrow> op_name opc \<noteq> ''shll'' \<and> op_iclass opc \<notin> {C_Asimdimm, C_Asimdshf} \<and> \<not> (op_iclass opc = C_Asimdins \<and> op_name opc = ''dup'')"

text \<open>
  For an operand kind of a row: the constant bits its encoder always adds, and the mask of the
  bits of the word that it reproduces. \<open>None\<close> for the kinds whose encoder depends on more
  than the operand (bitfield, logical and vector-shift immediates, structure lists) or whose
  text form is a decimal fraction.
\<close>

definition codec_field :: "aarch64_opnd \<Rightarrow> aarch64_opcode \<Rightarrow> (u32 \<times> u32) option" where
  "codec_field k opc =
     (case k of
        O_Rd \<Rightarrow>
          if op_iclass opc = C_Asimdins then None
          else if op_iclass opc = C_Pcreladdr then
            (if op_name opc \<in> {''adr'', ''adrp''} then Some (0, 0x1f) else None)
          else if op_name opc \<in> {''adr'', ''adrp''} then None
          else if is_crc32 (op_name opc) then Some (0, 0x1f) else Some (0, 0x8000001f)
      | O_Rn \<Rightarrow> Some (0, if gp_sized opc then 0x800003e0 else 0x3e0)
      | O_Rm \<Rightarrow> Some (0, if gp_sized_rm opc then 0x801f0000 else 0x1f0000)
      | O_Ra \<Rightarrow> Some (0, 0x80007c00)
      | O_RmLow \<Rightarrow> Some (0x80000000, 0x1f)
      | O_Rt2 \<Rightarrow> Some (0x80000000, 0x7c00)
      | O_Rt \<Rightarrow>
          if op_iclass opc = C_Testbranch then
            (if op_name opc \<in> {''tbz'', ''tbnz''} then Some (0, 0x1f) else None)
          else if op_iclass opc = C_Compbranch then
            (if op_name opc \<in> {''cbz'', ''cbnz''} then Some (0, 0x8000001f) else None)
          else if op_iclass opc \<in> {C_LdstpairOff, C_LdstpairIndexed, C_LdstnapairOffs} \<and>
                  op_name opc \<in> {''ldp'', ''stp'', ''ldnp'', ''stnp''}
            then Some (0x80000000, 0x1f)
          else if op_iclass opc \<in> {C_LdstImm9, C_LdstPos, C_LdstUnscaled, C_LdstRegoff} \<and>
                  op_name opc \<in> {''strb'', ''ldrb'', ''strh'', ''ldrh'', ''sturb'', ''ldurb'', ''sturh'', ''ldurh''}
            then Some (0, 0x1f)
          else if op_iclass opc \<in> {C_LdstImm9, C_LdstPos, C_LdstUnscaled, C_LdstRegoff} \<and>
                  op_name opc \<in> {''ldrsb'', ''ldrsh'', ''ldrsw''}
            then Some (0, 0x1f)
          else if op_iclass opc \<in> {C_LdstImm9, C_LdstPos, C_LdstUnscaled, C_LdstRegoff} \<and>
                  op_name opc \<in> {''ldr'', ''str'', ''ldur'', ''stur''}
            then Some (0, 0x4000001f)
          else None
      | O_RdSp \<Rightarrow> Some (0, 0x8000001f)
      | O_RnSp \<Rightarrow> Some (0, 0x800003e0)
      | O_RmExt \<Rightarrow> Some (0, 0x1ffc00)
      | O_RmSft \<Rightarrow> Some (0, 0xdffc00)
      | O_Rs \<Rightarrow> if is_casp (op_name opc) then None else Some (0, 0x1f0000)
      | O_RtSys \<Rightarrow> Some (0, 0x1f)
      | O_Fd \<Rightarrow> Some (0, 0x40001f)
      | O_Fn \<Rightarrow> Some (0, 0x4003e0)
      | O_Fm \<Rightarrow> Some (0, 0x5f0000)
      | O_Fa \<Rightarrow> Some (0, 0x407c00)
      | O_Vd \<Rightarrow> if plain_vector opc then Some (0, 0x40c0001f) else None
      | O_Vn \<Rightarrow> if plain_vector opc then Some (0, 0x40c003e0) else None
      | O_Vm \<Rightarrow> if plain_vector opc then Some (0, 0x40df0000) else None
      | O_Sd \<Rightarrow> Some (0, if op_iclass opc = C_Asimdimm then 0x1f else 0xc0001f)
      | O_Sn \<Rightarrow> Some (0, if op_iclass opc = C_Asimdimm then 0x3e0 else 0xc003e0)
      | O_Sm \<Rightarrow> Some (0, if op_iclass opc = C_Asimdimm then 0x1f0000 else 0xdf0000)
      | O_VdD1 \<Rightarrow> Some (0, 0x1f)
      | O_VnD1 \<Rightarrow> Some (0, 0x3e0)
      | O_Ed \<Rightarrow> Some (0, 0x1f001f)
      | O_En \<Rightarrow> if first_operand_is opc O_Ed then None else Some (0, 0x1f03e0)
      | O_Em \<Rightarrow> Some (0, 0xff0800)
      | O_Lvn \<Rightarrow> Some (0, 0x40c063e0)
      | O_LvtAl \<Rightarrow> Some (0, 0x40000c1f)
      | O_Idx \<Rightarrow> Some (0, 0x7800)
      | O_SimdImm \<Rightarrow> Some (0, 0x703e0)
      | O_ShllImm \<Rightarrow> Some (0, 0xc00000)
      | O_Imm0 \<Rightarrow> Some (0, 0)
      | O_Fpimm0 \<Rightarrow> Some (0, 0)
      | O_Immr \<Rightarrow> Some (0, 0x3f0000)
      | O_Imms \<Rightarrow> Some (0, 0xfc00)
      | O_Aimm \<Rightarrow> Some (0, 0x7ffc00)
      | O_Half \<Rightarrow> Some (0, 0x7fffe0)
      | O_BitNum \<Rightarrow> Some (0, 0x80f80000)
      | O_Exc \<Rightarrow> Some (0, 0x1fffe0)
      | O_CcmpImm \<Rightarrow> Some (0, 0x1f0000)
      | O_Nzcv \<Rightarrow> Some (0, 0xf)
      | O_Uimm3Op1 \<Rightarrow> Some (0, 0x70000)
      | O_Uimm3Op2 \<Rightarrow> Some (0, 0xe0)
      | O_Uimm4 \<Rightarrow> Some (0, 0xf00)
      | O_Uimm7 \<Rightarrow> Some (0, 0xfe0)
      | O_Cond \<Rightarrow> Some (0, 0xf000)
      | O_Cond1 \<Rightarrow> Some (0, 0xf000)
      | O_Fbits \<Rightarrow> Some (0, 0xfc00)
      | O_AddrSimm7 \<Rightarrow>
          if op_iclass opc \<in> {C_LdstpairOff, C_LdstnapairOffs} then Some (0, 0x3f83e0)
          else if op_iclass opc = C_LdstpairIndexed then Some (0, 0x13f83e0) else None
      | O_AddrSimple \<Rightarrow> Some (0, 0x3e0)
      | O_SimdAddrSimple \<Rightarrow> Some (0, 0x3e0)
      | O_AddrSimm9 \<Rightarrow>
          if op_iclass opc = C_LdstUnscaled then Some (0, 0x1ff3e0)
          else if op_iclass opc = C_LdstImm9 then Some (0, 0x1ffbe0) else None
      | O_AddrUimm12 \<Rightarrow> Some (0, 0x3fffe0)
      | O_AddrPcrel14 \<Rightarrow> Some (0, 0x7ffe0)
      | O_AddrPcrel19 \<Rightarrow> Some (0, 0xffffe0)
      | O_AddrPcrel26 \<Rightarrow> Some (0, 0x3ffffff)
      | O_AddrPcrel21 \<Rightarrow> Some (0, 0x60ffffe0)
      | O_AddrAdrp \<Rightarrow> Some (0, 0x60ffffe0)
      | O_SimdAddrPost \<Rightarrow> Some (0, 0x1f03e0)
      | O_Barrier \<Rightarrow> Some (0, 0xf00)
      | O_BarrierIsb \<Rightarrow> Some (0, 0xf00)
      | O_BarrierPsb \<Rightarrow> Some (0, 0)
      | O_Cn \<Rightarrow> Some (0, 0xf000)
      | O_Cm \<Rightarrow> Some (0, 0xf00)
      | O_Pstatefield \<Rightarrow> Some (0, 0x700e0)
      | O_Prfop \<Rightarrow> Some (0, 0x1f)
      | O_Sysreg \<Rightarrow> Some (0, 0x1fffe0)
      | O_SysregAt \<Rightarrow> Some (0, 0x7ffe0)
      | O_SysregDc \<Rightarrow> Some (0, 0x7ffe0)
      | O_SysregIc \<Rightarrow> Some (0, 0x7ffe0)
      | O_SysregTlbi \<Rightarrow> Some (0, 0x7ffe0)
      | _ \<Rightarrow> None)"

text \<open>The words on which the field is reproduced: with the accumulated bits \<open>b\<close> the encoder
  is given, at address \<open>a\<close>.\<close>

definition codec_side :: "aarch64_opnd \<Rightarrow> u32 \<Rightarrow> u32 \<Rightarrow> u64 \<Rightarrow> aarch64_opcode \<Rightarrow> bool" where
  "codec_side k w b a opc =
     (case k of
        O_Rt \<Rightarrow> op_name opc \<in> {''ldr'', ''str'', ''ldur'', ''stur''} \<longrightarrow>
                  bit w 31 \<and> drop_bit 26 w AND 0x3f \<noteq> 0x3d
      | O_RmExt \<Rightarrow> drop_bit 10 w AND 0x7 \<le> 4
      | O_RmSft \<Rightarrow> bit w 31 \<or> \<not> bit w 15
      | O_Fd \<Rightarrow> \<not> bit w 23
      | O_Fn \<Rightarrow> \<not> bit w 23
      | O_Fm \<Rightarrow> \<not> bit w 23
      | O_Fa \<Rightarrow> \<not> bit w 23
      | O_Ed \<Rightarrow> drop_bit 16 w AND 0xf \<noteq> 0
      | O_En \<Rightarrow> drop_bit 16 w AND 0xf \<noteq> 0
      | O_Em \<Rightarrow> bit w 22 \<noteq> bit w 23
      | O_Idx \<Rightarrow> bit w 30 \<or> \<not> bit w 14
      | O_SimdImm \<Rightarrow> \<not> (bit w 29 \<and> drop_bit 12 w AND 0xf = 0xe)
      | O_ShllImm \<Rightarrow> drop_bit 22 w AND 0x3 \<noteq> 3
      | O_Aimm \<Rightarrow> bit w 22 \<longrightarrow> drop_bit 10 w AND 0xfff \<noteq> 0
      | O_AddrSimm7 \<Rightarrow>
          (if bit w 26 then drop_bit 30 w AND 0x3 = 1 else bit w 31) \<and>
          (bit w 23 \<longleftrightarrow> op_iclass opc = C_LdstpairIndexed)
      | O_AddrSimm9 \<Rightarrow> (bit w 10 \<longleftrightarrow> op_iclass opc = C_LdstImm9)
      | O_AddrUimm12 \<Rightarrow> \<not> bit w 26 \<and> drop_bit 30 b AND 0x3 = drop_bit 30 w AND 0x3
      | O_AddrPcrel14 \<Rightarrow> 0 \<le> uint a + sint (imm14 w) \<and> uint a + sint (imm14 w) < 2 ^ 64
      | O_AddrPcrel19 \<Rightarrow> 0 \<le> uint a + sint (imm19 w) \<and> uint a + sint (imm19 w) < 2 ^ 64
      | O_AddrPcrel26 \<Rightarrow> 0 \<le> uint a + sint (imm26 w) \<and> uint a + sint (imm26 w) < 2 ^ 64
      | O_AddrPcrel21 \<Rightarrow> 0 \<le> uint a + sint (imm21 w) \<and> uint a + sint (imm21 w) < 2 ^ 64
      | _ \<Rightarrow> True)"

definition reencodes :: "aarch64_opnd \<Rightarrow> u32 \<Rightarrow> u32 \<Rightarrow> u64 \<Rightarrow> aarch64_opcode \<Rightarrow> usize \<Rightarrow> u32 \<Rightarrow> bool" where
  "reencodes k w b a opc i bits \<longleftrightarrow>
     (\<exists>x. decode_word k w a opc i = Ok x \<and> encode_word k x b a opc = Ok bits)"

section \<open>Registers\<close>

lemmas field_defs = rd_field_def rn_field_def rm_field_def rt_field_def rt2_field_def rs_field_def
  ra_field_def cn_field_def cm_field_def

lemma field_le_31: "(ucast (w AND 0x1f :: u32) :: u8) > 31 \<longleftrightarrow> False"
proof -
  have "ucast (w AND 0x1f :: u32) < (32 :: u8)"
    by (simp add: u8_less_32_bits bits_simps)
  then show ?thesis by (simp add: word_less_nat_alt)
qed

lemma reg_fields_le [simp]:
  "\<not> rd_field w > 31" "\<not> rn_field w > 31" "\<not> rm_field w > 31" "\<not> rt_field w > 31"
  "\<not> rt2_field w > 31" "\<not> rs_field w > 31" "\<not> ra_field w > 31"
  by (simp_all only: field_defs field_le_31 not_False_eq_True)

lemmas reg_makers = gp_reg_def gp_or_sp_def x_or_sp_def w_reg_def x_reg_def lse_pair_reg_def
  fp_reg_def fp_ldst_reg_def fp_load_store_reg_def

lemma reencodes_gp:
  "gp_sized opc \<Longrightarrow> reencodes O_Rn w b a opc i (w AND 0x800003e0)"
  "\<not> gp_sized opc \<Longrightarrow> reencodes O_Rn w b a opc i (w AND 0x3e0)"
  "gp_sized_rm opc \<Longrightarrow> reencodes O_Rm w b a opc i (w AND 0x801f0000)"
  "\<not> gp_sized_rm opc \<Longrightarrow> reencodes O_Rm w b a opc i (w AND 0x1f0000)"
  "reencodes O_Ra w b a opc i (w AND 0x80007c00)"
  "reencodes O_RmLow w b a opc i (0x80000000 OR w AND 0x1f)"
  "reencodes O_Rt2 w b a opc i (0x80000000 OR w AND 0x7c00)"
  "reencodes O_RdSp w b a opc i (w AND 0x8000001f)"
  "reencodes O_RnSp w b a opc i (w AND 0x800003e0)"
  "reencodes O_RtSys w b a opc i (w AND 0x1f)"
  "\<not> is_casp (op_name opc) \<Longrightarrow> reencodes O_Rs w b a opc i (w AND 0x1f0000)"
  by (simp_all add: reencodes_def rn_reg_def rm_reg_def ra_reg_def rs_reg_def rt_sys_reg_def reg_makers
        gp_sized_def gp_sized_rm_def)
    (simp_all add: field_defs bits_simps)

lemma reencodes_Rd:
  assumes "op_iclass opc \<noteq> C_Asimdins"
  shows "op_iclass opc = C_Pcreladdr \<Longrightarrow> op_name opc \<in> {''adr'', ''adrp''} \<Longrightarrow>
           reencodes O_Rd w b a opc i (w AND 0x1f)"
    and "op_iclass opc \<noteq> C_Pcreladdr \<Longrightarrow> op_name opc \<notin> {''adr'', ''adrp''} \<Longrightarrow> is_crc32 (op_name opc) \<Longrightarrow>
           reencodes O_Rd w b a opc i (w AND 0x1f)"
    and "op_iclass opc \<noteq> C_Pcreladdr \<Longrightarrow> op_name opc \<notin> {''adr'', ''adrp''} \<Longrightarrow> \<not> is_crc32 (op_name opc) \<Longrightarrow>
           reencodes O_Rd w b a opc i (w AND 0x8000001f)"
  using assms
  by (auto simp: reencodes_def rd_reg_def reg_makers Let_def)
    (simp_all add: field_defs bits_simps)

lemma reencodes_Rt_by:
  assumes "rt_reg w opc = \<lparr>reg_class = rc, reg_index = rt_field w\<rparr>" "rt_size_bits opc rc = Some sz"
  shows "reencodes O_Rt w b a opc i (sz OR w AND 0x1f)"
proof -
  have "word_of_u8 (rt_field w) = w AND 0x1f" by (simp add: field_defs bits_simps)
  then show ?thesis using assms by (simp add: reencodes_def)
qed

lemma reencodes_Rt_fixed:
  "op_iclass opc = C_Testbranch \<Longrightarrow> op_name opc \<in> {''tbz'', ''tbnz''} \<Longrightarrow>
     reencodes O_Rt w b a opc i (w AND 0x1f)"
  "op_iclass opc \<in> {C_LdstpairOff, C_LdstpairIndexed, C_LdstnapairOffs} \<Longrightarrow>
   op_name opc \<in> {''ldp'', ''stp'', ''ldnp'', ''stnp''} \<Longrightarrow>
     reencodes O_Rt w b a opc i (0x80000000 OR w AND 0x1f)"
  "ldst_single_class (op_iclass opc) \<Longrightarrow> op_name opc \<in> {''ldrsb'', ''ldrsh'', ''ldrsw''} \<Longrightarrow>
     reencodes O_Rt w b a opc i (w AND 0x1f)"
proof -
  show "reencodes O_Rt w b a opc i (w AND 0x1f)"
    if "op_iclass opc = C_Testbranch" "op_name opc \<in> {''tbz'', ''tbnz''}"
    using that reencodes_Rt_by [of w opc RC_X 0]
    by (auto simp: rt_reg_def is_casp_def x_reg_def rt_size_bits_def)
  show "reencodes O_Rt w b a opc i (0x80000000 OR w AND 0x1f)"
    if "op_iclass opc \<in> {C_LdstpairOff, C_LdstpairIndexed, C_LdstnapairOffs}"
      "op_name opc \<in> {''ldp'', ''stp'', ''ldnp'', ''stnp''}"
    using that reencodes_Rt_by [of w opc RC_X "0x80000000"]
    by (auto simp: rt_reg_def is_casp_def x_reg_def rt_size_bits_def ldst_single_class_def)
  show "reencodes O_Rt w b a opc i (w AND 0x1f)"
    if "ldst_single_class (op_iclass opc)" "op_name opc \<in> {''ldrsb'', ''ldrsh'', ''ldrsw''}"
    using that reencodes_Rt_by [of w opc RC_X 0]
    by (auto simp: rt_reg_def is_casp_def x_reg_def rt_size_bits_def ldst_single_class_def)
qed

lemma reencodes_Rt_sized:
  "op_iclass opc = C_Compbranch \<Longrightarrow> op_name opc \<in> {''cbz'', ''cbnz''} \<Longrightarrow>
     reencodes O_Rt w b a opc i (w AND 0x8000001f)"
  "ldst_single_class (op_iclass opc) \<Longrightarrow>
   op_name opc \<in> {''strb'', ''ldrb'', ''strh'', ''ldrh'', ''sturb'', ''ldurb'', ''sturh'', ''ldurh''} \<Longrightarrow>
     reencodes O_Rt w b a opc i (w AND 0x1f)"
  "ldst_single_class (op_iclass opc) \<Longrightarrow> op_name opc \<in> {''ldr'', ''str'', ''ldur'', ''stur''} \<Longrightarrow>
   bit w 31 \<Longrightarrow> drop_bit 26 w AND 0x3f \<noteq> 0x3d \<Longrightarrow>
     reencodes O_Rt w b a opc i (w AND 0x4000001f)"
proof -
  have sf: "drop_bit 31 w AND 1 = 0 \<longleftrightarrow> \<not> bit w 31" by (simp add: bits_simps)
  show "reencodes O_Rt w b a opc i (w AND 0x8000001f)"
    if c: "op_iclass opc = C_Compbranch" "op_name opc \<in> {''cbz'', ''cbnz''}"
  proof (cases "bit w 31")
    case True
    have "w AND 0x8000001f = 0x80000000 OR w AND 0x1f" using True by (simp add: bits_simps)
    then show ?thesis using c True reencodes_Rt_by [of w opc RC_X "0x80000000"] sf
      by (auto simp: rt_reg_def is_casp_def reg_makers rt_size_bits_def ldst_single_class_def)
  next
    case False
    have "w AND 0x8000001f = 0 OR w AND 0x1f" using False by (simp add: bits_simps)
    then show ?thesis using c False reencodes_Rt_by [of w opc RC_W 0] sf
      by (auto simp: rt_reg_def is_casp_def reg_makers rt_size_bits_def ldst_single_class_def)
  qed
  show "reencodes O_Rt w b a opc i (w AND 0x1f)"
    if "ldst_single_class (op_iclass opc)"
      "op_name opc \<in> {''strb'', ''ldrb'', ''strh'', ''ldrh'', ''sturb'', ''ldurb'', ''sturh'', ''ldurh''}"
    using that reencodes_Rt_by [of w opc RC_W 0]
    by (auto simp: rt_reg_def is_casp_def w_reg_def rt_size_bits_def ldst_single_class_def)
  show "reencodes O_Rt w b a opc i (w AND 0x4000001f)"
    if c: "ldst_single_class (op_iclass opc)" "op_name opc \<in> {''ldr'', ''str'', ''ldur'', ''stur''}"
      "bit w 31" "drop_bit 26 w AND 0x3f \<noteq> 0x3d"
  proof (cases "bit w 30")
    case True
    have sz: "drop_bit 30 w AND 0x3 \<noteq> 2" using True by (simp add: bits_simps)
    have "w AND 0x4000001f = 0x40000000 OR w AND 0x1f" using True by (simp add: bits_simps)
    moreover have "rt_reg w opc = \<lparr>reg_class = RC_X, reg_index = rt_field w\<rparr>"
      using c sz sf by (auto simp: rt_reg_def is_casp_def x_reg_def)
    moreover have "rt_size_bits opc RC_X = Some 0x40000000"
      using c(1,2) by (auto simp: rt_size_bits_def ldst_single_class_def)
    ultimately show ?thesis using reencodes_Rt_by [of w opc RC_X "0x40000000"] by simp
  next
    case False
    have sz: "drop_bit 30 w AND 0x3 = 2" using False c(3) by (simp add: bits_simps)
    have "w AND 0x4000001f = 0 OR w AND 0x1f" using False by (simp add: bits_simps)
    moreover have "rt_reg w opc = \<lparr>reg_class = RC_W, reg_index = rt_field w\<rparr>"
      using c sz sf by (auto simp: rt_reg_def is_casp_def w_reg_def)
    moreover have "rt_size_bits opc RC_W = Some 0"
      using c(1,2) by (auto simp: rt_size_bits_def ldst_single_class_def)
    ultimately show ?thesis using reencodes_Rt_by [of w opc RC_W 0] by simp
  qed
qed

text \<open>Shifted and extended registers.\<close>

lemma u8_field_le:
  "(ucast (drop_bit 10 w AND 0x7 :: u32) :: u8) > 4 \<longleftrightarrow> \<not> drop_bit 10 w AND 0x7 \<le> (4 :: u32)"
proof -
  have "unat (ucast (drop_bit 10 w AND 0x7 :: u32) :: u8) = unat (drop_bit 10 w AND 0x7 :: u32)"
  proof -
    have "unat (drop_bit 10 w AND 0x7 :: u32) < 2 ^ 3"
      unfolding and_mask_take_bit by (rule unat_take_bit_less)
    then show ?thesis by (simp add: unsigned_ucast_eq take_bit_nat_eq_self_iff)
  qed
  then show ?thesis by (simp add: word_less_nat_alt word_le_nat_alt not_le)
qed

lemma reencodes_RmExt:
  assumes "drop_bit 10 w AND 0x7 \<le> (4 :: u32)"
  shows "reencodes O_RmExt w b a opc i (w AND 0x1ffc00)"
proof -
  let ?k = "drop_bit 13 w AND 0x7 :: u32"
  have rng: "?k = 0 \<or> ?k = 1 \<or> ?k = 2 \<or> ?k = 3 \<or> ?k = 4 \<or> ?k = 5 \<or> ?k = 6 \<or> ?k = 7"
    by (simp add: bits_simps) blast
  have amt: "\<not> er_amount (rm_extended w) > 4"
    using assms by (simp only: rm_extended_def Let_def extended_register.select_convs u8_field_le not_not simp_thms)
  have opt: "extend_option (er_extend (rm_extended w)) (reg_class (er_register (rm_extended w))) = Some ?k"
    using rng by (elim disjE) (simp_all add: rm_extended_def extend_option_def x_reg_def w_reg_def)
  have idx: "reg_index (er_register (rm_extended w)) = rm_field w"
    by (simp add: rm_extended_def x_reg_def w_reg_def Let_def)
  have "encode_rm_extended O_RmExt (D_ExtendedRegister (rm_extended w)) =
      Ok (push_bit 16 (word_of_u8 (rm_field w)) OR push_bit 13 ?k OR push_bit 10 (word_of_u8 (er_amount (rm_extended w))))"
    using amt opt idx by simp
  also have "push_bit 16 (word_of_u8 (rm_field w)) OR push_bit 13 ?k OR push_bit 10 (word_of_u8 (er_amount (rm_extended w)))
      = w AND 0x1ffc00"
    by (simp add: rm_extended_def Let_def field_defs bits_simps)
  finally show ?thesis by (simp add: reencodes_def)
qed

lemma reencodes_RmSft:
  assumes "bit w 31 \<or> \<not> bit w 15"
  shows "reencodes O_RmSft w b a opc i (w AND 0xdffc00)"
proof -
  let ?k = "drop_bit 22 w AND 0x3 :: u32" and ?n = "ucast (drop_bit 10 w AND 0x3f) :: u8"
  have rng: "?k = 0 \<or> ?k = 1 \<or> ?k = 2 \<or> ?k = 3"
    by (simp add: bits_simps) blast
  have code: "shift_code (sh_kind (sr_shift (rm_shifted w))) = ?k"
    using rng by (elim disjE) (simp_all add: rm_shifted_def)
  have n63: "\<not> ?n > 63"
  proof -
    have "?n < 2 ^ 6" by (subst word_less_power_bits) (simp_all add: bits_simps)
    then show ?thesis by (simp add: word_less_nat_alt)
  qed
  have n31: "\<not> ?n > 31" if "\<not> bit w 15"
  proof -
    have "?n < 2 ^ 5" using that by (subst word_less_power_bits) (simp_all add: bits_simps)
    then show ?thesis by (simp add: word_less_nat_alt)
  qed
  have "encode_rm_shifted O_RmSft (D_ShiftedRegister (rm_shifted w)) =
      Ok (push_bit 16 (word_of_u8 (rm_field w)) OR push_bit 22 ?k OR push_bit 10 (word_of_u8 ?n))"
  proof (cases "bit w 31")
    case True
    then show ?thesis using code n63
      by (simp add: rm_shifted_def reg_makers Let_def and_one_eq bit_drop_bit_eq mod2_eq_if even_drop_bit_iff_not_bit)
  next
    case False
    then show ?thesis using code n31 assms
      by (simp add: rm_shifted_def reg_makers Let_def and_one_eq bit_drop_bit_eq mod2_eq_if even_drop_bit_iff_not_bit)
  qed
  also have "push_bit 16 (word_of_u8 (rm_field w)) OR push_bit 22 ?k OR push_bit 10 (word_of_u8 ?n) = w AND 0xdffc00"
    by (simp add: field_defs bits_simps)
  finally show ?thesis by (simp add: reencodes_def)
qed

end
