(* ===== verification/A64_Codec_Vec.thy ===== *)
theory A64_Codec_Vec
  imports A64_Codec_Regs
begin

text \<open>
  Round trips of the floating-point, vector, element and list operands, and of the raw
  immediates that are copied unchanged.
\<close>

section \<open>Floating-point and vector registers\<close>

lemma bit_mult_2 [bits_simps]:
  "bit ((x :: 'a::len word) * 2) n \<longleftrightarrow> 0 < n \<and> n < LENGTH('a) \<and> bit x (n - 1)"
proof -
  have "x * 2 = push_bit 1 x" by (simp add: push_bit_eq_mult)
  then show ?thesis by (simp only: bit_push_bit_iff) auto
qed

lemma reencodes_fp:
  assumes "\<not> bit w 23"
  shows "reencodes O_Fd w b a opc i (w AND 0x40001f)" "reencodes O_Fn w b a opc i (w AND 0x4003e0)"
    "reencodes O_Fm w b a opc i (w AND 0x5f0000)" "reencodes O_Fa w b a opc i (w AND 0x407c00)"
proof -
  have "drop_bit 22 w AND 0x3 = 1 \<longleftrightarrow> bit w 22" using assms by (simp add: bits_simps)
  then show "reencodes O_Fd w b a opc i (w AND 0x40001f)" "reencodes O_Fn w b a opc i (w AND 0x4003e0)"
    "reencodes O_Fm w b a opc i (w AND 0x5f0000)" "reencodes O_Fa w b a opc i (w AND 0x407c00)"
    by (simp_all add: reencodes_def fp_reg_def) (simp_all add: field_defs bits_simps)
qed

lemma arrangement_bits_parts:
  assumes "q = 0 \<or> q = 1" "s = 0 \<or> s = 1 \<or> s = 2 \<or> s = 3"
  shows "vector_arrangement_bits (vector_arrangement_from_parts q s) = (q, s)"
  using assms by (auto simp: vector_arrangement_from_parts_def)

lemma one_bit_cases: "(x :: u32) AND 1 = 0 \<or> x AND 1 = 1"
  by (simp add: bits_simps)

lemma two_bit_cases: "(x :: u32) AND 3 = 0 \<or> x AND 3 = 1 \<or> x AND 3 = 2 \<or> x AND 3 = 3"
  by (simp add: bits_simps) blast

lemma arrangement_bits_of:
  "vector_arrangement_bits (vector_arrangement_of w) = (drop_bit 30 w AND 1, drop_bit 22 w AND 3)"
  unfolding vector_arrangement_of_def
  by (rule arrangement_bits_parts) (rule one_bit_cases two_bit_cases)+

lemma vector_reg_plain:
  "plain_vector opc \<Longrightarrow> vector_reg r w opc = \<lparr>vr_index = r, vr_arrangement = vector_arrangement_of w\<rparr>"
  by (auto simp: vector_reg_def plain_vector_def)

lemma encode_vector_register_plain:
  "plain_vector opc \<Longrightarrow> \<not> vr_index v > 31 \<Longrightarrow>
   encode_vector_register k (D_VectorRegister v) opc n =
     (case vector_arrangement_bits (vr_arrangement v) of
        (q, sz) \<Rightarrow> Ok (push_bit 30 q OR push_bit 22 sz OR push_bit n (word_of_u8 (vr_index v))))"
  by (auto simp: plain_vector_def Let_def split: prod.split)

lemma reencodes_vector:
  assumes "plain_vector opc"
  shows "reencodes O_Vd w b a opc i (w AND 0x40c0001f)" "reencodes O_Vn w b a opc i (w AND 0x40c003e0)"
    "reencodes O_Vm w b a opc i (w AND 0x40df0000)"
  by (simp_all add: reencodes_def vector_reg_plain [OF assms] encode_vector_register_plain [OF assms]
        arrangement_bits_of del: encode_vector_register.simps)
    (simp_all add: field_defs bits_simps)

lemma reencodes_simd_scalar:
  "op_iclass opc = C_Asimdimm \<Longrightarrow> reencodes O_Sd w b a opc i (w AND 0x1f)"
  "op_iclass opc = C_Asimdimm \<Longrightarrow> reencodes O_Sn w b a opc i (w AND 0x3e0)"
  "op_iclass opc = C_Asimdimm \<Longrightarrow> reencodes O_Sm w b a opc i (w AND 0x1f0000)"
  "op_iclass opc \<noteq> C_Asimdimm \<Longrightarrow> reencodes O_Sd w b a opc i (w AND 0xc0001f)"
  "op_iclass opc \<noteq> C_Asimdimm \<Longrightarrow> reencodes O_Sn w b a opc i (w AND 0xc003e0)"
  "op_iclass opc \<noteq> C_Asimdimm \<Longrightarrow> reencodes O_Sm w b a opc i (w AND 0xdf0000)"
proof -
  have "(if drop_bit 22 w AND (3 :: u32) = 0 then RC_B else if drop_bit 22 w AND 3 = 1 then RC_H
         else if drop_bit 22 w AND 3 = 2 then RC_S else RC_D) =
        (if bit w 22 then if bit w 23 then RC_D else RC_H else if bit w 23 then RC_S else RC_B)"
    by (simp add: bits_simps)
  note sz = this
  show "op_iclass opc = C_Asimdimm \<Longrightarrow> reencodes O_Sd w b a opc i (w AND 0x1f)"
    "op_iclass opc = C_Asimdimm \<Longrightarrow> reencodes O_Sn w b a opc i (w AND 0x3e0)"
    "op_iclass opc = C_Asimdimm \<Longrightarrow> reencodes O_Sm w b a opc i (w AND 0x1f0000)"
    by (simp_all add: reencodes_def simd_scalar_reg_def) (simp_all add: field_defs bits_simps)
  show "op_iclass opc \<noteq> C_Asimdimm \<Longrightarrow> reencodes O_Sd w b a opc i (w AND 0xc0001f)"
    "op_iclass opc \<noteq> C_Asimdimm \<Longrightarrow> reencodes O_Sn w b a opc i (w AND 0xc003e0)"
    "op_iclass opc \<noteq> C_Asimdimm \<Longrightarrow> reencodes O_Sm w b a opc i (w AND 0xdf0000)"
    by (simp_all add: reencodes_def simd_scalar_reg_def Let_def sz) (simp_all add: field_defs bits_simps)
qed

lemma reencodes_d1:
  "reencodes O_VdD1 w b a opc i (w AND 0x1f)" "reencodes O_VnD1 w b a opc i (w AND 0x3e0)"
  by (simp_all add: reencodes_def) (simp_all add: field_defs bits_simps)

text \<open>A claim about a field of few bits, by evaluation at each of its values.\<close>

lemma take_bit_word_cases:
  assumes "list_all (\<lambda>n. P (word_of_nat n :: 'a::len word)) [0..<2 ^ k]"
  shows "P (take_bit k (x :: 'a word))"
proof -
  let ?n = "unat (take_bit k x)"
  have "?n < 2 ^ k" by (rule unat_take_bit_less)
  then have "?n \<in> set [0..<2 ^ k]" by simp
  moreover have "word_of_nat ?n = take_bit k x" by simp
  ultimately show ?thesis using assms by (metis (mono_tags, lifting) list_all_iff)
qed

lemma field3_cases:
  fixes P :: "'a::len word \<Rightarrow> bool"
  assumes "P 0" "P 1" "P 2" "P 3" "P 4" "P 5" "P 6" "P 7"
  shows "P (take_bit 3 x)"
proof (rule take_bit_word_cases)
  have "[0..<2 ^ 3] = [0, 1, 2, 3, 4, 5, 6, 7 :: nat]" by code_simp
  then show "list_all (\<lambda>n. P (word_of_nat n)) [0..<2 ^ 3]" using assms by simp
qed

lemma field4_cases:
  fixes P :: "'a::len word \<Rightarrow> bool"
  assumes "P 0" "P 1" "P 2" "P 3" "P 4" "P 5" "P 6" "P 7" "P 8" "P 9" "P 10" "P 11" "P 12" "P 13" "P
    14" "P 15"
  shows "P (take_bit 4 x)"
proof (rule take_bit_word_cases)
  have "[0..<2 ^ 4] = [0, 1, 2, 3, 4, 5, 6, 7, 8, 9, 10, 11, 12, 13, 14, 15 :: nat]" by code_simp
  then show "list_all (\<lambda>n. P (word_of_nat n)) [0..<2 ^ 4]" using assms by simp
qed

lemma field5_cases:
  fixes P :: "'a::len word \<Rightarrow> bool"
  assumes "P 0" "P 1" "P 2" "P 3" "P 4" "P 5" "P 6" "P 7" "P 8" "P 9" "P 10" "P 11" "P 12" "P 13" "P
    14" "P 15" "P 16" "P 17" "P 18" "P 19" "P 20" "P 21" "P 22" "P 23" "P 24" "P 25" "P 26" "P
    27" "P 28" "P 29" "P 30" "P 31"
  shows "P (take_bit 5 x)"
proof (rule take_bit_word_cases)
  have "[0..<2 ^ 5] = [0, 1, 2, 3, 4, 5, 6, 7, 8, 9, 10, 11, 12, 13, 14, 15, 16, 17, 18, 19, 20, 21, 22, 23, 24, 25, 26, 27, 28, 29, 30, 31 :: nat]" by code_simp
  then show "list_all (\<lambda>n. P (word_of_nat n)) [0..<2 ^ 5]" using assms by simp
qed

text \<open>Elements addressed by a five-bit field: the lowest set bit gives the size.\<close>

lemma encode_imm5:
  "(x :: u32) AND 0xf \<noteq> 0 \<Longrightarrow>
   encode_imm5_element (element_from_imm5 r (x AND 0x1f)) = Ok (ucast (x AND 0x1f))"
proof -
  have "take_bit 5 x AND 0xf \<noteq> 0 \<longrightarrow>
     encode_imm5_element (element_from_imm5 r (take_bit 5 x)) = Ok (ucast (take_bit 5 x))"
    by (rule field5_cases)
      (simp_all add: encode_imm5_element_def element_from_imm5_def element_size_from_imm5_def
          not_le word_less_nat_alt)
  moreover have "take_bit 5 x AND 0xf = x AND 0xf" by (simp add: bits_simps)
  moreover have "x AND 0x1f = take_bit 5 x" by (simp only: and_mask_take_bit)
  ultimately show "x AND 0xf \<noteq> 0 \<Longrightarrow> ?thesis" by metis
qed

lemma ed_en_reencodes:
  assumes "drop_bit 16 w AND (0xf :: u32) \<noteq> 0"
  shows "reencodes O_Ed w b a opc i (w AND 0x1f001f)"
    and "\<not> first_operand_is opc O_Ed \<Longrightarrow> reencodes O_En w b a opc i (w AND 0x1f03e0)"
proof -
  let ?imm5 = "drop_bit 16 w AND 0x1f :: u32"
  have idx: "ve_index (element_from_imm5 r x) = r" for r x by (simp add: element_from_imm5_def Let_def)
  have "reencodes O_Ed w b a opc i (word_of_u8 (rd_field w) OR push_bit 16 (word_of_u8 (ucast ?imm5)))"
    using encode_imm5 [OF assms, of "rd_field w"]
    by (simp add: reencodes_def ed_element_def encode_vector_element_of_def idx)
  moreover have "word_of_u8 (rd_field w) OR push_bit 16 (word_of_u8 (ucast ?imm5)) = w AND 0x1f001f"
    by (simp add: field_defs bits_simps)
  ultimately show "reencodes O_Ed w b a opc i (w AND 0x1f001f)" by simp
  assume nEd: "\<not> first_operand_is opc O_Ed"
  have en: "en_element w opc = element_from_imm5 (rn_field w) ?imm5"
    using nEd by (auto simp: en_element_def element_from_imm5_def Let_def)
  have "reencodes O_En w b a opc i (push_bit 5 (word_of_u8 (rn_field w)) OR push_bit 16 (word_of_u8 (ucast ?imm5)))"
    using encode_imm5 [OF assms, of "rn_field w"] nEd
    by (simp add: reencodes_def en encode_vector_element_of_def idx Let_def)
  moreover have "push_bit 5 (word_of_u8 (rn_field w)) OR push_bit 16 (word_of_u8 (ucast ?imm5)) = w AND 0x1f03e0"
    by (simp add: field_defs bits_simps)
  ultimately show "reencodes O_En w b a opc i (w AND 0x1f03e0)" by simp
qed

lemma reencodes_Em:
  assumes "bit w 22 \<noteq> bit w 23"
  shows "reencodes O_Em w b a opc i (w AND 0xff0800)"
proof -
  have sz: "drop_bit 22 w AND 0x3 = 1 \<longleftrightarrow> bit w 22"
    using assms by (simp add: bits_simps)
  have i: "ve_index (em_element w) = rm_field w" by (simp add: em_element_def Let_def)
  show ?thesis
  proof (cases "bit w 22")
    case True
    let ?e = "ve_element (em_element w)"
    have s: "ve_size (em_element w) = VS_H" using sz True by (simp add: em_element_def Let_def)
    have e: "?e = push_bit 2 (ucast (drop_bit 11 w AND 1)) OR push_bit 1 (ucast (drop_bit 21 w AND 1)) OR
        ucast (drop_bit 20 w AND 1)" using sz True by (simp add: em_element_def Let_def)
    have "?e < 2 ^ 3" unfolding e by (subst word_less_power_bits) (simp_all add: bits_simps)
    then have "encode_em_element (em_element w) = Ok (1, drop_bit 2 ?e AND 1, drop_bit 1 ?e AND 1, ?e AND 1)"
      using s by (simp add: encode_em_element_def Let_def)
    then have "reencodes O_Em w b a opc i (push_bit 16 (word_of_u8 (rm_field w)) OR push_bit 22 1 OR
        push_bit 11 (word_of_u8 (drop_bit 2 ?e AND 1)) OR push_bit 21 (word_of_u8 (drop_bit 1 ?e AND 1)) OR
        push_bit 20 (word_of_u8 (?e AND 1)))"
      by (simp add: reencodes_def i encode_vector_element_of_def)
    moreover have "push_bit 16 (word_of_u8 (rm_field w)) OR push_bit 22 1 OR
        push_bit 11 (word_of_u8 (drop_bit 2 ?e AND 1)) OR push_bit 21 (word_of_u8 (drop_bit 1 ?e AND 1)) OR
        push_bit 20 (word_of_u8 (?e AND 1)) = w AND 0xff0800"
      using True assms unfolding e by (simp add: field_defs bits_simps)
    ultimately show ?thesis by simp
  next
    case False
    let ?e = "ve_element (em_element w)"
    have s: "ve_size (em_element w) = VS_S" using sz False by (simp add: em_element_def Let_def)
    have e: "?e = push_bit 1 (ucast (drop_bit 11 w AND 1)) OR ucast (drop_bit 21 w AND 1)"
      using sz False by (simp add: em_element_def Let_def)
    have "?e < 2 ^ 2" unfolding e by (subst word_less_power_bits) (simp_all add: bits_simps)
    then have "encode_em_element (em_element w) = Ok (2, drop_bit 1 ?e AND 1, ?e AND 1, 0)"
      using s by (simp add: encode_em_element_def Let_def)
    then have "reencodes O_Em w b a opc i (push_bit 16 (word_of_u8 (rm_field w)) OR push_bit 22 2 OR
        push_bit 11 (word_of_u8 (drop_bit 1 ?e AND 1)) OR push_bit 21 (word_of_u8 (?e AND 1)))"
      by (simp add: reencodes_def i encode_vector_element_of_def)
    moreover have "push_bit 16 (word_of_u8 (rm_field w)) OR push_bit 22 2 OR
        push_bit 11 (word_of_u8 (drop_bit 1 ?e AND 1)) OR push_bit 21 (word_of_u8 (?e AND 1)) = w AND 0xff0800"
      using False assms unfolding e by (simp add: field_defs bits_simps)
    ultimately show ?thesis by simp
  qed
qed

lemma count_cases: "(x :: u32) AND 3 = 0 \<or> x AND 3 = 1 \<or> x AND 3 = 2 \<or> x AND 3 = 3"
  by (rule two_bit_cases)

lemma reencodes_Lvn: "reencodes O_Lvn w b a opc i (w AND 0x40c063e0)"
proof -
  let ?n = "drop_bit 13 w AND 0x3 :: u32"
  have "1 \<le> (ucast (?n + 1) :: u8) \<and> ucast (?n + 1) \<le> (4 :: u8) \<and> word_of_u8 (ucast (?n + 1)) - 1 = ?n"
    using two_bit_cases [of "drop_bit 13 w"] by (elim disjE) simp_all
  then have "reencodes O_Lvn w b a opc i (push_bit 30 (drop_bit 30 w AND 1) OR push_bit 22 (drop_bit 22 w AND 3) OR
      push_bit 5 (word_of_u8 (rn_field w)) OR push_bit 13 ?n)"
    by (simp add: reencodes_def vector_list_of_def arrangement_bits_of)
  moreover have "push_bit 30 (drop_bit 30 w AND 1) OR push_bit 22 (drop_bit 22 w AND 3) OR
      push_bit 5 (word_of_u8 (rn_field w)) OR push_bit 13 ?n = w AND 0x40c063e0"
    by (simp add: field_defs bits_simps)
  ultimately show ?thesis by simp
qed

lemma reencodes_LvtAl: "reencodes O_LvtAl w b a opc i (w AND 0x40000c1f)"
proof -
  let ?n = "case simd_ldst_list_count w of None \<Rightarrow> 1 | Some n \<Rightarrow> n"
  have "1 \<le> (ucast ?n :: u8) \<and> ucast ?n \<le> (4 :: u8)"
    by (simp add: simd_ldst_list_count_def Let_def)
  moreover have "vector_arrangement_bits (vector_arrangement_from_parts (drop_bit 30 w AND 1) (drop_bit 10 w AND 3)) =
      (drop_bit 30 w AND 1, drop_bit 10 w AND 3)"
    by (rule arrangement_bits_parts) (rule one_bit_cases two_bit_cases)+
  ultimately have "reencodes O_LvtAl w b a opc i
      (push_bit 30 (drop_bit 30 w AND 1) OR push_bit 10 (drop_bit 10 w AND 3) OR word_of_u8 (rt_field w))"
    by (simp add: reencodes_def simd_ldst_list_def)
  moreover have "push_bit 30 (drop_bit 30 w AND 1) OR push_bit 10 (drop_bit 10 w AND 3) OR word_of_u8 (rt_field w)
      = w AND 0x40000c1f"
    by (simp add: field_defs bits_simps)
  ultimately show ?thesis by simp
qed

section \<open>Immediates\<close>

text \<open>A widened field is non-negative, and as large as the field.\<close>

lemma sint_ucast_small:
  fixes x :: "'a::len word"
  assumes "LENGTH('a) < 64"
  shows "sint (ucast x :: i64) = uint x"
proof -
  have "uint x < 2 ^ LENGTH('a)" by simp
  also have "\<dots> \<le> 2 ^ 63" using assms by (intro power_increasing) simp_all
  finally have "uint x < 2 ^ 63" .
  moreover have "0 \<le> uint x" by simp
  then have "- (2 ^ 63) \<le> uint x" by (rule order_trans [rotated]) simp
  ultimately have "signed_take_bit 63 (uint x) = uint x" by (intro signed_take_bit_int_eq_self)
  then show ?thesis by (simp add: signed_ucast_eq)
qed

lemma sint_ucast_u32: "sint (ucast (x :: u32) :: i64) = uint x"
  by (rule sint_ucast_small) simp

lemma uint_take_bit_less: "uint (take_bit n (x :: 'a::len word)) < 2 ^ n"
  by (simp add: unsigned_take_bit_eq)

lemma raw_immediate_field:
  assumes "n \<le> 32" "m = take_bit n (x :: u32)"
  shows "encode_raw_immediate k (D_Immediate (ucast m)) pos n = Ok (push_bit pos m)"
proof -
  have "uint m < 2 ^ n" unfolding assms(2) by (rule uint_take_bit_less)
  moreover have "ucast (ucast m :: i64) = m" by (simp add: word32_eq_bits bit_simps)
  ultimately show ?thesis by (simp add: sint_ucast_u32)
qed

lemma reencodes_raw:
  "reencodes O_Immr w b a opc i (w AND 0x3f0000)"
  "reencodes O_Imms w b a opc i (w AND 0xfc00)"
  "reencodes O_Exc w b a opc i (w AND 0x1fffe0)"
  "reencodes O_CcmpImm w b a opc i (w AND 0x1f0000)"
  "reencodes O_Nzcv w b a opc i (w AND 0xf)"
  "reencodes O_Uimm3Op1 w b a opc i (w AND 0x70000)"
  "reencodes O_Uimm3Op2 w b a opc i (w AND 0xe0)"
  "reencodes O_Uimm4 w b a opc i (w AND 0xf00)"
  "bit w 30 \<or> \<not> bit w 14 \<Longrightarrow> reencodes O_Idx w b a opc i (w AND 0x7800)"
proof -
  note r = raw_immediate_field [OF _ and_mask_take_bit(6)]
  show "reencodes O_Immr w b a opc i (w AND 0x3f0000)" "reencodes O_Imms w b a opc i (w AND 0xfc00)"
    by (simp_all add: reencodes_def immr_field_def imms_field_def raw_immediate_field [OF _ and_mask_take_bit(6)]
          del: encode_raw_immediate.simps) (simp_all add: bits_simps)
  show "reencodes O_Exc w b a opc i (w AND 0x1fffe0)"
    by (simp add: reencodes_def exc_field_def raw_immediate_field [OF _ and_mask_take_bit(12)]
          del: encode_raw_immediate.simps) (simp add: bits_simps)
  show "reencodes O_CcmpImm w b a opc i (w AND 0x1f0000)"
    by (simp add: reencodes_def ccmp_imm_def raw_immediate_field [OF _ and_mask_take_bit(5)]
          del: encode_raw_immediate.simps) (simp add: bits_simps)
  show "reencodes O_Nzcv w b a opc i (w AND 0xf)" "reencodes O_Uimm4 w b a opc i (w AND 0xf00)"
    by (simp_all add: reencodes_def nzcv_field_def uimm4_def raw_immediate_field [OF _ and_mask_take_bit(4)]
          del: encode_raw_immediate.simps) (simp_all add: bits_simps)
  show "reencodes O_Uimm3Op1 w b a opc i (w AND 0x70000)" "reencodes O_Uimm3Op2 w b a opc i (w AND 0xe0)"
    by (simp_all add: reencodes_def uimm3_op1_def uimm3_op2_def raw_immediate_field [OF _ and_mask_take_bit(3)]
          del: encode_raw_immediate.simps) (simp_all add: bits_simps)
  assume "bit w 30 \<or> \<not> bit w 14"
  then have f: "drop_bit 11 w AND (if drop_bit 30 w AND 1 = 0 then 0x7 else 0xf) = take_bit 4 (drop_bit 11 w)"
    by (simp add: bits_simps) blast
  show "reencodes O_Idx w b a opc i (w AND 0x7800)"
    by (simp add: reencodes_def idx_field_def f raw_immediate_field [OF _ refl] del: encode_raw_immediate.simps)
      (simp add: bits_simps)
qed
end
