(* ===== verification/A64_Codec_Imm.thy ===== *)
theory A64_Codec_Imm
  imports A64_Codec_Vec
begin

text \<open>
  Round trips of the immediate operands that are scaled, inverted or spelled (shift counts,
  shifted immediates, move halves, SIMD immediates, conditions).
\<close>

text \<open>Exact signed division.\<close>

lemma sdiv_dvd: "l dvd k \<Longrightarrow> k sdiv l = k div l" for k l :: int
  by (simp add: signed_divide_int_eq_divide_int)

lemma smod_0_iff: "k smod l = 0 \<longleftrightarrow> l dvd k" for k l :: int
proof
  assume "k smod l = 0"
  then have "k = k sdiv l * l" using sdiv_mult_smod_eq [of k l] by simp
  then show "l dvd k" by (metis dvd_triv_right)
qed (simp add: signed_modulo_int_eq_modulo_int)

lemma reencodes_misc_imm:
  "reencodes O_Imm0 w b a opc i 0" "reencodes O_Fpimm0 w b a opc i 0" "reencodes O_BarrierPsb w b a opc i 0"
  by (simp_all add: reencodes_def)

lemma ucast_u32_i64 [simp]: "ucast (ucast (x :: u32) :: i64) = x"
  by (simp add: word32_eq_bits bit_simps)

lemma reencodes_BitNum: "reencodes O_BitNum w b a opc i (w AND 0x80f80000)"
proof -
  let ?x = "push_bit 5 (drop_bit 31 w AND 1) OR (drop_bit 19 w AND 0x1f) :: u32"
  have "?x < 2 ^ 6" by (subst word_less_power_bits) (simp_all add: bits_simps)
  then have "uint ?x < 64" by (simp add: word_less_def)
  then have "reencodes O_BitNum w b a opc i (push_bit 26 (?x AND 0x20) OR push_bit 19 (?x AND 0x1f))"
    by (simp add: reencodes_def bit_num_def sint_ucast_u32 Let_def)
  moreover have "push_bit 26 (?x AND 0x20) OR push_bit 19 (?x AND 0x1f) = w AND 0x80f80000"
    by (simp add: bits_simps)
  ultimately show ?thesis by simp
qed

lemma reencodes_Uimm7: "reencodes O_Uimm7 w b a opc i (w AND 0xfe0)"
proof -
  let ?x = "push_bit 3 (drop_bit 8 w AND 0xf) OR (drop_bit 5 w AND 0x7) :: u32"
  have "?x < 2 ^ 7" by (subst word_less_power_bits) (simp_all add: bits_simps)
  then have "uint ?x < 128" by (simp add: word_less_def)
  then have "reencodes O_Uimm7 w b a opc i (push_bit 8 (drop_bit 3 ?x) OR push_bit 5 (?x AND 0x7))"
    by (simp add: reencodes_def uimm7_def sint_ucast_u32 Let_def)
  moreover have "push_bit 8 (drop_bit 3 ?x) OR push_bit 5 (?x AND 0x7) = w AND 0xfe0"
    by (simp add: bits_simps)
  ultimately show ?thesis by simp
qed

lemma reencodes_Fbits: "reencodes O_Fbits w b a opc i (w AND 0xfc00)"
proof -
  let ?x = "drop_bit 10 w AND 0x3f :: u32"
  have u: "uint ?x < 64" using uint_take_bit_less [of 6 "drop_bit 10 w"] by (simp add: and_mask_take_bit)
  have s: "sint (64 - ucast ?x :: i64) = 64 - uint ?x"
  proof -
    have e: "(64 - ucast ?x :: i64) = word_of_int (64 - uint ?x)" by simp
    show ?thesis unfolding e by (rule sint_word_of_int_i64) (use u uint_ge_0 [of ?x] in linarith)+
  qed
  have "reencodes O_Fbits w b a opc i (push_bit 10 (ucast (64 - (64 - ucast ?x :: i64))))"
    using u by (simp add: reencodes_def fbits_field_def s)
  moreover have "64 - (64 - ucast ?x :: i64) = ucast ?x" by simp
  moreover have "push_bit 10 ?x = w AND 0xfc00" by (simp add: bits_simps)
  ultimately show ?thesis by simp
qed

lemma reencodes_ShllImm:
  assumes "drop_bit 22 w AND 0x3 \<noteq> (3 :: u32)"
  shows "reencodes O_ShllImm w b a opc i (w AND 0xc00000)"
proof -
  have r: "w AND 0xc00000 = push_bit 22 (drop_bit 22 w AND 0x3)" by (simp add: bits_simps)
  show ?thesis using assms two_bit_cases [of "drop_bit 22 w"] unfolding r
    by (elim disjE) (simp_all add: reencodes_def shll_imm_def)
qed

lemma reencodes_Aimm:
  assumes "bit w 22 \<longrightarrow> drop_bit 10 w AND 0xfff \<noteq> (0 :: u32)"
  shows "reencodes O_Aimm w b a opc i (w AND 0x7ffc00)"
proof -
  let ?x = "drop_bit 10 w AND 0xfff :: u32"
  have u: "uint ?x < 4096" using uint_take_bit_less [of 12 "drop_bit 10 w"] by (simp add: and_mask_take_bit)
  have sf: "drop_bit 22 w AND (1 :: u32) = 0 \<longleftrightarrow> \<not> bit w 22" by (simp add: bits_simps)
  show ?thesis
  proof (cases "bit w 22")
    case False
    have "reencodes O_Aimm w b a opc i (push_bit 10 ?x)"
      using u False by (simp add: reencodes_def aimm_def sf sint_ucast_u32 Let_def)
    moreover have "push_bit 10 ?x = w AND 0x7ffc00" using False by (simp add: bits_simps)
    ultimately show ?thesis by simp
  next
    case True
    have nz: "0 < uint ?x"
    proof -
      have "uint ?x \<noteq> 0" using assms True by (metis uint_0_iff)
      moreover have "0 \<le> uint ?x" by simp
      ultimately show ?thesis by linarith
    qed
    have s: "sint (push_bit 12 (ucast ?x) :: i64) = uint ?x * 4096"
    proof -
      have e: "(push_bit 12 (ucast ?x) :: i64) = word_of_int (uint ?x * 4096)"
        by (simp add: push_bit_eq_mult)
      show ?thesis unfolding e by (rule sint_word_of_int_i64) (use u nz in linarith)+
    qed
    have e: "encode_aimm O_Aimm (D_Immediate (push_bit 12 (ucast ?x))) = Ok (push_bit 22 1 OR push_bit 10 ?x)"
    proof -
      have "uint ?x * 4096 smod 4096 = 0" "uint ?x * 4096 sdiv 4096 = uint ?x"
        by (simp_all add: smod_0_iff sdiv_dvd)
      then show ?thesis using u nz s by simp
    qed
    have "reencodes O_Aimm w b a opc i (push_bit 22 1 OR push_bit 10 ?x)"
      using True e by (simp add: reencodes_def aimm_def sf Let_def del: encode_aimm.simps)
    moreover have "push_bit 22 1 OR push_bit 10 ?x = w AND 0x7ffc00" using True by (simp add: bits_simps)
    ultimately show ?thesis by simp
  qed
qed

lemma reencodes_Half: "reencodes O_Half w b a opc i (w AND 0x7fffe0)"
proof -
  let ?x = "drop_bit 5 w AND 0xffff :: u32" and ?h = "drop_bit 21 w AND 0x3 :: u32"
  have u: "uint ?x \<le> 0xffff" using uint_take_bit_less [of 16 "drop_bit 5 w"] by (simp add: and_mask_take_bit)
  have h: "(ucast (?h * 16) :: u8) mod 16 = 0 \<and> \<not> (ucast (?h * 16) :: u8) > 48 \<and>
      word_of_u8 (ucast (?h * 16) div 16) = ?h"
    using two_bit_cases [of "drop_bit 21 w"] by (elim disjE) (simp_all add: word_less_nat_alt)
  have "reencodes O_Half w b a opc i (push_bit 5 ?x OR push_bit 21 ?h)"
    using u h by (simp add: reencodes_def half_imm_def sint_ucast_u32)
  moreover have "push_bit 5 ?x OR push_bit 21 ?h = w AND 0x7fffe0" by (simp add: bits_simps)
  ultimately show ?thesis by simp
qed

lemma reencodes_SimdImm:
  assumes "\<not> (bit w 29 \<and> drop_bit 12 w AND 0xf = (0xe :: u32))"
  shows "reencodes O_SimdImm w b a opc i (w AND 0x703e0)"
proof -
  let ?x = "simd_imm8 w"
  have "drop_bit 29 w AND (1 :: u32) = 1 \<longleftrightarrow> bit w 29" by (simp add: bits_simps)
  then have d: "simd_imm w = D_Immediate (ucast ?x)" using assms by (auto simp: simd_imm_def Let_def)
  have s: "sint (ucast ?x :: i64) = uint ?x"
    by (rule sint_ucast_small) simp
  have "uint ?x < 2 ^ 8" using unsigned_less [of ?x] by simp
  then have "reencodes O_SimdImm w b a opc i (encode_simd_imm8 ?x)"
    by (simp add: reencodes_def d s) (simp add: encode_simd_imm8_def simd_imm8_def bits_simps)
  moreover have "encode_simd_imm8 ?x = w AND 0x703e0"
    by (simp add: encode_simd_imm8_def simd_imm8_def bits_simps)
  ultimately show ?thesis by simp
qed

text \<open>Conditions.\<close>

lemma condition_code_name: "condition_code (condition_name (take_bit 4 c)) = Some (take_bit 4 c)"
  by (rule field4_cases [where P = "\<lambda>c. condition_code (condition_name c) = Some c"])
    (simp_all add: condition_code_def condition_name_def)

lemma reencodes_Cond:
  "reencodes O_Cond w b a opc i (w AND 0xf000)" "reencodes O_Cond1 w b a opc i (w AND 0xf000)"
proof -
  let ?c = "ucast (drop_bit 12 w AND 0xf) :: u8"
  have c: "take_bit 4 ?c = ?c" "take_bit 4 (?c XOR 1) = ?c XOR 1" by (simp_all add: bits_simps)
  have "push_bit 12 (word_of_u8 ?c) = w AND 0xf000" by (simp add: bits_simps)
  then show "reencodes O_Cond w b a opc i (w AND 0xf000)"
    using condition_code_name [of ?c] by (simp add: reencodes_def condition_of_def c)
  have "push_bit 12 (word_of_u8 (?c XOR 1 XOR 1)) = w AND 0xf000" by (simp add: bits_simps)
  then show "reencodes O_Cond1 w b a opc i (w AND 0xf000)"
    using condition_code_name [of "?c XOR 1"] by (simp add: reencodes_def inverted_condition_def c xor.assoc)
qed


section \<open>Numbers in text\<close>

lemma digit_value_char: "d < r \<Longrightarrow> r \<le> 36 \<Longrightarrow> digit_value r (digit_char d) = Some d"
  by (auto simp: digit_value_def digit_char_def Let_def)

lemma digit_char_not:
  "d < 16 \<Longrightarrow> digit_char d \<noteq> CHR ''+'' \<and> digit_char d \<noteq> CHR '':'' \<and> digit_char d \<noteq> CHR ''_''"
proof -
  assume "d < 16"
  then have "d \<in> set [0..<16]" by simp
  moreover have "list_all (\<lambda>d. digit_char d \<noteq> CHR ''+'' \<and> digit_char d \<noteq> CHR '':'' \<and> digit_char d \<noteq> CHR ''_'') [0..<16]"
    by code_simp
  ultimately show ?thesis unfolding list_all_iff by blast
qed

lemma parse_digits_append:
  "parse_digits r acc (xs @ ys) = Option.bind (parse_digits r acc xs) (\<lambda>n. parse_digits r n ys)"
  by (induction r acc xs rule: parse_digits.induct) (auto split: option.split)

lemma show_radix_parse:
  assumes "2 \<le> r" "r \<le> 36"
  shows "parse_digits r 0 (show_radix r n) = Some n"
  using assms
proof (induction r n rule: show_radix.induct)
  case (1 r n)
  show ?case
  proof (cases "n < r")
    case True
    then show ?thesis using 1 by (simp add: show_radix.simps [of r n] digit_value_char)
  next
    case False
    then have "parse_digits r 0 (show_radix r (n div r)) = Some (n div r)" using 1 by simp
    moreover have "digit_value r (digit_char (n mod r)) = Some (n mod r)"
      using 1 by (intro digit_value_char) simp_all
    ultimately show ?thesis using False 1(2)
      by (simp add: show_radix.simps [of r n] parse_digits_append)
  qed
qed

lemma show_radix_chars:
  "2 \<le> r \<Longrightarrow> c \<in> set (show_radix r n) \<Longrightarrow> \<exists>d<r. c = digit_char d"
proof (induction r n rule: show_radix.induct)
  case (1 r n)
  then show ?case
    by (cases "n < r") (auto simp: show_radix.simps [of r n] intro: exI [of _ "n mod r"])
qed

lemma show_radix_ne: "show_radix r n \<noteq> []"
  by (simp add: show_radix.simps [of r n])

lemma show_radix_no:
  assumes "2 \<le> r" "r \<le> 16"
  shows "CHR ''+'' \<notin> set (show_radix r n)" "CHR '':'' \<notin> set (show_radix r n)" "CHR ''_'' \<notin> set (show_radix r n)"
  using show_radix_chars [OF assms(1), of _ n] digit_char_not assms(2) by (metis order.strict_trans2)+

lemma parse_u8_show:
  assumes "2 \<le> r" "r \<le> 16" "n < 256"
  shows "parse_u8 r (show_radix r n) = Some (word_of_nat n)"
proof -
  obtain c cs where s: "show_radix r n = c # cs" using show_radix_ne by (cases "show_radix r n") auto
  then have "c \<noteq> CHR ''+''" using show_radix_no(1) [OF assms(1,2), of n] by auto
  moreover have "parse_digits r 0 (c # cs) = Some n" using show_radix_parse [of r n] assms s by simp
  ultimately show ?thesis using assms(3) by (simp add: parse_u8_def s del: parse_digits.simps)
qed

lemma parse_u8_field:
  fixes x :: "'a::len word"
  assumes "2 \<le> r" "r \<le> 16" "unat x < 256"
  shows "parse_u8 r (show_radix r (unat x)) = Some (ucast x)"
  using parse_u8_show [OF assms] by simp

lemma split_on_none: "sep \<notin> set s \<Longrightarrow> split_on sep s = [s]"
  by (induction sep s rule: split_on.induct) auto

lemma split_on_append: "sep \<notin> set s \<Longrightarrow> split_on sep (s @ sep # t) = s # split_on sep t"
  by (induction s) auto

lemma strip_prefix_append [simp]: "strip_prefix p (p @ s) = Some s"
  by (induction p) auto

end
