(* ===== verification/A64_Codec_Sys.thy ===== *)
theory A64_Codec_Sys
  imports A64_Codec_Imm
begin

text \<open>
  Round trips of the system operands: the decoder prints a name, the encoder parses it.
\<close>

section \<open>System operands\<close>

lemma unat_fields_small:
  "unat (x AND 0x3 :: u32) < 4" "unat (x AND 0x7 :: u32) < 8" "unat (x AND 0xf :: u32) < 16"
  "unat (x AND 0x1f :: u32) < 32"
  using unat_take_bit_less [of 2 x] unat_take_bit_less [of 3 x] unat_take_bit_less [of 4 x]
    unat_take_bit_less [of 5 x]
  by (simp_all add: and_mask_take_bit)

lemma parse_show_fields:
  "parse_u8 10 (show_radix 10 (unat (x AND 0x3 :: u32))) = Some (ucast (x AND 0x3))"
  "parse_u8 10 (show_radix 10 (unat (x AND 0x7 :: u32))) = Some (ucast (x AND 0x7))"
  "parse_u8 10 (show_radix 10 (unat (x AND 0xf :: u32))) = Some (ucast (x AND 0xf))"
  using unat_fields_small [of x] by (simp_all add: parse_u8_field)

lemma ucast_fields_le:
  "ucast (x AND 0x3 :: u32) \<le> (3 :: u8)" "ucast (x AND 0x7 :: u32) \<le> (7 :: u8)" "ucast (x AND 0xf :: u32) \<le> (15 :: u8)"
proof -
  have "ucast (x AND 0x3 :: u32) < (2 ^ 2 :: u8)" "ucast (x AND 0x7 :: u32) < (2 ^ 3 :: u8)"
    "ucast (x AND 0xf :: u32) < (2 ^ 4 :: u8)"
    by (subst word_less_power_bits; simp add: bits_simps)+
  then show "ucast (x AND 0x3 :: u32) \<le> (3 :: u8)" "ucast (x AND 0x7 :: u32) \<le> (7 :: u8)" "ucast (x AND 0xf :: u32) \<le> (15 :: u8)"
    by (simp_all add: word_less_nat_alt word_le_nat_alt)
qed

lemma reencodes_CnCm:
  "reencodes O_Cn w b a opc i (w AND 0xf000)" "reencodes O_Cm w b a opc i (w AND 0xf00)"
proof -
  have n: "\<not> (ucast (x AND 0xf :: u32) :: u8) > 15" for x using ucast_fields_le(3) [of x] by simp
  have u: "unat (ucast (x AND 0xf :: u32) :: u8) = unat (x AND 0xf)" for x
    using unat_fields_small(3) [of x] by (simp add: unsigned_ucast_eq take_bit_nat_eq_self_iff)
  have p: "parse_prefixed_decimal (CHR ''c'' # show_radix 10 (unat (x AND 0xf :: u32))) ''c'' = Some (ucast (x AND 0xf))" for x
    by (simp add: parse_prefixed_decimal_def parse_show_fields)
  have "push_bit 12 (word_of_u8 (cn_field w)) = w AND 0xf000" "push_bit 8 (word_of_u8 (cm_field w)) = w AND 0xf00"
    by (simp_all add: field_defs bits_simps)
  then show "reencodes O_Cn w b a opc i (w AND 0xf000)" "reencodes O_Cm w b a opc i (w AND 0xf00)"
    using n p by (simp_all add: reencodes_def cn_field_def cm_field_def u)
qed

text \<open>The enumerations with a few names and a numeric default, value by value.\<close>

lemma uimm4_unat: "unat (uimm4 w) = unat (drop_bit 8 w AND 0xf)"
  using unat_fields_small(3) [of "drop_bit 8 w"]
  by (simp add: uimm4_def unsigned_ucast_eq take_bit_nat_eq_self_iff)

lemma field_of_take_bit: "drop_bit 8 (push_bit 8 (take_bit 4 v :: u32)) AND 0xf = take_bit 4 v"
  by (simp add: bits_simps)

lemma barrier_take_bit: "barrier w = barrier (push_bit 8 (take_bit 4 (drop_bit 8 w)))"
proof -
  have "uimm4 w = uimm4 (push_bit 8 (take_bit 4 (drop_bit 8 w)))"
    by (simp add: uimm4_def bits_simps)
  then show ?thesis by (simp add: barrier_def)
qed

lemma parse_hex_show:
  "n < 256 \<Longrightarrow>
   parse_prefixed_hex (CHR ''#'' # CHR ''0'' # CHR ''x'' # show_radix 16 n) ''#0x'' = Some (word_of_nat n)"
  using parse_u8_show [of 16 n] by (simp add: parse_prefixed_hex_def)

lemma barrier_code_text:
  "barrier_code (barrier (push_bit 8 (take_bit 4 v))) = Some (ucast (take_bit 4 v))"
  by (rule field4_cases [where P = "\<lambda>x. barrier_code (barrier (push_bit 8 x)) = Some (ucast (x :: u32))"])
    (simp_all add: barrier_def uimm4_def Let_def barrier_code_def parse_hex_show filter_le_def
       word_le_nat_alt)

lemma reencodes_Barrier: "reencodes O_Barrier w b a opc i (w AND 0xf00)"
proof -
  have "barrier_code (barrier w) = Some (ucast (take_bit 4 (drop_bit 8 w)))"
    by (subst barrier_take_bit) (rule barrier_code_text)
  moreover have "push_bit 8 (word_of_u8 (ucast (take_bit 4 (drop_bit 8 w)))) = w AND 0xf00" by (simp add: bits_simps)
  ultimately show ?thesis by (simp add: reencodes_def)
qed

lemma reencodes_BarrierIsb: "reencodes O_BarrierIsb w b a opc i (w AND 0xf00)"
proof -
  let ?x = "drop_bit 8 w AND 0xf :: u32"
  have m: "push_bit 8 ?x = w AND 0xf00" by (simp add: bits_simps)
  have u: "push_bit 8 (word_of_u8 (ucast ?x)) = w AND 0xf00" by (simp add: bits_simps)
  have f: "uimm4 w = 15 \<longleftrightarrow> ?x = 15" by (simp add: uimm4_def bits_simps)
  show ?thesis
  proof (cases "uimm4 w = 15")
    case True
    then show ?thesis using f m by (simp add: reencodes_def barrier_isb_def)
  next
    case False
    have "filter_le 0xf (parse_prefixed_decimal (''#'' @ show_radix 10 (unat ?x)) ''#'') = Some (ucast ?x)"
      using ucast_fields_le(3) [of "drop_bit 8 w"]
      by (simp add: parse_prefixed_decimal_def parse_show_fields filter_le_def)
    then show ?thesis using False u by (simp add: reencodes_def barrier_isb_def uimm4_unat)
  qed
qed

lemma prfop_code_text: "prfop_code (prfop (take_bit 5 v)) = Some (ucast (take_bit 5 v))"
  by (rule field5_cases [where P = "\<lambda>x. prfop_code (prfop x) = Some (ucast (x :: u32))"])
    (simp_all add: prfop_def field_defs Let_def prfop_code_def parse_hex_show filter_le_def word_le_nat_alt)

lemma reencodes_Prfop: "reencodes O_Prfop w b a opc i (w AND 0x1f)"
proof -
  have "rt_field w = rt_field (take_bit 5 w)" by (simp add: field_defs bits_simps)
  then have "prfop w = prfop (take_bit 5 w)" by (simp only: prfop_def)
  then have "prfop_code (prfop w) = Some (ucast (take_bit 5 w))" by (simp only: prfop_code_text)
  moreover have "word_of_u8 (ucast (take_bit 5 w)) = w AND 0x1f" by (simp add: bits_simps)
  ultimately show ?thesis by (simp add: reencodes_def)
qed


lemma reencodes_Pstatefield: "reencodes O_Pstatefield w b a opc i (w AND 0x700e0)"
proof -
  let ?x = "drop_bit 16 w AND 0x7 :: u32" and ?y = "drop_bit 5 w AND 0x7 :: u32"
  have m: "push_bit 16 (word_of_u8 (ucast ?x)) OR push_bit 5 (word_of_u8 (ucast ?y)) = w AND 0x700e0"
    by (simp add: bits_simps)
  have code: "(if pstate_field w = ''DAIFSet'' then Some (3, 6) else if pstate_field w = ''DAIFClr'' then Some (3, 7)
      else parse_pstate_field (pstate_field w)) = Some (ucast ?x, ucast ?y)"
  proof (cases "(?x, ?y) = (3, 6) \<or> (?x, ?y) = (3, 7)")
    case True
    then show ?thesis by (auto simp: pstate_field_def)
  next
    case False
    then have t: "pstate_field w = ''pstate:'' @ show_radix 10 (unat ?x) @ '':'' @ show_radix 10 (unat ?y)"
      by (auto simp: pstate_field_def Let_def)
    have "split_on CHR '':'' (show_radix 10 (unat ?x) @ '':'' @ show_radix 10 (unat ?y)) =
        [show_radix 10 (unat ?x), show_radix 10 (unat ?y)]"
      by (simp add: split_on_append split_on_none show_radix_no)
    then have "parse_pstate_field (pstate_field w) = Some (ucast ?x, ucast ?y)"
      using ucast_fields_le(2) unfolding t parse_pstate_field_def strip_prefix_append
      by (simp add: parse_show_fields)
    then show ?thesis by (simp add: t)
  qed
  show ?thesis by (simp add: reencodes_def code m)
qed

lemma reencodes_Sysreg: "reencodes O_Sysreg w b a opc i (w AND 0x1fffe0)"
proof -
  let ?o = "drop_bit 19 w AND 0x3 :: u32" and ?x = "drop_bit 16 w AND 0x7 :: u32"
    and ?n = "drop_bit 12 w AND 0xf :: u32" and ?m = "drop_bit 8 w AND 0xf :: u32"
    and ?y = "drop_bit 5 w AND 0x7 :: u32"
  have m: "push_bit 19 (word_of_u8 (ucast ?o)) OR push_bit 16 (word_of_u8 (ucast ?x)) OR
      push_bit 12 (word_of_u8 (ucast ?n)) OR push_bit 8 (word_of_u8 (ucast ?m)) OR
      push_bit 5 (word_of_u8 (ucast ?y)) = w AND 0x1fffe0"
    by (simp add: bits_simps)
  let ?f = "(?o, ?x, ?n, ?m, ?y)"
  have code: "(if sysreg w = ''NZCV'' then Some (3, 3, 4, 2, 0)
      else if sysreg w = ''TPIDR_EL0'' then Some (3, 3, 13, 0, 2)
      else if sysreg w = ''CNTVCT_EL0'' then Some (3, 3, 14, 0, 2)
      else parse_sysreg_name (sysreg w)) = Some (ucast ?o, ucast ?x, ucast ?n, ucast ?m, ucast ?y)"
  proof (cases "?f = (3, 3, 4, 2, 0) \<or> ?f = (3, 3, 13, 0, 2) \<or> ?f = (3, 3, 14, 0, 2)")
    case True
    then show ?thesis by (auto simp: sysreg_def)
  next
    case False
    let ?t = "show_radix 10 (unat ?o) @ ''_'' @ show_radix 10 (unat ?x) @ ''_'' @
        (''C'' @ show_radix 10 (unat ?n)) @ ''_'' @ (''C'' @ show_radix 10 (unat ?m)) @ ''_'' @
        show_radix 10 (unat ?y)"
    have t: "sysreg w = ''S'' @ ?t"
      using False by (auto simp: sysreg_def Let_def)
    have "split_on CHR ''_'' ?t =
        [show_radix 10 (unat ?o), show_radix 10 (unat ?x), ''C'' @ show_radix 10 (unat ?n),
         ''C'' @ show_radix 10 (unat ?m), show_radix 10 (unat ?y)]"
      by (simp add: split_on_append split_on_none show_radix_no split_on_append [where s = "CHR ''C'' # s" for s, simplified])
    moreover have "parse_prefixed_decimal (''C'' @ show_radix 10 (unat ?n)) ''C'' = Some (ucast ?n)"
      "parse_prefixed_decimal (''C'' @ show_radix 10 (unat ?m)) ''C'' = Some (ucast ?m)"
      unfolding parse_prefixed_decimal_def strip_prefix_append by (simp_all add: parse_show_fields)
    ultimately have "parse_sysreg_name (sysreg w) = Some (ucast ?o, ucast ?x, ucast ?n, ucast ?m, ucast ?y)"
      using ucast_fields_le unfolding t parse_sysreg_name_def strip_prefix_append
      by (simp add: parse_show_fields)
    then show ?thesis by (simp add: t)
  qed
  show ?thesis by (simp add: reencodes_def code m)
qed

text \<open>The four groups of system operations.\<close>

lemma sys_op_text:
  assumes "p \<in> {''at'', ''dc'', ''ic'', ''tlbi''}"
  shows "parse_sys_op_name (format_sys_op p (sys_op_fields w)) p =
    Some (ucast (drop_bit 16 w AND 0x7), ucast (drop_bit 12 w AND 0xf), ucast (drop_bit 8 w AND 0xf),
          ucast (drop_bit 5 w AND 0x7))"
proof -
  let ?x = "drop_bit 16 w AND 0x7 :: u32" and ?n = "drop_bit 12 w AND 0xf :: u32"
    and ?m = "drop_bit 8 w AND 0xf :: u32" and ?y = "drop_bit 5 w AND 0x7 :: u32"
  let ?t = "(''#'' @ show_radix 10 (unat ?x)) @ '':'' @ (''c'' @ show_radix 10 (unat ?n)) @ '':'' @
      (''c'' @ show_radix 10 (unat ?m)) @ '':'' @ (''#'' @ show_radix 10 (unat ?y))"
  have t: "format_sys_op p (sys_op_fields w) = p @ '':'' @ ?t"
    by (simp add: sys_op_fields_def)
  have "split_on CHR '':'' ?t = [''#'' @ show_radix 10 (unat ?x), ''c'' @ show_radix 10 (unat ?n),
      ''c'' @ show_radix 10 (unat ?m), ''#'' @ show_radix 10 (unat ?y)]"
    by (simp add: split_on_append split_on_none show_radix_no)
  moreover have "parse_prefixed_decimal (''#'' @ show_radix 10 (unat ?x)) ''#'' = Some (ucast ?x)"
    "parse_prefixed_decimal (''c'' @ show_radix 10 (unat ?n)) ''c'' = Some (ucast ?n)"
    "parse_prefixed_decimal (''c'' @ show_radix 10 (unat ?m)) ''c'' = Some (ucast ?m)"
    "parse_prefixed_decimal (''#'' @ show_radix 10 (unat ?y)) ''#'' = Some (ucast ?y)"
    unfolding parse_prefixed_decimal_def strip_prefix_append by (simp_all add: parse_show_fields)
  ultimately show ?thesis
    using ucast_fields_le unfolding t parse_sys_op_name_def strip_prefix_append
    by simp
qed

lemma sys_op_word:
  "push_bit 16 (word_of_u8 (ucast (drop_bit 16 w AND (0x7 :: u32)))) OR
   push_bit 12 (word_of_u8 (ucast (drop_bit 12 w AND 0xf))) OR
   push_bit 8 (word_of_u8 (ucast (drop_bit 8 w AND 0xf))) OR
   push_bit 5 (word_of_u8 (ucast (drop_bit 5 w AND 0x7))) = w AND 0x7ffe0"
  by (simp add: bits_simps)

lemma reencodes_SysOps:
  "reencodes O_SysregAt w b a opc i (w AND 0x7ffe0)" "reencodes O_SysregDc w b a opc i (w AND 0x7ffe0)"
  "reencodes O_SysregIc w b a opc i (w AND 0x7ffe0)" "reencodes O_SysregTlbi w b a opc i (w AND 0x7ffe0)"
proof -
  let ?c = "Some (ucast (drop_bit 16 w AND 0x7), ucast (drop_bit 12 w AND 0xf), ucast (drop_bit 8 w AND 0xf),
          ucast (drop_bit 5 w AND 0x7)) :: (u8 \<times> u8 \<times> u8 \<times> u8) option"
  have gen: "reencodes k w b a opc i (w AND 0x7ffe0)"
    if "decode_word k w a opc i = Ok (D_System v)" "encode_word k (D_System v) b a opc = encode_sys_op k (D_System v) p"
      "sys_op_code p v = ?c" for k v p
    using that sys_op_word [of w] by (simp add: reencodes_def)
  have "sys_op_code ''at'' (sysreg_at w) = ?c"
    using sys_op_text [of "''at''" w] by (auto simp: sysreg_at_def sys_op_code_def sys_op_fields_def)
  then show "reencodes O_SysregAt w b a opc i (w AND 0x7ffe0)" by (intro gen) simp_all
  have "sys_op_code ''dc'' (sysreg_dc w) = ?c"
    using sys_op_text [of "''dc''" w] by (auto simp: sysreg_dc_def sys_op_code_def sys_op_fields_def)
  then show "reencodes O_SysregDc w b a opc i (w AND 0x7ffe0)" by (intro gen) simp_all
  have "sys_op_code ''ic'' (sysreg_ic w) = ?c"
    using sys_op_text [of "''ic''" w] by (auto simp: sysreg_ic_def sys_op_code_def sys_op_fields_def)
  then show "reencodes O_SysregIc w b a opc i (w AND 0x7ffe0)" by (intro gen) simp_all
  have "sys_op_code ''tlbi'' (sysreg_tlbi w) = ?c"
    using sys_op_text [of "''tlbi''" w] by (auto simp: sysreg_tlbi_def sys_op_code_def sys_op_fields_def)
  then show "reencodes O_SysregTlbi w b a opc i (w AND 0x7ffe0)" by (intro gen) simp_all
qed

end
