(* ===== verification/A64_Codec_Mem.thy ===== *)
theory A64_Codec_Mem imports A64_Codec_Sys begin

text \<open>
  Round trips of the memory operands and of the PC-relative ones, where an offset is sign
  extended, scaled and added to the address.
\<close>

section \<open>Memory operands\<close>

lemma base_ok_x_or_sp [simp]: "base_ok (x_or_sp (rn_field w))"
  by (simp add: base_ok_def x_or_sp_def)

lemma x_or_sp_index [simp]: "reg_index (x_or_sp r) = r" by (simp add: x_or_sp_def)

lemma memory_sel [simp]:
  "mem_base (memory b f m) = b" "mem_offset (memory b f m) = f" "mem_mode (memory b f m) = m"
  by (simp_all add: memory_def)

lemma reencodes_simple:
  "reencodes O_AddrSimple w b a opc i (w AND 0x3e0)" "reencodes O_SimdAddrSimple w b a opc i (w AND 0x3e0)"
  by (simp_all add: reencodes_def) (simp_all add: field_defs bits_simps)

lemma rm_field_le: "rm_field w \<le> 31"
  by (rule leI) (simp only: reg_fields_le not_False_eq_True)

lemma reencodes_SimdAddrPost: "reencodes O_SimdAddrPost w b a opc i (w AND 0x1f03e0)"
proof -
  have m: "push_bit 5 (word_of_u8 (rn_field w)) OR push_bit 16 (word_of_u8 (rm_field w)) = w AND 0x1f03e0"
    by (simp add: field_defs bits_simps)
  show ?thesis
  proof (cases "rm_field w = 31")
    case True
    then show ?thesis using m by (simp add: reencodes_def simd_addr_post_def Let_def)
  next
    case False
    then show ?thesis using m rm_field_le [of w] by (simp add: reencodes_def simd_addr_post_def Let_def x_reg_def)
  qed
qed

section \<open>Sign-extended fields\<close>

lemma sint_i64_range: "- 9223372036854775808 \<le> sint (x :: i64) \<and> sint x < 9223372036854775808"
  using sint_greater_eq [of x] sint_less [of x] by simp

lemma div_times_less_eq_dividend_pos: "a div 2 ^ n * 2 ^ n \<le> (a :: int)"
proof -
  have "a div 2 ^ n * 2 ^ n + a mod 2 ^ n = a" by (rule div_mult_mod_eq)
  moreover have "0 \<le> a mod 2 ^ n" by simp
  ultimately show ?thesis by linarith
qed

lemma sign_extend_range:
  assumes "0 < n" "n \<le> 64"
  shows "- (2 ^ (n - 1)) \<le> sint (sign_extend x n) \<and> sint (sign_extend x n) < 2 ^ (n - 1)"
proof -
  let ?y = "push_bit (64 - n) x"
  have p: "(2 :: int) ^ 63 = 2 ^ (n - 1) * 2 ^ (64 - n)"
    using assms by (simp flip: power_add)
  have s: "sint (sign_extend x n) = sint ?y div 2 ^ (64 - n)"
    by (simp add: sign_extend_def sint_signed_drop_bit_eq drop_bit_eq_div)
  have lo: "- (2 ^ (n - 1)) * 2 ^ (64 - n) \<le> sint ?y" and hi: "sint ?y < 2 ^ (n - 1) * 2 ^ (64 - n)"
    using sint_i64_range [of ?y] p by simp_all
  have "- (2 ^ (n - 1)) \<le> sint ?y div 2 ^ (64 - n)"
  proof -
    have "(- (2 ^ (n - 1)) * 2 ^ (64 - n)) div 2 ^ (64 - n) \<le> sint ?y div (2 :: int) ^ (64 - n)"
      by (rule zdiv_mono1 [OF lo]) simp
    then show ?thesis by (simp only: nonzero_mult_div_cancel_right power_not_zero zero_neq_numeral [symmetric] not_False_eq_True)
  qed
  moreover have "sint ?y div 2 ^ (64 - n) < 2 ^ (n - 1)"
  proof (rule ccontr)
    assume "\<not> sint ?y div 2 ^ (64 - n) < 2 ^ (n - 1)"
    then have "2 ^ (n - 1) * 2 ^ (64 - n) \<le> sint ?y div 2 ^ (64 - n) * 2 ^ (64 - n)"
      by (intro mult_right_mono) simp_all
    also have "\<dots> \<le> sint ?y"
      by (rule div_times_less_eq_dividend_pos)
    finally show False using hi by simp
  qed
  ultimately show ?thesis by (simp add: s)
qed

lemma scast_i64_u32: "(scast (x :: i64) :: u32) = ucast x"
  by (simp add: word32_eq_bits bit_simps)

lemma sint_push_bit_sign_extend:
  assumes "0 < n" "n \<le> 32" "k \<le> 4"
  shows "sint (push_bit k (sign_extend x n)) = sint (sign_extend x n) * 2 ^ k"
proof -
  let ?s = "sint (sign_extend x n)"
  have "push_bit k (sign_extend x n) = word_of_int (?s * 2 ^ k)"
    by (simp add: push_bit_eq_mult)
  moreover have "(2 :: int) ^ (n - 1) \<le> 2 ^ 31" "(2 :: int) ^ k \<le> 2 ^ 4"
    using assms by (intro power_increasing; simp)+
  then have b: "- 2147483648 \<le> ?s" "?s < 2147483648" "(2 :: int) ^ k \<le> 16" "(1 :: int) \<le> 2 ^ k"
    using sign_extend_range [of n x] assms by simp_all
  have "\<bar>?s\<bar> \<le> 2147483648" using b by linarith
  then have "\<bar>?s\<bar> * 2 ^ k \<le> 2147483648 * 16" using b by (intro mult_mono) simp_all
  then have "\<bar>?s * 2 ^ k\<bar> \<le> 34359738368" by (simp add: abs_mult)
  then have "- 9223372036854775808 \<le> ?s * 2 ^ k" "?s * 2 ^ k < 9223372036854775808" by linarith+
  then have "sint (word_of_int (?s * 2 ^ k) :: i64) = ?s * 2 ^ k" by (rule sint_word_of_int_i64)
  ultimately show ?thesis by simp
qed

section \<open>PC-relative operands\<close>

text \<open>The difference of target and address is the offset, unless the sum wraps.\<close>

definition no_wrap :: "u64 \<Rightarrow> i64 \<Rightarrow> bool" where
  "no_wrap a offset \<longleftrightarrow> 0 \<le> uint a + sint offset \<and> uint a + sint offset < 2 ^ 64"

lemma branch_target_diff:
  assumes "no_wrap a offset"
  shows "uint (branch_target a offset) - uint a = sint offset"
proof -
  have "branch_target a offset = word_of_int (uint a + sint offset)"
    by (simp add: branch_target_def)
  moreover have "uint (word_of_int (uint a + sint offset) :: u64) = uint a + sint offset"
    by (rule trans [OF unsigned_of_int]) (use assms in \<open>simp add: no_wrap_def take_bit_int_eq_self_iff\<close>)
  ultimately show ?thesis by (simp only: add_diff_cancel_left')
qed

lemma encode_pcrel_field:
  assumes "no_wrap a (push_bit 2 (sign_extend x n))" "0 < n" "n \<le> 32"
  shows "encode_pcrel k (D_BranchTarget (branch_target a (push_bit 2 (sign_extend x n)))) a n pos =
    Ok (push_bit pos (ucast (sign_extend x n) AND (push_bit n 1 - 1)))"
proof -
  let ?s = "sint (sign_extend x n)"
  have o: "uint (branch_target a (push_bit 2 (sign_extend x n))) - uint a = ?s * 4"
    using branch_target_diff [OF assms(1)] sint_push_bit_sign_extend [of n 2 x] assms(2,3) by simp
  show ?thesis
    using sign_extend_range [of n x] assms(2,3)
    by (simp add: o smod_0_iff sdiv_dvd scast_i64_u32 Let_def)
qed

lemma reencodes_pcrel:
  "no_wrap a (imm14 w) \<Longrightarrow> reencodes O_AddrPcrel14 w b a opc i (w AND 0x7ffe0)"
  "no_wrap a (imm19 w) \<Longrightarrow> reencodes O_AddrPcrel19 w b a opc i (w AND 0xffffe0)"
  "no_wrap a (imm26 w) \<Longrightarrow> reencodes O_AddrPcrel26 w b a opc i (w AND 0x3ffffff)"
  by (simp_all add: reencodes_def imm14_def imm19_def imm26_def encode_pcrel_field del: encode_pcrel.simps)
    (simp_all add: sign_extend_def bits_simps)

lemma reencodes_pcrel21:
  assumes "no_wrap a (imm21 w)"
  shows "reencodes O_AddrPcrel21 w b a opc i (w AND 0x60ffffe0)"
proof -
  obtain x where x: "imm21 w = sign_extend x 21" by (simp add: imm21_def Let_def)
  have "uint (branch_target a (imm21 w)) - uint a = sint (imm21 w)" by (rule branch_target_diff [OF assms])
  moreover have "- (2 ^ 20) \<le> sint (imm21 w) \<and> sint (imm21 w) < 2 ^ 20"
    using sign_extend_range [of 21 x] by (simp add: x)
  ultimately have "reencodes O_AddrPcrel21 w b a opc i
      (push_bit 29 ((ucast (imm21 w) AND 0x1fffff) AND 0x3) OR
       push_bit 5 (drop_bit 2 (ucast (imm21 w) AND 0x1fffff) AND 0x7ffff))"
    by (simp add: reencodes_def scast_i64_u32 Let_def)
  moreover have "push_bit 29 ((ucast (imm21 w) AND 0x1fffff) AND 0x3) OR
       push_bit 5 (drop_bit 2 (ucast (imm21 w) AND 0x1fffff) AND 0x7ffff) = w AND 0x60ffffe0"
    by (simp add: imm21_def Let_def sign_extend_def bits_simps)
  ultimately show ?thesis by simp
qed

lemma take_bit_add_word: "take_bit n (x + y) = take_bit n (take_bit n x + take_bit n y)" for x y :: "'a::len word"
  by transfer (simp add: take_bit_add)

lemma reencodes_Adrp: "reencodes O_AddrAdrp w b a opc i (w AND 0x60ffffe0)"
proof -
  obtain x where x: "imm21 w = sign_extend x 21" by (simp add: imm21_def Let_def)
  have p: "adrp_target a w AND 0xfff = 0"
  proof -
    have "take_bit 12 (adrp_target a w) = take_bit 12 (take_bit 12 (a AND NOT 0xfff) + take_bit 12 (push_bit 12 (imm21 w)))"
      unfolding adrp_target_def by (rule take_bit_add_word)
    also have "take_bit 12 (a AND NOT 0xfff) = 0" by (simp add: bits_simps)
    also have "take_bit 12 (push_bit 12 (imm21 w)) = 0" by (simp add: bits_simps)
    finally show ?thesis by (simp add: and_mask_take_bit)
  qed
  have d: "signed_drop_bit 12 (adrp_target a w - (a AND NOT 0xfff)) = imm21 w"
    by (simp add: adrp_target_def) (simp add: imm21_def Let_def sign_extend_def bits_simps)
  have "- (2 ^ 20) \<le> sint (imm21 w) \<and> sint (imm21 w) < 2 ^ 20"
    using sign_extend_range [of 21 x] by (simp add: x)
  then have "reencodes O_AddrAdrp w b a opc i
      (push_bit 29 ((ucast (imm21 w) AND 0x1fffff) AND 0x3) OR
       push_bit 5 (drop_bit 2 (ucast (imm21 w) AND 0x1fffff) AND 0x7ffff))"
    using d by (simp add: reencodes_def p Let_def)
  moreover have "push_bit 29 ((ucast (imm21 w) AND 0x1fffff) AND 0x3) OR
       push_bit 5 (drop_bit 2 (ucast (imm21 w) AND 0x1fffff) AND 0x7ffff) = w AND 0x60ffffe0"
    by (simp add: imm21_def Let_def sign_extend_def bits_simps)
  ultimately show ?thesis by simp
qed

section \<open>Immediate memory offsets\<close>

lemma reencodes_Simm9:
  assumes "op_iclass opc = C_LdstUnscaled \<and> \<not> bit w 10 \<and> m = 0x1ff3e0 \<or> op_iclass opc = C_LdstImm9 \<and> bit w 10 \<and> m = 0x1ffbe0"
  shows "reencodes O_AddrSimm9 w b a opc i (w AND m)"
proof -
  let ?o = "simm9_offset w"
  have r: "- 256 \<le> sint ?o \<and> sint ?o \<le> 255"
    using sign_extend_range [of 9 "ucast (drop_bit 12 w AND 0x1ff)"] by (simp add: simm9_offset_def)
  have m: "simm9_mode_bits (op_iclass opc) (simm9_addressing_mode w) = Some (w AND (m AND 0x800))"
    using assms by (auto simp: simm9_mode_bits_def simm9_addressing_mode_def bits_simps)
  have e: "push_bit 5 (word_of_u8 (rn_field w)) OR push_bit 12 (ucast ?o AND 0x1ff) OR (w AND (m AND 0x800)) = w AND m"
    using assms by (auto simp: simm9_offset_def sign_extend_def field_defs bits_simps)
  show ?thesis using r m e by (simp add: reencodes_def Let_def)
qed

lemma reencodes_Simm7:
  assumes "if bit w 26 then drop_bit 30 w AND 0x3 = 1 else bit w 31"
    and "op_iclass opc \<in> {C_LdstpairOff, C_LdstnapairOffs} \<and> \<not> bit w 23 \<and> m = 0x3f83e0 \<or>
         op_iclass opc = C_LdstpairIndexed \<and> bit w 23 \<and> m = 0x13f83e0"
  shows "reencodes O_AddrSimm7 w b a opc i (w AND m)"
proof -
  let ?x = "sign_extend (ucast (drop_bit 15 w AND 0x7f)) 7"
  have sc: "simm7_pair_offset w = push_bit 3 ?x"
  proof (cases "bit w 26")
    case True
    then show ?thesis using assms(1) by (simp add: simm7_pair_offset_def Let_def bit_iff_and_drop_bit_eq_1)
  next
    case False
    then have "drop_bit 1 (drop_bit 30 w AND 0x3) = 1" using assms(1) by (simp add: bits_simps)
    then show ?thesis using False by (simp add: simm7_pair_offset_def Let_def bit_iff_and_drop_bit_eq_1)
  qed
  have so: "sint (simm7_pair_offset w) = sint ?x * 8"
    using sint_push_bit_sign_extend [of 7 3 "ucast (drop_bit 15 w AND 0x7f)"] by (simp add: sc)
  have r: "- 64 \<le> sint ?x \<and> sint ?x < 64"
    using sign_extend_range [of 7 "ucast (drop_bit 15 w AND 0x7f)"] by simp
  have m: "pair_mode_bits (op_iclass opc) (pair_addressing_mode w) = Some (w AND (m AND 0x1000000))"
    using assms(2) by (auto simp: pair_mode_bits_def pair_addressing_mode_def bits_simps)
  have e: "push_bit 5 (word_of_u8 (rn_field w)) OR push_bit 15 (ucast ?x AND 0x7f) OR (w AND (m AND 0x1000000)) = w AND m"
    using assms(2) by (auto simp: sign_extend_def field_defs bits_simps)
  show ?thesis using r m e by (simp add: reencodes_def Let_def so smod_0_iff sdiv_dvd scast_i64_u32)
qed

lemma reencodes_Uimm12:
  assumes "\<not> bit w 26" "drop_bit 30 b AND 0x3 = drop_bit 30 w AND 0x3"
  shows "reencodes O_AddrUimm12 w b a opc i (w AND 0x3fffe0)"
proof -
  let ?x = "drop_bit 10 w AND 0xfff"
  let ?k = "unat (drop_bit 30 w AND 0x3)"
  have k: "?k < 4" by (rule unat_fields_small)
  have "?x < 2 ^ 12" by (subst word_less_power_bits) (simp_all add: bits_simps)
  then have x: "uint ?x < 4096" by (simp add: word_less_def)
  have u: "uimm12_offset w = push_bit ?k (ucast ?x)"
    using assms(1) by (simp add: uimm12_offset_def Let_def bits_simps)
  have p: "(2 :: int) ^ ?k \<le> 2 ^ 3" using k by (intro power_increasing) simp_all
  have "uint ?x * 2 ^ ?k \<le> 4095 * 8"
    using x p by (intro mult_mono) simp_all
  moreover have nn: "0 \<le> uint ?x * 2 ^ ?k" by simp
  ultimately have b: "uint ?x * 2 ^ ?k < 9223372036854775808" "- 9223372036854775808 \<le> uint ?x * 2 ^ ?k"
    by linarith+
  have so: "sint (uimm12_offset w) = uint ?x * 2 ^ ?k"
  proof -
    have "uimm12_offset w = word_of_int (uint ?x * 2 ^ ?k)"
      by (simp add: u push_bit_eq_mult)
    then show ?thesis using sint_word_of_int_i64 [OF b(2,1)] by simp
  qed
  have e: "push_bit 5 (word_of_u8 (rn_field w)) OR push_bit 10 ?x = w AND 0x3fffe0"
    by (simp add: field_defs bits_simps)
  show ?thesis using x e nn
    by (simp add: reencodes_def Let_def so smod_0_iff sdiv_dvd assms(2) linorder_not_less [THEN iffD2, OF nn])
qed

end
