(* ===== verification/A64_Codec.thy ===== *)
theory A64_Codec
  imports A64_Codec_Mem
begin

text \<open>
  The round trip of every operand kind as one statement: what a decoder reads from a word, its
  encoder writes back.
\<close>

lemma reencodes_Rt:
  assumes f: "codec_field O_Rt opc = Some (c, m)" and side: "codec_side O_Rt w b a opc"
  shows "reencodes O_Rt w b a opc i (c OR w AND m)"
proof -
  note fixed = reencodes_Rt_fixed [of opc w b a i] and sized = reencodes_Rt_sized [of opc w b a i]
  consider
      (test) "op_iclass opc = C_Testbranch" "op_name opc \<in> {''tbz'', ''tbnz''}" "c = 0" "m = 0x1f"
    | (comp) "op_iclass opc = C_Compbranch" "op_name opc \<in> {''cbz'', ''cbnz''}" "c = 0" "m = 0x8000001f"
    | (pair) "op_iclass opc \<in> {C_LdstpairOff, C_LdstpairIndexed, C_LdstnapairOffs}"
        "op_name opc \<in> {''ldp'', ''stp'', ''ldnp'', ''stnp''}" "c = 0x80000000" "m = 0x1f"
    | (narrow) "ldst_single_class (op_iclass opc)"
        "op_name opc \<in> {''strb'', ''ldrb'', ''strh'', ''ldrh'', ''sturb'', ''ldurb'', ''sturh'', ''ldurh''}" "c = 0" "m = 0x1f"
    | (signed) "ldst_single_class (op_iclass opc)" "op_name opc \<in> {''ldrsb'', ''ldrsh'', ''ldrsw''}" "c = 0" "m = 0x1f"
    | (sized) "ldst_single_class (op_iclass opc)" "op_name opc \<in> {''ldr'', ''str'', ''ldur'', ''stur''}" "c = 0" "m = 0x4000001f"
    using f unfolding codec_field_def aarch64_opnd.case ldst_single_class_def
    by (simp only: split: if_splits) (simp_all, blast+)
  then show ?thesis
  proof cases
    case sized
    then have "bit w 31" "drop_bit 26 w AND 0x3f \<noteq> 0x3d"
      using side unfolding codec_side_def aarch64_opnd.case by simp_all
    then show ?thesis using sized reencodes_Rt_sized(3) [of opc w b a i] by simp
  qed (use fixed sized(1,2) in \<open>simp_all\<close>)
qed

lemma reencodes_Rd':
  assumes "codec_field O_Rd opc = Some (c, m)"
  shows "reencodes O_Rd w b a opc i (c OR w AND m)"
  using assms reencodes_Rd [of opc w b a i]
  by (auto simp: codec_field_def split: if_splits)

lemmas reencodes_codec = reencodes_gp reencodes_RmExt reencodes_RmSft reencodes_fp
  reencodes_vector reencodes_simd_scalar reencodes_d1 ed_en_reencodes reencodes_Em reencodes_Lvn
  reencodes_LvtAl reencodes_raw reencodes_misc_imm reencodes_BitNum reencodes_Uimm7 reencodes_Fbits
  reencodes_ShllImm reencodes_Aimm reencodes_Half reencodes_SimdImm reencodes_Cond reencodes_CnCm
  reencodes_Barrier reencodes_BarrierIsb reencodes_Prfop reencodes_Pstatefield reencodes_Sysreg
  reencodes_SysOps reencodes_simple reencodes_SimdAddrPost reencodes_pcrel [unfolded no_wrap_def]
  reencodes_pcrel21 [unfolded no_wrap_def] reencodes_Adrp reencodes_Simm9 reencodes_Uimm12

lemma codec_reencodes:
  assumes "codec_field k opc = Some (c, m)" "codec_side k w b a opc"
  shows "reencodes k w b a opc i (c OR w AND m)"
proof -
  have pair: "reencodes O_AddrSimm7 w b a opc i (c OR w AND m)" if "k = O_AddrSimm7"
    using assms reencodes_Simm7 [of w opc m b a i] that
    by (auto simp: codec_field_def codec_side_def split: if_splits)
  show ?thesis
  proof (cases "k \<in> {O_Rt, O_Rd, O_AddrSimm7}")
    case True
    then show ?thesis using assms reencodes_Rt reencodes_Rd' pair by auto
  next
    case False
    then show ?thesis
      using assms
      by (cases k) (simp_all add: codec_field_def codec_side_def reencodes_codec split: if_splits)
  qed
qed

section \<open>Properties\<close>

text \<open>C2: decoding an operand and encoding it again reproduces its bits of the word. For each of
  the seventy or so operand kinds of \<open>codec_field\<close>, whatever the row, the word, the address and
  the bits accumulated so far, if the side condition of the kind holds then the decoder succeeds
  and the encoder, given the decoded operand, returns the kind's constant bits together with
  exactly the bits of the word that the kind owns.\<close>

theorem operand_roundtrip:
  assumes "codec_field k opc = Some (c, m)" "codec_side k w b a opc"
  shows "\<exists>x. decode_operand k \<lparr>dc_word = w, dc_address = a, dc_opcode = opc, dc_operand_index = i\<rparr> = Ok x \<and>
             encode_operand k x \<lparr>ec_base_word = b, ec_address = a, ec_opcode = opc\<rparr> = Ok (c OR w AND m)"
  using codec_reencodes [OF assms, of i] by (simp add: reencodes_def decode_operand_def encode_operand_def)

theorem operand_roundtrip_witness:
  "\<exists>x. decode_operand O_AddrSimm7
         \<lparr>dc_word = 0xa9bf7bfd, dc_address = 0,
          dc_opcode = aarch64_opcode_new ''stp'' 0x28800000 0x7ec00000 C_LdstpairIndexed
            (Op3 O_Rt O_Rt2 O_AddrSimm7) F_SF, dc_operand_index = 2\<rparr> = Ok x \<and>
       encode_operand O_AddrSimm7 x
         \<lparr>ec_base_word = 0xa8807bfd, ec_address = 0,
          ec_opcode = aarch64_opcode_new ''stp'' 0x28800000 0x7ec00000 C_LdstpairIndexed
            (Op3 O_Rt O_Rt2 O_AddrSimm7) F_SF\<rparr> = Ok 0x13f03e0"
proof -
  let ?row = "aarch64_opcode_new ''stp'' 0x28800000 0x7ec00000 C_LdstpairIndexed (Op3 O_Rt O_Rt2 O_AddrSimm7) F_SF"
  have "codec_field O_AddrSimm7 ?row = Some (0, 0x13f83e0)"
    by (simp add: codec_field_def aarch64_opcode_new_def)
  moreover have "codec_side O_AddrSimm7 0xa9bf7bfd 0xa8807bfd 0 ?row"
    by (simp add: codec_side_def aarch64_opcode_new_def)
  ultimately show ?thesis
    using operand_roundtrip [of O_AddrSimm7 ?row 0 "0x13f83e0" "0xa9bf7bfd" "0xa8807bfd" 0 2] by simp
qed

end
