(* ===== verification/A64_Insn.thy ===== *)
theory A64_Insn
  imports A64_Codec A64_Table
begin

text \<open>
  One instruction to and from its word (\<open>src/src/isa/aarch64/mod.rs\<close>):
  \<open>decode_instruction\<close>, \<open>encode_instruction\<close> with its loop over the candidate rows of a
  mnemonic, and the bits an alias encodes implicitly. The lemmas say exactly which row the
  encoder ends with, and that encoding what a row decodes gives the word back.
\<close>

section \<open>Instructions\<close>

record decoded_instruction =
  di_address :: u64
  di_word :: u32
  di_mnemonic :: aarch64_mnemonic
  di_operands :: "decoded_operand list"

record instruction_template =
  it_address :: u64
  it_mnemonic :: aarch64_mnemonic
  it_operands :: "decoded_operand list"

section \<open>Decoding\<close>

fun decode_operands ::
  "aarch64_opnd list \<Rightarrow> usize \<Rightarrow> u32 \<Rightarrow> u64 \<Rightarrow> aarch64_opcode \<Rightarrow> decode_error + decoded_operand list" where
  "decode_operands [] operand_index word address opcode = Ok []"
| "decode_operands (kind # kinds) operand_index word address opcode =
     (case decode_operand kind
             \<lparr>dc_word = word, dc_address = address, dc_opcode = opcode, dc_operand_index = operand_index\<rparr> of
        Err e \<Rightarrow> Err e
      | Ok operand \<Rightarrow>
          (case decode_operands kinds (operand_index + 1) word address opcode of
             Err e \<Rightarrow> Err e
           | Ok operands \<Rightarrow> Ok (operand # operands)))"

definition decode_instruction :: "u64 \<Rightarrow> u32 \<Rightarrow> decode_error + decoded_instruction" where
  "decode_instruction address word =
     (case match_opcode word of
        None \<Rightarrow> Err (DE_NoMatchingOpcode word)
      | Some opcode \<Rightarrow>
          (case decode_operands (opcode_operands opcode) 0 word address opcode of
             Err e \<Rightarrow> Err e
           | Ok operands \<Rightarrow>
               Ok \<lparr>di_address = address, di_word = word, di_mnemonic = mnemonic_parse (op_name opcode),
                   di_operands = operands\<rparr>))"

section \<open>The bits of an alias\<close>

datatype alias_fixup_kind = CopyRnToRm | CopyDestSfToN

definition alias_fixup :: "aarch64_mnemonic \<Rightarrow> alias_fixup_kind option" where
  "alias_fixup m =
     (if m = M_Cinc then Some CopyRnToRm
      else if mnemonic_as_str m \<in> {''sxtb'', ''sxth'', ''uxtb'', ''uxth''} then Some CopyDestSfToN
      else None)"

definition gp_register_at :: "decoded_operand list \<Rightarrow> nat \<Rightarrow> string \<Rightarrow> encode_error + u8" where
  "gp_register_at operands index kind =
     (if \<not> index < length operands then Err (EE_InvalidOperand kind)
      else case operands ! index of
             D_Register r \<Rightarrow>
               if reg_class r \<notin> {RC_W, RC_X} \<or> reg_index r > 31 then Err (EE_InvalidOperand kind)
               else Ok (reg_index r)
           | _ \<Rightarrow> Err (EE_InvalidOperand kind))"

definition alias_implicit_bits :: "aarch64_mnemonic \<Rightarrow> decoded_operand list \<Rightarrow> encoded" where
  "alias_implicit_bits m operands =
     (case alias_fixup m of
        Some CopyRnToRm \<Rightarrow>
          (case gp_register_at operands 1 ''Rn'' of
             Err e \<Rightarrow> Err e
           | Ok rn \<Rightarrow> Ok (push_bit 16 (word_of_u8 rn)))
      | Some CopyDestSfToN \<Rightarrow>
          (case operands of
             D_Register r # _ \<Rightarrow> Ok (if reg_class r = RC_X then push_bit 22 1 else 0)
           | _ \<Rightarrow> Err (EE_InvalidOperand ''Rd''))
      | None \<Rightarrow> Ok 0)"

section \<open>Encoding\<close>

text \<open>
  The inner loop over a row's operands ends with the word, with an error that lets the outer
  loop go on to the next row (\<open>InvalidOperand\<close>, \<open>Unimplemented\<close>), or with one that ends the
  function.
\<close>

datatype row_outcome = Row_Matched u32 | Row_Unmatched encode_error | Row_Abort encode_error

fun encode_row_operands ::
  "aarch64_opnd list \<Rightarrow> decoded_operand list \<Rightarrow> u32 \<Rightarrow> u64 \<Rightarrow> aarch64_opcode \<Rightarrow> row_outcome" where
  "encode_row_operands (kind # kinds) (operand # operands) word address opcode =
     (case encode_operand kind operand
             \<lparr>ec_base_word = word, ec_address = address, ec_opcode = opcode\<rparr> of
        Ok bits \<Rightarrow> encode_row_operands kinds operands (word OR bits) address opcode
      | Err (EE_InvalidOperand k) \<Rightarrow> Row_Unmatched (EE_InvalidOperand k)
      | Err (EE_Unimplemented k) \<Rightarrow> Row_Unmatched (EE_Unimplemented k)
      | Err e \<Rightarrow> Row_Abort e)"
| "encode_row_operands kinds operands word address opcode = Row_Matched word"

fun encode_candidates ::
  "aarch64_opcode list \<Rightarrow> instruction_template \<Rightarrow> encode_error option \<Rightarrow> encoded" where
  "encode_candidates [] instruction last_error =
     Err (case last_error of
            Some e \<Rightarrow> e
          | None \<Rightarrow> EE_NoMatchingForm (mnemonic_as_str (it_mnemonic instruction)))"
| "encode_candidates (opcode # candidates) instruction last_error =
     (if length (opcode_operands opcode) \<noteq> length (it_operands instruction)
      then encode_candidates candidates instruction last_error
      else
        case encode_row_operands (opcode_operands opcode) (it_operands instruction) (op_opcode opcode)
               (it_address instruction) opcode of
          Row_Unmatched e \<Rightarrow> encode_candidates candidates instruction (Some e)
        | Row_Abort e \<Rightarrow> Err e
        | Row_Matched word \<Rightarrow>
            (case alias_implicit_bits (it_mnemonic instruction) (it_operands instruction) of
               Err e \<Rightarrow> Err e
             | Ok bits \<Rightarrow>
                 if (word OR bits) AND op_mask opcode \<noteq> op_opcode opcode AND op_mask opcode
                 then encode_candidates candidates instruction
                        (Some (case last_error of Some e \<Rightarrow> e | None \<Rightarrow> EE_InvalidOperand ''<mask>''))
                 else Ok (word OR bits)))"

definition encode_instruction :: "instruction_template \<Rightarrow> encoded" where
  "encode_instruction instruction =
     (let candidates = opcodes_for_mnemonic (it_mnemonic instruction) in
      if candidates = [] then Err (EE_UnknownMnemonic (mnemonic_as_str (it_mnemonic instruction)))
      else encode_candidates candidates instruction None)"

definition template_of :: "decoded_instruction \<Rightarrow> instruction_template" where
  "template_of d = \<lparr>it_address = di_address d, it_mnemonic = di_mnemonic d, it_operands = di_operands d\<rparr>"

section \<open>Which row the encoder ends with\<close>

text \<open>What one row makes of a template: the word, or nothing when the loop passes it over.\<close>

datatype row_verdict = Pass_Over | Produce u32 | Give_Up encode_error

definition row_verdict :: "instruction_template \<Rightarrow> aarch64_opcode \<Rightarrow> row_verdict" where
  "row_verdict t row =
     (if length (opcode_operands row) \<noteq> length (it_operands t) then Pass_Over
      else
        case encode_row_operands (opcode_operands row) (it_operands t) (op_opcode row) (it_address t) row of
          Row_Unmatched e \<Rightarrow> Pass_Over
        | Row_Abort e \<Rightarrow> Give_Up e
        | Row_Matched word \<Rightarrow>
            (case alias_implicit_bits (it_mnemonic t) (it_operands t) of
               Err e \<Rightarrow> Give_Up e
             | Ok bits \<Rightarrow>
                 if (word OR bits) AND op_mask row = op_opcode row AND op_mask row
                 then Produce (word OR bits) else Pass_Over))"

lemma encode_candidates_append:
  assumes "\<And>row. row \<in> set xs \<Longrightarrow> row_verdict t row = Pass_Over"
  shows "\<exists>prev'. encode_candidates (xs @ ys) t prev = encode_candidates ys t prev'"
  using assms
proof (induction xs arbitrary: prev)
  case Nil
  show ?case by auto
next
  case (Cons x xs)
  have tail: "\<exists>prev'. encode_candidates (xs @ ys) t l = encode_candidates ys t prev'" for l
    using Cons by simp
  have "row_verdict t x = Pass_Over" using Cons.prems by simp
  then show ?case
    using tail by (auto simp: row_verdict_def split: if_splits row_outcome.splits sum.splits)
qed

lemma encode_candidates_Produce:
  "row_verdict t row = Produce w \<Longrightarrow> encode_candidates (row # ys) t prev = Ok w"
  by (auto simp: row_verdict_def split: if_splits row_outcome.splits sum.splits)

lemma encode_candidates_Give_Up:
  "row_verdict t row = Give_Up e \<Longrightarrow> encode_candidates (row # ys) t prev = Err e"
  by (auto simp: row_verdict_def split: if_splits row_outcome.splits sum.splits)

text \<open>The first row that is not passed over decides.\<close>

lemma encode_candidates_Ok_iff:
  "encode_candidates rows t prev = Ok w \<longleftrightarrow>
     (\<exists>row xs ys. rows = xs @ row # ys \<and> (\<forall>x\<in>set xs. row_verdict t x = Pass_Over) \<and>
        row_verdict t row = Produce w)" (is "?l \<longleftrightarrow> ?r")
proof
  show "?l \<Longrightarrow> ?r"
  proof (induction rows arbitrary: prev)
    case (Cons row rows)
    show ?case
    proof (cases "row_verdict t row")
      case Pass_Over
      then obtain l where "encode_candidates rows t l = Ok w"
        using Cons.prems encode_candidates_append [of "[row]" t rows prev] by auto
      from Cons.IH [OF this] obtain r xs ys where
        "rows = xs @ r # ys" "\<forall>x\<in>set xs. row_verdict t x = Pass_Over" "row_verdict t r = Produce w"
        by blast
      then show ?thesis using Pass_Over
        by (intro exI [of _ r] exI [of _ "row # xs"] exI [of _ ys]) simp
    next
      case (Produce v)
      then show ?thesis using Cons.prems encode_candidates_Produce [OF Produce]
        by (intro exI [of _ row] exI [of _ "[]"] exI [of _ rows]) simp
    next
      case (Give_Up e)
      then show ?thesis using Cons.prems encode_candidates_Give_Up [OF Give_Up] by simp
    qed
  qed simp
next
  assume ?r
  then obtain row xs ys where r: "rows = xs @ row # ys"
    "\<forall>x\<in>set xs. row_verdict t x = Pass_Over" "row_verdict t row = Produce w" by blast
  from encode_candidates_append [of xs t "row # ys" prev] r(2)
  obtain l where "encode_candidates rows t prev = encode_candidates (row # ys) t l"
    unfolding r(1) by auto
  then show ?l using encode_candidates_Produce [OF r(3)] by simp
qed

section \<open>Encoding what a row decodes\<close>

text \<open>
  The constant and the copied bits of all operands of a row; a row is closed when its fixed bits
  and the fields of its operands make up the whole word, none contradicting the fixed bits.
\<close>

fun fields_of :: "aarch64_opnd list \<Rightarrow> aarch64_opcode \<Rightarrow> (u32 \<times> u32) option" where
  "fields_of [] opc = Some (0, 0)"
| "fields_of (k # ks) opc =
     (case (codec_field k opc, fields_of ks opc) of
        (Some (c, m), Some (cs, ms)) \<Rightarrow> Some (c OR cs, m OR ms)
      | _ \<Rightarrow> None)"

definition row_closed :: "aarch64_opcode \<Rightarrow> bool" where
  "row_closed row =
     (case fields_of (opcode_operands row) row of
        None \<Rightarrow> False
      | Some (c, m) \<Rightarrow>
          op_opcode row OR c = op_opcode row AND op_mask row \<and> op_mask row OR m = - 1)"

text \<open>The side conditions of the operands, with the bits accumulated before each.\<close>

fun row_sides :: "aarch64_opnd list \<Rightarrow> u32 \<Rightarrow> u32 \<Rightarrow> u64 \<Rightarrow> aarch64_opcode \<Rightarrow> bool" where
  "row_sides [] w b a opc = True"
| "row_sides (k # ks) w b a opc =
     (codec_side k w b a opc \<and>
      (case codec_field k opc of
         None \<Rightarrow> False
       | Some (c, m) \<Rightarrow> row_sides ks w (b OR (c OR w AND m)) a opc))"

lemma fields_of_Cons:
  "fields_of (k # ks) opc = Some f \<longleftrightarrow>
     (\<exists>c m cs ms. codec_field k opc = Some (c, m) \<and> fields_of ks opc = Some (cs, ms) \<and>
        f = (c OR cs, m OR ms))"
  by (auto split: option.splits)

lemma decode_encode_operands:
  assumes "fields_of ks opc = Some (c, m)" "row_sides ks w b a opc"
  shows "\<exists>xs. decode_operands ks i w a opc = Ok xs \<and> length xs = length ks \<and>
           encode_row_operands ks xs b a opc = Row_Matched (b OR (c OR w AND m))"
  using assms
proof (induction ks arbitrary: c m b i)
  case Nil
  then show ?case by simp
next
  case (Cons k ks)
  obtain c1 m1 cs ms where f: "codec_field k opc = Some (c1, m1)" "fields_of ks opc = Some (cs, ms)"
    "c = c1 OR cs" "m = m1 OR ms"
    using Cons.prems(1) unfolding fields_of_Cons by auto
  have sides: "codec_side k w b a opc" "row_sides ks w (b OR (c1 OR w AND m1)) a opc"
    using Cons.prems(2) f(1) by simp_all
  obtain x where x: "decode_word k w a opc i = Ok x" "encode_word k x b a opc = Ok (c1 OR w AND m1)"
    using codec_reencodes [OF f(1) sides(1)] unfolding reencodes_def by blast
  obtain xs where xs: "decode_operands ks (i + 1) w a opc = Ok xs" "length xs = length ks"
    "encode_row_operands ks xs (b OR (c1 OR w AND m1)) a opc =
       Row_Matched ((b OR (c1 OR w AND m1)) OR (cs OR w AND ms))"
    using Cons.IH [OF f(2) sides(2)] by blast
  have "(b OR (c1 OR w AND m1)) OR (cs OR w AND ms) = b OR (c OR w AND m)"
    unfolding f(3,4) by (rule bit_eqI) (auto simp: bit_simps)
  then show ?case using x xs
    by (intro exI [of _ "x # xs"]) (simp add: decode_operand_def encode_operand_def)
qed

lemma closed_row_word:
  assumes "op_opcode row OR c = op_opcode row AND op_mask row" "op_mask row OR m = - 1"
    and "w AND op_mask row = op_opcode row AND op_mask row"
  shows "op_opcode row OR (c OR w AND m) = w"
proof -
  have "op_opcode row OR (c OR w AND m) = (op_opcode row OR c) OR w AND m"
    by (simp add: or.assoc)
  also have "\<dots> = w AND op_mask row OR w AND m" by (simp only: assms(1) assms(3) [symmetric])
  also have "\<dots> = w AND (op_mask row OR m)" by (simp add: bit.conj_disj_distrib)
  finally show ?thesis by (simp add: assms(2))
qed

lemma closed_row_reencodes:
  assumes "row_closed row" "row_sides (opcode_operands row) w (op_opcode row) a row"
    and "w AND op_mask row = op_opcode row AND op_mask row" "alias_fixup m = None"
  shows "\<exists>xs. decode_operands (opcode_operands row) i w a row = Ok xs \<and>
           row_verdict \<lparr>it_address = a, it_mnemonic = m, it_operands = xs\<rparr> row = Produce w"
proof -
  obtain c ms where f: "fields_of (opcode_operands row) row = Some (c, ms)"
    "op_opcode row OR c = op_opcode row AND op_mask row" "op_mask row OR ms = - 1"
    using assms(1) unfolding row_closed_def by (auto split: option.splits)
  from decode_encode_operands [OF f(1) assms(2), of i] obtain xs where xs:
    "decode_operands (opcode_operands row) i w a row = Ok xs" "length xs = length (opcode_operands row)"
    "encode_row_operands (opcode_operands row) xs (op_opcode row) a row = Row_Matched w"
    unfolding closed_row_word [OF f(2,3) assms(3)] by blast
  then show ?thesis using assms(3,4)
    by (intro exI [of _ xs]) (simp add: row_verdict_def alias_implicit_bits_def)
qed

lemma match_row_roundtrip:
  assumes "match_opcode w = Some row" "row_closed row"
    and "row_sides (opcode_operands row) w (op_opcode row) a row" "alias_fixup (mnemonic_id row) = None"
  shows "\<exists>d. decode_instruction a w = Ok d \<and> di_mnemonic d = mnemonic_id row \<and>
           row_verdict (template_of d) row = Produce w \<and>
           (\<forall>xs ys. opcodes_for_mnemonic (di_mnemonic d) = xs @ row # ys \<longrightarrow>
              list_all (\<lambda>x. row_verdict (template_of d) x = Pass_Over) xs \<longrightarrow>
              encode_instruction (template_of d) = Ok w)"
proof -
  have "row_applies w row"
    using match_fold_best [of w aarch64_opcode_table] assms(1) by (simp add: match_opcode_def best_match_def)
  then have fixed: "w AND op_mask row = op_opcode row AND op_mask row" by (simp add: row_applies_def)
  obtain xs where xs: "decode_operands (opcode_operands row) 0 w a row = Ok xs"
    "row_verdict \<lparr>it_address = a, it_mnemonic = mnemonic_id row, it_operands = xs\<rparr> row = Produce w"
    using closed_row_reencodes [OF assms(2,3) fixed assms(4), of 0] by blast
  let ?d = "\<lparr>di_address = a, di_word = w, di_mnemonic = mnemonic_id row, di_operands = xs\<rparr>"
  have d: "decode_instruction a w = Ok ?d"
    using assms(1) xs(1) by (simp add: decode_instruction_def mnemonic_id_def)
  have v: "row_verdict (template_of ?d) row = Produce w" using xs(2) by (simp add: template_of_def)
  have "encode_instruction (template_of ?d) = Ok w"
    if "opcodes_for_mnemonic (mnemonic_id row) = us @ row # vs"
      "list_all (\<lambda>x. row_verdict (template_of ?d) x = Pass_Over) us" for us vs
  proof -
    have "encode_candidates (opcodes_for_mnemonic (mnemonic_id row)) (template_of ?d) None = Ok w"
      unfolding encode_candidates_Ok_iff using that v by (auto simp: list_all_iff)
    then show ?thesis using that(1) by (simp add: encode_instruction_def Let_def template_of_def)
  qed
  then show ?thesis using d v by (intro exI [of _ ?d]) simp
qed

section \<open>Properties\<close>

text \<open>C19: what the encoder returns. A word comes from the first row of the mnemonic, in table
  order, that is not passed over for a wrong operand count, a rejected operand or a violated
  mask; the word has that row's fixed bits.\<close>

theorem encode_instruction_exact:
  "encode_instruction t = Ok w \<longleftrightarrow>
     (\<exists>xs row ys. filter (\<lambda>row. mnemonic_id row = it_mnemonic t) aarch64_opcode_table = xs @ row # ys \<and>
        list_all (\<lambda>x. row_verdict t x = Pass_Over) xs \<and> row_verdict t row = Produce w \<and>
        w AND op_mask row = op_opcode row AND op_mask row)"
proof -
  have fixed: "w AND op_mask row = op_opcode row AND op_mask row" if "row_verdict t row = Produce w" for row
    using that by (auto simp: row_verdict_def split: if_splits row_outcome.splits sum.splits)
  show ?thesis
  proof (cases "opcodes_for_mnemonic (it_mnemonic t) = []")
    case True
    then show ?thesis
      by (simp add: encode_instruction_def opcodes_for_mnemonic_filter)
  next
    case False
    then have "encode_instruction t = encode_candidates (opcodes_for_mnemonic (it_mnemonic t)) t None"
      by (simp add: encode_instruction_def Let_def)
    then show ?thesis
      using fixed False by (auto simp: encode_candidates_Ok_iff opcodes_for_mnemonic_filter list_all_iff)
  qed
qed

text \<open>C11: decoding and encoding are inverse on closed rows, where their operands allow it. Let a word
  match a row whose fields make up the word, let the row's mnemonic not be an alias with implicit
  bits (\<open>cinc\<close> and the byte and half word extensions), and let every operand satisfy the side
  condition of its kind: among others, a shifted immediate is not zero, an extension or shift is one
  that is written, a relative address does not wrap. Then decoding succeeds, and encoding the decoded
  mnemonic and operands with that row gives the very same word; if the earlier rows of the mnemonic
  are passed over, so does \<open>encode_instruction\<close>.\<close>

theorem decode_encode_word:
  assumes "match_opcode w = Some row" "row_closed row"
    and "row_sides (opcode_operands row) w (op_opcode row) a row" "alias_fixup (mnemonic_id row) = None"
  shows "\<exists>d. decode_instruction a w = Ok d \<and> di_mnemonic d = mnemonic_id row \<and>
           row_verdict (template_of d) row = Produce w \<and>
           (\<forall>xs ys. opcodes_for_mnemonic (di_mnemonic d) = xs @ row # ys \<longrightarrow>
              list_all (\<lambda>x. row_verdict (template_of d) x = Pass_Over) xs \<longrightarrow>
              encode_instruction (template_of d) = Ok w)"
  using match_row_roundtrip [OF assms] .

end
