(* ===== verification/A64_Flow.thy ===== *)
theory A64_Flow
  imports A64_Insn Control_Flow
begin

text \<open>
  The control flow of AArch64 instructions (\<open>src/src/isa/aarch64/control_flow.rs\<close>): the reach of
  each PC-relative form, the inverse of a conditional branch, and the implementation of the
  trait \<open>InstructionInfo\<close> that classifies a decoded instruction.
\<close>

section \<open>Branch geometry\<close>

definition pcrel_range_bytes :: "aarch64_mnemonic \<Rightarrow> int option" where
  "pcrel_range_bytes m =
     (case m of
        M_B \<Rightarrow> Some (128 * 1024 * 1024)
      | M_Bl \<Rightarrow> Some (128 * 1024 * 1024)
      | M_Beq \<Rightarrow> Some (1024 * 1024)
      | M_Bne \<Rightarrow> Some (1024 * 1024)
      | M_Bcs \<Rightarrow> Some (1024 * 1024)
      | M_Bcc \<Rightarrow> Some (1024 * 1024)
      | M_Bmi \<Rightarrow> Some (1024 * 1024)
      | M_Bpl \<Rightarrow> Some (1024 * 1024)
      | M_Bvs \<Rightarrow> Some (1024 * 1024)
      | M_Bvc \<Rightarrow> Some (1024 * 1024)
      | M_Bhi \<Rightarrow> Some (1024 * 1024)
      | M_Bls \<Rightarrow> Some (1024 * 1024)
      | M_Bge \<Rightarrow> Some (1024 * 1024)
      | M_Blt \<Rightarrow> Some (1024 * 1024)
      | M_Bgt \<Rightarrow> Some (1024 * 1024)
      | M_Ble \<Rightarrow> Some (1024 * 1024)
      | M_Cbz \<Rightarrow> Some (1024 * 1024)
      | M_Cbnz \<Rightarrow> Some (1024 * 1024)
      | M_Tbz \<Rightarrow> Some (32 * 1024)
      | M_Tbnz \<Rightarrow> Some (32 * 1024)
      | M_Adr \<Rightarrow> Some (1024 * 1024)
      | _ \<Rightarrow> None)"

definition invert_conditional_branch :: "aarch64_mnemonic \<Rightarrow> aarch64_mnemonic option" where
  "invert_conditional_branch m =
     (case m of
        M_Beq \<Rightarrow> Some M_Bne
      | M_Bne \<Rightarrow> Some M_Beq
      | M_Bcs \<Rightarrow> Some M_Bcc
      | M_Bcc \<Rightarrow> Some M_Bcs
      | M_Bmi \<Rightarrow> Some M_Bpl
      | M_Bpl \<Rightarrow> Some M_Bmi
      | M_Bvs \<Rightarrow> Some M_Bvc
      | M_Bvc \<Rightarrow> Some M_Bvs
      | M_Bhi \<Rightarrow> Some M_Bls
      | M_Bls \<Rightarrow> Some M_Bhi
      | M_Bge \<Rightarrow> Some M_Blt
      | M_Blt \<Rightarrow> Some M_Bge
      | M_Bgt \<Rightarrow> Some M_Ble
      | M_Ble \<Rightarrow> Some M_Bgt
      | M_Cbz \<Rightarrow> Some M_Cbnz
      | M_Cbnz \<Rightarrow> Some M_Cbz
      | M_Tbz \<Rightarrow> Some M_Tbnz
      | M_Tbnz \<Rightarrow> Some M_Tbz
      | _ \<Rightarrow> None)"

section \<open>Classification\<close>

fun direct_branch_target :: "decoded_operand list \<Rightarrow> u64 option" where
  "direct_branch_target [] = None"
| "direct_branch_target (D_BranchTarget target # operands) = Some target"
| "direct_branch_target (_ # operands) = direct_branch_target operands"

definition conditional_mnemonics :: "aarch64_mnemonic set" where
  "conditional_mnemonics =
     {M_Beq, M_Bne, M_Bcs, M_Bcc, M_Bmi, M_Bpl, M_Bvs, M_Bvc, M_Bhi, M_Bls, M_Bge, M_Blt, M_Bgt, M_Ble,
      M_Cbz, M_Cbnz, M_Tbz, M_Tbnz}"

definition control_flow_of :: "decoded_instruction \<Rightarrow> control_flow" where
  "control_flow_of d =
     (let fallthrough = di_address d + 4; target = direct_branch_target (di_operands d); m = di_mnemonic d in
      if m = M_B then (case target of Some t \<Rightarrow> CF_Jump t | None \<Rightarrow> CF_Fall)
      else if m = M_Bl then (case target of Some t \<Rightarrow> CF_Call t fallthrough | None \<Rightarrow> CF_Fall)
      else if m \<in> conditional_mnemonics then
        (case target of Some t \<Rightarrow> CF_ConditionalJump t fallthrough | None \<Rightarrow> CF_Fall)
      else if m = M_Br then CF_IndirectJump
      else if m = M_Blr then CF_IndirectCall fallthrough
      else if m \<in> {M_Ret, M_Eret, M_Drps} then CF_Return
      else if m \<in> {M_Svc, M_Hvc, M_Smc, M_Brk, M_Hlt, M_Dcps1, M_Dcps2, M_Dcps3} then CF_Trap
      else CF_Fall)"

definition info_of :: "decoded_instruction \<Rightarrow> instruction_info" where
  "info_of d = \<lparr>ii_address = di_address d, ii_size = 4, ii_control_flow = control_flow_of d\<rparr>"

section \<open>Inversion\<close>

lemma invert_conditional_iff: "invert_conditional_branch m \<noteq> None \<longleftrightarrow> m \<in> conditional_mnemonics"
  by (cases m) (simp_all add: invert_conditional_branch_def conditional_mnemonics_def)

lemma invert_conditional_props:
  assumes "invert_conditional_branch m = Some m'"
  shows "invert_conditional_branch m' = Some m" "m' \<noteq> m" "pcrel_range_bytes m' = pcrel_range_bytes m"
    "m \<in> conditional_mnemonics" "m' \<in> conditional_mnemonics"
  using assms by (cases m; simp add: invert_conditional_branch_def pcrel_range_bytes_def conditional_mnemonics_def)+

end
