(* ===== verification/A64_Branch_Match.thy ===== *)
theory A64_Branch_Match
  imports A64_Branch_Rows A64_Flow
begin

text \<open>
  Branches end to end: which row a branch word matches, which row a branch mnemonic is encoded
  with, and that the two directions agree up to the reach of the displacement.
\<close>

section \<open>The branch rows\<close>

definition row_b :: aarch64_opcode where
  "row_b = aarch64_opcode_new ''b'' 0x14000000 0xfc000000 C_BranchImm (Op1 O_AddrPcrel26) 0"

definition row_bl :: aarch64_opcode where
  "row_bl = aarch64_opcode_new ''bl'' 0x94000000 0xfc000000 C_BranchImm (Op1 O_AddrPcrel26) 0"

definition row_b_cond :: "string \<Rightarrow> u32 \<Rightarrow> aarch64_opcode" where
  "row_b_cond name code =
     aarch64_opcode_new name code 0xff00001f C_Condbranch (Op1 O_AddrPcrel19) (F_ALIAS OR F_PSEUDO)"

definition row_cb :: "string \<Rightarrow> u32 \<Rightarrow> aarch64_opcode" where
  "row_cb name code = aarch64_opcode_new name code 0x7f000000 C_Compbranch (Op2 O_Rt O_AddrPcrel19) F_SF"

definition row_tb :: "string \<Rightarrow> u32 \<Rightarrow> aarch64_opcode" where
  "row_tb name code = aarch64_opcode_new name code 0x7f000000 C_Testbranch (Op3 O_Rt O_BitNum O_AddrPcrel14) 0"

text \<open>The relative branches: mnemonic and row.\<close>

definition branch_rows :: "(aarch64_mnemonic \<times> aarch64_opcode) list" where
  "branch_rows =
     [(M_B, row_b), (M_Bl, row_bl),
      (M_Beq, row_b_cond ''beq'' 0x54000000), (M_Bne, row_b_cond ''bne'' 0x54000001),
      (M_Bcs, row_b_cond ''bcs'' 0x54000002), (M_Bcc, row_b_cond ''bcc'' 0x54000003),
      (M_Bmi, row_b_cond ''bmi'' 0x54000004), (M_Bpl, row_b_cond ''bpl'' 0x54000005),
      (M_Bvs, row_b_cond ''bvs'' 0x54000006), (M_Bvc, row_b_cond ''bvc'' 0x54000007),
      (M_Bhi, row_b_cond ''bhi'' 0x54000008), (M_Bls, row_b_cond ''bls'' 0x54000009),
      (M_Bge, row_b_cond ''bge'' 0x5400000a), (M_Blt, row_b_cond ''blt'' 0x5400000b),
      (M_Bgt, row_b_cond ''bgt'' 0x5400000c), (M_Ble, row_b_cond ''ble'' 0x5400000d),
      (M_Cbz, row_cb ''cbz'' 0x34000000), (M_Cbnz, row_cb ''cbnz'' 0x35000000),
      (M_Tbz, row_tb ''tbz'' 0x36000000), (M_Tbnz, row_tb ''tbnz'' 0x37000000)]"

lemmas branch_row_defs = row_b_def row_bl_def row_b_cond_def row_cb_def row_tb_def

section \<open>Rows of a branch mnemonic\<close>

lemma mnemonic_parse_branch_like:
  assumes "mnemonic_parse s \<in> set (map fst branch_rows)"
  shows "branch_like s"
proof (cases "map_of mnemonic_names s")
  case None
  then show ?thesis using assms by (simp add: mnemonic_parse_def branch_rows_def)
next
  case (Some m)
  then have "(s, m) \<in> set mnemonic_names" by (rule map_of_SomeD)
  moreover have "m \<in> set (map fst branch_rows)" using assms Some by (simp add: mnemonic_parse_def)
  moreover have "list_all (\<lambda>(s, m). branch_like s \<or> m \<notin> set (map fst branch_rows)) mnemonic_names"
    by (simp add: mnemonic_names_def branch_like_def branch_rows_def)
  ultimately show ?thesis by (auto simp: list_all_iff)
qed

text \<open>The mnemonics of the rows named like a branch.\<close>

lemma mnemonic_parse_named:
  "mnemonic_parse ''bic'' = M_Other ''bic''" "mnemonic_parse ''not'' = M_Other ''not''"
  "mnemonic_parse ''bsl'' = M_Other ''bsl''" "mnemonic_parse ''bit'' = M_Other ''bit''"
  "mnemonic_parse ''bif'' = M_Other ''bif''" "mnemonic_parse ''tbl'' = M_Other ''tbl''"
  "mnemonic_parse ''tbx'' = M_Other ''tbx''" "mnemonic_parse ''bfm'' = M_Other ''bfm''"
  "mnemonic_parse ''bfi'' = M_Other ''bfi''" "mnemonic_parse ''bfc'' = M_Other ''bfc''"
  "mnemonic_parse ''bfxil'' = M_Bfxil" "mnemonic_parse ''b'' = M_B" "mnemonic_parse ''bl'' = M_Bl"
  "mnemonic_parse ''br'' = M_Br" "mnemonic_parse ''blr'' = M_Blr" "mnemonic_parse ''ret'' = M_Ret"
  "mnemonic_parse ''braaz'' = M_Other ''braaz''" "mnemonic_parse ''brabz'' = M_Other ''brabz''"
  "mnemonic_parse ''blraaz'' = M_Other ''blraaz''" "mnemonic_parse ''blrabz'' = M_Other ''blrabz''"
  "mnemonic_parse ''braa'' = M_Other ''braa''" "mnemonic_parse ''brab'' = M_Other ''brab''"
  "mnemonic_parse ''blraa'' = M_Other ''blraa''" "mnemonic_parse ''blrab'' = M_Other ''blrab''"
  "mnemonic_parse ''cbz'' = M_Cbz" "mnemonic_parse ''cbnz'' = M_Cbnz"
  "mnemonic_parse ''b.c'' = M_Other ''b.c''" "mnemonic_parse ''brk'' = M_Brk"
  "mnemonic_parse ''bics'' = M_Other ''bics''" "mnemonic_parse ''adr'' = M_Adr"
  "mnemonic_parse ''adrp'' = M_Adrp" "mnemonic_parse ''nop'' = M_Nop"
  "mnemonic_parse ''tbz'' = M_Tbz" "mnemonic_parse ''tbnz'' = M_Tbnz"
  "mnemonic_parse ''beq'' = M_Beq" "mnemonic_parse ''bne'' = M_Bne" "mnemonic_parse ''bcs'' = M_Bcs"
  "mnemonic_parse ''bhs'' = M_Other ''bhs''" "mnemonic_parse ''bcc'' = M_Bcc"
  "mnemonic_parse ''blo'' = M_Other ''blo''" "mnemonic_parse ''bmi'' = M_Bmi"
  "mnemonic_parse ''bpl'' = M_Bpl" "mnemonic_parse ''bvs'' = M_Bvs" "mnemonic_parse ''bvc'' = M_Bvc"
  "mnemonic_parse ''bhi'' = M_Bhi" "mnemonic_parse ''bls'' = M_Bls" "mnemonic_parse ''bge'' = M_Bge"
  "mnemonic_parse ''blt'' = M_Blt" "mnemonic_parse ''bgt'' = M_Bgt" "mnemonic_parse ''ble'' = M_Ble"
  by (simp_all add: mnemonic_parse_def mnemonic_names_def)

lemma opcodes_for_branch_named:
  assumes "m \<in> set (map fst branch_rows)"
  shows "opcodes_for_mnemonic m = filter (\<lambda>row. mnemonic_id row = m) branch_named_table"
proof -
  have "filter (\<lambda>row. mnemonic_id row = m) (filter (\<lambda>row. branch_like (op_name row)) aarch64_opcode_table) =
      filter (\<lambda>row. mnemonic_id row = m) aarch64_opcode_table"
    unfolding filter_filter
    by (rule filter_cong) (use assms mnemonic_parse_branch_like in \<open>auto simp: mnemonic_id_def\<close>)
  then show ?thesis unfolding opcodes_for_mnemonic_filter filter_branch_named by simp
qed

lemma branch_named_by_mnemonic:
  "list_all (\<lambda>(m, row). filter (\<lambda>r. mnemonic_id r = m) branch_named_table = [row]) branch_rows"
  unfolding branch_named_table_def
  by (simp add: branch_rows_def branch_row_defs mnemonic_id_def mnemonic_parse_named)

lemma opcodes_for_branch:
  assumes "(m, row) \<in> set branch_rows"
  shows "opcodes_for_mnemonic m = [row]" "mnemonic_id row = m"
proof -
  have "m \<in> set (map fst branch_rows)" using assms by force
  then show r: "opcodes_for_mnemonic m = [row]"
    using opcodes_for_branch_named branch_named_by_mnemonic assms by (fastforce simp: list_all_iff)
  have "row \<in> set (opcodes_for_mnemonic m)" unfolding r by simp
  then show "mnemonic_id row = m" unfolding opcodes_for_mnemonic_filter by simp
qed

section \<open>Rows of a branch word\<close>

lemma row_compatible_mono:
  assumes "row_compatible known pattern row" "known AND k = k" "pattern AND k = p AND k"
  shows "row_compatible k p row"
proof -
  have r: "bit (op_opcode row) n \<longleftrightarrow> bit pattern n" if "bit (op_mask row) n" "bit known n" for n
    using assms(1) that unfolding row_compatible_def by (metis bit_and_iff)
  have q: "bit pattern n \<longleftrightarrow> bit p n" "bit known n" if "bit k n" for n
    using assms(2,3) that by (metis bit_and_iff)+
  show ?thesis
    unfolding row_compatible_def using r q by (intro bit_eqI) (metis bit_and_iff)
qed

lemma filter_compatible_mono:
  assumes "filter (row_compatible k p) rows = rows'" "known AND k = k" "pattern AND k = p AND k"
  shows "filter (row_compatible known pattern) rows = filter (row_compatible known pattern) rows'"
proof -
  have "filter (row_compatible known pattern) (filter (row_compatible k p) rows) =
      filter (row_compatible known pattern) rows"
    unfolding filter_filter by (intro filter_cong) (auto intro: row_compatible_mono [OF _ assms(2,3)])
  then show ?thesis unfolding assms(1) by (rule sym)
qed

lemmas compatible_branch_class = filter_compatible_mono [OF filter_branch_class]

definition row_b_c :: aarch64_opcode where
  "row_b_c = aarch64_opcode_new ''b.c'' 0x54000000 0xff000010 C_Condbranch (Op1 O_AddrPcrel19) F_COND"

definition cond_class_table :: "aarch64_opcode list" where
  "cond_class_table =
     row_b_c # map (\<lambda>(name, code). row_b_cond name code)
       [(''beq'', 0x54000000), (''bne'', 0x54000001), (''bcs'', 0x54000002), (''bhs'', 0x54000002), (''bcc'', 0x54000003), (''blo'', 0x54000003), (''bmi'', 0x54000004), (''bpl'', 0x54000005), (''bvs'', 0x54000006), (''bvc'', 0x54000007), (''bhi'', 0x54000008), (''bls'', 0x54000009), (''bge'', 0x5400000a), (''blt'', 0x5400000b), (''bgt'', 0x5400000c), (''ble'', 0x5400000d)]"

lemma compatible_cond_class:
  "filter (row_compatible 0xff000000 0x54000000) aarch64_opcode_table = cond_class_table"
proof -
  have "filter (row_compatible 0xff000000 0x54000000) branch_class_table = cond_class_table"
    unfolding branch_class_table_def cond_class_table_def
    by (simp add: row_b_cond_def row_b_c_def row_compatible_new)
  then show ?thesis by (simp add: compatible_branch_class)
qed

lemma compatible_direct_class:
  "filter (row_compatible 0xfc000000 0x14000000) aarch64_opcode_table = [row_b]"
  "filter (row_compatible 0xfc000000 0x94000000) aarch64_opcode_table = [row_bl]"
  "filter (row_compatible 0x7f000000 0x34000000) aarch64_opcode_table = [row_cb ''cbz'' 0x34000000]"
  "filter (row_compatible 0x7f000000 0x35000000) aarch64_opcode_table = [row_cb ''cbnz'' 0x35000000]"
  "filter (row_compatible 0x7f000000 0x36000000) aarch64_opcode_table = [row_tb ''tbz'' 0x36000000]"
  "filter (row_compatible 0x7f000000 0x37000000) aarch64_opcode_table = [row_tb ''tbnz'' 0x37000000]"
  by (simp_all add: compatible_branch_class)
    (simp_all add: branch_class_table_def row_b_def row_bl_def row_cb_def row_tb_def row_compatible_new)

text \<open>The search ends with the row of the branch, also where the generic \<open>b.c\<close> row and the
  second names of the carry conditions match.\<close>

lemma match_direct_branch:
  assumes "filter (row_compatible (op_mask row) (op_opcode row)) aarch64_opcode_table = [row]"
    and "op_name row \<in> {''b'', ''bl'', ''cbz'', ''cbnz'', ''tbz'', ''tbnz''}"
    and "w AND op_mask row = op_opcode row" "op_opcode row AND op_mask row = op_opcode row"
  shows "match_opcode w = Some row"
proof -
  have "match_opcode w = fold (match_step w) [row] None"
    by (rule match_opcode_compatible [of w "op_mask row" "op_opcode row", unfolded assms(1)])
      (simp only: assms(3,4))
  moreover have "alias_applies w row"
    using assms(2) by (elim insertE emptyE; simp add: alias_applies_def)
  moreover have "row_applies w row \<longleftrightarrow> alias_applies w row" by (simp only: row_applies_def assms(3,4) simp_thms)
  ultimately show ?thesis by (simp add: match_step_def)
qed

lemma match_cond_branch:
  assumes "(name, code) \<in> {(''beq'', 0x54000000), (''bne'', 0x54000001), (''bcs'', 0x54000002),
     (''bcc'', 0x54000003), (''bmi'', 0x54000004), (''bpl'', 0x54000005), (''bvs'', 0x54000006),
     (''bvc'', 0x54000007), (''bhi'', 0x54000008), (''bls'', 0x54000009), (''bge'', 0x5400000a),
     (''blt'', 0x5400000b), (''bgt'', 0x5400000c), (''ble'', 0x5400000d)}"
    and "w AND 0xff00001f = code"
  shows "match_opcode w = Some (row_b_cond name code)"
proof -
  have c: "code AND 0xff00001f = code" "code AND 0xff000000 = 0x54000000" using assms(1) by auto
  have "match_opcode w = fold (match_step w) (filter (row_compatible 0xff00001f code) cond_class_table) None"
    using match_opcode_compatible [of w "0xff00001f" code] assms(2) c
      filter_compatible_mono [OF compatible_cond_class, of "0xff00001f" code] by simp
  moreover have "w AND 0xff000010 = 0x54000000"
  proof -
    have "w AND 0xff000010 = (w AND 0xff00001f) AND 0xff000010" by (simp add: and.assoc)
    then show ?thesis using assms by auto
  qed
  ultimately show ?thesis using assms(1,2)
    by (elim insertE emptyE; simp add: cond_class_table_def row_b_c_def row_b_cond_def row_compatible_new
        match_step_def row_applies_def alias_applies_def should_replace_match_def count_ones_def upt_rec
        is_conversion_alias_def is_alias_def F_CONV_def F_ALIAS_def F_PSEUDO_def F_COND_def
        is_variable_shift_alias_def Let_def)
qed

lemma match_branch:
  assumes "(m, row) \<in> set branch_rows" "w AND op_mask row = op_opcode row"
  shows "match_opcode w = Some row"
  using assms match_direct_branch [of row w] match_cond_branch [of _ _ w] compatible_direct_class
  by (simp add: branch_rows_def) (elim disjE; simp add: row_b_def row_bl_def row_cb_def row_tb_def row_b_cond_def)

end
