(* ===== verification/A64_Branch.thy ===== *)
theory A64_Branch
  imports A64_Branch_Match
begin

text \<open>
  Branches end to end: a branch word decodes to the control flow the architecture gives it and
  encodes back; a branch template encodes exactly when its displacement is aligned and in reach,
  and decodes back to its target.
\<close>

section \<open>The architecture's branches\<close>

text \<open>The displacement in the \<open>n\<close>-bit field at \<open>pos\<close>, in bytes.\<close>

definition displacement :: "nat \<Rightarrow> nat \<Rightarrow> u32 \<Rightarrow> int" where
  "displacement n pos w = 4 * signed_take_bit (n - 1) (uint (take_bit n (drop_bit pos w)))"

text \<open>The words of \<open>b\<close>, \<open>bl\<close>, \<open>b.cond\<close>, \<open>cbz\<close>, \<open>cbnz\<close>, \<open>tbz\<close> and \<open>tbnz\<close>. Both conditions \<open>al\<close> and
  \<open>nv\<close> of \<open>b.cond\<close> always hold.\<close>

definition arch_branch :: "u64 \<Rightarrow> u32 \<Rightarrow> control_flow option" where
  "arch_branch a w =
     (let to = (\<lambda>n pos. a + word_of_int (displacement n pos w)) in
      if w AND 0xfc000000 = 0x14000000 then Some (CF_Jump (to 26 0))
      else if w AND 0xfc000000 = 0x94000000 then Some (CF_Call (to 26 0) (a + 4))
      else if w AND 0xff000010 = 0x54000000 then
        Some (if w AND 0xe = 0xe then CF_Jump (to 19 5) else CF_ConditionalJump (to 19 5) (a + 4))
      else if w AND 0x7e000000 = 0x34000000 then Some (CF_ConditionalJump (to 19 5) (a + 4))
      else if w AND 0x7e000000 = 0x36000000 then Some (CF_ConditionalJump (to 14 5) (a + 4))
      else None)"

lemma sign_extend_signed_take_bit:
  assumes "0 < n" "n \<le> 64"
  shows "sign_extend x n = word_of_int (signed_take_bit (n - 1) (uint (take_bit n x)))"
proof (rule bit_word_eqI)
  fix j assume "j < LENGTH(64)"
  moreover have "j = n - 1" if "n - 1 \<le> j" "\<not> n \<le> j" using that by simp
  ultimately show "bit (sign_extend x n) j = bit (word_of_int (signed_take_bit (n - 1) (uint (take_bit n x))) :: i64) j"
    using assms unfolding sign_extend_def
    by (cases "n \<le> j"; cases "n - 1 \<le> j") (auto simp: bit_simps min_def)
qed

lemma uint_ucast_u32_i64: "uint (ucast (y :: u32) :: i64) = uint y"
  by transfer (simp add: take_bit_take_bit)

lemma branch_field:
  assumes "0 < n" "n \<le> 32"
  shows "push_bit 2 (sign_extend (ucast (take_bit n (x :: u32))) n) =
    word_of_int (4 * signed_take_bit (n - 1) (uint (take_bit n x)))"
proof -
  have "take_bit n (ucast (take_bit n x) :: i64) = ucast (take_bit n x)"
    using assms by (intro bit_word_eqI) (auto simp: bit_simps)
  then have "sign_extend (ucast (take_bit n x)) n = word_of_int (signed_take_bit (n - 1) (uint (take_bit n x)))"
    using sign_extend_signed_take_bit [of n "ucast (take_bit n x)"] assms by (simp add: uint_ucast_u32_i64 del: take_bit_word_eq_self)
  then show ?thesis by (simp add: push_bit_eq_mult)
qed

lemma imm_displacement:
  "imm26 w = word_of_int (displacement 26 0 w)"
  "imm19 w = word_of_int (displacement 19 5 w)"
  "imm14 w = word_of_int (displacement 14 5 w)"
  unfolding imm26_def imm19_def imm14_def displacement_def and_mask_take_bit
  by (simp_all only: branch_field) simp_all

section \<open>Decoding a branch\<close>

definition branch_form :: "aarch64_mnemonic \<Rightarrow> nat \<times> nat" where
  "branch_form m = (if m \<in> {M_B, M_Bl} then (26, 0) else if m \<in> {M_Tbz, M_Tbnz} then (14, 5) else (19, 5))"

definition branch_disp :: "aarch64_mnemonic \<Rightarrow> u32 \<Rightarrow> int" where
  "branch_disp m w = (case branch_form m of (n, pos) \<Rightarrow> displacement n pos w)"

lemma branch_rows_shape:
  assumes "(m, row) \<in> set branch_rows"
  obtains
    (b) "opcode_operands row = [O_AddrPcrel26]" "m \<in> {M_B, M_Bl}"
  | (cond) "opcode_operands row = [O_AddrPcrel19]" "m \<notin> {M_B, M_Bl, M_Cbz, M_Cbnz, M_Tbz, M_Tbnz}"
  | (cb) "opcode_operands row = [O_Rt, O_AddrPcrel19]" "m \<in> {M_Cbz, M_Cbnz}"
      "op_iclass row = C_Compbranch" "op_mask row = 0x7f000000" "op_name row \<in> {''cbz'', ''cbnz''}"
      "op_opcode row \<in> {0x34000000, 0x35000000}"
  | (tb) "opcode_operands row = [O_Rt, O_BitNum, O_AddrPcrel14]" "m \<in> {M_Tbz, M_Tbnz}"
      "op_iclass row = C_Testbranch" "op_mask row = 0x7f000000" "op_name row \<in> {''tbz'', ''tbnz''}"
      "op_opcode row \<in> {0x36000000, 0x37000000}"
  using assms unfolding branch_rows_def
  by (simp only: list.set insert_iff empty_iff prod.inject)
    (elim disjE conjE FalseE; simp add: branch_row_defs opcode_operands_def)

lemma decode_branch:
  assumes "(m, row) \<in> set branch_rows" "w AND op_mask row = op_opcode row"
  shows "\<exists>d. decode_instruction a w = Ok d \<and> di_address d = a \<and> di_mnemonic d = m \<and>
           direct_branch_target (di_operands d) = Some (a + word_of_int (branch_disp m w))"
proof -
  have m: "mnemonic_parse (op_name row) = m"
    using opcodes_for_branch(2) [OF assms(1)] by (simp add: mnemonic_id_def)
  show ?thesis
    using assms(1) match_branch [OF assms]
    by (cases rule: branch_rows_shape)
      (auto simp: decode_instruction_def m decode_operand_def imm_displacement branch_target_def
        branch_disp_def branch_form_def)
qed

lemma branch_rows_closed:
  "list_all (\<lambda>(m, row). row_closed row \<and> alias_fixup m = None \<and> op_name row \<notin> {''ldr'', ''str'', ''ldur'', ''stur''})
     branch_rows"
  by (simp add: branch_rows_def branch_row_defs row_closed_def opcode_operands_def codec_field_def
      alias_fixup_def mnemonic_as_str_def)

lemma reencode_branch:
  assumes "(m, row) \<in> set branch_rows" "w AND op_mask row = op_opcode row"
    and "0 \<le> uint a + sint (word_of_int (branch_disp m w) :: i64)"
      "uint a + sint (word_of_int (branch_disp m w) :: i64) < 2 ^ 64"
    and "decode_instruction a w = Ok d"
  shows "encode_instruction (template_of d) = Ok w"
proof -
  have rows: "opcodes_for_mnemonic m = [row]" "mnemonic_id row = m" using opcodes_for_branch [OF assms(1)] by auto
  have closed: "row_closed row" "alias_fixup (mnemonic_id row) = None" "op_name row \<notin> {''ldr'', ''str'', ''ldur'', ''stur''}"
    using branch_rows_closed assms(1) rows(2) by (auto simp: list_all_iff)
  have "row_sides (opcode_operands row) w (op_opcode row) a row"
    using assms(1,3,4) closed(1,3)
    by (cases rule: branch_rows_shape)
      (auto simp: row_closed_def codec_side_def imm_displacement branch_disp_def branch_form_def
        split: option.splits)
  from match_row_roundtrip [OF match_branch [OF assms(1,2)] closed(1) this closed(2)] rows assms(5)
  have "\<forall>xs ys. [row] = xs @ row # ys \<longrightarrow> list_all (\<lambda>x. row_verdict (template_of d) x = Pass_Over) xs \<longrightarrow>
      encode_instruction (template_of d) = Ok w" by auto
  from this [rule_format, of "[]" "[]"] show ?thesis by simp
qed

section \<open>Properties of decoding\<close>

lemma branch_word_row:
  "w AND 0xfc000000 = 0x14000000 \<Longrightarrow> (M_B, row_b) \<in> set branch_rows \<and> w AND op_mask row_b = op_opcode row_b"
  "w AND 0xfc000000 = 0x94000000 \<Longrightarrow> (M_Bl, row_bl) \<in> set branch_rows \<and> w AND op_mask row_bl = op_opcode row_bl"
  by (simp_all add: branch_rows_def) (simp_all add: branch_row_defs)

lemma branch_word_cond:
  assumes "w AND 0xff000010 = (0x54000000 :: u32)" "w AND 0xe \<noteq> 0xe"
  shows "\<exists>m row. (m, row) \<in> set branch_rows \<and> m \<in> conditional_mnemonics \<and> w AND op_mask row = op_opcode row \<and>
    branch_form m = (19, 5)"
proof -
  have "w AND 0xff00001f = (w AND 0xff000010) OR (w AND 0xf)"
    by (simp add: bit.conj_disj_distrib [symmetric])
  then have e: "w AND 0xff00001f = 0x54000000 OR take_bit 4 w" by (simp add: assms(1) and_mask_take_bit)
  have "w AND 0xe = take_bit 4 w AND 0xe" by (simp add: bits_simps)
  then have n: "take_bit 4 w AND 0xe \<noteq> 0xe" using assms(2) by simp
  have "take_bit 4 w AND 0xe \<noteq> 0xe \<longrightarrow> list_ex (\<lambda>(m, row). m \<in> conditional_mnemonics \<and>
      op_mask row = 0xff00001f \<and> op_opcode row = 0x54000000 OR take_bit 4 w \<and> branch_form m = (19, 5)) branch_rows"
    by (rule field4_cases) (simp_all add: branch_rows_def branch_row_defs conditional_mnemonics_def branch_form_def)
  with n obtain m row where "(m, row) \<in> set branch_rows" "m \<in> conditional_mnemonics" "branch_form m = (19, 5)"
    "op_mask row = 0xff00001f" "op_opcode row = 0x54000000 OR take_bit 4 w"
    by (auto simp: list_ex_iff)
  then show ?thesis using e by (intro exI [of _ m] exI [of _ row]) simp
qed

lemma decode_branch_flow:
  assumes "(m, row) \<in> set branch_rows" "w AND op_mask row = op_opcode row"
  shows "\<exists>d. decode_instruction a w = Ok d \<and>
           control_flow_of d =
             (let t = a + word_of_int (branch_disp m w) in
              if m = M_B then CF_Jump t else if m = M_Bl then CF_Call t (a + 4) else CF_ConditionalJump t (a + 4)) \<and>
           (0 \<le> uint a + sint (word_of_int (branch_disp m w) :: i64) \<and>
            uint a + sint (word_of_int (branch_disp m w) :: i64) < 2 ^ 64 \<longrightarrow>
              encode_instruction (template_of d) = Ok w)"
proof -
  obtain d where d: "decode_instruction a w = Ok d" "di_address d = a" "di_mnemonic d = m"
    "direct_branch_target (di_operands d) = Some (a + word_of_int (branch_disp m w))"
    using decode_branch [OF assms] by blast
  have "m \<in> insert M_B (insert M_Bl conditional_mnemonics)"
    using assms(1) by (auto simp: branch_rows_def conditional_mnemonics_def)
  then have "control_flow_of d =
             (let t = a + word_of_int (branch_disp m w) in
              if m = M_B then CF_Jump t else if m = M_Bl then CF_Call t (a + 4) else CF_ConditionalJump t (a + 4))"
    using d by (auto simp: control_flow_of_def Let_def)
  then show ?thesis using d(1) reencode_branch [OF assms _ _ d(1)] by blast
qed

lemma sint_displacement:
  assumes "0 < n" "n \<le> 32"
  shows "sint (word_of_int (displacement n pos w) :: i64) = displacement n pos w"
    "- (2 ^ (n + 1)) \<le> displacement n pos w" "displacement n pos w < 2 ^ (n + 1)" "displacement n pos w mod 4 = 0"
proof -
  let ?s = "signed_take_bit (n - 1) (uint (take_bit n (drop_bit pos w)))"
  have s: "- (2 ^ (n - 1)) \<le> ?s" "?s < 2 ^ (n - 1)"
    using signed_take_bit_int_greater_eq_minus_exp [of "n - 1"] signed_take_bit_int_less_exp [of "n - 1"] by auto
  have p: "4 * (2 :: int) ^ (n - 1) = 2 ^ (n + 1)"
    using assms by (cases n) simp_all
  show b: "- (2 ^ (n + 1)) \<le> displacement n pos w" "displacement n pos w < 2 ^ (n + 1)"
    using s p unfolding displacement_def by linarith+
  have "(2 :: int) ^ (n + 1) \<le> 2 ^ 33" using assms by (intro power_increasing) simp_all
  then show "sint (word_of_int (displacement n pos w) :: i64) = displacement n pos w"
    using b by (intro sint_word_of_int_i64) simp_all
  show "displacement n pos w mod 4 = 0" by (simp add: displacement_def)
qed

lemma branch_word_cb_tb:
  assumes "w AND 0x7e000000 = 0x34000000 \<and> form = (19, 5) \<or> w AND 0x7e000000 = (0x36000000 :: u32) \<and> form = (14, 5)"
  shows "\<exists>m row. (m, row) \<in> set branch_rows \<and> m \<in> conditional_mnemonics \<and> w AND op_mask row = op_opcode row \<and>
    branch_form m = form"
proof -
  let ?row = "if form = (19, 5) then if bit w 24 then row_cb ''cbnz'' 0x35000000 else row_cb ''cbz'' 0x34000000
    else if bit w 24 then row_tb ''tbnz'' 0x37000000 else row_tb ''tbz'' 0x36000000"
  let ?m = "if form = (19, 5) then if bit w 24 then M_Cbnz else M_Cbz else if bit w 24 then M_Tbnz else M_Tbz"
  have s: "w AND 0x7f000000 = (w AND 0x7e000000) OR (w AND 0x01000000)"
    by (simp add: bit.conj_disj_distrib [symmetric])
  have b: "w AND 0x01000000 = (if bit w 24 then 0x01000000 else 0)" by (simp add: bits_simps)
  have "w AND op_mask ?row = op_opcode ?row"
    using assms s b by (auto simp: row_cb_def row_tb_def)
  moreover have "(?m, ?row) \<in> set branch_rows" "?m \<in> conditional_mnemonics" "branch_form ?m = form"
    using assms by (auto simp: branch_rows_def conditional_mnemonics_def branch_form_def)
  ultimately show ?thesis by blast
qed

lemma always_condition: "w AND 0xff000010 = 0x54000000 \<and> w AND 0xe = 0xe \<longleftrightarrow> w AND 0xff00001e = (0x5400000e :: u32)"
  by (simp add: bits_simps) blast

lemma arch_branch_row:
  assumes "arch_branch a w = Some cf" "w AND 0xff00001e \<noteq> 0x5400000e"
  shows "\<exists>m row. (m, row) \<in> set branch_rows \<and> w AND op_mask row = op_opcode row \<and>
    cf = (let t = a + word_of_int (branch_disp m w) in
      if m = M_B then CF_Jump t else if m = M_Bl then CF_Call t (a + 4) else CF_ConditionalJump t (a + 4))"
proof -
  have cond: ?thesis
    if "(m, row) \<in> set branch_rows" "m \<in> conditional_mnemonics" "w AND op_mask row = op_opcode row"
      "branch_form m = (n, pos)" "cf = CF_ConditionalJump (a + word_of_int (displacement n pos w)) (a + 4)" for m row n pos
  proof -
    have "m \<noteq> M_B" "m \<noteq> M_Bl" using that(2) by (auto simp: conditional_mnemonics_def)
    then show ?thesis using that by (intro exI [of _ m] exI [of _ row]) (simp add: branch_disp_def)
  qed
  consider (b) "w AND 0xfc000000 = 0x14000000" "cf = CF_Jump (a + word_of_int (displacement 26 0 w))"
    | (bl) "w AND 0xfc000000 = 0x94000000" "cf = CF_Call (a + word_of_int (displacement 26 0 w)) (a + 4)"
    | (cond) "w AND 0xff000010 = 0x54000000" "w AND 0xe \<noteq> 0xe"
        "cf = CF_ConditionalJump (a + word_of_int (displacement 19 5 w)) (a + 4)"
    | (cb) "w AND 0x7e000000 = 0x34000000" "cf = CF_ConditionalJump (a + word_of_int (displacement 19 5 w)) (a + 4)"
    | (tb) "w AND 0x7e000000 = 0x36000000" "cf = CF_ConditionalJump (a + word_of_int (displacement 14 5 w)) (a + 4)"
    using assms always_condition [of w] unfolding arch_branch_def Let_def by (simp only: split: if_splits) auto
  then show ?thesis
  proof cases
    case b
    then show ?thesis using branch_word_row(1)
      by (intro exI [of _ M_B] exI [of _ row_b]) (simp add: branch_disp_def branch_form_def)
  next
    case bl
    then show ?thesis using branch_word_row(2)
      by (intro exI [of _ M_Bl] exI [of _ row_bl]) (simp add: branch_disp_def branch_form_def)
  next
    case c: cond
    show ?thesis using branch_word_cond [OF c(1,2)] cond [OF _ _ _ _ c(3)] by blast
  next
    case cb
    then show ?thesis using branch_word_cb_tb [of w "(19, 5)"] cond by blast
  next
    case tb
    then show ?thesis using branch_word_cb_tb [of w "(14, 5)"] cond by blast
  qed
qed

lemma near_no_wrap:
  assumes "\<bar>d\<bar> \<le> 2 ^ 27" "\<bar>uint (a + word_of_int d :: u64) - uint a\<bar> \<le> 2 ^ 27"
  shows "0 \<le> uint a + d \<and> uint a + d < 2 ^ 64"
proof -
  have "a + word_of_int d = word_of_int (uint a + d)" by simp
  then have "uint (a + word_of_int d) = (uint a + d) mod 2 ^ 64"
    by (simp only: uint_word_of_int) simp
  then have e: "uint a + d = uint (a + word_of_int d) + 2 ^ 64 * ((uint a + d) div 2 ^ 64)"
    using mult_div_mod_eq [of "2 ^ 64" "uint a + d"] by linarith
  have "uint (a + word_of_int d) < 2 ^ 64" "0 \<le> uint (a + word_of_int d)"
    using uint_lt2p [of "a + word_of_int d"] by simp_all
  moreover have "(uint a + d) div 2 ^ 64 = 0"
    using e assms by simp
  ultimately show ?thesis using e by simp
qed

section \<open>Encoding a branch\<close>

lemma encode_pcrel_exact:
  assumes "0 < n"
  shows "encode_pcrel k (D_BranchTarget t) a n pos =
    (if (uint t - uint a) mod 4 = 0 \<and> - (2 ^ (n + 1)) \<le> uint t - uint a \<and> uint t - uint a < 2 ^ (n + 1)
     then Ok (push_bit pos (take_bit n (word_of_int ((uint t - uint a) div 4)))) else invalid k)"
proof (cases "(uint t - uint a) mod 4 = 0")
  case False
  then show ?thesis by (simp add: smod_0_iff dvd_eq_mod_eq_0 Let_def)
next
  case True
  then obtain q where q: "uint t - uint a = 4 * q" by (metis dvd_eq_mod_eq_0 dvdE)
  have p: "(2 :: int) ^ (n + 1) = 4 * 2 ^ (n - 1)" using assms by (cases n) simp_all
  have m: "push_bit n 1 - 1 = (Bit_Operations.mask n :: u32)"
    by (simp add: mask_eq_exp_minus_1 push_bit_eq_mult)
  have r: "- (2 ^ (n + 1)) \<le> 4 * q \<longleftrightarrow> - (2 ^ (n - 1)) \<le> q" "4 * q < 2 ^ (n + 1) \<longleftrightarrow> q < 2 ^ (n - 1)"
    using p by linarith+
  have e: "word_of_int q AND Bit_Operations.mask n = (take_bit n (word_of_int q) :: u32)"
    by (simp only: take_bit_eq_mask)
  show ?thesis
    unfolding encode_pcrel.simps Let_def q m e r by (auto simp: smod_0_iff sdiv_dvd e)
qed

definition branch_field_mask :: "aarch64_mnemonic \<Rightarrow> u32" where
  "branch_field_mask m = (case branch_form m of (n, pos) \<Rightarrow> push_bit pos (Bit_Operations.mask n))"

lemma branch_rows_fields:
  "list_all (\<lambda>(m, row). op_mask row AND branch_field_mask m = 0 \<and> op_opcode row AND branch_field_mask m = 0 \<and>
     op_opcode row AND op_mask row = op_opcode row) branch_rows"
  by (simp add: branch_rows_def branch_row_defs branch_field_mask_def branch_form_def mask_eq_exp_minus_1)

lemma branch_encoded_word:
  assumes r: "(m, row) \<in> set branch_rows" and f: "branch_form m = (n, pos)"
    and x: "x AND op_mask row = 0" "x AND branch_field_mask m = 0"
    and q: "- (2 ^ (n - 1)) \<le> q" "q < 2 ^ (n - 1)"
  defines "w \<equiv> (op_opcode row OR x) OR push_bit pos (take_bit n (word_of_int q))"
  shows "w AND op_mask row = op_opcode row" "branch_disp m w = 4 * q"
proof -
  have np: "0 < n" "pos + n \<le> 32" using f by (auto simp: branch_form_def split: if_splits)
  have row: "op_mask row AND branch_field_mask m = 0" "op_opcode row AND branch_field_mask m = 0"
    "op_opcode row AND op_mask row = op_opcode row"
    using branch_rows_fields r by (auto simp: list_all_iff)
  have fm: "bit (branch_field_mask m) j \<longleftrightarrow> pos \<le> j \<and> j < pos + n" for j
    using np by (auto simp: branch_field_mask_def f bit_simps)
  have off: "\<not> bit (op_mask row) j" "\<not> bit (op_opcode row) j" "\<not> bit x j" if "pos \<le> j" "j < pos + n" for j
    using row(1,2) x(2) fm that by (metis bit_and_iff bit_0_eq bot_apply bot_bool_def)+
  have xm: "\<not> (bit x j \<and> bit (op_mask row) j)" for j using x(1) by (metis bit_and_iff bit_0_eq bot_apply bot_bool_def)
  have om: "bit (op_mask row) j" if "bit (op_opcode row) j" for j using row(3) that by (metis bit_and_iff)
  show "w AND op_mask row = op_opcode row"
  proof (rule bit_word_eqI)
    fix j show "bit (w AND op_mask row) j = bit (op_opcode row) j"
      using off [of j] xm [of j] om [of j] np unfolding w_def by (auto simp: bit_simps less_diff_conv2)
  qed
  have "take_bit n (drop_bit pos w) = take_bit n (word_of_int q)"
  proof (rule bit_word_eqI)
    fix j assume "j < LENGTH(32)"
    then show "bit (take_bit n (drop_bit pos w)) j = bit (take_bit n (word_of_int q) :: u32) j"
      using off [of "pos + j"] np unfolding w_def by (auto simp: bit_simps ac_simps)
  qed
  moreover have "uint (take_bit n (word_of_int q :: u32)) = take_bit n q"
    using np by (simp add: unsigned_take_bit_eq unsigned_of_int take_bit_take_bit)
  moreover have "signed_take_bit (n - 1) (take_bit n q) = q"
  proof -
    have "\<not> n \<le> n - 1" using np by simp
    then show ?thesis using q by (simp add: signed_take_bit_take_bit signed_take_bit_int_eq_self)
  qed
  ultimately show "branch_disp m w = 4 * q"
    by (simp add: branch_disp_def f displacement_def)
qed

text \<open>The operands a branch mnemonic is written with, the target last.\<close>

definition gp_operand :: "decoded_operand \<Rightarrow> bool" where
  "gp_operand x = (case x of D_Register r \<Rightarrow> reg_class r \<in> {RC_W, RC_X} \<and> \<not> reg_index r > 31 | _ \<Rightarrow> False)"

definition bit_operand :: "decoded_operand \<Rightarrow> bool" where
  "bit_operand x = (case x of D_Immediate n \<Rightarrow> 0 \<le> sint n \<and> sint n \<le> 63 | _ \<Rightarrow> False)"

definition branch_operands :: "aarch64_mnemonic \<Rightarrow> decoded_operand list \<Rightarrow> u64 \<Rightarrow> bool" where
  "branch_operands m ops t =
     (if m \<in> {M_Cbz, M_Cbnz} then length ops = 2 \<and> gp_operand (ops ! 0) \<and> ops ! 1 = D_BranchTarget t
      else if m \<in> {M_Tbz, M_Tbnz} then
        length ops = 3 \<and> gp_operand (ops ! 0) \<and> bit_operand (ops ! 1) \<and> ops ! 2 = D_BranchTarget t
      else m \<in> insert M_B (insert M_Bl conditional_mnemonics) \<and> ops = [D_BranchTarget t])"

definition in_reach :: "u64 \<Rightarrow> u64 \<Rightarrow> int \<Rightarrow> bool" where
  "in_reach a t r \<longleftrightarrow> (uint t - uint a) mod 4 = 0 \<and> - r \<le> uint t - uint a \<and> uint t - uint a < r"

text \<open>What the operands before the target put into the word, and how they are read back: a test branch
  always names the 64-bit register.\<close>

definition reg_bits :: "decoded_operand \<Rightarrow> u32" where
  "reg_bits x = (case x of D_Register r \<Rightarrow> word_of_u8 (reg_index r) | _ \<Rightarrow> 0)"

definition size_bit :: "decoded_operand \<Rightarrow> u32" where
  "size_bit x = (case x of D_Register r \<Rightarrow> if reg_class r = RC_X then 0x80000000 else 0 | _ \<Rightarrow> 0)"

definition bit_bits :: "decoded_operand \<Rightarrow> u32" where
  "bit_bits x = (case x of D_Immediate n \<Rightarrow> push_bit 26 (ucast n AND 0x20) OR push_bit 19 (ucast n AND 0x1f) | _ \<Rightarrow> 0)"

definition test_bits :: "aarch64_mnemonic \<Rightarrow> decoded_operand list \<Rightarrow> u32" where
  "test_bits m ops =
     (if m \<in> {M_Cbz, M_Cbnz} then size_bit (ops ! 0) OR reg_bits (ops ! 0)
      else if m \<in> {M_Tbz, M_Tbnz} then reg_bits (ops ! 0) OR bit_bits (ops ! 1)
      else 0)"

definition canonical_operands :: "aarch64_mnemonic \<Rightarrow> decoded_operand list \<Rightarrow> decoded_operand list" where
  "canonical_operands m ops =
     (if m \<in> {M_Tbz, M_Tbnz}
      then ops[0 := (case ops ! 0 of D_Register r \<Rightarrow> D_Register (r\<lparr>reg_class := RC_X\<rparr>) | x \<Rightarrow> x)] else ops)"

lemma mask_out:
  assumes "A AND M = (0 :: 'a :: len word)" "B AND NOT M = 0"
  shows "(A OR B) AND NOT M = A"
proof (rule bit_word_eqI)
  fix j assume j: "j < LENGTH('a)"
  have "bit (A AND M) j = False" "bit (B AND NOT M) j = False" using assms by simp_all
  then show "bit ((A OR B) AND NOT M) j = bit A j" using j by (auto simp: bit_simps)
qed

lemma encode_branch_via:
  assumes r: "(m, row) \<in> set branch_rows" and f: "branch_form m = (n, pos)"
    and len: "length (opcode_operands row) = length ops"
    and enc: "encode_row_operands (opcode_operands row) ops (op_opcode row) a row =
      (case encode_pcrel k (D_BranchTarget t) a n pos of
         Ok v \<Rightarrow> Row_Matched ((op_opcode row OR x) OR v) | Err e \<Rightarrow> Row_Unmatched e)"
    and x: "x AND op_mask row = 0" "x AND branch_field_mask m = 0"
  shows "case encode_instruction \<lparr>it_address = a, it_mnemonic = m, it_operands = ops\<rparr> of
      Err e \<Rightarrow> \<not> in_reach a t (2 ^ (n + 1))
    | Ok w \<Rightarrow> in_reach a t (2 ^ (n + 1)) \<and> w AND op_mask row = op_opcode row \<and>
        w AND NOT (branch_field_mask m) = op_opcode row OR x \<and> t = a + word_of_int (branch_disp m w)"
proof (cases "in_reach a t (2 ^ (n + 1))")
  case False
  have n: "0 < n" using f by (auto simp: branch_form_def split: if_splits)
  have "encode_pcrel k (D_BranchTarget t) a n pos = invalid k"
    using False unfolding encode_pcrel_exact [OF n] in_reach_def by auto
  then have "encode_row_operands (opcode_operands row) ops (op_opcode row) a row = Row_Unmatched (EE_InvalidOperand (opnd_name k))"
    using enc by (simp add: invalid_def)
  then show ?thesis using False len opcodes_for_branch(1) [OF r]
    by (simp add: encode_instruction_def)
next
  case True
  have n: "0 < n" using f by (auto simp: branch_form_def split: if_splits)
  let ?q = "(uint t - uint a) div 4"
  let ?w = "(op_opcode row OR x) OR push_bit pos (take_bit n (word_of_int ?q))"
  have four: "uint t - uint a = 4 * ?q" using True by (auto simp: in_reach_def)
  have "(2 :: int) ^ (n + 1) = 4 * 2 ^ (n - 1)" using n by (cases n) simp_all
  then have q: "- (2 ^ (n - 1)) \<le> ?q" "?q < 2 ^ (n - 1)"
    using True four unfolding in_reach_def by linarith+
  note w = branch_encoded_word [OF r f x q]
  have "encode_row_operands (opcode_operands row) ops (op_opcode row) a row = Row_Matched ?w"
    using True unfolding enc encode_pcrel_exact [OF n] in_reach_def by simp
  moreover have "alias_fixup m = None" using branch_rows_closed r by (auto simp: list_all_iff)
  moreover have "op_opcode row AND op_mask row = op_opcode row"
    using branch_rows_fields r by (auto simp: list_all_iff)
  ultimately have e: "encode_instruction \<lparr>it_address = a, it_mnemonic = m, it_operands = ops\<rparr> = Ok ?w"
    using len opcodes_for_branch(1) [OF r] w(1)
    by (simp add: encode_instruction_def alias_implicit_bits_def)
  have "a + word_of_int (branch_disp m ?w) = t"
    unfolding w(2) four [symmetric] by simp
  moreover have "?w AND NOT (branch_field_mask m) = op_opcode row OR x"
  proof -
    have "op_opcode row AND branch_field_mask m = 0" using branch_rows_fields r by (auto simp: list_all_iff)
    then have "(op_opcode row OR x) AND branch_field_mask m = 0" using x(2) by (simp add: bit.conj_disj_distrib2)
    moreover have "push_bit pos (take_bit n (word_of_int ?q)) AND NOT (branch_field_mask m) = 0"
      unfolding branch_field_mask_def f by (rule bit_word_eqI) (auto simp: bit_simps)
    ultimately show ?thesis by (rule mask_out)
  qed
  ultimately show ?thesis using True e w(1) by auto
qed

lemma u8_le_31_bits: "\<not> (i :: u8) > 31 \<longleftrightarrow> \<not> bit i 5 \<and> \<not> bit i 6 \<and> \<not> bit i 7"
proof -
  have "unat i \<le> 31 \<longleftrightarrow> unat i < 32" by auto
  then show ?thesis using u8_less_32_bits [of i] by (simp add: word_less_nat_alt word_le_nat_alt not_less)
qed

lemma gp_operandD:
  assumes "gp_operand x"
  obtains r where "x = D_Register r" "reg_class r \<in> {RC_W, RC_X}" "\<not> reg_index r > 31"
    "\<And>j. bit (reg_index r) j \<Longrightarrow> j < 5"
proof -
  obtain r where r: "x = D_Register r" "reg_class r \<in> {RC_W, RC_X}" "\<not> reg_index r > 31"
    using assms by (auto simp: gp_operand_def split: decoded_operand.splits)
  moreover have "j < 5" if b: "bit (reg_index r) j" for j
  proof (rule ccontr)
    assume "\<not> j < 5"
    moreover have "j < 8" using bit_imp_le_length [OF b] by simp
    ultimately have "j = 5 \<or> j = 6 \<or> j = 7" by auto
    then show False using b r(3) unfolding u8_le_31_bits by auto
  qed
  ultimately show ?thesis by (rule that)
qed

lemma branch_register_bits:
  assumes "gp_operand x" "op_iclass row = C_Compbranch \<and> b = size_bit x OR reg_bits x \<or> op_iclass row = C_Testbranch \<and> b = reg_bits x"
  shows "encode_word O_Rt x w a row = Ok b \<and> b AND 0x7f000000 = 0 \<and> b AND 0xffffe0 = 0"
proof -
  obtain r where r: "x = D_Register r" "reg_class r \<in> {RC_W, RC_X}" "\<not> reg_index r > 31"
    and small: "\<And>j. bit (reg_index r) j \<Longrightarrow> j < 5"
    using gp_operandD [OF assms(1)] by metis
  have "5 \<le> j \<Longrightarrow> bit (reg_index r) j \<longleftrightarrow> False" for j using small [of j] by auto
  then have z: "word_of_u8 (reg_index r) AND 0x7f000000 = 0" "word_of_u8 (reg_index r) AND 0xffffe0 = 0"
    by (simp_all add: bits_simps)
  have "rt_size_bits row (reg_class r) = Some (if op_iclass row = C_Compbranch then size_bit x else 0)"
    using assms(2) r(1,2) by (auto simp: rt_size_bits_def ldst_single_class_def size_bit_def)
  then show ?thesis using assms(2) r z
    by (auto simp: reg_bits_def size_bit_def bit.conj_disj_distrib2)
qed

lemma branch_bit_bits:
  assumes "bit_operand x"
  shows "encode_word O_BitNum x w a row = Ok (bit_bits x) \<and> bit_bits x AND 0x7f000000 = 0 \<and> bit_bits x AND 0x7ffff = 0"
proof -
  obtain n where n: "x = D_Immediate n" "0 \<le> sint n" "sint n \<le> 63"
    using assms by (auto simp: bit_operand_def split: decoded_operand.splits)
  have "(push_bit 26 ((ucast n :: u32) AND 0x20) OR push_bit 19 (ucast n AND 0x1f)) AND 0x7f000000 = 0"
    "(push_bit 26 ((ucast n :: u32) AND 0x20) OR push_bit 19 (ucast n AND 0x1f)) AND 0x7ffff = 0"
    by (simp_all add: bits_simps)
  then show ?thesis using n by (simp add: Let_def bit_bits_def)
qed

lemma branch_operands_enc:
  assumes r: "(m, row) \<in> set branch_rows" and ops: "branch_operands m ops t" and f: "branch_form m = (n, pos)"
  shows "length (opcode_operands row) = length ops \<and>
    (\<exists>k. encode_row_operands (opcode_operands row) ops (op_opcode row) a row =
       (case encode_pcrel k (D_BranchTarget t) a n pos of
          Ok v \<Rightarrow> Row_Matched ((op_opcode row OR test_bits m ops) OR v) | Err e \<Rightarrow> Row_Unmatched e) \<and>
       test_bits m ops AND op_mask row = 0 \<and> test_bits m ops AND branch_field_mask m = 0)"
  using r
proof (cases rule: branch_rows_shape)
  case b
  then have "ops = [D_BranchTarget t]" "n = 26" "pos = 0" using ops f by (auto simp: branch_operands_def branch_form_def)
  then show ?thesis using b
    by (intro conjI exI [of _ O_AddrPcrel26])
      (auto simp: encode_operand_def encode_pcrel_exact invalid_def test_bits_def simp del: encode_pcrel.simps)
next
  case cond
  then have "ops = [D_BranchTarget t]" "n = 19" "pos = 5" using ops f by (auto simp: branch_operands_def branch_form_def)
  then show ?thesis using cond
    by (intro conjI exI [of _ O_AddrPcrel19])
      (auto simp: encode_operand_def encode_pcrel_exact invalid_def test_bits_def simp del: encode_pcrel.simps)
next
  case cb
  then have "length ops = 2" "gp_operand (ops ! 0)" "ops ! 1 = D_BranchTarget t" and np: "n = 19" "pos = 5"
    using ops f by (auto simp: branch_operands_def branch_form_def)
  then obtain g where g: "ops = [g, D_BranchTarget t]" "gp_operand g"
    by (auto simp: numeral_2_eq_2 length_Suc_conv)
  have bits: "encode_word O_Rt g (op_opcode row) a row = Ok (test_bits m ops) \<and>
      test_bits m ops AND 0x7f000000 = 0 \<and> test_bits m ops AND 0xffffe0 = 0"
    by (rule branch_register_bits [OF g(2)]) (use cb g(1) in \<open>auto simp: test_bits_def\<close>)
  have "branch_field_mask m = 0xffffe0" using cb by (auto simp: branch_field_mask_def branch_form_def mask_eq_exp_minus_1)
  then show ?thesis using cb g np bits
    by (intro conjI exI [of _ O_AddrPcrel19])
      (auto simp: encode_operand_def encode_pcrel_exact invalid_def simp del: encode_pcrel.simps)
next
  case tb
  then have "length ops = 3" "gp_operand (ops ! 0)" "bit_operand (ops ! 1)" "ops ! 2 = D_BranchTarget t"
    and np: "n = 14" "pos = 5"
    using ops f by (auto simp: branch_operands_def branch_form_def)
  then obtain g h where g: "ops = [g, h, D_BranchTarget t]" "gp_operand g" "bit_operand h"
    by (auto simp: numeral_3_eq_3 numeral_2_eq_2 length_Suc_conv)
  have bits: "encode_word O_Rt g (op_opcode row) a row = Ok (reg_bits g) \<and>
      reg_bits g AND 0x7f000000 = 0 \<and> reg_bits g AND 0xffffe0 = 0"
    by (rule branch_register_bits [OF g(2)]) (use tb in simp)
  have bits': "encode_word O_BitNum h (op_opcode row OR reg_bits g) a row = Ok (bit_bits h) \<and>
      bit_bits h AND 0x7f000000 = 0 \<and> bit_bits h AND 0x7ffff = 0"
    by (rule branch_bit_bits [OF g(3)])
  have t: "test_bits m ops = reg_bits g OR bit_bits h" using tb g(1) by (auto simp: test_bits_def)
  have m: "branch_field_mask m = 0x7ffe0" using tb by (auto simp: branch_field_mask_def branch_form_def mask_eq_exp_minus_1)
  have "reg_bits g AND 0x7ffe0 = (reg_bits g AND 0xffffe0) AND 0x7ffe0" "bit_bits h AND 0x7ffe0 = (bit_bits h AND 0x7ffff) AND 0x7ffe0"
    by (simp_all add: and.assoc)
  then have "test_bits m ops AND 0x7f000000 = 0" "test_bits m ops AND 0x7ffe0 = 0"
    using bits bits' by (simp_all add: bit.conj_disj_distrib2 t)
  then show ?thesis using tb(1,4) g np bits bits' unfolding m t
    by (intro conjI exI [of _ O_AddrPcrel14])
      (auto simp: encode_operand_def encode_pcrel_exact invalid_def or.assoc simp del: encode_pcrel.simps)
qed

lemma rt_field_of_word:
  assumes "w AND NOT M = (c OR b :: u32)" "M AND 0x1f = 0" "c AND 0x1f = 0" "b AND 0x1f = ucast (i :: u8)"
  shows "rt_field w = i"
proof -
  have "w AND 0x1f = (w AND NOT M) AND 0x1f"
  proof (rule bit_word_eqI)
    fix j assume "j < LENGTH(32)"
    moreover have "bit (M AND 0x1f) j = False" using assms(2) by simp
    ultimately show "bit (w AND 0x1f) j = bit ((w AND NOT M) AND 0x1f) j" by (auto simp: bit_simps)
  qed
  also have "\<dots> = ucast i" using assms by (simp add: bit.conj_disj_distrib2)
  finally have "rt_field w = ucast (ucast i :: u32)" by (simp add: rt_field_def rd_field_def)
  also have "\<dots> = i" by (rule bit_word_eqI) (auto simp: bit_simps)
  finally show ?thesis .
qed

lemma small_bits:
  assumes "0 \<le> sint n" "sint (n :: i64) \<le> 63" "bit n j"
  shows "j < 6"
proof -
  have "take_bit 6 (sint n) = sint n" using assms(1,2) by (simp add: take_bit_int_eq_self)
  moreover have "bit (sint n) j" using assms(3) bit_imp_le_length [OF assms(3)] by (simp add: bit_sint_iff)
  ultimately show ?thesis by (metis bit_take_bit_iff)
qed

lemma and_1f: "(x :: u32) AND 0x1f = take_bit 5 x"
  by (simp add: take_bit_eq_mask mask_eq_exp_minus_1)

lemma bit_bit_num: "bit (bit_num w) j \<longleftrightarrow> j = 5 \<and> bit w 31 \<or> j < 5 \<and> bit w (19 + j)"
proof -
  have "j < 64 \<and> (j < 32 \<and> 5 \<le> j \<and> bit w (31 + (j - 5)) \<and> j - 5 = 0 \<or> j < 5 \<and> bit w (19 + j)) \<longleftrightarrow>
      j = 5 \<and> bit w 31 \<or> j < 5 \<and> bit w (19 + j)"
    by (cases "j = 5") auto
  then show ?thesis
    unfolding bit_num_def and_1f
    by (simp only: bit_unsigned_iff bit_or_iff bit_push_bit_iff bit_and_iff bit_1_iff bit_drop_bit_eq o_apply
        bit_take_bit_iff possible_bit_word len_num1 len_bit0 len_bit1) (simp add: conj_ac)
qed

lemma bit_num_of_word:
  assumes w: "w AND NOT 0x7ffe0 = (c OR (b OR bit_bits (D_Immediate n)) :: u32)"
    and c: "c \<in> {0x36000000, 0x37000000}" and b: "\<And>j. 5 \<le> j \<Longrightarrow> \<not> bit b j"
    and n: "0 \<le> sint n" "sint n \<le> 63"
  shows "bit_num w = n"
proof -
  have e: "bit (w AND NOT 0x7ffe0) j = bit (c OR (b OR bit_bits (D_Immediate n))) j" for j by (simp only: w)
  have w31: "bit w 31 = bit n 5"
    and "bit w 19 = bit n 0" "bit w 20 = bit n 1" "bit w 21 = bit n 2" "bit w 22 = bit n 3" "bit w 23 = bit n 4"
    using e [of 19] e [of 20] e [of 21] e [of 22] e [of 23] e [of 31] c b
    by (auto simp: bit_bits_def bits_simps)
  then have "bit w (19 + j) = bit n j" if "j < 5" for j
    using that by (auto simp: less_Suc_eq numeral_eq_Suc)
  moreover have "bit n j \<Longrightarrow> j < 6" for j by (rule small_bits [OF n])
  moreover have "j < 6 \<longleftrightarrow> j < 5 \<or> j = 5" for j :: nat by auto
  ultimately show ?thesis
    using w31 by (intro bit_word_eqI) (auto simp: bit_bit_num)
qed

lemma decode_branch_operands:
  assumes r: "(m, row) \<in> set branch_rows" and w: "w AND op_mask row = op_opcode row"
    and ops: "branch_operands m ops (a + word_of_int (branch_disp m w))"
    and x: "w AND NOT (branch_field_mask m) = op_opcode row OR test_bits m ops"
  shows "\<exists>d. decode_instruction a w = Ok d \<and> di_address d = a \<and> di_mnemonic d = m \<and>
           di_operands d = canonical_operands m ops"
proof -
  have m: "mnemonic_parse (op_name row) = m"
    using opcodes_for_branch(2) [OF r] by (simp add: mnemonic_id_def)
  have simps: "decode_instruction a w =
      (case decode_operands (opcode_operands row) 0 w a row of
         Err e \<Rightarrow> Err e | Ok xs \<Rightarrow> Ok \<lparr>di_address = a, di_word = w, di_mnemonic = m, di_operands = xs\<rparr>)"
    using match_branch [OF r w] by (simp add: decode_instruction_def m split: sum.splits)
  show ?thesis
    using r
  proof (cases rule: branch_rows_shape)
    case b
    then show ?thesis using simps ops
      by (auto simp: decode_operand_def imm_displacement branch_target_def branch_disp_def branch_form_def
          branch_operands_def canonical_operands_def)
  next
    case cond
    then show ?thesis using simps ops
      by (auto simp: decode_operand_def imm_displacement branch_target_def branch_disp_def branch_form_def
          branch_operands_def canonical_operands_def)
  next
    case cb
    then have "length ops = 2" "gp_operand (ops ! 0)" "ops ! 1 = D_BranchTarget (a + word_of_int (displacement 19 5 w))"
      using ops by (auto simp: branch_operands_def branch_disp_def branch_form_def)
    then obtain g where g: "ops = [g, D_BranchTarget (a + word_of_int (displacement 19 5 w))]" "gp_operand g"
      by (auto simp: numeral_2_eq_2 length_Suc_conv)
    obtain q where q: "g = D_Register q" "reg_class q \<in> {RC_W, RC_X}" and small: "\<And>j. bit (reg_index q) j \<Longrightarrow> j < 5"
      using gp_operandD [OF g(2)] by metis
    have M: "branch_field_mask m = 0xffffe0" using cb by (auto simp: branch_field_mask_def branch_form_def mask_eq_exp_minus_1)
    have t: "test_bits m ops = size_bit g OR reg_bits g" using cb g(1) by (auto simp: test_bits_def)
    have idx: "word_of_u8 (reg_index q) AND 0x1f = word_of_u8 (reg_index q)"
      unfolding and_1f by (rule bit_word_eqI) (auto simp: bit_simps dest: small)
    have "rt_field w = reg_index q"
      by (rule rt_field_of_word [OF x]) (use cb M t q idx in \<open>auto simp: size_bit_def reg_bits_def bit.conj_disj_distrib2\<close>)
    moreover have "bit w 31 \<longleftrightarrow> reg_class q = RC_X"
    proof -
      have "bit w 31 = bit (w AND NOT (branch_field_mask m)) 31" unfolding M by (simp add: bits_simps)
      also have "\<dots> \<longleftrightarrow> reg_class q = RC_X"
        unfolding x t using cb(6) q small [of 31] by (auto simp: size_bit_def reg_bits_def bits_simps)
      finally show ?thesis .
    qed
    moreover have "drop_bit 31 w AND 1 = of_bool (bit w 31)"
      by (simp add: bit_iff_odd_drop_bit and_one_eq mod_2_eq_odd)
    ultimately have "rt_reg w row = q"
      using cb(5) q(2) by (cases q) (auto simp: rt_reg_def is_casp_def gp_reg_def w_reg_def x_reg_def Let_def)
    then show ?thesis using simps cb g q(1)
      by (auto simp: decode_operand_def imm_displacement branch_target_def canonical_operands_def)
  next
    case tb
    let ?t = "a + word_of_int (displacement 14 5 w)"
    have "length ops = 3" "gp_operand (ops ! 0)" "bit_operand (ops ! 1)" "ops ! 2 = D_BranchTarget ?t"
      using tb ops by (auto simp: branch_operands_def branch_disp_def branch_form_def)
    then obtain g h where g: "ops = [g, h, D_BranchTarget ?t]" "gp_operand g" "bit_operand h"
      by (auto simp: numeral_3_eq_3 numeral_2_eq_2 length_Suc_conv)
    obtain q where q: "g = D_Register q" and small: "\<And>j. bit (reg_index q) j \<Longrightarrow> j < 5"
      using gp_operandD [OF g(2)] by metis
    obtain n where n: "h = D_Immediate n" "0 \<le> sint n" "sint n \<le> 63"
      using g(3) by (auto simp: bit_operand_def split: decoded_operand.splits)
    have M: "branch_field_mask m = 0x7ffe0" using tb by (auto simp: branch_field_mask_def branch_form_def mask_eq_exp_minus_1)
    have t: "test_bits m ops = reg_bits g OR bit_bits h" using tb g(1) by (auto simp: test_bits_def)
    have idx: "word_of_u8 (reg_index q) AND 0x1f = word_of_u8 (reg_index q)"
      unfolding and_1f by (rule bit_word_eqI) (auto simp: bit_simps dest: small)
    have "bit_bits h AND 0x1f = 0" by (simp add: bit_bits_def n(1) bits_simps)
    then have "test_bits m ops AND 0x1f = word_of_u8 (reg_index q)"
      unfolding t reg_bits_def q by (simp add: bit.conj_disj_distrib2 idx)
    moreover have "op_opcode row AND 0x1f = 0" using tb(6) by auto
    ultimately have "rt_field w = reg_index q"
      by (intro rt_field_of_word [OF x]) (simp_all add: M)
    moreover have "op_name row = ''tbz'' \<or> op_name row = ''tbnz''" using tb(5) by simp
    then have "rt_reg w row = x_reg (rt_field w)" by (elim disjE) (simp_all add: rt_reg_def is_casp_def Let_def)
    ultimately have "rt_reg w row = q\<lparr>reg_class := RC_X\<rparr>" by (cases q) (simp add: x_reg_def)
    moreover have "bit_num w = n"
    proof (rule bit_num_of_word [OF _ tb(6) _ n(2,3)])
      show "w AND NOT 0x7ffe0 = op_opcode row OR (reg_bits g OR bit_bits (D_Immediate n))"
        using x unfolding M t n(1) .
      show "\<And>j. 5 \<le> j \<Longrightarrow> \<not> bit (reg_bits g) j"
        using small by (fastforce simp: reg_bits_def q bit_simps)
    qed
    ultimately show ?thesis using simps tb g q(1) n(1)
      by (auto simp: decode_operand_def imm_displacement branch_target_def canonical_operands_def)
  qed
qed

lemma encode_branch_result:
  assumes "branch_operands m ops t" "pcrel_range_bytes m = Some r"
  shows "case encode_instruction \<lparr>it_address = a, it_mnemonic = m, it_operands = ops\<rparr> of
      Err e \<Rightarrow> \<not> in_reach a t r
    | Ok w \<Rightarrow> in_reach a t r \<and>
        (\<exists>d. decode_instruction a w = Ok d \<and> di_address d = a \<and> di_mnemonic d = m \<and>
           di_operands d = canonical_operands m ops)"
proof -
  have m: "m \<in> insert M_B (insert M_Bl conditional_mnemonics)"
    using assms(1) by (auto simp: branch_operands_def conditional_mnemonics_def split: if_splits)
  then have "list_ex (\<lambda>(m', row). m' = m) branch_rows"
    by (auto simp: conditional_mnemonics_def branch_rows_def)
  then obtain row where row: "(m, row) \<in> set branch_rows" by (auto simp: list_ex_iff)
  obtain n pos where f: "branch_form m = (n, pos)" by (cases "branch_form m")
  have r: "r = 2 ^ (n + 1)"
    using m f assms(2) by (auto simp: conditional_mnemonics_def branch_form_def pcrel_range_bytes_def)
  obtain k where enc: "length (opcode_operands row) = length ops"
    "encode_row_operands (opcode_operands row) ops (op_opcode row) a row =
       (case encode_pcrel k (D_BranchTarget t) a n pos of
          Ok v \<Rightarrow> Row_Matched ((op_opcode row OR test_bits m ops) OR v) | Err e \<Rightarrow> Row_Unmatched e)"
    "test_bits m ops AND op_mask row = 0" "test_bits m ops AND branch_field_mask m = 0"
    using branch_operands_enc [OF row assms(1) f, of a] by blast
  note via = encode_branch_via [OF row f enc]
  show ?thesis
  proof (cases "encode_instruction \<lparr>it_address = a, it_mnemonic = m, it_operands = ops\<rparr>")
    case (Inr w)
    then have "w AND op_mask row = op_opcode row" "w AND NOT (branch_field_mask m) = op_opcode row OR test_bits m ops"
      "t = a + word_of_int (branch_disp m w)" "in_reach a t r"
      using via unfolding Inr sum.case r by blast+
    then show ?thesis using Inr decode_branch_operands [OF row, of w ops a] assms(1) by auto
  qed (use via r in simp)
qed

section \<open>Properties\<close>

text \<open>C7: the branches of the architecture are decoded to the control flow it gives them, from
  any address, and encode back. For every word of \<open>b\<close>, \<open>bl\<close>, \<open>b.cond\<close>, \<open>cbz\<close>, \<open>cbnz\<close>, \<open>tbz\<close> or
  \<open>tbnz\<close>, except \<open>b.cond\<close> under the conditions \<open>al\<close> and \<open>nv\<close>, and every address, decoding succeeds
  and the instruction's control flow has the target and fall-through of the architecture, modulo 2 to
  the 64; when the address computation does not wrap, encoding the decoded instruction gives the word
  again. The two conditions left out are misclassified, see \<open>branch_always_falls\<close>.\<close>

theorem branch_word_flow:
  assumes "arch_branch a w = Some cf" "w AND 0xff00001e \<noteq> 0x5400000e"
  shows "\<exists>d. decode_instruction a w = Ok d \<and> control_flow_of d = cf \<and>
           (\<bar>uint (cf_target cf) - uint a\<bar> \<le> 2 ^ 27 \<longrightarrow> encode_instruction (template_of d) = Ok w)"
proof -
  obtain m row where r: "(m, row) \<in> set branch_rows" "w AND op_mask row = op_opcode row"
    and cf: "cf = (let t = a + word_of_int (branch_disp m w) in
      if m = M_B then CF_Jump t else if m = M_Bl then CF_Call t (a + 4) else CF_ConditionalJump t (a + 4))"
    using arch_branch_row [OF assms] by blast
  have t: "cf_target cf = a + word_of_int (branch_disp m w)" by (simp add: cf Let_def)
  have "branch_form m \<in> {(26, 0), (19, 5), (14, 5)}" by (simp add: branch_form_def)
  then have d: "sint (word_of_int (branch_disp m w) :: i64) = branch_disp m w" "\<bar>branch_disp m w\<bar> \<le> 2 ^ 27"
    using sint_displacement(1-3) [of 26 0 w] sint_displacement(1-3) [of 19 5 w] sint_displacement(1-3) [of 14 5 w]
    by (auto simp: branch_disp_def)
  have "0 \<le> uint a + branch_disp m w \<and> uint a + branch_disp m w < 2 ^ 64"
    if "\<bar>uint (cf_target cf) - uint a\<bar> \<le> 2 ^ 27"
    using near_no_wrap [OF d(2), of a] that unfolding t by simp
  then show ?thesis using decode_branch_flow [OF r, of a] unfolding cf d(1) by blast
qed

theorem branch_word_flow_witness:
  "\<exists>d. decode_instruction 0x1000 0x54ffffe1 = Ok d \<and>
     control_flow_of d = CF_ConditionalJump 0xffc 0x1004 \<and> encode_instruction (template_of d) = Ok 0x54ffffe1"
proof -
  have "arch_branch 0x1000 0x54ffffe1 = Some (CF_ConditionalJump 0xffc 0x1004)"
    by (simp add: arch_branch_def displacement_def Let_def)
  from branch_word_flow [OF this] show ?thesis by simp
qed

text \<open>C8: a branch is encoded exactly when its displacement fits. For a relative branch with
  well-formed operands, encoding succeeds if and only if the distance from the address to the
  target is a multiple of four within the half-open reach that \<open>pcrel_range_bytes\<close> states
  for the mnemonic, and the word decodes at that address to the same mnemonic and operands (a test
  branch names the 64-bit register).\<close>

theorem encode_branch_exact:
  assumes "branch_operands m ops t" "pcrel_range_bytes m = Some r"
  shows "case encode_instruction \<lparr>it_address = a, it_mnemonic = m, it_operands = ops\<rparr> of
      Err e \<Rightarrow> \<not> in_reach a t r
    | Ok w \<Rightarrow> in_reach a t r \<and>
        (\<exists>d. decode_instruction a w = Ok d \<and> di_address d = a \<and> di_mnemonic d = m \<and>
           di_operands d = canonical_operands m ops)"
  by (rule encode_branch_result [OF assms])

theorem encode_branch_exact_witness:
  "case encode_instruction \<lparr>it_address = 0x8000, it_mnemonic = M_Tbz,
      it_operands = [D_Register \<lparr>reg_class = RC_X, reg_index = 3\<rparr>, D_Immediate 40, D_BranchTarget 0]\<rparr> of
      Err e \<Rightarrow> False
    | Ok w \<Rightarrow> \<exists>d. decode_instruction 0x8000 w = Ok d \<and> di_mnemonic d = M_Tbz \<and>
        di_operands d = [D_Register \<lparr>reg_class = RC_X, reg_index = 3\<rparr>, D_Immediate 40, D_BranchTarget 0]"
proof -
  have "branch_operands M_Tbz [D_Register \<lparr>reg_class = RC_X, reg_index = 3\<rparr>, D_Immediate 40, D_BranchTarget 0] 0"
    by (simp add: branch_operands_def gp_operand_def bit_operand_def word_le_nat_alt word_less_nat_alt)
  moreover have "pcrel_range_bytes M_Tbz = Some 32768" by (simp add: pcrel_range_bytes_def)
  moreover have "in_reach 0x8000 0 32768" by (simp add: in_reach_def)
  ultimately show ?thesis using encode_branch_exact [of M_Tbz _ 0 32768 "0x8000"] by (force simp: canonical_operands_def split: sum.splits)
qed

text \<open>C35: the always conditions of the conditional branch are not classified as branches. For a word
  of the form \<open>b.al\<close> or \<open>b.nv\<close> the architecture jumps to the target; it decodes under the generic
  name \<open>b.c\<close>, with that target as its operand, and its control flow is reported as falling through.\<close>

theorem branch_always_falls:
  assumes "w AND 0xff00001e = 0x5400000e"
  shows "\<exists>d t. arch_branch a w = Some (CF_Jump t) \<and> decode_instruction a w = Ok d \<and>
    di_mnemonic d = M_Other ''b.c'' \<and> di_operands d = [D_BranchTarget t] \<and> control_flow_of d = CF_Fall"
proof -
  let ?t = "a + word_of_int (displacement 19 5 w)"
  have "match_opcode w = fold (match_step w) [row_b_c] None"
    using match_opcode_compatible [of w "0xff00001e" "0x5400000e"] assms
      filter_compatible_mono [OF compatible_cond_class, of "0xff00001e" "0x5400000e"]
    by (simp add: cond_class_table_def row_b_c_def row_b_cond_def row_compatible_new)
  moreover have cond: "w AND 0xff000010 = 0x54000000" "w AND 0xe = 0xe"
    using always_condition [of w] assms by simp_all
  ultimately have "match_opcode w = Some row_b_c"
    by (simp add: match_step_def row_applies_def row_b_c_def alias_applies_def)
  then have "\<exists>d. decode_instruction a w = Ok d \<and> di_mnemonic d = M_Other ''b.c'' \<and> di_operands d = [D_BranchTarget ?t] \<and>
      control_flow_of d = CF_Fall"
    by (simp add: decode_instruction_def row_b_c_def opcode_operands_def decode_operand_def imm_displacement
        branch_target_def mnemonic_parse_named control_flow_of_def conditional_mnemonics_def Let_def)
  moreover have "w AND 0xfc000000 \<noteq> 0x14000000" "w AND 0xfc000000 \<noteq> 0x94000000"
    using cond(1) by (auto simp: bits_simps)
  then have "arch_branch a w = Some (CF_Jump ?t)" using cond by (simp add: arch_branch_def Let_def)
  ultimately show ?thesis by blast
qed

theorem branch_always_falls_witness:
  "\<exists>d t. arch_branch 0x1000 0x5400004e = Some (CF_Jump t) \<and> decode_instruction 0x1000 0x5400004e = Ok d \<and>
     di_mnemonic d = M_Other ''b.c'' \<and> di_operands d = [D_BranchTarget t] \<and> control_flow_of d = CF_Fall"
  using branch_always_falls [of "0x5400004e" "0x1000"] by simp

text \<open>The round trip of \<open>decode_encode_word\<close> at a call of the previous page.\<close>

theorem decode_encode_word_witness:
  "\<exists>d. decode_instruction 0x2000 0x97fffc00 = Ok d \<and> di_mnemonic d = M_Bl \<and>
     encode_instruction (template_of d) = Ok 0x97fffc00"
proof -
  have r: "(M_Bl, row_bl) \<in> set branch_rows" by (simp add: branch_rows_def)
  have m: "match_opcode 0x97fffc00 = Some row_bl" by (rule match_branch [OF r]) (simp add: row_bl_def)
  have c: "row_closed row_bl" "alias_fixup (mnemonic_id row_bl) = None"
    using branch_rows_closed r opcodes_for_branch(2) [OF r] by (auto simp: list_all_iff)
  have "sint (imm26 0x97fffc00) = - 4096"
    unfolding imm_displacement by (simp add: displacement_def)
  then have s: "row_sides (opcode_operands row_bl) 0x97fffc00 (op_opcode row_bl) 0x2000 row_bl"
    by (simp add: row_bl_def opcode_operands_def codec_side_def codec_field_def)
  show ?thesis
    using decode_encode_word [OF m c(1) s c(2)] opcodes_for_branch [OF r] by force
qed

end
