(* ===== verification/A64_Sweep.thy ===== *)
theory A64_Sweep
  imports A64_Flow
begin

text \<open>
  Linear disassembly of a byte slice (\<open>src/src/isa/aarch64/sweep.rs\<close>): the fail-fast sweep and the
  tolerant one, and what they say about the bytes.
\<close>

section \<open>Words in little-endian order\<close>

definition from_le_bytes :: "u8 \<Rightarrow> u8 \<Rightarrow> u8 \<Rightarrow> u8 \<Rightarrow> u32" where
  "from_le_bytes b0 b1 b2 b3 =
     ucast b0 OR push_bit 8 (ucast b1) OR push_bit 16 (ucast b2) OR push_bit 24 (ucast b3)"

definition to_le_bytes :: "u32 \<Rightarrow> bytes" where
  "to_le_bytes w = [ucast w, ucast (drop_bit 8 w), ucast (drop_bit 16 w), ucast (drop_bit 24 w)]"

lemma length_to_le_bytes [simp]: "length (to_le_bytes w) = 4"
  by (simp add: to_le_bytes_def)

lemma bit_u8_beyond: "8 \<le> n \<Longrightarrow> bit (b :: u8) n \<longleftrightarrow> False"
  using bit_imp_le_length [of b n] by auto

lemma to_from_le_bytes [simp]: "to_le_bytes (from_le_bytes b0 b1 b2 b3) = [b0, b1, b2, b3]"
  by (simp add: to_le_bytes_def from_le_bytes_def) (simp add: bits_simps bit_u8_beyond)

section \<open>The sweeps\<close>

datatype disassemble_error = UnalignedLength usize | DecodeFailed u64 u32 decode_error

text \<open>\<open>chunks_exact(4)\<close> with the address of each chunk, and the word it holds.\<close>

fun word_chunks :: "u64 \<Rightarrow> bytes \<Rightarrow> (u64 \<times> u32) list" where
  "word_chunks address (b0 # b1 # b2 # b3 # bytes) =
     (address, from_le_bytes b0 b1 b2 b3) # word_chunks (address + 4) bytes"
| "word_chunks address bytes = []"

fun sweep_chunks :: "(u64 \<times> u32) list \<Rightarrow> decoded_instruction list \<Rightarrow> disassemble_error + decoded_instruction list" where
  "sweep_chunks [] out = Ok out"
| "sweep_chunks ((address, word) # chunks) out =
     (case decode_instruction address word of
        Ok instruction \<Rightarrow> sweep_chunks chunks (out @ [instruction])
      | Err source \<Rightarrow> Err (DecodeFailed address word source))"

definition disassemble_bytes :: "u64 \<Rightarrow> bytes \<Rightarrow> disassemble_error + decoded_instruction list" where
  "disassemble_bytes base_address bytes =
     (if length bytes mod 4 \<noteq> 0 then Err (UnalignedLength (length bytes))
      else sweep_chunks (word_chunks base_address bytes) [])"

fun tolerant_chunks ::
  "(u64 \<times> u32) list \<Rightarrow> decoded_instruction list \<Rightarrow> (u64 \<times> u32) list \<Rightarrow> decoded_instruction list \<times> (u64 \<times> u32) list" where
  "tolerant_chunks [] out undecodable = (out, undecodable)"
| "tolerant_chunks ((address, word) # chunks) out undecodable =
     (case decode_instruction address word of
        Ok instruction \<Rightarrow> tolerant_chunks chunks (out @ [instruction]) undecodable
      | Err _ \<Rightarrow>
          tolerant_chunks chunks
            (out @ [\<lparr>di_address = address, di_word = word, di_mnemonic = M_Nop, di_operands = []\<rparr>])
            (undecodable @ [(address, word)]))"

definition disassemble_bytes_tolerant ::
  "u64 \<Rightarrow> bytes \<Rightarrow> disassemble_error + decoded_instruction list \<times> (u64 \<times> u32) list" where
  "disassemble_bytes_tolerant base_address bytes =
     (if length bytes mod 4 \<noteq> 0 then Err (UnalignedLength (length bytes))
      else Ok (tolerant_chunks (word_chunks base_address bytes) [] []))"

section \<open>What a sweep returns\<close>

lemma decode_instruction_keeps:
  "decode_instruction a w = Ok d \<Longrightarrow> di_address d = a \<and> di_word d = w"
  by (auto simp: decode_instruction_def split: option.splits sum.splits)

definition decodes :: "u64 \<times> u32 \<Rightarrow> bool" where
  "decodes c = (case decode_instruction (fst c) (snd c) of Ok _ \<Rightarrow> True | Err _ \<Rightarrow> False)"

text \<open>The instruction of a chunk: the decoded one, or the placeholder.\<close>

definition tolerant_instruction :: "u64 \<times> u32 \<Rightarrow> decoded_instruction" where
  "tolerant_instruction c =
     (case decode_instruction (fst c) (snd c) of
        Ok d \<Rightarrow> d
      | Err _ \<Rightarrow> \<lparr>di_address = fst c, di_word = snd c, di_mnemonic = M_Nop, di_operands = []\<rparr>)"

lemma tolerant_chunks_eq:
  "tolerant_chunks cs out und =
     (out @ map tolerant_instruction cs, und @ filter (\<lambda>c. \<not> decodes c) cs)"
  by (induction cs arbitrary: out und)
    (auto simp: tolerant_instruction_def decodes_def split: sum.splits)

lemma sweep_chunks_eq:
  "sweep_chunks cs out =
     (case find (\<lambda>c. \<not> decodes c) cs of
        None \<Rightarrow> Ok (out @ map tolerant_instruction cs)
      | Some (a, w) \<Rightarrow> Err (DecodeFailed a w (projl (decode_instruction a w))))"
  by (induction cs arbitrary: out)
    (auto simp: tolerant_instruction_def decodes_def split: sum.splits option.splits)

lemma tolerant_instruction_keeps:
  "di_address (tolerant_instruction c) = fst c" "di_word (tolerant_instruction c) = snd c"
  using decode_instruction_keeps
  by (cases c; cases "decode_instruction (fst c) (snd c)"; auto simp: tolerant_instruction_def)+

lemma word_chunks_bytes:
  "concat (map (to_le_bytes \<circ> snd) (word_chunks a bs)) = take (length bs div 4 * 4) bs"
proof (induction a bs rule: word_chunks.induct)
  case (1 a b0 b1 b2 b3 bs)
  have "length (b0 # b1 # b2 # b3 # bs) div 4 * 4 = Suc (Suc (Suc (Suc (length bs div 4 * 4))))"
    using div_add_self1 [of 4 "length bs"] by simp
  with 1 show ?case by (simp only: take_Suc_Cons) simp
qed simp_all

lemma word_chunks_length: "length (word_chunks a bs) = length bs div 4"
  by (induction a bs rule: word_chunks.induct) simp_all

lemma word_chunks_address:
  "i < length bs div 4 \<Longrightarrow> fst (word_chunks a bs ! i) = a + word_of_nat (4 * i)"
proof (induction a bs arbitrary: i rule: word_chunks.induct)
  case (1 a b0 b1 b2 b3 bs)
  then show ?case by (cases i) (simp_all add: algebra_simps)
qed simp_all

section \<open>Properties\<close>

text \<open>C36: the tolerant sweep loses no byte and hides no failure. On an aligned slice it returns one
  instruction per word, the i-th at the base address plus four times i, whose words written back
  in little-endian order are the input; its list of failures holds, in order, exactly the address
  and word of each chunk that does not decode, and the fail-fast sweep succeeds exactly when that
  list is empty, with the same instructions. An unaligned slice is refused by both.\<close>

theorem sweep_preserves_bytes:
  "case disassemble_bytes_tolerant base bytes of
     Err e \<Rightarrow> length bytes mod 4 \<noteq> 0 \<and> e = UnalignedLength (length bytes) \<and> disassemble_bytes base bytes = Err e
   | Ok (insns, bad) \<Rightarrow>
       length insns = length bytes div 4 \<and>
       map di_address insns = map (\<lambda>i. base + word_of_nat (4 * i)) [0..<length bytes div 4] \<and>
       concat (map (to_le_bytes \<circ> di_word) insns) = bytes \<and>
       bad = filter (\<lambda>c. \<not> decodes c) (map (\<lambda>d. (di_address d, di_word d)) insns) \<and>
       (bad = [] \<longleftrightarrow> disassemble_bytes base bytes = Ok insns)"
proof (cases "length bytes mod 4 = 0")
  case False
  then show ?thesis by (simp add: disassemble_bytes_tolerant_def disassemble_bytes_def)
next
  case True
  let ?cs = "word_chunks base bytes"
  let ?is = "map tolerant_instruction ?cs"
  have t: "disassemble_bytes_tolerant base bytes = Ok (?is, filter (\<lambda>c. \<not> decodes c) ?cs)"
    using True by (simp add: disassemble_bytes_tolerant_def tolerant_chunks_eq)
  have s: "disassemble_bytes base bytes = Ok ?is \<longleftrightarrow> filter (\<lambda>c. \<not> decodes c) ?cs = []"
    using True
    by (auto simp: disassemble_bytes_def sweep_chunks_eq find_None_iff find_Some_iff filter_empty_conv
        split: option.splits)
  have "map (\<lambda>d. (di_address d, di_word d)) ?is = ?cs"
    by (simp add: tolerant_instruction_keeps o_def)
  moreover have "map di_address ?is = map (\<lambda>i. base + word_of_nat (4 * i)) [0..<length bytes div 4]"
    by (intro nth_equalityI) (simp_all add: word_chunks_length word_chunks_address tolerant_instruction_keeps)
  moreover have "concat (map (to_le_bytes \<circ> di_word) ?is) = bytes"
    using word_chunks_bytes [of base bytes] True
    by (simp add: o_def tolerant_instruction_keeps div_mult_mod_eq minus_mod_eq_div_mult [symmetric])
  ultimately show ?thesis using t s by (simp add: word_chunks_length)
qed

end
