(* ===== verification/A64_Recursive.thy ===== *)
theory A64_Recursive
  imports A64_Sweep
begin

text \<open>
  Recursive-descent disassembly (\<open>src/src/isa/aarch64/recursive.rs\<close>): the worklist that follows
  control flow from the entry points, and the pass that turns the classified addresses into
  instructions and data ranges. Address arithmetic wraps, as in a release build.
\<close>

section \<open>State\<close>

datatype status = S_Decoded decoded_instruction | S_DecodeError

datatype data_reason = DR_DecodeError | DR_Unreachable | DR_Padding

record data_range =
  dr_address :: u64
  dr_bytes :: bytes
  dr_reason :: data_reason

record disassembly =
  da_instructions :: "decoded_instruction list"
  da_data_ranges :: "data_range list"

datatype timeline_entry = TE_Instruction decoded_instruction | TE_Data data_range

type_synonym status_map = "u64 \<rightharpoonup> status"

section \<open>The walk\<close>

definition aligned_len :: "bytes \<Rightarrow> nat" where
  "aligned_len bytes = length bytes div 4 * 4"

definition in_range :: "u64 \<Rightarrow> bytes \<Rightarrow> u64 \<Rightarrow> bool" where
  "in_range base bytes address =
     (address \<ge> base \<and> address < base + word_of_nat (aligned_len bytes) \<and> (address - base) mod 4 = 0)"

definition word_at :: "u64 \<Rightarrow> bytes \<Rightarrow> u64 \<Rightarrow> u32" where
  "word_at base bytes address =
     (let offset = unat (address - base)
      in from_le_bytes (bytes ! offset) (bytes ! (offset + 1)) (bytes ! (offset + 2)) (bytes ! (offset + 3)))"

definition push_target :: "u64 \<Rightarrow> bytes \<Rightarrow> u64 \<Rightarrow> u64 list \<Rightarrow> u64 list" where
  "push_target base bytes target worklist =
     (if in_range base bytes target then target # worklist else worklist)"

text \<open>The worklist after an instruction and the address the walk goes on at. The list's head is
  the end of the vector.\<close>

definition follow :: "u64 \<Rightarrow> bytes \<Rightarrow> u64 \<Rightarrow> control_flow \<Rightarrow> u64 list \<Rightarrow> u64 list \<times> u64 option" where
  "follow base bytes address cf worklist =
     (case cf of
        CF_Fall \<Rightarrow> (worklist, Some (address + 4))
      | CF_Jump target \<Rightarrow> (push_target base bytes target worklist, None)
      | CF_ConditionalJump target fallthrough \<Rightarrow> (push_target base bytes target worklist, Some fallthrough)
      | CF_Call target fallthrough \<Rightarrow> (push_target base bytes target worklist, Some fallthrough)
      | CF_Return \<Rightarrow> (worklist, None)
      | CF_IndirectJump \<Rightarrow> (worklist, None)
      | CF_IndirectCall fallthrough \<Rightarrow> (worklist, Some fallthrough)
      | CF_Trap \<Rightarrow> (worklist, Some (address + 4)))"

text \<open>The addresses still to be classified, which bound the walk.\<close>

definition unclassified :: "u64 \<Rightarrow> bytes \<Rightarrow> status_map \<Rightarrow> u64 set" where
  "unclassified base bytes status = {a. in_range base bytes a \<and> status a = None}"

lemma unclassified_upd:
  assumes "in_range base bytes a" "status a = None"
  shows "card (unclassified base bytes (status(a \<mapsto> s))) < card (unclassified base bytes status)"
proof (rule psubset_card_mono)
  show "finite (unclassified base bytes status)" by simp
  show "unclassified base bytes (status(a \<mapsto> s)) \<subset> unclassified base bytes status"
    using assms by (auto simp: unclassified_def)
qed

function walk ::
  "u64 \<Rightarrow> bytes \<Rightarrow> status_map \<Rightarrow> u64 list \<Rightarrow> u64 \<Rightarrow> status_map \<times> u64 list" where
  "walk base bytes status worklist address =
     (if \<not> in_range base bytes address \<or> status address \<noteq> None then (status, worklist)
      else
        case decode_instruction address (word_at base bytes address) of
          Err _ \<Rightarrow> (status(address \<mapsto> S_DecodeError), worklist)
        | Ok instruction \<Rightarrow>
            (case follow base bytes address (control_flow_of instruction) worklist of
               (worklist', None) \<Rightarrow> (status(address \<mapsto> S_Decoded instruction), worklist')
             | (worklist', Some next) \<Rightarrow>
                 walk base bytes (status(address \<mapsto> S_Decoded instruction)) worklist' next))"
  by pat_completeness auto
termination
  by (relation "measure (\<lambda>(base, bytes, status, _). card (unclassified base bytes status))")
    (auto intro: unclassified_upd)

declare walk.simps [simp del]

lemma walk_progress:
  "walk base bytes status worklist address = (status', worklist') \<Longrightarrow>
   card (unclassified base bytes status') < card (unclassified base bytes status) \<or>
   (status' = status \<and> worklist' = worklist)"
proof (induction base bytes status worklist address rule: walk.induct)
  case (1 base bytes status worklist address)
  show ?case
  proof (cases "in_range base bytes address \<and> status address = None")
    case False
    then show ?thesis using "1.prems" by (auto simp: walk.simps [of base bytes status])
  next
    case True
    then have less: "card (unclassified base bytes (status(address \<mapsto> s))) < card (unclassified base bytes status)" for s
      using unclassified_upd by blast
    show ?thesis
    proof (cases "decode_instruction address (word_at base bytes address)")
      case (Inl e)
      then show ?thesis using "1.prems" True less by (auto simp: walk.simps [of base bytes status])
    next
      case (Inr d)
      obtain wl next' where f: "follow base bytes address (control_flow_of d) worklist = (wl, next')" by fastforce
      show ?thesis
      proof (cases next')
        case None
        then show ?thesis using "1.prems" True less Inr f by (auto simp: walk.simps [of base bytes status])
      next
        case (Some n)
        then have "walk base bytes (status(address \<mapsto> S_Decoded d)) wl n = (status', worklist')"
          using "1.prems" True Inr f by (simp add: walk.simps [of base bytes status])
        then show ?thesis
          using "1.IH" [OF _ Inr] True f Some less [of "S_Decoded d"] by fastforce
      qed
    qed
  qed
qed

function explore :: "u64 \<Rightarrow> bytes \<Rightarrow> status_map \<Rightarrow> u64 list \<Rightarrow> status_map" where
  "explore base bytes status [] = status"
| "explore base bytes status (address # worklist) =
     (case walk base bytes status worklist address of
        (status', worklist') \<Rightarrow> explore base bytes status' worklist')"
  by pat_completeness auto
termination
  by (relation "measures [\<lambda>(base, bytes, status, _). card (unclassified base bytes status), \<lambda>(_, _, _, wl). length wl]")
    (auto split: prod.splits dest: walk_progress)

text \<open>The entry points are filtered into a vector that is popped from its end.\<close>

definition classify :: "u64 \<Rightarrow> bytes \<Rightarrow> u64 list \<Rightarrow> status_map" where
  "classify base bytes entry_points =
     explore base bytes Map.empty (rev (filter (in_range base bytes) entry_points))"

section \<open>What the worklist classifies\<close>

text \<open>The flow graph of the slice: from an address in range that decodes to the successors of its
  instruction that are in range.\<close>

definition flow_edge :: "u64 \<Rightarrow> bytes \<Rightarrow> u64 \<Rightarrow> u64 \<Rightarrow> bool" where
  "flow_edge base bytes a a' \<longleftrightarrow>
     in_range base bytes a \<and> in_range base bytes a' \<and>
     (\<exists>d. decode_instruction a (word_at base bytes a) = Ok d \<and> a' \<in> pc_successors (info_of d))"

inductive reached :: "u64 \<Rightarrow> bytes \<Rightarrow> u64 list \<Rightarrow> u64 \<Rightarrow> bool" for base bytes entries where
  entry: "e \<in> set entries \<Longrightarrow> in_range base bytes e \<Longrightarrow> reached base bytes entries e"
| step: "reached base bytes entries a \<Longrightarrow> flow_edge base bytes a a' \<Longrightarrow> reached base bytes entries a'"

definition outcome :: "u64 \<Rightarrow> bytes \<Rightarrow> u64 \<Rightarrow> status" where
  "outcome base bytes a =
     (case decode_instruction a (word_at base bytes a) of Ok d \<Rightarrow> S_Decoded d | Err _ \<Rightarrow> S_DecodeError)"

lemma follow_successors:
  assumes "follow base bytes a (control_flow_of d) wl = (wl', nx)" "di_address d = a"
  shows "x \<in> set wl' \<union> set_option nx \<and> in_range base bytes x \<longleftrightarrow>
    x \<in> set wl \<union> pc_successors (info_of d) \<and> in_range base bytes x"
  using assms
  by (cases "control_flow_of d")
    (auto simp: follow_def push_target_def pc_successors_def info_of_def Let_def split: if_splits)

definition classify_inv :: "u64 \<Rightarrow> bytes \<Rightarrow> u64 list \<Rightarrow> status_map \<Rightarrow> u64 set \<Rightarrow> bool" where
  "classify_inv base bytes entries status pending \<longleftrightarrow>
     (\<forall>a s. status a = Some s \<longrightarrow> reached base bytes entries a \<and> s = outcome base bytes a) \<and>
     (\<forall>a\<in>pending. in_range base bytes a \<longrightarrow> reached base bytes entries a) \<and>
     (\<forall>e\<in>set entries. in_range base bytes e \<longrightarrow> e \<in> dom status \<union> pending) \<and>
     (\<forall>a\<in>dom status. \<forall>a'. flow_edge base bytes a a' \<longrightarrow> a' \<in> dom status \<union> pending)"

lemma classify_inv_skip:
  assumes "classify_inv base bytes entries status (insert a pending)"
    and "\<not> in_range base bytes a \<or> status a \<noteq> None"
  shows "classify_inv base bytes entries status pending"
  using assms unfolding classify_inv_def flow_edge_def by blast

lemma classify_inv_error:
  assumes inv: "classify_inv base bytes entries status (insert a pending)" and a: "in_range base bytes a"
    and err: "decode_instruction a (word_at base bytes a) = Err e"
  shows "classify_inv base bytes entries (status(a \<mapsto> S_DecodeError)) pending"
proof -
  have "reached base bytes entries a" using inv a by (auto simp: classify_inv_def)
  moreover have "outcome base bytes a = S_DecodeError" using err by (simp add: outcome_def)
  moreover have "\<not> flow_edge base bytes a a'" for a' using err by (simp add: flow_edge_def)
  ultimately show ?thesis using inv unfolding classify_inv_def by auto
qed

lemma classify_inv_decoded:
  assumes inv: "classify_inv base bytes entries status (insert a pending)" and a: "in_range base bytes a"
    and ok: "decode_instruction a (word_at base bytes a) = Ok d"
    and pending: "\<And>x. x \<in> pending' \<and> in_range base bytes x \<longleftrightarrow>
      x \<in> pending \<union> pc_successors (info_of d) \<and> in_range base bytes x"
  shows "classify_inv base bytes entries (status(a \<mapsto> S_Decoded d)) pending'"
proof -
  have r: "reached base bytes entries a" using inv a by (auto simp: classify_inv_def)
  have out: "outcome base bytes a = S_Decoded d" using ok by (simp add: outcome_def)
  have succ: "reached base bytes entries x" if "x \<in> pc_successors (info_of d)" "in_range base bytes x" for x
    using reached.step [OF r] ok a that by (auto simp: flow_edge_def)
  have edge: "a' \<in> pending'" if "flow_edge base bytes a a'" for a'
    using that ok pending by (auto simp: flow_edge_def)
  have keep: "x \<in> pending'" if "x \<in> pending" "in_range base bytes x" for x using pending that by blast
  have fr: "in_range base bytes a'" if "flow_edge base bytes x a'" for x a' using that by (simp add: flow_edge_def)
  show ?thesis
    unfolding classify_inv_def
  proof (intro conjI allI ballI impI)
    fix x s assume "(status(a \<mapsto> S_Decoded d)) x = Some s"
    then show "reached base bytes entries x" "s = outcome base bytes x"
      using inv r out by (auto simp: classify_inv_def split: if_splits)
  next
    fix x assume x: "x \<in> pending'" "in_range base bytes x"
    then have "x \<in> pending \<or> x \<in> pc_successors (info_of d)" using pending by blast
    then show "reached base bytes entries x" using inv succ x(2) unfolding classify_inv_def by blast
  next
    fix e assume "e \<in> set entries" "in_range base bytes e"
    then show "e \<in> dom (status(a \<mapsto> S_Decoded d)) \<union> pending'" using inv keep by (auto simp: classify_inv_def)
  next
    fix x a' assume x: "x \<in> dom (status(a \<mapsto> S_Decoded d))" "flow_edge base bytes x a'"
    show "a' \<in> dom (status(a \<mapsto> S_Decoded d)) \<union> pending'"
    proof (cases "x = a")
      case True
      then show ?thesis using edge x(2) by blast
    next
      case False
      then have "a' \<in> dom status \<union> insert a pending"
        using inv x by (auto simp: classify_inv_def)
      then show ?thesis using keep fr [OF x(2)] by auto
    qed
  qed
qed

lemma walk_inv:
  "walk base bytes status worklist address = (status', worklist') \<Longrightarrow>
   classify_inv base bytes entries status (insert address (set worklist)) \<Longrightarrow>
   classify_inv base bytes entries status' (set worklist')"
proof (induction base bytes status worklist address rule: walk.induct)
  case (1 base bytes status worklist address)
  note w = "1.prems"(1) [unfolded walk.simps [of base bytes status worklist address]]
  show ?case
  proof (cases "in_range base bytes address \<and> status address = None")
    case False
    then show ?thesis using w "1.prems"(2) classify_inv_skip by auto
  next
    case True
    show ?thesis
    proof (cases "decode_instruction address (word_at base bytes address)")
      case (Inl e)
      then show ?thesis using w True classify_inv_error [OF "1.prems"(2)] by auto
    next
      case (Inr d)
      obtain wl nx where f: "follow base bytes address (control_flow_of d) worklist = (wl, nx)" by fastforce
      have d: "di_address d = address" using decode_instruction_keeps [OF Inr] by simp
      have inv: "classify_inv base bytes entries (status(address \<mapsto> S_Decoded d)) (set wl \<union> set_option nx)"
        by (rule classify_inv_decoded [OF "1.prems"(2) _ Inr]) (use True follow_successors [OF f d] in auto)
      show ?thesis
      proof (cases nx)
        case None
        then show ?thesis using w True Inr f inv by auto
      next
        case (Some n)
        then have "walk base bytes (status(address \<mapsto> S_Decoded d)) wl n = (status', worklist')"
          using w True Inr f by simp
        then show ?thesis using "1.IH" [OF _ Inr] True f Some inv by (fastforce simp: insert_commute Un_commute)
      qed
    qed
  qed
qed

lemma explore_inv:
  "classify_inv base bytes entries status (set worklist) \<Longrightarrow>
   classify_inv base bytes entries (explore base bytes status worklist) {}"
proof (induction base bytes status worklist rule: explore.induct)
  case (2 base bytes status address worklist)
  obtain st wl where w: "walk base bytes status worklist address = (st, wl)" by fastforce
  have "classify_inv base bytes entries st (set wl)"
    by (rule walk_inv [OF w]) (use "2.prems" in simp)
  then show ?case using "2.IH" w by simp
qed simp

lemma classify_inv_final: "classify_inv base bytes entries (classify base bytes entries) {}"
  unfolding classify_def
  by (rule explore_inv) (auto simp: classify_inv_def intro: reached.entry)

lemma classify_eq:
  "classify base bytes entries a =
     (if reached base bytes entries a then Some (outcome base bytes a) else None)"
proof -
  note inv = classify_inv_final [of base bytes entries, unfolded classify_inv_def]
  have "a \<in> dom (classify base bytes entries)" if "reached base bytes entries a" for a
    using that by induction (use inv in auto)
  then show ?thesis using inv by (cases "classify base bytes entries a") auto
qed

text \<open>C12: recursive descent classifies exactly what control flow reaches. After the worklist is
  empty, an address is classified if and only if it is an entry point in range or can be reached
  from one along the program counter's successors inside the slice, and its class is the decoded
  instruction, or a decode error where the word does not decode.\<close>

theorem classify_exact:
  "classify base bytes entries a =
     (if reached base bytes entries a then Some (outcome base bytes a) else None)"
  by (rule classify_eq)

end
