(* ===== verification/A64_Timeline.thy ===== *)
theory A64_Timeline
  imports A64_Recursive "HOL-Library.Multiset"
begin

text \<open>
  The second half of \<open>src/src/isa/aarch64/recursive.rs\<close>: the pass over the slice that collects
  instructions and merges the rest into data ranges, and the address-ordered timeline of both.
  A panic of the source (an out-of-range slice, an \<open>expect\<close>) is the result \<open>None\<close>.
\<close>

section \<open>Collecting\<close>

record builder =
  bl_instructions :: "decoded_instruction list"
  bl_ranges :: "data_range list"
  bl_start :: "u64 option"
  bl_reason :: "data_reason option"

definition byte_slice :: "bytes \<Rightarrow> nat \<Rightarrow> nat \<Rightarrow> bytes option" where
  "byte_slice bytes s e = (if s \<le> e \<and> e \<le> length bytes then Some (take (e - s) (drop s bytes)) else None)"

definition flush_data :: "bytes \<Rightarrow> u64 \<Rightarrow> u64 \<Rightarrow> builder \<Rightarrow> builder option" where
  "flush_data bytes base end_address b =
     (case bl_start b of
        None \<Rightarrow> Some (b\<lparr>bl_reason := None\<rparr>)
      | Some start \<Rightarrow>
          (case (byte_slice bytes (unat (start - base)) (unat (end_address - base)), bl_reason b) of
             (Some bs, Some reason) \<Rightarrow>
               Some (b\<lparr>bl_start := None, bl_reason := None,
                       bl_ranges := bl_ranges b @ [\<lparr>dr_address = start, dr_bytes = bs, dr_reason = reason\<rparr>]\<rparr>)
           | _ \<Rightarrow> None))"

definition accumulate :: "bytes \<Rightarrow> u64 \<Rightarrow> u64 \<Rightarrow> data_reason \<Rightarrow> builder \<Rightarrow> builder option" where
  "accumulate bytes base address reason b =
     Option.bind
       (if bl_reason b \<noteq> None \<and> bl_reason b \<noteq> Some reason then flush_data bytes base address b else Some b)
       (\<lambda>b. Some (if bl_start b = None then b\<lparr>bl_start := Some address, bl_reason := Some reason\<rparr> else b))"

definition build_step :: "bytes \<Rightarrow> u64 \<Rightarrow> status_map \<Rightarrow> u64 \<Rightarrow> builder \<Rightarrow> builder option" where
  "build_step bytes base status address b =
     (case status address of
        Some (S_Decoded instruction) \<Rightarrow>
          Option.bind (flush_data bytes base address b)
            (\<lambda>b. Some (b\<lparr>bl_instructions := bl_instructions b @ [instruction]\<rparr>))
      | Some S_DecodeError \<Rightarrow> accumulate bytes base address DR_DecodeError b
      | None \<Rightarrow> accumulate bytes base address DR_Unreachable b)"

function build_loop :: "bytes \<Rightarrow> u64 \<Rightarrow> status_map \<Rightarrow> nat \<Rightarrow> builder \<Rightarrow> builder option" where
  "build_loop bytes base status offset b =
     (if offset < aligned_len bytes then
        (case build_step bytes base status (base + word_of_nat offset) b of
           None \<Rightarrow> None
         | Some b' \<Rightarrow> build_loop bytes base status (offset + 4) b')
      else Some b)"
  by pat_completeness auto
termination by (relation "measure (\<lambda>(bytes, _, _, offset, _). aligned_len bytes - offset)") auto

declare build_loop.simps [simp del]

definition build_disassembly :: "u64 \<Rightarrow> bytes \<Rightarrow> status_map \<Rightarrow> disassembly option" where
  "build_disassembly base bytes status =
     (let al = aligned_len bytes in
      Option.bind (build_loop bytes base status 0
          \<lparr>bl_instructions = [], bl_ranges = [], bl_start = None, bl_reason = None\<rparr>)
        (\<lambda>b. Option.bind (flush_data bytes base (base + word_of_nat al) b)
        (\<lambda>b. Some \<lparr>da_instructions = bl_instructions b,
                   da_data_ranges =
                     (if al < length bytes
                      then bl_ranges b @ [\<lparr>dr_address = base + word_of_nat al, dr_bytes = drop al bytes,
                                          dr_reason = DR_Padding\<rparr>]
                      else bl_ranges b)\<rparr>)))"

definition disassemble_recursive :: "u64 \<Rightarrow> bytes \<Rightarrow> u64 list \<Rightarrow> disassembly option" where
  "disassemble_recursive base bytes entry_points =
     build_disassembly base bytes (classify base bytes entry_points)"

definition entry_address :: "timeline_entry \<Rightarrow> u64" where
  "entry_address e = (case e of TE_Instruction i \<Rightarrow> di_address i | TE_Data r \<Rightarrow> dr_address r)"

definition timeline :: "disassembly \<Rightarrow> timeline_entry list" where
  "timeline d =
     map snd (sort_key fst
       (map (\<lambda>i. (di_address i, TE_Instruction i)) (da_instructions d) @
        map (\<lambda>r. (dr_address r, TE_Data r)) (da_data_ranges d)))"

section \<open>The pieces in address order\<close>

definition entry_bytes :: "timeline_entry \<Rightarrow> bytes" where
  "entry_bytes e = (case e of TE_Instruction i \<Rightarrow> to_le_bytes (di_word i) | TE_Data r \<Rightarrow> dr_bytes r)"

text \<open>Entries that cover the offsets from \<open>off\<close> to \<open>to\<close> of the slice without gap or overlap.\<close>

fun tiles :: "bytes \<Rightarrow> u64 \<Rightarrow> nat \<Rightarrow> timeline_entry list \<Rightarrow> nat \<Rightarrow> bool" where
  "tiles bytes base off [] to = (off = to)"
| "tiles bytes base off (e # es) to =
     (entry_address e = base + word_of_nat off \<and> entry_bytes e \<noteq> [] \<and>
      off + length (entry_bytes e) \<le> length bytes \<and>
      entry_bytes e = take (length (entry_bytes e)) (drop off bytes) \<and>
      tiles bytes base (off + length (entry_bytes e)) es to)"

lemma tiles_append:
  "tiles bytes base off (es @ fs) to \<longleftrightarrow> (\<exists>mid. tiles bytes base off es mid \<and> tiles bytes base mid fs to)"
  by (induction es arbitrary: off) auto

lemma tiles_le: "tiles bytes base off es to \<Longrightarrow> off \<le> to"
  by (induction es arbitrary: off) (auto dest: add_leD1)

lemma tiles_bytes:
  "tiles bytes base off es to \<Longrightarrow> concat (map entry_bytes es) = take (to - off) (drop off bytes)"
proof (induction es arbitrary: off)
  case (Cons e es)
  let ?n = "length (entry_bytes e)"
  have "off + ?n \<le> to" using Cons.prems tiles_le by fastforce
  then have "take (to - off) (drop off bytes) =
      take ?n (drop off bytes) @ take (to - (off + ?n)) (drop (off + ?n) bytes)"
  proof -
    have e: "to - off = ?n + (to - (off + ?n))" using \<open>off + ?n \<le> to\<close> by simp
    show ?thesis by (subst e) (simp only: take_add drop_drop add.commute)
  qed
  then show ?case using Cons by simp
qed simp

lemma tiles_addresses:
  assumes "tiles bytes base off es to" "unat base + length bytes < 2 ^ 64"
  shows "sorted_wrt (<) (map entry_address es) \<and> (\<forall>e\<in>set es. base + word_of_nat off \<le> entry_address e)"
  using assms
proof (induction es arbitrary: off)
  case (Cons e es)
  have u: "unat (base + word_of_nat n) = unat base + n" if "n \<le> length bytes" for n
    using that assms(2) by (simp add: unat_word_ariths unat_of_nat)
  have o: "off + length (entry_bytes e) \<le> length bytes" "0 < length (entry_bytes e)" using Cons.prems(1) by auto
  then have "base + word_of_nat off < base + word_of_nat (off + length (entry_bytes e))"
    using o(2) by (simp only: word_less_nat_alt u [OF o(1)] u [of off, OF order_trans [OF le_add1 o(1)]])
  then show ?case using Cons.IH [of "off + length (entry_bytes e)"] Cons.prems by force
qed simp

definition entry_instructions :: "timeline_entry list \<Rightarrow> decoded_instruction list" where
  "entry_instructions es = List.map_filter (\<lambda>e. case e of TE_Instruction i \<Rightarrow> Some i | TE_Data _ \<Rightarrow> None) es"

definition entry_ranges :: "timeline_entry list \<Rightarrow> data_range list" where
  "entry_ranges es = List.map_filter (\<lambda>e. case e of TE_Instruction _ \<Rightarrow> None | TE_Data r \<Rightarrow> Some r) es"

lemma entry_parts [simp]:
  "entry_instructions [] = []" "entry_ranges [] = []"
  "entry_instructions (es @ [TE_Instruction i]) = entry_instructions es @ [i]"
  "entry_instructions (es @ [TE_Data r]) = entry_instructions es"
  "entry_ranges (es @ [TE_Instruction i]) = entry_ranges es"
  "entry_ranges (es @ [TE_Data r]) = entry_ranges es @ [r]"
  by (simp_all add: entry_instructions_def entry_ranges_def map_filter_def)

text \<open>Sorting the two parts of a sorted sequence puts it back together.\<close>

lemma timeline_of_parts:
  assumes "sorted_wrt (<) (map entry_address es)"
  shows "timeline \<lparr>da_instructions = entry_instructions es, da_data_ranges = entry_ranges es\<rparr> = es"
proof -
  let ?k = "\<lambda>e. (entry_address e, e)"
  let ?xs = "map (\<lambda>i. (di_address i, TE_Instruction i)) (entry_instructions es) @
    map (\<lambda>r. (dr_address r, TE_Data r)) (entry_ranges es)"
  have m: "mset ?xs = mset (map ?k es)"
  proof (induction es rule: rev_induct)
    case (snoc e es)
    then show ?case by (cases e) (simp_all add: entry_address_def)
  qed simp
  have "sort_key fst ?xs = map ?k es"
  proof (rule sort_key_inj_key_eq [OF m])
    have "set ?xs = set (map ?k es)" by (rule mset_eq_setD [OF m])
    moreover have "distinct (map fst (map ?k es))" using assms by (simp add: o_def strict_sorted_iff)
    ultimately show "inj_on fst (set ?xs)" by (simp only: distinct_map)
    show "sorted (map fst (map ?k es))"
      using assms by (simp add: o_def strict_sorted_imp_sorted)
  qed
  then show ?thesis by (simp add: timeline_def o_def)
qed

section \<open>The loop\<close>

text \<open>A status map that describes the slice.\<close>

definition status_ok :: "bytes \<Rightarrow> u64 \<Rightarrow> status_map \<Rightarrow> bool" where
  "status_ok bytes base status \<longleftrightarrow>
     (\<forall>a d. status a = Some (S_Decoded d) \<longrightarrow> di_address d = a \<and> di_word d = word_at base bytes a)"

lemma classify_status_ok: "status_ok bytes base (classify base bytes entries)"
proof -
  note inv = classify_inv_final [of base bytes entries, unfolded classify_inv_def]
  show ?thesis
    unfolding status_ok_def
  proof (intro allI impI)
    fix a d assume "classify base bytes entries a = Some (S_Decoded d)"
    then have "S_Decoded d = outcome base bytes a" using inv by blast
    then have "decode_instruction a (word_at base bytes a) = Ok d"
      by (auto simp: outcome_def split: sum.splits)
    then show "di_address d = a \<and> di_word d = word_at base bytes a" by (rule decode_instruction_keeps)
  qed
qed

text \<open>
  The entries collected so far, as a ghost sequence: they cover the slice up to the start of the
  data range being accumulated, or up to the current offset when there is none.
\<close>

definition build_inv :: "bytes \<Rightarrow> u64 \<Rightarrow> timeline_entry list \<Rightarrow> nat \<Rightarrow> builder \<Rightarrow> bool" where
  "build_inv bytes base es offset b \<longleftrightarrow>
     bl_instructions b = entry_instructions es \<and> bl_ranges b = entry_ranges es \<and>
     (case (bl_start b, bl_reason b) of
        (None, None) \<Rightarrow> tiles bytes base 0 es offset
      | (Some start, Some _) \<Rightarrow>
          (\<exists>so. start = base + word_of_nat so \<and> so < offset \<and> tiles bytes base 0 es so)
      | _ \<Rightarrow> False)"

lemma unat_offset:
  assumes "unat base + length bytes < 2 ^ 64" "off \<le> length bytes"
  shows "unat (base + word_of_nat off - base :: u64) = off"
  using assms by (simp add: unat_of_nat)

lemma flush_inv:
  assumes inv: "build_inv bytes base es offset b"
    and fit: "unat base + length bytes < 2 ^ 64" "offset \<le> length bytes"
  shows "\<exists>b' es'. flush_data bytes base (base + word_of_nat offset) b = Some b' \<and>
    build_inv bytes base es' offset b' \<and> bl_start b' = None \<and> bl_reason b' = None"
proof (cases "bl_start b")
  case None
  then have "build_inv bytes base es offset (b\<lparr>bl_reason := None\<rparr>)"
    using inv by (auto simp: build_inv_def split: option.splits)
  then show ?thesis using None by (auto simp: flush_data_def)
next
  case (Some start)
  then obtain reason so where so: "bl_reason b = Some reason" "start = base + word_of_nat so" "so < offset"
    "tiles bytes base 0 es so"
    using inv by (auto simp: build_inv_def split: option.splits)
  let ?r = "\<lparr>dr_address = start, dr_bytes = take (offset - so) (drop so bytes), dr_reason = reason\<rparr>"
  let ?b = "b\<lparr>bl_start := None, bl_reason := None, bl_ranges := bl_ranges b @ [?r]\<rparr>"
  have "flush_data bytes base (base + word_of_nat offset) b = Some ?b"
    using Some so fit unat_offset [OF fit(1), of so] unat_offset [OF fit]
    by (simp add: flush_data_def byte_slice_def)
  moreover have "tiles bytes base 0 (es @ [TE_Data ?r]) offset"
    using so fit by (auto simp: tiles_append entry_address_def entry_bytes_def)
  then have "build_inv bytes base (es @ [TE_Data ?r]) offset ?b"
    using inv by (simp add: build_inv_def)
  ultimately show ?thesis by force
qed

lemma accumulate_inv:
  assumes inv: "build_inv bytes base es offset b"
    and fit: "unat base + length bytes < 2 ^ 64" "offset \<le> length bytes"
  shows "\<exists>b' es'. accumulate bytes base (base + word_of_nat offset) reason b = Some b' \<and>
    build_inv bytes base es' (offset + 4) b'"
proof -
  have start: "build_inv bytes base es' (offset + 4) (b'\<lparr>bl_start := Some (base + word_of_nat offset), bl_reason := Some r\<rparr>)"
    if "build_inv bytes base es' offset b'" "bl_start b' = None" for es' b' r
    using that by (auto simp: build_inv_def split: option.splits)
  show ?thesis
  proof (cases "bl_reason b \<noteq> None \<and> bl_reason b \<noteq> Some reason")
    case True
    obtain b' es' where b: "flush_data bytes base (base + word_of_nat offset) b = Some b'"
      "build_inv bytes base es' offset b'" "bl_start b' = None"
      using flush_inv [OF inv fit] by blast
    then show ?thesis using True start [OF b(2,3)] by (auto simp: accumulate_def)
  next
    case False
    show ?thesis
    proof (cases "bl_start b")
      case None
      then show ?thesis using False start [OF inv None] by (auto simp: accumulate_def)
    next
      case (Some s)
      then have "build_inv bytes base es (offset + 4) b"
        using inv by (auto simp: build_inv_def split: option.splits intro: less_trans)
      then show ?thesis using Some False by (auto simp: accumulate_def)
    qed
  qed
qed

lemma word_at_bytes:
  assumes "unat base + length bytes < 2 ^ 64" "off + 4 \<le> length bytes"
  shows "to_le_bytes (word_at base bytes (base + word_of_nat off)) = take 4 (drop off bytes)"
proof -
  have "take 4 (drop off bytes) = [bytes ! off, bytes ! (off + 1), bytes ! (off + 2), bytes ! (off + 3)]"
    using assms(2) by (simp add: take_Suc_conv_app_nth numeral_eq_Suc)
  then show ?thesis using unat_offset [OF assms(1), of off] assms(2) by (simp add: word_at_def Let_def)
qed

lemma build_step_inv:
  assumes inv: "build_inv bytes base es offset b" and ok: "status_ok bytes base status"
    and fit: "unat base + length bytes < 2 ^ 64" "offset + 4 \<le> length bytes"
  shows "\<exists>b' es'. build_step bytes base status (base + word_of_nat offset) b = Some b' \<and>
    build_inv bytes base es' (offset + 4) b'"
proof -
  have o: "offset \<le> length bytes" using fit(2) by simp
  show ?thesis
  proof (cases "status (base + word_of_nat offset)")
    case None
    then show ?thesis using accumulate_inv [OF inv fit(1) o] by (simp add: build_step_def)
  next
    case (Some s)
    show ?thesis
    proof (cases s)
      case S_DecodeError
      then show ?thesis using accumulate_inv [OF inv fit(1) o] Some by (simp add: build_step_def)
    next
      case (S_Decoded d)
      obtain b' es' where b: "flush_data bytes base (base + word_of_nat offset) b = Some b'"
        "build_inv bytes base es' offset b'" "bl_start b' = None" "bl_reason b' = None"
        using flush_inv [OF inv fit(1) o] by blast
      have d: "di_address d = base + word_of_nat offset" "to_le_bytes (di_word d) = take 4 (drop offset bytes)"
        using ok Some S_Decoded word_at_bytes [OF fit] by (auto simp: status_ok_def)
      have "length (take 4 (drop offset bytes)) = 4" using fit(2) by simp
      then have "tiles bytes base offset [TE_Instruction d] (offset + 4)"
        using d fit(2) length_to_le_bytes [of "di_word d"] by (auto simp: entry_address_def entry_bytes_def)
      then have "build_inv bytes base (es' @ [TE_Instruction d]) (offset + 4)
          (b'\<lparr>bl_instructions := bl_instructions b' @ [d]\<rparr>)"
        using b(2-4) by (auto simp: build_inv_def tiles_append)
      then show ?thesis using b(1) Some S_Decoded by (auto simp: build_step_def)
    qed
  qed
qed

lemma build_loop_inv:
  assumes "build_inv bytes base es offset b" "status_ok bytes base status" "unat base + length bytes < 2 ^ 64"
    and "offset mod 4 = 0" "offset \<le> aligned_len bytes"
  shows "\<exists>b' es'. build_loop bytes base status offset b = Some b' \<and>
    build_inv bytes base es' (aligned_len bytes) b'"
  using assms
proof (induction bytes base status offset b arbitrary: es rule: build_loop.induct)
  case (1 bytes base status offset b)
  show ?case
  proof (cases "offset < aligned_len bytes")
    case False
    then show ?thesis using "1.prems" by (auto simp: build_loop.simps [of bytes])
  next
    case True
    have al: "aligned_len bytes mod 4 = 0" by (simp add: aligned_len_def)
    then have le: "offset + 4 \<le> aligned_len bytes" using True "1.prems"(4) by presburger
    moreover have "aligned_len bytes \<le> length bytes" by (simp add: aligned_len_def)
    ultimately obtain b' es' where b: "build_step bytes base status (base + word_of_nat offset) b = Some b'"
      "build_inv bytes base es' (offset + 4) b'"
      using build_step_inv [OF "1.prems"(1-3)] by fastforce
    have "(offset + 4) mod 4 = 0" using "1.prems"(4) by presburger
    then show ?thesis using "1.IH" [OF True b(1) b(2) "1.prems"(2,3) _ le] True b(1)
      by (simp add: build_loop.simps [of bytes base status offset b])
  qed
qed

text \<open>Which instructions the loop collects.\<close>

lemma flush_instructions: "flush_data bytes base e b = Some b' \<Longrightarrow> bl_instructions b' = bl_instructions b"
  by (auto simp: flush_data_def split: option.splits prod.splits)

lemma accumulate_instructions: "accumulate bytes base a r b = Some b' \<Longrightarrow> bl_instructions b' = bl_instructions b"
  by (auto simp: accumulate_def bind_eq_Some_conv split: if_splits dest: flush_instructions)

lemma build_step_instructions:
  assumes "build_step bytes base status a b = Some b'"
  shows "set (bl_instructions b') = set (bl_instructions b) \<union> {d. status a = Some (S_Decoded d)}"
  using assms
  by (auto simp: build_step_def bind_eq_Some_conv split: option.splits status.splits
      dest: flush_instructions accumulate_instructions)

lemma build_loop_instructions:
  "build_loop bytes base status offset b = Some b' \<Longrightarrow>
   set (bl_instructions b') = set (bl_instructions b) \<union>
     {d. \<exists>i. offset + 4 * i < aligned_len bytes \<and> status (base + word_of_nat (offset + 4 * i)) = Some (S_Decoded d)}"
proof (induction bytes base status offset b rule: build_loop.induct)
  case (1 bytes base status offset b)
  show ?case
  proof (cases "offset < aligned_len bytes")
    case False
    then show ?thesis using "1.prems" by (auto simp: build_loop.simps [of bytes])
  next
    case True
    then obtain b1 where b: "build_step bytes base status (base + word_of_nat offset) b = Some b1"
      "build_loop bytes base status (offset + 4) b1 = Some b'"
      using "1.prems" by (auto simp: build_loop.simps [of bytes base status offset b] split: option.splits)
    have split: "(\<exists>i. offset + 4 * i < n \<and> P (offset + 4 * i)) \<longleftrightarrow>
        offset < n \<and> P offset \<or> (\<exists>i. offset + 4 + 4 * i < n \<and> P (offset + 4 + 4 * i))" for n P
    proof
      assume "\<exists>i. offset + 4 * i < n \<and> P (offset + 4 * i)"
      then obtain i where "offset + 4 * i < n" "P (offset + 4 * i)" by blast
      then show "offset < n \<and> P offset \<or> (\<exists>i. offset + 4 + 4 * i < n \<and> P (offset + 4 + 4 * i))"
        by (cases i) (auto simp: add.assoc)
    next
      assume "offset < n \<and> P offset \<or> (\<exists>i. offset + 4 + 4 * i < n \<and> P (offset + 4 + 4 * i))"
      then show "\<exists>i. offset + 4 * i < n \<and> P (offset + 4 * i)"
      proof
        assume "offset < n \<and> P offset"
        then show ?thesis by (intro exI [of _ 0]) simp
      next
        assume "\<exists>i. offset + 4 + 4 * i < n \<and> P (offset + 4 + 4 * i)"
        then obtain i where "offset + 4 * Suc i < n" "P (offset + 4 * Suc i)" by (auto simp: add.assoc)
        then show ?thesis by blast
      qed
    qed
    note sp = split [of "aligned_len bytes" "\<lambda>x. status (base + word_of_nat x) = Some (S_Decoded d)" for d]
    show ?thesis
      unfolding "1.IH" [OF True b(1) b(2)] build_step_instructions [OF b(1)] sp using True by blast
  qed
qed

lemma in_range_iff:
  assumes "unat base + length bytes < 2 ^ 64"
  shows "in_range base bytes a \<longleftrightarrow> (\<exists>i. 4 * i < aligned_len bytes \<and> a = base + word_of_nat (4 * i))"
proof
  have le: "aligned_len bytes \<le> length bytes" by (simp add: aligned_len_def)
  have e: "unat (base + word_of_nat n) = unat base + n" if "n \<le> length bytes" for n
    using that assms by (simp add: unat_word_ariths unat_of_nat)
  {
    assume r: "in_range base bytes a"
    then have "base \<le> a" "a < base + word_of_nat (aligned_len bytes)" "(a - base) mod 4 = 0"
      by (simp_all add: in_range_def)
    moreover have "unat (a - base) mod 4 = 0"
    proof -
      have "unat (a - base) mod 4 = unat ((a - base) mod 4)" by (simp add: unat_mod)
      then show ?thesis unfolding \<open>(a - base) mod 4 = 0\<close> by simp
    qed
    moreover from \<open>base \<le> a\<close> have "unat base \<le> unat a" by (simp only: word_le_nat_alt)
    ultimately have "unat (a - base) < aligned_len bytes" "4 dvd unat (a - base)"
      using e [OF le] by (simp_all add: word_less_nat_alt unat_sub_le dvd_eq_mod_eq_0)
    moreover have "a = base + word_of_nat (unat (a - base))" by simp
    ultimately show "\<exists>i. 4 * i < aligned_len bytes \<and> a = base + word_of_nat (4 * i)" by (metis dvdE)
  }
  assume "\<exists>i. 4 * i < aligned_len bytes \<and> a = base + word_of_nat (4 * i)"
  then obtain i where i: "4 * i < aligned_len bytes" "a = base + word_of_nat (4 * i)" by blast
  have "unat a = unat base + 4 * i" using e [of "4 * i"] i le by simp
  moreover have "(a - base) mod 4 = 0"
  proof -
    have u: "unat (a - base) = 4 * i"
      using \<open>unat a = unat base + 4 * i\<close> by (simp add: unat_sub word_le_nat_alt)
    have "unat ((a - base) mod 4) = 4 * i mod 4" unfolding unat_mod u by simp
    then have "unat ((a - base) mod 4) = 0" by simp
    then show ?thesis by (simp only: unat_eq_0)
  qed
  ultimately show "in_range base bytes a"
    using i e [OF le] by (simp add: in_range_def word_le_nat_alt word_less_nat_alt)
qed

section \<open>Properties\<close>

text \<open>C14: recursive disassembly accounts for every byte of the slice, once. Unless the slice
  reaches the end of the address space, disassembly does not panic; the timeline of its
  instructions and data ranges is strictly ordered by address and tiles the slice without gap or
  overlap, so that its bytes written one after the other are the input; and the instructions are
  exactly the words that are reached from an entry point and decode.\<close>

theorem disassembly_covers:
  assumes "unat base + length bytes < 2 ^ 64"
  shows "\<exists>d. disassemble_recursive base bytes entries = Some d \<and>
    tiles bytes base 0 (timeline d) (length bytes) \<and>
    concat (map entry_bytes (timeline d)) = bytes \<and>
    sorted_wrt (<) (map entry_address (timeline d)) \<and>
    set (da_instructions d) =
      {i. reached base bytes entries (di_address i) \<and>
          decode_instruction (di_address i) (word_at base bytes (di_address i)) = Ok i}"
proof -
  let ?st = "classify base bytes entries" and ?al = "aligned_len bytes"
  let ?b0 = "\<lparr>bl_instructions = [], bl_ranges = [], bl_start = None, bl_reason = None\<rparr>"
  have ok: "status_ok bytes base ?st" by (rule classify_status_ok)
  have le: "?al \<le> length bytes" by (simp add: aligned_len_def)
  have "build_inv bytes base [] 0 ?b0" by (simp add: build_inv_def)
  then obtain b es where b: "build_loop bytes base ?st 0 ?b0 = Some b" "build_inv bytes base es ?al b"
    using build_loop_inv [OF _ ok assms, of "[]" 0 ?b0] by auto
  obtain b' es' where b': "flush_data bytes base (base + word_of_nat ?al) b = Some b'"
    "build_inv bytes base es' ?al b'" "bl_start b' = None" "bl_reason b' = None"
    using flush_inv [OF b(2) assms le] by blast
  define pad where "pad = (if ?al < length bytes
    then [TE_Data \<lparr>dr_address = base + word_of_nat ?al, dr_bytes = drop ?al bytes, dr_reason = DR_Padding\<rparr>] else [])"
  let ?es = "es' @ pad"
  let ?d = "\<lparr>da_instructions = entry_instructions ?es, da_data_ranges = entry_ranges ?es\<rparr>"
  have "disassemble_recursive base bytes entries = Some ?d"
    using b(1) b'(1,2) by (simp add: disassemble_recursive_def build_disassembly_def Let_def build_inv_def pad_def)
  moreover have t: "tiles bytes base 0 ?es (length bytes)"
    using b'(2-4) le by (auto simp: build_inv_def tiles_append pad_def entry_address_def entry_bytes_def)
  moreover have s: "sorted_wrt (<) (map entry_address ?es)" using tiles_addresses [OF t assms] by simp
  moreover note tl = timeline_of_parts [OF s]
  moreover have "concat (map entry_bytes ?es) = bytes" using tiles_bytes [OF t] by simp
  moreover have "set (entry_instructions ?es) =
      {i. reached base bytes entries (di_address i) \<and>
          decode_instruction (di_address i) (word_at base bytes (di_address i)) = Ok i}"
  proof -
    have "set (entry_instructions ?es) = set (bl_instructions b)"
      using b'(2) flush_instructions [OF b'(1)] by (auto simp: build_inv_def pad_def)
    also have "\<dots> = {d. \<exists>a. in_range base bytes a \<and> ?st a = Some (S_Decoded d)}"
      using build_loop_instructions [OF b(1)] unfolding in_range_iff [OF assms] by auto
    also have "\<dots> = {d. ?st (di_address d) = Some (S_Decoded d)}"
    proof -
      have "in_range base bytes a" if "reached base bytes entries a" for a
        using that by cases (auto simp: flow_edge_def)
      then show ?thesis
        using ok classify_eq by (auto simp: status_ok_def split: if_splits)
    qed
    also have "\<dots> = {i. reached base bytes entries (di_address i) \<and>
          decode_instruction (di_address i) (word_at base bytes (di_address i)) = Ok i}"
    proof -
      have "outcome base bytes a = S_Decoded i \<longleftrightarrow> decode_instruction a (word_at base bytes a) = Ok i" for a i
        by (cases "decode_instruction a (word_at base bytes a)") (simp_all add: outcome_def)
      then show ?thesis by (auto simp: classify_eq)
    qed
    finally show ?thesis .
  qed
  ultimately show ?thesis by auto
qed

theorem disassembly_covers_witness:
  "unat (0x1000 :: u64) + length [0xc0 :: u8, 0x03, 0x5f, 0xd6, 0xff, 0xff, 0xff, 0xff, 0, 0] < 2 ^ 64 \<and>
   (\<exists>d. disassemble_recursive 0x1000 [0xc0, 0x03, 0x5f, 0xd6, 0xff, 0xff, 0xff, 0xff, 0, 0] [0x1000] = Some d \<and>
     concat (map entry_bytes (timeline d)) = [0xc0, 0x03, 0x5f, 0xd6, 0xff, 0xff, 0xff, 0xff, 0, 0])"
  using disassembly_covers [of "0x1000" "[0xc0, 0x03, 0x5f, 0xd6, 0xff, 0xff, 0xff, 0xff, 0, 0]" "[0x1000]"]
  by auto

end
