(* ===== verification/Container_Types.thy ===== *)
theory Container_Types
  imports Prelude
begin

text \<open>
  The neutral container model (\<open>src/src/container/types.rs\<close>) with the format-specific companions it
  carries (\<open>elf_image.rs\<close>, the structs of \<open>macho_image.rs\<close> and \<open>pe_image.rs\<close>): sections, symbols,
  relocations, functions, and the queries the analyses and the rewriter ask. The identifiers are
  indices (\<open>nat\<close>); indexing a vector with one out of range panics in the source and is \<open>None\<close> here.
\<close>

section \<open>Identifiers and enums\<close>

type_synonym section_id = nat
type_synonym symbol_id = nat
type_synonym relocation_id = nat

datatype binary_format = BF_Macho | BF_Elf | BF_Pe

datatype architecture = Arch_Aarch64 | Arch_Arm | Arch_X86_64 | Arch_X86 | Arch_Other

datatype section_kind = SK_Text | SK_Data | SK_Rodata | SK_Bss | SK_Debug | SK_Other

datatype section_flags = SF_Elf u64

datatype symbol_kind = SyK_Function | SyK_Object | SyK_Section | SyK_File | SyK_Unknown

datatype symbol_binding = SB_Local | SB_Global | SB_Weak | SB_Unknown

datatype symbol_extra_flags = SXF_Elf u8 u8

datatype relocation_kind =
    RK_Branch26
  | RK_Branch19
  | RK_Branch14
  | RK_AdrpPage21
  | RK_AddPageOffset12
  | RK_LoadStorePageOffset12 u8
  | RK_Absolute
  | RK_ArmCall
  | RK_ArmJump24
  | RK_ArmPc24
  | RK_ArmRelative
  | RK_ArmGlobData
  | RK_ArmJumpSlot
  | RK_ArmAbs32
  | RK_ArmMovwAbsNc
  | RK_ArmMovtAbs
  | RK_ThumbCall
  | RK_ThumbJump24
  | RK_ThumbJump19
  | RK_ThumbMovwAbsNc
  | RK_ThumbMovtAbs
  | RK_X86Pc32
  | RK_X86Plt32
  | RK_X86GotPcRel
  | RK_X86Abs32
  | RK_X86Abs64
  | RK_Other u32

datatype function_provenance = FP_Symbol | FP_Dwarf

datatype container_kind = CK_Relocatable | CK_SharedObject | CK_Executable | CK_Other

datatype file_flags = FF_Elf u8 u8 u32

section \<open>Sections, symbols, relocations\<close>

record container_section =
  sec_id :: section_id
  sec_name :: string
  sec_address :: u64
  sec_size :: u64
  sec_bytes :: bytes
  sec_kind :: section_kind
  sec_align :: u64
  sec_flags :: "section_flags option"
  sec_raw_sh_type :: "u32 option"

record symbol =
  sym_id :: symbol_id
  sym_name :: string
  sym_address :: u64
  sym_size :: u64
  sym_kind :: symbol_kind
  sym_binding :: symbol_binding
  sym_section :: "section_id option"
  sym_is_undefined :: bool
  sym_flags :: "symbol_extra_flags option"

record relocation =
  rel_id :: relocation_id
  rel_section :: section_id
  rel_offset :: u64
  rel_kind :: relocation_kind
  rel_size :: u8
  rel_addend :: i64
  rel_symbol :: "symbol_id option"

record cfunction =
  cfn_name :: string
  cfn_address :: u64
  cfn_size :: u64
  cfn_section :: section_id
  cfn_provenance :: function_provenance

record dwarf_function =
  df_name :: string
  df_address :: u64
  df_size :: u64
  df_source_file :: "string option"
  df_source_line :: "u32 option"

record dwarf_info =
  dw_functions :: "dwarf_function list"

section \<open>The ELF image\<close>

record program_header =
  p_type :: u32
  p_flags :: u32
  p_offset :: u64
  p_vaddr :: u64
  p_paddr :: u64
  p_filesz :: u64
  p_memsz :: u64
  p_align :: u64

record dynamic_entry =
  dyn_tag :: u64
  dyn_value :: u64

record raw_section_bytes =
  rsb_section :: section_id
  rsb_bytes :: bytes

record raw_note_section =
  rns_section :: section_id
  rns_name :: string
  rns_bytes :: bytes

record section_layout =
  sh_offset :: u64
  sh_size :: u64
  sh_link :: u32
  sh_info :: u32
  sh_entsize :: u64

record elf_image =
  ei_program_headers :: "program_header list"
  ei_dynamic :: "dynamic_entry list"
  ei_dynamic_section :: "section_id option"
  ei_gnu_hash :: "raw_section_bytes option"
  ei_sysv_hash :: "raw_section_bytes option"
  ei_gnu_versym :: "raw_section_bytes option"
  ei_gnu_verdef :: "raw_section_bytes option"
  ei_gnu_verneed :: "raw_section_bytes option"
  ei_eh_frame_hdr :: "raw_section_bytes option"
  ei_interp :: "string option"
  ei_build_id :: "bytes option"
  ei_other_notes :: "raw_note_section list"
  ei_dynsym :: "raw_section_bytes option"
  ei_dynstr :: "raw_section_bytes option"
  ei_section_order :: "section_id list"
  ei_section_layout :: "section_layout list"
  ei_e_entry :: u64
  ei_plt_stubs :: "symbol_id \<rightharpoonup> u64"
  ei_segment_sections :: "section_id list list"

definition elf_image_new :: elf_image where
  "elf_image_new =
     \<lparr>ei_program_headers = [], ei_dynamic = [], ei_dynamic_section = None, ei_gnu_hash = None,
      ei_sysv_hash = None, ei_gnu_versym = None, ei_gnu_verdef = None, ei_gnu_verneed = None,
      ei_eh_frame_hdr = None, ei_interp = None, ei_build_id = None, ei_other_notes = [],
      ei_dynsym = None, ei_dynstr = None, ei_section_order = [], ei_section_layout = [],
      ei_e_entry = 0, ei_plt_stubs = Map.empty, ei_segment_sections = []\<rparr>"

section \<open>The Mach-O image\<close>

record macho_segment =
  seg_name :: string
  seg_vmaddr :: u64
  seg_vmsize :: u64
  seg_fileoff :: u64
  seg_filesize :: u64
  seg_maxprot :: u32
  seg_initprot :: u32
  seg_flags :: u32

record macho_section =
  ms_sectname :: string
  ms_segname :: string
  ms_vaddr :: u64
  ms_size :: u64
  ms_file_offset :: u64
  ms_flags :: u32
  ms_reserved1 :: u32
  ms_reserved2 :: u32

record macho_linkedit_data =
  ld_dataoff :: u64
  ld_datasize :: u64

record macho_symtab =
  st_symoff :: u64
  st_nsyms :: u32
  st_stroff :: u64
  st_strsize :: u32

record macho_dysymtab =
  ds_ilocalsym :: u32
  ds_nlocalsym :: u32
  ds_iextdefsym :: u32
  ds_nextdefsym :: u32
  ds_iundefsym :: u32
  ds_nundefsym :: u32
  ds_indirectsymoff :: u32
  ds_nindirectsyms :: u32

record macho_build_version =
  bv_platform :: u32
  bv_minos :: u32
  bv_sdk :: u32

record macho_layout =
  ml_ncmds :: u32
  ml_sizeofcmds :: u32
  ml_load_commands_offset :: u64
  ml_segments :: "macho_segment list"
  ml_sections :: "macho_section list"
  ml_code_signature :: "macho_linkedit_data option"
  ml_exports_trie :: "macho_linkedit_data option"
  ml_symtab :: "macho_symtab option"
  ml_dysymtab :: "macho_dysymtab option"
  ml_build_version :: "macho_build_version option"
  ml_chained_fixups :: "macho_linkedit_data option"
  ml_function_starts :: "macho_linkedit_data option"

record macho_image =
  mi_raw_bytes :: bytes
  mi_layout :: macho_layout
  mi_stubs :: "symbol_id \<rightharpoonup> u64"
  mi_import_pointers :: "symbol_id \<rightharpoonup> u64"

section \<open>The PE image\<close>

record pe_section_file =
  psf_name :: string
  psf_file_offset :: u64
  psf_file_size :: u64

record pe_import =
  pi_library :: string
  pi_name :: "string option"
  pi_ordinal :: "16 word option"
  pi_iat_address :: u64

record pe_export =
  pe_name :: "string option"
  pe_ordinal :: u32
  pe_address :: u64
  pe_forward :: "string option"

record pe_base_reloc =
  pbr_address :: u64
  pbr_typ :: "16 word"

record pe_image =
  pei_raw_bytes :: bytes
  pei_sections :: "pe_section_file list"
  pei_image_base :: u64
  pei_entry_point :: u64
  pei_imports :: "pe_import list"
  pei_exports :: "pe_export list"
  pei_base_relocs :: "pe_base_reloc list"

definition section_by_name :: "pe_image \<Rightarrow> string \<Rightarrow> pe_section_file option" where
  "section_by_name img name = List.find (\<lambda>s. psf_name s = name) (pei_sections img)"

section \<open>The container and its queries\<close>

record container =
  c_format :: binary_format
  c_architecture :: architecture
  c_kind :: container_kind
  c_sections :: "container_section list"
  c_symbols :: "symbol list"
  c_relocations :: "relocation list"
  c_file_flags :: "file_flags option"
  c_elf_image :: "elf_image option"
  c_macho_image :: "macho_image option"
  c_pe_image :: "pe_image option"
  c_dwarf :: "dwarf_info option"

definition for_disassembly :: "container_section \<Rightarrow> (u64 \<times> bytes) option" where
  "for_disassembly s = (if sec_kind s = SK_Text then Some (sec_address s, sec_bytes s) else None)"

definition is_64 :: "container \<Rightarrow> bool" where
  "is_64 c = (c_architecture c = Arch_Aarch64)"

definition container_section_at :: "container \<Rightarrow> section_id \<Rightarrow> container_section option" where
  "container_section_at c i = vec_get (c_sections c) i"

definition container_symbol :: "container \<Rightarrow> symbol_id \<Rightarrow> symbol option" where
  "container_symbol c i = vec_get (c_symbols c) i"

definition container_relocation :: "container \<Rightarrow> relocation_id \<Rightarrow> relocation option" where
  "container_relocation c i = vec_get (c_relocations c) i"

definition text_sections :: "container \<Rightarrow> container_section list" where
  "text_sections c = filter (\<lambda>s. sec_kind s = SK_Text) (c_sections c)"

definition relocations_for :: "container \<Rightarrow> section_id \<Rightarrow> relocation list" where
  "relocations_for c i = filter (\<lambda>r. rel_section r = i) (c_relocations c)"

definition defined_symbols :: "container \<Rightarrow> symbol list" where
  "defined_symbols c = filter (\<lambda>s. \<not> sym_is_undefined s) (c_symbols c)"

definition function_symbol_at :: "container \<Rightarrow> u64 \<Rightarrow> symbol option" where
  "function_symbol_at c address =
     List.find (\<lambda>s. sym_kind s = SyK_Function \<and> sym_address s = address \<and> \<not> sym_is_undefined s) (c_symbols c)"

definition symbol_at_address :: "container \<Rightarrow> u64 \<Rightarrow> symbol option" where
  "symbol_at_address c address =
     List.find (\<lambda>s. \<not> sym_is_undefined s \<and> sym_address s = address) (c_symbols c)"

definition address_of_symbol :: "container \<Rightarrow> symbol_id \<Rightarrow> u64 option" where
  "address_of_symbol c i =
     Option.bind (vec_get (c_symbols c) i) (\<lambda>s. if sym_is_undefined s then None else Some (sym_address s))"

definition callable_address_of_symbol :: "container \<Rightarrow> symbol_id \<Rightarrow> u64 option" where
  "callable_address_of_symbol c i =
     (case address_of_symbol c i of
        Some a \<Rightarrow> Some a
      | None \<Rightarrow>
          (case Option.bind (c_elf_image c) (\<lambda>img. ei_plt_stubs img i) of
             Some a \<Rightarrow> Some a
           | None \<Rightarrow> Option.bind (c_macho_image c) (\<lambda>img. mi_stubs img i)))"

definition section_contains :: "container_section \<Rightarrow> u64 \<Rightarrow> bool" where
  "section_contains s address =
     (sec_size s > 0 \<and> address \<ge> sec_address s \<and> address < sec_address s + sec_size s)"

definition section_for_address :: "container \<Rightarrow> u64 \<Rightarrow> section_id option" where
  "section_for_address c address =
     map_option sec_id (List.find (\<lambda>s. section_contains s address) (c_sections c))"

definition symbol_function :: "symbol \<Rightarrow> cfunction option" where
  "symbol_function s =
     Option.bind (sym_section s)
       (\<lambda>sec. Some \<lparr>cfn_name = sym_name s, cfn_address = sym_address s, cfn_size = sym_size s,
                    cfn_section = sec, cfn_provenance = FP_Symbol\<rparr>)"

fun add_dwarf_functions :: "container \<Rightarrow> dwarf_function list \<Rightarrow> cfunction list \<Rightarrow> cfunction list" where
  "add_dwarf_functions c [] functions = functions"
| "add_dwarf_functions c (entry # entries) functions =
     (if \<exists>f\<in>set functions. cfn_address f = df_address entry then add_dwarf_functions c entries functions
      else
        case section_for_address c (df_address entry) of
          None \<Rightarrow> add_dwarf_functions c entries functions
        | Some sec \<Rightarrow>
            add_dwarf_functions c entries
              (functions @ [\<lparr>cfn_name = df_name entry, cfn_address = df_address entry, cfn_size = df_size entry,
                             cfn_section = sec, cfn_provenance = FP_Dwarf\<rparr>]))"

definition container_functions :: "container \<Rightarrow> cfunction list" where
  "container_functions c =
     (let functions = List.map_filter symbol_function
            (filter (\<lambda>s. sym_kind s = SyK_Function) (defined_symbols c))
      in case c_dwarf c of
           None \<Rightarrow> functions
         | Some dwarf \<Rightarrow> add_dwarf_functions c (dw_functions dwarf) functions)"

definition with_section_bytes :: "container \<Rightarrow> section_id \<Rightarrow> bytes \<Rightarrow> container option" where
  "with_section_bytes c i new_bytes =
     map_option
       (\<lambda>s. c\<lparr>c_sections := (c_sections c)[i := s\<lparr>sec_size := word_of_nat (length new_bytes), sec_bytes := new_bytes\<rparr>]\<rparr>)
       (vec_get (c_sections c) i)"

section \<open>Facts\<close>

lemma address_of_symbol_callable:
  "address_of_symbol c i = Some a \<Longrightarrow> callable_address_of_symbol c i = Some a"
  by (simp add: callable_address_of_symbol_def)

lemma symbol_at_address_SomeD:
  assumes "symbol_at_address c a = Some s"
  shows "s \<in> set (c_symbols c)" "\<not> sym_is_undefined s" "sym_address s = a"
  using assms by (auto simp: symbol_at_address_def find_Some_iff)

lemma section_for_address_SomeD:
  assumes "section_for_address c a = Some i"
  shows "\<exists>s\<in>set (c_sections c). sec_id s = i \<and> section_contains s a"
  using assms by (auto simp: section_for_address_def find_Some_iff)

lemma section_for_address_None:
  "section_for_address c a = None \<longleftrightarrow> (\<forall>s\<in>set (c_sections c). \<not> section_contains s a)"
  by (auto simp: section_for_address_def find_None_iff)

text \<open>The functions the symbol table gives, and what debug information may add to a list.\<close>

definition symbol_functions :: "container \<Rightarrow> cfunction list" where
  "symbol_functions c =
     List.map_filter symbol_function (filter (\<lambda>s. sym_kind s = SyK_Function) (defined_symbols c))"

definition from_dwarf :: "container \<Rightarrow> dwarf_function list \<Rightarrow> cfunction \<Rightarrow> bool" where
  "from_dwarf c entries f \<longleftrightarrow>
     cfn_provenance f = FP_Dwarf \<and>
     (\<exists>e\<in>set entries. cfn_name f = df_name e \<and> cfn_address f = df_address e \<and> cfn_size f = df_size e) \<and>
     (\<exists>s\<in>set (c_sections c). sec_id s = cfn_section f \<and> section_contains s (cfn_address f))"

definition dwarf_entries :: "container \<Rightarrow> dwarf_function list" where
  "dwarf_entries c = (case c_dwarf c of None \<Rightarrow> [] | Some dwarf \<Rightarrow> dw_functions dwarf)"

lemma add_dwarf_functions_spec:
  "\<exists>added. add_dwarf_functions c entries fs = fs @ added \<and>
     list_all (from_dwarf c entries) added \<and>
     distinct (map cfn_address added) \<and> set (map cfn_address added) \<inter> set (map cfn_address fs) = {} \<and>
     (\<forall>e\<in>set entries. df_address e \<in> set (map cfn_address (fs @ added)) \<or>
        section_for_address c (df_address e) = None)"
proof (induction c entries fs rule: add_dwarf_functions.induct)
  case (2 c e es fs)
  have mono: "from_dwarf c es f \<Longrightarrow> from_dwarf c (e # es) f" for f by (auto simp: from_dwarf_def)
  consider "\<exists>f\<in>set fs. cfn_address f = df_address e" | "\<not> (\<exists>f\<in>set fs. cfn_address f = df_address e)" "section_for_address c (df_address e) = None"
    | i where "\<not> (\<exists>f\<in>set fs. cfn_address f = df_address e)" "section_for_address c (df_address e) = Some i"
    by blast
  then show ?case
  proof cases
    case 1
    from "2.IH"(1) [OF 1] obtain added where "add_dwarf_functions c es fs = fs @ added"
      "list_all (from_dwarf c es) added" "distinct (map cfn_address added)"
      "set (map cfn_address added) \<inter> set (map cfn_address fs) = {}"
      "\<forall>e\<in>set es. df_address e \<in> set (map cfn_address (fs @ added)) \<or> section_for_address c (df_address e) = None"
      by blast
    moreover have "df_address e \<in> cfn_address ` set fs" using 1 by force
    ultimately show ?thesis using 1 mono by (intro exI [of _ added]) (auto simp: list_all_iff)
  next
    case 2
    from "2.IH"(2) [OF 2] obtain added where "add_dwarf_functions c es fs = fs @ added"
      "list_all (from_dwarf c es) added" "distinct (map cfn_address added)"
      "set (map cfn_address added) \<inter> set (map cfn_address fs) = {}"
      "\<forall>e\<in>set es. df_address e \<in> set (map cfn_address (fs @ added)) \<or> section_for_address c (df_address e) = None"
      by blast
    then show ?thesis using 2 mono by (intro exI [of _ added]) (auto simp: list_all_iff)
  next
    case 3
    let ?f = "\<lparr>cfn_name = df_name e, cfn_address = df_address e, cfn_size = df_size e, cfn_section = i, cfn_provenance = FP_Dwarf\<rparr>"
    from "2.IH"(3) [OF 3] obtain added where "add_dwarf_functions c es (fs @ [?f]) = (fs @ [?f]) @ added"
      "list_all (from_dwarf c es) added" "distinct (map cfn_address added)"
      "set (map cfn_address added) \<inter> set (map cfn_address (fs @ [?f])) = {}"
      "\<forall>e\<in>set es. df_address e \<in> set (map cfn_address ((fs @ [?f]) @ added)) \<or> section_for_address c (df_address e) = None"
      by blast
    moreover have "from_dwarf c (e # es) ?f" using section_for_address_SomeD [OF 3(2)] by (simp add: from_dwarf_def)
    ultimately show ?thesis using 3 mono by (intro exI [of _ "?f # added"]) (auto simp: list_all_iff)
  qed
qed simp

section \<open>Properties\<close>

text \<open>C37: the merged list of functions. It begins with the functions of the symbol table, in its order,
  followed by functions that debug information names and a section contains; none of those has the
  address of another function of the list, and every address debug information names is in the
  list unless no section contains it.\<close>

theorem container_functions_merge:
  "\<exists>added. container_functions c = symbol_functions c @ added \<and>
     list_all (from_dwarf c (dwarf_entries c)) added \<and>
     distinct (map cfn_address added) \<and>
     set (map cfn_address added) \<inter> set (map cfn_address (symbol_functions c)) = {} \<and>
     df_address ` set (dwarf_entries c) \<subseteq>
       set (map cfn_address (container_functions c)) \<union> {a. section_for_address c a = None}"
proof (cases "c_dwarf c")
  case None
  then show ?thesis by (simp add: container_functions_def symbol_functions_def dwarf_entries_def)
next
  case (Some dwarf)
  have "container_functions c = add_dwarf_functions c (dw_functions dwarf) (symbol_functions c)"
    by (simp add: container_functions_def symbol_functions_def Some)
  then show ?thesis
    using add_dwarf_functions_spec [of c "dw_functions dwarf" "symbol_functions c"]
    by (force simp: dwarf_entries_def Some)
qed

end
