(* ===== verification/Rewrite_IR.thy ===== *)
theory Rewrite_IR
  imports Container_Types Cfg
begin

text \<open>
  The rewrite IR (\<open>src/src/rewrite/ir.rs\<close>) and the trait it is generic over
  (\<open>src/src/isa/isa_trait.rs\<close>). The associated types of the trait are type parameters: \<open>'m\<close> the
  mnemonics, \<open>'o\<close> the operands, \<open>'r\<close> the registers, \<open>'k\<close> the macro kinds, \<open>'d\<close> the decoded
  instructions, \<open>'e\<close> the encoder's errors. An implementation of the trait is a record of its
  functions; the locale \<open>isa_laws\<close> states the contract the rewrite layer relies on.
\<close>

section \<open>Symbolic operands and instructions\<close>

type_synonym constant_id = nat

datatype rewrite_target =
    T_Block basic_block_id
  | T_Symbol symbol_id
  | T_Constant constant_id
  | T_Absolute u64

datatype 'o rewrite_operand = RO_Decoded 'o | RO_Branch rewrite_target | RO_Page rewrite_target

record ('m, 'o) rewrite_instruction =
  ri_mnemonic :: 'm
  ri_operands :: "'o rewrite_operand list"
  ri_original_address :: "u64 option"
  ri_source_size :: "u64 option"

record ('m, 'o, 'r, 'k) macro_op =
  mo_kind :: 'k
  mo_register :: 'r
  mo_target :: rewrite_target
  mo_original_instructions :: "('m, 'o) rewrite_instruction list"
  mo_original_addresses :: "u64 list"

datatype ('m, 'o, 'r, 'k) rewrite_op =
    Op_Instruction "('m, 'o) rewrite_instruction"
  | Op_Macro "('m, 'o, 'r, 'k) macro_op"
  | Op_Raw bytes

record ('m, 'o, 'r, 'k) rewrite_block =
  rb_id :: basic_block_id
  rb_ops :: "('m, 'o, 'r, 'k) rewrite_op list"

definition rewrite_instruction_new ::
  "'m \<Rightarrow> 'o rewrite_operand list \<Rightarrow> u64 option \<Rightarrow> ('m, 'o) rewrite_instruction" where
  "rewrite_instruction_new mnemonic operands original_address =
     \<lparr>ri_mnemonic = mnemonic, ri_operands = operands, ri_original_address = original_address,
      ri_source_size = None\<rparr>"

section \<open>The trait\<close>

datatype pcrel_kind = PK_Branch | PK_Page

record fusion_relocation_info =
  fri_kind :: relocation_kind
  fri_symbol :: "symbol_id option"

record emitted_relocation =
  er_offset :: u64
  er_kind :: relocation_kind
  er_symbol :: symbol_id
  er_addend :: i64

datatype 'e macro_emit_error = ME_Encode 'e | ME_Malformed | ME_NoRelocationForMnemonic | ME_Panic

text \<open>
  \<open>i_emit_macro\<close> returns the bytes and relocations it appends to the output, given the length
  the output has; \<open>ME_Panic\<close> and the result \<open>None\<close> of \<open>i_encode_widened_conditional\<close> are panics.
\<close>

record ('m, 'o, 'r, 'k, 'd, 'e) isa =
  i_decoded_address :: "'d \<Rightarrow> u64"
  i_decoded_mnemonic :: "'d \<Rightarrow> 'm"
  i_decoded_size :: "'d \<Rightarrow> u64"
  i_decoded_operands :: "'d \<Rightarrow> 'o list"
  i_decode :: "u64 \<Rightarrow> bytes \<Rightarrow> 'd option"
  i_pcrel_kind :: "'o \<Rightarrow> (pcrel_kind \<times> u64) option"
  i_substitute_pcrel :: "'o \<Rightarrow> u64 \<Rightarrow> 'o"
  i_make_pcrel_operand :: "pcrel_kind \<Rightarrow> u64 \<Rightarrow> 'o"
  i_pcrel_range_bytes :: "'m \<Rightarrow> int option"
  i_invert_conditional_branch :: "'m \<Rightarrow> 'm option"
  i_widened_conditional_size :: u64
  i_widened_conditional_range :: int
  i_encode :: "'m \<Rightarrow> 'o list \<Rightarrow> u64 \<Rightarrow> 'e + bytes"
  i_encode_widened_conditional :: "'m \<Rightarrow> 'o list \<Rightarrow> u64 \<Rightarrow> u64 \<Rightarrow> ('e + bytes) option"
  i_relocation_kind_for :: "'m \<Rightarrow> pcrel_kind \<Rightarrow> relocation_kind option"
  i_is_pc_relative_relocation :: "relocation_kind \<Rightarrow> bool"
  i_is_lift_relevant_relocation :: "relocation_kind \<Rightarrow> bool"
  i_fuse_macros :: "('m, 'o) rewrite_instruction list \<Rightarrow> (u64 \<rightharpoonup> basic_block_id) \<Rightarrow> container option \<Rightarrow>
     (u64 \<rightharpoonup> fusion_relocation_info) \<Rightarrow> ('m, 'o, 'r, 'k) rewrite_op list"
  i_macro_source_size :: "('m, 'o) rewrite_instruction list \<Rightarrow> u64"
  i_instruction_source_size :: "'m \<Rightarrow> u64"
  i_emit_macro :: "('m, 'o, 'r, 'k) macro_op \<Rightarrow> u64 \<Rightarrow> u64 list \<Rightarrow> container option \<Rightarrow> section_id option \<Rightarrow>
     nat \<Rightarrow> 'e macro_emit_error + bytes \<times> emitted_relocation list"

text \<open>The trait's default methods, which an implementation may take.\<close>

definition default_decoded_size :: "('m \<Rightarrow> u64) \<Rightarrow> ('d \<Rightarrow> 'm) \<Rightarrow> 'd \<Rightarrow> u64" where
  "default_decoded_size size_of mnemonic_of insn = size_of (mnemonic_of insn)"

definition default_instruction_source_size :: "'m \<Rightarrow> u64" where
  "default_instruction_source_size _ = 4"

definition default_macro_source_size :: "('m \<Rightarrow> u64) \<Rightarrow> ('m, 'o) rewrite_instruction list \<Rightarrow> u64" where
  "default_macro_source_size size_of original_instructions =
     sum_list (map (\<lambda>i. case ri_source_size i of Some n \<Rightarrow> n | None \<Rightarrow> size_of (ri_mnemonic i)) original_instructions)"

definition default_fuse_macros ::
  "('m, 'o) rewrite_instruction list \<Rightarrow> (u64 \<rightharpoonup> basic_block_id) \<Rightarrow> container option \<Rightarrow>
   (u64 \<rightharpoonup> fusion_relocation_info) \<Rightarrow> ('m, 'o, 'r, 'k) rewrite_op list" where
  "default_fuse_macros instructions block_at_address container relocations = map Op_Instruction instructions"

definition return_first_decoded :: "'o rewrite_operand list \<Rightarrow> 'o option" where
  "return_first_decoded operands =
     find_map (\<lambda>r. case r of RO_Decoded d \<Rightarrow> Some d | _ \<Rightarrow> None) operands"

definition default_macro_operands :: "'o rewrite_operand list \<Rightarrow> 'o list option" where
  "default_macro_operands operands =
     collect_options (map (\<lambda>r. case r of RO_Decoded d \<Rightarrow> Some d | _ \<Rightarrow> return_first_decoded operands) operands)"

fun default_emit_macro ::
  "('m \<Rightarrow> 'o list \<Rightarrow> u64 \<Rightarrow> 'e + bytes) \<Rightarrow> ('m, 'o) rewrite_instruction list \<Rightarrow> u64 \<Rightarrow> 'e macro_emit_error + bytes" where
  "default_emit_macro enc [] current = Ok []"
| "default_emit_macro enc (original # rest) current =
     (case default_macro_operands (ri_operands original) of
        None \<Rightarrow> Err ME_Panic
      | Some operands \<Rightarrow>
          (case enc (ri_mnemonic original) operands current of
             Err e \<Rightarrow> Err (ME_Encode e)
           | Ok out \<Rightarrow>
               and_then (default_emit_macro enc rest (current + word_of_nat (length out)))
                 (\<lambda>bs. Ok (out @ bs))))"

section \<open>Queries on operations\<close>

definition source_byte_size :: "('m, 'o, 'r, 'k, 'd, 'e) isa \<Rightarrow> ('m, 'o, 'r, 'k) rewrite_op \<Rightarrow> u64" where
  "source_byte_size I rop =
     (case rop of
        Op_Instruction insn \<Rightarrow>
          (case ri_source_size insn of Some n \<Rightarrow> n | None \<Rightarrow> i_instruction_source_size I (ri_mnemonic insn))
      | Op_Macro m \<Rightarrow> i_macro_source_size I (mo_original_instructions m)
      | Op_Raw bs \<Rightarrow> word_of_nat (length bs))"

definition first_original_address :: "('m, 'o, 'r, 'k) rewrite_op \<Rightarrow> u64 option" where
  "first_original_address rop =
     (case rop of
        Op_Instruction insn \<Rightarrow> ri_original_address insn
      | Op_Macro m \<Rightarrow> (case mo_original_addresses m of [] \<Rightarrow> None | a # _ \<Rightarrow> Some a)
      | Op_Raw _ \<Rightarrow> None)"

definition matches_source_address :: "('m, 'o, 'r, 'k) rewrite_op \<Rightarrow> u64 \<Rightarrow> bool" where
  "matches_source_address rop address =
     (case rop of
        Op_Instruction insn \<Rightarrow> ri_original_address insn = Some address
      | Op_Macro m \<Rightarrow> address \<in> set (mo_original_addresses m)
      | Op_Raw _ \<Rightarrow> False)"

definition has_pc_relative_operand :: "('m, 'o) rewrite_instruction \<Rightarrow> bool" where
  "has_pc_relative_operand insn =
     (\<exists>r\<in>set (ri_operands insn). case r of RO_Decoded _ \<Rightarrow> False | _ \<Rightarrow> True)"

definition pc_relative_target :: "('m, 'o) rewrite_instruction \<Rightarrow> rewrite_target option" where
  "pc_relative_target insn =
     find_map (\<lambda>r. case r of RO_Branch t \<Rightarrow> Some t | RO_Page t \<Rightarrow> Some t | RO_Decoded _ \<Rightarrow> None) (ri_operands insn)"

lemma has_pc_relative_operand_iff:
  "has_pc_relative_operand insn \<longleftrightarrow> pc_relative_target insn \<noteq> None"
  by (force simp: has_pc_relative_operand_def pc_relative_target_def find_map_None_iff split: rewrite_operand.splits)

end
