(* ===== verification/Rewrite_Layout.thy ===== *)
theory Rewrite_Layout
  imports Rewrite_IR
begin

text \<open>
  Address assignment and branch widening (\<open>src/src/rewrite/layout.rs\<close>). The loop that widens
  conditional branches until nothing grows is bounded by the source at 16 rounds, which is the
  structural argument of \<open>layout_loop\<close>. Addresses wrap as the source's \<open>wrapping_add\<close> does. A block
  index out of range panics; that is the error \<open>LE_Panic\<close>, which the source does not have.
\<close>

section \<open>Data\<close>

record ('m, 'o, 'r, 'k) rewrite_plan =
  rp_blocks :: "('m, 'o, 'r, 'k) rewrite_block list"

datatype emit_strategy = ES_Normal | ES_InvertedConditional

record instruction_layout =
  il_address :: u64
  il_size :: u64
  il_strategy :: emit_strategy

record layout =
  la_base_address :: u64
  la_total_size :: u64
  la_block_addresses :: "u64 list"
  la_instruction_layouts :: "instruction_layout list list"

datatype layout_error =
    LE_DisplacementTooLarge u64 u64 i64
  | LE_UnresolvableTarget string
  | LE_UndefinedSymbol nat
  | LE_SymbolWithoutContainer
  | LE_DidNotConverge
  | LE_Panic

section \<open>Targets and ranges\<close>

definition resolve_target ::
  "rewrite_target \<Rightarrow> u64 list \<Rightarrow> container option \<Rightarrow> layout_error + u64" where
  "resolve_target target block_addresses container =
     (case target of
        T_Block i \<Rightarrow> ok_or (vec_get block_addresses i) LE_Panic
      | T_Absolute a \<Rightarrow> Ok a
      | T_Symbol i \<Rightarrow>
          and_then (ok_or container LE_SymbolWithoutContainer)
            (\<lambda>c. ok_or (callable_address_of_symbol c i) (LE_UndefinedSymbol i))
      | T_Constant _ \<Rightarrow> Err (LE_UnresolvableTarget ''Constant''))"

definition effective_range :: "('m, 'o, 'r, 'k, 'd, 'e) isa \<Rightarrow> 'm \<Rightarrow> emit_strategy \<Rightarrow> int option" where
  "effective_range I mnemonic strategy =
     (case strategy of
        ES_Normal \<Rightarrow> i_pcrel_range_bytes I mnemonic
      | ES_InvertedConditional \<Rightarrow> Some (i_widened_conditional_range I))"

definition pc_relative_branch_target :: "('m, 'o) rewrite_instruction \<Rightarrow> rewrite_target option" where
  "pc_relative_branch_target insn =
     find_map (\<lambda>r. case r of RO_Branch t \<Rightarrow> Some t | _ \<Rightarrow> None) (ri_operands insn)"

section \<open>Addresses\<close>

definition initial_layouts ::
  "('m, 'o, 'r, 'k, 'd, 'e) isa \<Rightarrow> ('m, 'o, 'r, 'k) rewrite_plan \<Rightarrow> instruction_layout list list" where
  "initial_layouts I plan =
     map (\<lambda>block. map (\<lambda>rop. \<lparr>il_address = 0, il_size = source_byte_size I rop, il_strategy = ES_Normal\<rparr>)
                       (rb_ops block)) (rp_blocks plan)"

text \<open>The layouts have the shape of the plan, so the loops over its blocks and operations are
  recursions over them.\<close>

fun assign_block :: "u64 \<Rightarrow> instruction_layout list \<Rightarrow> instruction_layout list \<times> u64" where
  "assign_block current [] = ([], current)"
| "assign_block current (l # ls) =
     (let (ls', end) = assign_block (current + il_size l) ls in (l\<lparr>il_address := current\<rparr> # ls', end))"

fun assign_blocks ::
  "u64 \<Rightarrow> instruction_layout list list \<Rightarrow> instruction_layout list list \<times> u64 list \<times> u64" where
  "assign_blocks current [] = ([], [], current)"
| "assign_blocks current (b # bs) =
     (let (b', next) = assign_block current b; (bs', addresses, end) = assign_blocks next bs
      in (b' # bs', current # addresses, end))"

definition assign_addresses ::
  "instruction_layout list list \<Rightarrow> u64 \<Rightarrow> instruction_layout list list \<times> u64 list \<times> u64" where
  "assign_addresses instruction_layouts base_address =
     (let (ls, block_addresses, end) = assign_blocks base_address instruction_layouts
      in (ls, block_addresses, end - base_address))"

section \<open>Widening\<close>

definition in_branch_range :: "u64 \<Rightarrow> u64 \<Rightarrow> int \<Rightarrow> bool" where
  "in_branch_range target here rng =
     (- rng \<le> sint (target - here) \<and> sint (target - here) < rng)"

definition widen_op ::
  "('m, 'o, 'r, 'k, 'd, 'e) isa \<Rightarrow> u64 list \<Rightarrow> container option \<Rightarrow> bool \<Rightarrow>
   ('m, 'o, 'r, 'k) rewrite_op \<Rightarrow> instruction_layout \<Rightarrow> layout_error + instruction_layout \<times> bool" where
  "widen_op I block_addresses container size_probe rop l =
     (case rop of
        Op_Instruction insn \<Rightarrow>
          (case pc_relative_branch_target insn of
             None \<Rightarrow> Ok (l, False)
           | Some target \<Rightarrow>
               (case resolve_target target block_addresses container of
                  Err e \<Rightarrow> (case e of LE_UndefinedSymbol _ \<Rightarrow> Ok (l, False) | _ \<Rightarrow> Err e)
                | Ok target_address \<Rightarrow>
                    (case effective_range I (ri_mnemonic insn) (il_strategy l) of
                       None \<Rightarrow> Ok (l, False)
                     | Some rng \<Rightarrow>
                         if in_branch_range target_address (il_address l) rng then Ok (l, False)
                         else
                           let too_large = Err (LE_DisplacementTooLarge (il_address l) target_address
                                                  (target_address - il_address l))
                           in (case il_strategy l of
                                ES_Normal \<Rightarrow>
                                  if i_invert_conditional_branch I (ri_mnemonic insn) \<noteq> None
                                  then Ok (l\<lparr>il_strategy := ES_InvertedConditional,
                                             il_size := i_widened_conditional_size I\<rparr>, True)
                                  else if size_probe then Ok (l, False)
                                  else too_large
                              | ES_InvertedConditional \<Rightarrow>
                                  if size_probe then Ok (l, False) else too_large))))
      | _ \<Rightarrow> Ok (l, False))"

fun widen_ops ::
  "('m, 'o, 'r, 'k, 'd, 'e) isa \<Rightarrow> u64 list \<Rightarrow> container option \<Rightarrow> bool \<Rightarrow>
   ('m, 'o, 'r, 'k) rewrite_op list \<Rightarrow> instruction_layout list \<Rightarrow> layout_error + instruction_layout list \<times> bool" where
  "widen_ops I ba c probe (rop # ops) (l # ls) =
     and_then (widen_op I ba c probe rop l) (\<lambda>(l', grew).
     and_then (widen_ops I ba c probe ops ls) (\<lambda>(ls', grew').
     Ok (l' # ls', grew \<or> grew')))"
| "widen_ops I ba c probe _ ls = Ok (ls, False)"

fun widen_blocks ::
  "('m, 'o, 'r, 'k, 'd, 'e) isa \<Rightarrow> u64 list \<Rightarrow> container option \<Rightarrow> bool \<Rightarrow>
   ('m, 'o, 'r, 'k) rewrite_block list \<Rightarrow> instruction_layout list list \<Rightarrow>
   layout_error + instruction_layout list list \<times> bool" where
  "widen_blocks I ba c probe (b # bs) (ls # lss) =
     and_then (widen_ops I ba c probe (rb_ops b) ls) (\<lambda>(ls', grew).
     and_then (widen_blocks I ba c probe bs lss) (\<lambda>(lss', grew').
     Ok (ls' # lss', grew \<or> grew')))"
| "widen_blocks I ba c probe _ lss = Ok (lss, False)"

definition widen_out_of_range ::
  "('m, 'o, 'r, 'k, 'd, 'e) isa \<Rightarrow> ('m, 'o, 'r, 'k) rewrite_plan \<Rightarrow> instruction_layout list list \<Rightarrow>
   u64 list \<Rightarrow> container option \<Rightarrow> bool \<Rightarrow> layout_error + instruction_layout list list \<times> bool" where
  "widen_out_of_range I plan instruction_layouts block_addresses container size_probe =
     widen_blocks I block_addresses container size_probe (rp_blocks plan) instruction_layouts"

section \<open>Laying out\<close>

definition MAX_LAYOUT_ITERATIONS :: nat where
  "MAX_LAYOUT_ITERATIONS = 16"

fun layout_loop ::
  "('m, 'o, 'r, 'k, 'd, 'e) isa \<Rightarrow> ('m, 'o, 'r, 'k) rewrite_plan \<Rightarrow> u64 \<Rightarrow> container option \<Rightarrow> bool \<Rightarrow>
   nat \<Rightarrow> instruction_layout list list \<Rightarrow> layout_error + layout" where
  "layout_loop I plan base c probe 0 ils = Err LE_DidNotConverge"
| "layout_loop I plan base c probe (Suc n) ils =
     (let (ils1, block_addresses, tot) = assign_addresses ils base
      in and_then (widen_out_of_range I plan ils1 block_addresses c probe) (\<lambda>(ils2, grew).
           if \<not> grew
           then Ok \<lparr>la_base_address = base, la_total_size = tot,
                    la_block_addresses = block_addresses, la_instruction_layouts = ils2\<rparr>
           else layout_loop I plan base c probe n ils2))"

definition lay_out_inner ::
  "('m, 'o, 'r, 'k, 'd, 'e) isa \<Rightarrow> ('m, 'o, 'r, 'k) rewrite_plan \<Rightarrow> u64 \<Rightarrow> container option \<Rightarrow> bool \<Rightarrow>
   layout_error + layout" where
  "lay_out_inner I plan base_address container size_probe =
     layout_loop I plan base_address container size_probe MAX_LAYOUT_ITERATIONS (initial_layouts I plan)"

definition lay_out ::
  "('m, 'o, 'r, 'k, 'd, 'e) isa \<Rightarrow> ('m, 'o, 'r, 'k) rewrite_plan \<Rightarrow> u64 \<Rightarrow> container option \<Rightarrow>
   layout_error + layout" where
  "lay_out I plan base_address container = lay_out_inner I plan base_address container False"

definition lay_out_for_size ::
  "('m, 'o, 'r, 'k, 'd, 'e) isa \<Rightarrow> ('m, 'o, 'r, 'k) rewrite_plan \<Rightarrow> u64 \<Rightarrow> container option \<Rightarrow>
   layout_error + layout" where
  "lay_out_for_size I plan base_address container = lay_out_inner I plan base_address container True"

text \<open>The fixed placement: every block where the caller says, and no widening.\<close>

fun scatter_blocks ::
  "u64 list \<Rightarrow> instruction_layout list list \<Rightarrow> (instruction_layout list list \<times> u64) option" where
  "scatter_blocks as [] = Some ([], 0)"
| "scatter_blocks [] (b # bs) = None"
| "scatter_blocks (a # as) (b # bs) =
     map_option (\<lambda>(bs', tot). (fst (assign_block a b) # bs', sum_list (map il_size b) + tot))
       (scatter_blocks as bs)"

definition lay_out_scattered ::
  "('m, 'o, 'r, 'k, 'd, 'e) isa \<Rightarrow> ('m, 'o, 'r, 'k) rewrite_plan \<Rightarrow> u64 list \<Rightarrow> container option \<Rightarrow>
   layout_error + layout" where
  "lay_out_scattered I plan block_addresses container =
     (case scatter_blocks block_addresses (initial_layouts I plan) of
        None \<Rightarrow> Err LE_Panic
      | Some (ils, tot) \<Rightarrow>
          and_then (widen_out_of_range I plan ils block_addresses container False) (\<lambda>(ils', grew).
            if grew then Err LE_DidNotConverge
            else Ok \<lparr>la_base_address = (case block_addresses of [] \<Rightarrow> 0 | a # _ \<Rightarrow> a),
                     la_total_size = tot, la_block_addresses = block_addresses,
                     la_instruction_layouts = ils'\<rparr>))"

section \<open>What a layout is\<close>

text \<open>Consecutive placement of a list of layouts from an address.\<close>

fun placed :: "u64 \<Rightarrow> instruction_layout list \<Rightarrow> bool" where
  "placed a [] = True"
| "placed a (l # ls) = (il_address l = a \<and> placed (a + il_size l) ls)"

definition widenable :: "('m, 'o, 'r, 'k, 'd, 'e) isa \<Rightarrow> ('m, 'o, 'r, 'k) rewrite_op \<Rightarrow> bool" where
  "widenable I rop =
     (case rop of
        Op_Instruction insn \<Rightarrow>
          pc_relative_branch_target insn \<noteq> None \<and> i_invert_conditional_branch I (ri_mnemonic insn) \<noteq> None
      | _ \<Rightarrow> False)"

definition size_ok ::
  "('m, 'o, 'r, 'k, 'd, 'e) isa \<Rightarrow> ('m, 'o, 'r, 'k) rewrite_op \<Rightarrow> instruction_layout \<Rightarrow> bool" where
  "size_ok I rop l =
     (case il_strategy l of
        ES_Normal \<Rightarrow> il_size l = source_byte_size I rop
      | ES_InvertedConditional \<Rightarrow> il_size l = i_widened_conditional_size I \<and> widenable I rop)"

definition op_in_range ::
  "('m, 'o, 'r, 'k, 'd, 'e) isa \<Rightarrow> u64 list \<Rightarrow> container option \<Rightarrow>
   ('m, 'o, 'r, 'k) rewrite_op \<Rightarrow> instruction_layout \<Rightarrow> bool" where
  "op_in_range I ba c rop l =
     (case rop of
        Op_Instruction insn \<Rightarrow>
          (case pc_relative_branch_target insn of
             None \<Rightarrow> True
           | Some target \<Rightarrow>
               (case resolve_target target ba c of
                  Err e \<Rightarrow> (case e of LE_UndefinedSymbol _ \<Rightarrow> True | _ \<Rightarrow> False)
                | Ok a \<Rightarrow>
                    (case effective_range I (ri_mnemonic insn) (il_strategy l) of
                       None \<Rightarrow> True
                     | Some rng \<Rightarrow> in_branch_range a (il_address l) rng)))
      | _ \<Rightarrow> True)"

text \<open>A relation between the operations of a plan and their layouts.\<close>

definition all_ops ::
  "(('m, 'o, 'r, 'k) rewrite_op \<Rightarrow> instruction_layout \<Rightarrow> bool) \<Rightarrow>
   ('m, 'o, 'r, 'k) rewrite_plan \<Rightarrow> instruction_layout list list \<Rightarrow> bool" where
  "all_ops P plan ils = list_all2 (\<lambda>block ls. list_all2 P (rb_ops block) ls) (rp_blocks plan) ils"

definition lays_out ::
  "('m, 'o, 'r, 'k, 'd, 'e) isa \<Rightarrow> ('m, 'o, 'r, 'k) rewrite_plan \<Rightarrow> u64 \<Rightarrow> container option \<Rightarrow> layout \<Rightarrow> bool" where
  "lays_out I plan base c L =
     (la_base_address L = base \<and>
      placed base (concat (la_instruction_layouts L)) \<and>
      la_total_size L = sum_list (map il_size (concat (la_instruction_layouts L))) \<and>
      la_block_addresses L =
        map (\<lambda>b. base + sum_list (map il_size (concat (take b (la_instruction_layouts L)))))
          [0..<length (rp_blocks plan)] \<and>
      all_ops (size_ok I) plan (la_instruction_layouts L) \<and>
      all_ops (op_in_range I (la_block_addresses L) c) plan (la_instruction_layouts L))"

section \<open>Assigning addresses\<close>

lemma assign_block_spec:
  "assign_block a ls = (ls', e) \<Longrightarrow>
   placed a ls' \<and> e = a + sum_list (map il_size ls) \<and> map il_size ls' = map il_size ls \<and>
   map il_strategy ls' = map il_strategy ls"
  by (induction ls arbitrary: a ls' e) (fastforce simp: add.assoc split: prod.splits)+

lemma placed_append:
  "placed a (xs @ ys) \<longleftrightarrow> placed a xs \<and> placed (a + sum_list (map il_size xs)) ys"
  by (induction xs arbitrary: a) (auto simp: algebra_simps)

text \<open>Same sizes and strategies: what assigning addresses does not touch.\<close>

definition same_shape :: "instruction_layout list list \<Rightarrow> instruction_layout list list \<Rightarrow> bool" where
  "same_shape ils ils' \<longleftrightarrow>
     map (map il_size) ils' = map (map il_size) ils \<and> map (map il_strategy) ils' = map (map il_strategy) ils"

lemma assign_blocks_spec:
  "assign_blocks a ils = (ils', ba, e) \<Longrightarrow>
   placed a (concat ils') \<and> same_shape ils ils' \<and> length ils' = length ils \<and>
   e = a + sum_list (map il_size (concat ils')) \<and>
   ba = map (\<lambda>b. a + sum_list (map il_size (concat (take b ils')))) [0..<length ils']"
proof (induction ils arbitrary: a ils' ba e)
  case (Cons b bs)
  obtain b' n where b': "assign_block a b = (b', n)" by fastforce
  obtain bs' ba' e' where bs': "assign_blocks n bs = (bs', ba', e')" using prod_cases3 by blast
  have eq: "ils' = b' # bs'" "ba = a # ba'" "e = e'" using Cons.prems b' bs' by auto
  have s: "sum_list (map il_size b') = sum_list (map il_size b)" using assign_block_spec [OF b'] by simp
  note IH = Cons.IH [OF bs']
  have "ba = map (\<lambda>b. a + sum_list (map il_size (concat (take b ils')))) (0 # map Suc [0..<length bs'])"
    using IH assign_block_spec [OF b'] eq s by (simp add: algebra_simps)
  also have "0 # map Suc [0..<length bs'] = [0..<length ils']" by (simp only: eq map_Suc_upt list.size upt_conv_Cons) simp
  finally show ?case
    using IH assign_block_spec [OF b'] eq s by (auto simp: placed_append same_shape_def algebra_simps)
qed (simp add: same_shape_def)

lemma assign_addresses_spec:
  assumes "assign_addresses ils base = (ils', ba, tot)"
  shows "placed base (concat ils')" "same_shape ils ils'" "length ils' = length ils"
    "tot = sum_list (map il_size (concat ils'))"
    "ba = map (\<lambda>b. base + sum_list (map il_size (concat (take b ils')))) [0..<length ils']"
  using assms assign_blocks_spec [of base ils] unfolding assign_addresses_def
  by (auto split: prod.splits)

lemma all_ops_same_shape:
  assumes "all_ops P plan ils" "same_shape ils ils'"
    and "\<And>rop l l'. P rop l \<Longrightarrow> il_size l' = il_size l \<Longrightarrow> il_strategy l' = il_strategy l \<Longrightarrow> P rop l'"
  shows "all_ops P plan ils'"
proof -
  have sh: "length ils' = length ils" "\<And>b. b < length ils \<Longrightarrow> length (ils' ! b) = length (ils ! b)"
    "\<And>b i. b < length ils \<Longrightarrow> i < length (ils ! b) \<Longrightarrow> il_size (ils' ! b ! i) = il_size (ils ! b ! i) \<and> il_strategy (ils' ! b ! i) = il_strategy (ils ! b ! i)"
    using assms(2) unfolding same_shape_def list_eq_iff_nth_eq by auto
  then show ?thesis
    using assms(1) unfolding all_ops_def list_all2_conv_all_nth
    by (intro conjI allI impI; metis assms(3))
qed

section \<open>Widening, one operation and the whole plan\<close>

definition normal_widenable ::
  "('m, 'o, 'r, 'k, 'd, 'e) isa \<Rightarrow> ('m, 'o, 'r, 'k) rewrite_op \<Rightarrow> instruction_layout \<Rightarrow> bool" where
  "normal_widenable I rop l \<longleftrightarrow> widenable I rop \<and> il_strategy l = ES_Normal"

text \<open>The widenable operations that are not widened yet bound the rounds still to come.\<close>

definition remaining_ops ::
  "('m, 'o, 'r, 'k, 'd, 'e) isa \<Rightarrow> ('m, 'o, 'r, 'k) rewrite_op list \<Rightarrow> instruction_layout list \<Rightarrow> nat" where
  "remaining_ops I ops ls = length (filter (\<lambda>(rop, l). normal_widenable I rop l) (zip ops ls))"

definition remaining ::
  "('m, 'o, 'r, 'k, 'd, 'e) isa \<Rightarrow> ('m, 'o, 'r, 'k) rewrite_plan \<Rightarrow> instruction_layout list list \<Rightarrow> nat" where
  "remaining I plan ils = sum_list (map (\<lambda>(b, ls). remaining_ops I (rb_ops b) ls) (zip (rp_blocks plan) ils))"

lemma widen_op_in_range:
  "op_in_range I ba c rop l \<Longrightarrow> widen_op I ba c probe rop l = Ok (l, False)"
  by (cases rop)
    (auto simp: widen_op_def op_in_range_def split: option.splits sum.splits layout_error.splits)

lemma widen_op_out:
  assumes "\<not> op_in_range I ba c rop l"
  shows "(\<exists>e. widen_op I ba c probe rop l = Err e) \<or>
    normal_widenable I rop l \<and> widen_op I ba c probe rop l =
      Ok (l\<lparr>il_strategy := ES_InvertedConditional, il_size := i_widened_conditional_size I\<rparr>, True) \<or>
    probe \<and> widen_op I ba c probe rop l = Ok (l, False)"
proof -
  obtain insn t where r: "rop = Op_Instruction insn" "pc_relative_branch_target insn = Some t"
    using assms by (auto simp: op_in_range_def split: rewrite_op.splits option.splits)
  show ?thesis
  proof (cases "resolve_target t ba c")
    case (Inl e)
    then show ?thesis using assms r by (cases e) (simp_all add: widen_op_def op_in_range_def)
  next
    case (Inr a)
    then obtain rng where "effective_range I (ri_mnemonic insn) (il_strategy l) = Some rng"
      "\<not> in_branch_range a (il_address l) rng"
      using assms r by (auto simp: op_in_range_def split: option.splits)
    then show ?thesis
      using Inr r by (cases "il_strategy l") (auto simp: widen_op_def Let_def normal_widenable_def widenable_def)
  qed
qed

lemma widen_op_cases:
  assumes "widen_op I ba c probe rop l = Ok (l', grew)"
  obtains
    (same) "\<not> grew" "l' = l" "\<not> probe \<Longrightarrow> op_in_range I ba c rop l"
  | (widened) "grew" "normal_widenable I rop l"
      "l' = l\<lparr>il_strategy := ES_InvertedConditional, il_size := i_widened_conditional_size I\<rparr>"
proof (cases "op_in_range I ba c rop l")
  case True
  then show ?thesis using assms same by (simp add: widen_op_in_range)
next
  case False
  from widen_op_out [OF this, of probe] show ?thesis
  proof (elim disjE conjE)
    assume "normal_widenable I rop l" "widen_op I ba c probe rop l =
      Ok (l\<lparr>il_strategy := ES_InvertedConditional, il_size := i_widened_conditional_size I\<rparr>, True)"
    then show ?thesis using assms by (intro widened) simp_all
  next
    assume "probe" "widen_op I ba c probe rop l = Ok (l, False)"
    then show ?thesis using assms by (intro same) simp_all
  qed (use assms in simp)
qed

lemma widen_op_size_ok:
  assumes "widen_op I ba c probe rop l = Ok (l', grew)" "size_ok I rop l"
  shows "size_ok I rop l'"
  using assms(1) by (cases rule: widen_op_cases) (use assms(2) in \<open>auto simp: size_ok_def normal_widenable_def\<close>)

lemma widen_ops_spec:
  assumes "widen_ops I ba c probe ops ls = Ok (ls', grew)" "list_all2 (size_ok I) ops ls"
  shows "list_all2 (size_ok I) ops ls'"
    and "\<not> grew \<Longrightarrow> ls' = ls"
    and "\<not> grew \<Longrightarrow> \<not> probe \<Longrightarrow> list_all2 (op_in_range I ba c) ops ls"
    and "remaining_ops I ops ls' \<le> remaining_ops I ops ls"
    and "grew \<Longrightarrow> remaining_ops I ops ls' < remaining_ops I ops ls"
proof -
  have "list_all2 (size_ok I) ops ls' \<and> (\<not> grew \<longrightarrow> ls' = ls) \<and>
    (\<not> grew \<longrightarrow> \<not> probe \<longrightarrow> list_all2 (op_in_range I ba c) ops ls) \<and>
    remaining_ops I ops ls' \<le> remaining_ops I ops ls \<and>
    (grew \<longrightarrow> remaining_ops I ops ls' < remaining_ops I ops ls)"
    using assms
  proof (induction I ba c probe ops ls arbitrary: ls' grew rule: widen_ops.induct)
    case (1 I ba c probe rop ops l ls)
    obtain l1 g1 ls1 g2 where w: "widen_op I ba c probe rop l = Ok (l1, g1)"
      "widen_ops I ba c probe ops ls = Ok (ls1, g2)" "ls' = l1 # ls1" "grew \<longleftrightarrow> g1 \<or> g2"
      using "1.prems"(1) by (auto simp: and_then_Ok_iff)
    note IH = "1.IH" [OF w(1) refl w(2)] 
    have s: "size_ok I rop l1" using widen_op_size_ok [OF w(1)] "1.prems"(2) by simp
    show ?case
      using w(1)
      by (cases rule: widen_op_cases)
        (use IH s w(3,4) "1.prems"(2) in \<open>auto simp: remaining_ops_def normal_widenable_def\<close>)
  qed (auto simp: remaining_ops_def)
  then show "list_all2 (size_ok I) ops ls'" "\<not> grew \<Longrightarrow> ls' = ls"
    "\<not> grew \<Longrightarrow> \<not> probe \<Longrightarrow> list_all2 (op_in_range I ba c) ops ls"
    "remaining_ops I ops ls' \<le> remaining_ops I ops ls" "grew \<Longrightarrow> remaining_ops I ops ls' < remaining_ops I ops ls"
    by auto
qed

lemma widen_blocks_spec:
  assumes "widen_blocks I ba c probe bs lss = Ok (lss', grew)"
    and "list_all2 (\<lambda>b ls. list_all2 (size_ok I) (rb_ops b) ls) bs lss"
  shows "list_all2 (\<lambda>b ls. list_all2 (size_ok I) (rb_ops b) ls) bs lss' \<and> (\<not> grew \<longrightarrow> lss' = lss) \<and>
    (\<not> grew \<longrightarrow> \<not> probe \<longrightarrow> list_all2 (\<lambda>b ls. list_all2 (op_in_range I ba c) (rb_ops b) ls) bs lss) \<and>
    sum_list (map (\<lambda>(b, ls). remaining_ops I (rb_ops b) ls) (zip bs lss')) + (if grew then 1 else 0)
      \<le> sum_list (map (\<lambda>(b, ls). remaining_ops I (rb_ops b) ls) (zip bs lss))"
  using assms
proof (induction I ba c probe bs lss arbitrary: lss' grew rule: widen_blocks.induct)
  case (1 I ba c probe b bs ls lss)
  obtain ls1 g1 lss1 g2 where w: "widen_ops I ba c probe (rb_ops b) ls = Ok (ls1, g1)"
    "widen_blocks I ba c probe bs lss = Ok (lss1, g2)" "lss' = ls1 # lss1" "grew \<longleftrightarrow> g1 \<or> g2"
    using "1.prems"(1) by (auto simp: and_then_Ok_iff)
  note IH = "1.IH" [OF w(1) refl w(2)]
  have s: "list_all2 (size_ok I) (rb_ops b) ls" "list_all2 (\<lambda>b ls. list_all2 (size_ok I) (rb_ops b) ls) bs lss"
    using "1.prems"(2) by simp_all
  note ops = widen_ops_spec [OF w(1) s(1)]
  show ?case
  proof (cases g1)
    case True
    then show ?thesis using IH [OF s(2)] ops(1) ops(5) w(3,4) by (simp split: if_splits)
  next
    case False
    then show ?thesis using IH [OF s(2)] ops w(3,4) by simp
  qed
qed auto

lemma widen_out_of_range_spec:
  assumes "widen_out_of_range I plan ils ba c probe = Ok (ils', grew)" "all_ops (size_ok I) plan ils"
  shows "all_ops (size_ok I) plan ils'"
    and "\<not> grew \<Longrightarrow> ils' = ils"
    and "\<not> grew \<Longrightarrow> \<not> probe \<Longrightarrow> all_ops (op_in_range I ba c) plan ils"
    and "grew \<Longrightarrow> remaining I plan ils' < remaining I plan ils"
  using widen_blocks_spec [OF assms [unfolded widen_out_of_range_def all_ops_def]]
  by (auto simp: all_ops_def remaining_def)

lemma initial_layouts_size_ok: "all_ops (size_ok I) plan (initial_layouts I plan)"
  by (auto simp: all_ops_def initial_layouts_def list_all2_conv_all_nth size_ok_def)

section \<open>Why a layout fails\<close>

definition op_error ::
  "('m, 'o, 'r, 'k, 'd, 'e) isa \<Rightarrow> u64 list \<Rightarrow> container option \<Rightarrow>
   ('m, 'o, 'r, 'k) rewrite_op \<Rightarrow> instruction_layout \<Rightarrow> layout_error \<Rightarrow> bool" where
  "op_error I ba c rop l e \<longleftrightarrow>
     (\<exists>insn t. rop = Op_Instruction insn \<and> pc_relative_branch_target insn = Some t \<and>
        (resolve_target t ba c = Err e \<and> (\<forall>i. e \<noteq> LE_UndefinedSymbol i) \<or>
         (\<exists>a rng. resolve_target t ba c = Ok a \<and>
            effective_range I (ri_mnemonic insn) (il_strategy l) = Some rng \<and>
            \<not> in_branch_range a (il_address l) rng \<and>
            e = LE_DisplacementTooLarge (il_address l) a (a - il_address l) \<and>
            (il_strategy l = ES_InvertedConditional \<or> i_invert_conditional_branch I (ri_mnemonic insn) = None))))"

definition op_layouts ::
  "('m, 'o, 'r, 'k) rewrite_plan \<Rightarrow> instruction_layout list list \<Rightarrow>
   (('m, 'o, 'r, 'k) rewrite_op \<times> instruction_layout) list" where
  "op_layouts plan ils = concat (map (\<lambda>(b, ls). zip (rb_ops b) ls) (zip (rp_blocks plan) ils))"

text \<open>Failure: an operation that has no place in some consecutive layout the source tries, or the
  round limit, which only a plan with at least that many widenable branches reaches.\<close>

definition layout_fails ::
  "('m, 'o, 'r, 'k, 'd, 'e) isa \<Rightarrow> ('m, 'o, 'r, 'k) rewrite_plan \<Rightarrow> u64 \<Rightarrow> container option \<Rightarrow> layout_error \<Rightarrow> bool" where
  "layout_fails I plan base c e \<longleftrightarrow>
     e = LE_DidNotConverge \<and> MAX_LAYOUT_ITERATIONS \<le> remaining I plan (initial_layouts I plan) \<or>
     (\<exists>ils ba. all_ops (size_ok I) plan ils \<and> placed base (concat ils) \<and>
        ba = map (\<lambda>b. base + sum_list (map il_size (concat (take b ils)))) [0..<length (rp_blocks plan)] \<and>
        (\<exists>(rop, l)\<in>set (op_layouts plan ils). op_error I ba c rop l e))"

lemma widen_op_Err:
  assumes "widen_op I ba c probe rop l = Err e"
  shows "op_error I ba c rop l e"
proof -
  have "\<not> op_in_range I ba c rop l" using assms by (auto simp: widen_op_in_range)
  then obtain insn t where r: "rop = Op_Instruction insn" "pc_relative_branch_target insn = Some t"
    by (auto simp: op_in_range_def split: rewrite_op.splits option.splits)
  show ?thesis
  proof (cases "resolve_target t ba c")
    case (Inl e')
    then show ?thesis using assms r by (cases e') (auto simp: widen_op_def op_error_def)
  next
    case (Inr a)
    then show ?thesis
      using assms r
      by (cases "il_strategy l")
        (auto simp: widen_op_def op_error_def Let_def split: option.splits if_splits)
  qed
qed

lemma widen_ops_Err:
  "widen_ops I ba c probe ops ls = Err e \<Longrightarrow> \<exists>(rop, l)\<in>set (zip ops ls). op_error I ba c rop l e"
  by (induction I ba c probe ops ls rule: widen_ops.induct)
    (fastforce simp: and_then_Err_iff dest: widen_op_Err split: prod.splits)+

lemma widen_blocks_Err:
  "widen_blocks I ba c probe bs lss = Err e \<Longrightarrow>
   \<exists>(b, ls)\<in>set (zip bs lss). \<exists>(rop, l)\<in>set (zip (rb_ops b) ls). op_error I ba c rop l e"
  by (induction I ba c probe bs lss rule: widen_blocks.induct)
    (fastforce simp: and_then_Err_iff dest: widen_ops_Err split: prod.splits)+

lemma op_error_not_round_limit: "\<not> op_error I ba c rop l LE_DidNotConverge"
  by (auto simp: op_error_def resolve_target_def ok_or_def split: rewrite_target.splits option.splits)

section \<open>The loop\<close>

lemma all_ops_size_ok_same_shape:
  "all_ops (size_ok I) plan ils \<Longrightarrow> same_shape ils ils' \<Longrightarrow> all_ops (size_ok I) plan ils'"
  by (erule (1) all_ops_same_shape) (simp add: size_ok_def split: emit_strategy.splits)

lemma remaining_same_shape:
  assumes "same_shape ils ils'"
  shows "remaining I plan ils' = remaining I plan ils"
proof -
  have "remaining_ops I ops ls = length (filter (\<lambda>(rop, s). widenable I rop \<and> s = ES_Normal) (zip ops (map il_strategy ls)))"
    for ops ls
    by (simp add: remaining_ops_def zip_map2 filter_map o_def case_prod_unfold normal_widenable_def)
  then have "remaining I plan ils = sum_list (map (\<lambda>(b, ss). length (filter (\<lambda>(rop, s). widenable I rop \<and> s = ES_Normal)
      (zip (rb_ops b) ss))) (zip (rp_blocks plan) (map (map il_strategy) ils)))" for ils
    by (simp add: remaining_def zip_map2 o_def case_prod_unfold)
  then show ?thesis using assms by (simp add: same_shape_def)
qed

lemma layout_loop_result:
  assumes "all_ops (size_ok I) plan ils"
  shows "case layout_loop I plan base c False n ils of
      Ok L \<Rightarrow> lays_out I plan base c L
    | Err e \<Rightarrow> e = LE_DidNotConverge \<and> n \<le> remaining I plan ils \<or>
        (\<exists>ils ba. all_ops (size_ok I) plan ils \<and> placed base (concat ils) \<and>
          ba = map (\<lambda>b. base + sum_list (map il_size (concat (take b ils)))) [0..<length (rp_blocks plan)] \<and>
          (\<exists>(rop, l)\<in>set (op_layouts plan ils). op_error I ba c rop l e))"
  using assms
proof (induction n arbitrary: ils)
  case (Suc n)
  obtain ils1 ba tot where a: "assign_addresses ils base = (ils1, ba, tot)" using prod_cases3 by blast
  note spec = assign_addresses_spec [OF a]
  have ok1: "all_ops (size_ok I) plan ils1" using all_ops_size_ok_same_shape [OF Suc.prems spec(2)] .
  then have len: "length ils1 = length (rp_blocks plan)" by (auto simp: all_ops_def list_all2_conv_all_nth)
  show ?case
  proof (cases "widen_out_of_range I plan ils1 ba c False")
    case (Inl e)
    then have "\<exists>(rop, l)\<in>set (op_layouts plan ils1). op_error I ba c rop l e"
      using widen_blocks_Err [of I ba c False "rp_blocks plan" ils1 e]
      by (fastforce simp: widen_out_of_range_def op_layouts_def)
    then show ?thesis using Inl a spec ok1 len by (auto simp: op_error_not_round_limit)
  next
    case (Inr r)
    obtain ils2 grew where w: "widen_out_of_range I plan ils1 ba c False = Ok (ils2, grew)" using Inr by (cases r) auto
    note ws = widen_out_of_range_spec [OF w ok1]
    show ?thesis
    proof (cases grew)
      case False
      then show ?thesis using w a ws spec ok1 len by (simp add: lays_out_def)
    next
      case True
      then show ?thesis
        using Suc.IH [OF ws(1)] w a ws(4) remaining_same_shape [OF spec(2), of I plan] by (auto split: sum.splits)
    qed
  qed
qed simp

lemma size_ok_normal:
  "list_all2 (size_ok I) ops ls \<Longrightarrow> \<forall>l\<in>set ls. il_strategy l = ES_Normal \<Longrightarrow>
   map il_size ls = map (source_byte_size I) ops \<and> map il_strategy ls = map (\<lambda>_. ES_Normal) ops"
  by (induction rule: list_all2_induct) (auto simp: size_ok_def)

lemma initial_layouts_same_shape:
  assumes "all_ops (size_ok I) plan ils" "\<forall>l\<in>set (concat ils). il_strategy l = ES_Normal"
  shows "same_shape (initial_layouts I plan) ils"
proof -
  have "map (map il_size) lss = map (\<lambda>b. map (source_byte_size I) (rb_ops b)) bs \<and>
      map (map il_strategy) lss = map (\<lambda>b. map (\<lambda>_. ES_Normal) (rb_ops b)) bs"
    if "list_all2 (\<lambda>b ls. list_all2 (size_ok I) (rb_ops b) ls) bs lss" "\<forall>l\<in>set (concat lss). il_strategy l = ES_Normal"
    for bs :: "('a, 'b, 'c, 'd) rewrite_block list" and lss
    using that by (induction rule: list_all2_induct) (simp_all add: size_ok_normal)
  from this [OF assms [unfolded all_ops_def]] show ?thesis
    by (simp add: same_shape_def initial_layouts_def o_def)
qed

lemma same_shape_lengths:
  "same_shape ils ils' \<Longrightarrow> length ils' = length ils \<and> map length ils' = map length ils"
proof -
  assume "same_shape ils ils'"
  then have "map (map il_size) ils' = map (map il_size) ils" by (simp add: same_shape_def)
  from arg_cong [OF this, of "map length"] arg_cong [OF this, of length] show ?thesis by (simp add: o_def)
qed

lemma placed_unique:
  "placed a xs \<Longrightarrow> placed a ys \<Longrightarrow> map il_size xs = map il_size ys \<Longrightarrow> map il_strategy xs = map il_strategy ys \<Longrightarrow> xs = ys"
proof (induction xs arbitrary: a ys)
  case (Cons x xs)
  then obtain y ys' where "ys = y # ys'" by (cases ys) auto
  with Cons show ?case by auto
qed auto

lemma concat_inj: "concat xss = concat yss \<Longrightarrow> map length xss = map length yss \<Longrightarrow> xss = yss"
proof (induction xss arbitrary: yss)
  case (Cons x xss)
  then obtain y yss' where "yss = y # yss'" by (cases yss) auto
  with Cons show ?case by auto
qed auto

lemma assign_addresses_placed:
  assumes "same_shape ils ils'" "placed base (concat ils')"
  shows "assign_addresses ils base =
    (ils', map (\<lambda>b. base + sum_list (map il_size (concat (take b ils')))) [0..<length ils'],
     sum_list (map il_size (concat ils')))"
proof -
  obtain ils1 ba tot where a: "assign_addresses ils base = (ils1, ba, tot)" using prod_cases3 by blast
  note spec = assign_addresses_spec [OF a]
  have m: "map (map il_size) ils1 = map (map il_size) ils'" "map (map il_strategy) ils1 = map (map il_strategy) ils'"
    using assms(1) spec(2) by (simp_all add: same_shape_def)
  have "concat ils1 = concat ils'"
    by (rule placed_unique [OF spec(1) assms(2)]) (simp_all add: map_concat m)
  moreover have "map length ils1 = map length ils'"
    using same_shape_lengths [OF spec(2)] same_shape_lengths [OF assms(1)] by simp
  ultimately have "ils1 = ils'" by (rule concat_inj)
  then show ?thesis using a spec by simp
qed

lemma widen_in_range:
  assumes "all_ops (op_in_range I ba c) plan ils"
  shows "widen_out_of_range I plan ils ba c probe = Ok (ils, False)"
proof -
  have ops: "widen_ops I ba c probe ops ls = Ok (ls, False)" if "list_all2 (op_in_range I ba c) ops ls" for ops ls
    using that by (induction rule: list_all2_induct) (simp_all add: widen_op_in_range)
  have "widen_blocks I ba c probe bs lss = Ok (lss, False)"
    if "list_all2 (\<lambda>b ls. list_all2 (op_in_range I ba c) (rb_ops b) ls) bs lss" for bs :: "('a, 'b, 'c, 'd) rewrite_block list" and lss
    using that by (induction rule: list_all2_induct) (simp_all add: ops)
  then show ?thesis using assms by (simp add: widen_out_of_range_def all_ops_def)
qed

definition natural :: "layout \<Rightarrow> bool" where
  "natural L \<longleftrightarrow> (\<forall>l\<in>set (concat (la_instruction_layouts L)). il_strategy l = ES_Normal)"

lemma lay_out_natural_complete:
  assumes "lays_out I plan base c L" "natural L"
  shows "lay_out I plan base c = Ok L"
proof -
  let ?ils = "la_instruction_layouts L"
  have L: "all_ops (size_ok I) plan ?ils" "placed base (concat ?ils)"
    "all_ops (op_in_range I (la_block_addresses L) c) plan ?ils"
    using assms(1) unfolding lays_out_def by blast+
  have len: "length ?ils = length (rp_blocks plan)" using L(1) by (simp add: all_ops_def list_all2_lengthD)
  have sh: "same_shape (initial_layouts I plan) ?ils"
    using initial_layouts_same_shape [OF L(1)] assms(2) by (simp add: natural_def)
  have m: "MAX_LAYOUT_ITERATIONS = Suc 15" by (simp add: MAX_LAYOUT_ITERATIONS_def)
  have "assign_addresses (initial_layouts I plan) base = (?ils, la_block_addresses L, la_total_size L)"
    using assign_addresses_placed [OF sh L(2)] assms(1) len by (simp add: lays_out_def)
  moreover have "la_base_address L = base" using assms(1) by (simp add: lays_out_def)
  ultimately show ?thesis
    using widen_in_range [OF L(3)] unfolding lay_out_def lay_out_inner_def m layout_loop.simps
    by (cases L) simp
qed

section \<open>Moving a layout\<close>

definition shift_layout :: "u64 \<Rightarrow> instruction_layout \<Rightarrow> instruction_layout" where
  "shift_layout d l = l\<lparr>il_address := il_address l + d\<rparr>"

definition block_branches :: "('m, 'o, 'r, 'k) rewrite_op \<Rightarrow> bool" where
  "block_branches rop =
     (case rop of
        Op_Instruction insn \<Rightarrow>
          (case pc_relative_branch_target insn of Some (T_Block _) \<Rightarrow> True | None \<Rightarrow> True | _ \<Rightarrow> False)
      | _ \<Rightarrow> True)"

definition self_contained :: "('m, 'o, 'r, 'k) rewrite_plan \<Rightarrow> bool" where
  "self_contained plan \<longleftrightarrow> list_all (\<lambda>b. list_all block_branches (rb_ops b)) (rp_blocks plan)"

lemma shift_layout_simps [simp]:
  "il_size (shift_layout d l) = il_size l" "il_strategy (shift_layout d l) = il_strategy l"
  "il_address (shift_layout d l) = il_address l + d"
  "(shift_layout k l)\<lparr>il_address := a + d\<rparr> = shift_layout d (l\<lparr>il_address := a\<rparr>)"
  "(shift_layout d l)\<lparr>il_strategy := s, il_size := n\<rparr> = shift_layout d (l\<lparr>il_strategy := s, il_size := n\<rparr>)"
  by (simp_all add: shift_layout_def)

lemma assign_block_shift:
  "assign_block (a + d) (map (shift_layout k) ls) =
     (map (shift_layout d) (fst (assign_block a ls)), snd (assign_block a ls) + d)"
proof (induction ls arbitrary: a)
  case (Cons l ls)
  then show ?case using Cons [of "a + il_size l"] by (simp add: case_prod_unfold Let_def ac_simps)
qed simp

lemma assign_blocks_shift:
  "assign_blocks a ils = (ils', ba, e) \<Longrightarrow>
   assign_blocks (a + d) (map (map (shift_layout k)) ils) =
     (map (map (shift_layout d)) ils', map (\<lambda>x. x + d) ba, e + d)"
  by (induction ils arbitrary: a ils' ba e) (auto simp: assign_block_shift split: prod.splits)

lemma assign_addresses_shift:
  "assign_addresses ils base = (ils', ba, tot) \<Longrightarrow>
   assign_addresses (map (map (shift_layout k)) ils) (base + d) =
     (map (map (shift_layout d)) ils', map (\<lambda>x. x + d) ba, tot)"
  unfolding assign_addresses_def by (auto simp: assign_blocks_shift split: prod.splits)

lemma resolve_block_shift:
  "resolve_target (T_Block i) (map (\<lambda>x. x + d) ba) c = map_sum id (\<lambda>x. x + d) (resolve_target (T_Block i) ba c)"
  by (simp add: resolve_target_def vec_get_def)

lemma widen_op_shift:
  assumes "block_branches rop"
  shows "widen_op I (map (\<lambda>x. x + d) ba) c True rop (shift_layout d l) =
    map_sum id (apfst (shift_layout d)) (widen_op I ba c True rop l)"
proof (cases "\<exists>insn i. rop = Op_Instruction insn \<and> pc_relative_branch_target insn = Some (T_Block i)")
  case False
  then show ?thesis
    using assms by (auto simp: widen_op_def block_branches_def split: rewrite_op.splits option.splits rewrite_target.splits)
next
  case True
  then obtain insn i where r: "rop = Op_Instruction insn" "pc_relative_branch_target insn = Some (T_Block i)" by blast
  show ?thesis
  proof (cases "resolve_target (T_Block i) ba c")
    case (Inl e)
    then show ?thesis using r by (cases e) (simp_all add: widen_op_def resolve_block_shift)
  next
    case (Inr a)
    have "in_branch_range (a + d) (il_address l + d) rng = in_branch_range a (il_address l) rng" for rng
      by (simp add: in_branch_range_def)
    then show ?thesis
      using r Inr
      by (cases "effective_range I (ri_mnemonic insn) (il_strategy l)"; cases "il_strategy l")
        (simp_all add: widen_op_def resolve_block_shift Let_def)
  qed
qed

lemma widen_ops_shift:
  "list_all block_branches ops \<Longrightarrow>
   widen_ops I (map (\<lambda>x. x + d) ba) c True ops (map (shift_layout d) ls) =
     map_sum id (apfst (map (shift_layout d))) (widen_ops I ba c True ops ls)"
proof (induction ops arbitrary: ls)
  case (Cons rop ops)
  then show ?case
    by (cases ls; cases "widen_op I ba c True rop (hd ls)"; cases "widen_ops I ba c True ops (tl ls)")
      (auto simp: widen_op_shift)
qed simp

lemma widen_blocks_shift:
  "list_all (\<lambda>b. list_all block_branches (rb_ops b)) bs \<Longrightarrow>
   widen_blocks I (map (\<lambda>x. x + d) ba) c True bs (map (map (shift_layout d)) lss) =
     map_sum id (apfst (map (map (shift_layout d)))) (widen_blocks I ba c True bs lss)"
proof (induction bs arbitrary: lss)
  case (Cons b bs)
  then show ?case
    by (cases lss; cases "widen_ops I ba c True (rb_ops b) (hd lss)"; cases "widen_blocks I ba c True bs (tl lss)")
      (auto simp: widen_ops_shift)
qed simp

lemma layout_loop_shift:
  assumes "self_contained plan"
  shows "layout_loop I plan base c True n ils = Ok L \<Longrightarrow>
    \<exists>L'. layout_loop I plan (base + d) c True n (map (map (shift_layout k)) ils) = Ok L' \<and>
      la_total_size L' = la_total_size L \<and>
      la_instruction_layouts L' = map (map (shift_layout d)) (la_instruction_layouts L)"
proof (induction n arbitrary: ils k)
  case (Suc n)
  obtain ils1 ba tot where a: "assign_addresses ils base = (ils1, ba, tot)" using prod_cases3 by blast
  note a' = assign_addresses_shift [OF a, of k d]
  obtain ils2 grew where w: "widen_out_of_range I plan ils1 ba c True = Ok (ils2, grew)"
    using Suc.prems a by (auto simp: and_then_Ok_iff)
  have w': "widen_out_of_range I plan (map (map (shift_layout d)) ils1) (map (\<lambda>x. x + d) ba) c True =
      Ok (map (map (shift_layout d)) ils2, grew)"
    using w assms by (simp add: widen_out_of_range_def self_contained_def widen_blocks_shift)
  show ?case
  proof (cases grew)
    case True
    then show ?thesis using Suc.IH [of ils2 d] Suc.prems a a' w w' by simp
  next
    case False
    then show ?thesis using Suc.prems a a' w w' by auto
  qed
qed simp

lemma widen_op_probe:
  "widen_op I ba c False rop l = Ok r \<Longrightarrow> widen_op I ba c True rop l = Ok r"
proof (cases r)
  fix l' grew
  assume w: "widen_op I ba c False rop l = Ok r" and r: "r = (l', grew)"
  show ?thesis
  proof (cases "op_in_range I ba c rop l")
    case True
    then show ?thesis using w by (simp add: widen_op_in_range)
  next
    case False
    from widen_op_out [OF this, of False] w
    have n: "normal_widenable I rop l"
      "r = (l\<lparr>il_strategy := ES_InvertedConditional, il_size := i_widened_conditional_size I\<rparr>, True)"
      by auto
    have "widen_op I ba c True rop l = widen_op I ba c False rop l"
      using n(1) by (auto simp: widen_op_def normal_widenable_def widenable_def Let_def
          split: rewrite_op.splits option.splits sum.splits)
    then show ?thesis using w by simp
  qed
qed

lemma widen_blocks_probe:
  "widen_blocks I ba c False bs lss = Ok r \<Longrightarrow> widen_blocks I ba c True bs lss = Ok r"
proof -
  have ops: "widen_ops I ba c False ops ls = Ok r \<Longrightarrow> widen_ops I ba c True ops ls = Ok r" for ops ls r
  proof (induction ops arbitrary: ls r)
    case (Cons rop ops)
    then show ?case by (cases ls) (auto simp: and_then_Ok_iff dest!: widen_op_probe)
  qed simp
  show "widen_blocks I ba c False bs lss = Ok r \<Longrightarrow> widen_blocks I ba c True bs lss = Ok r"
  proof (induction bs arbitrary: lss r)
    case (Cons b bs)
    then show ?case by (cases lss) (auto simp: and_then_Ok_iff dest!: ops)
  qed simp
qed

lemma layout_loop_probe:
  "layout_loop I plan base c False n ils = Ok L \<Longrightarrow> layout_loop I plan base c True n ils = Ok L"
proof (induction n arbitrary: ils)
  case (Suc n)
  obtain ils1 ba tot where a: "assign_addresses ils base = (ils1, ba, tot)" using prod_cases3 by blast
  obtain ils2 grew where w: "widen_out_of_range I plan ils1 ba c False = Ok (ils2, grew)"
    using Suc.prems a by (auto simp: and_then_Ok_iff)
  then have "widen_out_of_range I plan ils1 ba c True = Ok (ils2, grew)"
    by (simp add: widen_out_of_range_def widen_blocks_probe)
  then show ?case using Suc a w by (cases grew) simp_all
qed simp

lemma initial_layouts_shift: "map (map (shift_layout 0)) ils = ils"
  by (simp add: shift_layout_def map_idI)

lemma lay_out_OkD: "lay_out I plan base c = Ok L \<Longrightarrow> lays_out I plan base c L"
  using layout_loop_result [OF initial_layouts_size_ok, of MAX_LAYOUT_ITERATIONS I plan base c]
  by (simp add: lay_out_def lay_out_inner_def)

section \<open>Properties\<close>

text \<open>C9: what the layout pass returns. A layout it accepts places the operations one after the
  other from the base address, gives every block the address of its first operation, keeps each
  operation at its source size or widens it, and widens nothing but conditional branches; every
  branch whose target has an address is within the reach of the form it is emitted in. A failure
  names an operation that has no place in a layout the pass tried, and the round limit is only
  reached by a plan that has at least sixteen branches to widen: any other plan converges.\<close>

theorem lay_out_correct:
  "case lay_out I plan base c of
     Ok L \<Rightarrow> lays_out I plan base c L
   | Err e \<Rightarrow> layout_fails I plan base c e"
  using layout_loop_result [OF initial_layouts_size_ok, of MAX_LAYOUT_ITERATIONS I plan base c]
  unfolding lay_out_def lay_out_inner_def layout_fails_def .

text \<open>C24: nothing is widened without need. A layout in which every operation has its source size
  and every branch is in reach is unique, and the pass returns it; conversely, what the pass
  returns without widening is that layout.\<close>

theorem lay_out_natural:
  "lay_out I plan base c = Ok L \<and> natural L \<longleftrightarrow> lays_out I plan base c L \<and> natural L"
  using lay_out_natural_complete [of I plan base c L]
    layout_loop_result [OF initial_layouts_size_ok, of MAX_LAYOUT_ITERATIONS I plan base c]
  by (auto simp: lay_out_def lay_out_inner_def split: sum.splits)

text \<open>C31: the size probe is exact for self-contained code. When every branch of a plan goes to one
  of its blocks, laying it out for its size, at any base address, gives the size and the
  strategies of the real layout wherever that is placed.\<close>

theorem size_probe_exact:
  assumes "self_contained plan" "lay_out I plan base c = Ok L"
  shows "\<exists>L'. lay_out_for_size I plan base' c = Ok L' \<and> la_total_size L' = la_total_size L \<and>
    map (map il_strategy) (la_instruction_layouts L') = map (map il_strategy) (la_instruction_layouts L)"
proof -
  have "layout_loop I plan base c True MAX_LAYOUT_ITERATIONS (initial_layouts I plan) = Ok L"
    using assms(2) layout_loop_probe by (simp add: lay_out_def lay_out_inner_def)
  from layout_loop_shift [OF assms(1) this, of "base' - base" 0] show ?thesis
    by (auto simp: lay_out_for_size_def lay_out_inner_def initial_layouts_shift o_def)
qed

end
