(* ===== verification/Rewrite_Plan.thy ===== *)
theory Rewrite_Plan
  imports Rewrite_Layout
begin

text \<open>
  The editable plan (\<open>src/src/rewrite/plan.rs\<close>): lifting a control-flow graph and its decoded
  instructions into symbolic form, and the edit operations. An operation on \<open>&mut self\<close> returns the
  new plan. A panic (a slice or a section index out of range) is \<open>None\<close> of an outer option.
\<close>

section \<open>Data\<close>

datatype edit_error =
    AddressNotFound u64
  | NoBranchOperand u64
  | NotAMacro u64
  | NotAnInstruction u64
  | UnknownBlock basic_block_id

record ('m, 'o) decoded_ref =
  dr_ref_address :: u64
  dr_ref_mnemonic :: 'm
  dr_ref_operands :: "'o list"
  dr_ref_size :: u64

section \<open>Lifting\<close>

definition resolve_address :: "u64 \<Rightarrow> (u64 \<rightharpoonup> basic_block_id) \<Rightarrow> container option \<Rightarrow> rewrite_target" where
  "resolve_address address block_at_address container =
     (case block_at_address address of
        Some i \<Rightarrow> T_Block i
      | None \<Rightarrow>
          (case Option.bind container (\<lambda>c. symbol_at_address c address) of
             Some s \<Rightarrow> T_Symbol (sym_id s)
           | None \<Rightarrow> T_Absolute address))"

definition relocation_target ::
  "('m, 'o, 'r, 'k, 'd, 'e) isa \<Rightarrow> (u64 \<rightharpoonup> fusion_relocation_info) \<Rightarrow> u64 \<Rightarrow> rewrite_target option" where
  "relocation_target I relocations address =
     (case relocations address of
        None \<Rightarrow> None
      | Some r \<Rightarrow> if i_is_pc_relative_relocation I (fri_kind r) then map_option T_Symbol (fri_symbol r) else None)"

definition lift_operand ::
  "('m, 'o, 'r, 'k, 'd, 'e) isa \<Rightarrow> (u64 \<rightharpoonup> basic_block_id) \<Rightarrow> container option \<Rightarrow>
   rewrite_target option \<Rightarrow> 'o \<Rightarrow> 'o rewrite_operand" where
  "lift_operand I block_at_address container reloc_target operand =
     (case i_pcrel_kind I operand of
        Some (PK_Branch, addr) \<Rightarrow>
          RO_Branch (case reloc_target of Some t \<Rightarrow> t | None \<Rightarrow> resolve_address addr block_at_address container)
      | Some (PK_Page, addr) \<Rightarrow> RO_Page (case reloc_target of Some t \<Rightarrow> t | None \<Rightarrow> T_Absolute addr)
      | None \<Rightarrow> RO_Decoded operand)"

definition lift_instruction ::
  "('m, 'o, 'r, 'k, 'd, 'e) isa \<Rightarrow> ('m, 'o) decoded_ref \<Rightarrow> (u64 \<rightharpoonup> basic_block_id) \<Rightarrow> container option \<Rightarrow>
   (u64 \<rightharpoonup> fusion_relocation_info) \<Rightarrow> ('m, 'o) rewrite_instruction" where
  "lift_instruction I insn block_at_address container relocations =
     \<lparr>ri_mnemonic = dr_ref_mnemonic insn,
      ri_operands = map (lift_operand I block_at_address container (relocation_target I relocations (dr_ref_address insn)))
        (dr_ref_operands insn),
      ri_original_address = Some (dr_ref_address insn),
      ri_source_size = Some (dr_ref_size insn)\<rparr>"

fun lookup_relocations ::
  "('m, 'o, 'r, 'k, 'd, 'e) isa \<Rightarrow> container \<Rightarrow> relocation list \<Rightarrow> (u64 \<rightharpoonup> fusion_relocation_info) \<Rightarrow>
   (u64 \<rightharpoonup> fusion_relocation_info) option" where
  "lookup_relocations I c [] m = Some m"
| "lookup_relocations I c (r # rs) m =
     (if \<not> i_is_lift_relevant_relocation I (rel_kind r) then lookup_relocations I c rs m
      else
        case container_section_at c (rel_section r) of
          None \<Rightarrow> None
        | Some s \<Rightarrow>
            (let address = sec_address s + rel_offset r in
             lookup_relocations I c rs
               (if m address = None
                then m(address \<mapsto> \<lparr>fri_kind = rel_kind r, fri_symbol = rel_symbol r\<rparr>) else m)))"

definition build_pc_relative_relocation_lookup ::
  "('m, 'o, 'r, 'k, 'd, 'e) isa \<Rightarrow> container \<Rightarrow> (u64 \<rightharpoonup> fusion_relocation_info) option" where
  "build_pc_relative_relocation_lookup I c = lookup_relocations I c (c_relocations c) Map.empty"

definition slice :: "'a list \<Rightarrow> nat \<Rightarrow> nat \<Rightarrow> 'a list option" where
  "slice xs first last' =
     (if first \<le> last' \<and> last' \<le> length xs then Some (take (last' - first) (drop first xs)) else None)"

definition lift_inner ::
  "('m, 'o, 'r, 'k, 'd, 'e) isa \<Rightarrow> control_flow_graph \<Rightarrow> ('m, 'o) decoded_ref list \<Rightarrow> container option \<Rightarrow>
   ('m, 'o, 'r, 'k) rewrite_plan option" where
  "lift_inner I cfg instructions container =
     (let block_at_address = hash_map_of (map (\<lambda>b. (bb_start b, bb_id b)) (cfg_blocks cfg)) in
      Option.bind (case container of None \<Rightarrow> Some Map.empty | Some c \<Rightarrow> build_pc_relative_relocation_lookup I c)
        (\<lambda>relocations.
          map_option (\<lambda>blocks. \<lparr>rp_blocks = blocks\<rparr>)
            (collect_options
              (map (\<lambda>block.
                 map_option
                   (\<lambda>insns. \<lparr>rb_id = bb_id block,
                      rb_ops = i_fuse_macros I
                        (map (\<lambda>insn. lift_instruction I insn block_at_address container relocations) insns)
                        block_at_address container relocations\<rparr>)
                   (slice instructions (bb_first block) (bb_last block)))
              (cfg_blocks cfg)))))"

definition decoded_refs :: "('m, 'o, 'r, 'k, 'd, 'e) isa \<Rightarrow> 'd list \<Rightarrow> ('m, 'o) decoded_ref list" where
  "decoded_refs I instructions =
     map (\<lambda>i. \<lparr>dr_ref_address = i_decoded_address I i, dr_ref_mnemonic = i_decoded_mnemonic I i,
               dr_ref_operands = i_decoded_operands I i, dr_ref_size = i_decoded_size I i\<rparr>) instructions"

definition lift_from_decoded ::
  "('m, 'o, 'r, 'k, 'd, 'e) isa \<Rightarrow> control_flow_graph \<Rightarrow> 'd list \<Rightarrow> ('m, 'o, 'r, 'k) rewrite_plan option" where
  "lift_from_decoded I cfg instructions = lift_inner I cfg (decoded_refs I instructions) None"

definition lift_from_decoded_with_container ::
  "('m, 'o, 'r, 'k, 'd, 'e) isa \<Rightarrow> control_flow_graph \<Rightarrow> 'd list \<Rightarrow> container \<Rightarrow>
   ('m, 'o, 'r, 'k) rewrite_plan option" where
  "lift_from_decoded_with_container I cfg instructions c = lift_inner I cfg (decoded_refs I instructions) (Some c)"

definition from_instructions ::
  "('m, 'o, 'r, 'k, 'd, 'e) isa \<Rightarrow> ('m, 'o) rewrite_instruction list \<Rightarrow> container option \<Rightarrow>
   ('m, 'o, 'r, 'k) rewrite_plan" where
  "from_instructions I instructions container =
     \<lparr>rp_blocks = [\<lparr>rb_id = 0, rb_ops = i_fuse_macros I instructions Map.empty container Map.empty\<rparr>]\<rparr>"

section \<open>Edits\<close>

fun locate_op :: "nat \<Rightarrow> ('m, 'o, 'r, 'k) rewrite_op list \<Rightarrow> u64 \<Rightarrow> nat option" where
  "locate_op i [] address = None"
| "locate_op i (rop # ops) address =
     (if matches_source_address rop address then Some i else locate_op (Suc i) ops address)"

fun locate_block :: "nat \<Rightarrow> ('m, 'o, 'r, 'k) rewrite_block list \<Rightarrow> u64 \<Rightarrow> (nat \<times> nat) option" where
  "locate_block b [] address = None"
| "locate_block b (block # blocks) address =
     (case locate_op 0 (rb_ops block) address of
        Some i \<Rightarrow> Some (b, i)
      | None \<Rightarrow> locate_block (Suc b) blocks address)"

definition locate :: "('m, 'o, 'r, 'k) rewrite_plan \<Rightarrow> u64 \<Rightarrow> (nat \<times> nat) option" where
  "locate plan address = locate_block 0 (rp_blocks plan) address"

definition plan_op :: "('m, 'o, 'r, 'k) rewrite_plan \<Rightarrow> nat \<Rightarrow> nat \<Rightarrow> ('m, 'o, 'r, 'k) rewrite_op" where
  "plan_op plan b i = rb_ops (rp_blocks plan ! b) ! i"

definition edit_block ::
  "('m, 'o, 'r, 'k) rewrite_plan \<Rightarrow> nat \<Rightarrow>
   (('m, 'o, 'r, 'k) rewrite_op list \<Rightarrow> ('m, 'o, 'r, 'k) rewrite_op list) \<Rightarrow> ('m, 'o, 'r, 'k) rewrite_plan" where
  "edit_block plan b f =
     plan\<lparr>rp_blocks := (rp_blocks plan)[b := (rp_blocks plan ! b)\<lparr>rb_ops := f (rb_ops (rp_blocks plan ! b))\<rparr>]\<rparr>"

definition op_at :: "('m, 'o, 'r, 'k) rewrite_plan \<Rightarrow> u64 \<Rightarrow> ('m, 'o, 'r, 'k) rewrite_op option" where
  "op_at plan address = map_option (\<lambda>(b, i). plan_op plan b i) (locate plan address)"

definition instruction_at :: "('m, 'o, 'r, 'k) rewrite_plan \<Rightarrow> u64 \<Rightarrow> ('m, 'o) rewrite_instruction option" where
  "instruction_at plan address =
     (case op_at plan address of Some (Op_Instruction insn) \<Rightarrow> Some insn | _ \<Rightarrow> None)"

definition unfuse_macro_at :: "('m, 'o, 'r, 'k) rewrite_plan \<Rightarrow> u64 \<Rightarrow> ('m, 'o, 'r, 'k) rewrite_plan" where
  "unfuse_macro_at plan address =
     (case locate plan address of
        None \<Rightarrow> plan
      | Some (b, i) \<Rightarrow>
          (case plan_op plan b i of
             Op_Macro m \<Rightarrow>
               (case mo_original_instructions m of
                  [] \<Rightarrow> plan
                | ins # _ \<Rightarrow>
                    if ri_original_address ins = Some address
                    then edit_block plan b
                      (\<lambda>ops. take i ops @ map Op_Instruction (mo_original_instructions m) @ drop (Suc i) ops)
                    else plan)
           | _ \<Rightarrow> plan))"

fun redirect_operands :: "'o rewrite_operand list \<Rightarrow> rewrite_target \<Rightarrow> 'o rewrite_operand list option" where
  "redirect_operands [] t = None"
| "redirect_operands (RO_Branch _ # rs) t = Some (RO_Branch t # rs)"
| "redirect_operands (RO_Page _ # rs) t = Some (RO_Page t # rs)"
| "redirect_operands (RO_Decoded d # rs) t = map_option ((#) (RO_Decoded d)) (redirect_operands rs t)"

definition redirect_branch ::
  "('m, 'o, 'r, 'k) rewrite_plan \<Rightarrow> u64 \<Rightarrow> rewrite_target \<Rightarrow> edit_error + ('m, 'o, 'r, 'k) rewrite_plan" where
  "redirect_branch plan address new_target =
     (case locate plan address of
        None \<Rightarrow> Err (AddressNotFound address)
      | Some (b, i) \<Rightarrow>
          (case plan_op plan b i of
             Op_Instruction insn \<Rightarrow>
               (case redirect_operands (ri_operands insn) new_target of
                  None \<Rightarrow> Err (NoBranchOperand address)
                | Some operands \<Rightarrow>
                    Ok (edit_block plan b (\<lambda>ops. ops[i := Op_Instruction (insn\<lparr>ri_operands := operands\<rparr>)])))
           | _ \<Rightarrow> Err (NotAnInstruction address)))"

definition redirect_macro_target ::
  "('m, 'o, 'r, 'k) rewrite_plan \<Rightarrow> u64 \<Rightarrow> rewrite_target \<Rightarrow> edit_error + ('m, 'o, 'r, 'k) rewrite_plan" where
  "redirect_macro_target plan address new_target =
     (case locate plan address of
        None \<Rightarrow> Err (AddressNotFound address)
      | Some (b, i) \<Rightarrow>
          (case plan_op plan b i of
             Op_Macro m \<Rightarrow> Ok (edit_block plan b (\<lambda>ops. ops[i := Op_Macro (m\<lparr>mo_target := new_target\<rparr>)]))
           | _ \<Rightarrow> Err (NotAMacro address)))"

definition replace_terminator ::
  "('m, 'o, 'r, 'k) rewrite_plan \<Rightarrow> basic_block_id \<Rightarrow> ('m, 'o) rewrite_instruction \<Rightarrow>
   edit_error + ('m, 'o, 'r, 'k) rewrite_plan" where
  "replace_terminator plan block new_terminator =
     (if block < length (rp_blocks plan)
      then Ok (edit_block plan block
        (\<lambda>ops. if ops = [] then [Op_Instruction new_terminator] else butlast ops @ [Op_Instruction new_terminator]))
      else Err (UnknownBlock block))"

definition insert_after_address ::
  "('m, 'o, 'r, 'k) rewrite_plan \<Rightarrow> u64 \<Rightarrow> ('m, 'o) rewrite_instruction list \<Rightarrow>
   edit_error + ('m, 'o, 'r, 'k) rewrite_plan" where
  "insert_after_address plan address new_instructions =
     (case locate plan address of
        None \<Rightarrow> Err (AddressNotFound address)
      | Some (b, i) \<Rightarrow>
          Ok (edit_block plan b (\<lambda>ops. take (i + 1) ops @ map Op_Instruction new_instructions @ drop (i + 1) ops)))"

definition remove_at_address ::
  "('m, 'o, 'r, 'k) rewrite_plan \<Rightarrow> u64 \<Rightarrow>
   edit_error + ('m, 'o, 'r, 'k) rewrite_plan \<times> ('m, 'o, 'r, 'k) rewrite_op" where
  "remove_at_address plan address =
     (case locate plan address of
        None \<Rightarrow> Err (AddressNotFound address)
      | Some (b, i) \<Rightarrow> Ok (edit_block plan b (\<lambda>ops. take i ops @ drop (Suc i) ops), plan_op plan b i))"

section \<open>Where an edit happens\<close>

definition plan_ops :: "('m, 'o, 'r, 'k) rewrite_plan \<Rightarrow> ('m, 'o, 'r, 'k) rewrite_op list" where
  "plan_ops plan = concat (map rb_ops (rp_blocks plan))"

definition op_instructions :: "('m, 'o, 'r, 'k) rewrite_op \<Rightarrow> ('m, 'o) rewrite_instruction list" where
  "op_instructions rop =
     (case rop of Op_Instruction insn \<Rightarrow> [insn] | Op_Macro m \<Rightarrow> mo_original_instructions m | Op_Raw _ \<Rightarrow> [])"

definition plan_instructions :: "('m, 'o, 'r, 'k) rewrite_plan \<Rightarrow> ('m, 'o) rewrite_instruction list" where
  "plan_instructions plan = concat (map op_instructions (plan_ops plan))"

text \<open>The stream cut at the first operation that covers an address.\<close>

definition cut_at ::
  "('m, 'o, 'r, 'k) rewrite_plan \<Rightarrow> u64 \<Rightarrow> nat \<Rightarrow> nat \<Rightarrow> ('m, 'o, 'r, 'k) rewrite_op list \<Rightarrow>
   ('m, 'o, 'r, 'k) rewrite_op \<Rightarrow> ('m, 'o, 'r, 'k) rewrite_op list \<Rightarrow> bool" where
  "cut_at plan address b i before rop after \<longleftrightarrow>
     plan_ops plan = before @ rop # after \<and> matches_source_address rop address \<and>
     \<not> (\<exists>r\<in>set before. matches_source_address r address) \<and>
     b < length (rp_blocks plan) \<and> i < length (rb_ops (rp_blocks plan ! b)) \<and>
     before = concat (map rb_ops (take b (rp_blocks plan))) @ take i (rb_ops (rp_blocks plan ! b)) \<and>
     rop = plan_op plan b i \<and>
     after = drop (Suc i) (rb_ops (rp_blocks plan ! b)) @ concat (map rb_ops (drop (Suc b) (rp_blocks plan)))"

lemma locate_op_None: "locate_op n ops a = None \<longleftrightarrow> (\<forall>r\<in>set ops. \<not> matches_source_address r a)"
  by (induction n ops a rule: locate_op.induct) auto

lemma locate_op_Some:
  "locate_op n ops a = Some i \<Longrightarrow>
   n \<le> i \<and> i - n < length ops \<and> matches_source_address (ops ! (i - n)) a \<and>
   (\<forall>r\<in>set (take (i - n) ops). \<not> matches_source_address r a)"
proof (induction n ops a rule: locate_op.induct)
  case (2 n rop ops a)
  show ?case
  proof (cases "matches_source_address rop a")
    case False
    then have "locate_op (Suc n) ops a = Some i" using "2.prems" by simp
    with "2.IH" False have IH: "Suc n \<le> i" "i - Suc n < length ops" "matches_source_address (ops ! (i - Suc n)) a"
      "\<forall>r\<in>set (take (i - Suc n) ops). \<not> matches_source_address r a" by simp_all
    then have "i - n = Suc (i - Suc n)" by simp
    then show ?thesis using IH False by simp
  qed (use "2.prems" in simp)
qed simp

lemma locate_block_None:
  "locate_block n bs a = None \<longleftrightarrow> (\<forall>b\<in>set bs. \<forall>r\<in>set (rb_ops b). \<not> matches_source_address r a)"
  by (induction n bs a rule: locate_block.induct) (auto simp flip: locate_op_None [where n = 0] split: option.splits)

lemma locate_block_Some:
  "locate_block n bs a = Some (b, i) \<Longrightarrow>
   n \<le> b \<and> b - n < length bs \<and> locate_op 0 (rb_ops (bs ! (b - n))) a = Some i \<and>
   (\<forall>bl\<in>set (take (b - n) bs). \<forall>r\<in>set (rb_ops bl). \<not> matches_source_address r a)"
proof (induction n bs a rule: locate_block.induct)
  case (2 n bl bs a)
  show ?case
  proof (cases "locate_op 0 (rb_ops bl) a")
    case None
    then have "locate_block (Suc n) bs a = Some (b, i)" using "2.prems" by simp
    with "2.IH" None have IH: "Suc n \<le> b" "b - Suc n < length bs" "locate_op 0 (rb_ops (bs ! (b - Suc n))) a = Some i"
      "\<forall>bl\<in>set (take (b - Suc n) bs). \<forall>r\<in>set (rb_ops bl). \<not> matches_source_address r a" by simp_all
    then have "b - n = Suc (b - Suc n)" by simp
    then show ?thesis using IH None by (simp add: locate_op_None)
  qed (use "2.prems" in auto)
qed simp

lemma locate_None: "locate plan a = None \<longleftrightarrow> (\<forall>r\<in>set (plan_ops plan). \<not> matches_source_address r a)"
  by (simp add: locate_def locate_block_None plan_ops_def)

lemma plan_ops_split:
  assumes "b < length (rp_blocks plan)"
  shows "plan_ops plan = concat (map rb_ops (take b (rp_blocks plan))) @ rb_ops (rp_blocks plan ! b) @
    concat (map rb_ops (drop (Suc b) (rp_blocks plan)))"
  using arg_cong [OF id_take_nth_drop [OF assms], of "\<lambda>bs. concat (map rb_ops bs)"]
  by (simp add: plan_ops_def)

lemma locate_cut:
  assumes "locate plan a = Some (b, i)"
  obtains before rop after where "cut_at plan a b i before rop after"
proof -
  let ?ops = "rb_ops (rp_blocks plan ! b)"
  have b: "b < length (rp_blocks plan)" "locate_op 0 ?ops a = Some i"
    "\<forall>bl\<in>set (take b (rp_blocks plan)). \<forall>r\<in>set (rb_ops bl). \<not> matches_source_address r a"
    using locate_block_Some [OF assms [unfolded locate_def]] by simp_all
  note i = locate_op_Some [OF b(2)]
  have e: "?ops = take i ?ops @ ?ops ! i # drop (Suc i) ?ops" using i by (intro id_take_nth_drop) simp
  let ?pre = "concat (map rb_ops (take b (rp_blocks plan)))" and ?post = "concat (map rb_ops (drop (Suc b) (rp_blocks plan)))"
  have "plan_ops plan = ?pre @ (take i ?ops @ ?ops ! i # drop (Suc i) ?ops) @ ?post"
    using plan_ops_split [OF b(1)] e by metis
  then have "cut_at plan a b i (?pre @ take i ?ops) (?ops ! i) (drop (Suc i) ?ops @ ?post)"
    using b i by (auto simp: cut_at_def plan_op_def)
  then show ?thesis by (rule that)
qed

lemma plan_ops_edit_block:
  assumes "b < length (rp_blocks plan)"
  shows "plan_ops (edit_block plan b f) = concat (map rb_ops (take b (rp_blocks plan))) @
    f (rb_ops (rp_blocks plan ! b)) @ concat (map rb_ops (drop (Suc b) (rp_blocks plan)))"
    "map rb_id (rp_blocks (edit_block plan b f)) = map rb_id (rp_blocks plan)"
proof -
  let ?p = "edit_block plan b f"
  have "b < length (rp_blocks ?p)" using assms by (simp add: edit_block_def)
  from plan_ops_split [OF this] show "plan_ops ?p = concat (map rb_ops (take b (rp_blocks plan))) @
    f (rb_ops (rp_blocks plan ! b)) @ concat (map rb_ops (drop (Suc b) (rp_blocks plan)))"
    using assms by (simp add: edit_block_def)
  show "map rb_id (rp_blocks ?p) = map rb_id (rp_blocks plan)"
    using assms by (simp add: edit_block_def map_update list_update_same_conv)
qed

lemma edit_at_cut:
  assumes "cut_at plan a b i before rop after"
    and "f (rb_ops (rp_blocks plan ! b)) = take i (rb_ops (rp_blocks plan ! b)) @ new @ drop (Suc i) (rb_ops (rp_blocks plan ! b))"
  shows "plan_ops (edit_block plan b f) = before @ new @ after"
  using assms by (simp add: cut_at_def plan_ops_edit_block)

lemma redirect_operands_split:
  "redirect_operands rs t = None \<Longrightarrow> \<exists>ds. rs = map RO_Decoded ds"
  "redirect_operands rs t = Some rs' \<Longrightarrow> \<exists>mk t0 ds later. mk \<in> {RO_Branch, RO_Page} \<and>
     rs = map RO_Decoded ds @ mk t0 # later \<and> rs' = map RO_Decoded ds @ mk t # later"
proof -
  show "redirect_operands rs t = None \<Longrightarrow> \<exists>ds. rs = map RO_Decoded ds"
    by (induction rs t rule: redirect_operands.induct) (auto simp: Cons_eq_map_conv)
  show "redirect_operands rs t = Some rs' \<Longrightarrow> \<exists>mk t0 ds later. mk \<in> {RO_Branch, RO_Page} \<and>
     rs = map RO_Decoded ds @ mk t0 # later \<and> rs' = map RO_Decoded ds @ mk t # later"
  proof (induction rs t arbitrary: rs' rule: redirect_operands.induct)
    case (2 t0 rs t)
    then show ?case by (intro exI [of _ RO_Branch] exI [of _ t0] exI [of _ "[]"] exI [of _ rs]) simp
  next
    case (3 t0 rs t)
    then show ?case by (intro exI [of _ RO_Page] exI [of _ t0] exI [of _ "[]"] exI [of _ rs]) simp
  next
    case (4 d rs t)
    then obtain rs1 where r: "redirect_operands rs t = Some rs1" "rs' = RO_Decoded d # rs1" by auto
    from "4.IH" [OF r(1)] obtain mk t0 ds later where "mk \<in> {RO_Branch, RO_Page}"
      "rs = map RO_Decoded ds @ mk t0 # later" "rs1 = map RO_Decoded ds @ mk t # later" by blast
    then show ?case using r(2) by (intro exI [of _ mk] exI [of _ t0] exI [of _ "d # ds"]) simp
  qed simp
qed

lemma unfuse_instructions: "plan_instructions (unfuse_macro_at plan a) = plan_instructions plan"
proof (cases "locate plan a")
  case None
  then show ?thesis by (simp add: unfuse_macro_at_def)
next
  case (Some bi)
  obtain b i where bi: "bi = (b, i)" by fastforce
  obtain before rop after where c: "cut_at plan a b i before rop after" using locate_cut Some bi by metis
  show ?thesis
  proof (cases "\<exists>m ins rest. rop = Op_Macro m \<and> mo_original_instructions m = ins # rest \<and> ri_original_address ins = Some a")
    case True
    then obtain m ins rest where m: "rop = Op_Macro m" "mo_original_instructions m = ins # rest"
      "ri_original_address ins = Some a" by blast
    have "plan_op plan b i = Op_Macro m" using c m(1) by (simp add: cut_at_def)
    then have "unfuse_macro_at plan a = edit_block plan b
        (\<lambda>ops. take i ops @ map Op_Instruction (mo_original_instructions m) @ drop (Suc i) ops)"
      using Some bi m by (simp add: unfuse_macro_at_def)
    then have "plan_ops (unfuse_macro_at plan a) = before @ map Op_Instruction (mo_original_instructions m) @ after"
      using edit_at_cut [OF c, where new = "map Op_Instruction (mo_original_instructions m)"] by simp
    moreover have "concat (map op_instructions (map Op_Instruction is)) = is" for "is" :: "('a, 'b) rewrite_instruction list"
      by (induction "is") (simp_all add: op_instructions_def)
    moreover have "plan_ops plan = before @ rop # after" using c by (simp add: cut_at_def)
    ultimately show ?thesis using m(1) by (simp add: plan_instructions_def op_instructions_def)
  next
    case False
    moreover have "rop = plan_op plan b i" using c by (simp add: cut_at_def)
    ultimately have "unfuse_macro_at plan a = plan"
      using Some bi by (auto simp: unfuse_macro_at_def split: rewrite_op.splits list.splits)
    then show ?thesis by simp
  qed
qed

section \<open>Properties\<close>

text \<open>C21: an edit changes one place. When no operation covers the address, inserting and removing
  are refused; otherwise both act at the first operation of the stream that covers it, the inserted
  instructions go right after it, the removed operation is the one that was there, every other
  operation keeps its place, and the blocks keep their identifiers. Splitting a fused macro never
  changes the source instructions of the plan.\<close>

theorem edits_local:
  "case locate plan a of
     None \<Rightarrow>
       filter (\<lambda>r. matches_source_address r a) (plan_ops plan) = [] \<and>
       insert_after_address plan a new = Err (AddressNotFound a) \<and>
       remove_at_address plan a = Err (AddressNotFound a)
   | Some (b, i) \<Rightarrow>
       (\<exists>before rop after. cut_at plan a b i before rop after \<and>
          (case insert_after_address plan a new of
             Ok p \<Rightarrow> plan_ops p = before @ rop # map Op_Instruction new @ after \<and>
               map rb_id (rp_blocks p) = map rb_id (rp_blocks plan)
           | Err _ \<Rightarrow> False) \<and>
          (case remove_at_address plan a of
             Ok (p, r) \<Rightarrow> r = rop \<and> plan_ops p = before @ after \<and>
               map rb_id (rp_blocks p) = map rb_id (rp_blocks plan)
           | Err _ \<Rightarrow> False) \<and>
          plan_instructions (unfuse_macro_at plan a) = plan_instructions plan)"
proof (cases "locate plan a")
  case None
  then have "filter (\<lambda>r. matches_source_address r a) (plan_ops plan) = []"
    by (auto simp: locate_None filter_empty_conv)
  then show ?thesis using None by (simp add: insert_after_address_def remove_at_address_def)
next
  case (Some bi)
  obtain b i where bi: "bi = (b, i)" by fastforce
  obtain before rop after where c: "cut_at plan a b i before rop after" using locate_cut Some bi by metis
  let ?ops = "rb_ops (rp_blocks plan ! b)"
  have i: "take (i + 1) ?ops = take i ?ops @ [rop]" "b < length (rp_blocks plan)"
    using c by (simp_all add: cut_at_def plan_op_def take_Suc_conv_app_nth)
  have ins: "plan_ops (edit_block plan b (\<lambda>ops. take (i + 1) ops @ map Op_Instruction new @ drop (i + 1) ops)) =
      before @ (rop # map Op_Instruction new) @ after"
    by (rule edit_at_cut [OF c]) (simp add: i(1) [simplified])
  have rem: "plan_ops (edit_block plan b (\<lambda>ops. take i ops @ drop (Suc i) ops)) = before @ [] @ after"
    by (rule edit_at_cut [OF c]) simp
  have "insert_after_address plan a new =
      Ok (edit_block plan b (\<lambda>ops. take (i + 1) ops @ map Op_Instruction new @ drop (i + 1) ops))"
    using Some bi by (simp add: insert_after_address_def)
  moreover have "remove_at_address plan a = Ok (edit_block plan b (\<lambda>ops. take i ops @ drop (Suc i) ops), rop)"
    using Some bi c by (simp add: remove_at_address_def cut_at_def)
  ultimately show ?thesis
    unfolding Some bi option.case prod.case
    by (intro exI [of _ before] exI [of _ rop] exI [of _ after] conjI c)
      (use ins rem i(2) unfuse_instructions in \<open>simp_all add: plan_ops_edit_block(2)\<close>)
qed

text \<open>C30: redirecting a branch. It succeeds exactly when the first operation that covers the address
  is a single instruction with a symbolic operand; then the first symbolic one, the one all decoded
  operands stand before, keeps its kind and gets the new target, and the instruction's other fields,
  its other operands and all other operations stay. The errors are exact: no operation covers the
  address, it is a macro or raw bytes, or all operands of the instruction are decoded ones.\<close>

theorem redirect_branch_exact:
  "case redirect_branch plan a t of
     Ok p \<Rightarrow>
       (\<exists>b i before insn mk t0 ds later after. cut_at plan a b i before (Op_Instruction insn) after \<and>
          mk \<in> {RO_Branch, RO_Page} \<and> ri_operands insn = map RO_Decoded ds @ mk t0 # later \<and>
          plan_ops p =
            before @ Op_Instruction (insn\<lparr>ri_operands := map RO_Decoded ds @ mk t # later\<rparr>) # after \<and>
          map rb_id (rp_blocks p) = map rb_id (rp_blocks plan))
   | Err e \<Rightarrow>
       e = AddressNotFound a \<and> filter (\<lambda>r. matches_source_address r a) (plan_ops plan) = [] \<or>
       (\<exists>b i before rop after. cut_at plan a b i before rop after \<and>
          (case rop of
             Op_Instruction insn \<Rightarrow> e = NoBranchOperand a \<and> (\<exists>ds. ri_operands insn = map RO_Decoded ds)
           | _ \<Rightarrow> e = NotAnInstruction a))"
proof (cases "locate plan a")
  case None
  then have "filter (\<lambda>r. matches_source_address r a) (plan_ops plan) = []"
    by (auto simp: locate_None filter_empty_conv)
  then show ?thesis using None by (simp add: redirect_branch_def)
next
  case (Some bi)
  obtain b i where bi: "bi = (b, i)" by fastforce
  obtain before rop after where c: "cut_at plan a b i before rop after" using locate_cut Some bi by metis
  have rop: "plan_op plan b i = rop" "i < length (rb_ops (rp_blocks plan ! b))" "b < length (rp_blocks plan)"
    using c by (simp_all add: cut_at_def)
  show ?thesis
  proof (cases rop)
    case insn: (Op_Instruction insn)
    show ?thesis
    proof (cases "redirect_operands (ri_operands insn) t")
      case None
      then have "redirect_branch plan a t = Err (NoBranchOperand a)"
        using Some bi rop(1) insn by (simp add: redirect_branch_def)
      then show ?thesis using redirect_operands_split(1) [OF None] c insn by fastforce
    next
      case (Some rs)
      let ?p = "edit_block plan b (\<lambda>ops. ops[i := Op_Instruction (insn\<lparr>ri_operands := rs\<rparr>)])"
      have p: "plan_ops ?p = before @ Op_Instruction (insn\<lparr>ri_operands := rs\<rparr>) # after"
        using edit_at_cut [OF c, of "\<lambda>ops. ops[i := Op_Instruction (insn\<lparr>ri_operands := rs\<rparr>)]"
            "[Op_Instruction (insn\<lparr>ri_operands := rs\<rparr>)]"] rop(2)
        by (simp add: upd_conv_take_nth_drop)
      obtain mk t0 ds later where "mk \<in> {RO_Branch, RO_Page}" "ri_operands insn = map RO_Decoded ds @ mk t0 # later"
        "rs = map RO_Decoded ds @ mk t # later"
        using redirect_operands_split(2) [OF Some] by blast
      moreover have "redirect_branch plan a t = Ok ?p"
        using \<open>locate plan a = Some bi\<close> bi rop(1) insn Some by (simp add: redirect_branch_def)
      ultimately show ?thesis
        using c insn p plan_ops_edit_block(2) [OF rop(3)] by (simp only: sum.case) blast
    qed
  next
    case (Op_Macro m)
    then have "redirect_branch plan a t = Err (NotAnInstruction a)"
      using Some bi rop(1) by (simp add: redirect_branch_def)
    then show ?thesis using c Op_Macro by fastforce
  next
    case (Op_Raw r)
    then have "redirect_branch plan a t = Err (NotAnInstruction a)"
      using Some bi rop(1) by (simp add: redirect_branch_def)
    then show ?thesis using c Op_Raw by fastforce
  qed
qed

end
