(* ===== verification/A64_Fusion.thy ===== *)
theory A64_Fusion
  imports A64_Flow Rewrite_Plan
begin

text \<open>
  Macro fusion on AArch64 (\<open>src/src/isa/aarch64/fusion.rs\<close>): the pairs \<open>adrp\<close>+\<open>add\<close> (or \<open>mov\<close>) and
  \<open>adrp\<close>+\<open>ldr\<close>/\<open>str\<close> that are turned into one macro operation.
\<close>

section \<open>Data\<close>

text \<open>\<open>AarchMacroKind\<close> is declared in \<open>isa_impl.rs\<close>.\<close>

datatype aarch_macro_kind = MK_LoadAddress | MK_AccessValue

datatype companion_reloc_kind = CR_Add | CR_LoadStore

type_synonym a64_instruction = "(aarch64_mnemonic, decoded_operand) rewrite_instruction"
type_synonym a64_macro = "(aarch64_mnemonic, decoded_operand, register, aarch_macro_kind) macro_op"
type_synonym a64_op = "(aarch64_mnemonic, decoded_operand, register, aarch_macro_kind) rewrite_op"

section \<open>Recognising a pair\<close>

definition same_register :: "register \<Rightarrow> register \<Rightarrow> bool" where
  "same_register a b =
     (if reg_index a \<noteq> reg_index b then False
      else
        let lhs_64 = reg_class a \<in> {RC_X, RC_XOrSp}; rhs_64 = reg_class b \<in> {RC_X, RC_XOrSp};
            lhs_32 = reg_class a \<in> {RC_W, RC_WOrSp}; rhs_32 = reg_class b \<in> {RC_W, RC_WOrSp}
        in lhs_64 \<and> rhs_64 \<or> lhs_32 \<and> rhs_32)"

definition companion_reloc_matches :: "relocation_kind \<Rightarrow> companion_reloc_kind \<Rightarrow> bool" where
  "companion_reloc_matches actual expected =
     (case expected of
        CR_Add \<Rightarrow> actual = RK_AddPageOffset12
      | CR_LoadStore \<Rightarrow> (case actual of RK_LoadStorePageOffset12 _ \<Rightarrow> True | _ \<Rightarrow> False))"

definition macro_target_from_relocations ::
  "a64_instruction \<Rightarrow> a64_instruction \<Rightarrow> (u64 \<rightharpoonup> fusion_relocation_info) \<Rightarrow> companion_reloc_kind \<Rightarrow>
   rewrite_target option" where
  "macro_target_from_relocations adrp companion relocations expected =
     Option.bind (ri_original_address adrp) (\<lambda>adrp_addr.
     Option.bind (ri_original_address companion) (\<lambda>companion_addr.
     Option.bind (relocations adrp_addr) (\<lambda>adrp_reloc.
     Option.bind (relocations companion_addr) (\<lambda>companion_reloc.
       if fri_kind adrp_reloc \<noteq> RK_AdrpPage21 then None
       else if \<not> companion_reloc_matches (fri_kind companion_reloc) expected then None
       else
         Option.bind (fri_symbol adrp_reloc) (\<lambda>adrp_sym.
         Option.bind (fri_symbol companion_reloc) (\<lambda>companion_sym.
           if adrp_sym \<noteq> companion_sym then None else Some (T_Symbol adrp_sym)))))))"

text \<open>The operands of the \<open>adrp\<close>: its register and the page it names.\<close>

definition adrp_operands :: "a64_instruction \<Rightarrow> (register \<times> rewrite_target) option" where
  "adrp_operands adrp =
     (case ri_operands adrp of
        [RO_Decoded x, RO_Page t] \<Rightarrow> (case x of D_Register rd \<Rightarrow> Some (rd, t) | _ \<Rightarrow> None)
      | _ \<Rightarrow> None)"

definition decoded_register :: "decoded_operand rewrite_operand \<Rightarrow> register option" where
  "decoded_register r =
     (case r of RO_Decoded x \<Rightarrow> (case x of D_Register rd \<Rightarrow> Some rd | _ \<Rightarrow> None) | _ \<Rightarrow> None)"

definition decoded_immediate :: "decoded_operand rewrite_operand \<Rightarrow> i64 option" where
  "decoded_immediate r =
     (case r of RO_Decoded x \<Rightarrow> (case x of D_Immediate n \<Rightarrow> Some n | _ \<Rightarrow> None) | _ \<Rightarrow> None)"

definition decoded_memory :: "decoded_operand rewrite_operand \<Rightarrow> memory_operand option" where
  "decoded_memory r =
     (case r of RO_Decoded x \<Rightarrow> (case x of D_Memory n \<Rightarrow> Some n | _ \<Rightarrow> None) | _ \<Rightarrow> None)"

text \<open>The companion of an address computation: \<open>add rd, rn, #imm\<close>, or \<open>mov rd, rn\<close>.\<close>

definition add_operands :: "a64_instruction \<Rightarrow> (register \<times> register \<times> i64) option" where
  "add_operands add =
     (case ri_mnemonic add of
        M_Add \<Rightarrow>
          (case ri_operands add of
             [a, b, c] \<Rightarrow>
               (case (decoded_register a, decoded_register b, decoded_immediate c) of
                  (Some rd, Some rn, Some imm) \<Rightarrow> Some (rd, rn, imm)
                | _ \<Rightarrow> None)
           | _ \<Rightarrow> None)
      | M_Mov \<Rightarrow>
          (case ri_operands add of
             [a, b] \<Rightarrow>
               (case (decoded_register a, decoded_register b) of
                  (Some rd, Some rn) \<Rightarrow> Some (rd, rn, 0)
                | _ \<Rightarrow> None)
           | _ \<Rightarrow> None)
      | _ \<Rightarrow> None)"

definition fused_pair ::
  "aarch_macro_kind \<Rightarrow> register \<Rightarrow> rewrite_target \<Rightarrow> a64_instruction \<Rightarrow> a64_instruction \<Rightarrow> a64_macro" where
  "fused_pair kind rd target adrp companion =
     \<lparr>mo_kind = kind, mo_register = rd, mo_target = target,
      mo_original_instructions = [adrp, companion],
      mo_original_addresses = List.map_filter id [ri_original_address adrp, ri_original_address companion]\<rparr>"

definition companion_base :: "a64_instruction \<Rightarrow> register option" where
  "companion_base companion =
     (case ri_operands companion of
        [a, b] \<Rightarrow>
          (case (decoded_register a, decoded_memory b) of
             (Some _, Some mem) \<Rightarrow> Some (mem_base mem)
           | _ \<Rightarrow> None)
      | _ \<Rightarrow> None)"

definition try_fuse_adrp_ldst ::
  "a64_instruction \<Rightarrow> a64_instruction \<Rightarrow> (u64 \<rightharpoonup> fusion_relocation_info) \<Rightarrow> a64_macro option" where
  "try_fuse_adrp_ldst adrp companion relocations =
     (if ri_mnemonic companion \<notin> {M_Ldr, M_Str} then None
      else
        Option.bind (adrp_operands adrp) (\<lambda>(adrp_rd, _).
        Option.bind (companion_base companion) (\<lambda>base.
          if \<not> same_register adrp_rd base then None
          else
            map_option (\<lambda>target. fused_pair MK_AccessValue adrp_rd target adrp companion)
              (macro_target_from_relocations adrp companion relocations CR_LoadStore))))"

definition try_fuse_adrp_add ::
  "a64_instruction \<Rightarrow> a64_instruction \<Rightarrow> (u64 \<rightharpoonup> basic_block_id) \<Rightarrow> container option \<Rightarrow>
   (u64 \<rightharpoonup> fusion_relocation_info) \<Rightarrow> a64_macro option" where
  "try_fuse_adrp_add adrp add block_at_address container relocations =
     Option.bind (adrp_operands adrp) (\<lambda>(adrp_rd, adrp_target).
     Option.bind (add_operands add) (\<lambda>(add_rd, add_rn, add_imm).
       if \<not> same_register adrp_rd add_rd \<or> \<not> same_register adrp_rd add_rn then None
       else if sint add_imm < 0 \<or> sint add_imm > 0xfff then None
       else if (case adrp_target of T_Symbol _ \<Rightarrow> True | _ \<Rightarrow> False) \<and> add_imm = 0
       then Some (fused_pair MK_LoadAddress adrp_rd adrp_target adrp add)
       else
         map_option (\<lambda>target. fused_pair MK_LoadAddress adrp_rd target adrp add)
           (case macro_target_from_relocations adrp add relocations CR_Add of
              Some t \<Rightarrow> Some t
            | None \<Rightarrow>
                (case adrp_target of
                   T_Absolute page \<Rightarrow> Some (resolve_address (page + add_imm) block_at_address container)
                 | _ \<Rightarrow> None))))"

section \<open>The pass\<close>

definition try_fuse ::
  "a64_instruction \<Rightarrow> a64_instruction \<Rightarrow> (u64 \<rightharpoonup> basic_block_id) \<Rightarrow> container option \<Rightarrow>
   (u64 \<rightharpoonup> fusion_relocation_info) \<Rightarrow> a64_macro option" where
  "try_fuse current next block_at_address container relocations =
     (if ri_mnemonic current = M_Adrp then
        (case try_fuse_adrp_add current next block_at_address container relocations of
           Some m \<Rightarrow> Some m
         | None \<Rightarrow> try_fuse_adrp_ldst current next relocations)
      else None)"

fun fuse_macros ::
  "a64_instruction list \<Rightarrow> (u64 \<rightharpoonup> basic_block_id) \<Rightarrow> container option \<Rightarrow>
   (u64 \<rightharpoonup> fusion_relocation_info) \<Rightarrow> a64_op list" where
  "fuse_macros [] block_at_address container relocations = []"
| "fuse_macros [current] block_at_address container relocations = [Op_Instruction current]"
| "fuse_macros (current # next # rest) block_at_address container relocations =
     (case try_fuse current next block_at_address container relocations of
        Some m \<Rightarrow> Op_Macro m # fuse_macros rest block_at_address container relocations
      | None \<Rightarrow> Op_Instruction current # fuse_macros (next # rest) block_at_address container relocations)"

section \<open>What a macro stands for\<close>

lemma try_fuse_pair:
  assumes "try_fuse current nxt ba c rel = Some m"
  shows "ri_mnemonic current = M_Adrp \<and> mo_original_instructions m = [current, nxt] \<and>
    (\<exists>rd t. adrp_operands current = Some (rd, t) \<and> mo_register m = rd)"
  using assms
  by (auto simp: try_fuse_def try_fuse_adrp_add_def try_fuse_adrp_ldst_def fused_pair_def bind_eq_Some_conv
      split: if_splits option.splits prod.splits)

end
