(* ===== verification/Rewrite_Emit.thy ===== *)
theory Rewrite_Emit
  imports Rewrite_Plan
begin

text \<open>
  Emission (\<open>src/src/rewrite/emit.rs\<close>): turning a laid-out plan into bytes and relocations. An
  unmodified instruction is copied from its section; one that refers to a symbol without an address
  gets a relocation; everything else is encoded by the ISA. The error \<open>EM_Panic\<close>, and \<open>LE_Panic\<close>
  inside \<open>EM_Layout\<close>, are the panics of the source.
\<close>

section \<open>Data\<close>

datatype 'e emit_error =
    EM_Encode 'e
  | EM_Layout layout_error
  | EM_InvalidWidening
  | EM_MissingWideningTarget
  | EM_NoRelocationForMnemonic
  | EM_MalformedMacro
  | EM_Panic

record emit_output =
  eo_bytes :: bytes
  eo_relocations :: "emitted_relocation list"

definition map_err :: "('a \<Rightarrow> 'b) \<Rightarrow> 'a + 'c \<Rightarrow> 'b + 'c" where
  "map_err f r = map_sum f id r"

fun from_macro_error :: "'e macro_emit_error \<Rightarrow> 'e emit_error" where
  "from_macro_error (ME_Encode e) = EM_Encode e"
| "from_macro_error ME_Malformed = EM_MalformedMacro"
| "from_macro_error ME_NoRelocationForMnemonic = EM_NoRelocationForMnemonic"
| "from_macro_error ME_Panic = EM_Panic"

section \<open>Which references need a relocation\<close>

definition has_stub :: "container \<Rightarrow> symbol_id \<Rightarrow> bool" where
  "has_stub c i =
     ((case c_elf_image c of Some img \<Rightarrow> ei_plt_stubs img i \<noteq> None | None \<Rightarrow> False) \<or>
      (case c_macho_image c of Some img \<Rightarrow> mi_stubs img i \<noteq> None | None \<Rightarrow> False))"

definition current_section_address :: "container \<Rightarrow> section_id \<Rightarrow> u64" where
  "current_section_address c current =
     (case List.find (\<lambda>s. sec_id s = current) (c_sections c) of Some s \<Rightarrow> sec_address s | None \<Rightarrow> 0)"

definition symbol_needs_relocation :: "container \<Rightarrow> symbol_id \<Rightarrow> section_id option \<Rightarrow> bool option" where
  "symbol_needs_relocation c i current_section =
     map_option
       (\<lambda>symbol.
         if sym_is_undefined symbol then \<not> has_stub c i
         else
           case current_section of
             None \<Rightarrow> False
           | Some current \<Rightarrow>
               if sym_kind symbol = SyK_Section then True
               else
                 (case sym_section symbol of
                    None \<Rightarrow> False
                  | Some symbol_section \<Rightarrow>
                      if symbol_section = current then False else current_section_address c current = 0))
       (container_symbol c i)"

fun relocation_operand ::
  "'o rewrite_operand list \<Rightarrow> container \<Rightarrow> section_id option \<Rightarrow> 'e emit_error + (symbol_id \<times> pcrel_kind) option" where
  "relocation_operand [] c current = Ok None"
| "relocation_operand (operand # operands) c current =
     (case (case operand of RO_Branch t \<Rightarrow> Some (t, PK_Branch) | RO_Page t \<Rightarrow> Some (t, PK_Page) | RO_Decoded _ \<Rightarrow> None) of
        Some (T_Symbol i, kind) \<Rightarrow>
          (case symbol_needs_relocation c i current of
             None \<Rightarrow> Err EM_Panic
           | Some True \<Rightarrow> Ok (Some (i, kind))
           | Some False \<Rightarrow> relocation_operand operands c current)
      | _ \<Rightarrow> relocation_operand operands c current)"

definition needs_relocation ::
  "('m, 'o) rewrite_instruction \<Rightarrow> container option \<Rightarrow> section_id option \<Rightarrow>
   'e emit_error + (symbol_id \<times> pcrel_kind) option" where
  "needs_relocation instruction container current_section =
     (case container of
        None \<Rightarrow> Ok None
      | Some c \<Rightarrow> relocation_operand (ri_operands instruction) c current_section)"

section \<open>Copying unmodified instructions\<close>

text \<open>Whether a symbolic operand still points where the decoded one does. A block index out of
  range panics.\<close>

definition operand_unchanged ::
  "('m, 'o, 'r, 'k, 'd, 'e) isa \<Rightarrow> u64 list \<Rightarrow> container \<Rightarrow> 'o \<Rightarrow> 'o rewrite_operand \<Rightarrow> 'e emit_error + bool" where
  "operand_unchanged I block_addresses c d r =
     (let same = (\<lambda>kind t.
        case i_pcrel_kind I d of
          Some (k, addr) \<Rightarrow>
            if k = kind then
              (case resolve_target t block_addresses (Some c) of
                 Err LE_Panic \<Rightarrow> Err EM_Panic
               | Err _ \<Rightarrow> Ok False
               | Ok a \<Rightarrow> Ok (a = addr))
            else Ok False
        | None \<Rightarrow> Ok False)
      in case r of
           RO_Decoded q \<Rightarrow> Ok (q = d)
         | RO_Branch t \<Rightarrow> same PK_Branch t
         | RO_Page t \<Rightarrow> same PK_Page t)"

fun operands_unchanged ::
  "('m, 'o, 'r, 'k, 'd, 'e) isa \<Rightarrow> u64 list \<Rightarrow> container \<Rightarrow> 'o list \<Rightarrow> 'o rewrite_operand list \<Rightarrow> 'e emit_error + bool" where
  "operands_unchanged I ba c (d # ds) (r # rs) =
     and_then (operand_unchanged I ba c d r)
       (\<lambda>same. if same then operands_unchanged I ba c ds rs else Ok False)"
| "operands_unchanged I ba c _ _ = Ok True"

definition get_prefix :: "bytes \<Rightarrow> u64 \<Rightarrow> bytes option" where
  "get_prefix tail n = (if unat n \<le> length tail then Some (take (unat n) tail) else None)"

definition verbatim_bytes ::
  "('m, 'o, 'r, 'k, 'd, 'e) isa \<Rightarrow> ('m, 'o) rewrite_instruction \<Rightarrow> u64 \<Rightarrow> u64 list \<Rightarrow> container option \<Rightarrow>
   'e emit_error + bytes option" where
  "verbatim_bytes I instruction emit_addr block_addresses container =
     (case (ri_original_address instruction, container) of
        (Some orig_addr, Some c) \<Rightarrow>
          (case section_for_address c orig_addr of
             None \<Rightarrow> Ok None
           | Some sid \<Rightarrow>
               (case container_section_at c sid of
                  None \<Rightarrow> Err EM_Panic
                | Some s \<Rightarrow>
                    if sec_kind s \<noteq> SK_Text then Ok None
                    else if orig_addr < sec_address s then Ok None
                    else if length (sec_bytes s) < unat (orig_addr - sec_address s) then Ok None
                    else
                      let tail = drop (unat (orig_addr - sec_address s)) (sec_bytes s) in
                      (case i_decode I orig_addr tail of
                         None \<Rightarrow>
                           if orig_addr \<noteq> emit_addr then Ok None
                           else Ok (get_prefix tail (i_instruction_source_size I (ri_mnemonic instruction)))
                       | Some decoded \<Rightarrow>
                           if i_decoded_mnemonic I decoded \<noteq> ri_mnemonic instruction then Ok None
                           else if length (i_decoded_operands I decoded) \<noteq> length (ri_operands instruction) then Ok None
                           else
                             and_then (operands_unchanged I block_addresses c (i_decoded_operands I decoded)
                                         (ri_operands instruction))
                               (\<lambda>same.
                                 if \<not> same then Ok None
                                 else if orig_addr \<noteq> emit_addr \<and>
                                         (\<exists>d\<in>set (i_decoded_operands I decoded). i_pcrel_kind I d \<noteq> None) then Ok None
                                 else Ok (get_prefix tail (i_decoded_size I decoded))))))
      | _ \<Rightarrow> Ok None)"

section \<open>Encoding\<close>

definition lower_operand ::
  "('m, 'o, 'r, 'k, 'd, 'e) isa \<Rightarrow> u64 list \<Rightarrow> container option \<Rightarrow> 'o rewrite_operand \<Rightarrow> 'e emit_error + 'o" where
  "lower_operand I block_addresses container operand =
     (case operand of
        RO_Decoded d \<Rightarrow> Ok d
      | RO_Branch t \<Rightarrow>
          and_then (map_err EM_Layout (resolve_target t block_addresses container))
            (\<lambda>a. Ok (i_make_pcrel_operand I PK_Branch a))
      | RO_Page t \<Rightarrow>
          and_then (map_err EM_Layout (resolve_target t block_addresses container))
            (\<lambda>a. Ok (i_make_pcrel_operand I PK_Page a)))"

definition lower_operands ::
  "('m, 'o, 'r, 'k, 'd, 'e) isa \<Rightarrow> ('m, 'o) rewrite_instruction \<Rightarrow> u64 list \<Rightarrow> container option \<Rightarrow>
   'e emit_error + 'o list" where
  "lower_operands I instruction block_addresses container =
     collect_results (map (lower_operand I block_addresses container) (ri_operands instruction))"

definition lower_operands_with_placeholder :: "('m, 'o) rewrite_instruction \<Rightarrow> 'o list" where
  "lower_operands_with_placeholder instruction =
     List.map_filter (\<lambda>r. case r of RO_Decoded d \<Rightarrow> Some d | _ \<Rightarrow> None) (ri_operands instruction)"

definition relocation_operands ::
  "('m, 'o, 'r, 'k, 'd, 'e) isa \<Rightarrow> ('m, 'o) rewrite_instruction \<Rightarrow> u64 \<Rightarrow> 'o list" where
  "relocation_operands I instruction here =
     map (\<lambda>r. case r of
            RO_Decoded d \<Rightarrow> d
          | RO_Branch _ \<Rightarrow> i_make_pcrel_operand I PK_Branch here
          | RO_Page _ \<Rightarrow> i_make_pcrel_operand I PK_Page (here AND NOT 0xfff))
       (ri_operands instruction)"

definition emit_with_relocation ::
  "('m, 'o, 'r, 'k, 'd, 'e) isa \<Rightarrow> ('m, 'o) rewrite_instruction \<Rightarrow> u64 \<Rightarrow> symbol_id \<Rightarrow> pcrel_kind \<Rightarrow>
   emit_output \<Rightarrow> 'e emit_error + emit_output" where
  "emit_with_relocation I instruction here symbol kind output =
     (case i_relocation_kind_for I (ri_mnemonic instruction) kind of
        None \<Rightarrow> Err EM_NoRelocationForMnemonic
      | Some reloc_kind \<Rightarrow>
          and_then (map_err EM_Encode (i_encode I (ri_mnemonic instruction) (relocation_operands I instruction here) here))
            (\<lambda>bs. Ok (output\<lparr>eo_bytes := eo_bytes output @ bs,
                            eo_relocations := eo_relocations output @
                              [\<lparr>er_offset = word_of_nat (length (eo_bytes output)), er_kind = reloc_kind,
                                er_symbol = symbol, er_addend = 0\<rparr>]\<rparr>)))"

text \<open>The bytes of an instruction that is encoded: normally, or as the widened conditional.\<close>

definition encode_laid_out ::
  "('m, 'o, 'r, 'k, 'd, 'e) isa \<Rightarrow> ('m, 'o) rewrite_instruction \<Rightarrow> instruction_layout \<Rightarrow> u64 list \<Rightarrow>
   container option \<Rightarrow> 'e emit_error + bytes" where
  "encode_laid_out I instruction l block_addresses container =
     (case il_strategy l of
        ES_Normal \<Rightarrow>
          and_then (lower_operands I instruction block_addresses container)
            (\<lambda>operands. map_err EM_Encode (i_encode I (ri_mnemonic instruction) operands (il_address l)))
      | ES_InvertedConditional \<Rightarrow>
          and_then (ok_or (pc_relative_target instruction) EM_MissingWideningTarget)
            (\<lambda>target.
              and_then (map_err EM_Layout (resolve_target target block_addresses container))
                (\<lambda>target_address.
                  case i_encode_widened_conditional I (ri_mnemonic instruction)
                         (lower_operands_with_placeholder instruction) (il_address l) target_address of
                    None \<Rightarrow> Err EM_Panic
                  | Some r \<Rightarrow> map_err EM_Encode r)))"

definition is_relocatable :: "container option \<Rightarrow> bool" where
  "is_relocatable container = (case container of Some c \<Rightarrow> c_kind c = CK_Relocatable | None \<Rightarrow> False)"

definition append_bytes :: "bytes \<Rightarrow> emit_output \<Rightarrow> emit_output" where
  "append_bytes bs output = output\<lparr>eo_bytes := eo_bytes output @ bs\<rparr>"

definition emit_instruction ::
  "('m, 'o, 'r, 'k, 'd, 'e) isa \<Rightarrow> ('m, 'o) rewrite_instruction \<Rightarrow> instruction_layout \<Rightarrow> u64 list \<Rightarrow>
   container option \<Rightarrow> section_id option \<Rightarrow> emit_output \<Rightarrow> 'e emit_error + emit_output" where
  "emit_instruction I instruction l block_addresses container current_section output =
     and_then (needs_relocation instruction container current_section) (\<lambda>reloc.
     and_then
       (if is_relocatable container \<and> reloc \<noteq> None then Ok None
        else verbatim_bytes I instruction (il_address l) block_addresses container)
       (\<lambda>raw.
         case raw of
           Some bs \<Rightarrow> Ok (append_bytes bs output)
         | None \<Rightarrow>
             (case reloc of
                Some (symbol, kind) \<Rightarrow> emit_with_relocation I instruction (il_address l) symbol kind output
              | None \<Rightarrow>
                  and_then (encode_laid_out I instruction l block_addresses container)
                    (\<lambda>bs. Ok (append_bytes bs output)))))"

definition emit_macro_op ::
  "('m, 'o, 'r, 'k, 'd, 'e) isa \<Rightarrow> ('m, 'o, 'r, 'k) macro_op \<Rightarrow> u64 \<Rightarrow> u64 list \<Rightarrow> container option \<Rightarrow>
   section_id option \<Rightarrow> emit_output \<Rightarrow> 'e emit_error + emit_output" where
  "emit_macro_op I m here block_addresses container current_section output =
     and_then (map_err from_macro_error
         (i_emit_macro I m here block_addresses container current_section (length (eo_bytes output))))
       (\<lambda>(bs, relocs). Ok (output\<lparr>eo_bytes := eo_bytes output @ bs, eo_relocations := eo_relocations output @ relocs\<rparr>))"

definition emit_op ::
  "('m, 'o, 'r, 'k, 'd, 'e) isa \<Rightarrow> u64 list \<Rightarrow> container option \<Rightarrow> section_id option \<Rightarrow>
   ('m, 'o, 'r, 'k) rewrite_op \<Rightarrow> instruction_layout \<Rightarrow> emit_output \<Rightarrow> 'e emit_error + emit_output" where
  "emit_op I block_addresses container current_section rop l output =
     (case rop of
        Op_Instruction insn \<Rightarrow> emit_instruction I insn l block_addresses container current_section output
      | Op_Macro m \<Rightarrow> emit_macro_op I m (il_address l) block_addresses container current_section output
      | Op_Raw bs \<Rightarrow> Ok (append_bytes bs output))"

fun emit_ops ::
  "('m, 'o, 'r, 'k, 'd, 'e) isa \<Rightarrow> u64 list \<Rightarrow> container option \<Rightarrow> section_id option \<Rightarrow>
   ('m, 'o, 'r, 'k) rewrite_op list \<Rightarrow> instruction_layout list \<Rightarrow> emit_output \<Rightarrow> 'e emit_error + emit_output" where
  "emit_ops I ba c cur [] ls output = Ok output"
| "emit_ops I ba c cur (rop # ops) [] output = Err EM_Panic"
| "emit_ops I ba c cur (rop # ops) (l # ls) output =
     and_then (emit_op I ba c cur rop l output) (emit_ops I ba c cur ops ls)"

fun emit_blocks ::
  "('m, 'o, 'r, 'k, 'd, 'e) isa \<Rightarrow> u64 list \<Rightarrow> container option \<Rightarrow> section_id option \<Rightarrow>
   ('m, 'o, 'r, 'k) rewrite_block list \<Rightarrow> instruction_layout list list \<Rightarrow> emit_output \<Rightarrow> 'e emit_error + emit_output" where
  "emit_blocks I ba c cur [] lss output = Ok output"
| "emit_blocks I ba c cur (b # bs) [] output = (if rb_ops b = [] then emit_blocks I ba c cur bs [] output else Err EM_Panic)"
| "emit_blocks I ba c cur (b # bs) (ls # lss) output =
     and_then (emit_ops I ba c cur (rb_ops b) ls output) (emit_blocks I ba c cur bs lss)"

definition section_at_base :: "container \<Rightarrow> u64 \<Rightarrow> section_id option" where
  "section_at_base c base =
     map_option sec_id (List.find (\<lambda>s. sec_size s > 0 \<and> sec_address s = base) (c_sections c))"

definition emit ::
  "('m, 'o, 'r, 'k, 'd, 'e) isa \<Rightarrow> ('m, 'o, 'r, 'k) rewrite_plan \<Rightarrow> layout \<Rightarrow> container option \<Rightarrow>
   'e emit_error + emit_output" where
  "emit I plan L container =
     emit_blocks I (la_block_addresses L) container
       (Option.bind container (\<lambda>c. section_at_base c (la_base_address L)))
       (rp_blocks plan) (la_instruction_layouts L) \<lparr>eo_bytes = [], eo_relocations = []\<rparr>"

end
