(* ===== verification/A64_Macro_Emit.thy ===== *)
theory A64_Macro_Emit
  imports A64_Fusion A64_Sweep Rewrite_Emit
begin

text \<open>
  Emission of fused macros (\<open>src/src/isa/aarch64/macro_emit.rs\<close>). An emitter returns the bytes and
  relocations it appends, given the length of the output so far; \<open>ME_Panic\<close> is a panic.
\<close>

section \<open>Queries\<close>

definition macro_resolve_target :: "rewrite_target \<Rightarrow> u64 list \<Rightarrow> container option \<Rightarrow> u64 option" where
  "macro_resolve_target target block_addresses container =
     (case target of
        T_Block i \<Rightarrow> vec_get block_addresses i
      | T_Absolute a \<Rightarrow> Some a
      | T_Symbol i \<Rightarrow> Option.bind container (\<lambda>c. callable_address_of_symbol c i)
      | T_Constant _ \<Rightarrow> None)"

definition macro_symbol_needs_relocation :: "container \<Rightarrow> symbol_id \<Rightarrow> section_id option \<Rightarrow> bool option" where
  "macro_symbol_needs_relocation c i current_section =
     map_option
       (\<lambda>symbol.
         if sym_is_undefined symbol
         then \<not> (case c_elf_image c of Some img \<Rightarrow> ei_plt_stubs img i \<noteq> None | None \<Rightarrow> False)
         else if sym_kind symbol = SyK_Section then True
         else
           case current_section of
             None \<Rightarrow> False
           | Some current \<Rightarrow>
               (case sym_section symbol of
                  None \<Rightarrow> False
                | Some symbol_section \<Rightarrow>
                    if symbol_section = current then False else current_section_address c current = 0))
       (container_symbol c i)"

definition ldst_access_width_bytes :: "a64_instruction \<Rightarrow> u8 option" where
  "ldst_access_width_bytes instruction =
     (case ri_operands instruction of
        [] \<Rightarrow> None
      | r # _ \<Rightarrow>
          Option.bind (decoded_register r)
            (\<lambda>reg. case reg_class reg of RC_W \<Rightarrow> Some 4 | RC_X \<Rightarrow> Some 8 | _ \<Rightarrow> None))"

definition decoded_from_rewrite_operand :: "decoded_operand rewrite_operand \<Rightarrow> decoded_operand" where
  "decoded_from_rewrite_operand r =
     (case r of RO_Decoded d \<Rightarrow> d | RO_Branch _ \<Rightarrow> D_BranchTarget 0 | RO_Page _ \<Rightarrow> D_PageTarget 0)"

definition build_adrp_template :: "register \<Rightarrow> u64 \<Rightarrow> u64 \<Rightarrow> instruction_template" where
  "build_adrp_template rd target_page address =
     \<lparr>it_address = address, it_mnemonic = M_Adrp, it_operands = [D_Register rd, D_PageTarget target_page]\<rparr>"

definition build_add_immediate_template :: "register \<Rightarrow> i64 \<Rightarrow> instruction_template" where
  "build_add_immediate_template rd immediate =
     \<lparr>it_address = 0, it_mnemonic = M_Add, it_operands = [D_Register rd, D_Register rd, D_Immediate immediate]\<rparr>"

definition rewrite_template :: "a64_instruction \<Rightarrow> u64 \<Rightarrow> instruction_template" where
  "rewrite_template insn address =
     \<lparr>it_address = address, it_mnemonic = ri_mnemonic insn,
      it_operands = map decoded_from_rewrite_operand (ri_operands insn)\<rparr>"

definition encode_template :: "instruction_template \<Rightarrow> encode_error macro_emit_error + bytes" where
  "encode_template t = and_then (map_err ME_Encode (encode_instruction t)) (\<lambda>w. Ok (to_le_bytes w))"

definition macro_reloc :: "nat \<Rightarrow> relocation_kind \<Rightarrow> symbol_id \<Rightarrow> emitted_relocation" where
  "macro_reloc off kind symbol = \<lparr>er_offset = word_of_nat off, er_kind = kind, er_symbol = symbol, er_addend = 0\<rparr>"

section \<open>The two forms\<close>

type_synonym macro_result = "encode_error macro_emit_error + bytes \<times> emitted_relocation list"

definition target_needs_relocation ::
  "rewrite_target \<Rightarrow> container option \<Rightarrow> section_id option \<Rightarrow> encode_error macro_emit_error + symbol_id option" where
  "target_needs_relocation target container current_section =
     (case (target, container) of
        (T_Symbol i, Some c) \<Rightarrow>
          (case macro_symbol_needs_relocation c i current_section of
             None \<Rightarrow> Err ME_Panic
           | Some True \<Rightarrow> Ok (Some i)
           | Some False \<Rightarrow> Ok None)
      | _ \<Rightarrow> Ok None)"

definition emit_load_address ::
  "a64_macro \<Rightarrow> u64 \<Rightarrow> u64 list \<Rightarrow> container option \<Rightarrow> section_id option \<Rightarrow> nat \<Rightarrow> macro_result" where
  "emit_load_address m here block_addresses container current_section offset =
     and_then (target_needs_relocation (mo_target m) container current_section) (\<lambda>needs.
       case needs of
         Some symbol \<Rightarrow>
           and_then (encode_template (build_adrp_template (mo_register m) (here AND NOT 0xfff) here)) (\<lambda>adrp.
           and_then (encode_template (build_add_immediate_template (mo_register m) 0)) (\<lambda>add.
             Ok (adrp @ add,
                 [macro_reloc offset RK_AdrpPage21 symbol,
                  macro_reloc (offset + length adrp) RK_AddPageOffset12 symbol])))
       | None \<Rightarrow>
           and_then (ok_or (macro_resolve_target (mo_target m) block_addresses container) ME_Malformed) (\<lambda>target_address.
           and_then (encode_template (build_adrp_template (mo_register m) (target_address AND NOT 0xfff) here)) (\<lambda>adrp.
           and_then (encode_template (build_add_immediate_template (mo_register m) (target_address AND 0xfff))) (\<lambda>add.
             Ok (adrp @ add, [])))))"

definition emit_access_value ::
  "a64_macro \<Rightarrow> u64 \<Rightarrow> container option \<Rightarrow> section_id option \<Rightarrow> nat \<Rightarrow> macro_result" where
  "emit_access_value m here container current_section offset =
     (case mo_original_instructions m of
        [original_adrp, original_companion] \<Rightarrow>
          and_then (target_needs_relocation (mo_target m) container current_section) (\<lambda>needs.
            case needs of
              Some symbol \<Rightarrow>
                and_then (encode_template (build_adrp_template (mo_register m) (here AND NOT 0xfff) here)) (\<lambda>adrp.
                and_then (encode_template (rewrite_template original_companion (here + 4))) (\<lambda>companion.
                and_then (ok_or (ldst_access_width_bytes original_companion) ME_NoRelocationForMnemonic) (\<lambda>width.
                  Ok (adrp @ companion,
                      [macro_reloc offset RK_AdrpPage21 symbol,
                       macro_reloc (offset + length adrp) (RK_LoadStorePageOffset12 width) symbol]))))
            | None \<Rightarrow>
                and_then (encode_template (rewrite_template original_adrp here)) (\<lambda>adrp.
                and_then (encode_template (rewrite_template original_companion (here + 4))) (\<lambda>companion.
                  Ok (adrp @ companion, []))))
      | _ \<Rightarrow> Err ME_Malformed)"

section \<open>Copying an unmodified macro\<close>

definition macro_operand_matches ::
  "u64 list \<Rightarrow> container \<Rightarrow> decoded_operand \<Rightarrow> decoded_operand rewrite_operand \<Rightarrow> bool" where
  "macro_operand_matches block_addresses c d r =
     (case r of
        RO_Decoded q \<Rightarrow> q = d
      | RO_Branch t \<Rightarrow>
          (case d of D_BranchTarget a \<Rightarrow> macro_resolve_target t block_addresses (Some c) = Some a | _ \<Rightarrow> False)
      | RO_Page t \<Rightarrow>
          (case d of D_PageTarget a \<Rightarrow> macro_resolve_target t block_addresses (Some c) = Some a | _ \<Rightarrow> False))"

definition word_from_bytes :: "bytes \<Rightarrow> u32" where
  "word_from_bytes bs = from_le_bytes (bs ! 0) (bs ! 1) (bs ! 2) (bs ! 3)"

definition verbatim_word ::
  "container_section \<Rightarrow> u64 list \<Rightarrow> container \<Rightarrow> u64 \<Rightarrow> a64_instruction \<Rightarrow> bytes option" where
  "verbatim_word s block_addresses c addr insn =
     (if addr < sec_address s then None
      else
        let off = unat (addr - sec_address s) in
        if length (sec_bytes s) < off + 4 then None
        else
          let raw = take 4 (drop off (sec_bytes s)) in
          (case decode_instruction addr (word_from_bytes raw) of
             Err _ \<Rightarrow> None
           | Ok decoded \<Rightarrow>
               if di_mnemonic decoded \<noteq> ri_mnemonic insn \<or> length (di_operands decoded) \<noteq> length (ri_operands insn)
               then None
               else if list_all (\<lambda>(d, r). macro_operand_matches block_addresses c d r)
                         (zip (di_operands decoded) (ri_operands insn))
               then Some raw else None))"

fun verbatim_words ::
  "container_section \<Rightarrow> u64 list \<Rightarrow> container \<Rightarrow> u64 \<Rightarrow> a64_instruction list \<Rightarrow> bytes option" where
  "verbatim_words s block_addresses c addr [] = Some []"
| "verbatim_words s block_addresses c addr (insn # insns) =
     Option.bind (verbatim_word s block_addresses c addr insn) (\<lambda>raw.
     map_option (\<lambda>out. raw @ out) (verbatim_words s block_addresses c (addr + 4) insns))"

definition verbatim_macro ::
  "a64_macro \<Rightarrow> u64 \<Rightarrow> u64 list \<Rightarrow> container option \<Rightarrow> section_id option \<Rightarrow>
   encode_error macro_emit_error + bytes option" where
  "verbatim_macro m here block_addresses container current_section =
     (case (mo_original_addresses m, container) of
        (first # _, Some c) \<Rightarrow>
          if here \<noteq> first then Ok None
          else
            and_then
              (if c_kind c = CK_Relocatable then target_needs_relocation (mo_target m) (Some c) current_section
               else Ok None)
              (\<lambda>needs.
                if needs \<noteq> None then Ok None
                else
                  case section_for_address c first of
                    None \<Rightarrow> Ok None
                  | Some sid \<Rightarrow>
                      (case container_section_at c sid of
                         None \<Rightarrow> Err ME_Panic
                       | Some s \<Rightarrow>
                           if sec_kind s \<noteq> SK_Text then Ok None
                           else Ok (verbatim_words s block_addresses c first (mo_original_instructions m))))
      | _ \<Rightarrow> Ok None)"

definition a64_emit_macro ::
  "a64_macro \<Rightarrow> u64 \<Rightarrow> u64 list \<Rightarrow> container option \<Rightarrow> section_id option \<Rightarrow> nat \<Rightarrow> macro_result" where
  "a64_emit_macro m here block_addresses container current_section offset =
     and_then (verbatim_macro m here block_addresses container current_section) (\<lambda>raw.
       case raw of
         Some bs \<Rightarrow> Ok (bs, [])
       | None \<Rightarrow>
           (case mo_kind m of
              MK_LoadAddress \<Rightarrow> emit_load_address m here block_addresses container current_section offset
            | MK_AccessValue \<Rightarrow> emit_access_value m here container current_section offset))"

lemma encode_template_length: "encode_template t = Ok bs \<Longrightarrow> length bs = 4"
  by (auto simp: encode_template_def and_then_Ok_iff)

lemma verbatim_words_length: "verbatim_words s ba c a insns = Some bs \<Longrightarrow> length bs = 4 * length insns"
proof (induction s ba c a insns arbitrary: bs rule: verbatim_words.induct)
  case (2 s ba c a insn insns)
  have "length raw = 4" if "verbatim_word s ba c a insn = Some raw" for raw
    using that by (auto simp: verbatim_word_def Let_def split: if_splits sum.splits)
  then show ?case using 2 by (fastforce simp: bind_eq_Some_conv)
qed simp

lemma emit_macro_length:
  assumes "a64_emit_macro m here ba c cur offset = Ok (bs, relocs)"
    and "length (mo_original_instructions m) = 2"
  shows "length bs = 8"
proof -
  obtain raw where raw: "verbatim_macro m here ba c cur = Ok raw"
    "(case raw of Some bs \<Rightarrow> Ok (bs, []) | None \<Rightarrow>
       (case mo_kind m of
          MK_LoadAddress \<Rightarrow> emit_load_address m here ba c cur offset
        | MK_AccessValue \<Rightarrow> emit_access_value m here c cur offset)) = Ok (bs, relocs)"
    using assms(1) by (auto simp: a64_emit_macro_def and_then_Ok_iff)
  show ?thesis
  proof (cases raw)
    case (Some x)
    then have "\<exists>s a c. verbatim_words s ba c a (mo_original_instructions m) = Some bs"
      using raw
      by (auto simp: verbatim_macro_def and_then_Ok_iff split: list.splits option.splits if_splits)
    then show ?thesis using assms(2) verbatim_words_length by fastforce
  next
    case None
    then show ?thesis
      using raw(2)
      by (cases "mo_kind m")
        (auto simp: emit_load_address_def emit_access_value_def and_then_Ok_iff dest!: encode_template_length
          split: option.splits list.splits)
  qed
qed

end
