(* ===== verification/Isa_Laws.thy ===== *)
theory Isa_Laws
  imports Rewrite_Emit
begin

text \<open>
  The contract of the trait \<open>Isa\<close> (\<open>src/src/isa/isa_trait.rs\<close>) as locales: what lifting and lowering
  rely on, and what the layout and emission of a fixed-width instruction set rely on. The lemmas of
  the rewrite layer that need the contract are proved here once, for every implementation.
\<close>

section \<open>The contract\<close>

locale isa_laws =
  fixes I :: "('m, 'o, 'r, 'k, 'd, 'e) isa"
  assumes pcrel_of_make: "i_pcrel_kind I d = Some (kind, b) \<Longrightarrow> i_pcrel_kind I (i_make_pcrel_operand I kind a) = Some (kind, a)"
    and make_of_pcrel: "i_pcrel_kind I d = Some (kind, a) \<Longrightarrow> i_make_pcrel_operand I kind a = d"
    and substitute_of_pcrel: "i_pcrel_kind I d = Some (kind, a) \<Longrightarrow> i_substitute_pcrel I d b = i_make_pcrel_operand I kind b"
    and invert_twice: "i_invert_conditional_branch I m = Some m' \<Longrightarrow> i_invert_conditional_branch I m' = Some m"
    and invert_range: "i_invert_conditional_branch I m = Some m' \<Longrightarrow>
      i_pcrel_range_bytes I m' = i_pcrel_range_bytes I m \<and> i_pcrel_range_bytes I m \<noteq> None"
    and fuse_instructions: "concat (map op_instructions (i_fuse_macros I insns bm c rel)) = insns"

text \<open>A fixed-width set: the bytes that encoding, decoding and macro emission produce have the sizes
  that layout reserves. \<open>wf_macro\<close> says which macros the set emits.\<close>

locale fixed_width_isa = isa_laws I
  for I :: "('m, 'o, 'r, 'k, 'd, 'e) isa" +
  fixes wf_macro :: "('m, 'o, 'r, 'k) macro_op \<Rightarrow> bool"
  assumes encode_length: "i_encode I m ops a = Ok bs \<Longrightarrow> length bs = unat (i_instruction_source_size I m)"
    and widened_length: "i_encode_widened_conditional I m ops a t = Some (Ok bs) \<Longrightarrow>
      length bs = unat (i_widened_conditional_size I)"
    and macro_length: "i_emit_macro I mo a ba c cur n = Ok (bs, rs) \<Longrightarrow> wf_macro mo \<Longrightarrow>
      length bs = unat (i_macro_source_size I (mo_original_instructions mo))"
    and decoded_length: "i_decode I a tail = Some d \<Longrightarrow>
      i_decoded_size I d = i_instruction_source_size I (i_decoded_mnemonic I d)"

section \<open>Lifting and lowering\<close>

context isa_laws
begin

lemma lift_lower_operand:
  assumes "\<And>x i. bm x = Some i \<Longrightarrow> vec_get ba i = Some x"
  shows "lower_operand I ba None (lift_operand I bm None None d) = Ok d"
proof (cases "i_pcrel_kind I d")
  case None
  then show ?thesis by (simp add: lift_operand_def lower_operand_def)
next
  case (Some ka)
  then obtain k a where ka: "i_pcrel_kind I d = Some (k, a)" by (cases ka) auto
  have "resolve_target (resolve_address a bm None) ba None = Ok a"
    using assms by (auto simp: resolve_address_def resolve_target_def split: option.splits)
  then show ?thesis
    using ka make_of_pcrel [OF ka]
    by (cases k) (simp_all add: lift_operand_def lower_operand_def map_err_def resolve_target_def)
qed

lemma lift_lower_instruction:
  assumes "\<And>x i. bm x = Some i \<Longrightarrow> vec_get ba i = Some x"
  shows "lower_operands I (lift_instruction I r bm None Map.empty) ba None = Ok (dr_ref_operands r)"
  by (simp add: lower_operands_def lift_instruction_def relocation_target_def collect_results_Ok_iff
      lift_lower_operand [OF assms])

lemma lift_instructions:
  assumes "lift_inner I g refs None = Some plan"
  shows "\<exists>slices. collect_options (map (\<lambda>b. slice refs (bb_first b) (bb_last b)) (cfg_blocks g)) = Some slices \<and>
    plan_instructions plan =
      map (\<lambda>r. lift_instruction I r (hash_map_of (map (\<lambda>b. (bb_start b, bb_id b)) (cfg_blocks g))) None Map.empty)
        (concat slices)"
proof -
  let ?bm = "hash_map_of (map (\<lambda>b. (bb_start b, bb_id b)) (cfg_blocks g))"
  let ?lift = "\<lambda>r. lift_instruction I r ?bm None Map.empty"
  let ?block = "\<lambda>b insns. \<lparr>rb_id = bb_id b, rb_ops = i_fuse_macros I (map ?lift insns) ?bm None Map.empty\<rparr>"
  obtain blocks where blocks: "plan = \<lparr>rp_blocks = blocks\<rparr>"
    "map (\<lambda>b. map_option (?block b) (slice refs (bb_first b) (bb_last b))) (cfg_blocks g) = map Some blocks"
    using assms by (auto simp: lift_inner_def collect_options_Some_iff Let_def)
  have "\<exists>slices. map (\<lambda>b. slice refs (bb_first b) (bb_last b)) bs = map Some slices \<and>
      concat (map op_instructions (concat (map rb_ops blocks'))) = map ?lift (concat slices)"
    if "map (\<lambda>b. map_option (?block b) (slice refs (bb_first b) (bb_last b))) bs = map Some blocks'" for bs blocks'
    using that
  proof (induction bs arbitrary: blocks')
    case (Cons b bs)
    then obtain s rb blocks'' where b: "slice refs (bb_first b) (bb_last b) = Some s"
      "blocks' = ?block b s # blocks''" "map (\<lambda>b. map_option (?block b) (slice refs (bb_first b) (bb_last b))) bs = map Some blocks''"
      by (auto simp: Cons_eq_map_conv)
    from Cons.IH [OF b(3)] obtain slices where "map (\<lambda>b. slice refs (bb_first b) (bb_last b)) bs = map Some slices"
      "concat (map op_instructions (concat (map rb_ops blocks''))) = map ?lift (concat slices)" by blast
    then show ?case using b by (intro exI [of _ "s # slices"]) (simp add: fuse_instructions)
  qed simp
  from this [OF blocks(2)] show ?thesis
    by (auto simp: collect_options_Some_iff plan_instructions_def plan_ops_def blocks(1))
qed

end

section \<open>Sizes\<close>

text \<open>A source size that is the set's own, as lifting records it for a fixed-width set.\<close>

definition native_size :: "('m, 'o, 'r, 'k, 'd, 'e) isa \<Rightarrow> ('m, 'o) rewrite_instruction \<Rightarrow> bool" where
  "native_size I insn \<longleftrightarrow>
     (case ri_source_size insn of None \<Rightarrow> True | Some n \<Rightarrow> n = i_instruction_source_size I (ri_mnemonic insn))"

text \<open>What each operation adds to the output, in order: its bytes and its relocations.\<close>

type_synonym piece = "bytes \<times> emitted_relocation list"

definition op_piece ::
  "('m, 'o, 'r, 'k, 'd, 'e) isa \<Rightarrow> u64 list \<Rightarrow> container option \<Rightarrow> section_id option \<Rightarrow>
   ('m, 'o, 'r, 'k) rewrite_op \<Rightarrow> instruction_layout \<Rightarrow> piece \<Rightarrow> bool" where
  "op_piece I ba c cur rop l p \<longleftrightarrow>
     (\<exists>out out'. emit_op I ba c cur rop l out = Ok out' \<and> eo_bytes out' = eo_bytes out @ fst p \<and>
        eo_relocations out' = eo_relocations out @ snd p)"

lemma map_err_Ok_iff [simp]: "map_err f r = Ok x \<longleftrightarrow> r = Ok x"
  by (cases r) (simp_all add: map_err_def)

lemma emit_instruction_cases:
  fixes I :: "('m, 'o, 'r, 'k, 'd, 'e) isa"
  assumes "emit_instruction I insn l ba c cur out = Ok out'"
  obtains
    (verbatim) bs where "verbatim_bytes I insn (il_address l) ba c = Ok (Some bs)" "out' = append_bytes bs out"
  | (reloc) sy kind where "needs_relocation insn c cur = (Ok (Some (sy, kind)) :: 'e emit_error + (symbol_id \<times> pcrel_kind) option)"
      "emit_with_relocation I insn (il_address l) sy kind out = Ok out'"
  | (encode) bs where "encode_laid_out I insn l ba c = Ok bs" "out' = append_bytes bs out"
proof -
  obtain r where r: "needs_relocation insn c cur = (Ok r :: 'e emit_error + (symbol_id \<times> pcrel_kind) option)"
    using assms by (auto simp: emit_instruction_def and_then_Ok_iff)
  obtain raw where raw: "(if is_relocatable c \<and> r \<noteq> None then Ok None
      else verbatim_bytes I insn (il_address l) ba c) = Ok raw"
    using assms r by (auto simp: emit_instruction_def and_then_Ok_iff)
  show ?thesis
  proof (cases raw)
    case (Some bs)
    then have "verbatim_bytes I insn (il_address l) ba c = Ok (Some bs)" using raw by (simp split: if_splits)
    moreover have "out' = append_bytes bs out" using assms unfolding emit_instruction_def r and_then.simps raw by (simp add: Some)
    ultimately show ?thesis by (rule verbatim)
  next
    case None
    then have k: "(case r of Some (sy, kind) \<Rightarrow> emit_with_relocation I insn (il_address l) sy kind out
        | None \<Rightarrow> and_then (encode_laid_out I insn l ba c) (\<lambda>bs. Ok (append_bytes bs out))) = Ok out'"
      using assms unfolding emit_instruction_def r and_then.simps raw by simp
    show ?thesis
    proof (cases r)
      case None
      then show ?thesis using k encode by (auto simp: and_then_Ok_iff)
    next
      case (Some sk)
      then show ?thesis using k r reloc by (cases sk) auto
    qed
  qed
qed

lemma emit_with_relocation_bytes:
  assumes "emit_with_relocation I insn here sy kind out = Ok out'"
  obtains bs r where "i_encode I (ri_mnemonic insn) (relocation_operands I insn here) here = Ok bs"
    "eo_bytes out' = eo_bytes out @ bs" "eo_relocations out' = eo_relocations out @ [r]"
  using assms by (auto simp: emit_with_relocation_def and_then_Ok_iff split: option.splits)

lemma emit_op_appends:
  assumes "emit_op I ba c cur rop l out = Ok out'"
  shows "\<exists>p. eo_bytes out' = eo_bytes out @ fst p \<and> eo_relocations out' = eo_relocations out @ snd p \<and>
    op_piece I ba c cur rop l p"
proof -
  have "\<exists>bs rs. eo_bytes out' = eo_bytes out @ bs \<and> eo_relocations out' = eo_relocations out @ rs"
  proof (cases rop)
    case (Op_Instruction insn)
    then have "emit_instruction I insn l ba c cur out = Ok out'" using assms by (simp add: emit_op_def)
    then show ?thesis
      by (cases rule: emit_instruction_cases) (auto simp: append_bytes_def elim: emit_with_relocation_bytes)
  qed (use assms in \<open>auto simp: emit_op_def emit_macro_op_def append_bytes_def and_then_Ok_iff\<close>)
  then show ?thesis using assms unfolding op_piece_def by (metis fst_conv snd_conv)
qed

lemma emit_ops_pieces:
  "emit_ops I ba c cur ops ls out = Ok out' \<Longrightarrow> length ls = length ops \<Longrightarrow>
   \<exists>ps. eo_bytes out' = eo_bytes out @ concat (map fst ps) \<and>
     eo_relocations out' = eo_relocations out @ concat (map snd ps) \<and>
     list_all2 (\<lambda>(rop, l). op_piece I ba c cur rop l) (zip ops ls) ps"
proof (induction I ba c cur ops ls out arbitrary: out' rule: emit_ops.induct)
  case (3 I ba c cur rop ops l ls out)
  obtain out1 where o: "emit_op I ba c cur rop l out = Ok out1" "emit_ops I ba c cur ops ls out1 = Ok out'"
    using "3.prems"(1) by (auto simp: and_then_Ok_iff)
  obtain p where p: "eo_bytes out1 = eo_bytes out @ fst p" "eo_relocations out1 = eo_relocations out @ snd p"
    "op_piece I ba c cur rop l p"
    using emit_op_appends [OF o(1)] by blast
  obtain ps where "eo_bytes out' = eo_bytes out1 @ concat (map fst ps)"
    "eo_relocations out' = eo_relocations out1 @ concat (map snd ps)"
    "list_all2 (\<lambda>(rop, l). op_piece I ba c cur rop l) (zip ops ls) ps"
    using "3.IH" [OF o(1,2)] "3.prems"(2) by auto
  then show ?case using p by (intro exI [of _ "p # ps"]) simp
qed auto

lemma emit_blocks_pieces:
  "emit_blocks I ba c cur blocks lss out = Ok out' \<Longrightarrow>
   list_all2 (\<lambda>b ls. length ls = length (rb_ops b)) blocks lss \<Longrightarrow>
   \<exists>ps. eo_bytes out' = eo_bytes out @ concat (map fst ps) \<and>
     eo_relocations out' = eo_relocations out @ concat (map snd ps) \<and>
     list_all2 (\<lambda>(rop, l). op_piece I ba c cur rop l)
       (concat (map (\<lambda>(b, ls). zip (rb_ops b) ls) (zip blocks lss))) ps"
proof (induction I ba c cur blocks lss out arbitrary: out' rule: emit_blocks.induct)
  case (3 I ba c cur b bs ls lss out)
  obtain out1 where o: "emit_ops I ba c cur (rb_ops b) ls out = Ok out1" "emit_blocks I ba c cur bs lss out1 = Ok out'"
    using "3.prems"(1) by (auto simp: and_then_Ok_iff)
  obtain p1 where p1: "eo_bytes out1 = eo_bytes out @ concat (map fst p1)"
    "eo_relocations out1 = eo_relocations out @ concat (map snd p1)"
    "list_all2 (\<lambda>(rop, l). op_piece I ba c cur rop l) (zip (rb_ops b) ls) p1"
    using emit_ops_pieces [OF o(1)] "3.prems"(2) by auto
  obtain p2 where "eo_bytes out' = eo_bytes out1 @ concat (map fst p2)"
    "eo_relocations out' = eo_relocations out1 @ concat (map snd p2)"
    "list_all2 (\<lambda>(rop, l). op_piece I ba c cur rop l) (concat (map (\<lambda>(b, ls). zip (rb_ops b) ls) (zip bs lss))) p2"
    using "3.IH" [OF o(1,2)] "3.prems"(2) by auto
  then show ?case using p1 by (intro exI [of _ "p1 @ p2"]) (auto intro: list_all2_appendI)
qed (auto intro: exI [of _ "[]"])

context fixed_width_isa
begin

lemma verbatim_length:
  assumes "verbatim_bytes I insn a ba c = Ok (Some bs)"
  shows "length bs = unat (i_instruction_source_size I (ri_mnemonic insn))"
proof -
  have pre: "get_prefix t n = Some bs \<Longrightarrow> length bs = unat n" for t n by (auto simp: get_prefix_def split: if_splits)
  show ?thesis
    using assms unfolding verbatim_bytes_def
    by (auto simp: Let_def and_then_Ok_iff dest!: pre decoded_length split: option.splits if_splits)
qed

lemma op_piece_length:
  assumes "op_piece I ba c cur rop l p" "size_ok I rop l"
    and "case rop of Op_Instruction insn \<Rightarrow> native_size I insn | Op_Macro m \<Rightarrow> wf_macro m | Op_Raw bs \<Rightarrow> length bs < 2 ^ 64"
    and "c = None \<or> il_strategy l = ES_Normal"
  shows "length (fst p) = unat (il_size l)"
proof (cases rop)
  case (Op_Instruction insn)
  have n: "source_byte_size I rop = i_instruction_source_size I (ri_mnemonic insn)"
    using assms(3) Op_Instruction by (auto simp: source_byte_size_def native_size_def split: option.splits)
  obtain out out' where e: "emit_instruction I insn l ba c cur out = Ok out'" "eo_bytes out' = eo_bytes out @ fst p"
    using assms(1) Op_Instruction by (auto simp: op_piece_def emit_op_def)
  show ?thesis
  proof (cases "il_strategy l")
    case ES_Normal
    then have "il_size l = i_instruction_source_size I (ri_mnemonic insn)" using assms(2) n by (simp add: size_ok_def)
    moreover have "length (fst p) = unat (i_instruction_source_size I (ri_mnemonic insn))"
      using e(1)
    proof (cases rule: emit_instruction_cases)
      case (verbatim x)
      then show ?thesis using e(2) verbatim_length by (auto simp: append_bytes_def)
    next
      case (reloc sy kind)
      then show ?thesis using e(2) encode_length by (auto elim!: emit_with_relocation_bytes)
    next
      case (encode x)
      then show ?thesis
        using e(2) encode_length ES_Normal by (auto simp: append_bytes_def encode_laid_out_def and_then_Ok_iff)
    qed
    ultimately show ?thesis by simp
  next
    case ES_InvertedConditional
    then have c: "c = None" and sz: "il_size l = i_widened_conditional_size I" using assms(2,4) by (auto simp: size_ok_def)
    from e(1) have "length (fst p) = unat (i_widened_conditional_size I)"
    proof (cases rule: emit_instruction_cases)
      case (encode x)
      then show ?thesis
        using e(2) widened_length ES_InvertedConditional
        by (auto simp: append_bytes_def encode_laid_out_def and_then_Ok_iff split: option.splits)
    qed (auto simp: c verbatim_bytes_def needs_relocation_def split: option.splits)
    then show ?thesis using sz by simp
  qed
next
  case (Op_Macro m)
  then have "il_size l = i_macro_source_size I (mo_original_instructions m)"
    using assms(2) by (auto simp: size_ok_def source_byte_size_def widenable_def split: emit_strategy.splits)
  then show ?thesis
    using assms(1,3) Op_Macro
    by (auto simp: op_piece_def emit_op_def emit_macro_op_def and_then_Ok_iff dest!: macro_length)
next
  case (Op_Raw x)
  then show ?thesis
    using assms(1,2,3)
    by (auto simp: op_piece_def emit_op_def append_bytes_def size_ok_def source_byte_size_def widenable_def
        unat_of_nat split: emit_strategy.splits)
qed

text \<open>Emission fills the layout: the output is one piece per operation, each as long as the layout
  says.\<close>

lemma emit_fills:
  assumes L: "lays_out I plan base c L" and c: "c = None \<or> natural L"
    and wf: "\<And>rop. rop \<in> set (plan_ops plan) \<Longrightarrow>
      case rop of Op_Instruction insn \<Rightarrow> native_size I insn | Op_Macro m \<Rightarrow> wf_macro m | Op_Raw bs \<Rightarrow> length bs < 2 ^ 64"
    and e: "emit I plan L c = Ok out"
  shows "\<exists>ps. eo_bytes out = concat (map fst ps) \<and> eo_relocations out = concat (map snd ps) \<and>
    list_all2 (\<lambda>(rop, l) p. length (fst p) = unat (il_size l) \<and> rop \<in> set (plan_ops plan) \<and> size_ok I rop l \<and>
        (c = None \<or> il_strategy l = ES_Normal) \<and>
        op_piece I (la_block_addresses L) c (Option.bind c (\<lambda>c. section_at_base c (la_base_address L))) rop l p)
      (op_layouts plan (la_instruction_layouts L)) ps"
proof -
  let ?ils = "la_instruction_layouts L" and ?cur = "Option.bind c (\<lambda>c. section_at_base c (la_base_address L))"
  let ?ba = "la_block_addresses L"
  have ok: "all_ops (size_ok I) plan ?ils" using L by (simp add: lays_out_def)
  then have len: "list_all2 (\<lambda>b ls. length ls = length (rb_ops b)) (rp_blocks plan) ?ils"
    unfolding all_ops_def by (rule list_all2_mono) (simp add: list_all2_lengthD)
  obtain ps where p: "eo_bytes out = concat (map fst ps)" "eo_relocations out = concat (map snd ps)"
    "list_all2 (\<lambda>(rop, l). op_piece I ?ba c ?cur rop l) (op_layouts plan ?ils) ps"
    using emit_blocks_pieces [OF e [unfolded emit_def] len] by (auto simp: op_layouts_def)
  have each: "size_ok I rop l \<and> rop \<in> set (plan_ops plan) \<and> (c = None \<or> il_strategy l = ES_Normal)"
    if m: "(rop, l) \<in> set (op_layouts plan ?ils)" for rop l
  proof -
    obtain b ls where b: "(b, ls) \<in> set (zip (rp_blocks plan) ?ils)" "(rop, l) \<in> set (zip (rb_ops b) ls)"
      using m by (auto simp: op_layouts_def)
    have "list_all2 (size_ok I) (rb_ops b) ls"
      using ok b(1) by (auto simp: all_ops_def list_all2_iff)
    then have "size_ok I rop l" using b(2) by (auto simp: list_all2_iff)
    moreover have "rop \<in> set (plan_ops plan)" "l \<in> set (concat ?ils)"
      using b by (auto simp: plan_ops_def dest: set_zip_leftD set_zip_rightD)
    ultimately show ?thesis using c by (auto simp: natural_def)
  qed
  have "list_all2 (\<lambda>(rop, l) p. length (fst p) = unat (il_size l) \<and> rop \<in> set (plan_ops plan) \<and> size_ok I rop l \<and>
      (c = None \<or> il_strategy l = ES_Normal) \<and> op_piece I ?ba c ?cur rop l p) (op_layouts plan ?ils) ps"
    using p(3)
  proof (rule list.rel_mono_strong, goal_cases)
    case (1 x p)
    obtain rop l where x: "x = (rop, l)" by (cases x)
    with 1 have "(rop, l) \<in> set (op_layouts plan ?ils)" and ob: "op_piece I ?ba c ?cur rop l p" by simp_all
    note e = each [OF this(1)]
    have "length (fst p) = unat (il_size l)"
      using e by (intro op_piece_length [OF ob]) (simp_all add: wf)
    then show ?case using ob e by (simp add: x)
  qed
  then show ?thesis using p(1,2) by blast
qed

end

end
