(* ===== verification/A64_Isa.thy ===== *)
theory A64_Isa
  imports A64_Macro_Emit Isa_Laws A64_Branch
begin

text \<open>
  The AArch64 implementation of the trait (\<open>src/src/isa/aarch64/isa_impl.rs\<close>), the interpretation of
  the trait's laws on it, and the properties of rewriting AArch64 code that follow.
\<close>

section \<open>The implementation\<close>

definition a64_decode :: "u64 \<Rightarrow> bytes \<Rightarrow> decoded_instruction option" where
  "a64_decode address bytes =
     (if length bytes < 4 then None
      else case decode_instruction address (word_from_bytes bytes) of Ok d \<Rightarrow> Some d | Err _ \<Rightarrow> None)"

definition a64_pcrel_kind :: "decoded_operand \<Rightarrow> (pcrel_kind \<times> u64) option" where
  "a64_pcrel_kind operand =
     (case operand of
        D_BranchTarget addr \<Rightarrow> Some (PK_Branch, addr)
      | D_PageTarget addr \<Rightarrow> Some (PK_Page, addr)
      | _ \<Rightarrow> None)"

definition a64_substitute_pcrel :: "decoded_operand \<Rightarrow> u64 \<Rightarrow> decoded_operand" where
  "a64_substitute_pcrel operand address =
     (case operand of
        D_BranchTarget _ \<Rightarrow> D_BranchTarget address
      | D_PageTarget _ \<Rightarrow> D_PageTarget address
      | other \<Rightarrow> other)"

definition a64_make_pcrel_operand :: "pcrel_kind \<Rightarrow> u64 \<Rightarrow> decoded_operand" where
  "a64_make_pcrel_operand kind address =
     (case kind of PK_Branch \<Rightarrow> D_BranchTarget address | PK_Page \<Rightarrow> D_PageTarget address)"

definition a64_widened_conditional_size :: u64 where
  "a64_widened_conditional_size = 8"

definition a64_widened_conditional_range :: int where
  "a64_widened_conditional_range = 128 * 1024 * 1024"

definition a64_encode :: "aarch64_mnemonic \<Rightarrow> decoded_operand list \<Rightarrow> u64 \<Rightarrow> encode_error + bytes" where
  "a64_encode mnemonic operands address =
     and_then (encode_instruction \<lparr>it_address = address, it_mnemonic = mnemonic, it_operands = operands\<rparr>)
       (\<lambda>word. Ok (to_le_bytes word))"

definition is_branch_target :: "decoded_operand \<Rightarrow> bool" where
  "is_branch_target x = (case x of D_BranchTarget _ \<Rightarrow> True | _ \<Rightarrow> False)"

definition inverted_operands :: "decoded_operand list \<Rightarrow> u64 \<Rightarrow> decoded_operand list" where
  "inverted_operands operands skip =
     (let inv = map (\<lambda>x. if is_branch_target x then D_BranchTarget skip else x) operands
      in if list_ex is_branch_target inv then inv else inv @ [D_BranchTarget skip])"

definition a64_encode_widened_conditional ::
  "aarch64_mnemonic \<Rightarrow> decoded_operand list \<Rightarrow> u64 \<Rightarrow> u64 \<Rightarrow> (encode_error + bytes) option" where
  "a64_encode_widened_conditional mnemonic operands_template here far_target =
     (case invert_conditional_branch mnemonic of
        None \<Rightarrow> None
      | Some inverted \<Rightarrow> Some
          (and_then (a64_encode inverted (inverted_operands operands_template (here + 8)) here) (\<lambda>b1.
           and_then (a64_encode M_B [D_BranchTarget far_target] (here + 4)) (\<lambda>b2.
           Ok (b1 @ b2)))))"

definition a64_relocation_kind_for :: "aarch64_mnemonic \<Rightarrow> pcrel_kind \<Rightarrow> relocation_kind option" where
  "a64_relocation_kind_for mnemonic kind =
     (case kind of
        PK_Page \<Rightarrow> (if mnemonic = M_Adrp then Some RK_AdrpPage21 else None)
      | PK_Branch \<Rightarrow>
          if mnemonic \<in> {M_B, M_Bl} then Some RK_Branch26
          else if mnemonic \<in> {M_Beq, M_Bne, M_Bcs, M_Bcc, M_Bmi, M_Bpl, M_Bvs, M_Bvc, M_Bhi, M_Bls, M_Bge, M_Blt,
                              M_Bgt, M_Ble, M_Cbz, M_Cbnz} then Some RK_Branch19
          else if mnemonic \<in> {M_Tbz, M_Tbnz} then Some RK_Branch14
          else None)"

definition a64_is_pc_relative_relocation :: "relocation_kind \<Rightarrow> bool" where
  "a64_is_pc_relative_relocation kind = (kind \<in> {RK_Branch26, RK_Branch19, RK_Branch14, RK_AdrpPage21})"

definition a64_is_lift_relevant_relocation :: "relocation_kind \<Rightarrow> bool" where
  "a64_is_lift_relevant_relocation kind =
     (case kind of
        RK_LoadStorePageOffset12 _ \<Rightarrow> True
      | _ \<Rightarrow> kind \<in> {RK_Branch26, RK_Branch19, RK_Branch14, RK_AdrpPage21, RK_AddPageOffset12})"

definition a64_isa ::
  "(aarch64_mnemonic, decoded_operand, register, aarch_macro_kind, decoded_instruction, encode_error) isa" where
  "a64_isa =
     \<lparr>i_decoded_address = di_address,
      i_decoded_mnemonic = di_mnemonic,
      i_decoded_size = default_decoded_size default_instruction_source_size di_mnemonic,
      i_decoded_operands = di_operands,
      i_decode = a64_decode,
      i_pcrel_kind = a64_pcrel_kind,
      i_substitute_pcrel = a64_substitute_pcrel,
      i_make_pcrel_operand = a64_make_pcrel_operand,
      i_pcrel_range_bytes = pcrel_range_bytes,
      i_invert_conditional_branch = invert_conditional_branch,
      i_widened_conditional_size = a64_widened_conditional_size,
      i_widened_conditional_range = a64_widened_conditional_range,
      i_encode = a64_encode,
      i_encode_widened_conditional = a64_encode_widened_conditional,
      i_relocation_kind_for = a64_relocation_kind_for,
      i_is_pc_relative_relocation = a64_is_pc_relative_relocation,
      i_is_lift_relevant_relocation = a64_is_lift_relevant_relocation,
      i_fuse_macros = fuse_macros,
      i_macro_source_size = default_macro_source_size default_instruction_source_size,
      i_instruction_source_size = default_instruction_source_size,
      i_emit_macro = a64_emit_macro\<rparr>"

lemma a64_isa_simps [simp]:
  "i_decoded_address a64_isa = di_address" "i_decoded_mnemonic a64_isa = di_mnemonic"
  "i_decoded_operands a64_isa = di_operands" "i_decode a64_isa = a64_decode"
  "i_pcrel_kind a64_isa = a64_pcrel_kind" "i_substitute_pcrel a64_isa = a64_substitute_pcrel"
  "i_make_pcrel_operand a64_isa = a64_make_pcrel_operand"
  "i_pcrel_range_bytes a64_isa = pcrel_range_bytes"
  "i_invert_conditional_branch a64_isa = invert_conditional_branch"
  "i_encode a64_isa = a64_encode" "i_encode_widened_conditional a64_isa = a64_encode_widened_conditional"
  "i_fuse_macros a64_isa = fuse_macros" "i_emit_macro a64_isa = a64_emit_macro"
  "i_relocation_kind_for a64_isa = a64_relocation_kind_for"
  "i_decoded_size a64_isa d = 4" "i_instruction_source_size a64_isa m = 4"
  "i_widened_conditional_size a64_isa = 8" "i_widened_conditional_range a64_isa = 134217728"
  "i_macro_source_size a64_isa = default_macro_source_size default_instruction_source_size"
  by (simp_all add: a64_isa_def default_decoded_size_def default_instruction_source_size_def
      a64_widened_conditional_size_def a64_widened_conditional_range_def)

section \<open>The trait's laws hold\<close>

lemma fuse_macros_instructions:
  "concat (map op_instructions (fuse_macros insns bm c rel)) = insns"
proof (induction insns bm c rel rule: fuse_macros.induct)
  case (3 current nxt rest bm c rel)
  then show ?case
    by (cases "try_fuse current nxt bm c rel") (auto simp: op_instructions_def dest: try_fuse_pair)
qed (simp_all add: op_instructions_def)

text \<open>A fused pair as the fusion pass makes it.\<close>

definition a64_wf_macro :: "a64_macro \<Rightarrow> bool" where
  "a64_wf_macro m \<longleftrightarrow>
     length (mo_original_instructions m) = 2 \<and> list_all (native_size a64_isa) (mo_original_instructions m)"

lemma a64_macro_size:
  assumes "a64_wf_macro m"
  shows "default_macro_source_size default_instruction_source_size (mo_original_instructions m) = 8"
proof -
  obtain i j where ij: "mo_original_instructions m = [i, j]"
    using assms by (auto simp: a64_wf_macro_def numeral_2_eq_2 length_Suc_conv)
  then have "native_size a64_isa i" "native_size a64_isa j" using assms by (simp_all add: a64_wf_macro_def)
  then show ?thesis
    by (auto simp: ij default_macro_source_size_def default_instruction_source_size_def native_size_def split: option.splits)
qed

lemma a64_encode_length: "a64_encode m ops a = Ok bs \<Longrightarrow> length bs = 4"
  by (auto simp: a64_encode_def and_then_Ok_iff)

lemma conditional_range: "m \<in> conditional_mnemonics \<Longrightarrow> \<exists>r. pcrel_range_bytes m = Some r"
  unfolding conditional_mnemonics_def
  by (elim insertE emptyE; simp add: pcrel_range_bytes_def)

interpretation a64: isa_laws a64_isa
proof (unfold_locales, goal_cases)
  case 1
  then show ?case by (simp add: a64_pcrel_kind_def a64_make_pcrel_operand_def split: pcrel_kind.splits)
next
  case 2
  then show ?case by (auto simp: a64_pcrel_kind_def a64_make_pcrel_operand_def split: decoded_operand.splits)
next
  case 3
  then show ?case
    by (auto simp: a64_pcrel_kind_def a64_make_pcrel_operand_def a64_substitute_pcrel_def split: decoded_operand.splits)
next
  case (4 m m')
  then have "invert_conditional_branch m = Some m'" by simp
  from invert_conditional_props(1) [OF this] show ?case by simp
next
  case (5 m m')
  then have "invert_conditional_branch m = Some m'" by simp
  note invert_conditional_props(3,4) [OF this]
  then show ?case using conditional_range by simp
next
  case 6
  then show ?case by (simp add: fuse_macros_instructions)
qed

interpretation a64: fixed_width_isa a64_isa a64_wf_macro
proof (unfold_locales, goal_cases)
  case 1
  then show ?case using a64_encode_length by simp
next
  case (2 m ops a t bs)
  then obtain m' where "invert_conditional_branch m = Some m'"
    by (auto simp: a64_encode_widened_conditional_def split: option.splits)
  then show ?case
    using 2 a64_encode_length by (auto simp: a64_encode_widened_conditional_def and_then_Ok_iff)
next
  case (3 mo a ba c cur n bs rs)
  then have "length (mo_original_instructions mo) = 2" by (simp add: a64_wf_macro_def)
  then have "length bs = 8" using 3(1) emit_macro_length by simp
  then show ?case using a64_macro_size [OF 3(2)] by simp
next
  case 4
  then show ?case by simp
qed

end
