(* ===== verification/A64_Rewrite.thy ===== *)
theory A64_Rewrite
  imports A64_Isa
begin

text \<open>
  What rewriting AArch64 code does, end to end: the widened conditional branch
  (\<open>src/src/isa/aarch64/isa_impl.rs\<close>), lifting (\<open>src/src/rewrite/plan.rs\<close>), layout and emission
  (\<open>src/src/rewrite/layout.rs\<close>, \<open>emit.rs\<close>) put together, each from the laws of the trait that
  \<open>A64_Isa\<close> interprets.
\<close>

section \<open>Branch operands\<close>

lemma branch_operands_retarget:
  "branch_operands m (pre @ [D_BranchTarget t]) t \<Longrightarrow> branch_operands m (pre @ [D_BranchTarget t']) t'"
  by (auto simp: branch_operands_def numeral_2_eq_2 numeral_3_eq_3 length_Suc_conv nth_append split: if_splits)

lemma branch_operands_invert:
  assumes "invert_conditional_branch m = Some m'"
  shows "branch_operands m ops t = branch_operands m' ops t"
proof -
  have "(m \<in> {M_Cbz, M_Cbnz} \<longleftrightarrow> m' \<in> {M_Cbz, M_Cbnz}) \<and> (m \<in> {M_Tbz, M_Tbnz} \<longleftrightarrow> m' \<in> {M_Tbz, M_Tbnz})"
    using assms by (cases m; simp add: invert_conditional_branch_def; elim subst; simp)
  then show ?thesis
    using invert_conditional_props(4,5) [OF assms] by (simp add: branch_operands_def)
qed

lemma gp_bit_not_target: "gp_operand x \<Longrightarrow> \<not> is_branch_target x" "bit_operand x \<Longrightarrow> \<not> is_branch_target x"
  by (auto simp: gp_operand_def bit_operand_def is_branch_target_def split: decoded_operand.splits)

lemma branch_operands_prefix:
  assumes "branch_operands m (pre @ [D_BranchTarget t]) t"
  shows "list_all (\<lambda>x. \<not> is_branch_target x) pre"
    and "direct_branch_target (canonical_operands m (pre @ [D_BranchTarget t])) = Some t"
proof -
  consider "pre = []" | g where "pre = [g]" "gp_operand g" | g h where "pre = [g, h]" "gp_operand g" "bit_operand h"
    using assms
    by (auto simp: branch_operands_def numeral_2_eq_2 numeral_3_eq_3 length_Suc_conv nth_append split: if_splits)
  then show "list_all (\<lambda>x. \<not> is_branch_target x) pre"
    by cases (auto simp: gp_bit_not_target)
  have m: "pre = [] \<Longrightarrow> m \<notin> {M_Tbz, M_Tbnz}" using assms by (auto simp: branch_operands_def)
  from assms show "direct_branch_target (canonical_operands m (pre @ [D_BranchTarget t])) = Some t"
  proof -
    consider "pre = []" | g where "pre = [g]" "gp_operand g" | g h where "pre = [g, h]" "gp_operand g" "bit_operand h"
      using assms
      by (auto simp: branch_operands_def numeral_2_eq_2 numeral_3_eq_3 length_Suc_conv nth_append split: if_splits)
    then show ?thesis
      by cases
        (use m in \<open>auto simp: canonical_operands_def gp_operand_def bit_operand_def split: decoded_operand.splits\<close>)
  qed
qed

lemma inverted_operands_prefix:
  "list_all (\<lambda>x. \<not> is_branch_target x) pre \<Longrightarrow> inverted_operands pre skip = pre @ [D_BranchTarget skip]"
proof -
  assume a: "list_all (\<lambda>x. \<not> is_branch_target x) pre"
  then have "map (\<lambda>x. if is_branch_target x then D_BranchTarget skip else x) pre = pre"
    by (auto simp: list_all_iff intro: map_idI)
  then show ?thesis using a by (auto simp: inverted_operands_def list_all_iff list_ex_iff)
qed

section \<open>The widened conditional\<close>

text \<open>A branch word at an address: it decodes to the mnemonic with the operands.\<close>

definition is_branch_word ::
  "u64 \<Rightarrow> u32 \<Rightarrow> aarch64_mnemonic \<Rightarrow> decoded_operand list \<Rightarrow> bool" where
  "is_branch_word a w m ops \<longleftrightarrow>
     (\<exists>d. decode_instruction a w = Ok d \<and> di_address d = a \<and> di_mnemonic d = m \<and> di_operands d = ops)"

lemma a64_encode_branch:
  assumes "branch_operands m ops t" "pcrel_range_bytes m = Some r"
  shows "case a64_encode m ops a of
      Err e \<Rightarrow> \<not> in_reach a t r
    | Ok bs \<Rightarrow> in_reach a t r \<and> (\<exists>w. bs = to_le_bytes w \<and> is_branch_word a w m (canonical_operands m ops))"
  using encode_branch_result [OF assms, of a] unfolding a64_encode_def is_branch_word_def
  by (cases "encode_instruction \<lparr>it_address = a, it_mnemonic = m, it_operands = ops\<rparr>") auto

lemma widened_result:
  assumes inv: "invert_conditional_branch m = Some m'" and ops: "branch_operands m (pre @ [D_BranchTarget t]) t"
  shows "case a64_encode_widened_conditional m pre here far of
      None \<Rightarrow> False
    | Some (Err e) \<Rightarrow> \<not> (uint here + 8 < 2 ^ 64 \<and> in_reach (here + 4) far (128 * 1024 * 1024))
    | Some (Ok bs) \<Rightarrow> in_reach (here + 4) far (128 * 1024 * 1024) \<and>
        (\<exists>w1 w2. bs = to_le_bytes w1 @ to_le_bytes w2 \<and>
           is_branch_word here w1 m' (canonical_operands m' (pre @ [D_BranchTarget (here + 8)])) \<and>
           is_branch_word (here + 4) w2 M_B [D_BranchTarget far])"
proof -
  let ?skip = "here + 8"
  have ops': "branch_operands m' (pre @ [D_BranchTarget ?skip]) ?skip"
    using branch_operands_retarget [OF ops] branch_operands_invert [OF inv] by simp
  obtain r where r: "pcrel_range_bytes m' = Some r" "8 < r"
  proof -
    have "m' \<in> conditional_mnemonics" by (rule invert_conditional_props(5) [OF inv])
    then have "pcrel_range_bytes m' \<in> {Some 1048576, Some 32768}"
      unfolding conditional_mnemonics_def by (elim insertE emptyE; simp add: pcrel_range_bytes_def)
    then show ?thesis using that by auto
  qed
  have skip: "in_reach here ?skip r" if "uint here + 8 < 2 ^ 64"
  proof -
    have "uint ?skip = uint here + 8" using that by (simp add: uint_word_ariths)
    then show ?thesis using r(2) by (simp add: in_reach_def)
  qed
  have b: "branch_operands M_B [D_BranchTarget far] far" "pcrel_range_bytes M_B = Some (128 * 1024 * 1024)"
    by (simp_all add: branch_operands_def pcrel_range_bytes_def)
  have "canonical_operands M_B [D_BranchTarget far] = [D_BranchTarget far]" by (simp add: canonical_operands_def)
  then show ?thesis
    using a64_encode_branch [OF ops' r(1), of here] a64_encode_branch [OF b, of "here + 4"] skip
      branch_operands_prefix(1) [OF ops]
    by (auto simp: a64_encode_widened_conditional_def inv inverted_operands_prefix split: sum.splits)
qed

section \<open>Emitted code\<close>

text \<open>An instruction that is a relative branch: the operands before the target are plain, and they
  are the ones its mnemonic takes.\<close>

definition branch_to ::
  "a64_instruction \<Rightarrow> decoded_operand list \<Rightarrow> rewrite_target \<Rightarrow> bool" where
  "branch_to insn pre target \<longleftrightarrow>
     ri_operands insn = map RO_Decoded pre @ [RO_Branch target] \<and>
     branch_operands (ri_mnemonic insn) (pre @ [D_BranchTarget 0]) 0"

text \<open>Bytes at an address that branch to an address under the condition of a mnemonic: the branch
  itself, or the inverted branch over an unconditional one.\<close>

definition branches_to ::
  "u64 \<Rightarrow> bytes \<Rightarrow> aarch64_mnemonic \<Rightarrow> decoded_operand list \<Rightarrow> u64 \<Rightarrow> bool" where
  "branches_to a p m pre t \<longleftrightarrow>
     (\<exists>w. p = to_le_bytes w \<and> is_branch_word a w m (canonical_operands m (pre @ [D_BranchTarget t]))) \<or>
     (\<exists>m' w1 w2. invert_conditional_branch m = Some m' \<and> p = to_le_bytes w1 @ to_le_bytes w2 \<and>
        is_branch_word a w1 m' (canonical_operands m' (pre @ [D_BranchTarget (a + 8)])) \<and>
        is_branch_word (a + 4) w2 M_B [D_BranchTarget t])"

text \<open>What the bytes of an operation at an address have to do.\<close>

definition op_does :: "u64 list \<Rightarrow> u64 \<Rightarrow> a64_op \<Rightarrow> bytes \<Rightarrow> bool" where
  "op_does ba a rop p \<longleftrightarrow>
     (case rop of
        Op_Instruction insn \<Rightarrow>
          (case pc_relative_branch_target insn of
             Some target \<Rightarrow>
               (\<exists>pre t. branch_to insn pre target \<and> resolve_target target ba None = Ok t \<and>
                  branches_to a p (ri_mnemonic insn) pre t)
           | None \<Rightarrow>
               (\<exists>operands. lower_operands a64_isa insn ba None = Ok operands \<and>
                  a64_encode (ri_mnemonic insn) operands a = Ok p))
      | Op_Macro m \<Rightarrow> a64_emit_macro m a ba None None 0 = Ok (p, [])
      | Op_Raw bs \<Rightarrow> p = bs)"

fun code_at :: "u64 list \<Rightarrow> u64 \<Rightarrow> a64_op list \<Rightarrow> bytes list \<Rightarrow> bool" where
  "code_at ba a [] [] = True"
| "code_at ba a (rop # ops) (p # ps) =
     (op_does ba a rop p \<and> code_at ba (a + word_of_nat (length p)) ops ps)"
| "code_at ba a _ _ = False"

text \<open>The addresses the blocks have in a list of pieces.\<close>

definition block_addresses_of :: "u64 \<Rightarrow> ('m, 'o, 'r, 'k) rewrite_plan \<Rightarrow> bytes list \<Rightarrow> u64 list" where
  "block_addresses_of base plan ps =
     map (\<lambda>b. base + word_of_nat (length (concat (take (length (concat (map rb_ops (take b (rp_blocks plan))))) ps))))
       [0..<length (rp_blocks plan)]"

text \<open>The plans emission is about, as lifting makes them: the macros are pairs, the source sizes are
  the set's own, and an instruction with a branch target is one of the branches.\<close>

definition a64_wf_op :: "a64_op \<Rightarrow> bool" where
  "a64_wf_op rop =
     (case rop of
        Op_Instruction insn \<Rightarrow>
          native_size a64_isa insn \<and>
          (case pc_relative_branch_target insn of
             Some target \<Rightarrow> (\<exists>pre. branch_to insn pre target)
           | None \<Rightarrow> True)
      | Op_Macro m \<Rightarrow> a64_wf_macro m
      | Op_Raw bs \<Rightarrow> length bs < 2 ^ 64)"

lemma emit_macro_offset:
  "a64_emit_macro m a ba None cur n = a64_emit_macro m a ba None None 0"
  by (simp add: a64_emit_macro_def verbatim_macro_def emit_load_address_def emit_access_value_def
      target_needs_relocation_def split: list.splits rewrite_target.splits prod.splits aarch_macro_kind.splits)

lemma emit_macro_no_relocations:
  "a64_emit_macro m a ba None cur n = Ok (bs, rs) \<Longrightarrow> rs = []"
  by (auto simp: a64_emit_macro_def verbatim_macro_def emit_load_address_def emit_access_value_def
      target_needs_relocation_def and_then_Ok_iff
      split: list.splits rewrite_target.splits prod.splits aarch_macro_kind.splits)

lemma emit_instruction_bare:
  "emit_instruction I insn l ba None cur out =
     and_then (encode_laid_out I insn l ba None) (\<lambda>bs. Ok (append_bytes bs out))"
  by (simp add: emit_instruction_def needs_relocation_def verbatim_bytes_def is_relocatable_def split: option.splits)

lemma lower_branch_operands:
  assumes "branch_to insn pre target" "resolve_target target ba c = Ok t"
  shows "lower_operands a64_isa insn ba c = Ok (pre @ [D_BranchTarget t])"
  using assms
  by (simp add: branch_to_def lower_operands_def collect_results_Ok_iff lower_operand_def map_err_def
      a64_make_pcrel_operand_def)

lemma branch_to_target: "branch_to insn pre target \<Longrightarrow> pc_relative_branch_target insn = Some target"
proof -
  have "find_map (\<lambda>r. case r of RO_Branch t \<Rightarrow> Some t | _ \<Rightarrow> None) (map RO_Decoded pre @ [RO_Branch target]) = Some target"
    for pre :: "decoded_operand list"
    by (induction pre) simp_all
  then show "branch_to insn pre target \<Longrightarrow> pc_relative_branch_target insn = Some target"
    by (simp add: branch_to_def pc_relative_branch_target_def)
qed

lemma branch_to_pcrel_target: "branch_to insn pre target \<Longrightarrow> pc_relative_target insn = Some target"
proof -
  have "find_map (\<lambda>r. case r of RO_Branch t \<Rightarrow> Some t | RO_Page t \<Rightarrow> Some t | RO_Decoded _ \<Rightarrow> None)
      (map RO_Decoded pre @ [RO_Branch target]) = Some target" for pre :: "decoded_operand list"
    by (induction pre) simp_all
  then show "branch_to insn pre target \<Longrightarrow> pc_relative_target insn = Some target"
    by (simp add: branch_to_def pc_relative_target_def)
qed

lemma branch_to_placeholder: "branch_to insn pre target \<Longrightarrow> lower_operands_with_placeholder insn = pre"
proof -
  have "List.map_filter (\<lambda>r. case r of RO_Decoded d \<Rightarrow> Some d | _ \<Rightarrow> None) (map RO_Decoded pre @ [RO_Branch target]) = pre"
    for pre :: "decoded_operand list"
    by (induction pre) (simp_all add: map_filter_simps)
  then show "branch_to insn pre target \<Longrightarrow> lower_operands_with_placeholder insn = pre"
    by (simp add: branch_to_def lower_operands_with_placeholder_def)
qed

lemma branch_range: "branch_operands m ops t \<Longrightarrow> \<exists>r. pcrel_range_bytes m = Some r"
proof -
  assume "branch_operands m ops t"
  then have "m \<in> insert M_B (insert M_Bl conditional_mnemonics)"
    by (auto simp: branch_operands_def conditional_mnemonics_def split: if_splits)
  then show ?thesis using conditional_range by (auto simp: pcrel_range_bytes_def)
qed

lemma emitted_branch:
  assumes b: "branch_to insn pre target" and e: "encode_laid_out a64_isa insn l ba None = Ok p"
  shows "\<exists>t. resolve_target target ba None = Ok t \<and> branches_to (il_address l) p (ri_mnemonic insn) pre t"
proof -
  let ?m = "ri_mnemonic insn" and ?a = "il_address l"
  have ops: "branch_operands ?m (pre @ [D_BranchTarget t]) t" for t
    using b branch_operands_retarget by (fastforce simp: branch_to_def)
  show ?thesis
  proof (cases "il_strategy l")
    case ES_Normal
    then obtain operands where o: "lower_operands a64_isa insn ba None = Ok operands" "a64_encode ?m operands ?a = Ok p"
      using e by (auto simp: encode_laid_out_def and_then_Ok_iff)
    have "lower_operand a64_isa ba None (RO_Branch target) \<in> range Ok"
      using o(1) b by (auto simp: branch_to_def lower_operands_def collect_results_Ok_iff append_eq_map_conv)
    then obtain t where t: "resolve_target target ba None = Ok t"
      by (auto simp: lower_operand_def and_then_Ok_iff)
    obtain r where r: "pcrel_range_bytes ?m = Some r" using branch_range [OF ops] by blast
    have "a64_encode ?m (pre @ [D_BranchTarget t]) ?a = Ok p" using o lower_branch_operands [OF b t] by simp
    with a64_encode_branch [OF ops [of t] r, of ?a] show ?thesis using t by (auto simp: branches_to_def)
  next
    case ES_InvertedConditional
    then obtain t r where t: "resolve_target target ba None = Ok t" 
      "a64_encode_widened_conditional ?m pre ?a t = Some (Ok p)"
      using e branch_to_pcrel_target [OF b] branch_to_placeholder [OF b]
      by (auto simp: encode_laid_out_def and_then_Ok_iff split: option.splits)
    then obtain m' where inv: "invert_conditional_branch ?m = Some m'"
      by (auto simp: a64_encode_widened_conditional_def split: option.splits)
    from widened_result [OF inv ops, of ?a t] t show ?thesis by (auto simp: branches_to_def inv)
  qed
qed


lemma emitted_op:
  assumes wf: "a64_wf_op rop" and piece: "op_piece a64_isa ba None cur rop l p"
    and ok: "size_ok a64_isa rop l"
  shows "op_does ba (il_address l) rop (fst p) \<and> snd p = []"
proof (cases rop)
  case (Op_Instruction insn)
  obtain out out' where e: "emit_instruction a64_isa insn l ba None cur out = Ok out'"
    "eo_bytes out' = eo_bytes out @ fst p" "eo_relocations out' = eo_relocations out @ snd p"
    using piece Op_Instruction by (auto simp: op_piece_def emit_op_def)
  then have enc: "encode_laid_out a64_isa insn l ba None = Ok (fst p)" "snd p = []"
    by (auto simp: emit_instruction_bare and_then_Ok_iff append_bytes_def)
  show ?thesis
  proof (cases "pc_relative_branch_target insn")
    case None
    then have "il_strategy l = ES_Normal"
      using ok Op_Instruction by (simp add: size_ok_def widenable_def split: emit_strategy.splits)
    then show ?thesis
      using enc None Op_Instruction by (auto simp: op_does_def encode_laid_out_def and_then_Ok_iff)
  next
    case (Some target)
    then obtain pre where b: "branch_to insn pre target" using wf Op_Instruction by (auto simp: a64_wf_op_def)
    with emitted_branch [OF b enc(1)] show ?thesis using enc(2) Op_Instruction Some by (auto simp: op_does_def)
  qed
next
  case (Op_Macro m)
  then obtain n where e: "a64_emit_macro m (il_address l) ba None cur n = Ok p"
    using piece by (cases p) (fastforce simp: op_piece_def emit_op_def emit_macro_op_def and_then_Ok_iff)
  then have "snd p = []" by (cases p) (auto dest: emit_macro_no_relocations)
  then show ?thesis
    using e Op_Macro emit_macro_offset [of m "il_address l" ba cur n] by (cases p) (simp add: op_does_def)
next
  case (Op_Raw bs)
  then show ?thesis using piece by (auto simp: op_piece_def emit_op_def append_bytes_def op_does_def)
qed

lemma code_at_placed:
  assumes "list_all2 (\<lambda>(rop, l) p. op_does ba (il_address l) rop p \<and> word_of_nat (length p) = il_size l) (zip ops ls) ps"
    and "length ls = length ops" "placed a ls"
  shows "code_at ba a ops ps"
  using assms
proof (induction ops arbitrary: ls ps a)
  case (Cons rop ops)
  obtain l ls' where l: "ls = l # ls'" using Cons.prems(2) by (cases ls) auto
  with Cons.prems(1) obtain p ps' where p: "ps = p # ps'" by (auto simp: list_all2_Cons1)
  show ?case using Cons.prems Cons.IH [of ls' ps'] by (simp add: l p)
qed simp

lemma op_layouts_zip:
  assumes "list_all2 (\<lambda>b ls. length ls = length (rb_ops b)) (rp_blocks plan) lss"
  shows "op_layouts plan lss = zip (plan_ops plan) (concat lss) \<and> length (concat lss) = length (plan_ops plan)"
proof -
  have "concat (map (\<lambda>(b, ls). zip (rb_ops b) ls) (zip bs lss)) = zip (concat (map rb_ops bs)) (concat lss) \<and>
      length (concat lss) = length (concat (map rb_ops bs))"
    if "list_all2 (\<lambda>b ls. length ls = length (rb_ops b)) bs lss" for bs :: "('a, 'b, 'c, 'd) rewrite_block list"
    using that by (induction rule: list_all2_induct) simp_all
  from this [OF assms] show ?thesis by (simp add: op_layouts_def plan_ops_def)
qed

lemma take_concat_prefix:
  "list_all2 (\<lambda>b ls. length ls = length (rb_ops b)) bs lss \<Longrightarrow>
   concat (take b lss) = take (length (concat (map rb_ops (take b bs)))) (concat lss)"
proof (induction arbitrary: b rule: list_all2_induct)
  case (Cons x xs y ys)
  then show ?case by (cases b) simp_all
qed simp

lemma pieces_sizes:
  "list_all2 (\<lambda>l p. word_of_nat (length p) = il_size l) ls ps \<Longrightarrow>
   sum_list (map il_size (take n ls)) = word_of_nat (length (concat (take n ps)))"
proof (induction arbitrary: n rule: list_all2_induct)
  case (Cons l ls p ps)
  then show ?case by (cases n) simp_all
qed simp

lemma emitted_plan:
  assumes lay: "lay_out a64_isa plan base None = Ok L" and e: "emit a64_isa plan L None = Ok out"
    and wf: "list_all a64_wf_op (plan_ops plan)"
  shows "\<exists>ps. eo_bytes out = concat ps \<and> eo_relocations out = [] \<and>
    la_block_addresses L = block_addresses_of base plan ps \<and>
    code_at (la_block_addresses L) base (plan_ops plan) ps"
proof -
  let ?ba = "la_block_addresses L" and ?lss = "la_instruction_layouts L"
  have L: "lays_out a64_isa plan base None L" by (rule lay_out_OkD [OF lay])
  have wf': "case rop of Op_Instruction insn \<Rightarrow> native_size a64_isa insn | Op_Macro m \<Rightarrow> a64_wf_macro m
      | Op_Raw bs \<Rightarrow> length bs < 2 ^ 64" if "rop \<in> set (plan_ops plan)" for rop
    using wf that by (auto simp: list_all_iff a64_wf_op_def split: rewrite_op.splits)
  obtain qs where q: "eo_bytes out = concat (map fst qs)" "eo_relocations out = concat (map snd qs)"
    "list_all2 (\<lambda>(rop, l) p. length (fst p) = unat (il_size l) \<and> rop \<in> set (plan_ops plan) \<and>
        size_ok a64_isa rop l \<and> op_piece a64_isa ?ba None None rop l p) (op_layouts plan ?lss) qs"
    using a64.emit_fills [OF L _ wf' e] by (auto simp: case_prod_unfold)
  let ?ps = "map fst qs"
  have len: "list_all2 (\<lambda>b ls. length ls = length (rb_ops b)) (rp_blocks plan) ?lss"
    using L unfolding lays_out_def all_ops_def
    by (auto elim!: list_all2_mono dest: list_all2_lengthD)
  note z = op_layouts_zip [OF len]
  have each: "list_all2 (\<lambda>(rop, l) p. op_does ?ba (il_address l) rop (fst p) \<and> snd p = [] \<and>
      word_of_nat (length (fst p)) = il_size l) (op_layouts plan ?lss) qs"
    using q(3)
  proof (rule list_all2_mono, goal_cases)
    case (1 x p)
    obtain rop l where x: "x = (rop, l)" by (cases x)
    have "a64_wf_op rop" using 1 wf by (simp add: x list_all_iff)
    from emitted_op [OF this, of ?ba None l p] 1 show ?case by (simp add: x)
  qed
  have "code_at ?ba base (plan_ops plan) ?ps"
    using each z L
    by (intro code_at_placed [of ?ba _ "concat ?lss"])
      (auto simp: lays_out_def list_all2_map2 case_prod_unfold elim!: list_all2_mono)
  moreover have "eo_relocations out = []"
    using each by (fastforce simp: q(2) list_all2_conv_all_nth in_set_conv_nth case_prod_unfold)
  moreover have "?ba = block_addresses_of base plan ?ps"
  proof -
    have "list_all2 (\<lambda>x p. word_of_nat (length p) = il_size (snd x)) (op_layouts plan ?lss) ?ps"
      using each by (auto simp: list_all2_map2 case_prod_unfold elim!: list_all2_mono)
    then have "list_all2 (\<lambda>l p. word_of_nat (length p) = il_size l) (concat ?lss) ?ps"
      using z by (auto simp: list_all2_conv_all_nth)
    from pieces_sizes [OF this] have "sum_list (map il_size (concat (take b ?lss))) =
        word_of_nat (length (concat (take (length (concat (map rb_ops (take b (rp_blocks plan))))) ?ps)))" for b
      by (simp add: take_concat_prefix [OF len])
    then show ?thesis using L by (simp add: lays_out_def block_addresses_of_def)
  qed
  ultimately show ?thesis using q(1) by blast
qed


section \<open>Lifting\<close>

lemma slice_range:
  "n \<le> m \<Longrightarrow> m \<le> length xs \<Longrightarrow> slice xs n m = Some (map ((!) xs) [n..<m])"
  by (auto simp: slice_def intro!: nth_equalityI)

text \<open>The slices of the graph's blocks are the instructions, in order.\<close>

lemma block_slices:
  assumes g: "build ins = Some g" and len: "length refs = length ins"
  shows "\<exists>slices. collect_options (map (\<lambda>b. slice refs (bb_first b) (bb_last b)) (cfg_blocks g)) = Some slices \<and>
    concat slices = refs"
proof -
  have each: "slice refs (bb_first b) (bb_last b) = Some (map ((!) refs) (block_range b))"
    if "b \<in> set (cfg_blocks g)" for b
  proof -
    obtain k where "k < length (cfg_blocks g)" "b = cfg_blocks g ! k" using \<open>b \<in> _\<close> by (auto simp: in_set_conv_nth)
    then have "bb_first b < bb_last b" "bb_last b \<le> length refs" using build_nth(7,8) [OF g] len by simp_all
    then show ?thesis by (simp add: slice_range block_range_def)
  qed
  let ?slices = "map (\<lambda>b. map ((!) refs) (block_range b)) (cfg_blocks g)"
  have "map (\<lambda>b. slice refs (bb_first b) (bb_last b)) (cfg_blocks g) = map Some ?slices" using each by simp
  moreover have "concat ?slices = map ((!) refs) (concat (map block_range (cfg_blocks g)))"
    by (simp add: map_concat o_def)
  then have "concat ?slices = refs" using blocks_tile [OF g] len map_nth [of refs] by simp
  ultimately show ?thesis unfolding collect_options_Some_iff by blast
qed

lemma block_ids:
  assumes g: "build ins = Some g" and b: "hash_map_of (map (\<lambda>b. (bb_start b, bb_id b)) (cfg_blocks g)) x = Some i"
  shows "vec_get (map bb_start (cfg_blocks g)) i = Some x"
proof -
  obtain b where "b \<in> set (cfg_blocks g)" "x = bb_start b" "i = bb_id b" using hash_map_of_SomeD [OF b] by auto
  then show ?thesis using build_nth(3) [OF g] by (auto simp: in_set_conv_nth vec_get_def)
qed


lemma collect_options_map:
  "map S bs = map Some xs \<Longrightarrow> collect_options (map (\<lambda>b. map_option (f b) (S b)) bs) = Some (map2 f bs xs)"
  by (induction bs arbitrary: xs) (auto simp: Cons_eq_map_conv)

lemma lift_succeeds:
  assumes "build (map info_of ds) = Some g"
  shows "\<exists>plan. lift_from_decoded a64_isa g ds = Some plan"
proof -
  let ?refs = "decoded_refs a64_isa ds"
  have "length ?refs = length (map info_of ds)" by (simp add: decoded_refs_def)
  from block_slices [OF assms this] obtain slices
    where "map (\<lambda>b. slice ?refs (bb_first b) (bb_last b)) (cfg_blocks g) = map Some slices"
    by (auto simp: collect_options_Some_iff)
  then show ?thesis by (simp add: lift_from_decoded_def lift_inner_def Let_def collect_options_map)
qed

lemma lift_identity_lemma:
  assumes g: "build (map info_of ds) = Some g" and plan: "lift_from_decoded a64_isa g ds = Some plan"
  shows "map (\<lambda>i. (ri_original_address i, ri_mnemonic i,
      lower_operands a64_isa i (map bb_start (cfg_blocks g)) None)) (plan_instructions plan) =
    map (\<lambda>d. (Some (di_address d), di_mnemonic d, Ok (di_operands d))) ds"
proof -
  let ?refs = "decoded_refs a64_isa ds" and ?bm = "hash_map_of (map (\<lambda>b. (bb_start b, bb_id b)) (cfg_blocks g))"
  have l: "length ?refs = length (map info_of ds)" by (simp add: decoded_refs_def)
  have p: "plan_instructions plan = map (\<lambda>r. lift_instruction a64_isa r ?bm None Map.empty) ?refs"
    using a64.lift_instructions [OF plan [unfolded lift_from_decoded_def]] block_slices [OF g l] by auto
  have "lower_operands a64_isa (lift_instruction a64_isa r ?bm None Map.empty) (map bb_start (cfg_blocks g)) None =
      Ok (dr_ref_operands r)" for r
    by (rule a64.lift_lower_instruction [OF block_ids [OF g]])
  moreover have "ri_original_address (lift_instruction a64_isa r ?bm None Map.empty) = Some (dr_ref_address r)"
    "ri_mnemonic (lift_instruction a64_isa r ?bm None Map.empty) = dr_ref_mnemonic r" for r
    by (simp_all add: lift_instruction_def)
  ultimately show ?thesis by (simp add: p o_def) (simp add: decoded_refs_def o_def)
qed

section \<open>Sample plans\<close>

text \<open>A plan with a branch in reach and one that has to be widened, and a self-contained one.\<close>

definition sample_plan :: "(aarch64_mnemonic, decoded_operand, register, aarch_macro_kind) rewrite_plan" where
  "sample_plan =
     \<lparr>rp_blocks =
        [\<lparr>rb_id = 0, rb_ops =
            [Op_Instruction (rewrite_instruction_new M_Beq [RO_Branch (T_Block 1)] None),
             Op_Instruction (rewrite_instruction_new M_Bne [RO_Branch (T_Absolute 0x301004)] None)]\<rparr>,
         \<lparr>rb_id = 1, rb_ops = [Op_Raw [1, 2, 3, 4]]\<rparr>]\<rparr>"

definition sample_layout :: layout where
  "sample_layout =
     \<lparr>la_base_address = 0x1000, la_total_size = 16, la_block_addresses = [0x1000, 0x100c],
      la_instruction_layouts =
        [[\<lparr>il_address = 0x1000, il_size = 4, il_strategy = ES_Normal\<rparr>,
          \<lparr>il_address = 0x1004, il_size = 8, il_strategy = ES_InvertedConditional\<rparr>],
         [\<lparr>il_address = 0x100c, il_size = 4, il_strategy = ES_Normal\<rparr>]]\<rparr>"

lemma sample_plan_loop:
  "layout_loop a64_isa sample_plan 0x1000 None False (Suc (Suc n)) (initial_layouts a64_isa sample_plan) = Ok sample_layout"
  unfolding sample_plan_def sample_layout_def
  by (simp add: initial_layouts_def source_byte_size_def rewrite_instruction_new_def assign_addresses_def
        widen_out_of_range_def widen_op_def pc_relative_branch_target_def resolve_target_def vec_get_def
        effective_range_def pcrel_range_bytes_def in_branch_range_def invert_conditional_branch_def)

lemma sample_plan_lays_out: "lay_out a64_isa sample_plan 0x1000 None = Ok sample_layout"
  using sample_plan_loop [of 14] by (simp add: lay_out_def lay_out_inner_def MAX_LAYOUT_ITERATIONS_def)

lemma sample_plan_emits: "\<exists>out. emit a64_isa sample_plan sample_layout None = Ok out"
proof -
  have b: "branch_operands M_Beq [D_BranchTarget 0x100c] 0x100c" "pcrel_range_bytes M_Beq = Some 1048576"
    "in_reach 0x1000 0x100c 1048576"
    by (simp_all add: branch_operands_def conditional_mnemonics_def pcrel_range_bytes_def in_reach_def)
  obtain p where p: "a64_encode M_Beq [D_BranchTarget 0x100c] 0x1000 = Ok p"
    using a64_encode_branch [OF b(1,2), of "0x1000"] b(3) by (force split: sum.splits)
  have w: "invert_conditional_branch M_Bne = Some M_Beq" "branch_operands M_Bne ([] @ [D_BranchTarget 0]) 0"
    "in_reach (0x1004 + 4) 0x301004 (128 * 1024 * 1024)"
    by (simp_all add: invert_conditional_branch_def branch_operands_def conditional_mnemonics_def in_reach_def)
  obtain q where q: "a64_encode_widened_conditional M_Bne [] 0x1004 0x301004 = Some (Ok q)"
    using widened_result [OF w(1,2), of "0x1004" "0x301004"] w(3) by (force split: option.splits sum.splits)
  show ?thesis
    by (simp add: emit_def sample_plan_def sample_layout_def emit_op_def emit_instruction_bare encode_laid_out_def
        lower_operands_def lower_operand_def rewrite_instruction_new_def resolve_target_def vec_get_def map_err_def
        a64_make_pcrel_operand_def pc_relative_target_def lower_operands_with_placeholder_def map_filter_simps p [simplified] q)
qed

lemma sample_plan_wf: "list_all a64_wf_op (plan_ops sample_plan)"
proof -
  have "branch_to (rewrite_instruction_new m [RO_Branch t] None) [] t" if "m \<in> {M_Beq, M_Bne}" for m t
    using that by (auto simp: branch_to_def rewrite_instruction_new_def branch_operands_def conditional_mnemonics_def)
  from this [of M_Beq] this [of M_Bne] show ?thesis
    by (auto simp: plan_ops_def sample_plan_def a64_wf_op_def native_size_def pc_relative_branch_target_def
        rewrite_instruction_new_def)
qed

definition sample_forward :: "(aarch64_mnemonic, decoded_operand, register, aarch_macro_kind) rewrite_plan" where
  "sample_forward =
     \<lparr>rp_blocks =
        [\<lparr>rb_id = 0, rb_ops = [Op_Instruction (rewrite_instruction_new M_Beq [RO_Branch (T_Block 1)] None)]\<rparr>,
         \<lparr>rb_id = 1, rb_ops = [Op_Raw [1, 2, 3, 4]]\<rparr>]\<rparr>"

section \<open>Properties\<close>

text \<open>C20: widening a conditional branch. For every conditional branch there is a wide form; it encodes
  exactly when the far target is within reach of an unconditional branch from the second word (and
  whenever it is, but for an address at the end of the address space), and the two words decode
  to the inverse condition on the same operands, which skips them both, and a branch to the target.\<close>

theorem widened_conditional_exact:
  assumes "invert_conditional_branch m = Some m'" and "branch_operands m (pre @ [D_BranchTarget t]) t"
  shows "case a64_encode_widened_conditional m pre here far of
      None \<Rightarrow> False
    | Some (Err e) \<Rightarrow> \<not> (uint here + 8 < 2 ^ 64 \<and> in_reach (here + 4) far (128 * 1024 * 1024))
    | Some (Ok bs) \<Rightarrow> in_reach (here + 4) far (128 * 1024 * 1024) \<and>
        (\<exists>w1 w2. bs = to_le_bytes w1 @ to_le_bytes w2 \<and>
           is_branch_word here w1 m' (canonical_operands m' (pre @ [D_BranchTarget (here + 8)])) \<and>
           is_branch_word (here + 4) w2 M_B [D_BranchTarget far])"
  by (rule widened_result [OF assms])

theorem widened_conditional_exact_witness:
  "\<exists>bs w1 w2. a64_encode_widened_conditional M_Beq [] 0x1000 0x801000 = Some (Ok bs) \<and>
     bs = to_le_bytes w1 @ to_le_bytes w2 \<and>
     is_branch_word 0x1000 w1 M_Bne [D_BranchTarget 0x1008] \<and>
     is_branch_word 0x1004 w2 M_B [D_BranchTarget 0x801000]"
proof -
  have "invert_conditional_branch M_Beq = Some M_Bne" by (simp add: invert_conditional_branch_def)
  moreover have "branch_operands M_Beq ([] @ [D_BranchTarget 0]) 0"
    by (simp add: branch_operands_def conditional_mnemonics_def)
  moreover have "in_reach (0x1000 + 4) 0x801000 (128 * 1024 * 1024)" by (simp add: in_reach_def)
  ultimately show ?thesis
    using widened_conditional_exact [of M_Beq M_Bne "[]" 0 "0x1000" "0x801000"]
    by (fastforce simp: canonical_operands_def split: option.splits sum.splits)
qed

text \<open>C1: code that is laid out and emitted goes where the plan says. The plan is laid out and emitted
  without a container, each of its branches is one of \<open>pcrel_range_bytes\<close> on plain operands with its
  symbolic target last (so no \<open>adr\<close>, literal load or \<open>b.al\<close> has a symbolic target), and its macros and
  raw bytes have the sizes layout counts with. The output is one run of bytes
  per operation, without gaps and without relocations; every block begins at the address the layout
  gave it; every relative branch decodes, at the address it has in the output, to a branch under its
  condition on its operands to the address its symbolic target resolves to, either in its own form
  or as the inverted branch over an unconditional one; every other instruction is the encoding
  of its operands there, and raw bytes are copied.\<close>

theorem emitted_code_branches:
  assumes "lay_out a64_isa plan base None = Ok L" and "emit a64_isa plan L None = Ok out"
    and "list_all a64_wf_op (plan_ops plan)"
  shows "\<exists>ps. eo_bytes out = concat ps \<and> eo_relocations out = [] \<and>
    la_block_addresses L = block_addresses_of base plan ps \<and>
    code_at (la_block_addresses L) base (plan_ops plan) ps"
  by (rule emitted_plan [OF assms])

theorem emitted_code_branches_witness:
  "\<exists>out ps. emit a64_isa sample_plan sample_layout None = Ok out \<and> eo_bytes out = concat ps \<and>
     code_at [0x1000, 0x100c] 0x1000 (plan_ops sample_plan) ps"
proof -
  obtain out where out: "emit a64_isa sample_plan sample_layout None = Ok out" using sample_plan_emits by blast
  from emitted_code_branches [OF sample_plan_lays_out out sample_plan_wf] out show ?thesis
    by (auto simp: sample_layout_def)
qed

theorem size_probe_exact_witness:
  "\<exists>L'. lay_out_for_size a64_isa sample_forward 0 None = Ok L' \<and> la_total_size L' = 8"
proof -
  have "self_contained sample_forward"
    by (simp add: self_contained_def sample_forward_def block_branches_def pc_relative_branch_target_def
        rewrite_instruction_new_def)
  moreover have "\<exists>L. lay_out a64_isa sample_forward 0x4000 None = Ok L \<and> la_total_size L = 8"
  proof -
    have "\<exists>L. layout_loop a64_isa sample_forward 0x4000 None False (Suc n) (initial_layouts a64_isa sample_forward) = Ok L \<and>
        la_total_size L = 8" for n
      by (simp add: sample_forward_def initial_layouts_def source_byte_size_def rewrite_instruction_new_def
          assign_addresses_def widen_out_of_range_def widen_op_def pc_relative_branch_target_def resolve_target_def
          vec_get_def effective_range_def pcrel_range_bytes_def in_branch_range_def)
    from this [of 15] show ?thesis by (simp add: lay_out_def lay_out_inner_def MAX_LAYOUT_ITERATIONS_def)
  qed
  ultimately show ?thesis using size_probe_exact [of sample_forward a64_isa "0x4000" None _ 0] by fastforce
qed

text \<open>C13: lifting loses nothing. Any decoded stream lifts into a plan, and the source instructions of
  the plan, fused ones included, are the instructions of the stream, in order, each with its
  address, its mnemonic and operands that lower back to the decoded ones.\<close>

theorem lift_identity:
  "\<exists>g plan. build (map info_of ds) = Some g \<and> lift_from_decoded a64_isa g ds = Some plan \<and>
     map (\<lambda>i. (ri_original_address i, ri_mnemonic i,
        lower_operands a64_isa i (map bb_start (cfg_blocks g)) None)) (plan_instructions plan) =
     map (\<lambda>d. (Some (di_address d), di_mnemonic d, Ok (di_operands d))) ds"
proof -
  obtain g where g: "build (map info_of ds) = Some g"
    using build_eq [of "map info_of ds"] by (cases "ds = []") (auto simp: build_def)
  then show ?thesis using lift_succeeds lift_identity_lemma by blast
qed

text \<open>A folded load or store ignores its target. Of an \<open>adrp\<close> and its companion that were fused to
  access a value, the form without relocation is the same for every target: an \<open>adrp\<close> to the page of
  address zero, and the companion.\<close>

lemma access_value_ignores_target:
  assumes "target_needs_relocation (mo_target m) c cur = Ok None" "mo_original_instructions m = [adrp, companion]"
    and "ri_mnemonic adrp = M_Adrp" "adrp_operands adrp = Some (rd, page)"
  shows "emit_access_value m here c cur n =
    and_then (encode_template (build_adrp_template rd 0 here)) (\<lambda>first.
    and_then (encode_template (rewrite_template companion (here + 4))) (\<lambda>second. Ok (first @ second, [])))"
proof -
  have "ri_operands adrp = [RO_Decoded (D_Register rd), RO_Page page]"
    using assms(4) by (auto simp: adrp_operands_def split: list.splits rewrite_operand.splits decoded_operand.splits)
  then have "rewrite_template adrp here = build_adrp_template rd 0 here"
    by (simp add: rewrite_template_def build_adrp_template_def assms(3) decoded_from_rewrite_operand_def)
  then show ?thesis by (simp add: emit_access_value_def assms(1,2))
qed

end
