(* ===== verification/Rewrite_Data.thy ===== *)
theory Rewrite_Data
  imports Rewrite_Emit
begin

text \<open>
  Committing rewritten sections (\<open>src/src/rewrite/commit.rs\<close>) and the rewriting of data sections
  (\<open>src/src/rewrite/data.rs\<close>): a section's bytes and relocations become items that are raw bytes or
  symbolic pointers, which are edited, emitted and spliced back. The outer option of \<open>data_lift\<close> and of
  the commits is a panic (a slice or an index out of range).
\<close>

section \<open>Committing\<close>

definition relocation_size_bits :: "relocation_kind \<Rightarrow> u8" where
  "relocation_size_bits kind =
     (case kind of
        RK_Branch26 \<Rightarrow> 26
      | RK_Branch19 \<Rightarrow> 19
      | RK_Branch14 \<Rightarrow> 14
      | RK_AdrpPage21 \<Rightarrow> 21
      | RK_AddPageOffset12 \<Rightarrow> 12
      | RK_LoadStorePageOffset12 _ \<Rightarrow> 12
      | RK_Absolute \<Rightarrow> 64
      | RK_ArmCall \<Rightarrow> 24 | RK_ArmJump24 \<Rightarrow> 24 | RK_ArmPc24 \<Rightarrow> 24
      | RK_ArmRelative \<Rightarrow> 32 | RK_ArmGlobData \<Rightarrow> 32 | RK_ArmJumpSlot \<Rightarrow> 32 | RK_ArmAbs32 \<Rightarrow> 32
      | RK_ArmMovwAbsNc \<Rightarrow> 16 | RK_ArmMovtAbs \<Rightarrow> 16
      | RK_ThumbCall \<Rightarrow> 24 | RK_ThumbJump24 \<Rightarrow> 24
      | RK_ThumbJump19 \<Rightarrow> 19
      | RK_ThumbMovwAbsNc \<Rightarrow> 16 | RK_ThumbMovtAbs \<Rightarrow> 16
      | RK_X86Pc32 \<Rightarrow> 32 | RK_X86Plt32 \<Rightarrow> 32 | RK_X86GotPcRel \<Rightarrow> 32 | RK_X86Abs32 \<Rightarrow> 32
      | RK_X86Abs64 \<Rightarrow> 64
      | RK_Other _ \<Rightarrow> 32)"

definition into_relocation :: "section_id \<Rightarrow> emitted_relocation \<Rightarrow> container \<Rightarrow> relocation" where
  "into_relocation section emitted c =
     \<lparr>rel_id = length (c_relocations c), rel_section = section, rel_offset = er_offset emitted,
      rel_kind = er_kind emitted, rel_size = relocation_size_bits (er_kind emitted),
      rel_addend = er_addend emitted, rel_symbol = Some (er_symbol emitted)\<rparr>"

fun push_emitted :: "section_id \<Rightarrow> emitted_relocation list \<Rightarrow> container \<Rightarrow> container" where
  "push_emitted section [] c = c"
| "push_emitted section (emitted # rest) c =
     push_emitted section rest
       (c\<lparr>c_relocations := c_relocations c @ [into_relocation section emitted c]\<rparr>)"

definition drop_relocations :: "section_id \<Rightarrow> container \<Rightarrow> container" where
  "drop_relocations section c =
     c\<lparr>c_relocations := filter (\<lambda>r. rel_section r \<noteq> section) (c_relocations c)\<rparr>"

definition commit_to_container :: "container \<Rightarrow> section_id \<Rightarrow> emit_output \<Rightarrow> container option" where
  "commit_to_container c section out =
     map_option (\<lambda>edited. push_emitted section (eo_relocations out) (drop_relocations section edited))
       (with_section_bytes c section (eo_bytes out))"

section \<open>Data sections\<close>

datatype data_payload = DP_Bytes bytes | DP_Pointer rewrite_target i64 u8

record data_item =
  ditem_label :: "symbol_id option"
  ditem_align :: u64
  ditem_payload :: data_payload

record data_section =
  ds_source_section :: "section_id option"
  ds_items :: "data_item list"

definition payload_byte_size :: "data_payload \<Rightarrow> usize" where
  "payload_byte_size p = (case p of DP_Bytes bs \<Rightarrow> length bs | DP_Pointer _ _ width \<Rightarrow> unat width)"

datatype data_lift_error =
    UnknownSection section_id
  | RelocationOutOfBounds u64 u64
  | OverlappingRelocations u64 u64

datatype data_edit_error =
    LabelNotFound symbol_id
  | NotAPointer usize
  | IndexOutOfBounds usize

record lifted_reloc =
  lr_offset :: u64
  lr_width :: u8
  lr_target :: rewrite_target
  lr_addend :: i64

record data_lift_result =
  dl_plan :: data_section
  dl_unhandled_relocations :: "relocation list"

record data_emit_output =
  deo_bytes :: bytes
  deo_relocations :: "emitted_relocation list"

section \<open>Lifting a section\<close>

definition data_relocation_width :: "relocation_kind \<Rightarrow> u8 option" where
  "data_relocation_width kind = (case kind of RK_Absolute \<Rightarrow> Some 8 | _ \<Rightarrow> None)"

definition trailing_zeros :: "u64 \<Rightarrow> nat" where
  "trailing_zeros w = length (takeWhile (\<lambda>n. \<not> bit w n) [0..<64])"

definition align_for_offset :: "u64 \<Rightarrow> u64 \<Rightarrow> u64" where
  "align_for_offset off section_align =
     (if off = 0 then max section_align 1
      else if section_align \<le> 1 then 1
      else min (push_bit (trailing_zeros off) 1) (max section_align 1))"

definition lifted_reloc_of :: "u8 \<Rightarrow> relocation \<Rightarrow> lifted_reloc" where
  "lifted_reloc_of width r =
     \<lparr>lr_offset = rel_offset r, lr_width = width,
      lr_target = (case rel_symbol r of Some i \<Rightarrow> T_Symbol i | None \<Rightarrow> T_Absolute 0),
      lr_addend = rel_addend r\<rparr>"

fun split_relocations ::
  "u64 \<Rightarrow> relocation list \<Rightarrow> data_lift_error + lifted_reloc list \<times> relocation list" where
  "split_relocations sz [] = Ok ([], [])"
| "split_relocations sz (r # rs) =
     (if rel_offset r \<ge> sz then Err (RelocationOutOfBounds (rel_offset r) sz)
      else
        and_then (split_relocations sz rs) (\<lambda>(handled, unhandled).
          case data_relocation_width (rel_kind r) of
            Some width \<Rightarrow> Ok (lifted_reloc_of width r # handled, unhandled)
          | None \<Rightarrow> Ok (handled, r # unhandled)))"

fun first_overlap :: "lifted_reloc list \<Rightarrow> (u64 \<times> u64) option" where
  "first_overlap (a # b # rest) =
     (if lr_offset a + ucast (lr_width a) > lr_offset b then Some (lr_offset a, lr_offset b)
      else first_overlap (b # rest))"
| "first_overlap _ = None"

fun label_map :: "container_section \<Rightarrow> symbol list \<Rightarrow> (u64 \<rightharpoonup> symbol_id) \<Rightarrow> (u64 \<rightharpoonup> symbol_id)" where
  "label_map s [] m = m"
| "label_map s (y # ys) m =
     label_map s ys
       (if sym_section y \<noteq> Some (sec_id s) \<or> sym_address y < sec_address s then m
        else
          let off = sym_address y - sec_address s in
          if off \<ge> sec_size s \<or> m off \<noteq> None then m else m(off \<mapsto> sym_id y))"

definition symbol_labels_for_section :: "container \<Rightarrow> container_section \<Rightarrow> (u64 \<rightharpoonup> symbol_id)" where
  "symbol_labels_for_section c s = label_map s (defined_symbols c) Map.empty"

definition bytes_item :: "container_section \<Rightarrow> (u64 \<rightharpoonup> symbol_id) \<Rightarrow> u64 \<Rightarrow> bytes \<Rightarrow> data_item list" where
  "bytes_item s labels off bs =
     (if bs = [] then []
      else [\<lparr>ditem_label = labels off, ditem_align = align_for_offset off (sec_align s), ditem_payload = DP_Bytes bs\<rparr>])"

definition pointer_item :: "container_section \<Rightarrow> (u64 \<rightharpoonup> symbol_id) \<Rightarrow> lifted_reloc \<Rightarrow> data_item" where
  "pointer_item s labels r =
     \<lparr>ditem_label = labels (lr_offset r), ditem_align = align_for_offset (lr_offset r) (sec_align s),
      ditem_payload = DP_Pointer (lr_target r) (lr_addend r) (lr_width r)\<rparr>"

fun lift_items_from ::
  "container_section \<Rightarrow> (u64 \<rightharpoonup> symbol_id) \<Rightarrow> lifted_reloc list \<Rightarrow> u64 \<Rightarrow> data_item list option" where
  "lift_items_from s labels [] cursor =
     Some (if unat cursor < length (sec_bytes s) then bytes_item s labels cursor (drop (unat cursor) (sec_bytes s)) else [])"
| "lift_items_from s labels (r # rs) cursor =
     Option.bind
       (if lr_offset r > cursor
        then map_option (bytes_item s labels cursor) (slice (sec_bytes s) (unat cursor) (unat (lr_offset r)))
        else Some [])
       (\<lambda>before.
         map_option (\<lambda>items. before @ pointer_item s labels r # items)
           (lift_items_from s labels rs (lr_offset r + ucast (lr_width r))))"

definition lift_items ::
  "container_section \<Rightarrow> lifted_reloc list \<Rightarrow> (u64 \<rightharpoonup> symbol_id) \<Rightarrow> data_item list option" where
  "lift_items s handled labels = lift_items_from s labels handled 0"

definition data_lift :: "container \<Rightarrow> section_id \<Rightarrow> (data_lift_error + data_lift_result) option" where
  "data_lift c i =
     (case List.find (\<lambda>s. sec_id s = i) (c_sections c) of
        None \<Rightarrow> Some (Err (UnknownSection i))
      | Some s \<Rightarrow>
          (case split_relocations (sec_size s) (relocations_for c i) of
             Err e \<Rightarrow> Some (Err e)
           | Ok (found, unhandled) \<Rightarrow>
               (let handled = sort_key lr_offset found in
                case first_overlap handled of
                  Some (a, b) \<Rightarrow> Some (Err (OverlappingRelocations a b))
                | None \<Rightarrow>
                    map_option
                      (\<lambda>items. Ok \<lparr>dl_plan = \<lparr>ds_source_section = Some i, ds_items = items\<rparr>,
                                   dl_unhandled_relocations = unhandled\<rparr>)
                      (lift_items s handled (symbol_labels_for_section c s)))))"

section \<open>Edits\<close>

fun find_index :: "('a \<Rightarrow> bool) \<Rightarrow> 'a list \<Rightarrow> nat option" where
  "find_index P [] = None"
| "find_index P (x # xs) = (if P x then Some 0 else map_option Suc (find_index P xs))"

definition find_by_label :: "data_section \<Rightarrow> symbol_id \<Rightarrow> usize option" where
  "find_by_label d label = find_index (\<lambda>item. ditem_label item = Some label) (ds_items d)"

definition redirect_pointer_at ::
  "data_section \<Rightarrow> usize \<Rightarrow> rewrite_target \<Rightarrow> data_edit_error + rewrite_target \<times> data_section" where
  "redirect_pointer_at d index new_target =
     (case vec_get (ds_items d) index of
        None \<Rightarrow> Err (IndexOutOfBounds index)
      | Some item \<Rightarrow>
          (case ditem_payload item of
             DP_Pointer target addend width \<Rightarrow>
               Ok (target, d\<lparr>ds_items := (ds_items d)[index := item\<lparr>ditem_payload := DP_Pointer new_target addend width\<rparr>]\<rparr>)
           | DP_Bytes _ \<Rightarrow> Err (NotAPointer index)))"

definition redirect_pointer ::
  "data_section \<Rightarrow> symbol_id \<Rightarrow> rewrite_target \<Rightarrow> data_edit_error + rewrite_target \<times> data_section" where
  "redirect_pointer d label new_target =
     and_then (ok_or (find_by_label d label) (LabelNotFound label)) (\<lambda>index. redirect_pointer_at d index new_target)"

section \<open>Emission\<close>

definition align_padding :: "u64 \<Rightarrow> u64 \<Rightarrow> u64" where
  "align_padding current_offset align =
     (if align \<le> 1 then 0
      else let remainder = current_offset mod align in if remainder = 0 then 0 else align - remainder)"

definition relocation_kind_for_pointer_width :: "u8 \<Rightarrow> relocation_kind" where
  "relocation_kind_for_pointer_width width_bytes = RK_Absolute"

definition pad_to :: "u64 \<Rightarrow> bytes \<Rightarrow> bytes" where
  "pad_to align bs =
     (if align > 1 then bs @ replicate (unat (align_padding (word_of_nat (length bs)) align)) 0 else bs)"

definition emit_data_item :: "data_item \<Rightarrow> data_emit_output \<Rightarrow> data_emit_output" where
  "emit_data_item item out =
     (let bs = pad_to (ditem_align item) (deo_bytes out) in
      case ditem_payload item of
        DP_Bytes x \<Rightarrow> out\<lparr>deo_bytes := bs @ x\<rparr>
      | DP_Pointer target addend width \<Rightarrow>
          out\<lparr>deo_bytes := bs @ replicate (unat width) 0,
              deo_relocations := deo_relocations out @
                (case target of
                   T_Symbol i \<Rightarrow> [\<lparr>er_offset = word_of_nat (length bs), er_kind = relocation_kind_for_pointer_width width,
                                    er_symbol = i, er_addend = addend\<rparr>]
                 | _ \<Rightarrow> [])\<rparr>)"

definition emit_data_section :: "data_section \<Rightarrow> data_emit_output" where
  "emit_data_section plan = fold emit_data_item (ds_items plan) \<lparr>deo_bytes = [], deo_relocations = []\<rparr>"

fun push_extra :: "section_id \<Rightarrow> relocation list \<Rightarrow> container \<Rightarrow> container" where
  "push_extra section [] c = c"
| "push_extra section (r # rs) c =
     push_extra section rs
       (c\<lparr>c_relocations := c_relocations c @ [r\<lparr>rel_id := length (c_relocations c), rel_section := section\<rparr>]\<rparr>)"

definition commit_to_data_container ::
  "container \<Rightarrow> section_id \<Rightarrow> data_emit_output \<Rightarrow> relocation list \<Rightarrow> container option" where
  "commit_to_data_container c section out extra =
     map_option (\<lambda>edited. push_extra section extra (push_emitted section (deo_relocations out) (drop_relocations section edited)))
       (with_section_bytes c section (deo_bytes out))"

section \<open>Alignment\<close>

text \<open>What a section's alignment is: a power of two, or nothing.\<close>

definition good_align :: "u64 \<Rightarrow> bool" where
  "good_align a \<longleftrightarrow> a \<le> 1 \<or> (\<exists>k<64. a = push_bit k 1)"

lemma unat_power_of_two: "n < 64 \<Longrightarrow> unat ((2 :: u64) ^ n) = 2 ^ n"
proof -
  assume "n < 64"
  then have "(2 :: nat) ^ n < 2 ^ 64" by (intro power_strict_increasing) simp_all
  then show ?thesis
    using \<open>n < 64\<close> unsigned_push_bit_eq [of n "1 :: u64", where ?'a = nat] by (simp add: push_bit_eq_mult take_bit_nat_eq_self)
qed

lemma trailing_zeros_props:
  assumes "w \<noteq> 0"
  shows "trailing_zeros w < 64" "2 ^ trailing_zeros w dvd unat w"
proof -
  let ?n = "trailing_zeros w"
  have low: "\<not> bit w m" if "m < ?n" for m
    using that nth_mem [of m "takeWhile (\<lambda>n. \<not> bit w n) [0..<64]"] set_takeWhileD
    by (fastforce simp: trailing_zeros_def takeWhile_nth dest: less_le_trans [OF _ length_takeWhile_le])
  obtain b where b: "bit w b" "b < 64"
    using assms by (auto simp: bit_eq_iff dest: bit_imp_le_length)
  then show n: "?n < 64"
    using low [of b] length_takeWhile_le [of "\<lambda>n. \<not> bit w n" "[0..<64]"]
    by (cases "?n = 64") (auto simp: trailing_zeros_def le_less)
  have "take_bit ?n w = 0" by (rule bit_word_eqI) (auto simp: bit_take_bit_iff low)
  then have "take_bit ?n (unat w) = 0" using unsigned_take_bit_eq [of ?n w, where ?'a = nat] by simp
  then show "2 ^ ?n dvd unat w" by (simp add: take_bit_eq_mod mod_eq_0_iff_dvd)
qed

lemma align_divides:
  assumes "good_align a" "a > 1"
  shows "unat (align_for_offset off a) dvd unat off"
proof (cases "off = 0")
  case False
  from assms obtain k where k: "k < 64" "a = push_bit k 1" by (auto simp: good_align_def)
  let ?n = "trailing_zeros off"
  note t = trailing_zeros_props [OF False]
  have m: "max a 1 = a" using assms(2) by simp
  have le: "2 ^ ?n \<le> a \<longleftrightarrow> ?n \<le> k"
    using t(1) k by (simp add: word_le_nat_alt unat_power_of_two)
  have na: "\<not> a \<le> 1" using assms(2) by simp
  have "align_for_offset off a = min (2 ^ ?n) a"
    unfolding align_for_offset_def m if_not_P [OF False] if_not_P [OF na] by (simp add: push_bit_eq_mult)
  then have "unat (align_for_offset off a) = 2 ^ min ?n k"
    using t(1) k le by (cases "?n \<le> k") (simp_all add: min_def unat_power_of_two push_bit_eq_mult)
  moreover have "(2 :: nat) ^ min ?n k dvd 2 ^ ?n" by (rule le_imp_power_dvd) simp
  ultimately show ?thesis using t(2) dvd_trans by metis
qed simp

lemma pad_to_aligned:
  assumes "good_align a" "length bs = unat off"
  shows "pad_to (align_for_offset off a) bs = bs"
proof (cases "a > 1")
  case True
  then have "unat (off mod align_for_offset off a) = 0"
    using align_divides [OF assms(1) True, of off] by (simp add: unat_mod dvd_imp_mod_0)
  then have "off mod align_for_offset off a = 0" by (simp add: unat_eq_0)
  moreover have "word_of_nat (length bs) = off" using assms(2) by simp
  ultimately show ?thesis by (simp add: pad_to_def align_padding_def)
next
  case False
  then have "align_for_offset off a \<le> 1" by (auto simp: align_for_offset_def max_def)
  then have "\<not> align_for_offset off a > 1" by simp
  then show ?thesis unfolding pad_to_def by (rule if_not_P)
qed

section \<open>Emitting what was lifted\<close>

text \<open>Slots that follow each other from a cursor and end inside the section.\<close>

fun slots_from :: "nat \<Rightarrow> nat \<Rightarrow> lifted_reloc list \<Rightarrow> bool" where
  "slots_from n cur [] = (cur \<le> n)"
| "slots_from n cur (r # rs) = (cur \<le> unat (lr_offset r) \<and> slots_from n (unat (lr_offset r) + unat (lr_width r)) rs)"

definition in_slot :: "lifted_reloc list \<Rightarrow> nat \<Rightarrow> bool" where
  "in_slot rs k \<longleftrightarrow> (\<exists>r\<in>set rs. unat (lr_offset r) \<le> k \<and> k < unat (lr_offset r) + unat (lr_width r))"

text \<open>The bytes of a section with its slots blanked, and the relocation that fills a slot.\<close>

definition blanked :: "lifted_reloc list \<Rightarrow> bytes \<Rightarrow> nat \<Rightarrow> u8" where
  "blanked rs bs k = (if in_slot rs k then 0 else bs ! k)"

definition slot_relocation :: "lifted_reloc \<Rightarrow> emitted_relocation list" where
  "slot_relocation r =
     (case lr_target r of
        T_Symbol i \<Rightarrow> [\<lparr>er_offset = lr_offset r, er_kind = RK_Absolute, er_symbol = i, er_addend = lr_addend r\<rparr>]
      | _ \<Rightarrow> [])"

lemma slots_from_le: "slots_from n cur rs \<Longrightarrow> cur \<le> n"
  by (induction n cur rs rule: slots_from.induct) auto

lemma slots_from_lower: "slots_from n cur rs \<Longrightarrow> in_slot rs k \<Longrightarrow> cur \<le> k"
  by (induction n cur rs rule: slots_from.induct) (fastforce simp: in_slot_def)+

lemma in_slot_Cons:
  "in_slot (r # rs) k \<longleftrightarrow> unat (lr_offset r) \<le> k \<and> k < unat (lr_offset r) + unat (lr_width r) \<or> in_slot rs k"
  by (auto simp: in_slot_def)

lemma blanked_slots:
  assumes "slots_from n cur (r # rs)"
  shows "map (blanked (r # rs) bs) [cur..<n] =
    map ((!) bs) [cur..<unat (lr_offset r)] @ replicate (unat (lr_width r)) 0 @
    map (blanked rs bs) [unat (lr_offset r) + unat (lr_width r)..<n]"
proof -
  let ?o = "unat (lr_offset r)" and ?w = "unat (lr_width r)"
  have le: "cur \<le> ?o" "?o + ?w \<le> n" and rs: "slots_from n (?o + ?w) rs"
    using assms slots_from_le by auto
  have "[cur..<n] = [cur..<?o] @ [?o..<?o + ?w] @ [?o + ?w..<n]"
    using le upt_add_eq_append [of cur ?o "n - ?o"] upt_add_eq_append [of ?o "?o + ?w" "n - ?o - ?w"] by simp
  moreover have "map (blanked (r # rs) bs) [cur..<?o] = map ((!) bs) [cur..<?o]"
    using slots_from_lower [OF rs] by (fastforce simp: blanked_def in_slot_Cons)
  moreover have "map (blanked (r # rs) bs) [?o..<?o + ?w] = replicate ?w 0"
    by (rule nth_equalityI) (auto simp: blanked_def in_slot_Cons)
  moreover have "map (blanked (r # rs) bs) [?o + ?w..<n] = map (blanked rs bs) [?o + ?w..<n]"
    by (auto simp: blanked_def in_slot_Cons)
  ultimately show ?thesis by simp
qed

lemma emit_bytes_item:
  assumes "good_align (sec_align s)" "length (deo_bytes out) = unat off"
  shows "fold emit_data_item (bytes_item s labels off bs) out = out\<lparr>deo_bytes := deo_bytes out @ bs\<rparr>"
  using pad_to_aligned [OF assms] by (simp add: bytes_item_def emit_data_item_def Let_def)

lemma emit_pointer_item:
  assumes "good_align (sec_align s)" "length (deo_bytes out) = unat (lr_offset r)"
  shows "emit_data_item (pointer_item s labels r) out =
    out\<lparr>deo_bytes := deo_bytes out @ replicate (unat (lr_width r)) 0,
        deo_relocations := deo_relocations out @ slot_relocation r\<rparr>"
  using pad_to_aligned [OF assms] assms(2)
  by (simp add: pointer_item_def emit_data_item_def Let_def slot_relocation_def relocation_kind_for_pointer_width_def
      split: rewrite_target.splits)

lemma slice_nths: "n \<le> m \<Longrightarrow> m \<le> length xs \<Longrightarrow> slice xs n m = Some (map ((!) xs) [n..<m])"
  by (auto simp: slice_def intro!: nth_equalityI)

lemma lift_emit_from:
  assumes "good_align (sec_align s)" "length (sec_bytes s) < 2 ^ 64"
  shows "slots_from (length (sec_bytes s)) (unat cursor) rs \<Longrightarrow> length (deo_bytes out) = unat cursor \<Longrightarrow>
    \<exists>items. lift_items_from s labels rs cursor = Some items \<and>
      fold emit_data_item items out =
        \<lparr>deo_bytes = deo_bytes out @ map (blanked rs (sec_bytes s)) [unat cursor..<length (sec_bytes s)],
         deo_relocations = deo_relocations out @ concat (map slot_relocation rs)\<rparr>"
proof (induction rs arbitrary: cursor out)
  case Nil
  have "map (blanked [] (sec_bytes s)) [unat cursor..<length (sec_bytes s)] = drop (unat cursor) (sec_bytes s)"
    by (rule nth_equalityI) (auto simp: blanked_def in_slot_def)
  then show ?case using Nil emit_bytes_item [OF assms(1) Nil(2)] by (cases out) auto
next
  case (Cons r rs)
  let ?bs = "sec_bytes s" and ?o = "lr_offset r"
  have sl: "unat cursor \<le> unat ?o" "slots_from (length ?bs) (unat ?o + unat (lr_width r)) rs"
    using Cons.prems(1) by simp_all
  have ol: "unat ?o + unat (lr_width r) \<le> length ?bs" using slots_from_le [OF sl(2)] .
  have stp: "unat (?o + ucast (lr_width r)) = unat ?o + unat (lr_width r)"
  proof -
    have "unat (ucast (lr_width r) :: u64) = unat (lr_width r)" 
      using unsigned_less [of "lr_width r", where ?'a = nat] by (simp add: unsigned_ucast_eq take_bit_nat_eq_self)
    then show ?thesis using ol assms(2) by (subst unat_add_lem [THEN iffD1]) simp_all
  qed
  let ?before = "if ?o > cursor then bytes_item s labels cursor (map ((!) ?bs) [unat cursor..<unat ?o]) else []"
  define out1 where "out1 = out\<lparr>deo_bytes := deo_bytes out @ map ((!) ?bs) [unat cursor..<unat ?o]\<rparr>"
  have b: "fold emit_data_item ?before out = out1"
    using emit_bytes_item [OF assms(1) Cons.prems(2)] sl(1)
    by (auto simp: out1_def word_less_nat_alt)
  have l1: "length (deo_bytes out1) = unat ?o" using Cons.prems(2) sl(1) by (simp add: out1_def)
  define out2 where "out2 = emit_data_item (pointer_item s labels r) out1"
  have o2: "out2 = \<lparr>deo_bytes = deo_bytes out @ map ((!) ?bs) [unat cursor..<unat ?o] @ replicate (unat (lr_width r)) 0,
      deo_relocations = deo_relocations out @ slot_relocation r\<rparr>"
    by (simp add: out2_def emit_pointer_item [OF assms(1) l1]) (simp add: out1_def)
  have "length (deo_bytes out2) = unat (?o + ucast (lr_width r))"
    using l1 stp by (simp add: out2_def emit_pointer_item [OF assms(1) l1])
  with Cons.IH [of "?o + ucast (lr_width r)" out2] sl(2) stp obtain items where
    i: "lift_items_from s labels rs (?o + ucast (lr_width r)) = Some items"
      "fold emit_data_item items out2 = \<lparr>deo_bytes = deo_bytes out2 @ map (blanked rs ?bs) [unat ?o + unat (lr_width r)..<length ?bs],
        deo_relocations = deo_relocations out2 @ concat (map slot_relocation rs)\<rparr>"
    by auto
  have "lift_items_from s labels (r # rs) cursor = Some (?before @ pointer_item s labels r # items)"
    using i(1) ol slice_nths [OF sl(1), of ?bs] by (simp add: bind_eq_Some_conv)
  moreover have "fold emit_data_item (?before @ pointer_item s labels r # items) out =
      \<lparr>deo_bytes = deo_bytes out @ map (blanked (r # rs) ?bs) [unat cursor..<length ?bs],
       deo_relocations = deo_relocations out @ concat (map slot_relocation (r # rs))\<rparr>"
    unfolding fold_append comp_apply b fold.simps using i(2) 
    by (simp add: out2_def [symmetric] o2 blanked_slots [OF Cons.prems(1)] del: upt_Suc)
  ultimately show ?case by blast
qed


text \<open>The slots a lift finds: sorted, apart and inside the section.\<close>

lemma sorted_slots:
  assumes "first_overlap rs = None" "n < 2 ^ 64" "sorted (map lr_offset rs)"
    "list_all (\<lambda>r. unat (lr_offset r) + unat (lr_width r) \<le> n) rs"
  shows "slots_from n (case rs of [] \<Rightarrow> n | r # _ \<Rightarrow> unat (lr_offset r)) rs"
  using assms
proof (induction rs rule: first_overlap.induct)
  case (1 a b rest)
  have IH: "slots_from n (unat (lr_offset b)) (b # rest)"
    using "1.IH" "1.prems" by (simp split: if_splits)
  have w: "unat (ucast (lr_width a) :: u64) = unat (lr_width a)"
    using unsigned_less [of "lr_width a", where ?'a = nat] by (simp add: unsigned_ucast_eq take_bit_nat_eq_self)
  have "unat (lr_offset a) + unat (lr_width a) < 2 ^ 64" using "1.prems" by simp
  then have "unat (lr_offset a + ucast (lr_width a)) = unat (lr_offset a) + unat (lr_width a)"
    by (subst unat_add_lem [THEN iffD1]) (simp_all add: w)
  moreover have "lr_offset a + ucast (lr_width a) \<le> lr_offset b"
    using "1.prems"(1) by (simp add: linorder_not_less split: if_splits)
  ultimately have "unat (lr_offset a) + unat (lr_width a) \<le> unat (lr_offset b)"
    by (simp add: word_le_nat_alt)
  then show ?case using IH by simp
qed auto

lemma slots_from_zero:
  "slots_from n (case rs of [] \<Rightarrow> n | r # _ \<Rightarrow> unat (lr_offset r)) rs \<Longrightarrow> slots_from n 0 rs"
  by (cases rs) simp_all

lemma data_relocation_width_Some: "data_relocation_width k = (if k = RK_Absolute then Some 8 else None)"
  by (cases k) (simp_all add: data_relocation_width_def)

text \<open>What a section needs for the trip there and back: a sane alignment, all its bytes present, and
  pointers that end inside it.\<close>

definition data_ok :: "container \<Rightarrow> container_section \<Rightarrow> bool" where
  "data_ok c s \<longleftrightarrow>
     good_align (sec_align s) \<and> length (sec_bytes s) = unat (sec_size s) \<and>
     list_all (\<lambda>r. rel_kind r = RK_Absolute \<longrightarrow> unat (rel_offset r) + 8 \<le> length (sec_bytes s))
       (relocations_for c (sec_id s))"

definition pointer_relocations :: "container \<Rightarrow> section_id \<Rightarrow> relocation list" where
  "pointer_relocations c i = filter (\<lambda>r. rel_kind r = RK_Absolute) (relocations_for c i)"

definition section_slots :: "container \<Rightarrow> section_id \<Rightarrow> lifted_reloc list" where
  "section_slots c i = sort_key lr_offset (map (lifted_reloc_of 8) (pointer_relocations c i))"

text \<open>The reasons a lift may give.\<close>

definition lift_refused :: "container \<Rightarrow> container_section \<Rightarrow> data_lift_error \<Rightarrow> bool" where
  "lift_refused c s e =
     (case e of
        UnknownSection _ \<Rightarrow> False
      | RelocationOutOfBounds off n \<Rightarrow>
          n = sec_size s \<and> n \<le> off \<and> (\<exists>r\<in>set (relocations_for c (sec_id s)). rel_offset r = off)
      | OverlappingRelocations a b \<Rightarrow>
          b < a + 8 \<and> (\<exists>before after x y. section_slots c (sec_id s) = before @ x # y # after \<and>
             lr_offset x = a \<and> lr_offset y = b))"

lemma split_relocations_spec:
  "case split_relocations sz rs of
     Err e \<Rightarrow> (\<exists>r\<in>set rs. sz \<le> rel_offset r \<and> e = RelocationOutOfBounds (rel_offset r) sz)
   | Ok (found, unhandled) \<Rightarrow>
       found = map (lifted_reloc_of 8) (filter (\<lambda>r. rel_kind r = RK_Absolute) rs) \<and>
       unhandled = filter (\<lambda>r. rel_kind r \<noteq> RK_Absolute) rs"
  by (induction sz rs rule: split_relocations.induct)
    (auto simp: data_relocation_width_Some split: sum.splits prod.splits)

lemma first_overlap_Some:
  "first_overlap rs = Some (a, b) \<Longrightarrow>
   \<exists>before after x y. rs = before @ x # y # after \<and> lr_offset x = a \<and> lr_offset y = b \<and> b < a + ucast (lr_width x)"
proof (induction rs rule: first_overlap.induct)
  case (1 x y rest)
  show ?case
  proof (cases "lr_offset x + ucast (lr_width x) > lr_offset y")
    case True
    then show ?thesis using 1 by (intro exI [of _ "[]"] exI [of _ rest] exI [of _ x] exI [of _ y]) auto
  next
    case False
    then obtain before after x' y' where "y # rest = before @ x' # y' # after" "lr_offset x' = a" "lr_offset y' = b"
      "b < a + ucast (lr_width x')"
      using 1 by auto
    then show ?thesis
      by (intro exI [of _ "x # before"] exI [of _ after] exI [of _ x'] exI [of _ y']) auto
  qed
qed auto

lemma section_slots_width: "r \<in> set (section_slots c i) \<Longrightarrow> lr_width r = 8"
  by (auto simp: section_slots_def lifted_reloc_of_def)

section \<open>Properties\<close>

text \<open>C25: a data section survives lifting. A lift of a section in order never panics. It is refused only
  for a relocation past the end or for two pointers that overlap; otherwise emitting the items it
  produces gives back the section's bytes with the pointer slots blank, at the same offsets, and one
  relocation per slot that names a symbol, at its place and with its addend, while the relocations
  that are no pointers are handed back in order.\<close>

theorem data_lift_emit:
  assumes "List.find (\<lambda>s. sec_id s = i) (c_sections c) = Some s" "data_ok c s"
  shows "case data_lift c i of
      None \<Rightarrow> False
    | Some (Err e) \<Rightarrow> lift_refused c s e
    | Some (Ok dl) \<Rightarrow>
        emit_data_section (dl_plan dl) =
          \<lparr>deo_bytes = map (blanked (section_slots c i) (sec_bytes s)) [0..<length (sec_bytes s)],
           deo_relocations = concat (map slot_relocation (section_slots c i))\<rparr> \<and>
        dl_unhandled_relocations dl = filter (\<lambda>r. rel_kind r \<noteq> RK_Absolute) (relocations_for c i)"
proof -
  have i: "sec_id s = i" using assms(1) by (auto simp: find_Some_iff)
  have ok: "good_align (sec_align s)" "length (sec_bytes s) = unat (sec_size s)"
    "list_all (\<lambda>r. rel_kind r = RK_Absolute \<longrightarrow> unat (rel_offset r) + 8 \<le> length (sec_bytes s)) (relocations_for c i)"
    using assms(2) unfolding data_ok_def i by blast+
  have big: "length (sec_bytes s) < 2 ^ 64" using ok(2) unsigned_less [of "sec_size s", where ?'a = nat] by simp
  note split = split_relocations_spec [where sz = "sec_size s" and rs = "relocations_for c i"]
  show ?thesis
  proof (cases "split_relocations (sec_size s) (relocations_for c i)")
    case (Inl e)
    then show ?thesis using split assms(1) by (auto simp: data_lift_def lift_refused_def i)
  next
    case (Inr fu)
    with split obtain unhandled where fu: "fu = (map (lifted_reloc_of 8) (pointer_relocations c i), unhandled)"
      "unhandled = filter (\<lambda>r. rel_kind r \<noteq> RK_Absolute) (relocations_for c i)"
      by (cases fu) (simp add: pointer_relocations_def)
    let ?slots = "section_slots c i"
    show ?thesis
    proof (cases "first_overlap ?slots")
      case (Some ab)
      obtain a b where ab: "ab = (a, b)" by fastforce
      from first_overlap_Some [OF Some [unfolded ab]] obtain before after x y where
        o: "?slots = before @ x # y # after" "lr_offset x = a" "lr_offset y = b" "b < a + ucast (lr_width x)" by blast
      then have "lr_width x = 8" using section_slots_width [of x c i] by simp
      then have "lift_refused c s (OverlappingRelocations a b)" using o by (auto simp: lift_refused_def i)
      then show ?thesis using assms(1) Inr fu Some ab by (simp add: data_lift_def section_slots_def)
    next
      case None
      have "list_all (\<lambda>r. unat (lr_offset r) + unat (lr_width r) \<le> length (sec_bytes s)) ?slots"
        using ok(3) by (auto simp: section_slots_def list_all_iff pointer_relocations_def lifted_reloc_of_def)
      then have "slots_from (length (sec_bytes s)) 0 ?slots"
        using sorted_slots [OF None big] by (intro slots_from_zero) (simp add: section_slots_def)
      from lift_emit_from [OF ok(1) big, of 0 ?slots "\<lparr>deo_bytes = [], deo_relocations = []\<rparr>"
          "symbol_labels_for_section c s"] this
      obtain items where "lift_items_from s (symbol_labels_for_section c s) ?slots 0 = Some items"
        "fold emit_data_item items \<lparr>deo_bytes = [], deo_relocations = []\<rparr> =
          \<lparr>deo_bytes = map (blanked ?slots (sec_bytes s)) [0..<length (sec_bytes s)],
           deo_relocations = concat (map slot_relocation ?slots)\<rparr>" by auto
      then show ?thesis
        using assms(1) Inr fu None by (simp add: data_lift_def section_slots_def lift_items_def emit_data_section_def)
    qed
  qed
qed


text \<open>A section of two quadwords, the second of which is a pointer, and a relocation that is none.\<close>

definition sample_data_section :: container_section where
  "sample_data_section =
     \<lparr>sec_id = 0, sec_name = ''.data'', sec_address = 0, sec_size = 16,
      sec_bytes = [1, 2, 3, 4, 5, 6, 7, 8, 9, 10, 11, 12, 13, 14, 15, 16],
      sec_kind = SK_Data, sec_align = 8, sec_flags = None, sec_raw_sh_type = None\<rparr>"

definition sample_data_container :: container where
  "sample_data_container =
     \<lparr>c_format = BF_Elf, c_architecture = Arch_Aarch64, c_kind = CK_Relocatable, c_sections = [sample_data_section],
      c_symbols = [],
      c_relocations =
        [\<lparr>rel_id = 0, rel_section = 0, rel_offset = 8, rel_kind = RK_Absolute, rel_size = 64, rel_addend = 4, rel_symbol = Some 7\<rparr>,
         \<lparr>rel_id = 1, rel_section = 0, rel_offset = 0, rel_kind = RK_Branch26, rel_size = 26, rel_addend = 0, rel_symbol = None\<rparr>],
      c_file_flags = None, c_elf_image = None, c_macho_image = None, c_pe_image = None, c_dwarf = None\<rparr>"

theorem data_lift_emit_witness:
  "\<exists>dl. data_lift sample_data_container 0 = Some (Ok dl) \<and>
     emit_data_section (dl_plan dl) =
       \<lparr>deo_bytes = [1, 2, 3, 4, 5, 6, 7, 8, 0, 0, 0, 0, 0, 0, 0, 0],
        deo_relocations = [\<lparr>er_offset = 8, er_kind = RK_Absolute, er_symbol = 7, er_addend = 4\<rparr>]\<rparr>"
proof -
  let ?c = sample_data_container and ?s = sample_data_section
  have find: "List.find (\<lambda>s. sec_id s = 0) (c_sections ?c) = Some ?s"
    by (simp add: sample_data_container_def sample_data_section_def)
  have rels: "relocations_for ?c 0 = c_relocations ?c"
    by (simp add: relocations_for_def sample_data_container_def)
  have "good_align 8" by (simp add: good_align_def push_bit_eq_mult exI [of _ "3 :: nat"])
  then have ok: "data_ok ?c ?s"
    unfolding data_ok_def by (simp add: rels sample_data_section_def) (simp add: sample_data_container_def)
  have slots: "section_slots ?c 0 = [\<lparr>lr_offset = 8, lr_width = 8, lr_target = T_Symbol 7, lr_addend = 4\<rparr>]"
    by (simp add: section_slots_def pointer_relocations_def rels) (simp add: sample_data_container_def lifted_reloc_of_def)
  have lifts: "\<exists>dl. data_lift ?c 0 = Some (Ok dl)"
  proof -
    have "split_relocations 16 (c_relocations ?c) =
        Ok ([\<lparr>lr_offset = 8, lr_width = 8, lr_target = T_Symbol 7, lr_addend = 4\<rparr>], drop 1 (c_relocations ?c))"
      by (simp add: sample_data_container_def data_relocation_width_Some lifted_reloc_of_def)
    moreover have "\<exists>items. lift_items ?s [\<lparr>lr_offset = 8, lr_width = 8, lr_target = T_Symbol 7, lr_addend = 4\<rparr>] m = Some items" for m
      by (simp add: lift_items_def slice_def sample_data_section_def)
    ultimately show ?thesis using find rels by (auto simp: data_lift_def) (auto simp: sample_data_section_def)
  qed
  then obtain dl where dl: "data_lift ?c 0 = Some (Ok dl)" by blast
  have bytes: "map (blanked (section_slots ?c 0) (sec_bytes ?s)) [0..<length (sec_bytes ?s)] =
      [1, 2, 3, 4, 5, 6, 7, 8, 0, 0, 0, 0, 0, 0, 0, 0]"
    unfolding slots by (simp add: sample_data_section_def upt_rec blanked_def in_slot_def)
  show ?thesis using data_lift_emit [OF find ok] dl unfolding bytes by (simp add: slots slot_relocation_def)
qed

section \<open>Commits\<close>

text \<open>The relocations pushed, with consecutive identifiers.\<close>

definition numbered_relocations :: "section_id \<Rightarrow> nat \<Rightarrow> emitted_relocation list \<Rightarrow> container \<Rightarrow> relocation list" where
  "numbered_relocations i n es c = map2 (\<lambda>k e. (into_relocation i e c)\<lparr>rel_id := k\<rparr>) [n..<n + length es] es"

lemma numbered_relocations_Cons:
  "numbered_relocations i n (e # es) c = (into_relocation i e c)\<lparr>rel_id := n\<rparr> # numbered_relocations i (Suc n) es c"
  by (simp add: numbered_relocations_def upt_conv_Cons del: upt_Suc)

lemma numbered_relocations_Nil: "numbered_relocations i n [] c = []"
  by (simp add: numbered_relocations_def)

lemma numbered_relocations_cong: "numbered_relocations i n es (c\<lparr>c_relocations := rs\<rparr>) = numbered_relocations i n es c"
  by (simp add: numbered_relocations_def into_relocation_def)

lemma push_emitted_relocations:
  "push_emitted i es c =
     c\<lparr>c_relocations := c_relocations c @ numbered_relocations i (length (c_relocations c)) es c\<rparr>"
proof (induction i es c rule: push_emitted.induct)
  case (1 i c)
  then show ?case by (simp add: numbered_relocations_def)
next
  case (2 i e es c)
  have "(into_relocation i e c)\<lparr>rel_id := length (c_relocations c)\<rparr> = into_relocation i e c"
    by (simp add: into_relocation_def)
  with 2 show ?case by (simp add: numbered_relocations_Cons numbered_relocations_cong)
qed

lemma numbered_relocations_fields:
  "rel_section ` set (numbered_relocations i n es c) \<subseteq> {i}"
  "map rel_id (numbered_relocations i n es c) = [n..<n + length es]"
  "map (\<lambda>r. (rel_offset r, rel_kind r, rel_size r, rel_addend r, rel_symbol r)) (numbered_relocations i n es c) =
     map (\<lambda>e. (er_offset e, er_kind e, relocation_size_bits (er_kind e), er_addend e, Some (er_symbol e))) es"
  subgoal by (auto simp: numbered_relocations_def into_relocation_def set_zip)
  subgoal by (intro nth_equalityI) (simp_all add: numbered_relocations_def)
  subgoal by (induction es arbitrary: n) (simp_all add: numbered_relocations_Cons numbered_relocations_Nil into_relocation_def)
  done

text \<open>C38: a commit replaces one section. It panics exactly for a section that is not there; otherwise the
  other sections and their relocations stay, in order, the section has the new bytes and their
  length, its relocations are the emitted ones, in order, with the size of their kind and numbered
  from the number of relocations that stay, and nothing else of the container changes.\<close>

theorem commit_splices:
  "case commit_to_container c i out of
     None \<Rightarrow> length (c_sections c) \<le> i
   | Some c' \<Rightarrow>
       i < length (c_sections c) \<and>
       c_sections c' = (c_sections c)[i := (c_sections c ! i)\<lparr>sec_size := word_of_nat (length (eo_bytes out)),
         sec_bytes := eo_bytes out\<rparr>] \<and>
       filter (\<lambda>r. rel_section r \<noteq> i) (c_relocations c') = filter (\<lambda>r. rel_section r \<noteq> i) (c_relocations c) \<and>
       map (\<lambda>r. (rel_offset r, rel_kind r, rel_size r, rel_addend r, rel_symbol r)) (filter (\<lambda>r. rel_section r = i) (c_relocations c')) =
       map (\<lambda>e. (er_offset e, er_kind e, relocation_size_bits (er_kind e), er_addend e, Some (er_symbol e))) (eo_relocations out) \<and>
       map rel_id (filter (\<lambda>r. rel_section r = i) (c_relocations c')) =
         (let n = length (filter (\<lambda>r. rel_section r \<noteq> i) (c_relocations c)) in [n..<n + length (eo_relocations out)]) \<and>
       c'\<lparr>c_sections := c_sections c, c_relocations := c_relocations c\<rparr> = c"
proof (cases "i < length (c_sections c)")
  case True
  define secs where "secs = (c_sections c)[i := (c_sections c ! i)\<lparr>sec_size := word_of_nat (length (eo_bytes out)),
         sec_bytes := eo_bytes out\<rparr>]"
  define kept where "kept = filter (\<lambda>r. rel_section r \<noteq> i) (c_relocations c)"
  define new where "new = numbered_relocations i (length kept) (eo_relocations out) (c\<lparr>c_sections := secs\<rparr>)"
  have edited: "with_section_bytes c i (eo_bytes out) = Some (c\<lparr>c_sections := secs\<rparr>)"
    using True by (simp add: with_section_bytes_def vec_get_def secs_def)
  have c': "commit_to_container c i out = Some (c\<lparr>c_sections := secs, c_relocations := kept @ new\<rparr>)"
    unfolding commit_to_container_def edited
    by (simp add: push_emitted_relocations drop_relocations_def numbered_relocations_cong kept_def new_def)
  have "\<forall>r\<in>set new. rel_section r = i" using numbered_relocations_fields(1) unfolding new_def by blast
  then have n: "filter (\<lambda>r. rel_section r \<noteq> i) new = []" "filter (\<lambda>r. rel_section r = i) new = new"
    by (auto simp: filter_empty_conv filter_id_conv)
  have k: "filter (\<lambda>r. rel_section r \<noteq> i) kept = kept" "filter (\<lambda>r. rel_section r = i) kept = []"
    by (simp_all add: kept_def filter_empty_conv)
  show ?thesis
    unfolding c' option.case secs_def [symmetric] kept_def [symmetric] Let_def
    using True numbered_relocations_fields(2,3) [of i "length kept" "eo_relocations out" "c\<lparr>c_sections := secs\<rparr>"]
    by (simp add: n k flip: new_def)
qed (simp add: commit_to_container_def with_section_bytes_def vec_get_def)

text \<open>Two sections with one relocation each.\<close>

definition two_relocations_container :: container where
  "two_relocations_container = sample_data_container\<lparr>c_relocations :=
     [\<lparr>rel_id = 0, rel_section = 0, rel_offset = 0, rel_kind = RK_Absolute, rel_size = 64, rel_addend = 0, rel_symbol = None\<rparr>,
      \<lparr>rel_id = 1, rel_section = 1, rel_offset = 0, rel_kind = RK_Absolute, rel_size = 64, rel_addend = 0, rel_symbol = None\<rparr>]\<rparr>"

text \<open>A commit can give two relocations one identifier. The new ones are numbered from the length of
  the list that is left, and the ones that stay keep their numbers.\<close>

theorem commit_ids_collide:
  "map rel_id (c_relocations two_relocations_container) = [0, 1] \<and>
   map_option (\<lambda>c. map rel_id (c_relocations c))
     (commit_to_container two_relocations_container 0
        \<lparr>eo_bytes = [], eo_relocations = [\<lparr>er_offset = 0, er_kind = RK_Branch26, er_symbol = 0, er_addend = 0\<rparr>]\<rparr>) = Some [1, 1]"
  by (simp add: two_relocations_container_def sample_data_container_def commit_to_container_def with_section_bytes_def
      vec_get_def drop_relocations_def into_relocation_def)

end
