(* ===== verification/Le_Bytes.thy ===== *)
theory Le_Bytes
  imports Prelude
begin

text \<open>
  Little-endian fields in byte strings, as the container modules read and write them: \<open>to_le_bytes\<close>
  and \<open>from_le_bytes\<close> of the integer types, reading a field at an offset, and overwriting one in
  place. What every field width shares is proved in the locale \<open>le_field\<close>, interpreted at each width.
\<close>

section \<open>Fields\<close>

definition le_bytes :: "nat \<Rightarrow> 'a :: len word \<Rightarrow> bytes" where
  "le_bytes n w = map (\<lambda>i. ucast (drop_bit (8 * i) w)) [0..<n]"

abbreviation le16 :: "16 word \<Rightarrow> bytes" where "le16 \<equiv> le_bytes 2"
abbreviation le32 :: "u32 \<Rightarrow> bytes" where "le32 \<equiv> le_bytes 4"
abbreviation le64 :: "u64 \<Rightarrow> bytes" where "le64 \<equiv> le_bytes 8"

fun of_le :: "bytes \<Rightarrow> 'a :: len word" where
  "of_le [] = 0"
| "of_le (b # bs) = ucast b OR push_bit 8 (of_le bs)"

definition read_at :: "nat \<Rightarrow> (bytes \<Rightarrow> 'a) \<Rightarrow> bytes \<Rightarrow> nat \<Rightarrow> 'a option" where
  "read_at n get bs off = (if off + n \<le> length bs then Some (get (take n (drop off bs))) else None)"

abbreviation u16_at :: "bytes \<Rightarrow> nat \<Rightarrow> 16 word option" where "u16_at \<equiv> read_at 2 of_le"
abbreviation u32_at :: "bytes \<Rightarrow> nat \<Rightarrow> u32 option" where "u32_at \<equiv> read_at 4 of_le"
abbreviation u64_at :: "bytes \<Rightarrow> nat \<Rightarrow> u64 option" where "u64_at \<equiv> read_at 8 of_le"

text \<open>\<open>bytes[at..at + v.len()].copy_from_slice(v)\<close>, which panics out of range.\<close>

definition write_at :: "bytes \<Rightarrow> nat \<Rightarrow> bytes \<Rightarrow> bytes option" where
  "write_at bs off v =
     (if off + length v \<le> length bs then Some (take off bs @ v @ drop (off + length v) bs) else None)"

lemma length_le_bytes [simp]: "length (le_bytes n w) = n"
  by (simp add: le_bytes_def)

lemma bit_of_le:
  "bit (of_le bs :: 'a :: len word) n \<longleftrightarrow> n < LENGTH('a) \<and> n div 8 < length bs \<and> bit (bs ! (n div 8)) (n mod 8)"
proof (induction bs arbitrary: n)
  case (Cons b bs)
  show ?case
  proof (cases "n < 8")
    case True
    then show ?thesis by (auto simp: bit_simps)
  next
    case False
    then have n: "n div 8 = Suc ((n - 8) div 8)" "n mod 8 = (n - 8) mod 8"
      by (simp_all add: le_div_geq le_mod_geq)
    have "\<not> bit b n" using False by (auto dest: bit_imp_le_length)
    then show ?thesis using Cons [of "n - 8"] False by (auto simp: bit_simps n)
  qed
qed simp

lemma of_le_le_bytes: "LENGTH('a) \<le> 8 * n \<Longrightarrow> of_le (le_bytes n (w :: 'a :: len word)) = w"
proof (rule bit_word_eqI)
  fix k assume a: "LENGTH('a) \<le> 8 * n" "k < LENGTH('a)"
  then have "k div 8 < n" by simp
  then show "bit (of_le (le_bytes n w) :: 'a word) k = bit w k"
    using a(2) by (simp add: bit_of_le le_bytes_def bit_simps)
qed

lemma le_bytes_of_le: "length bs = n \<Longrightarrow> 8 * n \<le> LENGTH('a) \<Longrightarrow> le_bytes n (of_le bs :: 'a :: len word) = bs"
proof (rule nth_equalityI)
  fix i assume a: "length bs = n" "8 * n \<le> LENGTH('a)" "i < length (le_bytes n (of_le bs :: 'a word))"
  then have i: "i < n" "i < length bs" by simp_all
  show "le_bytes n (of_le bs :: 'a word) ! i = bs ! i"
  proof (rule bit_word_eqI)
    fix k assume k: "k < LENGTH(8)"
    have "8 * i + k < LENGTH('a)" using a(2) i k by simp
    moreover have "(8 * i + k) div 8 = i" "(8 * i + k) mod 8 = k" using k by simp_all
    ultimately show "bit (le_bytes n (of_le bs :: 'a word) ! i) k = bit (bs ! i) k"
      using i k by (simp add: le_bytes_def bit_simps bit_of_le)
  qed
qed simp

section \<open>What every width shares\<close>

fun patch_all :: "(bytes \<Rightarrow> nat \<Rightarrow> 'e + bytes) \<Rightarrow> nat list \<Rightarrow> bytes \<Rightarrow> 'e + bytes" where
  "patch_all patch [] bs = Ok bs"
| "patch_all patch (p # ps) bs = and_then (patch bs p) (patch_all patch ps)"

lemma patch_all_append: "patch_all f (ps @ qs) bs = and_then (patch_all f ps bs) (patch_all f qs)"
proof (induction ps arbitrary: bs)
  case (Cons p ps)
  then show ?case by (cases "f bs p") simp_all
qed simp

definition fields_apart :: "nat \<Rightarrow> nat list \<Rightarrow> bool" where
  "fields_apart n ps \<longleftrightarrow> sorted_wrt (\<lambda>p q. p + n \<le> q \<or> q + n \<le> p) ps"

locale le_field =
  fixes width :: nat and put :: "'a \<Rightarrow> bytes" and get :: "bytes \<Rightarrow> 'a"
  assumes width_pos: "0 < width"
    and length_put [simp]: "length (put x) = width"
    and get_put [simp]: "get (put x) = x"
    and put_get: "length bs = width \<Longrightarrow> put (get bs) = bs"
begin

lemma read_put: "read_at width get (before @ put x @ after) (length before) = Some x"
  by (simp add: read_at_def)

lemma length_array: "length (concat (map put xs)) = width * length xs"
  by (induction xs) simp_all

lemma nth_array: "i < length xs \<Longrightarrow> take width (drop (width * i) (concat (map put xs) @ after)) = put (xs ! i)"
proof (induction xs arbitrary: i)
  case (Cons x xs)
  then show ?case by (cases i) (simp_all add: add.commute)
qed simp

lemma read_array:
  assumes "i < length xs" "off = length before + width * i"
  shows "read_at width get (before @ concat (map put xs) @ after) off = Some (xs ! i)"
proof -
  have "width * i + width \<le> width * length xs"
    using assms(1) mult_le_mono2 [of "Suc i" "length xs" width] by simp
  then show ?thesis using assms nth_array [of i xs after] by (simp add: read_at_def length_array)
qed

lemma read_array_end:
  assumes "i < length xs" "off = length before + width * i"
  shows "read_at width get (before @ concat (map put xs)) off = Some (xs ! i)"
  using read_array [OF assms, of "[]"] by simp

lemma write_read:
  assumes "write_at bs off (put x) = Some bs'"
  shows "read_at width get bs' off = Some x" "length bs' = length bs"
  using assms by (auto simp: write_at_def read_at_def split: if_splits)

lemma write_bytes_elsewhere:
  assumes "write_at bs off (put x) = Some bs'" "k < off \<or> off + width \<le> k"
  shows "bs' ! k = bs ! k"
  using assms by (auto simp: write_at_def nth_append split: if_splits)

lemma write_same: "read_at width get bs off = Some x \<Longrightarrow> write_at bs off (put x) = Some bs"
proof -
  assume "read_at width get bs off = Some x"
  then have le: "off + width \<le> length bs" and x: "x = get (take width (drop off bs))"
    by (auto simp: read_at_def split: if_splits)
  have "put x = take width (drop off bs)" unfolding x by (rule put_get) (use le in simp)
  moreover have "take off bs @ take width (drop off bs) @ drop (off + width) bs = bs"
    by (metis add.commute append_take_drop_id drop_drop)
  ultimately show ?thesis using le by (simp add: write_at_def)
qed

lemma read_elsewhere:
  assumes "write_at bs off (put x) = Some bs'" "p + width \<le> off \<or> off + width \<le> p"
  shows "read_at width get bs' p = read_at width get bs p"
proof -
  have len: "length bs' = length bs" using write_read(2) [OF assms(1)] .
  have "take width (drop p bs') = take width (drop p bs)" if "p + width \<le> length bs"
  proof (rule nth_equalityI)
    fix i assume "i < length (take width (drop p bs'))"
    then have i: "i < width" "p + i < length bs" using that len by auto
    then have "bs' ! (p + i) = bs ! (p + i)" using assms by (intro write_bytes_elsewhere [OF assms(1)]) auto
    then show "take width (drop p bs') ! i = take width (drop p bs) ! i" using i len by simp
  qed (simp add: len)
  then show ?thesis by (simp add: read_at_def len)
qed

text \<open>Rewriting a list of fields in turn, each by a function of its value.\<close>

lemma patch_all_spec:
  assumes patch: "\<And>bs p bs'. patch bs p = Ok bs' \<Longrightarrow>
      \<exists>x. read_at width get bs p = Some x \<and> write_at bs p (put (change x)) = Some bs'"
    and run: "patch_all patch ps bs = Ok bs'" and apart: "fields_apart width ps"
  shows "length bs' = length bs"
    and "\<And>p. p \<in> set ps \<Longrightarrow> \<exists>x. read_at width get bs p = Some x \<and> read_at width get bs' p = Some (change x)"
    and "\<And>q. (\<And>p. p \<in> set ps \<Longrightarrow> q + width \<le> p \<or> p + width \<le> q) \<Longrightarrow> read_at width get bs' q = read_at width get bs q"
    and "\<And>k. (\<And>p. p \<in> set ps \<Longrightarrow> k < p \<or> p + width \<le> k) \<Longrightarrow> bs' ! k = bs ! k"
proof -
  have "length bs' = length bs \<and>
      (\<forall>p\<in>set ps. \<exists>x. read_at width get bs p = Some x \<and> read_at width get bs' p = Some (change x)) \<and>
      (\<forall>q. (\<forall>p\<in>set ps. q + width \<le> p \<or> p + width \<le> q) \<longrightarrow> read_at width get bs' q = read_at width get bs q) \<and>
      (\<forall>k. (\<forall>p\<in>set ps. k < p \<or> p + width \<le> k) \<longrightarrow> bs' ! k = bs ! k)"
    using run apart
  proof (induction ps arbitrary: bs)
    case (Cons p ps)
    obtain bs1 where bs1: "patch bs p = Ok bs1" "patch_all patch ps bs1 = Ok bs'"
      using Cons.prems(1) by (auto simp: and_then_Ok_iff)
    obtain x where x: "read_at width get bs p = Some x" "write_at bs p (put (change x)) = Some bs1"
      using patch [OF bs1(1)] by blast
    have sep: "\<forall>q\<in>set ps. p + width \<le> q \<or> q + width \<le> p" using Cons.prems(2) by (auto simp: fields_apart_def)
    have ih: "length bs' = length bs1"
        "\<forall>p\<in>set ps. \<exists>x. read_at width get bs1 p = Some x \<and> read_at width get bs' p = Some (change x)"
        "\<forall>q. (\<forall>p\<in>set ps. q + width \<le> p \<or> p + width \<le> q) \<longrightarrow> read_at width get bs' q = read_at width get bs1 q"
        "\<forall>k. (\<forall>p\<in>set ps. k < p \<or> p + width \<le> k) \<longrightarrow> bs' ! k = bs1 ! k"
      using Cons.IH [OF bs1(2)] Cons.prems(2) by (simp_all add: fields_apart_def)
    have elsewhere: "read_at width get bs1 q = read_at width get bs q" if "q + width \<le> p \<or> p + width \<le> q" for q
      by (rule read_elsewhere [OF x(2) that])
    have "\<exists>x. read_at width get bs q = Some x \<and> read_at width get bs' q = Some (change x)" if "q \<in> set ps" for q
      using ih(2) elsewhere [of q] sep that by (metis disj_commute)
    moreover have "read_at width get bs' p = Some (change x)"
      using ih(3) sep write_read(1) [OF x(2)] by simp
    moreover have "bs' ! k = bs ! k" if "\<forall>q\<in>set (p # ps). k < q \<or> q + width \<le> k" for k
      using ih(4) write_bytes_elsewhere [OF x(2), of k] that by simp
    moreover have "read_at width get bs' q = read_at width get bs q"
      if "\<forall>r\<in>set (p # ps). q + width \<le> r \<or> r + width \<le> q" for q
      using ih(3) elsewhere [of q] that by simp
    ultimately show ?case using ih(1) write_read(2) [OF x(2)] x(1) by simp
  qed simp
  then show "length bs' = length bs"
    and "\<And>p. p \<in> set ps \<Longrightarrow> \<exists>x. read_at width get bs p = Some x \<and> read_at width get bs' p = Some (change x)"
    and "\<And>q. (\<And>p. p \<in> set ps \<Longrightarrow> q + width \<le> p \<or> p + width \<le> q) \<Longrightarrow> read_at width get bs' q = read_at width get bs q"
    and "\<And>k. (\<And>p. p \<in> set ps \<Longrightarrow> k < p \<or> p + width \<le> k) \<Longrightarrow> bs' ! k = bs ! k"
    by blast+
qed

end

interpretation u16: le_field 2 le16 of_le
  by unfold_locales (simp_all add: of_le_le_bytes le_bytes_of_le)

interpretation u32: le_field 4 le32 of_le
  by unfold_locales (simp_all add: of_le_le_bytes le_bytes_of_le)

interpretation u64: le_field 8 le64 of_le
  by unfold_locales (simp_all add: of_le_le_bytes le_bytes_of_le)

end
