(* ===== verification/Gnu_Hash.thy ===== *)
theory Gnu_Hash
  imports Le_Bytes
begin

text \<open>
  The GNU hash table of an ELF file (\<open>src/src/container/gnu_hash.rs\<close>): the hash, the builder of the
  section, and, as the specification of what it builds, the lookup that the module's comment
  describes. An \<open>assert!\<close> that fails is \<open>None\<close>. A shift count is taken modulo the width, as the
  release build does.
\<close>

section \<open>The builder\<close>

definition gnu_hash :: "bytes \<Rightarrow> u32" where
  "gnu_hash name = fold (\<lambda>c h. h * 33 + ucast c) name 5381"

record hashable_symbol =
  hs_dynsym_index :: u32
  hs_name :: bytes

definition is_power_of_two :: "u32 \<Rightarrow> bool" where
  "is_power_of_two w \<longleftrightarrow> w \<noteq> 0 \<and> w AND (w - 1) = 0"

definition bloom_index :: "u32 \<Rightarrow> u32 \<Rightarrow> nat" where
  "bloom_index bloom_size h = unat ((ucast h :: u64) div 64 AND (ucast bloom_size - 1))"

definition bloom_bits :: "u32 \<Rightarrow> u32 \<Rightarrow> u64" where
  "bloom_bits bloom_shift h =
     push_bit (unat (h AND 63)) 1 OR push_bit (unat (drop_bit (unat (bloom_shift AND 31)) h AND 63)) 1"

definition bloom_add :: "u32 \<Rightarrow> u32 \<Rightarrow> u32 \<Rightarrow> u64 list \<Rightarrow> u64 list" where
  "bloom_add bloom_size bloom_shift h bloom =
     (let word_index = bloom_index bloom_size h
      in bloom[word_index := bloom ! word_index OR bloom_bits bloom_shift h])"

definition bloom_filter :: "u32 \<Rightarrow> u32 \<Rightarrow> u32 list \<Rightarrow> u64 list" where
  "bloom_filter bloom_size bloom_shift hashes =
     fold (bloom_add bloom_size bloom_shift) hashes (replicate (unat bloom_size) 0)"

fun fill_buckets :: "u32 \<Rightarrow> u32 option \<Rightarrow> hashable_symbol list \<Rightarrow> u32 list \<Rightarrow> u32 list" where
  "fill_buckets nbuckets current [] buckets = buckets"
| "fill_buckets nbuckets current (s # ss) buckets =
     (let bucket = gnu_hash (hs_name s) mod nbuckets
      in fill_buckets nbuckets (Some bucket) ss
           (if Some bucket \<noteq> current then buckets[unat bucket := hs_dynsym_index s] else buckets))"

definition chain_words :: "u32 \<Rightarrow> u32 list \<Rightarrow> u32 list" where
  "chain_words nbuckets hashes =
     map (\<lambda>i. let word = hashes ! i AND NOT 1 in
              if i + 1 < length hashes \<and> hashes ! (i + 1) mod nbuckets = hashes ! i mod nbuckets
              then word else word OR 1)
       [0..<length hashes]"

definition build_gnu_hash :: "hashable_symbol list \<Rightarrow> u32 \<Rightarrow> u32 \<Rightarrow> u32 \<Rightarrow> u32 \<Rightarrow> bytes option" where
  "build_gnu_hash symbols symbol_base nbuckets bloom_size bloom_shift =
     (if nbuckets = 0 \<or> bloom_size = 0 \<or> \<not> is_power_of_two bloom_size then None
      else
        let hashes = map (\<lambda>s. gnu_hash (hs_name s)) symbols;
            bloom = bloom_filter bloom_size bloom_shift hashes;
            buckets = fill_buckets nbuckets None symbols (replicate (unat nbuckets) 0)
        in Some (le32 nbuckets @ le32 symbol_base @ le32 bloom_size @ le32 bloom_shift @
             concat (map le64 bloom) @ concat (map le32 buckets) @ concat (map le32 (chain_words nbuckets hashes))))"

section \<open>The lookup\<close>

text \<open>How a dynamic linker reads the section, given the name of each dynamic symbol: the Bloom filter,
  the bucket, then the chain up to the entry with the low bit set.\<close>

function walk_chain :: "bytes \<Rightarrow> (u32 \<Rightarrow> bytes) \<Rightarrow> bytes \<Rightarrow> u32 \<Rightarrow> nat \<Rightarrow> nat \<Rightarrow> u32 option" where
  "walk_chain bs names name base chain_at k =
     (case u32_at bs (chain_at + 4 * k) of
        None \<Rightarrow> None
      | Some c \<Rightarrow>
          if c OR 1 = gnu_hash name OR 1 \<and> names (base + word_of_nat k) = name then Some (base + word_of_nat k)
          else if c AND 1 = 1 then None
          else walk_chain bs names name base chain_at (Suc k))"
  by pat_completeness auto
termination
  by (relation "measure (\<lambda>(bs, _, _, _, chain_at, k). length bs - k)") (auto simp: read_at_def split: if_splits)

declare walk_chain.simps [simp del]

definition gnu_lookup :: "bytes \<Rightarrow> (u32 \<Rightarrow> bytes) \<Rightarrow> bytes \<Rightarrow> u32 option" where
  "gnu_lookup bs names name =
     Option.bind (u32_at bs 0) (\<lambda>nbuckets.
     Option.bind (u32_at bs 4) (\<lambda>base.
     Option.bind (u32_at bs 8) (\<lambda>bloom_size.
     Option.bind (u32_at bs 12) (\<lambda>bloom_shift.
       let h = gnu_hash name; buckets = 16 + 8 * unat bloom_size in
       Option.bind (u64_at bs (16 + 8 * bloom_index bloom_size h)) (\<lambda>filter_word.
         if filter_word AND bloom_bits bloom_shift h \<noteq> bloom_bits bloom_shift h then None
         else
           Option.bind (u32_at bs (buckets + 4 * unat (h mod nbuckets))) (\<lambda>first.
             if first = 0 then None
             else walk_chain bs names name base (buckets + 4 * unat nbuckets) (unat (first - base))))))))"

section \<open>The filter\<close>

lemma bloom_index_less: "bloom_size \<noteq> 0 \<Longrightarrow> bloom_index bloom_size h < unat bloom_size"
proof -
  assume nz: "bloom_size \<noteq> 0"
  let ?m = "(ucast bloom_size :: u64) - 1"
  have u: "unat (ucast bloom_size :: u64) = unat bloom_size"
    using unsigned_less [of bloom_size, where ?'a = nat] by (simp add: unsigned_ucast_eq take_bit_nat_eq_self)
  have "(ucast h :: u64) div 64 AND ?m \<le> ?m" by (rule word_and_le1)
  moreover have "unat ?m = unat bloom_size - 1"
    using nz u by (metis unat_minus_one unat_0 unat_eq_0)
  moreover have "0 < unat bloom_size" using nz by (simp add: unat_gt_0)
  ultimately show ?thesis unfolding bloom_index_def word_le_nat_alt by linarith
qed

lemma length_bloom_add [simp]: "length (bloom_add n s h bloom) = length bloom"
  by (simp add: bloom_add_def Let_def)

lemma length_fold_bloom [simp]: "length (fold (bloom_add n s) hs bloom) = length bloom"
  by (induction hs arbitrary: bloom) simp_all

lemma bloom_add_keeps: "bit (bloom ! i) k \<Longrightarrow> i < length bloom \<Longrightarrow> bit (bloom_add n s h bloom ! i) k"
  by (cases "i = bloom_index n h") (simp_all add: bloom_add_def Let_def bit_simps)

lemma fold_bloom_keeps: "bit (bloom ! i) k \<Longrightarrow> i < length bloom \<Longrightarrow> bit (fold (bloom_add n s) hs bloom ! i) k"
  by (induction hs arbitrary: bloom) (simp_all add: bloom_add_keeps)

lemma fold_bloom_has:
  "h \<in> set hs \<Longrightarrow> bloom_index n h < length bloom \<Longrightarrow> bit (bloom_bits s h) k \<Longrightarrow>
   bit (fold (bloom_add n s) hs bloom ! bloom_index n h) k"
proof (induction hs arbitrary: bloom)
  case (Cons g hs)
  show ?case
  proof (cases "h = g")
    case True
    then have "bit (bloom_add n s g bloom ! bloom_index n h) k"
      using Cons.prems by (simp add: bloom_add_def Let_def bit_simps)
    then show ?thesis using Cons.prems by (simp add: fold_bloom_keeps)
  next
    case False
    then show ?thesis using Cons by simp
  qed
qed simp

lemma bloom_filter_has:
  assumes "h \<in> set hs" "n \<noteq> 0"
  shows "bloom_filter n s hs ! bloom_index n h AND bloom_bits s h = bloom_bits s h"
  using fold_bloom_has [OF assms(1), of n "replicate (unat n) 0" s] bloom_index_less [OF assms(2), of h]
  by (intro bit_word_eqI) (auto simp: bloom_filter_def bit_simps)

section \<open>The buckets and the chains\<close>

abbreviation sym_hash :: "hashable_symbol \<Rightarrow> u32" where
  "sym_hash s \<equiv> gnu_hash (hs_name s)"

text \<open>The layout the caller ensures: symbols of one bucket are consecutive.\<close>

fun grouped :: "u32 list \<Rightarrow> bool" where
  "grouped [] = True"
| "grouped (b # bs) \<longleftrightarrow> b \<notin> set (dropWhile ((=) b) bs) \<and> grouped bs"

lemma find_dropWhile: "(\<And>x. P x \<Longrightarrow> \<not> Q x) \<Longrightarrow> List.find P (dropWhile Q xs) = List.find P xs"
  by (induction xs) auto

lemma find_append_case: "List.find P (xs @ ys) = (case List.find P xs of None \<Rightarrow> List.find P ys | Some x \<Rightarrow> Some x)"
  by (induction xs) auto

lemma find_None_map: "List.find (\<lambda>s. f s = q) xs = None \<longleftrightarrow> q \<notin> set (map f xs)"
  by (auto simp: find_None_iff)

lemma dropWhile_map_eq: "dropWhile P (map f xs) = map f (dropWhile (P \<circ> f) xs)"
  by (simp add: dropWhile_map)

lemma length_fill_buckets [simp]: "length (fill_buckets n cur ss bk) = length bk"
  by (induction n cur ss bk rule: fill_buckets.induct) (simp_all add: Let_def)

lemma fill_buckets_nth:
  assumes "grouped (map (\<lambda>s. sym_hash s mod n) ss)" "unat q < length bk" "length bk = unat n" "n \<noteq> 0"
  shows "fill_buckets n cur ss bk ! unat q =
     (case List.find (\<lambda>s. sym_hash s mod n = q) (dropWhile (\<lambda>s. Some (sym_hash s mod n) = cur) ss) of
        None \<Rightarrow> bk ! unat q | Some s \<Rightarrow> hs_dynsym_index s)"
  using assms
proof (induction n cur ss bk rule: fill_buckets.induct)
  case (2 n cur s ss bk)
  let ?c = "sym_hash s mod n"
  show ?case
  proof (cases "Some ?c = cur")
    case True
    then show ?thesis using 2 by (simp add: Let_def)
  next
    case False
    have c: "unat ?c < length bk"
      using 2(4,5) by (metis word_mod_less_divisor word_gt_0 word_less_nat_alt)
    have new: "fill_buckets n cur (s # ss) bk ! unat q =
      (case List.find (\<lambda>s. sym_hash s mod n = q) (dropWhile (\<lambda>s. Some (sym_hash s mod n) = Some ?c) ss) of
        None \<Rightarrow> bk[unat ?c := hs_dynsym_index s] ! unat q | Some s \<Rightarrow> hs_dynsym_index s)"
      using False 2 by (simp add: Let_def)
    show ?thesis
    proof (cases "?c = q")
      case True
      then have "List.find (\<lambda>s. sym_hash s mod n = q) (dropWhile (\<lambda>s. Some (sym_hash s mod n) = Some ?c) ss) = None"
        using 2(2) by (simp add: find_None_map dropWhile_map_eq comp_def eq_commute [of "sym_hash s mod n"])
      moreover have "bk[unat ?c := hs_dynsym_index s] ! unat q = hs_dynsym_index s" using c True by simp
      ultimately show ?thesis unfolding new using False True by simp
    next
      case neq: False
      have "List.find (\<lambda>s. sym_hash s mod n = q) (dropWhile (\<lambda>s. Some (sym_hash s mod n) = Some ?c) ss)
            = List.find (\<lambda>s. sym_hash s mod n = q) ss"
        using neq by (intro find_dropWhile) simp
      moreover have "unat ?c \<noteq> unat q" using neq by (simp add: word_unat_eq_iff)
      ultimately show ?thesis unfolding new using neq False by (simp split: option.split)
    qed
  qed
qed simp

lemma find_within_group:
  assumes "grouped (map f ss)" "\<And>s. P s \<Longrightarrow> f s = q"
  shows "List.find P ss = List.find P (takeWhile (\<lambda>s. f s = q) (dropWhile (\<lambda>s. f s \<noteq> q) ss))"
  using assms(1)
proof (induction ss)
  case (Cons s ss)
  show ?case
  proof (cases "f s = q")
    case True
    have "q \<notin> f ` set (dropWhile (\<lambda>s. f s = q) ss)"
      using Cons.prems True by (simp add: dropWhile_map comp_def eq_commute [of q])
    then have "List.find P (dropWhile (\<lambda>s. f s = q) ss) = None"
      using assms(2) by (auto simp: find_None_iff)
    moreover have "List.find P ss = List.find P (takeWhile (\<lambda>s. f s = q) ss @ dropWhile (\<lambda>s. f s = q) ss)"
      by simp
    ultimately have "List.find P ss = List.find P (takeWhile (\<lambda>s. f s = q) ss)"
      by (simp only: find_append_case) (simp split: option.splits)
    then show ?thesis using True by simp
  next
    case False
    then show ?thesis using Cons assms(2) by auto
  qed
qed simp

lemma word_low_bit:
  fixes w :: u32
  shows "(w AND - 2) OR 1 = w OR 1" "(w AND - 2) AND 1 = 0" "(w OR 1) AND 1 = 1" 
  unfolding not_one_eq [symmetric] by (intro bit_word_eqI; auto simp: bit_simps)+

lemma chain_words_nth:
  assumes "k < length hashes"
  shows "chain_words n hashes ! k OR 1 = hashes ! k OR 1"
    and "chain_words n hashes ! k AND 1 =
         (if Suc k < length hashes \<and> hashes ! Suc k mod n = hashes ! k mod n then 0 else 1)"
  using assms by (simp_all add: chain_words_def Let_def word_low_bit)

lemma length_chain_words [simp]: "length (chain_words n hashes) = length hashes"
  by (simp add: chain_words_def)

lemma walk_bucket_group:
  assumes chain: "\<And>k. k < length ss \<Longrightarrow> u32_at bs (chain_at + 4 * k) = Some (chain_words n (map sym_hash ss) ! k)"
    and idx: "\<And>k. k < length ss \<Longrightarrow> hs_dynsym_index (ss ! k) = base + word_of_nat k"
    and nm: "\<And>k. k < length ss \<Longrightarrow> names (base + word_of_nat k) = hs_name (ss ! k)"
    and k: "k < length ss" and q: "sym_hash (ss ! k) mod n = q" "gnu_hash name mod n = q"
  shows "walk_chain bs names name base chain_at k =
         map_option hs_dynsym_index (List.find (\<lambda>s. hs_name s = name) (takeWhile (\<lambda>s. sym_hash s mod n = q) (drop k ss)))"
  using k q(1)
proof (induction "length ss - k" arbitrary: k)
  case (Suc m)
  let ?c = "chain_words n (map sym_hash ss) ! k"
  have c: "?c OR 1 = sym_hash (ss ! k) OR 1"
    and e: "?c AND 1 = (if Suc k < length ss \<and> sym_hash (ss ! Suc k) mod n = q then 0 else 1)"
    using Suc.prems chain_words_nth [of k "map sym_hash ss" n] by (auto)
  have d: "drop k ss = ss ! k # drop (Suc k) ss" using Suc.prems by (simp add: Cons_nth_drop_Suc)
  have w: "walk_chain bs names name base chain_at k =
      (if hs_name (ss ! k) = name then Some (hs_dynsym_index (ss ! k))
       else if ?c AND 1 = 1 then None else walk_chain bs names name base chain_at (Suc k))"
    using Suc.prems by (subst walk_chain.simps) (auto simp: chain nm c idx)
  show ?case
  proof (cases "hs_name (ss ! k) = name")
    case True
    then show ?thesis using Suc.prems by (simp add: w d)
  next
    case False
    show ?thesis
    proof (cases "Suc k < length ss \<and> sym_hash (ss ! Suc k) mod n = q")
      case True
      then show ?thesis using Suc False by (simp add: w d e)
    next
      case fin: False
      then have "takeWhile (\<lambda>s. sym_hash s mod n = q) (drop (Suc k) ss) = []"
        by (cases "Suc k < length ss") (simp_all add: Cons_nth_drop_Suc [symmetric])
      moreover have "?c AND 1 = 1" using fin unfolding e by (rule if_not_P)
      ultimately show ?thesis using Suc.prems False by (simp add: w d)
    qed
  qed
qed simp

section \<open>The table answers every lookup\<close>

lemma find_first_in_bucket:
  assumes "List.find P xs = Some x"
  obtains k where "k < length xs" "xs ! k = x" "P x" "dropWhile (\<lambda>x. \<not> P x) xs = drop k xs"
proof -
  let ?k = "length (takeWhile (\<lambda>x. \<not> P x) xs)"
  have "xs = takeWhile (\<lambda>x. \<not> P x) xs @ dropWhile (\<lambda>x. \<not> P x) xs" by simp
  moreover have "dropWhile (\<lambda>x. \<not> P x) xs = drop ?k xs" by (simp add: dropWhile_eq_drop)
  moreover have "P x \<and> dropWhile (\<lambda>x. \<not> P x) xs \<noteq> [] \<and> hd (dropWhile (\<lambda>x. \<not> P x) xs) = x"
    using assms by (induction xs) (auto split: if_splits)
  ultimately show thesis
    by (intro that [of ?k]) (auto simp: hd_drop_conv_nth not_le)
qed

text \<open>C18: the section that \<open>build_gnu_hash\<close> produces answers every lookup a dynamic linker makes: for
  symbols in consecutive dynsym slots from a non-zero base, with the symbols of one bucket
  consecutive, the lookup of a name returns the index of the first symbol of that name, and nothing
  for a name that no symbol has.\<close>

theorem gnu_hash_lookup:
  assumes build: "build_gnu_hash symbols base n bloom_size bloom_shift = Some sec"
    and slots: "map hs_dynsym_index symbols = map (\<lambda>k. base + word_of_nat k) [0..<length symbols]"
    and base: "base \<noteq> 0" "unat base + length symbols < 2 ^ 32"
    and groups: "grouped (map (\<lambda>s. gnu_hash (hs_name s) mod n) symbols)"
    and dynstr: "map names (map hs_dynsym_index symbols) = map hs_name symbols"
  shows "gnu_lookup sec names name = map_option hs_dynsym_index (List.find (\<lambda>s. hs_name s = name) symbols)"
proof -
  let ?hs = "map sym_hash symbols"
  let ?bloom = "bloom_filter bloom_size bloom_shift ?hs"
  let ?buckets = "fill_buckets n None symbols (replicate (unat n) 0)"
  let ?chain = "chain_words n ?hs"
  let ?head = "le32 n @ le32 base @ le32 bloom_size @ le32 bloom_shift"
  let ?h = "gnu_hash name"
  have n: "n \<noteq> 0" "bloom_size \<noteq> 0"
    and sec: "sec = ?head @ concat (map le64 ?bloom) @ concat (map le32 ?buckets) @ concat (map le32 ?chain)"
    using build by (auto simp: build_gnu_hash_def Let_def split: if_splits)
  have lens [simp]: "length ?bloom = unat bloom_size" "length ?buckets = unat n"
    by (simp_all add: bloom_filter_def)
  have idx: "k < length symbols \<Longrightarrow> hs_dynsym_index (symbols ! k) = base + word_of_nat k" for k
    using arg_cong [OF slots, of "\<lambda>xs. xs ! k"] by simp
  have nm: "k < length symbols \<Longrightarrow> names (base + word_of_nat k) = hs_name (symbols ! k)" for k
    using arg_cong [OF dynstr, of "\<lambda>xs. xs ! k"] idx by simp
  have header: "u32_at sec 0 = Some n" "u32_at sec 4 = Some base" "u32_at sec 8 = Some bloom_size"
      "u32_at sec 12 = Some bloom_shift"
    unfolding sec
    using u32.read_put [of "[]" n] u32.read_put [of "le32 n" base] u32.read_put [of "le32 n @ le32 base" bloom_size]
      u32.read_put [of "le32 n @ le32 base @ le32 bloom_size" bloom_shift] by simp_all
  have bloom_word: "u64_at sec (16 + 8 * bloom_index bloom_size ?h) = Some (?bloom ! bloom_index bloom_size ?h)"
    unfolding sec using bloom_index_less [OF n(2)] u64.read_array [of "bloom_index bloom_size ?h" ?bloom _ ?head] by simp
  have bucket_less: "unat (?h mod n) < unat n"
    using n(1) by (metis word_mod_less_divisor word_gt_0 word_less_nat_alt)
  have bucket: "u32_at sec (16 + 8 * unat bloom_size + 4 * unat (?h mod n)) = Some (?buckets ! unat (?h mod n))"
    unfolding sec
    using bucket_less u32.read_array [of "unat (?h mod n)" ?buckets _ "?head @ concat (map le64 ?bloom)"]
    by (simp add: u64.length_array)
  have chain: "u32_at sec (16 + 8 * unat bloom_size + 4 * unat n + 4 * k) = Some (?chain ! k)" if "k < length symbols" for k
    unfolding sec
    using that u32.read_array_end [of k ?chain "16 + 8 * unat bloom_size + 4 * unat n + 4 * k" "?head @ concat (map le64 ?bloom) @ concat (map le32 ?buckets)"]
    by (simp add: u64.length_array u32.length_array)
  have first: "?buckets ! unat (?h mod n) =
      (case List.find (\<lambda>s. sym_hash s mod n = ?h mod n) symbols of None \<Rightarrow> 0 | Some s \<Rightarrow> hs_dynsym_index s)"
    using fill_buckets_nth [OF groups, of "?h mod n" "replicate (unat n) 0" None] bucket_less n
    by (simp split: option.split)
  have group: "List.find (\<lambda>s. hs_name s = name) symbols =
      List.find (\<lambda>s. hs_name s = name)
        (takeWhile (\<lambda>s. sym_hash s mod n = ?h mod n) (dropWhile (\<lambda>s. sym_hash s mod n \<noteq> ?h mod n) symbols))"
    by (rule find_within_group [OF groups]) simp
  have passes: "List.find (\<lambda>s. hs_name s = name) symbols = None"
    if "?bloom ! bloom_index bloom_size ?h AND bloom_bits bloom_shift ?h \<noteq> bloom_bits bloom_shift ?h"
    using that bloom_filter_has [OF _ n(2), of ?h ?hs bloom_shift] by (auto simp: find_None_iff)
  show ?thesis
  proof (cases "List.find (\<lambda>s. sym_hash s mod n = ?h mod n) symbols")
    case None
    then have "List.find (\<lambda>s. hs_name s = name) symbols = None" by (auto simp: find_None_iff)
    then show ?thesis using None by (simp add: gnu_lookup_def header bloom_word bucket first Let_def)
  next
    case (Some s)
    then obtain k where k: "k < length symbols" "symbols ! k = s" "sym_hash s mod n = ?h mod n"
        "dropWhile (\<lambda>s. sym_hash s mod n \<noteq> ?h mod n) symbols = drop k symbols"
      by (rule find_first_in_bucket)
    have walk: "walk_chain sec names name base (16 + 8 * unat bloom_size + 4 * unat n) k =
        map_option hs_dynsym_index (List.find (\<lambda>s. hs_name s = name) symbols)"
      unfolding group k(4) by (rule walk_bucket_group [where n = n]) (use k chain idx nm in auto)
    have small: "k < 2 ^ 32" "unat (base + word_of_nat k) = unat base + k"
      using base(2) k(1) by (simp_all add: unat_word_ariths take_bit_nat_eq_self unat_of_nat)
    have nz: "hs_dynsym_index s \<noteq> 0" "unat (hs_dynsym_index s - base) = k"
      using idx [OF k(1)] small base(1) k(2) by (auto simp: unat_of_nat take_bit_nat_eq_self simp flip: unat_eq_0)
    show ?thesis
      using passes walk nz by (auto simp: gnu_lookup_def header bloom_word bucket first Some Let_def)
  qed
qed

definition two_symbols :: "hashable_symbol list" where
  "two_symbols = [\<lparr>hs_dynsym_index = 4, hs_name = [97]\<rparr>, \<lparr>hs_dynsym_index = 5, hs_name = [98, 99]\<rparr>]"

lemma gnu_hash_lookup_witness:
  "\<exists>sec. build_gnu_hash two_symbols 4 2 1 6 = Some sec \<and>
     (\<forall>name. gnu_lookup sec (\<lambda>i. if i = 4 then [97] else [98, 99]) name =
        (if name = [97] then Some 4 else if name = [98, 99] then Some 5 else None))"
proof -
  let ?names = "\<lambda>i :: u32. if i = 4 then [97] else [98, 99] :: bytes"
  have "build_gnu_hash two_symbols 4 2 1 6 \<noteq> None"
    by (simp add: build_gnu_hash_def is_power_of_two_def Let_def)
  then obtain sec where sec: "build_gnu_hash two_symbols 4 2 1 6 = Some sec" by blast
  have "gnu_lookup sec ?names name = map_option hs_dynsym_index (List.find (\<lambda>s. hs_name s = name) two_symbols)" for name
    by (rule gnu_hash_lookup [OF sec]) (simp_all add: two_symbols_def gnu_hash_def)
  then show ?thesis using sec by (auto simp: two_symbols_def)
qed

end
