(* ===== verification/Uleb.thy ===== *)
theory Uleb
  imports Container_Types
begin

text \<open>
  What the container codecs share (\<open>src/src/container/\<close>): the writer's error type (\<open>writer.rs\<close>), the
  ULEB128 integers and C strings of the Mach-O link-edit tables (\<open>macho_export_trie.rs\<close>), and the
  parts of Rust's \<open>str\<close> they use: UTF-8 validation and slicing, which panics (\<open>None\<close>) inside a
  character. A cursor that is advanced through a buffer is returned beside the value read.
\<close>

section \<open>Text\<close>

fun decimal :: "nat \<Rightarrow> string" where
  "decimal n = (if n < 10 then [char_of (48 + n)] else decimal (n div 10) @ [char_of (48 + n mod 10)])"

declare decimal.simps [simp del]

definition continuation :: "u8 \<Rightarrow> bool" where
  "continuation b \<longleftrightarrow> 0x80 \<le> b \<and> b \<le> 0xBF"

text \<open>\<open>str::from_utf8\<close>: the well-formed sequences of the Unicode standard.\<close>

fun valid_utf8 :: "bytes \<Rightarrow> bool" where
  "valid_utf8 [] = True"
| "valid_utf8 (a # bs) =
     (if a \<le> 0x7F then valid_utf8 bs
      else if 0xC2 \<le> a \<and> a \<le> 0xDF then
        (case bs of b # cs \<Rightarrow> continuation b \<and> valid_utf8 cs | _ \<Rightarrow> False)
      else if 0xE0 \<le> a \<and> a \<le> 0xEF then
        (case bs of b # c # cs \<Rightarrow>
           continuation b \<and> (a = 0xE0 \<longrightarrow> 0xA0 \<le> b) \<and> (a = 0xED \<longrightarrow> b \<le> 0x9F) \<and> continuation c \<and> valid_utf8 cs
         | _ \<Rightarrow> False)
      else if 0xF0 \<le> a \<and> a \<le> 0xF4 then
        (case bs of b # c # d # cs \<Rightarrow>
           continuation b \<and> (a = 0xF0 \<longrightarrow> 0x90 \<le> b) \<and> (a = 0xF4 \<longrightarrow> b \<le> 0x8F) \<and>
           continuation c \<and> continuation d \<and> valid_utf8 cs
         | _ \<Rightarrow> False)
      else False)"

definition is_char_boundary :: "bytes \<Rightarrow> nat \<Rightarrow> bool" where
  "is_char_boundary s i \<longleftrightarrow> i = 0 \<or> i = length s \<or> i < length s \<and> \<not> continuation (s ! i)"

definition str_to :: "bytes \<Rightarrow> nat \<Rightarrow> bytes option" where
  "str_to s i = (if is_char_boundary s i then Some (take i s) else None)"

definition str_from :: "bytes \<Rightarrow> nat \<Rightarrow> bytes option" where
  "str_from s i = (if is_char_boundary s i then Some (drop i s) else None)"

definition ascii :: "bytes \<Rightarrow> bool" where
  "ascii s \<longleftrightarrow> (\<forall>b\<in>set s. 0 < b \<and> b < 0x80)"

lemma ascii_append [simp]: "ascii (s @ t) \<longleftrightarrow> ascii s \<and> ascii t"
  by (auto simp: ascii_def)

lemma ascii_take [simp]: "ascii s \<Longrightarrow> ascii (take n s)"
  by (auto simp: ascii_def dest: in_set_takeD)

lemma ascii_drop [simp]: "ascii s \<Longrightarrow> ascii (drop n s)"
  by (auto simp: ascii_def dest: in_set_dropD)

lemma ascii_valid [simp]: "ascii s \<Longrightarrow> valid_utf8 s"
proof (induction s)
  case (Cons a s)
  have "a \<le> 0x7F" using Cons.prems inc_le [of a "0x80"] by (simp add: ascii_def word_le_nat_alt word_less_nat_alt)
  then show ?case using Cons by (simp add: ascii_def)
qed simp

lemma ascii_boundary: "ascii s \<Longrightarrow> i \<le> length s \<Longrightarrow> is_char_boundary s i"
  by (auto simp: is_char_boundary_def ascii_def continuation_def not_le)

lemma ascii_slices [simp]:
  "ascii s \<Longrightarrow> i \<le> length s \<Longrightarrow> str_from s i = Some (drop i s)"
  "ascii s \<Longrightarrow> i \<le> length s \<Longrightarrow> str_to s i = Some (take i s)"
  by (simp_all add: str_from_def str_to_def ascii_boundary)

section \<open>Errors\<close>

datatype container_write_error =
    CW_UnsupportedArchitecture
  | CW_UnsupportedKind container_kind
  | CW_UnsupportedRelocation binary_format relocation_kind
  | CW_DanglingSymbol nat
  | CW_ObjectWrite string
  | CW_ElfImageMissing
  | CW_PeImageMissing
  | CW_ElfTextGrewBeyondExtent string u64 u64
  | CW_PtPhdrNotSupported

section \<open>ULEB128\<close>

function read_uleb_loop :: "bytes \<Rightarrow> nat \<Rightarrow> nat \<Rightarrow> u64 \<Rightarrow> container_write_error + u64 \<times> nat" where
  "read_uleb_loop bs cursor shift result =
     (if length bs \<le> cursor then Err (CW_ObjectWrite ''ULEB128: unexpected end of input'')
      else if 64 \<le> shift then Err (CW_ObjectWrite ''ULEB128: shift overflow'')
      else
        let b = bs ! cursor; result = result OR push_bit shift (ucast (b AND 0x7F))
        in if b AND 0x80 = 0 then Ok (result, Suc cursor)
           else read_uleb_loop bs (Suc cursor) (shift + 7) result)"
  by pat_completeness auto
termination
  by (relation "measure (\<lambda>(bs, cursor, _). length bs - cursor)") auto

declare read_uleb_loop.simps [simp del]

definition read_uleb128 :: "bytes \<Rightarrow> nat \<Rightarrow> container_write_error + u64 \<times> nat" where
  "read_uleb128 bs cursor = read_uleb_loop bs cursor 0 0"

lemma drop_bit_7_less: "drop_bit 7 w \<noteq> 0 \<Longrightarrow> unat (drop_bit 7 (w :: u64)) < unat w"
  by (cases "w = 0") (simp_all add: drop_bit_eq_div unat_div unat_gt_0)

function write_uleb128 :: "bytes \<Rightarrow> u64 \<Rightarrow> bytes" where
  "write_uleb128 out_bytes value =
     (let byte = ucast (value AND 0x7F) in
      let value = drop_bit 7 value in
      if value \<noteq> 0 then write_uleb128 (out_bytes @ [byte OR 0x80]) value else out_bytes @ [byte])"
  by pat_completeness auto
termination
  by (relation "measure (\<lambda>(_, value). unat value)") (auto simp: drop_bit_7_less)

declare write_uleb128.simps [simp del]

function uleb128_size_loop :: "u64 \<Rightarrow> nat \<Rightarrow> nat" where
  "uleb128_size_loop value n = (if 0x80 \<le> value then uleb128_size_loop (drop_bit 7 value) (n + 1) else n)"
  by pat_completeness auto
termination
  by (relation "measure (\<lambda>(value, _). unat value)") (auto simp: drop_bit_eq_div unat_div word_le_nat_alt)

declare uleb128_size_loop.simps [simp del]

definition uleb128_size :: "u64 \<Rightarrow> nat" where
  "uleb128_size value = uleb128_size_loop value 1"

abbreviation uleb :: "u64 \<Rightarrow> bytes" where "uleb \<equiv> write_uleb128 []"

lemma write_uleb128_append: "write_uleb128 bs v = bs @ uleb v"
proof (induction v arbitrary: bs rule: measure_induct_rule [of unat])
  case (less v)
  show ?case
  proof (cases "drop_bit 7 v = 0")
    case True
    then have "write_uleb128 bs v = bs @ [ucast (v AND 0x7F)]" for bs
      by (subst write_uleb128.simps) simp
    then show ?thesis by simp
  next
    case False
    let ?b = "ucast (v AND 0x7F) OR 0x80"
    have step: "write_uleb128 bs v = write_uleb128 (bs @ [?b]) (drop_bit 7 v)" for bs
      using False by (subst write_uleb128.simps) (simp add: Let_def)
    have ih: "write_uleb128 bs (drop_bit 7 v) = bs @ uleb (drop_bit 7 v)" for bs
      by (rule less.IH) (rule drop_bit_7_less [OF False])
    show ?thesis
      using step [of bs] step [of "[]"] ih [of "bs @ [?b]"] ih [of "[?b]"] by simp
  qed
qed

lemma uleb_simps:
  "uleb v = (if drop_bit 7 v = 0 then [ucast (v AND 0x7F)] else (ucast (v AND 0x7F) OR 0x80) # uleb (drop_bit 7 v))"
  by (subst write_uleb128.simps) (simp add: Let_def write_uleb128_append [of "[_]"])

lemma uleb_not_Nil [simp]: "uleb v \<noteq> []"
  by (subst uleb_simps) simp

lemma bit_128: "bit (0x80 :: int) n \<longleftrightarrow> n = 7"
proof -
  have "(0x80 :: int) = push_bit 7 1" by simp
  then show ?thesis by (simp only: bit_push_bit_iff bit_1_iff) auto
qed

lemma uleb_byte:
  fixes v :: u64
  shows "(ucast (v AND 0x7F) :: u8) AND 0x80 = 0" "((ucast (v AND 0x7F) :: u8) OR 0x80) AND 0x80 \<noteq> 0"
    "ucast ((ucast (v AND 0x7F) :: u8) AND 0x7F) = v AND 0x7F"
    "ucast (((ucast (v AND 0x7F) :: u8) OR 0x80) AND 0x7F) = v AND 0x7F"
proof -
  have m: "(0x7F :: u64) = mask 7" "(0x7F :: u8) = mask 7"
    by (simp_all add: mask_numeral)
  show "(ucast (v AND 0x7F) :: u8) AND 0x80 = 0" by (simp add: word8_eq_bits bit_simps)
  show "((ucast (v AND 0x7F) :: u8) OR 0x80) AND 0x80 \<noteq> 0"
    by (simp add: word8_eq_bits bit_simps)
  show "ucast ((ucast (v AND 0x7F) :: u8) AND 0x7F) = v AND 0x7F"
    "ucast (((ucast (v AND 0x7F) :: u8) OR 0x80) AND 0x7F) = v AND 0x7F"
    unfolding m by (intro bit_word_eqI; auto simp: bit_simps bit_128)+
qed

lemma length_uleb: "length (uleb v) = uleb128_size v"
proof -
  have "uleb128_size_loop v n + 1 = n + length (uleb v)" for n
  proof (induction v arbitrary: n rule: measure_induct_rule [of unat])
    case (less v)
    have "0x80 \<le> v \<longleftrightarrow> drop_bit 7 v \<noteq> 0"
      by (simp add: word_le_nat_alt word_unat_eq_iff drop_bit_eq_div unat_div div_eq_0_iff not_less)
    then show ?case
      using less [of "drop_bit 7 v" "n + 1"] drop_bit_7_less [of v]
      by (subst uleb_simps, subst uleb128_size_loop.simps) simp
  qed
  from this [of 1] show ?thesis by (simp add: uleb128_size_def)
qed

lemma push_join: "push_bit s (v AND 0x7F) OR push_bit (s + 7) (drop_bit 7 v) = push_bit s (v :: u64)"
proof -
  have m: "(0x7F :: u64) = mask 7" by (simp add: mask_numeral)
  show ?thesis
  proof (rule bit_word_eqI)
    fix n assume "n < LENGTH(64)"
    show "bit (push_bit s (v AND 0x7F) OR push_bit (s + 7) (drop_bit 7 v)) n = bit (push_bit s v) n"
    proof (cases "n < s + 7")
      case True
      then show ?thesis unfolding m by (auto simp: bit_simps)
    next
      case False
      then obtain k where "n = s + 7 + k" by (metis le_Suc_ex not_less)
      then show ?thesis unfolding m by (simp add: bit_simps)
    qed
  qed
qed

lemma read_uleb_loop_uleb:
  assumes "s < 64" "unat v < 2 ^ (64 - s)"
  shows "read_uleb_loop (before @ uleb v @ after) (length before) s r =
         Ok (r OR push_bit s v, length before + length (uleb v))"
  using assms
proof (induction v arbitrary: before s r rule: measure_induct_rule [of unat])
  case (less v)
  show ?case
  proof (cases "drop_bit 7 v = 0")
    case True
    then have v: "v AND 0x7F = v" using push_join [of 0 v] by simp
    then show ?thesis using True less.prems uleb_byte [of v]
      by (subst read_uleb_loop.simps) (simp add: uleb_simps [of v] Let_def)
  next
    case False
    let ?b = "ucast (v AND 0x7F) OR 0x80 :: u8"
    have e: "uleb v = ?b # uleb (drop_bit 7 v)" using False by (subst uleb_simps) simp
    have n: "unat (drop_bit 7 v) = unat v div 2 ^ 7" by (simp add: drop_bit_eq_div unat_div)
    have big: "2 ^ 7 \<le> unat v" using False by (simp add: word_unat_eq_iff n div_eq_0_iff)
    have "s + 7 < 64"
    proof (rule ccontr)
      assume "\<not> ?thesis"
      then have "(2::nat) ^ (64 - s) \<le> 2 ^ 7" by (intro power_increasing) auto
      then show False using big less.prems(2) by linarith
    qed
    moreover have "unat (drop_bit 7 v) < 2 ^ (64 - (s + 7))"
    proof -
      have "(2::nat) ^ (64 - s) = 2 ^ (64 - (s + 7)) * 2 ^ 7"
        using \<open>s + 7 < 64\<close> by (subst power_add [symmetric]) simp
      then show ?thesis unfolding n using less.prems(2) by (simp only: less_mult_imp_div_less)
    qed
    ultimately have ih: "read_uleb_loop ((before @ [?b]) @ uleb (drop_bit 7 v) @ after) (length (before @ [?b])) (s + 7)
          (r OR push_bit s (v AND 0x7F)) =
        Ok ((r OR push_bit s (v AND 0x7F)) OR push_bit (s + 7) (drop_bit 7 v),
            length (before @ [?b]) + length (uleb (drop_bit 7 v)))"
      by (intro less.IH drop_bit_7_less False)
    show ?thesis
      using ih less.prems uleb_byte [of v] push_join [of s v]
      by (subst read_uleb_loop.simps) (simp add: e Let_def or.assoc)
  qed
qed

lemma read_uleb:
  "read_uleb128 (before @ uleb v @ after) (length before) = Ok (v, length before + uleb128_size v)"
  using read_uleb_loop_uleb [of 0 v before after 0] unsigned_less [of v, where ?'a = nat]
  by (simp add: read_uleb128_def length_uleb)

lemma read_uleb_at:
  assumes "drop c bs = uleb v @ after" "c \<le> length bs"
  shows "read_uleb128 bs c = Ok (v, c + uleb128_size v)"
  using read_uleb [of "take c bs" v after] assms by (metis append_take_drop_id length_take min.absorb2)

section \<open>C strings\<close>

function cstring_end :: "bytes \<Rightarrow> nat \<Rightarrow> nat" where
  "cstring_end bs cursor = (if cursor < length bs \<and> bs ! cursor \<noteq> 0 then cstring_end bs (Suc cursor) else cursor)"
  by pat_completeness auto
termination
  by (relation "measure (\<lambda>(bs, cursor). length bs - cursor)") auto

declare cstring_end.simps [simp del]

definition read_cstring :: "bytes \<Rightarrow> nat \<Rightarrow> container_write_error + bytes \<times> nat" where
  "read_cstring bs start =
     (let cursor = cstring_end bs start in
      if length bs \<le> cursor then Err (CW_ObjectWrite ''C-string: missing NUL terminator'')
      else
        let s = take (cursor - start) (drop start bs) in
        if valid_utf8 s then Ok (s, Suc cursor) else Err (CW_ObjectWrite ''C-string: non-UTF8 bytes''))"

lemma cstring_end_at: "0 \<notin> set s \<Longrightarrow> cstring_end (before @ s @ 0 # after) (length before) = length before + length s"
proof (induction s arbitrary: before)
  case (Cons b s)
  then show ?case using Cons.IH [of "before @ [b]"] by (subst cstring_end.simps) auto
qed (simp add: cstring_end.simps)

lemma read_cstring_put:
  assumes "0 \<notin> set s" "valid_utf8 s"
  shows "read_cstring (before @ s @ 0 # after) (length before) = Ok (s, length before + length s + 1)"
  using assms by (simp add: read_cstring_def cstring_end_at Let_def)

lemma read_cstring_at:
  assumes "drop c bs = s @ 0 # after" "c \<le> length bs" "0 \<notin> set s" "valid_utf8 s"
  shows "read_cstring bs c = Ok (s, c + length s + 1)"
  using read_cstring_put [OF assms(3,4), of "take c bs" after] assms(1,2)
  by (metis append_take_drop_id length_take min.absorb2)

end
