(* ===== verification/Export_Trie.thy ===== *)
theory Export_Trie
  imports Uleb "HOL-Library.List_Lexorder" "HOL-Library.Multiset"
begin

text \<open>
  The Mach-O export trie (\<open>src/src/container/macho_export_trie.rs\<close>): the radix tree of exported names,
  built in a vector of nodes that refer to each other by index, laid out by iterating the node
  offsets, encoded, and parsed back by a depth-first walk. Names are the bytes of a \<open>str\<close>.

  A panic of the builder is \<open>None\<close>. The parser's walk follows offsets found in the file and need not
  end; it is a partial function whose \<open>None\<close> is a walk without end. The walk is proved to end on what
  the builder produces (\<open>export_trie_round_trip\<close>).
\<close>

section \<open>Parsing\<close>

record macho_export =
  mex_name :: bytes
  mex_flags :: u64
  mex_address_offset :: u64

definition terminal_address :: "bytes \<Rightarrow> nat \<Rightarrow> u64 \<Rightarrow> container_write_error + u64" where
  "terminal_address bs cursor flags =
     (if flags AND 0x08 \<noteq> 0 then
        and_then (read_uleb128 bs cursor) (\<lambda>(ordinal, cursor).
        and_then (read_cstring bs cursor) (\<lambda>_. Ok 0))
      else if flags AND 0x10 \<noteq> 0 then
        and_then (read_uleb128 bs cursor) (\<lambda>(stub, cursor).
        and_then (read_uleb128 bs cursor) (\<lambda>_. Ok stub))
      else map_sum id fst (read_uleb128 bs cursor))"

fun read_children :: "bytes \<Rightarrow> nat \<Rightarrow> nat \<Rightarrow> container_write_error + (bytes \<times> nat) list" where
  "read_children bs 0 cursor = Ok []"
| "read_children bs (Suc n) cursor =
     and_then (read_cstring bs cursor) (\<lambda>(edge, cursor).
     and_then (read_uleb128 bs cursor) (\<lambda>(child_off, cursor).
     and_then (read_children bs n cursor) (\<lambda>children. Ok ((edge, unat child_off) # children))))"

definition terminal_export :: "bytes \<Rightarrow> nat \<Rightarrow> u64 \<Rightarrow> bytes \<Rightarrow> container_write_error + macho_export list" where
  "terminal_export bs cursor terminal_size prefix =
     (if terminal_size = 0 then Ok []
      else
        and_then (read_uleb128 bs cursor) (\<lambda>(flags, cursor).
        and_then (terminal_address bs cursor flags) (\<lambda>address_offset.
          Ok [\<lparr>mex_name = prefix, mex_flags = flags, mex_address_offset = address_offset\<rparr>])))"

definition parse_node ::
    "bytes \<Rightarrow> nat \<Rightarrow> bytes \<Rightarrow> container_write_error + macho_export list \<times> (nat \<times> bytes) list" where
  "parse_node bs node_off prefix =
     (if length bs \<le> node_off then
        Err (CW_ObjectWrite (''export trie: node offset '' @ decimal node_off @ '' past trie size '' @ decimal (length bs)))
      else
        and_then (read_uleb128 bs node_off) (\<lambda>(terminal_size, cursor).
          let after_terminal = (cursor + unat terminal_size) mod 2 ^ 64 in
          if length bs < after_terminal then
            Err (CW_ObjectWrite ''export trie: terminal_size extends past trie end'')
          else
            and_then (terminal_export bs cursor terminal_size prefix) (\<lambda>found.
              if length bs \<le> after_terminal then
                Err (CW_ObjectWrite ''export trie: missing child_count after terminal'')
              else
                and_then (read_children bs (unat (bs ! after_terminal)) (Suc after_terminal)) (\<lambda>children.
                  Ok (found, map (\<lambda>(edge, child_off). (child_off, prefix @ edge)) children)))))"

partial_function (option) parse_loop ::
    "bytes \<Rightarrow> (nat \<times> bytes) list \<Rightarrow> macho_export list \<Rightarrow> (container_write_error + macho_export list) option" where
  "parse_loop bs stack exports =
     (case stack of
        [] \<Rightarrow> Some (Ok exports)
      | (node_off, prefix) # rest \<Rightarrow>
          (case parse_node bs node_off prefix of
             Inl e \<Rightarrow> Some (Err e)
           | Inr (found, children) \<Rightarrow> parse_loop bs (children @ rest) (exports @ found)))"

definition parse_exports :: "bytes \<Rightarrow> (container_write_error + macho_export list) option" where
  "parse_exports bs = (if bs = [] then Some (Ok []) else parse_loop bs [(0, [])] [])"

section \<open>Building the tree\<close>

record terminal_info =
  ti_flags :: u64
  ti_address_offset :: u64

record trie_node =
  tn_terminal :: "terminal_info option"
  tn_children :: "(bytes \<times> nat) list"

definition terminal_of :: "macho_export \<Rightarrow> terminal_info" where
  "terminal_of export = \<lparr>ti_flags = mex_flags export, ti_address_offset = mex_address_offset export\<rparr>"

definition common_prefix_len :: "bytes \<Rightarrow> bytes \<Rightarrow> nat" where
  "common_prefix_len a b = length (takeWhile (\<lambda>(x, y). x = y) (zip a b))"

fun shared_edge :: "bytes \<Rightarrow> (bytes \<times> nat) list \<Rightarrow> nat \<Rightarrow> (nat \<times> bytes \<times> nat) option" where
  "shared_edge name [] ci = None"
| "shared_edge name ((edge, child) # children) ci =
     (if common_prefix_len edge name = 0 then shared_edge name children (Suc ci) else Some (ci, edge, child))"

lemma shared_edge_common: "shared_edge name children ci = Some (k, edge, child) \<Longrightarrow> 0 < common_prefix_len edge name"
  by (induction name children ci rule: shared_edge.induct) (auto split: if_splits)

lemma str_from_shorter: "str_from s i = Some rest \<Longrightarrow> 0 < i \<Longrightarrow> s \<noteq> [] \<Longrightarrow> length rest < length s"
  by (auto simp: str_from_def split: if_splits)

function trie_insert :: "trie_node list \<Rightarrow> nat \<Rightarrow> bytes \<Rightarrow> macho_export \<Rightarrow> trie_node list option" where
  "trie_insert nodes node_idx name export =
     (if length nodes \<le> node_idx then None
      else
        let node = nodes ! node_idx in
        if name = [] then Some (nodes[node_idx := node\<lparr>tn_terminal := Some (terminal_of export)\<rparr>])
        else
          (case shared_edge name (tn_children node) 0 of
             None \<Rightarrow>
               let leaf = length nodes;
                   nodes = nodes @ [\<lparr>tn_terminal = Some (terminal_of export), tn_children = []\<rparr>]
               in Some (nodes[node_idx := node\<lparr>tn_children := tn_children node @ [(name, leaf)]\<rparr>])
           | Some (ci, edge, child_idx) \<Rightarrow>
               let common = common_prefix_len edge name in
               if common = length edge then
                 (case str_from name common of
                    None \<Rightarrow> None
                  | Some rest \<Rightarrow> trie_insert nodes child_idx rest export)
               else
                 (case (str_to edge common, str_from edge common, str_from name common) of
                    (Some edge_head, Some edge_tail, Some rest) \<Rightarrow>
                      let intermediate = length nodes;
                          nodes = nodes @ [\<lparr>tn_terminal = None, tn_children = [(edge_tail, child_idx)]\<rparr>];
                          nodes = nodes[node_idx := node\<lparr>tn_children := (tn_children node)[ci := (edge_head, intermediate)]\<rparr>]
                      in trie_insert nodes intermediate rest export
                  | _ \<Rightarrow> None)))"
  by pat_completeness auto
termination
  by (relation "measure (\<lambda>(_, _, name, _). length name)") (auto dest: shared_edge_common intro: str_from_shorter [OF sym] str_from_shorter)

declare trie_insert.simps [simp del]

fun insert_all :: "trie_node list \<Rightarrow> macho_export list \<Rightarrow> trie_node list option" where
  "insert_all nodes [] = Some nodes"
| "insert_all nodes (e # es) = Option.bind (trie_insert nodes 0 (mex_name e) e) (\<lambda>nodes. insert_all nodes es)"

section \<open>Laying it out\<close>

definition encode_terminal_bytes :: "trie_node \<Rightarrow> bytes" where
  "encode_terminal_bytes node =
     (case tn_terminal node of
        None \<Rightarrow> []
      | Some terminal \<Rightarrow> write_uleb128 (write_uleb128 [] (ti_flags terminal)) (ti_address_offset terminal))"

definition encoded_node_size :: "trie_node \<Rightarrow> nat list \<Rightarrow> nat" where
  "encoded_node_size node offsets =
     (let terminal_bytes = encode_terminal_bytes node in
      uleb128_size (word_of_nat (length terminal_bytes)) + length terminal_bytes + 1 +
      sum_list (map (\<lambda>(edge, child_idx). length edge + 1 + uleb128_size (word_of_nat (offsets ! child_idx)))
                 (tn_children node)))"

definition encode_children :: "(bytes \<times> nat) list \<Rightarrow> nat list \<Rightarrow> bytes" where
  "encode_children children offsets =
     concat (map (\<lambda>(edge, child_idx). edge @ 0 # uleb (word_of_nat (offsets ! child_idx))) children)"

definition encode_node :: "trie_node \<Rightarrow> nat list \<Rightarrow> bytes" where
  "encode_node node offsets =
     (let terminal_bytes = encode_terminal_bytes node in
      uleb (word_of_nat (length terminal_bytes)) @ terminal_bytes @
      word_of_nat (length (tn_children node)) # encode_children (tn_children node) offsets)"

fun offsets_from :: "nat \<Rightarrow> trie_node list \<Rightarrow> nat list \<Rightarrow> nat list" where
  "offsets_from cursor [] offsets = []"
| "offsets_from cursor (node # nodes) offsets =
     cursor # offsets_from (cursor + encoded_node_size node offsets) nodes offsets"

fun settle :: "nat \<Rightarrow> trie_node list \<Rightarrow> nat list \<Rightarrow> nat list" where
  "settle 0 nodes offsets = offsets"
| "settle (Suc rounds) nodes offsets =
     (let new_offsets = offsets_from 0 nodes offsets
      in if new_offsets = offsets then offsets else settle rounds nodes new_offsets)"

definition trie_tree :: "macho_export list \<Rightarrow> trie_node list option" where
  "trie_tree exports =
     insert_all [\<lparr>tn_terminal = None, tn_children = []\<rparr>] (sort_key mex_name exports)"

definition trie_offsets :: "trie_node list \<Rightarrow> nat list" where
  "trie_offsets nodes = settle 16 nodes (replicate (length nodes) 0)"

definition build_exports :: "macho_export list \<Rightarrow> bytes option" where
  "build_exports exports =
     (if exports = [] then Some []
      else map_option (\<lambda>nodes. concat (map (\<lambda>node. encode_node node (trie_offsets nodes)) nodes)) (trie_tree exports))"

section \<open>The tree as a tree\<close>

text \<open>The vector of nodes seen as a tree whose nodes carry their index.\<close>

datatype trie = Trie (tlabel: nat) (tterm: "terminal_info option") (tkids: "(bytes \<times> trie) list")

lemma trie_kid_size [termination_simp]: "(e, c) \<in> set kids \<Longrightarrow> size c < Suc (size_list (\<lambda>(e, c). f e + size c) kids)"
  by (induction kids) auto

fun labels :: "trie \<Rightarrow> nat list" where
  "labels (Trie i trm kids) = i # concat (map (\<lambda>(e, c). labels c) kids)"

definition node_of :: "trie \<Rightarrow> trie_node" where
  "node_of t = \<lparr>tn_terminal = tterm t, tn_children = map (\<lambda>(e, c). (e, tlabel c)) (tkids t)\<rparr>"

fun stored :: "trie_node list \<Rightarrow> trie \<Rightarrow> bool" where
  "stored nodes (Trie i trm kids) \<longleftrightarrow>
     i < length nodes \<and> nodes ! i = node_of (Trie i trm kids) \<and> (\<forall>(e, c) \<in> set kids. stored nodes c)"

fun entries :: "trie \<Rightarrow> (bytes \<times> terminal_info) list" where
  "entries (Trie i trm kids) =
     (case trm of None \<Rightarrow> [] | Some info \<Rightarrow> [([], info)]) @
     concat (map (\<lambda>(e, c). map (\<lambda>(n, info). (e @ n, info)) (entries c)) kids)"

lemma labels_kid: "(e, c) \<in> set kids \<Longrightarrow> set (labels c) \<subseteq> set (labels (Trie i trm kids))"
  by (auto simp: case_prod_unfold)

lemma stored_kid: "stored nodes (Trie i trm kids) \<Longrightarrow> (e, c) \<in> set kids \<Longrightarrow> stored nodes c"
  by auto

lemma stored_frame:
  "stored nodes t \<Longrightarrow> length nodes \<le> length nodes' \<Longrightarrow> (\<And>i. i \<in> set (labels t) \<Longrightarrow> nodes' ! i = nodes ! i) \<Longrightarrow>
   stored nodes' t"
proof (induction nodes t rule: stored.induct)
  case (1 nodes i trm kids)
  have "stored nodes' c" if k: "(e, c) \<in> set kids" for e c
    by (rule "1.IH" [OF k refl stored_kid [OF "1.prems"(1) k] "1.prems"(2)])
       (meson "1.prems"(3) labels_kid [OF k] subsetD)
  then have "\<forall>(e, c)\<in>set kids. stored nodes' c" by blast
  moreover have "nodes' ! i = nodes ! i" by (rule "1.prems"(3)) simp
  ultimately show ?case using "1.prems"(1,2) by simp
qed

lemma stored_labels: "stored nodes t \<Longrightarrow> i \<in> set (labels t) \<Longrightarrow> i < length nodes"
  by (induction nodes t rule: stored.induct) auto

lemma tlabel_in [simp]: "tlabel t \<in> set (labels t)"
  by (cases t) simp

subsection \<open>Insertion\<close>

lemma common_prefix_le: "common_prefix_len a b \<le> length a" "common_prefix_len a b \<le> length b"
  unfolding common_prefix_len_def
  using length_takeWhile_le [of "\<lambda>(x, y). x = y" "zip a b"] by simp_all

lemma common_prefix_Cons [simp]:
  "common_prefix_len (x # xs) (y # ys) = (if x = y then Suc (common_prefix_len xs ys) else 0)"
  "common_prefix_len [] b = 0" "common_prefix_len a [] = 0"
  by (simp_all add: common_prefix_len_def)

lemma common_prefix_take: "take (common_prefix_len a b) a = take (common_prefix_len a b) b"
  by (induction a b rule: list_induct2') auto

lemma common_prefix_differ:
  assumes "common_prefix_len a b < length a" "common_prefix_len a b < length b"
  shows "a ! common_prefix_len a b \<noteq> b ! common_prefix_len a b"
  using assms by (induction a b rule: list_induct2') auto

lemma common_prefix_0_iff: "a \<noteq> [] \<Longrightarrow> b \<noteq> [] \<Longrightarrow> common_prefix_len a b = 0 \<longleftrightarrow> hd a \<noteq> hd b"
  by (cases a; cases b) auto

text \<open>Trees the sorted insertion builds: edges are non-empty ASCII, the edges of a node start with
  different letters in ascending order, and every subtree exports something.\<close>

fun trie_ok :: "trie \<Rightarrow> bool" where
  "trie_ok (Trie i trm kids) \<longleftrightarrow>
     sorted_wrt (<) (map (\<lambda>(e, c). hd e) kids) \<and>
     (\<forall>(e, c) \<in> set kids. e \<noteq> [] \<and> ascii e \<and> entries c \<noteq> [] \<and> trie_ok c)"

lemma entries_kid:
  assumes "(e, c) \<in> set kids" "(n, info) \<in> set (entries c)"
  shows "(e @ n, info) \<in> set (entries (Trie i trm kids))"
proof -
  have "(e @ n, info) \<in> set (map (\<lambda>(n, info). (e @ n, info)) (entries c))" using assms(2) by force
  then have "(e @ n, info) \<in> (\<Union>(e, c)\<in>set kids. set (map (\<lambda>(n, info). (e @ n, info)) (entries c)))"
    using assms(1) by blast
  then show ?thesis by (simp add: case_prod_unfold)
qed

lemma less_append_cancel: "(xs @ ys < xs @ (zs :: bytes)) \<longleftrightarrow> ys < zs"
  by (induction xs) auto

lemma shared_edge_split:
  "shared_edge name (map f kids) ci = Some (k, edge, child) \<Longrightarrow>
   \<exists>pre x post. kids = pre @ x # post \<and> f x = (edge, child) \<and> k = ci + length pre \<and>
     (\<forall>y\<in>set pre. common_prefix_len (fst (f y)) name = 0)"
proof (induction kids arbitrary: ci)
  case (Cons y kids)
  show ?case
  proof (cases "common_prefix_len (fst (f y)) name = 0")
    case True
    then obtain pre x post where "kids = pre @ x # post" "f x = (edge, child)" "k = Suc ci + length pre"
        "\<forall>y\<in>set pre. common_prefix_len (fst (f y)) name = 0"
      using Cons.IH [of "Suc ci"] Cons.prems by (cases "f y") auto
    then show ?thesis using True by (intro exI [of _ "y # pre"] exI [of _ x] exI [of _ post]) simp
  next
    case False
    then show ?thesis using Cons.prems by (cases "f y") (intro exI [of _ "[]"], auto)
  qed
qed simp

lemma shared_edge_None:
  "shared_edge name children ci = None \<longleftrightarrow> (\<forall>(edge, child)\<in>set children. common_prefix_len edge name = 0)"
  by (induction name children ci rule: shared_edge.induct) auto

definition grows :: "trie_node list \<Rightarrow> trie \<Rightarrow> trie_node list \<Rightarrow> trie \<Rightarrow> bool" where
  "grows nodes t nodes' t' \<longleftrightarrow>
     stored nodes' t' \<and> distinct (labels t') \<and> tlabel t' = tlabel t \<and> length nodes \<le> length nodes' \<and>
     set (labels t') = set (labels t) \<union> {length nodes..<length nodes'} \<and>
     (\<forall>i<length nodes. i \<notin> set (labels t) \<longrightarrow> nodes' ! i = nodes ! i)"

lemma grows_trans:
  assumes "grows nodes t nodes' t'" "grows nodes' t' nodes'' t''" shows "grows nodes t nodes'' t''"
proof -
  have "{length nodes..<length nodes'} \<union> {length nodes'..<length nodes''} = {length nodes..<length nodes''}"
    using assms by (intro ivl_disj_un) (simp_all add: grows_def)
  then show ?thesis using assms unfolding grows_def by (auto simp: Un_assoc)
qed

lemma grow_root:
  assumes "stored nodes (Trie i trm kids)" "nodes' = (nodes @ new)[i := node_of (Trie i trm' kids')]"
    "distinct (labels (Trie i trm' kids'))"
    "set (labels (Trie i trm' kids')) = set (labels (Trie i trm kids)) \<union> {length nodes..<length nodes + length new}"
    "\<And>e c. (e, c) \<in> set kids' \<Longrightarrow> stored (nodes @ new) c"
  shows "grows nodes (Trie i trm kids) nodes' (Trie i trm' kids')"
proof -
  have i: "i < length nodes" using assms(1) by simp
  have "stored nodes' c" if "(e, c) \<in> set kids'" for e c
  proof (rule stored_frame [OF assms(5) [OF that]])
    fix j assume "j \<in> set (labels c)"
    then have "j \<noteq> i" using assms(3) that by auto
    then show "nodes' ! j = (nodes @ new) ! j" by (simp add: assms(2))
  qed (simp add: assms(2))
  then have "stored nodes' (Trie i trm' kids')" using i by (auto simp: assms(2))
  moreover have "nodes' ! j = nodes ! j" if "j < length nodes" "j \<noteq> i" for j
    using that by (simp add: assms(2) nth_append)
  moreover have "i \<in> set (labels (Trie i trm kids))" by simp
  moreover have "length nodes' = length nodes + length new" by (simp add: assms(2))
  ultimately show ?thesis using assms(3,4) unfolding grows_def by (auto simp del: stored.simps labels.simps)
qed

lemma labels_split:
  "set (labels (Trie i trm (pre @ (e, c) # post))) =
   insert i (\<Union>x\<in>set pre \<union> set post. set (labels (snd x))) \<union> set (labels c)"
  by (auto simp: case_prod_unfold)

lemma distinct_labels_split:
  "distinct (labels (Trie i trm (pre @ (e, c) # post))) \<longleftrightarrow>
   distinct (i # concat (map (labels \<circ> snd) pre) @ concat (map (labels \<circ> snd) post) @ labels c)"
  by (intro mset_eq_imp_distinct_iff, simp add: case_prod_unfold comp_def)

lemma grow_kid:
  assumes t: "stored nodes (Trie i trm (pre @ (e, c) # post))" "distinct (labels (Trie i trm (pre @ (e, c) # post)))"
    and g: "grows nodes c nodes' c'"
  shows "grows nodes (Trie i trm (pre @ (e, c) # post)) nodes' (Trie i trm (pre @ (e, c') # post))"
proof -
  let ?rest = "i # concat (map (labels \<circ> snd) pre) @ concat (map (labels \<circ> snd) post)"
  have g1: "stored nodes' c'" "distinct (labels c')" "tlabel c' = tlabel c" "length nodes \<le> length nodes'"
    and g2: "set (labels c') = set (labels c) \<union> {length nodes..<length nodes'}"
    and g3: "\<And>j. j < length nodes \<Longrightarrow> j \<notin> set (labels c) \<Longrightarrow> nodes' ! j = nodes ! j"
    using g by (simp_all add: grows_def)
  have d: "distinct ?rest" "set ?rest \<inter> set (labels c) = {}"
    using t(2) unfolding distinct_labels_split by auto
  have kids: "stored nodes (snd x)" if "x \<in> set pre \<union> set post" for x
    using stored_kid [OF t(1), of "fst x" "snd x"] that by auto
  have rest: "set ?rest \<subseteq> {..<length nodes}"
    using stored_labels [OF t(1)] unfolding labels_split by auto
  have "stored nodes' (snd x)" if x: "x \<in> set pre \<union> set post" for x
  proof (rule stored_frame [OF kids [OF x] g1(4)])
    fix j assume "j \<in> set (labels (snd x))"
    then have "j \<in> set ?rest" using x by auto
    then show "nodes' ! j = nodes ! j" using d(2) rest by (intro g3) auto
  qed
  then have "\<forall>(e, c)\<in>set pre \<union> set post. stored nodes' c" by (metis case_prodI2 snd_conv)
  moreover have "nodes' ! i = nodes ! i" using d(2) rest by (intro g3) auto
  moreover have "node_of (Trie i trm (pre @ (e, c') # post)) = node_of (Trie i trm (pre @ (e, c) # post))"
    by (simp add: g1(3) node_of_def)
  ultimately have 1: "stored nodes' (Trie i trm (pre @ (e, c') # post))" using t(1) g1 by simp
  have "set ?rest \<inter> set (labels c') = {}" unfolding g2 using d(2) rest by auto
  then have 2: "distinct (labels (Trie i trm (pre @ (e, c') # post)))"
    unfolding distinct_labels_split using d(1) g1(2) by (auto simp: Int_Un_distrib Int_Un_distrib2)
  have 3: "set (labels (Trie i trm (pre @ (e, c') # post))) =
      set (labels (Trie i trm (pre @ (e, c) # post))) \<union> {length nodes..<length nodes'}"
    unfolding labels_split g2 by (simp only: Un_assoc)
  have "nodes' ! j = nodes ! j" if "j < length nodes" "j \<notin> set (labels (Trie i trm (pre @ (e, c) # post)))" for j
    using that unfolding labels_split by (intro g3) simp_all
  with 1 2 3 show ?thesis using g1(4) unfolding grows_def by simp
qed

lemma hd_le: "e \<noteq> [] \<Longrightarrow> e @ n < (name :: bytes) \<Longrightarrow> hd e \<le> hd name"
  by (cases e; cases name) auto

lemma trie_ok_last:
  assumes ok: "trie_ok (Trie i trm (pre @ (e, c) # post))"
    and above: "\<And>n info. (n, info) \<in> set (entries (Trie i trm (pre @ (e, c) # post))) \<Longrightarrow> n < name"
    and shared: "0 < common_prefix_len e name"
  shows "post = []"
proof (rule ccontr)
  assume "post \<noteq> []"
  then obtain e2 c2 where k: "(e2, c2) \<in> set post" by (cases post) auto
  then have less: "hd e < hd e2" and ne: "e2 \<noteq> []" "entries c2 \<noteq> []"
    using ok by (auto simp: sorted_wrt_append)
  obtain n info where "(n, info) \<in> set (entries c2)" using ne(2) by (cases "entries c2") auto
  then have "(e2 @ n, info) \<in> set (entries (Trie i trm (pre @ (e, c) # post)))"
    using k by (intro entries_kid) auto
  then have "hd e2 \<le> hd name" using above hd_le [OF ne(1)] by blast
  moreover have "hd e = hd name" using shared by (cases e; cases name) (auto split: if_splits)
  ultimately show False using less by simp
qed

definition inserts :: "trie_node list \<Rightarrow> trie \<Rightarrow> bytes \<Rightarrow> macho_export \<Rightarrow> bool" where
  "inserts nodes t name export \<longleftrightarrow>
     (\<exists>nodes' t'. trie_insert nodes (tlabel t) name export = Some nodes' \<and> grows nodes t nodes' t' \<and> trie_ok t' \<and>
        entries t' = entries t @ [(name, terminal_of export)])"

lemma insert_terminal:
  assumes "stored nodes t" "distinct (labels t)" "trie_ok t" "entries t = []"
  shows "inserts nodes t [] export"
proof (cases t)
  case (Trie i trm kids)
  have kids: "kids = []" "trm = None" using assms(3,4) by (cases kids; auto simp: Trie split: option.splits)+
  have "trie_insert nodes i [] export = Some ((nodes @ [])[i := node_of (Trie i (Some (terminal_of export)) kids)])"
    using assms(1) by (subst trie_insert.simps) (simp add: Trie node_of_def Let_def)
  moreover have "grows nodes t ((nodes @ [])[i := node_of (Trie i (Some (terminal_of export)) kids)])
      (Trie i (Some (terminal_of export)) kids)"
    unfolding Trie by (rule grow_root [where new = "[]"]) (use assms kids in \<open>auto simp: Trie\<close>)
  ultimately show ?thesis
    using assms(3,4) kids unfolding inserts_def
    by (intro exI [of _ "(nodes @ [])[i := node_of (Trie i (Some (terminal_of export)) kids)]"]
          exI [of _ "Trie i (Some (terminal_of export)) kids"]) (simp add: Trie)
qed

lemma insert_leaf:
  assumes t: "t = Trie i trm kids" and st: "stored nodes t" "distinct (labels t)" and ok: "trie_ok t"
    and name: "ascii name" "name \<noteq> []"
    and above: "\<And>n info. (n, info) \<in> set (entries t) \<Longrightarrow> n < name"
    and none: "shared_edge name (tn_children (nodes ! i)) 0 = None"
  shows "inserts nodes t name export"
proof -
  let ?leaf = "Trie (length nodes) (Some (terminal_of export)) []"
  let ?kids = "kids @ [(name, ?leaf)]"
  have node: "nodes ! i = node_of t" "i < length nodes" using st(1) by (simp_all add: t)
  have kid: "hd e < hd name" if "(e, c) \<in> set kids" for e c
  proof -
    have e: "e \<noteq> []" "entries c \<noteq> []" using ok that by (auto simp: t)
    then obtain n info where "(n, info) \<in> set (entries c)" by (cases "entries c") auto
    then have "hd e \<le> hd name" using entries_kid [OF that] above hd_le [OF e(1)] unfolding t by blast
    moreover have "common_prefix_len e name = 0"
      using none that by (fastforce simp: shared_edge_None node t node_of_def)
    ultimately show ?thesis using e(1) name(2) by (simp add: common_prefix_0_iff)
  qed
  have ins: "trie_insert nodes i name export = Some ((nodes @ [node_of ?leaf])[i := node_of (Trie i trm ?kids)])"
    using node name(2) none by (subst trie_insert.simps) (simp add: t node_of_def Let_def)
  have old: "\<And>j. j \<in> set (labels t) \<Longrightarrow> j < length nodes" using stored_labels [OF st(1)] .
  have "grows nodes t ((nodes @ [node_of ?leaf])[i := node_of (Trie i trm ?kids)]) (Trie i trm ?kids)"
    unfolding t
  proof (rule grow_root [OF _ refl])
    show "stored nodes (Trie i trm kids)" using st(1) by (simp add: t)
    show "stored (nodes @ [node_of ?leaf]) c" if "(e, c) \<in> set ?kids" for e c
    proof (cases "(e, c) \<in> set kids")
      case True
      then have "stored nodes c" using stored_kid st(1) t by blast
      then show ?thesis by (rule stored_frame) (auto simp: nth_append dest: stored_labels [OF \<open>stored nodes c\<close>])
    next
      case False
      then show ?thesis using that by simp
    qed
  qed (use st(2) old in \<open>auto simp: t case_prod_unfold\<close>)
  moreover have "trie_ok (Trie i trm ?kids)" using ok name kid by (auto simp: t sorted_wrt_append)
  ultimately show ?thesis using ins unfolding inserts_def by (intro exI conjI) (auto simp: t)
qed

lemma insert_shared:
  assumes t: "t = Trie i trm kids" and st: "stored nodes t" "distinct (labels t)" and ok: "trie_ok t"
    and name: "ascii name" "name \<noteq> []"
    and above: "\<And>n info. (n, info) \<in> set (entries t) \<Longrightarrow> n < name"
    and shared: "shared_edge name (tn_children (nodes ! i)) 0 = Some (ci, edge, child)"
    and ih: "\<And>nodes t rest. length rest < length name \<Longrightarrow> stored nodes t \<Longrightarrow> distinct (labels t) \<Longrightarrow> trie_ok t \<Longrightarrow>
       ascii rest \<Longrightarrow> (\<And>n info. (n, info) \<in> set (entries t) \<Longrightarrow> n < rest) \<Longrightarrow> inserts nodes t rest export"
  shows "inserts nodes t name export"
proof -
  let ?k = "common_prefix_len edge name"
  let ?rest = "drop ?k name"
  have node: "nodes ! i = node_of t" "i < length nodes" using st(1) by (simp_all add: t)
  obtain pre c post where kids: "kids = pre @ (edge, c) # post" and child: "child = tlabel c" and ci: "ci = length pre"
    using shared_edge_split [OF shared [unfolded node t node_of_def trie_node.simps trie.sel]] by fastforce
  have k: "0 < ?k" "?k \<le> length edge" "?k \<le> length name"
    using shared_edge_common [OF shared] common_prefix_le by auto
  have post: "post = []"
    using trie_ok_last [of i trm pre edge c post name] ok above k(1) unfolding t kids by blast
  have e: "edge \<noteq> []" "ascii edge" "entries c \<noteq> []" "trie_ok c" using ok by (simp_all add: t kids)
  have name_split: "name = take ?k edge @ ?rest" by (metis append_take_drop_id common_prefix_take)
  have rest: "length ?rest < length name" "ascii ?rest" using k name by auto
  have above_c: "drop ?k edge @ n < ?rest" if "(n, info) \<in> set (entries c)" for n info
  proof -
    have "(edge @ n, info) \<in> set (entries t)" unfolding t by (rule entries_kid [OF _ that]) (simp add: kids)
    then have "edge @ n < name" by (rule above)
    moreover have "take ?k edge @ drop ?k edge @ n = edge @ n" by (metis append_assoc append_take_drop_id)
    ultimately have "take ?k edge @ drop ?k edge @ n < take ?k edge @ ?rest" using name_split by metis
    then show ?thesis by (simp only: less_append_cancel)
  qed
  show ?thesis
  proof (cases "?k = length edge")
    case True
    have "inserts nodes c ?rest export"
    proof (rule ih [OF rest(1) _ _ e(4) rest(2)])
      show "stored nodes c" using st(1) by (simp add: t kids)
      show "distinct (labels c)" using st(2) by (simp add: t kids)
    qed (use above_c True in auto)
    then obtain nodes' c' where c': "trie_insert nodes (tlabel c) ?rest export = Some nodes'" "grows nodes c nodes' c'"
        "trie_ok c'" "entries c' = entries c @ [(?rest, terminal_of export)]" by (auto simp: inserts_def)
    have "trie_insert nodes i name export = Some nodes'"
      using node name k True c'(1) shared by (subst trie_insert.simps) (simp add: Let_def child)
    moreover have "grows nodes t nodes' (Trie i trm (pre @ (edge, c') # post))"
      using grow_kid [OF _ _ c'(2)] st unfolding t kids by blast
    moreover have "trie_ok (Trie i trm (pre @ (edge, c') # post))" using ok c'(3,4) by (auto simp: t kids)
    moreover have "edge @ ?rest = name" using name_split True by simp
    ultimately show ?thesis
      using c'(4) unfolding inserts_def by (intro exI [of _ nodes'] exI conjI) (auto simp: t kids post)
  next
    case False
    let ?c2 = "Trie (length nodes) None [(drop ?k edge, c)]"
    let ?t2 = "Trie i trm (pre @ (take ?k edge, ?c2) # post)"
    let ?nodes = "(nodes @ [node_of ?c2])[i := node_of ?t2]"
    have le: "?k < length edge" using False k by simp
    have old: "\<And>j. j \<in> set (labels t) \<Longrightarrow> j < length nodes" using stored_labels [OF st(1)] .
    have g: "grows nodes t ?nodes ?t2" unfolding t
    proof (rule grow_root [OF _ refl])
      show "stored nodes (Trie i trm kids)" using st(1) by (simp add: t)
      have keep: "stored (nodes @ [node_of ?c2]) s" if "stored nodes s" for s
        using that by (rule stored_frame) (auto simp: nth_append dest: stored_labels [OF that])
      show "stored (nodes @ [node_of ?c2]) s" if "(x, s) \<in> set (pre @ (take ?k edge, ?c2) # post)" for x s
      proof (cases "(x, s) \<in> set kids")
        case True
        then show ?thesis using stored_kid st(1) t keep by blast
      next
        case False
        have "stored nodes c" using st(1) by (simp add: t kids)
        then have "stored (nodes @ [node_of ?c2]) ?c2" using keep by simp
        then show ?thesis using that False by (auto simp: kids)
      qed
    qed (use st(2) old in \<open>auto simp: t kids case_prod_unfold\<close>)
    have "inserts ?nodes ?c2 ?rest export"
    proof (rule ih [OF rest(1) _ _ _ rest(2)])
      show "stored ?nodes ?c2" using g stored_kid unfolding grows_def by fastforce
      show "distinct (labels ?c2)" using st(2) old [of "length nodes"] by (auto simp: t kids)
      show "trie_ok ?c2" using e le by simp
      show "n < ?rest" if "(n, info) \<in> set (entries ?c2)" for n info
        using that above_c by auto
    qed
    then obtain nodes' c' where c': "trie_insert ?nodes (length nodes) ?rest export = Some nodes'" "grows ?nodes ?c2 nodes' c'"
        "trie_ok c'" "entries c' = entries ?c2 @ [(?rest, terminal_of export)]" by (auto simp: inserts_def)
    have "trie_insert nodes i name export = Some nodes'"
      using node name k False c'(1) shared e(2)
      by (subst trie_insert.simps)
         (simp add: Let_def child ci t kids node_of_def list_update_append)
    moreover have "grows nodes t nodes' (Trie i trm (pre @ (take ?k edge, c') # post))"
      using grows_trans [OF g grow_kid [OF _ _ c'(2)]] g unfolding grows_def by blast
    moreover have "trie_ok (Trie i trm (pre @ (take ?k edge, c') # post))"
      using ok c'(3,4) k e(1,2) by (auto simp: t kids sorted_wrt_append hd_take)
    moreover have "take ?k edge @ ?rest = name" using name_split by simp
    ultimately show ?thesis
      using c'(4) unfolding inserts_def
      by (intro exI [of _ nodes'] exI conjI) (auto simp: t kids post comp_def case_prod_unfold)
  qed
qed

lemma trie_insert_last:
  assumes "stored nodes t" "distinct (labels t)" "trie_ok t" "ascii name"
    and "\<And>n info. (n, info) \<in> set (entries t) \<Longrightarrow> n < name"
  shows "inserts nodes t name export"
  using assms
proof (induction name arbitrary: nodes t rule: measure_induct_rule [of length])
  case (less name)
  obtain i trm kids where t: "t = Trie i trm kids" by (cases t)
  show ?case
  proof (cases "name = []")
    case True
    then have "entries t = []" using less.prems(5) by (cases "entries t") force+
    then show ?thesis using insert_terminal less.prems True by simp
  next
    case False
    show ?thesis
    proof (cases "shared_edge name (tn_children (nodes ! i)) 0")
      case None
      show ?thesis by (rule insert_leaf [OF t less.prems(1-4) False less.prems(5) None])
    next
      case (Some x)
      show ?thesis
      proof (cases x)
        case (fields ci edge child)
        show ?thesis
          by (rule insert_shared [OF t less.prems(1-4) False less.prems(5) Some [unfolded fields] less.IH])
      qed
    qed
  qed
qed

lemma insert_all_entries:
  assumes "stored nodes t" "distinct (labels t)" "set (labels t) = {..<length nodes}" "tlabel t = 0" "trie_ok t"
    and "sorted_wrt (<) (map mex_name es)" "\<And>e. e \<in> set es \<Longrightarrow> ascii (mex_name e)"
    and "\<And>n info e. (n, info) \<in> set (entries t) \<Longrightarrow> e \<in> set es \<Longrightarrow> n < mex_name e"
  shows "\<exists>nodes' t'. insert_all nodes es = Some nodes' \<and> stored nodes' t' \<and> set (labels t') = {..<length nodes'} \<and>
     tlabel t' = 0 \<and> trie_ok t' \<and> entries t' = entries t @ map (\<lambda>e. (mex_name e, terminal_of e)) es"
  using assms
proof (induction es arbitrary: nodes t)
  case Nil
  then show ?case by auto
next
  case (Cons e es)
  have "inserts nodes t (mex_name e) e"
    using Cons.prems by (intro trie_insert_last) auto
  then obtain nodes1 t1 where t1: "trie_insert nodes 0 (mex_name e) e = Some nodes1" "grows nodes t nodes1 t1" "trie_ok t1"
      "entries t1 = entries t @ [(mex_name e, terminal_of e)]"
    using Cons.prems(4) by (auto simp: inserts_def)
  have "{..<length nodes} \<union> {length nodes..<length nodes1} = {..<length nodes1}"
    using t1(2) by (auto simp: grows_def)
  then have g: "stored nodes1 t1" "distinct (labels t1)" "set (labels t1) = {..<length nodes1}" "tlabel t1 = 0"
    using t1(2) Cons.prems(3,4) by (simp_all add: grows_def)
  have "\<exists>nodes' t'. insert_all nodes1 es = Some nodes' \<and> stored nodes' t' \<and> set (labels t') = {..<length nodes'} \<and>
     tlabel t' = 0 \<and> trie_ok t' \<and> entries t' = entries t1 @ map (\<lambda>e. (mex_name e, terminal_of e)) es"
    using Cons.prems t1(4) by (intro Cons.IH g t1(3)) auto
  then show ?case by (auto simp: t1)
qed

section \<open>Reading the encoding\<close>

lemma length_encode_node: "length (encode_node node offs) = encoded_node_size node offs"
proof -
  have "length (encode_children cs offs) =
      sum_list (map (\<lambda>(edge, child_idx). length edge + 1 + uleb128_size (word_of_nat (offs ! child_idx))) cs)" for cs
    by (induction cs) (auto simp: encode_children_def length_uleb)
  then show ?thesis by (simp add: encode_node_def encoded_node_size_def Let_def length_uleb)
qed

lemma offsets_from_nth:
  "i < length nodes \<Longrightarrow>
   offsets_from c nodes offs ! i = c + length (concat (map (\<lambda>node. encode_node node offs) (take i nodes)))"
proof (induction nodes arbitrary: c i)
  case (Cons node nodes)
  then show ?case by (cases i) (simp_all add: length_encode_node)
qed simp

lemma drop_at:
  "drop c bs = xs @ ys \<Longrightarrow> drop (c + length xs) bs = ys"
  by (metis add.commute append_eq_conv_conj drop_drop)

lemma drop_le: "drop c bs = xs @ ys \<Longrightarrow> xs \<noteq> [] \<Longrightarrow> c + length xs \<le> length bs"
proof -
  assume a: "drop c bs = xs @ ys" "xs \<noteq> []"
  have "length bs - c = length xs + length ys" using arg_cong [OF a(1), of length] by simp
  then show ?thesis using a(2) by (cases "c \<le> length bs") auto
qed

lemma u64_of_nat: "n < 2 ^ 64 \<Longrightarrow> unat (word_of_nat n :: u64) = n"
  by (simp add: unat_of_nat take_bit_nat_eq_self)

lemma read_children_encoded:
  assumes "drop c bs = encode_children children offs @ after" "c \<le> length bs"
    and "\<And>e i. (e, i) \<in> set children \<Longrightarrow> ascii e \<and> offs ! i < 2 ^ 64"
  shows "read_children bs (length children) c = Ok (map (\<lambda>(e, i). (e, offs ! i)) children)"
  using assms
proof (induction children arbitrary: c)
  case (Cons x children)
  obtain e i where x: "x = (e, i)" by (cases x)
  let ?u = "uleb (word_of_nat (offs ! i))"
  have e: "ascii e" "offs ! i < 2 ^ 64" using Cons.prems(3) [of e i] by (simp_all add: x)
  have d: "drop c bs = e @ 0 # ?u @ encode_children children offs @ after"
    using Cons.prems(1) by (simp add: x encode_children_def)
  have d1: "drop (c + length e + 1) bs = ?u @ encode_children children offs @ after"
    using drop_at [of c bs "e @ [0]" "?u @ encode_children children offs @ after"] d by simp
  have l1: "c + length e + 1 \<le> length bs" using drop_le [of c bs "e @ [0]"] d by simp
  have d2: "drop (c + length e + 1 + uleb128_size (word_of_nat (offs ! i))) bs = encode_children children offs @ after"
    using drop_at [OF d1] by (simp add: length_uleb)
  have l2: "c + length e + 1 + uleb128_size (word_of_nat (offs ! i)) \<le> length bs"
    using drop_le [OF d1] by (simp add: length_uleb)
  have "0 \<notin> set e" using e(1) by (auto simp: ascii_def)
  then have "read_cstring bs c = Ok (e, c + length e + 1)"
    using read_cstring_at [OF d Cons.prems(2)] e(1) by simp
  moreover have "read_uleb128 bs (c + length e + 1) =
      Ok (word_of_nat (offs ! i), c + length e + 1 + uleb128_size (word_of_nat (offs ! i)))"
    by (rule read_uleb_at [OF d1 l1])
  moreover have "read_children bs (length children) (c + length e + 1 + uleb128_size (word_of_nat (offs ! i))) =
      Ok (map (\<lambda>(e, i). (e, offs ! i)) children)"
    by (rule Cons.IH [OF d2 l2], rule Cons.prems(3)) simp
  ultimately show ?case using e(2) by (simp add: x u64_of_nat)
qed simp

definition export_named :: "bytes \<Rightarrow> bytes \<times> terminal_info \<Rightarrow> macho_export" where
  "export_named prefix x =
     \<lparr>mex_name = prefix @ fst x, mex_flags = ti_flags (snd x), mex_address_offset = ti_address_offset (snd x)\<rparr>"

definition regular :: "terminal_info \<Rightarrow> bool" where
  "regular info \<longleftrightarrow> ti_flags info AND 0x08 = 0 \<and> ti_flags info AND 0x10 = 0"

definition own_entry :: "terminal_info option \<Rightarrow> (bytes \<times> terminal_info) list" where
  "own_entry trm = (case trm of None \<Rightarrow> [] | Some info \<Rightarrow> [([], info)])"

lemma terminal_export_encoded:
  assumes "drop c bs = encode_terminal_bytes node @ after" "c \<le> length bs"
    and "\<And>info. tn_terminal node = Some info \<Longrightarrow> regular info"
    and "length (encode_terminal_bytes node) < 2 ^ 64"
  shows "terminal_export bs c (word_of_nat (length (encode_terminal_bytes node))) prefix =
         Ok (map (export_named prefix) (own_entry (tn_terminal node)))"
proof (cases "tn_terminal node")
  case None
  then show ?thesis by (simp add: terminal_export_def encode_terminal_bytes_def own_entry_def)
next
  case (Some info)
  have b: "encode_terminal_bytes node = uleb (ti_flags info) @ uleb (ti_address_offset info)"
    by (simp add: encode_terminal_bytes_def Some write_uleb128_append [of "uleb _"])
  have d1: "drop c bs = uleb (ti_flags info) @ uleb (ti_address_offset info) @ after" using assms(1) b by simp
  have d2: "drop (c + uleb128_size (ti_flags info)) bs = uleb (ti_address_offset info) @ after"
    using drop_at [OF d1] by (simp add: length_uleb)
  have l2: "c + uleb128_size (ti_flags info) \<le> length bs" using drop_le [OF d1] by (simp add: length_uleb)
  have "length (encode_terminal_bytes node) \<noteq> 0" by (simp add: b)
  then have "(word_of_nat (length (encode_terminal_bytes node)) :: u64) \<noteq> 0"
    using u64_of_nat [OF assms(4)] by (metis unat_0)
  then show ?thesis
    using assms(3) [OF Some] read_uleb_at [OF d1 assms(2)] read_uleb_at [OF d2 l2]
    by (simp add: terminal_export_def terminal_address_def Some own_entry_def export_named_def regular_def)
qed

lemma sorted_ascii_few: "sorted_wrt (<) (bs :: bytes) \<Longrightarrow> ascii bs \<Longrightarrow> length bs < 256"
proof -
  assume a: "sorted_wrt (<) bs" "ascii bs"
  have d: "distinct (map unat bs)"
    using a(1) by (simp add: strict_sorted_iff distinct_map inj_on_def word_unat_eq_iff)
  have "set (map unat bs) \<subseteq> {..<128}" using a(2) by (auto simp: ascii_def word_less_nat_alt)
  then have "card (set (map unat bs)) \<le> 128" by (metis card_lessThan card_mono finite_lessThan)
  then show ?thesis using distinct_card [OF d] by simp
qed

definition settled_blob :: "trie_node list \<Rightarrow> nat list \<Rightarrow> bytes \<Rightarrow> bool" where
  "settled_blob nodes offs blob \<longleftrightarrow>
     offsets_from 0 nodes offs = offs \<and> blob = concat (map (\<lambda>node. encode_node node offs) nodes) \<and>
     length blob < 2 ^ 64"

lemma placed:
  assumes "settled_blob nodes offs blob" "i < length nodes"
  shows "\<exists>after. drop (offs ! i) blob = encode_node (nodes ! i) offs @ after" "offs ! i < length blob"
proof -
  let ?enc = "\<lambda>node. encode_node node offs"
  have o: "offs ! i = length (concat (map ?enc (take i nodes)))"
    using offsets_from_nth [OF assms(2), of 0 offs] assms(1) by (simp add: settled_blob_def)
  have "nodes = take i nodes @ nodes ! i # drop (Suc i) nodes" using assms(2) by (simp add: id_take_nth_drop)
  then have b: "blob = concat (map ?enc (take i nodes)) @ ?enc (nodes ! i) @ concat (map ?enc (drop (Suc i) nodes))"
    using assms(1) unfolding settled_blob_def by (metis concat.simps(2) concat_append list.simps(9) map_append)
  show d: "\<exists>after. drop (offs ! i) blob = ?enc (nodes ! i) @ after" by (simp add: o b)
  have "encode_node (nodes ! i) offs \<noteq> []" by (simp add: encode_node_def Let_def)
  then show "offs ! i < length blob" by (simp add: o b)
qed

lemma parse_node_stored:
  assumes S: "settled_blob nodes offs blob"
    and "stored nodes (Trie i trm kids)" "trie_ok (Trie i trm kids)" "\<And>info. trm = Some info \<Longrightarrow> regular info"
  shows "parse_node blob (offs ! i) prefix =
    Ok (map (export_named prefix) (own_entry trm), map (\<lambda>(e, c). (offs ! tlabel c, prefix @ e)) kids)"
proof -
  let ?node = "nodes ! i"
  have small: "length blob < 2 ^ 64" using S unfolding settled_blob_def by blast
  have i: "i < length nodes" and node: "tn_terminal ?node = trm" "tn_children ?node = map (\<lambda>(e, c). (e, tlabel c)) kids"
    using assms(2) by (simp_all add: node_of_def)
  let ?tb = "encode_terminal_bytes ?node"
  let ?size = "word_of_nat (length ?tb) :: u64"
  let ?count = "word_of_nat (length kids) :: u8"
  let ?c1 = "offs ! i + uleb128_size ?size"
  obtain after where d: "drop (offs ! i) blob = uleb ?size @ ?tb @ ?count # encode_children (tn_children ?node) offs @ after"
    using placed(1) [OF S i] by (auto simp: encode_node_def Let_def node(2))
  have d1: "drop ?c1 blob = ?tb @ ?count # encode_children (tn_children ?node) offs @ after"
    using drop_at [OF d] by (simp add: length_uleb)
  have l1: "?c1 \<le> length blob" using drop_le [OF d] by (simp add: length_uleb)
  let ?at = "?c1 + length ?tb"
  have d2: "drop ?at blob = [?count] @ encode_children (tn_children ?node) offs @ after"
    using drop_at [OF d1] by simp
  have l2: "?at < length blob" using drop_le [OF d2] by simp
  have d3: "drop (Suc ?at) blob = encode_children (tn_children ?node) offs @ after"
    using drop_at [OF d2] by simp
  have at: "blob ! ?at = ?count" using d2 l2 by (metis append_Cons hd_drop_conv_nth list.sel(1))
  have "sorted_wrt (<) (map (\<lambda>(e, c). hd e) kids)" "ascii (map (\<lambda>(e, c). hd e) kids)"
    using assms(3) by (auto simp: ascii_def case_prod_unfold)
  then have "length (map (\<lambda>(e, c). hd e) kids) < 256" by (rule sorted_ascii_few)
  then have count: "unat ?count = length kids" by (simp add: unat_of_nat take_bit_nat_eq_self)
  have "length ?tb < 2 ^ 64" using l2 small by linarith
  then have size_at: "(?c1 + unat ?size) mod 2 ^ 64 = ?at" using l2 small by (simp add: u64_of_nat)
  have kids: "ascii e \<and> offs ! j < 2 ^ 64" if m: "(e, j) \<in> set (tn_children ?node)" for e j
  proof -
    obtain c where c: "(e, c) \<in> set kids" "j = tlabel c" using m unfolding node(2) by auto
    have "tlabel c < length nodes" using stored_labels [OF stored_kid [OF assms(2) c(1)]] by simp
    then show ?thesis using placed(2) [OF S] small c assms(3) by fastforce
  qed
  have read: "read_children blob (unat (blob ! ?at)) (Suc ?at) = Ok (map (\<lambda>(e, j). (e, offs ! j)) (tn_children ?node))"
    using read_children_encoded [OF d3 _ kids] l2 unfolding at count by (simp add: node(2))
  have trm: "terminal_export blob ?c1 ?size prefix = Ok (map (export_named prefix) (own_entry trm))"
    using terminal_export_encoded [OF d1 l1] assms(4) \<open>length ?tb < 2 ^ 64\<close> by (simp add: node(1))
  have "map (\<lambda>(e, j). (j, prefix @ e)) (map (\<lambda>(e, j). (e, offs ! j)) (tn_children ?node)) =
      map (\<lambda>(e, c). (offs ! tlabel c, prefix @ e)) kids"
    by (simp add: node(2) case_prod_unfold)
  then show ?thesis
    using placed(2) [OF S i] read_uleb_at [OF d] l2 read trm size_at
    by (simp add: parse_node_def Let_def)
qed

lemma parse_loop_stored:
  "settled_blob nodes offs blob \<Longrightarrow> stored nodes t \<Longrightarrow> trie_ok t \<Longrightarrow> (\<And>n info. (n, info) \<in> set (entries t) \<Longrightarrow> regular info) \<Longrightarrow>
   parse_loop blob ((offs ! tlabel t, prefix) # rest) found =
   parse_loop blob rest (found @ map (export_named prefix) (entries t))"
proof (induction t arbitrary: prefix rest found rule: entries.induct)
  case (1 i trm kids)
  have kids: "parse_loop blob (map (\<lambda>(e, c). (offs ! tlabel c, prefix @ e)) ks @ rest) found =
      parse_loop blob rest (found @ map (export_named prefix) (concat (map (\<lambda>(e, c). map (\<lambda>(n, info). (e @ n, info)) (entries c)) ks)))"
    if "set ks \<subseteq> set kids" for ks found
    using that
  proof (induction ks arbitrary: found)
    case (Cons x ks)
    obtain e c where x: "x = (e, c)" by (cases x)
    then have k: "(e, c) \<in> set kids" using Cons.prems by simp
    have "parse_loop blob ((offs ! tlabel c, prefix @ e) # map (\<lambda>(e, c). (offs ! tlabel c, prefix @ e)) ks @ rest) found =
        parse_loop blob (map (\<lambda>(e, c). (offs ! tlabel c, prefix @ e)) ks @ rest) (found @ map (export_named (prefix @ e)) (entries c))"
    proof (rule "1.IH" [OF k refl "1.prems"(1) stored_kid [OF "1.prems"(2) k]])
      show "trie_ok c" using "1.prems"(3) k by auto
      show "regular info" if "(n, info) \<in> set (entries c)" for n info
        by (rule "1.prems"(4) [OF entries_kid [OF k that]])
    qed
    moreover have "map (export_named (prefix @ e)) (entries c) = map (export_named prefix) (map (\<lambda>(n, info). (e @ n, info)) (entries c))"
      by (simp add: export_named_def case_prod_unfold)
    ultimately show ?case using Cons.IH Cons.prems by (simp add: x)
  qed simp
  have "regular info" if "trm = Some info" for info using "1.prems"(4) [of "[]" info] that by simp
  then have "parse_node blob (offs ! i) prefix =
      Ok (map (export_named prefix) (own_entry trm), map (\<lambda>(e, c). (offs ! tlabel c, prefix @ e)) kids)"
    using parse_node_stored "1.prems"(1-3) by blast
  then show ?case
    using kids [OF subset_refl] by (subst parse_loop.simps) (simp add: own_entry_def)
qed


section \<open>The round trip\<close>

definition trie_blob :: "trie_node list \<Rightarrow> bytes" where
  "trie_blob nodes = concat (map (\<lambda>node. encode_node node (trie_offsets nodes)) nodes)"

text \<open>The sixteen rounds have reached the fixed point, and the result is addressable.\<close>

definition trie_settled :: "macho_export list \<Rightarrow> bool" where
  "trie_settled exports =
     (case trie_tree exports of
        None \<Rightarrow> True
      | Some nodes \<Rightarrow> offsets_from 0 nodes (trie_offsets nodes) = trie_offsets nodes \<and> length (trie_blob nodes) < 2 ^ 64)"

text \<open>C16: the trie built for exports with distinct ASCII names and regular flags is parsed back, by a
  walk that ends, to exactly those exports in the order of their names, whenever the layout of the
  nodes has settled.\<close>

theorem export_trie_round_trip:
  assumes names: "distinct (map mex_name exports)"
    and plain: "\<And>e. e \<in> set exports \<Longrightarrow> ascii (mex_name e) \<and> mex_flags e AND 0x08 = 0 \<and> mex_flags e AND 0x10 = 0"
    and settled: "trie_settled exports"
  shows "\<exists>blob. build_exports exports = Some blob \<and> parse_exports blob = Some (Ok (sort_key mex_name exports))"
proof (cases "exports = []")
  case True
  then show ?thesis by (simp add: build_exports_def parse_exports_def)
next
  case False
  let ?es = "sort_key mex_name exports"
  let ?root = "\<lparr>tn_terminal = None, tn_children = []\<rparr> :: trie_node"
  have "distinct (map mex_name ?es)" using names by (simp add: distinct_map)
  then have "sorted_wrt (<) (map mex_name ?es)" by (simp add: strict_sorted_iff)
  then have "\<exists>nodes' t'. insert_all [?root] ?es = Some nodes' \<and> stored nodes' t' \<and> set (labels t') = {..<length nodes'} \<and>
     tlabel t' = 0 \<and> trie_ok t' \<and> entries t' = entries (Trie 0 None []) @ map (\<lambda>e. (mex_name e, terminal_of e)) ?es"
    using plain by (intro insert_all_entries) (simp_all add: node_of_def lessThan_Suc)
  then obtain nodes t where t: "trie_tree exports = Some nodes" "stored nodes t" "set (labels t) = {..<length nodes}"
      "tlabel t = 0" "trie_ok t" "entries t = map (\<lambda>e. (mex_name e, terminal_of e)) ?es"
    by (auto simp: trie_tree_def)
  let ?offs = "trie_offsets nodes"
  have fix_point: "offsets_from 0 nodes ?offs = ?offs" and small: "length (trie_blob nodes) < 2 ^ 64"
    using settled by (simp_all add: trie_settled_def t(1))
  have n: "0 < length nodes" using stored_labels [OF t(2), of 0] t(3,4) tlabel_in [of t] by simp
  have "nodes \<noteq> []" using n by auto
  then have o: "?offs ! 0 = 0" "?offs \<noteq> []" using offsets_from_nth [of 0 nodes 0 ?offs] fix_point by (cases nodes; force)+
  have "trie_blob nodes \<noteq> []"
    using \<open>nodes \<noteq> []\<close> by (cases nodes) (simp_all add: trie_blob_def encode_node_def Let_def)
  moreover have "parse_loop (trie_blob nodes) [(?offs ! tlabel t, [])] [] =
      parse_loop (trie_blob nodes) [] ([] @ map (export_named []) (entries t))"
    by (rule parse_loop_stored [OF _ t(2,5)])
       (use plain fix_point small in \<open>auto simp: t(6) trie_blob_def settled_blob_def regular_def terminal_of_def\<close>)
  moreover have "map (export_named []) (entries t) = ?es"
    unfolding t(6) by (simp add: export_named_def terminal_of_def comp_def macho_export.surjective [symmetric] map_idI)
  ultimately have "parse_exports (trie_blob nodes) = Some (Ok ?es)"
    by (simp add: parse_exports_def o t(4) parse_loop.simps)
  moreover have "build_exports exports = Some (trie_blob nodes)"
    using False by (simp add: build_exports_def t(1) trie_blob_def)
  ultimately show ?thesis by blast
qed

definition three_exports :: "macho_export list" where
  "three_exports =
     [\<lparr>mex_name = [95, 98, 97], mex_flags = 0, mex_address_offset = 0x4000\<rparr>,
      \<lparr>mex_name = [95, 98], mex_flags = 1, mex_address_offset = 16\<rparr>,
      \<lparr>mex_name = [95, 97], mex_flags = 0, mex_address_offset = 7\<rparr>]"

lemma export_trie_round_trip_witness:
  "\<exists>blob. build_exports three_exports = Some blob \<and>
     parse_exports blob = Some (Ok [three_exports ! 2, three_exports ! 1, three_exports ! 0])"
proof -
  have "\<exists>blob. build_exports three_exports = Some blob \<and> parse_exports blob = Some (Ok (sort_key mex_name three_exports))"
  proof (rule export_trie_round_trip)
    have "case trie_tree three_exports of None \<Rightarrow> True
        | Some nodes \<Rightarrow> offsets_from 0 nodes (trie_offsets nodes) = trie_offsets nodes \<and> length (trie_blob nodes) = 30"
      by code_simp
    then show "trie_settled three_exports" by (simp add: trie_settled_def split: option.splits)
  qed (auto simp: three_exports_def ascii_def)
  moreover have "sort_key mex_name three_exports = [three_exports ! 2, three_exports ! 1, three_exports ! 0]" by code_simp
  ultimately show ?thesis by simp
qed

section \<open>When the walk ends\<close>

section \<open>Whether the parser returns\<close>

text \<open>The nodes the parser can come to, each with the name it has on that path, and the offsets of
  children and parents among them.\<close>

inductive trie_reaches :: "bytes \<Rightarrow> nat \<Rightarrow> bytes \<Rightarrow> bool" for bs where
  root: "trie_reaches bs 0 []"
| child: "trie_reaches bs off p \<Longrightarrow> parse_node bs off p = Ok (found, children) \<Longrightarrow> (c, q) \<in> set children \<Longrightarrow>
    trie_reaches bs c q"

definition child_offsets :: "bytes \<Rightarrow> (nat \<times> nat) set" where
  "child_offsets bs =
     {(c, off). \<exists>p found children q. trie_reaches bs off p \<and> parse_node bs off p = Ok (found, children) \<and> (c, q) \<in> set children}"

definition parse_failures :: "bytes \<Rightarrow> container_write_error set" where
  "parse_failures bs = {e. \<exists>off p. trie_reaches bs off p \<and> parse_node bs off p = Err e}"

text \<open>A node has the same children under every name.\<close>

lemma parse_node_children:
  assumes "parse_node bs off p = Ok (found, children)"
  obtains found' children' where "parse_node bs off p' = Ok (found', children')" "fst ` set children' = fst ` set children"
  using assms by (auto simp: parse_node_def terminal_export_def Let_def and_then_Ok_iff image_image split_def split: if_splits)

lemma child_offsets_subset:
  "child_offsets bs \<subseteq> (\<Union>off<length bs. (case parse_node bs off [] of Inr (_, children) \<Rightarrow> fst ` set children | Inl _ \<Rightarrow> {}) \<times> {off})"
proof safe
  fix c off assume "(c, off) \<in> child_offsets bs"
  then obtain p found children q where n: "parse_node bs off p = Ok (found, children)" "(c, q) \<in> set children"
    by (auto simp: child_offsets_def)
  obtain found' children' where n': "parse_node bs off [] = Ok (found', children')" "fst ` set children' = fst ` set children"
    by (rule parse_node_children [OF n(1)])
  have "off < length bs" using n(1) by (auto simp: parse_node_def split: if_splits)
  moreover have "c \<in> fst ` set children" using n(2) by force
  ultimately show "(c, off) \<in> (\<Union>off<length bs. (case parse_node bs off [] of Inr (_, children) \<Rightarrow> fst ` set children | Inl _ \<Rightarrow> {}) \<times> {off})"
    using n' by auto
qed

lemma finite_child_offsets: "finite (child_offsets bs)"
  by (rule finite_subset [OF child_offsets_subset]) (auto split: sum.splits)

text \<open>Without a cycle a node's subtree is walked to its end, or to a node that does not parse.\<close>

lemma parse_subtree:
  assumes "acyclic (child_offsets bs)" "trie_reaches bs off p"
  shows "(\<exists>e. parse_loop bs ((off, p) # rest) found = Some (Err e)) \<or>
    (\<exists>found'. parse_loop bs ((off, p) # rest) found = parse_loop bs rest found')"
  using finite_acyclic_wf [OF finite_child_offsets assms(1)] assms(2)
proof (induction off arbitrary: p rest found rule: wf_induct_rule)
  case (less off)
  show ?case
  proof (cases "parse_node bs off p")
    case (Inl e)
    then show ?thesis by (subst (1) parse_loop.simps) simp
  next
    case (Inr r)
    obtain fnd children where r: "parse_node bs off p = Ok (fnd, children)" using Inr by (cases r) simp
    have "(\<exists>e. parse_loop bs (ks @ rest) found = Some (Err e)) \<or>
        (\<exists>found'. parse_loop bs (ks @ rest) found = parse_loop bs rest found')"
      if "set ks \<subseteq> set children" for ks found
      using that
    proof (induction ks arbitrary: found)
      case (Cons x ks)
      obtain c q where x: "x = (c, q)" by (cases x)
      then have "(c, off) \<in> child_offsets bs" "trie_reaches bs c q"
        using Cons.prems less.prems r by (auto simp: child_offsets_def intro: trie_reaches.child)
      from less.IH [OF this, of "ks @ rest" found] show ?case using Cons x by fastforce
    qed auto
    moreover have "parse_loop bs ((off, p) # rest) found = parse_loop bs (children @ rest) (found @ fnd)"
      using r by (subst parse_loop.simps) simp
    ultimately show ?thesis by simp
  qed
qed

text \<open>What a walk that ends has seen: trees that parse, without end nowhere.\<close>

inductive sound_tree :: "bytes \<Rightarrow> nat \<Rightarrow> bytes \<Rightarrow> bool" for bs where
  "parse_node bs off p = Ok (found, children) \<Longrightarrow> \<forall>(c, q)\<in>set children. sound_tree bs c q \<Longrightarrow> sound_tree bs off p"

inductive_cases sound_treeE: "sound_tree bs off p"

lemma sound_tree_acc: "sound_tree bs off p \<Longrightarrow> off \<in> Wellfounded.acc (child_offsets bs)"
proof (induction rule: sound_tree.induct)
  case (1 off p found children)
  show ?case
  proof (rule acc.intros)
    fix c assume "(c, off) \<in> child_offsets bs"
    then obtain p' found' children' q where n: "parse_node bs off p' = Ok (found', children')" "(c, q) \<in> set children'"
      by (auto simp: child_offsets_def)
    have "fst ` set children = fst ` set children'" by (rule parse_node_children [OF n(1), of p]) (simp add: 1(1))
    moreover have "c \<in> fst ` set children'" using n(2) by force
    ultimately have "c \<in> fst ` set children" by simp
    then obtain x where "x \<in> set children" "c = fst x" by blast
    then show "c \<in> Wellfounded.acc (child_offsets bs)" using 1(2) by (auto simp: split_beta)
  qed
qed

lemma sound_tree_reaches:
  assumes "trie_reaches bs off p" "sound_tree bs 0 []"
  shows "sound_tree bs off p"
  using assms
proof (induction rule: trie_reaches.induct)
  case (child off p found children c q)
  then show ?case by (auto elim!: sound_treeE)
qed

lemma sound_tree_acyclic:
  assumes "sound_tree bs 0 []"
  shows "acyclic (child_offsets bs)"
proof -
  have "off \<in> Wellfounded.acc (child_offsets bs)" for off
  proof (cases "\<exists>p. trie_reaches bs off p")
    case True
    then obtain p where "trie_reaches bs off p" ..
    from sound_tree_acc [OF sound_tree_reaches [OF this assms]] show ?thesis .
  next
    case False
    show ?thesis by (rule acc.intros) (use False in \<open>simp add: child_offsets_def\<close>)
  qed
  then have "wf (child_offsets bs)" by (blast intro: acc_wfI)
  then show ?thesis by (rule wf_acyclic)
qed

lemma parse_loop_returns:
  assumes "parse_loop bs stack found = Some r" "\<forall>(off, p)\<in>set stack. trie_reaches bs off p"
  shows "case r of Inl e \<Rightarrow> \<exists>off p. trie_reaches bs off p \<and> parse_node bs off p = Err e
    | Inr _ \<Rightarrow> \<forall>(off, p)\<in>set stack. sound_tree bs off p"
proof -
  let ?P = "\<lambda>bs stack (found :: macho_export list) r. (\<forall>(off, p)\<in>set stack. trie_reaches bs off p) \<longrightarrow>
    (case r of Inl e \<Rightarrow> \<exists>off p. trie_reaches bs off p \<and> parse_node bs off p = Err e
     | Inr (_ :: macho_export list) \<Rightarrow> \<forall>(off, p)\<in>set stack. sound_tree bs off p)"
  have "?P bs stack found r"
    using assms(1)
  proof (rule parse_loop.raw_induct [where P = ?P, rotated])
    fix loop :: "bytes \<Rightarrow> (nat \<times> bytes) list \<Rightarrow> macho_export list \<Rightarrow> (container_write_error + macho_export list) option"
      and bs stack found r
    assume ih: "\<And>bs stack found r. loop bs stack found = Some r \<Longrightarrow> ?P bs stack found r"
      and body: "(case stack of [] \<Rightarrow> Some (Ok found)
        | (node_off, prefix) # rest \<Rightarrow>
            (case parse_node bs node_off prefix of
               Inl e \<Rightarrow> Some (Err e)
             | Inr (new, children) \<Rightarrow> loop bs (children @ rest) (found @ new))) = Some r"
    show "?P bs stack found r"
    proof
      assume reach: "\<forall>(off, p)\<in>set stack. trie_reaches bs off p"
      show "case r of Inl e \<Rightarrow> \<exists>off p. trie_reaches bs off p \<and> parse_node bs off p = Err e
        | Inr _ \<Rightarrow> \<forall>(off, p)\<in>set stack. sound_tree bs off p"
      proof (cases stack)
        case Nil
        then show ?thesis using body by auto
      next
        case (Cons x rest)
        obtain off p where x: "x = (off, p)" by (cases x)
        show ?thesis
        proof (cases "parse_node bs off p")
          case (Inl e)
          then have "r = Err e" "trie_reaches bs off p" using body reach Cons x by auto
          then show ?thesis using Inl by (simp only: sum.case) blast
        next
          case (Inr n)
          obtain new children where n: "parse_node bs off p = Ok (new, children)" using Inr by (cases n) simp
          have l: "loop bs (children @ rest) (found @ new) = Some r" using body Cons x n by simp
          have "\<forall>(c, q)\<in>set (children @ rest). trie_reaches bs c q"
            using reach Cons x n by (auto intro: trie_reaches.child)
          note below = mp [OF ih [OF l] this]
          show ?thesis
          proof (cases r)
            case (Inl e)
            then show ?thesis using below by simp
          next
            case (Inr es)
            then have "\<forall>(c, q)\<in>set children. sound_tree bs c q" "\<forall>(c, q)\<in>set rest. sound_tree bs c q"
              using below by auto
            then show ?thesis using sound_tree.intros [OF n] Inr by (simp add: Cons x)
          qed
        qed
      qed
    qed
  qed
  then show ?thesis using assms(2) by blast
qed

text \<open>C29: when the parser of export tries returns. It fails to return only on a file in which a node is
  its own descendant, among the nodes that can be reached from the root; it returns an error only when
  a reachable node does not parse, and the error is that node's; and it returns exports only when
  every reachable node parses and none is its own descendant, or the file is empty. What bytes outside of the reachable
  nodes hold does not matter.\<close>

theorem parse_exports_ends:
  "case parse_exports bs of
     None \<Rightarrow> \<not> acyclic (child_offsets bs)
   | Some (Inl e) \<Rightarrow> e \<in> parse_failures bs
   | Some (Inr exports) \<Rightarrow> acyclic (child_offsets bs) \<and> (if bs = [] then exports = [] else parse_failures bs = {})"
proof (cases "bs = []")
  case True
  have "child_offsets [] = {}" using child_offsets_subset [of "[]"] by simp
  then show ?thesis using True by (simp add: parse_exports_def acyclic_def)
next
  case False
  then have e: "parse_exports bs = parse_loop bs [(0, [])] []" by (simp add: parse_exports_def)
  have start: "\<forall>(off, p)\<in>set [(0, [])]. trie_reaches bs off p" by (simp add: trie_reaches.root)
  show ?thesis
  proof (cases "parse_exports bs")
    case None
    have "parse_loop bs [] found = Some (Ok found)" for found by (simp add: parse_loop.simps)
    then have "\<not> acyclic (child_offsets bs)"
      using parse_subtree [of bs 0 "[]" "[]" "[]"] trie_reaches.root [of bs] None e by auto
    then show ?thesis by (simp add: None)
  next
    case (Some r)
    note ret = parse_loop_returns [OF Some [unfolded e] start]
    show ?thesis
    proof (cases r)
      case (Inl err)
      then show ?thesis using ret Some by (simp add: parse_failures_def)
    next
      case (Inr exports)
      then have "sound_tree bs 0 []" using ret by simp
      note sound = sound_tree_reaches [OF _ this] and acyclic = sound_tree_acyclic [OF this]
      have "parse_node bs off p \<noteq> Err e" if "trie_reaches bs off p" for off p e
        using sound [OF that] by (auto elim: sound_treeE)
      then show ?thesis using Some Inr acyclic False by (simp add: parse_failures_def)
    qed
  qed
qed

text \<open>A file whose root lists itself as a child is walked for ever, its path growing each time.\<close>

lemma parse_exports_cycle: "parse_exports [0, 1, 97, 0, 0] = None"
proof -
  let ?bs = "[0, 1, 97, 0, 0] :: bytes"
  have node: "parse_node ?bs 0 prefix = Ok ([], [(0, prefix @ [97])])" for prefix
    by (simp add: parse_node_def read_uleb128_def read_uleb_loop.simps terminal_export_def read_cstring_def
          cstring_end.simps)
  let ?P = "\<lambda>bs stack (found :: macho_export list) (r :: container_write_error + macho_export list).
    bs = ?bs \<longrightarrow> (\<forall>prefix. stack \<noteq> [(0 :: nat, prefix)])"
  have "?P bs stack found r" if "parse_loop bs stack found = Some r" for bs stack found r
    using that
  proof (rule parse_loop.raw_induct [where P = ?P, rotated])
    fix loop :: "bytes \<Rightarrow> (nat \<times> bytes) list \<Rightarrow> macho_export list \<Rightarrow> (container_write_error + macho_export list) option"
      and bs stack found r
    assume ih: "\<And>bs stack found r. loop bs stack found = Some r \<Longrightarrow> ?P bs stack found r"
      and body: "(case stack of [] \<Rightarrow> Some (Ok found)
        | (node_off, prefix) # rest \<Rightarrow>
            (case parse_node bs node_off prefix of
               Inl e \<Rightarrow> Some (Err e)
             | Inr (new, children) \<Rightarrow> loop bs (children @ rest) (found @ new))) = Some r"
    show "?P bs stack found r"
    proof (intro impI allI notI)
      fix prefix assume eq: "bs = ?bs" "stack = [(0, prefix)]"
      then have "loop ?bs [(0, prefix @ [97])] found = Some r" using body node [of prefix] by simp
      then show False using ih by blast
    qed
  qed
  then show ?thesis
    by (simp add: parse_exports_def) (metis option.exhaust)
qed

text \<open>The builder splits an edge at any byte, and panics when the byte is inside a character: here
  for two exports named by one accented letter each.\<close>

lemma build_exports_splits_characters:
  "build_exports [\<lparr>mex_name = [0xC3, 0xA9], mex_flags = 0, mex_address_offset = 0\<rparr>,
                  \<lparr>mex_name = [0xC3, 0xA8], mex_flags = 0, mex_address_offset = 8\<rparr>] = None"
  by code_simp

end
