(* ===== verification/Macho_Grow.thy ===== *)
theory Macho_Grow
  imports Uleb Le_Bytes
begin

text \<open>
  What a grown \<open>__TEXT\<close> segment of a Mach-O image makes necessary outside the code
  (\<open>src/src/container/\<close>): the rebase opcodes of \<open>LC_DYLD_INFO\<close> and the pointers they name
  (\<open>macho_dyld_info.rs\<close>), the symbol table (\<open>macho_symtab.rs\<close>) and the compact unwind section
  (\<open>macho_unwind.rs\<close>). The first and last report errors as strings, given here by a constructor with
  the values the message shows.
\<close>

section \<open>The symbol table\<close>

record nlist64 =
  n_strx :: u32
  n_type :: u8
  n_sect :: u8
  n_desc :: "16 word"
  n_value :: u64

definition nlist_to_bytes :: "nlist64 \<Rightarrow> bytes" where
  "nlist_to_bytes n = le32 (n_strx n) @ [n_type n, n_sect n] @ le16 (n_desc n) @ le64 (n_value n)"

definition nlist_from_bytes :: "bytes \<Rightarrow> nlist64" where
  "nlist_from_bytes bs =
     \<lparr>n_strx = of_le (take 4 bs), n_type = bs ! 4, n_sect = bs ! 5,
      n_desc = of_le (take 2 (drop 6 bs)), n_value = of_le (take 8 (drop 8 bs))\<rparr>"

fun chunks_exact :: "nat \<Rightarrow> bytes \<Rightarrow> nat \<Rightarrow> bytes list" where
  "chunks_exact n bs 0 = []"
| "chunks_exact n bs (Suc k) = take n bs # chunks_exact n (drop n bs) k"

definition parse_symtab :: "bytes \<Rightarrow> container_write_error + nlist64 list" where
  "parse_symtab bs =
     (if length bs mod 16 \<noteq> 0 then
        Err (CW_ObjectWrite (''Mach-O symtab: byte length '' @ decimal (length bs) @ '' not a multiple of 16''))
      else Ok (map nlist_from_bytes (chunks_exact 16 bs (length bs div 16))))"

definition encode_symtab :: "nlist64 list \<Rightarrow> bytes" where
  "encode_symtab es = concat (map nlist_to_bytes es)"

definition append_strtab :: "bytes \<Rightarrow> bytes \<Rightarrow> u32 \<times> bytes" where
  "append_strtab source new_name = (word_of_nat (length source), source @ new_name @ [0])"

definition external_defined_nlist :: "u32 \<Rightarrow> u8 \<Rightarrow> u64 \<Rightarrow> nlist64" where
  "external_defined_nlist strtab_offset sect v =
     \<lparr>n_strx = strtab_offset, n_type = 0x01 OR 0x0e, n_sect = sect, n_desc = 0, n_value = v\<rparr>"

definition shift_symbol_value :: "u64 \<Rightarrow> u64 \<Rightarrow> nlist64 \<Rightarrow> nlist64" where
  "shift_symbol_value growth_point delta e =
     (if n_type e AND 0xe0 = 0 \<and> n_type e AND 0x0e = 0x0e \<and> growth_point \<le> n_value e
      then e\<lparr>n_value := n_value e + delta\<rparr> else e)"

definition shift_defined_symbol_values :: "nlist64 list \<Rightarrow> u64 \<Rightarrow> u64 \<Rightarrow> nlist64 list" where
  "shift_defined_symbol_values es growth_point delta = map (shift_symbol_value growth_point delta) es"

interpretation nlist: le_field 16 nlist_to_bytes nlist_from_bytes
proof unfold_locales
  show "nlist_from_bytes (nlist_to_bytes n) = n" for n
    by (simp add: nlist_from_bytes_def nlist_to_bytes_def of_le_le_bytes nth_append)
  show "nlist_to_bytes (nlist_from_bytes bs) = bs" if len: "length bs = 16" for bs
  proof -
    have "bs = take 4 bs @ [bs ! 4, bs ! 5] @ take 2 (drop 6 bs) @ take 8 (drop 8 bs)"
      using len by (intro nth_equalityI) (auto simp: nth_append nth_Cons' less_Suc_eq numeral_eq_Suc)
    then show ?thesis
      using len by (simp add: nlist_from_bytes_def nlist_to_bytes_def le_bytes_of_le)
  qed
qed (simp_all add: nlist_to_bytes_def)

lemma chunks_exact_entries: "chunks_exact 16 (encode_symtab es) (length es) = map nlist_to_bytes es"
  by (induction es) (simp_all add: encode_symtab_def)

lemma concat_chunks: "length bs = n * k \<Longrightarrow> concat (chunks_exact n bs k) = bs"
  by (induction k arbitrary: bs) simp_all

lemma length_chunk: "length bs = n * k \<Longrightarrow> c \<in> set (chunks_exact n bs k) \<Longrightarrow> length c = n"
proof (induction k arbitrary: bs)
  case (Suc k)
  then show ?case using Suc.IH [of "drop n bs"] by auto
qed simp

text \<open>A byte string is a symbol table exactly when it is the encoding of a list of entries, and parsing
  it gives those entries.\<close>

theorem parse_symtab_exact: "parse_symtab bs = Ok es \<longleftrightarrow> bs = encode_symtab es"
proof
  assume parse: "parse_symtab bs = Ok es"
  then have "length bs mod 16 = 0" by (simp add: parse_symtab_def split: if_splits)
  then have "16 dvd length bs" by (simp add: dvd_eq_mod_eq_0)
  then have len: "length bs = 16 * (length bs div 16)" by (rule dvd_mult_div_cancel [symmetric])
  have es: "es = map nlist_from_bytes (chunks_exact 16 bs (length bs div 16))"
    using parse by (simp add: parse_symtab_def split: if_splits)
  have "encode_symtab es = concat (chunks_exact 16 bs (length bs div 16))"
    unfolding encode_symtab_def es map_map
  proof (intro arg_cong [of _ _ concat] map_idI)
    fix c assume "c \<in> set (chunks_exact 16 bs (length bs div 16))"
    from length_chunk [OF len this] show "(nlist_to_bytes \<circ> nlist_from_bytes) c = c" by (simp add: nlist.put_get)
  qed
  then show "bs = encode_symtab es" using concat_chunks [OF len] by simp
next
  assume bs: "bs = encode_symtab es"
  have len: "length bs = 16 * length es" unfolding bs encode_symtab_def by (rule nlist.length_array)
  then have "length bs mod 16 = 0" "length bs div 16 = length es" by simp_all
  moreover have "map nlist_from_bytes (chunks_exact 16 bs (length es)) = es"
    unfolding bs chunks_exact_entries by (simp add: map_idI)
  ultimately show "parse_symtab bs = Ok es" by (simp only: parse_symtab_def) simp
qed

section \<open>Rebase information\<close>

datatype rebase_error =
    RE_TruncatedUleb
  | RE_NoSegment
  | RE_UnsupportedType u8
  | RE_UnknownOpcode u8
  | RE_GrowthOutsideSegments
  | RE_SegmentOutOfRange nat
  | RE_OutsideFile nat u64 string
  | RE_PastImage

record rebase_location =
  rl_segment :: nat
  rl_offset :: u64

record dyld_info =
  di_command_offset :: nat
  di_rebase :: "u64 \<times> u64"
  di_export :: "u64 \<times> u64"

definition EXPORT_FIELD_OFFSET :: nat where "EXPORT_FIELD_OFFSET = 40"

text \<open>The two command numbers are constants of the \<open>object\<close> package.\<close>

function find_loop :: "u32 \<Rightarrow> u32 \<Rightarrow> bytes \<Rightarrow> nat \<Rightarrow> nat \<Rightarrow> dyld_info option" where
  "find_loop lc_info lc_info_only bs end_at cursor =
     (if cursor + 8 \<le> end_at then
        Option.bind (u32_at bs cursor) (\<lambda>cmd.
        Option.bind (u32_at bs (cursor + 4)) (\<lambda>cmdsize.
          if cmdsize = 0 then None
          else if (cmd = lc_info \<or> cmd = lc_info_only) \<and> 48 \<le> cmdsize then
            Option.bind (u32_at bs (cursor + 8)) (\<lambda>rebase_off.
            Option.bind (u32_at bs (cursor + 12)) (\<lambda>rebase_size.
            Option.bind (u32_at bs (cursor + 40)) (\<lambda>export_off.
            Option.bind (u32_at bs (cursor + 44)) (\<lambda>export_size.
              Some \<lparr>di_command_offset = cursor, di_rebase = (ucast rebase_off, ucast rebase_size),
                    di_export = (ucast export_off, ucast export_size)\<rparr>))))
          else find_loop lc_info lc_info_only bs end_at (cursor + unat cmdsize)))
      else None)"
  by pat_completeness auto
termination
proof (relation "measure (\<lambda>(_, _, _, end_at, cursor). end_at - cursor)")
  fix lc_info lc_info_only bs and end_at cursor :: nat and cmd cmdsize :: u32
  assume "cursor + 8 \<le> end_at" "cmdsize \<noteq> 0"
  moreover have "0 < unat cmdsize" using \<open>cmdsize \<noteq> 0\<close> by (simp add: unat_gt_0)
  ultimately show "((lc_info, lc_info_only, bs, end_at, cursor + unat cmdsize), (lc_info, lc_info_only, bs, end_at, cursor))
      \<in> measure (\<lambda>(_, _, _, end_at, cursor). end_at - cursor)" by simp
qed simp

declare find_loop.simps [simp del]

definition dyld_info_find :: "u32 \<Rightarrow> u32 \<Rightarrow> bytes \<Rightarrow> dyld_info option" where
  "dyld_info_find lc_info lc_info_only bs =
     Option.bind (u32_at bs 20) (\<lambda>sizeofcmds. find_loop lc_info lc_info_only bs (32 + unat sizeofcmds) 32)"

function rebase_uleb_loop :: "bytes \<Rightarrow> nat \<Rightarrow> nat \<Rightarrow> u64 \<Rightarrow> rebase_error + u64 \<times> nat" where
  "rebase_uleb_loop opcodes at shift acc =
     (if length opcodes \<le> at then Err RE_TruncatedUleb
      else
        let byte = opcodes ! at;
            acc = (if shift < 64 then acc OR push_bit shift (ucast (byte AND 0x7f)) else acc)
        in if byte AND 0x80 = 0 then Ok (acc, Suc at)
           else rebase_uleb_loop opcodes (Suc at) (shift + 7) acc)"
  by pat_completeness auto
termination
  by (relation "measure (\<lambda>(opcodes, at, _). length opcodes - at)") auto

declare rebase_uleb_loop.simps [simp del]

definition rebase_uleb :: "bytes \<Rightarrow> nat \<Rightarrow> rebase_error + u64 \<times> nat" where
  "rebase_uleb opcodes at = rebase_uleb_loop opcodes at 0 0"

record rebase_state =
  rs_out :: "rebase_location list"
  rs_segment :: "nat option"
  rs_offset :: u64
  rs_kind :: u8

definition rebase_emit :: "rebase_state \<Rightarrow> rebase_error + rebase_state" where
  "rebase_emit s =
     (case rs_segment s of
        None \<Rightarrow> Err RE_NoSegment
      | Some seg \<Rightarrow>
          if rs_kind s \<noteq> 1 then Err (RE_UnsupportedType (rs_kind s))
          else Ok (s\<lparr>rs_out := rs_out s @ [\<lparr>rl_segment = seg, rl_offset = rs_offset s\<rparr>]\<rparr>))"

fun rebase_times :: "nat \<Rightarrow> u64 \<Rightarrow> rebase_state \<Rightarrow> rebase_error + rebase_state" where
  "rebase_times 0 skip s = Ok s"
| "rebase_times (Suc n) skip s =
     and_then (rebase_emit s) (\<lambda>s. rebase_times n skip (s\<lparr>rs_offset := rs_offset s + skip + 8\<rparr>))"

definition rebase_opcode :: "bytes \<Rightarrow> nat \<Rightarrow> u8 \<Rightarrow> u8 \<Rightarrow> rebase_state \<Rightarrow> rebase_error + rebase_state \<times> nat" where
  "rebase_opcode opcodes at opcode imm s =
     (if opcode = 0x10 then Ok (s\<lparr>rs_kind := imm\<rparr>, at)
      else if opcode = 0x20 then
        and_then (rebase_uleb opcodes at) (\<lambda>(offset, at).
          Ok (s\<lparr>rs_segment := Some (unat imm), rs_offset := offset\<rparr>, at))
      else if opcode = 0x30 then
        and_then (rebase_uleb opcodes at) (\<lambda>(add, at). Ok (s\<lparr>rs_offset := rs_offset s + add\<rparr>, at))
      else if opcode = 0x40 then Ok (s\<lparr>rs_offset := rs_offset s + ucast imm * 8\<rparr>, at)
      else if opcode = 0x50 then and_then (rebase_times (unat imm) 0 s) (\<lambda>s. Ok (s, at))
      else if opcode = 0x60 then
        and_then (rebase_uleb opcodes at) (\<lambda>(count, at). and_then (rebase_times (unat count) 0 s) (\<lambda>s. Ok (s, at)))
      else if opcode = 0x70 then
        and_then (rebase_emit s) (\<lambda>s.
        and_then (rebase_uleb opcodes at) (\<lambda>(skip, at). Ok (s\<lparr>rs_offset := rs_offset s + skip + 8\<rparr>, at)))
      else if opcode = 0x80 then
        and_then (rebase_uleb opcodes at) (\<lambda>(count, at).
        and_then (rebase_uleb opcodes at) (\<lambda>(skip, at).
        and_then (rebase_times (unat count) skip s) (\<lambda>s. Ok (s, at))))
      else Err (RE_UnknownOpcode opcode))"

lemma rebase_uleb_loop_advances: "rebase_uleb_loop opcodes at shift acc = Ok (v, at') \<Longrightarrow> at < at'"
proof (induction opcodes at shift acc rule: rebase_uleb_loop.induct)
  case (1 opcodes at shift acc)
  then show ?case
    by (subst (asm) (2) rebase_uleb_loop.simps) (auto simp: Let_def split: if_splits; metis Suc_lessD)
qed

lemma rebase_opcode_advances: "rebase_opcode opcodes at opcode imm s = Ok (s', at') \<Longrightarrow> at \<le> at'"
  by (auto simp: rebase_opcode_def rebase_uleb_def and_then_Ok_iff split: if_splits
      dest!: rebase_uleb_loop_advances)

function rebase_loop :: "bytes \<Rightarrow> nat \<Rightarrow> rebase_state \<Rightarrow> rebase_error + rebase_location list" where
  "rebase_loop opcodes at s =
     (if length opcodes \<le> at then Ok (rs_out s)
      else
        let byte = opcodes ! at; imm = byte AND 0x0F; opcode = byte AND 0xF0
        in if opcode = 0 then Ok (rs_out s)
           else
             (case rebase_opcode opcodes (Suc at) opcode imm s of
                Inl e \<Rightarrow> Err e
              | Inr (s', at') \<Rightarrow> rebase_loop opcodes at' s'))"
  by pat_completeness auto
termination
  by (relation "measure (\<lambda>(opcodes, at, _). length opcodes - at)")
     (auto dest!: rebase_opcode_advances [OF sym] rebase_opcode_advances)

declare rebase_loop.simps [simp del]

definition rebase_locations :: "bytes \<Rightarrow> rebase_error + rebase_location list" where
  "rebase_locations opcodes =
     rebase_loop opcodes 0 \<lparr>rs_out = [], rs_segment = None, rs_offset = 0, rs_kind = 1\<rparr>"

definition growth_segment :: "macho_segment list \<Rightarrow> u64 \<Rightarrow> macho_segment option" where
  "growth_segment segments growth_point =
     List.find (\<lambda>s. 0 < seg_filesize s \<and> seg_fileoff s \<le> growth_point \<and> growth_point < seg_fileoff s + seg_filesize s)
       segments"

definition moved_slot :: "macho_segment \<Rightarrow> rebase_location \<Rightarrow> u64 \<Rightarrow> u64 \<Rightarrow> nat" where
  "moved_slot seg loc growth_point delta =
     (let original = seg_fileoff seg + rl_offset loc
      in unat (if growth_point \<le> original then original + delta else original))"

fun shift_locations ::
    "macho_segment list \<Rightarrow> u64 \<Rightarrow> u64 \<Rightarrow> u64 \<Rightarrow> rebase_location list \<Rightarrow> bytes \<Rightarrow> nat \<Rightarrow> rebase_error + bytes \<times> nat" where
  "shift_locations segments growth_point delta growth_va [] bs shifted = Ok (bs, shifted)"
| "shift_locations segments growth_point delta growth_va (loc # locs) bs shifted =
     (case vec_get segments (rl_segment loc) of
        None \<Rightarrow> Err (RE_SegmentOutOfRange (rl_segment loc))
      | Some seg \<Rightarrow>
          if seg_filesize seg < rl_offset loc + 8 then
            Err (RE_OutsideFile (rl_segment loc) (rl_offset loc) (seg_name seg))
          else
            let at = moved_slot seg loc growth_point delta in
            (case u64_at bs at of
               None \<Rightarrow> Err RE_PastImage
             | Some v \<Rightarrow>
                 if growth_va \<le> v
                 then shift_locations segments growth_point delta growth_va locs
                        (the (write_at bs at (le64 (v + delta)))) (Suc shifted)
                 else shift_locations segments growth_point delta growth_va locs bs shifted))"

definition shift_rebased_pointers ::
    "bytes \<Rightarrow> macho_segment list \<Rightarrow> rebase_location list \<Rightarrow> u64 \<Rightarrow> u64 \<Rightarrow> rebase_error + bytes \<times> nat" where
  "shift_rebased_pointers bs segments locs growth_point delta =
     (case growth_segment segments growth_point of
        None \<Rightarrow> Err RE_GrowthOutsideSegments
      | Some grown \<Rightarrow>
          shift_locations segments growth_point delta (seg_vmaddr grown + (growth_point - seg_fileoff grown)) locs bs 0)"

section \<open>Unwind information\<close>

datatype unwind_error = UE_Read nat | UE_Overflow | UE_Version | UE_Page | UE_PageKind u32 | UE_LsdaIndex

definition unwind_rd :: "bytes \<Rightarrow> nat \<Rightarrow> unwind_error + u32" where
  "unwind_rd b at = ok_or (u32_at b at) (UE_Read at)"

definition shift_at :: "u64 \<Rightarrow> u64 \<Rightarrow> bytes \<Rightarrow> nat \<Rightarrow> unwind_error + bytes" where
  "shift_at growth_point delta b at =
     and_then (unwind_rd b at) (\<lambda>v.
       if growth_point \<le> ucast v then
         (let shifted = ucast v + delta in
          if shifted \<le> 0xFFFFFFFF then Ok (the (write_at b at (le32 (ucast shifted)))) else Err UE_Overflow)
       else Ok b)"

abbreviation "shift_all growth_point delta \<equiv> patch_all (shift_at growth_point delta)"

definition unwind_page :: "bytes \<Rightarrow> nat \<Rightarrow> unwind_error + nat list" where
  "unwind_page b page =
     and_then (unwind_rd b page) (\<lambda>kind.
       if kind = 2 then
         and_then (ok_or (u16_at b (page + 4)) UE_Page) (\<lambda>entry_page_off.
         and_then (ok_or (u16_at b (page + 6)) UE_Page) (\<lambda>count.
           Ok (map (\<lambda>j. page + unat entry_page_off + j * 8) [0..<unat count])))
       else if kind = 3 then Ok []
       else Err (UE_PageKind kind))"

fun shift_pages :: "u64 \<Rightarrow> u64 \<Rightarrow> nat \<Rightarrow> nat \<Rightarrow> (u32 \<times> u32) list \<Rightarrow> bytes \<Rightarrow> unwind_error + bytes" where
  "shift_pages growth_point delta index_off i [] b = Ok b"
| "shift_pages growth_point delta index_off i ((second_level, lsda) # entries) b =
     and_then (shift_at growth_point delta b (index_off + i * 12)) (\<lambda>b.
     and_then (if second_level \<noteq> 0 then unwind_page b (unat second_level) else Ok []) (\<lambda>fields.
     and_then (shift_all growth_point delta fields b) (\<lambda>b.
       shift_pages growth_point delta index_off (Suc i) entries b)))"

definition lsda_fields :: "(u32 \<times> u32) list \<Rightarrow> unwind_error + nat list" where
  "lsda_fields entries =
     (if entries = [] then Ok []
      else
        let start = unat (snd (hd entries)); end_at = unat (snd (List.last entries)) in
        if end_at < start \<or> (end_at - start) mod 8 \<noteq> 0 then Err UE_LsdaIndex
        else Ok (concat (map (\<lambda>k. [start + 8 * k, start + 8 * k + 4]) [0..<(end_at - start) div 8])))"

definition index_entry :: "bytes \<Rightarrow> nat \<Rightarrow> nat \<Rightarrow> unwind_error + u32 \<times> u32" where
  "index_entry b index_off i =
     and_then (unwind_rd b (index_off + i * 12 + 4)) (\<lambda>second_level.
     and_then (unwind_rd b (index_off + i * 12 + 8)) (\<lambda>lsda. Ok (second_level, lsda)))"

definition shift_unwind_info :: "bytes \<Rightarrow> u64 \<Rightarrow> u64 \<Rightarrow> unwind_error + bytes" where
  "shift_unwind_info b growth_point delta =
     and_then (unwind_rd b 0) (\<lambda>version.
     if version \<noteq> 1 then Err UE_Version
     else
       and_then (unwind_rd b 12) (\<lambda>personality_off.
       and_then (unwind_rd b 16) (\<lambda>personality_count.
       and_then (unwind_rd b 20) (\<lambda>index_off.
       and_then (unwind_rd b 24) (\<lambda>index_count.
       and_then (shift_all growth_point delta (map (\<lambda>i. unat personality_off + i * 4) [0..<unat personality_count]) b) (\<lambda>b.
       and_then (collect_results (map (index_entry b (unat index_off)) [0..<unat index_count])) (\<lambda>entries.
       and_then (shift_pages growth_point delta (unat index_off) 0 entries b) (\<lambda>b.
       and_then (lsda_fields entries) (\<lambda>fields. shift_all growth_point delta fields b)))))))))"

section \<open>Rebasing moves exactly the pointers past the growth point\<close>

definition slot_positions :: "macho_segment list \<Rightarrow> rebase_location list \<Rightarrow> u64 \<Rightarrow> u64 \<Rightarrow> nat list" where
  "slot_positions segments locs growth_point delta =
     map (\<lambda>loc. moved_slot (segments ! rl_segment loc) loc growth_point delta) locs"

definition rebase_patch :: "u64 \<Rightarrow> u64 \<Rightarrow> bytes \<Rightarrow> nat \<Rightarrow> rebase_error + bytes" where
  "rebase_patch growth_va delta bs p =
     (case u64_at bs p of
        None \<Rightarrow> Err RE_PastImage
      | Some v \<Rightarrow> Ok (the (write_at bs p (le64 (if growth_va \<le> v then v + delta else v)))))"

lemma write_at_read: "read_at n get bs p = Some x \<Longrightarrow> length v = n \<Longrightarrow> \<exists>bs'. write_at bs p v = Some bs'"
  by (auto simp: read_at_def write_at_def split: if_splits)

lemma rebase_patch_patches:
  assumes "rebase_patch growth_va delta bs p = Ok bs'"
  shows "\<exists>v. u64_at bs p = Some v \<and> write_at bs p (le64 (if growth_va \<le> v then v + delta else v)) = Some bs'"
proof (cases "u64_at bs p")
  case None
  then show ?thesis using assms by (simp add: rebase_patch_def)
next
  case (Some v)
  then obtain bs1 where "write_at bs p (le64 (if growth_va \<le> v then v + delta else v)) = Some bs1"
    using write_at_read [OF Some] length_le_bytes by blast
  then show ?thesis using assms Some by (simp add: rebase_patch_def)
qed

lemma shift_locations_patches:
  "shift_locations segments growth_point delta growth_va locs bs n = Ok (bs', n') \<Longrightarrow>
   patch_all (rebase_patch growth_va delta) (slot_positions segments locs growth_point delta) bs = Ok bs'"
proof (induction segments growth_point delta growth_va locs bs n
       rule: shift_locations.induct)
  case (2 segments growth_point delta growth_va loc locs bs n)
  obtain seg where seg: "rl_segment loc < length segments" "segments ! rl_segment loc = seg"
      "vec_get segments (rl_segment loc) = Some seg"
    using 2(3) by (auto simp: vec_get_def split: if_splits)
  obtain v where v: "u64_at bs (moved_slot seg loc growth_point delta) = Some v"
    using 2(3) seg by (auto simp: Let_def split: if_splits option.splits)
  show ?case
    using 2 seg v u64.write_same [OF v]
    by (auto simp: slot_positions_def rebase_patch_def Let_def split: if_splits)
qed (simp add: slot_positions_def)

lemma shift_locations_count:
  assumes "shift_locations segments growth_point delta growth_va locs bs n = Ok (bs', n')"
    and "fields_apart 8 (slot_positions segments locs growth_point delta)"
  shows "n' = n + length (filter (\<lambda>p. growth_va \<le> the (u64_at bs p)) (slot_positions segments locs growth_point delta))"
  using assms
proof (induction segments growth_point delta growth_va locs bs n
       rule: shift_locations.induct)
  case (2 segments growth_point delta growth_va loc locs bs n)
  obtain seg where seg: "rl_segment loc < length segments" "segments ! rl_segment loc = seg"
      "vec_get segments (rl_segment loc) = Some seg"
    using 2(3) by (auto simp: vec_get_def split: if_splits)
  let ?p = "moved_slot seg loc growth_point delta"
  let ?ps = "slot_positions segments locs growth_point delta"
  obtain v where v: "u64_at bs ?p = Some v" and ok: "\<not> seg_filesize seg < rl_offset loc + 8"
    using 2(3) seg by (auto simp: Let_def split: if_splits option.splits)
  have ps: "slot_positions segments (loc # locs) growth_point delta = ?p # ?ps"
    by (simp add: slot_positions_def seg)
  have apart: "fields_apart 8 ?ps" "\<And>q. q \<in> set ?ps \<Longrightarrow> q + 8 \<le> ?p \<or> ?p + 8 \<le> q"
    using 2(4) unfolding ps by (auto simp: fields_apart_def)
  show ?case
  proof (cases "growth_va \<le> v")
    case True
    obtain bs1 where bs1: "write_at bs ?p (le64 (v + delta)) = Some bs1"
      using write_at_read [OF v] length_le_bytes by blast
    have "n' = Suc n + length (filter (\<lambda>p. growth_va \<le> the (u64_at bs1 p)) ?ps)"
      using 2(1) [OF seg(3) ok refl v True] 2(3) apart(1) True v ok seg(3) by (simp add: Let_def bs1)
    moreover have "filter (\<lambda>p. growth_va \<le> the (u64_at bs1 p)) ?ps = filter (\<lambda>p. growth_va \<le> the (u64_at bs p)) ?ps"
      by (rule filter_cong) (simp_all add: u64.read_elsewhere [OF bs1] apart(2))
    ultimately show ?thesis by (simp add: ps v True)
  next
    case False
    then show ?thesis
      using 2(2) [OF seg(3) ok refl v False] 2(3) apart(1) v ok seg(3) by (simp add: Let_def ps)
  qed
qed (simp add: slot_positions_def)

text \<open>C27: for pointer slots that do not overlap, a grow adds the displacement to exactly the pointers whose
  target lies at or past the growth point, reports how many, and changes nothing else in the image.\<close>

theorem shift_rebased_pointers_exact:
  assumes run: "shift_rebased_pointers bs segments locs growth_point delta = Ok (bs', n)"
    and grown: "growth_segment segments growth_point = Some grown"
    and apart: "fields_apart 8 (slot_positions segments locs growth_point delta)"
  defines "growth_va \<equiv> seg_vmaddr grown + (growth_point - seg_fileoff grown)"
    and "slots \<equiv> slot_positions segments locs growth_point delta"
  shows "length bs' = length bs \<and>
    (\<forall>p\<in>set slots. \<exists>v. u64_at bs p = Some v \<and> u64_at bs' p = Some (if growth_va \<le> v then v + delta else v)) \<and>
    (\<forall>k. (\<forall>p\<in>set slots. k < p \<or> p + 8 \<le> k) \<longrightarrow> bs' ! k = bs ! k) \<and>
    n = length (filter (\<lambda>p. growth_va \<le> the (u64_at bs p)) slots)"
proof -
  have run': "shift_locations segments growth_point delta growth_va locs bs 0 = Ok (bs', n)"
    using run by (simp add: shift_rebased_pointers_def grown growth_va_def)
  note spec = u64.patch_all_spec [OF rebase_patch_patches shift_locations_patches [OF run'] apart]
  show ?thesis
    using spec(1,2,4) shift_locations_count [OF run' apart] unfolding slots_def by auto
qed

section \<open>What a stream of rebase opcodes means\<close>

text \<open>The opcodes as instructions, their encoding, and their effect in closed form.\<close>

datatype rebase_instr =
    RI_Type u8
  | RI_Segment u8 u64
  | RI_Add u64
  | RI_AddScaled u8
  | RI_Times u8
  | RI_TimesUleb u64
  | RI_Once u64
  | RI_TimesSkip u64 u64

fun instr_bytes :: "rebase_instr \<Rightarrow> bytes" where
  "instr_bytes (RI_Type t) = [0x10 OR t]"
| "instr_bytes (RI_Segment seg offset) = (0x20 OR seg) # uleb offset"
| "instr_bytes (RI_Add a) = 0x30 # uleb a"
| "instr_bytes (RI_AddScaled k) = [0x40 OR k]"
| "instr_bytes (RI_Times k) = [0x50 OR k]"
| "instr_bytes (RI_TimesUleb n) = 0x60 # uleb n"
| "instr_bytes (RI_Once skip) = 0x70 # uleb skip"
| "instr_bytes (RI_TimesSkip n skip) = 0x80 # uleb n @ uleb skip"

fun small_immediate :: "rebase_instr \<Rightarrow> bool" where
  "small_immediate (RI_Type t) \<longleftrightarrow> t < 16"
| "small_immediate (RI_Segment seg offset) \<longleftrightarrow> seg < 16"
| "small_immediate (RI_AddScaled k) \<longleftrightarrow> k < 16"
| "small_immediate (RI_Times k) \<longleftrightarrow> k < 16"
| "small_immediate _ \<longleftrightarrow> True"

definition slots_from :: "nat \<Rightarrow> u64 \<Rightarrow> u64 \<Rightarrow> nat \<Rightarrow> rebase_location list" where
  "slots_from seg offset stride n =
     map (\<lambda>i. \<lparr>rl_segment = seg, rl_offset = offset + word_of_nat i * stride\<rparr>) [0..<n]"

definition rebase_slots :: "nat \<Rightarrow> u64 \<Rightarrow> rebase_state \<Rightarrow> rebase_error + rebase_state" where
  "rebase_slots n stride s =
     (if n = 0 then Ok s
      else case rs_segment s of
        None \<Rightarrow> Err RE_NoSegment
      | Some seg \<Rightarrow>
          if rs_kind s \<noteq> 1 then Err (RE_UnsupportedType (rs_kind s))
          else Ok (s\<lparr>rs_out := rs_out s @ slots_from seg (rs_offset s) stride n,
                     rs_offset := rs_offset s + word_of_nat n * stride\<rparr>))"

fun instr_effect :: "rebase_instr \<Rightarrow> rebase_state \<Rightarrow> rebase_error + rebase_state" where
  "instr_effect (RI_Type t) s = Ok (s\<lparr>rs_kind := t\<rparr>)"
| "instr_effect (RI_Segment seg offset) s = Ok (s\<lparr>rs_segment := Some (unat seg), rs_offset := offset\<rparr>)"
| "instr_effect (RI_Add a) s = Ok (s\<lparr>rs_offset := rs_offset s + a\<rparr>)"
| "instr_effect (RI_AddScaled k) s = Ok (s\<lparr>rs_offset := rs_offset s + 8 * ucast k\<rparr>)"
| "instr_effect (RI_Times k) s = rebase_slots (unat k) 8 s"
| "instr_effect (RI_TimesUleb n) s = rebase_slots (unat n) 8 s"
| "instr_effect (RI_Once skip) s = rebase_slots 1 (skip + 8) s"
| "instr_effect (RI_TimesSkip n skip) s = rebase_slots (unat n) (skip + 8) s"

fun instrs_effect :: "rebase_instr list \<Rightarrow> rebase_state \<Rightarrow> rebase_error + rebase_state" where
  "instrs_effect [] s = Ok s"
| "instrs_effect (i # is) s = and_then (instr_effect i s) (instrs_effect is)"

lemma slots_from_Suc:
  "slots_from seg offset stride (Suc n) = \<lparr>rl_segment = seg, rl_offset = offset\<rparr> # slots_from seg (offset + stride) stride n"
  by (simp add: slots_from_def map_upt_Suc algebra_simps del: upt_Suc)

lemma rebase_times_slots: "rebase_times n skip s = rebase_slots n (skip + 8) s"
proof (induction n arbitrary: s)
  case (Suc n)
  show ?case
  proof (cases "\<exists>seg. rs_segment s = Some seg \<and> rs_kind s = 1")
    case False
    then show ?thesis by (auto simp: rebase_emit_def rebase_slots_def split: option.split)
  next
    case True
    then obtain seg where seg: "rs_segment s = Some seg" "rs_kind s = 1" by blast
    let ?s = "s\<lparr>rs_out := rs_out s @ [\<lparr>rl_segment = seg, rl_offset = rs_offset s\<rparr>], rs_offset := rs_offset s + skip + 8\<rparr>"
    have "rebase_times (Suc n) skip s = rebase_slots n (skip + 8) ?s"
      using seg Suc.IH [of ?s] by (simp add: rebase_emit_def)
    also have "\<dots> = rebase_slots (Suc n) (skip + 8) s"
    proof (cases "n = 0")
      case True
      then show ?thesis using seg by (simp add: rebase_slots_def slots_from_Suc slots_from_def add.assoc)
    next
      case False
      then show ?thesis using seg
        by (simp add: rebase_slots_def slots_from_Suc) (simp add: algebra_simps)
    qed
    finally show ?thesis .
  qed
qed (simp add: rebase_slots_def)

lemma rebase_uleb_loop_read:
  "read_uleb_loop bs c shift r = Ok x \<Longrightarrow> rebase_uleb_loop bs c shift r = Ok x"
proof (induction bs c shift r rule: read_uleb_loop.induct)
  case (1 bs c shift r)
  let ?r = "r OR push_bit shift (ucast (bs ! c AND 0x7F))"
  have in_range: "c < length bs" "shift < 64"
    using "1.prems" by (subst (asm) read_uleb_loop.simps, simp split: if_splits)+
  then have read: "(if bs ! c AND 0x80 = 0 then Ok (?r, Suc c) else read_uleb_loop bs (Suc c) (shift + 7) ?r) = Ok x"
    using "1.prems" by (subst (asm) read_uleb_loop.simps) (simp add: Let_def)
  show ?case
  proof (cases "bs ! c AND 0x80 = 0")
    case True
    then show ?thesis using in_range read by (subst rebase_uleb_loop.simps) simp
  next
    case False
    then have "rebase_uleb_loop bs (Suc c) (shift + 7) ?r = Ok x"
      using "1.IH" in_range read by (simp add: not_le)
    then show ?thesis using in_range False by (subst rebase_uleb_loop.simps) simp
  qed
qed

lemma rebase_uleb_at:
  "drop c bs = uleb v @ after \<Longrightarrow> c \<le> length bs \<Longrightarrow> rebase_uleb bs c = Ok (v, c + length (uleb v))"
  using read_uleb_at [of c bs v after] unfolding rebase_uleb_def read_uleb128_def
  by (auto dest: rebase_uleb_loop_read simp: length_uleb)

lemma opcode_bits:
  fixes k :: u8
  assumes "k < 16" "m AND 15 = 0" "m AND 0xF0 = m"
  shows "(m OR k) AND 15 = k" "(m OR k) AND 0xF0 = m"
proof -
  have "unat (k AND mask 4) = unat k mod 16"
    by (simp only: take_bit_eq_mask [symmetric] unsigned_take_bit_eq) (simp add: take_bit_eq_mod)
  moreover have "unat k < 16" using assms(1) by (simp add: word_less_nat_alt)
  ultimately have "k AND mask 4 = k" by (intro word_unat_eq_iff [THEN iffD2]) simp
  then have k: "k AND 15 = k" by (simp add: mask_numeral)
  moreover have "(k AND 15) AND 0xF0 = 0" by (simp add: and.assoc)
  ultimately have "k AND 0xF0 = 0" by simp
  then show "(m OR k) AND 15 = k" "(m OR k) AND 0xF0 = m" using assms k by (simp_all add: bit.conj_disj_distrib2)
qed

lemma rebase_loop_instr:
  assumes d: "drop at ops = instr_bytes i @ after" and small: "small_immediate i"
  shows "rebase_loop ops at s = and_then (instr_effect i s) (\<lambda>s. rebase_loop ops (at + length (instr_bytes i)) s)"
proof -
  obtain b bs where b: "instr_bytes i = b # bs" by (cases i) auto
  have at: "at < length ops" "ops ! at = b" and d1: "drop (Suc at) ops = bs @ after"
  proof -
    show "at < length ops" using d b by (metis append_Cons drop_all list.distinct(1) not_le)
    then show "ops ! at = b" using d b by (metis append_Cons hd_drop_conv_nth list.sel(1))
    show "drop (Suc at) ops = bs @ after" using d b by (metis append_Cons drop_Suc list.sel(3) tl_drop)
  qed
  have le: "Suc at \<le> length ops" using at by simp
  have step: "rebase_loop ops at s =
      (if b AND 0xF0 = 0 then Ok (rs_out s)
       else and_then (rebase_opcode ops (Suc at) (b AND 0xF0) (b AND 0x0F) s) (\<lambda>(s', at'). rebase_loop ops at' s'))"
    using at by (subst rebase_loop.simps) (auto simp: Let_def split: sum.splits)
  note uleb_here = rebase_uleb_at [OF _ le]
  have second: "rebase_uleb ops (Suc at + length (uleb v)) = Ok (w, Suc at + length (uleb v) + length (uleb w))"
    if "bs = uleb v @ uleb w" for v w
  proof -
    have e: "drop (Suc at) ops = uleb v @ uleb w @ after" using d1 that by simp
    then have "drop (Suc at + length (uleb v)) ops = uleb w @ after"
      by (metis add.commute append_eq_conv_conj drop_drop)
    moreover have "Suc at + length (uleb v) \<le> length ops"
      using arg_cong [OF e, of length] le by simp
    ultimately show ?thesis by (rule rebase_uleb_at)
  qed
  show ?thesis
  proof (cases i)
    case (RI_Segment seg offset)
    then show ?thesis using b d1 small opcode_bits [of seg "0x20"] uleb_here [of offset after]
      unfolding step by (auto simp: rebase_opcode_def)
  next
    case (RI_TimesSkip n skip)
    then show ?thesis using b d1 uleb_here [of n "uleb skip @ after"] second [of n skip]
      unfolding step by (cases "instr_effect i s") (auto simp: rebase_opcode_def rebase_times_slots add.assoc)
  next
    case (RI_TimesUleb n)
    then show ?thesis using b d1 uleb_here [of n after]
      unfolding step by (cases "instr_effect i s") (auto simp: rebase_opcode_def rebase_times_slots)
  next
    case (RI_Times k)
    then show ?thesis using b small opcode_bits [of k "0x50"]
      unfolding step by (cases "instr_effect i s") (auto simp: rebase_opcode_def rebase_times_slots)
  next
    case (RI_Once skip)
    have "rebase_slots 1 (skip + 8) s = and_then (rebase_emit s) (\<lambda>s. Ok (s\<lparr>rs_offset := rs_offset s + skip + 8\<rparr>))"
      using rebase_times_slots [of 1 skip s] by simp
    then show ?thesis using RI_Once b d1 uleb_here [of skip after]
      unfolding step by (cases "rebase_emit s") (auto simp: rebase_opcode_def)
  next
    case (RI_Type t)
    then show ?thesis using b small opcode_bits [of t "0x10"] unfolding step by (auto simp: rebase_opcode_def)
  next
    case (RI_AddScaled k)
    then show ?thesis using b small opcode_bits [of k "0x40"]
      unfolding step by (auto simp: rebase_opcode_def mult.commute)
  next
    case (RI_Add a)
    then show ?thesis using b d1 uleb_here [of a after] unfolding step by (auto simp: rebase_opcode_def)
  qed
qed

text \<open>C26: decoding a rebase stream, up to its end or a DONE byte, lists the pointer locations the opcodes
  denote in closed form, and fails exactly as they do.\<close>

theorem rebase_locations_exact:
  assumes "\<forall>i\<in>set is. small_immediate i" "tail = [] \<or> (\<exists>rest. tail = 0 # rest)"
  shows "rebase_locations (concat (map instr_bytes is) @ tail) =
    map_sum id rs_out (instrs_effect is \<lparr>rs_out = [], rs_segment = None, rs_offset = 0, rs_kind = 1\<rparr>)"
proof -
  have "rebase_loop (before @ concat (map instr_bytes is) @ tail) (length before) s = map_sum id rs_out (instrs_effect is s)"
    for before s
    using assms(1)
  proof (induction "is" arbitrary: before s)
    case Nil
    then show ?case using assms(2) by (subst rebase_loop.simps) auto
  next
    case (Cons i "is")
    have "rebase_loop (before @ concat (map instr_bytes (i # is)) @ tail) (length before) s =
        and_then (instr_effect i s)
          (\<lambda>s. rebase_loop (before @ concat (map instr_bytes (i # is)) @ tail) (length before + length (instr_bytes i)) s)"
      by (rule rebase_loop_instr [where after = "concat (map instr_bytes is) @ tail"]) (use Cons.prems in auto)
    then show ?case
      using Cons.IH [of "before @ instr_bytes i"] Cons.prems by (cases "instr_effect i s") simp_all
  qed
  from this [of "[]"] show ?thesis by (simp add: rebase_locations_def)
qed

section \<open>Shifting the unwind section\<close>

text \<open>The image offsets of the section, in the order they are shifted, read from the original bytes; and
  the words that say where they are.\<close>

fun page_fields :: "bytes \<Rightarrow> nat \<Rightarrow> nat \<Rightarrow> (u32 \<times> u32) list \<Rightarrow> unwind_error + nat list" where
  "page_fields b index_off i [] = Ok []"
| "page_fields b index_off i ((second_level, lsda) # entries) =
     and_then (if second_level \<noteq> 0 then unwind_page b (unat second_level) else Ok []) (\<lambda>fields.
     and_then (page_fields b index_off (Suc i) entries) (\<lambda>rest. Ok ((index_off + i * 12) # fields @ rest)))"

definition personality_fields :: "bytes \<Rightarrow> unwind_error + nat list" where
  "personality_fields b =
     and_then (unwind_rd b 12) (\<lambda>off. and_then (unwind_rd b 16) (\<lambda>count.
       Ok (map (\<lambda>i. unat off + i * 4) [0..<unat count])))"

definition index_entries :: "bytes \<Rightarrow> unwind_error + nat \<times> (u32 \<times> u32) list" where
  "index_entries b =
     and_then (unwind_rd b 20) (\<lambda>index_off. and_then (unwind_rd b 24) (\<lambda>count.
     and_then (collect_results (map (index_entry b (unat index_off)) [0..<unat count])) (\<lambda>entries.
       Ok (unat index_off, entries))))"

definition unwind_fields :: "bytes \<Rightarrow> unwind_error + nat list" where
  "unwind_fields b =
     and_then (personality_fields b) (\<lambda>personality.
     and_then (index_entries b) (\<lambda>(index_off, entries).
     and_then (page_fields b index_off 0 entries) (\<lambda>pages.
     and_then (lsda_fields entries) (\<lambda>lsda. Ok (personality @ pages @ lsda)))))"

definition unwind_headers :: "bytes \<Rightarrow> nat list" where
  "unwind_headers b =
     [0, 12, 16, 20, 24] @
     (case index_entries b of
        Inl _ \<Rightarrow> []
      | Inr (index_off, entries) \<Rightarrow>
          concat (map (\<lambda>i. [index_off + i * 12 + 4, index_off + i * 12 + 8]) [0..<length entries]) @
          concat (map (\<lambda>(page, _). [unat page, unat page + 4]) entries))"

definition unwind_well_formed :: "bytes \<Rightarrow> bool" where
  "unwind_well_formed b =
     (case unwind_fields b of
        Inl _ \<Rightarrow> False
      | Inr ps \<Rightarrow> fields_apart 4 ps \<and> (\<forall>p\<in>set ps. \<forall>h\<in>set (unwind_headers b). p + 4 \<le> h \<or> h + 4 \<le> p))"

definition shifted_offset :: "u64 \<Rightarrow> u64 \<Rightarrow> u32 \<Rightarrow> u32" where
  "shifted_offset growth_point delta v = (if growth_point \<le> ucast v then ucast (ucast v + delta :: u64) else v)"

lemma shift_at_patches:
  assumes "shift_at growth_point delta b p = Ok b'"
  shows "\<exists>v. u32_at b p = Some v \<and> write_at b p (le32 (shifted_offset growth_point delta v)) = Some b'"
proof -
  obtain v where v: "u32_at b p = Some v"
    using assms by (cases "u32_at b p") (auto simp: shift_at_def unwind_rd_def)
  obtain b1 where "write_at b p (le32 (shifted_offset growth_point delta v)) = Some b1"
    using write_at_read [OF v] length_le_bytes by blast
  then show ?thesis
    using assms v u32.write_same [OF v]
    by (auto simp: shift_at_def unwind_rd_def shifted_offset_def Let_def split: if_splits)
qed

definition same_at :: "nat list \<Rightarrow> bytes \<Rightarrow> bytes \<Rightarrow> bool" where
  "same_at hs b b' \<longleftrightarrow> length b' = length b \<and> (\<forall>h\<in>set hs. \<forall>k. h \<le> k \<and> k < h + 4 \<longrightarrow> b' ! k = b ! k)"

lemma same_at_read:
  assumes "same_at hs b b'" "\<exists>h\<in>set hs. h \<le> q \<and> q + n \<le> h + 4"
  shows "read_at n get b' q = read_at n get b q"
proof -
  have "take n (drop q b') = take n (drop q b)" if "q + n \<le> length b"
    using assms that by (intro nth_equalityI) (auto simp: same_at_def)
  then show ?thesis using assms(1) by (simp add: read_at_def same_at_def)
qed

lemma same_at_patch:
  assumes "same_at hs b b1" "patch_all (shift_at growth_point delta) ps b1 = Ok b2" "fields_apart 4 ps"
    and "\<forall>p\<in>set ps. \<forall>h\<in>set hs. p + 4 \<le> h \<or> h + 4 \<le> p"
  shows "same_at hs b b2"
proof -
  note spec = u32.patch_all_spec [OF shift_at_patches assms(2,3)]
  have "b2 ! k = b1 ! k" if h: "h \<in> set hs" "h \<le> k" "k < h + 4" for h k
  proof (rule spec(4))
    fix p assume "p \<in> set ps"
    then have "p + 4 \<le> h \<or> h + 4 \<le> p" using assms(4) h(1) by blast
    then show "k < p \<or> p + 4 \<le> k" using h(2,3) by linarith
  qed
  then show ?thesis using assms(1) spec(1) by (auto simp: same_at_def)
qed

lemma unwind_page_same:
  fixes page :: u32
  assumes "same_at hs b b'" "unat page \<in> set hs" "unat page + 4 \<in> set hs"
  shows "unwind_page b' (unat page) = unwind_page b (unat page)"
proof -
  have 1: "u32_at b' (unat page) = u32_at b (unat page)"
    by (rule same_at_read [OF assms(1)]) (use assms(2) in force)
  have 2: "u16_at b' (unat page + 4) = u16_at b (unat page + 4)"
    by (rule same_at_read [OF assms(1)]) (rule bexI [OF _ assms(3)]; simp)
  have 3: "u16_at b' (unat page + 6) = u16_at b (unat page + 6)"
    by (rule same_at_read [OF assms(1)]) (rule bexI [OF _ assms(3)]; simp)
  show ?thesis unfolding unwind_page_def unwind_rd_def 1 2 3 by (rule refl)
qed

lemma fields_apart_append: "fields_apart n (ps @ qs) \<Longrightarrow> fields_apart n ps \<and> fields_apart n qs"
  by (simp add: fields_apart_def sorted_wrt_append)

lemma shift_pages_patches:
  assumes "shift_pages growth_point delta index_off i entries b1 = Ok b2" "page_fields b index_off i entries = Ok ps"
    and "same_at hs b b1" "fields_apart 4 ps" "\<forall>p\<in>set ps. \<forall>h\<in>set hs. p + 4 \<le> h \<or> h + 4 \<le> p"
    and "\<forall>(page, _)\<in>set entries. unat page \<in> set hs \<and> unat page + 4 \<in> set hs"
  shows "patch_all (shift_at growth_point delta) ps b1 = Ok b2"
  using assms
proof (induction growth_point delta index_off i entries b1 arbitrary: ps rule: shift_pages.induct)
  case (2 growth_point delta index_off i second_level lsda entries b1)
  let ?patch = "patch_all (shift_at growth_point delta)"
  let ?page = "\<lambda>b. if second_level \<noteq> 0 then unwind_page b (unat second_level) else Ok []"
  obtain b3 where b3: "shift_at growth_point delta b1 (index_off + i * 12) = Ok b3"
    using 2(2) by (auto simp: and_then_Ok_iff)
  obtain fields rest where f: "?page b = Ok fields" "page_fields b index_off (Suc i) entries = Ok rest"
      "ps = (index_off + i * 12) # fields @ rest"
    using 2(3) by (auto simp: and_then_Ok_iff)
  have apart: "fields_apart 4 [index_off + i * 12]" "fields_apart 4 fields" "fields_apart 4 rest"
    using 2(5) fields_apart_append unfolding f(3) by (force simp: fields_apart_def sorted_wrt_append)+
  have same3: "same_at hs b b3"
    using same_at_patch [OF 2(4), of growth_point delta "[index_off + i * 12]"] b3 apart(1) 2(6) f(3) by simp
  have "?page b3 = ?page b" using unwind_page_same [OF same3] 2(7) by simp
  then obtain b4 where b4: "?patch fields b3 = Ok b4" "shift_pages growth_point delta index_off (Suc i) entries b4 = Ok b2"
    using 2(2) b3 f(1) by (auto simp: and_then_Ok_iff)
  have same4: "same_at hs b b4" by (rule same_at_patch [OF same3 b4(1) apart(2)]) (use 2(6) f(3) in simp)
  have "?patch rest b4 = Ok b2"
    using \<open>?page b3 = ?page b\<close> f(1) 2(6,7) f(3)
    by (intro "2.IH" [OF b3 _ b4 f(2) same4 apart(3)]) auto
  then show ?case using b3 b4(1) by (simp add: f(3) patch_all_append)
qed simp

lemma page_headers:
  "(a, l) \<in> set es \<Longrightarrow> unat a \<in> set (concat (map (\<lambda>(page, _). [unat page, unat page + 4]) es)) \<and>
     unat a + 4 \<in> set (concat (map (\<lambda>(page, _). [unat page, unat page + 4]) es))"
  by (induction es) auto

lemma shift_unwind_info_steps:
  assumes "shift_unwind_info b growth_point delta = Ok b'" "personality_fields b = Ok personality"
  obtains b1 off count entries b2 lsda where
    "patch_all (shift_at growth_point delta) personality b = Ok b1"
    "unwind_rd b 20 = Ok off" "unwind_rd b 24 = Ok count"
    "collect_results (map (index_entry b1 (unat off)) [0..<unat count]) = Ok entries"
    "shift_pages growth_point delta (unat off) 0 entries b1 = Ok b2"
    "lsda_fields entries = Ok lsda" "patch_all (shift_at growth_point delta) lsda b2 = Ok b'"
proof -
  obtain p n where pn: "unwind_rd b 12 = Ok p" "unwind_rd b 16 = Ok n"
      "personality = map (\<lambda>i. unat p + i * 4) [0..<unat n]"
    using assms(2) by (auto simp: personality_fields_def and_then_Ok_iff)
  from assms(1) show thesis
    unfolding shift_unwind_info_def pn(1,2) and_then.simps
    by (clarsimp simp: and_then_Ok_iff pn(3) [symmetric] split: if_split_asm) (erule (6) that)
qed

text \<open>C28: in a section whose image-offset fields do not overlap each other or the words that locate them,
  shifting adds the displacement to exactly the offsets at or past the growth point and changes no
  other byte.\<close>

theorem shift_unwind_info_exact:
  assumes run: "shift_unwind_info b growth_point delta = Ok b'" and wf: "unwind_well_formed b"
  shows "\<exists>ps. unwind_fields b = Ok ps \<and> length b' = length b \<and>
    (\<forall>p\<in>set ps. \<exists>v. u32_at b p = Some v \<and> u32_at b' p = Some (shifted_offset growth_point delta v)) \<and>
    (\<forall>k. (\<forall>p\<in>set ps. k < p \<or> p + 4 \<le> k) \<longrightarrow> b' ! k = b ! k)"
proof -
  let ?patch = "patch_all (shift_at growth_point delta)"
  obtain personality index_off entries pages lsda where
      parts: "personality_fields b = Ok personality" "index_entries b = Ok (index_off, entries)"
        "page_fields b index_off 0 entries = Ok pages" "lsda_fields entries = Ok lsda"
    and ps: "unwind_fields b = Ok (personality @ pages @ lsda)"
    using wf by (auto simp: unwind_well_formed_def unwind_fields_def and_then_Ok_iff split: sum.splits)
  let ?hs = "unwind_headers b"
  have apart: "fields_apart 4 (personality @ pages @ lsda)"
    and hs: "\<forall>p\<in>set (personality @ pages @ lsda). \<forall>h\<in>set ?hs. p + 4 \<le> h \<or> h + 4 \<le> p"
    using wf by (simp_all add: unwind_well_formed_def ps)
  have apart3: "fields_apart 4 personality" "fields_apart 4 pages"
    using apart fields_apart_append by blast+
  obtain b1 off' count' entries' b2 lsda' where run':
      "?patch personality b = Ok b1" "unwind_rd b 20 = Ok off'" "unwind_rd b 24 = Ok count'"
      "collect_results (map (index_entry b1 (unat off')) [0..<unat count']) = Ok entries'"
      "shift_pages growth_point delta (unat off') 0 entries' b1 = Ok b2"
      "lsda_fields entries' = Ok lsda'" "?patch lsda' b2 = Ok b'"
    by (rule shift_unwind_info_steps [OF run parts(1)])
  note b1 = run'(1)
  have "same_at ?hs b b" by (simp add: same_at_def)
  then have same: "same_at ?hs b b1"
    by (rule same_at_patch [OF _ b1 apart3(1)]) (use hs in simp)
  have rd: "unwind_rd b1 h = unwind_rd b h" if "h \<in> set ?hs" for h
  proof -
    have "u32_at b1 h = u32_at b h" by (rule same_at_read [OF same]) (use that in force)
    then show ?thesis by (simp add: unwind_rd_def)
  qed
  have entry: "index_entry b1 index_off i = index_entry b index_off i" if i: "i < length entries" for i
  proof -
    have "index_off + i * 12 + 4 \<in> set ?hs" "index_off + i * 12 + 8 \<in> set ?hs"
      using i unfolding unwind_headers_def parts(2) by auto
    then show ?thesis by (simp only: index_entry_def rd)
  qed
  obtain off count where idx: "unwind_rd b 20 = Ok off" "unwind_rd b 24 = Ok count" "index_off = unat off"
      "collect_results (map (index_entry b index_off) [0..<unat count]) = Ok entries"
    using parts(2) by (auto simp: index_entries_def and_then_Ok_iff)
  have len: "unat count = length entries" using collect_results_length [OF idx(4)] by simp
  have "map (index_entry b1 index_off) [0..<unat count] = map (index_entry b index_off) [0..<unat count]"
    using entry len by simp
  moreover have oc: "off' = off" "count' = count" using run'(2,3) idx(1,2) by simp_all
  ultimately have "entries' = entries" using run'(4) idx(4) by (metis idx(3) sum.inject(2))
  then have same_entries: "off' = off" "entries' = entries" "lsda' = lsda" using run'(6) parts(4) oc by simp_all
  have b2: "shift_pages growth_point delta index_off 0 entries b1 = Ok b2" "?patch lsda b2 = Ok b'"
    using run'(5,7) unfolding same_entries idx(3) by simp_all
  have "?patch pages b1 = Ok b2"
  proof (rule shift_pages_patches [OF b2(1) parts(3) same apart3(2)])
    show "\<forall>p\<in>set pages. \<forall>h\<in>set ?hs. p + 4 \<le> h \<or> h + 4 \<le> p" using hs by simp
    have "unat a \<in> set ?hs \<and> unat a + 4 \<in> set ?hs" if "(a, l) \<in> set entries" for a l
      unfolding unwind_headers_def parts(2) sum.case prod.case set_append
      by (intro conjI UnI2 conjunct1 [OF page_headers [OF that]] conjunct2 [OF page_headers [OF that]])
    then show "\<forall>(page, _)\<in>set entries. unat page \<in> set ?hs \<and> unat page + 4 \<in> set ?hs"
      by (intro ballI) (simp only: split_paired_all prod.case)
  qed
  then have all: "?patch (personality @ pages @ lsda) b = Ok b'" using b1 b2(2) by (simp add: patch_all_append)
  note spec = u32.patch_all_spec [where patch = "shift_at growth_point delta" and change = "shifted_offset growth_point delta",
      OF shift_at_patches all apart]
  show ?thesis
  proof (intro exI [of _ "personality @ pages @ lsda"] conjI ballI allI impI)
    show "length b' = length b" by (rule spec(1))
    show "\<exists>v. u32_at b p = Some v \<and> u32_at b' p = Some (shifted_offset growth_point delta v)"
      if "p \<in> set (personality @ pages @ lsda)" for p
      using spec(2) that by simp
    show "b' ! k = b ! k" if "\<forall>p\<in>set (personality @ pages @ lsda). k < p \<or> p + 4 \<le> k" for k
      using spec(4) that by blast
  qed (rule ps)
qed

lemma rebase_locations_exact_witness:
  "rebase_locations ([0x22] @ uleb 0x10 @ [0x52] @ [0x41] @ [0] @ [0x51]) =
   Ok [\<lparr>rl_segment = 2, rl_offset = 0x10\<rparr>, \<lparr>rl_segment = 2, rl_offset = 0x18\<rparr>]"
proof -
  let ?is = "[RI_Segment 2 0x10, RI_Times 2, RI_AddScaled 1]"
  have "rebase_locations (concat (map instr_bytes ?is) @ [0, 0x51]) =
      map_sum id rs_out (instrs_effect ?is \<lparr>rs_out = [], rs_segment = None, rs_offset = 0, rs_kind = 1\<rparr>)"
    by (rule rebase_locations_exact) auto
  then show ?thesis by (simp add: rebase_slots_def slots_from_def upt_rec)
qed

definition sample_segments :: "macho_segment list" where
  "sample_segments =
     [\<lparr>seg_name = ''__TEXT'', seg_vmaddr = 0x1000, seg_vmsize = 16, seg_fileoff = 0, seg_filesize = 16,
       seg_maxprot = 0, seg_initprot = 0, seg_flags = 0\<rparr>,
      \<lparr>seg_name = ''__DATA'', seg_vmaddr = 0x1010, seg_vmsize = 16, seg_fileoff = 16, seg_filesize = 16,
       seg_maxprot = 0, seg_initprot = 0, seg_flags = 0\<rparr>]"

lemma shift_rebased_pointers_exact_witness:
  "\<exists>bs'. shift_rebased_pointers (replicate 24 0 @ le64 0x1004 @ le64 0x100C) sample_segments
      [\<lparr>rl_segment = 1, rl_offset = 0\<rparr>, \<lparr>rl_segment = 1, rl_offset = 8\<rparr>] 8 8 = Ok (bs', 1) \<and>
    u64_at bs' 24 = Some 0x1004 \<and> u64_at bs' 32 = Some 0x1014"
proof -
  let ?bs = "replicate 24 0 @ le64 0x1004 @ le64 0x100C"
  let ?locs = "[\<lparr>rl_segment = 1, rl_offset = 0\<rparr>, \<lparr>rl_segment = 1, rl_offset = 8\<rparr>]"
  have "case shift_rebased_pointers ?bs sample_segments ?locs 8 8 of Inr (bs, n) \<Rightarrow> n = 1 | Inl _ \<Rightarrow> False" by code_simp
  then obtain bs' where run: "shift_rebased_pointers ?bs sample_segments ?locs 8 8 = Ok (bs', 1)"
    by (auto split: sum.splits)
  have grown: "growth_segment sample_segments 8 = Some (sample_segments ! 0)" by code_simp
  have slots: "slot_positions sample_segments ?locs 8 8 = [24, 32]" by code_simp
  have "fields_apart 8 (slot_positions sample_segments ?locs 8 8)" unfolding slots by (simp add: fields_apart_def)
  from shift_rebased_pointers_exact [OF run grown this, unfolded slots]
  have "\<forall>p\<in>set [24, 32]. \<exists>v. u64_at ?bs p = Some v \<and> u64_at bs' p = Some (if 0x1008 \<le> v then v + 8 else v)"
    by (simp add: sample_segments_def)
  moreover have "u64_at ?bs 24 = Some 0x1004" "u64_at ?bs 32 = Some 0x100C" by code_simp+
  ultimately show ?thesis using run by auto
qed

text \<open>A section with one personality, two index entries, one regular page and one LSDA record.\<close>

definition sample_unwind :: bytes where
  "sample_unwind =
     le32 1 @ le32 0 @ le32 0 @ le32 28 @ le32 1 @ le32 32 @ le32 2 @ le32 0x9000 @
     (le32 0x100 @ le32 56 @ le32 72) @ (le32 0x3000 @ le32 0 @ le32 80) @
     (le32 2 @ le16 8 @ le16 1) @ (le32 0x1800 @ le32 0) @ (le32 0x2000 @ le32 0x5000)"

lemma shift_unwind_info_exact_witness:
  "\<exists>b'. shift_unwind_info sample_unwind 0x1000 0x4000 = Ok b' \<and> u32_at b' 28 = Some 0xd000 \<and> u32_at b' 64 = Some 0x5800"
proof -
  have "case shift_unwind_info sample_unwind 0x1000 0x4000 of Inr b \<Rightarrow> True | Inl _ \<Rightarrow> False" by code_simp
  then obtain b' where run: "shift_unwind_info sample_unwind 0x1000 0x4000 = Ok b'" by (auto split: sum.splits)
  have fields: "unwind_fields sample_unwind = Ok [28, 32, 64, 44, 72, 76]" by code_simp
  have "unwind_headers sample_unwind = [0, 12, 16, 20, 24, 36, 40, 48, 52, 56, 60, 0, 4]" by code_simp
  then have "unwind_well_formed sample_unwind" by (simp add: unwind_well_formed_def fields fields_apart_def)
  from shift_unwind_info_exact [OF run this, unfolded fields]
  have "\<forall>p\<in>{28, 64}. \<exists>v. u32_at sample_unwind p = Some v \<and> u32_at b' p = Some (shifted_offset 0x1000 0x4000 v)"
    by auto
  moreover have "u32_at sample_unwind 28 = Some 0x9000" "u32_at sample_unwind 64 = Some 0x1800" by code_simp+
  ultimately show ?thesis using run by (auto simp: shifted_offset_def)
qed

end
