(* ===== verification/Chained_Fixups.thy ===== *)
theory Chained_Fixups
  imports Uleb Le_Bytes "HOL-Library.Multiset"
begin

text \<open>
  The chained fixups of a Mach-O image (\<open>src/src/container/chained_fixups.rs\<close>): the editable view, its
  reader, which walks the pointer chains of every page, and its writer, which encodes the slots and
  the blob that says where the chains start.

  A panic is \<open>None\<close>. The reader follows the chain links found in the file; a walk without end is
  also \<open>None\<close>. Where the code iterates over a hash map of pages, the order is a parameter, a function
  that permutes the keys. An error message is the constructor with the values it shows.
\<close>

section \<open>The view\<close>

datatype pointer_format = PF_Ptr64 | PF_Ptr64Offset | PF_Arm64e | PF_Arm64eKernel | PF_Arm64eUserland | PF_Arm64eUserland24

definition format_64 :: "pointer_format \<Rightarrow> bool" where
  "format_64 f \<longleftrightarrow> f = PF_Ptr64 \<or> f = PF_Ptr64Offset"

definition stride :: "pointer_format \<Rightarrow> u32" where
  "stride f = (if format_64 f then 4 else 8)"

definition next_bits :: "pointer_format \<Rightarrow> nat" where
  "next_bits f = (if format_64 f then 12 else 11)"

definition max_next_byte_delta :: "pointer_format \<Rightarrow> u32" where
  "max_next_byte_delta f = (push_bit (next_bits f) 1 - 1) * stride f"

datatype truncation =
    TR_Header nat nat nat
  | TR_Version u32
  | TR_StartsInImage
  | TR_SegInfoOffsets
  | TR_MixedFormats pointer_format pointer_format
  | TR_NoChains
  | TR_StartsInSegment
  | TR_PageStart
  | TR_SegIndex nat
  | TR_ImportsFormat u32
  | TR_ImportsPastEnd
  | TR_ImportString nat
  | TR_BindOrdinal nat
  | TR_SlotPastEnd nat

datatype chained_error =
    CE_Missing
  | CE_Truncated truncation
  | CE_UnsupportedFormat "16 word"
  | CE_UnknownFormat "16 word"
  | CE_Misaligned u64 u32
  | CE_NextOverflow u64 u64 u64 u32
  | CE_BadImportIndex nat nat
  | CE_FixupOutsideSegment u64 nat
  | CE_ImportNameOffsetOverflow u64 u64
  | CE_AddendOverflow nat i64

definition format_from_raw :: "16 word \<Rightarrow> chained_error + pointer_format" where
  "format_from_raw raw =
     (if raw = 2 then Ok PF_Ptr64
      else if raw = 6 then Ok PF_Ptr64Offset
      else if raw = 1 then Ok PF_Arm64e
      else if raw = 7 then Ok PF_Arm64eKernel
      else if raw = 9 then Ok PF_Arm64eUserland
      else if raw = 12 then Ok PF_Arm64eUserland24
      else if raw = 3 \<or> raw = 8 \<or> raw = 10 then Err (CE_UnsupportedFormat raw)
      else Err (CE_UnknownFormat raw))"

fun format_to_raw :: "pointer_format \<Rightarrow> 16 word" where
  "format_to_raw PF_Ptr64 = 2"
| "format_to_raw PF_Ptr64Offset = 6"
| "format_to_raw PF_Arm64e = 1"
| "format_to_raw PF_Arm64eKernel = 7"
| "format_to_raw PF_Arm64eUserland = 9"
| "format_to_raw PF_Arm64eUserland24 = 12"

record chained_import =
  ci_lib_ordinal :: "32 word"
  ci_symbol :: bytes
  ci_addend :: i64
  ci_weak :: bool

datatype fixup_target = FT_Rebase u64 | FT_Bind nat i64

record fixup =
  fx_vaddr :: u64
  fx_target :: fixup_target

record segment_fixups =
  sf_segment_index :: nat
  sf_page_size :: u32
  sf_fixups :: "fixup list"

record chained_fixups =
  cf_pointer_format :: pointer_format
  cf_imports :: "chained_import list"
  cf_segments :: "segment_fixups list"
  cf_on_disk_imports_format :: u32
  cf_original_imports_bytes :: bytes
  cf_original_imports :: "chained_import list"

section \<open>Reading\<close>

definition sign_extend_8 :: "u32 \<Rightarrow> 32 word" where
  "sign_extend_8 raw = (let v = raw AND 0xff in if v AND 0x80 \<noteq> 0 then v - 0x100 else v)"

definition sign_extend_16 :: "u32 \<Rightarrow> 32 word" where
  "sign_extend_16 raw = (let v = raw AND 0xffff in if v AND 0x8000 \<noteq> 0 then v - 0x10000 else v)"

fun position_zero :: "bytes \<Rightarrow> nat \<Rightarrow> nat option" where
  "position_zero [] i = None"
| "position_zero (b # bs) i = (if b = 0 then Some i else position_zero bs (Suc i))"

definition read_cstr :: "bytes \<Rightarrow> nat \<Rightarrow> bytes option" where
  "read_cstr pool offset =
     (if length pool < offset then None
      else
        let tail = drop offset pool in
        Option.bind (position_zero tail 0) (\<lambda>end_at.
          if valid_utf8 (take end_at tail) then Some (take end_at tail) else None))"

definition import_entry_size :: "u32 \<Rightarrow> nat option" where
  "import_entry_size imports_format =
     (if imports_format = 1 then Some 4 else if imports_format = 2 then Some 8
      else if imports_format = 3 then Some 16 else None)"

text \<open>The fields of one import: library ordinal, weak, name offset, addend.\<close>

definition decode_import_entry :: "u32 \<Rightarrow> bytes \<Rightarrow> 32 word \<times> bool \<times> nat \<times> i64" where
  "decode_import_entry imports_format e =
     (let raw = of_le (take 4 e) :: u32 in
      if imports_format = 1 then
        (sign_extend_8 (raw AND 0xff), drop_bit 8 raw AND 1 \<noteq> 0, unat (drop_bit 9 raw AND 0x007fffff), 0)
      else if imports_format = 2 then
        (sign_extend_8 (raw AND 0xff), drop_bit 8 raw AND 1 \<noteq> 0, unat (drop_bit 9 raw AND 0x007fffff),
         scast (of_le (take 4 (drop 4 e)) :: 32 word))
      else
        (sign_extend_16 (raw AND 0xffff), drop_bit 16 raw AND 1 \<noteq> 0, unat (of_le (take 4 (drop 4 e)) :: u32),
         of_le (take 8 (drop 8 e))))"

fun decode_import_list :: "bytes \<Rightarrow> bytes \<Rightarrow> u32 \<Rightarrow> nat \<Rightarrow> nat \<Rightarrow> nat \<Rightarrow> nat \<Rightarrow> chained_error + chained_import list" where
  "decode_import_list bs pool fmt entry_size at i 0 = Ok []"
| "decode_import_list bs pool fmt entry_size at i (Suc n) =
     (case decode_import_entry fmt (take entry_size (drop at bs)) of
        (lib_ordinal, weak, name_offset, addend) \<Rightarrow>
          and_then (ok_or (read_cstr pool name_offset) (CE_Truncated (TR_ImportString i))) (\<lambda>sym_name.
          and_then (decode_import_list bs pool fmt entry_size (at + entry_size) (Suc i) n) (\<lambda>rest.
            Ok (\<lparr>ci_lib_ordinal = lib_ordinal, ci_symbol = sym_name, ci_addend = addend, ci_weak = weak\<rparr> # rest))))"

definition decode_imports ::
    "bytes \<Rightarrow> nat \<Rightarrow> nat \<Rightarrow> nat \<Rightarrow> nat \<Rightarrow> u32 \<Rightarrow> nat \<Rightarrow> chained_error + chained_import list" where
  "decode_imports bs base imports_offset symbols_offset imports_count imports_format fixups_end =
     (case import_entry_size imports_format of
        None \<Rightarrow> Err (CE_Truncated (TR_ImportsFormat imports_format))
      | Some entry_size \<Rightarrow>
          let imports_abs = base + imports_offset; symbols_abs = base + symbols_offset in
          if fixups_end < imports_abs + imports_count * entry_size \<or> fixups_end < symbols_abs then
            Err (CE_Truncated TR_ImportsPastEnd)
          else
            decode_import_list bs (drop symbols_abs (take fixups_end bs)) imports_format entry_size imports_abs 0
              imports_count)"

definition segment_relative :: "pointer_format \<Rightarrow> bool" where
  "segment_relative f \<longleftrightarrow> f = PF_Arm64eUserland \<or> f = PF_Arm64eUserland24 \<or> f = PF_Arm64eKernel"

definition ordinal_mask :: "pointer_format \<Rightarrow> u64" where
  "ordinal_mask f = (if f = PF_Arm64eUserland24 then 0x00ffffff else 0x0000ffff)"

definition decode_one :: "u64 \<Rightarrow> pointer_format \<Rightarrow> chained_import list \<Rightarrow> u64 \<Rightarrow> chained_error + fixup_target \<times> u32" where
  "decode_one raw f imports base =
     (if format_64 f then
        let bind = drop_bit 63 raw AND 1 \<noteq> 0;
            next_units = ucast (drop_bit 51 raw AND 0xfff)
        in if bind then
             let ordinal = unat (raw AND 0x00ffffff); addend = drop_bit 24 raw AND 0xff in
             if length imports \<le> ordinal then Err (CE_Truncated (TR_BindOrdinal ordinal))
             else Ok (FT_Bind ordinal addend, next_units)
           else Ok (FT_Rebase (raw AND 0x0000000fffffffff), next_units)
      else
        let auth = drop_bit 63 raw AND 1 \<noteq> 0;
            bind = drop_bit 62 raw AND 1 \<noteq> 0;
            next_units = ucast (drop_bit 51 raw AND 0x7ff)
        in if bind then
             let ordinal = unat (raw AND ordinal_mask f) in
             if length imports \<le> ordinal then Err (CE_Truncated (TR_BindOrdinal ordinal))
             else
               let addend = (if auth then 0
                             else let raw_add = drop_bit 24 raw AND 0x7ffff in
                                  if raw_add AND 0x40000 \<noteq> 0 then raw_add - 0x80000 else raw_add)
               in Ok (FT_Bind ordinal addend, next_units)
           else
             let target_low = raw AND 0x0000000fffffffff in
             Ok (FT_Rebase (if segment_relative f then base + target_low else target_low), next_units))"

partial_function (option) walk_chain_loop ::
    "bytes \<Rightarrow> pointer_format \<Rightarrow> chained_import list \<Rightarrow> macho_segment \<Rightarrow> u64 \<Rightarrow> fixup list \<Rightarrow>
     (chained_error + fixup list) option" where
  "walk_chain_loop bs f imports seg off found =
     (let chain_file_off = seg_fileoff seg + off in
      if seg_fileoff seg + seg_filesize seg < chain_file_off + 8 \<or> length bs < unat chain_file_off + 8 then Some (Ok found)
      else
        (case decode_one (of_le (take 8 (drop (unat chain_file_off) bs))) f imports (seg_vmaddr seg) of
           Inl e \<Rightarrow> Some (Err e)
         | Inr (target, next_units) \<Rightarrow>
             let found = found @ [\<lparr>fx_vaddr = seg_vmaddr seg + off, fx_target = target\<rparr>] in
             if next_units = 0 then Some (Ok found)
             else walk_chain_loop bs f imports seg (off + ucast next_units * ucast (stride f)) found))"

fun walk_pages ::
    "bytes \<Rightarrow> pointer_format \<Rightarrow> chained_import list \<Rightarrow> macho_segment \<Rightarrow> u32 \<Rightarrow> nat \<Rightarrow> nat \<Rightarrow> nat \<Rightarrow> fixup list \<Rightarrow>
     (chained_error + fixup list) option" where
  "walk_pages bs f imports seg page_size page_start_base i 0 found = Some (Ok found)"
| "walk_pages bs f imports seg page_size page_start_base i (Suc n) found =
     (let page_start = of_le (take 2 (drop (page_start_base + i * 2) bs)) :: 16 word in
      if page_start = 0xFFFF then walk_pages bs f imports seg page_size page_start_base (Suc i) n found
      else
        Option.bind (walk_chain_loop bs f imports seg (word_of_nat i * ucast page_size + ucast page_start) found) (\<lambda>r.
          case r of
            Inl e \<Rightarrow> Some (Err e)
          | Inr found \<Rightarrow> walk_pages bs f imports seg page_size page_start_base (Suc i) n found))"

definition walk_one_segment ::
    "bytes \<Rightarrow> nat \<Rightarrow> nat \<Rightarrow> nat \<Rightarrow> macho_segment list \<Rightarrow> chained_import list \<Rightarrow>
     (chained_error + pointer_format \<times> u32 \<times> fixup list) option" where
  "walk_one_segment bs seg_info_abs seg_idx fixups_end segments imports =
     (if fixups_end < seg_info_abs + 22 then Some (Err (CE_Truncated TR_StartsInSegment))
      else
        let page_size = ucast (of_le (take 2 (drop (seg_info_abs + 4) bs)) :: 16 word);
            raw_format = of_le (take 2 (drop (seg_info_abs + 6) bs))
        in case format_from_raw raw_format of
             Inl e \<Rightarrow> Some (Err e)
           | Inr f \<Rightarrow>
               let page_count = unat (of_le (take 2 (drop (seg_info_abs + 20) bs)) :: 16 word);
                   page_start_base = seg_info_abs + 22
               in if fixups_end < page_start_base + page_count * 2 then Some (Err (CE_Truncated TR_PageStart))
                  else
                    (case vec_get segments seg_idx of
                      None \<Rightarrow> Some (Err (CE_Truncated (TR_SegIndex seg_idx)))
                    | Some seg \<Rightarrow>
                        map_option (map_sum id (\<lambda>found. (f, page_size, sort_key fx_vaddr found)))
                          (walk_pages bs f imports seg page_size page_start_base 0 page_count [])))"

fun read_segments ::
    "bytes \<Rightarrow> nat \<Rightarrow> nat \<Rightarrow> nat \<Rightarrow> macho_segment list \<Rightarrow> chained_import list \<Rightarrow> nat \<Rightarrow> nat \<Rightarrow>
     pointer_format option \<Rightarrow> segment_fixups list \<Rightarrow>
     (chained_error + pointer_format option \<times> segment_fixups list) option" where
  "read_segments bs starts_abs offsets_base fixups_end segments imports idx 0 chosen out_segs = Some (Ok (chosen, out_segs))"
| "read_segments bs starts_abs offsets_base fixups_end segments imports idx (Suc n) chosen out_segs =
     (let off_field = unat (of_le (take 4 (drop (offsets_base + idx * 4) bs)) :: u32) in
      if off_field = 0 then
        read_segments bs starts_abs offsets_base fixups_end segments imports (Suc idx) n chosen out_segs
      else
        Option.bind (walk_one_segment bs (starts_abs + off_field) idx fixups_end segments imports) (\<lambda>r.
          case r of
            Inl e \<Rightarrow> Some (Err e)
          | Inr (f, page_size, found) \<Rightarrow>
              (case chosen of
                 Some existing \<Rightarrow>
                   if existing \<noteq> f then Some (Err (CE_Truncated (TR_MixedFormats existing f)))
                   else read_segments bs starts_abs offsets_base fixups_end segments imports (Suc idx) n chosen
                          (out_segs @ [\<lparr>sf_segment_index = idx, sf_page_size = page_size, sf_fixups = found\<rparr>])
               | None \<Rightarrow>
                   read_segments bs starts_abs offsets_base fixups_end segments imports (Suc idx) n (Some f)
                     (out_segs @ [\<lparr>sf_segment_index = idx, sf_page_size = page_size, sf_fixups = found\<rparr>]))))"

definition read_header :: "bytes \<Rightarrow> nat \<Rightarrow> nat \<Rightarrow> u32" where
  "read_header bs base k = of_le (take 4 (drop (base + k) bs))"

definition chained_read :: "macho_image \<Rightarrow> (chained_error + chained_fixups) option" where
  "chained_read img =
     (case ml_chained_fixups (mi_layout img) of
        None \<Rightarrow> Some (Err CE_Missing)
      | Some fixups \<Rightarrow>
          let bs = mi_raw_bytes img;
              base = unat (ld_dataoff fixups);
              end_at = base + unat (ld_datasize fixups)
          in if length bs < end_at \<or> ld_datasize fixups < 32 then
               Some (Err (CE_Truncated (TR_Header base end_at (length bs))))
             else if read_header bs base 0 \<noteq> 0 then Some (Err (CE_Truncated (TR_Version (read_header bs base 0))))
             else
               let starts_offset = unat (read_header bs base 4);
                   imports_offset = unat (read_header bs base 8);
                   symbols_offset = unat (read_header bs base 12);
                   imports_count = unat (read_header bs base 16);
                   imports_format = read_header bs base 20
               in (case decode_imports bs base imports_offset symbols_offset imports_count imports_format end_at of
                    Inl e \<Rightarrow> Some (Err e)
                  | Inr imports \<Rightarrow>
                      let starts_abs = base + starts_offset in
                      if end_at < starts_abs + 4 then Some (Err (CE_Truncated TR_StartsInImage))
                      else
                        let seg_count = unat (of_le (take 4 (drop starts_abs bs)) :: u32);
                            offsets_base = starts_abs + 4
                        in if end_at < offsets_base + seg_count * 4 then Some (Err (CE_Truncated TR_SegInfoOffsets))
                           else
                             map_option
                               (\<lambda>r. and_then r (\<lambda>(chosen, segs).
                                  and_then (ok_or chosen (CE_Truncated TR_NoChains)) (\<lambda>f.
                                    Ok \<lparr>cf_pointer_format = f, cf_imports = imports, cf_segments = segs,
                                        cf_on_disk_imports_format = imports_format,
                                        cf_original_imports_bytes = drop (base + imports_offset) (take end_at bs),
                                        cf_original_imports = imports\<rparr>)))
                               (read_segments bs starts_abs offsets_base end_at (ml_segments (mi_layout img)) imports
                                  0 seg_count None [])))"

datatype resolved_target = RT_Rebase u64 | RT_Bind "32 word" bytes i64

text \<open>\<open>imports[*import_index]\<close> panics out of range; a later fixup at the same address replaces an earlier one.\<close>

definition resolve_fixup :: "chained_import list \<Rightarrow> fixup \<Rightarrow> resolved_target option" where
  "resolve_fixup imports fx =
     (case fx_target fx of
        FT_Rebase v \<Rightarrow> Some (RT_Rebase v)
      | FT_Bind i addend \<Rightarrow>
          map_option (\<lambda>imp. RT_Bind (ci_lib_ordinal imp) (ci_symbol imp) (addend + ci_addend imp)) (vec_get imports i))"

definition chained_to_map :: "chained_fixups \<Rightarrow> (u64 \<rightharpoonup> resolved_target) option" where
  "chained_to_map cf =
     map_option hash_map_of
       (collect_options (map (\<lambda>fx. map_option (Pair (fx_vaddr fx)) (resolve_fixup (cf_imports cf) fx))
          (concat (map sf_fixups (cf_segments cf)))))"

definition unchanged_imports :: "chained_fixups \<Rightarrow> bool" where
  "unchanged_imports cf \<longleftrightarrow> cf_imports cf = cf_original_imports cf"

definition repoint_one :: "u64 \<Rightarrow> u64 \<Rightarrow> fixup \<Rightarrow> fixup" where
  "repoint_one old new fx = (if fx_target fx = FT_Rebase old then fx\<lparr>fx_target := FT_Rebase new\<rparr> else fx)"

definition repoint_fixup :: "chained_fixups \<Rightarrow> u64 \<Rightarrow> u64 \<Rightarrow> chained_fixups \<times> nat" where
  "repoint_fixup cf old new =
     (cf\<lparr>cf_segments := map (\<lambda>sf. sf\<lparr>sf_fixups := map (repoint_one old new) (sf_fixups sf)\<rparr>) (cf_segments cf)\<rparr>,
      length (filter (\<lambda>fx. fx_target fx = FT_Rebase old) (concat (map sf_fixups (cf_segments cf)))))"

definition saturating_add64 :: "u64 \<Rightarrow> u64 \<Rightarrow> u64" where
  "saturating_add64 a b = (if unat a + unat b < 2 ^ 64 then a + b else - 1)"

definition shift_one :: "u64 \<Rightarrow> fixup \<Rightarrow> fixup" where
  "shift_one delta fx =
     \<lparr>fx_vaddr = saturating_add64 (fx_vaddr fx) delta,
      fx_target = (case fx_target fx of FT_Rebase v \<Rightarrow> FT_Rebase (saturating_add64 v delta) | FT_Bind i a \<Rightarrow> FT_Bind i a)\<rparr>"

definition chained_shift_by :: "chained_fixups \<Rightarrow> u64 \<Rightarrow> chained_fixups" where
  "chained_shift_by cf delta =
     cf\<lparr>cf_segments := map (\<lambda>sf. sf\<lparr>sf_fixups := map (shift_one delta) (sf_fixups sf)\<rparr>) (cf_segments cf)\<rparr>"

definition ensure_addend64 :: "chained_fixups \<Rightarrow> chained_fixups" where
  "ensure_addend64 cf = cf\<lparr>cf_on_disk_imports_format := 3\<rparr>"

section \<open>Writing slots\<close>

definition saturating_sub64 :: "u64 \<Rightarrow> u64 \<Rightarrow> u64" where
  "saturating_sub64 a b = (if b \<le> a then a - b else 0)"

definition encode_one :: "fixup \<Rightarrow> pointer_format \<Rightarrow> u32 \<Rightarrow> u64 \<Rightarrow> chained_error + u64" where
  "encode_one fx f next_units base =
     (if format_64 f then
        let word = push_bit 51 (ucast (next_units AND 0xfff)) :: u64 in
        (case fx_target fx of
           FT_Rebase target \<Rightarrow> Ok (word OR (target AND 0x0000000fffffffff))
         | FT_Bind import_index addend \<Rightarrow>
             Ok (word OR push_bit 63 1 OR (word_of_nat import_index AND 0x00ffffff) OR
                 push_bit 24 (ucast (ucast addend :: u8))))
      else
        let word = push_bit 51 (ucast (next_units AND 0x7ff)) :: u64 in
        (case fx_target fx of
           FT_Rebase target \<Rightarrow>
             let stored = (if segment_relative f then saturating_sub64 target base else target)
             in Ok (word OR (stored AND 0x0000000fffffffff))
         | FT_Bind import_index addend \<Rightarrow>
             if sint addend < - (2 ^ 18) \<or> 2 ^ 18 \<le> sint addend then Err (CE_AddendOverflow import_index addend)
             else Ok (word OR push_bit 62 1 OR (word_of_nat import_index AND ordinal_mask f) OR
                      push_bit 24 (addend AND 0x7ffff))))"

text \<open>\<open>dedup_by_key\<close> keeps the first of neighbours with the same key.\<close>

fun dedup_by_vaddr :: "fixup list \<Rightarrow> fixup list" where
  "dedup_by_vaddr (a # b # fs) =
     (if fx_vaddr a = fx_vaddr b then dedup_by_vaddr (a # fs) else a # dedup_by_vaddr (b # fs))"
| "dedup_by_vaddr fs = fs"

definition sorted_fixups :: "segment_fixups \<Rightarrow> fixup list" where
  "sorted_fixups sf = dedup_by_vaddr (sort_key fx_vaddr (sf_fixups sf))"

definition page_of :: "macho_segment \<Rightarrow> u64 \<Rightarrow> fixup \<Rightarrow> u64" where
  "page_of seg page_size fx = (fx_vaddr fx - seg_vmaddr seg) div page_size"

fun encode_page :: "pointer_format \<Rightarrow> macho_segment \<Rightarrow> fixup list \<Rightarrow> chained_error + (u64 \<times> bytes) list" where
  "encode_page f seg [] = Ok []"
| "encode_page f seg (fx # fs) =
     (let next_delta = (case fs of [] \<Rightarrow> 0 | fx2 # _ \<Rightarrow> fx_vaddr fx2 - fx_vaddr fx) in
      and_then (encode_one fx f (ucast (next_delta div ucast (stride f))) (seg_vmaddr seg)) (\<lambda>raw.
      and_then (encode_page f seg fs) (\<lambda>rest.
        Ok ((seg_fileoff seg + (fx_vaddr fx - seg_vmaddr seg), le64 raw) # rest))))"

definition segment_pages :: "(u64 list \<Rightarrow> u64 list) \<Rightarrow> macho_segment \<Rightarrow> u64 \<Rightarrow> fixup list \<Rightarrow> fixup list list" where
  "segment_pages order seg page_size fixups =
     map (\<lambda>page. sort_key fx_vaddr (filter (\<lambda>fx. page_of seg page_size fx = page) fixups))
       (order (remdups (map (page_of seg page_size) fixups)))"

definition segment_slots ::
    "(u64 list \<Rightarrow> u64 list) \<Rightarrow> pointer_format \<Rightarrow> macho_segment \<Rightarrow> segment_fixups \<Rightarrow>
     (chained_error + (u64 \<times> bytes) list) option" where
  "segment_slots order f seg sf =
     (let fixups = sorted_fixups sf; page_size = ucast (sf_page_size sf) in
      if page_size = 0 \<and> fixups \<noteq> [] then None
      else Some (map_sum id concat (collect_results (map (encode_page f seg) (segment_pages order seg page_size fixups)))))"

fun slot_bytes_list ::
    "(u64 list \<Rightarrow> u64 list) \<Rightarrow> pointer_format \<Rightarrow> macho_segment list \<Rightarrow> segment_fixups list \<Rightarrow>
     (chained_error + (u64 \<times> bytes) list) option" where
  "slot_bytes_list order f segments [] = Some (Ok [])"
| "slot_bytes_list order f segments (sf # sfs) =
     (case vec_get segments (sf_segment_index sf) of
        None \<Rightarrow> Some (Err (CE_FixupOutsideSegment 0 (sf_segment_index sf)))
      | Some seg \<Rightarrow>
          Option.bind (segment_slots order f seg sf) (\<lambda>r.
            case r of
              Inl e \<Rightarrow> Some (Err e)
            | Inr slots \<Rightarrow> map_option (map_sum id ((@) slots)) (slot_bytes_list order f segments sfs)))"

definition slot_bytes ::
    "(u64 list \<Rightarrow> u64 list) \<Rightarrow> chained_fixups \<Rightarrow> macho_segment list \<Rightarrow> (chained_error + (u64 \<times> bytes) list) option" where
  "slot_bytes order cf segments = slot_bytes_list order (cf_pointer_format cf) segments (cf_segments cf)"

fun write_slots :: "(u64 \<times> bytes) list \<Rightarrow> bytes \<Rightarrow> chained_error + bytes" where
  "write_slots [] img = Ok img"
| "write_slots ((file_off, raw) # slots) img =
     (case write_at img (unat file_off) raw of
        None \<Rightarrow> Err (CE_Truncated (TR_SlotPastEnd (unat file_off)))
      | Some img \<Rightarrow> write_slots slots img)"

definition encode_into_segments ::
    "(u64 list \<Rightarrow> u64 list) \<Rightarrow> chained_fixups \<Rightarrow> bytes \<Rightarrow> macho_segment list \<Rightarrow> (chained_error + bytes) option" where
  "encode_into_segments order cf img segments =
     map_option (\<lambda>r. and_then r (\<lambda>slots. write_slots slots img)) (slot_bytes order cf segments)"

section \<open>Writing the blob\<close>

fun pool_symbols :: "chained_import list \<Rightarrow> (bytes \<rightharpoonup> u32) \<Rightarrow> bytes \<Rightarrow> bytes \<times> u32 list" where
  "pool_symbols [] seen pool = (pool, [])"
| "pool_symbols (imp # imps) seen pool =
     (case seen (ci_symbol imp) of
        Some off \<Rightarrow> map_prod id ((#) off) (pool_symbols imps seen pool)
      | None \<Rightarrow>
          let off = word_of_nat (length pool) in
          map_prod id ((#) off) (pool_symbols imps (seen(ci_symbol imp \<mapsto> off)) (pool @ ci_symbol imp @ [0])))"

definition choose_imports_format :: "chained_import list \<Rightarrow> nat \<Rightarrow> u32 \<Rightarrow> u32" where
  "choose_imports_format imports pool_length requested =
     (let promote = (\<exists>imp\<in>set imports. ci_addend imp \<noteq> 0);
          long_names = 2 ^ 23 - 1 < pool_length;
          wide_ordinal = (\<exists>imp\<in>set imports. sint (ci_lib_ordinal imp) < - 128 \<or> 127 < sint (ci_lib_ordinal imp));
          f = (if requested = 1 \<and> promote then 2 else requested)
      in if (f = 1 \<or> f = 2) \<and> (long_names \<or> wide_ordinal) then 3 else f)"

fun oversized_addend :: "chained_import list \<Rightarrow> nat \<Rightarrow> (nat \<times> i64) option" where
  "oversized_addend [] i = None"
| "oversized_addend (imp # imps) i =
     (if sint (ci_addend imp) < - (2 ^ 31) \<or> 2 ^ 31 - 1 < sint (ci_addend imp) then Some (i, ci_addend imp)
      else oversized_addend imps (Suc i))"

definition encode_import :: "u32 \<Rightarrow> chained_import \<Rightarrow> u32 \<Rightarrow> chained_error + bytes" where
  "encode_import f imp name_off =
     (let weak = (if ci_weak imp then 1 else 0) :: u32 in
      if f = 1 \<or> f = 2 then
        if 2 ^ 23 - 1 < name_off then Err (CE_ImportNameOffsetOverflow (ucast name_off) (2 ^ 23 - 1))
        else
          let packed = (ci_lib_ordinal imp AND 0xff) OR push_bit 8 weak OR push_bit 9 (name_off AND 0x007fffff)
          in Ok (if f = 1 then le32 packed else le32 packed @ le32 (ucast (ci_addend imp)))
      else
        Ok (le32 ((ci_lib_ordinal imp AND 0xffff) OR push_bit 16 weak) @ le32 name_off @ le64 (ci_addend imp)))"

definition build_imports_blob :: "chained_import list \<Rightarrow> u32 \<Rightarrow> (chained_error + u32 \<times> bytes) option" where
  "build_imports_blob imports requested =
     (case pool_symbols imports Map.empty [] of (pool, name_offsets) \<Rightarrow>
        let f = choose_imports_format imports (length pool) requested in
        if f = 2 \<and> oversized_addend imports 0 \<noteq> None then
          (case the (oversized_addend imports 0) of (i, addend) \<Rightarrow> Some (Err (CE_AddendOverflow i addend)))
        else if import_entry_size f = None then None
        else
          Some (and_then (collect_results (map (\<lambda>(imp, off). encode_import f imp off) (zip imports name_offsets)))
            (\<lambda>entries. Ok (f, concat entries @ pool))))"

function measure_loop :: "bytes \<Rightarrow> u32 \<Rightarrow> nat \<Rightarrow> nat \<Rightarrow> nat" where
  "measure_loop blob f entry_size entries =
     (let e = entries * entry_size in
      if entry_size = 0 \<or> length blob < e + entry_size then entries
      else
        let name_offset =
              (if f = 1 \<or> f = 2 then unat (drop_bit 9 (of_le (take 4 (drop e blob)) :: u32) AND 0x007fffff)
               else unat (of_le (take 4 (drop (e + 4) blob)) :: u32))
        in if length blob \<le> (entries + 1) * entry_size + name_offset then entries
           else measure_loop blob f entry_size (entries + 1))"
  by pat_completeness auto
termination
  by (relation "measure (\<lambda>(blob, _, entry_size, entries). Suc (length blob) - entries * entry_size)") auto

declare measure_loop.simps [simp del]

definition measure_imports_blob :: "bytes \<Rightarrow> u32 \<Rightarrow> chained_error + nat \<times> nat \<times> nat" where
  "measure_imports_blob blob f =
     (case import_entry_size f of
        None \<Rightarrow> Err (CE_Truncated (TR_ImportsFormat f))
      | Some entry_size \<Rightarrow>
          if length blob < entry_size then Ok (0, 0, 0)
          else
            let entries = measure_loop blob f entry_size 0 in
            Ok (entries, entries * entry_size, entries * entry_size))"

definition payload_header :: "nat \<Rightarrow> segment_fixups \<Rightarrow> pointer_format \<Rightarrow> macho_segment \<Rightarrow> nat \<Rightarrow> bytes" where
  "payload_header n sf f seg page_count =
     le32 (word_of_nat n) @ le16 (ucast (sf_page_size sf)) @ le16 (format_to_raw f) @ le64 (seg_fileoff seg) @
     le32 0 @ le16 (word_of_nat page_count)"

fun check_alignment :: "pointer_format \<Rightarrow> macho_segment \<Rightarrow> nat \<Rightarrow> fixup list \<Rightarrow> chained_error option" where
  "check_alignment f seg idx [] = None"
| "check_alignment f seg idx (fx # fs) =
     (if fx_vaddr fx mod ucast (stride f) \<noteq> 0 then Some (CE_Misaligned (fx_vaddr fx) (stride f))
      else if fx_vaddr fx < seg_vmaddr seg then Some (CE_FixupOutsideSegment (fx_vaddr fx) idx)
      else check_alignment f seg idx fs)"

fun overflowing_gap :: "u64 \<Rightarrow> u64 list \<Rightarrow> (u64 \<times> u64) option" where
  "overflowing_gap max_delta (a # b # vs) = (if max_delta < b - a then Some (a, b) else overflowing_gap max_delta (b # vs))"
| "overflowing_gap max_delta vs = None"

fun fill_page_starts ::
    "pointer_format \<Rightarrow> macho_segment \<Rightarrow> u64 \<Rightarrow> fixup list \<Rightarrow> u64 list \<Rightarrow> 16 word list \<Rightarrow>
     (chained_error + 16 word list) option" where
  "fill_page_starts f seg page_size fixups [] starts = Some (Ok starts)"
| "fill_page_starts f seg page_size fixups (page # pages) starts =
     (let vaddrs = map fx_vaddr (filter (\<lambda>fx. page_of seg page_size fx = page) fixups);
          page_base = seg_vmaddr seg + page * page_size
      in if length starts \<le> unat page then None
         else
           let starts = starts[unat page := ucast (hd vaddrs - page_base)] in
           (case overflowing_gap (ucast (max_next_byte_delta f)) vaddrs of
              Some (a, b) \<Rightarrow> Some (Err (CE_NextOverflow page_base a b (max_next_byte_delta f)))
            | None \<Rightarrow> fill_page_starts f seg page_size fixups pages starts))"

definition build_starts_in_segment ::
    "(u64 list \<Rightarrow> u64 list) \<Rightarrow> pointer_format \<Rightarrow> segment_fixups \<Rightarrow> macho_segment \<Rightarrow> (chained_error + bytes) option" where
  "build_starts_in_segment order f sf seg =
     (if sf_fixups sf = [] then Some (Ok (payload_header 22 sf f seg 0))
      else
        let page_size = ucast (sf_page_size sf) :: u64 in
        if page_size = 0 then None
        else
          let page_count = unat ((seg_vmsize seg + page_size - 1) div page_size);
              fixups = sort_key fx_vaddr (sf_fixups sf)
          in (case check_alignment f seg (sf_segment_index sf) fixups of
                Some e \<Rightarrow> Some (Err e)
              | None \<Rightarrow>
                  map_option (map_sum id (\<lambda>starts.
                      payload_header (22 + page_count * 2) sf f seg page_count @ concat (map le16 starts)))
                    (fill_page_starts f seg page_size fixups (order (remdups (map (page_of seg page_size) fixups)))
                       (replicate page_count 0xFFFF))))"

record serialized_fixups =
  sz_bytes :: bytes
  sz_imports_format :: u32

fun validate_fixups :: "pointer_format \<Rightarrow> nat \<Rightarrow> macho_segment \<Rightarrow> nat \<Rightarrow> fixup list \<Rightarrow> chained_error option" where
  "validate_fixups f n_imports seg idx [] = None"
| "validate_fixups f n_imports seg idx (fx # fs) =
     (if fx_vaddr fx mod ucast (stride f) \<noteq> 0 then Some (CE_Misaligned (fx_vaddr fx) (stride f))
      else if fx_vaddr fx < seg_vmaddr seg \<or> seg_vmaddr seg + seg_vmsize seg \<le> fx_vaddr fx then
        Some (CE_FixupOutsideSegment (fx_vaddr fx) idx)
      else
        (case fx_target fx of
           FT_Bind i _ \<Rightarrow>
             if n_imports \<le> i then Some (CE_BadImportIndex i n_imports) else validate_fixups f n_imports seg idx fs
         | FT_Rebase _ \<Rightarrow> validate_fixups f n_imports seg idx fs))"

fun validate_segments :: "pointer_format \<Rightarrow> nat \<Rightarrow> macho_segment list \<Rightarrow> segment_fixups list \<Rightarrow> chained_error option" where
  "validate_segments f n_imports segments [] = None"
| "validate_segments f n_imports segments (sf # sfs) =
     (case vec_get segments (sf_segment_index sf) of
        None \<Rightarrow> Some (CE_FixupOutsideSegment 0 (sf_segment_index sf))
      | Some seg \<Rightarrow>
          (case validate_fixups f n_imports seg (sf_segment_index sf) (sf_fixups sf) of
             Some e \<Rightarrow> Some e
           | None \<Rightarrow> validate_segments f n_imports segments sfs))"

definition round_up_4 :: "u32 \<Rightarrow> u32" where
  "round_up_4 c = (c + 3) AND NOT 3"

fun build_payloads ::
    "(u64 list \<Rightarrow> u64 list) \<Rightarrow> pointer_format \<Rightarrow> macho_segment list \<Rightarrow> segment_fixups list \<Rightarrow> bytes option list \<Rightarrow>
     (chained_error + bytes option list) option" where
  "build_payloads order f segments [] payloads = Some (Ok payloads)"
| "build_payloads order f segments (sf # sfs) payloads =
     Option.bind (build_starts_in_segment order f (sf\<lparr>sf_fixups := sorted_fixups sf\<rparr>) (segments ! sf_segment_index sf)) (\<lambda>r.
       case r of
         Inl e \<Rightarrow> Some (Err e)
       | Inr payload \<Rightarrow> build_payloads order f segments sfs (payloads[sf_segment_index sf := Some payload]))"

text \<open>The offsets of the payloads, relative to the image of starts, and the end of the last one.\<close>

fun place_payloads :: "u32 \<Rightarrow> bytes option list \<Rightarrow> u32 list \<times> u32" where
  "place_payloads cursor [] = ([], cursor)"
| "place_payloads cursor (None # ps) = map_prod ((#) 0) id (place_payloads cursor ps)"
| "place_payloads cursor (Some p # ps) =
     map_prod ((#) (cursor - 32)) id (place_payloads (round_up_4 (cursor + word_of_nat (length p))) ps)"

fun write_payloads :: "u32 list \<Rightarrow> bytes option list \<Rightarrow> bytes \<Rightarrow> bytes option" where
  "write_payloads (off # offs) (Some p # ps) out_bytes =
     Option.bind (write_at out_bytes (unat (off + 32)) p) (write_payloads offs ps)"
| "write_payloads (off # offs) (None # ps) out_bytes = write_payloads offs ps out_bytes"
| "write_payloads _ _ out_bytes = Some out_bytes"

definition assemble_blob :: "nat \<Rightarrow> bytes option list \<Rightarrow> u32 \<Rightarrow> bytes \<Rightarrow> nat \<Rightarrow> nat \<Rightarrow> bytes option" where
  "assemble_blob seg_count payloads imports_format imports_blob imports_count symbols_relative_off =
     (let start = round_up_4 (32 + (4 + word_of_nat seg_count * 4)) in
      case place_payloads start payloads of (seg_offsets, imports_off) \<Rightarrow>
        let total = unat imports_off + length imports_blob;
            out_bytes = replicate ((total + 7) div 8 * 8) 0;
            header = le32 0 @ le32 32 @ le32 imports_off @ le32 (word_of_nat (unat imports_off + symbols_relative_off)) @
                     le32 (word_of_nat imports_count) @ le32 imports_format @ le32 0
        in Option.bind (write_at out_bytes 0 header) (\<lambda>out_bytes.
           Option.bind (write_at out_bytes 32 (le32 (word_of_nat seg_count) @ concat (map le32 seg_offsets))) (\<lambda>out_bytes.
           Option.bind (write_payloads seg_offsets payloads out_bytes) (\<lambda>out_bytes.
             write_at out_bytes (unat imports_off) imports_blob))))"

definition chained_serialize ::
    "(u64 list \<Rightarrow> u64 list) \<Rightarrow> chained_fixups \<Rightarrow> macho_segment list \<Rightarrow> (chained_error + serialized_fixups) option" where
  "chained_serialize order cf segments =
     (case validate_segments (cf_pointer_format cf) (length (cf_imports cf)) segments (cf_segments cf) of
        Some e \<Rightarrow> Some (Err e)
      | None \<Rightarrow>
          Option.bind
            (if unchanged_imports cf then Some (Ok (cf_on_disk_imports_format cf, cf_original_imports_bytes cf))
             else build_imports_blob (cf_imports cf) (cf_on_disk_imports_format cf)) (\<lambda>r.
            case r of
              Inl e \<Rightarrow> Some (Err e)
            | Inr (imports_format, imports_blob) \<Rightarrow>
                Option.bind (build_payloads order (cf_pointer_format cf) segments (cf_segments cf)
                    (replicate (length segments) None)) (\<lambda>r.
                  case r of
                    Inl e \<Rightarrow> Some (Err e)
                  | Inr payloads \<Rightarrow>
                      (case measure_imports_blob imports_blob imports_format of
                         Inl e \<Rightarrow> Some (Err e)
                       | Inr (imports_count, table_size, symbols_relative_off) \<Rightarrow>
                           map_option (\<lambda>bs. Ok \<lparr>sz_bytes = bs, sz_imports_format = imports_format\<rparr>)
                             (assemble_blob (length segments) payloads imports_format imports_blob imports_count
                                symbols_relative_off)))))"

section \<open>One slot\<close>

text \<open>The targets a slot can hold: what its format has bits for.\<close>

definition target_fits :: "pointer_format \<Rightarrow> nat \<Rightarrow> u64 \<Rightarrow> fixup_target \<Rightarrow> bool" where
  "target_fits f n_imports base t =
     (case t of
        FT_Rebase v \<Rightarrow>
          if segment_relative f then base \<le> v \<and> v - base < 2 ^ 36 else v < 2 ^ 36
      | FT_Bind i a \<Rightarrow>
          i < n_imports \<and>
          (if format_64 f then i < 2 ^ 24 \<and> a < 256
           else (if f = PF_Arm64eUserland24 then i < 2 ^ 24 else i < 2 ^ 16) \<and> - (2 ^ 18) \<le> sint a \<and> sint a < 2 ^ 18))"

lemma test_bit: "drop_bit n w AND 1 \<noteq> 0 \<longleftrightarrow> bit (w :: 'a :: len word) n"
  by (simp add: and_one_eq bit_iff_odd_drop_bit odd_iff_mod_2_eq_one)

lemma masks:
  "(0xfff :: 'a :: len word) = mask 12" "(0x7ff :: 'a word) = mask 11" "(0xffffff :: 'a word) = mask 24"
  "(0xff :: 'a word) = mask 8" "(0xffff :: 'a word) = mask 16" "(0x7ffff :: 'a word) = mask 19"
  "(0xfffffffff :: 'a word) = mask 36"
  by (simp_all add: mask_numeral)

lemma below_exp: "unat (w :: 'a :: len word) < 2 ^ n \<Longrightarrow> w AND mask n = w"
  by (simp add: take_bit_eq_mask [symmetric] word_unat_eq_iff unsigned_take_bit_eq take_bit_nat_eq_self)

lemma below_exp_bit: "unat (w :: 'a :: len word) < 2 ^ n \<Longrightarrow> bit w k \<Longrightarrow> k < n"
  using below_exp [of w n] by (metis bit_and_iff bit_mask_iff)

text \<open>A word assembled from fields: each field is read back.\<close>

lemma field_low:
  fixes lo :: u64
  assumes "lo AND mask a = lo" "\<And>k. bit hi k \<Longrightarrow> a \<le> k"
  shows "(hi OR lo) AND mask a = lo" "(lo OR hi) AND mask a = lo"
proof -
  have "bit lo k \<Longrightarrow> k < a" for k using assms(1) by (metis bit_and_iff bit_mask_iff)
  then show "(hi OR lo) AND mask a = lo" "(lo OR hi) AND mask a = lo"
    using assms(2) by (intro bit_word_eqI; auto simp: bit_simps dest: leD)+
qed

lemma sign_19:
  fixes a :: i64
  assumes "- (2 ^ 18) \<le> sint a" "sint a < 2 ^ 18"
  defines "r \<equiv> a AND mask 19"
  shows "(if r AND 0x40000 \<noteq> 0 then r - 0x80000 else r) = a"
proof -
  have a: "signed_take_bit 18 (sint a) = sint a"
    using assms(1,2) by (rule signed_take_bit_int_eq_self)
  have bits: "bit a k = bit a 18" if "18 \<le> k" "k < 64" for k
  proof -
    have "bit (sint a) k = bit (sint a) 18"
      using that by (subst (1 2) a [symmetric]) (simp add: bit_signed_take_bit_iff min_def)
    then show ?thesis using that by (cases "k = 63") (auto simp: bit_signed_iff min_def split: if_splits)
  qed
  have m: "(0x40000 :: i64) = push_bit 18 1" by simp
  have b: "r AND 0x40000 \<noteq> 0 \<longleftrightarrow> bit a 18"
    unfolding m bit_iff_and_push_bit_not_eq_0 [symmetric] by (simp add: r_def bit_and_iff bit_mask_iff)
  have n: "r - 0x80000 = r OR NOT (mask 19)"
  proof -
    have "r - 0x80000 = r + NOT (mask 19)" by (simp add: minus_exp_eq_not_mask [symmetric])
    also have "\<dots> = r OR NOT (mask 19)"
      by (rule disjunctive_add) (auto simp: r_def bit_simps)
    finally show ?thesis .
  qed
  show ?thesis
  proof (cases "bit a 18")
    case True
    have "r OR NOT (mask 19) = a"
      using bits True by (intro bit_word_eqI) (auto simp: r_def bit_simps)
    then show ?thesis using b True n by simp
  next
    case False
    have "n < 19" if "bit a n" for n using bits [of n] False that bit_imp_le_length [OF that] by force
    then have "r = a" by (intro bit_word_eqI) (auto simp: r_def bit_simps)
    then show ?thesis using b False by simp
  qed
qed

lemma next_field:
  fixes v :: u64
  assumes "unat (n :: u32) < 2 ^ b" "b \<le> 12" "\<And>k. bit v k \<Longrightarrow> k < 51 \<or> 51 + b \<le> k"
  shows "ucast (drop_bit 51 (push_bit 51 (ucast n) OR v) AND mask b) = n"
proof (rule bit_word_eqI)
  fix k assume "k < LENGTH(32)"
  have "bit v (51 + k) \<Longrightarrow> b \<le> k" using assms(3) [of "51 + k"] by simp
  moreover have "bit n k \<Longrightarrow> k < b" using below_exp_bit [OF assms(1)] .
  ultimately show "bit (ucast (drop_bit 51 (push_bit 51 (ucast n) OR v) AND mask b) :: u32) k = bit n k"
    using \<open>k < LENGTH(32)\<close> assms(2) by (auto simp: bit_simps)
qed

lemma decode_encode:
  assumes enc: "encode_one fx f next_units base = Ok raw"
    and fits: "target_fits f (length imports) base (fx_target fx)"
    and nxt: "unat next_units < 2 ^ next_bits f"
  shows "decode_one raw f imports base = Ok (fx_target fx, next_units)"
proof -
  let ?hi = "push_bit 51 (ucast next_units) :: u64"
  have n: "next_units AND mask (next_bits f) = next_units" using below_exp [OF nxt] .
  have nb: "bit next_units k \<Longrightarrow> k < next_bits f" for k using below_exp_bit [OF nxt] .
  have nb12: "next_bits f \<le> 12" by (simp add: next_bits_def)
  have hi: "bit ?hi k \<Longrightarrow> 51 \<le> k \<and> k < 51 + next_bits f" for k
    using nb [of "k - 51"] by (auto simp: bit_simps)
  show ?thesis
  proof (cases "fx_target fx")
    case (FT_Rebase v)
    define t where "t = (if segment_relative f then v - base else v)"
    have t36: "unat t < 2 ^ 36" and tv: "segment_relative f \<Longrightarrow> base \<le> v"
      using fits FT_Rebase by (auto simp: target_fits_def t_def word_less_nat_alt split: if_splits)
    have raw: "raw = ?hi OR t"
      using enc FT_Rebase n tv below_exp [OF t36]
      by (auto simp: encode_one_def masks next_bits_def saturating_sub64_def t_def segment_relative_def format_64_def
          split: if_splits)
    have tb: "bit t k \<Longrightarrow> k < 36" for k using below_exp_bit [OF t36] .
    have "raw AND mask 36 = t" unfolding raw by (rule field_low) (use below_exp [OF t36] hi in force)+
    moreover have "ucast (drop_bit 51 raw AND mask (next_bits f)) = next_units"
      unfolding raw by (rule next_field [OF nxt nb12]) (use tb in force)
    moreover have "\<not> bit raw 63" "\<not> format_64 f \<Longrightarrow> \<not> bit raw 62"
      unfolding raw using hi [of 63] hi [of 62] tb by (auto simp: bit_or_iff next_bits_def dest: tb split: if_splits)
    ultimately show ?thesis
      using tv by (auto simp: decode_one_def masks test_bit FT_Rebase t_def next_bits_def segment_relative_def format_64_def)
  next
    case (FT_Bind i a)
    show ?thesis
    proof (cases "format_64 f")
      case True
      let ?i = "word_of_nat i :: u64"
      have i: "i < length imports" "i < 2 ^ 24" and a: "unat a < 2 ^ 8"
        using fits True by (auto simp: FT_Bind target_fits_def word_less_nat_alt)
      have ui: "unat ?i = i" using i(2) by (simp add: unat_of_nat take_bit_nat_eq_self)
      have im: "?i AND mask 24 = ?i" by (rule below_exp) (use ui i(2) in simp)
      have ib: "bit ?i k \<Longrightarrow> k < 24" for k by (rule below_exp_bit [of ?i]) (use ui i(2) in auto)
      have ab: "bit a k \<Longrightarrow> k < 8" for k using below_exp_bit [OF a] .
      have ua: "ucast (ucast a :: u8) = a" using ab by (intro bit_word_eqI) (auto simp: bit_simps)
      define v where "v = push_bit 63 1 OR ?i OR push_bit 24 a"
      have raw: "raw = ?hi OR v"
        using enc True n im ua by (auto simp: encode_one_def FT_Bind masks next_bits_def v_def or.assoc)
      have vb: "bit v k \<longleftrightarrow> k = 63 \<or> bit ?i k \<or> 24 \<le> k \<and> k < 64 \<and> bit a (k - 24)" for k
        by (simp only: v_def bit_or_iff bit_push_bit_iff bit_1_iff bit_and_iff bit_mask_iff possible_bit_word) auto
      have vk: "bit v k \<Longrightarrow> k < 32 \<or> k = 63" for k using ib [of k] ab [of "k - 24"] by (auto simp: vb)
      have "raw AND mask 24 = ?i"
      proof (rule bit_word_eqI)
        fix k assume "k < LENGTH(64)"
        show "bit (raw AND mask 24) k = bit ?i k"
          using hi [of k] ib [of k] by (auto simp: raw bit_simps vb)
      qed
      moreover have "drop_bit 24 raw AND mask 8 = a"
      proof (rule bit_word_eqI)
        fix k assume "k < LENGTH(64)"
        show "bit (drop_bit 24 raw AND mask 8) k = bit a k"
          using hi [of "24 + k"] ib [of "24 + k"] ab [of k] by (auto simp: raw bit_simps vb)
      qed
      moreover have "ucast (drop_bit 51 raw AND mask (next_bits f)) = next_units"
        unfolding raw using True by (intro next_field [OF nxt nb12]) (auto dest: vk simp: next_bits_def)
      moreover have "bit raw 63" by (simp add: raw bit_or_iff vb)
      ultimately show ?thesis
        using True i(1) ui by (simp add: decode_one_def masks test_bit FT_Bind next_bits_def)
    next
      case False
      let ?i = "word_of_nat i :: u64"
      let ?b = "if f = PF_Arm64eUserland24 then 24 else 16 :: nat"
      have i: "i < length imports" "i < 2 ^ ?b" and a: "- (2 ^ 18) \<le> sint a" "sint a < 2 ^ 18"
        using fits False by (auto simp: FT_Bind target_fits_def)
      have "(2::nat) ^ ?b \<le> 2 ^ 24" by (intro power_increasing) auto
      then have "i < 2 ^ 64" using i(2) by simp
      then have ui: "unat ?i = i" by (simp add: unat_of_nat take_bit_nat_eq_self)
      have om: "ordinal_mask f = mask ?b" by (simp add: ordinal_mask_def masks)
      have im: "?i AND mask ?b = ?i" by (rule below_exp) (use ui i(2) in simp)
      have ib: "bit ?i k \<Longrightarrow> k < ?b" for k by (rule below_exp_bit [of ?i]) (use ui i(2) in auto)
      define v where "v = push_bit 62 1 OR ?i OR push_bit 24 (a AND mask 19)"
      have "\<not> (sint a < - (2 ^ 18) \<or> 2 ^ 18 \<le> sint a)" using a by linarith
      then have raw: "raw = ?hi OR v"
        using enc False n im
        by (auto simp: encode_one_def FT_Bind masks om [unfolded masks] next_bits_def v_def or.assoc om)
      have vb: "bit v k \<longleftrightarrow> k = 62 \<or> bit ?i k \<or> 24 \<le> k \<and> k < 43 \<and> bit a (k - 24)" for k
        by (simp only: v_def bit_or_iff bit_push_bit_iff bit_1_iff bit_and_iff bit_mask_iff possible_bit_word) auto
      have vk: "bit v k \<Longrightarrow> k < 43 \<or> k = 62" for k using ib [of k] by (auto simp: vb split: if_splits)
      have "raw AND mask ?b = ?i"
      proof (rule bit_word_eqI)
        fix k assume "k < LENGTH(64)"
        show "bit (raw AND mask ?b) k = bit ?i k"
          using hi [of k] ib [of k] by (auto simp: raw bit_simps vb split: if_splits)
      qed
      moreover have "drop_bit 24 raw AND mask 19 = a AND mask 19"
      proof (rule bit_word_eqI)
        fix k assume "k < LENGTH(64)"
        show "bit (drop_bit 24 raw AND mask 19) k = bit (a AND mask 19) k"
          using hi [of "24 + k"] ib [of "24 + k"] by (auto simp: raw bit_simps vb split: if_splits)
      qed
      moreover have "ucast (drop_bit 51 raw AND mask (next_bits f)) = next_units"
        unfolding raw using False by (intro next_field [OF nxt nb12]) (auto dest: vk simp: next_bits_def)
      moreover have "bit raw 62" by (simp add: raw bit_or_iff vb)
      moreover have "\<not> bit raw 63" using hi [of 63] vk [of 63] False by (auto simp: raw bit_or_iff next_bits_def)
      ultimately show ?thesis
        using False i(1) ui sign_19 [OF a] by (simp add: decode_one_def masks om test_bit FT_Bind next_bits_def)
    qed
  qed
qed

section \<open>One chain\<close>

definition slot_offset :: "macho_segment \<Rightarrow> fixup \<Rightarrow> u64" where
  "slot_offset seg fx = fx_vaddr fx - seg_vmaddr seg"

text \<open>A fixup the segment has a slot for, in the file and in the format.\<close>

definition fixup_fits :: "pointer_format \<Rightarrow> chained_import list \<Rightarrow> macho_segment \<Rightarrow> fixup \<Rightarrow> bool" where
  "fixup_fits f imports seg fx \<longleftrightarrow>
     seg_vmaddr seg \<le> fx_vaddr fx \<and> fx_vaddr fx mod ucast (stride f) = 0 \<and>
     unat (slot_offset seg fx) + 8 \<le> unat (seg_filesize seg) \<and>
     target_fits f (length imports) (seg_vmaddr seg) (fx_target fx)"

definition segment_in :: "bytes \<Rightarrow> macho_segment \<Rightarrow> bool" where
  "segment_in bs seg \<longleftrightarrow>
     unat (seg_fileoff seg) + unat (seg_filesize seg) < 2 ^ 64 \<and>
     unat (seg_fileoff seg) + unat (seg_filesize seg) \<le> length bs"

definition holds :: "bytes \<Rightarrow> (u64 \<times> bytes) list \<Rightarrow> bool" where
  "holds bs slots \<longleftrightarrow> (\<forall>(off, w)\<in>set slots. take (length w) (drop (unat off) bs) = w)"

lemma unat_add_small: "unat a + unat b < 2 ^ LENGTH('a) \<Longrightarrow> unat (a + b) = unat a + unat (b :: 'a :: len word)"
  by (simp add: unat_word_ariths take_bit_nat_eq_self)

lemma stride_cases: "(ucast (stride f) :: u64) = 4 \<or> (ucast (stride f) :: u64) = 8"
  by (simp add: stride_def)

lemma chain_step:
  fixes d :: u64
  assumes "d mod ucast (stride f) = 0" "d \<le> ucast (max_next_byte_delta f)"
  defines "n \<equiv> ucast (d div ucast (stride f)) :: u32"
  shows "unat n < 2 ^ next_bits f" "ucast n * ucast (stride f) = d" "n = 0 \<longleftrightarrow> d = 0"
proof -
  let ?s = "if format_64 f then 4 else 8 :: nat"
  have s: "unat (ucast (stride f) :: u64) = ?s" by (simp add: stride_def)
  have mx: "unat (ucast (max_next_byte_delta f) :: u64) = (2 ^ next_bits f - 1) * ?s"
    by (simp add: max_next_byte_delta_def next_bits_def stride_def)
  have d: "unat d \<le> (2 ^ next_bits f - 1) * ?s" using assms(2) mx by (simp add: word_le_nat_alt)
  have q: "unat (d div ucast (stride f)) = unat d div ?s" by (simp add: unat_div s)
  have qs: "unat d div ?s \<le> 2 ^ next_bits f - 1" using div_le_mono [OF d, of ?s] by simp
  then have small: "unat d div ?s < 2 ^ next_bits f" "unat d div ?s < 2 ^ 32"
    by (auto simp: next_bits_def split: if_splits)
  have n: "unat n = unat d div ?s"
    unfolding n_def using small(2) q by (simp add: unsigned_ucast_eq take_bit_nat_eq_self)
  show "unat n < 2 ^ next_bits f" using small(1) n by simp
  have "unat (d mod ucast (stride f)) = 0" unfolding assms(1) by simp
  then have m: "unat d mod ?s = 0" unfolding unat_mod s .
  have "unat (ucast n * ucast (stride f) :: u64) = unat d"
  proof -
    have "unat (ucast n :: u64) = unat n" using unsigned_less [of n, where ?'a = nat] by (simp add: unsigned_ucast_eq take_bit_nat_eq_self)
    moreover have "unat d div ?s * ?s = unat d" using m div_mult_mod_eq [of "unat d" ?s] by simp
    ultimately show ?thesis
      using n s unsigned_less [of d, where ?'a = nat] by (simp add: unat_word_ariths take_bit_nat_eq_self)
  qed
  then show c: "ucast n * ucast (stride f) = d" by (simp add: word_unat_eq_iff)
  show "n = 0 \<longleftrightarrow> d = 0" using c by (auto simp: n_def)
qed

lemma walk_chain_group:
  assumes enc: "encode_page f seg g = Ok slots" and held: "holds bs slots" and seg: "segment_in bs seg"
    and fits: "\<forall>fx\<in>set g. fixup_fits f imports seg fx" and srt: "sorted_wrt (<) (map fx_vaddr g)"
    and gaps: "overflowing_gap (ucast (max_next_byte_delta f)) (map fx_vaddr g) = None" and ne: "g \<noteq> []"
  shows "walk_chain_loop bs f imports seg (slot_offset seg (hd g)) found = Some (Ok (found @ g))"
  using enc held fits srt gaps ne
proof (induction g arbitrary: slots found)
  case (Cons fx g)
  let ?d = "case g of [] \<Rightarrow> 0 | fx2 # _ \<Rightarrow> fx_vaddr fx2 - fx_vaddr fx"
  let ?n = "ucast (?d div ucast (stride f)) :: u32"
  let ?off = "slot_offset seg fx"
  obtain raw rest where raw: "encode_one fx f ?n (seg_vmaddr seg) = Ok raw" "encode_page f seg g = Ok rest"
      "slots = (seg_fileoff seg + ?off, le64 raw) # rest"
    using Cons.prems(1) by (auto simp: Let_def and_then_Ok_iff slot_offset_def)
  have fx: "fixup_fits f imports seg fx" using Cons.prems(3) by simp
  have d: "?d mod ucast (stride f) = 0" "?d \<le> ucast (max_next_byte_delta f)" "?d = 0 \<longleftrightarrow> g = []"
  proof -
    show "?d = 0 \<longleftrightarrow> g = []" using Cons.prems(4) by (cases g) auto
    show "?d \<le> ucast (max_next_byte_delta f)" using Cons.prems(5) by (cases g) (auto split: if_splits)
    show "?d mod ucast (stride f) = 0"
    proof (cases g)
      case (Cons fx2 g2)
      have lt: "fx_vaddr fx < fx_vaddr fx2" using Cons.prems(4) Cons by simp
      have "unat (fx_vaddr fx2) mod unat (ucast (stride f) :: u64) = 0" "unat (fx_vaddr fx) mod unat (ucast (stride f) :: u64) = 0"
        using Cons.prems(3) Cons fx by (auto simp: fixup_fits_def unat_mod [symmetric])
      then have "(unat (fx_vaddr fx2) - unat (fx_vaddr fx)) mod unat (ucast (stride f) :: u64) = 0"
        by (meson dvd_diff_nat mod_0_imp_dvd dvd_imp_mod_0)
      moreover have "unat (fx_vaddr fx2 - fx_vaddr fx) = unat (fx_vaddr fx2) - unat (fx_vaddr fx)"
        using lt by (simp add: unat_sub)
      ultimately show ?thesis using Cons by (simp add: word_unat_eq_iff unat_mod)
    qed simp
  qed
  note step = chain_step [OF d(1,2)]
  have dec: "decode_one raw f imports (seg_vmaddr seg) = Ok (fx_target fx, ?n)"
    by (rule decode_encode [OF raw(1) _ step(1)]) (use fx in \<open>simp add: fixup_fits_def\<close>)
  have off: "unat (seg_fileoff seg + ?off) = unat (seg_fileoff seg) + unat ?off"
    and fits_in: "unat (seg_fileoff seg) + unat ?off + 8 \<le> unat (seg_fileoff seg) + unat (seg_filesize seg)"
    using fx seg by (auto simp: fixup_fits_def segment_in_def intro!: unat_add_small)
  have in_file: "\<not> (seg_fileoff seg + seg_filesize seg < seg_fileoff seg + ?off + 8 \<or> length bs < unat (seg_fileoff seg + ?off) + 8)"
  proof -
    have e: "unat (seg_fileoff seg + seg_filesize seg) = unat (seg_fileoff seg) + unat (seg_filesize seg)"
      using seg by (intro unat_add_small) (simp add: segment_in_def)
    have "unat (seg_fileoff seg + ?off + 8) = unat (seg_fileoff seg + ?off) + unat (8 :: u64)"
      using seg fits_in off by (intro unat_add_small) (simp add: segment_in_def)
    then show ?thesis using e off fits_in seg by (simp add: word_less_nat_alt segment_in_def)
  qed
  have "take 8 (drop (unat (seg_fileoff seg + ?off)) bs) = le64 raw"
    using Cons.prems(2) raw(3) by (simp add: holds_def)
  then have read: "of_le (take 8 (drop (unat (seg_fileoff seg + ?off)) bs)) = raw" by simp
  have va: "seg_vmaddr seg + ?off = fx_vaddr fx" by (simp add: slot_offset_def)
  have this_fx: "\<lparr>fx_vaddr = fx_vaddr fx, fx_target = fx_target fx\<rparr> = fx" by simp
  have unfolded: "walk_chain_loop bs f imports seg ?off found =
      (if ?n = 0 then Some (Ok (found @ [fx]))
       else walk_chain_loop bs f imports seg (?off + ucast ?n * ucast (stride f)) (found @ [fx]))"
    using in_file dec by (subst walk_chain_loop.simps) (simp only: Let_def read va this_fx if_False sum.case prod.case)
  show ?case
  proof (cases "g = []")
    case True
    then show ?thesis using unfolded step(3) d(3) by simp
  next
    case False
    then obtain fx2 g2 where g: "g = fx2 # g2" by (cases g) auto
    have "?off + ucast ?n * ucast (stride f) = slot_offset seg (hd g)"
      unfolding step(2) by (simp add: slot_offset_def g)
    moreover have "?n \<noteq> 0" using step(3) d(3) False by blast
    moreover have "walk_chain_loop bs f imports seg (slot_offset seg (hd g)) (found @ [fx]) = Some (Ok ((found @ [fx]) @ g))"
      using Cons.prems raw False by (intro Cons.IH) (auto simp: holds_def g split: if_splits)
    ultimately show ?thesis using unfolded by simp
  qed
qed simp

section \<open>The pages of a segment\<close>

abbreviation page_group :: "macho_segment \<Rightarrow> u64 \<Rightarrow> fixup list \<Rightarrow> u64 \<Rightarrow> fixup list" where
  "page_group seg page_size fs page \<equiv> filter (\<lambda>fx. page_of seg page_size fx = page) fs"

lemma fill_page_starts_spec:
  assumes "fill_page_starts f seg page_size fs pages starts = Some (Ok starts')" "distinct pages"
    and "\<And>page. page \<in> set pages \<Longrightarrow> page_group seg page_size fs page \<noteq> []"
  shows "length starts' = length starts \<and>
    (\<forall>page\<in>set pages. unat page < length starts \<and>
       starts' ! unat page = ucast (fx_vaddr (hd (page_group seg page_size fs page)) - (seg_vmaddr seg + page * page_size)) \<and>
       overflowing_gap (ucast (max_next_byte_delta f)) (map fx_vaddr (page_group seg page_size fs page)) = None) \<and>
    (\<forall>i. i \<notin> unat ` set pages \<longrightarrow> starts' ! i = starts ! i)"
  using assms
proof (induction f seg page_size fs pages starts rule: fill_page_starts.induct)
  case (2 f seg page_size fs page pages starts)
  let ?vs = "map fx_vaddr (page_group seg page_size fs page)"
  let ?v = "ucast (hd ?vs - (seg_vmaddr seg + page * page_size)) :: 16 word"
  have lt: "unat page < length starts" using 2(2) by (auto simp: Let_def split: if_splits)
  have gap: "overflowing_gap (ucast (max_next_byte_delta f)) ?vs = None"
    using 2(2) lt by (auto simp: Let_def split: option.splits if_splits)
  have rest: "fill_page_starts f seg page_size fs pages (starts[unat page := ?v]) = Some (Ok starts')"
    using 2(2) lt gap by (simp add: Let_def)
  have ih: "length starts' = length starts \<and>
    (\<forall>page\<in>set pages. unat page < length starts \<and>
       starts' ! unat page = ucast (fx_vaddr (hd (page_group seg page_size fs page)) - (seg_vmaddr seg + page * page_size)) \<and>
       overflowing_gap (ucast (max_next_byte_delta f)) (map fx_vaddr (page_group seg page_size fs page)) = None) \<and>
    (\<forall>i. i \<notin> unat ` set pages \<longrightarrow> starts' ! i = starts[unat page := ?v] ! i)"
    using 2(1) [OF refl refl _ refl gap rest] lt 2(3,4) by simp
  have "unat page \<notin> unat ` set pages" using 2(3) by (auto dest: unsigned_word_eqI)
  then have "starts' ! unat page = ?v" using ih lt by simp
  moreover have "hd ?vs = fx_vaddr (hd (page_group seg page_size fs page))" using 2(4) [of page] by (simp add: hd_map)
  ultimately show ?case using ih lt gap by auto
qed simp

lemma page_remainder:
  fixes off P :: u64
  assumes "P \<noteq> 0" "P \<le> 0xFFFF"
  defines "x \<equiv> off - off div P * P"
  shows "ucast (ucast x :: 16 word) = x" "(ucast x :: 16 word) \<noteq> 0xFFFF" "off div P * P + x = off"
proof -
  have x: "x = off mod P" unfolding x_def by (metis add_diff_cancel_left' div_mult_mod_eq)
  have "unat x < unat P" using assms(1) unfolding x unat_mod by (simp add: unat_gt_0)
  then have less: "unat x < 0xFFFF" using assms(2) by (simp add: word_le_nat_alt)
  then have u: "unat (ucast x :: 16 word) = unat x" by (simp add: unsigned_ucast_eq take_bit_nat_eq_self)
  then show "ucast (ucast x :: 16 word) = x" using less by (intro word_unat_eq_iff [THEN iffD2]) (simp add: unsigned_ucast_eq unsigned_take_bit_eq take_bit_nat_eq_self)
  show "(ucast x :: 16 word) \<noteq> 0xFFFF" using u less by (auto simp: word_unat_eq_iff)
  show "off div P * P + x = off" by (simp add: x_def)
qed

lemma sorted_dedup:
  "sorted (map fx_vaddr fs) \<Longrightarrow> sorted_wrt (<) (map fx_vaddr (dedup_by_vaddr fs))"
proof -
  have hd_in: "fx_vaddr ` set (dedup_by_vaddr fs) \<subseteq> fx_vaddr ` set fs" for fs
    by (induction fs rule: dedup_by_vaddr.induct) auto
  show "sorted (map fx_vaddr fs) \<Longrightarrow> sorted_wrt (<) (map fx_vaddr (dedup_by_vaddr fs))"
  proof (induction fs rule: dedup_by_vaddr.induct)
    case (1 a b fs)
    show ?case
    proof (cases "fx_vaddr a = fx_vaddr b")
      case True
      then show ?thesis using 1 by simp
    next
      case False
      then have "fx_vaddr a < v" if "v \<in> fx_vaddr ` set (dedup_by_vaddr (b # fs))" for v
        using "1.prems" hd_in [of "b # fs"] that by fastforce
      then show ?thesis using 1 False by simp
    qed
  qed simp_all
qed

lemma sorted_fixups_sorted: "sorted_wrt (<) (map fx_vaddr (sorted_fixups sf))"
  by (simp add: sorted_fixups_def sorted_dedup)

lemma sort_key_sorted: "sorted (map k xs) \<Longrightarrow> sort_key k xs = xs"
  by (rule properties_for_sort_key) auto

lemma sorted_filter_group: "sorted_wrt (<) (map fx_vaddr fs) \<Longrightarrow> sorted_wrt (<) (map fx_vaddr (filter P fs))"
  by (induction fs) auto

lemma groups_cover:
  assumes "\<And>fx. fx \<in> set fs \<Longrightarrow> unat (pg fx :: u64) < n" "n < 2 ^ 64"
  shows "mset (concat (map (\<lambda>i. filter (\<lambda>fx. pg fx = word_of_nat i) fs) [0..<n])) = mset fs"
  using assms(1)
proof (induction fs)
  case (Cons fx fs)
  have eq: "pg fx = word_of_nat i \<longleftrightarrow> i = unat (pg fx)" if "i < n" for i
    using that assms(2) by (auto simp: unat_of_nat take_bit_nat_eq_self)
  have "mset (concat (map (\<lambda>i. filter (\<lambda>fx. pg fx = word_of_nat i) (fx # fs)) [0..<n])) =
      (\<Sum>i\<leftarrow>[0..<n]. if i = unat (pg fx) then {#fx#} else {#}) +
      mset (concat (map (\<lambda>i. filter (\<lambda>fx. pg fx = word_of_nat i) fs) [0..<n]))"
    unfolding mset_concat map_map sum_list_addf [symmetric]
    by (intro arg_cong [of _ _ sum_list] map_cong) (auto simp: eq)
  also have "(\<Sum>i\<leftarrow>[0..<n]. if i = unat (pg fx) then {#fx#} else {#}) = {#fx#}"
    using Cons.prems [of fx] by (simp add: sum_list_distinct_conv_sum_set)
  finally show ?case using Cons by simp
qed simp

lemma sort_key_groups:
  assumes "sorted_wrt (<) (map fx_vaddr fs)" "mset gs = mset fs"
  shows "sort_key fx_vaddr gs = fs"
proof (rule properties_for_sort_key)
  have d: "distinct (map fx_vaddr fs)" using assms(1) by (simp add: strict_sorted_iff)
  show "sorted (map fx_vaddr fs)" using assms(1) by (simp add: strict_sorted_iff)
  show "mset fs = mset gs" using assms(2) by simp
  fix k assume "k \<in> set fs"
  have one: "filter (\<lambda>x. fx_vaddr k = fx_vaddr x) xs = [k]" if "mset xs = mset fs" for xs
  proof -
    have "inj_on fx_vaddr (set fs)" "distinct fs" using d by (simp_all add: distinct_map)
    then have "filter_mset (\<lambda>x. fx_vaddr k = fx_vaddr x) (mset fs) = filter_mset (\<lambda>x. x = k) (mset fs)"
      using \<open>k \<in> set fs\<close> by (intro filter_mset_cong) (auto dest: inj_onD)
    also have "\<dots> = {#k#}" using \<open>distinct fs\<close> \<open>k \<in> set fs\<close> by (simp add: filter_eq_replicate_mset distinct_count_atmost_1 [THEN iffD1, rule_format] set_mset_mset)
    finally have "mset (filter (\<lambda>x. fx_vaddr k = fx_vaddr x) xs) = {#k#}" by (simp add: that)
    then show ?thesis by (metis mset_single_iff)
  qed
  show "filter (\<lambda>x. fx_vaddr k = fx_vaddr x) fs = filter (\<lambda>x. fx_vaddr k = fx_vaddr x) gs"
    using one [of fs] one [of gs] assms(2) by simp
qed

lemma write_slots_spec:
  assumes "write_slots slots img = Ok bs" "\<forall>(off, w)\<in>set slots. length w = 8" "fields_apart 8 (map (unat \<circ> fst) slots)"
  shows "length bs = length img \<and> holds bs slots \<and>
    (\<forall>k. (\<forall>(off, w)\<in>set slots. k < unat off \<or> unat off + 8 \<le> k) \<longrightarrow> bs ! k = img ! k)"
  using assms
proof (induction slots img rule: write_slots.induct)
  case (2 off w slots img)
  obtain img1 where img1: "write_at img (unat off) w = Some img1" "write_slots slots img1 = Ok bs"
    using 2(2) by (auto split: option.splits)
  have len: "length img1 = length img" and keep: "\<And>k. k < unat off \<or> unat off + 8 \<le> k \<Longrightarrow> img1 ! k = img ! k"
    and here: "take 8 (drop (unat off) img1) = w" and fit: "unat off + 8 \<le> length img1"
    using img1(1) 2(3) by (auto simp: write_at_def nth_append split: if_splits)
  have ih: "length bs = length img1 \<and> holds bs slots \<and>
    (\<forall>k. (\<forall>(off, w)\<in>set slots. k < unat off \<or> unat off + 8 \<le> k) \<longrightarrow> bs ! k = img1 ! k)"
    using 2(1) [OF img1] 2(3,4) by (auto simp: fields_apart_def)
  have sep: "\<forall>(o2, w2)\<in>set slots. unat off + 8 \<le> unat o2 \<or> unat o2 + 8 \<le> unat off"
    using 2(4) by (auto simp: fields_apart_def)
  have "take 8 (drop (unat off) bs) = take 8 (drop (unat off) img1)"
  proof (rule nth_equalityI)
    fix i assume "i < length (take 8 (drop (unat off) bs))"
    then have i: "i < 8" by simp
    have "\<forall>(o2, w2)\<in>set slots. unat off + i < unat o2 \<or> unat o2 + 8 \<le> unat off + i"
      using sep i by fastforce
    then have "bs ! (unat off + i) = img1 ! (unat off + i)" using ih by blast
    then show "take 8 (drop (unat off) bs) ! i = take 8 (drop (unat off) img1) ! i" using i fit ih by simp
  qed (use ih in simp)
  then have "holds bs ((off, w) # slots)" using here ih 2(3) by (auto simp: holds_def)
  then show ?case using ih len keep by auto
qed (simp add: holds_def)

lemma collect_map_results: "collect_results (map g xs) = Ok ys \<Longrightarrow> x \<in> set xs \<Longrightarrow> \<exists>y\<in>set ys. g x = Ok y"
proof (induction xs arbitrary: ys)
  case (Cons a xs)
  then show ?case by (auto simp: and_then_Ok_iff)
qed simp

lemma walk_pages_groups:
  assumes srt: "sorted_wrt (<) (map fx_vaddr fs)" and seg: "segment_in bs seg"
    and fits: "\<forall>fx\<in>set fs. fixup_fits f imports seg fx"
    and size: "(ucast page_size :: u64) \<noteq> 0 \<or> fs = []" "(ucast page_size :: u64) \<le> 0xFFFF"
    and table: "\<And>k. k < n \<Longrightarrow> of_le (take 2 (drop (base + k * 2) bs)) = (starts ! k :: 16 word)"
    and starts: "\<And>k. k < n \<Longrightarrow>
      starts ! k = (if page_group seg (ucast page_size) fs (word_of_nat k) = [] then 0xFFFF
        else ucast (fx_vaddr (hd (page_group seg (ucast page_size) fs (word_of_nat k))) - (seg_vmaddr seg + word_of_nat k * ucast page_size)))"
    and gaps: "\<And>k. k < n \<Longrightarrow>
      overflowing_gap (ucast (max_next_byte_delta f)) (map fx_vaddr (page_group seg (ucast page_size) fs (word_of_nat k))) = None"
    and enc: "\<And>k. k < n \<Longrightarrow> page_group seg (ucast page_size) fs (word_of_nat k) \<noteq> [] \<Longrightarrow>
      \<exists>slots. encode_page f seg (page_group seg (ucast page_size) fs (word_of_nat k)) = Ok slots \<and> holds bs slots"
    and i: "i + m = n"
  shows "walk_pages bs f imports seg page_size base i m found =
    Some (Ok (found @ concat (map (\<lambda>k. page_group seg (ucast page_size) fs (word_of_nat k)) [i..<n])))"
  using i
proof (induction m arbitrary: i found)
  case (Suc m)
  let ?P = "ucast page_size :: u64"
  let ?g = "page_group seg ?P fs (word_of_nat i)"
  have i: "i < n" "Suc i + m = n" using Suc.prems by simp_all
  have tail: "[i..<n] = i # [Suc i..<n]" using i(1) by (simp add: upt_conv_Cons)
  show ?case
  proof (cases "?g = []")
    case True
    then have "starts ! i = 0xFFFF" using starts [OF i(1)] by simp
    then show ?thesis using Suc.IH [OF i(2)] True table [OF i(1)] by (simp add: tail Let_def)
  next
    case False
    define fx where "fx = hd ?g"
    define w where "w = (word_of_nat i :: u64)"
    have fx: "fx \<in> set fs" "page_of seg ?P fx = w" using hd_in_set [OF False] by (auto simp: fx_def w_def)
    have P: "?P \<noteq> 0" using size(1) fx(1) by auto
    have page: "slot_offset seg fx div ?P = w" using fx(2) by (simp add: page_of_def slot_offset_def)
    note rem = page_remainder [OF P size(2), of "slot_offset seg fx", unfolded page]
    have start: "starts ! i = ucast (slot_offset seg fx - w * ?P)"
      using starts [OF i(1)] False by (simp add: fx_def w_def slot_offset_def diff_diff_eq)
    obtain slots where slots: "encode_page f seg ?g = Ok slots" "holds bs slots" using enc [OF i(1) False] by blast
    have off: "word_of_nat i * ?P + ucast (starts ! i) = slot_offset seg fx"
      unfolding start rem(1) w_def [symmetric] by (rule rem(3))
    have "walk_chain_loop bs f imports seg (slot_offset seg fx) found = Some (Ok (found @ ?g))"
      unfolding fx_def
      using fits by (intro walk_chain_group [OF slots seg _ sorted_filter_group [OF srt] gaps [OF i(1)] False]) auto
    moreover have "starts ! i \<noteq> 0xFFFF" unfolding start by (rule rem(2))
    ultimately have "walk_pages bs f imports seg page_size base i (Suc m) found =
        walk_pages bs f imports seg page_size base (Suc i) m (found @ ?g)"
      by (simp only: walk_pages.simps Let_def table [OF i(1)] off if_False Option.bind.simps sum.case)
    then show ?thesis using Suc.IH [OF i(2)] by (simp add: tail)
  qed
qed simp

section \<open>What is written is walked back\<close>

definition page_count_of :: "macho_segment \<Rightarrow> u64 \<Rightarrow> nat" where
  "page_count_of seg page_size = unat ((seg_vmsize seg + page_size - 1) div page_size)"

lemma slice_of_slice:
  "take (length p) (drop at bs) = p \<Longrightarrow> k + n \<le> length p \<Longrightarrow> take n (drop (at + k) bs) = take n (drop k p)"
proof -
  assume a: "take (length p) (drop at bs) = p" "k + n \<le> length p"
  have "take n (drop k p) = take n (drop k (take (length p) (drop at bs)))" using a(1) by simp
  also have "\<dots> = take n (drop (at + k) bs)" using a(2) by (simp add: drop_take add.commute)
  finally show ?thesis ..
qed

lemma format_round_trip: "format_from_raw (format_to_raw f) = Ok f"
  by (cases f) (simp_all add: format_from_raw_def)

lemma length_payload_header [simp]: "length (payload_header n sf f seg c) = 22"
  by (simp add: payload_header_def)

lemma payload_header_fields:
  "take 2 (drop 4 (payload_header n sf f seg c @ xs)) = le16 (ucast (sf_page_size sf))"
  "take 2 (drop 6 (payload_header n sf f seg c @ xs)) = le16 (format_to_raw f)"
  "take 2 (drop 20 (payload_header n sf f seg c @ xs)) = le16 (word_of_nat c)"
  by (simp_all add: payload_header_def)

lemma walk_written_segment:
  assumes payload: "take (length payload) (drop at bs) = payload" "at + length payload \<le> fixups_end"
    and shape: "payload = payload_header n sf f seg c @ concat (map le16 starts)" "length starts = c" "c < 2 ^ 16"
    and size: "unat (sf_page_size sf) < 2 ^ 16" and seg: "vec_get segments idx = Some seg"
    and walk: "\<And>base. (\<And>k. k < c \<Longrightarrow> of_le (take 2 (drop (base + k * 2) bs)) = starts ! k) \<Longrightarrow>
      walk_pages bs f imports seg (sf_page_size sf) base 0 c [] = Some (Ok found)"
  shows "walk_one_segment bs at idx fixups_end segments imports =
    Some (Ok (f, sf_page_size sf, sort_key fx_vaddr found))"
proof -
  have len: "length payload = 22 + 2 * c" using u16.length_array [of starts] by (simp add: shape)
  note sub = slice_of_slice [OF payload(1)]
  have "take 2 (drop (at + 4) bs) = le16 (ucast (sf_page_size sf))"
    "take 2 (drop (at + 6) bs) = le16 (format_to_raw f)" "take 2 (drop (at + 20) bs) = le16 (word_of_nat c)"
    using sub [of 4 2] sub [of 6 2] sub [of 20 2] len unfolding shape payload_header_fields by simp_all
  moreover have "ucast (ucast (sf_page_size sf) :: 16 word) = sf_page_size sf"
    using size by (intro word_unat_eq_iff [THEN iffD2]) (simp add: unsigned_ucast_eq unsigned_take_bit_eq take_bit_nat_eq_self)
  moreover have "unat (word_of_nat c :: 16 word) = c" using shape(3) by (simp add: unat_of_nat take_bit_nat_eq_self)
  moreover have "walk_pages bs f imports seg (sf_page_size sf) (at + 22) 0 c [] = Some (Ok found)"
  proof (rule walk)
    fix k assume k: "k < c"
    have "take 2 (drop (at + (22 + k * 2)) bs) = take 2 (drop (22 + k * 2) payload)"
      using k len by (intro sub) simp
    also have "\<dots> = le16 (starts ! k)"
      using k u16.nth_array [of k starts "[]"] by (simp add: shape mult.commute)
    finally show "of_le (take 2 (drop (at + 22 + k * 2) bs)) = starts ! k" by (simp add: add.assoc)
  qed
  ultimately show ?thesis
    using payload(2) len seg by (simp add: walk_one_segment_def Let_def format_round_trip)
qed

lemma chains_of_slots:
  assumes order: "\<And>ks. distinct ks \<Longrightarrow> distinct (order ks) \<and> set (order ks) = set ks"
    and payload: "build_starts_in_segment order f (sf\<lparr>sf_fixups := sorted_fixups sf\<rparr>) seg = Some (Ok payload)"
    and slots: "segment_slots order f seg sf = Some (Ok slots)"
    and held: "holds bs slots" "take (length payload) (drop at bs) = payload" "at + length payload \<le> fixups_end"
    and seg: "vec_get segments idx = Some seg" "segment_in bs seg"
    and size: "unat (sf_page_size sf) < 2 ^ 16" "page_count_of seg (ucast (sf_page_size sf)) < 2 ^ 16"
    and fits: "\<forall>fx\<in>set (sorted_fixups sf). fixup_fits f imports seg fx"
  shows "walk_one_segment bs at idx fixups_end segments imports = Some (Ok (f, sf_page_size sf, sorted_fixups sf))"
proof -
  let ?F = "sorted_fixups sf" and ?P = "ucast (sf_page_size sf) :: u64"
  let ?c = "page_count_of seg ?P" and ?pg = "page_of seg ?P"
  let ?g = "page_group seg ?P ?F"
  have srt: "sorted_wrt (<) (map fx_vaddr ?F)" by (rule sorted_fixups_sorted)
  have P16: "?P \<le> 0xFFFF"
    using size(1) by (simp add: word_le_nat_alt unsigned_ucast_eq take_bit_nat_eq_self)
  show ?thesis
  proof (cases "?F = []")
    case True
    then have "payload = payload_header 22 (sf\<lparr>sf_fixups := ?F\<rparr>) f seg 0 @ concat (map le16 [])"
      using payload by (simp add: build_starts_in_segment_def)
    then have "walk_one_segment bs at idx fixups_end segments imports =
        Some (Ok (f, sf_page_size (sf\<lparr>sf_fixups := ?F\<rparr>), sort_key fx_vaddr []))"
      by (rule walk_written_segment [OF held(2,3) _ _ _ _ seg(1)]) (use size(1) in simp_all)
    then show ?thesis using True by simp
  next
    case False
    then have P: "?P \<noteq> 0" using slots by (auto simp: segment_slots_def Let_def)
    let ?pages = "order (remdups (map ?pg ?F))"
    have pages: "distinct ?pages" "set ?pages = ?pg ` set ?F" using order [of "remdups (map ?pg ?F)"] by simp_all
    let ?fill = "fill_page_starts f seg ?P ?F ?pages (replicate ?c 0xFFFF)"
    let ?head = "payload_header (22 + ?c * 2) (sf\<lparr>sf_fixups := ?F\<rparr>) f seg ?c"
    have "check_alignment f seg (sf_segment_index sf) ?F = None"
      using payload False P sort_key_sorted [of fx_vaddr ?F] srt
      by (auto simp: build_starts_in_segment_def Let_def strict_sorted_iff split: option.splits)
    then have "map_option (map_sum id (\<lambda>starts. ?head @ concat (map le16 starts))) ?fill = Some (Ok payload)"
      using payload False P sort_key_sorted [of fx_vaddr ?F] srt
      by (simp add: build_starts_in_segment_def Let_def page_count_of_def strict_sorted_iff)
    then obtain r where r: "?fill = Some r" "map_sum id (\<lambda>starts. ?head @ concat (map le16 starts)) r = Ok payload" by auto
    then obtain starts where starts: "?fill = Some (Ok starts)" and shape: "payload = ?head @ concat (map le16 starts)"
      by (cases r) auto
    have group_ne: "?g page \<noteq> []" if "page \<in> set ?pages" for page
      using that pages(2) by (auto simp: filter_empty_conv)
    note filled = fill_page_starts_spec [OF starts pages(1) group_ne]
    have start_page: "starts ! unat page = ucast (fx_vaddr (hd (?g page)) - (seg_vmaddr seg + page * ?P))"
      if "page \<in> set ?pages" for page
      using filled that by blast
    have c64: "k < ?c \<Longrightarrow> unat (word_of_nat k :: u64) = k" for k
      using size(2) by (simp add: unat_of_nat take_bit_nat_eq_self)
    have in_pages: "?g page \<noteq> [] \<longleftrightarrow> page \<in> set ?pages" for page
      using pages(2) by (auto simp: filter_empty_conv)
    have start_at: "starts ! k = (if ?g (word_of_nat k) = [] then 0xFFFF
        else ucast (fx_vaddr (hd (?g (word_of_nat k))) - (seg_vmaddr seg + word_of_nat k * ?P)))" if "k < ?c" for k
    proof (cases "?g (word_of_nat k) = []")
      case True
      then have "(word_of_nat k :: u64) \<notin> set ?pages" using in_pages by blast
      then have "k \<notin> unat ` set ?pages" using c64 [OF that] by (metis imageE unsigned_word_eqI)
      then show ?thesis using filled True that by simp
    next
      case False
      then have "(word_of_nat k :: u64) \<in> set ?pages" using in_pages by blast
      from start_page [OF this] show ?thesis unfolding c64 [OF that] using False by (simp only: if_False)
    qed
    have gap_at: "overflowing_gap (ucast (max_next_byte_delta f)) (map fx_vaddr (?g page)) = None" for page
      using filled in_pages [of page] by (cases "?g page = []") auto
    have enc_at: "\<exists>part. encode_page f seg (?g page) = Ok part \<and> holds bs part" if ne: "?g page \<noteq> []" for page
    proof -
      have "sort_key fx_vaddr (?g page) = ?g page"
        using sorted_filter_group [OF srt] by (intro sort_key_sorted) (simp add: strict_sorted_iff)
      then have g: "?g page \<in> set (segment_pages order seg ?P ?F)"
        using ne in_pages [of page] unfolding segment_pages_def set_map image_iff by (intro bexI [of _ page]) simp_all
      obtain parts where parts: "collect_results (map (encode_page f seg) (segment_pages order seg ?P ?F)) = Ok parts"
          "slots = concat parts"
        using slots False P by (cases "collect_results (map (encode_page f seg) (segment_pages order seg ?P ?F))")
          (auto simp: segment_slots_def Let_def)
      obtain part where "part \<in> set parts" "encode_page f seg (?g page) = Ok part"
        using collect_map_results [OF parts(1) g] by blast
      then show ?thesis using held(1) parts(2) by (auto simp: holds_def)
    qed
    have page_less: "unat (?pg fx) < ?c" if "fx \<in> set ?F" for fx
      using filled pages(2) that by simp
    have "walk_one_segment bs at idx fixups_end segments imports =
        Some (Ok (f, sf_page_size (sf\<lparr>sf_fixups := ?F\<rparr>), sort_key fx_vaddr (concat (map (\<lambda>k. ?g (word_of_nat k)) [0..<?c]))))"
    proof (rule walk_written_segment [OF held(2,3) shape _ size(2) _ seg(1)])
      fix base assume table: "\<And>k. k < ?c \<Longrightarrow> of_le (take 2 (drop (base + k * 2) bs)) = starts ! k"
      have "walk_pages bs f imports seg (sf_page_size sf) base 0 ?c [] =
          Some (Ok ([] @ concat (map (\<lambda>k. ?g (word_of_nat k)) [0..<?c])))"
        by (rule walk_pages_groups [OF srt seg(2) fits _ P16 table start_at gap_at enc_at]) (use P in auto)
      then show "walk_pages bs f imports seg (sf_page_size (sf\<lparr>sf_fixups := ?F\<rparr>)) base 0 ?c [] =
          Some (Ok (concat (map (\<lambda>k. ?g (word_of_nat k)) [0..<?c])))" by simp
    qed (use size filled in simp_all)
    also have "sort_key fx_vaddr (concat (map (\<lambda>k. ?g (word_of_nat k)) [0..<?c])) = ?F"
      using size(2) by (intro sort_key_groups [OF srt] groups_cover page_less) auto
    finally show ?thesis by simp
  qed
qed

lemma slots_length: "segment_slots order f seg sf = Some (Ok slots) \<Longrightarrow> \<forall>(off, w)\<in>set slots. length w = 8"
proof -
  have one: "encode_page f seg g = Ok part \<Longrightarrow> \<forall>(off, w)\<in>set part. length w = 8" for g part
  proof (induction g arbitrary: part)
    case (Cons fx g)
    then show ?case by (auto simp: Let_def and_then_Ok_iff)
  qed simp
  assume "segment_slots order f seg sf = Some (Ok slots)"
  then obtain parts where "collect_results (map (encode_page f seg) (segment_pages order seg (ucast (sf_page_size sf)) (sorted_fixups sf))) = Ok parts"
      "slots = concat parts"
    by (cases "collect_results (map (encode_page f seg) (segment_pages order seg (ucast (sf_page_size sf)) (sorted_fixups sf)))")
      (auto simp: segment_slots_def Let_def split: if_splits)
  moreover from this have "\<exists>g. encode_page f seg g = Ok part" if "part \<in> set parts" for part
  proof -
    have "Ok part \<in> set (map Ok parts)" using that by simp
    then have "Ok part \<in> set (map (encode_page f seg) (segment_pages order seg (ucast (sf_page_size sf)) (sorted_fixups sf)))"
      using \<open>collect_results _ = Ok parts\<close> by (simp only: collect_results_Ok_iff)
    then show ?thesis by (metis imageE list.set_map)
  qed
  ultimately show ?thesis using one by fastforce
qed

text \<open>C17: the slots and the table of page starts that are written for a segment's fixups are walked back
  by the reader to exactly those fixups, in order of their addresses, for every order in which the
  pages are visited, when each fixup fits its segment and format and the slots do not overlap.\<close>

theorem chains_round_trip:
  assumes order: "\<And>ks. distinct ks \<Longrightarrow> distinct (order ks) \<and> set (order ks) = set ks"
    and payload: "build_starts_in_segment order f (sf\<lparr>sf_fixups := sorted_fixups sf\<rparr>) seg = Some (Ok payload)"
    and slots: "segment_slots order f seg sf = Some (Ok slots)" "fields_apart 8 (map (unat \<circ> fst) slots)"
    and blob: "take (length payload) (drop at img) = payload" "at + length payload \<le> fixups_end" "fixups_end \<le> length img"
      "\<forall>(off, w)\<in>set slots. at + length payload \<le> unat off \<or> unat off + 8 \<le> at"
    and wrote: "write_slots slots img = Ok bs"
    and seg: "vec_get segments idx = Some seg" "segment_in img seg"
    and size: "unat (sf_page_size sf) < 2 ^ 16" "page_count_of seg (ucast (sf_page_size sf)) < 2 ^ 16"
    and fits: "\<forall>fx\<in>set (sorted_fixups sf). fixup_fits f imports seg fx"
  shows "walk_one_segment bs at idx fixups_end segments imports = Some (Ok (f, sf_page_size sf, sorted_fixups sf))"
proof (rule chains_of_slots [OF order payload slots(1) _ _ blob(2) seg(1) _ size fits])
  note written = write_slots_spec [OF wrote slots_length [OF slots(1)] slots(2)]
  show "holds bs slots" using written by blast
  show "segment_in bs seg" using written seg(2) by (simp add: segment_in_def)
  have "take (length payload) (drop at bs) = take (length payload) (drop at img)"
  proof (rule nth_equalityI)
    fix i assume "i < length (take (length payload) (drop at bs))"
    then have i: "i < length payload" "at + i < length bs" by auto
    have "\<forall>(off, w)\<in>set slots. at + i < unat off \<or> unat off + 8 \<le> at + i" using blob(4) i by fastforce
    then show "take (length payload) (drop at bs) ! i = take (length payload) (drop at img) ! i"
      using written i by simp
  qed (use written in simp)
  then show "take (length payload) (drop at bs) = payload" using blob(1) by simp
qed

lemma write_slots_in_range:
  "\<forall>(off, w)\<in>set slots. unat off + length w \<le> length img \<Longrightarrow> \<exists>bs. write_slots slots img = Ok bs"
proof (induction slots arbitrary: img)
  case (Cons s slots)
  obtain off w where [simp]: "s = (off, w)" by (cases s)
  have "unat off + length w \<le> length img" using Cons.prems by simp
  then obtain img' where "write_at img (unat off) w = Some img'" "length img' = length img"
    by (auto simp: write_at_def)
  then show ?case using Cons by simp
qed simp

definition sample_segment :: macho_segment where
  "sample_segment =
     \<lparr>seg_name = ''__DATA'', seg_vmaddr = 0x1000, seg_vmsize = 32, seg_fileoff = 32, seg_filesize = 32,
      seg_maxprot = 3, seg_initprot = 3, seg_flags = 0\<rparr>"

definition sample_fixups :: segment_fixups where
  "sample_fixups =
     \<lparr>sf_segment_index = 0, sf_page_size = 16,
      sf_fixups = [\<lparr>fx_vaddr = 0x1010, fx_target = FT_Rebase 0x1004\<rparr>, \<lparr>fx_vaddr = 0x1000, fx_target = FT_Rebase 0x1010\<rparr>,
                   \<lparr>fx_vaddr = 0x1008, fx_target = FT_Bind 0 5\<rparr>]\<rparr>"

definition sample_import :: chained_import where
  "sample_import = \<lparr>ci_lib_ordinal = 1, ci_symbol = [95, 102], ci_addend = 0, ci_weak = False\<rparr>"

lemma chains_round_trip_witness:
  "\<exists>payload slots bs.
     build_starts_in_segment id PF_Ptr64 (sample_fixups\<lparr>sf_fixups := sorted_fixups sample_fixups\<rparr>) sample_segment = Some (Ok payload) \<and>
     segment_slots id PF_Ptr64 sample_segment sample_fixups = Some (Ok slots) \<and>
     write_slots slots (payload @ replicate (64 - length payload) 0) = Ok bs \<and>
     walk_one_segment bs 0 0 26 [sample_segment] [sample_import] = Some (Ok (PF_Ptr64, 16, sorted_fixups sample_fixups))"
proof -
  let ?sf = "sample_fixups\<lparr>sf_fixups := sorted_fixups sample_fixups\<rparr>"
  have "case build_starts_in_segment id PF_Ptr64 ?sf sample_segment of Some (Inr p) \<Rightarrow> length p = 26 | _ \<Rightarrow> False" by code_simp
  then obtain payload where p: "build_starts_in_segment id PF_Ptr64 ?sf sample_segment = Some (Ok payload)" "length payload = 26"
    by (auto split: option.splits sum.splits)
  have "case segment_slots id PF_Ptr64 sample_segment sample_fixups of
      Some (Inr s) \<Rightarrow> map (unat \<circ> fst) s = [32, 40, 48] \<and> list_all (\<lambda>x. length (snd x) = 8) s | _ \<Rightarrow> False" by code_simp
  then obtain slots where sl: "segment_slots id PF_Ptr64 sample_segment sample_fixups = Some (Ok slots)"
      "map (unat \<circ> fst) slots = [32, 40, 48]"
    by (auto split: option.splits sum.splits)
  then obtain s1 s2 s3 where s: "slots = [s1, s2, s3]" "unat (fst s1) = 32" "unat (fst s2) = 40" "unat (fst s3) = 48" by auto
  have len: "length (snd s1) = 8" "length (snd s2) = 8" "length (snd s3) = 8" using slots_length [OF sl(1)] by (auto simp: s(1))
  let ?img = "payload @ replicate (64 - length payload) 0"
  have "\<exists>bs. write_slots slots ?img = Ok bs"
    by (rule write_slots_in_range) (use len p(2) s in auto)
  then obtain bs where bs: "write_slots slots ?img = Ok bs" by blast
  have "walk_one_segment bs 0 0 26 [sample_segment] [sample_import] =
      Some (Ok (PF_Ptr64, sf_page_size sample_fixups, sorted_fixups sample_fixups))"
  proof (rule chains_round_trip [OF _ p(1) sl(1) _ _ _ _ _ bs])
    show "fields_apart 8 (map (unat \<circ> fst) slots)" unfolding sl(2) by (simp add: fields_apart_def)
    show "\<forall>(off, w)\<in>set slots. 0 + length payload \<le> unat off \<or> unat off + 8 \<le> 0"
      using s p(2) by (cases s1; cases s2; cases s3) auto
    show "segment_in ?img sample_segment" using p(2) by (simp add: segment_in_def sample_segment_def)
    show "page_count_of sample_segment (ucast (sf_page_size sample_fixups)) < 2 ^ 16"
      by (simp add: page_count_of_def sample_segment_def sample_fixups_def)
    have "sorted_fixups sample_fixups =
        [\<lparr>fx_vaddr = 0x1000, fx_target = FT_Rebase 0x1010\<rparr>, \<lparr>fx_vaddr = 0x1008, fx_target = FT_Bind 0 5\<rparr>,
         \<lparr>fx_vaddr = 0x1010, fx_target = FT_Rebase 0x1004\<rparr>]" by code_simp
    then show "\<forall>fx\<in>set (sorted_fixups sample_fixups). fixup_fits PF_Ptr64 [sample_import] sample_segment fx"
      by (auto simp: fixup_fits_def slot_offset_def sample_segment_def stride_def format_64_def target_fits_def segment_relative_def)
  qed (use p in \<open>simp_all add: vec_get_def sample_fixups_def\<close>)
  then show ?thesis using p(1) sl(1) bs by (auto simp: sample_fixups_def)
qed

section \<open>Where the code and its comments differ\<close>

text \<open>Of two fixups at one address the first in the list survives, although the comment says the last wins.\<close>

lemma duplicate_fixup_first_wins:
  "sorted_fixups \<lparr>sf_segment_index = 0, sf_page_size = 16,
      sf_fixups = [\<lparr>fx_vaddr = 8, fx_target = FT_Rebase 1\<rparr>, \<lparr>fx_vaddr = 8, fx_target = FT_Rebase 2\<rparr>]\<rparr> =
   [\<lparr>fx_vaddr = 8, fx_target = FT_Rebase 1\<rparr>]"
  by code_simp

text \<open>The count recovered from the bytes of an imports table is two where there is one import, when its
  name is short and the pool is padded: the header written from it points into the strings.\<close>

lemma measure_imports_overcounts:
  "measure_imports_blob (le32 1 @ [97, 0, 0, 0, 0, 0, 0, 0]) 1 = Ok (2, 8, 8)"
  by code_simp

text \<open>A target in the \<open>PTR_64_OFFSET\<close> format is read as it is stored, an offset, although the view is
  documented to hold absolute addresses.\<close>

lemma offset_format_not_converted: "decode_one raw PF_Ptr64Offset imports base = decode_one raw PF_Ptr64 imports base"
  by (simp add: decode_one_def format_64_def)

end
