(* ===== verification/Arm_Format.thy ===== *)
theory Arm_Format
  imports Prelude
begin

text \<open>
  What the two ARMv7 instruction sets share: the operands and errors of
  \<open>src/src/isa/armv7/operand.rs\<close>, the walk over the format strings of the tables, which every decoder
  and encoder makes (\<open>format_decode.rs\<close>, \<open>encode.rs\<close>, \<open>arm/format_decode.rs\<close>, \<open>arm/encode.rs\<close>), the
  bit fields of the formats, and \<open>format_bit_ranges.rs\<close>.

  A format is a text with escapes: \<open>%\<close>, a bit field \<open>lo-hi\<close> or \<open>n\<close> or nothing, and a code letter. The
  text between escapes is only displayed. \<open>escapes\<close> is the loop of the source with its skips; an
  escape \<open>%{X: ... %}\<close> holds a format of its own, walked by a recursive call.
\<close>

section \<open>Operands\<close>

datatype arm_register_class = RC_R | RC_Low | RC_S | RC_D | RC_Q

record arm_register =
  ag_class :: arm_register_class
  ag_index :: u8

datatype arm_operand =
    AO_Register arm_register
  | AO_Immediate i64
  | AO_BranchTarget u64
  | AO_PcRelative u64
  | AO_RegisterList "16 word"
  | AO_Condition u8
  | AO_OpaqueBits u32 u32

datatype arm_decode_error =
    ADE_TruncatedInput nat nat nat
  | ADE_NoMatchingOpcode u32 nat
  | ADE_OperandDecode string

datatype arm_encode_error =
    AEE_UnknownMnemonic string
  | AEE_NoMatchingForm string nat
  | AEE_OperandShapeMismatch nat string string
  | AEE_ImmediateOutOfRange nat i64 nat
  | AEE_RegisterOutOfRange nat u8 nat
  | AEE_BranchOutOfRange nat i64 nat
  | AEE_UnsupportedFormatCode string
  | AEE_ArityMismatch nat nat

section \<open>Bit fields\<close>

fun decimal_value :: "nat \<Rightarrow> string \<Rightarrow> nat option" where
  "decimal_value acc [] = Some acc"
| "decimal_value acc (c # cs) =
     (let n = of_char c :: nat in if 48 \<le> n \<and> n \<le> 57 then decimal_value (acc * 10 + (n - 48)) cs else None)"

definition bit_number :: "string \<Rightarrow> nat option" where
  "bit_number s =
     (if s = [] then None
      else case decimal_value 0 s of None \<Rightarrow> None | Some n \<Rightarrow> if n \<le> 255 then Some n else None)"

definition parse_bitfield :: "string \<Rightarrow> (nat \<times> nat) option" where
  "parse_bitfield s =
     (if s = [] then None
      else
        let lo_s = takeWhile (\<lambda>c. c \<noteq> CHR ''-'') s in
        (case drop (length lo_s) s of
           dash # hi_s \<Rightarrow>
             Option.bind (bit_number lo_s) (\<lambda>lo. Option.bind (bit_number hi_s) (\<lambda>hi.
               if hi < lo then None else Some (lo, hi)))
         | [] \<Rightarrow> map_option (\<lambda>n. (n, n)) (bit_number s)))"

definition field_mask :: "nat \<Rightarrow> nat \<Rightarrow> u32" where
  "field_mask lo hi = (if 32 \<le> hi - lo + 1 then - 1 else push_bit (hi - lo + 1) 1 - 1)"

definition extract_field :: "u32 \<Rightarrow> nat \<Rightarrow> nat \<Rightarrow> u32" where
  "extract_field w lo hi = drop_bit lo w AND field_mask lo hi"

definition place_field :: "u32 \<Rightarrow> nat \<Rightarrow> nat \<Rightarrow> u32 \<Rightarrow> u32" where
  "place_field w lo hi v = (w AND NOT (push_bit lo (field_mask lo hi))) OR push_bit lo (v AND field_mask lo hi)"

definition arm_sign_extend :: "i64 \<Rightarrow> nat \<Rightarrow> i64" where
  "arm_sign_extend v n = (if n = 0 \<or> 64 \<le> n then v else signed_drop_bit (64 - n) (push_bit (64 - n) v))"

definition register_operand :: "u32 \<Rightarrow> nat \<Rightarrow> nat \<Rightarrow> arm_register_class \<Rightarrow> arm_operand" where
  "register_operand w lo hi cls = AO_Register \<lparr>ag_class = cls, ag_index = ucast (extract_field w lo hi)\<rparr>"

definition opaque_bits :: "u32 \<Rightarrow> u32 \<Rightarrow> arm_operand" where
  "opaque_bits w msk = AO_OpaqueBits (w AND msk) msk"

definition splice :: "u32 \<Rightarrow> u32 \<Rightarrow> u32 \<Rightarrow> u32" where
  "splice w bts msk = (w AND NOT msk) OR (bts AND msk)"

section \<open>Walking a format\<close>

datatype escape = Esc string char | Wrap "escape list"

definition in_bitfield :: "char \<Rightarrow> bool" where
  "in_bitfield c \<longleftrightarrow> c = CHR ''-'' \<or> (48 \<le> (of_char c :: nat) \<and> (of_char c :: nat) \<le> 57)"

text \<open>The distance to the closing \<open>%}\<close>; without one, to the last character.\<close>

fun close_at :: "string \<Rightarrow> nat" where
  "close_at (a # b # s) = (if a = CHR ''%'' \<and> b = CHR ''}'' then 0 else Suc (close_at (b # s)))"
| "close_at s = 0"

lemma close_at_le: "close_at s \<le> length s"
  by (induction s rule: close_at.induct) auto

text \<open>After a code that only displays: \<open>'c\<close> and \<open>`c\<close> take one character more, \<open>?ab\<close> two.\<close>

definition skip_display :: "char \<Rightarrow> string \<Rightarrow> string option" where
  "skip_display code s =
     (if code = CHR 0x27 \<or> code = CHR 0x60 then Some (drop 1 s)
      else if code = CHR ''?'' then Some (if 2 \<le> length s then drop 2 s else s)
      else None)"

lemma skip_display_le: "skip_display code s = Some s' \<Longrightarrow> length s' \<le> length s"
  by (auto simp: skip_display_def split: if_splits)

lemma dropWhile_in_bitfield_le: "dropWhile in_bitfield s = code # rest \<Longrightarrow> length rest < length s"
  using length_dropWhile_le [of in_bitfield s] by simp

function escapes :: "string \<Rightarrow> escape list" where
  "escapes s =
     (case s of
        [] \<Rightarrow> []
      | c # s \<Rightarrow>
          if c \<noteq> CHR ''%'' then escapes s
          else
            (case s of
               [] \<Rightarrow> []
             | d # r \<Rightarrow>
                 if d = CHR ''{'' then
                   Wrap (escapes (if 2 \<le> close_at r then drop 2 (take (close_at r) r) else [])) #
                   escapes (drop (close_at r + 2) r)
                 else
                   (case dropWhile in_bitfield s of
                      [] \<Rightarrow> []
                    | code # rest \<Rightarrow>
                        (case skip_display code rest of
                           Some rest' \<Rightarrow> escapes rest'
                         | None \<Rightarrow> Esc (takeWhile in_bitfield s) code # escapes rest))))"
  by pat_completeness auto
termination
  by (relation "measure length") (auto simp del: dropWhile.simps takeWhile.simps dest!: skip_display_le dropWhile_in_bitfield_le)

declare escapes.simps [simp del]

section \<open>Bit ranges\<close>

definition bitfield_to_ranges :: "string \<Rightarrow> (nat \<times> nat) list" where
  "bitfield_to_ranges bf = (case parse_bitfield bf of Some (lo, hi) \<Rightarrow> [(lo, min 255 (hi + 1))] | None \<Rightarrow> [])"

text \<open>The ranges an operand owns, empty when they are not modelled; \<open>None\<close> for a code without operand.\<close>

definition decode_operand_code :: "char \<Rightarrow> string \<Rightarrow> nat \<Rightarrow> (nat \<times> nat) list option" where
  "decode_operand_code code bf width =
     (if code \<in> set ''rRdDWHxSBa'' \<and> bf \<noteq> [] then Some (bitfield_to_ranges bf)
      else if code \<in> set ''dD'' \<and> bf = [] then Some []
      else if code = CHR ''b'' \<and> bf = [] \<and> width = 4 then Some [(0, 24)]
      else if code = CHR ''B'' \<and> bf = [] \<and> width = 4 then Some [(0, 12), (13, 14), (16, 27)]
      else if code = CHR ''B'' \<and> bf = [] \<and> width = 2 then Some [(0, 11)]
      else if code = CHR ''b'' \<and> bf \<noteq> [] \<and> width = 2 then Some (bitfield_to_ranges bf)
      else if code = CHR ''c'' \<and> bf \<noteq> [] then Some (bitfield_to_ranges bf)
      else if code = CHR ''c'' \<and> width = 4 then Some [(28, 32)]
      else if code = CHR ''c'' \<and> width = 2 then Some [(8, 12)]
      else if code = CHR ''V'' \<and> bf = [] \<and> width = 4 then Some [(0, 12), (16, 20)]
      else if code = CHR ''J'' \<and> bf = [] \<and> width = 4 then Some [(0, 8), (12, 15), (16, 20), (26, 27)]
      else if code \<in> set ''IM'' \<and> bf = [] \<and> width = 4 then Some [(0, 8), (12, 15), (26, 27)]
      else if code = CHR ''M'' \<and> bf = [] \<and> width = 2 then Some [(0, 8)]
      else if code \<in> set ''NO'' \<and> bf = [] \<and> width = 2 then Some [(0, 8)]
      else if code = CHR ''S'' \<and> bf = [] \<and> width = 2 then Some [(3, 7)]
      else if code = CHR ''S'' \<and> bf = [] \<and> width = 4 then Some []
      else if code = CHR ''a'' \<and> bf = [] then Some []
      else if code \<in> set ''sLEFmn'' then Some []
      else None)"

function extract_operand_bit_ranges :: "string \<Rightarrow> nat \<Rightarrow> (nat \<times> nat) list list" where
  "extract_operand_bit_ranges s width =
     (case s of
        [] \<Rightarrow> []
      | c # s \<Rightarrow>
          if c \<noteq> CHR ''%'' then extract_operand_bit_ranges s width
          else
            (case s of
               [] \<Rightarrow> []
             | d # r \<Rightarrow>
                 if d = CHR ''{'' then
                   extract_operand_bit_ranges (if 2 \<le> close_at r then drop 2 (take (close_at r) r) else []) width @
                   extract_operand_bit_ranges (drop (close_at r + 2) r) width
                 else if d = CHR 0x27 then extract_operand_bit_ranges (drop 1 r) width
                 else if d = CHR ''?'' \<or> d = CHR 0x60 then
                   if r \<noteq> [] then extract_operand_bit_ranges (drop 1 r) width
                   else []
                 else
                   (case dropWhile in_bitfield s of
                      [] \<Rightarrow> []
                    | code # rest \<Rightarrow>
                        (case decode_operand_code code (takeWhile in_bitfield s) width of
                           Some ranges \<Rightarrow> ranges # extract_operand_bit_ranges rest width
                         | None \<Rightarrow> extract_operand_bit_ranges rest width))))"
  by pat_completeness auto
termination
  by (relation "measure (\<lambda>(s, _). length s)") (auto simp del: dropWhile.simps takeWhile.simps dest!: dropWhile_in_bitfield_le)

declare extract_operand_bit_ranges.simps [simp del]

end
