(* ===== verification/T32_Decode.thy ===== *)
theory T32_Decode
  imports Arm_Format
begin

text \<open>
  Decoding the operands of a Thumb instruction (\<open>src/src/isa/armv7/format_decode.rs\<close>). One function
  per run of match arms; each answers \<open>None\<close> for a code it has no arm for, and the first that
  answers decides. A code without an arm is listed as unhandled, by its spelling. Halfword and word
  instructions are told apart by the width in bytes. A word instruction has its first halfword in
  the upper half.
\<close>

definition decode_bl_b_target :: "u32 \<Rightarrow> u64 \<Rightarrow> u64" where
  "decode_bl_b_target w address =
     (let s = drop_bit 26 w AND 1;
          imm10 = drop_bit 16 w AND 0x3ff;
          j1 = drop_bit 13 w AND 1;
          j2 = drop_bit 11 w AND 1;
          imm11 = w AND 0x7ff;
          i1 = NOT (j1 XOR s) AND 1;
          i2 = NOT (j2 XOR s) AND 1;
          raw = push_bit 24 s OR push_bit 23 i1 OR push_bit 22 i2 OR push_bit 12 imm10 OR push_bit 1 imm11;
          signed = signed_drop_bit 7 (push_bit 7 raw)
      in address + 4 + scast signed)"

definition decode_b_cond_wide_target :: "u32 \<Rightarrow> u64 \<Rightarrow> u64" where
  "decode_b_cond_wide_target w address =
     (let s = drop_bit 26 w AND 1;
          j1 = drop_bit 13 w AND 1;
          j2 = drop_bit 11 w AND 1;
          imm6 = drop_bit 16 w AND 0x3f;
          imm11 = w AND 0x7ff;
          raw = push_bit 19 s OR push_bit 18 j2 OR push_bit 17 j1 OR push_bit 11 imm6 OR imm11;
          signed = arm_sign_extend (ucast raw) 20 * 2
      in address + 4 + signed)"

text \<open>Codes that only display, and codes with a bit field.\<close>

definition decode_display :: "char \<Rightarrow> string \<Rightarrow> arm_operand list option" where
  "decode_display code bf = (if code \<in> set ''cCxX%twW'' \<and> bf = [] then Some [] else None)"

definition on_field :: "string \<Rightarrow> (nat \<Rightarrow> nat \<Rightarrow> arm_operand) \<Rightarrow> arm_operand list option" where
  "on_field bf f = Some (case parse_bitfield bf of Some (lo, hi) \<Rightarrow> [f lo hi] | None \<Rightarrow> [])"

definition decode_field :: "char \<Rightarrow> string \<Rightarrow> u32 \<Rightarrow> u64 \<Rightarrow> arm_operand list option" where
  "decode_field code bf w address =
     (if code = CHR ''c'' \<and> bf \<noteq> [] then on_field bf (\<lambda>lo hi. AO_Condition (ucast (extract_field w lo hi)))
      else if code = CHR ''r'' then on_field bf (\<lambda>lo hi. register_operand w lo hi RC_R)
      else if code = CHR ''R'' then on_field bf (\<lambda>lo hi. register_operand w lo hi RC_R)
      else if code = CHR ''S'' \<and> bf \<noteq> [] then on_field bf (\<lambda>lo hi. register_operand w lo hi RC_R)
      else if code = CHR ''d'' then on_field bf (\<lambda>lo hi. AO_Immediate (ucast (extract_field w lo hi)))
      else if code = CHR ''D'' \<and> bf \<noteq> [] then on_field bf (\<lambda>lo hi. AO_Immediate (ucast (extract_field w lo hi) + 1))
      else if code = CHR ''W'' \<and> bf \<noteq> [] then on_field bf (\<lambda>lo hi. AO_Immediate (ucast (extract_field w lo hi * 4)))
      else if code = CHR ''H'' \<and> bf \<noteq> [] then on_field bf (\<lambda>lo hi. AO_Immediate (ucast (extract_field w lo hi * 2)))
      else if code = CHR ''x'' \<and> bf \<noteq> [] then on_field bf (\<lambda>lo hi. AO_Immediate (ucast (extract_field w lo hi)))
      else if code = CHR ''a'' \<and> bf \<noteq> [] then
        on_field bf (\<lambda>lo hi. AO_PcRelative (((address + 4) AND NOT 3) + ucast (extract_field w lo hi) * 4))
      else None)"

text \<open>Branch targets.\<close>

definition decode_branch :: "char \<Rightarrow> string \<Rightarrow> u32 \<Rightarrow> u64 \<Rightarrow> nat \<Rightarrow> (arm_operand list \<times> string list) option" where
  "decode_branch code bf w address width =
     (if code = CHR ''B'' then
        (case parse_bitfield bf of
           Some (lo, hi) \<Rightarrow>
             let raw = ucast (extract_field w lo hi); signed = arm_sign_extend raw (hi - lo + 1)
             in Some ([AO_BranchTarget (address + 4 + signed * 2)], [])
         | None \<Rightarrow>
             if width = 4 then Some ([AO_BranchTarget (decode_bl_b_target w address)], [])
             else Some ([], [''%B (16-bit, no bitfield)'']))
      else if code = CHR ''b'' \<and> (width = 4 \<or> bf \<noteq> []) then
        (if width = 4 then Some ([AO_BranchTarget (decode_b_cond_wide_target w address)], [])
         else
           (case parse_bitfield bf of
              Some (lo, hi) \<Rightarrow> Some ([AO_BranchTarget (address + 4 + ucast (extract_field w lo hi) * 2)], [])
            | None \<Rightarrow> Some ([], [])))
      else None)"

text \<open>Registers and register lists of halfword instructions.\<close>

definition decode_register_code :: "char \<Rightarrow> string \<Rightarrow> u32 \<Rightarrow> nat \<Rightarrow> arm_operand list option" where
  "decode_register_code code bf w width =
     (if code = CHR ''S'' \<and> bf = [] \<and> width = 2 then
        (let lo3 = ucast (drop_bit 3 w AND 7) :: u8; hi_bit = ucast (drop_bit 6 w AND 1)
         in Some [AO_Register \<lparr>ag_class = RC_R, ag_index = push_bit 3 hi_bit OR lo3\<rparr>])
      else if code = CHR ''D'' \<and> bf = [] \<and> width = 2 then
        (let lo3 = ucast (w AND 7) :: u8; hi_bit = ucast (drop_bit 7 w AND 1)
         in Some [AO_Register \<lparr>ag_class = RC_R, ag_index = push_bit 3 hi_bit OR lo3\<rparr>])
      else if code = CHR ''M'' \<and> width = 2 then Some [AO_RegisterList (ucast (w AND 0xff))]
      else if code = CHR ''N'' then
        Some [AO_RegisterList (ucast (w AND 0xff) OR push_bit 14 (ucast (drop_bit 8 w AND 1)))]
      else if code = CHR ''O'' then
        Some [AO_RegisterList (ucast (w AND 0xff) OR push_bit 15 (ucast (drop_bit 8 w AND 1)))]
      else None)"

text \<open>Immediates spread over the word.\<close>

definition decode_scattered :: "char \<Rightarrow> u32 \<Rightarrow> nat \<Rightarrow> arm_operand list option" where
  "decode_scattered code w width =
     (if code = CHR ''I'' \<and> width = 4 then
        (let i_bit = drop_bit 26 w AND 1; imm3 = drop_bit 12 w AND 7; imm8 = w AND 0xff
         in Some [AO_Immediate (ucast (push_bit 11 i_bit OR push_bit 8 imm3 OR imm8))])
      else if code = CHR ''I'' \<and> width = 2 then Some [opaque_bits w 0x00FF]
      else if code = CHR ''M'' \<and> width = 4 then Some [opaque_bits w 0x040070FF]
      else if code = CHR ''J'' \<and> width = 4 then
        (let imm4 = drop_bit 16 w AND 0xf; i_bit = drop_bit 26 w AND 1; imm3 = drop_bit 12 w AND 7; imm8 = w AND 0xff
         in Some [AO_Immediate (ucast (push_bit 12 imm4 OR push_bit 11 i_bit OR push_bit 8 imm3 OR imm8))])
      else if code = CHR ''K'' \<and> width = 4 then
        (let a = w AND 0xf; b = drop_bit 16 w AND 0xf; c = drop_bit 4 w AND 0xff
         in Some [AO_Immediate (ucast (push_bit 12 a OR push_bit 8 b OR c))])
      else if code = CHR ''H'' \<and> width = 4 then
        (let a = w AND 0xf; b = drop_bit 16 w AND 0xfff in Some [AO_Immediate (ucast (push_bit 12 a OR b))])
      else if code = CHR ''V'' \<and> width = 4 then
        (let a = drop_bit 16 w AND 0xf; b = w AND 0xfff in Some [AO_Immediate (ucast (push_bit 12 a OR b))])
      else None)"

text \<open>Operands kept as bits.\<close>

definition decode_opaque :: "char \<Rightarrow> string \<Rightarrow> u32 \<Rightarrow> nat \<Rightarrow> arm_operand list option" where
  "decode_opaque code bf w width =
     (if code = CHR ''S'' \<and> bf = [] \<and> width = 4 then Some [opaque_bits w 0x001070FF]
      else if code = CHR ''s'' \<and> bf = [] \<and> width = 4 then
        (let imm5 = push_bit 2 (drop_bit 12 w AND 7) OR (drop_bit 6 w AND 3)
         in Some (if imm5 \<noteq> 0 then [AO_Immediate (ucast imm5)] else []))
      else if code = CHR ''s'' \<and> bf = [] \<and> width = 2 then Some [opaque_bits w 0x07C0]
      else if code = CHR ''b'' \<and> bf = [] \<and> width = 2 then Some [opaque_bits w 0x02F8]
      else if (code = CHR ''m'' \<or> code = CHR ''n'') \<and> width = 4 then Some [opaque_bits w 0x0020FFFF]
      else if code = CHR ''E'' \<and> bf = [] \<and> width = 4 then Some [opaque_bits w 0x0000709F]
      else if code = CHR ''F'' \<and> bf = [] \<and> width = 4 then Some [opaque_bits w 0x0000709F]
      else None)"

text \<open>Addresses; a base register PC also gives the address it stands for.\<close>

definition decode_address :: "char \<Rightarrow> string \<Rightarrow> u32 \<Rightarrow> u64 \<Rightarrow> nat \<Rightarrow> arm_operand list option" where
  "decode_address code bf w address width =
     (if code = CHR ''L'' \<and> bf = [] \<and> width = 4 then
        (let rn = drop_bit 16 w AND 0xf; imm8 = w AND 0xff; u = drop_bit 23 w AND 1;
             off = ucast (imm8 * 4) :: i64
         in Some (opaque_bits w 0x03AF00FF #
              (if rn = 0xf then [AO_PcRelative ((address AND NOT 3) + 4 + (if u = 1 then off else - off))] else [])))
      else if code = CHR ''a'' \<and> bf = [] \<and> width = 4 then
        (let rn = drop_bit 16 w AND 0xf; u = drop_bit 23 w AND 1; off = ucast (w AND 0xfff) :: i64
         in Some (opaque_bits w 0x00EF0FFF #
              (if rn = 15 then [AO_PcRelative ((address AND NOT 3) + 4 + (if u = 1 then off else - off))] else [])))
      else None)"

text \<open>Barriers, loops and branch futures. The arm for \<open>W\<close> is not reached: without a bit field it only displays.\<close>

definition branch_future_offset :: "char \<Rightarrow> u32 \<Rightarrow> i64" where
  "branch_future_offset code w =
     (let imm_b = drop_bit 1 w AND 0x3ff;
          imm_c = drop_bit 11 w AND 1;
          (imm_a_bits, sign_bit_pos) =
            (if code = CHR ''W'' then (push_bit 12 (drop_bit 16 w AND 0x1f), 16)
             else if code = CHR ''Y'' then (push_bit 12 (drop_bit 16 w AND 0x7f), 18)
             else (push_bit 12 (drop_bit 16 w AND 1), 12));
          raw = imm_a_bits OR push_bit 2 imm_b OR push_bit 1 imm_c
      in if drop_bit sign_bit_pos raw AND 1 = 1 then ucast raw - push_bit (sign_bit_pos + 1) 1 else ucast raw)"

definition decode_system :: "char \<Rightarrow> string \<Rightarrow> u32 \<Rightarrow> u64 \<Rightarrow> nat \<Rightarrow> arm_operand list option" where
  "decode_system code bf w address width =
     (let immh = drop_bit 1 w AND 0x3ff; imml = drop_bit 11 w AND 1;
          off = ucast (push_bit 2 immh OR push_bit 1 imml) :: i64
      in if bf \<noteq> [] \<or> width \<noteq> 4 then None
         else if code = CHR ''U'' then Some [AO_Immediate (ucast (w AND 0xf))]
         else if code = CHR ''P'' then Some [AO_BranchTarget (address + 4 - off)]
         else if code = CHR ''Q'' then Some [AO_BranchTarget (address + 4 + off)]
         else if code = CHR ''G'' then Some [AO_Immediate (ucast (push_bit 1 (drop_bit 23 w AND 0xf)))]
         else if code = CHR ''W'' \<or> code = CHR ''Y'' \<or> code = CHR ''Z'' then
           Some [AO_BranchTarget (address + 4 + branch_future_offset code w)]
         else None)"

definition first_answer :: "'a option list \<Rightarrow> 'a option" where
  "first_answer xs = find_map id xs"

definition decode_code :: "u32 \<Rightarrow> u64 \<Rightarrow> nat \<Rightarrow> string \<Rightarrow> char \<Rightarrow> arm_operand list \<times> string list" where
  "decode_code w address width bf code =
     (let plain = map_option (\<lambda>ops. (ops, [] :: string list)) in
      case first_answer
        [plain (decode_display code bf), plain (decode_field code bf w address), decode_branch code bf w address width,
         plain (decode_register_code code bf w width), plain (decode_scattered code w width),
         plain (decode_opaque code bf w width), plain (decode_address code bf w address width),
         plain (decode_system code bf w address width)]
      of Some r \<Rightarrow> r | None \<Rightarrow> ([], [CHR ''%'' # bf @ [code]]))"

definition append_pair :: "'a list \<times> 'b list \<Rightarrow> 'a list \<times> 'b list \<Rightarrow> 'a list \<times> 'b list" where
  "append_pair p q = (fst p @ fst q, snd p @ snd q)"

fun decode_escapes :: "u32 \<Rightarrow> u64 \<Rightarrow> nat \<Rightarrow> escape list \<Rightarrow> arm_operand list \<times> string list" where
  "decode_escapes w address width [] = ([], [])"
| "decode_escapes w address width (Esc bf code # es) =
     append_pair (decode_code w address width bf code) (decode_escapes w address width es)"
| "decode_escapes w address width (Wrap inner # es) =
     append_pair (decode_escapes w address width inner) (decode_escapes w address width es)"

definition decode_operands_from_format :: "string \<Rightarrow> u32 \<Rightarrow> u64 \<Rightarrow> nat \<Rightarrow> arm_operand list \<times> string list" where
  "decode_operands_from_format fmt w address width = decode_escapes w address width (escapes fmt)"

text \<open>\<open>ThumbExpandImm\<close>.\<close>

definition thumb_expand_imm :: "u32 \<Rightarrow> u32" where
  "thumb_expand_imm imm12 =
     (let imm12 = imm12 AND 0xfff; high2 = drop_bit 10 imm12 AND 3; low8 = imm12 AND 0xff
      in if high2 = 0 then
           (let c = drop_bit 8 imm12 AND 3 in
            if c = 0 then low8
            else if c = 1 then push_bit 16 low8 OR low8
            else if c = 2 then push_bit 24 low8 OR push_bit 8 low8
            else push_bit 24 low8 OR push_bit 16 low8 OR push_bit 8 low8 OR low8)
         else word_rotr (unat (drop_bit 7 imm12 AND 0x1f)) (0x80 OR (imm12 AND 0x7f)))"

end
