(* ===== verification/T32_Table.thy ===== *)
theory T32_Table
  imports Prelude
begin

text \<open>
  The Thumb-2 opcode table (\<open>src/src/isa/armv7/table_generated.rs\<close>, with the width type of
  \<open>table.rs\<close>): the mnemonics, the rows in source order with the format strings they carry, and the
  search. A mnemonic is represented by the
  name of its constructor.
\<close>

datatype thumb_width = TW_Halfword | TW_Word

section \<open>Mnemonics\<close>

type_synonym thumb_mnemonic = string

definition thumb_mnemonic_names :: "(thumb_mnemonic \<times> string) list" where
  "thumb_mnemonic_names =
    [(''Adc'', ''adc''), (''Add'', ''add''), (''Addw'', ''addw''), (''And'', ''and''),
     (''Asr'', ''asr''), (''Aut'', ''aut''), (''Autg'', ''autg''), (''B'', ''b''),
     (''Bf'', ''bf''), (''Bfc'', ''bfc''), (''Bfcsel'', ''bfcsel''), (''Bfi'', ''bfi''),
     (''Bfl'', ''bfl''), (''Bflx'', ''bflx''), (''Bfx'', ''bfx''), (''Bic'', ''bic''),
     (''Bkpt'', ''bkpt''), (''Bl'', ''bl''), (''Blx'', ''blx''), (''Blxns'', ''blxns''),
     (''Bti'', ''bti''), (''Bx'', ''bx''), (''Bxaut'', ''bxaut''), (''Bxj'', ''bxj''),
     (''Bxns'', ''bxns''), (''Cbnz'', ''cbnz''), (''Cbz'', ''cbz''), (''Clrex'', ''clrex''),
     (''Clrm'', ''clrm''), (''Clz'', ''clz''), (''Cmn'', ''cmn''), (''Cmp'', ''cmp''),
     (''Cps'', ''cps''), (''Cpsid'', ''cpsid''), (''CpsidW'', ''cpsid.w''),
     (''Cpsie'', ''cpsie''), (''CpsieW'', ''cpsie.w''), (''Crc32b'', ''crc32b''),
     (''Crc32cb'', ''crc32cb''), (''Crc32ch'', ''crc32ch''), (''Crc32cw'', ''crc32cw''),
     (''Crc32h'', ''crc32h''), (''Crc32w'', ''crc32w''), (''Csdb'', ''csdb''),
     (''Dbg'', ''dbg''), (''Dcps'', ''dcps''), (''Dfb'', ''dfb''), (''Dls'', ''dls''),
     (''Dlstp'', ''dlstp.''), (''Dmb'', ''dmb''), (''Dsb'', ''dsb''), (''Eor'', ''eor''),
     (''Esb'', ''esb''), (''Hlt'', ''hlt''), (''Hvc'', ''hvc''), (''Isb'', ''isb''),
     (''It'', ''it''), (''Lctp'', ''lctp''), (''Lda'', ''lda''), (''Ldab'', ''ldab''),
     (''Ldaex'', ''ldaex''), (''Ldaexb'', ''ldaexb''), (''Ldaexd'', ''ldaexd''),
     (''Ldaexh'', ''ldaexh''), (''Ldah'', ''ldah''), (''Ldmdb'', ''ldmdb''),
     (''Ldmia'', ''ldmia''), (''Ldr'', ''ldr''), (''Ldrb'', ''ldrb''), (''Ldrd'', ''ldrd''),
     (''Ldrex'', ''ldrex''), (''Ldrexd'', ''ldrexd''), (''Ldrh'', ''ldrh''),
     (''Ldrs'', ''ldrs''), (''Le'', ''le''), (''Letp'', ''letp''), (''Lsl'', ''lsl''),
     (''Lsr'', ''lsr''), (''Mla'', ''mla''), (''Mls'', ''mls''), (''Mov'', ''mov''),
     (''Movt'', ''movt''), (''Movw'', ''movw''), (''Mrs'', ''mrs''), (''Msr'', ''msr''),
     (''Mul'', ''mul''), (''Mvn'', ''mvn''), (''Neg'', ''neg''), (''Nop'', ''nop''),
     (''Orn'', ''orn''), (''Orr'', ''orr''), (''Pac'', ''pac''), (''Pacbti'', ''pacbti''),
     (''Pacg'', ''pacg''), (''Pkhbt'', ''pkhbt''), (''Pkhtb'', ''pkhtb''), (''Pld'', ''pld''),
     (''Pldw'', ''pldw''), (''Pli'', ''pli''), (''Pop'', ''pop''), (''Pssbb'', ''pssbb''),
     (''Push'', ''push''), (''Qadd'', ''qadd''), (''Qadd16'', ''qadd16''),
     (''Qadd8'', ''qadd8''), (''Qasx'', ''qasx''), (''Qdadd'', ''qdadd''),
     (''Qdsub'', ''qdsub''), (''Qsax'', ''qsax''), (''Qsub'', ''qsub''),
     (''Qsub16'', ''qsub16''), (''Qsub8'', ''qsub8''), (''Rbit'', ''rbit''),
     (''Rev'', ''rev''), (''Rev16'', ''rev16''), (''Revsh'', ''revsh''),
     (''Rfedb'', ''rfedb''), (''Rfeia'', ''rfeia''), (''Ror'', ''ror''), (''Rsb'', ''rsb''),
     (''Sadd16'', ''sadd16''), (''Sadd8'', ''sadd8''), (''Sasx'', ''sasx''), (''Sb'', ''sb''),
     (''Sbc'', ''sbc''), (''Sbfx'', ''sbfx''), (''Sdiv'', ''sdiv''), (''Sel'', ''sel''),
     (''Setend'', ''setend''), (''Setpan'', ''setpan''), (''Sev'', ''sev''),
     (''Sevl'', ''sevl''), (''Sg'', ''sg''), (''Shadd16'', ''shadd16''),
     (''Shadd8'', ''shadd8''), (''Shasx'', ''shasx''), (''Shsax'', ''shsax''),
     (''Shsub16'', ''shsub16''), (''Shsub8'', ''shsub8''), (''Smc'', ''smc''),
     (''Smla'', ''smla''), (''Smlad'', ''smlad''), (''Smlal'', ''smlal''),
     (''Smlald'', ''smlald''), (''Smlaw'', ''smlaw''), (''Smlsd'', ''smlsd''),
     (''Smlsld'', ''smlsld''), (''Smmla'', ''smmla''), (''Smmls'', ''smmls''),
     (''Smmul'', ''smmul''), (''Smuad'', ''smuad''), (''Smul'', ''smul''),
     (''Smull'', ''smull''), (''Smulw'', ''smulw''), (''Smusd'', ''smusd''),
     (''Srsdb'', ''srsdb''), (''Srsia'', ''srsia''), (''Ssat'', ''ssat''),
     (''Ssat16'', ''ssat16''), (''Ssax'', ''ssax''), (''Ssbb'', ''ssbb''),
     (''Ssub16'', ''ssub16''), (''Ssub8'', ''ssub8''), (''Stl'', ''stl''),
     (''Stlb'', ''stlb''), (''Stlex'', ''stlex''), (''Stlexb'', ''stlexb''),
     (''Stlexd'', ''stlexd''), (''Stlexh'', ''stlexh''), (''Stlh'', ''stlh''),
     (''Stmdb'', ''stmdb''), (''Stmia'', ''stmia''), (''Str'', ''str''), (''Strb'', ''strb''),
     (''Strd'', ''strd''), (''Strex'', ''strex''), (''Strexd'', ''strexd''),
     (''Strh'', ''strh''), (''Sub'', ''sub''), (''Subs'', ''subs''), (''Subw'', ''subw''),
     (''Svc'', ''svc''), (''Sxtab'', ''sxtab''), (''Sxtab16'', ''sxtab16''),
     (''Sxtah'', ''sxtah''), (''Sxtb'', ''sxtb''), (''Sxtb16'', ''sxtb16''),
     (''Sxth'', ''sxth''), (''Tbb'', ''tbb''), (''Tbh'', ''tbh''), (''Teq'', ''teq''),
     (''Tst'', ''tst''), (''Tt'', ''tt''), (''Tta'', ''tta''), (''Ttat'', ''ttat''),
     (''Ttt'', ''ttt''), (''Uadd16'', ''uadd16''), (''Uadd8'', ''uadd8''),
     (''Uasx'', ''uasx''), (''Ubfx'', ''ubfx''), (''Udf'', ''udf''), (''Udiv'', ''udiv''),
     (''Uhadd16'', ''uhadd16''), (''Uhadd8'', ''uhadd8''), (''Uhasx'', ''uhasx''),
     (''Uhsax'', ''uhsax''), (''Uhsub16'', ''uhsub16''), (''Uhsub8'', ''uhsub8''),
     (''Umaal'', ''umaal''), (''Umlal'', ''umlal''), (''Umull'', ''umull''),
     (''Undefined'', ''undefined''), (''Uqadd16'', ''uqadd16''), (''Uqadd8'', ''uqadd8''),
     (''Uqasx'', ''uqasx''), (''Uqsax'', ''uqsax''), (''Uqsub16'', ''uqsub16''),
     (''Uqsub8'', ''uqsub8''), (''Usad8'', ''usad8''), (''Usada8'', ''usada8''),
     (''Usat'', ''usat''), (''Usat16'', ''usat16''), (''Usax'', ''usax''),
     (''Usub16'', ''usub16''), (''Usub8'', ''usub8''), (''Uxtab'', ''uxtab''),
     (''Uxtab16'', ''uxtab16''), (''Uxtah'', ''uxtah''), (''Uxtb'', ''uxtb''),
     (''Uxtb16'', ''uxtb16''), (''Uxth'', ''uxth''), (''Wfe'', ''wfe''), (''Wfi'', ''wfi''),
     (''Wls'', ''wls''), (''Wlstp'', ''wlstp.''), (''Yield'', ''yield'')]"

definition thumb_mnemonics :: "thumb_mnemonic list" where "thumb_mnemonics = map fst thumb_mnemonic_names"

definition thumb_mnemonic_as_str :: "thumb_mnemonic \<Rightarrow> string" where
  "thumb_mnemonic_as_str m = (case map_of thumb_mnemonic_names m of Some s \<Rightarrow> s | None \<Rightarrow> [])"

section \<open>Rows\<close>

record thumb_opcode =
  th_mnemonic :: thumb_mnemonic
  th_opcode :: u32
  th_mask :: u32
  th_width :: thumb_width
  th_format :: string

definition thumb_row :: "thumb_mnemonic \<Rightarrow> u32 \<Rightarrow> u32 \<Rightarrow> thumb_width \<Rightarrow> string \<Rightarrow> thumb_opcode" where
  "thumb_row m op msk w fmt = \<lparr>th_mnemonic = m, th_opcode = op, th_mask = msk, th_width = w, th_format = fmt\<rparr>"

definition thumb_rows_1 :: "thumb_opcode list" where
  "thumb_rows_1 = [
    thumb_row ''Blxns'' 0x00004784 0x0000ff87 TW_Halfword ''blxns	%3-6r'',
    thumb_row ''Bxns'' 0x00004704 0x0000ff87 TW_Halfword ''bxns	%3-6r'',
    thumb_row ''Sevl'' 0x0000bf50 0x0000ffff TW_Halfword ''sevl%c'',
    thumb_row ''Hlt'' 0x0000ba80 0x0000ffc0 TW_Halfword ''hlt	%0-5x'',
    thumb_row ''Setpan'' 0x0000b610 0x0000fff7 TW_Halfword ''setpan	%{I:#%3-3d%}'',
    thumb_row ''Nop'' 0x0000bf00 0x0000ffff TW_Halfword ''nop%c'',
    thumb_row ''Yield'' 0x0000bf10 0x0000ffff TW_Halfword ''yield%c'',
    thumb_row ''Wfe'' 0x0000bf20 0x0000ffff TW_Halfword ''wfe%c'',
    thumb_row ''Wfi'' 0x0000bf30 0x0000ffff TW_Halfword ''wfi%c'',
    thumb_row ''Sev'' 0x0000bf40 0x0000ffff TW_Halfword ''sev%c'',
    thumb_row ''Nop'' 0x0000bf00 0x0000ff0f TW_Halfword ''nop%c	{%4-7d}'',
    thumb_row ''Cbnz'' 0x0000b900 0x0000fd00 TW_Halfword ''cbnz	%0-2r, %b%X'',
    thumb_row ''Cbz'' 0x0000b100 0x0000fd00 TW_Halfword ''cbz	%0-2r, %b%X'',
    thumb_row ''It'' 0x0000bf00 0x0000ff00 TW_Halfword ''it%I%X'',
    thumb_row ''Cpsie'' 0x0000b660 0x0000fff8 TW_Halfword ''cpsie	%{B:%2\\'a%1\\'i%0\\'f%}%X'',
    thumb_row ''Cpsid'' 0x0000b670 0x0000fff8 TW_Halfword ''cpsid	%{B:%2\\'a%1\\'i%0\\'f%}%X'',
    thumb_row ''Mov'' 0x00004600 0x0000ffc0 TW_Halfword ''mov%c	%0-2r, %3-5r'',
    thumb_row ''Rev'' 0x0000ba00 0x0000ffc0 TW_Halfword ''rev%c	%0-2r, %3-5r'',
    thumb_row ''Rev16'' 0x0000ba40 0x0000ffc0 TW_Halfword ''rev16%c	%0-2r, %3-5r'',
    thumb_row ''Revsh'' 0x0000bac0 0x0000ffc0 TW_Halfword ''revsh%c	%0-2r, %3-5r'',
    thumb_row ''Setend'' 0x0000b650 0x0000fff7 TW_Halfword ''setend	%{B:%3?ble%}%X'',
    thumb_row ''Sxth'' 0x0000b200 0x0000ffc0 TW_Halfword ''sxth%c	%0-2r, %3-5r'',
    thumb_row ''Sxtb'' 0x0000b240 0x0000ffc0 TW_Halfword ''sxtb%c	%0-2r, %3-5r'',
    thumb_row ''Uxth'' 0x0000b280 0x0000ffc0 TW_Halfword ''uxth%c	%0-2r, %3-5r'',
    thumb_row ''Uxtb'' 0x0000b2c0 0x0000ffc0 TW_Halfword ''uxtb%c	%0-2r, %3-5r'',
    thumb_row ''Bkpt'' 0x0000be00 0x0000ff00 TW_Halfword ''bkpt	%0-7x'',
    thumb_row ''Blx'' 0x00004780 0x0000ff87 TW_Halfword ''blx%c	%3-6r%x'',
    thumb_row ''Nop'' 0x000046c0 0x0000ffff TW_Halfword ''nop%c			@ (mov r8, r8)'',
    thumb_row ''And'' 0x00004000 0x0000ffc0 TW_Halfword ''and%C	%0-2r, %3-5r'',
    thumb_row ''Eor'' 0x00004040 0x0000ffc0 TW_Halfword ''eor%C	%0-2r, %3-5r'',
    thumb_row ''Lsl'' 0x00004080 0x0000ffc0 TW_Halfword ''lsl%C	%0-2r, %3-5r'',
    thumb_row ''Lsr'' 0x000040c0 0x0000ffc0 TW_Halfword ''lsr%C	%0-2r, %3-5r'',
    thumb_row ''Asr'' 0x00004100 0x0000ffc0 TW_Halfword ''asr%C	%0-2r, %3-5r'',
    thumb_row ''Adc'' 0x00004140 0x0000ffc0 TW_Halfword ''adc%C	%0-2r, %3-5r'',
    thumb_row ''Sbc'' 0x00004180 0x0000ffc0 TW_Halfword ''sbc%C	%0-2r, %3-5r'',
    thumb_row ''Ror'' 0x000041c0 0x0000ffc0 TW_Halfword ''ror%C	%0-2r, %3-5r'',
    thumb_row ''Tst'' 0x00004200 0x0000ffc0 TW_Halfword ''tst%c	%0-2r, %3-5r'',
    thumb_row ''Neg'' 0x00004240 0x0000ffc0 TW_Halfword ''neg%C	%0-2r, %3-5r'',
    thumb_row ''Cmp'' 0x00004280 0x0000ffc0 TW_Halfword ''cmp%c	%0-2r, %3-5r'',
    thumb_row ''Cmn'' 0x000042c0 0x0000ffc0 TW_Halfword ''cmn%c	%0-2r, %3-5r'',
    thumb_row ''Orr'' 0x00004300 0x0000ffc0 TW_Halfword ''orr%C	%0-2r, %3-5r'',
    thumb_row ''Mul'' 0x00004340 0x0000ffc0 TW_Halfword ''mul%C	%0-2r, %3-5r'',
    thumb_row ''Bic'' 0x00004380 0x0000ffc0 TW_Halfword ''bic%C	%0-2r, %3-5r'',
    thumb_row ''Mvn'' 0x000043c0 0x0000ffc0 TW_Halfword ''mvn%C	%0-2r, %3-5r'',
    thumb_row ''Add'' 0x0000b000 0x0000ff80 TW_Halfword ''add%c	%{R:sp%}, %{I:#%0-6W%}'',
    thumb_row ''Sub'' 0x0000b080 0x0000ff80 TW_Halfword ''sub%c	%{R:sp%}, %{I:#%0-6W%}'',
    thumb_row ''Bx'' 0x00004700 0x0000ff80 TW_Halfword ''bx%c	%S%x'',
    thumb_row ''Add'' 0x00004400 0x0000ff00 TW_Halfword ''add%c	%D, %S'',
    thumb_row ''Cmp'' 0x00004500 0x0000ff00 TW_Halfword ''cmp%c	%D, %S'',
    thumb_row ''Mov'' 0x00004600 0x0000ff00 TW_Halfword ''mov%c	%D, %S'',
    thumb_row ''Push'' 0x0000b400 0x0000fe00 TW_Halfword ''push%c	%N'',
    thumb_row ''Pop'' 0x0000bc00 0x0000fe00 TW_Halfword ''pop%c	%O'',
    thumb_row ''Add'' 0x00001800 0x0000fe00 TW_Halfword ''add%C	%0-2r, %3-5r, %6-8r'',
    thumb_row ''Sub'' 0x00001a00 0x0000fe00 TW_Halfword ''sub%C	%0-2r, %3-5r, %6-8r'',
    thumb_row ''Add'' 0x00001c00 0x0000fe00 TW_Halfword ''add%C	%0-2r, %3-5r, %{I:#%6-8d%}'',
    thumb_row ''Sub'' 0x00001e00 0x0000fe00 TW_Halfword ''sub%C	%0-2r, %3-5r, %{I:#%6-8d%}'',
    thumb_row ''Strh'' 0x00005200 0x0000fe00 TW_Halfword ''strh%c	%0-2r, [%3-5r, %6-8r]'',
    thumb_row ''Ldrh'' 0x00005a00 0x0000fe00 TW_Halfword ''ldrh%c	%0-2r, [%3-5r, %6-8r]'',
    thumb_row ''Ldrs'' 0x00005600 0x0000f600 TW_Halfword ''ldrs%11?hb%c	%0-2r, [%3-5r, %6-8r]'',
    thumb_row ''Str'' 0x00005000 0x0000fa00 TW_Halfword ''str%10\\'b%c	%0-2r, [%3-5r, %6-8r]'',
    thumb_row ''Ldr'' 0x00005800 0x0000fa00 TW_Halfword ''ldr%10\\'b%c	%0-2r, [%3-5r, %6-8r]'',
    thumb_row ''Mov'' 0x00000000 0x0000ffc0 TW_Halfword ''mov%C	%0-2r, %3-5r'',
    thumb_row ''Lsl'' 0x00000000 0x0000f800 TW_Halfword ''lsl%C	%0-2r, %3-5r, %{I:#%6-10d%}'',
    thumb_row ''Lsr'' 0x00000800 0x0000f800 TW_Halfword ''lsr%C	%0-2r, %3-5r, %s'',
    thumb_row ''Asr'' 0x00001000 0x0000f800 TW_Halfword ''asr%C	%0-2r, %3-5r, %s'',
    thumb_row ''Mov'' 0x00002000 0x0000f800 TW_Halfword ''mov%C	%8-10r, %{I:#%0-7d%}'',
    thumb_row ''Cmp'' 0x00002800 0x0000f800 TW_Halfword ''cmp%c	%8-10r, %{I:#%0-7d%}'',
    thumb_row ''Add'' 0x00003000 0x0000f800 TW_Halfword ''add%C	%8-10r, %{I:#%0-7d%}'',
    thumb_row ''Sub'' 0x00003800 0x0000f800 TW_Halfword ''sub%C	%8-10r, %{I:#%0-7d%}'',
    thumb_row ''Ldr'' 0x00004800 0x0000f800 TW_Halfword ''ldr%c	%8-10r, [%{R:pc%}, %{I:#%0-7W%}]	@ (%0-7a)'',
    thumb_row ''Str'' 0x00006000 0x0000f800 TW_Halfword ''str%c	%0-2r, [%3-5r, %{I:#%6-10W%}]'',
    thumb_row ''Ldr'' 0x00006800 0x0000f800 TW_Halfword ''ldr%c	%0-2r, [%3-5r, %{I:#%6-10W%}]'',
    thumb_row ''Strb'' 0x00007000 0x0000f800 TW_Halfword ''strb%c	%0-2r, [%3-5r, %{I:#%6-10d%}]'',
    thumb_row ''Ldrb'' 0x00007800 0x0000f800 TW_Halfword ''ldrb%c	%0-2r, [%3-5r, %{I:#%6-10d%}]'',
    thumb_row ''Strh'' 0x00008000 0x0000f800 TW_Halfword ''strh%c	%0-2r, [%3-5r, %{I:#%6-10H%}]'',
    thumb_row ''Ldrh'' 0x00008800 0x0000f800 TW_Halfword ''ldrh%c	%0-2r, [%3-5r, %{I:#%6-10H%}]'',
    thumb_row ''Str'' 0x00009000 0x0000f800 TW_Halfword ''str%c	%8-10r, [%{R:sp%}, %{I:#%0-7W%}]'',
    thumb_row ''Ldr'' 0x00009800 0x0000f800 TW_Halfword ''ldr%c	%8-10r, [%{R:sp%}, %{I:#%0-7W%}]'',
    thumb_row ''Add'' 0x0000a000 0x0000f800 TW_Halfword ''add%c	%8-10r, %{R:pc%}, %{I:#%0-7W%}	@ (adr %8-10r, %0-7a)'',
    thumb_row ''Add'' 0x0000a800 0x0000f800 TW_Halfword ''add%c	%8-10r, %{R:sp%}, %{I:#%0-7W%}'',
    thumb_row ''Stmia'' 0x0000c000 0x0000f800 TW_Halfword ''stmia%c	%8-10r!, %M'',
    thumb_row ''Ldmia'' 0x0000c800 0x0000f800 TW_Halfword ''ldmia%c	%8-10r%W, %M'',
    thumb_row ''Svc'' 0x0000df00 0x0000ff00 TW_Halfword ''svc%c	%0-7d'',
    thumb_row ''Udf'' 0x0000de00 0x0000ff00 TW_Halfword ''udf%c	%{I:#%0-7d%}'',
    thumb_row ''B'' 0x0000d000 0x0000f000 TW_Halfword ''b%8-11c.n	%0-7B%X'',
    thumb_row ''B'' 0x0000e000 0x0000f800 TW_Halfword ''b%c.n	%0-10B%x'',
    thumb_row ''Aut'' 0xf3af802d 0xffffffff TW_Word ''aut	%{R:r12%}, %{R:lr%}, %{R:sp%}'',
    thumb_row ''Autg'' 0xfb500f00 0xfff00ff0 TW_Word ''autg%c	%12-15r, %16-19r, %0-3r'',
    thumb_row ''Bti'' 0xf3af800f 0xffffffff TW_Word ''bti'',
    thumb_row ''Bxaut'' 0xfb500f10 0xfff00ff0 TW_Word ''bxaut%c	%12-15r, %16-19r, %0-3r'',
    thumb_row ''Pac'' 0xf3af801d 0xffffffff TW_Word ''pac	%{R:r12%}, %{R:lr%}, %{R:sp%}'',
    thumb_row ''Pacbti'' 0xf3af800d 0xffffffff TW_Word ''pacbti	%{R:r12%}, %{R:lr%}, %{R:sp%}'',
    thumb_row ''Pacg'' 0xfb60f000 0xfff0f0f0 TW_Word ''pacg%c	%8-11r, %16-19r, %0-3r'',
    thumb_row ''Lctp'' 0xf00fe001 0xffffffff TW_Word ''lctp%c'',
    thumb_row ''Le'' 0xf02fc001 0xfffff001 TW_Word ''le	%P'',
    thumb_row ''Le'' 0xf00fc001 0xfffff001 TW_Word ''le	%{R:lr%}, %P'',
    thumb_row ''Letp'' 0xf01fc001 0xfffff001 TW_Word ''letp	%{R:lr%}, %P'',
    thumb_row ''Wls'' 0xf040c001 0xfff0f001 TW_Word ''wls	%{R:lr%}, %16-19S, %Q'',
    thumb_row ''Wlstp'' 0xf000c001 0xffc0f001 TW_Word ''wlstp.%20-21s	%{R:lr%}, %16-19S, %Q'',
    thumb_row ''Dls'' 0xf040e001 0xfff0ffff TW_Word ''dls	%{R:lr%}, %16-19S'',
    thumb_row ''Dlstp'' 0xf000e001 0xffc0ffff TW_Word ''dlstp.%20-21s	%{R:lr%}, %16-19S'',
    thumb_row ''Bf'' 0xf040e001 0xf860f001 TW_Word ''bf%c	%G, %W'',
    thumb_row ''Bfx'' 0xf060e001 0xf8f0f001 TW_Word ''bfx%c	%G, %16-19S'',
    thumb_row ''Bfl'' 0xf000c001 0xf800f001 TW_Word ''bfl%c	%G, %Y'',
    thumb_row ''Bflx'' 0xf070e001 0xf8f0f001 TW_Word ''bflx%c	%G, %16-19S'',
    thumb_row ''Bfcsel'' 0xf000e001 0xf840f001 TW_Word ''bfcsel	%G, %Z, %{B:%18-21c%}'',
    thumb_row ''Clrm'' 0xe89f0000 0xffff2000 TW_Word ''clrm%c	%n'',
    thumb_row ''Sg'' 0xe97fe97f 0xffffffff TW_Word ''sg'',
    thumb_row ''Tt'' 0xe840f000 0xfff0f0ff TW_Word ''tt	%8-11r, %16-19r'',
    thumb_row ''Ttt'' 0xe840f040 0xfff0f0ff TW_Word ''ttt	%8-11r, %16-19r'']"

definition thumb_rows_2 :: "thumb_opcode list" where
  "thumb_rows_2 = [
    thumb_row ''Tta'' 0xe840f080 0xfff0f0ff TW_Word ''tta	%8-11r, %16-19r'',
    thumb_row ''Ttat'' 0xe840f0c0 0xfff0f0ff TW_Word ''ttat	%8-11r, %16-19r'',
    thumb_row ''Esb'' 0xf3af8010 0xffffffff TW_Word ''esb'',
    thumb_row ''Sevl'' 0xf3af8005 0xffffffff TW_Word ''sevl%c.w'',
    thumb_row ''Dcps'' 0xf78f8000 0xfffffffc TW_Word ''dcps%0-1d'',
    thumb_row ''Stlb'' 0xe8c00f8f 0xfff00fff TW_Word ''stlb%c	%12-15r, [%16-19R]'',
    thumb_row ''Stlh'' 0xe8c00f9f 0xfff00fff TW_Word ''stlh%c	%12-15r, [%16-19R]'',
    thumb_row ''Stl'' 0xe8c00faf 0xfff00fff TW_Word ''stl%c	%12-15r, [%16-19R]'',
    thumb_row ''Stlexb'' 0xe8c00fc0 0xfff00ff0 TW_Word ''stlexb%c	%0-3r, %12-15r, [%16-19R]'',
    thumb_row ''Stlexh'' 0xe8c00fd0 0xfff00ff0 TW_Word ''stlexh%c	%0-3r, %12-15r, [%16-19R]'',
    thumb_row ''Stlex'' 0xe8c00fe0 0xfff00ff0 TW_Word ''stlex%c	%0-3r, %12-15r, [%16-19R]'',
    thumb_row ''Stlexd'' 0xe8c000f0 0xfff000f0 TW_Word ''stlexd%c	%0-3r, %12-15r, %8-11r, [%16-19R]'',
    thumb_row ''Ldab'' 0xe8d00f8f 0xfff00fff TW_Word ''ldab%c	%12-15r, [%16-19R]'',
    thumb_row ''Ldah'' 0xe8d00f9f 0xfff00fff TW_Word ''ldah%c	%12-15r, [%16-19R]'',
    thumb_row ''Lda'' 0xe8d00faf 0xfff00fff TW_Word ''lda%c	%12-15r, [%16-19R]'',
    thumb_row ''Ldaexb'' 0xe8d00fcf 0xfff00fff TW_Word ''ldaexb%c	%12-15r, [%16-19R]'',
    thumb_row ''Ldaexh'' 0xe8d00fdf 0xfff00fff TW_Word ''ldaexh%c	%12-15r, [%16-19R]'',
    thumb_row ''Ldaex'' 0xe8d00fef 0xfff00fff TW_Word ''ldaex%c	%12-15r, [%16-19R]'',
    thumb_row ''Ldaexd'' 0xe8d000ff 0xfff000ff TW_Word ''ldaexd%c	%12-15r, %8-11r, [%16-19R]'',
    thumb_row ''Dfb'' 0xf3bf8f4c 0xffffffff TW_Word ''dfb%c'',
    thumb_row ''Crc32b'' 0xfac0f080 0xfff0f0f0 TW_Word ''crc32b	%8-11R, %16-19R, %0-3R'',
    thumb_row ''Crc32h'' 0xfac0f090 0xfff0f0f0 TW_Word ''crc32h	%9-11R, %16-19R, %0-3R'',
    thumb_row ''Crc32w'' 0xfac0f0a0 0xfff0f0f0 TW_Word ''crc32w	%8-11R, %16-19R, %0-3R'',
    thumb_row ''Crc32cb'' 0xfad0f080 0xfff0f0f0 TW_Word ''crc32cb	%8-11R, %16-19R, %0-3R'',
    thumb_row ''Crc32ch'' 0xfad0f090 0xfff0f0f0 TW_Word ''crc32ch	%8-11R, %16-19R, %0-3R'',
    thumb_row ''Crc32cw'' 0xfad0f0a0 0xfff0f0f0 TW_Word ''crc32cw	%8-11R, %16-19R, %0-3R'',
    thumb_row ''Csdb'' 0xf3af8014 0xffffffff TW_Word ''csdb'',
    thumb_row ''Ssbb'' 0xf3bf8f40 0xffffffff TW_Word ''ssbb'',
    thumb_row ''Pssbb'' 0xf3bf8f44 0xffffffff TW_Word ''pssbb'',
    thumb_row ''Pli'' 0xf910f000 0xff70f000 TW_Word ''pli%c	%a'',
    thumb_row ''Dbg'' 0xf3af80f0 0xfffffff0 TW_Word ''dbg%c	%{I:#%0-3d%}'',
    thumb_row ''Dmb'' 0xf3bf8f51 0xfffffff3 TW_Word ''dmb%c	%U'',
    thumb_row ''Dsb'' 0xf3bf8f41 0xfffffff3 TW_Word ''dsb%c	%U'',
    thumb_row ''Dmb'' 0xf3bf8f50 0xfffffff0 TW_Word ''dmb%c	%U'',
    thumb_row ''Dsb'' 0xf3bf8f40 0xfffffff0 TW_Word ''dsb%c	%U'',
    thumb_row ''Isb'' 0xf3bf8f60 0xfffffff0 TW_Word ''isb%c	%U'',
    thumb_row ''Sdiv'' 0xfb90f0f0 0xfff0f0f0 TW_Word ''sdiv%c	%8-11r, %16-19r, %0-3r'',
    thumb_row ''Udiv'' 0xfbb0f0f0 0xfff0f0f0 TW_Word ''udiv%c	%8-11r, %16-19r, %0-3r'',
    thumb_row ''Hvc'' 0xf7e08000 0xfff0f000 TW_Word ''hvc%c	%V'',
    thumb_row ''Pldw'' 0xf830f000 0xff70f000 TW_Word ''pldw%c	%a'',
    thumb_row ''Smc'' 0xf7f08000 0xfff0f000 TW_Word ''smc%c	%K'',
    thumb_row ''Sb'' 0xf3bf8f70 0xffffffff TW_Word ''sb'',
    thumb_row ''Nop'' 0xf3af8000 0xffffffff TW_Word ''nop%c.w'',
    thumb_row ''Yield'' 0xf3af8001 0xffffffff TW_Word ''yield%c.w'',
    thumb_row ''Wfe'' 0xf3af8002 0xffffffff TW_Word ''wfe%c.w'',
    thumb_row ''Wfi'' 0xf3af8003 0xffffffff TW_Word ''wfi%c.w'',
    thumb_row ''Sev'' 0xf3af8004 0xffffffff TW_Word ''sev%c.w'',
    thumb_row ''Nop'' 0xf3af8000 0xffffff00 TW_Word ''nop%c.w	{%{I:%0-7d%}}'',
    thumb_row ''Udf'' 0xf7f0a000 0xfff0f000 TW_Word ''udf%c.w	%H'',
    thumb_row ''Clrex'' 0xf3bf8f2f 0xffffffff TW_Word ''clrex%c'',
    thumb_row ''CpsieW'' 0xf3af8400 0xffffff1f TW_Word ''cpsie.w	%{B:%7\\'a%6\\'i%5\\'f%}%X'',
    thumb_row ''CpsidW'' 0xf3af8600 0xffffff1f TW_Word ''cpsid.w	%{B:%7\\'a%6\\'i%5\\'f%}%X'',
    thumb_row ''Bxj'' 0xf3c08f00 0xfff0ffff TW_Word ''bxj%c	%16-19r%x'',
    thumb_row ''Rfedb'' 0xe810c000 0xffd0ffff TW_Word ''rfedb%c	%16-19r%21\\'!'',
    thumb_row ''Rfeia'' 0xe990c000 0xffd0ffff TW_Word ''rfeia%c	%16-19r%21\\'!'',
    thumb_row ''Mrs'' 0xf3e08000 0xffe0f000 TW_Word ''mrs%c	%8-11r, %D'',
    thumb_row ''Cps'' 0xf3af8100 0xffffffe0 TW_Word ''cps	%{I:#%0-4d%}%X'',
    thumb_row ''Tbb'' 0xe8d0f000 0xfff0fff0 TW_Word ''tbb%c	[%16-19r, %0-3r]%x'',
    thumb_row ''Tbh'' 0xe8d0f010 0xfff0fff0 TW_Word ''tbh%c	[%16-19r, %0-3r, %{B:lsl%} %{I:#1%}]%x'',
    thumb_row ''Cpsie'' 0xf3af8500 0xffffff00 TW_Word ''cpsie	%{B:%7\\'a%6\\'i%5\\'f%}, %{I:#%0-4d%}%X'',
    thumb_row ''Cpsid'' 0xf3af8700 0xffffff00 TW_Word ''cpsid	%{B:%7\\'a%6\\'i%5\\'f%}, %{I:#%0-4d%}%X'',
    thumb_row ''Subs'' 0xf3de8f00 0xffffff00 TW_Word ''subs%c	%{R:pc%}, %{R:lr%}, %{I:#%0-7d%}'',
    thumb_row ''Msr'' 0xf3808000 0xffe0f000 TW_Word ''msr%c	%C, %16-19r'',
    thumb_row ''Ldrex'' 0xe8500f00 0xfff00fff TW_Word ''ldrex%c	%12-15r, [%16-19r]'',
    thumb_row ''Ldrex'' 0xe8d00f4f 0xfff00fef TW_Word ''ldrex%4?hb%c	%12-15r, [%16-19r]'',
    thumb_row ''Srsdb'' 0xe800c000 0xffd0ffe0 TW_Word ''srsdb%c	%16-19r%21\\'!, %{I:#%0-4d%}'',
    thumb_row ''Srsia'' 0xe980c000 0xffd0ffe0 TW_Word ''srsia%c	%16-19r%21\\'!, %{I:#%0-4d%}'',
    thumb_row ''Sxth'' 0xfa0ff080 0xfffff0c0 TW_Word ''sxth%c.w	%8-11r, %0-3r%R'',
    thumb_row ''Uxth'' 0xfa1ff080 0xfffff0c0 TW_Word ''uxth%c.w	%8-11r, %0-3r%R'',
    thumb_row ''Sxtb16'' 0xfa2ff080 0xfffff0c0 TW_Word ''sxtb16%c	%8-11r, %0-3r%R'',
    thumb_row ''Uxtb16'' 0xfa3ff080 0xfffff0c0 TW_Word ''uxtb16%c	%8-11r, %0-3r%R'',
    thumb_row ''Sxtb'' 0xfa4ff080 0xfffff0c0 TW_Word ''sxtb%c.w	%8-11r, %0-3r%R'',
    thumb_row ''Uxtb'' 0xfa5ff080 0xfffff0c0 TW_Word ''uxtb%c.w	%8-11r, %0-3r%R'',
    thumb_row ''Strex'' 0xe8400000 0xfff000ff TW_Word ''strex%c	%8-11r, %12-15r, [%16-19r]'',
    thumb_row ''Ldrexd'' 0xe8d0007f 0xfff000ff TW_Word ''ldrexd%c	%12-15r, %8-11r, [%16-19r]'',
    thumb_row ''Sadd8'' 0xfa80f000 0xfff0f0f0 TW_Word ''sadd8%c	%8-11r, %16-19r, %0-3r'',
    thumb_row ''Qadd8'' 0xfa80f010 0xfff0f0f0 TW_Word ''qadd8%c	%8-11r, %16-19r, %0-3r'',
    thumb_row ''Shadd8'' 0xfa80f020 0xfff0f0f0 TW_Word ''shadd8%c	%8-11r, %16-19r, %0-3r'',
    thumb_row ''Uadd8'' 0xfa80f040 0xfff0f0f0 TW_Word ''uadd8%c	%8-11r, %16-19r, %0-3r'',
    thumb_row ''Uqadd8'' 0xfa80f050 0xfff0f0f0 TW_Word ''uqadd8%c	%8-11r, %16-19r, %0-3r'',
    thumb_row ''Uhadd8'' 0xfa80f060 0xfff0f0f0 TW_Word ''uhadd8%c	%8-11r, %16-19r, %0-3r'',
    thumb_row ''Qadd'' 0xfa80f080 0xfff0f0f0 TW_Word ''qadd%c	%8-11r, %0-3r, %16-19r'',
    thumb_row ''Qdadd'' 0xfa80f090 0xfff0f0f0 TW_Word ''qdadd%c	%8-11r, %0-3r, %16-19r'',
    thumb_row ''Qsub'' 0xfa80f0a0 0xfff0f0f0 TW_Word ''qsub%c	%8-11r, %0-3r, %16-19r'',
    thumb_row ''Qdsub'' 0xfa80f0b0 0xfff0f0f0 TW_Word ''qdsub%c	%8-11r, %0-3r, %16-19r'',
    thumb_row ''Sadd16'' 0xfa90f000 0xfff0f0f0 TW_Word ''sadd16%c	%8-11r, %16-19r, %0-3r'',
    thumb_row ''Qadd16'' 0xfa90f010 0xfff0f0f0 TW_Word ''qadd16%c	%8-11r, %16-19r, %0-3r'',
    thumb_row ''Shadd16'' 0xfa90f020 0xfff0f0f0 TW_Word ''shadd16%c	%8-11r, %16-19r, %0-3r'',
    thumb_row ''Uadd16'' 0xfa90f040 0xfff0f0f0 TW_Word ''uadd16%c	%8-11r, %16-19r, %0-3r'',
    thumb_row ''Uqadd16'' 0xfa90f050 0xfff0f0f0 TW_Word ''uqadd16%c	%8-11r, %16-19r, %0-3r'',
    thumb_row ''Uhadd16'' 0xfa90f060 0xfff0f0f0 TW_Word ''uhadd16%c	%8-11r, %16-19r, %0-3r'',
    thumb_row ''Rev'' 0xfa90f080 0xfff0f0f0 TW_Word ''rev%c.w	%8-11r, %16-19r'',
    thumb_row ''Rev16'' 0xfa90f090 0xfff0f0f0 TW_Word ''rev16%c.w	%8-11r, %16-19r'',
    thumb_row ''Rbit'' 0xfa90f0a0 0xfff0f0f0 TW_Word ''rbit%c	%8-11r, %16-19r'',
    thumb_row ''Revsh'' 0xfa90f0b0 0xfff0f0f0 TW_Word ''revsh%c.w	%8-11r, %16-19r'',
    thumb_row ''Sasx'' 0xfaa0f000 0xfff0f0f0 TW_Word ''sasx%c	%8-11r, %16-19r, %0-3r'',
    thumb_row ''Qasx'' 0xfaa0f010 0xfff0f0f0 TW_Word ''qasx%c	%8-11r, %16-19r, %0-3r'',
    thumb_row ''Shasx'' 0xfaa0f020 0xfff0f0f0 TW_Word ''shasx%c	%8-11r, %16-19r, %0-3r'',
    thumb_row ''Uasx'' 0xfaa0f040 0xfff0f0f0 TW_Word ''uasx%c	%8-11r, %16-19r, %0-3r'',
    thumb_row ''Uqasx'' 0xfaa0f050 0xfff0f0f0 TW_Word ''uqasx%c	%8-11r, %16-19r, %0-3r'',
    thumb_row ''Uhasx'' 0xfaa0f060 0xfff0f0f0 TW_Word ''uhasx%c	%8-11r, %16-19r, %0-3r'',
    thumb_row ''Sel'' 0xfaa0f080 0xfff0f0f0 TW_Word ''sel%c	%8-11r, %16-19r, %0-3r'',
    thumb_row ''Clz'' 0xfab0f080 0xfff0f0f0 TW_Word ''clz%c	%8-11r, %16-19r'',
    thumb_row ''Ssub8'' 0xfac0f000 0xfff0f0f0 TW_Word ''ssub8%c	%8-11r, %16-19r, %0-3r'',
    thumb_row ''Qsub8'' 0xfac0f010 0xfff0f0f0 TW_Word ''qsub8%c	%8-11r, %16-19r, %0-3r'',
    thumb_row ''Shsub8'' 0xfac0f020 0xfff0f0f0 TW_Word ''shsub8%c	%8-11r, %16-19r, %0-3r'',
    thumb_row ''Usub8'' 0xfac0f040 0xfff0f0f0 TW_Word ''usub8%c	%8-11r, %16-19r, %0-3r'',
    thumb_row ''Uqsub8'' 0xfac0f050 0xfff0f0f0 TW_Word ''uqsub8%c	%8-11r, %16-19r, %0-3r'',
    thumb_row ''Uhsub8'' 0xfac0f060 0xfff0f0f0 TW_Word ''uhsub8%c	%8-11r, %16-19r, %0-3r'',
    thumb_row ''Ssub16'' 0xfad0f000 0xfff0f0f0 TW_Word ''ssub16%c	%8-11r, %16-19r, %0-3r'']"

definition thumb_rows_3 :: "thumb_opcode list" where
  "thumb_rows_3 = [
    thumb_row ''Qsub16'' 0xfad0f010 0xfff0f0f0 TW_Word ''qsub16%c	%8-11r, %16-19r, %0-3r'',
    thumb_row ''Shsub16'' 0xfad0f020 0xfff0f0f0 TW_Word ''shsub16%c	%8-11r, %16-19r, %0-3r'',
    thumb_row ''Usub16'' 0xfad0f040 0xfff0f0f0 TW_Word ''usub16%c	%8-11r, %16-19r, %0-3r'',
    thumb_row ''Uqsub16'' 0xfad0f050 0xfff0f0f0 TW_Word ''uqsub16%c	%8-11r, %16-19r, %0-3r'',
    thumb_row ''Uhsub16'' 0xfad0f060 0xfff0f0f0 TW_Word ''uhsub16%c	%8-11r, %16-19r, %0-3r'',
    thumb_row ''Ssax'' 0xfae0f000 0xfff0f0f0 TW_Word ''ssax%c	%8-11r, %16-19r, %0-3r'',
    thumb_row ''Qsax'' 0xfae0f010 0xfff0f0f0 TW_Word ''qsax%c	%8-11r, %16-19r, %0-3r'',
    thumb_row ''Shsax'' 0xfae0f020 0xfff0f0f0 TW_Word ''shsax%c	%8-11r, %16-19r, %0-3r'',
    thumb_row ''Usax'' 0xfae0f040 0xfff0f0f0 TW_Word ''usax%c	%8-11r, %16-19r, %0-3r'',
    thumb_row ''Uqsax'' 0xfae0f050 0xfff0f0f0 TW_Word ''uqsax%c	%8-11r, %16-19r, %0-3r'',
    thumb_row ''Uhsax'' 0xfae0f060 0xfff0f0f0 TW_Word ''uhsax%c	%8-11r, %16-19r, %0-3r'',
    thumb_row ''Mul'' 0xfb00f000 0xfff0f0f0 TW_Word ''mul%c.w	%8-11r, %16-19r, %0-3r'',
    thumb_row ''Usad8'' 0xfb70f000 0xfff0f0f0 TW_Word ''usad8%c	%8-11r, %16-19r, %0-3r'',
    thumb_row ''Lsl'' 0xfa00f000 0xffe0f0f0 TW_Word ''lsl%20\\'s%c.w	%8-11R, %16-19R, %0-3R'',
    thumb_row ''Lsr'' 0xfa20f000 0xffe0f0f0 TW_Word ''lsr%20\\'s%c.w	%8-11R, %16-19R, %0-3R'',
    thumb_row ''Asr'' 0xfa40f000 0xffe0f0f0 TW_Word ''asr%20\\'s%c.w	%8-11R, %16-19R, %0-3R'',
    thumb_row ''Ror'' 0xfa60f000 0xffe0f0f0 TW_Word ''ror%20\\'s%c.w	%8-11r, %16-19r, %0-3r'',
    thumb_row ''Strex'' 0xe8c00f40 0xfff00fe0 TW_Word ''strex%4?hb%c	%0-3r, %12-15r, [%16-19r]'',
    thumb_row ''Ssat16'' 0xf3200000 0xfff0f0e0 TW_Word ''ssat16%c	%8-11r, %{I:#%0-4D%}, %16-19r'',
    thumb_row ''Usat16'' 0xf3a00000 0xfff0f0e0 TW_Word ''usat16%c	%8-11r, %{I:#%0-4d%}, %16-19r'',
    thumb_row ''Smuad'' 0xfb20f000 0xfff0f0e0 TW_Word ''smuad%4\\'x%c	%8-11r, %16-19r, %0-3r'',
    thumb_row ''Smulw'' 0xfb30f000 0xfff0f0e0 TW_Word ''smulw%4?tb%c	%8-11r, %16-19r, %0-3r'',
    thumb_row ''Smusd'' 0xfb40f000 0xfff0f0e0 TW_Word ''smusd%4\\'x%c	%8-11r, %16-19r, %0-3r'',
    thumb_row ''Smmul'' 0xfb50f000 0xfff0f0e0 TW_Word ''smmul%4\\'r%c	%8-11r, %16-19r, %0-3r'',
    thumb_row ''Sxtah'' 0xfa00f080 0xfff0f0c0 TW_Word ''sxtah%c	%8-11r, %16-19r, %0-3r%R'',
    thumb_row ''Uxtah'' 0xfa10f080 0xfff0f0c0 TW_Word ''uxtah%c	%8-11r, %16-19r, %0-3r%R'',
    thumb_row ''Sxtab16'' 0xfa20f080 0xfff0f0c0 TW_Word ''sxtab16%c	%8-11r, %16-19r, %0-3r%R'',
    thumb_row ''Uxtab16'' 0xfa30f080 0xfff0f0c0 TW_Word ''uxtab16%c	%8-11r, %16-19r, %0-3r%R'',
    thumb_row ''Sxtab'' 0xfa40f080 0xfff0f0c0 TW_Word ''sxtab%c	%8-11r, %16-19r, %0-3r%R'',
    thumb_row ''Uxtab'' 0xfa50f080 0xfff0f0c0 TW_Word ''uxtab%c	%8-11r, %16-19r, %0-3r%R'',
    thumb_row ''Smul'' 0xfb10f000 0xfff0f0c0 TW_Word ''smul%5?tb%4?tb%c	%8-11r, %16-19r, %0-3r'',
    thumb_row ''Bfc'' 0xf36f0000 0xffff8020 TW_Word ''bfc%c	%8-11r, %E'',
    thumb_row ''Tst'' 0xea100f00 0xfff08f00 TW_Word ''tst%c.w	%16-19r, %S'',
    thumb_row ''Teq'' 0xea900f00 0xfff08f00 TW_Word ''teq%c	%16-19r, %S'',
    thumb_row ''Cmn'' 0xeb100f00 0xfff08f00 TW_Word ''cmn%c.w	%16-19r, %S'',
    thumb_row ''Cmp'' 0xebb00f00 0xfff08f00 TW_Word ''cmp%c.w	%16-19r, %S'',
    thumb_row ''Tst'' 0xf0100f00 0xfbf08f00 TW_Word ''tst%c.w	%16-19r, %M'',
    thumb_row ''Teq'' 0xf0900f00 0xfbf08f00 TW_Word ''teq%c	%16-19r, %M'',
    thumb_row ''Cmn'' 0xf1100f00 0xfbf08f00 TW_Word ''cmn%c.w	%16-19r, %M'',
    thumb_row ''Cmp'' 0xf1b00f00 0xfbf08f00 TW_Word ''cmp%c.w	%16-19r, %M'',
    thumb_row ''Mov'' 0xea4f0000 0xffef8000 TW_Word ''mov%20\\'s%c.w	%8-11r, %S'',
    thumb_row ''Mvn'' 0xea6f0000 0xffef8000 TW_Word ''mvn%20\\'s%c.w	%8-11r, %S'',
    thumb_row ''Strexd'' 0xe8c00070 0xfff000f0 TW_Word ''strexd%c	%0-3r, %12-15r, %8-11r, [%16-19r]'',
    thumb_row ''Mla'' 0xfb000000 0xfff000f0 TW_Word ''mla%c	%8-11r, %16-19r, %0-3r, %12-15r'',
    thumb_row ''Mls'' 0xfb000010 0xfff000f0 TW_Word ''mls%c	%8-11r, %16-19r, %0-3r, %12-15r'',
    thumb_row ''Usada8'' 0xfb700000 0xfff000f0 TW_Word ''usada8%c	%8-11R, %16-19R, %0-3R, %12-15R'',
    thumb_row ''Smull'' 0xfb800000 0xfff000f0 TW_Word ''smull%c	%12-15R, %8-11R, %16-19R, %0-3R'',
    thumb_row ''Umull'' 0xfba00000 0xfff000f0 TW_Word ''umull%c	%12-15R, %8-11R, %16-19R, %0-3R'',
    thumb_row ''Smlal'' 0xfbc00000 0xfff000f0 TW_Word ''smlal%c	%12-15R, %8-11R, %16-19R, %0-3R'',
    thumb_row ''Umlal'' 0xfbe00000 0xfff000f0 TW_Word ''umlal%c	%12-15R, %8-11R, %16-19R, %0-3R'',
    thumb_row ''Umaal'' 0xfbe00060 0xfff000f0 TW_Word ''umaal%c	%12-15R, %8-11R, %16-19R, %0-3R'',
    thumb_row ''Ldrex'' 0xe8500f00 0xfff00f00 TW_Word ''ldrex%c	%12-15r, [%16-19r, %{I:#%0-7W%}]'',
    thumb_row ''Mov'' 0xf04f0000 0xfbef8000 TW_Word ''mov%20\\'s%c.w	%8-11r, %M'',
    thumb_row ''Mvn'' 0xf06f0000 0xfbef8000 TW_Word ''mvn%20\\'s%c.w	%8-11r, %M'',
    thumb_row ''Pld'' 0xf810f000 0xff70f000 TW_Word ''pld%c	%a'',
    thumb_row ''Smlad'' 0xfb200000 0xfff000e0 TW_Word ''smlad%4\\'x%c	%8-11R, %16-19R, %0-3R, %12-15R'',
    thumb_row ''Smlaw'' 0xfb300000 0xfff000e0 TW_Word ''smlaw%4?tb%c	%8-11R, %16-19R, %0-3R, %12-15R'',
    thumb_row ''Smlsd'' 0xfb400000 0xfff000e0 TW_Word ''smlsd%4\\'x%c	%8-11R, %16-19R, %0-3R, %12-15R'',
    thumb_row ''Smmla'' 0xfb500000 0xfff000e0 TW_Word ''smmla%4\\'r%c	%8-11R, %16-19R, %0-3R, %12-15R'',
    thumb_row ''Smmls'' 0xfb600000 0xfff000e0 TW_Word ''smmls%4\\'r%c	%8-11R, %16-19R, %0-3R, %12-15R'',
    thumb_row ''Smlald'' 0xfbc000c0 0xfff000e0 TW_Word ''smlald%4\\'x%c	%12-15R, %8-11R, %16-19R, %0-3R'',
    thumb_row ''Smlsld'' 0xfbd000c0 0xfff000e0 TW_Word ''smlsld%4\\'x%c	%12-15R, %8-11R, %16-19R, %0-3R'',
    thumb_row ''Pkhbt'' 0xeac00000 0xfff08030 TW_Word ''pkhbt%c	%8-11r, %16-19r, %S'',
    thumb_row ''Pkhtb'' 0xeac00020 0xfff08030 TW_Word ''pkhtb%c	%8-11r, %16-19r, %S'',
    thumb_row ''Sbfx'' 0xf3400000 0xfff08020 TW_Word ''sbfx%c	%8-11r, %16-19r, %F'',
    thumb_row ''Ubfx'' 0xf3c00000 0xfff08020 TW_Word ''ubfx%c	%8-11r, %16-19r, %F'',
    thumb_row ''Str'' 0xf8000e00 0xff900f00 TW_Word ''str%wt%c	%12-15r, %a'',
    thumb_row ''Smla'' 0xfb100000 0xfff000c0 TW_Word ''smla%5?tb%4?tb%c	%8-11r, %16-19r, %0-3r, %12-15r'',
    thumb_row ''Smlal'' 0xfbc00080 0xfff000c0 TW_Word ''smlal%5?tb%4?tb%c	%12-15r, %8-11r, %16-19r, %0-3r'',
    thumb_row ''Bfi'' 0xf3600000 0xfff08020 TW_Word ''bfi%c	%8-11r, %16-19r, %E'',
    thumb_row ''Ldr'' 0xf8100e00 0xfe900f00 TW_Word ''ldr%wt%c	%12-15r, %a'',
    thumb_row ''Ssat'' 0xf3000000 0xffd08020 TW_Word ''ssat%c	%8-11r, %{I:#%0-4D%}, %16-19r%s'',
    thumb_row ''Usat'' 0xf3800000 0xffd08020 TW_Word ''usat%c	%8-11r, %{I:#%0-4d%}, %16-19r%s'',
    thumb_row ''Addw'' 0xf2000000 0xfbf08000 TW_Word ''addw%c	%8-11r, %16-19r, %I'',
    thumb_row ''Movw'' 0xf2400000 0xfbf08000 TW_Word ''movw%c	%8-11r, %J'',
    thumb_row ''Subw'' 0xf2a00000 0xfbf08000 TW_Word ''subw%c	%8-11r, %16-19r, %I'',
    thumb_row ''Movt'' 0xf2c00000 0xfbf08000 TW_Word ''movt%c	%8-11r, %J'',
    thumb_row ''And'' 0xea000000 0xffe08000 TW_Word ''and%20\\'s%c.w	%8-11r, %16-19r, %S'',
    thumb_row ''Bic'' 0xea200000 0xffe08000 TW_Word ''bic%20\\'s%c.w	%8-11r, %16-19r, %S'',
    thumb_row ''Orr'' 0xea400000 0xffe08000 TW_Word ''orr%20\\'s%c.w	%8-11r, %16-19r, %S'',
    thumb_row ''Orn'' 0xea600000 0xffe08000 TW_Word ''orn%20\\'s%c	%8-11r, %16-19r, %S'',
    thumb_row ''Eor'' 0xea800000 0xffe08000 TW_Word ''eor%20\\'s%c.w	%8-11r, %16-19r, %S'',
    thumb_row ''Add'' 0xeb000000 0xffe08000 TW_Word ''add%20\\'s%c.w	%8-11r, %16-19r, %S'',
    thumb_row ''Adc'' 0xeb400000 0xffe08000 TW_Word ''adc%20\\'s%c.w	%8-11r, %16-19r, %S'',
    thumb_row ''Sbc'' 0xeb600000 0xffe08000 TW_Word ''sbc%20\\'s%c.w	%8-11r, %16-19r, %S'',
    thumb_row ''Sub'' 0xeba00000 0xffe08000 TW_Word ''sub%20\\'s%c.w	%8-11r, %16-19r, %S'',
    thumb_row ''Rsb'' 0xebc00000 0xffe08000 TW_Word ''rsb%20\\'s%c	%8-11r, %16-19r, %S'',
    thumb_row ''Strex'' 0xe8400000 0xfff00000 TW_Word ''strex%c	%8-11r, %12-15r, [%16-19r, %{I:#%0-7W%}]'',
    thumb_row ''And'' 0xf0000000 0xfbe08000 TW_Word ''and%20\\'s%c.w	%8-11r, %16-19r, %M'',
    thumb_row ''Bic'' 0xf0200000 0xfbe08000 TW_Word ''bic%20\\'s%c.w	%8-11r, %16-19r, %M'',
    thumb_row ''Orr'' 0xf0400000 0xfbe08000 TW_Word ''orr%20\\'s%c.w	%8-11r, %16-19r, %M'',
    thumb_row ''Orn'' 0xf0600000 0xfbe08000 TW_Word ''orn%20\\'s%c	%8-11r, %16-19r, %M'',
    thumb_row ''Eor'' 0xf0800000 0xfbe08000 TW_Word ''eor%20\\'s%c.w	%8-11r, %16-19r, %M'',
    thumb_row ''Add'' 0xf1000000 0xfbe08000 TW_Word ''add%20\\'s%c.w	%8-11r, %16-19r, %M'',
    thumb_row ''Adc'' 0xf1400000 0xfbe08000 TW_Word ''adc%20\\'s%c.w	%8-11r, %16-19r, %M'',
    thumb_row ''Sbc'' 0xf1600000 0xfbe08000 TW_Word ''sbc%20\\'s%c.w	%8-11r, %16-19r, %M'',
    thumb_row ''Sub'' 0xf1a00000 0xfbe08000 TW_Word ''sub%20\\'s%c.w	%8-11r, %16-19r, %M'',
    thumb_row ''Rsb'' 0xf1c00000 0xfbe08000 TW_Word ''rsb%20\\'s%c	%8-11r, %16-19r, %M'',
    thumb_row ''Stmia'' 0xe8800000 0xffd00000 TW_Word ''stmia%c.w	%16-19r%21\\'!, %m'',
    thumb_row ''Ldmia'' 0xe8900000 0xffd00000 TW_Word ''ldmia%c.w	%16-19r%21\\'!, %m'',
    thumb_row ''Stmdb'' 0xe9000000 0xffd00000 TW_Word ''stmdb%c	%16-19r%21\\'!, %m'',
    thumb_row ''Ldmdb'' 0xe9100000 0xffd00000 TW_Word ''ldmdb%c	%16-19r%21\\'!, %m'',
    thumb_row ''Strd'' 0xe9c00000 0xffd000ff TW_Word ''strd%c	%12-15r, %8-11r, [%16-19r]'',
    thumb_row ''Ldrd'' 0xe9d00000 0xffd000ff TW_Word ''ldrd%c	%12-15r, %8-11r, [%16-19r]'',
    thumb_row ''Strd'' 0xe9400000 0xff500000 TW_Word ''strd%c	%12-15r, %8-11r, [%16-19r, %{I:#%23`-%0-7W%}]%21\\'!%L'',
    thumb_row ''Ldrd'' 0xe9500000 0xff500000 TW_Word ''ldrd%c	%12-15r, %8-11r, [%16-19r, %{I:#%23`-%0-7W%}]%21\\'!%L'',
    thumb_row ''Strd'' 0xe8600000 0xff700000 TW_Word ''strd%c	%12-15r, %8-11r, [%16-19r], %{I:#%23`-%0-7W%}%L'',
    thumb_row ''Ldrd'' 0xe8700000 0xff700000 TW_Word ''ldrd%c	%12-15r, %8-11r, [%16-19r], %{I:#%23`-%0-7W%}%L'',
    thumb_row ''Str'' 0xf8000000 0xff100000 TW_Word ''str%w%c.w	%12-15r, %a'',
    thumb_row ''Ldr'' 0xf8100000 0xfe100000 TW_Word ''ldr%w%c.w	%12-15r, %a'']"

definition thumb_rows_4 :: "thumb_opcode list" where
  "thumb_rows_4 = [
    thumb_row ''Undefined'' 0xf3c08000 0xfbc0d000 TW_Word ''undefined (bcc, cond=0xF)'',
    thumb_row ''Undefined'' 0xf3808000 0xfbc0d000 TW_Word ''undefined (bcc, cond=0xE)'',
    thumb_row ''B'' 0xf0008000 0xf800d000 TW_Word ''b%22-25c.w	%b%X'',
    thumb_row ''B'' 0xf0009000 0xf800d000 TW_Word ''b%c.w	%B%x'',
    thumb_row ''Blx'' 0xf000c000 0xf800d001 TW_Word ''blx%c	%B%x'',
    thumb_row ''Bl'' 0xf000d000 0xf800d000 TW_Word ''bl%c	%B%x'']"

definition thumb_opcode_table :: "thumb_opcode list" where
  "thumb_opcode_table = thumb_rows_1 @ thumb_rows_2 @ thumb_rows_3 @ thumb_rows_4"

section \<open>Search\<close>

definition match_thumb_generated :: "u32 \<Rightarrow> thumb_width \<Rightarrow> thumb_opcode option" where
  "match_thumb_generated w width =
     List.find (\<lambda>row. th_width row = width \<and> w AND th_mask row = th_opcode row) thumb_opcode_table"

end
