(* ===== verification/Neon_Table.thy ===== *)
theory Neon_Table
  imports Prelude
begin

text \<open>
  The table of NEON, VFP and coprocessor instructions
  (\<open>src/src/isa/armv7/neon_table_generated.rs\<close>), shared by the two instruction sets, and the two
  searches. A mnemonic is represented by the
  name of its constructor.
\<close>

datatype isa_applicability = IA_Neon | IA_Any | IA_Arm | IA_Thumb

section \<open>Mnemonics\<close>

type_synonym neon_mnemonic = string

definition neon_mnemonic_names :: "(neon_mnemonic \<times> string) list" where
  "neon_mnemonic_names =
    [(''Abs'', ''abs''), (''Acs'', ''acs''), (''Adf'', ''adf''), (''Aesd'', ''aesd''),
     (''Aese'', ''aese''), (''Aesimc'', ''aesimc''), (''Aesmc'', ''aesmc''),
     (''Asn'', ''asn''), (''Atn'', ''atn''), (''Cdp'', ''cdp''), (''Cdp2'', ''cdp2''),
     (''Cfabs32'', ''cfabs32''), (''Cfabs64'', ''cfabs64''), (''Cfabsd'', ''cfabsd''),
     (''Cfabss'', ''cfabss''), (''Cfadd32'', ''cfadd32''), (''Cfadd64'', ''cfadd64''),
     (''Cfaddd'', ''cfaddd''), (''Cfadds'', ''cfadds''), (''Cfcmp32'', ''cfcmp32''),
     (''Cfcmp64'', ''cfcmp64''), (''Cfcmpd'', ''cfcmpd''), (''Cfcmps'', ''cfcmps''),
     (''Cfcpyd'', ''cfcpyd''), (''Cfcpys'', ''cfcpys''), (''Cfcvt32d'', ''cfcvt32d''),
     (''Cfcvt32s'', ''cfcvt32s''), (''Cfcvt64d'', ''cfcvt64d''), (''Cfcvt64s'', ''cfcvt64s''),
     (''Cfcvtd32'', ''cfcvtd32''), (''Cfcvtds'', ''cfcvtds''), (''Cfcvts32'', ''cfcvts32''),
     (''Cfcvtsd'', ''cfcvtsd''), (''Cfldr32'', ''cfldr32''), (''Cfldr64'', ''cfldr64''),
     (''Cfldrd'', ''cfldrd''), (''Cfldrs'', ''cfldrs''), (''Cfmac32'', ''cfmac32''),
     (''Cfmadd32'', ''cfmadd32''), (''Cfmadda32'', ''cfmadda32''), (''Cfmsc32'', ''cfmsc32''),
     (''Cfmsub32'', ''cfmsub32''), (''Cfmsuba32'', ''cfmsuba32''), (''Cfmul32'', ''cfmul32''),
     (''Cfmul64'', ''cfmul64''), (''Cfmuld'', ''cfmuld''), (''Cfmuls'', ''cfmuls''),
     (''Cfmv32a'', ''cfmv32a''), (''Cfmv32ah'', ''cfmv32ah''), (''Cfmv32al'', ''cfmv32al''),
     (''Cfmv32am'', ''cfmv32am''), (''Cfmv32sc'', ''cfmv32sc''), (''Cfmv64a'', ''cfmv64a''),
     (''Cfmv64hr'', ''cfmv64hr''), (''Cfmv64lr'', ''cfmv64lr''), (''Cfmva32'', ''cfmva32''),
     (''Cfmva64'', ''cfmva64''), (''Cfmvah32'', ''cfmvah32''), (''Cfmval32'', ''cfmval32''),
     (''Cfmvam32'', ''cfmvam32''), (''Cfmvdhr'', ''cfmvdhr''), (''Cfmvdlr'', ''cfmvdlr''),
     (''Cfmvr64h'', ''cfmvr64h''), (''Cfmvr64l'', ''cfmvr64l''), (''Cfmvrdh'', ''cfmvrdh''),
     (''Cfmvrdl'', ''cfmvrdl''), (''Cfmvrs'', ''cfmvrs''), (''Cfmvsc32'', ''cfmvsc32''),
     (''Cfmvsr'', ''cfmvsr''), (''Cfneg32'', ''cfneg32''), (''Cfneg64'', ''cfneg64''),
     (''Cfnegd'', ''cfnegd''), (''Cfnegs'', ''cfnegs''), (''Cfrshl32'', ''cfrshl32''),
     (''Cfrshl64'', ''cfrshl64''), (''Cfsh32'', ''cfsh32''), (''Cfsh64'', ''cfsh64''),
     (''Cfstr32'', ''cfstr32''), (''Cfstr64'', ''cfstr64''), (''Cfstrd'', ''cfstrd''),
     (''Cfstrs'', ''cfstrs''), (''Cfsub32'', ''cfsub32''), (''Cfsub64'', ''cfsub64''),
     (''Cfsubd'', ''cfsubd''), (''Cfsubs'', ''cfsubs''), (''Cftruncd32'', ''cftruncd32''),
     (''Cftruncs32'', ''cftruncs32''), (''Cmf'', ''cmf''), (''Cmfe'', ''cmfe''),
     (''Cnf'', ''cnf''), (''Cnfe'', ''cnfe''), (''Cos'', ''cos''), (''Dvf'', ''dvf''),
     (''Exp'', ''exp''), (''Fdv'', ''fdv''), (''Fix'', ''fix''), (''Fldmdbx'', ''fldmdbx''),
     (''Fldmiax'', ''fldmiax''), (''Flt'', ''flt''), (''Fml'', ''fml''), (''Frd'', ''frd''),
     (''Fstmdbx'', ''fstmdbx''), (''Fstmiax'', ''fstmiax''), (''Ldc'', ''ldc''),
     (''Ldc2'', ''ldc2''), (''Ldf'', ''ldf''), (''Lfm'', ''lfm''), (''Lgn'', ''lgn''),
     (''Log'', ''log''), (''Mar'', ''mar''), (''Mcr'', ''mcr''), (''Mcr2'', ''mcr2''),
     (''Mcrr'', ''mcrr''), (''Mcrr2'', ''mcrr2''), (''Mia'', ''mia''), (''Miaph'', ''miaph''),
     (''Mnf'', ''mnf''), (''Mra'', ''mra''), (''Mrc'', ''mrc''), (''Mrc2'', ''mrc2''),
     (''Mrrc'', ''mrrc''), (''Mrrc2'', ''mrrc2''), (''Muf'', ''muf''), (''Mvf'', ''mvf''),
     (''Nrm'', ''nrm''), (''Pol'', ''pol''), (''Pow'', ''pow''), (''Rdf'', ''rdf''),
     (''Rfc'', ''rfc''), (''Rfs'', ''rfs''), (''Rmf'', ''rmf''), (''Rnd'', ''rnd''),
     (''Rpw'', ''rpw''), (''Rsf'', ''rsf''), (''Sfm'', ''sfm''), (''Sha1c'', ''sha1c''),
     (''Sha1h'', ''sha1h''), (''Sha1m'', ''sha1m''), (''Sha1p'', ''sha1p''),
     (''Sha1su0'', ''sha1su0''), (''Sha1su1'', ''sha1su1''), (''Sha256h'', ''sha256h''),
     (''Sha256h2'', ''sha256h2''), (''Sha256su0'', ''sha256su0''),
     (''Sha256su1'', ''sha256su1''), (''Sin'', ''sin''), (''Sqt'', ''sqt''),
     (''Stc'', ''stc''), (''Stc2'', ''stc2''), (''Stf'', ''stf''), (''Suf'', ''suf''),
     (''Tan'', ''tan''), (''Tandc'', ''tandc''), (''Tbcst'', ''tbcst''),
     (''Textrc'', ''textrc''), (''Textrm'', ''textrm''), (''Tinsr'', ''tinsr''),
     (''Tmcr'', ''tmcr''), (''Tmcrr'', ''tmcrr''), (''Tmia'', ''tmia''),
     (''Tmiaph'', ''tmiaph''), (''Tmovmsk'', ''tmovmsk''), (''Tmrc'', ''tmrc''),
     (''Tmrrc'', ''tmrrc''), (''Torc'', ''torc''), (''Torvsc'', ''torvsc''),
     (''Urd'', ''urd''), (''V'', ''v''), (''Vaba'', ''vaba''), (''Vabal'', ''vabal''),
     (''Vabd'', ''vabd''), (''Vabdl'', ''vabdl''), (''Vabs'', ''vabs''),
     (''Vacge'', ''vacge''), (''Vacgt'', ''vacgt''), (''Vadd'', ''vadd''),
     (''Vaddhn'', ''vaddhn''), (''Vaddl'', ''vaddl''), (''Vaddw'', ''vaddw''),
     (''Vand'', ''vand''), (''Vbic'', ''vbic''), (''Vbif'', ''vbif''), (''Vbit'', ''vbit''),
     (''Vbsl'', ''vbsl''), (''Vcadd'', ''vcadd''), (''Vceq'', ''vceq''), (''Vcge'', ''vcge''),
     (''Vcgt'', ''vcgt''), (''Vcle'', ''vcle''), (''Vcls'', ''vcls''), (''Vclt'', ''vclt''),
     (''Vclz'', ''vclz''), (''Vcmla'', ''vcmla''), (''Vcmp'', ''vcmp''), (''Vcnt'', ''vcnt''),
     (''Vcvt'', ''vcvt''), (''Vdiv'', ''vdiv''), (''VdotBf16'', ''vdot.bf16''),
     (''Vdup'', ''vdup''), (''Veor'', ''veor''), (''Vext'', ''vext''), (''Vfma'', ''vfma''),
     (''VfmalF16'', ''vfmal.f16''), (''Vfms'', ''vfms''), (''VfmslF16'', ''vfmsl.f16''),
     (''Vfnma'', ''vfnma''), (''Vfnms'', ''vfnms''), (''Vhadd'', ''vhadd''),
     (''Vhsub'', ''vhsub''), (''VinsF16'', ''vins.f16''), (''Vjcvt'', ''vjcvt''),
     (''Vld1'', ''vld1''), (''Vld2'', ''vld2''), (''Vld3'', ''vld3''), (''Vld4'', ''vld4''),
     (''Vldmdb'', ''vldmdb''), (''Vldmia'', ''vldmia''), (''Vldr'', ''vldr''),
     (''Vlldm'', ''vlldm''), (''Vlstm'', ''vlstm''), (''Vmax'', ''vmax''),
     (''Vmaxnm'', ''vmaxnm''), (''Vmin'', ''vmin''), (''Vminnm'', ''vminnm''),
     (''Vmla'', ''vmla''), (''Vmlal'', ''vmlal''), (''Vmls'', ''vmls''),
     (''Vmlsl'', ''vmlsl''), (''VmmlaBf16'', ''vmmla.bf16''), (''Vmov'', ''vmov''),
     (''Vmovl'', ''vmovl''), (''Vmovn'', ''vmovn''), (''Vmovx'', ''vmovx''),
     (''Vmrs'', ''vmrs''), (''Vmsr'', ''vmsr''), (''Vmul'', ''vmul''), (''Vmull'', ''vmull''),
     (''Vmvn'', ''vmvn''), (''Vneg'', ''vneg''), (''Vnmla'', ''vnmla''),
     (''Vnmls'', ''vnmls''), (''Vnmul'', ''vnmul''), (''Vorn'', ''vorn''),
     (''Vorr'', ''vorr''), (''Vpadal'', ''vpadal''), (''Vpadd'', ''vpadd''),
     (''Vpaddl'', ''vpaddl''), (''Vpmax'', ''vpmax''), (''Vpmin'', ''vpmin''),
     (''Vpop'', ''vpop''), (''Vpush'', ''vpush''), (''Vqabs'', ''vqabs''),
     (''Vqadd'', ''vqadd''), (''Vqdmlal'', ''vqdmlal''), (''Vqdmlsl'', ''vqdmlsl''),
     (''Vqdmulh'', ''vqdmulh''), (''Vqdmull'', ''vqdmull''), (''Vqmovn'', ''vqmovn''),
     (''Vqmovun'', ''vqmovun''), (''Vqneg'', ''vqneg''), (''Vqrdmlah'', ''vqrdmlah''),
     (''Vqrdmlsh'', ''vqrdmlsh''), (''Vqrdmulh'', ''vqrdmulh''), (''Vqrshl'', ''vqrshl''),
     (''Vqrshrn'', ''vqrshrn''), (''Vqrshrun'', ''vqrshrun''), (''Vqshl'', ''vqshl''),
     (''Vqshlu'', ''vqshlu''), (''Vqshrn'', ''vqshrn''), (''Vqshrun'', ''vqshrun''),
     (''Vqsub'', ''vqsub''), (''Vraddhn'', ''vraddhn''), (''Vrecpe'', ''vrecpe''),
     (''Vrecps'', ''vrecps''), (''Vrev16'', ''vrev16''), (''Vrev32'', ''vrev32''),
     (''Vrev64'', ''vrev64''), (''Vrhadd'', ''vrhadd''), (''Vrint'', ''vrint''),
     (''Vrshl'', ''vrshl''), (''Vrshr'', ''vrshr''), (''Vrshrn'', ''vrshrn''),
     (''Vrsqrte'', ''vrsqrte''), (''Vrsqrts'', ''vrsqrts''), (''Vrsra'', ''vrsra''),
     (''Vrsubhn'', ''vrsubhn''), (''Vscclrm'', ''vscclrm''), (''Vsel'', ''vsel''),
     (''Vshl'', ''vshl''), (''Vshll'', ''vshll''), (''Vshr'', ''vshr''),
     (''Vshrn'', ''vshrn''), (''Vsli'', ''vsli''), (''VsmmlaS8'', ''vsmmla.s8''),
     (''Vsqrt'', ''vsqrt''), (''Vsra'', ''vsra''), (''Vsri'', ''vsri''),
     (''Vstmdb'', ''vstmdb''), (''Vstmia'', ''vstmia''), (''Vstr'', ''vstr''),
     (''Vsub'', ''vsub''), (''Vsubhn'', ''vsubhn''), (''Vsubl'', ''vsubl''),
     (''Vsubw'', ''vsubw''), (''VsudotU8'', ''vsudot.u8''), (''Vswp'', ''vswp''),
     (''Vtbl'', ''vtbl''), (''Vtbx'', ''vtbx''), (''Vtrn'', ''vtrn''), (''Vtst'', ''vtst''),
     (''VummlaU8'', ''vummla.u8''), (''VusdotS8'', ''vusdot.s8''),
     (''VusmmlaS8'', ''vusmmla.s8''), (''Vuzp'', ''vuzp''), (''Vzip'', ''vzip''),
     (''Wabs'', ''wabs''), (''Wabsdiff'', ''wabsdiff''), (''Wacc'', ''wacc''),
     (''Wadd'', ''wadd''), (''Waddbhus'', ''waddbhus''), (''Waddsubhx'', ''waddsubhx''),
     (''Waligni'', ''waligni''), (''Walignr'', ''walignr''), (''Wand'', ''wand''),
     (''Wavg2'', ''wavg2''), (''Wavg4'', ''wavg4''), (''Wcmpeq'', ''wcmpeq''),
     (''Wcmpgt'', ''wcmpgt''), (''Wfc'', ''wfc''), (''Wfs'', ''wfs''), (''Wldr'', ''wldr''),
     (''Wldrd'', ''wldrd''), (''Wldrw'', ''wldrw''), (''Wmac'', ''wmac''),
     (''Wmadd'', ''wmadd''), (''Wmax'', ''wmax''), (''Wmerge'', ''wmerge''),
     (''Wmia'', ''wmia''), (''Wmiaw'', ''wmiaw''), (''Wmin'', ''wmin''), (''Wmul'', ''wmul''),
     (''Wmulwl'', ''wmulwl''), (''Wmulwsm'', ''wmulwsm''), (''Wmulwum'', ''wmulwum''),
     (''Wor'', ''wor''), (''Wpack'', ''wpack''), (''Wqmia'', ''wqmia''),
     (''Wqmulm'', ''wqmulm''), (''Wqmulwm'', ''wqmulwm''), (''Wror'', ''wror''),
     (''Wsad'', ''wsad''), (''Wshufh'', ''wshufh''), (''Wsll'', ''wsll''),
     (''Wsra'', ''wsra''), (''Wsrl'', ''wsrl''), (''Wstr'', ''wstr''), (''Wstrd'', ''wstrd''),
     (''Wstrw'', ''wstrw''), (''Wsub'', ''wsub''), (''Wsubaddhx'', ''wsubaddhx''),
     (''Wunpckeh'', ''wunpckeh''), (''Wunpckel'', ''wunpckel''), (''Wunpckih'', ''wunpckih''),
     (''Wunpckil'', ''wunpckil''), (''Wxor'', ''wxor'')]"

definition neon_mnemonics :: "neon_mnemonic list" where "neon_mnemonics = map fst neon_mnemonic_names"

definition neon_mnemonic_as_str :: "neon_mnemonic \<Rightarrow> string" where
  "neon_mnemonic_as_str m = (case map_of neon_mnemonic_names m of Some s \<Rightarrow> s | None \<Rightarrow> [])"

section \<open>Rows\<close>

record neon_opcode =
  ne_mnemonic :: neon_mnemonic
  ne_opcode :: u32
  ne_mask :: u32
  ne_isa :: isa_applicability
  ne_format :: string

definition neon_row :: "neon_mnemonic \<Rightarrow> u32 \<Rightarrow> u32 \<Rightarrow> isa_applicability \<Rightarrow> string \<Rightarrow> neon_opcode" where
  "neon_row m op msk isa fmt = \<lparr>ne_mnemonic = m, ne_opcode = op, ne_mask = msk, ne_isa = isa, ne_format = fmt\<rparr>"

definition neon_rows_1 :: "neon_opcode list" where
  "neon_rows_1 = [
    neon_row ''Vext'' 0xf2b00840 0xffb00850 IA_Neon ''vext%c.8	%12-15,22R, %16-19,7R, %0-3,5R, %{I:#%8-11d%}'',
    neon_row ''Vext'' 0xf2b00000 0xffb00810 IA_Neon ''vext%c.8	%12-15,22R, %16-19,7R, %0-3,5R, %{I:#%8-11d%}'',
    neon_row ''Vdup'' 0x0e800b10 0x0ff00f70 IA_Neon ''vdup%c.32	%16-19,7D, %12-15r'',
    neon_row ''Vdup'' 0x0e800b30 0x0ff00f70 IA_Neon ''vdup%c.16	%16-19,7D, %12-15r'',
    neon_row ''Vdup'' 0x0ea00b10 0x0ff00f70 IA_Neon ''vdup%c.32	%16-19,7Q, %12-15r'',
    neon_row ''Vdup'' 0x0ea00b30 0x0ff00f70 IA_Neon ''vdup%c.16	%16-19,7Q, %12-15r'',
    neon_row ''Vdup'' 0x0ec00b10 0x0ff00f70 IA_Neon ''vdup%c.8	%16-19,7D, %12-15r'',
    neon_row ''Vdup'' 0x0ee00b10 0x0ff00f70 IA_Neon ''vdup%c.8	%16-19,7Q, %12-15r'',
    neon_row ''Vdup'' 0xf3b40c00 0xffb70f90 IA_Neon ''vdup%c.32	%12-15,22R, %{R:%0-3,5D[%19d]%}'',
    neon_row ''Vdup'' 0xf3b20c00 0xffb30f90 IA_Neon ''vdup%c.16	%12-15,22R, %{R:%0-3,5D[%18-19d]%}'',
    neon_row ''Vdup'' 0xf3b10c00 0xffb10f90 IA_Neon ''vdup%c.8	%12-15,22R, %{R:%0-3,5D[%17-19d]%}'',
    neon_row ''Vtbl'' 0xf3b00800 0xffb00c50 IA_Neon ''vtbl%c.8	%12-15,22D, %F, %0-3,5D'',
    neon_row ''Vtbx'' 0xf3b00840 0xffb00c50 IA_Neon ''vtbx%c.8	%12-15,22D, %F, %0-3,5D'',
    neon_row ''Vcvt'' 0xf3b60600 0xffbf0fd0 IA_Neon ''vcvt%c.f16.f32	%12-15,22D, %0-3,5Q'',
    neon_row ''Vcvt'' 0xf3b60700 0xffbf0fd0 IA_Neon ''vcvt%c.f32.f16	%12-15,22Q, %0-3,5D'',
    neon_row ''Vfma'' 0xf2000c10 0xffb00f10 IA_Neon ''vfma%c.f32	%12-15,22R, %16-19,7R, %0-3,5R'',
    neon_row ''Vfma'' 0xf2100c10 0xffb00f10 IA_Neon ''vfma%c.f16	%12-15,22R, %16-19,7R, %0-3,5R'',
    neon_row ''Vfms'' 0xf2200c10 0xffb00f10 IA_Neon ''vfms%c.f32	%12-15,22R, %16-19,7R, %0-3,5R'',
    neon_row ''Vfms'' 0xf2300c10 0xffb00f10 IA_Neon ''vfms%c.f16	%12-15,22R, %16-19,7R, %0-3,5R'',
    neon_row ''VdotBf16'' 0xfc000d00 0xffb00f10 IA_Neon ''vdot.bf16	%12-15,22R, %16-19,7R, %0-3,5R'',
    neon_row ''VdotBf16'' 0xfe000d00 0xffb00f10 IA_Neon ''vdot.bf16	%12-15,22R, %16-19,7R, %{R:d%0-3d[%5d]%}'',
    neon_row ''VmmlaBf16'' 0xfc000c40 0xffb00f50 IA_Neon ''vmmla.bf16	%12-15,22R, %16-19,7R, %0-3,5R'',
    neon_row ''Vcvt'' 0xf3b60640 0xffbf0fd0 IA_Neon ''vcvt%c.bf16.f32	%12-15,22D, %0-3,5Q'',
    neon_row ''Vfma'' 0xfc300810 0xffb00f10 IA_Neon ''vfma%6?tb.bf16	%12-15,22Q, %16-19,7Q, %0-3,5Q'',
    neon_row ''Vfma'' 0xfe300810 0xffb00f10 IA_Neon ''vfma%6?tb.bf16	%12-15,22Q, %16-19,7Q, %{R:%0-2D[%3,5d]%}'',
    neon_row ''VsmmlaS8'' 0xfc200c40 0xffb00f50 IA_Neon ''vsmmla.s8	%12-15,22R, %16-19,7R, %0-3,5R'',
    neon_row ''VummlaU8'' 0xfc200c50 0xffb00f50 IA_Neon ''vummla.u8	%12-15,22R, %16-19,7R, %0-3,5R'',
    neon_row ''VusmmlaS8'' 0xfca00c40 0xffb00f50 IA_Neon ''vusmmla.s8	%12-15,22R, %16-19,7R, %0-3,5R'',
    neon_row ''VusdotS8'' 0xfca00d00 0xffb00f10 IA_Neon ''vusdot.s8	%12-15,22R, %16-19,7R, %0-3,5R'',
    neon_row ''VusdotS8'' 0xfe800d00 0xffb00f10 IA_Neon ''vusdot.s8	%12-15,22R, %16-19,7R, %{R:d%0-3d[%5d]%}'',
    neon_row ''VsudotU8'' 0xfe800d10 0xffb00f10 IA_Neon ''vsudot.u8	%12-15,22R, %16-19,7R, %{R:d%0-3d[%5d]%}'',
    neon_row ''Vrint'' 0xf3ba0400 0xffbf0c10 IA_Neon ''vrint%7-9?p?m?zaxn%u.f32	%12-15,22R, %0-3,5R'',
    neon_row ''Vrint'' 0xf3b60400 0xffbf0c10 IA_Neon ''vrint%7-9?p?m?zaxn%u.f16	%12-15,22R, %0-3,5R'',
    neon_row ''Vcvt'' 0xf3bb0000 0xffbf0c10 IA_Neon ''vcvt%8-9?mpna%u.%7?us32.f32	%12-15,22R, %0-3,5R'',
    neon_row ''Vcvt'' 0xf3b70000 0xffbf0c10 IA_Neon ''vcvt%8-9?mpna%u.%7?us16.f16	%12-15,22R, %0-3,5R'',
    neon_row ''Aese'' 0xf3b00300 0xffbf0fd0 IA_Neon ''aese%u.8	%12-15,22Q, %0-3,5Q'',
    neon_row ''Aesd'' 0xf3b00340 0xffbf0fd0 IA_Neon ''aesd%u.8	%12-15,22Q, %0-3,5Q'',
    neon_row ''Aesmc'' 0xf3b00380 0xffbf0fd0 IA_Neon ''aesmc%u.8	%12-15,22Q, %0-3,5Q'',
    neon_row ''Aesimc'' 0xf3b003c0 0xffbf0fd0 IA_Neon ''aesimc%u.8	%12-15,22Q, %0-3,5Q'',
    neon_row ''Sha1h'' 0xf3b902c0 0xffbf0fd0 IA_Neon ''sha1h%u.32	%12-15,22Q, %0-3,5Q'',
    neon_row ''Sha1su1'' 0xf3ba0380 0xffbf0fd0 IA_Neon ''sha1su1%u.32	%12-15,22Q, %0-3,5Q'',
    neon_row ''Sha256su0'' 0xf3ba03c0 0xffbf0fd0 IA_Neon ''sha256su0%u.32	%12-15,22Q, %0-3,5Q'',
    neon_row ''Vmovl'' 0xf2880a10 0xfebf0fd0 IA_Neon ''vmovl%c.%24?us8	%12-15,22Q, %0-3,5D'',
    neon_row ''Vmovl'' 0xf2900a10 0xfebf0fd0 IA_Neon ''vmovl%c.%24?us16	%12-15,22Q, %0-3,5D'',
    neon_row ''Vmovl'' 0xf2a00a10 0xfebf0fd0 IA_Neon ''vmovl%c.%24?us32	%12-15,22Q, %0-3,5D'',
    neon_row ''Vcnt'' 0xf3b00500 0xffbf0f90 IA_Neon ''vcnt%c.8	%12-15,22R, %0-3,5R'',
    neon_row ''Vmvn'' 0xf3b00580 0xffbf0f90 IA_Neon ''vmvn%c	%12-15,22R, %0-3,5R'',
    neon_row ''Vswp'' 0xf3b20000 0xffbf0f90 IA_Neon ''vswp%c	%12-15,22R, %0-3,5R'',
    neon_row ''Vmovn'' 0xf3b20200 0xffb30fd0 IA_Neon ''vmovn%c.i%18-19T2	%12-15,22D, %0-3,5Q'',
    neon_row ''Vqmovun'' 0xf3b20240 0xffb30fd0 IA_Neon ''vqmovun%c.s%18-19T2	%12-15,22D, %0-3,5Q'',
    neon_row ''Vqmovn'' 0xf3b20280 0xffb30fd0 IA_Neon ''vqmovn%c.s%18-19T2	%12-15,22D, %0-3,5Q'',
    neon_row ''Vqmovn'' 0xf3b202c0 0xffb30fd0 IA_Neon ''vqmovn%c.u%18-19T2	%12-15,22D, %0-3,5Q'',
    neon_row ''Vshll'' 0xf3b20300 0xffb30fd0 IA_Neon ''vshll%c.i%18-19S2	%12-15,22Q, %0-3,5D, %{I:#%18-19S2%}'',
    neon_row ''Vrecpe'' 0xf3bb0400 0xffbf0e90 IA_Neon ''vrecpe%c.%8?fu%18-19S2	%12-15,22R, %0-3,5R'',
    neon_row ''Vrecpe'' 0xf3b70400 0xffbf0e90 IA_Neon ''vrecpe%c.%8?fu16	%12-15,22R, %0-3,5R'',
    neon_row ''Vrsqrte'' 0xf3bb0480 0xffbf0e90 IA_Neon ''vrsqrte%c.%8?fu%18-19S2	%12-15,22R, %0-3,5R'',
    neon_row ''Vrsqrte'' 0xf3b70480 0xffbf0e90 IA_Neon ''vrsqrte%c.%8?fu16	%12-15,22R, %0-3,5R'',
    neon_row ''Vrev64'' 0xf3b00000 0xffb30f90 IA_Neon ''vrev64%c.%18-19S2	%12-15,22R, %0-3,5R'',
    neon_row ''Vrev32'' 0xf3b00080 0xffb30f90 IA_Neon ''vrev32%c.%18-19S2	%12-15,22R, %0-3,5R'',
    neon_row ''Vrev16'' 0xf3b00100 0xffb30f90 IA_Neon ''vrev16%c.%18-19S2	%12-15,22R, %0-3,5R'',
    neon_row ''Vcls'' 0xf3b00400 0xffb30f90 IA_Neon ''vcls%c.s%18-19S2	%12-15,22R, %0-3,5R'',
    neon_row ''Vclz'' 0xf3b00480 0xffb30f90 IA_Neon ''vclz%c.i%18-19S2	%12-15,22R, %0-3,5R'',
    neon_row ''Vqabs'' 0xf3b00700 0xffb30f90 IA_Neon ''vqabs%c.s%18-19S2	%12-15,22R, %0-3,5R'',
    neon_row ''Vqneg'' 0xf3b00780 0xffb30f90 IA_Neon ''vqneg%c.s%18-19S2	%12-15,22R, %0-3,5R'',
    neon_row ''Vtrn'' 0xf3b20080 0xffb30f90 IA_Neon ''vtrn%c.%18-19S2	%12-15,22R, %0-3,5R'',
    neon_row ''Vuzp'' 0xf3b20100 0xffb30f90 IA_Neon ''vuzp%c.%18-19S2	%12-15,22R, %0-3,5R'',
    neon_row ''Vzip'' 0xf3b20180 0xffb30f90 IA_Neon ''vzip%c.%18-19S2	%12-15,22R, %0-3,5R'',
    neon_row ''Vcgt'' 0xf3b10000 0xffb30b90 IA_Neon ''vcgt%c.%10?fs%18-19S2	%12-15,22R, %0-3,5R, %{I:#0%}'',
    neon_row ''Vcge'' 0xf3b10080 0xffb30b90 IA_Neon ''vcge%c.%10?fs%18-19S2	%12-15,22R, %0-3,5R, %{I:#0%}'',
    neon_row ''Vceq'' 0xf3b10100 0xffb30b90 IA_Neon ''vceq%c.%10?fi%18-19S2	%12-15,22R, %0-3,5R, %{I:#0%}'',
    neon_row ''Vcle'' 0xf3b10180 0xffb30b90 IA_Neon ''vcle%c.%10?fs%18-19S2	%12-15,22R, %0-3,5R, %{I:#0%}'',
    neon_row ''Vclt'' 0xf3b10200 0xffb30b90 IA_Neon ''vclt%c.%10?fs%18-19S2	%12-15,22R, %0-3,5R, %{I:#0%}'',
    neon_row ''Vabs'' 0xf3b10300 0xffb30b90 IA_Neon ''vabs%c.%10?fs%18-19S2	%12-15,22R, %0-3,5R'',
    neon_row ''Vneg'' 0xf3b10380 0xffb30b90 IA_Neon ''vneg%c.%10?fs%18-19S2	%12-15,22R, %0-3,5R'',
    neon_row ''Vpaddl'' 0xf3b00200 0xffb30f10 IA_Neon ''vpaddl%c.%7?us%18-19S2	%12-15,22R, %0-3,5R'',
    neon_row ''Vpadal'' 0xf3b00600 0xffb30f10 IA_Neon ''vpadal%c.%7?us%18-19S2	%12-15,22R, %0-3,5R'',
    neon_row ''Vcvt'' 0xf3bb0600 0xffbf0e10 IA_Neon ''vcvt%c.%7-8?usff%18-19Sa.%7-8?ffus%18-19Sa	%12-15,22R, %0-3,5R'',
    neon_row ''Vcvt'' 0xf3b70600 0xffbf0e10 IA_Neon ''vcvt%c.%7-8?usff16.%7-8?ffus16	%12-15,22R, %0-3,5R'',
    neon_row ''Sha1c'' 0xf2000c40 0xffb00f50 IA_Neon ''sha1c%u.32	%12-15,22Q, %16-19,7Q, %0-3,5Q'',
    neon_row ''Sha1p'' 0xf2100c40 0xffb00f50 IA_Neon ''sha1p%u.32	%12-15,22Q, %16-19,7Q, %0-3,5Q'',
    neon_row ''Sha1m'' 0xf2200c40 0xffb00f50 IA_Neon ''sha1m%u.32	%12-15,22Q, %16-19,7Q, %0-3,5Q'',
    neon_row ''Sha1su0'' 0xf2300c40 0xffb00f50 IA_Neon ''sha1su0%u.32	%12-15,22Q, %16-19,7Q, %0-3,5Q'',
    neon_row ''Sha256h'' 0xf3000c40 0xffb00f50 IA_Neon ''sha256h%u.32	%12-15,22Q, %16-19,7Q, %0-3,5Q'',
    neon_row ''Sha256h2'' 0xf3100c40 0xffb00f50 IA_Neon ''sha256h2%u.32	%12-15,22Q, %16-19,7Q, %0-3,5Q'',
    neon_row ''Sha256su1'' 0xf3200c40 0xffb00f50 IA_Neon ''sha256su1%u.32	%12-15,22Q, %16-19,7Q, %0-3,5Q'',
    neon_row ''Vmaxnm'' 0xf3000f10 0xffb00f10 IA_Neon ''vmaxnm%u.f32	%12-15,22R, %16-19,7R, %0-3,5R'',
    neon_row ''Vmaxnm'' 0xf3100f10 0xffb00f10 IA_Neon ''vmaxnm%u.f16	%12-15,22R, %16-19,7R, %0-3,5R'',
    neon_row ''Vminnm'' 0xf3200f10 0xffb00f10 IA_Neon ''vminnm%u.f32	%12-15,22R, %16-19,7R, %0-3,5R'',
    neon_row ''Vminnm'' 0xf3300f10 0xffb00f10 IA_Neon ''vminnm%u.f16	%12-15,22R, %16-19,7R, %0-3,5R'',
    neon_row ''Vand'' 0xf2000110 0xffb00f10 IA_Neon ''vand%c	%12-15,22R, %16-19,7R, %0-3,5R'',
    neon_row ''Vbic'' 0xf2100110 0xffb00f10 IA_Neon ''vbic%c	%12-15,22R, %16-19,7R, %0-3,5R'',
    neon_row ''Vorr'' 0xf2200110 0xffb00f10 IA_Neon ''vorr%c	%12-15,22R, %16-19,7R, %0-3,5R'',
    neon_row ''Vorn'' 0xf2300110 0xffb00f10 IA_Neon ''vorn%c	%12-15,22R, %16-19,7R, %0-3,5R'',
    neon_row ''Veor'' 0xf3000110 0xffb00f10 IA_Neon ''veor%c	%12-15,22R, %16-19,7R, %0-3,5R'',
    neon_row ''Vbsl'' 0xf3100110 0xffb00f10 IA_Neon ''vbsl%c	%12-15,22R, %16-19,7R, %0-3,5R'',
    neon_row ''Vbit'' 0xf3200110 0xffb00f10 IA_Neon ''vbit%c	%12-15,22R, %16-19,7R, %0-3,5R'',
    neon_row ''Vbif'' 0xf3300110 0xffb00f10 IA_Neon ''vbif%c	%12-15,22R, %16-19,7R, %0-3,5R'',
    neon_row ''Vadd'' 0xf2000d00 0xffb00f10 IA_Neon ''vadd%c.f32	%12-15,22R, %16-19,7R, %0-3,5R'',
    neon_row ''Vadd'' 0xf2100d00 0xffb00f10 IA_Neon ''vadd%c.f16	%12-15,22R, %16-19,7R, %0-3,5R'',
    neon_row ''Vmla'' 0xf2000d10 0xffb00f10 IA_Neon ''vmla%c.f32	%12-15,22R, %16-19,7R, %0-3,5R'',
    neon_row ''Vmla'' 0xf2100d10 0xffb00f10 IA_Neon ''vmla%c.f16	%12-15,22R, %16-19,7R, %0-3,5R'',
    neon_row ''Vceq'' 0xf2000e00 0xffb00f10 IA_Neon ''vceq%c.f32	%12-15,22R, %16-19,7R, %0-3,5R'',
    neon_row ''Vceq'' 0xf2100e00 0xffb00f10 IA_Neon ''vceq%c.f16	%12-15,22R, %16-19,7R, %0-3,5R'',
    neon_row ''Vmax'' 0xf2000f00 0xffb00f10 IA_Neon ''vmax%c.f32	%12-15,22R, %16-19,7R, %0-3,5R'',
    neon_row ''Vmax'' 0xf2100f00 0xffb00f10 IA_Neon ''vmax%c.f16	%12-15,22R, %16-19,7R, %0-3,5R'',
    neon_row ''Vrecps'' 0xf2000f10 0xffb00f10 IA_Neon ''vrecps%c.f32	%12-15,22R, %16-19,7R, %0-3,5R'',
    neon_row ''Vrecps'' 0xf2100f10 0xffb00f10 IA_Neon ''vrecps%c.f16	%12-15,22R, %16-19,7R, %0-3,5R'',
    neon_row ''Vsub'' 0xf2200d00 0xffb00f10 IA_Neon ''vsub%c.f32	%12-15,22R, %16-19,7R, %0-3,5R'',
    neon_row ''Vsub'' 0xf2300d00 0xffb00f10 IA_Neon ''vsub%c.f16	%12-15,22R, %16-19,7R, %0-3,5R'',
    neon_row ''Vmls'' 0xf2200d10 0xffb00f10 IA_Neon ''vmls%c.f32	%12-15,22R, %16-19,7R, %0-3,5R'']"

definition neon_rows_2 :: "neon_opcode list" where
  "neon_rows_2 = [
    neon_row ''Vmls'' 0xf2300d10 0xffb00f10 IA_Neon ''vmls%c.f16	%12-15,22R, %16-19,7R, %0-3,5R'',
    neon_row ''Vmin'' 0xf2200f00 0xffb00f10 IA_Neon ''vmin%c.f32	%12-15,22R, %16-19,7R, %0-3,5R'',
    neon_row ''Vmin'' 0xf2300f00 0xffb00f10 IA_Neon ''vmin%c.f16	%12-15,22R, %16-19,7R, %0-3,5R'',
    neon_row ''Vrsqrts'' 0xf2200f10 0xffb00f10 IA_Neon ''vrsqrts%c.f32	%12-15,22R, %16-19,7R, %0-3,5R'',
    neon_row ''Vrsqrts'' 0xf2300f10 0xffb00f10 IA_Neon ''vrsqrts%c.f16	%12-15,22R, %16-19,7R, %0-3,5R'',
    neon_row ''Vpadd'' 0xf3000d00 0xffb00f10 IA_Neon ''vpadd%c.f32	%12-15,22R, %16-19,7R, %0-3,5R'',
    neon_row ''Vpadd'' 0xf3100d00 0xffb00f10 IA_Neon ''vpadd%c.f16	%12-15,22R, %16-19,7R, %0-3,5R'',
    neon_row ''Vmul'' 0xf3000d10 0xffb00f10 IA_Neon ''vmul%c.f32	%12-15,22R, %16-19,7R, %0-3,5R'',
    neon_row ''Vmul'' 0xf3100d10 0xffb00f10 IA_Neon ''vmul%c.f16	%12-15,22R, %16-19,7R, %0-3,5R'',
    neon_row ''Vcge'' 0xf3000e00 0xffb00f10 IA_Neon ''vcge%c.f32	%12-15,22R, %16-19,7R, %0-3,5R'',
    neon_row ''Vcge'' 0xf3100e00 0xffb00f10 IA_Neon ''vcge%c.f16	%12-15,22R, %16-19,7R, %0-3,5R'',
    neon_row ''Vacge'' 0xf3000e10 0xffb00f10 IA_Neon ''vacge%c.f32	%12-15,22R, %16-19,7R, %0-3,5R'',
    neon_row ''Vacge'' 0xf3100e10 0xffb00f10 IA_Neon ''vacge%c.f16	%12-15,22R, %16-19,7R, %0-3,5R'',
    neon_row ''Vpmax'' 0xf3000f00 0xffb00f10 IA_Neon ''vpmax%c.f32	%12-15,22R, %16-19,7R, %0-3,5R'',
    neon_row ''Vpmax'' 0xf3100f00 0xffb00f10 IA_Neon ''vpmax%c.f16	%12-15,22R, %16-19,7R, %0-3,5R'',
    neon_row ''Vabd'' 0xf3200d00 0xffb00f10 IA_Neon ''vabd%c.f32	%12-15,22R, %16-19,7R, %0-3,5R'',
    neon_row ''Vabd'' 0xf3300d00 0xffb00f10 IA_Neon ''vabd%c.f16	%12-15,22R, %16-19,7R, %0-3,5R'',
    neon_row ''Vcgt'' 0xf3200e00 0xffb00f10 IA_Neon ''vcgt%c.f32	%12-15,22R, %16-19,7R, %0-3,5R'',
    neon_row ''Vcgt'' 0xf3300e00 0xffb00f10 IA_Neon ''vcgt%c.f16	%12-15,22R, %16-19,7R, %0-3,5R'',
    neon_row ''Vacgt'' 0xf3200e10 0xffb00f10 IA_Neon ''vacgt%c.f32	%12-15,22R, %16-19,7R, %0-3,5R'',
    neon_row ''Vacgt'' 0xf3300e10 0xffb00f10 IA_Neon ''vacgt%c.f16	%12-15,22R, %16-19,7R, %0-3,5R'',
    neon_row ''Vpmin'' 0xf3200f00 0xffb00f10 IA_Neon ''vpmin%c.f32	%12-15,22R, %16-19,7R, %0-3,5R'',
    neon_row ''Vpmin'' 0xf3300f00 0xffb00f10 IA_Neon ''vpmin%c.f16	%12-15,22R, %16-19,7R, %0-3,5R'',
    neon_row ''Vadd'' 0xf2000800 0xff800f10 IA_Neon ''vadd%c.i%20-21S3	%12-15,22R, %16-19,7R, %0-3,5R'',
    neon_row ''Vtst'' 0xf2000810 0xff800f10 IA_Neon ''vtst%c.%20-21S2	%12-15,22R, %16-19,7R, %0-3,5R'',
    neon_row ''Vmla'' 0xf2000900 0xff800f10 IA_Neon ''vmla%c.i%20-21S2	%12-15,22R, %16-19,7R, %0-3,5R'',
    neon_row ''Vqdmulh'' 0xf2000b00 0xff800f10 IA_Neon ''vqdmulh%c.s%20-21S6	%12-15,22R, %16-19,7R, %0-3,5R'',
    neon_row ''Vpadd'' 0xf2000b10 0xff800f10 IA_Neon ''vpadd%c.i%20-21S2	%12-15,22R, %16-19,7R, %0-3,5R'',
    neon_row ''Vsub'' 0xf3000800 0xff800f10 IA_Neon ''vsub%c.i%20-21S3	%12-15,22R, %16-19,7R, %0-3,5R'',
    neon_row ''Vceq'' 0xf3000810 0xff800f10 IA_Neon ''vceq%c.i%20-21S2	%12-15,22R, %16-19,7R, %0-3,5R'',
    neon_row ''Vmls'' 0xf3000900 0xff800f10 IA_Neon ''vmls%c.i%20-21S2	%12-15,22R, %16-19,7R, %0-3,5R'',
    neon_row ''Vqrdmulh'' 0xf3000b00 0xff800f10 IA_Neon ''vqrdmulh%c.s%20-21S6	%12-15,22R, %16-19,7R, %0-3,5R'',
    neon_row ''Vhadd'' 0xf2000000 0xfe800f10 IA_Neon ''vhadd%c.%24?us%20-21S2	%12-15,22R, %16-19,7R, %0-3,5R'',
    neon_row ''Vqadd'' 0xf2000010 0xfe800f10 IA_Neon ''vqadd%c.%24?us%20-21S3	%12-15,22R, %16-19,7R, %0-3,5R'',
    neon_row ''Vrhadd'' 0xf2000100 0xfe800f10 IA_Neon ''vrhadd%c.%24?us%20-21S2	%12-15,22R, %16-19,7R, %0-3,5R'',
    neon_row ''Vhsub'' 0xf2000200 0xfe800f10 IA_Neon ''vhsub%c.%24?us%20-21S2	%12-15,22R, %16-19,7R, %0-3,5R'',
    neon_row ''Vqsub'' 0xf2000210 0xfe800f10 IA_Neon ''vqsub%c.%24?us%20-21S3	%12-15,22R, %16-19,7R, %0-3,5R'',
    neon_row ''Vcgt'' 0xf2000300 0xfe800f10 IA_Neon ''vcgt%c.%24?us%20-21S2	%12-15,22R, %16-19,7R, %0-3,5R'',
    neon_row ''Vcge'' 0xf2000310 0xfe800f10 IA_Neon ''vcge%c.%24?us%20-21S2	%12-15,22R, %16-19,7R, %0-3,5R'',
    neon_row ''Vshl'' 0xf2000400 0xfe800f10 IA_Neon ''vshl%c.%24?us%20-21S3	%12-15,22R, %0-3,5R, %16-19,7R'',
    neon_row ''Vqshl'' 0xf2000410 0xfe800f10 IA_Neon ''vqshl%c.%24?us%20-21S3	%12-15,22R, %0-3,5R, %16-19,7R'',
    neon_row ''Vrshl'' 0xf2000500 0xfe800f10 IA_Neon ''vrshl%c.%24?us%20-21S3	%12-15,22R, %0-3,5R, %16-19,7R'',
    neon_row ''Vqrshl'' 0xf2000510 0xfe800f10 IA_Neon ''vqrshl%c.%24?us%20-21S3	%12-15,22R, %0-3,5R, %16-19,7R'',
    neon_row ''Vmax'' 0xf2000600 0xfe800f10 IA_Neon ''vmax%c.%24?us%20-21S2	%12-15,22R, %16-19,7R, %0-3,5R'',
    neon_row ''Vmin'' 0xf2000610 0xfe800f10 IA_Neon ''vmin%c.%24?us%20-21S2	%12-15,22R, %16-19,7R, %0-3,5R'',
    neon_row ''Vabd'' 0xf2000700 0xfe800f10 IA_Neon ''vabd%c.%24?us%20-21S2	%12-15,22R, %16-19,7R, %0-3,5R'',
    neon_row ''Vaba'' 0xf2000710 0xfe800f10 IA_Neon ''vaba%c.%24?us%20-21S2	%12-15,22R, %16-19,7R, %0-3,5R'',
    neon_row ''Vmul'' 0xf2000910 0xfe800f10 IA_Neon ''vmul%c.%24?pi%20-21S2	%12-15,22R, %16-19,7R, %0-3,5R'',
    neon_row ''Vpmax'' 0xf2000a00 0xfe800f10 IA_Neon ''vpmax%c.%24?us%20-21S2	%12-15,22R, %16-19,7R, %0-3,5R'',
    neon_row ''Vpmin'' 0xf2000a10 0xfe800f10 IA_Neon ''vpmin%c.%24?us%20-21S2	%12-15,22R, %16-19,7R, %0-3,5R'',
    neon_row ''Vqrdmlah'' 0xf3000b10 0xff800f10 IA_Neon ''vqrdmlah%c.s%20-21S6	%12-15,22R, %16-19,7R, %0-3,5R'',
    neon_row ''Vqrdmlsh'' 0xf3000c10 0xff800f10 IA_Neon ''vqrdmlsh%c.s%20-21S6	%12-15,22R, %16-19,7R, %0-3,5R'',
    neon_row ''Vmov'' 0xf2800e10 0xfeb80fb0 IA_Neon ''vmov%c.i8	%12-15,22R, %E'',
    neon_row ''Vmov'' 0xf2800e30 0xfeb80fb0 IA_Neon ''vmov%c.i64	%12-15,22R, %E'',
    neon_row ''Vmov'' 0xf2800f10 0xfeb80fb0 IA_Neon ''vmov%c.f32	%12-15,22R, %E'',
    neon_row ''Vmov'' 0xf2800810 0xfeb80db0 IA_Neon ''vmov%c.i16	%12-15,22R, %E'',
    neon_row ''Vmvn'' 0xf2800830 0xfeb80db0 IA_Neon ''vmvn%c.i16	%12-15,22R, %E'',
    neon_row ''Vorr'' 0xf2800910 0xfeb80db0 IA_Neon ''vorr%c.i16	%12-15,22R, %E'',
    neon_row ''Vbic'' 0xf2800930 0xfeb80db0 IA_Neon ''vbic%c.i16	%12-15,22R, %E'',
    neon_row ''Vmov'' 0xf2800c10 0xfeb80eb0 IA_Neon ''vmov%c.i32	%12-15,22R, %E'',
    neon_row ''Vmvn'' 0xf2800c30 0xfeb80eb0 IA_Neon ''vmvn%c.i32	%12-15,22R, %E'',
    neon_row ''Vorr'' 0xf2800110 0xfeb809b0 IA_Neon ''vorr%c.i32	%12-15,22R, %E'',
    neon_row ''Vbic'' 0xf2800130 0xfeb809b0 IA_Neon ''vbic%c.i32	%12-15,22R, %E'',
    neon_row ''Vmov'' 0xf2800010 0xfeb808b0 IA_Neon ''vmov%c.i32	%12-15,22R, %E'',
    neon_row ''Vmvn'' 0xf2800030 0xfeb808b0 IA_Neon ''vmvn%c.i32	%12-15,22R, %E'',
    neon_row ''Vshrn'' 0xf2880810 0xffb80fd0 IA_Neon ''vshrn%c.i16	%12-15,22D, %0-3,5Q, %{I:#%16-18e%}'',
    neon_row ''Vrshrn'' 0xf2880850 0xffb80fd0 IA_Neon ''vrshrn%c.i16	%12-15,22D, %0-3,5Q, %{I:#%16-18e%}'',
    neon_row ''Vqshrun'' 0xf2880810 0xfeb80fd0 IA_Neon ''vqshrun%c.s16	%12-15,22D, %0-3,5Q, %{I:#%16-18e%}'',
    neon_row ''Vqrshrun'' 0xf2880850 0xfeb80fd0 IA_Neon ''vqrshrun%c.s16	%12-15,22D, %0-3,5Q, %{I:#%16-18e%}'',
    neon_row ''Vqshrn'' 0xf2880910 0xfeb80fd0 IA_Neon ''vqshrn%c.%24?us16	%12-15,22D, %0-3,5Q, %{I:#%16-18e%}'',
    neon_row ''Vqrshrn'' 0xf2880950 0xfeb80fd0 IA_Neon ''vqrshrn%c.%24?us16	%12-15,22D, %0-3,5Q, %{I:#%16-18e%}'',
    neon_row ''Vshll'' 0xf2880a10 0xfeb80fd0 IA_Neon ''vshll%c.%24?us8	%12-15,22Q, %0-3,5D, %{I:#%16-18d%}'',
    neon_row ''Vshrn'' 0xf2900810 0xffb00fd0 IA_Neon ''vshrn%c.i32	%12-15,22D, %0-3,5Q, %{I:#%16-19e%}'',
    neon_row ''Vrshrn'' 0xf2900850 0xffb00fd0 IA_Neon ''vrshrn%c.i32	%12-15,22D, %0-3,5Q, %{I:#%16-19e%}'',
    neon_row ''Vshl'' 0xf2880510 0xffb80f90 IA_Neon ''vshl%c.%24?us8	%12-15,22R, %0-3,5R, %{I:#%16-18d%}'',
    neon_row ''Vsri'' 0xf3880410 0xffb80f90 IA_Neon ''vsri%c.8	%12-15,22R, %0-3,5R, %{I:#%16-18e%}'',
    neon_row ''Vsli'' 0xf3880510 0xffb80f90 IA_Neon ''vsli%c.8	%12-15,22R, %0-3,5R, %{I:#%16-18d%}'',
    neon_row ''Vqshlu'' 0xf3880610 0xffb80f90 IA_Neon ''vqshlu%c.s8	%12-15,22R, %0-3,5R, %{I:#%16-18d%}'',
    neon_row ''Vqshrun'' 0xf2900810 0xfeb00fd0 IA_Neon ''vqshrun%c.s32	%12-15,22D, %0-3,5Q, %{I:#%16-19e%}'',
    neon_row ''Vqrshrun'' 0xf2900850 0xfeb00fd0 IA_Neon ''vqrshrun%c.s32	%12-15,22D, %0-3,5Q, %{I:#%16-19e%}'',
    neon_row ''Vqshrn'' 0xf2900910 0xfeb00fd0 IA_Neon ''vqshrn%c.%24?us32	%12-15,22D, %0-3,5Q, %{I:#%16-19e%}'',
    neon_row ''Vqrshrn'' 0xf2900950 0xfeb00fd0 IA_Neon ''vqrshrn%c.%24?us32	%12-15,22D, %0-3,5Q, %{I:#%16-19e%}'',
    neon_row ''Vshll'' 0xf2900a10 0xfeb00fd0 IA_Neon ''vshll%c.%24?us16	%12-15,22Q, %0-3,5D, %{I:#%16-19d%}'',
    neon_row ''Vshr'' 0xf2880010 0xfeb80f90 IA_Neon ''vshr%c.%24?us8	%12-15,22R, %0-3,5R, %{I:#%16-18e%}'',
    neon_row ''Vsra'' 0xf2880110 0xfeb80f90 IA_Neon ''vsra%c.%24?us8	%12-15,22R, %0-3,5R, %{I:#%16-18e%}'',
    neon_row ''Vrshr'' 0xf2880210 0xfeb80f90 IA_Neon ''vrshr%c.%24?us8	%12-15,22R, %0-3,5R, %{I:#%16-18e%}'',
    neon_row ''Vrsra'' 0xf2880310 0xfeb80f90 IA_Neon ''vrsra%c.%24?us8	%12-15,22R, %0-3,5R, %{I:#%16-18e%}'',
    neon_row ''Vqshl'' 0xf2880710 0xfeb80f90 IA_Neon ''vqshl%c.%24?us8	%12-15,22R, %0-3,5R, %{I:#%16-18d%}'',
    neon_row ''Vshrn'' 0xf2a00810 0xffa00fd0 IA_Neon ''vshrn%c.i64	%12-15,22D, %0-3,5Q, %{I:#%16-20e%}'',
    neon_row ''Vrshrn'' 0xf2a00850 0xffa00fd0 IA_Neon ''vrshrn%c.i64	%12-15,22D, %0-3,5Q, %{I:#%16-20e%}'',
    neon_row ''Vshl'' 0xf2900510 0xffb00f90 IA_Neon ''vshl%c.%24?us16	%12-15,22R, %0-3,5R, %{I:#%16-19d%}'',
    neon_row ''Vsri'' 0xf3900410 0xffb00f90 IA_Neon ''vsri%c.16	%12-15,22R, %0-3,5R, %{I:#%16-19e%}'',
    neon_row ''Vsli'' 0xf3900510 0xffb00f90 IA_Neon ''vsli%c.16	%12-15,22R, %0-3,5R, %{I:#%16-19d%}'',
    neon_row ''Vqshlu'' 0xf3900610 0xffb00f90 IA_Neon ''vqshlu%c.s16	%12-15,22R, %0-3,5R, %{I:#%16-19d%}'',
    neon_row ''Vshll'' 0xf2a00a10 0xfea00fd0 IA_Neon ''vshll%c.%24?us32	%12-15,22Q, %0-3,5D, %{I:#%16-20d%}'',
    neon_row ''Vshr'' 0xf2900010 0xfeb00f90 IA_Neon ''vshr%c.%24?us16	%12-15,22R, %0-3,5R, %{I:#%16-19e%}'',
    neon_row ''Vsra'' 0xf2900110 0xfeb00f90 IA_Neon ''vsra%c.%24?us16	%12-15,22R, %0-3,5R, %{I:#%16-19e%}'',
    neon_row ''Vrshr'' 0xf2900210 0xfeb00f90 IA_Neon ''vrshr%c.%24?us16	%12-15,22R, %0-3,5R, %{I:#%16-19e%}'',
    neon_row ''Vrsra'' 0xf2900310 0xfeb00f90 IA_Neon ''vrsra%c.%24?us16	%12-15,22R, %0-3,5R, %{I:#%16-19e%}'',
    neon_row ''Vqshl'' 0xf2900710 0xfeb00f90 IA_Neon ''vqshl%c.%24?us16	%12-15,22R, %0-3,5R, %{I:#%16-19d%}'',
    neon_row ''Vqshrun'' 0xf2a00810 0xfea00fd0 IA_Neon ''vqshrun%c.s64	%12-15,22D, %0-3,5Q, %{I:#%16-20e%}'',
    neon_row ''Vqrshrun'' 0xf2a00850 0xfea00fd0 IA_Neon ''vqrshrun%c.s64	%12-15,22D, %0-3,5Q, %{I:#%16-20e%}'',
    neon_row ''Vqshrn'' 0xf2a00910 0xfea00fd0 IA_Neon ''vqshrn%c.%24?us64	%12-15,22D, %0-3,5Q, %{I:#%16-20e%}'',
    neon_row ''Vqrshrn'' 0xf2a00950 0xfea00fd0 IA_Neon ''vqrshrn%c.%24?us64	%12-15,22D, %0-3,5Q, %{I:#%16-20e%}'',
    neon_row ''Vshl'' 0xf2a00510 0xffa00f90 IA_Neon ''vshl%c.%24?us32	%12-15,22R, %0-3,5R, %{I:#%16-20d%}'',
    neon_row ''Vsri'' 0xf3a00410 0xffa00f90 IA_Neon ''vsri%c.32	%12-15,22R, %0-3,5R, %{I:#%16-20e%}'',
    neon_row ''Vsli'' 0xf3a00510 0xffa00f90 IA_Neon ''vsli%c.32	%12-15,22R, %0-3,5R, %{I:#%16-20d%}'',
    neon_row ''Vqshlu'' 0xf3a00610 0xffa00f90 IA_Neon ''vqshlu%c.s32	%12-15,22R, %0-3,5R, %{I:#%16-20d%}'',
    neon_row ''Vshr'' 0xf2a00010 0xfea00f90 IA_Neon ''vshr%c.%24?us32	%12-15,22R, %0-3,5R, %{I:#%16-20e%}'',
    neon_row ''Vsra'' 0xf2a00110 0xfea00f90 IA_Neon ''vsra%c.%24?us32	%12-15,22R, %0-3,5R, %{I:#%16-20e%}'']"

definition neon_rows_3 :: "neon_opcode list" where
  "neon_rows_3 = [
    neon_row ''Vrshr'' 0xf2a00210 0xfea00f90 IA_Neon ''vrshr%c.%24?us32	%12-15,22R, %0-3,5R, %{I:#%16-20e%}'',
    neon_row ''Vrsra'' 0xf2a00310 0xfea00f90 IA_Neon ''vrsra%c.%24?us32	%12-15,22R, %0-3,5R, %{I:#%16-20e%}'',
    neon_row ''Vqshl'' 0xf2a00710 0xfea00f90 IA_Neon ''vqshl%c.%24?us32	%12-15,22R, %0-3,5R, %{I:#%16-20d%}'',
    neon_row ''Vshl'' 0xf2800590 0xff800f90 IA_Neon ''vshl%c.%24?us64	%12-15,22R, %0-3,5R, %{I:#%16-21d%}'',
    neon_row ''Vsri'' 0xf3800490 0xff800f90 IA_Neon ''vsri%c.64	%12-15,22R, %0-3,5R, %{I:#%16-21e%}'',
    neon_row ''Vsli'' 0xf3800590 0xff800f90 IA_Neon ''vsli%c.64	%12-15,22R, %0-3,5R, %{I:#%16-21d%}'',
    neon_row ''Vqshlu'' 0xf3800690 0xff800f90 IA_Neon ''vqshlu%c.s64	%12-15,22R, %0-3,5R, %{I:#%16-21d%}'',
    neon_row ''Vshr'' 0xf2800090 0xfe800f90 IA_Neon ''vshr%c.%24?us64	%12-15,22R, %0-3,5R, %{I:#%16-21e%}'',
    neon_row ''Vsra'' 0xf2800190 0xfe800f90 IA_Neon ''vsra%c.%24?us64	%12-15,22R, %0-3,5R, %{I:#%16-21e%}'',
    neon_row ''Vrshr'' 0xf2800290 0xfe800f90 IA_Neon ''vrshr%c.%24?us64	%12-15,22R, %0-3,5R, %{I:#%16-21e%}'',
    neon_row ''Vrsra'' 0xf2800390 0xfe800f90 IA_Neon ''vrsra%c.%24?us64	%12-15,22R, %0-3,5R, %{I:#%16-21e%}'',
    neon_row ''Vqshl'' 0xf2800790 0xfe800f90 IA_Neon ''vqshl%c.%24?us64	%12-15,22R, %0-3,5R, %{I:#%16-21d%}'',
    neon_row ''Vcvt'' 0xf2a00e10 0xfea00e90 IA_Neon ''vcvt%c.%24,8?usff32.%24,8?ffus32	%12-15,22R, %0-3,5R, %{I:#%16-20e%}'',
    neon_row ''Vcvt'' 0xf2a00c10 0xfea00e90 IA_Neon ''vcvt%c.%24,8?usff16.%24,8?ffus16	%12-15,22R, %0-3,5R, %{I:#%16-20e%}'',
    neon_row ''Vmull'' 0xf2a00e00 0xfeb00f50 IA_Neon ''vmull%c.p64	%12-15,22Q, %16-19,7D, %0-3,5D'',
    neon_row ''Vmull'' 0xf2800e00 0xfea00f50 IA_Neon ''vmull%c.p%20S0	%12-15,22Q, %16-19,7D, %0-3,5D'',
    neon_row ''Vaddhn'' 0xf2800400 0xff800f50 IA_Neon ''vaddhn%c.i%20-21T2	%12-15,22D, %16-19,7Q, %0-3,5Q'',
    neon_row ''Vsubhn'' 0xf2800600 0xff800f50 IA_Neon ''vsubhn%c.i%20-21T2	%12-15,22D, %16-19,7Q, %0-3,5Q'',
    neon_row ''Vqdmlal'' 0xf2800900 0xff800f50 IA_Neon ''vqdmlal%c.s%20-21S6	%12-15,22Q, %16-19,7D, %0-3,5D'',
    neon_row ''Vqdmlsl'' 0xf2800b00 0xff800f50 IA_Neon ''vqdmlsl%c.s%20-21S6	%12-15,22Q, %16-19,7D, %0-3,5D'',
    neon_row ''Vqdmull'' 0xf2800d00 0xff800f50 IA_Neon ''vqdmull%c.s%20-21S6	%12-15,22Q, %16-19,7D, %0-3,5D'',
    neon_row ''Vraddhn'' 0xf3800400 0xff800f50 IA_Neon ''vraddhn%c.i%20-21T2	%12-15,22D, %16-19,7Q, %0-3,5Q'',
    neon_row ''Vrsubhn'' 0xf3800600 0xff800f50 IA_Neon ''vrsubhn%c.i%20-21T2	%12-15,22D, %16-19,7Q, %0-3,5Q'',
    neon_row ''Vaddl'' 0xf2800000 0xfe800f50 IA_Neon ''vaddl%c.%24?us%20-21S2	%12-15,22Q, %16-19,7D, %0-3,5D'',
    neon_row ''Vaddw'' 0xf2800100 0xfe800f50 IA_Neon ''vaddw%c.%24?us%20-21S2	%12-15,22Q, %16-19,7Q, %0-3,5D'',
    neon_row ''Vsubl'' 0xf2800200 0xfe800f50 IA_Neon ''vsubl%c.%24?us%20-21S2	%12-15,22Q, %16-19,7D, %0-3,5D'',
    neon_row ''Vsubw'' 0xf2800300 0xfe800f50 IA_Neon ''vsubw%c.%24?us%20-21S2	%12-15,22Q, %16-19,7Q, %0-3,5D'',
    neon_row ''Vabal'' 0xf2800500 0xfe800f50 IA_Neon ''vabal%c.%24?us%20-21S2	%12-15,22Q, %16-19,7D, %0-3,5D'',
    neon_row ''Vabdl'' 0xf2800700 0xfe800f50 IA_Neon ''vabdl%c.%24?us%20-21S2	%12-15,22Q, %16-19,7D, %0-3,5D'',
    neon_row ''Vmlal'' 0xf2800800 0xfe800f50 IA_Neon ''vmlal%c.%24?us%20-21S2	%12-15,22Q, %16-19,7D, %0-3,5D'',
    neon_row ''Vmlsl'' 0xf2800a00 0xfe800f50 IA_Neon ''vmlsl%c.%24?us%20-21S2	%12-15,22Q, %16-19,7D, %0-3,5D'',
    neon_row ''Vmull'' 0xf2800c00 0xfe800f50 IA_Neon ''vmull%c.%24?us%20-21S2	%12-15,22Q, %16-19,7D, %0-3,5D'',
    neon_row ''Vmla'' 0xf2800040 0xff800f50 IA_Neon ''vmla%c.i%20-21S6	%12-15,22D, %16-19,7D, %D'',
    neon_row ''Vmla'' 0xf2800140 0xff900f50 IA_Neon ''vmla%c.f%20-21Sa	%12-15,22D, %16-19,7D, %D'',
    neon_row ''Vmla'' 0xf2900140 0xffb00f50 IA_Neon ''vmla%c.f16	%12-15,22D, %16-19,7D, %D'',
    neon_row ''Vqdmlal'' 0xf2800340 0xff800f50 IA_Neon ''vqdmlal%c.s%20-21S6	%12-15,22Q, %16-19,7D, %D'',
    neon_row ''Vmls'' 0xf2800440 0xff800f50 IA_Neon ''vmls%c.i%20-21S6	%12-15,22D, %16-19,7D, %D'',
    neon_row ''Vmls'' 0xf2800540 0xff900f50 IA_Neon ''vmls%c.f%20-21S6	%12-15,22D, %16-19,7D, %D'',
    neon_row ''Vmls'' 0xf2900540 0xffb00f50 IA_Neon ''vmls%c.f16	%12-15,22D, %16-19,7D, %D'',
    neon_row ''Vqdmlsl'' 0xf2800740 0xff800f50 IA_Neon ''vqdmlsl%c.s%20-21S6	%12-15,22Q, %16-19,7D, %D'',
    neon_row ''Vmul'' 0xf2800840 0xff800f50 IA_Neon ''vmul%c.i%20-21S6	%12-15,22D, %16-19,7D, %D'',
    neon_row ''Vmul'' 0xf2800940 0xff900f50 IA_Neon ''vmul%c.f%20-21Sa	%12-15,22D, %16-19,7D, %D'',
    neon_row ''Vmul'' 0xf2900940 0xffb00f50 IA_Neon ''vmul%c.f16	%12-15,22D, %16-19,7D, %D'',
    neon_row ''Vqdmull'' 0xf2800b40 0xff800f50 IA_Neon ''vqdmull%c.s%20-21S6	%12-15,22Q, %16-19,7D, %D'',
    neon_row ''Vqdmulh'' 0xf2800c40 0xff800f50 IA_Neon ''vqdmulh%c.s%20-21S6	%12-15,22D, %16-19,7D, %D'',
    neon_row ''Vqrdmulh'' 0xf2800d40 0xff800f50 IA_Neon ''vqrdmulh%c.s%20-21S6	%12-15,22D, %16-19,7D, %D'',
    neon_row ''Vmla'' 0xf3800040 0xff800f50 IA_Neon ''vmla%c.i%20-21S6	%12-15,22Q, %16-19,7Q, %D'',
    neon_row ''Vmla'' 0xf3800140 0xff900f50 IA_Neon ''vmla%c.f%20-21Sa	%12-15,22Q, %16-19,7Q, %D'',
    neon_row ''Vmla'' 0xf3900140 0xffb00f50 IA_Neon ''vmla%c.f16	%12-15,22Q, %16-19,7Q, %D'',
    neon_row ''Vmls'' 0xf3800440 0xff800f50 IA_Neon ''vmls%c.i%20-21S6	%12-15,22Q, %16-19,7Q, %D'',
    neon_row ''Vmls'' 0xf3800540 0xff900f50 IA_Neon ''vmls%c.f%20-21Sa	%12-15,22Q, %16-19,7Q, %D'',
    neon_row ''Vmls'' 0xf3900540 0xffb00f50 IA_Neon ''vmls%c.f16	%12-15,22Q, %16-19,7Q, %D'',
    neon_row ''Vmul'' 0xf3800840 0xff800f50 IA_Neon ''vmul%c.i%20-21S6	%12-15,22Q, %16-19,7Q, %D'',
    neon_row ''Vmul'' 0xf3800940 0xff900f50 IA_Neon ''vmul%c.f%20-21Sa	%12-15,22Q, %16-19,7Q, %D'',
    neon_row ''Vmul'' 0xf3900940 0xffb00f50 IA_Neon ''vmul%c.f16	%12-15,22Q, %16-19,7Q, %D'',
    neon_row ''Vqdmulh'' 0xf3800c40 0xff800f50 IA_Neon ''vqdmulh%c.s%20-21S6	%12-15,22Q, %16-19,7Q, %D'',
    neon_row ''Vqrdmulh'' 0xf3800d40 0xff800f50 IA_Neon ''vqrdmulh%c.s%20-21S6	%12-15,22Q, %16-19,7Q, %D'',
    neon_row ''Vmlal'' 0xf2800240 0xfe800f50 IA_Neon ''vmlal%c.%24?us%20-21S6	%12-15,22Q, %16-19,7D, %D'',
    neon_row ''Vmlsl'' 0xf2800640 0xfe800f50 IA_Neon ''vmlsl%c.%24?us%20-21S6	%12-15,22Q, %16-19,7D, %D'',
    neon_row ''Vmull'' 0xf2800a40 0xfe800f50 IA_Neon ''vmull%c.%24?us%20-21S6	%12-15,22Q, %16-19,7D, %D'',
    neon_row ''Vqrdmlah'' 0xf2800e40 0xff800f50 IA_Neon ''vqrdmlah%c.s%20-21S6	%12-15,22D, %16-19,7D, %D'',
    neon_row ''Vqrdmlsh'' 0xf2800f40 0xff800f50 IA_Neon ''vqrdmlsh%c.s%20-21S6	%12-15,22D, %16-19,7D, %D'',
    neon_row ''Vqrdmlah'' 0xf3800e40 0xff800f50 IA_Neon ''vqrdmlah%c.s%20-21S6	%12-15,22Q, %16-19,7Q, %D'',
    neon_row ''Vqrdmlsh'' 0xf3800f40 0xff800f50 IA_Neon ''vqrdmlsh%c.s%20-21S6	%12-15,22Q, %16-19,7Q, %D'',
    neon_row ''Vld4'' 0xf4a00fc0 0xffb00fc0 IA_Neon ''vld4%c.32	%C'',
    neon_row ''Vld1'' 0xf4a00c00 0xffb00f00 IA_Neon ''vld1%c.%6-7S2	%C'',
    neon_row ''Vld2'' 0xf4a00d00 0xffb00f00 IA_Neon ''vld2%c.%6-7S2	%C'',
    neon_row ''Vld3'' 0xf4a00e00 0xffb00f00 IA_Neon ''vld3%c.%6-7S2	%C'',
    neon_row ''Vld4'' 0xf4a00f00 0xffb00f00 IA_Neon ''vld4%c.%6-7S2	%C'',
    neon_row ''V'' 0xf4000200 0xff900f00 IA_Neon ''v%21?ls%21?dt1%c.%6-7S3	%A'',
    neon_row ''V'' 0xf4000300 0xff900f00 IA_Neon ''v%21?ls%21?dt2%c.%6-7S2	%A'',
    neon_row ''V'' 0xf4000400 0xff900f00 IA_Neon ''v%21?ls%21?dt3%c.%6-7S2	%A'',
    neon_row ''V'' 0xf4000500 0xff900f00 IA_Neon ''v%21?ls%21?dt3%c.%6-7S2	%A'',
    neon_row ''V'' 0xf4000600 0xff900f00 IA_Neon ''v%21?ls%21?dt1%c.%6-7S3	%A'',
    neon_row ''V'' 0xf4000700 0xff900f00 IA_Neon ''v%21?ls%21?dt1%c.%6-7S3	%A'',
    neon_row ''V'' 0xf4000800 0xff900f00 IA_Neon ''v%21?ls%21?dt2%c.%6-7S2	%A'',
    neon_row ''V'' 0xf4000900 0xff900f00 IA_Neon ''v%21?ls%21?dt2%c.%6-7S2	%A'',
    neon_row ''V'' 0xf4000a00 0xff900f00 IA_Neon ''v%21?ls%21?dt1%c.%6-7S3	%A'',
    neon_row ''V'' 0xf4000000 0xff900e00 IA_Neon ''v%21?ls%21?dt4%c.%6-7S2	%A'',
    neon_row ''V'' 0xf4800000 0xff900300 IA_Neon ''v%21?ls%21?dt1%c.%10-11S2	%B'',
    neon_row ''V'' 0xf4800100 0xff900300 IA_Neon ''v%21?ls%21?dt2%c.%10-11S2	%B'',
    neon_row ''V'' 0xf4800200 0xff900300 IA_Neon ''v%21?ls%21?dt3%c.%10-11S2	%B'',
    neon_row ''V'' 0xf4800300 0xff900300 IA_Neon ''v%21?ls%21?dt4%c.%10-11S2	%B'',
    neon_row ''Mia'' 0x0e200010 0x0fff0ff0 IA_Any ''mia%c	%{R:acc0%}, %0-3r, %12-15r'',
    neon_row ''Miaph'' 0x0e280010 0x0fff0ff0 IA_Any ''miaph%c	%{R:acc0%}, %0-3r, %12-15r'',
    neon_row ''Mia'' 0x0e2c0010 0x0ffc0ff0 IA_Any ''mia%17\\'T%17`B%16\\'T%16`B%c	%{R:acc0%}, %0-3r, %12-15r'',
    neon_row ''Mar'' 0x0c400000 0x0ff00fff IA_Any ''mar%c	%{R:acc0%}, %12-15r, %16-19r'',
    neon_row ''Mra'' 0x0c500000 0x0ff00fff IA_Any ''mra%c	%12-15r, %16-19r, %{R:acc0%}'',
    neon_row ''Tandc'' 0x0e130130 0x0f3f0fff IA_Any ''tandc%22-23w%c	%12-15r'',
    neon_row ''Tbcst'' 0x0e400010 0x0ff00f3f IA_Any ''tbcst%6-7w%c	%16-19g, %12-15r'',
    neon_row ''Textrc'' 0x0e130170 0x0f3f0ff8 IA_Any ''textrc%22-23w%c	%12-15r, %{I:#%0-2d%}'',
    neon_row ''Textrm'' 0x0e100070 0x0f300ff0 IA_Any ''textrm%3?su%22-23w%c	%12-15r, %16-19g, %{I:#%0-2d%}'',
    neon_row ''Tinsr'' 0x0e600010 0x0ff00f38 IA_Any ''tinsr%6-7w%c	%16-19g, %12-15r, %{I:#%0-2d%}'',
    neon_row ''Tmcr'' 0x0e000110 0x0ff00fff IA_Any ''tmcr%c	%16-19G, %12-15r'',
    neon_row ''Tmcrr'' 0x0c400000 0x0ff00ff0 IA_Any ''tmcrr%c	%0-3g, %12-15r, %16-19r'',
    neon_row ''Tmia'' 0x0e2c0010 0x0ffc0e10 IA_Any ''tmia%17?tb%16?tb%c	%5-8g, %0-3r, %12-15r'',
    neon_row ''Tmia'' 0x0e200010 0x0fff0e10 IA_Any ''tmia%c	%5-8g, %0-3r, %12-15r'',
    neon_row ''Tmiaph'' 0x0e280010 0x0fff0e10 IA_Any ''tmiaph%c	%5-8g, %0-3r, %12-15r'',
    neon_row ''Tmovmsk'' 0x0e100030 0x0f300fff IA_Any ''tmovmsk%22-23w%c	%12-15r, %16-19g'',
    neon_row ''Tmrc'' 0x0e100110 0x0ff00ff0 IA_Any ''tmrc%c	%12-15r, %16-19G'',
    neon_row ''Tmrrc'' 0x0c500000 0x0ff00ff0 IA_Any ''tmrrc%c	%12-15r, %16-19r, %0-3g'',
    neon_row ''Torc'' 0x0e130150 0x0f3f0fff IA_Any ''torc%22-23w%c	%12-15r'',
    neon_row ''Torvsc'' 0x0e120190 0x0f3f0fff IA_Any ''torvsc%22-23w%c	%12-15r'',
    neon_row ''Wabs'' 0x0e2001c0 0x0f300fff IA_Any ''wabs%22-23w%c	%12-15g, %16-19g'',
    neon_row ''Wacc'' 0x0e0001c0 0x0f300fff IA_Any ''wacc%22-23w%c	%12-15g, %16-19g'',
    neon_row ''Wadd'' 0x0e000180 0x0f000ff0 IA_Any ''wadd%20-23w%c	%12-15g, %16-19g, %0-3g'',
    neon_row ''Waddbhus'' 0x0e2001a0 0x0fb00ff0 IA_Any ''waddbhus%22?ml%c	%12-15g, %16-19g, %0-3g'',
    neon_row ''Waddsubhx'' 0x0ea001a0 0x0ff00ff0 IA_Any ''waddsubhx%c	%12-15g, %16-19g, %0-3g'',
    neon_row ''Waligni'' 0x0e000020 0x0f800ff0 IA_Any ''waligni%c	%12-15g, %16-19g, %0-3g, %{I:#%20-22d%}'',
    neon_row ''Walignr'' 0x0e800020 0x0fc00ff0 IA_Any ''walignr%20-21d%c	%12-15g, %16-19g, %0-3g'']"

definition neon_rows_4 :: "neon_opcode list" where
  "neon_rows_4 = [
    neon_row ''Wand'' 0x0e200000 0x0fe00ff0 IA_Any ''wand%20\\'n%c	%12-15g, %16-19g, %0-3g'',
    neon_row ''Wavg2'' 0x0e800000 0x0fa00ff0 IA_Any ''wavg2%22?hb%20\\'r%c	%12-15g, %16-19g, %0-3g'',
    neon_row ''Wavg4'' 0x0e400000 0x0fe00ff0 IA_Any ''wavg4%20\\'r%c	%12-15g, %16-19g, %0-3g'',
    neon_row ''Wcmpeq'' 0x0e000060 0x0f300ff0 IA_Any ''wcmpeq%22-23w%c	%12-15g, %16-19g, %0-3g'',
    neon_row ''Wcmpgt'' 0x0e100060 0x0f100ff0 IA_Any ''wcmpgt%21?su%22-23w%c	%12-15g, %16-19g, %0-3g'',
    neon_row ''Wldrd'' 0xfc500100 0xfe500f00 IA_Any ''wldrd	%12-15g, %r'',
    neon_row ''Wldrw'' 0xfc100100 0xfe500f00 IA_Any ''wldrw	%12-15G, %A'',
    neon_row ''Wldr'' 0x0c100000 0x0e100e00 IA_Any ''wldr%L%c	%12-15g, %l'',
    neon_row ''Wmac'' 0x0e400100 0x0fc00ff0 IA_Any ''wmac%21?su%20\\'z%c	%12-15g, %16-19g, %0-3g'',
    neon_row ''Wmadd'' 0x0e800100 0x0fc00ff0 IA_Any ''wmadd%21?su%20\\'x%c	%12-15g, %16-19g, %0-3g'',
    neon_row ''Wmadd'' 0x0ec00100 0x0fd00ff0 IA_Any ''wmadd%21?sun%c	%12-15g, %16-19g, %0-3g'',
    neon_row ''Wmax'' 0x0e000160 0x0f100ff0 IA_Any ''wmax%21?su%22-23w%c	%12-15g, %16-19g, %0-3g'',
    neon_row ''Wmerge'' 0x0e000080 0x0f100fe0 IA_Any ''wmerge%c	%12-15g, %16-19g, %0-3g, %{I:#%21-23d%}'',
    neon_row ''Wmia'' 0x0e0000a0 0x0f800ff0 IA_Any ''wmia%21?tb%20?tb%22\\'n%c	%12-15g, %16-19g, %0-3g'',
    neon_row ''Wmiaw'' 0x0e800120 0x0f800ff0 IA_Any ''wmiaw%21?tb%20?tb%22\\'n%c	%12-15g, %16-19g, %0-3g'',
    neon_row ''Wmin'' 0x0e100160 0x0f100ff0 IA_Any ''wmin%21?su%22-23w%c	%12-15g, %16-19g, %0-3g'',
    neon_row ''Wmul'' 0x0e000100 0x0fc00ff0 IA_Any ''wmul%21?su%20?ml%23\\'r%c	%12-15g, %16-19g, %0-3g'',
    neon_row ''Wmul'' 0x0ed00100 0x0fd00ff0 IA_Any ''wmul%21?sumr%c	%12-15g, %16-19g, %0-3g'',
    neon_row ''Wmulwsm'' 0x0ee000c0 0x0fe00ff0 IA_Any ''wmulwsm%20`r%c	%12-15g, %16-19g, %0-3g'',
    neon_row ''Wmulwum'' 0x0ec000c0 0x0fe00ff0 IA_Any ''wmulwum%20`r%c	%12-15g, %16-19g, %0-3g'',
    neon_row ''Wmulwl'' 0x0eb000c0 0x0ff00ff0 IA_Any ''wmulwl%c	%12-15g, %16-19g, %0-3g'',
    neon_row ''Wqmia'' 0x0e8000a0 0x0f800ff0 IA_Any ''wqmia%21?tb%20?tb%22\\'n%c	%12-15g, %16-19g, %0-3g'',
    neon_row ''Wqmulm'' 0x0e100080 0x0fd00ff0 IA_Any ''wqmulm%21\\'r%c	%12-15g, %16-19g, %0-3g'',
    neon_row ''Wqmulwm'' 0x0ec000e0 0x0fd00ff0 IA_Any ''wqmulwm%21\\'r%c	%12-15g, %16-19g, %0-3g'',
    neon_row ''Wor'' 0x0e000000 0x0ff00ff0 IA_Any ''wor%c	%12-15g, %16-19g, %0-3g'',
    neon_row ''Wpack'' 0x0e000080 0x0f000ff0 IA_Any ''wpack%20-23w%c	%12-15g, %16-19g, %0-3g'',
    neon_row ''Wror'' 0xfe300040 0xff300ef0 IA_Any ''wror%22-23w	%12-15g, %16-19g, %{I:#%i%}'',
    neon_row ''Wror'' 0x0e300040 0x0f300ff0 IA_Any ''wror%22-23w%c	%12-15g, %16-19g, %0-3g'',
    neon_row ''Wror'' 0x0e300140 0x0f300ff0 IA_Any ''wror%22-23wg%c	%12-15g, %16-19g, %0-3G'',
    neon_row ''Wsad'' 0x0e000120 0x0fa00ff0 IA_Any ''wsad%22?hb%20\\'z%c	%12-15g, %16-19g, %0-3g'',
    neon_row ''Wshufh'' 0x0e0001e0 0x0f000ff0 IA_Any ''wshufh%c	%12-15g, %16-19g, %{I:#%Z%}'',
    neon_row ''Wsll'' 0xfe100040 0xff300ef0 IA_Any ''wsll%22-23w	%12-15g, %16-19g, %{I:#%i%}'',
    neon_row ''Wsll'' 0x0e100040 0x0f300ff0 IA_Any ''wsll%22-23w%8\\'g%c	%12-15g, %16-19g, %0-3g'',
    neon_row ''Wsll'' 0x0e100148 0x0f300ffc IA_Any ''wsll%22-23w%8\\'g%c	%12-15g, %16-19g, %0-3G'',
    neon_row ''Wsra'' 0xfe000040 0xff300ef0 IA_Any ''wsra%22-23w	%12-15g, %16-19g, %{I:#%i%}'',
    neon_row ''Wsra'' 0x0e000040 0x0f300ff0 IA_Any ''wsra%22-23w%8\\'g%c	%12-15g, %16-19g, %0-3g'',
    neon_row ''Wsra'' 0x0e000148 0x0f300ffc IA_Any ''wsra%22-23w%8\\'g%c	%12-15g, %16-19g, %0-3G'',
    neon_row ''Wsrl'' 0xfe200040 0xff300ef0 IA_Any ''wsrl%22-23w	%12-15g, %16-19g, %{I:#%i%}'',
    neon_row ''Wsrl'' 0x0e200040 0x0f300ff0 IA_Any ''wsrl%22-23w%8\\'g%c	%12-15g, %16-19g, %0-3g'',
    neon_row ''Wsrl'' 0x0e200148 0x0f300ffc IA_Any ''wsrl%22-23w%8\\'g%c	%12-15g, %16-19g, %0-3G'',
    neon_row ''Wstrd'' 0xfc400100 0xfe500f00 IA_Any ''wstrd	%12-15g, %r'',
    neon_row ''Wstrw'' 0xfc000100 0xfe500f00 IA_Any ''wstrw	%12-15G, %A'',
    neon_row ''Wstr'' 0x0c000000 0x0e100e00 IA_Any ''wstr%L%c	%12-15g, %l'',
    neon_row ''Wsub'' 0x0e0001a0 0x0f000ff0 IA_Any ''wsub%20-23w%c	%12-15g, %16-19g, %0-3g'',
    neon_row ''Wsubaddhx'' 0x0ed001c0 0x0ff00ff0 IA_Any ''wsubaddhx%c	%12-15g, %16-19g, %0-3g'',
    neon_row ''Wabsdiff'' 0x0e1001c0 0x0f300ff0 IA_Any ''wabsdiff%22-23w%c	%12-15g, %16-19g, %0-3g'',
    neon_row ''Wunpckeh'' 0x0e0000c0 0x0fd00fff IA_Any ''wunpckeh%21?sub%c	%12-15g, %16-19g'',
    neon_row ''Wunpckeh'' 0x0e4000c0 0x0fd00fff IA_Any ''wunpckeh%21?suh%c	%12-15g, %16-19g'',
    neon_row ''Wunpckeh'' 0x0e8000c0 0x0fd00fff IA_Any ''wunpckeh%21?suw%c	%12-15g, %16-19g'',
    neon_row ''Wunpckel'' 0x0e0000e0 0x0f100fff IA_Any ''wunpckel%21?su%22-23w%c	%12-15g, %16-19g'',
    neon_row ''Wunpckih'' 0x0e1000c0 0x0f300ff0 IA_Any ''wunpckih%22-23w%c	%12-15g, %16-19g, %0-3g'',
    neon_row ''Wunpckil'' 0x0e1000e0 0x0f300ff0 IA_Any ''wunpckil%22-23w%c	%12-15g, %16-19g, %0-3g'',
    neon_row ''Wxor'' 0x0e100000 0x0ff00ff0 IA_Any ''wxor%c	%12-15g, %16-19g, %0-3g'',
    neon_row ''Adf'' 0x0e000100 0x0ff08f10 IA_Any ''adf%c%P%R	%12-14f, %16-18f, %0-3f'',
    neon_row ''Muf'' 0x0e100100 0x0ff08f10 IA_Any ''muf%c%P%R	%12-14f, %16-18f, %0-3f'',
    neon_row ''Suf'' 0x0e200100 0x0ff08f10 IA_Any ''suf%c%P%R	%12-14f, %16-18f, %0-3f'',
    neon_row ''Rsf'' 0x0e300100 0x0ff08f10 IA_Any ''rsf%c%P%R	%12-14f, %16-18f, %0-3f'',
    neon_row ''Dvf'' 0x0e400100 0x0ff08f10 IA_Any ''dvf%c%P%R	%12-14f, %16-18f, %0-3f'',
    neon_row ''Rdf'' 0x0e500100 0x0ff08f10 IA_Any ''rdf%c%P%R	%12-14f, %16-18f, %0-3f'',
    neon_row ''Pow'' 0x0e600100 0x0ff08f10 IA_Any ''pow%c%P%R	%12-14f, %16-18f, %0-3f'',
    neon_row ''Rpw'' 0x0e700100 0x0ff08f10 IA_Any ''rpw%c%P%R	%12-14f, %16-18f, %0-3f'',
    neon_row ''Rmf'' 0x0e800100 0x0ff08f10 IA_Any ''rmf%c%P%R	%12-14f, %16-18f, %0-3f'',
    neon_row ''Fml'' 0x0e900100 0x0ff08f10 IA_Any ''fml%c%P%R	%12-14f, %16-18f, %0-3f'',
    neon_row ''Fdv'' 0x0ea00100 0x0ff08f10 IA_Any ''fdv%c%P%R	%12-14f, %16-18f, %0-3f'',
    neon_row ''Frd'' 0x0eb00100 0x0ff08f10 IA_Any ''frd%c%P%R	%12-14f, %16-18f, %0-3f'',
    neon_row ''Pol'' 0x0ec00100 0x0ff08f10 IA_Any ''pol%c%P%R	%12-14f, %16-18f, %0-3f'',
    neon_row ''Mvf'' 0x0e008100 0x0ff08f10 IA_Any ''mvf%c%P%R	%12-14f, %0-3f'',
    neon_row ''Mnf'' 0x0e108100 0x0ff08f10 IA_Any ''mnf%c%P%R	%12-14f, %0-3f'',
    neon_row ''Abs'' 0x0e208100 0x0ff08f10 IA_Any ''abs%c%P%R	%12-14f, %0-3f'',
    neon_row ''Rnd'' 0x0e308100 0x0ff08f10 IA_Any ''rnd%c%P%R	%12-14f, %0-3f'',
    neon_row ''Sqt'' 0x0e408100 0x0ff08f10 IA_Any ''sqt%c%P%R	%12-14f, %0-3f'',
    neon_row ''Log'' 0x0e508100 0x0ff08f10 IA_Any ''log%c%P%R	%12-14f, %0-3f'',
    neon_row ''Lgn'' 0x0e608100 0x0ff08f10 IA_Any ''lgn%c%P%R	%12-14f, %0-3f'',
    neon_row ''Exp'' 0x0e708100 0x0ff08f10 IA_Any ''exp%c%P%R	%12-14f, %0-3f'',
    neon_row ''Sin'' 0x0e808100 0x0ff08f10 IA_Any ''sin%c%P%R	%12-14f, %0-3f'',
    neon_row ''Cos'' 0x0e908100 0x0ff08f10 IA_Any ''cos%c%P%R	%12-14f, %0-3f'',
    neon_row ''Tan'' 0x0ea08100 0x0ff08f10 IA_Any ''tan%c%P%R	%12-14f, %0-3f'',
    neon_row ''Asn'' 0x0eb08100 0x0ff08f10 IA_Any ''asn%c%P%R	%12-14f, %0-3f'',
    neon_row ''Acs'' 0x0ec08100 0x0ff08f10 IA_Any ''acs%c%P%R	%12-14f, %0-3f'',
    neon_row ''Atn'' 0x0ed08100 0x0ff08f10 IA_Any ''atn%c%P%R	%12-14f, %0-3f'',
    neon_row ''Urd'' 0x0ee08100 0x0ff08f10 IA_Any ''urd%c%P%R	%12-14f, %0-3f'',
    neon_row ''Nrm'' 0x0ef08100 0x0ff08f10 IA_Any ''nrm%c%P%R	%12-14f, %0-3f'',
    neon_row ''Flt'' 0x0e000110 0x0ff00f1f IA_Any ''flt%c%P%R	%16-18f, %12-15r'',
    neon_row ''Fix'' 0x0e100110 0x0fff0f98 IA_Any ''fix%c%R	%12-15r, %0-2f'',
    neon_row ''Wfs'' 0x0e200110 0x0fff0fff IA_Any ''wfs%c	%12-15r'',
    neon_row ''Rfs'' 0x0e300110 0x0fff0fff IA_Any ''rfs%c	%12-15r'',
    neon_row ''Wfc'' 0x0e400110 0x0fff0fff IA_Any ''wfc%c	%12-15r'',
    neon_row ''Rfc'' 0x0e500110 0x0fff0fff IA_Any ''rfc%c	%12-15r'',
    neon_row ''Cmf'' 0x0e90f110 0x0ff8fff0 IA_Any ''cmf%c	%16-18f, %0-3f'',
    neon_row ''Cnf'' 0x0eb0f110 0x0ff8fff0 IA_Any ''cnf%c	%16-18f, %0-3f'',
    neon_row ''Cmfe'' 0x0ed0f110 0x0ff8fff0 IA_Any ''cmfe%c	%16-18f, %0-3f'',
    neon_row ''Cnfe'' 0x0ef0f110 0x0ff8fff0 IA_Any ''cnfe%c	%16-18f, %0-3f'',
    neon_row ''Stf'' 0x0c000100 0x0e100f00 IA_Any ''stf%c%Q	%12-14f, %A'',
    neon_row ''Ldf'' 0x0c100100 0x0e100f00 IA_Any ''ldf%c%Q	%12-14f, %A'',
    neon_row ''Sfm'' 0x0c000200 0x0e100f00 IA_Any ''sfm%c	%12-14f, %F, %A'',
    neon_row ''Lfm'' 0x0c100200 0x0e100f00 IA_Any ''lfm%c	%12-14f, %F, %A'',
    neon_row ''Vscclrm'' 0xec9f0b00 0xffbf0f01 IA_Thumb ''vscclrm%c	%C'',
    neon_row ''Vscclrm'' 0xec9f0a00 0xffbf0f00 IA_Thumb ''vscclrm%c	%C'',
    neon_row ''Vlldm'' 0xec300a00 0xfff0ffff IA_Any ''vlldm	%16-19r'',
    neon_row ''Vlstm'' 0xec200a00 0xfff0ffff IA_Any ''vlstm	%16-19r'',
    neon_row ''Vpush'' 0x0d2d0b00 0x0fbf0f01 IA_Any ''vpush%c	%B'',
    neon_row ''Vstmdb'' 0x0d200b00 0x0fb00f01 IA_Any ''vstmdb%c	%16-19r!, %B'',
    neon_row ''Vldmdb'' 0x0d300b00 0x0fb00f01 IA_Any ''vldmdb%c	%16-19r!, %B'',
    neon_row ''Vstmia'' 0x0c800b00 0x0f900f01 IA_Any ''vstmia%c	%16-19r%21\\'!, %B'',
    neon_row ''Vpop'' 0x0cbd0b00 0x0fbf0f01 IA_Any ''vpop%c	%B'',
    neon_row ''Vldmia'' 0x0c900b00 0x0f900f01 IA_Any ''vldmia%c	%16-19r%21\\'!, %B'',
    neon_row ''Vstr'' 0x0d000b00 0x0f300f00 IA_Any ''vstr%c	%12-15,22D, %A'',
    neon_row ''Vldr'' 0x0d100b00 0x0f300f00 IA_Any ''vldr%c	%12-15,22D, %A'',
    neon_row ''Vpush'' 0x0d2d0a00 0x0fbf0f00 IA_Any ''vpush%c	%y3'',
    neon_row ''Vstmdb'' 0x0d200a00 0x0fb00f00 IA_Any ''vstmdb%c	%16-19r!, %y3'']"

definition neon_rows_5 :: "neon_opcode list" where
  "neon_rows_5 = [
    neon_row ''Vldmdb'' 0x0d300a00 0x0fb00f00 IA_Any ''vldmdb%c	%16-19r!, %y3'',
    neon_row ''Vstmia'' 0x0c800a00 0x0f900f00 IA_Any ''vstmia%c	%16-19r%21\\'!, %y3'',
    neon_row ''Vpop'' 0x0cbd0a00 0x0fbf0f00 IA_Any ''vpop%c	%y3'',
    neon_row ''Vldmia'' 0x0c900a00 0x0f900f00 IA_Any ''vldmia%c	%16-19r%21\\'!, %y3'',
    neon_row ''Vstr'' 0x0d000a00 0x0f300f00 IA_Any ''vstr%c	%y1, %A'',
    neon_row ''Vldr'' 0x0d100a00 0x0f300f00 IA_Any ''vldr%c	%y1, %A'',
    neon_row ''Vldr'' 0xec100f80 0xfe101f80 IA_Any ''vldr%c	%J, %K'',
    neon_row ''Vstr'' 0xec000f80 0xfe101f80 IA_Any ''vstr%c	%J, %K'',
    neon_row ''Fstmdbx'' 0x0d200b01 0x0fb00f01 IA_Any ''fstmdbx%c	%16-19r!, %z3	@ Deprecated'',
    neon_row ''Fldmdbx'' 0x0d300b01 0x0fb00f01 IA_Any ''fldmdbx%c	%16-19r!, %z3	@ Deprecated'',
    neon_row ''Fstmiax'' 0x0c800b01 0x0f900f01 IA_Any ''fstmiax%c	%16-19r%21\\'!, %z3	@ Deprecated'',
    neon_row ''Fldmiax'' 0x0c900b01 0x0f900f01 IA_Any ''fldmiax%c	%16-19r%21\\'!, %z3	@ Deprecated'',
    neon_row ''Vmov'' 0x0c400b10 0x0ff00fd0 IA_Any ''vmov%c	%0-3,5D, %12-15r, %16-19r'',
    neon_row ''Vmov'' 0x0c500b10 0x0ff00fd0 IA_Any ''vmov%c	%12-15r, %16-19r, %0-3,5D'',
    neon_row ''Vmov'' 0x0e000b10 0x0fd00f70 IA_Any ''vmov%c.32	%{R:%16-19,7D[%21d]%}, %12-15r'',
    neon_row ''Vmov'' 0x0e100b10 0x0f500f70 IA_Any ''vmov%c.32	%12-15r, %{R:%16-19,7D[%21d]%}'',
    neon_row ''Vmov'' 0x0e000b30 0x0fd00f30 IA_Any ''vmov%c.16	%{R:%16-19,7D[%6,21d]%}, %12-15r'',
    neon_row ''Vmov'' 0x0e100b30 0x0f500f30 IA_Any ''vmov%c.%23?us16	%12-15r, %{R:%16-19,7D[%6,21d]%}'',
    neon_row ''Vmov'' 0x0e400b10 0x0fd00f10 IA_Any ''vmov%c.8	%{R:%16-19,7D[%5,6,21d]%}, %12-15r'',
    neon_row ''Vmov'' 0x0e500b10 0x0f500f10 IA_Any ''vmov%c.%23?us8	%12-15r, %{R:%16-19,7D[%5,6,21d]%}'',
    neon_row ''Vcvt'' 0x0eb20b40 0x0fbf0f50 IA_Any ''vcvt%7?tb%c.f64.f16	%z1, %y0'',
    neon_row ''Vcvt'' 0x0eb30b40 0x0fbf0f50 IA_Any ''vcvt%7?tb%c.f16.f64	%y1, %z0'',
    neon_row ''Vcvt'' 0x0eb20a40 0x0fbf0f50 IA_Any ''vcvt%7?tb%c.f32.f16	%y1, %y0'',
    neon_row ''Vcvt'' 0x0eb30a40 0x0fbf0f50 IA_Any ''vcvt%7?tb%c.f16.f32	%y1, %y0'',
    neon_row ''Vmsr'' 0x0ee00a10 0x0fff0fff IA_Any ''vmsr%c	%{R:fpsid%}, %12-15r'',
    neon_row ''Vmsr'' 0x0ee10a10 0x0fff0fff IA_Any ''vmsr%c	%{R:fpscr%}, %12-15r'',
    neon_row ''Vmsr'' 0x0ee20a10 0x0fff0fff IA_Any ''vmsr%c	%{R:fpscr_nzcvqc%}, %12-15r'',
    neon_row ''Vmsr'' 0x0ee60a10 0x0fff0fff IA_Any ''vmsr%c	%{R:mvfr1%}, %12-15r'',
    neon_row ''Vmsr'' 0x0ee70a10 0x0fff0fff IA_Any ''vmsr%c	%{R:mvfr0%}, %12-15r'',
    neon_row ''Vmsr'' 0x0ee50a10 0x0fff0fff IA_Any ''vmsr%c	%{R:mvfr2%}, %12-15r'',
    neon_row ''Vmsr'' 0x0ee80a10 0x0fff0fff IA_Any ''vmsr%c	%{R:fpexc%}, %12-15r'',
    neon_row ''Vmsr'' 0x0ee90a10 0x0fff0fff IA_Any ''vmsr%c	%{R:fpinst%}, %12-15r	@ Impl def'',
    neon_row ''Vmsr'' 0x0eea0a10 0x0fff0fff IA_Any ''vmsr%c	%{R:fpinst2%}, %12-15r	@ Impl def'',
    neon_row ''Vmsr'' 0x0eec0a10 0x0fff0fff IA_Any ''vmsr%c	%{R:vpr%}, %12-15r'',
    neon_row ''Vmsr'' 0x0eed0a10 0x0fff0fff IA_Any ''vmsr%c	%{R:p0%}, %12-15r'',
    neon_row ''Vmsr'' 0x0eee0a10 0x0fff0fff IA_Any ''vmsr%c	%{R:fpcxt_ns%}, %12-15r'',
    neon_row ''Vmsr'' 0x0eef0a10 0x0fff0fff IA_Any ''vmsr%c	%{R:fpcxt_s%}, %12-15r'',
    neon_row ''Vmrs'' 0x0ef00a10 0x0fff0fff IA_Any ''vmrs%c	%12-15r, %{R:fpsid%}'',
    neon_row ''Vmrs'' 0x0ef1fa10 0x0fffffff IA_Any ''vmrs%c	%{R:APSR_nzcv%}, %{R:fpscr%}'',
    neon_row ''Vmrs'' 0x0ef10a10 0x0fff0fff IA_Any ''vmrs%c	%12-15r, %{R:fpscr%}'',
    neon_row ''Vmrs'' 0x0ef20a10 0x0fff0fff IA_Any ''vmrs%c	%12-15r, %{R:fpscr_nzcvqc%}'',
    neon_row ''Vmrs'' 0x0ef50a10 0x0fff0fff IA_Any ''vmrs%c	%12-15r, %{R:mvfr2%}'',
    neon_row ''Vmrs'' 0x0ef60a10 0x0fff0fff IA_Any ''vmrs%c	%12-15r, %{R:mvfr1%}'',
    neon_row ''Vmrs'' 0x0ef70a10 0x0fff0fff IA_Any ''vmrs%c	%12-15r, %{R:mvfr0%}'',
    neon_row ''Vmrs'' 0x0ef80a10 0x0fff0fff IA_Any ''vmrs%c	%12-15r, %{R:fpexc%}'',
    neon_row ''Vmrs'' 0x0ef90a10 0x0fff0fff IA_Any ''vmrs%c	%12-15r, %{R:fpinst%}	@ Impl def'',
    neon_row ''Vmrs'' 0x0efa0a10 0x0fff0fff IA_Any ''vmrs%c	%12-15r, %{R:fpinst2%}	@ Impl def'',
    neon_row ''Vmrs'' 0x0efc0a10 0x0fff0fff IA_Any ''vmrs%c	%12-15r, %{R:vpr%}'',
    neon_row ''Vmrs'' 0x0efd0a10 0x0fff0fff IA_Any ''vmrs%c	%12-15r, %{R:p0%}'',
    neon_row ''Vmrs'' 0x0efe0a10 0x0fff0fff IA_Any ''vmrs%c	%12-15r, %{R:fpcxt_ns%}'',
    neon_row ''Vmrs'' 0x0eff0a10 0x0fff0fff IA_Any ''vmrs%c	%12-15r, %{R:fpcxt_s%}'',
    neon_row ''Vmov'' 0x0e000b10 0x0fd00fff IA_Any ''vmov%c.32	%z2[%{I:%21d%}], %12-15r'',
    neon_row ''Vmov'' 0x0e100b10 0x0fd00fff IA_Any ''vmov%c.32	%12-15r, %z2[%{I:%21d%}]'',
    neon_row ''Vmsr'' 0x0ee00a10 0x0ff00fff IA_Any ''vmsr%c	<impl def %16-19x>, %12-15r'',
    neon_row ''Vmrs'' 0x0ef00a10 0x0ff00fff IA_Any ''vmrs%c	%12-15r, <impl def %16-19x>'',
    neon_row ''Vmov'' 0x0e000a10 0x0ff00f7f IA_Any ''vmov%c	%y2, %12-15r'',
    neon_row ''Vmov'' 0x0e100a10 0x0ff00f7f IA_Any ''vmov%c	%12-15r, %y2'',
    neon_row ''Vcmp'' 0x0eb50a40 0x0fbf0f70 IA_Any ''vcmp%7\\'e%c.f32	%y1, %{I:#0.0%}'',
    neon_row ''Vcmp'' 0x0eb50b40 0x0fbf0f70 IA_Any ''vcmp%7\\'e%c.f64	%z1, %{I:#0.0%}'',
    neon_row ''Vmov'' 0x0eb00a40 0x0fbf0fd0 IA_Any ''vmov%c.f32	%y1, %y0'',
    neon_row ''Vabs'' 0x0eb00ac0 0x0fbf0fd0 IA_Any ''vabs%c.f32	%y1, %y0'',
    neon_row ''Vmov'' 0x0eb00b40 0x0fbf0fd0 IA_Any ''vmov%c.f64	%z1, %z0'',
    neon_row ''Vabs'' 0x0eb00bc0 0x0fbf0fd0 IA_Any ''vabs%c.f64	%z1, %z0'',
    neon_row ''Vneg'' 0x0eb10a40 0x0fbf0fd0 IA_Any ''vneg%c.f32	%y1, %y0'',
    neon_row ''Vsqrt'' 0x0eb10ac0 0x0fbf0fd0 IA_Any ''vsqrt%c.f32	%y1, %y0'',
    neon_row ''Vneg'' 0x0eb10b40 0x0fbf0fd0 IA_Any ''vneg%c.f64	%z1, %z0'',
    neon_row ''Vsqrt'' 0x0eb10bc0 0x0fbf0fd0 IA_Any ''vsqrt%c.f64	%z1, %z0'',
    neon_row ''Vcvt'' 0x0eb70ac0 0x0fbf0fd0 IA_Any ''vcvt%c.f64.f32	%z1, %y0'',
    neon_row ''Vcvt'' 0x0eb70bc0 0x0fbf0fd0 IA_Any ''vcvt%c.f32.f64	%y1, %z0'',
    neon_row ''Vcvt'' 0x0eb80a40 0x0fbf0f50 IA_Any ''vcvt%c.f32.%7?su32	%y1, %y0'',
    neon_row ''Vcvt'' 0x0eb80b40 0x0fbf0f50 IA_Any ''vcvt%c.f64.%7?su32	%z1, %y0'',
    neon_row ''Vcmp'' 0x0eb40a40 0x0fbf0f50 IA_Any ''vcmp%7\\'e%c.f32	%y1, %y0'',
    neon_row ''Vcmp'' 0x0eb40b40 0x0fbf0f50 IA_Any ''vcmp%7\\'e%c.f64	%z1, %z0'',
    neon_row ''Vcvt'' 0x0eba0a40 0x0fbe0f50 IA_Any ''vcvt%c.f32.%16?us%7?31%7?26	%y1, %y1, %{I:#%5,0-3k%}'',
    neon_row ''Vcvt'' 0x0eba0b40 0x0fbe0f50 IA_Any ''vcvt%c.f64.%16?us%7?31%7?26	%z1, %z1, %{I:#%5,0-3k%}'',
    neon_row ''Vcvt'' 0x0ebc0a40 0x0fbe0f50 IA_Any ''vcvt%7`r%c.%16?su32.f32	%y1, %y0'',
    neon_row ''Vcvt'' 0x0ebc0b40 0x0fbe0f50 IA_Any ''vcvt%7`r%c.%16?su32.f64	%y1, %z0'',
    neon_row ''Vcvt'' 0x0ebe0a40 0x0fbe0f50 IA_Any ''vcvt%c.%16?us%7?31%7?26.f32	%y1, %y1, %{I:#%5,0-3k%}'',
    neon_row ''Vcvt'' 0x0ebe0b40 0x0fbe0f50 IA_Any ''vcvt%c.%16?us%7?31%7?26.f64	%z1, %z1, %{I:#%5,0-3k%}'',
    neon_row ''Vmov'' 0x0c500b10 0x0fb00ff0 IA_Any ''vmov%c	%12-15r, %16-19r, %z0'',
    neon_row ''Vmov'' 0x0eb00a00 0x0fb00ff0 IA_Any ''vmov%c.f32	%y1, %{I:#%0-3,16-19E%}'',
    neon_row ''Vmov'' 0x0eb00b00 0x0fb00ff0 IA_Any ''vmov%c.f64	%z1, %{I:#%0-3,16-19E%}'',
    neon_row ''Vmov'' 0x0c400a10 0x0ff00fd0 IA_Any ''vmov%c	%y4, %12-15r, %16-19r'',
    neon_row ''Vmov'' 0x0c400b10 0x0ff00fd0 IA_Any ''vmov%c	%z0, %12-15r, %16-19r'',
    neon_row ''Vmov'' 0x0c500a10 0x0ff00fd0 IA_Any ''vmov%c	%12-15r, %16-19r, %y4'',
    neon_row ''Vmla'' 0x0e000a00 0x0fb00f50 IA_Any ''vmla%c.f32	%y1, %y2, %y0'',
    neon_row ''Vmls'' 0x0e000a40 0x0fb00f50 IA_Any ''vmls%c.f32	%y1, %y2, %y0'',
    neon_row ''Vmla'' 0x0e000b00 0x0fb00f50 IA_Any ''vmla%c.f64	%z1, %z2, %z0'',
    neon_row ''Vmls'' 0x0e000b40 0x0fb00f50 IA_Any ''vmls%c.f64	%z1, %z2, %z0'',
    neon_row ''Vnmls'' 0x0e100a00 0x0fb00f50 IA_Any ''vnmls%c.f32	%y1, %y2, %y0'',
    neon_row ''Vnmla'' 0x0e100a40 0x0fb00f50 IA_Any ''vnmla%c.f32	%y1, %y2, %y0'',
    neon_row ''Vnmls'' 0x0e100b00 0x0fb00f50 IA_Any ''vnmls%c.f64	%z1, %z2, %z0'',
    neon_row ''Vnmla'' 0x0e100b40 0x0fb00f50 IA_Any ''vnmla%c.f64	%z1, %z2, %z0'',
    neon_row ''Vmul'' 0x0e200a00 0x0fb00f50 IA_Any ''vmul%c.f32	%y1, %y2, %y0'',
    neon_row ''Vnmul'' 0x0e200a40 0x0fb00f50 IA_Any ''vnmul%c.f32	%y1, %y2, %y0'',
    neon_row ''Vmul'' 0x0e200b00 0x0fb00f50 IA_Any ''vmul%c.f64	%z1, %z2, %z0'',
    neon_row ''Vnmul'' 0x0e200b40 0x0fb00f50 IA_Any ''vnmul%c.f64	%z1, %z2, %z0'',
    neon_row ''Vadd'' 0x0e300a00 0x0fb00f50 IA_Any ''vadd%c.f32	%y1, %y2, %y0'',
    neon_row ''Vsub'' 0x0e300a40 0x0fb00f50 IA_Any ''vsub%c.f32	%y1, %y2, %y0'',
    neon_row ''Vadd'' 0x0e300b00 0x0fb00f50 IA_Any ''vadd%c.f64	%z1, %z2, %z0'',
    neon_row ''Vsub'' 0x0e300b40 0x0fb00f50 IA_Any ''vsub%c.f64	%z1, %z2, %z0'',
    neon_row ''Vdiv'' 0x0e800a00 0x0fb00f50 IA_Any ''vdiv%c.f32	%y1, %y2, %y0'',
    neon_row ''Vdiv'' 0x0e800b00 0x0fb00f50 IA_Any ''vdiv%c.f64	%z1, %z2, %z0'',
    neon_row ''Cfldrs'' 0x0d100400 0x0f500f00 IA_Any ''cfldrs%c	%{R:mvf%12-15d%}, %A'',
    neon_row ''Cfldrs'' 0x0c100400 0x0f500f00 IA_Any ''cfldrs%c	%{R:mvf%12-15d%}, %A'',
    neon_row ''Cfldrd'' 0x0d500400 0x0f500f00 IA_Any ''cfldrd%c	%{R:mvd%12-15d%}, %A'',
    neon_row ''Cfldrd'' 0x0c500400 0x0f500f00 IA_Any ''cfldrd%c	%{R:mvd%12-15d%}, %A'',
    neon_row ''Cfldr32'' 0x0d100500 0x0f500f00 IA_Any ''cfldr32%c	%{R:mvfx%12-15d%}, %A'',
    neon_row ''Cfldr32'' 0x0c100500 0x0f500f00 IA_Any ''cfldr32%c	%{R:mvfx%12-15d%}, %A'',
    neon_row ''Cfldr64'' 0x0d500500 0x0f500f00 IA_Any ''cfldr64%c	%{R:mvdx%12-15d%}, %A'']"

definition neon_rows_6 :: "neon_opcode list" where
  "neon_rows_6 = [
    neon_row ''Cfldr64'' 0x0c500500 0x0f500f00 IA_Any ''cfldr64%c	%{R:mvdx%12-15d%}, %A'',
    neon_row ''Cfstrs'' 0x0d000400 0x0f500f00 IA_Any ''cfstrs%c	%{R:mvf%12-15d%}, %A'',
    neon_row ''Cfstrs'' 0x0c000400 0x0f500f00 IA_Any ''cfstrs%c	%{R:mvf%12-15d%}, %A'',
    neon_row ''Cfstrd'' 0x0d400400 0x0f500f00 IA_Any ''cfstrd%c	%{R:mvd%12-15d%}, %A'',
    neon_row ''Cfstrd'' 0x0c400400 0x0f500f00 IA_Any ''cfstrd%c	%{R:mvd%12-15d%}, %A'',
    neon_row ''Cfstr32'' 0x0d000500 0x0f500f00 IA_Any ''cfstr32%c	%{R:mvfx%12-15d%}, %A'',
    neon_row ''Cfstr32'' 0x0c000500 0x0f500f00 IA_Any ''cfstr32%c	%{R:mvfx%12-15d%}, %A'',
    neon_row ''Cfstr64'' 0x0d400500 0x0f500f00 IA_Any ''cfstr64%c	%{R:mvdx%12-15d%}, %A'',
    neon_row ''Cfstr64'' 0x0c400500 0x0f500f00 IA_Any ''cfstr64%c	%{R:mvdx%12-15d%}, %A'',
    neon_row ''Cfmvsr'' 0x0e000450 0x0ff00ff0 IA_Any ''cfmvsr%c	%{R:mvf%16-19d%}, %12-15r'',
    neon_row ''Cfmvrs'' 0x0e100450 0x0ff00ff0 IA_Any ''cfmvrs%c	%12-15r, %{R:mvf%16-19d%}'',
    neon_row ''Cfmvdlr'' 0x0e000410 0x0ff00ff0 IA_Any ''cfmvdlr%c	%{R:mvd%16-19d%}, %12-15r'',
    neon_row ''Cfmvrdl'' 0x0e100410 0x0ff00ff0 IA_Any ''cfmvrdl%c	%12-15r, %{R:mvd%16-19d%}'',
    neon_row ''Cfmvdhr'' 0x0e000430 0x0ff00ff0 IA_Any ''cfmvdhr%c	%{R:mvd%16-19d%}, %12-15r'',
    neon_row ''Cfmvrdh'' 0x0e100430 0x0ff00fff IA_Any ''cfmvrdh%c	%12-15r, %{R:mvd%16-19d%}'',
    neon_row ''Cfmv64lr'' 0x0e000510 0x0ff00fff IA_Any ''cfmv64lr%c	%{R:mvdx%16-19d%}, %12-15r'',
    neon_row ''Cfmvr64l'' 0x0e100510 0x0ff00fff IA_Any ''cfmvr64l%c	%12-15r, %{R:mvdx%16-19d%}'',
    neon_row ''Cfmv64hr'' 0x0e000530 0x0ff00fff IA_Any ''cfmv64hr%c	%{R:mvdx%16-19d%}, %12-15r'',
    neon_row ''Cfmvr64h'' 0x0e100530 0x0ff00fff IA_Any ''cfmvr64h%c	%12-15r, %{R:mvdx%16-19d%}'',
    neon_row ''Cfmval32'' 0x0e200440 0x0ff00fff IA_Any ''cfmval32%c	%{R:mvax%12-15d%}, %{R:mvfx%16-19d%}'',
    neon_row ''Cfmv32al'' 0x0e100440 0x0ff00fff IA_Any ''cfmv32al%c	%{R:mvfx%12-15d%}, %{R:mvax%16-19d%}'',
    neon_row ''Cfmvam32'' 0x0e200460 0x0ff00fff IA_Any ''cfmvam32%c	%{R:mvax%12-15d%}, %{R:mvfx%16-19d%}'',
    neon_row ''Cfmv32am'' 0x0e100460 0x0ff00fff IA_Any ''cfmv32am%c	%{R:mvfx%12-15d%}, %{R:mvax%16-19d%}'',
    neon_row ''Cfmvah32'' 0x0e200480 0x0ff00fff IA_Any ''cfmvah32%c	%{R:mvax%12-15d%}, %{R:mvfx%16-19d%}'',
    neon_row ''Cfmv32ah'' 0x0e100480 0x0ff00fff IA_Any ''cfmv32ah%c	%{R:mvfx%12-15d%}, %{R:mvax%16-19d%}'',
    neon_row ''Cfmva32'' 0x0e2004a0 0x0ff00fff IA_Any ''cfmva32%c	%{R:mvax%12-15d%}, %{R:mvfx%16-19d%}'',
    neon_row ''Cfmv32a'' 0x0e1004a0 0x0ff00fff IA_Any ''cfmv32a%c	%{R:mvfx%12-15d%}, %{R:mvax%16-19d%}'',
    neon_row ''Cfmva64'' 0x0e2004c0 0x0ff00fff IA_Any ''cfmva64%c	%{R:mvax%12-15d%}, %{R:mvdx%16-19d%}'',
    neon_row ''Cfmv64a'' 0x0e1004c0 0x0ff00fff IA_Any ''cfmv64a%c	%{R:mvdx%12-15d%}, %{R:mvax%16-19d%}'',
    neon_row ''Cfmvsc32'' 0x0e2004e0 0x0fff0fff IA_Any ''cfmvsc32%c	%{R:dspsc%}, %{R:mvdx%12-15d%}'',
    neon_row ''Cfmv32sc'' 0x0e1004e0 0x0fff0fff IA_Any ''cfmv32sc%c	%{R:mvdx%12-15d%}, %{R:dspsc%}'',
    neon_row ''Cfcpys'' 0x0e000400 0x0ff00fff IA_Any ''cfcpys%c	%{R:mvf%12-15d%}, %{R:mvf%16-19d%}'',
    neon_row ''Cfcpyd'' 0x0e000420 0x0ff00fff IA_Any ''cfcpyd%c	%{R:mvd%12-15d%}, %{R:mvd%16-19d%}'',
    neon_row ''Cfcvtsd'' 0x0e000460 0x0ff00fff IA_Any ''cfcvtsd%c	%{R:mvd%12-15d%}, %{R:mvf%16-19d%}'',
    neon_row ''Cfcvtds'' 0x0e000440 0x0ff00fff IA_Any ''cfcvtds%c	%{R:mvf%12-15d%}, %{R:mvd%16-19d%}'',
    neon_row ''Cfcvt32s'' 0x0e000480 0x0ff00fff IA_Any ''cfcvt32s%c	%{R:mvf%12-15d%}, %{R:mvfx%16-19d%}'',
    neon_row ''Cfcvt32d'' 0x0e0004a0 0x0ff00fff IA_Any ''cfcvt32d%c	%{R:mvd%12-15d%}, %{R:mvfx%16-19d%}'',
    neon_row ''Cfcvt64s'' 0x0e0004c0 0x0ff00fff IA_Any ''cfcvt64s%c	%{R:mvf%12-15d%}, %{R:mvdx%16-19d%}'',
    neon_row ''Cfcvt64d'' 0x0e0004e0 0x0ff00fff IA_Any ''cfcvt64d%c	%{R:mvd%12-15d%}, %{R:mvdx%16-19d%}'',
    neon_row ''Cfcvts32'' 0x0e100580 0x0ff00fff IA_Any ''cfcvts32%c	%{R:mvfx%12-15d%}, %{R:mvf%16-19d%}'',
    neon_row ''Cfcvtd32'' 0x0e1005a0 0x0ff00fff IA_Any ''cfcvtd32%c	%{R:mvfx%12-15d%}, %{R:mvd%16-19d%}'',
    neon_row ''Cftruncs32'' 0x0e1005c0 0x0ff00fff IA_Any ''cftruncs32%c	%{R:mvfx%12-15d%}, %{R:mvf%16-19d%}'',
    neon_row ''Cftruncd32'' 0x0e1005e0 0x0ff00fff IA_Any ''cftruncd32%c	%{R:mvfx%12-15d%}, %{R:mvd%16-19d%}'',
    neon_row ''Cfrshl32'' 0x0e000550 0x0ff00ff0 IA_Any ''cfrshl32%c	%{R:mvfx%16-19d%}, %{R:mvfx%0-3d%}, %12-15r'',
    neon_row ''Cfrshl64'' 0x0e000570 0x0ff00ff0 IA_Any ''cfrshl64%c	%{R:mvdx%16-19d%}, %{R:mvdx%0-3d%}, %12-15r'',
    neon_row ''Cfsh32'' 0x0e000500 0x0ff00f10 IA_Any ''cfsh32%c	%{R:mvfx%12-15d%}, %{R:mvfx%16-19d%}, %{I:#%I%}'',
    neon_row ''Cfsh64'' 0x0e200500 0x0ff00f10 IA_Any ''cfsh64%c	%{R:mvdx%12-15d%}, %{R:mvdx%16-19d%}, %{I:#%I%}'',
    neon_row ''Cfcmps'' 0x0e100490 0x0ff00ff0 IA_Any ''cfcmps%c	%12-15r, %{R:mvf%16-19d%}, %{R:mvf%0-3d%}'',
    neon_row ''Cfcmpd'' 0x0e1004b0 0x0ff00ff0 IA_Any ''cfcmpd%c	%12-15r, %{R:mvd%16-19d%}, %{R:mvd%0-3d%}'',
    neon_row ''Cfcmp32'' 0x0e100590 0x0ff00ff0 IA_Any ''cfcmp32%c	%12-15r, %{R:mvfx%16-19d%}, %{R:mvfx%0-3d%}'',
    neon_row ''Cfcmp64'' 0x0e1005b0 0x0ff00ff0 IA_Any ''cfcmp64%c	%12-15r, %{R:mvdx%16-19d%}, %{R:mvdx%0-3d%}'',
    neon_row ''Cfabss'' 0x0e300400 0x0ff00fff IA_Any ''cfabss%c	%{R:mvf%12-15d%}, %{R:mvf%16-19d%}'',
    neon_row ''Cfabsd'' 0x0e300420 0x0ff00fff IA_Any ''cfabsd%c	%{R:mvd%12-15d%}, %{R:mvd%16-19d%}'',
    neon_row ''Cfnegs'' 0x0e300440 0x0ff00fff IA_Any ''cfnegs%c	%{R:mvf%12-15d%}, %{R:mvf%16-19d%}'',
    neon_row ''Cfnegd'' 0x0e300460 0x0ff00fff IA_Any ''cfnegd%c	%{R:mvd%12-15d%}, %{R:mvd%16-19d%}'',
    neon_row ''Cfadds'' 0x0e300480 0x0ff00ff0 IA_Any ''cfadds%c	%{R:mvf%12-15d%}, %{R:mvf%16-19d%}, %{R:mvf%0-3d%}'',
    neon_row ''Cfaddd'' 0x0e3004a0 0x0ff00ff0 IA_Any ''cfaddd%c	%{R:mvd%12-15d%}, %{R:mvd%16-19d%}, %{R:mvd%0-3d%}'',
    neon_row ''Cfsubs'' 0x0e3004c0 0x0ff00ff0 IA_Any ''cfsubs%c	%{R:mvf%12-15d%}, %{R:mvf%16-19d%}, %{R:mvf%0-3d%}'',
    neon_row ''Cfsubd'' 0x0e3004e0 0x0ff00ff0 IA_Any ''cfsubd%c	%{R:mvd%12-15d%}, %{R:mvd%16-19d%}, %{R:mvd%0-3d%}'',
    neon_row ''Cfmuls'' 0x0e100400 0x0ff00ff0 IA_Any ''cfmuls%c	%{R:mvf%12-15d%}, %{R:mvf%16-19d%}, %{R:mvf%0-3d%}'',
    neon_row ''Cfmuld'' 0x0e100420 0x0ff00ff0 IA_Any ''cfmuld%c	%{R:mvd%12-15d%}, %{R:mvd%16-19d%}, %{R:mvd%0-3d%}'',
    neon_row ''Cfabs32'' 0x0e300500 0x0ff00fff IA_Any ''cfabs32%c	%{R:mvfx%12-15d%}, %{R:mvfx%16-19d%}'',
    neon_row ''Cfabs64'' 0x0e300520 0x0ff00fff IA_Any ''cfabs64%c	%{R:mvdx%12-15d%}, %{R:mvdx%16-19d%}'',
    neon_row ''Cfneg32'' 0x0e300540 0x0ff00fff IA_Any ''cfneg32%c	%{R:mvfx%12-15d%}, %{R:mvfx%16-19d%}'',
    neon_row ''Cfneg64'' 0x0e300560 0x0ff00fff IA_Any ''cfneg64%c	%{R:mvdx%12-15d%}, %{R:mvdx%16-19d%}'',
    neon_row ''Cfadd32'' 0x0e300580 0x0ff00ff0 IA_Any ''cfadd32%c	%{R:mvfx%12-15d%}, %{R:mvfx%16-19d%}, %{R:mvfx%0-3d%}'',
    neon_row ''Cfadd64'' 0x0e3005a0 0x0ff00ff0 IA_Any ''cfadd64%c	%{R:mvdx%12-15d%}, %{R:mvdx%16-19d%}, %{R:mvdx%0-3d%}'',
    neon_row ''Cfsub32'' 0x0e3005c0 0x0ff00ff0 IA_Any ''cfsub32%c	%{R:mvfx%12-15d%}, %{R:mvfx%16-19d%}, %{R:mvfx%0-3d%}'',
    neon_row ''Cfsub64'' 0x0e3005e0 0x0ff00ff0 IA_Any ''cfsub64%c	%{R:mvdx%12-15d%}, %{R:mvdx%16-19d%}, %{R:mvdx%0-3d%}'',
    neon_row ''Cfmul32'' 0x0e100500 0x0ff00ff0 IA_Any ''cfmul32%c	%{R:mvfx%12-15d%}, %{R:mvfx%16-19d%}, %{R:mvfx%0-3d%}'',
    neon_row ''Cfmul64'' 0x0e100520 0x0ff00ff0 IA_Any ''cfmul64%c	%{R:mvdx%12-15d%}, %{R:mvdx%16-19d%}, %{R:mvdx%0-3d%}'',
    neon_row ''Cfmac32'' 0x0e100540 0x0ff00ff0 IA_Any ''cfmac32%c	%{R:mvfx%12-15d%}, %{R:mvfx%16-19d%}, %{R:mvfx%0-3d%}'',
    neon_row ''Cfmsc32'' 0x0e100560 0x0ff00ff0 IA_Any ''cfmsc32%c	%{R:mvfx%12-15d%}, %{R:mvfx%16-19d%}, %{R:mvfx%0-3d%}'',
    neon_row ''Cfmadd32'' 0x0e000600 0x0ff00f10 IA_Any ''cfmadd32%c	%{R:mvax%5-7d%}, %{R:mvfx%12-15d%}, %{R:mvfx%16-19d%}, %{R:mvfx%0-3d%}'',
    neon_row ''Cfmsub32'' 0x0e100600 0x0ff00f10 IA_Any ''cfmsub32%c	%{R:mvax%5-7d%}, %{R:mvfx%12-15d%}, %{R:mvfx%16-19d%}, %{R:mvfx%0-3d%}'',
    neon_row ''Cfmadda32'' 0x0e200600 0x0ff00f10 IA_Any ''cfmadda32%c	%{R:mvax%5-7d%}, %{R:mvax%12-15d%}, %{R:mvfx%16-19d%}, %{R:mvfx%0-3d%}'',
    neon_row ''Cfmsuba32'' 0x0e300600 0x0ff00f10 IA_Any ''cfmsuba32%c	%{R:mvax%5-7d%}, %{R:mvax%12-15d%}, %{R:mvfx%16-19d%}, %{R:mvfx%0-3d%}'',
    neon_row ''Vfma'' 0x0ea00a00 0x0fb00f50 IA_Any ''vfma%c.f32	%y1, %y2, %y0'',
    neon_row ''Vfma'' 0x0ea00b00 0x0fb00f50 IA_Any ''vfma%c.f64	%z1, %z2, %z0'',
    neon_row ''Vfms'' 0x0ea00a40 0x0fb00f50 IA_Any ''vfms%c.f32	%y1, %y2, %y0'',
    neon_row ''Vfms'' 0x0ea00b40 0x0fb00f50 IA_Any ''vfms%c.f64	%z1, %z2, %z0'',
    neon_row ''Vfnma'' 0x0e900a40 0x0fb00f50 IA_Any ''vfnma%c.f32	%y1, %y2, %y0'',
    neon_row ''Vfnma'' 0x0e900b40 0x0fb00f50 IA_Any ''vfnma%c.f64	%z1, %z2, %z0'',
    neon_row ''Vfnms'' 0x0e900a00 0x0fb00f50 IA_Any ''vfnms%c.f32	%y1, %y2, %y0'',
    neon_row ''Vfnms'' 0x0e900b00 0x0fb00f50 IA_Any ''vfnms%c.f64	%z1, %z2, %z0'',
    neon_row ''Vsel'' 0xfe000a00 0xff800f50 IA_Any ''vsel%20-21c%u.f32	%y1, %y2, %y0'',
    neon_row ''Vsel'' 0xfe000b00 0xff800f50 IA_Any ''vsel%20-21c%u.f64	%z1, %z2, %z0'',
    neon_row ''Vmaxnm'' 0xfe800a00 0xffb00f50 IA_Any ''vmaxnm%u.f32	%y1, %y2, %y0'',
    neon_row ''Vmaxnm'' 0xfe800b00 0xffb00f50 IA_Any ''vmaxnm%u.f64	%z1, %z2, %z0'',
    neon_row ''Vminnm'' 0xfe800a40 0xffb00f50 IA_Any ''vminnm%u.f32	%y1, %y2, %y0'',
    neon_row ''Vminnm'' 0xfe800b40 0xffb00f50 IA_Any ''vminnm%u.f64	%z1, %z2, %z0'',
    neon_row ''Vcvt'' 0xfebc0a40 0xffbc0f50 IA_Any ''vcvt%16-17?mpna%u.%7?su32.f32	%y1, %y0'',
    neon_row ''Vcvt'' 0xfebc0b40 0xffbc0f50 IA_Any ''vcvt%16-17?mpna%u.%7?su32.f64	%y1, %z0'',
    neon_row ''Vrint'' 0x0eb60a40 0x0fbe0f50 IA_Any ''vrint%7,16??xzr%c.f32	%y1, %y0'',
    neon_row ''Vrint'' 0x0eb60b40 0x0fbe0f50 IA_Any ''vrint%7,16??xzr%c.f64	%z1, %z0'',
    neon_row ''Vrint'' 0xfeb80a40 0xffbc0fd0 IA_Any ''vrint%16-17?mpna%u.f32	%y1, %y0'',
    neon_row ''Vrint'' 0xfeb80b40 0xffbc0fd0 IA_Any ''vrint%16-17?mpna%u.f64	%z1, %z0'',
    neon_row ''Vcadd'' 0xfc800800 0xfeb00f10 IA_Any ''vcadd%c.f16	%12-15,22V, %16-19,7V, %0-3,5V, %{I:#%24?29%24\\'70%}'',
    neon_row ''Vcadd'' 0xfc900800 0xfeb00f10 IA_Any ''vcadd%c.f32	%12-15,22V, %16-19,7V, %0-3,5V, %{I:#%24?29%24\\'70%}'',
    neon_row ''Vcmla'' 0xfc200800 0xff300f10 IA_Any ''vcmla%c.f16	%12-15,22V, %16-19,7V, %0-3,5V, %{I:#%23\\'90%}'',
    neon_row ''Vcmla'' 0xfd200800 0xff300f10 IA_Any ''vcmla%c.f16	%12-15,22V, %16-19,7V, %0-3,5V, %{I:#%23?21%23?780%}'',
    neon_row ''Vcmla'' 0xfc300800 0xff300f10 IA_Any ''vcmla%c.f32	%12-15,22V, %16-19,7V, %0-3,5V, %{I:#%23\\'90%}'',
    neon_row ''Vcmla'' 0xfd300800 0xff300f10 IA_Any ''vcmla%c.f32	%12-15,22V, %16-19,7V, %0-3,5V, %{I:#%23?21%23?780%}'',
    neon_row ''Vcmla'' 0xfe000800 0xffa00f10 IA_Any ''vcmla%c.f16	%12-15,22V, %16-19,7V, %{R:%0-3D[%5?10]%}, %{I:#%20\\'90%}'',
    neon_row ''Vcmla'' 0xfe200800 0xffa00f10 IA_Any ''vcmla%c.f16	%12-15,22V, %16-19,7V, %{R:%0-3D[%5?10]%}, %{I:#%20?21%20?780%}'',
    neon_row ''Vcmla'' 0xfe800800 0xffa00f10 IA_Any ''vcmla%c.f32	%12-15,22V, %16-19,7V, %{R:%0-3,5D[0]%}, %{I:#%20\\'90%}'',
    neon_row ''Vcmla'' 0xfea00800 0xffa00f10 IA_Any ''vcmla%c.f32	%12-15,22V, %16-19,7V, %{R:%0-3,5D[0]%}, %{I:#%20?21%20?780%}'',
    neon_row ''Vcvt'' 0x0eb30940 0x0fbf0f50 IA_Any ''vcvt%7?tb%b.bf16.f32	%y1, %y0'',
    neon_row ''V'' 0xfc200d00 0xffb00f00 IA_Any ''v%4?usdot.%4?us8	%12-15,22V, %16-19,7V, %0-3,5V'',
    neon_row ''V'' 0xfe200d00 0xff200f00 IA_Any ''v%4?usdot.%4?us8	%12-15,22V, %16-19,7V, %{R:%0-3D[%5?10]%}'']"

definition neon_rows_7 :: "neon_opcode list" where
  "neon_rows_7 = [
    neon_row ''VfmalF16'' 0xfc200810 0xffb00f50 IA_Any ''vfmal.f16	%12-15,22D, %{R:s%7,16-19d%}, %{R:s%5,0-3d%}'',
    neon_row ''VfmslF16'' 0xfca00810 0xffb00f50 IA_Any ''vfmsl.f16	%12-15,22D, %{R:s%7,16-19d%}, %{R:s%5,0-3d%}'',
    neon_row ''VfmalF16'' 0xfc200850 0xffb00f50 IA_Any ''vfmal.f16	%12-15,22Q, %{R:d%16-19,7d%}, %{R:d%0-3,5d%}'',
    neon_row ''VfmslF16'' 0xfca00850 0xffb00f50 IA_Any ''vfmsl.f16	%12-15,22Q, %{R:d%16-19,7d%}, %{R:d%0-3,5d%}'',
    neon_row ''VfmalF16'' 0xfe000810 0xffb00f50 IA_Any ''vfmal.f16	%12-15,22D, %{R:s%7,16-19d%}, %{R:s%5,0-2d[%3d]%}'',
    neon_row ''VfmslF16'' 0xfe100810 0xffb00f50 IA_Any ''vfmsl.f16	%12-15,22D, %{R:s%7,16-19d%}, %{R:s%5,0-2d[%3d]%}'',
    neon_row ''VfmalF16'' 0xfe000850 0xffb00f50 IA_Any ''vfmal.f16	%12-15,22Q, %{R:d%16-19,7d%}, %{R:d%0-2d[%3,5d]%}'',
    neon_row ''VfmslF16'' 0xfe100850 0xffb00f50 IA_Any ''vfmsl.f16	%12-15,22Q, %{R:d%16-19,7d%}, %{R:d%0-2d[%3,5d]%}'',
    neon_row ''Vabs'' 0x0eb009c0 0x0fbf0fd0 IA_Any ''vabs%c.f16	%y1, %y0'',
    neon_row ''Vadd'' 0x0e300900 0x0fb00f50 IA_Any ''vadd%c.f16	%y1, %y2, %y0'',
    neon_row ''Vcmp'' 0x0eb40940 0x0fbf0f50 IA_Any ''vcmp%7\\'e%c.f16	%y1, %y0'',
    neon_row ''Vcmp'' 0x0eb50940 0x0fbf0f70 IA_Any ''vcmp%7\\'e%c.f16	%y1, %{I:#0.0%}'',
    neon_row ''Vcvt'' 0x0eba09c0 0x0fbe0fd0 IA_Any ''vcvt%c.f16.%16?us%7?31%7?26	%y1, %y1, %{I:#%5,0-3k%}'',
    neon_row ''Vcvt'' 0x0ebe09c0 0x0fbe0fd0 IA_Any ''vcvt%c.%16?us%7?31%7?26.f16	%y1, %y1, %{I:#%5,0-3k%}'',
    neon_row ''Vcvt'' 0x0ebc0940 0x0fbe0f50 IA_Any ''vcvt%7`r%c.%16?su32.f16	%y1, %y0'',
    neon_row ''Vcvt'' 0x0eb80940 0x0fbf0f50 IA_Any ''vcvt%c.f16.%7?su32	%y1, %y0'',
    neon_row ''Vcvt'' 0xfebc0940 0xffbc0f50 IA_Any ''vcvt%16-17?mpna%u.%7?su32.f16	%y1, %y0'',
    neon_row ''Vdiv'' 0x0e800900 0x0fb00f50 IA_Any ''vdiv%c.f16	%y1, %y2, %y0'',
    neon_row ''Vfma'' 0x0ea00900 0x0fb00f50 IA_Any ''vfma%c.f16	%y1, %y2, %y0'',
    neon_row ''Vfms'' 0x0ea00940 0x0fb00f50 IA_Any ''vfms%c.f16	%y1, %y2, %y0'',
    neon_row ''Vfnma'' 0x0e900940 0x0fb00f50 IA_Any ''vfnma%c.f16	%y1, %y2, %y0'',
    neon_row ''Vfnms'' 0x0e900900 0x0fb00f50 IA_Any ''vfnms%c.f16	%y1, %y2, %y0'',
    neon_row ''VinsF16'' 0xfeb00ac0 0xffbf0fd0 IA_Any ''vins.f16	%y1, %y0'',
    neon_row ''Vmovx'' 0xfeb00a40 0xffbf0fd0 IA_Any ''vmovx%c.f16	%y1, %y0'',
    neon_row ''Vldr'' 0x0d100900 0x0f300f00 IA_Any ''vldr%c.16	%y1, %A'',
    neon_row ''Vstr'' 0x0d000900 0x0f300f00 IA_Any ''vstr%c.16	%y1, %A'',
    neon_row ''Vmaxnm'' 0xfe800900 0xffb00f50 IA_Any ''vmaxnm%c.f16	%y1, %y2, %y0'',
    neon_row ''Vminnm'' 0xfe800940 0xffb00f50 IA_Any ''vminnm%c.f16	%y1, %y2, %y0'',
    neon_row ''Vmla'' 0x0e000900 0x0fb00f50 IA_Any ''vmla%c.f16	%y1, %y2, %y0'',
    neon_row ''Vmls'' 0x0e000940 0x0fb00f50 IA_Any ''vmls%c.f16	%y1, %y2, %y0'',
    neon_row ''Vmov'' 0x0e100910 0x0ff00f7f IA_Any ''vmov%c.f16	%12-15r, %y2'',
    neon_row ''Vmov'' 0x0e000910 0x0ff00f7f IA_Any ''vmov%c.f16	%y2, %12-15r'',
    neon_row ''Vmov'' 0x0eb00900 0x0fb00ff0 IA_Any ''vmov%c.f16	%y1, %{I:#%0-3,16-19E%}'',
    neon_row ''Vmul'' 0x0e200900 0x0fb00f50 IA_Any ''vmul%c.f16	%y1, %y2, %y0'',
    neon_row ''Vneg'' 0x0eb10940 0x0fbf0fd0 IA_Any ''vneg%c.f16	%y1, %y0'',
    neon_row ''Vnmla'' 0x0e100940 0x0fb00f50 IA_Any ''vnmla%c.f16	%y1, %y2, %y0'',
    neon_row ''Vnmls'' 0x0e100900 0x0fb00f50 IA_Any ''vnmls%c.f16	%y1, %y2, %y0'',
    neon_row ''Vnmul'' 0x0e200940 0x0fb00f50 IA_Any ''vnmul%c.f16	%y1, %y2, %y0'',
    neon_row ''Vrint'' 0x0eb60940 0x0fbe0f50 IA_Any ''vrint%7,16??xzr%c.f16	%y1, %y0'',
    neon_row ''Vrint'' 0xfeb80940 0xffbc0fd0 IA_Any ''vrint%16-17?mpna%u.f16	%y1, %y0'',
    neon_row ''Vsel'' 0xfe000900 0xff800f50 IA_Any ''vsel%20-21c%u.f16	%y1, %y2, %y0'',
    neon_row ''Vsqrt'' 0x0eb109c0 0x0fbf0fd0 IA_Any ''vsqrt%c.f16	%y1, %y0'',
    neon_row ''Vsub'' 0x0e300940 0x0fb00f50 IA_Any ''vsub%c.f16	%y1, %y2, %y0'',
    neon_row ''Vjcvt'' 0x0eb90bc0 0x0fbf0fd0 IA_Any ''vjcvt%c.s32.f64	%y1, %z0'',
    neon_row ''Mcrr'' 0x0c400000 0x0ff00000 IA_Any ''mcrr%c	%{I:%8-11d%}, %{I:%4-7d%}, %12-15R, %16-19r, %{R:cr%0-3d%}'',
    neon_row ''Mrrc'' 0x0c500000 0x0ff00000 IA_Any ''mrrc%c	%{I:%8-11d%}, %{I:%4-7d%}, %12-15Ru, %16-19Ru, %{R:cr%0-3d%}'',
    neon_row ''Cdp'' 0x0e000000 0x0f000010 IA_Any ''cdp%c	%{I:%8-11d%}, %{I:%20-23d%}, %{R:cr%12-15d%}, %{R:cr%16-19d%}, %{R:cr%0-3d%}, {%{I:%5-7d%}}'',
    neon_row ''Mrc'' 0x0e10f010 0x0f10f010 IA_Any ''mrc%c	%{I:%8-11d%}, %{I:%21-23d%}, %{R:APSR_nzcv%}, %{R:cr%16-19d%}, %{R:cr%0-3d%}, {%{I:%5-7d%}}'',
    neon_row ''Mrc'' 0x0e100010 0x0f100010 IA_Any ''mrc%c	%{I:%8-11d%}, %{I:%21-23d%}, %12-15r, %{R:cr%16-19d%}, %{R:cr%0-3d%}, {%{I:%5-7d%}}'',
    neon_row ''Mcr'' 0x0e000010 0x0f100010 IA_Any ''mcr%c	%{I:%8-11d%}, %{I:%21-23d%}, %12-15R, %{R:cr%16-19d%}, %{R:cr%0-3d%}, {%{I:%5-7d%}}'',
    neon_row ''Stc'' 0x0c000000 0x0e100000 IA_Any ''stc%22\\'l%c	%{I:%8-11d%}, %{R:cr%12-15d%}, %A'',
    neon_row ''Ldc'' 0x0c100000 0x0e100000 IA_Any ''ldc%22\\'l%c	%{I:%8-11d%}, %{R:cr%12-15d%}, %A'',
    neon_row ''Mrrc2'' 0xfc500000 0xfff00000 IA_Any ''mrrc2%c	%{I:%8-11d%}, %{I:%4-7d%}, %12-15Ru, %16-19Ru, %{R:cr%0-3d%}'',
    neon_row ''Mcrr2'' 0xfc400000 0xfff00000 IA_Any ''mcrr2%c	%{I:%8-11d%}, %{I:%4-7d%}, %12-15R, %16-19R, %{R:cr%0-3d%}'',
    neon_row ''Ldc2'' 0xfc100000 0xfe100000 IA_Any ''ldc2%22\\'l%c	%{I:%8-11d%}, %{R:cr%12-15d%}, %A'',
    neon_row ''Stc2'' 0xfc000000 0xfe100000 IA_Any ''stc2%22\\'l%c	%{I:%8-11d%}, %{R:cr%12-15d%}, %A'',
    neon_row ''Cdp2'' 0xfe000000 0xff000010 IA_Any ''cdp2%c	%{I:%8-11d%}, %{I:%20-23d%}, %{R:cr%12-15d%}, %{R:cr%16-19d%}, %{R:cr%0-3d%}, {%{I:%5-7d%}}'',
    neon_row ''Mcr2'' 0xfe000010 0xff100010 IA_Any ''mcr2%c	%{I:%8-11d%}, %{I:%21-23d%}, %12-15R, %{R:cr%16-19d%}, %{R:cr%0-3d%}, {%{I:%5-7d%}}'',
    neon_row ''Mrc2'' 0xfe100010 0xff100010 IA_Any ''mrc2%c	%{I:%8-11d%}, %{I:%21-23d%}, %12-15r, %{R:cr%16-19d%}, %{R:cr%0-3d%}, {%{I:%5-7d%}}'']"

definition neon_opcode_table :: "neon_opcode list" where
  "neon_opcode_table = neon_rows_1 @ neon_rows_2 @ neon_rows_3 @ neon_rows_4 @ neon_rows_5 @ neon_rows_6 @ neon_rows_7"

section \<open>Search\<close>

text \<open>The Arm form of a Thumb NEON word.\<close>

definition normalise_neon_thumb :: "u32 \<Rightarrow> u32 option" where
  "normalise_neon_thumb given =
     (if given AND 0xef000000 = 0xef000000 then
        let bit28 = given AND push_bit 28 1 in
        Some ((given AND 0x00ffffff) OR (if bit28 \<noteq> 0 then 0xf3000000 else 0xf2000000))
      else if given AND 0xff000000 = 0xf9000000 then Some (given XOR (0xf9000000 XOR 0xf4000000))
      else if given AND 0xff000000 = 0xfe000000 \<or> given AND 0xff000000 = 0xfc000000 then Some given
      else if given AND 0xff900f5f = 0xee800b10 then Some given
      else None)"

definition neon_row_matches :: "u32 \<Rightarrow> neon_opcode \<Rightarrow> bool" where
  "neon_row_matches norm row \<longleftrightarrow>
     ne_isa row = IA_Neon \<and>
     (if ne_mask row AND 0xf0000000 = 0 then norm AND (ne_mask row OR 0xf0000000) = ne_opcode row OR 0xe0000000
      else norm AND ne_mask row = ne_opcode row)"

definition coprocessor_row_matches :: "u32 \<Rightarrow> neon_opcode \<Rightarrow> bool" where
  "coprocessor_row_matches w row \<longleftrightarrow>
     ne_isa row \<noteq> IA_Neon \<and> ne_isa row \<noteq> IA_Arm \<and>
     w AND (ne_mask row OR 0xf0000000) = ne_opcode row OR 0xe0000000"

definition match_neon_thumb :: "u32 \<Rightarrow> (neon_opcode \<times> u32) option" where
  "match_neon_thumb w =
     (case Option.bind (normalise_neon_thumb w)
             (\<lambda>norm. map_option (\<lambda>row. (row, norm)) (List.find (neon_row_matches norm) neon_opcode_table)) of
        Some r \<Rightarrow> Some r
      | None \<Rightarrow>
          let coproc_word = (w AND 0x0fffffff) OR 0xe0000000 in
          map_option (\<lambda>row. (row, coproc_word)) (List.find (coprocessor_row_matches coproc_word) neon_opcode_table))"

definition match_neon_arm :: "u32 \<Rightarrow> neon_opcode option" where
  "match_neon_arm w =
     List.find (\<lambda>row. ne_isa row \<noteq> IA_Thumb \<and> w AND ne_mask row = ne_opcode row) neon_opcode_table"

end
