(* ===== verification/T32_Encode.thy ===== *)
theory T32_Encode
  imports T32_Decode T32_Table Neon_Table
begin

text \<open>
  Encoding Thumb instructions (\<open>src/src/isa/armv7/encode.rs\<close>): the walk over the format that consumes
  operands and writes their bits into a word that starts as the row's opcode. Once it has an operand,
  the packer consumes it whenever it succeeds. The operand of a wrapped escape is numbered from the
  start of the wrapper, as in the source.
\<close>

section \<open>Expected operands\<close>

primrec operand_kind :: "arm_operand \<Rightarrow> string" where
  "operand_kind (AO_Register r) = ''Register''"
| "operand_kind (AO_Immediate v) = ''Immediate''"
| "operand_kind (AO_BranchTarget t) = ''BranchTarget''"
| "operand_kind (AO_PcRelative t) = ''PcRelative''"
| "operand_kind (AO_RegisterList m) = ''RegisterList''"
| "operand_kind (AO_Condition c) = ''Condition''"
| "operand_kind (AO_OpaqueBits b m) = ''OpaqueBits''"

definition expect_register :: "arm_operand \<Rightarrow> nat \<Rightarrow> string \<Rightarrow> arm_encode_error + arm_register" where
  "expect_register opnd slot code =
     (case opnd of AO_Register r \<Rightarrow> Ok r | _ \<Rightarrow> Err (AEE_OperandShapeMismatch slot code (operand_kind opnd)))"

definition expect_immediate :: "arm_operand \<Rightarrow> nat \<Rightarrow> string \<Rightarrow> arm_encode_error + i64" where
  "expect_immediate opnd slot code =
     (case opnd of AO_Immediate v \<Rightarrow> Ok v | _ \<Rightarrow> Err (AEE_OperandShapeMismatch slot code (operand_kind opnd)))"

definition expect_branch_target :: "arm_operand \<Rightarrow> nat \<Rightarrow> string \<Rightarrow> arm_encode_error + u64" where
  "expect_branch_target opnd slot code =
     (case opnd of AO_BranchTarget t \<Rightarrow> Ok t | _ \<Rightarrow> Err (AEE_OperandShapeMismatch slot code (operand_kind opnd)))"

definition expect_pc_relative :: "arm_operand \<Rightarrow> nat \<Rightarrow> string \<Rightarrow> arm_encode_error + u64" where
  "expect_pc_relative opnd slot code =
     (case opnd of AO_PcRelative t \<Rightarrow> Ok t | _ \<Rightarrow> Err (AEE_OperandShapeMismatch slot code (operand_kind opnd)))"

definition expect_register_list :: "arm_operand \<Rightarrow> nat \<Rightarrow> string \<Rightarrow> arm_encode_error + 16 word" where
  "expect_register_list opnd slot code =
     (case opnd of AO_RegisterList m \<Rightarrow> Ok m | _ \<Rightarrow> Err (AEE_OperandShapeMismatch slot code (operand_kind opnd)))"

definition expect_opaque :: "arm_operand \<Rightarrow> nat \<Rightarrow> string \<Rightarrow> u32 \<Rightarrow> arm_encode_error + u32" where
  "expect_opaque opnd slot code w =
     (case opnd of
        AO_OpaqueBits bts msk \<Rightarrow> Ok (splice w bts msk)
      | _ \<Rightarrow> Err (AEE_OperandShapeMismatch slot code (operand_kind opnd)))"

definition unwrap_bitfield :: "string \<Rightarrow> nat \<Rightarrow> string \<Rightarrow> arm_encode_error + nat \<times> nat" where
  "unwrap_bitfield bf slot code = ok_or (parse_bitfield bf) (AEE_OperandShapeMismatch slot code ''bad bitfield'')"

section \<open>Placing values\<close>

definition place_unsigned :: "u32 \<Rightarrow> nat \<Rightarrow> nat \<Rightarrow> i64 \<Rightarrow> nat \<Rightarrow> arm_encode_error + u32" where
  "place_unsigned w lo hi v slot =
     (let width = hi - lo + 1; most = (if 63 \<le> width then 2 ^ 63 - 1 else 2 ^ width - 1)
      in if sint v < 0 \<or> most < sint v then Err (AEE_ImmediateOutOfRange slot v width)
         else Ok (place_field w lo hi (ucast v)))"

definition check_signed_fits :: "i64 \<Rightarrow> nat \<Rightarrow> nat \<Rightarrow> arm_encode_error + unit" where
  "check_signed_fits v bits_wide slot =
     (if sint v < - (2 ^ (bits_wide - 1)) \<or> 2 ^ (bits_wide - 1) \<le> sint v then Err (AEE_BranchOutOfRange slot v bits_wide)
      else Ok ())"

text \<open>The division is exact where it is used.\<close>

definition div_exact :: "i64 \<Rightarrow> int \<Rightarrow> i64" where
  "div_exact v d = word_of_int (sint v div d)"

definition displacement_from :: "u64 \<Rightarrow> u64 \<Rightarrow> i64" where
  "displacement_from target address = target - address - 4"

definition pack_bl_target :: "u32 \<Rightarrow> u64 \<Rightarrow> u64 \<Rightarrow> nat \<Rightarrow> arm_encode_error + u32" where
  "pack_bl_target w target address slot =
     (let d = displacement_from target address in
      if sint d mod 2 \<noteq> 0 then Err (AEE_BranchOutOfRange slot d 25)
      else if \<not> (- (2 ^ 24) \<le> sint d \<and> sint d < 2 ^ 24) then Err (AEE_BranchOutOfRange slot d 25)
      else
        let raw = ucast (d AND (push_bit 25 1 - 1)) :: u32;
            s = ucast (signed_drop_bit 24 d AND 1) :: u32;
            imm10 = drop_bit 12 raw AND 0x3ff;
            imm11 = drop_bit 1 raw AND 0x7ff;
            i1 = drop_bit 23 raw AND 1;
            i2 = drop_bit 22 raw AND 1;
            j1 = (NOT i1 XOR s) AND 1;
            j2 = (NOT i2 XOR s) AND 1;
            w = place_field w 26 26 s;
            w = place_field w 16 25 imm10;
            w = place_field w 13 13 j1;
            w = place_field w 11 11 j2
        in Ok (place_field w 0 10 imm11))"

definition pack_b_cond_wide_target :: "u32 \<Rightarrow> u64 \<Rightarrow> u64 \<Rightarrow> nat \<Rightarrow> arm_encode_error + u32" where
  "pack_b_cond_wide_target w target address slot =
     (let d = displacement_from target address in
      if sint d mod 2 \<noteq> 0 then Err (AEE_BranchOutOfRange slot d 21)
      else if \<not> (- (2 ^ 20) \<le> sint d \<and> sint d < 2 ^ 20) then Err (AEE_BranchOutOfRange slot d 21)
      else
        let raw = ucast (d AND (push_bit 21 1 - 1)) :: u32;
            s = ucast (signed_drop_bit 20 d AND 1) :: u32;
            imm6 = drop_bit 12 raw AND 0x3f;
            imm11 = drop_bit 1 raw AND 0x7ff;
            j1 = drop_bit 17 raw AND 1;
            j2 = drop_bit 18 raw AND 1;
            w = place_field w 26 26 s;
            w = place_field w 16 21 imm6;
            w = place_field w 13 13 j1;
            w = place_field w 11 11 j2
        in Ok (place_field w 0 10 imm11))"

definition rotl32 :: "nat \<Rightarrow> u32 \<Rightarrow> u32" where
  "rotl32 n v = word_rotl n v"

definition thumb_expand_imm_inverse :: "i64 \<Rightarrow> u32 option" where
  "thumb_expand_imm_inverse value64 =
     (if \<not> (0 \<le> sint value64 \<and> sint value64 \<le> 2 ^ 32 - 1) then None
      else
        let v = ucast value64 :: u32; low8 = v AND 0xff; low8b = drop_bit 8 v AND 0xff in
        if v \<le> 0xff then Some v
        else if v = push_bit 16 low8 OR low8 then Some (push_bit 8 1 OR low8)
        else if v = push_bit 24 low8b OR push_bit 8 low8b \<and> low8 = 0 then Some (push_bit 8 2 OR low8b)
        else if v = push_bit 24 low8 OR push_bit 16 low8 OR push_bit 8 low8 OR low8 then Some (push_bit 8 3 OR low8)
        else
          find_map (\<lambda>rot.
              let candidate = rotl32 rot v in
              if drop_bit 8 candidate = 0 \<and> candidate AND 0x80 \<noteq> 0
              then Some (push_bit 7 (word_of_nat rot) OR (candidate AND 0x7f)) else None)
            [0..<32])"

section \<open>Packing one operand\<close>

text \<open>Codes with a bit field.\<close>

definition place_multiple :: "u32 \<Rightarrow> nat \<Rightarrow> nat \<Rightarrow> i64 \<Rightarrow> int \<Rightarrow> nat \<Rightarrow> arm_encode_error + u32" where
  "place_multiple w lo hi v d slot =
     (if sint v mod d \<noteq> 0 then Err (AEE_ImmediateOutOfRange slot v (hi - lo + 1))
      else place_unsigned w lo hi (div_exact v d) slot)"

definition pack_field :: "char \<Rightarrow> string \<Rightarrow> arm_operand \<Rightarrow> nat \<Rightarrow> u32 \<Rightarrow> (arm_encode_error + u32) option" where
  "pack_field code bf opnd slot w =
     (if bf = [] then None
      else if code \<in> set ''rRS'' then
        Some (and_then (unwrap_bitfield bf slot ''r/R/S'') (\<lambda>(lo, hi).
              and_then (expect_register opnd slot ''r/R/S'') (\<lambda>reg.
              if push_bit (hi - lo + 1) 1 - 1 < (ucast (ag_index reg) :: u32)
              then Err (AEE_RegisterOutOfRange slot (ag_index reg) (unat (ucast (push_bit (hi - lo + 1) 1 - 1 :: u32) :: u8)))
              else Ok (place_field w lo hi (ucast (ag_index reg))))))
      else if code = CHR ''d'' then
        Some (and_then (unwrap_bitfield bf slot ''d'') (\<lambda>(lo, hi).
              and_then (expect_immediate opnd slot ''d'') (\<lambda>v. place_unsigned w lo hi v slot)))
      else if code = CHR ''D'' then
        Some (and_then (unwrap_bitfield bf slot ''D'') (\<lambda>(lo, hi).
              and_then (expect_immediate opnd slot ''D'') (\<lambda>v.
              if sint v < 1 then Err (AEE_ImmediateOutOfRange slot v (hi - lo + 1))
              else place_unsigned w lo hi (v - 1) slot)))
      else if code = CHR ''W'' then
        Some (and_then (unwrap_bitfield bf slot ''W'') (\<lambda>(lo, hi).
              and_then (expect_immediate opnd slot ''W'') (\<lambda>v. place_multiple w lo hi v 4 slot)))
      else if code = CHR ''H'' then
        Some (and_then (unwrap_bitfield bf slot ''H'') (\<lambda>(lo, hi).
              and_then (expect_immediate opnd slot ''H'') (\<lambda>v. place_multiple w lo hi v 2 slot)))
      else if code = CHR ''x'' then
        Some (and_then (unwrap_bitfield bf slot ''x'') (\<lambda>(lo, hi).
              and_then (expect_immediate opnd slot ''x'') (\<lambda>v. place_unsigned w lo hi v slot)))
      else None)"

text \<open>Branches and PC-relative addresses.\<close>

definition pack_forward :: "u32 \<Rightarrow> nat \<Rightarrow> nat \<Rightarrow> i64 \<Rightarrow> int \<Rightarrow> nat \<Rightarrow> arm_encode_error + u32" where
  "pack_forward w lo hi d unit_size slot =
     (if sint d < 0 \<or> sint d mod unit_size \<noteq> 0 then Err (AEE_BranchOutOfRange slot d (hi - lo + 1))
      else
        let units = ucast (div_exact d unit_size) :: u32 in
        if push_bit (hi - lo + 1) 1 \<le> units then Err (AEE_BranchOutOfRange slot d (hi - lo + 1))
        else Ok (place_field w lo hi units))"

definition pack_branch ::
    "char \<Rightarrow> string \<Rightarrow> arm_operand \<Rightarrow> nat \<Rightarrow> u32 \<Rightarrow> u64 \<Rightarrow> nat \<Rightarrow> (arm_encode_error + u32) option" where
  "pack_branch code bf opnd slot w address width =
     (if code = CHR ''B'' \<and> bf \<noteq> [] then
        Some (and_then (unwrap_bitfield bf slot ''B'') (\<lambda>(lo, hi).
              and_then (expect_branch_target opnd slot ''B'') (\<lambda>target.
              let d = displacement_from target address in
              if sint d mod 2 \<noteq> 0 then Err (AEE_BranchOutOfRange slot d (hi - lo + 1))
              else
                let halfwords = div_exact d 2 in
                and_then (check_signed_fits halfwords (hi - lo + 1) slot) (\<lambda>_.
                  Ok (place_field w lo hi (ucast halfwords AND (push_bit (hi - lo + 1) 1 - 1)))))))
      else if code = CHR ''B'' \<and> width = 4 then
        Some (and_then (expect_branch_target opnd slot ''B'') (\<lambda>target. pack_bl_target w target address slot))
      else if code = CHR ''b'' \<and> width = 4 then
        Some (and_then (expect_branch_target opnd slot ''b'') (\<lambda>target. pack_b_cond_wide_target w target address slot))
      else if code = CHR ''b'' \<and> bf \<noteq> [] \<and> width = 2 then
        Some (and_then (unwrap_bitfield bf slot ''b'') (\<lambda>(lo, hi).
              and_then (expect_branch_target opnd slot ''b'') (\<lambda>target.
                pack_forward w lo hi (displacement_from target address) 2 slot)))
      else if code = CHR ''a'' \<and> bf \<noteq> [] then
        Some (and_then (unwrap_bitfield bf slot ''a'') (\<lambda>(lo, hi).
              and_then (expect_pc_relative opnd slot ''a'') (\<lambda>target.
                pack_forward w lo hi (target - ((address + 4) AND NOT 3)) 4 slot)))
      else None)"

text \<open>Registers and register lists.\<close>

definition place_list :: "u32 \<Rightarrow> 16 word \<Rightarrow> nat \<Rightarrow> u32" where
  "place_list w lst extra =
     place_field (place_field w 0 7 (ucast (lst AND 0xff))) 8 8 (ucast (drop_bit extra lst AND 1))"

definition pack_register_code :: "char \<Rightarrow> string \<Rightarrow> arm_operand \<Rightarrow> nat \<Rightarrow> u32 \<Rightarrow> nat \<Rightarrow> (arm_encode_error + u32) option" where
  "pack_register_code code bf opnd slot w width =
     (if code = CHR ''S'' \<and> bf = [] \<and> width = 2 then
        Some (and_then (expect_register opnd slot ''S'') (\<lambda>reg.
          Ok (place_field (place_field w 3 5 (ucast (ag_index reg AND 7))) 6 6 (ucast (drop_bit 3 (ag_index reg) AND 1)))))
      else if code = CHR ''S'' \<and> bf = [] \<and> width = 4 then Some (expect_opaque opnd slot ''S'' w)
      else if code = CHR ''D'' \<and> bf = [] \<and> width = 2 then
        Some (and_then (expect_register opnd slot ''D'') (\<lambda>reg.
          Ok (place_field (place_field w 0 2 (ucast (ag_index reg AND 7))) 7 7 (ucast (drop_bit 3 (ag_index reg) AND 1)))))
      else if code = CHR ''M'' \<and> width = 2 then
        Some (and_then (expect_register_list opnd slot ''M'') (\<lambda>lst.
          if lst AND NOT 0xff \<noteq> 0 then Err (AEE_ImmediateOutOfRange slot (ucast lst) 8)
          else Ok (place_field w 0 7 (ucast lst))))
      else if code = CHR ''N'' then
        Some (and_then (expect_register_list opnd slot ''N'') (\<lambda>lst. Ok (place_list w lst 14)))
      else if code = CHR ''O'' then
        Some (and_then (expect_register_list opnd slot ''O'') (\<lambda>lst. Ok (place_list w lst 15)))
      else None)"

text \<open>Scattered immediates.\<close>

definition place_imm12 :: "u32 \<Rightarrow> u32 \<Rightarrow> u32" where
  "place_imm12 w v =
     place_field (place_field (place_field w 0 7 (v AND 0xff)) 12 14 (drop_bit 8 v AND 7)) 26 26 (drop_bit 11 v AND 1)"

definition pack_scattered :: "char \<Rightarrow> arm_operand \<Rightarrow> nat \<Rightarrow> u32 \<Rightarrow> nat \<Rightarrow> (arm_encode_error + u32) option" where
  "pack_scattered code opnd slot w width =
     (if code = CHR ''I'' \<and> width = 4 then
        Some (and_then (expect_immediate opnd slot ''I'') (\<lambda>v.
          if \<not> (0 \<le> sint v \<and> sint v \<le> 0xfff) then Err (AEE_ImmediateOutOfRange slot v 12)
          else Ok (place_imm12 w (ucast v))))
      else if code = CHR ''M'' \<and> width = 4 then
        Some (case opnd of
            AO_OpaqueBits bts msk \<Rightarrow> Ok (splice w bts msk)
          | AO_Immediate v \<Rightarrow>
              and_then (ok_or (thumb_expand_imm_inverse v)
                (AEE_UnsupportedFormatCode ''%M (rotation form not yet invertible)'')) (\<lambda>raw. Ok (place_imm12 w raw))
          | _ \<Rightarrow> Err (AEE_OperandShapeMismatch slot ''M'' (operand_kind opnd)))
      else if code = CHR ''J'' \<and> width = 4 then
        Some (and_then (expect_immediate opnd slot ''J'') (\<lambda>v.
          if \<not> (0 \<le> sint v \<and> sint v \<le> 0xffff) then Err (AEE_ImmediateOutOfRange slot v 16)
          else Ok (place_field (place_imm12 w (ucast v)) 16 19 (drop_bit 12 (ucast v) AND 0xf))))
      else None)"

definition applies_already :: "char \<Rightarrow> string \<Rightarrow> nat \<Rightarrow> bool" where
  "applies_already code bf width =
     (if code = CHR ''a'' then bf \<noteq> []
      else if code = CHR ''b'' then width = 4 \<or> bf \<noteq> []
      else if code = CHR ''B'' then bf \<noteq> [] \<or> width = 4
      else if code \<in> set ''DS'' then bf \<noteq> [] \<or> width = 2
      else if code = CHR ''H'' then bf \<noteq> []
      else if code = CHR ''M'' then width = 2 \<or> width = 4
      else if code \<in> set ''IJ'' then width = 4
      else if code \<in> set ''NO'' then True
      else False)"

text \<open>Operands kept as bits, and the codes that take an operand and write nothing.\<close>

definition pack_kept :: "char \<Rightarrow> string \<Rightarrow> arm_operand \<Rightarrow> nat \<Rightarrow> u32 \<Rightarrow> nat \<Rightarrow> (arm_encode_error + u32) option" where
  "pack_kept code bf opnd slot w width =
     (if code \<in> set ''asLEFmnbI'' \<and> \<not> applies_already code bf width then
        Some (expect_opaque opnd slot ''OpaqueBits-expected'' w)
      else if code \<in> set ''GVKPQUWYZHSR'' \<and> \<not> applies_already code bf width then Some (Ok w)
      else None)"

definition pack_operand ::
    "char \<Rightarrow> string \<Rightarrow> arm_operand \<Rightarrow> nat \<Rightarrow> u32 \<Rightarrow> u64 \<Rightarrow> nat \<Rightarrow> arm_encode_error + u32" where
  "pack_operand code bf opnd slot w address width =
     (case first_answer
        [pack_field code bf opnd slot w, pack_branch code bf opnd slot w address width,
         pack_register_code code bf opnd slot w width, pack_scattered code opnd slot w width,
         pack_kept code bf opnd slot w width]
      of Some r \<Rightarrow> r | None \<Rightarrow> Err (AEE_UnsupportedFormatCode (CHR ''%'' # bf @ [code])))"

section \<open>The walk\<close>

definition only_displays :: "char \<Rightarrow> string \<Rightarrow> bool" where
  "only_displays code bf \<longleftrightarrow> code \<in> set ''cCxX%t'' \<or> (code \<in> set ''wW'' \<and> bf = [])"

text \<open>The word and the number of operands consumed.\<close>

definition pack_next ::
    "char \<Rightarrow> string \<Rightarrow> u32 \<Rightarrow> arm_operand list \<Rightarrow> nat \<Rightarrow> u64 \<Rightarrow> nat \<Rightarrow> arm_encode_error + u32" where
  "pack_next code bf w operands slot address width =
     and_then (ok_or (vec_get operands slot) (AEE_ArityMismatch (slot + 1) (length operands))) (\<lambda>opnd.
       pack_operand code bf opnd slot w address width)"

fun encode_walk_inner ::
    "escape list \<Rightarrow> u32 \<Rightarrow> arm_operand list \<Rightarrow> nat \<Rightarrow> u64 \<Rightarrow> nat \<Rightarrow> arm_encode_error + u32 \<times> nat" where
  "encode_walk_inner [] w operands consumed address width = Ok (w, consumed)"
| "encode_walk_inner (Wrap inner # es) w operands consumed address width =
     and_then (encode_walk_inner inner w (drop consumed operands) 0 address width) (\<lambda>(w, c).
       encode_walk_inner es w operands (consumed + c) address width)"
| "encode_walk_inner (Esc bf code # es) w operands consumed address width =
     (if only_displays code bf then encode_walk_inner es w operands consumed address width
      else
        and_then (pack_next code bf w operands consumed address width) (\<lambda>w.
          encode_walk_inner es w operands (consumed + 1) address width))"

fun encode_walk ::
    "escape list \<Rightarrow> u32 \<Rightarrow> arm_operand list \<Rightarrow> nat \<Rightarrow> u64 \<Rightarrow> nat \<Rightarrow> arm_encode_error + u32 \<times> nat" where
  "encode_walk [] w operands idx address width = Ok (w, idx)"
| "encode_walk (Wrap inner # es) w operands idx address width =
     and_then (encode_walk_inner inner w (drop idx operands) 0 address width) (\<lambda>(w, c).
       encode_walk es w operands (idx + c) address width)"
| "encode_walk (Esc bf code # es) w operands idx address width =
     (case (if code = CHR ''c'' then parse_bitfield bf else None) of
        Some (lo, hi) \<Rightarrow>
          and_then (ok_or (vec_get operands idx) (AEE_ArityMismatch (idx + 1) (length operands))) (\<lambda>opnd.
            case opnd of
              AO_Condition c \<Rightarrow> encode_walk es (place_field w lo hi (ucast c)) operands (idx + 1) address width
            | _ \<Rightarrow> Err (AEE_OperandShapeMismatch idx ''c'' (operand_kind opnd)))
      | None \<Rightarrow>
          if only_displays code bf then encode_walk es w operands idx address width
          else
            and_then (pack_next code bf w operands idx address width) (\<lambda>w.
              encode_walk es w operands (idx + 1) address width))"

text \<open>The opaque operands left over are spliced in.\<close>

fun splice_rest :: "arm_operand list \<Rightarrow> u32 \<Rightarrow> u32" where
  "splice_rest [] w = w"
| "splice_rest (AO_OpaqueBits bts msk # ops) w = splice_rest ops (splice w bts msk)"
| "splice_rest (opnd # ops) w = splice_rest ops w"

definition encode_with_format :: "string \<Rightarrow> u32 \<Rightarrow> arm_operand list \<Rightarrow> u64 \<Rightarrow> nat \<Rightarrow> arm_encode_error + u32" where
  "encode_with_format fmt opcode_base operands address width =
     and_then (encode_walk (escapes fmt) opcode_base operands 0 address width) (\<lambda>(w, idx).
       Ok (splice_rest (drop idx operands) w))"

primrec width_bytes :: "thumb_width \<Rightarrow> nat" where
  "width_bytes TW_Halfword = 2"
| "width_bytes TW_Word = 4"

definition encode_with_row ::
    "thumb_opcode \<Rightarrow> arm_operand list \<Rightarrow> u64 \<Rightarrow> arm_encode_error + u32 \<times> thumb_width" where
  "encode_with_row row operands address =
     and_then (encode_with_format (th_format row) (th_opcode row) operands address (width_bytes (th_width row)))
       (\<lambda>w. Ok (w, th_width row))"

fun encode_first ::
    "thumb_opcode list \<Rightarrow> arm_operand list \<Rightarrow> u64 \<Rightarrow> arm_encode_error \<Rightarrow> arm_encode_error + u32 \<times> thumb_width" where
  "encode_first [] operands address last_err = Err last_err"
| "encode_first (row # rows) operands address last_err =
     (case encode_with_row row operands address of
        Inr r \<Rightarrow> Ok r
      | Inl e \<Rightarrow> encode_first rows operands address e)"

definition thumb_encode :: "thumb_mnemonic \<Rightarrow> arm_operand list \<Rightarrow> u64 \<Rightarrow> arm_encode_error + u32 \<times> thumb_width" where
  "thumb_encode m operands address =
     encode_first (filter (\<lambda>row. th_mnemonic row = m) thumb_opcode_table) operands address
       (AEE_NoMatchingForm ''<thumb-mnemonic>'' (length operands))"

definition encode_neon_row :: "neon_opcode \<Rightarrow> arm_operand list \<Rightarrow> arm_encode_error + u32" where
  "encode_neon_row row operands =
     (case operands of
        [] \<Rightarrow> Err (AEE_ArityMismatch 1 0)
      | AO_OpaqueBits bts msk # _ \<Rightarrow>
          if msk = 0xFFFFFFFF then Ok bts else Err (AEE_OperandShapeMismatch 0 ''neon'' ''OpaqueBits'')
      | opnd # _ \<Rightarrow> Err (AEE_OperandShapeMismatch 0 ''neon'' (operand_kind opnd)))"

end
