(* ===== verification/T32_Sweep.thy ===== *)
theory T32_Sweep
  imports T32_Encode Control_Flow
begin

text \<open>
  Linear disassembly of Thumb code: reading one instruction of two or four bytes (\<open>read_instruction\<close>
  of \<open>src/src/isa/armv7/mod.rs\<close>), the sweep (\<open>sweep.rs\<close>), the bytes an encoded instruction becomes
  (\<open>ThumbIsa::encode\<close> in \<open>isa_impl.rs\<close>), and the classification of branches (\<open>control_flow.rs\<close>).
\<close>

section \<open>Reading one instruction\<close>

definition u16_from_le :: "u8 \<Rightarrow> u8 \<Rightarrow> 16 word" where
  "u16_from_le b0 b1 = ucast b0 OR push_bit 8 (ucast b1)"

definition u16_to_le :: "16 word \<Rightarrow> bytes" where
  "u16_to_le h = [ucast h, ucast (drop_bit 8 h)]"

definition read_instruction :: "bytes \<Rightarrow> nat \<Rightarrow> arm_decode_error + u32 \<times> nat" where
  "read_instruction bytes offset =
     (if length bytes < offset + 2 then Err (ADE_TruncatedInput offset (length bytes - min offset (length bytes)) 2)
      else
        let hw1 = u16_from_le (bytes ! offset) (bytes ! (offset + 1)); top5 = drop_bit 11 hw1 in
        if top5 = 0b11101 \<or> top5 = 0b11110 \<or> top5 = 0b11111 then
          (if length bytes < offset + 4 then Err (ADE_TruncatedInput offset (length bytes - offset) 4)
           else
             let hw2 = u16_from_le (bytes ! (offset + 2)) (bytes ! (offset + 3))
             in Ok (push_bit 16 (ucast hw1) OR ucast hw2, 4))
        else Ok (ucast hw1, 2))"

section \<open>The sweep\<close>

record thumb_decoded =
  td_address :: u64
  td_word :: u32
  td_width :: thumb_width
  td_mnemonic :: thumb_mnemonic
  td_operands :: "arm_operand list"
  td_row :: "thumb_opcode option"
  td_neon_row :: "neon_opcode option"

definition td_size_bytes :: "thumb_decoded \<Rightarrow> u64" where
  "td_size_bytes i = (case td_width i of TW_Halfword \<Rightarrow> 2 | TW_Word \<Rightarrow> 4)"

definition td_mnemonic_name :: "thumb_decoded \<Rightarrow> string" where
  "td_mnemonic_name i =
     (case td_neon_row i of Some neon \<Rightarrow> neon_mnemonic_as_str (ne_mnemonic neon)
      | None \<Rightarrow> thumb_mnemonic_as_str (td_mnemonic i))"

datatype thumb_disassemble_error = TDE_Truncated nat nat | TDE_NoMatch u64 u32 thumb_width

fun thumb_error_from :: "arm_decode_error \<Rightarrow> thumb_disassemble_error" where
  "thumb_error_from (ADE_TruncatedInput offset available wanted) = TDE_Truncated offset available"
| "thumb_error_from (ADE_NoMatchingOpcode w n) =
     TDE_NoMatch 0 w (if n = 4 then TW_Word else TW_Halfword)"
| "thumb_error_from (ADE_OperandDecode reason) = TDE_NoMatch 0 0 TW_Halfword"

text \<open>The bits the row's mask leaves variable, as a last operand.\<close>

definition tail_mask :: "thumb_opcode \<Rightarrow> thumb_width \<Rightarrow> u32" where
  "tail_mask row width =
     (case width of TW_Halfword \<Rightarrow> 0xFFFF AND NOT (th_mask row AND 0xFFFF) | TW_Word \<Rightarrow> NOT (th_mask row))"

definition unmasked_word_bits :: "thumb_opcode \<Rightarrow> thumb_width \<Rightarrow> u32 \<Rightarrow> u32" where
  "unmasked_word_bits row width w =
     (case width of TW_Halfword \<Rightarrow> w AND 0xFFFF AND NOT (th_mask row AND 0xFFFF) | TW_Word \<Rightarrow> w AND NOT (th_mask row))"

definition tail_operands :: "thumb_opcode \<Rightarrow> thumb_width \<Rightarrow> u32 \<Rightarrow> arm_operand list" where
  "tail_operands row width w =
     (if tail_mask row width \<noteq> 0 then [AO_OpaqueBits (unmasked_word_bits row width w) (tail_mask row width)] else [])"

definition decode_thumb :: "u64 \<Rightarrow> u32 \<Rightarrow> nat \<Rightarrow> thumb_disassemble_error + thumb_decoded" where
  "decode_thumb address w n =
     (let width = (if n = 4 then TW_Word else TW_Halfword);
          instruction = (\<lambda>m ops row neon. \<lparr>td_address = address, td_word = w, td_width = width, td_mnemonic = m,
            td_operands = ops, td_row = row, td_neon_row = neon\<rparr>)
      in case match_thumb_generated w width of
           Some row \<Rightarrow>
             Ok (instruction (th_mnemonic row)
               (fst (decode_operands_from_format (th_format row) w address n) @ tail_operands row width w)
               (Some row) None)
         | None \<Rightarrow>
             if n = 4 then
               and_then (ok_or (match_neon_thumb w) (TDE_NoMatch address w width)) (\<lambda>(neon_row, norm_word).
                 Ok (instruction ''Nop'' [AO_OpaqueBits w 0xFFFFFFFF] None (Some neon_row)))
             else Err (TDE_NoMatch address w width))"

lemma read_instruction_width: "read_instruction bytes offset = Ok (w, n) \<Longrightarrow> n = 2 \<or> n = 4"
  by (auto simp: read_instruction_def Let_def split: if_splits)

function thumb_sweep_from :: "u64 \<Rightarrow> bytes \<Rightarrow> nat \<Rightarrow> thumb_disassemble_error + thumb_decoded list" where
  "thumb_sweep_from base bytes cursor =
     (if cursor < length bytes then
        (case read_instruction bytes cursor of
           Inl err \<Rightarrow> Err (thumb_error_from err)
         | Inr (w, n) \<Rightarrow>
             and_then (decode_thumb (base + word_of_nat cursor) w n) (\<lambda>instruction.
               and_then (thumb_sweep_from base bytes (cursor + n)) (\<lambda>rest. Ok (instruction # rest))))
      else Ok [])"
  by pat_completeness auto
termination
  by (relation "measure (\<lambda>(_, bytes, cursor). length bytes - cursor)") (auto dest!: read_instruction_width)

declare thumb_sweep_from.simps [simp del]

definition thumb_disassemble_bytes :: "u64 \<Rightarrow> bytes \<Rightarrow> thumb_disassemble_error + thumb_decoded list" where
  "thumb_disassemble_bytes base bytes = thumb_sweep_from base bytes 0"

section \<open>Bytes of an encoded instruction\<close>

definition push_word_thumb :: "u32 \<Rightarrow> bytes" where
  "push_word_thumb w = u16_to_le (ucast (drop_bit 16 w AND 0xffff)) @ u16_to_le (ucast (w AND 0xffff))"

definition thumb_word_bytes :: "u32 \<Rightarrow> thumb_width \<Rightarrow> bytes" where
  "thumb_word_bytes w width = (case width of TW_Halfword \<Rightarrow> u16_to_le (ucast w) | TW_Word \<Rightarrow> push_word_thumb w)"

section \<open>Control flow\<close>

definition thumb_direct_branch_target :: "arm_operand list \<Rightarrow> u64 option" where
  "thumb_direct_branch_target ops = find_map (\<lambda>opnd. case opnd of AO_BranchTarget t \<Rightarrow> Some t | _ \<Rightarrow> None) ops"

definition branches_via_lr :: "arm_operand list \<Rightarrow> bool" where
  "branches_via_lr ops =
     (find_map (\<lambda>opnd. case opnd of AO_Register r \<Rightarrow> if ag_class r = RC_R then Some (ag_index r) else None | _ \<Rightarrow> None) ops
      = Some 14)"

definition pops_pc :: "arm_operand list \<Rightarrow> bool" where
  "pops_pc ops = list_ex (\<lambda>opnd. case opnd of AO_RegisterList m \<Rightarrow> m AND 0x8000 \<noteq> 0 | _ \<Rightarrow> False) ops"

text \<open>A condition with a bit field: \<open>%\<close>, a digit, digits and dashes, \<open>c\<close>.\<close>

function is_conditional_branch_format :: "string \<Rightarrow> bool" where
  "is_conditional_branch_format s =
     (case s of
        [] \<Rightarrow> False
      | c # s \<Rightarrow>
          if c \<noteq> CHR ''%'' then is_conditional_branch_format s
          else
            (case s of
               [] \<Rightarrow> False
             | d # _ \<Rightarrow>
                 if \<not> (in_bitfield d \<and> d \<noteq> CHR ''-'') then is_conditional_branch_format s
                 else
                   (case dropWhile in_bitfield s of
                      [] \<Rightarrow> False
                    | e # r \<Rightarrow> if e = CHR ''c'' then True else is_conditional_branch_format (e # r))))"
  by pat_completeness auto
termination
proof (relation "measure length", goal_cases)
  case (4 x a list aa lista ab listb)
  then show ?case using length_dropWhile_le [of in_bitfield list] by simp
qed auto

declare is_conditional_branch_format.simps [simp del]

definition thumb_control_flow :: "thumb_decoded \<Rightarrow> control_flow" where
  "thumb_control_flow i =
     (let fallthrough = td_address i + td_size_bytes i; m = td_mnemonic i; target = thumb_direct_branch_target (td_operands i)
      in if m = ''B'' then
           (case target of
              Some t \<Rightarrow>
                if is_conditional_branch_format (case td_row i of Some r \<Rightarrow> th_format r | None \<Rightarrow> [])
                then CF_ConditionalJump t fallthrough else CF_Jump t
            | None \<Rightarrow> CF_Fall)
         else if m = ''Bl'' \<or> m = ''Blx'' then
           (case target of Some t \<Rightarrow> CF_Call t fallthrough | None \<Rightarrow> CF_IndirectCall fallthrough)
         else if m = ''Cbz'' \<or> m = ''Cbnz'' then
           (case target of Some t \<Rightarrow> CF_ConditionalJump t fallthrough | None \<Rightarrow> CF_Fall)
         else if m = ''Bx'' then (if branches_via_lr (td_operands i) then CF_Return else CF_IndirectJump)
         else if m = ''Pop'' then (if pops_pc (td_operands i) then CF_Return else CF_Fall)
         else if m = ''Ldmia'' \<or> m = ''Ldmdb'' then (if pops_pc (td_operands i) then CF_Return else CF_Fall)
         else if m \<in> {''Svc'', ''Hvc'', ''Smc'', ''Udf'', ''Bkpt''} then CF_Trap
         else CF_Fall)"

end
