(* ===== verification/T32_Isa.thy ===== *)
theory T32_Isa
  imports T32_Sweep Isa_Laws
begin

text \<open>
  The Thumb implementation of the rewriter's trait (\<open>src/src/isa/armv7/isa_impl.rs\<close>) and its macro
  emission (\<open>macro_emit.rs\<close>), with the interpretation of the trait's laws on it. The file keeps copies
  of its own of the symbol queries, and so does the model. \<open>ThumbIsa\<close> takes the trait's default
  decoder, which decodes nothing, so the emitter always encodes anew.
\<close>

section \<open>Operands\<close>

definition thumb_pcrel_kind :: "arm_operand \<Rightarrow> (pcrel_kind \<times> u64) option" where
  "thumb_pcrel_kind opnd = (case opnd of AO_BranchTarget a \<Rightarrow> Some (PK_Branch, a) | _ \<Rightarrow> None)"

definition thumb_substitute_pcrel :: "arm_operand \<Rightarrow> u64 \<Rightarrow> arm_operand" where
  "thumb_substitute_pcrel opnd address = (case opnd of AO_BranchTarget _ \<Rightarrow> AO_BranchTarget address | _ \<Rightarrow> opnd)"

text \<open>There is no page operand: asking for one is a panic, which the kind of no operand asks for.\<close>

definition thumb_make_pcrel_operand :: "pcrel_kind \<Rightarrow> u64 \<Rightarrow> arm_operand" where
  "thumb_make_pcrel_operand kind address =
     (case kind of PK_Branch \<Rightarrow> AO_BranchTarget address | PK_Page \<Rightarrow> undefined)"

definition thumb_pcrel_range_bytes :: "thumb_mnemonic \<Rightarrow> int option" where
  "thumb_pcrel_range_bytes m =
     (if m = ''B'' then Some (16 * 1024 * 1024)
      else if m = ''Bl'' \<or> m = ''Blx'' then Some (16 * 1024 * 1024)
      else if m = ''Cbz'' \<or> m = ''Cbnz'' then Some 126
      else None)"

definition thumb_invert_conditional_branch :: "thumb_mnemonic \<Rightarrow> thumb_mnemonic option" where
  "thumb_invert_conditional_branch m = (if m = ''B'' then Some ''B'' else None)"

definition thumb_widened_conditional_size :: u64 where
  "thumb_widened_conditional_size = 8"

definition thumb_widened_conditional_range :: int where
  "thumb_widened_conditional_range = 16 * 1024 * 1024"

definition thumb_isa_encode :: "thumb_mnemonic \<Rightarrow> arm_operand list \<Rightarrow> u64 \<Rightarrow> arm_encode_error + bytes" where
  "thumb_isa_encode m operands address =
     and_then (thumb_encode m operands address) (\<lambda>(w, width). Ok (thumb_word_bytes w width))"

section \<open>Widened branches\<close>

definition find_row :: "u32 \<Rightarrow> u32 \<Rightarrow> thumb_opcode option" where
  "find_row opcode msk = List.find (\<lambda>row. th_opcode row = opcode \<and> th_mask row = msk) thumb_opcode_table"

definition override_operand :: "u8 option \<Rightarrow> u64 option \<Rightarrow> arm_operand \<Rightarrow> arm_operand" where
  "override_operand cond_override branch_override opnd =
     (case opnd of
        AO_Condition _ \<Rightarrow> (case cond_override of Some c \<Rightarrow> AO_Condition c | None \<Rightarrow> opnd)
      | AO_BranchTarget _ \<Rightarrow> (case branch_override of Some b \<Rightarrow> AO_BranchTarget b | None \<Rightarrow> opnd)
      | _ \<Rightarrow> opnd)"

definition is_condition :: "arm_operand \<Rightarrow> bool" where
  "is_condition opnd = (case opnd of AO_Condition _ \<Rightarrow> True | _ \<Rightarrow> False)"

definition is_branch :: "arm_operand \<Rightarrow> bool" where
  "is_branch opnd = (case opnd of AO_BranchTarget _ \<Rightarrow> True | _ \<Rightarrow> False)"

definition build_operands_with_overrides ::
    "arm_operand list \<Rightarrow> u8 option \<Rightarrow> u64 option \<Rightarrow> arm_operand list" where
  "build_operands_with_overrides template cond_override branch_override =
     map (override_operand cond_override branch_override) template @
     (case cond_override of Some c \<Rightarrow> if list_ex is_condition template then [] else [AO_Condition c] | None \<Rightarrow> []) @
     (case branch_override of Some b \<Rightarrow> if list_ex is_branch template then [] else [AO_BranchTarget b] | None \<Rightarrow> [])"

definition template_condition :: "arm_operand list \<Rightarrow> u8 option" where
  "template_condition template = find_map (\<lambda>opnd. case opnd of AO_Condition c \<Rightarrow> Some c | _ \<Rightarrow> None) template"

text \<open>The result \<open>None\<close> is the panic of a row that is missing from the table.\<close>

definition thumb_encode_widened_conditional ::
    "thumb_mnemonic \<Rightarrow> arm_operand list \<Rightarrow> u64 \<Rightarrow> u64 \<Rightarrow> (arm_encode_error + bytes) option" where
  "thumb_encode_widened_conditional m operands_template here far_target =
     (case (find_row 0xf0009000 0xf800d000, find_row 0xf0008000 0xf800d000) of
        (Some row_unconditional, Some row_conditional) \<Rightarrow>
          Some
            (case template_condition operands_template of
               Some c \<Rightarrow>
                 if c < 14 then
                   and_then (encode_with_row row_conditional
                       (build_operands_with_overrides operands_template (Some ((c XOR 1) AND 0xf)) (Some (here + 8))) here) (\<lambda>(w1, _).
                   and_then (encode_with_row row_unconditional [AO_BranchTarget far_target] (here + 4)) (\<lambda>(w2, _).
                     Ok (push_word_thumb w1 @ push_word_thumb w2)))
                 else
                   and_then (encode_with_row row_unconditional [AO_BranchTarget far_target] here) (\<lambda>(w, _).
                     Ok (push_word_thumb w @ push_word_thumb 0xf3af8000))
             | None \<Rightarrow>
                 and_then (encode_with_row row_unconditional [AO_BranchTarget far_target] here) (\<lambda>(w, _).
                   Ok (push_word_thumb w @ push_word_thumb 0xf3af8000)))
      | _ \<Rightarrow> None)"

section \<open>Relocations and sizes\<close>

definition thumb_relocation_kind_for :: "thumb_mnemonic \<Rightarrow> pcrel_kind \<Rightarrow> relocation_kind option" where
  "thumb_relocation_kind_for m kind =
     (case kind of
        PK_Branch \<Rightarrow>
          if m = ''Bl'' then Some RK_ThumbCall
          else if m = ''Blx'' then Some RK_ThumbCall
          else if m = ''B'' then Some RK_ThumbJump24
          else None
      | PK_Page \<Rightarrow> None)"

definition thumb_is_pc_relative_relocation :: "relocation_kind \<Rightarrow> bool" where
  "thumb_is_pc_relative_relocation kind = (kind \<in> {RK_ThumbCall, RK_ThumbJump24, RK_ThumbJump19})"

definition thumb_is_lift_relevant_relocation :: "relocation_kind \<Rightarrow> bool" where
  "thumb_is_lift_relevant_relocation kind =
     (kind \<in> {RK_ThumbCall, RK_ThumbJump24, RK_ThumbJump19, RK_ThumbMovwAbsNc, RK_ThumbMovtAbs})"

definition thumb_instruction_source_size :: "thumb_mnemonic \<Rightarrow> u64" where
  "thumb_instruction_source_size m =
     (if list_ex (\<lambda>row. th_mnemonic row = m \<and> th_width row = TW_Word) thumb_opcode_table then 4 else 2)"

section \<open>Macros\<close>

datatype thumb_macro_kind = TMK_MovwMovt

type_synonym thumb_macro = "(thumb_mnemonic, arm_operand, arm_register, thumb_macro_kind) macro_op"
type_synonym thumb_macro_result = "arm_encode_error macro_emit_error + bytes \<times> emitted_relocation list"

definition thumb_resolve_target :: "rewrite_target \<Rightarrow> u64 list \<Rightarrow> container option \<Rightarrow> u64 option" where
  "thumb_resolve_target target block_addresses container =
     (case target of
        T_Block i \<Rightarrow> vec_get block_addresses i
      | T_Absolute a \<Rightarrow> Some a
      | T_Symbol i \<Rightarrow> Option.bind container (\<lambda>c. callable_address_of_symbol c i)
      | T_Constant _ \<Rightarrow> None)"

text \<open>\<open>None\<close> is the panic of a symbol that does not exist.\<close>

definition thumb_symbol_needs_relocation :: "container \<Rightarrow> symbol_id \<Rightarrow> section_id option \<Rightarrow> bool option" where
  "thumb_symbol_needs_relocation c i current_section =
     map_option
       (\<lambda>symbol.
         if sym_is_undefined symbol
         then \<not> (case c_elf_image c of Some img \<Rightarrow> ei_plt_stubs img i \<noteq> None | None \<Rightarrow> False)
         else if sym_kind symbol = SyK_Section then True
         else
           case current_section of
             None \<Rightarrow> False
           | Some current \<Rightarrow>
               (case sym_section symbol of
                  None \<Rightarrow> False
                | Some symbol_section \<Rightarrow>
                    if symbol_section = current then False else current_section_address c current = 0))
       (container_symbol c i)"

definition emit_row_word :: "u32 \<Rightarrow> u32 \<Rightarrow> arm_register \<Rightarrow> 16 word \<Rightarrow> arm_encode_error macro_emit_error + bytes" where
  "emit_row_word opcode msk rd imm16 =
     and_then (ok_or (find_row opcode msk) ME_Panic) (\<lambda>row.
     and_then (map_err ME_Encode (encode_with_row row [AO_Register rd, AO_Immediate (ucast imm16)] 0)) (\<lambda>(w, _).
       Ok (push_word_thumb w)))"

definition encode_movw :: "arm_register \<Rightarrow> 16 word \<Rightarrow> arm_encode_error macro_emit_error + bytes" where
  "encode_movw rd imm16 = emit_row_word 0xf2400000 0xfbf08000 rd imm16"

definition encode_movt :: "arm_register \<Rightarrow> 16 word \<Rightarrow> arm_encode_error macro_emit_error + bytes" where
  "encode_movt rd imm16 = emit_row_word 0xf2c00000 0xfbf08000 rd imm16"

definition thumb_macro_reloc :: "nat \<Rightarrow> relocation_kind \<Rightarrow> symbol_id \<Rightarrow> emitted_relocation" where
  "thumb_macro_reloc off kind symbol =
     \<lparr>er_offset = word_of_nat off, er_kind = kind, er_symbol = symbol, er_addend = 0\<rparr>"

definition thumb_target_needs_relocation ::
    "rewrite_target \<Rightarrow> container option \<Rightarrow> section_id option \<Rightarrow> arm_encode_error macro_emit_error + symbol_id option" where
  "thumb_target_needs_relocation target container current_section =
     (case (target, container) of
        (T_Symbol i, Some c) \<Rightarrow>
          and_then (ok_or (thumb_symbol_needs_relocation c i current_section) ME_Panic) (\<lambda>needs.
            Ok (if needs then Some i else None))
      | _ \<Rightarrow> Ok None)"

definition emit_movw_movt ::
    "thumb_macro \<Rightarrow> u64 \<Rightarrow> u64 list \<Rightarrow> container option \<Rightarrow> section_id option \<Rightarrow> nat \<Rightarrow> thumb_macro_result" where
  "emit_movw_movt mo here block_addresses container current_section offset =
     and_then (thumb_target_needs_relocation (mo_target mo) container current_section) (\<lambda>needs.
       case needs of
         Some symbol \<Rightarrow>
           and_then (encode_movw (mo_register mo) 0) (\<lambda>movw.
           and_then (encode_movt (mo_register mo) 0) (\<lambda>movt.
             Ok (movw @ movt,
                 [thumb_macro_reloc offset RK_ThumbMovwAbsNc symbol,
                  thumb_macro_reloc (offset + length movw) RK_ThumbMovtAbs symbol])))
       | None \<Rightarrow>
           and_then (ok_or (thumb_resolve_target (mo_target mo) block_addresses container) ME_Malformed) (\<lambda>target_address.
           and_then (encode_movw (mo_register mo) (ucast (target_address AND 0xffff))) (\<lambda>movw.
           and_then (encode_movt (mo_register mo) (ucast (drop_bit 16 target_address AND 0xffff))) (\<lambda>movt.
             Ok (movw @ movt, [])))))"

definition thumb_emit_macro ::
    "thumb_macro \<Rightarrow> u64 \<Rightarrow> u64 list \<Rightarrow> container option \<Rightarrow> section_id option \<Rightarrow> nat \<Rightarrow> thumb_macro_result" where
  "thumb_emit_macro mo here block_addresses container current_section offset =
     (case mo_kind mo of TMK_MovwMovt \<Rightarrow> emit_movw_movt mo here block_addresses container current_section offset)"

section \<open>The record\<close>

definition thumb_isa ::
    "(thumb_mnemonic, arm_operand, arm_register, thumb_macro_kind, thumb_decoded, arm_encode_error) isa" where
  "thumb_isa =
     \<lparr>i_decoded_address = td_address,
      i_decoded_mnemonic = td_mnemonic,
      i_decoded_size = td_size_bytes,
      i_decoded_operands = td_operands,
      i_decode = (\<lambda>_ _. None),
      i_pcrel_kind = thumb_pcrel_kind,
      i_substitute_pcrel = thumb_substitute_pcrel,
      i_make_pcrel_operand = thumb_make_pcrel_operand,
      i_pcrel_range_bytes = thumb_pcrel_range_bytes,
      i_invert_conditional_branch = thumb_invert_conditional_branch,
      i_widened_conditional_size = thumb_widened_conditional_size,
      i_widened_conditional_range = thumb_widened_conditional_range,
      i_encode = thumb_isa_encode,
      i_encode_widened_conditional = thumb_encode_widened_conditional,
      i_relocation_kind_for = thumb_relocation_kind_for,
      i_is_pc_relative_relocation = thumb_is_pc_relative_relocation,
      i_is_lift_relevant_relocation = thumb_is_lift_relevant_relocation,
      i_fuse_macros = default_fuse_macros,
      i_macro_source_size = default_macro_source_size thumb_instruction_source_size,
      i_instruction_source_size = thumb_instruction_source_size,
      i_emit_macro = thumb_emit_macro\<rparr>"

lemma thumb_isa_simps [simp]:
  "i_pcrel_kind thumb_isa = thumb_pcrel_kind" "i_substitute_pcrel thumb_isa = thumb_substitute_pcrel"
  "i_make_pcrel_operand thumb_isa = thumb_make_pcrel_operand" "i_pcrel_range_bytes thumb_isa = thumb_pcrel_range_bytes"
  "i_invert_conditional_branch thumb_isa = thumb_invert_conditional_branch" "i_fuse_macros thumb_isa = default_fuse_macros"
  by (simp_all add: thumb_isa_def)

interpretation t32: isa_laws thumb_isa
proof (unfold_locales, goal_cases)
  case 1
  then show ?case by (auto simp: thumb_pcrel_kind_def thumb_make_pcrel_operand_def split: arm_operand.splits)
next
  case 2
  then show ?case by (auto simp: thumb_pcrel_kind_def thumb_make_pcrel_operand_def split: arm_operand.splits)
next
  case 3
  then show ?case
    by (auto simp: thumb_pcrel_kind_def thumb_make_pcrel_operand_def thumb_substitute_pcrel_def split: arm_operand.splits)
next
  case 4
  then show ?case by (auto simp: thumb_invert_conditional_branch_def split: if_splits)
next
  case 5
  then show ?case by (auto simp: thumb_invert_conditional_branch_def thumb_pcrel_range_bytes_def split: if_splits)
next
  case 6
  have "concat (map op_instructions (map Op_Instruction insns)) = insns" for insns :: "(thumb_mnemonic, arm_operand) rewrite_instruction list"
    by (induction insns) (simp_all add: op_instructions_def)
  then show ?case by (simp add: default_fuse_macros_def)
qed

end
