(* ===== verification/T32_Roundtrip.thy ===== *)
theory T32_Roundtrip
  imports T32_Sweep
begin

text \<open>
  Which rows of the Thumb table encode what was decoded with them. \<open>escape_class\<close> says of an escape
  what the decoder emits and the encoder consumes; \<open>scan\<close> runs it along a format. Where the decoder
  emits an operand the encoder has no use for, no later escape may consume one.
\<close>

datatype escape_use = EU_Silent | EU_Matched | EU_Matched_Extra | EU_Extra

text \<open>A bit field of a format, at most \<open>n\<close> bits wide.\<close>

definition narrow :: "string \<Rightarrow> nat \<Rightarrow> bool" where
  "narrow bf n = (case parse_bitfield bf of Some (lo, hi) \<Rightarrow> hi < 32 \<and> hi - lo < n | None \<Rightarrow> False)"

definition escape_class :: "bool \<Rightarrow> nat \<Rightarrow> u32 \<Rightarrow> string \<Rightarrow> char \<Rightarrow> escape_use option" where
  "escape_class inner width msk bf code =
     (if code \<in> set ''cCxX%twW'' \<and> bf = [] then Some EU_Silent
      else if code = CHR ''c'' then
        (if inner then Some EU_Extra else if narrow bf 8 then Some EU_Matched else None)
      else if code = CHR ''x'' then Some EU_Extra
      else if code \<in> set ''CX%t'' then Some EU_Silent
      else if bf \<noteq> [] then
        (if code \<in> set ''rRS'' then (if narrow bf 8 then Some EU_Matched else None)
         else if code \<in> set ''dDWHBa'' then (if narrow bf 16 then Some EU_Matched else None)
         else if code = CHR ''b'' \<and> width = 2 then (if narrow bf 16 then Some EU_Matched else None)
         else None)
      else if code = CHR ''B'' \<and> width = 4 then Some EU_Matched
      else if code = CHR ''b'' \<and> width = 4 then
        (if msk AND 0x043F2FFF = 0 then Some EU_Matched else None)
      else if code \<in> set ''SDMNOIsb'' \<and> width = 2 then Some EU_Matched
      else if code \<in> set ''IMJKHVSmnEFUPQGYZ'' \<and> width = 4 then Some EU_Matched
      else if code \<in> set ''La'' \<and> width = 4 then Some EU_Matched_Extra
      else None)"

fun scan :: "bool \<Rightarrow> nat \<Rightarrow> u32 \<Rightarrow> escape list \<Rightarrow> bool \<Rightarrow> bool option" where
  "scan inner width msk [] aligned = Some aligned"
| "scan inner width msk (Wrap es # rest) aligned =
     Option.bind (scan True width msk es aligned) (scan inner width msk rest)"
| "scan inner width msk (Esc bf code # rest) aligned =
     (case escape_class inner width msk bf code of
        None \<Rightarrow> None
      | Some EU_Silent \<Rightarrow> scan inner width msk rest aligned
      | Some EU_Matched \<Rightarrow> if aligned then scan inner width msk rest True else None
      | Some EU_Matched_Extra \<Rightarrow> if aligned then scan inner width msk rest False else None
      | Some EU_Extra \<Rightarrow> scan inner width msk rest False)"

text \<open>The bits of a row's mask, with the upper half of a halfword, which is always zero.\<close>

definition row_mask :: "thumb_opcode \<Rightarrow> u32" where
  "row_mask row = (case th_width row of TW_Halfword \<Rightarrow> th_mask row OR 0xFFFF0000 | TW_Word \<Rightarrow> th_mask row)"

definition thumb_row_ok :: "thumb_opcode \<Rightarrow> bool" where
  "thumb_row_ok row \<longleftrightarrow>
     scan False (width_bytes (th_width row)) (row_mask row) (escapes (th_format row)) True \<noteq> None"

section \<open>Bits of fields\<close>

lemma field_mask_mask: "field_mask lo hi = mask (hi - lo + 1)"
proof (cases "32 \<le> hi - lo + 1")
  case True
  then show ?thesis by (intro bit_word_eqI) (simp add: field_mask_def bit_simps)
next
  case False
  then show ?thesis by (simp add: field_mask_def mask_eq_exp_minus_1 push_bit_eq_mult)
qed

lemma bit_field_mask: "bit (field_mask lo hi) i \<longleftrightarrow> i < 32 \<and> i < hi - lo + 1"
  by (auto simp: field_mask_mask bit_simps)

lemma bit_place_field [bit_simps]:
  "lo \<le> hi \<Longrightarrow> bit (place_field w lo hi v) i \<longleftrightarrow> i < 32 \<and> (if lo \<le> i \<and> i \<le> hi then bit v (i - lo) else bit w i)"
  by (auto simp: place_field_def bit_simps bit_field_mask)

lemma bit_extract_field [bit_simps]: "bit (extract_field w lo hi) i \<longleftrightarrow> i < 32 \<and> i \<le> hi - lo \<and> bit w (i + lo)"
  by (auto simp: extract_field_def bit_simps bit_field_mask add.commute [of lo])

lemma bit_splice [bit_simps]: "bit (splice w bts msk) i \<longleftrightarrow> (if bit msk i then bit bts i else bit w i)"
  by (auto simp: splice_def bit_simps dest: bit_imp_le_length)

definition agrees :: "u32 \<Rightarrow> u32 \<Rightarrow> u32 \<Rightarrow> bool" where
  "agrees msk v w \<longleftrightarrow> v AND msk = w AND msk"

lemma agrees_bits: "agrees msk v w \<longleftrightarrow> (\<forall>i<32. bit msk i \<longrightarrow> bit v i = bit w i)"
  by (auto simp: agrees_def bit_eq_iff bit_simps)

lemma agrees_splice [intro]: "agrees msk v w \<Longrightarrow> agrees msk (splice v w m) w"
  by (auto simp: agrees_bits bit_simps)

lemma agrees_splice_and [intro]: "agrees msk v w \<Longrightarrow> agrees msk (splice v (w AND m) m) w"
  by (auto simp: agrees_bits bit_simps)

lemma agrees_place [intro]: "agrees msk v w \<Longrightarrow> lo \<le> hi \<Longrightarrow> agrees msk (place_field v lo hi (extract_field w lo hi)) w"
  by (auto simp: agrees_bits bit_simps)

lemma splice_and: "splice v (w AND m) m = splice v w m"
  by (simp add: splice_def and.assoc)

lemma parse_bitfield_le: "parse_bitfield bf = Some (lo, hi) \<Longrightarrow> lo \<le> hi"
  by (auto simp: parse_bitfield_def Let_def split: if_splits option.splits list.splits bind_splits)

lemma parse_bitfield_ne: "parse_bitfield bf = Some r \<Longrightarrow> bf \<noteq> []"
  by (auto simp: parse_bitfield_def)

lemma extract_field_less: "hi - lo < n \<Longrightarrow> uint (extract_field w lo hi) < 2 ^ n"
proof -
  assume "hi - lo < n"
  then have "extract_field w lo hi = take_bit n (extract_field w lo hi)"
    by (intro bit_word_eqI) (auto simp: bit_simps)
  then have "uint (extract_field w lo hi) = take_bit n (uint (extract_field w lo hi))"
    by (metis unsigned_take_bit_eq)
  then show ?thesis by (metis take_bit_int_less_exp)
qed

lemma extract_field_le: "uint (extract_field w lo hi) \<le> 2 ^ (hi - lo + 1) - 1"
  using extract_field_less [of hi lo "hi - lo + 1" w] by simp


section \<open>One escape\<close>

lemmas decode_code_defs = decode_code_def first_answer_def decode_display_def decode_field_def decode_branch_def
  decode_register_code_def decode_scattered_def decode_opaque_def decode_address_def decode_system_def on_field_def
  opaque_bits_def

lemmas pack_operand_defs = pack_operand_def first_answer_def pack_field_def pack_branch_def pack_register_code_def
  pack_scattered_def pack_kept_def unwrap_bitfield_def expect_opaque_def expect_register_def expect_immediate_def
  expect_branch_target_def expect_pc_relative_def expect_register_list_def applies_already_def

text \<open>The decoder emits one operand, which the packer takes and with which it keeps the word's bits.\<close>

definition repacks :: "u32 \<Rightarrow> u32 \<Rightarrow> u64 \<Rightarrow> nat \<Rightarrow> string \<Rightarrow> char \<Rightarrow> bool" where
  "repacks msk w address width bf code \<longleftrightarrow>
     (\<forall>v slot. agrees msk v w \<longrightarrow>
        (\<exists>opnd v'. fst (decode_code w address width bf code) = [opnd] \<and>
           pack_operand code bf opnd slot v address width = Ok v' \<and> agrees msk v' w))"

lemma repacksI:
  assumes "fst (decode_code w address width bf code) = [opnd]"
    and "\<And>v slot. agrees msk v w \<Longrightarrow> \<exists>v'. pack_operand code bf opnd slot v address width = Ok v' \<and> agrees msk v' w"
  shows "repacks msk w address width bf code"
  using assms unfolding repacks_def by metis

lemma narrowE:
  assumes "narrow bf n"
  obtains lo hi where "parse_bitfield bf = Some (lo, hi)" "bf \<noteq> []" "lo \<le> hi" "hi < 32" "hi - lo < n"
  using assms parse_bitfield_le parse_bitfield_ne by (auto simp: narrow_def split: option.splits)

lemma ucast_extract_less: "hi - lo < 8 \<Longrightarrow> ucast (ucast (extract_field w lo hi) :: u8) = extract_field w lo hi"
  by (intro bit_word_eqI) (auto simp: bit_simps)

lemma repacks_placeI:
  "fst (decode_code w address width bf code) = [opnd] \<Longrightarrow> lo \<le> hi \<Longrightarrow>
   (\<And>v slot. pack_operand code bf opnd slot v address width = Ok (place_field v lo hi (extract_field w lo hi))) \<Longrightarrow>
   repacks msk w address width bf code"
  by (rule repacksI) auto

lemma repacks_spliceI:
  "fst (decode_code w address width bf code) = [opnd] \<Longrightarrow>
   (\<And>v slot. pack_operand code bf opnd slot v address width = Ok (splice v w m)) \<Longrightarrow>
   repacks msk w address width bf code"
  by (rule repacksI) auto

lemma repacks_idI:
  "fst (decode_code w address width bf code) = [opnd] \<Longrightarrow>
   (\<And>v slot. pack_operand code bf opnd slot v address width = Ok v) \<Longrightarrow> repacks msk w address width bf code"
  by (rule repacksI) auto

text \<open>The registers and immediates held in a bit field.\<close>

lemma register_index_fits:
  "\<not> 2 * 2 ^ (hi - lo) - 1 < extract_field w lo hi"
proof -
  have "extract_field w lo hi \<le> mask (Suc (hi - lo))"
    using word_and_le1 [of "drop_bit lo w" "mask (Suc (hi - lo))"] by (simp add: extract_field_def field_mask_mask)
  then show ?thesis by (simp add: mask_eq_exp_minus_1)
qed

lemma repacks_register:
  assumes "parse_bitfield bf = Some (lo, hi)" "bf \<noteq> []" "lo \<le> hi" "hi - lo < 8"
  shows "repacks msk w address width bf CHR ''r''" "repacks msk w address width bf CHR ''R''"
    "repacks msk w address width bf CHR ''S''"
  by (rule repacks_placeI [of _ _ _ _ _ "register_operand w lo hi RC_R" lo hi];
      simp add: decode_code_defs pack_operand_defs register_operand_def ucast_extract_less assms register_index_fits)+

lemma sint_widened_field: "uint (x :: u32) < 2 ^ 31 \<Longrightarrow> sint (ucast x :: i64) = uint x"
  by (simp add: signed_ucast_eq signed_take_bit_int_eq_self_iff order_trans [OF _ uint_ge_0])

lemma sint_ucast_field: "hi - lo < 16 \<Longrightarrow> sint (ucast (extract_field w lo hi) :: i64) = uint (extract_field w lo hi)"
  using extract_field_less [of hi lo 16 w] by (intro sint_widened_field) simp

lemma ucast_i64: "(ucast (x :: i64) :: u32) = word_of_int (sint x)"
  by (intro bit_word_eqI) (simp add: bit_simps bit_sint_iff)

lemma place_unsigned_field:
  assumes "sint x = uint (extract_field w lo hi)" "hi - lo < 16"
  shows "place_unsigned v lo hi x slot = Ok (place_field v lo hi (extract_field w lo hi))"
  using assms extract_field_le [of w lo hi] by (simp add: place_unsigned_def ucast_i64)

lemma sint_small_word:
  "0 \<le> k \<Longrightarrow> k < 2 ^ 31 \<Longrightarrow> sint (word_of_int k :: i64) = k"
  by (intro sint_word_of_int_i64) auto

lemma field_multiples:
  assumes "uint (f :: u32) < 2 ^ 16"
  shows "sint (ucast f :: i64) = uint f" "sint (ucast (f * 4) :: i64) = uint f * 4"
    "sint (ucast (f * 2) :: i64) = uint f * 2" "sint (ucast f + 1 :: i64) = uint f + 1"
proof -
  have u: "uint (f * 4) = uint f * 4" "uint (f * 2) = uint f * 2"
    using assms by (simp_all add: uint_word_ariths)
  have b: "uint (f * 4) < 2 ^ 31" "uint (f * 2) < 2 ^ 31" "uint f < 2 ^ 31" "0 \<le> uint f + 1" "uint f + 1 < 2 ^ 31"
    using assms by (simp_all add: u add_nonneg_nonneg)
  show "sint (ucast f :: i64) = uint f" by (rule sint_widened_field [OF b(3)])
  show "sint (ucast (f * 4) :: i64) = uint f * 4" unfolding sint_widened_field [OF b(1)] by (rule u)
  show "sint (ucast (f * 2) :: i64) = uint f * 2" unfolding sint_widened_field [OF b(2)] by (rule u)
  have "(ucast f + 1 :: i64) = word_of_int (uint f + 1)" by (simp only: ucast_eq of_int_add of_int_1)
  then show "sint (ucast f + 1 :: i64) = uint f + 1" by (simp only: sint_small_word [OF b(4,5)])
qed

lemma div_exact_field:
  assumes "uint (f :: u32) < 2 ^ 16" "sint x = uint f * k" "k \<noteq> 0"
  shows "sint (div_exact x k) = uint f"
  unfolding div_exact_def assms(2) nonzero_mult_div_cancel_right [OF assms(3)]
  using assms(1) by (intro sint_small_word) auto

lemma repacks_immediate:
  assumes f: "parse_bitfield bf = Some (lo, hi)" "bf \<noteq> []" "lo \<le> hi" and n: "hi - lo < 16"
  shows "repacks msk w address width bf CHR ''d''" "repacks msk w address width bf CHR ''D''"
    "repacks msk w address width bf CHR ''W''" "repacks msk w address width bf CHR ''H''"
proof -
  let ?f = "extract_field w lo hi"
  note small = extract_field_less [OF n, of w]
  note s = field_multiples [OF small]
  have d: "sint (div_exact (ucast (?f * 4)) 4) = uint ?f" "sint (div_exact (ucast (?f * 2)) 2) = uint ?f"
    using div_exact_field [OF small s(2)] div_exact_field [OF small s(3)] by simp_all
  show "repacks msk w address width bf CHR ''d''"
    by (rule repacks_placeI [of _ _ _ _ _ "AO_Immediate (ucast ?f)" lo hi])
      (simp_all add: decode_code_defs pack_operand_defs f n s place_unsigned_field)
  show "repacks msk w address width bf CHR ''D''"
    by (rule repacks_placeI [of _ _ _ _ _ "AO_Immediate (ucast ?f + 1)" lo hi])
      (simp_all add: decode_code_defs pack_operand_defs f n s place_unsigned_field)
  show "repacks msk w address width bf CHR ''W''"
    by (rule repacks_placeI [of _ _ _ _ _ "AO_Immediate (ucast (?f * 4))" lo hi])
      (simp_all add: decode_code_defs pack_operand_defs place_multiple_def f n s place_unsigned_field d)
  show "repacks msk w address width bf CHR ''H''"
    by (rule repacks_placeI [of _ _ _ _ _ "AO_Immediate (ucast (?f * 2))" lo hi])
      (simp_all add: decode_code_defs pack_operand_defs place_multiple_def f n s place_unsigned_field d)
qed

text \<open>Branches and addresses relative to the program counter.\<close>

lemma bit_arm_sign_extend [bit_simps]:
  "0 < n \<Longrightarrow> n \<le> 63 \<Longrightarrow> bit (arm_sign_extend x n) i \<longleftrightarrow> i < 64 \<and> bit x (min i (n - 1))"
  by (auto simp: arm_sign_extend_def bit_simps min_def not_le)

lemma sint_arm_sign_extend:
  assumes "0 < n" "n \<le> 16"
  shows "- (2 ^ (n - 1)) \<le> sint (arm_sign_extend x n)" "sint (arm_sign_extend x n) < 2 ^ (n - 1)"
proof -
  have "sint (arm_sign_extend x n) = signed_take_bit (n - 1) (sint (arm_sign_extend x n))"
  proof (rule bit_eqI)
    fix i
    show "bit (sint (arm_sign_extend x n)) i = bit (signed_take_bit (n - 1) (sint (arm_sign_extend x n))) i"
      using assms by (auto simp: bit_simps bit_sint_iff min_def)
  qed
  then show "- (2 ^ (n - 1)) \<le> sint (arm_sign_extend x n)" "sint (arm_sign_extend x n) < 2 ^ (n - 1)"
    by (metis signed_take_bit_int_greater_eq_minus_exp, metis signed_take_bit_int_less_exp)
qed

lemma sint_double:
  assumes "- (2 ^ 15) \<le> sint (x :: i64)" "sint x < 2 ^ 15"
  shows "sint (x * 2) = sint x * 2"
proof -
  have "x * 2 = word_of_int (sint x * 2)" by simp
  then show ?thesis using assms by (simp only:) (intro sint_word_of_int_i64; simp)
qed

lemma place_sign_extended:
  assumes "lo \<le> hi" "hi - lo < 16"
  shows "place_field v lo hi (ucast (arm_sign_extend (ucast (extract_field w lo hi)) (hi - lo + 1)) AND (push_bit (hi - lo + 1) 1 - 1))
    = place_field v lo hi (extract_field w lo hi)"
proof -
  have "push_bit (hi - lo + 1) 1 - 1 = (mask (hi - lo + 1) :: u32)" by (simp add: mask_eq_exp_minus_1)
  then show ?thesis
    using assms by (simp only:) (intro bit_word_eqI, auto simp: bit_simps min_def)
qed

lemma pack_short_branch:
  assumes f: "parse_bitfield bf = Some (lo, hi)" "bf \<noteq> []" "hi - lo < 16"
    and x: "- (2 ^ (hi - lo)) \<le> sint (x :: i64)" "sint x < 2 ^ (hi - lo)"
  shows "pack_operand CHR ''B'' bf (AO_BranchTarget (address + 4 + x * 2)) slot v address width
    = Ok (place_field v lo hi (ucast x AND (push_bit (hi - lo + 1) 1 - 1)))"
proof -
  have "(2 :: int) ^ (hi - lo) \<le> 2 ^ 15" using f(3) by (intro power_increasing) auto
  then have two: "sint (x * 2) = sint x * 2" using x by (intro sint_double) auto
  then have half: "div_exact (x * 2) 2 = x" by (simp add: div_exact_def)
  have d: "displacement_from (address + 4 + x * 2) address = x * 2" by (simp add: displacement_from_def)
  show ?thesis using x by (simp add: pack_operand_defs Let_def f d two half check_signed_fits_def)
qed

lemma repacks_B:
  assumes f: "parse_bitfield bf = Some (lo, hi)" "bf \<noteq> []" "lo \<le> hi" and n: "hi - lo < 16"
  shows "repacks msk w address width bf CHR ''B''"
proof (rule repacks_placeI [OF _ f(3)])
  let ?x = "arm_sign_extend (ucast (extract_field w lo hi)) (hi - lo + 1)"
  show "fst (decode_code w address width bf CHR ''B'') = [AO_BranchTarget (address + 4 + ?x * 2)]"
    by (simp add: decode_code_defs f)
  fix v slot
  show "pack_operand CHR ''B'' bf (AO_BranchTarget (address + 4 + ?x * 2)) slot v address width
    = Ok (place_field v lo hi (extract_field w lo hi))"
    unfolding place_sign_extended [OF f(3) n, symmetric]
    using sint_arm_sign_extend [of "hi - lo + 1" "ucast (extract_field w lo hi)"] n
    by (intro pack_short_branch [OF f(1,2) n]) simp_all
qed

lemma sint_field_multiple:
  assumes "uint (f :: u32) < 2 ^ 16"
  shows "sint (ucast f * 2 :: i64) = uint f * 2" "sint (ucast f * 4 :: i64) = uint f * 4"
proof -
  have b: "0 \<le> uint f * 2" "uint f * 2 < 2 ^ 31" "0 \<le> uint f * 4" "uint f * 4 < 2 ^ 31"
    using assms by simp_all
  have "(ucast f * 2 :: i64) = word_of_int (uint f * 2)" by (simp only: ucast_eq of_int_mult of_int_numeral)
  then show "sint (ucast f * 2 :: i64) = uint f * 2" by (simp only: sint_small_word [OF b(1,2)])
  have "(ucast f * 4 :: i64) = word_of_int (uint f * 4)" by (simp only: ucast_eq of_int_mult of_int_numeral)
  then show "sint (ucast f * 4 :: i64) = uint f * 4" by (simp only: sint_small_word [OF b(3,4)])
qed

lemma pack_forward_field:
  assumes f: "uint (f :: u32) < 2 ^ (hi - lo + 1)" "hi - lo < 16" and d: "sint d = uint f * k" "0 < k"
  shows "pack_forward v lo hi d k slot = Ok (place_field v lo hi f)"
proof -
  have "(2 :: int) ^ (hi - lo + 1) \<le> 2 ^ 16" using f(2) by (intro power_increasing) auto
  then have small: "uint f < 2 ^ 16" using f(1) by linarith
  have "sint (div_exact d k) = uint f" using div_exact_field [OF small d(1)] d(2) by simp
  then have u: "(ucast (div_exact d k) :: u32) = f" by (simp add: ucast_i64)
  have "f < 2 ^ (hi - lo + 1)" using f by (subst word_2p_lem) (simp_all add: word_size)
  then have "\<not> push_bit (hi - lo + 1) 1 \<le> f" by (simp only: push_bit_of_1 not_le)
  then show ?thesis using d by (simp add: pack_forward_def u not_less zero_le_mult_iff)
qed

lemma repacks_forward:
  assumes f: "parse_bitfield bf = Some (lo, hi)" "bf \<noteq> []" "lo \<le> hi" and n: "hi - lo < 16"
  shows "repacks msk w address 2 bf CHR ''b''" "repacks msk w address width bf CHR ''a''"
proof -
  let ?f = "extract_field w lo hi"
  note s = field_multiples [OF extract_field_less [OF n], of w]
  have less: "uint ?f < 2 ^ (hi - lo + 1)" by (rule extract_field_less) simp
  have u: "uint ?f < 2 ^ 16" using extract_field_less [OF n] .
  have m: "sint (ucast ?f * 2 :: i64) = uint ?f * 2" "sint (ucast ?f * 4 :: i64) = uint ?f * 4"
    by (rule sint_field_multiple [OF u])+
  note p = pack_forward_field [OF less n m(1)] pack_forward_field [OF less n m(2)]
  show "repacks msk w address 2 bf CHR ''b''"
    by (rule repacks_placeI [of _ _ _ _ _ "AO_BranchTarget (address + 4 + ucast ?f * 2)" lo hi])
      (simp_all add: decode_code_defs pack_operand_defs f displacement_from_def p)
  show "repacks msk w address width bf CHR ''a''"
    by (rule repacks_placeI [of _ _ _ _ _ "AO_PcRelative (((address + 4) AND NOT 3) + ucast ?f * 4)" lo hi])
      (simp_all add: decode_code_defs pack_operand_defs f p)
qed

text \<open>
  Wide branches. A displacement in range is determined by its low bits; the packers take them, and
  \<open>bl_word\<close> and \<open>b_cond_word\<close> are the words they write.
\<close>

lemma bit_in_signed_range:
  assumes "- (2 ^ n) \<le> sint (d :: i64)" "sint d < 2 ^ n" "n \<le> i" "i < 64"
  shows "bit d i = bit d n"
proof -
  have e: "sint d = signed_take_bit n (sint d)" using assms(1,2) by (rule signed_take_bit_int_eq_self [symmetric])
  have "bit (sint d) i = bit (sint d) n" by (subst (1 2) e) (simp add: bit_signed_take_bit_iff assms(3))
  then show ?thesis using assms(3,4) bit_imp_le_length [of d] by (auto simp: bit_sint_iff)
qed

lemma bit_0_even: "bit (d :: i64) 0 \<longleftrightarrow> sint d mod 2 \<noteq> 0"
proof -
  have "bit (sint d) 0 \<longleftrightarrow> bit d 0" by (simp only: bit_sint_iff) simp
  then show ?thesis by (simp add: bit_0 even_iff_mod_2_eq_zero)
qed

definition bl_word :: "u32 \<Rightarrow> i64 \<Rightarrow> u32" where
  "bl_word w d =
     (let raw = ucast (d AND (push_bit 25 1 - 1)) :: u32;
          s = ucast (signed_drop_bit 24 d AND 1) :: u32;
          w = place_field w 26 26 s;
          w = place_field w 16 25 (drop_bit 12 raw AND 0x3ff);
          w = place_field w 13 13 ((NOT (drop_bit 23 raw AND 1) XOR s) AND 1);
          w = place_field w 11 11 ((NOT (drop_bit 22 raw AND 1) XOR s) AND 1)
      in place_field w 0 10 (drop_bit 1 raw AND 0x7ff))"

definition b_cond_word :: "u32 \<Rightarrow> i64 \<Rightarrow> u32" where
  "b_cond_word w d =
     (let raw = ucast (d AND (push_bit 21 1 - 1)) :: u32;
          w = place_field w 26 26 (ucast (signed_drop_bit 20 d AND 1));
          w = place_field w 16 21 (drop_bit 12 raw AND 0x3f);
          w = place_field w 13 13 (drop_bit 17 raw AND 1);
          w = place_field w 11 11 (drop_bit 18 raw AND 1)
      in place_field w 0 10 (drop_bit 1 raw AND 0x7ff))"

lemma pack_wide_defs:
  "pack_bl_target w target address slot =
     (if sint (target - address - 4) mod 2 = 0 \<and> - (2 ^ 24) \<le> sint (target - address - 4) \<and> sint (target - address - 4) < 2 ^ 24
      then Ok (bl_word w (target - address - 4)) else Err (AEE_BranchOutOfRange slot (target - address - 4) 25))"
  "pack_b_cond_wide_target w target address slot =
     (if sint (target - address - 4) mod 2 = 0 \<and> - (2 ^ 20) \<le> sint (target - address - 4) \<and> sint (target - address - 4) < 2 ^ 20
      then Ok (b_cond_word w (target - address - 4)) else Err (AEE_BranchOutOfRange slot (target - address - 4) 21))"
  by (simp_all only: pack_bl_target_def pack_b_cond_wide_target_def displacement_from_def Let_def bl_word_def b_cond_word_def
      if_distrib [of Not]) auto

lemma masks_25_21: "(push_bit 25 1 - 1 :: i64) = mask 25" "(push_bit 21 1 - 1 :: i64) = mask 21"
    "(0x3ff :: u32) = mask 10" "(0x7ff :: u32) = mask 11" "(0x3f :: u32) = mask 6"
  by (simp_all add: mask_eq_exp_minus_1)

definition bl_displacement :: "u32 \<Rightarrow> i64" where
  "bl_displacement w = decode_bl_b_target w 0 - 4"

definition b_cond_displacement :: "u32 \<Rightarrow> i64" where
  "b_cond_displacement w = decode_b_cond_wide_target w 0 - 4"

lemma decode_wide_displacement:
  "decode_bl_b_target w address = address + 4 + bl_displacement w"
  "decode_b_cond_wide_target w address = address + 4 + b_cond_displacement w"
  by (simp_all add: bl_displacement_def b_cond_displacement_def decode_bl_b_target_def decode_b_cond_wide_target_def Let_def)

text \<open>Both displacements are a sign-extended combination of the word's fields.\<close>

definition bl_raw :: "u32 \<Rightarrow> u32" where
  "bl_raw w =
     (let s = drop_bit 26 w AND 1; i1 = NOT ((drop_bit 13 w AND 1) XOR s) AND 1; i2 = NOT ((drop_bit 11 w AND 1) XOR s) AND 1
      in push_bit 24 s OR push_bit 23 i1 OR push_bit 22 i2 OR push_bit 12 (drop_bit 16 w AND 0x3ff) OR push_bit 1 (w AND 0x7ff))"

definition b_cond_raw :: "u32 \<Rightarrow> u32" where
  "b_cond_raw w =
     push_bit 19 (drop_bit 26 w AND 1) OR push_bit 18 (drop_bit 11 w AND 1) OR push_bit 17 (drop_bit 13 w AND 1) OR
     push_bit 11 (drop_bit 16 w AND 0x3f) OR (w AND 0x7ff)"

lemma displacement_raw:
  "bl_displacement w = scast (signed_drop_bit 7 (push_bit 7 (bl_raw w)))"
  "b_cond_displacement w = arm_sign_extend (ucast (b_cond_raw w)) 20 * 2"
  by (simp_all only: bl_displacement_def b_cond_displacement_def decode_bl_b_target_def decode_b_cond_wide_target_def
      bl_raw_def b_cond_raw_def Let_def add_0 add_diff_cancel_left')

lemma bl_raw_bl_word: "bl_raw (bl_word w d) = ucast (d AND mask 25) AND NOT 1"
  unfolding bl_raw_def bl_word_def masks_25_21 Let_def
  by (simp add: word32_eq_bits bit_simps del: push_bit_Suc flip: numeral_2_eq_2 numeral_3_eq_3) blast

lemma b_cond_raw_b_cond_word:
  "b_cond_raw (b_cond_word w d) = push_bit 19 (ucast (drop_bit 20 d) AND 1) OR push_bit 18 (ucast (drop_bit 18 d) AND 1) OR
    push_bit 17 (ucast (drop_bit 17 d) AND 1) OR (ucast (drop_bit 1 d) AND mask 17)"
  unfolding b_cond_raw_def b_cond_word_def masks_25_21 Let_def
  by (simp add: word32_eq_bits bit_simps del: push_bit_Suc)

lemma bit_displacement:
  "bit (bl_displacement w) i \<longleftrightarrow> i < 64 \<and> bit (bl_raw w) (min i 24)"
  "bit (b_cond_displacement w) i \<longleftrightarrow> i < 64 \<and> 0 < i \<and> bit (b_cond_raw w) (min (i - 1) 19)"
proof -
  show "bit (bl_displacement w) i \<longleftrightarrow> i < 64 \<and> bit (bl_raw w) (min i 24)"
    unfolding displacement_raw by (auto simp: bit_simps min_def)
  have "arm_sign_extend (ucast (b_cond_raw w)) 20 * 2 = push_bit 1 (arm_sign_extend (ucast (b_cond_raw w)) 20)" by simp
  then show "bit (b_cond_displacement w) i \<longleftrightarrow> i < 64 \<and> 0 < i \<and> bit (b_cond_raw w) (min (i - 1) 19)"
    unfolding displacement_raw by (simp only:) (auto simp: bit_simps min_def simp del: push_bit_Suc)
qed

lemma bl_displacement_bl_word:
  assumes "sint d mod 2 = 0" "- (2 ^ 24) \<le> sint d" "sint d < 2 ^ 24"
  shows "bl_displacement (bl_word w d) = d"
proof -
  have i: "bit d i = bit d 24" if "24 < i" "i < 64" for i
    using bit_in_signed_range [OF assms(2,3) less_imp_le, OF that] .
  have 0: "\<not> bit d 0" using assms(1) by (simp only: bit_0_even)
  show ?thesis using 0
    by (simp add: word64_eq_bits i bit_displacement bl_raw_bl_word bit_simps Let_def del: push_bit_Suc bit_0)
qed

lemma b_cond_displacement_b_cond_word:
  assumes "sint d mod 2 = 0" "- (2 ^ 20) \<le> sint d" "sint d < 2 ^ 20"
  shows "b_cond_displacement (b_cond_word w d) = d \<longleftrightarrow> (bit d 17 = bit d 18 \<and> bit d 18 = bit d 19)"
proof -
  have i: "bit d i = bit d 20" if "20 < i" "i < 64" for i
    using bit_in_signed_range [OF assms(2,3) less_imp_le, OF that] .
  have 0: "\<not> bit d 0" using assms(1) by (simp only: bit_0_even)
  show ?thesis using 0
    by (simp add: word64_eq_bits i bit_displacement b_cond_raw_b_cond_word bit_simps Let_def del: push_bit_Suc bit_0
        flip: numeral_2_eq_2 numeral_3_eq_3)
qed

lemma bl_word_bl_displacement: "bl_word v (bl_displacement w) = splice v w 0x07FF2FFF"
  unfolding bl_word_def masks_25_21 Let_def splice_def
  by (simp add: word32_eq_bits bit_simps bit_displacement bl_raw_def Let_def del: push_bit_Suc flip: numeral_2_eq_2 numeral_3_eq_3) blast

lemma bl_word_keeps: "bl_word v d AND NOT 0x07FF2FFF = v AND NOT 0x07FF2FFF"
  unfolding bl_word_def masks_25_21 Let_def
  by (simp add: word32_eq_bits bit_simps Let_def del: push_bit_Suc)

lemma b_cond_word_keeps: "b_cond_word v d AND NOT 0x043F2FFF = v AND NOT 0x043F2FFF"
  unfolding b_cond_word_def masks_25_21 Let_def
  by (simp add: word32_eq_bits bit_simps Let_def del: push_bit_Suc)

lemma displacement_even: "sint (bl_displacement w) mod 2 = 0" "sint (b_cond_displacement w) mod 2 = 0"
  using bit_0_even [of "bl_displacement w"] bit_0_even [of "b_cond_displacement w"]
  by (simp_all add: bit_displacement bl_raw_def bit_simps Let_def del: push_bit_Suc bit_0)

lemma bit_sint_min: "bit (sint (d :: i64)) i \<longleftrightarrow> bit d (min i 63)"
  using bit_imp_le_length [of d i] by (auto simp: bit_sint_iff min_def)

lemma signed_range_of_bits:
  assumes "\<And>i. n < i \<Longrightarrow> i < 64 \<Longrightarrow> bit d i = bit (d :: i64) n" "n < 64"
  shows "- (2 ^ n) \<le> sint d" "sint d < 2 ^ n"
proof -
  have "sint d = signed_take_bit n (sint d)"
  proof (rule bit_eqI)
    fix i
    have "bit d (min i 63) = bit d (min (min n i) 63)"
    proof (cases "n < min i 63")
      case True
      then have "bit d (min i 63) = bit d n" by (intro assms(1)) auto
      moreover have "min (min n i) 63 = n" using True by auto
      ultimately show ?thesis by simp
    next
      case False
      then have "min (min n i) 63 = min i 63" using assms(2) by auto
      then show ?thesis by simp
    qed
    then show "bit (sint d) i = bit (signed_take_bit n (sint d)) i"
      by (simp only: bit_signed_take_bit_iff bit_sint_min possible_bit_int simp_thms)
  qed
  then show "- (2 ^ n) \<le> sint d" "sint d < 2 ^ n"
    by (metis signed_take_bit_int_greater_eq_minus_exp, metis signed_take_bit_int_less_exp)
qed

lemma displacement_range:
  "- (2 ^ 24) \<le> sint (bl_displacement w)" "sint (bl_displacement w) < 2 ^ 24"
  "- (2 ^ 20) \<le> sint (b_cond_displacement w)" "sint (b_cond_displacement w) < 2 ^ 20"
  by (rule signed_range_of_bits; auto simp: bit_displacement min_def)+

lemma pack_wide_self:
  "pack_bl_target v (address + 4 + bl_displacement w) address slot = Ok (splice v w 0x07FF2FFF)"
  "pack_b_cond_wide_target v (address + 4 + b_cond_displacement w) address slot = Ok (b_cond_word v (b_cond_displacement w))"
proof -
  have d: "address + 4 + x - address - 4 = x" for x :: i64 by simp
  show "pack_bl_target v (address + 4 + bl_displacement w) address slot = Ok (splice v w 0x07FF2FFF)"
    unfolding pack_wide_defs d using displacement_even displacement_range by (simp only: bl_word_bl_displacement) simp
  show "pack_b_cond_wide_target v (address + 4 + b_cond_displacement w) address slot = Ok (b_cond_word v (b_cond_displacement w))"
    unfolding pack_wide_defs d using displacement_even displacement_range by simp
qed

lemma b_cond_keeps:
  assumes "msk AND 0x043F2FFF = 0" "agrees msk v w"
  shows "agrees msk (b_cond_word v (b_cond_displacement w)) w"
proof -
  have "(v' AND msk) = (v' AND NOT 0x043F2FFF) AND msk" for v' :: u32
    using assms(1) by (auto simp: bit_eq_iff bit_simps)
  then show ?thesis
    using assms(2) b_cond_word_keeps [of v "b_cond_displacement w"] unfolding agrees_def by metis
qed

lemma repacks_wide_branch:
  "repacks msk w address 4 [] CHR ''B''"
  "msk AND 0x043F2FFF = 0 \<Longrightarrow> repacks msk w address 4 [] CHR ''b''"
proof -
  have p: "parse_bitfield [] = None" by (simp add: parse_bitfield_def)
  show "repacks msk w address 4 [] CHR ''B''"
    by (rule repacks_spliceI [of _ _ _ _ _ "AO_BranchTarget (address + 4 + bl_displacement w)" "0x07FF2FFF"])
      (simp_all add: decode_code_defs pack_operand_defs p pack_wide_self decode_wide_displacement)
  assume m: "msk AND 0x043F2FFF = 0"
  show "repacks msk w address 4 [] CHR ''b''"
    by (rule repacksI [of _ _ _ _ _ "AO_BranchTarget (address + 4 + b_cond_displacement w)"])
      (simp_all add: decode_code_defs pack_operand_defs p pack_wide_self decode_wide_displacement b_cond_keeps [OF m])
qed

text \<open>Registers and register lists of halfword instructions.\<close>

lemma repacks_halfword:
  "repacks msk w address 2 [] CHR ''S''" "repacks msk w address 2 [] CHR ''D''"
  "repacks msk w address 2 [] CHR ''M''" "repacks msk w address width [] CHR ''N''" "repacks msk w address width [] CHR ''O''"
proof -
  show "repacks msk w address 2 [] CHR ''S''"
    by (rule repacks_spliceI [of _ _ _ _ _ _ "0x78"]; simp add: decode_code_defs pack_operand_defs Let_def;
      simp add: word32_eq_bits bit_simps)
  show "repacks msk w address 2 [] CHR ''D''"
    by (rule repacks_spliceI [of _ _ _ _ _ _ "0x87"]; simp add: decode_code_defs pack_operand_defs Let_def;
      simp add: word32_eq_bits bit_simps)
  have "(0xff :: u32) = mask 8" "(0xff :: 16 word) = mask 8" by (simp_all add: mask_eq_exp_minus_1)
  then have "(ucast (w AND 0xff) :: 16 word) AND NOT 0xff = 0"
    by (simp only:) (auto simp: bit_eq_iff bit_simps)
  then show "repacks msk w address 2 [] CHR ''M''"
    by (intro repacks_spliceI [of _ _ _ _ _ "AO_RegisterList (ucast (w AND 0xff))" "0xff"];
      simp add: decode_code_defs pack_operand_defs; simp add: word32_eq_bits bit_simps)
  show "repacks msk w address width [] CHR ''N''"
    by (rule repacks_spliceI [of _ _ _ _ _ _ "0x1ff"]; simp add: decode_code_defs pack_operand_defs Let_def place_list_def;
      simp add: word32_eq_bits bit_simps)
  show "repacks msk w address width [] CHR ''O''"
    by (rule repacks_spliceI [of _ _ _ _ _ _ "0x1ff"]; simp add: decode_code_defs pack_operand_defs Let_def place_list_def;
      simp add: word32_eq_bits bit_simps)
qed

text \<open>Operands kept as bits, and immediates that are written nowhere.\<close>

lemma repacks_opaqueI:
  "fst (decode_code w address width bf code) = [opaque_bits w m] \<Longrightarrow>
   (\<And>v slot. pack_operand code bf (opaque_bits w m) slot v address width = expect_opaque (opaque_bits w m) slot ''x'' v) \<Longrightarrow>
   repacks msk w address width bf code"
  by (rule repacks_spliceI [of _ _ _ _ _ "opaque_bits w m" m]) (simp_all add: opaque_bits_def expect_opaque_def splice_and)

lemma repacks_opaque:
  "repacks msk w address 2 [] CHR ''I''" "repacks msk w address 4 [] CHR ''M''" "repacks msk w address 4 [] CHR ''S''"
  "repacks msk w address 2 [] CHR ''s''" "repacks msk w address 2 [] CHR ''b''" "repacks msk w address 4 [] CHR ''m''"
  "repacks msk w address 4 [] CHR ''n''" "repacks msk w address 4 [] CHR ''E''" "repacks msk w address 4 [] CHR ''F''"
  by (rule repacks_opaqueI [where m = "0xff"], simp add: decode_code_defs, simp add: pack_operand_defs opaque_bits_def)
     (rule repacks_opaqueI [where m = "0x040070FF"], simp add: decode_code_defs, simp add: pack_operand_defs opaque_bits_def,
      rule repacks_opaqueI [where m = "0x001070FF"], simp add: decode_code_defs, simp add: pack_operand_defs opaque_bits_def,
      rule repacks_opaqueI [where m = "0x07C0"], simp add: decode_code_defs, simp add: pack_operand_defs opaque_bits_def,
      rule repacks_opaqueI [where m = "0x02F8"], simp add: decode_code_defs, simp add: pack_operand_defs opaque_bits_def,
      (rule repacks_opaqueI [where m = "0x0020FFFF"], simp add: decode_code_defs, simp add: pack_operand_defs opaque_bits_def)+,
      (rule repacks_opaqueI [where m = "0x709F"], simp add: decode_code_defs, simp add: pack_operand_defs opaque_bits_def)+)

lemma repacks_ignored:
  "repacks msk w address 4 [] CHR ''K''" "repacks msk w address 4 [] CHR ''H''" "repacks msk w address 4 [] CHR ''V''"
  "repacks msk w address 4 [] CHR ''U''" "repacks msk w address 4 [] CHR ''P''" "repacks msk w address 4 [] CHR ''Q''"
  "repacks msk w address 4 [] CHR ''G''" "repacks msk w address 4 [] CHR ''Y''" "repacks msk w address 4 [] CHR ''Z''"
  by (rule repacks_idI; simp add: decode_code_defs pack_operand_defs Let_def)+

text \<open>Immediates spread over the word.\<close>

definition imm12_of :: "u32 \<Rightarrow> u32" where
  "imm12_of w = push_bit 11 (drop_bit 26 w AND 1) OR push_bit 8 (drop_bit 12 w AND 7) OR (w AND 0xff)"

definition imm16_of :: "u32 \<Rightarrow> u32" where
  "imm16_of w = push_bit 12 (drop_bit 16 w AND 0xf) OR imm12_of w"

lemma uint_below_mask: "x = x AND mask n \<Longrightarrow> uint (x :: u32) \<le> 2 ^ n - 1"
  by (metis and_mask_lt_2p zle_diff1_eq)

lemma sint_ucast_masked: "x = x AND mask n \<Longrightarrow> n \<le> 30 \<Longrightarrow> sint (ucast x :: i64) = uint (x :: u32)"
proof (rule sint_widened_field)
  assume "x = x AND mask n" "n \<le> 30"
  then have "uint x < 2 ^ n" by (metis and_mask_lt_2p)
  also have "(2 :: int) ^ n \<le> 2 ^ 30" using \<open>n \<le> 30\<close> by (intro power_increasing) auto
  finally show "uint x < 2 ^ 31" by simp
qed

lemma imm_masked: "imm12_of w = imm12_of w AND mask 12" "imm16_of w = imm16_of w AND mask 16"
  by (simp_all add: imm12_of_def imm16_of_def word32_eq_bits bit_simps)

lemma place_imm:
  "place_imm12 v (imm12_of w) = splice v w 0x040070FF"
  "place_field (place_imm12 v (imm16_of w)) 16 19 (drop_bit 12 (imm16_of w) AND 0xf) = splice v w 0x040F70FF"
  by (simp_all add: place_imm12_def imm12_of_def imm16_of_def word32_eq_bits bit_simps)

lemma ucast_ucast_u32: "ucast (ucast x :: i64) = (x :: u32)"
  by (intro bit_word_eqI) (simp add: bit_simps)

lemma repacks_scattered:
  "repacks msk w address 4 [] CHR ''I''" "repacks msk w address 4 [] CHR ''J''"
proof -
  note s = sint_ucast_masked [OF imm_masked(1), of w, simplified] sint_ucast_masked [OF imm_masked(2), of w, simplified]
  note b = uint_below_mask [OF imm_masked(1), of w, simplified] uint_below_mask [OF imm_masked(2), of w, simplified]
  show "repacks msk w address 4 [] CHR ''I''"
  proof (rule repacks_spliceI [of _ _ _ _ _ "AO_Immediate (ucast (imm12_of w))" "0x040070FF"])
    show "fst (decode_code w address 4 [] CHR ''I'') = [AO_Immediate (ucast (imm12_of w))]"
      by (simp add: decode_code_defs Let_def imm12_of_def)
  qed (simp add: pack_operand_defs s b place_imm ucast_ucast_u32)
  show "repacks msk w address 4 [] CHR ''J''"
  proof (rule repacks_spliceI [of _ _ _ _ _ "AO_Immediate (ucast (imm16_of w))" "0x040F70FF"])
    show "fst (decode_code w address 4 [] CHR ''J'') = [AO_Immediate (ucast (imm16_of w))]"
      by (simp add: decode_code_defs Let_def imm16_of_def imm12_of_def or.assoc)
  qed (simp add: pack_operand_defs s b place_imm [simplified] ucast_ucast_u32)
qed


section \<open>The classes of the escapes\<close>

lemma class_matched:
  assumes "escape_class inner width msk bf code = Some EU_Matched"
  shows "code = CHR ''c'' \<and> \<not> inner \<and> narrow bf 8 \<or>
    bf \<noteq> [] \<and> code \<in> set ''rRS'' \<and> narrow bf 8 \<or>
    bf \<noteq> [] \<and> code \<in> set ''dDWHBa'' \<and> narrow bf 16 \<or>
    code = CHR ''b'' \<and> width = 2 \<and> narrow bf 16 \<or>
    bf = [] \<and> code = CHR ''B'' \<and> width = 4 \<or>
    bf = [] \<and> code = CHR ''b'' \<and> width = 4 \<and> msk AND 0x043F2FFF = 0 \<or>
    bf = [] \<and> code \<in> set ''SDMNOIsb'' \<and> width = 2 \<or>
    bf = [] \<and> code \<in> set ''IMJKHVSmnEFUPQGYZ'' \<and> width = 4"
  using assms unfolding escape_class_def by (simp del: list.set insert_iff split: if_split_asm)

lemma class_extra:
  assumes "escape_class inner width msk bf code = Some EU_Extra"
  shows "code = CHR ''x'' \<or> code = CHR ''c'' \<and> inner \<and> bf \<noteq> []"
  using assms unfolding escape_class_def by (auto simp del: list.set insert_iff split: if_split_asm) simp

lemma class_matched_extra:
  assumes "escape_class inner width msk bf code = Some EU_Matched_Extra"
  shows "bf = [] \<and> width = 4 \<and> code \<in> set ''La''"
  using assms unfolding escape_class_def by (simp del: list.set insert_iff split: if_split_asm)

lemma class_silent:
  assumes "escape_class inner width msk bf code = Some EU_Silent"
  shows "code \<in> set ''cCxX%twW'' \<and> bf = [] \<or> code \<in> set ''CX%t''"
  using assms unfolding escape_class_def by (auto simp del: list.set insert_iff split: if_split_asm)

lemma matched_repacks:
  assumes "escape_class inner width msk bf code = Some EU_Matched"
  shows "code = CHR ''c'' \<and> \<not> inner \<and> narrow bf 8 \<or>
    repacks msk w address width bf code \<and> \<not> only_displays code bf \<and> code \<noteq> CHR ''c''"
  using class_matched [OF assms]
proof (elim disjE conjE)
  assume h: "bf \<noteq> []" "code \<in> set ''rRS''" "narrow bf 8"
  obtain lo hi where f: "parse_bitfield bf = Some (lo, hi)" "bf \<noteq> []" "lo \<le> hi" "hi - lo < 8" using h(3) by (rule narrowE)
  show ?thesis using h(2) repacks_register [OF f, of msk w address width] by (auto simp: only_displays_def)
next
  assume h: "bf \<noteq> []" "code \<in> set ''dDWHBa''" "narrow bf 16"
  obtain lo hi where f: "parse_bitfield bf = Some (lo, hi)" "bf \<noteq> []" "lo \<le> hi" "hi - lo < 16" using h(3) by (rule narrowE)
  show ?thesis
    using h(1,2) repacks_immediate [OF f, of msk w address width] repacks_B [OF f, of msk w address width]
      repacks_forward(2) [OF f, of msk w address width] by (auto simp: only_displays_def)
next
  assume h: "code = CHR ''b''" "width = 2" "narrow bf 16"
  obtain lo hi where f: "parse_bitfield bf = Some (lo, hi)" "bf \<noteq> []" "lo \<le> hi" "hi - lo < 16" using h(3) by (rule narrowE)
  show ?thesis using h repacks_forward(1) [OF f, of msk w address] by (simp add: only_displays_def)
next
  assume "bf = []" "code \<in> set ''SDMNOIsb''" "width = 2"
  then show ?thesis
    using repacks_halfword [of msk w address] repacks_opaque [of msk w address] by (auto simp: only_displays_def)
next
  assume "bf = []" "code \<in> set ''IMJKHVSmnEFUPQGYZ''" "width = 4"
  then show ?thesis
    using repacks_scattered [of msk w address] repacks_opaque [of msk w address] repacks_ignored [of msk w address]
    by (auto simp: only_displays_def)
qed (simp_all add: repacks_wide_branch only_displays_def)

text \<open>Operands that keep bits keep those of the word.\<close>

definition bits_of_word :: "u32 \<Rightarrow> arm_operand list \<Rightarrow> bool" where
  "bits_of_word w ops \<longleftrightarrow> (\<forall>bts m. AO_OpaqueBits bts m \<in> set ops \<longrightarrow> bts = w AND m)"

lemma bits_of_word_simps [simp]:
  "bits_of_word w []" "bits_of_word w (AO_OpaqueBits bts m # ops) \<longleftrightarrow> bts = w AND m \<and> bits_of_word w ops"
  "bits_of_word w (AO_Register r # ops) \<longleftrightarrow> bits_of_word w ops" "bits_of_word w (AO_Immediate v # ops) \<longleftrightarrow> bits_of_word w ops"
  "bits_of_word w (AO_BranchTarget t # ops) \<longleftrightarrow> bits_of_word w ops" "bits_of_word w (AO_PcRelative t # ops) \<longleftrightarrow> bits_of_word w ops"
  "bits_of_word w (AO_RegisterList l # ops) \<longleftrightarrow> bits_of_word w ops" "bits_of_word w (AO_Condition c # ops) \<longleftrightarrow> bits_of_word w ops"
  "bits_of_word w (ops @ ops') \<longleftrightarrow> bits_of_word w ops \<and> bits_of_word w ops'"
  by (auto simp: bits_of_word_def)

lemma agrees_splice_rest: "agrees msk v w \<Longrightarrow> bits_of_word w ops \<Longrightarrow> agrees msk (splice_rest ops v) w"
  by (induction ops v rule: splice_rest.induct) auto

lemma splice_rest_append: "splice_rest (ops @ ops') v = splice_rest ops' (splice_rest ops v)"
  by (induction ops v rule: splice_rest.induct) auto

lemma on_field_bits: "on_field bf f = Some ops \<Longrightarrow> (\<And>lo hi. bits_of_word w [f lo hi]) \<Longrightarrow> bits_of_word w ops"
  by (auto simp: on_field_def split: option.splits)

lemma decoded_bits:
  "decode_display code bf = Some ops \<Longrightarrow> bits_of_word w ops"
  "decode_field code bf w address = Some ops \<Longrightarrow> bits_of_word w ops"
  "decode_branch code bf w address width = Some (ops, un) \<Longrightarrow> bits_of_word w ops"
  "decode_register_code code bf w width = Some ops \<Longrightarrow> bits_of_word w ops"
  "decode_scattered code w width = Some ops \<Longrightarrow> bits_of_word w ops"
  "decode_opaque code bf w width = Some ops \<Longrightarrow> bits_of_word w ops"
  "decode_address code bf w address width = Some ops \<Longrightarrow> bits_of_word w ops"
  "decode_system code bf w address width = Some ops \<Longrightarrow> bits_of_word w ops"
  subgoal by (simp add: decode_display_def split: if_splits)
  subgoal by (auto simp: decode_field_def register_operand_def elim!: on_field_bits simp del: list.set insert_iff split: if_split_asm)
  subgoal by (auto simp: decode_branch_def Let_def split: if_split_asm option.splits)
  subgoal by (auto simp: decode_register_code_def Let_def split: if_split_asm)
  subgoal by (auto simp: decode_scattered_def Let_def opaque_bits_def split: if_split_asm)
  subgoal by (auto simp: decode_opaque_def Let_def opaque_bits_def split: if_split_asm)
  subgoal by (auto simp: decode_address_def Let_def opaque_bits_def split: if_split_asm)
  subgoal by (auto simp: decode_system_def Let_def split: if_split_asm)
  done

lemma decode_code_bits: "bits_of_word w (fst (decode_code w address width bf code))"
  by (auto simp: decode_code_def first_answer_def Let_def dest: decoded_bits split: option.split)

lemma decode_escapes_bits: "bits_of_word w (fst (decode_escapes w address width es))"
  by (induction w address width es rule: decode_escapes.induct) (simp_all add: append_pair_def decode_code_bits)

section \<open>The walk\<close>

lemma decode_silent:
  assumes "escape_class inner width msk bf code = Some EU_Silent"
  shows "fst (decode_code w address width bf code) = []" "only_displays code bf" "code = CHR ''c'' \<Longrightarrow> bf = []"
proof -
  consider "code \<in> set ''cCxX%twW''" "bf = []" | "code \<in> set ''CX%t''" "bf \<noteq> []" using class_silent [OF assms] by (cases "bf = []") auto
  then have "fst (decode_code w address width bf code) = [] \<and> only_displays code bf \<and> (code = CHR ''c'' \<longrightarrow> bf = [])"
  proof cases
    case 1
    then have "decode_display code bf = Some []" by (simp add: decode_display_def)
    then show ?thesis using 1 by (auto simp: decode_code_def first_answer_def Let_def only_displays_def)
  next
    case 2
    then have "code = CHR ''C'' \<or> code = CHR ''X'' \<or> code = CHR ''%'' \<or> code = CHR ''t''" by simp
    then show ?thesis by (elim disjE) (use 2 in \<open>simp_all add: decode_code_defs only_displays_def\<close>)
  qed
  then show "fst (decode_code w address width bf code) = []" "only_displays code bf" "code = CHR ''c'' \<Longrightarrow> bf = []" by simp_all
qed

lemma decode_matched_extra:
  assumes "escape_class inner width msk bf code = Some EU_Matched_Extra"
  obtains extra m where "fst (decode_code w address width bf code) = opaque_bits w m # extra"
    "\<And>v slot. pack_operand code bf (opaque_bits w m) slot v address width = Ok (splice v w m)"
    "\<not> only_displays code bf" "code \<noteq> CHR ''c''"
proof -
  have h: "bf = []" "width = 4" "code = CHR ''L'' \<or> code = CHR ''a''" using class_matched_extra [OF assms] by auto
  from h(3) show ?thesis
  proof
    assume "code = CHR ''L''"
    with h show ?thesis
      by (intro that [of "0x03AF00FF"]) (simp_all add: decode_code_defs pack_operand_defs Let_def splice_and only_displays_def opaque_bits_def)
  next
    assume "code = CHR ''a''"
    with h show ?thesis
      by (intro that [of "0x00EF0FFF"]) (simp_all add: decode_code_defs pack_operand_defs Let_def splice_and only_displays_def opaque_bits_def)
  qed
qed

lemma extra_displays:
  assumes "escape_class inner width msk bf code = Some EU_Extra"
  shows "only_displays code bf" "code = CHR ''c'' \<Longrightarrow> inner"
  using class_extra [OF assms] by (auto simp: only_displays_def)

lemma vec_get_middle: "vec_get (pre @ x # ys) (length pre) = Some x"
  by (simp add: vec_get_Some_iff)

lemma scan_unaligned: "scan inner width msk es aligned = Some b \<Longrightarrow> \<not> aligned \<Longrightarrow> \<not> b"
  by (induction inner width msk es aligned arbitrary: b rule: scan.induct)
    (auto split: option.splits escape_use.splits if_splits bind_splits)

text \<open>
  What a walk does on the operands decoded from the same escapes: it succeeds, keeps the word's bits
  where the mask has them, and consumes all of the operands as long as it is aligned.
\<close>

definition walked :: "u32 \<Rightarrow> u32 \<Rightarrow> bool \<Rightarrow> nat \<Rightarrow> nat \<Rightarrow> arm_encode_error + u32 \<times> nat \<Rightarrow> bool" where
  "walked msk w aligned start n r \<longleftrightarrow>
     (\<exists>v c. r = Ok (v, c) \<and> agrees msk v w \<and> start \<le> c \<and> c \<le> start + n \<and> (aligned \<longrightarrow> c = start + n))"

lemma walkedE:
  assumes "walked msk w aligned start n r"
  obtains v c where "r = Ok (v, c)" "agrees msk v w" "start \<le> c" "c \<le> start + n" "aligned \<Longrightarrow> c = start + n"
  using assms by (auto simp: walked_def)

lemma pack_next_matched:
  assumes "repacks msk w address width bf code" "agrees msk v w"
  obtains opnd v' where "fst (decode_code w address width bf code) = [opnd]" "agrees msk v' w"
    "pack_next code bf v (pre @ opnd # ops) (length pre) address width = Ok v'"
  using assms unfolding repacks_def pack_next_def by (metis and_then.simps(2) ok_or_simps(2) vec_get_middle)

text \<open>The two walks as one function of whether the walk is inside a wrapper.\<close>

definition walk_escape ::
    "bool \<Rightarrow> string \<Rightarrow> char \<Rightarrow> u32 \<Rightarrow> arm_operand list \<Rightarrow> nat \<Rightarrow> u64 \<Rightarrow> nat \<Rightarrow> arm_encode_error + u32 \<times> nat" where
  "walk_escape inner bf code v operands idx address width =
     (case (if \<not> inner \<and> code = CHR ''c'' then parse_bitfield bf else None) of
        Some (lo, hi) \<Rightarrow>
          and_then (ok_or (vec_get operands idx) (AEE_ArityMismatch (idx + 1) (length operands))) (\<lambda>opnd.
            case opnd of
              AO_Condition c \<Rightarrow> Ok (place_field v lo hi (ucast c), 1)
            | _ \<Rightarrow> Err (AEE_OperandShapeMismatch idx ''c'' (operand_kind opnd)))
      | None \<Rightarrow>
          if only_displays code bf then Ok (v, 0)
          else and_then (pack_next code bf v operands idx address width) (\<lambda>v. Ok (v, 1)))"

fun thumb_walk ::
    "bool \<Rightarrow> escape list \<Rightarrow> u32 \<Rightarrow> arm_operand list \<Rightarrow> nat \<Rightarrow> u64 \<Rightarrow> nat \<Rightarrow> arm_encode_error + u32 \<times> nat" where
  "thumb_walk inner [] v operands idx address width = Ok (v, idx)"
| "thumb_walk inner (Wrap es # rest) v operands idx address width =
     and_then (thumb_walk True es v (drop idx operands) 0 address width) (\<lambda>(v, c).
       thumb_walk inner rest v operands (idx + c) address width)"
| "thumb_walk inner (Esc bf code # rest) v operands idx address width =
     and_then (walk_escape inner bf code v operands idx address width) (\<lambda>(v, c).
       thumb_walk inner rest v operands (idx + c) address width)"

lemma and_then_assoc: "and_then (and_then r f) g = and_then r (\<lambda>x. and_then (f x) g)"
  by (cases r) simp_all

lemma encode_walk_inner_walk: "encode_walk_inner es v operands idx address width = thumb_walk True es v operands idx address width"
  by (induction es v operands idx address width rule: encode_walk_inner.induct)
    (auto simp: walk_escape_def and_then_assoc intro!: and_then_cong)

lemma encode_walk_walk: "encode_walk es v operands idx address width = thumb_walk False es v operands idx address width"
  by (induction es v operands idx address width rule: encode_walk.induct)
    (auto simp: walk_escape_def and_then_assoc encode_walk_inner_walk intro!: and_then_cong split: option.splits arm_operand.splits)

lemma escape_step:
  assumes u: "escape_class inner width msk bf code = Some u" and v: "agrees msk v w"
    and al: "u = EU_Matched \<or> u = EU_Matched_Extra \<Longrightarrow> operands = pre @ fst (decode_code w address width bf code) @ rest \<and> idx = length pre"
  shows "walked msk w (u = EU_Silent \<or> u = EU_Matched) 0 (length (fst (decode_code w address width bf code)))
    (walk_escape inner bf code v operands idx address width)"
proof (cases u)
  case EU_Silent
  then show ?thesis
    using decode_silent [OF u [unfolded EU_Silent]] v by (auto simp: walk_escape_def walked_def parse_bitfield_def)
next
  case EU_Extra
  then show ?thesis
    using extra_displays [OF u [unfolded EU_Extra]] v by (auto simp: walk_escape_def walked_def)
next
  case EU_Matched_Extra
  obtain m extra where p: "fst (decode_code w address width bf code) = opaque_bits w m # extra"
      "\<And>v slot. pack_operand code bf (opaque_bits w m) slot v address width = Ok (splice v w m)"
      "\<not> only_displays code bf" "code \<noteq> CHR ''c''"
    by (rule decode_matched_extra [OF u [unfolded EU_Matched_Extra], of w address]) blast
  then show ?thesis
    using al EU_Matched_Extra v by (auto simp: walk_escape_def walked_def pack_next_def vec_get_middle)
next
  case EU_Matched
  have ops: "operands = pre @ fst (decode_code w address width bf code) @ rest" "idx = length pre"
    using al EU_Matched by simp_all
  consider "code = CHR ''c''" "\<not> inner" "narrow bf 8"
    | "repacks msk w address width bf code" "\<not> only_displays code bf" "code \<noteq> CHR ''c''"
    using matched_repacks [OF u [unfolded EU_Matched]] by auto
  then show ?thesis
  proof cases
    case 1
    obtain lo hi where f: "parse_bitfield bf = Some (lo, hi)" "bf \<noteq> []" "lo \<le> hi" "hi - lo < 8"
      using 1(3) by (rule narrowE)
    have "fst (decode_code w address width bf code) = [AO_Condition (ucast (extract_field w lo hi))]"
      by (simp add: decode_code_defs 1(1) f)
    then show ?thesis
      using v ops EU_Matched by (auto simp: walk_escape_def walked_def 1(1,2) f vec_get_middle ucast_extract_less)
  next
    case 2
    obtain opnd v' where "fst (decode_code w address width bf code) = [opnd]" "agrees msk v' w"
      "pack_next code bf v (pre @ opnd # rest) (length pre) address width = Ok v'"
      by (rule pack_next_matched [OF 2(1) v])
    then show ?thesis using ops 2(2,3) EU_Matched by (auto simp: walk_escape_def walked_def)
  qed
qed

lemma walk_decoded:
  assumes "scan inner width msk es aligned = Some aligned'" "agrees msk v w"
    and "aligned \<Longrightarrow> operands = pre @ fst (decode_escapes w address width es) @ rest \<and> start = length pre"
  shows "walked msk w aligned' start (length (fst (decode_escapes w address width es)))
    (thumb_walk inner es v operands start address width)"
  using assms
proof (induction inner width msk es aligned arbitrary: aligned' v operands pre rest start rule: scan.induct)
  case (1 inner width msk aligned)
  then show ?case by (simp add: walked_def)
next
  case (2 inner width msk es rest' aligned)
  then obtain mid where mid: "scan True width msk es aligned = Some mid" "scan inner width msk rest' mid = Some aligned'"
    by (auto simp: bind_eq_Some_conv)
  let ?d = "fst (decode_escapes w address width es)" and ?d' = "fst (decode_escapes w address width rest')"
  have "walked msk w mid 0 (length ?d) (thumb_walk True es v (drop start operands) 0 address width)"
    by (rule "2.IH"(1) [OF mid(1) "2.prems"(2), of _ "[]" "?d' @ rest"])
      (use "2.prems"(3) in \<open>simp add: append_pair_def\<close>)
  then obtain v1 c1 where c1: "thumb_walk True es v (drop start operands) 0 address width = Ok (v1, c1)"
      "agrees msk v1 w" "c1 \<le> length ?d" "mid \<Longrightarrow> c1 = length ?d"
    by (auto elim: walkedE)
  have al: "mid \<Longrightarrow> aligned" using scan_unaligned [OF mid(1)] by blast
  have "walked msk w aligned' (start + c1) (length ?d') (thumb_walk inner rest' v1 operands (start + c1) address width)"
    by (rule "2.IH"(2) [OF mid c1(2), of _ "pre @ ?d" rest])
      (use "2.prems"(3) c1(4) al in \<open>simp add: append_pair_def\<close>)
  moreover have "aligned' \<Longrightarrow> mid" using scan_unaligned [OF mid(2)] by blast
  ultimately show ?case using c1 by (auto simp: walked_def append_pair_def)
next
  case (3 inner width msk bf code rest' aligned)
  let ?d = "fst (decode_code w address width bf code)" and ?d' = "fst (decode_escapes w address width rest')"
  obtain u where u: "escape_class inner width msk bf code = Some u"
    using "3.prems"(1) by (auto split: option.splits)
  define mid where "mid \<longleftrightarrow> aligned \<and> (u = EU_Silent \<or> u = EU_Matched)"
  have s: "scan inner width msk rest' mid = Some aligned'" "u = EU_Matched \<or> u = EU_Matched_Extra \<Longrightarrow> aligned"
    using "3.prems"(1) u by (auto simp: mid_def split: escape_use.splits if_splits)
  have ops: "aligned \<Longrightarrow> operands = pre @ ?d @ ?d' @ rest \<and> start = length pre"
    using "3.prems"(3) by (simp add: append_pair_def)
  have "walked msk w (u = EU_Silent \<or> u = EU_Matched) 0 (length ?d) (walk_escape inner bf code v operands start address width)"
    by (rule escape_step [OF u "3.prems"(2)]) (use s(2) ops in blast)
  then obtain v1 c1 where c1: "walk_escape inner bf code v operands start address width = Ok (v1, c1)"
      "agrees msk v1 w" "c1 \<le> length ?d" "u = EU_Silent \<or> u = EU_Matched \<Longrightarrow> c1 = length ?d"
    by (auto simp: walked_def)
  have o: "operands = (pre @ ?d) @ ?d' @ rest \<and> start + c1 = length (pre @ ?d)" if "mid"
    using that ops c1(4) by (auto simp: mid_def)
  have "walked msk w aligned' (start + c1) (length ?d') (thumb_walk inner rest' v1 operands (start + c1) address width)"
  proof (cases u)
    case EU_Silent
    then have "mid = aligned" by (simp add: mid_def)
    with s(1) o show ?thesis
      by (intro "3.IH"(1) [OF u EU_Silent _ c1(2), where pre = "pre @ ?d" and rest = rest]) simp_all
  next
    case EU_Matched
    then have "mid" "aligned" using s(2) by (simp_all add: mid_def)
    with s(1) o show ?thesis
      by (intro "3.IH"(2) [OF u EU_Matched _ _ c1(2), where pre = "pre @ ?d" and rest = rest]) simp_all
  next
    case EU_Matched_Extra
    then have "\<not> mid" "aligned" using s(2) by (simp_all add: mid_def)
    with s(1) show ?thesis by (intro "3.IH"(3) [OF u EU_Matched_Extra _ _ c1(2)]) simp_all
  next
    case EU_Extra
    then have "\<not> mid" by (simp add: mid_def)
    with s(1) show ?thesis by (intro "3.IH"(4) [OF u EU_Extra _ c1(2)]) simp_all
  qed
  moreover have "aligned' \<Longrightarrow> c1 = length ?d" using scan_unaligned [OF s(1)] c1(4) by (auto simp: mid_def)
  ultimately show ?case using c1(1-3) by (auto simp: walked_def append_pair_def)
qed

section \<open>The rows of the table\<close>

lemma halfword_bits: "(w :: u32) < 2 ^ 16 \<Longrightarrow> 16 \<le> i \<Longrightarrow> \<not> bit w i"
proof -
  assume w: "w < 2 ^ 16" and i: "16 \<le> i"
  have "w = w AND mask 16" using less_mask_eq [of w 16] w by simp
  then have "bit w i \<longleftrightarrow> bit (w AND mask 16) i" by simp
  then show "\<not> bit w i" using i by (simp add: bit_simps)
qed

lemma row_mask_opcode:
  assumes "w AND th_mask row = th_opcode row" "th_width row = TW_Halfword \<Longrightarrow> w < 2 ^ 16"
  shows "agrees (row_mask row) (th_opcode row) w"
proof (cases "th_width row")
  case TW_Word
  then show ?thesis by (auto simp: row_mask_def agrees_bits bit_simps simp flip: assms(1))
next
  case TW_Halfword
  have "0xFFFF0000 = push_bit 16 (mask 16 :: u32)" by (simp add: mask_eq_exp_minus_1)
  then have m: "row_mask row = th_mask row OR push_bit 16 (mask 16)" by (simp add: row_mask_def TW_Halfword)
  have "bit (row_mask row) i \<longleftrightarrow> i < 32 \<and> (bit (th_mask row) i \<or> 16 \<le> i)" for i
    using bit_imp_le_length [of "th_mask row" i] unfolding m by (auto simp: bit_simps)
  then show ?thesis
    using halfword_bits [OF assms(2) [OF TW_Halfword]] by (auto simp: agrees_bits bit_simps simp flip: assms(1))
qed

lemma tail_operands_row_mask:
  assumes "th_width row = TW_Halfword \<Longrightarrow> w < 2 ^ 16" "agrees (row_mask row) v w"
  shows "splice_rest (tail_operands row (th_width row) w) v = w"
proof -
  have m: "tail_mask row (th_width row) = NOT (row_mask row)"
    by (cases "th_width row"; simp add: tail_mask_def row_mask_def word32_eq_bits bit_simps)
  have u: "unmasked_word_bits row (th_width row) w = w AND NOT (row_mask row)"
    by (cases "th_width row"; simp add: unmasked_word_bits_def row_mask_def word32_eq_bits bit_simps)
  have e: "splice v (w AND NOT (row_mask row)) (NOT (row_mask row)) = w"
    using assms(2) by (intro bit_word_eqI) (auto simp: bit_simps agrees_bits)
  show ?thesis
  proof (cases "NOT (row_mask row) = 0")
    case True
    then have "v = w" using e by (simp add: splice_def)
    then show ?thesis using True by (simp add: tail_operands_def m)
  next
    case False
    then show ?thesis by (simp add: tail_operands_def m u e)
  qed
qed

lemma row_encodes:
  assumes row: "thumb_row_ok row" and w: "w AND th_mask row = th_opcode row" "th_width row = TW_Halfword \<Longrightarrow> w < 2 ^ 16"
  shows "encode_with_row row (fst (decode_operands_from_format (th_format row) w address (width_bytes (th_width row))) @
      tail_operands row (th_width row) w) address
    = Ok (w, th_width row)"
proof -
  let ?n = "width_bytes (th_width row)" and ?tail = "tail_operands row (th_width row) w"
  let ?d = "fst (decode_operands_from_format (th_format row) w address ?n)"
  obtain al where s: "scan False ?n (row_mask row) (escapes (th_format row)) True = Some al"
    using row by (auto simp: thumb_row_ok_def)
  have "walked (row_mask row) w al 0 (length ?d) (encode_walk (escapes (th_format row)) (th_opcode row) (?d @ ?tail) 0 address ?n)"
    unfolding encode_walk_walk decode_operands_from_format_def
    by (rule walk_decoded [OF s row_mask_opcode [OF w], where pre = "[]" and rest = ?tail]) simp_all
  then obtain v c where c: "encode_walk (escapes (th_format row)) (th_opcode row) (?d @ ?tail) 0 address ?n = Ok (v, c)"
      "agrees (row_mask row) v w" "c \<le> length ?d"
    by (auto simp: walked_def)
  have "agrees (row_mask row) (splice_rest (drop c ?d) v) w"
    using c(2) decode_escapes_bits [of w address ?n "escapes (th_format row)"]
    by (intro agrees_splice_rest) (auto simp: bits_of_word_def decode_operands_from_format_def dest: in_set_dropD)
  then show ?thesis
    using c tail_operands_row_mask [OF w(2)] by (simp add: encode_with_row_def encode_with_format_def splice_rest_append)
qed

section \<open>Reading and writing bytes\<close>

lemma bit_byte_beyond: "8 \<le> n \<Longrightarrow> bit (b :: u8) n \<longleftrightarrow> False"
  using bit_imp_le_length [of b n] by auto

lemma bit_halfword_beyond: "16 \<le> n \<Longrightarrow> bit (h :: 16 word) n \<longleftrightarrow> False"
  using bit_imp_le_length [of h n] by auto

lemma u16_to_from_le: "u16_to_le (u16_from_le b0 b1) = [b0, b1]"
  by (simp add: u16_to_le_def u16_from_le_def) (simp add: word8_eq_bits bit_simps bit_byte_beyond)

lemma take_2_drop: "c + 2 \<le> length bs \<Longrightarrow> take 2 (drop c bs) = [bs ! c, bs ! (c + 1)]"
  by (simp add: numeral_2_eq_2 take_Suc_conv_app_nth)

lemma take_4_drop: "c + 4 \<le> length bs \<Longrightarrow> take 4 (drop c bs) = [bs ! c, bs ! (c + 1)] @ [bs ! (c + 2), bs ! (c + 3)]"
  by (simp add: eval_nat_numeral take_Suc_conv_app_nth)

lemma push_word_halves:
  "push_word_thumb (push_bit 16 (ucast h1) OR ucast h2) = u16_to_le h1 @ u16_to_le h2"
  by (simp add: push_word_thumb_def u16_to_le_def) (simp add: word8_eq_bits bit_simps bit_halfword_beyond)

lemma ucast_halfword_less: "(ucast (h :: 16 word) :: u32) < 2 ^ 16"
proof -
  have "(ucast h :: u32) AND mask 16 = ucast h" by (intro bit_word_eqI) (auto simp: bit_simps dest: bit_imp_le_length)
  then show ?thesis using and_mask_less_size [of 16 "ucast h :: u32"] by (simp add: word_size)
qed

lemma read_instruction_bytes:
  assumes "read_instruction bytes c = Ok (w, n)"
  shows "thumb_word_bytes w (if n = 4 then TW_Word else TW_Halfword) = take n (drop c bytes)"
    "c + n \<le> length bytes" "n = 2 \<Longrightarrow> w < 2 ^ 16"
proof -
  have u: "ucast (ucast h :: u32) = (h :: 16 word)" for h by (intro bit_word_eqI) (simp add: bit_simps)
  from assms consider
      h where "n = 2" "w = ucast h" "h = u16_from_le (bytes ! c) (bytes ! (c + 1))" "c + 2 \<le> length bytes"
    | h1 h2 where "n = 4" "w = push_bit 16 (ucast h1) OR ucast h2" "h1 = u16_from_le (bytes ! c) (bytes ! (c + 1))"
        "h2 = u16_from_le (bytes ! (c + 2)) (bytes ! (c + 3))" "c + 4 \<le> length bytes"
    by (auto simp: read_instruction_def Let_def not_less split: if_splits)
  then have "thumb_word_bytes w (if n = 4 then TW_Word else TW_Halfword) = take n (drop c bytes) \<and>
      c + n \<le> length bytes \<and> (n = 2 \<longrightarrow> w < 2 ^ 16)"
  proof cases
    case (1 h)
    then show ?thesis
      using ucast_halfword_less [of h] by (simp add: thumb_word_bytes_def u u16_to_from_le take_2_drop)
  next
    case (2 h1 h2)
    then show ?thesis
      by (simp add: thumb_word_bytes_def push_word_halves u16_to_from_le take_4_drop)
  qed
  then show "thumb_word_bytes w (if n = 4 then TW_Word else TW_Halfword) = take n (drop c bytes)"
    "c + n \<le> length bytes" "n = 2 \<Longrightarrow> w < 2 ^ 16" by simp_all
qed

text \<open>Encoding an instruction of a sweep again, with the row it was decoded with.\<close>

definition reencode :: "thumb_decoded \<Rightarrow> arm_encode_error + u32 \<times> thumb_width" where
  "reencode i =
     (case td_row i of
        Some row \<Rightarrow> encode_with_row row (td_operands i) (td_address i)
      | None \<Rightarrow>
          (case td_neon_row i of
             Some row \<Rightarrow> and_then (encode_neon_row row (td_operands i)) (\<lambda>w. Ok (w, TW_Word))
           | None \<Rightarrow> Err (AEE_NoMatchingForm [] 0)))"

text \<open>
  The rows, by opcode and mask, whose operands do not give the word back: the loops with tail
  predication, the banked system register, the extensions with a rotation, the saturations.
\<close>

definition lossy_rows :: "(u32 \<times> u32) list" where
  "lossy_rows =
    [(0xf000c001, 0xffc0f001), (0xf000e001, 0xffc0ffff), (0xf3e08000, 0xffe0f000),
     (0xfa0ff080, 0xfffff0c0), (0xfa1ff080, 0xfffff0c0), (0xfa2ff080, 0xfffff0c0),
     (0xfa3ff080, 0xfffff0c0), (0xfa4ff080, 0xfffff0c0), (0xfa5ff080, 0xfffff0c0),
     (0xfa00f080, 0xfff0f0c0), (0xfa10f080, 0xfff0f0c0), (0xfa20f080, 0xfff0f0c0),
     (0xfa30f080, 0xfff0f0c0), (0xfa40f080, 0xfff0f0c0), (0xfa50f080, 0xfff0f0c0),
     (0xf3000000, 0xffd08020), (0xf3800000, 0xffd08020)]"

definition lossy_row :: "thumb_opcode \<Rightarrow> bool" where
  "lossy_row row \<longleftrightarrow> (th_opcode row, th_mask row) \<in> set lossy_rows"

text \<open>Digits and dashes by their bits, for evaluation.\<close>

lemma in_bitfield_Char [code]:
  "in_bitfield (Char b0 b1 b2 b3 b4 b5 b6 b7) \<longleftrightarrow>
     \<not> b7 \<and> \<not> b6 \<and> b5 \<and> (if b4 then \<not> b3 \<or> \<not> b2 \<and> \<not> b1 else b3 \<and> b2 \<and> \<not> b1 \<and> b0)"
  by (cases b0; cases b1; cases b2; cases b3; cases b4; cases b5; cases b6; cases b7) (simp_all add: in_bitfield_def)

lemma rows_ok_1: "\<forall>row\<in>set thumb_rows_1. thumb_row_ok row \<or> lossy_row row"
  by code_simp

lemma rows_ok_2: "\<forall>row\<in>set thumb_rows_2. thumb_row_ok row \<or> lossy_row row"
  by code_simp

lemma rows_ok_3: "\<forall>row\<in>set thumb_rows_3. thumb_row_ok row \<or> lossy_row row"
  by code_simp

lemma rows_ok_4: "\<forall>row\<in>set thumb_rows_4. thumb_row_ok row \<or> lossy_row row"
  by code_simp

lemma table_rows_ok: "row \<in> set thumb_opcode_table \<Longrightarrow> thumb_row_ok row \<or> lossy_row row"
  using rows_ok_1 rows_ok_2 rows_ok_3 rows_ok_4 by (auto simp: thumb_opcode_table_def)

end
