(* ===== verification/T32_Reassembly.thy ===== *)
theory T32_Reassembly
  imports T32_Roundtrip
begin

text \<open>
  Disassembling Thumb code and encoding the instructions again: the two are inverse on every row that
  \<open>T32_Roundtrip\<close> found to keep its bits.
\<close>

lemma decode_thumb_reencodes:
  assumes "decode_thumb address w n = Ok i" "n = 2 \<or> n = 4" "n = 2 \<Longrightarrow> w < 2 ^ 16"
    and lossless: "\<And>row. td_row i = Some row \<Longrightarrow> \<not> lossy_row row"
  shows "reencode i = Ok (td_word i, td_width i)" "td_word i = w" "td_width i = (if n = 4 then TW_Word else TW_Halfword)"
proof -
  let ?width = "if n = 4 then TW_Word else TW_Halfword"
  have "td_word i = w \<and> td_width i = ?width \<and> reencode i = Ok (td_word i, td_width i)"
  proof (cases "match_thumb_generated w ?width")
    case None
    then obtain neon norm where "match_neon_thumb w = Some (neon, norm)" "n = 4"
      using assms(1) by (cases "match_neon_thumb w") (auto simp: decode_thumb_def Let_def split: if_splits)
    then show ?thesis using assms(1) None by (auto simp: decode_thumb_def reencode_def encode_neon_row_def)
  next
    case (Some row)
    then have row: "row \<in> set thumb_opcode_table" "th_width row = ?width" "w AND th_mask row = th_opcode row"
      by (auto simp: match_thumb_generated_def find_Some_iff)
    have n: "width_bytes (th_width row) = n" using assms(2) row(2) by auto
    have i: "td_row i = Some row" "td_word i = w" "td_width i = ?width" "td_address i = address"
        "td_operands i = fst (decode_operands_from_format (th_format row) w address n) @ tail_operands row ?width w"
      using assms(1) Some by (auto simp: decode_thumb_def Let_def)
    have "thumb_row_ok row" using table_rows_ok [OF row(1)] lossless [OF i(1)] by blast
    moreover have "th_width row = TW_Halfword \<Longrightarrow> w < 2 ^ 16" using row(2) assms(2,3) by (auto split: if_splits)
    ultimately have "encode_with_row row (td_operands i) address = Ok (w, th_width row)"
      using row_encodes [of row w address] row(3) by (simp only: n i(5) row(2) [symmetric])
    then show ?thesis using i(1-4) row(2) by (simp add: reencode_def)
  qed
  then show "reencode i = Ok (td_word i, td_width i)" "td_word i = w" "td_width i = ?width" by simp_all
qed

lemma sweep_step:
  assumes "thumb_sweep_from base bytes c = Ok is" "c < length bytes"
  obtains w n i rest where "read_instruction bytes c = Ok (w, n)" "decode_thumb (base + word_of_nat c) w n = Ok i"
    "thumb_sweep_from base bytes (c + n) = Ok rest" "is = i # rest"
  using assms by (subst (asm) thumb_sweep_from.simps) (auto simp: and_then_Ok_iff split: sum.splits)

lemma sweep_reencodes:
  assumes "thumb_sweep_from base bytes c = Ok is" "c \<le> length bytes"
    and "\<And>i row. i \<in> set is \<Longrightarrow> td_row i = Some row \<Longrightarrow> \<not> lossy_row row"
  shows "(\<forall>i\<in>set is. reencode i = Ok (td_word i, td_width i)) \<and>
    concat (map (\<lambda>i. thumb_word_bytes (td_word i) (td_width i)) is) = drop c bytes"
  using assms
proof (induction "is" arbitrary: c)
  case Nil
  then show ?case by (cases "c < length bytes") (auto elim: sweep_step)
next
  case (Cons i rest)
  have "c < length bytes"
    using Cons.prems(1) by (cases "c < length bytes") (simp_all add: thumb_sweep_from.simps [of base bytes c])
  with Cons.prems(1) obtain w n where r: "read_instruction bytes c = Ok (w, n)"
      "decode_thumb (base + word_of_nat c) w n = Ok i" "thumb_sweep_from base bytes (c + n) = Ok rest"
    by (auto elim: sweep_step)
  note b = read_instruction_bytes [OF r(1)]
  have d: "reencode i = Ok (td_word i, td_width i)" "td_word i = w" "td_width i = (if n = 4 then TW_Word else TW_Halfword)"
    using decode_thumb_reencodes [OF r(2) read_instruction_width [OF r(1)] b(3)] Cons.prems(3) [of i] by auto
  have "(\<forall>i\<in>set rest. reencode i = Ok (td_word i, td_width i)) \<and>
      concat (map (\<lambda>i. thumb_word_bytes (td_word i) (td_width i)) rest) = drop (c + n) bytes"
    using Cons.IH [OF r(3) b(2)] Cons.prems(3) by auto
  moreover have "take n (drop c bytes) @ drop (c + n) bytes = drop c bytes"
    using append_take_drop_id [of n "drop c bytes"] by (simp add: add.commute)
  moreover have "thumb_word_bytes (td_word i) (td_width i) = take n (drop c bytes)"
    unfolding d(2,3) by (rule b(1))
  ultimately show ?case using d(1) by simp
qed

section \<open>A sample\<close>

text \<open>A push, a test of a security attribute, and a return through the link register.\<close>

definition sample_code :: "bytes" where
  "sample_code = [0xf0, 0xb5, 0x42, 0xe8, 0x80, 0xf1, 0x70, 0x47]"

definition push_row :: "thumb_opcode" where
  "push_row = thumb_row ''Push'' 0x0000b400 0x0000fe00 TW_Halfword ''push%c	%N''"

definition tta_row :: "thumb_opcode" where
  "tta_row = thumb_row ''Tta'' 0xe840f080 0xfff0f0ff TW_Word ''tta	%8-11r, %16-19r''"

definition bx_row :: "thumb_opcode" where
  "bx_row = thumb_row ''Bx'' 0x00004700 0x0000ff80 TW_Halfword ''bx%c	%S%x''"

lemma thumb_row_sel:
  "th_mnemonic (thumb_row m op msk w f) = m" "th_opcode (thumb_row m op msk w f) = op"
  "th_mask (thumb_row m op msk w f) = msk" "th_width (thumb_row m op msk w f) = w" "th_format (thumb_row m op msk w f) = f"
  by (simp_all add: thumb_row_def)

lemma find_hit: "P x \<Longrightarrow> List.find P (x # xs) = Some x" by simp

lemma find_skip: "\<not> P x \<Longrightarrow> List.find P xs = r \<Longrightarrow> List.find P (x # xs) = r" by simp

lemma sample_row_push: "match_thumb_generated 0xb5f0 TW_Halfword = Some push_row"
  unfolding match_thumb_generated_def thumb_opcode_table_def thumb_rows_1_def push_row_def append_Cons
  by ((rule find_skip, (simp add: thumb_row_sel; fail))+, rule find_hit, simp add: thumb_row_sel)

lemma sample_row_bx: "match_thumb_generated 0x4770 TW_Halfword = Some bx_row"
  unfolding match_thumb_generated_def thumb_opcode_table_def thumb_rows_1_def bx_row_def append_Cons
  by ((rule find_skip, (simp add: thumb_row_sel; fail))+, rule find_hit, simp add: thumb_row_sel)

lemma sample_row_tta: "match_thumb_generated 0xe842f180 TW_Word = Some tta_row"
  unfolding match_thumb_generated_def thumb_opcode_table_def thumb_rows_1_def thumb_rows_2_def tta_row_def append_Cons append_Nil
  by ((rule find_skip, (simp add: thumb_row_sel; fail))+, rule find_hit, simp add: thumb_row_sel)

lemma sample_reads:
  "read_instruction sample_code 0 = Ok (0xb5f0, 2)" "read_instruction sample_code 2 = Ok (0xe842f180, 4)"
  "read_instruction sample_code 6 = Ok (0x4770, 2)" "length sample_code = 8"
  by code_simp+

lemma decode_thumb_row:
  assumes "match_thumb_generated w (if n = 4 then TW_Word else TW_Halfword) = Some row"
  obtains i where "decode_thumb address w n = Ok i" "td_row i = Some row"
  using assms by (simp add: decode_thumb_def Let_def)

lemma sample_code_sweep:
  obtains i1 i2 i3 where "thumb_disassemble_bytes 0x1000 sample_code = Ok [i1, i2, i3]"
    "td_row i1 = Some push_row" "td_row i2 = Some tta_row" "td_row i3 = Some bx_row"
proof -
  obtain i1 where i1: "decode_thumb (0x1000 + word_of_nat 0) 0xb5f0 2 = Ok i1" "td_row i1 = Some push_row"
    by (rule decode_thumb_row [of "0xb5f0" 2 push_row]) (simp_all add: sample_row_push)
  obtain i2 where i2: "decode_thumb (0x1000 + word_of_nat 2) 0xe842f180 4 = Ok i2" "td_row i2 = Some tta_row"
    by (rule decode_thumb_row [of "0xe842f180" 4 tta_row]) (simp_all add: sample_row_tta)
  obtain i3 where i3: "decode_thumb (0x1000 + word_of_nat 6) 0x4770 2 = Ok i3" "td_row i3 = Some bx_row"
    by (rule decode_thumb_row [of "0x4770" 2 bx_row]) (simp_all add: sample_row_bx)
  note step = thumb_sweep_from.simps [of "0x1000" sample_code]
  have "thumb_sweep_from 0x1000 sample_code 8 = Ok []" by (simp add: step sample_reads)
  then have "thumb_sweep_from 0x1000 sample_code 6 = Ok [i3]" using i3 by (subst step) (simp add: sample_reads)
  then have "thumb_sweep_from 0x1000 sample_code 2 = Ok [i2, i3]" using i2 by (subst step) (simp add: sample_reads)
  then have "thumb_sweep_from 0x1000 sample_code 0 = Ok [i1, i2, i3]" using i1 by (subst step) (simp add: sample_reads)
  then show ?thesis using that i1 i2 i3 by (simp add: thumb_disassemble_bytes_def)
qed

lemma sample_rows_kept:
  "(th_opcode push_row, th_mask push_row) \<notin> set lossy_rows" "(th_opcode tta_row, th_mask tta_row) \<notin> set lossy_rows"
  "(th_opcode bx_row, th_mask bx_row) \<notin> set lossy_rows"
  by (simp_all add: lossy_rows_def push_row_def tta_row_def bx_row_def thumb_row_sel)

section \<open>The property\<close>

text \<open>C3: disassembling and encoding again are inverse. When a sweep over Thumb code succeeds and meets
  none of the 17 rows of \<open>lossy_rows\<close>, encoding each instruction's operands with the row it was decoded
  with gives its word and width back, for the other rows of the table as for the NEON and coprocessor
  words, and the words written out in order are the bytes that were read.\<close>

theorem thumb_reassembly:
  assumes "thumb_disassemble_bytes base bytes = Ok is"
    and "\<And>i row. i \<in> set is \<Longrightarrow> td_row i = Some row \<Longrightarrow> (th_opcode row, th_mask row) \<notin> set lossy_rows"
  shows "(\<forall>i\<in>set is. reencode i = Ok (td_word i, td_width i)) \<and>
    concat (map (\<lambda>i. thumb_word_bytes (td_word i) (td_width i)) is) = bytes"
  using sweep_reencodes [of base bytes 0 "is"] assms by (simp add: thumb_disassemble_bytes_def lossy_row_def)

theorem thumb_reassembly_witness:
  "\<exists>is. thumb_disassemble_bytes 0x1000 sample_code = Ok is \<and> length is = 3 \<and>
     (\<forall>i\<in>set is. reencode i = Ok (td_word i, td_width i)) \<and>
     concat (map (\<lambda>i. thumb_word_bytes (td_word i) (td_width i)) is) = sample_code"
proof -
  obtain i1 i2 i3 where i: "thumb_disassemble_bytes 0x1000 sample_code = Ok [i1, i2, i3]"
      "td_row i1 = Some push_row" "td_row i2 = Some tta_row" "td_row i3 = Some bx_row"
    by (rule sample_code_sweep)
  have "\<forall>i\<in>set [i1, i2, i3]. \<forall>row. td_row i = Some row \<longrightarrow> (th_opcode row, th_mask row) \<notin> set lossy_rows"
    by (simp add: i(2-4) sample_rows_kept)
  then show ?thesis using thumb_reassembly [OF i(1)] i(1) by auto
qed

end
