(* ===== verification/T32_Branch.thy ===== *)
theory T32_Branch
  imports T32_Isa T32_Reassembly
begin

text \<open>
  The branches of Thumb code: what the wide encodings reach and decode back to, and the pair of
  branches a conditional one is widened to.
\<close>

section \<open>Rows by opcode and mask\<close>

lemma find_row_b_w: "find_row 0xf0009000 0xf800d000 = Some (thumb_row ''B'' 0xf0009000 0xf800d000 TW_Word ''b%c.w	%B%x'')"
  unfolding find_row_def thumb_opcode_table_def thumb_rows_1_def thumb_rows_2_def thumb_rows_3_def thumb_rows_4_def append_Cons append_Nil
  by ((rule find_skip, (simp add: thumb_row_sel; fail))+, rule find_hit, simp add: thumb_row_sel)

lemma find_row_b_cond_w: "find_row 0xf0008000 0xf800d000 = Some (thumb_row ''B'' 0xf0008000 0xf800d000 TW_Word ''b%22-25c.w	%b%X'')"
  unfolding find_row_def thumb_opcode_table_def thumb_rows_1_def thumb_rows_2_def thumb_rows_3_def thumb_rows_4_def append_Cons append_Nil
  by ((rule find_skip, (simp add: thumb_row_sel; fail))+, rule find_hit, simp add: thumb_row_sel)

lemma b_w_format: "escapes ''b%c.w	%B%x'' = [Esc [] CHR ''c'', Esc [] CHR ''B'', Esc [] CHR ''x'']"
  by code_simp

lemma b_cond_w_format: "escapes ''b%22-25c.w	%b%X'' = [Esc ''22-25'' CHR ''c'', Esc [] CHR ''b'', Esc [] CHR ''X'']"
    "parse_bitfield ''22-25'' = Some (22, 25)"
  by code_simp+

lemma pack_wide_codes:
  "pack_operand CHR ''B'' [] (AO_BranchTarget t) slot w address 4 = pack_bl_target w t address slot"
  "pack_operand CHR ''b'' [] (AO_BranchTarget t) slot w address 4 = pack_b_cond_wide_target w t address slot"
  by (simp_all add: pack_operand_defs)

lemma encode_b_w:
  "encode_with_row (thumb_row ''B'' 0xf0009000 0xf800d000 TW_Word ''b%c.w	%B%x'') [AO_BranchTarget t] address =
     and_then (pack_bl_target 0xf0009000 t address 0) (\<lambda>w. Ok (w, TW_Word))"
  unfolding encode_with_row_def encode_with_format_def thumb_row_sel b_w_format
  by (cases "pack_bl_target 0xf0009000 t address 0")
    (simp_all add: only_displays_def parse_bitfield_def pack_next_def vec_get_def pack_wide_codes)

lemma encode_b_cond_w:
  "encode_with_row (thumb_row ''B'' 0xf0008000 0xf800d000 TW_Word ''b%22-25c.w	%b%X'') (AO_Condition c # AO_BranchTarget t # extra) address =
     and_then (pack_b_cond_wide_target (place_field 0xf0008000 22 25 (ucast c)) t address 1) (\<lambda>w. Ok (splice_rest extra w, TW_Word))"
  unfolding encode_with_row_def encode_with_format_def thumb_row_sel b_cond_w_format(1)
  by (cases "pack_b_cond_wide_target (place_field 0xf0008000 22 25 (ucast c)) t address 1")
    (simp_all add: only_displays_def b_cond_w_format(2) pack_next_def vec_get_def pack_wide_codes)

section \<open>Widening a conditional branch\<close>

definition is_opaque :: "arm_operand \<Rightarrow> bool" where
  "is_opaque opnd = (case opnd of AO_OpaqueBits _ _ \<Rightarrow> True | _ \<Rightarrow> False)"

lemma override_opaque: "list_all is_opaque extra \<Longrightarrow> map (override_operand c b) extra = extra"
  by (induction extra) (auto simp: is_opaque_def override_operand_def split: arm_operand.splits)

lemma opaque_overrides:
  assumes "list_all is_opaque extra"
  shows "build_operands_with_overrides (AO_Condition c # AO_BranchTarget t # extra) (Some c') (Some t') =
    AO_Condition c' # AO_BranchTarget t' # extra"
  using assms by (simp add: build_operands_with_overrides_def override_opaque)
    (simp add: override_operand_def is_condition_def is_branch_def)

text \<open>The branch over the far one: a displacement of four bytes.\<close>

definition skip_word :: "u8 \<Rightarrow> u32" where
  "skip_word c = b_cond_word (place_field 0xf0008000 22 25 (ucast c)) 4"

lemma pack_skip: "pack_b_cond_wide_target (place_field 0xf0008000 22 25 (ucast c)) (here + 8) here slot = Ok (skip_word c)"
proof -
  have "here + 8 - here - 4 = (4 :: u64)" by simp
  then show ?thesis by (simp only: pack_wide_defs skip_word_def) simp
qed

lemma decode_skip: "decode_b_cond_wide_target (skip_word c) here = here + 8"
proof -
  have "b_cond_displacement (skip_word c) = 4"
    unfolding skip_word_def using b_cond_displacement_b_cond_word [of 4 "place_field 0xf0008000 22 25 (ucast c)"] by simp
  then show ?thesis by (simp add: decode_wide_displacement)
qed

lemma and_disjoint:
  "v AND NOT m = v' AND NOT m \<Longrightarrow> m AND n = 0 \<Longrightarrow> v AND n = (v' :: u32) AND n"
  by (auto simp: bit_eq_iff bit_simps)

lemma skip_word_fields:
  "skip_word c AND 0xf800d000 = 0xf0008000" "c < 16 \<Longrightarrow> extract_field (skip_word c) 22 25 = ucast c"
proof -
  let ?p = "place_field 0xf0008000 22 25 (ucast c)"
  note keep = and_disjoint [OF b_cond_word_keeps [of ?p 4], folded skip_word_def]
  have "?p AND 0xf800d000 = 0xf0008000" by (simp add: word32_eq_bits bit_simps)
  then show "skip_word c AND 0xf800d000 = 0xf0008000" using keep [of "0xf800d000"] by simp
  have e: "extract_field w 22 25 = drop_bit 22 (w AND 0x03C00000)" for w
    by (simp add: word32_eq_bits bit_simps)
  assume "c < 16"
  then have "take_bit 4 c = c" using word_less_power_bits [of 4 c] by simp
  moreover have "drop_bit 22 (?p AND 0x03C00000) = ucast (take_bit 4 c)" by (simp add: word32_eq_bits bit_simps)
  ultimately show "extract_field (skip_word c) 22 25 = ucast c"
    using keep [of "0x03C00000"] by (simp add: e)
qed

section \<open>Properties\<close>

text \<open>C4: a wide branch reaches the even displacements within 16 MiB, a wide conditional branch those within
  1 MiB; anything else is refused with the displacement. Within reach, the word \<open>pack_bl_target\<close> writes
  decodes back to the target and keeps the bits outside the displacement's field. The word of
  \<open>pack_b_cond_wide_target\<close> decodes back exactly when bits 17, 18 and 19 of the displacement agree:
  the packer reads J1 and J2 one bit too low.\<close>

theorem thumb_wide_branches:
  "let d = target - address - 4; even_within = (\<lambda>n. sint d mod 2 = 0 \<and> - (2 ^ n) \<le> sint d \<and> sint d < 2 ^ n) in
   (case pack_bl_target w target address slot of
      Inr w' \<Rightarrow> even_within 24 \<and> decode_bl_b_target w' address = target \<and> w' AND NOT 0x07FF2FFF = w AND NOT 0x07FF2FFF
    | Inl e \<Rightarrow> \<not> even_within 24 \<and> e = AEE_BranchOutOfRange slot d 25) \<and>
   (case pack_b_cond_wide_target w target address slot of
      Inr w' \<Rightarrow> even_within 20 \<and> w' AND NOT 0x043F2FFF = w AND NOT 0x043F2FFF \<and>
        (decode_b_cond_wide_target w' address = target \<longleftrightarrow> bit d 17 = bit d 18 \<and> bit d 18 = bit d 19)
    | Inl e \<Rightarrow> \<not> even_within 20 \<and> e = AEE_BranchOutOfRange slot d 21)"
proof -
  let ?d = "target - address - 4"
  have t: "address + 4 + x = target \<longleftrightarrow> x = ?d" for x :: u64 by (auto simp: algebra_simps)
  show ?thesis
    using bl_displacement_bl_word [of ?d w] b_cond_displacement_b_cond_word [of ?d w]
    by (simp add: Let_def pack_wide_defs decode_wide_displacement t bl_word_keeps [simplified] b_cond_word_keeps [simplified])
qed

text \<open>C5: widening a conditional branch. For a condition other than "always" and a target that a wide branch
  reaches from four bytes on, the template's condition and target followed by operands that keep bits
  are encoded as two words: the second is an unconditional wide branch to the target; the first, before
  the kept bits are written over it, is a wide conditional branch under the inverted condition to the
  instruction after the pair.\<close>

theorem thumb_widened_conditional:
  assumes "c < 14" "list_all is_opaque extra"
    and "sint (far - here - 8) mod 2 = 0" "- (2 ^ 24) \<le> sint (far - here - 8)" "sint (far - here - 8) < 2 ^ 24"
  shows "\<exists>w1 w2. thumb_encode_widened_conditional m (AO_Condition c # AO_BranchTarget t # extra) here far =
       Some (Ok (push_word_thumb (splice_rest extra w1) @ push_word_thumb w2)) \<and>
     w1 AND 0xf800d000 = 0xf0008000 \<and> extract_field w1 22 25 = ucast (c XOR 1) \<and>
     decode_b_cond_wide_target w1 here = here + 8 \<and>
     w2 AND 0xf800d000 = 0xf0009000 \<and> decode_bl_b_target w2 (here + 4) = far"
proof -
  let ?c = "(c XOR 1) AND 0xf" and ?w2 = "bl_word 0xf0009000 (far - here - 8)"
  have d: "far - (here + 4) - 4 = far - here - 8" by simp
  have far: "pack_bl_target 0xf0009000 far (here + 4) 0 = Ok ?w2"
    using assms(3-5) by (simp only: pack_wide_defs d) simp
  have "c < 2 ^ 4" using assms(1) by (rule less_trans) simp
  then have "take_bit 4 c = c" using word_less_power_bits [of 4 c] by simp
  then have "take_bit 4 (c XOR 1) = c XOR 1" by (simp add: take_bit_xor)
  then have c: "?c = c XOR 1" "c XOR 1 < 16"
    using word_less_power_bits [of 4 "c XOR 1"] by (simp_all add: and_mask_take_bit)
  have e: "thumb_encode_widened_conditional m (AO_Condition c # AO_BranchTarget t # extra) here far =
      Some (Ok (push_word_thumb (splice_rest extra (skip_word ?c)) @ push_word_thumb ?w2))"
    using assms(1) by (simp add: thumb_encode_widened_conditional_def find_row_b_w find_row_b_cond_w template_condition_def
        opaque_overrides [OF assms(2)] encode_b_w encode_b_cond_w pack_skip far)
  have w2: "?w2 AND 0xf800d000 = 0xf0009000" using and_disjoint [OF bl_word_keeps] by simp
  have "bl_displacement ?w2 = far - here - 8" using bl_displacement_bl_word [OF assms(3-5)] .
  then have "decode_bl_b_target ?w2 (here + 4) = far" by (simp add: decode_wide_displacement)
  then show ?thesis
    using e [unfolded c(1)] w2 skip_word_fields(1) skip_word_fields(2) [OF c(2)] decode_skip by blast
qed

theorem thumb_widened_conditional_witness:
  "\<exists>w1 w2. thumb_encode_widened_conditional ''B'' [AO_Condition 0, AO_BranchTarget 0x1100, AO_OpaqueBits 0x7e 0xfff] 0x1000 0x800000 =
       Some (Ok (push_word_thumb (splice_rest [AO_OpaqueBits 0x7e 0xfff] w1) @ push_word_thumb w2)) \<and>
     w1 AND 0xf800d000 = 0xf0008000 \<and> extract_field w1 22 25 = ucast ((0 :: u8) XOR 1) \<and>
     decode_b_cond_wide_target w1 0x1000 = 0x1000 + 8 \<and>
     w2 AND 0xf800d000 = 0xf0009000 \<and> decode_bl_b_target w2 (0x1000 + 4) = 0x800000"
  by (rule thumb_widened_conditional) (simp_all add: is_opaque_def)

text \<open>
  The bits a sweep keeps of a halfword branch (its row leaves twelve variable) are written over the
  skipping branch: here it goes to the source's own target, under the inverted condition.
\<close>

lemma widened_skip_overwritten:
  "decode_b_cond_wide_target (splice_rest [AO_OpaqueBits 0x7e 0xfff] (skip_word 1)) 0x1000 = 0x1100"
  by code_simp

text \<open>
  In the same way a call of a sweep that is given a new target encodes as the old call: the operand
  with the bits the row leaves variable comes last.
\<close>

lemma retargeted_call_unchanged:
  "encode_with_row (thumb_row ''Bl'' 0xf000d000 0xf800d000 TW_Word ''bl%c	%B%x'')
     [AO_BranchTarget 0x2000, AO_OpaqueBits 0x07ff2ffe 0x07ff2fff] 0x1000 = Ok (0xf7fffffe, TW_Word)"
  by code_simp

end
