(* ===== verification/T32_Types.thy ===== *)
theory T32_Types
  imports T32_Reassembly
begin

text \<open>
  What a sweep over Thumb code returns is well typed: registers and conditions are numbers below 16,
  immediates fit in 17 bits, kept bits are bits of the word, and the instruction's fields agree with
  the row it was matched with.
\<close>

section \<open>Typed operands\<close>

definition operand_typed :: "u32 \<Rightarrow> arm_operand \<Rightarrow> bool" where
  "operand_typed w opnd =
     (case opnd of
        AO_Register r \<Rightarrow> ag_class r = RC_R \<and> ag_index r < 16
      | AO_Immediate v \<Rightarrow> 0 \<le> sint v \<and> sint v \<le> 2 ^ 16
      | AO_Condition c \<Rightarrow> c < 16
      | AO_OpaqueBits bts m \<Rightarrow> bts = w AND m
      | _ \<Rightarrow> True)"

definition operands_typed :: "u32 \<Rightarrow> arm_operand list \<Rightarrow> bool" where
  "operands_typed w ops = list_all (operand_typed w) ops"

text \<open>The widths of the fields a format may read.\<close>

definition field_ok :: "string \<Rightarrow> char \<Rightarrow> bool" where
  "field_ok bf code \<longleftrightarrow>
     bf = [] \<or> (if code \<in> set ''rRSc'' then narrow bf 4 else if code \<in> set ''dDWHx'' then narrow bf 14 else True)"

fun fields_ok :: "escape list \<Rightarrow> bool" where
  "fields_ok [] = True"
| "fields_ok (Esc bf code # es) = (field_ok bf code \<and> fields_ok es)"
| "fields_ok (Wrap inner # es) = (fields_ok inner \<and> fields_ok es)"

lemma operands_typed_simps [simp]:
  "operands_typed w []" "operands_typed w (opnd # ops) \<longleftrightarrow> operand_typed w opnd \<and> operands_typed w ops"
  "operands_typed w (ops @ ops') \<longleftrightarrow> operands_typed w ops \<and> operands_typed w ops'"
  by (simp_all add: operands_typed_def)

lemma operand_typed_simps [simp]:
  "operand_typed w (AO_BranchTarget t)" "operand_typed w (AO_PcRelative t)" "operand_typed w (AO_RegisterList l)"
  "operand_typed w (AO_OpaqueBits bts m) \<longleftrightarrow> bts = w AND m" "operand_typed w (AO_Condition c) \<longleftrightarrow> c < 16"
  "operand_typed w (AO_Register r) \<longleftrightarrow> ag_class r = RC_R \<and> ag_index r < 16"
  by (simp_all add: operand_typed_def)

lemma typed_immediate:
  assumes "x = x AND mask 16"
  shows "operand_typed w (AO_Immediate (ucast (x :: u32)))"
proof -
  have "uint x \<le> 2 ^ 16 - 1" using assms by (rule uint_below_mask)
  then show ?thesis using sint_ucast_masked [OF assms] by (simp add: operand_typed_def)
qed

lemma u8_below_16: "(\<And>i. 4 \<le> i \<Longrightarrow> i < 8 \<Longrightarrow> \<not> bit r i) \<Longrightarrow> (r :: u8) < 16"
proof -
  assume "\<And>i. 4 \<le> i \<Longrightarrow> i < 8 \<Longrightarrow> \<not> bit r i"
  then have "take_bit 4 r = r" by (intro bit_word_eqI) (force simp: bit_simps simp flip: not_le)
  then show "r < 16" using word_less_power_bits [of 4 r] by simp
qed

lemma typed_field:
  assumes "parse_bitfield bf = Some (lo, hi)"
  shows "narrow bf 4 \<Longrightarrow> (ucast (extract_field w lo hi) :: u8) < 16"
    "narrow bf 14 \<Longrightarrow> operand_typed w' (AO_Immediate (ucast (extract_field w lo hi)))"
    "narrow bf 14 \<Longrightarrow> operand_typed w' (AO_Immediate (ucast (extract_field w lo hi * 4)))"
    "narrow bf 14 \<Longrightarrow> operand_typed w' (AO_Immediate (ucast (extract_field w lo hi * 2)))"
    "narrow bf 14 \<Longrightarrow> operand_typed w' (AO_Immediate (ucast (extract_field w lo hi) + 1))"
proof -
  show "narrow bf 4 \<Longrightarrow> (ucast (extract_field w lo hi) :: u8) < 16"
    using assms by (intro u8_below_16) (simp add: narrow_def bit_simps)
  have u: "uint (extract_field w lo hi) < 2 ^ 14" if "narrow bf 14"
    using assms that by (intro extract_field_less) (simp add: narrow_def)
  have s: "uint (extract_field w lo hi) < 2 ^ 16" if "narrow bf 14"
    using u [OF that] by simp
  show "narrow bf 14 \<Longrightarrow> operand_typed w' (AO_Immediate (ucast (extract_field w lo hi)))"
    "narrow bf 14 \<Longrightarrow> operand_typed w' (AO_Immediate (ucast (extract_field w lo hi * 4)))"
    "narrow bf 14 \<Longrightarrow> operand_typed w' (AO_Immediate (ucast (extract_field w lo hi * 2)))"
    "narrow bf 14 \<Longrightarrow> operand_typed w' (AO_Immediate (ucast (extract_field w lo hi) + 1))"
    using u field_multiples [OF s] uint_ge_0 [of "extract_field w lo hi"] by (simp_all add: operand_typed_def)
qed

lemma on_field_typed:
  "on_field bf f = Some ops \<Longrightarrow> (\<And>lo hi. parse_bitfield bf = Some (lo, hi) \<Longrightarrow> operand_typed w (f lo hi)) \<Longrightarrow> operands_typed w ops"
  by (auto simp: on_field_def split: option.splits)

lemma decode_field_typed:
  assumes "field_ok bf code" "decode_field code bf w address = Some ops"
  shows "operands_typed w ops"
proof (cases "bf = []")
  case True
  then have "parse_bitfield bf = None" by (simp add: parse_bitfield_def)
  then show ?thesis using assms(2) by (auto simp: decode_field_def on_field_def simp del: list.set insert_iff split: if_split_asm)
next
  case False
  then have "code \<in> set ''rRSc'' \<Longrightarrow> narrow bf 4" "code \<in> set ''dDWHx'' \<Longrightarrow> narrow bf 14"
    using assms(1) by (auto simp: field_ok_def split: if_splits)
  then show ?thesis
    using assms(2) typed_field by (auto simp: decode_field_def register_operand_def elim!: on_field_typed split: if_split_asm)
qed

lemma decode_branch_typed: "decode_branch code bf w address width = Some (ops, un) \<Longrightarrow> operands_typed w ops"
  by (auto simp: decode_branch_def Let_def split: if_split_asm option.splits)

lemma split_register_less:
  "push_bit 3 (ucast (drop_bit 6 w AND 1)) OR ucast (drop_bit 3 w AND 7) < (16 :: u8)"
  "push_bit 3 (ucast (drop_bit 7 w AND 1)) OR ucast (w AND 7) < (16 :: u8)" for w :: u32
  by (rule u8_below_16; auto simp: and_mask_take_bit bit_simps)+

lemma decode_register_code_typed: "decode_register_code code bf w width = Some ops \<Longrightarrow> operands_typed w ops"
  using split_register_less [of w] by (auto simp: decode_register_code_def Let_def split: if_split_asm)

lemma scattered_masked:
  fixes w :: u32
  shows "push_bit 11 (drop_bit 26 w AND 1) OR push_bit 8 (drop_bit 12 w AND 7) OR (w AND 0xff) =
      (push_bit 11 (drop_bit 26 w AND 1) OR push_bit 8 (drop_bit 12 w AND 7) OR (w AND 0xff)) AND mask 16"
    "push_bit 12 (drop_bit 16 w AND 0xf) OR push_bit 11 (drop_bit 26 w AND 1) OR push_bit 8 (drop_bit 12 w AND 7) OR (w AND 0xff) =
      (push_bit 12 (drop_bit 16 w AND 0xf) OR push_bit 11 (drop_bit 26 w AND 1) OR push_bit 8 (drop_bit 12 w AND 7) OR (w AND 0xff)) AND mask 16"
    "push_bit 12 (w AND 0xf) OR push_bit 8 (drop_bit 16 w AND 0xf) OR (drop_bit 4 w AND 0xff) =
      (push_bit 12 (w AND 0xf) OR push_bit 8 (drop_bit 16 w AND 0xf) OR (drop_bit 4 w AND 0xff)) AND mask 16"
    "push_bit 12 (w AND 0xf) OR (drop_bit 16 w AND 0xfff) = (push_bit 12 (w AND 0xf) OR (drop_bit 16 w AND 0xfff)) AND mask 16"
    "push_bit 12 (drop_bit 16 w AND 0xf) OR (w AND 0xfff) = (push_bit 12 (drop_bit 16 w AND 0xf) OR (w AND 0xfff)) AND mask 16"
    "push_bit 2 (drop_bit 12 w AND 7) OR (drop_bit 6 w AND 3) = (push_bit 2 (drop_bit 12 w AND 7) OR (drop_bit 6 w AND 3)) AND mask 16"
    "w AND 0xf = (w AND 0xf) AND mask 16" "push_bit 1 (drop_bit 23 w AND 0xf) = push_bit 1 (drop_bit 23 w AND 0xf) AND mask 16"
  by (simp_all add: word32_eq_bits bit_simps del: push_bit_Suc)

lemmas typed_scattered = scattered_masked [THEN typed_immediate]

text \<open>An answer of a decoder is typed branch by branch.\<close>

definition answer_typed :: "u32 \<Rightarrow> arm_operand list option \<Rightarrow> bool" where
  "answer_typed w r \<longleftrightarrow> (\<forall>ops. r = Some ops \<longrightarrow> operands_typed w ops)"

lemma answer_typed_intros:
  "answer_typed w x \<Longrightarrow> answer_typed w y \<Longrightarrow> answer_typed w (if b then x else y)" "answer_typed w None"
  "operand_typed w opnd \<Longrightarrow> answer_typed w (Some [opnd])" "answer_typed w (Some [])"
  "operand_typed w opnd \<Longrightarrow> answer_typed w (Some (if b then [opnd] else []))"
  "operand_typed w opnd \<Longrightarrow> operand_typed w opnd' \<Longrightarrow> answer_typed w (Some (opnd # (if b then [opnd'] else [])))"
  by (auto simp: answer_typed_def)

lemma decode_rest_typed:
  "answer_typed w (decode_scattered code w width)" "answer_typed w (decode_opaque code bf w width)"
  "answer_typed w (decode_address code bf w address width)" "answer_typed w (decode_system code bf w address width)"
  unfolding decode_scattered_def decode_opaque_def decode_address_def decode_system_def Let_def opaque_bits_def
  by ((rule answer_typed_intros operand_typed_simps(1-3) operand_typed_simps(4) [THEN iffD2, OF refl] typed_scattered)+)

lemmas decode_answers_typed = decode_rest_typed [unfolded answer_typed_def, rule_format]

lemma decode_code_typed: "field_ok bf code \<Longrightarrow> operands_typed w (fst (decode_code w address width bf code))"
  by (auto simp: decode_code_def first_answer_def Let_def decode_display_def
      dest: decode_field_typed decode_branch_typed decode_register_code_typed decode_answers_typed
      split: option.split if_split_asm)

lemma decode_escapes_typed: "fields_ok es \<Longrightarrow> operands_typed w (fst (decode_escapes w address width es))"
  by (induction w address width es rule: decode_escapes.induct) (simp_all add: append_pair_def decode_code_typed)

section \<open>The rows\<close>

lemma fields_ok_1: "\<forall>row\<in>set thumb_rows_1. fields_ok (escapes (th_format row))"
  by code_simp

lemma fields_ok_2: "\<forall>row\<in>set thumb_rows_2. fields_ok (escapes (th_format row))"
  by code_simp

lemma fields_ok_3: "\<forall>row\<in>set thumb_rows_3. fields_ok (escapes (th_format row))"
  by code_simp

lemma fields_ok_4: "\<forall>row\<in>set thumb_rows_4. fields_ok (escapes (th_format row))"
  by code_simp

lemma table_fields_ok: "row \<in> set thumb_opcode_table \<Longrightarrow> fields_ok (escapes (th_format row))"
  using fields_ok_1 fields_ok_2 fields_ok_3 fields_ok_4 by (auto simp: thumb_opcode_table_def)

definition thumb_typed :: "thumb_decoded \<Rightarrow> bool" where
  "thumb_typed i \<longleftrightarrow>
     operands_typed (td_word i) (td_operands i) \<and>
     (case td_row i of
        Some row \<Rightarrow>
          row \<in> set thumb_opcode_table \<and> td_neon_row i = None \<and> td_width i = th_width row \<and>
          td_mnemonic i = th_mnemonic row \<and> td_word i AND th_mask row = th_opcode row
      | None \<Rightarrow> (case td_neon_row i of Some row \<Rightarrow> row \<in> set neon_opcode_table \<and> td_width i = TW_Word | None \<Rightarrow> False)) \<and>
     (td_width i = TW_Halfword \<longrightarrow> td_word i < 2 ^ 16)"

lemma match_neon_thumb_row: "match_neon_thumb w = Some (row, norm) \<Longrightarrow> row \<in> set neon_opcode_table"
  by (auto simp: match_neon_thumb_def Let_def bind_eq_Some_conv find_Some_iff split: option.splits)

lemma decode_thumb_typed:
  assumes "decode_thumb address w n = Ok i" "n = 2 \<or> n = 4" "n = 2 \<Longrightarrow> w < 2 ^ 16"
  shows "thumb_typed i"
proof -
  let ?width = "if n = 4 then TW_Word else TW_Halfword"
  show ?thesis
  proof (cases "match_thumb_generated w ?width")
    case None
    then obtain neon norm where "match_neon_thumb w = Some (neon, norm)" "n = 4"
      using assms(1) by (cases "match_neon_thumb w") (auto simp: decode_thumb_def Let_def split: if_splits)
    moreover have "w = w AND 0xFFFFFFFF" by (simp add: word32_eq_bits bit_simps)
    ultimately show ?thesis
      using assms(1) None match_neon_thumb_row [of w neon norm] by (auto simp: decode_thumb_def thumb_typed_def)
  next
    case (Some row)
    then have row: "row \<in> set thumb_opcode_table" "th_width row = ?width" "w AND th_mask row = th_opcode row"
      by (auto simp: match_thumb_generated_def find_Some_iff)
    have "operands_typed w (tail_operands row ?width w)"
      by (simp add: tail_operands_def unmasked_word_bits_def tail_mask_def and.assoc)
    moreover have "operands_typed w (fst (decode_operands_from_format (th_format row) w address n))"
      unfolding decode_operands_from_format_def by (rule decode_escapes_typed [OF table_fields_ok [OF row(1)]])
    ultimately show ?thesis
      using assms Some row by (auto simp: decode_thumb_def Let_def thumb_typed_def split: if_splits)
  qed
qed

text \<open>C6: a sweep over Thumb code returns well-typed instructions. Each has either the table's row it matched
  (with that row's mnemonic and width, and its opcode under its mask) or a row of the NEON table; a
  halfword is below 2^16; every register is a general one numbered below 16, every condition is below
  16, every immediate between 0 and 2^16, and every operand that keeps bits has those of the word.\<close>

theorem thumb_sweep_typed:
  "case thumb_disassemble_bytes base bytes of Inl err \<Rightarrow> True | Inr is \<Rightarrow> list_all thumb_typed is"
proof -
  have "\<forall>i\<in>set is. thumb_typed i" if "thumb_sweep_from base bytes c = Ok is" for c "is"
    using that
  proof (induction "is" arbitrary: c)
    case (Cons i rest)
    have "c < length bytes"
      using Cons.prems by (cases "c < length bytes") (simp_all add: thumb_sweep_from.simps [of base bytes c])
    with Cons.prems obtain w n where r: "read_instruction bytes c = Ok (w, n)"
        "decode_thumb (base + word_of_nat c) w n = Ok i" "thumb_sweep_from base bytes (c + n) = Ok rest"
      by (auto elim: sweep_step)
    then show ?case
      using Cons.IH decode_thumb_typed [OF r(2) read_instruction_width [OF r(1)]] read_instruction_bytes(3) [OF r(1)] by auto
  qed simp
  then show ?thesis by (auto simp: thumb_disassemble_bytes_def list_all_iff split: sum.splits)
qed

end
