(* ===== verification/A32_Table.thy ===== *)
theory A32_Table
  imports Prelude
begin

text \<open>
  The Arm opcode table (\<open>src/src/isa/armv7/arm/table_generated.rs\<close>): the mnemonics, the rows in
  source order with the format strings they carry, and the search. A mnemonic is
  represented by the name of its constructor.
\<close>


section \<open>Mnemonics\<close>

type_synonym arm_mnemonic = string

definition arm_mnemonic_names :: "(arm_mnemonic \<times> string) list" where
  "arm_mnemonic_names =
    [(''Unknown'', ''<unknown>''), (''Adc'', ''adc''), (''Add'', ''add''), (''And'', ''and''),
     (''Asr'', ''asr''), (''B'', ''b''), (''Bfc'', ''bfc''), (''Bfi'', ''bfi''),
     (''Bic'', ''bic''), (''Bkpt'', ''bkpt''), (''Blx'', ''blx''), (''Bx'', ''bx''),
     (''Bxj'', ''bxj''), (''Clrex'', ''clrex''), (''Clz'', ''clz''), (''Cmn'', ''cmn''),
     (''Cmp'', ''cmp''), (''Cps'', ''cps''), (''Cpsid'', ''cpsid''), (''Cpsie'', ''cpsie''),
     (''Crc32b'', ''crc32b''), (''Crc32cb'', ''crc32cb''), (''Crc32ch'', ''crc32ch''),
     (''Crc32cw'', ''crc32cw''), (''Crc32h'', ''crc32h''), (''Crc32w'', ''crc32w''),
     (''Csdb'', ''csdb''), (''Dbg'', ''dbg''), (''Dfb'', ''dfb''), (''Dmb'', ''dmb''),
     (''Dsb'', ''dsb''), (''Eor'', ''eor''), (''Eret'', ''eret''), (''Esb'', ''esb''),
     (''Hlt'', ''hlt''), (''Hvc'', ''hvc''), (''Isb'', ''isb''), (''Lda'', ''lda''),
     (''Ldab'', ''ldab''), (''Ldaex'', ''ldaex''), (''Ldaexb'', ''ldaexb''),
     (''Ldaexd'', ''ldaexd''), (''Ldaexh'', ''ldaexh''), (''Ldah'', ''ldah''),
     (''Ldm'', ''ldm''), (''Ldmfd'', ''ldmfd''), (''Ldr'', ''ldr''), (''Ldrb'', ''ldrb''),
     (''Ldrd'', ''ldrd''), (''Ldrex'', ''ldrex''), (''Ldrexb'', ''ldrexb''),
     (''Ldrexd'', ''ldrexd''), (''Ldrexh'', ''ldrexh''), (''Ldrt'', ''ldrt''),
     (''Lsl'', ''lsl''), (''Lsr'', ''lsr''), (''Mla'', ''mla''), (''Mls'', ''mls''),
     (''Mov'', ''mov''), (''Movt'', ''movt''), (''Movw'', ''movw''), (''Mrs'', ''mrs''),
     (''Msr'', ''msr''), (''Mul'', ''mul''), (''Mvn'', ''mvn''), (''Nop'', ''nop''),
     (''Orr'', ''orr''), (''Pkhbt'', ''pkhbt''), (''Pkhtb'', ''pkhtb''), (''Pld'', ''pld''),
     (''Pldw'', ''pldw''), (''Pli'', ''pli''), (''Pop'', ''pop''), (''Pssbb'', ''pssbb''),
     (''Push'', ''push''), (''Qadd'', ''qadd''), (''Qadd16'', ''qadd16''),
     (''Qadd8'', ''qadd8''), (''Qasx'', ''qasx''), (''Qdadd'', ''qdadd''),
     (''Qdsub'', ''qdsub''), (''Qsax'', ''qsax''), (''Qsub'', ''qsub''),
     (''Qsub16'', ''qsub16''), (''Qsub8'', ''qsub8''), (''Rbit'', ''rbit''),
     (''Rev'', ''rev''), (''Rev16'', ''rev16''), (''Revsh'', ''revsh''), (''Rfe'', ''rfe''),
     (''Ror'', ''ror''), (''Rrx'', ''rrx''), (''Rsb'', ''rsb''), (''Rsc'', ''rsc''),
     (''Sadd16'', ''sadd16''), (''Sadd8'', ''sadd8''), (''Sasx'', ''sasx''), (''Sb'', ''sb''),
     (''Sbc'', ''sbc''), (''Sdiv'', ''sdiv''), (''Sel'', ''sel''), (''Setend'', ''setend''),
     (''Setpan'', ''setpan''), (''Sev'', ''sev''), (''Sevl'', ''sevl''),
     (''Shadd16'', ''shadd16''), (''Shadd8'', ''shadd8''), (''Shasx'', ''shasx''),
     (''Shsax'', ''shsax''), (''Shsub16'', ''shsub16''), (''Shsub8'', ''shsub8''),
     (''Smc'', ''smc''), (''Smlabb'', ''smlabb''), (''Smlabt'', ''smlabt''),
     (''Smlad'', ''smlad''), (''Smlalbb'', ''smlalbb''), (''Smlalbt'', ''smlalbt''),
     (''Smlald'', ''smlald''), (''Smlaltb'', ''smlaltb''), (''Smlaltt'', ''smlaltt''),
     (''Smlatb'', ''smlatb''), (''Smlatt'', ''smlatt''), (''Smlawb'', ''smlawb''),
     (''Smlawt'', ''smlawt''), (''Smlsd'', ''smlsd''), (''Smlsld'', ''smlsld''),
     (''Smmla'', ''smmla''), (''Smmls'', ''smmls''), (''Smmul'', ''smmul''),
     (''Smuad'', ''smuad''), (''Smulbb'', ''smulbb''), (''Smulbt'', ''smulbt''),
     (''Smultb'', ''smultb''), (''Smultt'', ''smultt''), (''Smulwb'', ''smulwb''),
     (''Smulwt'', ''smulwt''), (''Smusd'', ''smusd''), (''Srs'', ''srs''),
     (''Ssat'', ''ssat''), (''Ssat16'', ''ssat16''), (''Ssax'', ''ssax''),
     (''Ssbb'', ''ssbb''), (''Ssub16'', ''ssub16''), (''Ssub8'', ''ssub8''),
     (''Stl'', ''stl''), (''Stlb'', ''stlb''), (''Stlex'', ''stlex''),
     (''Stlexb'', ''stlexb''), (''Stlexd'', ''stlexd''), (''Stlexh'', ''stlexh''),
     (''Stlh'', ''stlh''), (''Stm'', ''stm''), (''Stmfd'', ''stmfd''), (''Str'', ''str''),
     (''Strb'', ''strb''), (''Strd'', ''strd''), (''Strex'', ''strex''),
     (''Strexb'', ''strexb''), (''Strexd'', ''strexd''), (''Strexh'', ''strexh''),
     (''Strh'', ''strh''), (''Strht'', ''strht''), (''Sub'', ''sub''), (''Svc'', ''svc''),
     (''Swp'', ''swp''), (''Sxtab'', ''sxtab''), (''Sxtab16'', ''sxtab16''),
     (''Sxtah'', ''sxtah''), (''Sxtb'', ''sxtb''), (''Sxtb16'', ''sxtb16''),
     (''Sxth'', ''sxth''), (''Teq'', ''teq''), (''Tst'', ''tst''), (''Uadd16'', ''uadd16''),
     (''Uadd8'', ''uadd8''), (''Uasx'', ''uasx''), (''Udf'', ''udf''), (''Udiv'', ''udiv''),
     (''Uhadd16'', ''uhadd16''), (''Uhadd8'', ''uhadd8''), (''Uhasx'', ''uhasx''),
     (''Uhsax'', ''uhsax''), (''Uhsub16'', ''uhsub16''), (''Uhsub8'', ''uhsub8''),
     (''Umaal'', ''umaal''), (''Uqadd16'', ''uqadd16''), (''Uqadd8'', ''uqadd8''),
     (''Uqasx'', ''uqasx''), (''Uqsax'', ''uqsax''), (''Uqsub16'', ''uqsub16''),
     (''Uqsub8'', ''uqsub8''), (''Usad8'', ''usad8''), (''Usada8'', ''usada8''),
     (''Usat'', ''usat''), (''Usat16'', ''usat16''), (''Usax'', ''usax''),
     (''Usub16'', ''usub16''), (''Usub8'', ''usub8''), (''Uxtab'', ''uxtab''),
     (''Uxtab16'', ''uxtab16''), (''Uxtah'', ''uxtah''), (''Uxtb'', ''uxtb''),
     (''Uxtb16'', ''uxtb16''), (''Uxth'', ''uxth''), (''Wfe'', ''wfe''), (''Wfi'', ''wfi''),
     (''Yield'', ''yield'')]"

definition arm_mnemonics :: "arm_mnemonic list" where "arm_mnemonics = map fst arm_mnemonic_names"

definition arm_mnemonic_as_str :: "arm_mnemonic \<Rightarrow> string" where
  "arm_mnemonic_as_str m = (case map_of arm_mnemonic_names m of Some s \<Rightarrow> s | None \<Rightarrow> [])"

section \<open>Rows\<close>

record arm_opcode =
  ar_mnemonic :: arm_mnemonic
  ar_opcode :: u32
  ar_mask :: u32
  ar_format :: string

definition arm_row :: "arm_mnemonic \<Rightarrow> u32 \<Rightarrow> u32 \<Rightarrow> string \<Rightarrow> arm_opcode" where
  "arm_row m op msk fmt = \<lparr>ar_mnemonic = m, ar_opcode = op, ar_mask = msk, ar_format = fmt\<rparr>"

definition arm_rows_1 :: "arm_opcode list" where
  "arm_rows_1 = [
    arm_row ''Nop'' 0xe1a00000 0xffffffff ''nop			@ (mov r0, r0)'',
    arm_row ''Udf'' 0xe7f000f0 0xfff000f0 ''udf	%{I:#%e%}'',
    arm_row ''Bx'' 0x012fff10 0x0ffffff0 ''bx%c	%0-3r'',
    arm_row ''Mul'' 0x00000090 0x0fe000f0 ''mul%20\\'s%c	%16-19R, %0-3R, %8-11R'',
    arm_row ''Mla'' 0x00200090 0x0fe000f0 ''mla%20\\'s%c	%16-19R, %0-3R, %8-11R, %12-15R'',
    arm_row ''Swp'' 0x01000090 0x0fb00ff0 ''swp%22\\'b%c	%12-15RU, %0-3Ru, [%16-19RuU]'',
    arm_row ''Unknown'' 0x00800090 0x0fa000f0 ''%22?sumull%20\\'s%c	%12-15Ru, %16-19Ru, %0-3R, %8-11R'',
    arm_row ''Unknown'' 0x00a00090 0x0fa000f0 ''%22?sumlal%20\\'s%c	%12-15Ru, %16-19Ru, %0-3R, %8-11R'',
    arm_row ''Esb'' 0xe320f010 0xffffffff ''esb'',
    arm_row ''Dfb'' 0xf57ff04c 0xffffffff ''dfb'',
    arm_row ''Sevl'' 0x0320f005 0x0fffffff ''sevl'',
    arm_row ''Hlt'' 0xe1000070 0xfff000f0 ''hlt	%{I:0x%16-19X%12-15X%8-11X%0-3X%}'',
    arm_row ''Stlex'' 0x01800e90 0x0ff00ff0 ''stlex%c	%12-15r, %0-3r, [%16-19R]'',
    arm_row ''Ldaex'' 0x01900e9f 0x0ff00fff ''ldaex%c	%12-15r, [%16-19R]'',
    arm_row ''Stlexd'' 0x01a00e90 0x0ff00ff0 ''stlexd%c	%12-15r, %0-3r, %0-3T, [%16-19R]'',
    arm_row ''Ldaexd'' 0x01b00e9f 0x0ff00fff ''ldaexd%c	%12-15r, %12-15T, [%16-19R]'',
    arm_row ''Stlexb'' 0x01c00e90 0x0ff00ff0 ''stlexb%c	%12-15r, %0-3r, [%16-19R]'',
    arm_row ''Ldaexb'' 0x01d00e9f 0x0ff00fff ''ldaexb%c	%12-15r, [%16-19R]'',
    arm_row ''Stlexh'' 0x01e00e90 0x0ff00ff0 ''stlexh%c	%12-15r, %0-3r, [%16-19R]'',
    arm_row ''Ldaexh'' 0x01f00e9f 0x0ff00fff ''ldaexh%c	%12-15r, [%16-19R]'',
    arm_row ''Stl'' 0x0180fc90 0x0ff0fff0 ''stl%c	%0-3r, [%16-19R]'',
    arm_row ''Lda'' 0x01900c9f 0x0ff00fff ''lda%c	%12-15r, [%16-19R]'',
    arm_row ''Stlb'' 0x01c0fc90 0x0ff0fff0 ''stlb%c	%0-3r, [%16-19R]'',
    arm_row ''Ldab'' 0x01d00c9f 0x0ff00fff ''ldab%c	%12-15r, [%16-19R]'',
    arm_row ''Stlh'' 0x01e0fc90 0x0ff0fff0 ''stlh%c	%0-3r, [%16-19R]'',
    arm_row ''Ldah'' 0x01f00c9f 0x0ff00fff ''ldah%c	%12-15r, [%16-19R]'',
    arm_row ''Crc32b'' 0xe1000040 0xfff00ff0 ''crc32b	%12-15R, %16-19R, %0-3R'',
    arm_row ''Crc32h'' 0xe1200040 0xfff00ff0 ''crc32h	%12-15R, %16-19R, %0-3R'',
    arm_row ''Crc32w'' 0xe1400040 0xfff00ff0 ''crc32w	%12-15R, %16-19R, %0-3R'',
    arm_row ''Crc32cb'' 0xe1000240 0xfff00ff0 ''crc32cb	%12-15R, %16-19R, %0-3R'',
    arm_row ''Crc32ch'' 0xe1200240 0xfff00ff0 ''crc32ch	%12-15R, %16-19R, %0-3R'',
    arm_row ''Crc32cw'' 0xe1400240 0xfff00ff0 ''crc32cw	%12-15R, %16-19R, %0-3R'',
    arm_row ''Setpan'' 0xf1100000 0xfffffdff ''setpan	%{I:#%9-9d%}'',
    arm_row ''Eret'' 0x0160006e 0x0fffffff ''eret%c'',
    arm_row ''Hvc'' 0x01400070 0x0ff000f0 ''hvc%c	%e'',
    arm_row ''Sdiv'' 0x0710f010 0x0ff0f0f0 ''sdiv%c	%16-19r, %0-3r, %8-11r'',
    arm_row ''Udiv'' 0x0730f010 0x0ff0f0f0 ''udiv%c	%16-19r, %0-3r, %8-11r'',
    arm_row ''Pldw'' 0xf410f000 0xfc70f000 ''pldw	%a'',
    arm_row ''Csdb'' 0xe320f014 0xffffffff ''csdb'',
    arm_row ''Ssbb'' 0xf57ff040 0xffffffff ''ssbb'',
    arm_row ''Pssbb'' 0xf57ff044 0xffffffff ''pssbb'',
    arm_row ''Pli'' 0xf450f000 0xfd70f000 ''pli	%P'',
    arm_row ''Dbg'' 0x0320f0f0 0x0ffffff0 ''dbg%c	%{I:#%0-3d%}'',
    arm_row ''Dmb'' 0xf57ff051 0xfffffff3 ''dmb	%U'',
    arm_row ''Dsb'' 0xf57ff041 0xfffffff3 ''dsb	%U'',
    arm_row ''Dmb'' 0xf57ff050 0xfffffff0 ''dmb	%U'',
    arm_row ''Dsb'' 0xf57ff040 0xfffffff0 ''dsb	%U'',
    arm_row ''Isb'' 0xf57ff060 0xfffffff0 ''isb	%U'',
    arm_row ''Nop'' 0x0320f000 0x0fffffff ''nop%c	{%{I:%0-7d%}}'',
    arm_row ''Bfc'' 0x07c0001f 0x0fe0007f ''bfc%c	%12-15R, %E'',
    arm_row ''Bfi'' 0x07c00010 0x0fe00070 ''bfi%c	%12-15R, %0-3r, %E'',
    arm_row ''Mls'' 0x00600090 0x0ff000f0 ''mls%c	%16-19R, %0-3R, %8-11R, %12-15R'',
    arm_row ''Strht'' 0x002000b0 0x0f3000f0 ''strht%c	%12-15R, %S'',
    arm_row ''Ldr'' 0x00300090 0x0f300090 ''ldr%6\\'s%5?hbt%c	%12-15R, %S'',
    arm_row ''Movw'' 0x03000000 0x0ff00000 ''movw%c	%12-15R, %V'',
    arm_row ''Movt'' 0x03400000 0x0ff00000 ''movt%c	%12-15R, %V'',
    arm_row ''Rbit'' 0x06ff0f30 0x0fff0ff0 ''rbit%c	%12-15R, %0-3R'',
    arm_row ''Unknown'' 0x07a00050 0x0fa00070 ''%22?usbfx%c	%12-15r, %0-3r, %{I:#%7-11d%}, %{I:#%16-20W%}'',
    arm_row ''Smc'' 0x01600070 0x0ff000f0 ''smc%c	%e'',
    arm_row ''Clrex'' 0xf57ff01f 0xffffffff ''clrex'',
    arm_row ''Ldrexb'' 0x01d00f9f 0x0ff00fff ''ldrexb%c	%12-15R, [%16-19R]'',
    arm_row ''Ldrexd'' 0x01b00f9f 0x0ff00fff ''ldrexd%c	%12-15r, [%16-19R]'',
    arm_row ''Ldrexh'' 0x01f00f9f 0x0ff00fff ''ldrexh%c	%12-15R, [%16-19R]'',
    arm_row ''Strexb'' 0x01c00f90 0x0ff00ff0 ''strexb%c	%12-15R, %0-3R, [%16-19R]'',
    arm_row ''Strexd'' 0x01a00f90 0x0ff00ff0 ''strexd%c	%12-15R, %0-3r, [%16-19R]'',
    arm_row ''Strexh'' 0x01e00f90 0x0ff00ff0 ''strexh%c	%12-15R, %0-3R, [%16-19R]'',
    arm_row ''Sb'' 0xf57ff070 0xffffffff ''sb'',
    arm_row ''Yield'' 0x0320f001 0x0fffffff ''yield%c'',
    arm_row ''Wfe'' 0x0320f002 0x0fffffff ''wfe%c'',
    arm_row ''Wfi'' 0x0320f003 0x0fffffff ''wfi%c'',
    arm_row ''Sev'' 0x0320f004 0x0fffffff ''sev%c'',
    arm_row ''Nop'' 0x0320f000 0x0fffff00 ''nop%c	{%{I:%0-7d%}}'',
    arm_row ''Cpsie'' 0xf1080000 0xfffffe3f ''cpsie	%{B:%8\\'a%7\\'i%6\\'f%}'',
    arm_row ''Cpsie'' 0xf10a0000 0xfffffe20 ''cpsie	%{B:%8\\'a%7\\'i%6\\'f%}, %{I:#%0-4d%}'',
    arm_row ''Cpsid'' 0xf10c0000 0xfffffe3f ''cpsid	%{B:%8\\'a%7\\'i%6\\'f%}'',
    arm_row ''Cpsid'' 0xf10e0000 0xfffffe20 ''cpsid	%{B:%8\\'a%7\\'i%6\\'f%}, %{I:#%0-4d%}'',
    arm_row ''Cps'' 0xf1000000 0xfff1fe20 ''cps	%{I:#%0-4d%}'',
    arm_row ''Pkhbt'' 0x06800010 0x0ff00ff0 ''pkhbt%c	%12-15R, %16-19R, %0-3R'',
    arm_row ''Pkhbt'' 0x06800010 0x0ff00070 ''pkhbt%c	%12-15R, %16-19R, %0-3R, %{B:lsl%} %{I:#%7-11d%}'',
    arm_row ''Pkhtb'' 0x06800050 0x0ff00ff0 ''pkhtb%c	%12-15R, %16-19R, %0-3R, %{B:asr%} %{I:#32%}'',
    arm_row ''Pkhtb'' 0x06800050 0x0ff00070 ''pkhtb%c	%12-15R, %16-19R, %0-3R, %{B:asr%} %{I:#%7-11d%}'',
    arm_row ''Ldrex'' 0x01900f9f 0x0ff00fff ''ldrex%c	%{R:r%12-15d%}, [%16-19R]'',
    arm_row ''Qadd16'' 0x06200f10 0x0ff00ff0 ''qadd16%c	%12-15R, %16-19R, %0-3R'',
    arm_row ''Qadd8'' 0x06200f90 0x0ff00ff0 ''qadd8%c	%12-15R, %16-19R, %0-3R'',
    arm_row ''Qasx'' 0x06200f30 0x0ff00ff0 ''qasx%c	%12-15R, %16-19R, %0-3R'',
    arm_row ''Qsub16'' 0x06200f70 0x0ff00ff0 ''qsub16%c	%12-15R, %16-19R, %0-3R'',
    arm_row ''Qsub8'' 0x06200ff0 0x0ff00ff0 ''qsub8%c	%12-15R, %16-19R, %0-3R'',
    arm_row ''Qsax'' 0x06200f50 0x0ff00ff0 ''qsax%c	%12-15R, %16-19R, %0-3R'',
    arm_row ''Sadd16'' 0x06100f10 0x0ff00ff0 ''sadd16%c	%12-15R, %16-19R, %0-3R'',
    arm_row ''Sadd8'' 0x06100f90 0x0ff00ff0 ''sadd8%c	%12-15R, %16-19R, %0-3R'',
    arm_row ''Sasx'' 0x06100f30 0x0ff00ff0 ''sasx%c	%12-15R, %16-19R, %0-3R'',
    arm_row ''Shadd16'' 0x06300f10 0x0ff00ff0 ''shadd16%c	%12-15R, %16-19R, %0-3R'',
    arm_row ''Shadd8'' 0x06300f90 0x0ff00ff0 ''shadd8%c	%12-15R, %16-19R, %0-3R'',
    arm_row ''Shasx'' 0x06300f30 0x0ff00ff0 ''shasx%c	%12-15R, %16-19R, %0-3R'',
    arm_row ''Shsub16'' 0x06300f70 0x0ff00ff0 ''shsub16%c	%12-15R, %16-19R, %0-3R'',
    arm_row ''Shsub8'' 0x06300ff0 0x0ff00ff0 ''shsub8%c	%12-15R, %16-19R, %0-3R'',
    arm_row ''Shsax'' 0x06300f50 0x0ff00ff0 ''shsax%c	%12-15R, %16-19R, %0-3R'',
    arm_row ''Ssub16'' 0x06100f70 0x0ff00ff0 ''ssub16%c	%12-15R, %16-19R, %0-3R'',
    arm_row ''Ssub8'' 0x06100ff0 0x0ff00ff0 ''ssub8%c	%12-15R, %16-19R, %0-3R'',
    arm_row ''Ssax'' 0x06100f50 0x0ff00ff0 ''ssax%c	%12-15R, %16-19R, %0-3R'',
    arm_row ''Uadd16'' 0x06500f10 0x0ff00ff0 ''uadd16%c	%12-15R, %16-19R, %0-3R'',
    arm_row ''Uadd8'' 0x06500f90 0x0ff00ff0 ''uadd8%c	%12-15R, %16-19R, %0-3R'',
    arm_row ''Uasx'' 0x06500f30 0x0ff00ff0 ''uasx%c	%12-15R, %16-19R, %0-3R'',
    arm_row ''Uhadd16'' 0x06700f10 0x0ff00ff0 ''uhadd16%c	%12-15R, %16-19R, %0-3R'',
    arm_row ''Uhadd8'' 0x06700f90 0x0ff00ff0 ''uhadd8%c	%12-15R, %16-19R, %0-3R'',
    arm_row ''Uhasx'' 0x06700f30 0x0ff00ff0 ''uhasx%c	%12-15R, %16-19R, %0-3R'',
    arm_row ''Uhsub16'' 0x06700f70 0x0ff00ff0 ''uhsub16%c	%12-15R, %16-19R, %0-3R'',
    arm_row ''Uhsub8'' 0x06700ff0 0x0ff00ff0 ''uhsub8%c	%12-15R, %16-19R, %0-3R'',
    arm_row ''Uhsax'' 0x06700f50 0x0ff00ff0 ''uhsax%c	%12-15R, %16-19R, %0-3R'',
    arm_row ''Uqadd16'' 0x06600f10 0x0ff00ff0 ''uqadd16%c	%12-15R, %16-19R, %0-3R'']"

definition arm_rows_2 :: "arm_opcode list" where
  "arm_rows_2 = [
    arm_row ''Uqadd8'' 0x06600f90 0x0ff00ff0 ''uqadd8%c	%12-15R, %16-19R, %0-3R'',
    arm_row ''Uqasx'' 0x06600f30 0x0ff00ff0 ''uqasx%c	%12-15R, %16-19R, %0-3R'',
    arm_row ''Uqsub16'' 0x06600f70 0x0ff00ff0 ''uqsub16%c	%12-15R, %16-19R, %0-3R'',
    arm_row ''Uqsub8'' 0x06600ff0 0x0ff00ff0 ''uqsub8%c	%12-15R, %16-19R, %0-3R'',
    arm_row ''Uqsax'' 0x06600f50 0x0ff00ff0 ''uqsax%c	%12-15R, %16-19R, %0-3R'',
    arm_row ''Usub16'' 0x06500f70 0x0ff00ff0 ''usub16%c	%12-15R, %16-19R, %0-3R'',
    arm_row ''Usub8'' 0x06500ff0 0x0ff00ff0 ''usub8%c	%12-15R, %16-19R, %0-3R'',
    arm_row ''Usax'' 0x06500f50 0x0ff00ff0 ''usax%c	%12-15R, %16-19R, %0-3R'',
    arm_row ''Rev'' 0x06bf0f30 0x0fff0ff0 ''rev%c	%12-15R, %0-3R'',
    arm_row ''Rev16'' 0x06bf0fb0 0x0fff0ff0 ''rev16%c	%12-15R, %0-3R'',
    arm_row ''Revsh'' 0x06ff0fb0 0x0fff0ff0 ''revsh%c	%12-15R, %0-3R'',
    arm_row ''Rfe'' 0xf8100a00 0xfe50ffff ''rfe%23?id%24?ba	%16-19r%21\\'!'',
    arm_row ''Sxth'' 0x06bf0070 0x0fff0ff0 ''sxth%c	%12-15R, %0-3R'',
    arm_row ''Sxth'' 0x06bf0470 0x0fff0ff0 ''sxth%c	%12-15R, %0-3R, %{B:ror%} %{I:#8%}'',
    arm_row ''Sxth'' 0x06bf0870 0x0fff0ff0 ''sxth%c	%12-15R, %0-3R, %{B:ror%} %{I:#16%}'',
    arm_row ''Sxth'' 0x06bf0c70 0x0fff0ff0 ''sxth%c	%12-15R, %0-3R, %{B:ror%} %{I:#24%}'',
    arm_row ''Sxtb16'' 0x068f0070 0x0fff0ff0 ''sxtb16%c	%12-15R, %0-3R'',
    arm_row ''Sxtb16'' 0x068f0470 0x0fff0ff0 ''sxtb16%c	%12-15R, %0-3R, %{B:ror%} %{I:#8%}'',
    arm_row ''Sxtb16'' 0x068f0870 0x0fff0ff0 ''sxtb16%c	%12-15R, %0-3R, %{B:ror%} %{I:#16%}'',
    arm_row ''Sxtb16'' 0x068f0c70 0x0fff0ff0 ''sxtb16%c	%12-15R, %0-3R, %{B:ror%} %{I:#24%}'',
    arm_row ''Sxtb'' 0x06af0070 0x0fff0ff0 ''sxtb%c	%12-15R, %0-3R'',
    arm_row ''Sxtb'' 0x06af0470 0x0fff0ff0 ''sxtb%c	%12-15R, %0-3R, %{B:ror%} %{I:#8%}'',
    arm_row ''Sxtb'' 0x06af0870 0x0fff0ff0 ''sxtb%c	%12-15R, %0-3R, %{B:ror%} %{I:#16%}'',
    arm_row ''Sxtb'' 0x06af0c70 0x0fff0ff0 ''sxtb%c	%12-15R, %0-3R, %{B:ror%} %{I:#24%}'',
    arm_row ''Uxth'' 0x06ff0070 0x0fff0ff0 ''uxth%c	%12-15R, %0-3R'',
    arm_row ''Uxth'' 0x06ff0470 0x0fff0ff0 ''uxth%c	%12-15R, %0-3R, %{B:ror%} %{I:#8%}'',
    arm_row ''Uxth'' 0x06ff0870 0x0fff0ff0 ''uxth%c	%12-15R, %0-3R, %{B:ror%} %{I:#16%}'',
    arm_row ''Uxth'' 0x06ff0c70 0x0fff0ff0 ''uxth%c	%12-15R, %0-3R, %{B:ror%} %{I:#24%}'',
    arm_row ''Uxtb16'' 0x06cf0070 0x0fff0ff0 ''uxtb16%c	%12-15R, %0-3R'',
    arm_row ''Uxtb16'' 0x06cf0470 0x0fff0ff0 ''uxtb16%c	%12-15R, %0-3R, %{B:ror%} %{I:#8%}'',
    arm_row ''Uxtb16'' 0x06cf0870 0x0fff0ff0 ''uxtb16%c	%12-15R, %0-3R, %{B:ror%} %{I:#16%}'',
    arm_row ''Uxtb16'' 0x06cf0c70 0x0fff0ff0 ''uxtb16%c	%12-15R, %0-3R, %{B:ror%} %{I:#24%}'',
    arm_row ''Uxtb'' 0x06ef0070 0x0fff0ff0 ''uxtb%c	%12-15R, %0-3R'',
    arm_row ''Uxtb'' 0x06ef0470 0x0fff0ff0 ''uxtb%c	%12-15R, %0-3R, %{B:ror%} %{I:#8%}'',
    arm_row ''Uxtb'' 0x06ef0870 0x0fff0ff0 ''uxtb%c	%12-15R, %0-3R, %{B:ror%} %{I:#16%}'',
    arm_row ''Uxtb'' 0x06ef0c70 0x0fff0ff0 ''uxtb%c	%12-15R, %0-3R, %{B:ror%} %{I:#24%}'',
    arm_row ''Sxtah'' 0x06b00070 0x0ff00ff0 ''sxtah%c	%12-15R, %16-19r, %0-3R'',
    arm_row ''Sxtah'' 0x06b00470 0x0ff00ff0 ''sxtah%c	%12-15R, %16-19r, %0-3R, %{B:ror%} %{I:#8%}'',
    arm_row ''Sxtah'' 0x06b00870 0x0ff00ff0 ''sxtah%c	%12-15R, %16-19r, %0-3R, %{B:ror%} %{I:#16%}'',
    arm_row ''Sxtah'' 0x06b00c70 0x0ff00ff0 ''sxtah%c	%12-15R, %16-19r, %0-3R, %{B:ror%} %{I:#24%}'',
    arm_row ''Sxtab16'' 0x06800070 0x0ff00ff0 ''sxtab16%c	%12-15R, %16-19r, %0-3R'',
    arm_row ''Sxtab16'' 0x06800470 0x0ff00ff0 ''sxtab16%c	%12-15R, %16-19r, %0-3R, %{B:ror%} %{I:#8%}'',
    arm_row ''Sxtab16'' 0x06800870 0x0ff00ff0 ''sxtab16%c	%12-15R, %16-19r, %0-3R, %{B:ror%} %{I:#16%}'',
    arm_row ''Sxtab16'' 0x06800c70 0x0ff00ff0 ''sxtab16%c	%12-15R, %16-19r, %0-3R, %{B:ror%} %{I:#24%}'',
    arm_row ''Sxtab'' 0x06a00070 0x0ff00ff0 ''sxtab%c	%12-15R, %16-19r, %0-3R'',
    arm_row ''Sxtab'' 0x06a00470 0x0ff00ff0 ''sxtab%c	%12-15R, %16-19r, %0-3R, %{B:ror%} %{I:#8%}'',
    arm_row ''Sxtab'' 0x06a00870 0x0ff00ff0 ''sxtab%c	%12-15R, %16-19r, %0-3R, %{B:ror%} %{I:#16%}'',
    arm_row ''Sxtab'' 0x06a00c70 0x0ff00ff0 ''sxtab%c	%12-15R, %16-19r, %0-3R, %{B:ror%} %{I:#24%}'',
    arm_row ''Uxtah'' 0x06f00070 0x0ff00ff0 ''uxtah%c	%12-15R, %16-19r, %0-3R'',
    arm_row ''Uxtah'' 0x06f00470 0x0ff00ff0 ''uxtah%c	%12-15R, %16-19r, %0-3R, %{B:ror%} %{I:#8%}'',
    arm_row ''Uxtah'' 0x06f00870 0x0ff00ff0 ''uxtah%c	%12-15R, %16-19r, %0-3R, %{B:ror%} %{I:#16%}'',
    arm_row ''Uxtah'' 0x06f00c70 0x0ff00ff0 ''uxtah%c	%12-15R, %16-19r, %0-3R, %{B:ror%} %{I:#24%}'',
    arm_row ''Uxtab16'' 0x06c00070 0x0ff00ff0 ''uxtab16%c	%12-15R, %16-19r, %0-3R'',
    arm_row ''Uxtab16'' 0x06c00470 0x0ff00ff0 ''uxtab16%c	%12-15R, %16-19r, %0-3R, %{B:ror%} %{I:#8%}'',
    arm_row ''Uxtab16'' 0x06c00870 0x0ff00ff0 ''uxtab16%c	%12-15R, %16-19r, %0-3R, %{B:ror%} %{I:#16%}'',
    arm_row ''Uxtab16'' 0x06c00c70 0x0ff00ff0 ''uxtab16%c	%12-15R, %16-19r, %0-3R, ROR %{I:#24%}'',
    arm_row ''Uxtab'' 0x06e00070 0x0ff00ff0 ''uxtab%c	%12-15R, %16-19r, %0-3R'',
    arm_row ''Uxtab'' 0x06e00470 0x0ff00ff0 ''uxtab%c	%12-15R, %16-19r, %0-3R, %{B:ror%} %{I:#8%}'',
    arm_row ''Uxtab'' 0x06e00870 0x0ff00ff0 ''uxtab%c	%12-15R, %16-19r, %0-3R, %{B:ror%} %{I:#16%}'',
    arm_row ''Uxtab'' 0x06e00c70 0x0ff00ff0 ''uxtab%c	%12-15R, %16-19r, %0-3R, %{B:ror%} %{I:#24%}'',
    arm_row ''Sel'' 0x06800fb0 0x0ff00ff0 ''sel%c	%12-15R, %16-19R, %0-3R'',
    arm_row ''Setend'' 0xf1010000 0xfffffc00 ''setend	%{B:%9?ble%}'',
    arm_row ''Smuad'' 0x0700f010 0x0ff0f0d0 ''smuad%5\\'x%c	%16-19R, %0-3R, %8-11R'',
    arm_row ''Smusd'' 0x0700f050 0x0ff0f0d0 ''smusd%5\\'x%c	%16-19R, %0-3R, %8-11R'',
    arm_row ''Smlad'' 0x07000010 0x0ff000d0 ''smlad%5\\'x%c	%16-19R, %0-3R, %8-11R, %12-15R'',
    arm_row ''Smlald'' 0x07400010 0x0ff000d0 ''smlald%5\\'x%c	%12-15Ru, %16-19Ru, %0-3R, %8-11R'',
    arm_row ''Smlsd'' 0x07000050 0x0ff000d0 ''smlsd%5\\'x%c	%16-19R, %0-3R, %8-11R, %12-15R'',
    arm_row ''Smlsld'' 0x07400050 0x0ff000d0 ''smlsld%5\\'x%c	%12-15Ru, %16-19Ru, %0-3R, %8-11R'',
    arm_row ''Smmul'' 0x0750f010 0x0ff0f0d0 ''smmul%5\\'r%c	%16-19R, %0-3R, %8-11R'',
    arm_row ''Smmla'' 0x07500010 0x0ff000d0 ''smmla%5\\'r%c	%16-19R, %0-3R, %8-11R, %12-15R'',
    arm_row ''Smmls'' 0x075000d0 0x0ff000d0 ''smmls%5\\'r%c	%16-19R, %0-3R, %8-11R, %12-15R'',
    arm_row ''Srs'' 0xf84d0500 0xfe5fffe0 ''srs%23?id%24?ba	%16-19r%21\\'!, %{I:#%0-4d%}'',
    arm_row ''Ssat'' 0x06a00010 0x0fe00ff0 ''ssat%c	%12-15R, %{I:#%16-20W%}, %0-3R'',
    arm_row ''Ssat'' 0x06a00010 0x0fe00070 ''ssat%c	%12-15R, %{I:#%16-20W%}, %0-3R, %{B:lsl%} %{I:#%7-11d%}'',
    arm_row ''Ssat'' 0x06a00050 0x0fe00070 ''ssat%c	%12-15R, %{I:#%16-20W%}, %0-3R, %{B:asr%} %{I:#%7-11d%}'',
    arm_row ''Ssat16'' 0x06a00f30 0x0ff00ff0 ''ssat16%c	%12-15r, %{I:#%16-19W%}, %0-3r'',
    arm_row ''Strex'' 0x01800f90 0x0ff00ff0 ''strex%c	%12-15R, %0-3R, [%16-19R]'',
    arm_row ''Umaal'' 0x00400090 0x0ff000f0 ''umaal%c	%12-15R, %16-19R, %0-3R, %8-11R'',
    arm_row ''Usad8'' 0x0780f010 0x0ff0f0f0 ''usad8%c	%16-19R, %0-3R, %8-11R'',
    arm_row ''Usada8'' 0x07800010 0x0ff000f0 ''usada8%c	%16-19R, %0-3R, %8-11R, %12-15R'',
    arm_row ''Usat'' 0x06e00010 0x0fe00ff0 ''usat%c	%12-15R, %{I:#%16-20d%}, %0-3R'',
    arm_row ''Usat'' 0x06e00010 0x0fe00070 ''usat%c	%12-15R, %{I:#%16-20d%}, %0-3R, %{B:lsl%} %{I:#%7-11d%}'',
    arm_row ''Usat'' 0x06e00050 0x0fe00070 ''usat%c	%12-15R, %{I:#%16-20d%}, %0-3R, %{B:asr%} %{I:#%7-11d%}'',
    arm_row ''Usat16'' 0x06e00f30 0x0ff00ff0 ''usat16%c	%12-15R, %{I:#%16-19d%}, %0-3R'',
    arm_row ''Bxj'' 0x012fff20 0x0ffffff0 ''bxj%c	%0-3R'',
    arm_row ''Bkpt'' 0xe1200070 0xfff000f0 ''bkpt	%{I:0x%16-19X%12-15X%8-11X%0-3X%}'',
    arm_row ''Blx'' 0xfa000000 0xfe000000 ''blx	%B'',
    arm_row ''Blx'' 0x012fff30 0x0ffffff0 ''blx%c	%0-3R'',
    arm_row ''Clz'' 0x016f0f10 0x0fff0ff0 ''clz%c	%12-15R, %0-3R'',
    arm_row ''Ldrd'' 0x000000d0 0x0e1000f0 ''ldrd%c	%12-15r, %s'',
    arm_row ''Strd'' 0x000000f0 0x0e1000f0 ''strd%c	%12-15r, %s'',
    arm_row ''Pld'' 0xf450f000 0xfc70f000 ''pld	%a'',
    arm_row ''Smlabb'' 0x01000080 0x0ff000f0 ''smlabb%c	%16-19R, %0-3R, %8-11R, %12-15R'',
    arm_row ''Smlatb'' 0x010000a0 0x0ff000f0 ''smlatb%c	%16-19R, %0-3R, %8-11R, %12-15R'',
    arm_row ''Smlabt'' 0x010000c0 0x0ff000f0 ''smlabt%c	%16-19R, %0-3R, %8-11R, %12-15R'',
    arm_row ''Smlatt'' 0x010000e0 0x0ff000f0 ''smlatt%c	%16-19r, %0-3r, %8-11R, %12-15R'',
    arm_row ''Smlawb'' 0x01200080 0x0ff000f0 ''smlawb%c	%16-19R, %0-3R, %8-11R, %12-15R'',
    arm_row ''Smlawt'' 0x012000c0 0x0ff000f0 ''smlawt%c	%16-19R, %0-3r, %8-11R, %12-15R'',
    arm_row ''Smlalbb'' 0x01400080 0x0ff000f0 ''smlalbb%c	%12-15Ru, %16-19Ru, %0-3R, %8-11R'',
    arm_row ''Smlaltb'' 0x014000a0 0x0ff000f0 ''smlaltb%c	%12-15Ru, %16-19Ru, %0-3R, %8-11R'',
    arm_row ''Smlalbt'' 0x014000c0 0x0ff000f0 ''smlalbt%c	%12-15Ru, %16-19Ru, %0-3R, %8-11R'',
    arm_row ''Smlaltt'' 0x014000e0 0x0ff000f0 ''smlaltt%c	%12-15Ru, %16-19Ru, %0-3R, %8-11R'',
    arm_row ''Smulbb'' 0x01600080 0x0ff0f0f0 ''smulbb%c	%16-19R, %0-3R, %8-11R'',
    arm_row ''Smultb'' 0x016000a0 0x0ff0f0f0 ''smultb%c	%16-19R, %0-3R, %8-11R'',
    arm_row ''Smulbt'' 0x016000c0 0x0ff0f0f0 ''smulbt%c	%16-19R, %0-3R, %8-11R'',
    arm_row ''Smultt'' 0x016000e0 0x0ff0f0f0 ''smultt%c	%16-19R, %0-3R, %8-11R'',
    arm_row ''Smulwb'' 0x012000a0 0x0ff0f0f0 ''smulwb%c	%16-19R, %0-3R, %8-11R'',
    arm_row ''Smulwt'' 0x012000e0 0x0ff0f0f0 ''smulwt%c	%16-19R, %0-3R, %8-11R'',
    arm_row ''Qadd'' 0x01000050 0x0ff00ff0 ''qadd%c	%12-15R, %0-3R, %16-19R'',
    arm_row ''Qdadd'' 0x01400050 0x0ff00ff0 ''qdadd%c	%12-15R, %0-3R, %16-19R'']"

definition arm_rows_3 :: "arm_opcode list" where
  "arm_rows_3 = [
    arm_row ''Qsub'' 0x01200050 0x0ff00ff0 ''qsub%c	%12-15R, %0-3R, %16-19R'',
    arm_row ''Qdsub'' 0x01600050 0x0ff00ff0 ''qdsub%c	%12-15R, %0-3R, %16-19R'',
    arm_row ''Push'' 0x052d0004 0x0fff0fff ''push%c	{%12-15r}		@ (str%c %12-15r, %a)'',
    arm_row ''Strb'' 0x04400000 0x0e500000 ''strb%t%c	%12-15R, %a'',
    arm_row ''Str'' 0x04000000 0x0e500000 ''str%t%c	%12-15r, %a'',
    arm_row ''Strb'' 0x06400000 0x0e500ff0 ''strb%t%c	%12-15R, %a'',
    arm_row ''Str'' 0x06000000 0x0e500ff0 ''str%t%c	%12-15r, %a'',
    arm_row ''Strb'' 0x04400000 0x0c500010 ''strb%t%c	%12-15R, %a'',
    arm_row ''Str'' 0x04000000 0x0c500010 ''str%t%c	%12-15r, %a'',
    arm_row ''Strb'' 0x04400000 0x0e500000 ''strb%c	%12-15R, %a'',
    arm_row ''Strb'' 0x06400000 0x0e500010 ''strb%c	%12-15R, %a'',
    arm_row ''Strh'' 0x004000b0 0x0e5000f0 ''strh%c	%12-15R, %s'',
    arm_row ''Strh'' 0x000000b0 0x0e500ff0 ''strh%c	%12-15R, %s'',
    arm_row ''Ldr'' 0x00500090 0x0e500090 ''ldr%6\\'s%5?hb%c	%12-15R, %s'',
    arm_row ''Ldr'' 0x00100090 0x0e500f90 ''ldr%6\\'s%5?hb%c	%12-15R, %s'',
    arm_row ''And'' 0x02000000 0x0fe00000 ''and%20\\'s%c	%12-15r, %16-19r, %o'',
    arm_row ''And'' 0x00000000 0x0fe00010 ''and%20\\'s%c	%12-15r, %16-19r, %o'',
    arm_row ''And'' 0x00000010 0x0fe00090 ''and%20\\'s%c	%12-15R, %16-19R, %o'',
    arm_row ''Eor'' 0x02200000 0x0fe00000 ''eor%20\\'s%c	%12-15r, %16-19r, %o'',
    arm_row ''Eor'' 0x00200000 0x0fe00010 ''eor%20\\'s%c	%12-15r, %16-19r, %o'',
    arm_row ''Eor'' 0x00200010 0x0fe00090 ''eor%20\\'s%c	%12-15R, %16-19R, %o'',
    arm_row ''Sub'' 0x02400000 0x0fe00000 ''sub%20\\'s%c	%12-15r, %16-19r, %o'',
    arm_row ''Sub'' 0x00400000 0x0fe00010 ''sub%20\\'s%c	%12-15r, %16-19r, %o'',
    arm_row ''Sub'' 0x00400010 0x0fe00090 ''sub%20\\'s%c	%12-15R, %16-19R, %o'',
    arm_row ''Rsb'' 0x02600000 0x0fe00000 ''rsb%20\\'s%c	%12-15r, %16-19r, %o'',
    arm_row ''Rsb'' 0x00600000 0x0fe00010 ''rsb%20\\'s%c	%12-15r, %16-19r, %o'',
    arm_row ''Rsb'' 0x00600010 0x0fe00090 ''rsb%20\\'s%c	%12-15R, %16-19R, %o'',
    arm_row ''Add'' 0x02800000 0x0fe00000 ''add%20\\'s%c	%12-15r, %16-19r, %o'',
    arm_row ''Add'' 0x00800000 0x0fe00010 ''add%20\\'s%c	%12-15r, %16-19r, %o'',
    arm_row ''Add'' 0x00800010 0x0fe00090 ''add%20\\'s%c	%12-15R, %16-19R, %o'',
    arm_row ''Adc'' 0x02a00000 0x0fe00000 ''adc%20\\'s%c	%12-15r, %16-19r, %o'',
    arm_row ''Adc'' 0x00a00000 0x0fe00010 ''adc%20\\'s%c	%12-15r, %16-19r, %o'',
    arm_row ''Adc'' 0x00a00010 0x0fe00090 ''adc%20\\'s%c	%12-15R, %16-19R, %o'',
    arm_row ''Sbc'' 0x02c00000 0x0fe00000 ''sbc%20\\'s%c	%12-15r, %16-19r, %o'',
    arm_row ''Sbc'' 0x00c00000 0x0fe00010 ''sbc%20\\'s%c	%12-15r, %16-19r, %o'',
    arm_row ''Sbc'' 0x00c00010 0x0fe00090 ''sbc%20\\'s%c	%12-15R, %16-19R, %o'',
    arm_row ''Rsc'' 0x02e00000 0x0fe00000 ''rsc%20\\'s%c	%12-15r, %16-19r, %o'',
    arm_row ''Rsc'' 0x00e00000 0x0fe00010 ''rsc%20\\'s%c	%12-15r, %16-19r, %o'',
    arm_row ''Rsc'' 0x00e00010 0x0fe00090 ''rsc%20\\'s%c	%12-15R, %16-19R, %o'',
    arm_row ''Msr'' 0x0120f200 0x0fb0f200 ''msr%c	%C, %0-3r'',
    arm_row ''Msr'' 0x0120f000 0x0db0f000 ''msr%c	%C, %o'',
    arm_row ''Mrs'' 0x01000000 0x0fb00cff ''mrs%c	%12-15R, %R'',
    arm_row ''Tst'' 0x03000000 0x0fe00000 ''tst%p%c	%16-19r, %o'',
    arm_row ''Tst'' 0x01000000 0x0fe00010 ''tst%p%c	%16-19r, %o'',
    arm_row ''Tst'' 0x01000010 0x0fe00090 ''tst%p%c	%16-19R, %o'',
    arm_row ''Teq'' 0x03300000 0x0ff00000 ''teq%p%c	%16-19r, %o'',
    arm_row ''Teq'' 0x01300000 0x0ff00010 ''teq%p%c	%16-19r, %o'',
    arm_row ''Teq'' 0x01300010 0x0ff00010 ''teq%p%c	%16-19R, %o'',
    arm_row ''Cmp'' 0x03400000 0x0fe00000 ''cmp%p%c	%16-19r, %o'',
    arm_row ''Cmp'' 0x01400000 0x0fe00010 ''cmp%p%c	%16-19r, %o'',
    arm_row ''Cmp'' 0x01400010 0x0fe00090 ''cmp%p%c	%16-19R, %o'',
    arm_row ''Cmn'' 0x03600000 0x0fe00000 ''cmn%p%c	%16-19r, %o'',
    arm_row ''Cmn'' 0x01600000 0x0fe00010 ''cmn%p%c	%16-19r, %o'',
    arm_row ''Cmn'' 0x01600010 0x0fe00090 ''cmn%p%c	%16-19R, %o'',
    arm_row ''Orr'' 0x03800000 0x0fe00000 ''orr%20\\'s%c	%12-15r, %16-19r, %o'',
    arm_row ''Orr'' 0x01800000 0x0fe00010 ''orr%20\\'s%c	%12-15r, %16-19r, %o'',
    arm_row ''Orr'' 0x01800010 0x0fe00090 ''orr%20\\'s%c	%12-15R, %16-19R, %o'',
    arm_row ''Mov'' 0x03a00000 0x0fef0000 ''mov%20\\'s%c	%12-15r, %o'',
    arm_row ''Mov'' 0x01a00000 0x0def0ff0 ''mov%20\\'s%c	%12-15r, %0-3r'',
    arm_row ''Lsl'' 0x01a00000 0x0def0060 ''lsl%20\\'s%c	%12-15R, %q'',
    arm_row ''Lsr'' 0x01a00020 0x0def0060 ''lsr%20\\'s%c	%12-15R, %q'',
    arm_row ''Asr'' 0x01a00040 0x0def0060 ''asr%20\\'s%c	%12-15R, %q'',
    arm_row ''Rrx'' 0x01a00060 0x0def0ff0 ''rrx%20\\'s%c	%12-15r, %0-3r'',
    arm_row ''Ror'' 0x01a00060 0x0def0060 ''ror%20\\'s%c	%12-15R, %q'',
    arm_row ''Bic'' 0x03c00000 0x0fe00000 ''bic%20\\'s%c	%12-15r, %16-19r, %o'',
    arm_row ''Bic'' 0x01c00000 0x0fe00010 ''bic%20\\'s%c	%12-15r, %16-19r, %o'',
    arm_row ''Bic'' 0x01c00010 0x0fe00090 ''bic%20\\'s%c	%12-15R, %16-19R, %o'',
    arm_row ''Mvn'' 0x03e00000 0x0fe00000 ''mvn%20\\'s%c	%12-15r, %o'',
    arm_row ''Mvn'' 0x01e00000 0x0fe00010 ''mvn%20\\'s%c	%12-15r, %o'',
    arm_row ''Mvn'' 0x01e00010 0x0fe00090 ''mvn%20\\'s%c	%12-15R, %o'',
    arm_row ''Pop'' 0x049d0004 0x0fff0fff ''pop%c	{%12-15r}		@ (ldr%c %12-15r, %a)'',
    arm_row ''Ldrb'' 0x04500000 0x0c500000 ''ldrb%t%c	%12-15R, %a'',
    arm_row ''Ldrt'' 0x04300000 0x0d700000 ''ldrt%c	%12-15R, %a'',
    arm_row ''Ldr'' 0x04100000 0x0c500000 ''ldr%c	%12-15r, %a'',
    arm_row ''Stmfd'' 0x092d0001 0x0fffffff ''stmfd%c	%16-19R!, %m'',
    arm_row ''Stmfd'' 0x092d0002 0x0fffffff ''stmfd%c	%16-19R!, %m'',
    arm_row ''Stmfd'' 0x092d0004 0x0fffffff ''stmfd%c	%16-19R!, %m'',
    arm_row ''Stmfd'' 0x092d0008 0x0fffffff ''stmfd%c	%16-19R!, %m'',
    arm_row ''Stmfd'' 0x092d0010 0x0fffffff ''stmfd%c	%16-19R!, %m'',
    arm_row ''Stmfd'' 0x092d0020 0x0fffffff ''stmfd%c	%16-19R!, %m'',
    arm_row ''Stmfd'' 0x092d0040 0x0fffffff ''stmfd%c	%16-19R!, %m'',
    arm_row ''Stmfd'' 0x092d0080 0x0fffffff ''stmfd%c	%16-19R!, %m'',
    arm_row ''Stmfd'' 0x092d0100 0x0fffffff ''stmfd%c	%16-19R!, %m'',
    arm_row ''Stmfd'' 0x092d0200 0x0fffffff ''stmfd%c	%16-19R!, %m'',
    arm_row ''Stmfd'' 0x092d0400 0x0fffffff ''stmfd%c	%16-19R!, %m'',
    arm_row ''Stmfd'' 0x092d0800 0x0fffffff ''stmfd%c	%16-19R!, %m'',
    arm_row ''Stmfd'' 0x092d1000 0x0fffffff ''stmfd%c	%16-19R!, %m'',
    arm_row ''Stmfd'' 0x092d2000 0x0fffffff ''stmfd%c	%16-19R!, %m'',
    arm_row ''Stmfd'' 0x092d4000 0x0fffffff ''stmfd%c	%16-19R!, %m'',
    arm_row ''Stmfd'' 0x092d8000 0x0fffffff ''stmfd%c	%16-19R!, %m'',
    arm_row ''Push'' 0x092d0000 0x0fff0000 ''push%c	%m'',
    arm_row ''Stm'' 0x08800000 0x0ff00000 ''stm%c	%16-19R%21\\'!, %m%22\\'^'',
    arm_row ''Stm'' 0x08000000 0x0e100000 ''stm%23?id%24?ba%c	%16-19R%21\\'!, %m%22\\'^'',
    arm_row ''Ldmfd'' 0x08bd0001 0x0fffffff ''ldmfd%c	%16-19R!, %m'',
    arm_row ''Ldmfd'' 0x08bd0002 0x0fffffff ''ldmfd%c	%16-19R!, %m'',
    arm_row ''Ldmfd'' 0x08bd0004 0x0fffffff ''ldmfd%c	%16-19R!, %m'',
    arm_row ''Ldmfd'' 0x08bd0008 0x0fffffff ''ldmfd%c	%16-19R!, %m'',
    arm_row ''Ldmfd'' 0x08bd0010 0x0fffffff ''ldmfd%c	%16-19R!, %m'',
    arm_row ''Ldmfd'' 0x08bd0020 0x0fffffff ''ldmfd%c	%16-19R!, %m'',
    arm_row ''Ldmfd'' 0x08bd0040 0x0fffffff ''ldmfd%c	%16-19R!, %m'',
    arm_row ''Ldmfd'' 0x08bd0080 0x0fffffff ''ldmfd%c	%16-19R!, %m'',
    arm_row ''Ldmfd'' 0x08bd0100 0x0fffffff ''ldmfd%c	%16-19R!, %m'',
    arm_row ''Ldmfd'' 0x08bd0200 0x0fffffff ''ldmfd%c	%16-19R!, %m'',
    arm_row ''Ldmfd'' 0x08bd0400 0x0fffffff ''ldmfd%c	%16-19R!, %m'',
    arm_row ''Ldmfd'' 0x08bd0800 0x0fffffff ''ldmfd%c	%16-19R!, %m'',
    arm_row ''Ldmfd'' 0x08bd1000 0x0fffffff ''ldmfd%c	%16-19R!, %m'',
    arm_row ''Ldmfd'' 0x08bd2000 0x0fffffff ''ldmfd%c	%16-19R!, %m'',
    arm_row ''Ldmfd'' 0x08bd4000 0x0fffffff ''ldmfd%c	%16-19R!, %m'',
    arm_row ''Ldmfd'' 0x08bd8000 0x0fffffff ''ldmfd%c	%16-19R!, %m'',
    arm_row ''Pop'' 0x08bd0000 0x0fff0000 ''pop%c	%m'']"

definition arm_rows_4 :: "arm_opcode list" where
  "arm_rows_4 = [
    arm_row ''Ldm'' 0x08900000 0x0f900000 ''ldm%c	%16-19R%21\\'!, %m%22\\'^'',
    arm_row ''Ldm'' 0x08100000 0x0e100000 ''ldm%23?id%24?ba%c	%16-19R%21\\'!, %m%22\\'^'',
    arm_row ''B'' 0x0a000000 0x0e000000 ''b%24\\'l%c	%b'',
    arm_row ''Svc'' 0x0f000000 0x0f000000 ''svc%c	%0-23x'']"

definition arm_opcode_table :: "arm_opcode list" where
  "arm_opcode_table = arm_rows_1 @ arm_rows_2 @ arm_rows_3 @ arm_rows_4"

section \<open>Search\<close>

definition match_arm_generated :: "u32 \<Rightarrow> arm_opcode option" where
  "match_arm_generated w = List.find (\<lambda>row. w AND ar_mask row = ar_opcode row) arm_opcode_table"

end
