(* ===== verification/Spec2Isabelle.thy ===== *)
theory Spec2Isabelle
  imports Cfg Space A64_Branch A64_Timeline A64_Rewrite Rewrite_Data Gnu_Hash Export_Trie Macho_Grow
    Chained_Fixups T32_Branch T32_Types A32_Table
begin

text \<open>
  A verification development for the crate \<open>armv8-encode\<close>: a machine-code toolkit with opcode
  tables, decoders and encoders, control-flow analysis, a binary rewriter, and the object-file
  structures it edits. All paths below are under \<open>src/src/\<close>.

  \<^bold>\<open>Architecture-neutral analysis\<close> (\<open>mc/\<close>). \<open>Control_Flow\<close> is the classification of an
  instruction's effect on the program counter; \<open>Cfg\<close> the basic-block builder, with the theorems
  that its blocks cut the stream into consecutive pieces and that its edges are exactly the
  program counter's successors.

  \<^bold>\<open>AArch64\<close> (\<open>isa/aarch64/\<close>). \<open>A64_Opcode\<close> holds the vocabulary of \<open>table.rs\<close> (mnemonics,
  operand kinds, classes, flags) and \<open>A64_Rows1\<close> to \<open>A64_Rows5\<close> its 1208 rows, in source order,
  in 63 lists; \<open>A64_Table\<close> the search for the row of a word and the index by mnemonic.
  \<open>A64_Operand\<close>, \<open>A64_Decode\<close> and \<open>A64_Encode\<close> are \<open>operand.rs\<close>: the operand types, one decoder and
  one encoder per operand kind, and the two dispatchers \<open>decode_word\<close> and \<open>encode_word\<close>.
  \<open>A64_Codec_Regs\<close>, \<open>A64_Codec_Vec\<close>, \<open>A64_Codec_Imm\<close>, \<open>A64_Codec_Sys\<close>, \<open>A64_Codec_Mem\<close> and
  \<open>A64_Codec\<close> prove the operand round trips: for each kind \<open>codec_field\<close> names the bits it owns and
  \<open>codec_side\<close> when its encoder reproduces them. \<open>A64_Insn\<close> is \<open>decode_instruction\<close> and
  \<open>encode_instruction\<close> of \<open>mod.rs\<close>; \<open>A64_Flow\<close> is \<open>control_flow.rs\<close>. \<open>A64_Branch_Rows\<close> and
  \<open>A64_Branch_Match\<close> evaluate the table once for the rows that matter to branches, and
  \<open>A64_Branch\<close> states the end-to-end properties of branches. \<open>A64_Sweep\<close> is the linear disassembly of
  \<open>sweep.rs\<close>; \<open>A64_Recursive\<close> and \<open>A64_Timeline\<close> the recursive descent of \<open>recursive.rs\<close>: the
  worklist, whose result is proved to be what control flow reaches, and the timeline it is printed
  from, which is proved to tile the slice.

  \<^bold>\<open>ARMv7\<close> (\<open>isa/armv7/\<close>). \<open>Arm_Format\<close> is what the two instruction sets share: operands, errors and
  the walk over the format strings that describe them. \<open>T32_Table\<close>, \<open>Neon_Table\<close> and \<open>A32_Table\<close> are
  the three generated tables with their searches. \<open>T32_Decode\<close> decodes the operands of a Thumb
  instruction (\<open>format_decode.rs\<close>), \<open>T32_Encode\<close> encodes them (\<open>encode.rs\<close>). \<open>T32_Sweep\<close> is the linear
  disassembly (\<open>sweep.rs\<close>, \<open>mod.rs\<close>) and the classification of branches (\<open>control_flow.rs\<close>). \<open>T32_Roundtrip\<close>
  follows the decoder and the encoder along a format and evaluates the result for every row;
  \<open>T32_Reassembly\<close> concludes that disassembling and encoding again are inverse; \<open>T32_Types\<close> that what a
  sweep returns is well typed. \<open>T32_Isa\<close> is the trait's implementation (\<open>isa_impl.rs\<close>, \<open>macro_emit.rs\<close>), a
  second interpretation of the trait's laws, and \<open>T32_Branch\<close> states what its branches reach.

  \<^bold>\<open>Containers\<close> (\<open>container/\<close>). \<open>Container_Types\<close> is the neutral model of an object file, with its
  queries and the format-specific companions it carries. \<open>Le_Bytes\<close> is little-endian numbers and
  in-place patching of byte strings, \<open>Uleb\<close> the variable-length numbers and C strings of the Mach-O
  tables. \<open>Gnu_Hash\<close> is \<open>gnu_hash.rs\<close>, against the lookup the dynamic linker makes; \<open>Export_Trie\<close>
  \<open>macho_export_trie.rs\<close>, whose builder is proved to undo its parser; \<open>Chained_Fixups\<close>
  \<open>chained_fixups.rs\<close>, whose written chains are proved to be walked back; \<open>Macho_Grow\<close> what a grown
  text segment moves elsewhere (\<open>macho_symtab.rs\<close>, \<open>macho_dyld_info.rs\<close>, \<open>macho_unwind.rs\<close>).

  \<^bold>\<open>Rewriting\<close> (\<open>rewrite/\<close>). \<open>Space\<close> is the reservation of free space in an image: the best-fit
  planner and the bump allocator, whose contract is the locale \<open>bump_allocator\<close>. \<open>Rewrite_IR\<close> is the
  symbolic form of code (\<open>ir.rs\<close>) and the trait it is generic over (\<open>isa_trait.rs\<close>), a record of the
  trait's functions; \<open>Rewrite_Plan\<close> lifts code into it and edits it (\<open>plan.rs\<close>), \<open>Rewrite_Layout\<close>
  assigns addresses and widens branches (\<open>layout.rs\<close>), \<open>Rewrite_Emit\<close> produces the bytes
  (\<open>emit.rs\<close>). \<open>Isa_Laws\<close> states what they need of the trait, as the locales \<open>isa_laws\<close> and
  \<open>fixed_width_isa\<close>, and proves for every implementation that lowering undoes lifting and that
  emission fills the layout. \<open>A64_Fusion\<close>, \<open>A64_Macro_Emit\<close> and \<open>A64_Isa\<close> are the AArch64
  implementation (\<open>isa/aarch64/fusion.rs\<close>, \<open>macro_emit.rs\<close>, \<open>isa_impl.rs\<close>), on which both locales are
  interpreted; \<open>A64_Rewrite\<close> puts it all together. The layout loop runs at most 16 rounds, as in the
  source: a plan with fewer branches to widen always converges (\<open>lay_out_correct\<close>). \<open>Rewrite_Data\<close> lifts and
  emits data sections (\<open>data.rs\<close>) and splices emitted bytes into a container (\<open>commit.rs\<close>).

  \<^bold>\<open>Conventions.\<close> \<open>Result\<close> is a sum with the error on the left (\<open>Ok\<close>, \<open>Err\<close> abbreviate the
  injections); \<open>u8\<close>, \<open>u32\<close>, \<open>u64\<close> and \<open>i64\<close> are words of their width, \<open>usize\<close> is \<open>nat\<close>; a
  \<open>HashMap\<close> is a map, a \<open>BTreeMap\<close> a map with its keys read in order. A loop is a fold or a
  recursive function on the data it consumes. No definition needs fuel except where its theory
  says so.

  \<^bold>\<open>Not modelled.\<close> Formatting of operands as text, the coverage reports, and everything that only
  reads or writes files; the container readers, which go through external packages. The
  object-file writers, the editor on top of them, the x86-64 instruction set, and of ARMv7 the recursive
  descent and the operands of Arm mode are outside this development.
\<close>

end
